(* ===== verification/Contracts.thy ===== *)
theory Contracts
  imports Prelude
begin

text \<open>
  Contract v2 data (\<open>rust/crates/promptectomy-contracts/src/lib.rs\<close>): the JSON values that
  cross every boundary, the strict reader \<open>parse_strict_json\<close>, contract validation, the
  canonical form with its I-JSON restrictions, the domain-separated digests and the typed
  identifiers built from them, and the repository-relative path check.

  The crates the code calls are fields of the record \<open>env\<close>, which every definition that uses
  them takes as an argument: SHA-256, the RFC 8785 serializer, the JSON tokenizer that drives
  the strict visitor, the JSON-schema validator, and the UUID and time functions.
\<close>

section \<open>JSON values\<close>

text \<open>
  \<open>serde_json::Value\<close>. An object is the \<open>BTreeMap\<close> that \<open>serde_json::Map\<close> is without its
  \<open>preserve_order\<close> feature: an association list in key order. A float keeps its literal,
  which nothing reads.
\<close>

datatype json =
    JNull
  | JBool bool
  | JInt int
  | JFloat string
  | JStr string
  | JArr "json list"
  | JObj "(string \<times> json) list"

type_synonym json_object = "(string \<times> json) list"

fun obj_insert :: "string \<Rightarrow> json \<Rightarrow> json_object \<Rightarrow> json_object" where
  "obj_insert k v [] = [(k, v)]"
| "obj_insert k v ((k', v') # r) =
     (if k < k' then (k, v) # (k', v') # r
      else if k = k' then (k, v) # r
      else (k', v') # obj_insert k v r)"

definition obj_remove :: "string \<Rightarrow> json_object \<Rightarrow> json_object" where
  "obj_remove k ob = filter (\<lambda>p. fst p \<noteq> k) ob"

fun json_get :: "json \<Rightarrow> string \<Rightarrow> json option" where
  "json_get (JObj ob) k = map_of ob k"
| "json_get _ k = None"

fun as_object :: "json \<Rightarrow> json_object option" where
  "as_object (JObj ob) = Some ob"
| "as_object _ = None"

fun as_array :: "json \<Rightarrow> json list option" where
  "as_array (JArr vs) = Some vs"
| "as_array _ = None"

fun as_str :: "json \<Rightarrow> string option" where
  "as_str (JStr s) = Some s"
| "as_str _ = None"

fun as_bool :: "json \<Rightarrow> bool option" where
  "as_bool (JBool b) = Some b"
| "as_bool _ = None"

fun as_u64 :: "json \<Rightarrow> u64 option" where
  "as_u64 (JInt n) = (if 0 \<le> n \<and> n < 2 ^ 64 then Some (word_of_int n) else None)"
| "as_u64 _ = None"

definition json_object :: "(string \<times> json) list \<Rightarrow> json" where
  "json_object kvs = JObj (fold (\<lambda>(k, v) ob. obj_insert k v ob) kvs [])"

lemma map_of_obj_insert [simp]:
  "map_of (obj_insert k v ob) k' = (if k' = k then Some v else map_of ob k')"
  by (induction k v ob rule: obj_insert.induct) auto

lemma set_fst_obj_insert [simp]: "fst ` set (obj_insert k v ob) = insert k (fst ` set ob)"
  by (induction k v ob rule: obj_insert.induct) auto

lemma ball_obj_insert:
  "(\<forall>p\<in>set (obj_insert k v ob). P (fst p)) \<longleftrightarrow> P k \<and> (\<forall>p\<in>set ob. P (fst p))"
  by (induction k v ob rule: obj_insert.induct) auto

lemma sorted_obj_insert:
  "sorted_wrt (<) (map fst ob) \<Longrightarrow> sorted_wrt (<) (map fst (obj_insert k v ob))"
proof (induction k v ob rule: obj_insert.induct)
  case (1 k v)
  then show ?case by simp
next
  case (2 k v k' v' r)
  then show ?case
    by (auto simp: ball_obj_insert dest: order.strict_trans)
qed

lemma map_of_obj_remove [simp]: "map_of (obj_remove k ob) k' = (if k' = k then None else map_of ob k')"
  by (induction ob) (auto simp: obj_remove_def)

section \<open>The world outside\<close>

text \<open>What the JSON tokenizer hands to a visitor, in order; \<open>RFail\<close> and a missing key mark
  the place where it gives up with a message of its own.\<close>

datatype raw_json =
    RNull
  | RBool bool
  | RI64 int
  | RU64 int
  | RF64 string
  | RStr string
  | RSeq "raw_json list"
  | RMap "(string option \<times> raw_json) list"
  | RFail string

record uuid_info =
  uuid_hyphenated :: string
  uuid_version :: nat
  uuid_rfc4122 :: bool

text \<open>
  \<open>deserialize\<close> gives the token tree of a text and whether only white space follows it;
  \<open>schema_validator d\<close> is \<open>None\<close> when the schema for definition \<open>d\<close> does not compile;
  \<open>uuid_v7 n\<close> is the \<open>n\<close>-th identifier the generator issues; \<open>now\<close> is the instant an
  operation observes and \<open>now_text\<close> its formatted form (\<open>None\<close> when formatting fails);
  \<open>to_text\<close> and \<open>of_text\<close> are \<open>serde_json::to_string\<close> and \<open>from_str\<close>.
\<close>

record env =
  sha256 :: "string \<Rightarrow> string"
  jcs :: "json \<Rightarrow> string option"
  deserialize :: "string \<Rightarrow> raw_json \<times> bool"
  schema_validator :: "string \<Rightarrow> (json \<Rightarrow> bool) option"
  parse_uuid :: "string \<Rightarrow> uuid_info option"
  uuid_v7 :: "nat \<Rightarrow> string"
  parse_rfc3339 :: "string \<Rightarrow> int option"
  now :: int
  now_text :: "string option"
  to_text :: "json \<Rightarrow> string"
  of_text :: "string \<Rightarrow> json option"

section \<open>Errors and constants\<close>

datatype contract_error =
    TooLarge nat
  | Utf8
  | ByteOrderMark
  | InvalidJson
  | DuplicateMember
  | BinaryFloat
  | IntegerRange
  | RootType
  | SchemaVersion
  | SchemaUri
  | InvalidSchema
  | Validation
  | Canonicalization
  | DigestPurpose
  | IdentifierKind
  | RelativePath

definition SCHEMA_BASE :: string where
  "SCHEMA_BASE = ''https://promptectomy.invalid/schemas/v2/''"

definition SCHEMA_VERSION :: string where
  "SCHEMA_VERSION = ''2.0.0''"

definition MAX_SAFE_JSON_BYTES :: nat where
  "MAX_SAFE_JSON_BYTES = 2000000"

definition ENTITY_DEFINITIONS :: "(string \<times> string) list" where
  "ENTITY_DEFINITIONS =
    [(''repository.schema.json'', ''Repository''),
     (''snapshot.schema.json'', ''Snapshot''),
     (''authority.schema.json'', ''Authority''),
     (''run.schema.json'', ''Run''),
     (''stage.schema.json'', ''Stage''),
     (''event.schema.json'', ''Event''),
     (''callsite.schema.json'', ''Callsite''),
     (''observation.schema.json'', ''Observation''),
     (''finding.schema.json'', ''Finding''),
     (''candidate.schema.json'', ''Candidate''),
     (''evaluation.schema.json'', ''Evaluation''),
     (''patch.schema.json'', ''Patch''),
     (''artifact.schema.json'', ''Artifact''),
     (''receipt.schema.json'', ''Receipt''),
     (''error.schema.json'', ''Error'')]"

section \<open>Strict JSON\<close>

text \<open>\<open>StrictVisitor\<close>: the first offence in document order decides the message.\<close>

definition MAX_SAFE_INT :: int where
  "MAX_SAFE_INT = 2 ^ 53 - 1"

fun strict_visit :: "raw_json \<Rightarrow> string + json"
  and strict_seq :: "raw_json list \<Rightarrow> string + json list"
  and strict_map :: "string set \<Rightarrow> json_object \<Rightarrow> (string option \<times> raw_json) list
        \<Rightarrow> string + json_object"
where
  "strict_visit RNull = Inr JNull"
| "strict_visit (RBool b) = Inr (JBool b)"
| "strict_visit (RI64 n) =
     (if \<not> (- MAX_SAFE_INT \<le> n \<and> n \<le> MAX_SAFE_INT) then Inl ''integer_range''
      else Inr (JInt n))"
| "strict_visit (RU64 n) =
     (if n > MAX_SAFE_INT then Inl ''integer_range'' else Inr (JInt n))"
| "strict_visit (RF64 l) = Inl ''binary_float''"
| "strict_visit (RStr s) = Inr (JStr s)"
| "strict_visit (RSeq rs) = bindE (strict_seq rs) (\<lambda>vs. Inr (JArr vs))"
| "strict_visit (RMap es) = bindE (strict_map {} [] es) (\<lambda>ob. Inr (JObj ob))"
| "strict_visit (RFail m) = Inl m"
| "strict_seq [] = Inr []"
| "strict_seq (r # rs) =
     bindE (strict_visit r) (\<lambda>v. bindE (strict_seq rs) (\<lambda>vs. Inr (v # vs)))"
| "strict_map keys vals [] = Inr vals"
| "strict_map keys vals ((None, r) # es) = Inl ''syntax''"
| "strict_map keys vals ((Some k, r) # es) =
     (if k \<in> keys then Inl ''duplicate_member''
      else bindE (strict_visit r)
             (\<lambda>v. strict_map (insert k keys) (obj_insert k v vals) es))"

text \<open>\<open>std::str::from_utf8\<close>.\<close>

definition cont_byte :: "char \<Rightarrow> bool" where
  "cont_byte c \<longleftrightarrow> 128 \<le> byte_code c \<and> byte_code c \<le> 191"

fun utf8_valid :: "string \<Rightarrow> bool" where
  "utf8_valid [] = True"
| "utf8_valid (a # r) =
     (let n = byte_code a in
      if n < 128 then utf8_valid r
      else if 194 \<le> n \<and> n \<le> 223 then
        (case r of b # s \<Rightarrow> cont_byte b \<and> utf8_valid s | _ \<Rightarrow> False)
      else if 224 \<le> n \<and> n \<le> 239 then
        (case r of b # c # s \<Rightarrow>
           cont_byte b \<and> cont_byte c \<and> (n = 224 \<longrightarrow> 160 \<le> byte_code b)
           \<and> (n = 237 \<longrightarrow> byte_code b \<le> 159) \<and> utf8_valid s
         | _ \<Rightarrow> False)
      else if 240 \<le> n \<and> n \<le> 244 then
        (case r of b # c # d # s \<Rightarrow>
           cont_byte b \<and> cont_byte c \<and> cont_byte d \<and> (n = 240 \<longrightarrow> 144 \<le> byte_code b)
           \<and> (n = 244 \<longrightarrow> byte_code b \<le> 143) \<and> utf8_valid s
         | _ \<Rightarrow> False)
      else False)"

declare utf8_valid.simps(2) [simp del]

definition utf8_bom :: string where
  "utf8_bom = [CHR 0xEF, CHR 0xBB, CHR 0xBF]"

definition parse_strict_json :: "env \<Rightarrow> string \<Rightarrow> nat \<Rightarrow> contract_error + json" where
  "parse_strict_json E content max_bytes =
     (if length content > max_bytes then Inl (TooLarge max_bytes)
      else if \<not> utf8_valid content then Inl Utf8
      else if prefix utf8_bom content then Inl ByteOrderMark
      else case deserialize E content of (raw, at_end) \<Rightarrow>
        (case strict_visit raw of
           Inr v \<Rightarrow> (if at_end then Inr v else Inl InvalidJson)
         | Inl m \<Rightarrow>
             (if prefix ''duplicate_member'' m then Inl DuplicateMember
              else if prefix ''binary_float'' m then Inl BinaryFloat
              else if prefix ''integer_range'' m then Inl IntegerRange
              else Inl InvalidJson)))"

section \<open>Contract validation and canonical form\<close>

definition validate_contract :: "env \<Rightarrow> json \<Rightarrow> contract_error + unit" where
  "validate_contract E v =
     bindE (ok_or RootType (as_object v)) (\<lambda>ob.
       if Option.bind (map_of ob ''schema_version'') as_str \<noteq> Some SCHEMA_VERSION
       then Inl SchemaVersion
       else
         bindE (ok_or SchemaUri (Option.bind (map_of ob ''schema_uri'') as_str)) (\<lambda>uri.
         bindE (ok_or SchemaUri (strip_prefix SCHEMA_BASE uri)) (\<lambda>name.
         bindE (ok_or SchemaUri (map_of ENTITY_DEFINITIONS name)) (\<lambda>definition_name.
         bindE (ok_or InvalidSchema (schema_validator E definition_name)) (\<lambda>is_valid.
           if is_valid v then Inr () else Inl Validation)))))"

fun reject_floats_and_large_integers :: "json \<Rightarrow> contract_error + unit"
  and reject_array :: "json list \<Rightarrow> contract_error + unit"
  and reject_members :: "json_object \<Rightarrow> contract_error + unit"
where
  "reject_floats_and_large_integers (JFloat l) = Inl BinaryFloat"
| "reject_floats_and_large_integers (JInt n) =
     (if n < - MAX_SAFE_INT \<or> n > MAX_SAFE_INT then Inl IntegerRange else Inr ())"
| "reject_floats_and_large_integers (JArr vs) = reject_array vs"
| "reject_floats_and_large_integers (JObj ob) = reject_members ob"
| "reject_floats_and_large_integers _ = Inr ()"
| "reject_array [] = Inr ()"
| "reject_array (v # vs) =
     bindE (reject_floats_and_large_integers v) (\<lambda>_. reject_array vs)"
| "reject_members [] = Inr ()"
| "reject_members ((k, v) # ob) =
     bindE (reject_floats_and_large_integers v) (\<lambda>_. reject_members ob)"

definition canonical_json :: "env \<Rightarrow> json \<Rightarrow> contract_error + string" where
  "canonical_json E v =
     bindE (reject_floats_and_large_integers v) (\<lambda>_. ok_or Canonicalization (jcs E v))"

section \<open>Digests and identifiers\<close>

definition purpose_byte :: "char \<Rightarrow> bool" where
  "purpose_byte c \<longleftrightarrow> is_ascii_lowercase c \<or> is_ascii_digit c \<or> c \<in> set ''_.-''"

text \<open>The bytes fed to the hash, in the order of the \<open>update\<close> calls.\<close>

definition digest_preimage :: "string \<Rightarrow> string \<Rightarrow> string \<Rightarrow> string" where
  "digest_preimage purpose schema_uri canonical =
     ''PROMPTECTOMY'' @ [CHR 0x00] @ ''v2'' @ [CHR 0x00]
     @ purpose @ [CHR 0x00] @ schema_uri @ [CHR 0x00] @ canonical"

definition digest_json :: "env \<Rightarrow> json \<Rightarrow> string \<Rightarrow> string \<Rightarrow> contract_error + string" where
  "digest_json E v purpose schema_uri =
     (if purpose = [] \<or> \<not> list_all purpose_byte purpose then Inl DigestPurpose
      else bindE (ok_or SchemaUri (strip_prefix SCHEMA_BASE schema_uri)) (\<lambda>name.
        if map_of ENTITY_DEFINITIONS name = None then Inl SchemaUri
        else bindE (canonical_json E v) (\<lambda>canonical.
          Inr (''sha256:'' @ hex_encode (sha256 E (digest_preimage purpose schema_uri canonical))))))"

definition typed_id :: "env \<Rightarrow> nat \<Rightarrow> string \<Rightarrow> contract_error + string" where
  "typed_id E n kind =
     bindE
       (if kind = ''repository'' then Inr ''repo''
        else if kind = ''authority'' then Inr ''auth''
        else if kind = ''run'' then Inr ''run''
        else if kind = ''stage'' then Inr ''stage''
        else if kind = ''event'' then Inr ''evt''
        else if kind = ''finding'' then Inr ''finding''
        else if kind = ''candidate'' then Inr ''candidate''
        else if kind = ''evaluation'' then Inr ''eval''
        else if kind = ''patch'' then Inr ''patch''
        else if kind = ''error'' then Inr ''err''
        else Inl IdentifierKind)
       (\<lambda>pre. Inr (pre @ ''_'' @ uuid_v7 E n))"

definition artifact_id :: "env \<Rightarrow> string \<Rightarrow> string" where
  "artifact_id E content = ''sha256:'' @ hex_encode (sha256 E content)"

definition receipt_id :: "env \<Rightarrow> json \<Rightarrow> contract_error + string" where
  "receipt_id E receipt =
     bindE (ok_or RootType (as_object receipt)) (\<lambda>ob.
     bindE (digest_json E (JObj (obj_remove ''receipt_id'' ob)) ''receipt_manifest''
              (SCHEMA_BASE @ ''receipt.schema.json'')) (\<lambda>digest.
       Inr (''receipt_sha256_'' @ drop (length ''sha256:'') digest)))"

section \<open>Repository-relative paths\<close>

datatype path_component = RootDir | CurDir | ParentDir | Normal string

text \<open>\<open>Path::components\<close> on Unix: empty parts and inner dots disappear.\<close>

definition path_components :: "string \<Rightarrow> path_component list" where
  "path_components p =
     (let parts = split_on CHR ''/'' p;
          absolute = (p \<noteq> [] \<and> hd p = CHR ''/'');
          body = concat (map (\<lambda>c. if c = [] \<or> c = ''.'' then []
                                  else if c = ''..'' then [ParentDir] else [Normal c]) parts)
      in if absolute then RootDir # body
         else if hd parts = ''.'' then CurDir # body else body)"

definition validate_relative_path :: "string \<Rightarrow> contract_error + unit" where
  "validate_relative_path p =
     (if p = [] \<or> CHR 0x5C \<in> set p \<or> has_control p
         \<or> CHR '':'' \<in> set (hd (split_on CHR ''/'' p))
      then Inl RelativePath
      else if list_ex (\<lambda>c. c = ParentDir \<or> c = RootDir) (path_components p)
      then Inl RelativePath
      else Inr ())"

section \<open>What the strict reader guarantees\<close>

text \<open>A value without floats, with I-JSON integers, and with every object's keys in order.\<close>

fun ijson :: "json \<Rightarrow> bool"
  and ijson_list :: "json list \<Rightarrow> bool"
  and ijson_members :: "json_object \<Rightarrow> bool"
where
  "ijson (JFloat l) = False"
| "ijson (JInt n) = (- MAX_SAFE_INT \<le> n \<and> n \<le> MAX_SAFE_INT)"
| "ijson (JArr vs) = ijson_list vs"
| "ijson (JObj ob) = (sorted_wrt (<) (map fst ob) \<and> ijson_members ob)"
| "ijson _ = True"
| "ijson_list [] = True"
| "ijson_list (v # vs) = (ijson v \<and> ijson_list vs)"
| "ijson_members [] = True"
| "ijson_members ((k, v) # ob) = (ijson v \<and> ijson_members ob)"

text \<open>How deep a value nests arrays and objects; \<open>serde_json\<close> reads up to 127 levels.\<close>

fun json_depth :: "json \<Rightarrow> nat"
  and json_depth_list :: "json list \<Rightarrow> nat"
  and json_depth_members :: "json_object \<Rightarrow> nat" where
  "json_depth (JArr vs) = Suc (json_depth_list vs)"
| "json_depth (JObj ob) = Suc (json_depth_members ob)"
| "json_depth _ = 0"
| "json_depth_list [] = 0"
| "json_depth_list (v # vs) = max (json_depth v) (json_depth_list vs)"
| "json_depth_members [] = 0"
| "json_depth_members ((k, v) # ob) = max (json_depth v) (json_depth_members ob)"

lemma json_depth_obj_insert: "json_depth v = 0 \<Longrightarrow> json_depth_members (obj_insert k v ob) \<le> json_depth_members ob"
  by (induction k v ob rule: obj_insert.induct) auto

lemma ijson_members_obj_insert: "ijson v \<Longrightarrow> ijson_members ob \<Longrightarrow> ijson_members (obj_insert k v ob)"
  by (induction k v ob rule: obj_insert.induct) auto

text \<open>
  A document as the tokenizer presents it: \<open>visit_i64\<close> is called for negative numbers only
  and \<open>visit_u64\<close> for the others.
\<close>

fun token_tree :: "raw_json \<Rightarrow> bool"
  and token_trees :: "raw_json list \<Rightarrow> bool"
  and token_members :: "(string option \<times> raw_json) list \<Rightarrow> bool"
where
  "token_tree (RI64 n) = (n < 0)"
| "token_tree (RU64 n) = (0 \<le> n)"
| "token_tree (RSeq rs) = token_trees rs"
| "token_tree (RMap es) = token_members es"
| "token_tree _ = True"
| "token_trees [] = True"
| "token_trees (r # rs) = (token_tree r \<and> token_trees rs)"
| "token_members [] = True"
| "token_members ((k, r) # es) = (token_tree r \<and> token_members es)"

lemma strict_visit_ijson:
  "strict_visit r = Inr v \<Longrightarrow> token_tree r \<Longrightarrow> ijson v"
  "strict_seq rs = Inr vs \<Longrightarrow> token_trees rs \<Longrightarrow> ijson_list vs"
  "strict_map keys vals es = Inr ob \<Longrightarrow> token_members es \<Longrightarrow>
     ijson_members vals \<Longrightarrow> sorted_wrt (<) (map fst vals) \<Longrightarrow>
     ijson_members ob \<and> sorted_wrt (<) (map fst ob)"
proof (induction r and rs and keys vals es arbitrary: v and vs and ob
    rule: strict_visit_strict_seq_strict_map.induct)
  case (14 keys vals k r es)
  then show ?case
    by (auto simp: result_simps ijson_members_obj_insert sorted_obj_insert split: if_splits)
qed (auto simp: result_simps MAX_SAFE_INT_def split: if_splits)

lemma ijson_not_rejected:
  "ijson v \<Longrightarrow> reject_floats_and_large_integers v = Inr ()"
  "ijson_list vs \<Longrightarrow> reject_array vs = Inr ()"
  "ijson_members ob \<Longrightarrow> reject_members ob = Inr ()"
  by (induction v and vs and ob rule: ijson_ijson_list_ijson_members.induct) auto

lemma parse_strict_json_Inr:
  "parse_strict_json E c m = Inr v \<longleftrightarrow>
     length c \<le> m \<and> utf8_valid c \<and> \<not> prefix utf8_bom c
     \<and> (\<exists>raw. deserialize E c = (raw, True) \<and> strict_visit raw = Inr v)"
  by (auto simp: parse_strict_json_def split: prod.splits sum.splits if_splits)

text \<open>
  No key survives twice: a map whose keys repeat is refused, whatever stands between the two.
\<close>

lemma strict_map_known_key:
  "strict_map keys vals (es @ (Some k, r) # es') = Inr ob \<Longrightarrow> k \<notin> keys"
proof (induction es arbitrary: keys vals)
  case Nil
  then show ?case by (auto split: if_splits)
next
  case (Cons e es)
  obtain key r' where "e = (key, r')" by (cases e)
  with Cons show ?case
    by (cases key) (fastforce simp: result_simps split: if_splits)+
qed

lemma strict_map_distinct:
  "strict_map keys vals es = Inr ob \<Longrightarrow> distinct (map fst es)"
proof (induction es arbitrary: keys vals)
  case Nil
  then show ?case by simp
next
  case (Cons e es)
  obtain k r where e: "e = (k, r)" by (cases e)
  with Cons.prems obtain key where k: "k = Some key" by (cases k) auto
  with Cons.prems e obtain v where
    step: "strict_map (insert key keys) (obj_insert key v vals) es = Inr ob"
    by (auto simp: result_simps split: if_splits)
  have "k \<notin> fst ` set es"
  proof
    assume "k \<in> fst ` set es"
    then obtain r' where "(Some key, r') \<in> set es" using k by auto
    then obtain pre post where "es = pre @ (Some key, r') # post"
      by (auto dest: split_list)
    with step strict_map_known_key show False by blast
  qed
  with Cons.IH [OF step] e show ?case by simp
qed

section \<open>Digests do not mix purposes\<close>

lemma hex_digit_inj: "a < 16 \<Longrightarrow> b < 16 \<Longrightarrow> hex_digit a = hex_digit b \<Longrightarrow> a = b"
proof -
  have "\<forall>a\<in>set [0..<16]. \<forall>b\<in>set [0..<16]. hex_digit a = hex_digit b \<longrightarrow> a = b" by code_simp
  moreover assume "a < 16" "b < 16" "hex_digit a = hex_digit b"
  ultimately show ?thesis by simp
qed

lemma hex_encode_inj: "hex_encode a = hex_encode b \<Longrightarrow> a = b"
proof (induction a arbitrary: b)
  case Nil
  then show ?case by (cases b) auto
next
  case (Cons x xs)
  then obtain y ys where b: "b = y # ys" by (cases b) auto
  with Cons.prems have "byte_code x div 16 = byte_code y div 16" "byte_code x mod 16 = byte_code y mod 16"
    by (auto intro!: hex_digit_inj simp: byte_code_less less_mult_imp_div_less)
  then have "byte_code x = byte_code y"
    by (metis div_mult_mod_eq)
  then have "x = y" by simp
  with Cons b show ?case by simp
qed

lemma nul_not_purpose: "list_all purpose_byte p \<Longrightarrow> CHR 0x00 \<notin> set p"
  by (auto simp: list_all_iff purpose_byte_def byte_class_defs less_eq_char_def)

definition known_schema_uri :: "string \<Rightarrow> bool" where
  "known_schema_uri u \<longleftrightarrow> (\<exists>name. u = SCHEMA_BASE @ name \<and> map_of ENTITY_DEFINITIONS name \<noteq> None)"

lemma nul_not_schema_uri: "known_schema_uri u \<Longrightarrow> CHR 0x00 \<notin> set u"
proof -
  assume "known_schema_uri u"
  then obtain name d where u: "u = SCHEMA_BASE @ name" and "(name, d) \<in> set ENTITY_DEFINITIONS"
    by (auto simp: known_schema_uri_def dest: map_of_SomeD)
  moreover have "\<forall>p\<in>set ENTITY_DEFINITIONS. CHR 0x00 \<notin> set (fst p)" by code_simp
  moreover have "CHR 0x00 \<notin> set SCHEMA_BASE" by code_simp
  ultimately show ?thesis by fastforce
qed

lemma separated_eq:
  "c \<notin> set a \<Longrightarrow> c \<notin> set b \<Longrightarrow> a @ c # x = b @ c # y \<Longrightarrow> a = b \<and> x = y"
proof (induction a arbitrary: b)
  case Nil
  then show ?case by (cases b) auto
next
  case (Cons y ys)
  then show ?case by (cases b) auto
qed

lemma digest_preimage_inj:
  assumes "list_all purpose_byte p" "list_all purpose_byte p'"
    and "known_schema_uri u" "known_schema_uri u'"
    and "digest_preimage p u c = digest_preimage p' u' c'"
  shows "p = p' \<and> u = u' \<and> c = c'"
proof -
  from assms(5) have *: "p @ CHR 0x00 # (u @ CHR 0x00 # c) = p' @ CHR 0x00 # (u' @ CHR 0x00 # c')"
    by (simp add: digest_preimage_def)
  then have p: "p = p'" and "u @ CHR 0x00 # c = u' @ CHR 0x00 # c'"
    using separated_eq [OF nul_not_purpose [OF assms(1)] nul_not_purpose [OF assms(2)] *] by simp_all
  with separated_eq [OF nul_not_schema_uri [OF assms(3)] nul_not_schema_uri [OF assms(4)]]
  show ?thesis by simp
qed

lemma digest_json_Inr:
  "digest_json E v p u = Inr d \<longleftrightarrow>
     p \<noteq> [] \<and> list_all purpose_byte p \<and> known_schema_uri u
     \<and> (\<exists>c. canonical_json E v = Inr c \<and> d = ''sha256:'' @ hex_encode (sha256 E (digest_preimage p u c)))"
proof (cases "strip_prefix SCHEMA_BASE u")
  case None
  then have "\<not> known_schema_uri u"
    by (metis known_schema_uri_def option.distinct(1) strip_prefix_append)
  with None show ?thesis by (simp add: digest_json_def)
next
  case (Some name)
  then have "known_schema_uri u \<longleftrightarrow> map_of ENTITY_DEFINITIONS name \<noteq> None"
    by (auto simp: known_schema_uri_def)
  with Some show ?thesis
    by (auto simp: digest_json_def result_simps simp del: strip_prefix_eq_Some)
qed

section \<open>Paths stay below their root\<close>

text \<open>Resolving components from a directory, as joining and normalizing does.\<close>

fun resolve :: "string list \<Rightarrow> path_component list \<Rightarrow> string list" where
  "resolve dir [] = dir"
| "resolve dir (RootDir # cs) = resolve [] cs"
| "resolve dir (CurDir # cs) = resolve dir cs"
| "resolve dir (ParentDir # cs) = resolve (butlast dir) cs"
| "resolve dir (Normal n # cs) = resolve (dir @ [n]) cs"

lemma resolve_below:
  "\<not> list_ex (\<lambda>c. c = ParentDir \<or> c = RootDir) cs \<Longrightarrow> prefix dir (resolve dir cs)"
proof (induction dir cs rule: resolve.induct)
  case (5 dir n cs)
  then show ?case by (auto dest: append_prefixD)
qed auto

end
