(* ===== verification/Core_Types.thy ===== *)
theory Core_Types
  imports Contracts
begin

text \<open>
  The data of the trusted core (\<open>rust/crates/promptectomy-core/src/lib.rs\<close>, first part):
  authority modes and actions, the run and stage state machines with their textual column
  values, cleanup states and artifact classes, the typed errors, the budget ledger, leases,
  and the projections the store returns. The locale \<open>text_column\<close> is the interface between
  an enumeration and the TEXT column that stores it; \<open>lifecycle\<close> adds the transition table.
\<close>

section \<open>Enumerations\<close>

datatype authority_mode = Inspect | Audit | Draft | Apply | Integrate

datatype authority_action =
    ReadSource
  | WriteState
  | ReadSafeArtifacts
  | WriteCandidateArtifacts
  | ExternalModelEgress

datatype run_status =
    Created
  | Preflight
  | AwaitingAuthority
  | Queued
  | Running
  | Pausing
  | Paused
  | Cancelling
  | Completed
  | CompletedNoFindings
  | CompletedWithUnsupported
  | Failed
  | Cancelled
  | Interrupted

datatype stage_state =
    StCreated
  | StAwaitingAuthority
  | StQueued
  | StRunning
  | StPausing
  | StPaused
  | StCancelling
  | StCancelled
  | StCompleted
  | StFailed
  | StInterrupted

datatype cleanup_state = NotRequired | Pending | CleanupCompleted | CleanupFailed

datatype artifact_class = Safe | Source | Protected | Diagnostic | Executable

section \<open>Errors\<close>

record core_error =
  err_code :: string
  err_category :: string
  err_retryable :: bool
  err_message :: string
  err_action :: string

definition core_error_of :: "string \<Rightarrow> string \<times> bool \<times> string \<times> string \<Rightarrow> core_error" where
  "core_error_of c t = (case t of (category, retryable, message, action) \<Rightarrow>
     \<lparr>err_code = c, err_category = category, err_retryable = retryable,
      err_message = message, err_action = action\<rparr>)"

text \<open>\<open>CoreError::safe\<close>: category, retryability, message and next action of a code.\<close>

definition safe_fields :: "string \<Rightarrow> string \<times> bool \<times> string \<times> string" where
  "safe_fields c =
    (if c = ''invalid_authority_mode'' then
       (''policy'', False, ''The requested authority mode is not permitted by this core.'',
        ''Use inspect, audit, or draft authority for this phase.'')
     else if c = ''authority_denied'' then
       (''policy'', False, ''The requested operation exceeds the approved authority.'',
        ''Create a new explicit authority manifest before retrying.'')
     else if c = ''invalid_state_root'' then
       (''state'', False, ''The state root is not a private local directory.'',
        ''Select an absolute owner-only state directory.'')
     else if c = ''state_unavailable'' then
       (''state'', True, ''Private state is unavailable.'',
        ''Repair local storage and retry.'')
     else if c = ''migration_failed'' then
       (''storage'', False, ''The state migration failed and was rolled back.'',
        ''Inspect the migration backup and retry with a supported state version.'')
     else if c = ''sqlite_too_old'' then
       (''storage'', False, ''The SQLite runtime is below the required patched version.'',
        ''Install the supported bundled SQLite runtime.'')
     else if c = ''writer_conflict'' then
       (''state'', True, ''Another trusted core writer already owns this state root.'',
        ''Reuse the running daemon or wait for its writer lock to close.'')
     else if c = ''event_cursor_expired'' then
       (''state'', False, ''The event cursor precedes the retained event floor.'',
        ''Reload the durable run projection and resume from the retained floor.'')
     else if c = ''idempotency_conflict'' then
       (''state'', False, ''An idempotency key was reused for a different mutation.'',
        ''Use a new idempotency key for the changed request.'')
     else if c = ''import_invalid'' then
       (''storage'', False, ''The Python v2 state database is unsupported or corrupt.'',
        ''Select an intact Phase 2 database with the exact supported schema.'')
     else if c = ''backup_invalid'' then
       (''storage'', False, ''The selected migration backup is invalid.'',
        ''Select a trusted backup created by this core.'')
     else if c = ''invalid_transition'' then
       (''state'', False, ''The requested run or stage transition is invalid.'',
        ''Reload current state and issue a valid transition.'')
     else if c = ''budget_exceeded'' then
       (''policy'', False, ''The run exceeded an approved budget.'',
        ''Approve a bounded larger budget or reduce work.'')
     else if c = ''lease_conflict'' then
       (''state'', True, ''The stage lease is held by another live worker.'',
        ''Wait for lease expiry or recover the run.'')
     else if c = ''artifact_invalid'' then
       (''storage'', False, ''The artifact bytes do not match their receipt.'',
        ''Quarantine the artifact and rerun the producer.'')
     else if c = ''artifact_forbidden'' then
       (''policy'', False, ''The artifact class is not safe to read through this boundary.'',
        ''Use an explicit protected-artifact authority.'')
     else if c = ''receipt_gate_unmet'' then
       (''state'', False, ''The run is missing evidence required for receipt completion.'',
        ''Complete terminal stages, cleanup, and budget accounting before receipt.'')
     else if c = ''state_corrupt'' then
       (''storage'', False, ''The durable state projection is corrupt.'',
        ''Restore from a verified migration backup.'')
     else
       (''internal'', False, ''The trusted core rejected the request at an internal boundary.'',
        ''Quarantine the run and inspect safe diagnostics.''))"

definition safe_error :: "string \<Rightarrow> core_error" where
  "safe_error c = core_error_of c (safe_fields c)"

lemma err_code_safe_error [simp]: "err_code (safe_error c) = c"
  by (simp add: safe_error_def core_error_of_def split: prod.splits)

lemma safe_error_inject [simp]: "safe_error a = safe_error b \<longleftrightarrow> a = b"
  by (metis err_code_safe_error)

section \<open>Column text\<close>

fun mode_as_str :: "authority_mode \<Rightarrow> string" where
  "mode_as_str Inspect = ''inspect''"
| "mode_as_str Audit = ''audit''"
| "mode_as_str Draft = ''draft''"
| "mode_as_str Apply = ''apply''"
| "mode_as_str Integrate = ''integrate''"

definition parse_mode :: "string \<Rightarrow> core_error + authority_mode" where
  "parse_mode s =
     (if s = ''inspect'' then Inr Inspect
      else if s = ''audit'' then Inr Audit
      else if s = ''draft'' then Inr Draft
      else if s = ''apply'' then Inr Apply
      else if s = ''integrate'' then Inr Integrate
      else Inl (safe_error ''state_corrupt''))"

fun run_as_str :: "run_status \<Rightarrow> string" where
  "run_as_str Created = ''created''"
| "run_as_str Preflight = ''preflight''"
| "run_as_str AwaitingAuthority = ''awaiting_authority''"
| "run_as_str Queued = ''queued''"
| "run_as_str Running = ''running''"
| "run_as_str Pausing = ''pausing''"
| "run_as_str Paused = ''paused''"
| "run_as_str Cancelling = ''cancelling''"
| "run_as_str Completed = ''completed''"
| "run_as_str CompletedNoFindings = ''completed_no_findings''"
| "run_as_str CompletedWithUnsupported = ''completed_with_unsupported''"
| "run_as_str Failed = ''failed''"
| "run_as_str Cancelled = ''cancelled''"
| "run_as_str Interrupted = ''interrupted''"

definition run_parse :: "string \<Rightarrow> core_error + run_status" where
  "run_parse s =
     (if s = ''created'' then Inr Created
      else if s = ''preflight'' then Inr Preflight
      else if s = ''awaiting_authority'' then Inr AwaitingAuthority
      else if s = ''queued'' then Inr Queued
      else if s = ''running'' then Inr Running
      else if s = ''pausing'' then Inr Pausing
      else if s = ''paused'' then Inr Paused
      else if s = ''cancelling'' then Inr Cancelling
      else if s = ''completed'' then Inr Completed
      else if s = ''completed_no_findings'' then Inr CompletedNoFindings
      else if s = ''completed_with_unsupported'' then Inr CompletedWithUnsupported
      else if s = ''failed'' then Inr Failed
      else if s = ''cancelled'' then Inr Cancelled
      else if s = ''interrupted'' then Inr Interrupted
      else Inl (safe_error ''state_corrupt''))"

fun run_is_terminal :: "run_status \<Rightarrow> bool" where
  "run_is_terminal Completed = True"
| "run_is_terminal CompletedNoFindings = True"
| "run_is_terminal CompletedWithUnsupported = True"
| "run_is_terminal Failed = True"
| "run_is_terminal Cancelled = True"
| "run_is_terminal Interrupted = True"
| "run_is_terminal _ = False"

definition run_can_transition :: "run_status \<Rightarrow> run_status \<Rightarrow> bool" where
  "run_can_transition s t =
     (case s of
        Created \<Rightarrow> t \<in> {Preflight, Queued, Running, Cancelled, Failed}
      | Preflight \<Rightarrow> t \<in> {AwaitingAuthority, Queued, Cancelled, Failed}
      | AwaitingAuthority \<Rightarrow> t \<in> {Queued, Cancelled, Failed}
      | Interrupted \<Rightarrow> t \<in> {Queued, Cancelled, Failed}
      | Queued \<Rightarrow> t \<in> {Running, Cancelled, Failed, Interrupted}
      | Running \<Rightarrow> t \<in> {Pausing, Cancelling, Completed, CompletedNoFindings,
                       CompletedWithUnsupported, Failed, Cancelled, Interrupted}
      | Pausing \<Rightarrow> t \<in> {Paused, Cancelling, Failed, Interrupted}
      | Paused \<Rightarrow> t \<in> {Running, Cancelling, Cancelled, Interrupted}
      | Cancelling \<Rightarrow> t \<in> {Cancelled, Failed, Interrupted}
      | _ \<Rightarrow> False)"

fun stage_as_str :: "stage_state \<Rightarrow> string" where
  "stage_as_str StCreated = ''created''"
| "stage_as_str StAwaitingAuthority = ''awaiting_authority''"
| "stage_as_str StQueued = ''queued''"
| "stage_as_str StRunning = ''running''"
| "stage_as_str StPausing = ''pausing''"
| "stage_as_str StPaused = ''paused''"
| "stage_as_str StCancelling = ''cancelling''"
| "stage_as_str StCancelled = ''cancelled''"
| "stage_as_str StCompleted = ''completed''"
| "stage_as_str StFailed = ''failed''"
| "stage_as_str StInterrupted = ''interrupted''"

definition stage_parse :: "string \<Rightarrow> core_error + stage_state" where
  "stage_parse s =
     (if s = ''created'' then Inr StCreated
      else if s = ''awaiting_authority'' then Inr StAwaitingAuthority
      else if s = ''queued'' then Inr StQueued
      else if s = ''running'' then Inr StRunning
      else if s = ''pausing'' then Inr StPausing
      else if s = ''paused'' then Inr StPaused
      else if s = ''cancelling'' then Inr StCancelling
      else if s = ''cancelled'' then Inr StCancelled
      else if s = ''completed'' then Inr StCompleted
      else if s = ''failed'' then Inr StFailed
      else if s = ''interrupted'' then Inr StInterrupted
      else Inl (safe_error ''state_corrupt''))"

fun stage_is_terminal :: "stage_state \<Rightarrow> bool" where
  "stage_is_terminal StCancelled = True"
| "stage_is_terminal StCompleted = True"
| "stage_is_terminal StFailed = True"
| "stage_is_terminal StInterrupted = True"
| "stage_is_terminal _ = False"

definition stage_can_transition :: "stage_state \<Rightarrow> stage_state \<Rightarrow> bool" where
  "stage_can_transition s t =
     (case s of
        StCreated \<Rightarrow> t \<in> {StAwaitingAuthority, StQueued, StCancelled, StFailed}
      | StAwaitingAuthority \<Rightarrow> t \<in> {StQueued, StCancelled, StFailed}
      | StQueued \<Rightarrow> t \<in> {StRunning, StCancelled, StInterrupted}
      | StRunning \<Rightarrow> t \<in> {StPausing, StCancelling, StCompleted, StFailed, StInterrupted}
      | StPausing \<Rightarrow> t \<in> {StPaused, StRunning, StInterrupted}
      | StPaused \<Rightarrow> t \<in> {StRunning, StCancelled}
      | StCancelling \<Rightarrow> t \<in> {StCancelled, StInterrupted}
      | _ \<Rightarrow> False)"

fun cleanup_as_str :: "cleanup_state \<Rightarrow> string" where
  "cleanup_as_str NotRequired = ''not_required''"
| "cleanup_as_str Pending = ''pending''"
| "cleanup_as_str CleanupCompleted = ''completed''"
| "cleanup_as_str CleanupFailed = ''failed''"

definition parse_cleanup :: "string \<Rightarrow> core_error + cleanup_state" where
  "parse_cleanup s =
     (if s = ''not_required'' then Inr NotRequired
      else if s = ''pending'' then Inr Pending
      else if s = ''completed'' then Inr CleanupCompleted
      else if s = ''failed'' then Inr CleanupFailed
      else Inl (safe_error ''state_corrupt''))"

fun class_as_str :: "artifact_class \<Rightarrow> string" where
  "class_as_str Safe = ''safe''"
| "class_as_str Source = ''source''"
| "class_as_str Protected = ''protected''"
| "class_as_str Diagnostic = ''diagnostic''"
| "class_as_str Executable = ''executable''"

definition class_parse :: "string \<Rightarrow> core_error + artifact_class" where
  "class_parse s =
     (if s = ''safe'' then Inr Safe
      else if s = ''source'' then Inr Source
      else if s = ''protected'' then Inr Protected
      else if s = ''diagnostic'' then Inr Diagnostic
      else if s = ''executable'' then Inr Executable
      else Inl (safe_error ''state_corrupt''))"

section \<open>Interface: an enumeration behind a TEXT column\<close>

locale text_column =
  fixes as_text :: "'a \<Rightarrow> string"
    and parse :: "string \<Rightarrow> core_error + 'a"
  assumes parse_as_text: "parse (as_text x) = Inr x"
    and as_text_parse: "parse s = Inr x \<Longrightarrow> s = as_text x"
    and parse_corrupt: "parse s = Inl e \<Longrightarrow> e = safe_error ''state_corrupt''"
begin

lemma parse_iff: "parse s = Inr x \<longleftrightarrow> s = as_text x"
  using parse_as_text as_text_parse by blast

lemma as_text_inject: "as_text x = as_text y \<longleftrightarrow> x = y"
  by (metis parse_as_text sum.inject(2))

lemma parse_total: "parse s = Inl (safe_error ''state_corrupt'') \<or> (\<exists>x. s = as_text x)"
proof (cases "parse s")
  case (Inl e)
  then show ?thesis using parse_corrupt by blast
next
  case (Inr x)
  then show ?thesis using as_text_parse by blast
qed

lemma parse_error_iff: "parse s = Inl e \<longleftrightarrow> e = safe_error ''state_corrupt'' \<and> (\<forall>x. s \<noteq> as_text x)"
proof (cases "parse s")
  case (Inl e')
  moreover from this have "s \<noteq> as_text x" for x
    using parse_as_text [of x] by (metis sum.distinct(1))
  ultimately show ?thesis using parse_corrupt by auto
next
  case (Inr x)
  then show ?thesis using as_text_parse by auto
qed

end

text \<open>A life cycle adds the transition table: settled states are the ones nothing leaves.\<close>

locale lifecycle = text_column as_text parse
  for as_text :: "'a \<Rightarrow> string" and parse :: "string \<Rightarrow> core_error + 'a" +
  fixes is_terminal :: "'a \<Rightarrow> bool"
    and can_transition :: "'a \<Rightarrow> 'a \<Rightarrow> bool"
  assumes no_self_loop: "\<not> can_transition x x"
    and stuck_is_terminal: "(\<And>y. \<not> can_transition x y) \<Longrightarrow> is_terminal x"
begin

lemma progress: "\<not> is_terminal x \<Longrightarrow> \<exists>y. can_transition x y \<and> y \<noteq> x"
  using no_self_loop stuck_is_terminal by metis

end

interpretation mode_text: text_column mode_as_str parse_mode
proof
  show "parse_mode (mode_as_str x) = Inr x" for x
    by (cases x) (simp_all add: parse_mode_def)
qed (auto simp: parse_mode_def split: if_splits)

interpretation cleanup_text: text_column cleanup_as_str parse_cleanup
proof
  show "parse_cleanup (cleanup_as_str x) = Inr x" for x
    by (cases x) (simp_all add: parse_cleanup_def)
qed (auto simp: parse_cleanup_def split: if_splits)

interpretation class_text: text_column class_as_str class_parse
proof
  show "class_parse (class_as_str x) = Inr x" for x
    by (cases x) (simp_all add: class_parse_def)
qed (auto simp: class_parse_def split: if_splits)

interpretation run_life: lifecycle run_as_str run_parse run_is_terminal run_can_transition
proof
  show "run_parse (run_as_str x) = Inr x" for x
    by (cases x) (simp_all add: run_parse_def)
  show "\<not> run_can_transition x x" for x
    by (cases x) (simp_all add: run_can_transition_def)
  show "(\<And>y. \<not> run_can_transition x y) \<Longrightarrow> run_is_terminal x" for x
    by (cases x) (auto simp: run_can_transition_def)
qed (auto simp: run_parse_def split: if_splits)

interpretation stage_life: lifecycle stage_as_str stage_parse stage_is_terminal stage_can_transition
proof
  show "stage_parse (stage_as_str x) = Inr x" for x
    by (cases x) (simp_all add: stage_parse_def)
  show "\<not> stage_can_transition x x" for x
    by (cases x) (simp_all add: stage_can_transition_def)
  show "(\<And>y. \<not> stage_can_transition x y) \<Longrightarrow> stage_is_terminal x" for x
    by (cases x) (auto simp: stage_can_transition_def)
qed (auto simp: stage_parse_def split: if_splits)

lemmas column_text_simps [simp] =
  mode_text.parse_as_text cleanup_text.parse_as_text class_text.parse_as_text
  run_life.parse_as_text stage_life.parse_as_text
  mode_text.as_text_inject cleanup_text.as_text_inject class_text.as_text_inject
  run_life.as_text_inject stage_life.as_text_inject

text \<open>Comparing a stored status with a literal, as the SQL statements do.\<close>

lemma run_as_str_literals [simp]:
  "run_as_str x = ''running'' \<longleftrightarrow> x = Running"
  "run_as_str x = ''cancelling'' \<longleftrightarrow> x = Cancelling"
  by (cases x; simp)+

lemma stage_as_str_literals [simp]:
  "stage_as_str x = ''running'' \<longleftrightarrow> x = StRunning"
  "stage_as_str x = ''cancelling'' \<longleftrightarrow> x = StCancelling"
  by (cases x; simp)+

end
