(* ===== verification/Core_Authority.thy ===== *)
theory Core_Authority
  imports Core_Types
begin

text \<open>
  Budgets and authority of the trusted core (\<open>promptectomy-core/src/lib.rs\<close>): the checked
  budget ledger, the authority manifest with its wire form, \<open>validate_authority\<close> and
  \<open>AuthorityManifest::permits\<close>, and the syntactic checks on identifiers, digests, names,
  idempotency keys and media types. A serde-derived conversion is the pair of functions
  \<open>..._to_json\<close> and \<open>..._of_json\<close> that the field names and attributes determine.
\<close>

section \<open>Budget ledger\<close>

record budget_ledger =
  wall_ms :: u64
  input_tokens :: u64
  output_tokens :: u64
  ledger_bytes :: u64
  attempts :: u64

definition ledger_default :: budget_ledger where
  "ledger_default = \<lparr>wall_ms = 0, input_tokens = 0, output_tokens = 0, ledger_bytes = 0, attempts = 0\<rparr>"

definition ledger_exceeds :: "budget_ledger \<Rightarrow> budget_ledger \<Rightarrow> bool" where
  "ledger_exceeds b limit \<longleftrightarrow>
     wall_ms b > wall_ms limit
     \<or> input_tokens b > input_tokens limit
     \<or> output_tokens b > output_tokens limit
     \<or> ledger_bytes b > ledger_bytes limit
     \<or> attempts b > attempts limit"

definition ledger_checked_add ::
  "budget_ledger \<Rightarrow> budget_ledger \<Rightarrow> budget_ledger \<Rightarrow> core_error + budget_ledger" where
  "ledger_checked_add self delta limit =
     bindE (ok_or (safe_error ''budget_exceeded'') (checked_add_u64 (wall_ms self) (wall_ms delta))) (\<lambda>w.
     bindE (ok_or (safe_error ''budget_exceeded'') (checked_add_u64 (input_tokens self) (input_tokens delta))) (\<lambda>i.
     bindE (ok_or (safe_error ''budget_exceeded'') (checked_add_u64 (output_tokens self) (output_tokens delta))) (\<lambda>ou.
     bindE (ok_or (safe_error ''budget_exceeded'') (checked_add_u64 (ledger_bytes self) (ledger_bytes delta))) (\<lambda>b.
     bindE (ok_or (safe_error ''budget_exceeded'') (checked_add_u64 (attempts self) (attempts delta))) (\<lambda>a.
       let next_ledger = \<lparr>wall_ms = w, input_tokens = i, output_tokens = ou, ledger_bytes = b, attempts = a\<rparr>
       in if ledger_exceeds next_ledger limit then Inl (safe_error ''budget_exceeded'')
          else Inr next_ledger)))))"

definition ledger_to_json :: "budget_ledger \<Rightarrow> json" where
  "ledger_to_json b = json_object
     [(''wall_ms'', JInt (uint (wall_ms b))),
      (''input_tokens'', JInt (uint (input_tokens b))),
      (''output_tokens'', JInt (uint (output_tokens b))),
      (''bytes'', JInt (uint (ledger_bytes b))),
      (''attempts'', JInt (uint (attempts b)))]"

definition field_u64 :: "json \<Rightarrow> string \<Rightarrow> u64 option" where
  "field_u64 v k = Option.bind (json_get v k) as_u64"

text \<open>A derived \<open>Deserialize\<close> reads a struct from an object or from an array of its fields.\<close>

definition ledger_fields :: "json \<Rightarrow> u64 option list" where
  "ledger_fields v =
     (case v of
        JArr vs \<Rightarrow> map as_u64 vs
      | _ \<Rightarrow> map (field_u64 v) [''wall_ms'', ''input_tokens'', ''output_tokens'', ''bytes'', ''attempts''])"

definition ledger_of_json :: "json \<Rightarrow> budget_ledger option" where
  "ledger_of_json v =
     (case ledger_fields v of
        [Some w, Some i, Some ou, Some b, Some a] \<Rightarrow>
          Some \<lparr>wall_ms = w, input_tokens = i, output_tokens = ou, ledger_bytes = b, attempts = a\<rparr>
      | _ \<Rightarrow> None)"

lemma as_u64_uint [simp]: "as_u64 (JInt (uint w)) = Some w"
  using uint_bounded [of w] by simp

lemma ledger_of_to_json [simp]: "ledger_of_json (ledger_to_json b) = Some b"
  by (simp add: ledger_of_json_def ledger_fields_def ledger_to_json_def json_object_def
      field_u64_def del: as_u64.simps)

definition ledger_le :: "budget_ledger \<Rightarrow> budget_ledger \<Rightarrow> bool" where
  "ledger_le a b \<longleftrightarrow> \<not> ledger_exceeds a b"

lemma ledger_le_iff:
  "ledger_le a b \<longleftrightarrow> wall_ms a \<le> wall_ms b \<and> input_tokens a \<le> input_tokens b
     \<and> output_tokens a \<le> output_tokens b \<and> ledger_bytes a \<le> ledger_bytes b \<and> attempts a \<le> attempts b"
  by (auto simp: ledger_le_def ledger_exceeds_def not_less)

lemma ledger_le_default [simp]: "ledger_le ledger_default b"
  by (simp add: ledger_le_iff ledger_default_def)

section \<open>Syntactic checks\<close>

definition validate_entity_id :: "env \<Rightarrow> string \<Rightarrow> string \<Rightarrow> core_error + unit" where
  "validate_entity_id E v pre =
     bindE (ok_or (safe_error ''state_corrupt'') (strip_prefix (pre @ ''_'') v)) (\<lambda>txt.
     bindE (ok_or (safe_error ''state_corrupt'') (parse_uuid E txt)) (\<lambda>u.
       if uuid_hyphenated u \<noteq> txt \<or> uuid_version u \<noteq> 7 \<or> \<not> uuid_rfc4122 u
       then Inl (safe_error ''state_corrupt'') else Inr ()))"

definition hex64 :: "string \<Rightarrow> bool" where
  "hex64 s \<longleftrightarrow> length s = 64 \<and> list_all is_lower_hex s"

definition validate_snapshot_id :: "string \<Rightarrow> core_error + unit" where
  "validate_snapshot_id v =
     bindE (ok_or (safe_error ''state_corrupt'') (strip_prefix ''snap_sha256_'' v)) (\<lambda>d.
       if hex64 d then Inr () else Inl (safe_error ''state_corrupt''))"

definition validate_digest :: "string \<Rightarrow> core_error + unit" where
  "validate_digest v =
     bindE (ok_or (safe_error ''state_corrupt'') (strip_prefix ''sha256:'' v)) (\<lambda>d.
       if hex64 d then Inr () else Inl (safe_error ''state_corrupt''))"

definition validate_artifact_id :: "string \<Rightarrow> core_error + unit" where
  "validate_artifact_id v =
     bindE (ok_or (safe_error ''artifact_invalid'') (strip_prefix ''sha256:'' v)) (\<lambda>h.
       if hex64 h then Inr () else Inl (safe_error ''artifact_invalid''))"

definition is_safe_name :: "string \<Rightarrow> nat \<Rightarrow> bool" where
  "is_safe_name v max_len \<longleftrightarrow>
     v \<noteq> [] \<and> length v \<le> max_len \<and> is_ascii_lowercase (hd v)
     \<and> list_all (\<lambda>b. is_ascii_lowercase b \<or> is_ascii_digit b \<or> b \<in> set ''_.-'') v"

definition valid_idempotency_key :: "string \<Rightarrow> bool" where
  "valid_idempotency_key v \<longleftrightarrow>
     v \<noteq> [] \<and> length v \<le> 128
     \<and> list_all (\<lambda>b. is_ascii_alphanumeric b \<or> b \<in> set ''_.:-'') v"

definition media_token :: "string \<Rightarrow> bool" where
  "media_token part \<longleftrightarrow> part \<noteq> []
     \<and> list_all (\<lambda>b. is_ascii_lowercase b \<or> is_ascii_digit b \<or> b \<in> set ''.+-'') part"

definition valid_media_type :: "string \<Rightarrow> bool" where
  "valid_media_type v =
     (case split_once CHR ''/'' v of
        None \<Rightarrow> False
      | Some (kind, subtype) \<Rightarrow>
          media_token kind \<and> media_token subtype \<and> CHR ''/'' \<notin> set subtype)"

lemma validate_entity_id_Inr:
  "validate_entity_id E v pre = Inr x \<longleftrightarrow>
     (\<exists>t u. v = pre @ ''_'' @ t \<and> parse_uuid E t = Some u
        \<and> uuid_hyphenated u = t \<and> uuid_version u = 7 \<and> uuid_rfc4122 u)"
  by (auto simp: validate_entity_id_def result_simps)

lemma validate_digest_Inr:
  "validate_digest v = Inr x \<longleftrightarrow> (\<exists>d. v = ''sha256:'' @ d \<and> hex64 d)"
  by (auto simp: validate_digest_def result_simps)

section \<open>Authority manifests\<close>

record authority_manifest =
  au_schema_uri :: string
  au_schema_version :: string
  au_authority_id :: string
  au_subject_id :: string
  au_mode :: authority_mode
  au_manifest :: json
  au_manifest_digest :: string
  au_approved_at :: string
  au_expires_at :: "string option"
  au_approval_origin :: string
  au_revoked :: bool
  au_snapshot_id :: string

definition contract_value :: "authority_manifest \<Rightarrow> json" where
  "contract_value a = json_object
     [(''schema_uri'', JStr (au_schema_uri a)),
      (''schema_version'', JStr (au_schema_version a)),
      (''authority_id'', JStr (au_authority_id a)),
      (''subject_id'', JStr (au_subject_id a)),
      (''mode'', JStr (mode_as_str (au_mode a))),
      (''manifest'', au_manifest a),
      (''manifest_digest'', JStr (au_manifest_digest a)),
      (''approved_at'', JStr (au_approved_at a)),
      (''expires_at'', (case au_expires_at a of None \<Rightarrow> JNull | Some s \<Rightarrow> JStr s)),
      (''approval_origin'', JStr (au_approval_origin a)),
      (''revoked'', JBool (au_revoked a))]"

definition authority_fields :: "string list" where
  "authority_fields =
     [''schema_uri'', ''schema_version'', ''authority_id'', ''subject_id'', ''mode'', ''manifest'',
      ''manifest_digest'', ''approved_at'', ''expires_at'', ''approval_origin'', ''revoked'']"

definition field_str :: "json \<Rightarrow> string \<Rightarrow> string option" where
  "field_str v k = Option.bind (json_get v k) as_str"

text \<open>
  The derived \<open>Deserialize\<close>: unknown fields are refused, \<open>snapshot_id\<close> is skipped and left
  empty, an absent or null \<open>expires_at\<close> is \<open>None\<close>.
\<close>

definition optional_str :: "json \<Rightarrow> string \<Rightarrow> string option option" where
  "optional_str v k =
     (case json_get v k of
        None \<Rightarrow> Some None
      | Some JNull \<Rightarrow> Some None
      | Some (JStr s) \<Rightarrow> Some (Some s)
      | Some _ \<Rightarrow> None)"

definition mode_of_json :: "json \<Rightarrow> authority_mode option" where
  "mode_of_json v =
     (case as_str v of None \<Rightarrow> None
      | Some s \<Rightarrow> (case parse_mode s of Inl _ \<Rightarrow> None | Inr m \<Rightarrow> Some m))"

definition authority_of_json :: "json \<Rightarrow> authority_manifest option" where
  "authority_of_json v =
     Option.bind (as_object v) (\<lambda>ob.
       if \<not> list_all (\<lambda>p. fst p \<in> set authority_fields) ob then None else
       Option.bind (field_str v ''schema_uri'') (\<lambda>uri.
       Option.bind (field_str v ''schema_version'') (\<lambda>ver.
       Option.bind (field_str v ''authority_id'') (\<lambda>aid.
       Option.bind (field_str v ''subject_id'') (\<lambda>sub.
       Option.bind (Option.bind (json_get v ''mode'') mode_of_json) (\<lambda>mode.
       Option.bind (json_get v ''manifest'') (\<lambda>manifest.
       Option.bind (field_str v ''manifest_digest'') (\<lambda>digest.
       Option.bind (field_str v ''approved_at'') (\<lambda>approved.
       Option.bind (optional_str v ''expires_at'') (\<lambda>expires.
       Option.bind (field_str v ''approval_origin'') (\<lambda>origin.
       Option.bind (Option.bind (json_get v ''revoked'') as_bool) (\<lambda>revoked.
         Some \<lparr>au_schema_uri = uri, au_schema_version = ver, au_authority_id = aid,
               au_subject_id = sub, au_mode = mode, au_manifest = manifest,
               au_manifest_digest = digest, au_approved_at = approved,
               au_expires_at = expires, au_approval_origin = origin,
               au_revoked = revoked, au_snapshot_id = []\<rparr>))))))))))))"

lemma authority_of_contract_value:
  "authority_of_json (contract_value a) = Some (a\<lparr>au_snapshot_id := []\<rparr>)"
  by (cases "au_expires_at a")
    (simp_all add: authority_of_json_def contract_value_def json_object_def field_str_def
       optional_str_def mode_of_json_def authority_fields_def)

definition denied :: core_error where
  "denied = safe_error ''authority_denied''"

definition manifest_strings :: "json \<Rightarrow> string \<Rightarrow> core_error + string list" where
  "manifest_strings m name =
     bindE (ok_or denied (Option.bind (json_get m name) as_array))
       (\<lambda>vs. traverse (\<lambda>v. ok_or denied (as_str v)) vs)"

definition authority_budget :: "authority_manifest \<Rightarrow> core_error + budget_ledger" where
  "authority_budget a =
     bindE (ok_or denied (Option.bind (json_get (au_manifest a) ''budget'') as_object)) (\<lambda>b.
       if set (map fst b) \<noteq> set [''attempts'', ''bytes'', ''input_tokens'', ''output_tokens'', ''wall_ms'']
       then Inl denied
       else
         bindE (ok_or denied (field_u64 (JObj b) ''wall_ms'')) (\<lambda>w.
         bindE (ok_or denied (field_u64 (JObj b) ''input_tokens'')) (\<lambda>i.
         bindE (ok_or denied (field_u64 (JObj b) ''output_tokens'')) (\<lambda>ou.
         bindE (ok_or denied (field_u64 (JObj b) ''bytes'')) (\<lambda>by.
         bindE (ok_or denied (field_u64 (JObj b) ''attempts'')) (\<lambda>at.
           Inr \<lparr>wall_ms = w, input_tokens = i, output_tokens = ou, ledger_bytes = by, attempts = at\<rparr>))))))"

definition allowed_reads :: "authority_mode \<Rightarrow> string list option" where
  "allowed_reads m =
     (case m of
        Inspect \<Rightarrow> Some [''selected_source_bytes'']
      | Audit \<Rightarrow> Some [''selected_source_bytes'', ''safe_artifacts'']
      | Draft \<Rightarrow> Some [''selected_source_bytes'', ''safe_artifacts'']
      | Apply \<Rightarrow> None
      | Integrate \<Rightarrow> None)"

definition allowed_writes :: "authority_mode \<Rightarrow> string list option" where
  "allowed_writes m =
     (case m of
        Inspect \<Rightarrow> Some [''tool_owned_state'']
      | Audit \<Rightarrow> Some [''tool_owned_state'']
      | Draft \<Rightarrow> Some [''tool_owned_state'', ''tool_owned_snapshot'', ''tool_owned_candidate'']
      | Apply \<Rightarrow> None
      | Integrate \<Rightarrow> None)"

text \<open>The scope part of \<open>validate_authority\<close>, from the manifest's string lists on.\<close>

definition validate_scope :: "authority_manifest \<Rightarrow> core_error + unit" where
  "validate_scope a =
     (let m = au_manifest a in
      bindE (ok_or denied (as_object m)) (\<lambda>_.
      bindE (manifest_strings m ''writes'') (\<lambda>writes.
      bindE (manifest_strings m ''reads'') (\<lambda>reads.
      bindE (ok_or denied (allowed_reads (au_mode a))) (\<lambda>may_read.
      bindE (ok_or denied (allowed_writes (au_mode a))) (\<lambda>may_write.
        if ''selected_source_bytes'' \<notin> set reads
           \<or> list_ex (\<lambda>r. r \<notin> set may_read) reads
           \<or> ''tool_owned_state'' \<notin> set writes
           \<or> list_ex (\<lambda>w. w \<notin> set may_write) writes
        then Inl denied
        else bindE (manifest_strings m ''commands'') (\<lambda>commands.
          if commands \<noteq> [] \<or> (case json_get m ''executor'' of None \<Rightarrow> False | Some v \<Rightarrow> v \<noteq> JNull)
          then Inl denied
          else
            bindE (manifest_strings m ''network_destinations'') (\<lambda>network.
            bindE (manifest_strings m ''egress_classes'') (\<lambda>egress.
              if network \<noteq> [] \<or> Option.bind (json_get m ''model'') as_str \<noteq> None \<or> egress \<noteq> []
              then Inl denied
              else bindE (authority_budget a) (\<lambda>_. Inr ()))))))))))"

definition validate_authority :: "env \<Rightarrow> authority_manifest \<Rightarrow> core_error + unit" where
  "validate_authority E a =
     bindE (map_err (\<lambda>_. denied) (validate_contract E (contract_value a))) (\<lambda>_.
     bindE (validate_entity_id E (au_authority_id a) ''auth'') (\<lambda>_.
     bindE (validate_digest (au_manifest_digest a)) (\<lambda>_.
     bindE (validate_snapshot_id (au_snapshot_id a)) (\<lambda>_.
       if au_revoked a
          \<or> au_subject_id a \<noteq> ''action_'' @ au_snapshot_id a
          \<or> au_mode a = Apply \<or> au_mode a = Integrate
       then Inl denied
       else
         bindE (ok_or denied (parse_rfc3339 E (au_approved_at a))) (\<lambda>approved.
           if approved > now E then Inl denied
           else
             bindE (case au_expires_at a of
                      None \<Rightarrow> Inr ()
                    | Some s \<Rightarrow> bindE (ok_or denied (parse_rfc3339 E s))
                                  (\<lambda>t. if t \<le> now E then Inl denied else Inr ())) (\<lambda>_.
             bindE (map_err (\<lambda>_. denied) (canonical_json E (au_manifest a))) (\<lambda>canonical.
               if ''sha256:'' @ hex_encode (sha256 E canonical) \<noteq> au_manifest_digest a
               then Inl denied
               else validate_scope a)))))))"

definition from_contract_json :: "env \<Rightarrow> string \<Rightarrow> string \<Rightarrow> core_error + authority_manifest" where
  "from_contract_json E snapshot contract_bytes =
     bindE (map_err (\<lambda>_. denied) (parse_strict_json E contract_bytes MAX_SAFE_JSON_BYTES)) (\<lambda>v.
     bindE (map_err (\<lambda>_. denied) (validate_contract E v)) (\<lambda>_.
     bindE (ok_or denied (authority_of_json v)) (\<lambda>a0.
       let a = a0\<lparr>au_snapshot_id := snapshot\<rparr> in
       bindE (validate_authority E a) (\<lambda>_. Inr a))))"

fun permits_ceiling :: "authority_mode \<Rightarrow> authority_action \<Rightarrow> bool" where
  "permits_ceiling Inspect act = (act \<in> {ReadSource, WriteState})"
| "permits_ceiling Audit act = (act \<in> {ReadSource, WriteState, ReadSafeArtifacts})"
| "permits_ceiling Draft act = (act \<in> {ReadSource, WriteState, ReadSafeArtifacts, WriteCandidateArtifacts})"
| "permits_ceiling Apply act = False"
| "permits_ceiling Integrate act = False"

text \<open>The lenient list reader of \<open>permits\<close>: what is not a string is skipped.\<close>

definition lenient_strings :: "json \<Rightarrow> string \<Rightarrow> string list" where
  "lenient_strings m field =
     (case Option.bind (json_get m field) as_array of
        None \<Rightarrow> []
      | Some vs \<Rightarrow> List.map_filter as_str vs)"

definition permits :: "env \<Rightarrow> authority_manifest \<Rightarrow> authority_action \<Rightarrow> bool" where
  "permits E a act =
     (if \<not> is_ok (validate_authority E a) then False
      else
        let reads = lenient_strings (au_manifest a) ''reads'';
            writes = lenient_strings (au_manifest a) ''writes'';
            granted =
              (case act of
                 ReadSource \<Rightarrow> ''selected_source_bytes'' \<in> set reads
               | WriteState \<Rightarrow> ''tool_owned_state'' \<in> set writes
               | ReadSafeArtifacts \<Rightarrow> ''safe_artifacts'' \<in> set reads
               | WriteCandidateArtifacts \<Rightarrow> ''tool_owned_candidate'' \<in> set writes
               | ExternalModelEgress \<Rightarrow>
                   (case Option.bind (json_get (au_manifest a) ''network_destinations'') as_array of
                      None \<Rightarrow> False | Some vs \<Rightarrow> vs \<noteq> []))
        in if \<not> granted then False
           else if act = ExternalModelEgress then au_mode a = Audit \<or> au_mode a = Draft
           else permits_ceiling (au_mode a) act)"

section \<open>Facts about budgets\<close>

lemma checked_add_exact:
  "ok_or e (checked_add_u64 a b) = Inr c \<longleftrightarrow> unat c = unat a + unat b"
proof
  assume "ok_or e (checked_add_u64 a b) = Inr c"
  then show "unat c = unat a + unat b" by (simp add: result_simps checked_add_u64_unat)
next
  assume c: "unat c = unat a + unat b"
  then have "unat a + unat b < 2 ^ 64" using unat_u64_less [of c] by simp
  moreover from this c have "c = a + b" by (metis unat_add_u64 word_unat_eq_iff)
  ultimately show "ok_or e (checked_add_u64 a b) = Inr c" by (simp add: checked_add_u64_def)
qed

definition ledger_sum :: "budget_ledger \<Rightarrow> budget_ledger \<Rightarrow> budget_ledger \<Rightarrow> bool" where
  "ledger_sum a b c \<longleftrightarrow>
     unat (wall_ms c) = unat (wall_ms a) + unat (wall_ms b)
     \<and> unat (input_tokens c) = unat (input_tokens a) + unat (input_tokens b)
     \<and> unat (output_tokens c) = unat (output_tokens a) + unat (output_tokens b)
     \<and> unat (ledger_bytes c) = unat (ledger_bytes a) + unat (ledger_bytes b)
     \<and> unat (attempts c) = unat (attempts a) + unat (attempts b)"

lemma ledger_checked_add_Inr:
  "ledger_checked_add s d limit = Inr n \<longleftrightarrow> ledger_sum s d n \<and> ledger_le n limit"
proof -
  have *: "ledger_checked_add s d limit = Inr n \<longleftrightarrow>
    (\<exists>w i ou b a. ok_or (safe_error ''budget_exceeded'') (checked_add_u64 (wall_ms s) (wall_ms d)) = Inr w
      \<and> ok_or (safe_error ''budget_exceeded'') (checked_add_u64 (input_tokens s) (input_tokens d)) = Inr i
      \<and> ok_or (safe_error ''budget_exceeded'') (checked_add_u64 (output_tokens s) (output_tokens d)) = Inr ou
      \<and> ok_or (safe_error ''budget_exceeded'') (checked_add_u64 (ledger_bytes s) (ledger_bytes d)) = Inr b
      \<and> ok_or (safe_error ''budget_exceeded'') (checked_add_u64 (attempts s) (attempts d)) = Inr a
      \<and> n = \<lparr>wall_ms = w, input_tokens = i, output_tokens = ou, ledger_bytes = b, attempts = a\<rparr>
      \<and> ledger_le n limit)"
    by (auto simp: ledger_checked_add_def bindE_eq_Inr ledger_le_def Let_def split: if_splits)
  show ?thesis
    unfolding * checked_add_exact ledger_sum_def by (cases n) auto
qed

lemma ledger_checked_add_Inl:
  "ledger_checked_add s d limit = Inl e \<Longrightarrow> e = safe_error ''budget_exceeded''"
  by (auto simp: ledger_checked_add_def bindE_def ok_or_def Let_def split: sum.splits option.splits if_splits)

section \<open>Facts about authority\<close>

lemma map_filter_traverse: "traverse (\<lambda>v. ok_or e (f v)) vs = Inr xs \<Longrightarrow> List.map_filter f vs = xs"
  by (induction vs arbitrary: xs) (auto simp: result_simps List.map_filter_simps)

lemma manifest_strings_lenient:
  "manifest_strings m f = Inr xs \<Longrightarrow> lenient_strings m f = xs"
  by (auto simp: manifest_strings_def lenient_strings_def result_simps map_filter_traverse)

lemma manifest_strings_empty:
  "manifest_strings m f = Inr [] \<Longrightarrow> Option.bind (json_get m f) as_array = Some []"
  by (auto simp: manifest_strings_def result_simps dest: length_traverse)

text \<open>What a validated scope contains.\<close>

lemma validate_scope_Inr:
  assumes "validate_scope a = Inr x"
  shows "''selected_source_bytes'' \<in> set (lenient_strings (au_manifest a) ''reads'')"
    and "''tool_owned_state'' \<in> set (lenient_strings (au_manifest a) ''writes'')"
    and "\<exists>r. allowed_reads (au_mode a) = Some r \<and> set (lenient_strings (au_manifest a) ''reads'') \<subseteq> set r"
    and "\<exists>w. allowed_writes (au_mode a) = Some w \<and> set (lenient_strings (au_manifest a) ''writes'') \<subseteq> set w"
    and "Option.bind (json_get (au_manifest a) ''network_destinations'') as_array = Some []"
    and "\<exists>b. authority_budget a = Inr b"
proof -
  from assms obtain writes reads may_read may_write where
    w: "manifest_strings (au_manifest a) ''writes'' = Inr writes" and
    r: "manifest_strings (au_manifest a) ''reads'' = Inr reads" and
    ar: "allowed_reads (au_mode a) = Some may_read" and
    aw: "allowed_writes (au_mode a) = Some may_write" and
    sel: "''selected_source_bytes'' \<in> set reads" and sub: "\<not> list_ex (\<lambda>r. r \<notin> set may_read) reads" and
    own: "''tool_owned_state'' \<in> set writes" and wsub: "\<not> list_ex (\<lambda>w. w \<notin> set may_write) writes" and
    net: "manifest_strings (au_manifest a) ''network_destinations'' = Inr []" and
    bud: "\<exists>b. authority_budget a = Inr b"
    by (auto simp: validate_scope_def Let_def result_simps split: if_splits)
  have lw: "lenient_strings (au_manifest a) ''writes'' = writes"
    and lr: "lenient_strings (au_manifest a) ''reads'' = reads"
    using w r by (auto dest: manifest_strings_lenient)
  show "''selected_source_bytes'' \<in> set (lenient_strings (au_manifest a) ''reads'')"
    using sel lr by simp
  show "''tool_owned_state'' \<in> set (lenient_strings (au_manifest a) ''writes'')"
    using own lw by simp
  show "\<exists>r. allowed_reads (au_mode a) = Some r \<and> set (lenient_strings (au_manifest a) ''reads'') \<subseteq> set r"
    using ar lr sub by (auto simp: list_ex_iff)
  show "\<exists>w. allowed_writes (au_mode a) = Some w \<and> set (lenient_strings (au_manifest a) ''writes'') \<subseteq> set w"
    using aw lw wsub by (auto simp: list_ex_iff)
  show "Option.bind (json_get (au_manifest a) ''network_destinations'') as_array = Some []"
    using net by (rule manifest_strings_empty)
  show "\<exists>b. authority_budget a = Inr b" by (rule bud)
qed

lemma validate_authority_Inr:
  assumes "validate_authority E a = Inr x"
  shows "\<not> au_revoked a" and "au_mode a \<in> {Inspect, Audit, Draft}"
    and "au_subject_id a = ''action_'' @ au_snapshot_id a"
    and "\<exists>t. parse_rfc3339 E (au_approved_at a) = Some t \<and> t \<le> now E"
    and "\<And>s. au_expires_at a = Some s \<Longrightarrow> \<exists>t. parse_rfc3339 E s = Some t \<and> now E < t"
    and "\<exists>c. canonical_json E (au_manifest a) = Inr c
           \<and> au_manifest_digest a = ''sha256:'' @ hex_encode (sha256 E c)"
    and "is_ok (validate_entity_id E (au_authority_id a) ''auth'')"
    and "is_ok (validate_digest (au_manifest_digest a))"
    and "is_ok (validate_snapshot_id (au_snapshot_id a))"
    and "validate_scope a = Inr ()"
  using assms
  by (auto simp: validate_authority_def result_simps split: if_splits option.splits)
    (cases "au_mode a"; simp)+

end
