(* ===== verification/Core_Store.thy ===== *)
theory Core_Store
  imports Core_Authority
begin

text \<open>
  The durable state of the trusted core (\<open>promptectomy-core/src/lib.rs\<close>): the SQLite tables
  of \<open>create_rust_schema\<close> as lists of rows in insertion order, the projections
  \<open>CoreStore::run\<close>, \<open>stage\<close> and \<open>artifact\<close> that parse a row back, and the primitives every
  mutation is composed of: \<open>append_event\<close>, \<open>replay_idempotency\<close>, \<open>save_idempotency\<close>,
  \<open>require_run_action\<close> and \<open>revoke_run_authority\<close>. An INSERT that violates a key of the
  schema is the engine's error, which the code reports as \<open>state_unavailable\<close>.
\<close>

section \<open>Tables\<close>

record run_row =
  r_run_id :: string
  r_snapshot_id :: string
  r_mode :: string
  r_status :: string
  r_counters :: string
  r_budgets :: string
  r_cleanup_state :: string
  r_created_at :: string
  r_started_at :: "string option"
  r_terminal_at :: "string option"
  r_last_sequence :: int
  r_receipt_id :: "string option"
  r_authority_id :: string
  r_authority_digest :: string
  r_authority_contract :: "string option"
  r_legacy_report_only :: int

record stage_row =
  s_stage_id :: string
  s_run_id :: string
  s_kind :: string
  s_state :: string
  s_attempt :: int
  s_max_attempts :: int
  s_retryable :: int
  s_lease :: "string option"

record event_row =
  e_event_id :: string
  e_run_id :: string
  e_sequence :: int
  e_occurred_at :: string
  e_type :: string
  e_payload :: string
  e_artifact_refs :: string

record artifact_row =
  a_artifact_id :: string
  a_byte_count :: int
  a_media_type :: string
  a_class :: string
  a_created_by :: string
  a_policy_digest :: string
  a_pinned :: int
  a_complete :: int
  a_quarantined :: int
  a_retention :: "int option"

record ref_row =
  f_artifact_id :: string
  f_entity_id :: string
  f_purpose :: string

record idem_row =
  i_run_id :: string
  i_operation :: string
  i_key :: string
  i_request_digest :: string
  i_response :: string

text \<open>
  A name in the content-addressed directory is a regular file or a symbolic link; a link
  carries what reading through it gives (\<open>None\<close> when it dangles).
\<close>

datatype cas_node = RegularFile string | SymbolicLink "string option"

record store =
  t_runs :: "run_row list"
  t_stages :: "stage_row list"
  t_events :: "event_row list"
  t_artifacts :: "artifact_row list"
  t_refs :: "ref_row list"
  t_idempotency :: "idem_row list"
  t_issued :: nat
  t_cas :: "string \<Rightarrow> cas_node option"

definition empty_store :: store where
  "empty_store = \<lparr>t_runs = [], t_stages = [], t_events = [], t_artifacts = [], t_refs = [],
     t_idempotency = [], t_issued = 0, t_cas = (\<lambda>_. None)\<rparr>"

definition unavailable :: core_error where
  "unavailable = safe_error ''state_unavailable''"

definition corrupt :: core_error where
  "corrupt = safe_error ''state_corrupt''"

definition update_run :: "string \<Rightarrow> (run_row \<Rightarrow> run_row) \<Rightarrow> store \<Rightarrow> store" where
  "update_run rid f d = d\<lparr>t_runs := map (\<lambda>r. if r_run_id r = rid then f r else r) (t_runs d)\<rparr>"

definition update_stages :: "(stage_row \<Rightarrow> bool) \<Rightarrow> (stage_row \<Rightarrow> stage_row) \<Rightarrow> store \<Rightarrow> store" where
  "update_stages p f d = d\<lparr>t_stages := map (\<lambda>s. if p s then f s else s) (t_stages d)\<rparr>"

definition find_run :: "store \<Rightarrow> string \<Rightarrow> run_row option" where
  "find_run d rid = find (\<lambda>r. r_run_id r = rid) (t_runs d)"

definition find_stage :: "store \<Rightarrow> string \<Rightarrow> stage_row option" where
  "find_stage d sid = find (\<lambda>s. s_stage_id s = sid) (t_stages d)"

definition find_artifact :: "store \<Rightarrow> string \<Rightarrow> artifact_row option" where
  "find_artifact d aid = find (\<lambda>a. a_artifact_id a = aid) (t_artifacts d)"

section \<open>SQL integers\<close>

definition sql_i64 :: "u64 \<Rightarrow> core_error + int" where
  "sql_i64 v = (if uint v < 2 ^ 63 then Inr (uint v) else Inl (safe_error ''budget_exceeded''))"

definition sql_u64 :: "int \<Rightarrow> core_error + u64" where
  "sql_u64 n = (if n < 0 then Inl corrupt else Inr (word_of_int n))"

definition sql_bool :: "int \<Rightarrow> core_error + bool" where
  "sql_bool n = (if n = 0 then Inr False else if n = 1 then Inr True else Inl corrupt)"

definition of_bool_sql :: "bool \<Rightarrow> int" where
  "of_bool_sql b = (if b then 1 else 0)"

lemma sql_bool_of_bool [simp]: "sql_bool (of_bool_sql b) = Inr b"
  by (simp add: sql_bool_def of_bool_sql_def)

lemma sql_u64_i64: "sql_i64 v = Inr n \<Longrightarrow> sql_u64 n = Inr v"
  by (auto simp: sql_i64_def sql_u64_def split: if_splits)

section \<open>Leases and projections\<close>

record lease =
  l_owner :: string
  l_heartbeat_ms :: u64
  l_deadline_ms :: u64

definition lease_to_json :: "lease \<Rightarrow> json" where
  "lease_to_json l = json_object
     [(''owner'', JStr (l_owner l)),
      (''heartbeat_ms'', JInt (uint (l_heartbeat_ms l))),
      (''deadline_ms'', JInt (uint (l_deadline_ms l)))]"

definition lease_of_json :: "json \<Rightarrow> lease option" where
  "lease_of_json v =
     (case (case v of
              JArr [a, b, c] \<Rightarrow> (as_str a, as_u64 b, as_u64 c)
            | _ \<Rightarrow> (field_str v ''owner'', field_u64 v ''heartbeat_ms'', field_u64 v ''deadline_ms'')) of
        (Some ow, Some h, Some dl) \<Rightarrow> Some \<lparr>l_owner = ow, l_heartbeat_ms = h, l_deadline_ms = dl\<rparr>
      | _ \<Rightarrow> None)"

lemma lease_of_to_json [simp]: "lease_of_json (lease_to_json l) = Some l"
  by (simp add: lease_of_json_def lease_to_json_def json_object_def field_str_def field_u64_def
      del: as_u64.simps)

definition ledger_of_text :: "env \<Rightarrow> string \<Rightarrow> core_error + budget_ledger" where
  "ledger_of_text E s = ok_or corrupt (Option.bind (of_text E s) ledger_of_json)"

definition lease_of_text :: "env \<Rightarrow> string \<Rightarrow> core_error + lease" where
  "lease_of_text E s = ok_or corrupt (Option.bind (of_text E s) lease_of_json)"

definition ledger_text :: "env \<Rightarrow> budget_ledger \<Rightarrow> string" where
  "ledger_text E b = to_text E (ledger_to_json b)"

definition lease_text :: "env \<Rightarrow> lease \<Rightarrow> string" where
  "lease_text E l = to_text E (lease_to_json l)"

record run_projection =
  rp_run_id :: string
  rp_snapshot_id :: string
  rp_mode :: authority_mode
  rp_status :: run_status
  rp_counters :: budget_ledger
  rp_budgets :: budget_ledger
  rp_cleanup_state :: cleanup_state
  rp_last_sequence :: u64
  rp_receipt_id :: "string option"
  rp_authority_id :: string
  rp_authority_digest :: string
  rp_legacy_report_only :: bool

record stage_projection =
  sp_stage_id :: string
  sp_run_id :: string
  sp_kind :: string
  sp_state :: stage_state
  sp_attempt :: u64
  sp_max_attempts :: u64
  sp_retryable :: bool
  sp_lease :: "lease option"

record artifact_record =
  ar_artifact_id :: string
  ar_byte_count :: u64
  ar_media_type :: string
  ar_class :: artifact_class
  ar_created_by :: string
  ar_policy_digest :: string
  ar_pinned :: bool
  ar_complete :: bool
  ar_quarantined :: bool
  ar_retention_until_ms :: "u64 option"

definition project_run :: "env \<Rightarrow> run_row \<Rightarrow> core_error + run_projection" where
  "project_run E r =
     bindE (validate_entity_id E (r_run_id r) ''run'') (\<lambda>_.
     bindE (validate_snapshot_id (r_snapshot_id r)) (\<lambda>_.
     bindE (validate_entity_id E (r_authority_id r) ''auth'') (\<lambda>_.
     bindE (sql_bool (r_legacy_report_only r)) (\<lambda>legacy.
     bindE (if \<not> legacy then validate_digest (r_authority_digest r)
            else if r_authority_digest r \<noteq> [] then Inl corrupt else Inr ()) (\<lambda>_.
     bindE (parse_mode (r_mode r)) (\<lambda>mode.
     bindE (run_parse (r_status r)) (\<lambda>status.
     bindE (ledger_of_text E (r_counters r)) (\<lambda>counters.
     bindE (ledger_of_text E (r_budgets r)) (\<lambda>budgets.
     bindE (parse_cleanup (r_cleanup_state r)) (\<lambda>cleanup.
     bindE (sql_u64 (r_last_sequence r)) (\<lambda>last_sequence.
       Inr \<lparr>rp_run_id = r_run_id r, rp_snapshot_id = r_snapshot_id r, rp_mode = mode,
            rp_status = status, rp_counters = counters, rp_budgets = budgets,
            rp_cleanup_state = cleanup, rp_last_sequence = last_sequence,
            rp_receipt_id = r_receipt_id r, rp_authority_id = r_authority_id r,
            rp_authority_digest = r_authority_digest r, rp_legacy_report_only = legacy\<rparr>)))))))))))"

definition read_run :: "env \<Rightarrow> store \<Rightarrow> string \<Rightarrow> core_error + run_projection" where
  "read_run E d rid =
     bindE (validate_entity_id E rid ''run'') (\<lambda>_.
     bindE (ok_or corrupt (find_run d rid)) (project_run E))"

definition project_stage :: "env \<Rightarrow> stage_row \<Rightarrow> core_error + stage_projection" where
  "project_stage E s =
     bindE (stage_parse (s_state s)) (\<lambda>state.
     bindE (sql_u64 (s_attempt s)) (\<lambda>att.
     bindE (sql_u64 (s_max_attempts s)) (\<lambda>max_att.
     bindE (sql_bool (s_retryable s)) (\<lambda>retryable.
     bindE (case s_lease s of None \<Rightarrow> Inr None
            | Some t \<Rightarrow> bindE (lease_of_text E t) (\<lambda>l. Inr (Some l))) (\<lambda>ls.
       Inr \<lparr>sp_stage_id = s_stage_id s, sp_run_id = s_run_id s, sp_kind = s_kind s,
            sp_state = state, sp_attempt = att, sp_max_attempts = max_att,
            sp_retryable = retryable, sp_lease = ls\<rparr>)))))"

definition read_stage :: "env \<Rightarrow> store \<Rightarrow> string \<Rightarrow> core_error + stage_projection" where
  "read_stage E d sid =
     bindE (validate_entity_id E sid ''stage'') (\<lambda>_.
     bindE (ok_or corrupt (find_stage d sid)) (project_stage E))"

text \<open>\<open>ORDER BY kind, stage_id\<close> under SQLite's binary collation.\<close>

definition read_stages :: "env \<Rightarrow> store \<Rightarrow> string \<Rightarrow> core_error + stage_projection list" where
  "read_stages E d rid =
     traverse (read_stage E d)
       (map s_stage_id
         (sort_key (\<lambda>s. (s_kind s, s_stage_id s)) (filter (\<lambda>s. s_run_id s = rid) (t_stages d))))"

definition project_artifact :: "artifact_row \<Rightarrow> core_error + artifact_record" where
  "project_artifact a =
     bindE (sql_u64 (a_byte_count a)) (\<lambda>n.
     bindE (class_parse (a_class a)) (\<lambda>c.
     bindE (sql_bool (a_pinned a)) (\<lambda>pinned.
     bindE (sql_bool (a_complete a)) (\<lambda>compl.
     bindE (sql_bool (a_quarantined a)) (\<lambda>quarantined.
     bindE (case a_retention a of None \<Rightarrow> Inr None
            | Some t \<Rightarrow> bindE (sql_u64 t) (\<lambda>w. Inr (Some w))) (\<lambda>retention.
       Inr \<lparr>ar_artifact_id = a_artifact_id a, ar_byte_count = n, ar_media_type = a_media_type a,
            ar_class = c, ar_created_by = a_created_by a, ar_policy_digest = a_policy_digest a,
            ar_pinned = pinned, ar_complete = compl, ar_quarantined = quarantined,
            ar_retention_until_ms = retention\<rparr>))))))"

definition read_artifact_record :: "store \<Rightarrow> string \<Rightarrow> core_error + artifact_record" where
  "read_artifact_record d aid =
     bindE (validate_artifact_id aid) (\<lambda>_.
     bindE (ok_or (safe_error ''artifact_invalid'') (find_artifact d aid)) project_artifact)"

text \<open>\<open>artifacts_for_run\<close>: artifacts referenced by the run, its events or its stages.\<close>

definition run_entities :: "store \<Rightarrow> string \<Rightarrow> string set" where
  "run_entities d rid =
     {rid} \<union> set (map e_event_id (filter (\<lambda>e. e_run_id e = rid) (t_events d)))
       \<union> set (map s_stage_id (filter (\<lambda>s. s_run_id s = rid) (t_stages d)))"

definition artifacts_for_run :: "env \<Rightarrow> store \<Rightarrow> string \<Rightarrow> core_error + artifact_record list" where
  "artifacts_for_run E d rid =
     bindE (read_run E d rid) (\<lambda>_.
       traverse (read_artifact_record d)
         (sort (remdups
           (map a_artifact_id
             (filter (\<lambda>a. list_ex (\<lambda>f. f_artifact_id f = a_artifact_id a
                                     \<and> f_entity_id f \<in> run_entities d rid) (t_refs d))
               (t_artifacts d))))))"

text \<open>\<open>list_runs\<close>: newest first.\<close>

definition list_runs :: "env \<Rightarrow> store \<Rightarrow> core_error + run_projection list" where
  "list_runs E d =
     traverse (read_run E d)
       (map r_run_id (rev (sort_key (\<lambda>r. (r_created_at r, r_run_id r)) (t_runs d))))"

section \<open>Identifiers and the clock\<close>

definition prefixed_id :: "env \<Rightarrow> string \<Rightarrow> store \<Rightarrow> string" where
  "prefixed_id E pre d = pre @ ''_'' @ uuid_v7 E (t_issued d)"

definition draw_id :: "store \<Rightarrow> store" where
  "draw_id d = d\<lparr>t_issued := Suc (t_issued d)\<rparr>"

definition now_rfc3339 :: "env \<Rightarrow> core_error + string" where
  "now_rfc3339 E = ok_or unavailable (now_text E)"

section \<open>Idempotency keys\<close>

record idempotency_request =
  q_operation :: string
  q_key :: string
  q_digest :: string

definition make_idempotency_request ::
  "env \<Rightarrow> string \<Rightarrow> string \<Rightarrow> json \<Rightarrow> core_error + idempotency_request" where
  "make_idempotency_request E operation key v =
     (if \<not> valid_idempotency_key key then Inl (safe_error ''idempotency_conflict'')
      else bindE (map_err (\<lambda>_. safe_error ''idempotency_conflict'') (canonical_json E v)) (\<lambda>c.
        Inr \<lparr>q_operation = operation, q_key = key,
             q_digest = ''sha256:'' @ hex_encode (sha256 E c)\<rparr>))"

definition find_idempotency :: "store \<Rightarrow> idempotency_request \<Rightarrow> idem_row option" where
  "find_idempotency d q =
     find (\<lambda>i. i_operation i = q_operation q \<and> i_key i = q_key q) (t_idempotency d)"

definition replay_idempotency ::
  "store \<Rightarrow> idempotency_request option \<Rightarrow> core_error + string option" where
  "replay_idempotency d req =
     (case req of
        None \<Rightarrow> Inr None
      | Some q \<Rightarrow>
          (case find_idempotency d q of
             Some row \<Rightarrow>
               (if i_request_digest row = q_digest q then Inr (Some (i_response row))
                else Inl (safe_error ''idempotency_conflict''))
           | None \<Rightarrow> Inr None))"

definition save_idempotency ::
  "store \<Rightarrow> string \<Rightarrow> idempotency_request option \<Rightarrow> string \<Rightarrow> core_error + store" where
  "save_idempotency d rid req response =
     (case req of
        None \<Rightarrow> Inr d
      | Some q \<Rightarrow>
          (if find_idempotency d q \<noteq> None \<or> find_run d rid = None then Inl unavailable
           else Inr (d\<lparr>t_idempotency := t_idempotency d @
             [\<lparr>i_run_id = rid, i_operation = q_operation q, i_key = q_key q,
               i_request_digest = q_digest q, i_response = response\<rparr>]\<rparr>)))"

section \<open>Authority of a run\<close>

definition require_run_action ::
  "env \<Rightarrow> store \<Rightarrow> string \<Rightarrow> authority_action \<Rightarrow> core_error + unit" where
  "require_run_action E d rid action =
     bindE (ok_or unavailable (find_run d rid)) (\<lambda>r.
     bindE (sql_bool (r_legacy_report_only r)) (\<lambda>legacy.
       if legacy then Inl denied
       else
         bindE (ok_or corrupt (r_authority_contract r)) (\<lambda>contract.
         bindE (from_contract_json E (r_snapshot_id r) contract) (\<lambda>a.
           if au_authority_id a \<noteq> r_authority_id r
              \<or> au_manifest_digest a \<noteq> r_authority_digest r
              \<or> \<not> permits E a action
           then Inl denied else Inr ()))))"

definition canonical_text :: "env \<Rightarrow> json \<Rightarrow> core_error + string" where
  "canonical_text E v =
     bindE (map_err (\<lambda>_. corrupt) (canonical_json E v)) (\<lambda>b.
       if utf8_valid b then Inr b else Inl corrupt)"

lemma canonical_text_Inr: "canonical_text E v = Inr s \<longleftrightarrow> canonical_json E v = Inr s \<and> utf8_valid s"
  by (auto simp: canonical_text_def result_simps)

text \<open>
  \<open>value["revoked"] = true\<close>: an object gets the member, null becomes an object; anything else
  panics in \<open>serde_json\<close>, which is an error of its own here.
\<close>

definition set_revoked :: "json \<Rightarrow> core_error + json" where
  "set_revoked v =
     (case v of
        JObj ob \<Rightarrow> Inr (JObj (obj_insert ''revoked'' (JBool True) ob))
      | JNull \<Rightarrow> Inr (JObj [(''revoked'', JBool True)])
      | _ \<Rightarrow> Inl (safe_error ''panic''))"

definition revoke_run_authority :: "env \<Rightarrow> store \<Rightarrow> string \<Rightarrow> core_error + store" where
  "revoke_run_authority E d rid =
     bindE (ok_or unavailable (find_run d rid)) (\<lambda>r.
       case r_authority_contract r of
         None \<Rightarrow> Inr d
       | Some contract \<Rightarrow>
           bindE (map_err (\<lambda>_. corrupt) (parse_strict_json E contract MAX_SAFE_JSON_BYTES)) (\<lambda>v.
           bindE (set_revoked v) (\<lambda>v'.
           bindE (canonical_text E v') (\<lambda>txt.
             Inr (update_run rid (\<lambda>r. r\<lparr>r_authority_contract := Some txt\<rparr>) d)))))"

section \<open>Events\<close>

text \<open>
  \<open>last_sequence + 1\<close> beyond the range of a 64-bit integer becomes a REAL in SQLite, which
  the typed read refuses.
\<close>

definition insert_event :: "event_row \<Rightarrow> store \<Rightarrow> core_error + store" where
  "insert_event e d =
     (if list_ex (\<lambda>x. e_event_id x = e_event_id e
                    \<or> (e_run_id x = e_run_id e \<and> e_sequence x = e_sequence e)) (t_events d)
         \<or> find_run d (e_run_id e) = None
      then Inl unavailable
      else Inr (d\<lparr>t_events := t_events d @ [e]\<rparr>))"

definition append_event ::
  "env \<Rightarrow> string \<Rightarrow> string \<Rightarrow> json \<Rightarrow> string list \<Rightarrow> store \<Rightarrow> core_error + store" where
  "append_event E rid event_type payload refs d =
     bindE (ok_or unavailable (find_run d rid)) (\<lambda>r.
       if r_last_sequence r + 1 \<ge> 2 ^ 63 then Inl unavailable
       else
         bindE (now_rfc3339 E) (\<lambda>occurred.
         bindE (insert_event
                  \<lparr>e_event_id = prefixed_id E ''evt'' d, e_run_id = rid,
                   e_sequence = r_last_sequence r + 1, e_occurred_at = occurred,
                   e_type = event_type, e_payload = to_text E payload,
                   e_artifact_refs = to_text E (JArr (map JStr refs))\<rparr>
                  (draw_id d)) (\<lambda>d1.
           Inr (update_run rid (\<lambda>x. x\<lparr>r_last_sequence := r_last_sequence r + 1\<rparr>) d1))))"

end
