(* ===== verification/Core_Runs.thy ===== *)
theory Core_Runs
  imports Core_Store
begin

text \<open>
  The mutations of \<open>CoreStore\<close> on runs and stages (\<open>promptectomy-core/src/lib.rs\<close>): one
  definition per \<open>..._inner\<close> method, with its guards in the source's order, its transaction
  (the second argument of the last \<open>attempt\<close>: an error there leaves the store as it was) and
  the read that follows the commit. \<open>None\<close> as the idempotency request is the plain method,
  \<open>Some\<close> the \<open>..._idempotent\<close> one, which builds the request first.
\<close>

type_synonym 'a outcome = "(core_error + 'a) \<times> store"

text \<open>A matching earlier request answers with a read of what it named.\<close>

definition with_replay ::
  "store \<Rightarrow> idempotency_request option \<Rightarrow> (string \<Rightarrow> core_error + 'a) \<Rightarrow> 'a outcome \<Rightarrow> 'a outcome" where
  "with_replay d idem read_back fresh =
     attempt d (replay_idempotency d idem) (\<lambda>replayed.
       case replayed of Some response \<Rightarrow> (read_back response, d) | None \<Rightarrow> fresh)"

text \<open>
  The early return of a request that is already satisfied. The source opens a transaction
  only when there is a key to record; without one, saving is the identity.
\<close>

definition already_done ::
  "store \<Rightarrow> string \<Rightarrow> idempotency_request option \<Rightarrow> string \<Rightarrow> 'a \<Rightarrow> 'a outcome" where
  "already_done d rid idem response current =
     attempt d (save_idempotency d rid idem response) (\<lambda>d'. (Inr current, d'))"

section \<open>Creating runs and stages\<close>

definition insert_run :: "run_row \<Rightarrow> store \<Rightarrow> core_error + store" where
  "insert_run r d =
     (if find_run d (r_run_id r) \<noteq> None then Inl unavailable
      else Inr (d\<lparr>t_runs := t_runs d @ [r]\<rparr>))"

definition create_run_inner ::
  "env \<Rightarrow> authority_manifest \<Rightarrow> budget_ledger \<Rightarrow> idempotency_request option \<Rightarrow> store
     \<Rightarrow> run_projection outcome" where
  "create_run_inner E authority budgets idem d =
     with_replay d idem (read_run E d)
       (if au_mode authority = Apply \<or> au_mode authority = Integrate
        then (Inl (safe_error ''invalid_authority_mode''), d)
        else
          attempt d (validate_authority E authority) (\<lambda>_.
          attempt d (authority_budget authority) (\<lambda>approved.
            if ledger_exceeds budgets approved then (Inl (safe_error ''budget_exceeded''), d)
            else
              let rid = prefixed_id E ''run'' d; d0 = draw_id d in
              attempt d (validate_entity_id E rid ''run'') (\<lambda>_.
              attempt d (now_rfc3339 E) (\<lambda>created.
              attempt d (canonical_text E (contract_value authority)) (\<lambda>contract.
              attempt d
                (bindE (insert_run
                   \<lparr>r_run_id = rid, r_snapshot_id = au_snapshot_id authority,
                    r_mode = mode_as_str (au_mode authority), r_status = ''created'',
                    r_counters = ledger_text E ledger_default, r_budgets = ledger_text E budgets,
                    r_cleanup_state = ''pending'', r_created_at = created,
                    r_started_at = None, r_terminal_at = None, r_last_sequence = 0,
                    r_receipt_id = None, r_authority_id = au_authority_id authority,
                    r_authority_digest = au_manifest_digest authority,
                    r_authority_contract = Some contract, r_legacy_report_only = 0\<rparr> d0) (\<lambda>d1.
                 bindE (append_event E rid ''run.created''
                   (json_object
                     [(''authority_id'', JStr (au_authority_id authority)),
                      (''authority_digest'', JStr (au_manifest_digest authority)),
                      (''mode'', JStr (mode_as_str (au_mode authority))),
                      (''snapshot_id'', JStr (au_snapshot_id authority))]) [] d1) (\<lambda>d2.
                 save_idempotency d2 rid idem rid)))
                (\<lambda>d3. (read_run E d3 rid, d3))))))))"

definition insert_stage :: "stage_row \<Rightarrow> store \<Rightarrow> core_error + store" where
  "insert_stage s d =
     (if find_stage d (s_stage_id s) \<noteq> None \<or> find_run d (s_run_id s) = None then Inl unavailable
      else Inr (d\<lparr>t_stages := t_stages d @ [s]\<rparr>))"

definition add_stage_inner ::
  "env \<Rightarrow> string \<Rightarrow> string \<Rightarrow> u64 \<Rightarrow> idempotency_request option \<Rightarrow> store
     \<Rightarrow> stage_projection outcome" where
  "add_stage_inner E rid kind max_attempts idem d =
     with_replay d idem (read_stage E d)
       (if max_attempts = 0 \<or> \<not> is_safe_name kind 64 then (Inl corrupt, d)
        else
          attempt d (read_run E d rid) (\<lambda>run.
          attempt d (require_run_action E d rid WriteState) (\<lambda>_.
            if run_is_terminal (rp_status run) then (Inl (safe_error ''invalid_transition''), d)
            else
              let sid = prefixed_id E ''stage'' d; d0 = draw_id d in
              attempt d (validate_entity_id E sid ''stage'') (\<lambda>_.
              attempt d
                (bindE (sql_i64 max_attempts) (\<lambda>max_sql.
                 bindE (insert_stage
                   \<lparr>s_stage_id = sid, s_run_id = rid, s_kind = kind, s_state = ''created'',
                    s_attempt = 0, s_max_attempts = max_sql, s_retryable = 1, s_lease = None\<rparr> d0) (\<lambda>d1.
                 bindE (append_event E rid ''stage.created''
                   (json_object [(''stage_id'', JStr sid), (''kind'', JStr kind)]) [] d1) (\<lambda>d2.
                 save_idempotency d2 rid idem sid))))
                (\<lambda>d3. (read_stage E d3 sid, d3))))))"

section \<open>Transitions\<close>

definition set_run_status :: "run_status \<Rightarrow> string \<Rightarrow> run_row \<Rightarrow> run_row" where
  "set_run_status nxt stamp r = r\<lparr>
     r_status := run_as_str nxt,
     r_started_at := (if nxt = Running \<and> r_started_at r = None then Some stamp else r_started_at r),
     r_terminal_at := (if run_is_terminal nxt then Some stamp else r_terminal_at r)\<rparr>"

definition transition_run_inner ::
  "env \<Rightarrow> string \<Rightarrow> run_status \<Rightarrow> idempotency_request option \<Rightarrow> store \<Rightarrow> run_projection outcome" where
  "transition_run_inner E rid nxt idem d =
     with_replay d idem (read_run E d)
       (attempt d (read_run E d rid) (\<lambda>current.
        attempt d (require_run_action E d rid WriteState) (\<lambda>_.
          if rp_status current = nxt then already_done d rid idem rid current
          else if \<not> run_can_transition (rp_status current) nxt
          then (Inl (safe_error ''invalid_transition''), d)
          else
            attempt d
              (bindE (now_rfc3339 E) (\<lambda>stamp.
               bindE (append_event E rid ''run.transitioned''
                        (json_object [(''status'', JStr (run_as_str nxt))]) []
                        (update_run rid (set_run_status nxt stamp) d)) (\<lambda>d1.
               save_idempotency d1 rid idem rid)))
              (\<lambda>d2. (read_run E d2 rid, d2)))))"

definition set_stage_state :: "stage_state \<Rightarrow> int \<Rightarrow> stage_row \<Rightarrow> stage_row" where
  "set_stage_state nxt att s = s\<lparr>
     s_state := stage_as_str nxt,
     s_attempt := att,
     s_lease := (if nxt = StRunning then s_lease s else None)\<rparr>"

definition transition_stage_inner ::
  "env \<Rightarrow> string \<Rightarrow> stage_state \<Rightarrow> idempotency_request option \<Rightarrow> store \<Rightarrow> stage_projection outcome" where
  "transition_stage_inner E sid nxt idem d =
     with_replay d idem (read_stage E d)
       (attempt d (read_stage E d sid) (\<lambda>current.
        attempt d (require_run_action E d (sp_run_id current) WriteState) (\<lambda>_.
          if sp_state current = nxt then already_done d (sp_run_id current) idem sid current
          else if \<not> stage_can_transition (sp_state current) nxt
          then (Inl (safe_error ''invalid_transition''), d)
          else
            attempt d
              (if nxt = StRunning
               then ok_or (safe_error ''budget_exceeded'') (checked_add_u64 (sp_attempt current) 1)
               else Inr (sp_attempt current)) (\<lambda>next_attempt.
              if next_attempt > sp_max_attempts current then (Inl (safe_error ''budget_exceeded''), d)
              else
                attempt d
                  (bindE (sql_i64 next_attempt) (\<lambda>att.
                   bindE (append_event E (sp_run_id current) ''stage.transitioned''
                            (json_object [(''stage_id'', JStr sid), (''state'', JStr (stage_as_str nxt))]) []
                            (update_stages (\<lambda>s. s_stage_id s = sid) (set_stage_state nxt att) d)) (\<lambda>d1.
                   save_idempotency d1 (sp_run_id current) idem sid)))
                  (\<lambda>d2. (read_stage E d2 sid, d2))))))"

section \<open>Budgets\<close>

text \<open>\<open>record_budget\<close> and \<open>record_budget_idempotent\<close> differ in the request only.\<close>

definition record_budget_inner ::
  "env \<Rightarrow> string \<Rightarrow> budget_ledger \<Rightarrow> idempotency_request option \<Rightarrow> store \<Rightarrow> run_projection outcome" where
  "record_budget_inner E rid delta idem d =
     with_replay d idem (read_run E d)
       (attempt d (read_run E d rid) (\<lambda>run.
        attempt d (require_run_action E d rid WriteState) (\<lambda>_.
        attempt d (ledger_checked_add (rp_counters run) delta (rp_budgets run)) (\<lambda>next_ledger.
        attempt d
          (bindE (append_event E rid ''budget.recorded''
                    (json_object [(''counters'', ledger_to_json next_ledger)]) []
                    (update_run rid (\<lambda>r. r\<lparr>r_counters := ledger_text E next_ledger\<rparr>) d)) (\<lambda>d1.
           save_idempotency d1 rid idem rid))
          (\<lambda>d2. (read_run E d2 rid, d2))))))"

section \<open>Leases\<close>

definition valid_lease_owner :: "string \<Rightarrow> bool" where
  "valid_lease_owner ow \<longleftrightarrow> ow \<noteq> [] \<and> length ow \<le> 256 \<and> \<not> has_control ow"

text \<open>A lease that is still live at \<open>now_ms\<close>.\<close>

definition live_lease :: "stage_projection \<Rightarrow> u64 \<Rightarrow> lease option" where
  "live_lease current now_ms =
     (case sp_lease current of
        None \<Rightarrow> None
      | Some l \<Rightarrow> if l_deadline_ms l > now_ms then Some l else None)"

definition acquire_lease_inner ::
  "env \<Rightarrow> string \<Rightarrow> string \<Rightarrow> u64 \<Rightarrow> u64 \<Rightarrow> idempotency_request option \<Rightarrow> store
     \<Rightarrow> stage_projection outcome" where
  "acquire_lease_inner E sid ow now_ms ttl_ms idem d =
     with_replay d idem (read_stage E d)
       (if \<not> valid_lease_owner ow \<or> ttl_ms = 0 then (Inl (safe_error ''lease_conflict''), d)
        else
          attempt d (read_stage E d sid) (\<lambda>current.
          attempt d (require_run_action E d (sp_run_id current) WriteState) (\<lambda>_.
            let rid = sp_run_id current;
                take_over =
                  attempt d (ok_or (safe_error ''budget_exceeded'') (checked_add_u64 (sp_attempt current) 1)) (\<lambda>nxt.
                    if nxt > sp_max_attempts current then (Inl (safe_error ''budget_exceeded''), d)
                    else
                      attempt d (ok_or (safe_error ''budget_exceeded'') (checked_add_u64 now_ms ttl_ms)) (\<lambda>deadline.
                      attempt d
                        (bindE (append_event E rid ''stage.lease_acquired''
                                  (json_object [(''stage_id'', JStr sid)]) []
                                  (update_stages (\<lambda>s. s_stage_id s = sid)
                                    (\<lambda>s. s\<lparr>s_state := ''running'', s_attempt := s_attempt s + 1,
                                          s_lease := Some (lease_text E
                                            \<lparr>l_owner = ow, l_heartbeat_ms = now_ms, l_deadline_ms = deadline\<rparr>)\<rparr>) d)) (\<lambda>d1.
                         save_idempotency d1 rid idem sid))
                        (\<lambda>d2. (read_stage E d2 sid, d2))))
            in if sp_state current = StRunning then
                 (case live_lease current now_ms of
                    Some l \<Rightarrow>
                      (if l_owner l = ow then already_done d rid idem sid current
                       else (Inl (safe_error ''lease_conflict''), d))
                  | None \<Rightarrow> take_over)
               else if sp_state current \<noteq> StQueued then (Inl (safe_error ''invalid_transition''), d)
               else take_over)))"

text \<open>The rows of \<open>state='running' AND lease IS NOT NULL\<close> whose lease has run out.\<close>

fun expired_leases :: "env \<Rightarrow> u64 \<Rightarrow> stage_row list \<Rightarrow> core_error + (string \<times> string) list" where
  "expired_leases E now_ms [] = Inr []"
| "expired_leases E now_ms (s # ss) =
     (case s_lease s of
        Some t \<Rightarrow>
          if s_state s = ''running'' then
            bindE (lease_of_text E t) (\<lambda>l.
            bindE (expired_leases E now_ms ss) (\<lambda>rest.
              Inr (if l_deadline_ms l \<le> now_ms then (s_stage_id s, s_run_id s) # rest else rest)))
          else expired_leases E now_ms ss
      | None \<Rightarrow> expired_leases E now_ms ss)"

definition interrupt_stage :: "env \<Rightarrow> string \<times> string \<Rightarrow> store \<Rightarrow> core_error + store" where
  "interrupt_stage E entry d =
     (case entry of (sid, rid) \<Rightarrow>
        bindE (now_rfc3339 E) (\<lambda>stamp.
          append_event E rid ''stage.lease_expired'' (json_object [(''stage_id'', JStr sid)]) []
            (update_run rid
               (\<lambda>r. if r_status r = ''running''
                     then r\<lparr>r_status := ''interrupted'', r_terminal_at := Some stamp\<rparr> else r)
               (update_stages (\<lambda>s. s_stage_id s = sid)
                  (\<lambda>s. s\<lparr>s_state := ''interrupted'', s_lease := None\<rparr>) d))))"

fun interrupt_stages :: "env \<Rightarrow> (string \<times> string) list \<Rightarrow> store \<Rightarrow> core_error + store" where
  "interrupt_stages E [] d = Inr d"
| "interrupt_stages E (x # xs) d = bindE (interrupt_stage E x d) (interrupt_stages E xs)"

definition recover_expired_leases :: "env \<Rightarrow> u64 \<Rightarrow> bool \<Rightarrow> store \<Rightarrow> nat outcome" where
  "recover_expired_leases E now_ms worker_absence_verified d =
     (if \<not> worker_absence_verified then (Inl (safe_error ''lease_conflict''), d)
      else
        attempt d (expired_leases E now_ms (t_stages d)) (\<lambda>expired.
        attempt d (interrupt_stages E expired d) (\<lambda>d'. (Inr (length expired), d'))))"

section \<open>Cancellation and cleanup\<close>

definition settled_stage_texts :: "string list" where
  "settled_stage_texts = [''completed'', ''failed'', ''cancelled'', ''interrupted'']"

definition request_cancel_inner ::
  "env \<Rightarrow> string \<Rightarrow> idempotency_request option \<Rightarrow> store \<Rightarrow> run_projection outcome" where
  "request_cancel_inner E rid idem d =
     with_replay d idem (read_run E d)
       (attempt d (read_run E d rid) (\<lambda>run.
          if rp_status run = Cancelled \<or> rp_status run = Cancelling
          then already_done d rid idem rid run
          else if run_is_terminal (rp_status run) then (Inl (safe_error ''invalid_transition''), d)
          else
            attempt d
              (bindE (revoke_run_authority E d rid) (\<lambda>d1.
               bindE (append_event E rid ''run.cancelling'' (json_object []) []
                 (update_run rid (\<lambda>r. r\<lparr>r_status := ''cancelling''\<rparr>)
                   (update_stages
                     (\<lambda>s. s_run_id s = rid \<and> s_state s \<notin> set settled_stage_texts)
                     (\<lambda>s. s\<lparr>s_state := (if s_state s = ''running'' then ''cancelling'' else ''cancelled'')\<rparr>)
                     d1))) (\<lambda>d2.
               save_idempotency d2 rid idem rid)))
              (\<lambda>d3. (read_run E d3 rid, d3))))"

definition confirm_cancelled_inner ::
  "env \<Rightarrow> string \<Rightarrow> bool \<Rightarrow> idempotency_request option \<Rightarrow> store \<Rightarrow> run_projection outcome" where
  "confirm_cancelled_inner E rid worker_absence_verified idem d =
     with_replay d idem (read_run E d)
       (attempt d (read_run E d rid) (\<lambda>run.
          if rp_status run = Cancelled then already_done d rid idem rid run
          else if rp_status run \<noteq> Cancelling \<or> \<not> worker_absence_verified
                  \<or> rp_cleanup_state run = Pending
          then (Inl (safe_error ''receipt_gate_unmet''), d)
          else
            attempt d (read_stages E d rid) (\<lambda>stages.
              if list_ex (\<lambda>s. sp_state s \<notin> {StCompleted, StFailed, StCancelled, StInterrupted, StCancelling}) stages
              then (Inl (safe_error ''receipt_gate_unmet''), d)
              else
                attempt d
                  (bindE (now_rfc3339 E) (\<lambda>stamp.
                   bindE (append_event E rid ''run.cancelled'' (json_object []) []
                     (update_run rid (\<lambda>r. r\<lparr>r_status := ''cancelled'', r_terminal_at := Some stamp\<rparr>)
                       (update_stages (\<lambda>s. s_run_id s = rid \<and> s_state s = ''cancelling'')
                          (\<lambda>s. s\<lparr>s_state := ''cancelled'', s_lease := None\<rparr>) d))) (\<lambda>d1.
                   save_idempotency d1 rid idem rid)))
                  (\<lambda>d2. (read_run E d2 rid, d2)))))"

definition mark_cleanup_inner ::
  "env \<Rightarrow> string \<Rightarrow> cleanup_state \<Rightarrow> idempotency_request option \<Rightarrow> store \<Rightarrow> run_projection outcome" where
  "mark_cleanup_inner E rid state idem d =
     with_replay d idem (read_run E d)
       (attempt d (read_run E d rid) (\<lambda>run.
        attempt d (if rp_status run \<noteq> Cancelling then require_run_action E d rid WriteState else Inr ()) (\<lambda>_.
          if rp_cleanup_state run = state then already_done d rid idem rid run
          else
            attempt d
              (bindE (append_event E rid ''cleanup.updated''
                        (json_object [(''state'', JStr (cleanup_as_str state))]) []
                        (update_run rid (\<lambda>r. r\<lparr>r_cleanup_state := cleanup_as_str state\<rparr>) d)) (\<lambda>d1.
               save_idempotency d1 rid idem rid))
              (\<lambda>d2. (read_run E d2 rid, d2)))))"

section \<open>Receipts\<close>

text \<open>\<open>CARGO_PKG_VERSION\<close> of the workspace.\<close>

definition CORE_VERSION :: string where
  "CORE_VERSION = ''0.1.0''"

definition join_comma :: "string list \<Rightarrow> string" where
  "join_comma = join_with CHR '',''"

definition receipt_manifest ::
  "run_projection \<Rightarrow> artifact_record list \<Rightarrow> run_status \<Rightarrow> string \<Rightarrow> string \<Rightarrow> json" where
  "receipt_manifest run artifacts status stamp rid_text = json_object
     [(''schema_uri'', JStr (SCHEMA_BASE @ ''receipt.schema.json'')),
      (''schema_version'', JStr SCHEMA_VERSION),
      (''receipt_id'', JStr rid_text),
      (''receipt_kind'', JStr ''trusted_core_run''),
      (''policy_version'', JStr ''phase3-core-1''),
      (''bindings'', json_object
        [(''run_id'', JStr (rp_run_id run)),
         (''snapshot_id'', JStr (rp_snapshot_id run)),
         (''authority_id'', JStr (rp_authority_id run)),
         (''authority_digest'', JStr (rp_authority_digest run)),
         (''artifact_ids'', JStr (join_comma (map ar_artifact_id artifacts))),
         (''status'', JStr (run_as_str status))]),
      (''evidence_grade'', JStr ''insufficient''),
      (''support_level'', JStr ''L0''),
      (''limitations'', JArr [JStr ''No target repository or generated code was executed.'']),
      (''resources'', json_object
        [(''wall_ms'', JInt (uint (wall_ms (rp_counters run)))),
         (''input_tokens'', JInt (uint (input_tokens (rp_counters run)))),
         (''output_tokens'', JInt (uint (output_tokens (rp_counters run)))),
         (''bytes'', JInt (uint (ledger_bytes (rp_counters run)))),
         (''attempts'', JInt (uint (attempts (rp_counters run))))]),
      (''timestamps'', json_object [(''terminal_at'', JStr stamp)]),
      (''canonicalization'', JStr ''rfc8785''),
      (''digest_algorithm'', JStr ''sha256''),
      (''trusted_core_version'', JStr CORE_VERSION),
      (''nondeterministic_fields'', JArr [JStr ''timestamps.terminal_at''])]"

definition receipt_statuses :: "run_status set" where
  "receipt_statuses = {Completed, CompletedNoFindings, CompletedWithUnsupported, Failed}"

definition gate_unmet :: core_error where
  "gate_unmet = safe_error ''receipt_gate_unmet''"

text \<open>The gate: cleanup settled, at least one stage, all terminal, some attempt accounted.\<close>

definition receipt_gate :: "run_projection \<Rightarrow> stage_projection list \<Rightarrow> bool" where
  "receipt_gate run stages \<longleftrightarrow>
     rp_cleanup_state run \<in> {CleanupCompleted, NotRequired}
     \<and> stages \<noteq> []
     \<and> list_all (\<lambda>s. stage_is_terminal (sp_state s)) stages
     \<and> attempts (rp_counters run) \<noteq> 0"

definition complete_run_inner ::
  "env \<Rightarrow> string \<Rightarrow> run_status \<Rightarrow> idempotency_request option \<Rightarrow> store \<Rightarrow> run_projection outcome" where
  "complete_run_inner E rid status idem d =
     with_replay d idem (read_run E d)
       (if status \<notin> receipt_statuses then (Inl gate_unmet, d)
        else
          attempt d (read_run E d rid) (\<lambda>run.
          attempt d (require_run_action E d rid WriteState) (\<lambda>_.
            if rp_status run = status \<and> rp_receipt_id run \<noteq> None then already_done d rid idem rid run
            else if \<not> run_can_transition (rp_status run) status
            then (Inl (safe_error ''invalid_transition''), d)
            else
              attempt d (read_stages E d rid) (\<lambda>stages.
              if \<not> receipt_gate run stages then (Inl gate_unmet, d)
              else
                attempt d (artifacts_for_run E d rid) (\<lambda>artifacts.
                if list_ex (\<lambda>a. \<not> ar_complete a \<or> ar_quarantined a) artifacts then (Inl gate_unmet, d)
                else
                  attempt d (now_rfc3339 E) (\<lambda>stamp.
                  attempt d (map_err (\<lambda>_. gate_unmet)
                      (receipt_id E (receipt_manifest run artifacts status stamp []))) (\<lambda>receipt.
                  attempt d (map_err (\<lambda>_. gate_unmet)
                      (validate_contract E (receipt_manifest run artifacts status stamp receipt))) (\<lambda>_.
                  attempt d
                    (bindE (append_event E rid ''receipt.completed''
                       (json_object [(''receipt_id'', JStr receipt), (''status'', JStr (run_as_str status))]) []
                       (update_run rid
                          (\<lambda>r. r\<lparr>r_status := run_as_str status, r_terminal_at := Some stamp,
                                r_receipt_id := Some receipt\<rparr>) d)) (\<lambda>d1.
                     save_idempotency d1 rid idem rid))
                    (\<lambda>d2. (read_run E d2 rid, d2))))))))))"

end
