(* ===== verification/Core_Artifacts.thy ===== *)
theory Core_Artifacts
  imports Core_Runs
begin

text \<open>
  Content-addressed artifacts of the trusted core (\<open>put_artifact\<close>, \<open>put_run_artifact\<close>,
  \<open>link_artifact_to_run\<close>, \<open>garbage_collect\<close>, \<open>read_artifact\<close>, \<open>reconcile_artifacts\<close> and
  \<open>write_cas_file\<close>): the rows of \<open>t_artifacts\<close> and \<open>t_refs\<close>, and the directory \<open>cas/sha256\<close>
  as \<open>t_cas\<close>, a map from the identifier that names a file to the node found there. Files are
  written and moved outside the SQL transaction, so a failure can leave a file behind without its row, and a failed
  collection a row without its file.
\<close>

section \<open>The directory\<close>

text \<open>
  Where the disk or the database fails in a call. \<open>TempFails\<close>: the private directory or the
  temporary file; \<open>LinkFails\<close>: the hard link into the directory, or the rename out of it;
  \<open>RemoveFails\<close>: the removal of the temporary file, or of the file moved aside; \<open>ReadFails\<close>: the
  file found under the name; \<open>SyncFails\<close>: the parent directory; \<open>StatementFails\<close>: the SQL statement
  on \<open>artifacts\<close>; \<open>ReferenceFails\<close>: the one on \<open>artifact_refs\<close>; \<open>ReturnFails\<close>: the rename that puts
  a file back.
\<close>

datatype disk = DiskOk | TempFails | LinkFails | RemoveFails | ReadFails | SyncFails
  | StatementFails | ReferenceFails | ReturnFails

definition MAX_ARTIFACT_BYTES :: nat where
  "MAX_ARTIFACT_BYTES = 64 * 1024 * 1024"

definition artifact_invalid :: core_error where
  "artifact_invalid = safe_error ''artifact_invalid''"

fun path_exists :: "cas_node option \<Rightarrow> bool" where
  "path_exists None = False"
| "path_exists (Some (RegularFile b)) = True"
| "path_exists (Some (SymbolicLink target)) = (target \<noteq> None)"

fun fs_read :: "cas_node option \<Rightarrow> string option" where
  "fs_read None = None"
| "fs_read (Some (RegularFile b)) = Some b"
| "fs_read (Some (SymbolicLink target)) = target"

definition reject_symlink :: "cas_node option \<Rightarrow> core_error + unit" where
  "reject_symlink node =
     (case node of
        Some (SymbolicLink target) \<Rightarrow>
          if path_exists node then Inl (safe_error ''invalid_state_root'') else Inr ()
      | _ \<Rightarrow> Inr ())"

definition sha256_hex :: "env \<Rightarrow> string \<Rightarrow> string" where
  "sha256_hex E b = hex_encode (sha256 E b)"

definition artifact_path :: "string \<Rightarrow> core_error + string" where
  "artifact_path aid = bindE (validate_artifact_id aid) (\<lambda>_. Inr aid)"

definition verify_artifact_bytes :: "env \<Rightarrow> string \<Rightarrow> string \<Rightarrow> u64 \<Rightarrow> core_error + unit" where
  "verify_artifact_bytes E aid b expected_len =
     (if length b \<ge> 2 ^ 64 then Inl artifact_invalid
      else if length b \<noteq> unat expected_len then Inl artifact_invalid
      else bindE (ok_or artifact_invalid (strip_prefix ''sha256:'' aid)) (\<lambda>expected.
        if sha256_hex E b \<noteq> expected then Inl artifact_invalid else Inr ()))"

definition write_cas_file ::
  "env \<Rightarrow> disk \<Rightarrow> string \<Rightarrow> string \<Rightarrow> store \<Rightarrow> (core_error + unit) \<times> store" where
  "write_cas_file E io path b d =
     (if io = TempFails then (Inl unavailable, d)
      else if io = LinkFails then (Inl artifact_invalid, d)
      else
        (case t_cas d path of
           None \<Rightarrow>
             let d1 = d\<lparr>t_cas := (t_cas d)(path \<mapsto> RegularFile b)\<rparr> in
             if io = RemoveFails \<or> io = SyncFails then (Inl unavailable, d1) else (Inr (), d1)
         | Some node \<Rightarrow>
             if io = RemoveFails then (Inl unavailable, d)
             else if io = ReadFails then (Inl artifact_invalid, d)
             else
               attempt d (ok_or artifact_invalid (fs_read (Some node))) (\<lambda>existing.
               attempt d (verify_artifact_bytes E (artifact_id E b) existing (word_of_nat (length b))) (\<lambda>_.
                 if io = SyncFails then (Inl unavailable, d) else (Inr (), d)))))"

section \<open>Writing artifacts\<close>

definition upsert_artifact :: "artifact_row \<Rightarrow> store \<Rightarrow> store" where
  "upsert_artifact a d = d\<lparr>t_artifacts :=
     (if find_artifact d (a_artifact_id a) = None then t_artifacts d @ [a]
      else map (\<lambda>x. if a_artifact_id x = a_artifact_id a then a else x) (t_artifacts d))\<rparr>"

definition put_artifact ::
  "env \<Rightarrow> disk \<Rightarrow> string \<Rightarrow> string \<Rightarrow> artifact_class \<Rightarrow> string \<Rightarrow> string \<Rightarrow> bool \<Rightarrow> store
     \<Rightarrow> (core_error + artifact_record) \<times> store" where
  "put_artifact E io b media_type cls created_by policy_digest pinned d =
     (if \<not> valid_media_type media_type \<or> created_by = [] \<or> length created_by > 256 \<or> has_control created_by
      then (Inl artifact_invalid, d)
      else
        attempt d (map_err (\<lambda>_. artifact_invalid) (validate_digest policy_digest)) (\<lambda>_.
          if length b > MAX_ARTIFACT_BYTES then (Inl artifact_invalid, d)
          else
            let aid = artifact_id E b in
            if (case read_artifact_record d aid of
                  Inl _ \<Rightarrow> False
                | Inr existing \<Rightarrow>
                    unat (ar_byte_count existing) \<noteq> length b \<or> ar_media_type existing \<noteq> media_type
                    \<or> ar_class existing \<noteq> cls \<or> ar_created_by existing \<noteq> created_by
                    \<or> ar_policy_digest existing \<noteq> policy_digest
                    \<or> \<not> ar_complete existing \<or> ar_quarantined existing)
            then (Inl artifact_invalid, d)
            else
              attempt d (artifact_path aid) (\<lambda>path.
                (case write_cas_file E io path b d of
                   (Inl e, d1) \<Rightarrow> (Inl e, d1)
                 | (Inr _, d1) \<Rightarrow>
              attempt d1 (sql_i64 (word_of_nat (length b))) (\<lambda>byte_count.
                if io = StatementFails then (Inl unavailable, d1)
                else
                (Inr \<lparr>ar_artifact_id = aid, ar_byte_count = word_of_nat (length b),
                      ar_media_type = media_type, ar_class = cls, ar_created_by = created_by,
                      ar_policy_digest = policy_digest, ar_pinned = pinned, ar_complete = True,
                      ar_quarantined = False, ar_retention_until_ms = None\<rparr>,
                 upsert_artifact
                   \<lparr>a_artifact_id = aid, a_byte_count = byte_count, a_media_type = media_type,
                    a_class = class_as_str cls, a_created_by = created_by,
                    a_policy_digest = policy_digest, a_pinned = of_bool_sql pinned, a_complete = 1,
                    a_quarantined = 0, a_retention = None\<rparr> d1))))))"

definition valid_purpose :: "string \<Rightarrow> bool" where
  "valid_purpose p \<longleftrightarrow> p \<noteq> [] \<and> length p \<le> 64
     \<and> list_all (\<lambda>b. is_ascii_lowercase b \<or> is_ascii_digit b \<or> b \<in> set ''_.-'') p"

definition link_artifact_to_run ::
  "env \<Rightarrow> string \<Rightarrow> string \<Rightarrow> string \<Rightarrow> store \<Rightarrow> (core_error + unit) \<times> store" where
  "link_artifact_to_run E rid aid purpose d =
     attempt d (read_run E d rid) (\<lambda>_.
     attempt d (require_run_action E d rid WriteState) (\<lambda>_.
     attempt d (read_artifact_record d aid) (\<lambda>_.
       if \<not> valid_purpose purpose then (Inl artifact_invalid, d)
       else
         let f = \<lparr>f_artifact_id = aid, f_entity_id = rid, f_purpose = purpose\<rparr> in
         (Inr (), d\<lparr>t_refs := (if f \<in> set (t_refs d) then t_refs d else t_refs d @ [f])\<rparr>))))"

definition put_run_artifact ::
  "env \<Rightarrow> disk \<Rightarrow> string \<Rightarrow> string \<Rightarrow> string \<Rightarrow> artifact_class \<Rightarrow> string \<Rightarrow> string \<Rightarrow> bool \<Rightarrow> store
     \<Rightarrow> (core_error + artifact_record) \<times> store" where
  "put_run_artifact E io rid b media_type cls created_by policy_digest pinned d =
     attempt d (read_run E d rid) (\<lambda>_.
     attempt d (require_run_action E d rid
         (if cls = Source \<or> cls = Executable then WriteCandidateArtifacts else WriteState)) (\<lambda>_.
       (case put_artifact E io b media_type cls created_by policy_digest pinned d of
          (Inl e, d1) \<Rightarrow> (Inl e, d1)
        | (Inr record, d1) \<Rightarrow>
            (case link_artifact_to_run E rid (ar_artifact_id record) ''run'' d1 of
               (Inl e, d2) \<Rightarrow> (Inl e, d2)
             | (Inr _, d2) \<Rightarrow> if io = ReferenceFails then (Inl unavailable, d1) else (Inr record, d2)))))"

section \<open>Collecting, reading, reconciling\<close>

definition collectable :: "artifact_row \<Rightarrow> bool" where
  "collectable a \<longleftrightarrow> a_pinned a = 0 \<and> (a_class a = ''safe'' \<or> a_class a = ''diagnostic'')"

definition referenced :: "store \<Rightarrow> string \<Rightarrow> bool" where
  "referenced d aid \<longleftrightarrow> list_ex (\<lambda>f. f_artifact_id f = aid) (t_refs d)"

definition gc_candidate :: "store \<Rightarrow> int \<Rightarrow> artifact_row \<Rightarrow> bool" where
  "gc_candidate d now_ms a \<longleftrightarrow>
     a_complete a = 1 \<and> a_quarantined a = 0 \<and> collectable a
     \<and> (case a_retention a of None \<Rightarrow> True | Some t \<Rightarrow> t \<le> now_ms)
     \<and> \<not> referenced d (a_artifact_id a)"

text \<open>
  One candidate: the file is moved aside (a symbolic link is refused), the row deleted under
  the same conditions, the file removed; a row that is no longer there puts the file back. When
  the statement fails the file stays aside and the row stays.
\<close>

definition collect_one :: "disk \<Rightarrow> string \<Rightarrow> store \<Rightarrow> (core_error + unit) \<times> store" where
  "collect_one io aid d =
     attempt d (artifact_path aid) (\<lambda>path.
       if io = TempFails then (Inl unavailable, d)
       else
         attempt d (reject_symlink (t_cas d path)) (\<lambda>_.
           let held = path_exists (t_cas d path);
               d1 = (if held then d\<lparr>t_cas := (t_cas d)(path := None)\<rparr> else d);
               doomed = (\<lambda>a. a_artifact_id a = aid \<and> collectable a \<and> \<not> referenced d aid);
               d2 = d1\<lparr>t_artifacts := filter (\<lambda>a. \<not> doomed a) (t_artifacts d)\<rparr> in
           if held \<and> io = LinkFails then (Inl unavailable, d)
           else if io = StatementFails then (Inl unavailable, d1)
           else if length (filter doomed (t_artifacts d)) \<noteq> 1
           then (if held \<and> io = ReturnFails then (Inl unavailable, d1) else (Inl artifact_invalid, d))
           else if held \<and> io = RemoveFails then (Inl unavailable, d2)
           else (Inr (), d2)))"

fun collect_all :: "disk \<Rightarrow> string list \<Rightarrow> store \<Rightarrow> (core_error + unit) \<times> store" where
  "collect_all io [] d = (Inr (), d)"
| "collect_all io (aid # ids) d =
     (case collect_one io aid d of
        (Inl e, d1) \<Rightarrow> (Inl e, d1)
      | (Inr _, d1) \<Rightarrow> collect_all io ids d1)"

definition garbage_collect ::
  "disk \<Rightarrow> u64 \<Rightarrow> bool \<Rightarrow> store \<Rightarrow> (core_error + (bool \<times> string list)) \<times> store" where
  "garbage_collect io now_ms dry_run d =
     attempt d (sql_i64 now_ms) (\<lambda>now_sql.
       let candidates = sort (map a_artifact_id (filter (gc_candidate d now_sql) (t_artifacts d))) in
       if dry_run then (Inr (dry_run, candidates), d)
       else
         (case collect_all io candidates d of
            (Inl e, d1) \<Rightarrow> (Inl e, d1)
          | (Inr _, d1) \<Rightarrow> (Inr (dry_run, candidates), d1)))"

record artifact_access =
  acc_protected :: bool
  acc_executable :: bool

definition read_artifact :: "env \<Rightarrow> string \<Rightarrow> artifact_access \<Rightarrow> store \<Rightarrow> core_error + string" where
  "read_artifact E aid access d =
     bindE (read_artifact_record d aid) (\<lambda>record.
       if ar_class record = Protected \<and> \<not> acc_protected access then Inl (safe_error ''artifact_forbidden'')
       else if ar_class record = Executable \<and> \<not> acc_executable access then Inl (safe_error ''artifact_forbidden'')
       else
         bindE (artifact_path aid) (\<lambda>path.
         bindE (reject_symlink (t_cas d path)) (\<lambda>_.
         bindE (ok_or artifact_invalid (fs_read (t_cas d path))) (\<lambda>b.
         bindE (verify_artifact_bytes E aid b (ar_byte_count record)) (\<lambda>_. Inr b)))))"

text \<open>Is the file of a complete artifact the one its identifier and length promise?\<close>

definition file_valid :: "env \<Rightarrow> store \<Rightarrow> string \<Rightarrow> string \<Rightarrow> u64 \<Rightarrow> bool" where
  "file_valid E d path aid n =
     is_ok (bindE (reject_symlink (t_cas d path)) (\<lambda>_.
            bindE (ok_or unavailable (fs_read (t_cas d path))) (\<lambda>b.
              verify_artifact_bytes E aid b n)))"

fun bad_artifacts :: "env \<Rightarrow> store \<Rightarrow> artifact_row list \<Rightarrow> core_error + string list" where
  "bad_artifacts E d [] = Inr []"
| "bad_artifacts E d (a # rows) =
     (if a_complete a \<noteq> 1 then bad_artifacts E d rows
      else
        bindE (sql_u64 (a_byte_count a)) (\<lambda>n.
        bindE (artifact_path (a_artifact_id a)) (\<lambda>path.
        bindE (bad_artifacts E d rows) (\<lambda>bad.
          Inr (if file_valid E d path (a_artifact_id a) n then bad else a_artifact_id a # bad)))))"

definition reconcile_artifacts :: "env \<Rightarrow> store \<Rightarrow> (core_error + nat) \<times> store" where
  "reconcile_artifacts E d =
     attempt d (bad_artifacts E d (t_artifacts d)) (\<lambda>bad.
       (Inr (length bad),
        d\<lparr>t_artifacts := map (\<lambda>a. if a_artifact_id a \<in> set bad then a\<lparr>a_quarantined := 1\<rparr> else a)
             (t_artifacts d)\<rparr>))"

section \<open>The guarded updates these operations are made of\<close>

definition artifact_row_ok :: "artifact_row \<Rightarrow> bool" where
  "artifact_row_ok a \<longleftrightarrow>
     0 \<le> a_byte_count a \<and> a_byte_count a \<le> int MAX_ARTIFACT_BYTES
     \<and> is_ok (validate_artifact_id (a_artifact_id a)) \<and> is_ok (class_parse (a_class a))
     \<and> a_pinned a \<in> {0, 1} \<and> a_complete a = 1 \<and> a_quarantined a \<in> {0, 1} \<and> a_retention a = None"

inductive artifact_step :: "env \<Rightarrow> store \<Rightarrow> store \<Rightarrow> bool" for E where
  as_file: "t_cas d (artifact_id E b) = None \<Longrightarrow> length b \<le> MAX_ARTIFACT_BYTES \<Longrightarrow>
    (\<And>r. read_artifact_record d (artifact_id E b) = Inr r \<Longrightarrow> unat (ar_byte_count r) = length b) \<Longrightarrow>
    artifact_step E d (d\<lparr>t_cas := (t_cas d)(artifact_id E b \<mapsto> RegularFile b)\<rparr>)"
| as_row: "artifact_row_ok a \<Longrightarrow> fs_read (t_cas d (a_artifact_id a)) = Some b \<Longrightarrow>
    artifact_id E b = a_artifact_id a \<Longrightarrow> a_byte_count a = int (length b) \<Longrightarrow>
    artifact_step E d (upsert_artifact a d)"
| as_ref: "find_artifact d aid \<noteq> None \<Longrightarrow> f_artifact_id f = aid \<Longrightarrow>
    artifact_step E d (d\<lparr>t_refs := (if f \<in> set (t_refs d) then t_refs d else t_refs d @ [f])\<rparr>)"
| as_move: "artifact_step E d (d\<lparr>t_cas := (t_cas d)(aid := None)\<rparr>)"
| as_collect: "\<not> referenced d aid \<Longrightarrow>
    artifact_step E d
      (d\<lparr>t_cas := (if path_exists (t_cas d aid) then (t_cas d)(aid := None) else t_cas d),
         t_artifacts := filter (\<lambda>a. \<not> (a_artifact_id a = aid \<and> collectable a \<and> \<not> referenced d aid)) (t_artifacts d)\<rparr>)"
  if "length (filter (\<lambda>a. a_artifact_id a = aid \<and> collectable a \<and> \<not> referenced d aid) (t_artifacts d)) = 1"
| as_quarantine: "artifact_step E d
    (d\<lparr>t_artifacts := map (\<lambda>a. if a_artifact_id a \<in> set bad then a\<lparr>a_quarantined := 1\<rparr> else a) (t_artifacts d)\<rparr>)"

abbreviation artifact_steps :: "env \<Rightarrow> store \<Rightarrow> store \<Rightarrow> bool" where
  "artifact_steps E \<equiv> (artifact_step E)\<^sup>*\<^sup>*"

lemma artifact_step_tables:
  assumes "artifact_step E d d'"
  shows "t_runs d' = t_runs d" "t_stages d' = t_stages d" "t_events d' = t_events d"
    "t_idempotency d' = t_idempotency d" "t_issued d' = t_issued d"
  using assms by (cases rule: artifact_step.cases; simp add: upsert_artifact_def)+

lemma as_one: "artifact_step E d d' \<Longrightarrow> artifact_steps E d d'"
  by (rule r_into_rtranclp)

lemma verify_artifact_bytes_Inr:
  "verify_artifact_bytes E aid b n = Inr x \<longleftrightarrow>
     length b < 2 ^ 64 \<and> length b = unat n \<and> aid = ''sha256:'' @ hex_encode (sha256 E b)"
  by (auto simp: verify_artifact_bytes_def result_simps sha256_hex_def)

lemma artifact_path_Inr: "artifact_path aid = Inr p \<longleftrightarrow> p = aid \<and> is_ok (validate_artifact_id aid)"
  by (auto simp: artifact_path_def result_simps)

lemma artifact_id_sha: "artifact_id E b = ''sha256:'' @ hex_encode (sha256 E b)"
  by (simp add: artifact_id_def)

text \<open>
  Whether it succeeds or not, \<open>write_cas_file\<close> at most adds the file that was missing; after a
  success the file holds content with the identifier and the length asked for.
\<close>

lemma write_cas_file_store:
  "snd (write_cas_file E io p b d) = d
   \<or> t_cas d p = None \<and> snd (write_cas_file E io p b d) = d\<lparr>t_cas := (t_cas d)(p \<mapsto> RegularFile b)\<rparr>"
proof (cases "t_cas d p")
  case None
  then show ?thesis by (simp add: write_cas_file_def Let_def)
next
  case (Some node)
  have stay: "snd (attempt d m k) = d" if "\<And>x. snd (k x) = d" for m :: "core_error + 'x" and k :: "'x \<Rightarrow> (core_error + unit) \<times> store"
    using that by (cases m) simp_all
  from Some show ?thesis by (simp add: write_cas_file_def stay)
qed

lemma write_cas_file_steps:
  assumes "length b \<le> MAX_ARTIFACT_BYTES"
    and "\<And>r. read_artifact_record d (artifact_id E b) = Inr r \<Longrightarrow> unat (ar_byte_count r) = length b"
  shows "artifact_steps E d (snd (write_cas_file E io (artifact_id E b) b d))"
  using write_cas_file_store [of E io "artifact_id E b" b d]
proof (elim disjE conjE)
  assume "t_cas d (artifact_id E b) = None"
    and "snd (write_cas_file E io (artifact_id E b) b d) = d\<lparr>t_cas := (t_cas d)(artifact_id E b \<mapsto> RegularFile b)\<rparr>"
  then show ?thesis using as_one [OF as_file [OF _ assms]] by simp
qed simp

lemma write_cas_file_Inr:
  assumes w: "write_cas_file E io (artifact_id E b) b d = (Inr u, d')" and "length b \<le> MAX_ARTIFACT_BYTES"
  shows "\<exists>b'. fs_read (t_cas d' (artifact_id E b)) = Some b' \<and> artifact_id E b' = artifact_id E b \<and> length b' = length b"
proof -
  have len: "length b < 2 ^ 64" using assms(2) by (simp add: MAX_ARTIFACT_BYTES_def)
  then have u: "unat (word_of_nat (length b) :: u64) = length b" by (simp add: unat_of_nat)
  show ?thesis
  proof (cases "t_cas d (artifact_id E b)")
    case None
    then have "d' = d\<lparr>t_cas := (t_cas d)(artifact_id E b \<mapsto> RegularFile b)\<rparr>"
      using w by (auto simp: write_cas_file_def Let_def split: if_splits)
    then show ?thesis by simp
  next
    case (Some node)
    with w obtain b' where b': "fs_read (Some node) = Some b'" "d' = d"
      "verify_artifact_bytes E (artifact_id E b) b' (word_of_nat (length b)) = Inr ()"
      by (cases "fs_read (Some node)") (auto simp: write_cas_file_def attempt_eq_Inr split: if_splits)
    from b'(3) have "length b' = length b" "artifact_id E b = artifact_id E b'"
      unfolding verify_artifact_bytes_Inr u artifact_id_sha [symmetric] by blast+
    with b'(1,2) Some show ?thesis by auto
  qed
qed

lemma steps_attempt: "(\<And>x. m = Inr x \<Longrightarrow> artifact_steps E d (snd (k x))) \<Longrightarrow> artifact_steps E d (snd (attempt d m k))"
  by (cases m) auto

lemma steps_if:
  "(c \<Longrightarrow> artifact_steps E d (snd a)) \<Longrightarrow> (\<not> c \<Longrightarrow> artifact_steps E d (snd b)) \<Longrightarrow>
     artifact_steps E d (snd (if c then a else b))"
  by simp

lemma steps_stay: "artifact_steps E d (snd (x, d))"
  by simp

lemma artifact_length_sql: "length b \<le> MAX_ARTIFACT_BYTES \<Longrightarrow> sql_i64 (word_of_nat (length b)) = Inr (int (length b))"
proof -
  assume len: "length b \<le> MAX_ARTIFACT_BYTES"
  then have "uint (word_of_nat (length b) :: u64) = int (length b)"
    by (simp add: MAX_ARTIFACT_BYTES_def unsigned_of_nat uint_nat unat_of_nat take_bit_nat_eq_self)
  with len show ?thesis by (simp add: sql_i64_def MAX_ARTIFACT_BYTES_def)
qed

lemma steps_split:
  "(\<And>e d1. m = (Inl e, d1) \<Longrightarrow> artifact_steps E d (snd (f e d1))) \<Longrightarrow>
   (\<And>x d1. m = (Inr x, d1) \<Longrightarrow> artifact_steps E d (snd (k x d1))) \<Longrightarrow>
     artifact_steps E d (snd (case m of (Inl e, d1) \<Rightarrow> f e d1 | (Inr x, d1) \<Rightarrow> k x d1))"
  by (cases m; cases "fst m") auto

lemma put_artifact_steps: "artifact_steps E d (snd (put_artifact E io b mt cls cb pd pinned d))"
  unfolding put_artifact_def Let_def
proof (intro steps_attempt steps_if steps_stay steps_split)
  fix path
  let ?row = "\<lambda>n. \<lparr>a_artifact_id = artifact_id E b, a_byte_count = n, a_media_type = mt,
      a_class = class_as_str cls, a_created_by = cb, a_policy_digest = pd,
      a_pinned = of_bool_sql pinned, a_complete = 1, a_quarantined = 0, a_retention = None\<rparr>"
  assume len: "\<not> MAX_ARTIFACT_BYTES < length b" and path: "artifact_path (artifact_id E b) = Inr path"
    and known: "\<not> (case read_artifact_record d (artifact_id E b) of Inl _ \<Rightarrow> False
      | Inr existing \<Rightarrow>
          unat (ar_byte_count existing) \<noteq> length b \<or> ar_media_type existing \<noteq> mt
          \<or> ar_class existing \<noteq> cls \<or> ar_created_by existing \<noteq> cb
          \<or> ar_policy_digest existing \<noteq> pd \<or> \<not> ar_complete existing \<or> ar_quarantined existing)"
  from path have path': "path = artifact_id E b" "is_ok (validate_artifact_id (artifact_id E b))"
    by (simp_all add: artifact_path_Inr)
  from known have same: "unat (ar_byte_count r) = length b" if "read_artifact_record d (artifact_id E b) = Inr r" for r
    using that by simp
  have written: "artifact_steps E d (snd (write_cas_file E io (artifact_id E b) b d))"
    using len same by (intro write_cas_file_steps) simp_all
  show "write_cas_file E io path b d = (Inl e, d1) \<Longrightarrow> artifact_steps E d (snd (Inl e, d1))" for e :: core_error and d1
    using written path'(1) by simp
  fix u d1
  assume w: "write_cas_file E io path b d = (Inr u, d1)"
  from w written path'(1) have d1: "artifact_steps E d d1" by simp
  from len have sql: "sql_i64 (word_of_nat (length b)) = Inr (int (length b))"
    by (intro artifact_length_sql) simp
  from w path' have w': "write_cas_file E io (artifact_id E b) b d = (Inr u, d1)" by simp
  from write_cas_file_Inr [OF w' leI [OF len]] obtain b' where b': "fs_read (t_cas d1 (artifact_id E b)) = Some b'"
    "artifact_id E b' = artifact_id E b" "length b' = length b" by blast
  have "artifact_row_ok (?row (int (length b)))"
    using len path' by (simp add: artifact_row_ok_def of_bool_sql_def del: class_as_str.simps)
  then have "artifact_step E d1 (upsert_artifact (?row (int (length b))) d1)"
    using b' by (intro as_row [where b = b']) simp_all
  with d1 have "artifact_steps E d (upsert_artifact (?row (int (length b))) d1)"
    by (rule rtranclp.rtrancl_into_rtrancl)
  with d1 show "artifact_steps E d (snd (attempt d1 (sql_i64 (word_of_nat (length b))) (\<lambda>byte_count.
      if io = StatementFails then (Inl unavailable, d1)
      else (Inr \<lparr>ar_artifact_id = artifact_id E b, ar_byte_count = word_of_nat (length b),
                      ar_media_type = mt, ar_class = cls, ar_created_by = cb,
                      ar_policy_digest = pd, ar_pinned = pinned, ar_complete = True,
                      ar_quarantined = False, ar_retention_until_ms = None\<rparr>,
       upsert_artifact (?row byte_count) d1))))"
    by (simp add: sql)
qed

text \<open>A \<open>put_artifact\<close> that fails changes no row: it can leave the file it has linked, without a row.\<close>

lemma put_artifact_error:
  assumes "put_artifact E io b mt cls cb pd pin d = (Inl e, d')"
  shows "d' = d \<or> t_cas d (artifact_id E b) = None
    \<and> d' = d\<lparr>t_cas := (t_cas d)(artifact_id E b \<mapsto> RegularFile b)\<rparr>"
proof -
  have "d' = d \<or> (\<exists>path. artifact_path (artifact_id E b) = Inr path \<and> d' = snd (write_cas_file E io path b d))"
    using assms
    by (auto simp: put_artifact_def Let_def attempt_def artifact_length_sql split: if_splits sum.splits prod.splits)
  then show ?thesis using write_cas_file_store [of E io "artifact_id E b" b d] by (auto simp: artifact_path_Inr)
qed

lemma read_artifact_found: "read_artifact_record d aid = Inr r \<Longrightarrow> find_artifact d aid \<noteq> None"
  by (auto simp: read_artifact_record_def result_simps)

lemma link_artifact_steps: "artifact_steps E d (snd (link_artifact_to_run E' rid aid purpose d))"
  unfolding link_artifact_to_run_def Let_def
proof (intro steps_attempt steps_if steps_stay)
  fix r assume "read_artifact_record d aid = Inr r"
  from as_one [OF as_ref [OF read_artifact_found [OF this]]]
  show "artifact_steps E d (snd (Inr (), d\<lparr>t_refs :=
      (if \<lparr>f_artifact_id = aid, f_entity_id = rid, f_purpose = purpose\<rparr> \<in> set (t_refs d) then t_refs d
       else t_refs d @ [\<lparr>f_artifact_id = aid, f_entity_id = rid, f_purpose = purpose\<rparr>])\<rparr>))"
    by simp
qed

lemma put_run_artifact_steps:
  "artifact_steps E d (snd (put_run_artifact E io rid b mt cls cb pd pinned d))"
  unfolding put_run_artifact_def
proof (intro steps_attempt)
  show "artifact_steps E d (snd (case put_artifact E io b mt cls cb pd pinned d of
          (Inl e, d1) \<Rightarrow> (Inl e, d1)
        | (Inr record, d1) \<Rightarrow>
            (case link_artifact_to_run E rid (ar_artifact_id record) ''run'' d1 of
               (Inl e, d2) \<Rightarrow> (Inl e, d2)
             | (Inr _, d2) \<Rightarrow> if io = ReferenceFails then (Inl unavailable, d1) else (Inr record, d2))))"
    using put_artifact_steps [of E d io b mt cls cb pd pinned] link_artifact_steps [of E]
    by (auto split: prod.splits sum.splits) (metis rtranclp_trans snd_conv)+
qed

lemma collect_one_steps: "artifact_steps E d (snd (collect_one io aid d))"
proof -
  let ?doomed = "\<lambda>a. a_artifact_id a = aid \<and> collectable a \<and> \<not> referenced d aid"
  let ?moved = "if path_exists (t_cas d aid) then (t_cas d)(aid := None) else t_cas d"
  have moved: "artifact_steps E d (if path_exists (t_cas d aid) then d\<lparr>t_cas := (t_cas d)(aid := None)\<rparr> else d)"
    using as_one [OF as_move] by simp
  have gone: "artifact_steps E d ((if path_exists (t_cas d aid) then d\<lparr>t_cas := (t_cas d)(aid := None)\<rparr> else d)
      \<lparr>t_artifacts := filter (\<lambda>a. \<not> ?doomed a) (t_artifacts d)\<rparr>)"
    if one: "length (filter ?doomed (t_artifacts d)) = 1"
  proof -
    from one have "filter ?doomed (t_artifacts d) \<noteq> []" by auto
    then have "\<not> referenced d aid" by (auto simp: filter_empty_conv)
    from as_one [OF as_collect [OF one this], of E] show ?thesis by (simp split: if_split_asm)
  qed
  show ?thesis
    unfolding collect_one_def Let_def
    by (intro steps_attempt steps_if steps_stay) (use moved gone in \<open>auto simp: artifact_path_Inr\<close>)
qed

lemma collect_all_steps: "artifact_steps E d (snd (collect_all io ids d))"
proof (induction ids arbitrary: d)
  case Nil
  then show ?case by simp
next
  case (Cons a ids)
  show ?case
    using collect_one_steps [of E d io a] Cons.IH
    by (auto split: prod.splits sum.splits) (metis rtranclp_trans snd_conv)
qed

lemma garbage_collect_steps: "artifact_steps E d (snd (garbage_collect io now_ms dry d))"
  unfolding garbage_collect_def Let_def
proof (intro steps_attempt steps_if steps_stay)
  fix n
  let ?ids = "sort (map a_artifact_id (filter (gc_candidate d n) (t_artifacts d)))"
  show "artifact_steps E d (snd (case collect_all io ?ids d of
            (Inl e, d1) \<Rightarrow> (Inl e, d1)
          | (Inr _, d1) \<Rightarrow> (Inr (dry, ?ids), d1)))"
    using collect_all_steps [of E d io ?ids] by (auto split: prod.splits sum.splits)
qed

lemma reconcile_steps: "artifact_steps E d (snd (reconcile_artifacts E d))"
  unfolding reconcile_artifacts_def
  by (intro steps_attempt) (simp add: as_one [OF as_quarantine])

section \<open>Artifact invariant\<close>

text \<open>
  Every file is named by its own digest; the file of a row, when it is there, has the length the row
  records; every reference has its row.
\<close>

definition artifacts_ok :: "env \<Rightarrow> store \<Rightarrow> bool" where
  "artifacts_ok E d \<longleftrightarrow>
     distinct (map a_artifact_id (t_artifacts d))
     \<and> (\<forall>p n. t_cas d p = Some n \<longrightarrow> (\<exists>b. n = RegularFile b \<and> artifact_id E b = p \<and> length b \<le> MAX_ARTIFACT_BYTES))
     \<and> (\<forall>a\<in>set (t_artifacts d). artifact_row_ok a
          \<and> (\<forall>b. t_cas d (a_artifact_id a) = Some (RegularFile b) \<longrightarrow> a_byte_count a = int (length b)))
     \<and> (\<forall>f\<in>set (t_refs d). f_artifact_id f \<in> a_artifact_id ` set (t_artifacts d))"

lemma artifacts_okD:
  assumes "artifacts_ok E d"
  shows "distinct (map a_artifact_id (t_artifacts d))"
    and "t_cas d p = Some n \<Longrightarrow> \<exists>b. n = RegularFile b \<and> artifact_id E b = p \<and> length b \<le> MAX_ARTIFACT_BYTES"
    and "a \<in> set (t_artifacts d) \<Longrightarrow> artifact_row_ok a"
    and "a \<in> set (t_artifacts d) \<Longrightarrow> t_cas d (a_artifact_id a) = Some (RegularFile b) \<Longrightarrow>
      a_byte_count a = int (length b)"
    and "f \<in> set (t_refs d) \<Longrightarrow> f_artifact_id f \<in> a_artifact_id ` set (t_artifacts d)"
  using assms unfolding artifacts_ok_def by blast+

lemma map_key_same: "(\<And>x. x \<in> set xs \<Longrightarrow> key (f x) = key x) \<Longrightarrow> map key (map f xs) = map key xs"
  by simp

lemma with_artifacts:
  "t_artifacts (d\<lparr>t_artifacts := x\<rparr>) = x" "t_refs (d\<lparr>t_artifacts := x\<rparr>) = t_refs d"
  "t_cas (d\<lparr>t_artifacts := x\<rparr>) = t_cas d"
  by simp_all

lemma artifacts_ok_tables:
  "artifacts_ok E d \<Longrightarrow> t_artifacts d' = t_artifacts d \<Longrightarrow> t_refs d' = t_refs d \<Longrightarrow> t_cas d' = t_cas d \<Longrightarrow> artifacts_ok E d'"
  by (simp add: artifacts_ok_def)

lemma find_artifact_None: "find_artifact d aid = None \<longleftrightarrow> aid \<notin> a_artifact_id ` set (t_artifacts d)"
  by (auto simp: find_artifact_def find_None_iff)

lemma find_distinct:
  "distinct (map key xs) \<Longrightarrow> x \<in> set xs \<Longrightarrow> find (\<lambda>y. key y = key x) xs = Some x"
  by (induction xs) (auto simp: image_iff)

lemma find_artifact_row:
  "distinct (map a_artifact_id (t_artifacts d)) \<Longrightarrow> a \<in> set (t_artifacts d) \<Longrightarrow>
     find_artifact d (a_artifact_id a) = Some a"
  unfolding find_artifact_def by (rule find_distinct)

lemma project_artifact_ok:
  assumes "artifact_row_ok a"
  shows "\<exists>r. project_artifact a = Inr r \<and> ar_artifact_id r = a_artifact_id a
    \<and> uint (ar_byte_count r) = a_byte_count a \<and> class_as_str (ar_class r) = a_class a"
proof -
  from assms obtain c where c: "class_parse (a_class a) = Inr c" and n: "0 \<le> a_byte_count a" "a_byte_count a < 2 ^ 64"
    and p: "a_pinned a \<in> {0, 1}" "a_quarantined a \<in> {0, 1}" "a_complete a = 1" "a_retention a = None"
    by (auto simp: artifact_row_ok_def is_ok_iff MAX_ARTIFACT_BYTES_def)
  have "\<exists>x. sql_bool (a_pinned a) = Inr x" "\<exists>y. sql_bool (a_quarantined a) = Inr y"
    using p by (auto simp: sql_bool_def)
  then obtain x y where xy: "sql_bool (a_pinned a) = Inr x" "sql_bool (a_quarantined a) = Inr y" by blast
  have "uint (word_of_int (a_byte_count a) :: u64) = a_byte_count a" using n by (simp add: uint_word_of_int)
  then show ?thesis
    using c n p(3,4) xy class_text.as_text_parse [OF c] by (simp add: project_artifact_def sql_u64_def sql_bool_def)
qed

lemma artifact_record_read:
  assumes "artifacts_ok E d" and a: "a \<in> set (t_artifacts d)"
  obtains r where "read_artifact_record d (a_artifact_id a) = Inr r" "uint (ar_byte_count r) = a_byte_count a"
    "class_as_str (ar_class r) = a_class a"
proof -
  note ok = artifacts_okD(3) [OF assms]
  then obtain r where "project_artifact a = Inr r" "uint (ar_byte_count r) = a_byte_count a"
    "class_as_str (ar_class r) = a_class a"
    using project_artifact_ok by blast
  moreover from this have "read_artifact_record d (a_artifact_id a) = Inr r"
    using ok find_artifact_row [OF artifacts_okD(1) [OF assms(1)] a]
    by (auto simp: read_artifact_record_def artifact_row_ok_def is_ok_iff)
  ultimately show thesis using that by blast
qed

lemma artifact_step_ok:
  assumes d: "artifacts_ok E d" and "artifact_step E d d'"
  shows "artifacts_ok E d'"
  using assms(2)
proof (cases rule: artifact_step.cases)
  case (as_file b)
  have "a_byte_count a = int (length b)" if a: "a \<in> set (t_artifacts d)" "a_artifact_id a = artifact_id E b" for a
  proof -
    from artifact_record_read [OF d a(1)] obtain r where
      "read_artifact_record d (artifact_id E b) = Inr r" "uint (ar_byte_count r) = a_byte_count a"
      unfolding a(2) by blast
    with as_file(4) show ?thesis by (metis uint_nat)
  qed
  then show ?thesis
    using artifacts_okD [OF d] as_file(1,2,3) unfolding artifacts_ok_def by auto
next
  case (as_move aid)
  then show ?thesis using d unfolding artifacts_ok_def by auto
next
  case (as_row a b)
  then obtain b' where b': "t_cas d (a_artifact_id a) = Some (RegularFile b')" "b' = b"
    using artifacts_okD(2) [OF d] by (cases "t_cas d (a_artifact_id a)") fastforce+
  have ids: "a_artifact_id ` set (t_artifacts d) \<subseteq> a_artifact_id ` set (t_artifacts (upsert_artifact a d))"
    by (auto simp: upsert_artifact_def image_iff)
  have same: "map a_artifact_id (map (\<lambda>x. if a_artifact_id x = a_artifact_id a then a else x) xs) = map a_artifact_id xs" for xs
    by (rule map_key_same) simp
  have dist: "distinct (map a_artifact_id (t_artifacts (upsert_artifact a d)))"
  proof (cases "find_artifact d (a_artifact_id a) = None")
    case True
    then show ?thesis using artifacts_okD(1) [OF d] by (auto simp: upsert_artifact_def find_artifact_None)
  next
    case False
    then have "map a_artifact_id (t_artifacts (upsert_artifact a d)) = map a_artifact_id (t_artifacts d)"
      unfolding upsert_artifact_def using same by (simp only: if_False with_artifacts)
    then show ?thesis using artifacts_okD(1) [OF d] by simp
  qed
  have rows: "x = a \<or> x \<in> set (t_artifacts d)" if "x \<in> set (t_artifacts (upsert_artifact a d))" for x
    using that by (auto simp: upsert_artifact_def split: if_splits)
  have cas: "t_cas (upsert_artifact a d) = t_cas d" "t_refs (upsert_artifact a d) = t_refs d"
    by (simp_all add: upsert_artifact_def)
  show ?thesis
    unfolding as_row(1) artifacts_ok_def cas
  proof (intro conjI ballI allI impI dist)
    show "t_cas d p = Some n \<Longrightarrow> \<exists>b. n = RegularFile b \<and> artifact_id E b = p \<and> length b \<le> MAX_ARTIFACT_BYTES" for p n
      using artifacts_okD(2) [OF d] .
    show "artifact_row_ok x" if "x \<in> set (t_artifacts (upsert_artifact a d))" for x
      using rows [OF that] artifacts_okD(3) [OF d] as_row(2) by blast
    show "a_byte_count x = int (length c)"
      if "x \<in> set (t_artifacts (upsert_artifact a d))" "t_cas d (a_artifact_id x) = Some (RegularFile c)" for x c
      using rows [OF that(1)] artifacts_okD(4) [OF d _ that(2)] as_row b' that(2) by auto
    show "f \<in> set (t_refs d) \<Longrightarrow> f_artifact_id f \<in> a_artifact_id ` set (t_artifacts (upsert_artifact a d))" for f
      using artifacts_okD(5) [OF d] ids by blast
  qed
next
  case (as_ref aid f)
  then have "aid \<in> a_artifact_id ` set (t_artifacts d)" using find_artifact_None [of d aid] by simp
  moreover have "set (if f \<in> set (t_refs d) then t_refs d else t_refs d @ [f]) = insert f (set (t_refs d))"
    by auto
  ultimately show ?thesis using d as_ref(1,3) unfolding artifacts_ok_def by simp
next
  case (as_collect aid)
  let ?keep = "\<lambda>a. \<not> (a_artifact_id a = aid \<and> collectable a \<and> \<not> referenced d aid)"
  have "filter (\<lambda>a. a_artifact_id a = aid \<and> collectable a \<and> \<not> referenced d aid) (t_artifacts d) \<noteq> []"
    using as_collect(2) by auto
  then obtain x where x: "x \<in> set (t_artifacts d)" "a_artifact_id x = aid" "collectable x"
    by (auto simp: filter_empty_conv)
  have other: "a_artifact_id a \<noteq> aid" if "a \<in> set (t_artifacts d)" "?keep a" for a
  proof
    assume "a_artifact_id a = aid"
    then have "a = x" using that x artifacts_okD(1) [OF d] by (metis distinct_map inj_onD)
    with that x as_collect(3) show False by simp
  qed
  have refs: "f_artifact_id f \<noteq> aid" if "f \<in> set (t_refs d)" for f
    using that as_collect(3) by (auto simp: referenced_def list_ex_iff)
  let ?cas = "if path_exists (t_cas d aid) then (t_cas d)(aid := None) else t_cas d"
  have cas: "?cas p = t_cas d p" if "p \<noteq> aid" for p using that by simp
  have sub: "?cas p = Some n \<Longrightarrow> t_cas d p = Some n" for p n by (simp split: if_splits)
  have kept: "a \<in> set (filter ?keep (t_artifacts d)) \<Longrightarrow> a \<in> set (t_artifacts d) \<and> a_artifact_id a \<noteq> aid" for a
    using other by auto
  have ids: "y \<in> a_artifact_id ` set (filter ?keep (t_artifacts d))"
    if "y \<in> a_artifact_id ` set (t_artifacts d)" "y \<noteq> aid" for y
    using that by auto
  have tables: "t_artifacts d' = filter ?keep (t_artifacts d)" "t_cas d' = ?cas" "t_refs d' = t_refs d"
    using as_collect(1) by simp_all
  show ?thesis unfolding artifacts_ok_def tables
  proof (intro conjI ballI allI impI)
    show "distinct (map a_artifact_id (filter ?keep (t_artifacts d)))"
      using artifacts_okD(1) [OF d] distinct_map_filter by blast
    show "\<exists>b. n = RegularFile b \<and> artifact_id E b = p \<and> length b \<le> MAX_ARTIFACT_BYTES"
      if "?cas p = Some n" for p n
      using artifacts_okD(2) [OF d sub [OF that]] .
    fix a assume "a \<in> set (filter ?keep (t_artifacts d))"
    note a = kept [OF this]
    from a show "artifact_row_ok a" using artifacts_okD(3) [OF d] by blast
    from a show "a_byte_count a = int (length b)" if "?cas (a_artifact_id a) = Some (RegularFile b)" for b
      using that artifacts_okD(4) [OF d _ sub [OF that]] by blast
  next
    fix f assume "f \<in> set (t_refs d)"
    then show "f_artifact_id f \<in> a_artifact_id ` set (filter ?keep (t_artifacts d))"
      using ids [OF artifacts_okD(5) [OF d]] refs by blast
  qed
next
  case (as_quarantine bad)
  let ?g = "\<lambda>a. if a_artifact_id a \<in> set bad then a\<lparr>a_quarantined := 1\<rparr> else a"
  have same: "map a_artifact_id (map ?g (t_artifacts d)) = map a_artifact_id (t_artifacts d)"
    by (rule map_key_same) simp
  have ids: "a_artifact_id ` set (map ?g (t_artifacts d)) = a_artifact_id ` set (t_artifacts d)"
    using same by (metis set_map)
  have row: "artifact_row_ok (?g a) \<and> a_artifact_id (?g a) = a_artifact_id a \<and> a_byte_count (?g a) = a_byte_count a"
    if "artifact_row_ok a" for a
    using that by (simp add: artifact_row_ok_def)
  show ?thesis unfolding as_quarantine artifacts_ok_def
  proof (intro conjI ballI allI impI)
    show "distinct (map a_artifact_id (t_artifacts (d\<lparr>t_artifacts := map ?g (t_artifacts d)\<rparr>)))"
      using same artifacts_okD(1) [OF d] by (simp only: with_artifacts)
    show "f_artifact_id f \<in> a_artifact_id ` set (t_artifacts (d\<lparr>t_artifacts := map ?g (t_artifacts d)\<rparr>))"
      if "f \<in> set (t_refs (d\<lparr>t_artifacts := map ?g (t_artifacts d)\<rparr>))" for f
      using that ids artifacts_okD(5) [OF d] by (simp only: with_artifacts)
    fix a assume "a \<in> set (t_artifacts (d\<lparr>t_artifacts := map ?g (t_artifacts d)\<rparr>))"
    then obtain a0 where a0: "a0 \<in> set (t_artifacts d)" "a = ?g a0"
      unfolding with_artifacts set_map by blast
    note r = row [OF artifacts_okD(3) [OF d a0(1)]]
    from r a0(2) show "artifact_row_ok a" by blast
    have "a_artifact_id a = a_artifact_id a0" "a_byte_count a = a_byte_count a0" using r a0(2) by blast+
    then show "a_byte_count a = int (length b)"
      if "t_cas (d\<lparr>t_artifacts := map ?g (t_artifacts d)\<rparr>) (a_artifact_id a) = Some (RegularFile b)" for b
      using that artifacts_okD(4) [OF d a0(1)] unfolding with_artifacts by simp
  qed (use artifacts_okD(2) [OF d] in simp)
qed

lemma artifacts_ok_empty: "artifacts_ok E empty_store"
  by (simp add: artifacts_ok_def empty_store_def)

end
