(* ===== verification/Core_Steps.thy ===== *)
theory Core_Steps
  imports Core_Artifacts
begin

text \<open>
  The trusted core as a transition system. \<open>core_op\<close> lists its mutations,
  \<open>exec_op\<close> runs one of them, \<open>reachable\<close> closes the empty store under them at arbitrary
  instants. \<open>micro\<close> is a proof device below: the single-table updates a transaction is made of,
  with only those guards that the invariants need. Every operation is a sequence of such updates
  (\<open>exec_op_micro\<close>), so a property of the store needs one check per update; the locale
  \<open>micro_invariant\<close> is that interface, and each invariant of the store interprets it.
\<close>

section \<open>Operations and reachable stores\<close>

datatype core_op =
    CreateRun authority_manifest budget_ledger
  | AddStage string string u64
  | TransitionRun string run_status
  | TransitionStage string stage_state
  | RecordBudget string budget_ledger
  | AcquireLease string string u64 u64
  | RecoverLeases u64 bool
  | RequestCancel string
  | ConfirmCancelled string bool
  | MarkCleanup string cleanup_state
  | CompleteRun string run_status
  | PutArtifact disk string string artifact_class string string bool
  | PutRunArtifact disk string string string artifact_class string string bool
  | LinkArtifact string string string
  | GarbageCollect disk u64 bool
  | Reconcile

fun exec_op :: "env \<Rightarrow> core_op \<Rightarrow> idempotency_request option \<Rightarrow> store \<Rightarrow> store" where
  "exec_op E (CreateRun a b) idem d = snd (create_run_inner E a b idem d)"
| "exec_op E (AddStage rid kind m) idem d = snd (add_stage_inner E rid kind m idem d)"
| "exec_op E (TransitionRun rid t) idem d = snd (transition_run_inner E rid t idem d)"
| "exec_op E (TransitionStage sid t) idem d = snd (transition_stage_inner E sid t idem d)"
| "exec_op E (RecordBudget rid b) idem d = snd (record_budget_inner E rid b idem d)"
| "exec_op E (AcquireLease sid ow n ttl) idem d = snd (acquire_lease_inner E sid ow n ttl idem d)"
| "exec_op E (RecoverLeases n v) idem d = snd (recover_expired_leases E n v d)"
| "exec_op E (RequestCancel rid) idem d = snd (request_cancel_inner E rid idem d)"
| "exec_op E (ConfirmCancelled rid v) idem d = snd (confirm_cancelled_inner E rid v idem d)"
| "exec_op E (MarkCleanup rid c) idem d = snd (mark_cleanup_inner E rid c idem d)"
| "exec_op E (CompleteRun rid t) idem d = snd (complete_run_inner E rid t idem d)"
| "exec_op E (PutArtifact io b mt cls cb pd pin) idem d = snd (put_artifact E io b mt cls cb pd pin d)"
| "exec_op E (PutRunArtifact io rid b mt cls cb pd pin) idem d =
     snd (put_run_artifact E io rid b mt cls cb pd pin d)"
| "exec_op E (LinkArtifact rid aid p) idem d = snd (link_artifact_to_run E rid aid p d)"
| "exec_op E (GarbageCollect io n dry) idem d = snd (garbage_collect io n dry d)"
| "exec_op E Reconcile idem d = snd (reconcile_artifacts E d)"

text \<open>The same libraries observed at another instant.\<close>

definition at_time :: "env \<Rightarrow> int \<Rightarrow> string option \<Rightarrow> env" where
  "at_time E t txt = E\<lparr>now := t, now_text := txt\<rparr>"

text \<open>One call of the store: any operation, at any instant, with or without a key.\<close>

inductive core_step :: "env \<Rightarrow> store \<Rightarrow> store \<Rightarrow> bool" for E where
  call: "core_step E d (exec_op (at_time E t txt) opn idem d)"

inductive reachable :: "env \<Rightarrow> store \<Rightarrow> bool" for E where
  start: "reachable E empty_store"
| step: "reachable E d \<Longrightarrow> core_step E d d' \<Longrightarrow> reachable E d'"

lemma at_time_select [simp]:
  "sha256 (at_time E t x) = sha256 E" "jcs (at_time E t x) = jcs E"
  "deserialize (at_time E t x) = deserialize E" "schema_validator (at_time E t x) = schema_validator E"
  "parse_uuid (at_time E t x) = parse_uuid E" "uuid_v7 (at_time E t x) = uuid_v7 E"
  "parse_rfc3339 (at_time E t x) = parse_rfc3339 E" "to_text (at_time E t x) = to_text E"
  "of_text (at_time E t x) = of_text E" "now (at_time E t x) = t" "now_text (at_time E t x) = x"
  "at_time (at_time E t x) t' x' = at_time E t' x'"
  by (simp_all add: at_time_def)

lemma reads_at_time [simp]:
  "validate_entity_id (at_time E t x) = validate_entity_id E"
  "ledger_of_text (at_time E t x) = ledger_of_text E"
  "lease_of_text (at_time E t x) = lease_of_text E"
  "ledger_text (at_time E t x) = ledger_text E"
  "lease_text (at_time E t x) = lease_text E"
  "project_run (at_time E t x) = project_run E"
  "project_stage (at_time E t x) = project_stage E"
  "read_run (at_time E t x) = read_run E"
  "read_stage (at_time E t x) = read_stage E"
  "read_stages (at_time E t x) = read_stages E"
  "prefixed_id (at_time E t x) = prefixed_id E"
  "canonical_json (at_time E t x) = canonical_json E"
  "parse_strict_json (at_time E t x) = parse_strict_json E"
  "validate_contract (at_time E t x) = validate_contract E"
proof -
  show v: "validate_entity_id (at_time E t x) = validate_entity_id E"
    by (intro ext) (simp add: validate_entity_id_def)
  show l: "ledger_of_text (at_time E t x) = ledger_of_text E"
    by (intro ext) (simp add: ledger_of_text_def)
  show ls: "lease_of_text (at_time E t x) = lease_of_text E"
    by (intro ext) (simp add: lease_of_text_def)
  show "ledger_text (at_time E t x) = ledger_text E" "lease_text (at_time E t x) = lease_text E"
    by (intro ext, simp add: ledger_text_def lease_text_def)+
  show pr: "project_run (at_time E t x) = project_run E"
    by (intro ext) (simp add: project_run_def v l)
  show ps: "project_stage (at_time E t x) = project_stage E"
    by (intro ext) (simp add: project_stage_def ls cong: option.case_cong)
  show "read_run (at_time E t x) = read_run E"
    by (intro ext) (simp add: read_run_def v pr)
  show rs: "read_stage (at_time E t x) = read_stage E"
    by (intro ext) (simp add: read_stage_def v ps)
  show "read_stages (at_time E t x) = read_stages E"
    by (intro ext) (simp add: read_stages_def rs)
  show "prefixed_id (at_time E t x) = prefixed_id E"
    by (intro ext) (simp add: prefixed_id_def)
  show "canonical_json (at_time E t x) = canonical_json E"
    by (intro ext) (simp add: canonical_json_def)
  show "parse_strict_json (at_time E t x) = parse_strict_json E"
    by (intro ext) (simp add: parse_strict_json_def)
  show "validate_contract (at_time E t x) = validate_contract E"
    by (intro ext) (simp add: validate_contract_def cong: if_cong)
qed

section \<open>Guarded table updates\<close>

text \<open>The authority gate, at some instant.\<close>

definition may_write :: "env \<Rightarrow> store \<Rightarrow> string \<Rightarrow> bool" where
  "may_write E d rid \<longleftrightarrow> (\<exists>t x. require_run_action (at_time E t x) d rid WriteState = Inr ())"

definition fresh_run_row :: "env \<Rightarrow> run_row \<Rightarrow> bool" where
  "fresh_run_row E r \<longleftrightarrow>
     r_last_sequence r = 0 \<and> r_receipt_id r = None \<and> r_status r = ''created''
     \<and> r_cleanup_state r = ''pending'' \<and> r_legacy_report_only r = 0
     \<and> is_ok (validate_entity_id E (r_run_id r) ''run'')
     \<and> is_ok (validate_snapshot_id (r_snapshot_id r))
     \<and> is_ok (validate_entity_id E (r_authority_id r) ''auth'')
     \<and> is_ok (validate_digest (r_authority_digest r))
     \<and> is_ok (parse_mode (r_mode r))
     \<and> r_counters r = ledger_text E ledger_default
     \<and> (\<exists>b. r_budgets r = ledger_text E b)"

definition fresh_stage_row :: "env \<Rightarrow> stage_row \<Rightarrow> bool" where
  "fresh_stage_row E s \<longleftrightarrow>
     s_state s = ''created'' \<and> s_attempt s = 0 \<and> 0 < s_max_attempts s \<and> s_max_attempts s < 2 ^ 63
     \<and> s_retryable s = 1 \<and> s_lease s = None \<and> is_ok (validate_entity_id E (s_stage_id s) ''stage'')"

inductive micro :: "env \<Rightarrow> store \<Rightarrow> store \<Rightarrow> bool" for E where
  mi_draw: "micro E d (draw_id d)"
| mi_save: "save_idempotency d rid q response = Inr d' \<Longrightarrow> micro E d d'"
| mi_event: "find_run d rid = Some r \<Longrightarrow> r_last_sequence r + 1 < 2 ^ 63 \<Longrightarrow>
    e_run_id e = rid \<Longrightarrow> e_sequence e = r_last_sequence r + 1 \<Longrightarrow> insert_event e d = Inr d1 \<Longrightarrow>
    micro E d (update_run rid (\<lambda>x. x\<lparr>r_last_sequence := r_last_sequence r + 1\<rparr>) d1)"
| mi_new_run: "insert_run r d = Inr d' \<Longrightarrow> fresh_run_row E r \<Longrightarrow> micro E d d'"
| mi_new_stage: "insert_stage s d = Inr d' \<Longrightarrow> fresh_stage_row E s \<Longrightarrow> micro E d d'"
| mi_run_status: "read_run E d rid = Inr p \<Longrightarrow> may_write E d rid \<Longrightarrow>
    run_can_transition (rp_status p) nxt \<Longrightarrow>
    micro E d (update_run rid (set_run_status nxt stamp) d)"
| mi_run_interrupt: "micro E d (update_run rid
    (\<lambda>r. if r_status r = ''running'' then r\<lparr>r_status := ''interrupted'', r_terminal_at := Some stamp\<rparr> else r) d)"
| mi_run_cancelling: "read_run E d rid = Inr p \<Longrightarrow> \<not> run_is_terminal (rp_status p) \<Longrightarrow>
    rp_status p \<noteq> Cancelling \<Longrightarrow>
    micro E d (update_run rid (\<lambda>r. r\<lparr>r_status := ''cancelling''\<rparr>) d)"
| mi_run_contract: "micro E d (update_run rid (\<lambda>r. r\<lparr>r_authority_contract := Some txt\<rparr>) d)"
  if "read_run E d rid = Inr p" "\<not> run_is_terminal (rp_status p)" "rp_status p \<noteq> Cancelling"
| mi_run_cancelled: "read_run E d rid = Inr p \<Longrightarrow> rp_status p = Cancelling \<Longrightarrow>
    micro E d (update_run rid (\<lambda>r. r\<lparr>r_status := ''cancelled'', r_terminal_at := Some stamp\<rparr>) d)"
| mi_run_receipt: "read_run E d rid = Inr p \<Longrightarrow> may_write E d rid \<Longrightarrow>
    run_can_transition (rp_status p) nxt \<Longrightarrow> nxt \<in> receipt_statuses \<Longrightarrow>
    read_stages E d rid = Inr stages \<Longrightarrow> receipt_gate p stages \<Longrightarrow>
    micro E d (update_run rid
      (\<lambda>r. r\<lparr>r_status := run_as_str nxt, r_terminal_at := Some stamp, r_receipt_id := Some receipt\<rparr>) d)"
| mi_run_counters: "read_run E d rid = Inr p \<Longrightarrow> may_write E d rid \<Longrightarrow>
    ledger_checked_add (rp_counters p) delta (rp_budgets p) = Inr n \<Longrightarrow>
    micro E d (update_run rid (\<lambda>r. r\<lparr>r_counters := ledger_text E n\<rparr>) d)"
| mi_run_cleanup: "micro E d (update_run rid (\<lambda>r. r\<lparr>r_cleanup_state := cleanup_as_str c\<rparr>) d)"
| mi_stage_state: "read_stage E d sid = Inr p \<Longrightarrow> stage_can_transition (sp_state p) nxt \<Longrightarrow>
    att = uint (if nxt = StRunning then sp_attempt p + 1 else sp_attempt p) \<Longrightarrow> att \<le> uint (sp_max_attempts p) \<Longrightarrow>
    att < 2 ^ 63 \<Longrightarrow>
    micro E d (update_stages (\<lambda>s. s_stage_id s = sid) (set_stage_state nxt att) d)"
| mi_stage_lease: "read_stage E d sid = Inr p \<Longrightarrow> sp_state p \<in> {StRunning, StQueued} \<Longrightarrow>
    uint (sp_attempt p) + 1 \<le> uint (sp_max_attempts p) \<Longrightarrow>
    micro E d (update_stages (\<lambda>s. s_stage_id s = sid)
      (\<lambda>s. s\<lparr>s_state := ''running'', s_attempt := s_attempt s + 1, s_lease := Some (lease_text E l)\<rparr>) d)"
| mi_stage_interrupt: "micro E d (update_stages (\<lambda>s. s_stage_id s = sid)
    (\<lambda>s. s\<lparr>s_state := ''interrupted'', s_lease := None\<rparr>) d)"
| mi_stages_cancelling: "micro E d (update_stages
    (\<lambda>s. s_run_id s = rid \<and> s_state s \<notin> set settled_stage_texts)
    (\<lambda>s. s\<lparr>s_state := (if s_state s = ''running'' then ''cancelling'' else ''cancelled'')\<rparr>) d)"
| mi_artifact: "artifact_step E d d' \<Longrightarrow> micro E d d'"
| mi_stages_cancelled: "micro E d (update_stages
    (\<lambda>s. s_run_id s = rid \<and> s_state s = ''cancelling'')
    (\<lambda>s. s\<lparr>s_state := ''cancelled'', s_lease := None\<rparr>) d)"

abbreviation micros :: "env \<Rightarrow> store \<Rightarrow> store \<Rightarrow> bool" where
  "micros E \<equiv> (micro E)\<^sup>*\<^sup>*"

section \<open>Every operation is a sequence of guarded updates\<close>

lemma micros_attempt:
  "(\<And>x. m = Inr x \<Longrightarrow> micros E d (snd (k x))) \<Longrightarrow> micros E d (snd (attempt d m k))"
  by (cases m) auto

lemma micros_commit:
  "(\<And>d'. m = Inr d' \<Longrightarrow> micros E d d') \<Longrightarrow> micros E d (snd (attempt d m (\<lambda>d'. (r d', d'))))"
  by (cases m) auto

lemma micros_save: "save_idempotency d rid q response = Inr d' \<Longrightarrow> micros E d d'"
  by (auto intro: r_into_rtranclp mi_save)

lemma micros_already_done: "micros E d (snd (already_done d rid idem response x))"
  unfolding already_done_def by (rule micros_commit) (rule micros_save)

lemma micros_with_replay: "micros E d (snd fresh) \<Longrightarrow> micros E d (snd (with_replay d idem rb fresh))"
  unfolding with_replay_def by (rule micros_attempt) (auto split: option.split)

lemma find_run_draw [row_simps, simp]: "find_run (draw_id d) = find_run d"
  by (intro ext) (simp add: find_run_def draw_id_def)

lemma append_event_Inr:
  "append_event E rid ty payload refs d = Inr d' \<Longrightarrow>
     \<exists>r e d1. find_run d rid = Some r \<and> r_last_sequence r + 1 < 2 ^ 63
       \<and> e_run_id e = rid \<and> e_sequence e = r_last_sequence r + 1
       \<and> e_event_id e = prefixed_id E ''evt'' d \<and> e_type e = ty \<and> e_payload e = to_text E payload
       \<and> insert_event e (draw_id d) = Inr d1
       \<and> d' = update_run rid (\<lambda>x. x\<lparr>r_last_sequence := r_last_sequence r + 1\<rparr>) d1"
proof -
  assume "append_event E rid ty payload refs d = Inr d'"
  then obtain r occurred d1 where r: "find_run d rid = Some r" "r_last_sequence r + 1 < 2 ^ 63"
    and e: "insert_event
       \<lparr>e_event_id = prefixed_id E ''evt'' d, e_run_id = rid,
        e_sequence = r_last_sequence r + 1, e_occurred_at = occurred, e_type = ty,
        e_payload = to_text E payload, e_artifact_refs = to_text E (JArr (map JStr refs))\<rparr>
       (draw_id d) = Inr d1" (is "insert_event ?e _ = _")
    and d': "d' = update_run rid (\<lambda>x. x\<lparr>r_last_sequence := r_last_sequence r + 1\<rparr>) d1"
    by (auto simp: append_event_def result_simps split: if_splits)
  show ?thesis
    by (rule exI [of _ r], rule exI [of _ ?e], rule exI [of _ d1]) (use r e d' in simp)
qed

lemma micros_append: "append_event (at_time E t x) rid ty payload refs d = Inr d' \<Longrightarrow> micros E d d'"
proof -
  assume "append_event (at_time E t x) rid ty payload refs d = Inr d'"
  then obtain r e d1 where "find_run (draw_id d) rid = Some r" "r_last_sequence r + 1 < 2 ^ 63"
      "e_run_id e = rid" "e_sequence e = r_last_sequence r + 1" "insert_event e (draw_id d) = Inr d1"
    and d': "d' = update_run rid (\<lambda>x. x\<lparr>r_last_sequence := r_last_sequence r + 1\<rparr>) d1"
    by (auto dest: append_event_Inr)
  then have "micro E (draw_id d) d'" unfolding d' by (intro mi_event)
  with mi_draw show ?thesis by (meson converse_rtranclp_into_rtranclp r_into_rtranclp)
qed

text \<open>The tail of almost every transaction: one row update, one event, the key.\<close>

lemma micros_tail:
  assumes "bindE (append_event (at_time E t x) rid ty payload refs d1) (\<lambda>d2. save_idempotency d2 rid' idem resp) = Inr d'"
    and "micros E d d1"
  shows "micros E d d'"
proof -
  from assms(1) obtain d2 where "append_event (at_time E t x) rid ty payload refs d1 = Inr d2"
      and "save_idempotency d2 rid' idem resp = Inr d'"
    by (auto simp: result_simps)
  then show ?thesis using assms(2) micros_append micros_save by (meson rtranclp_trans)
qed

lemma micros_insert_run:
  assumes "bindE (insert_run row (draw_id d)) (\<lambda>d1.
      bindE (append_event (at_time E t x) rid ty payload refs d1)
        (\<lambda>d2. save_idempotency d2 rid' idem resp)) = Inr d'"
    and "fresh_run_row E row"
  shows "micros E d d'"
proof -
  from assms(1) obtain d1 where ins: "insert_run row (draw_id d) = Inr d1"
    and tail: "bindE (append_event (at_time E t x) rid ty payload refs d1)
        (\<lambda>d2. save_idempotency d2 rid' idem resp) = Inr d'"
    by (auto simp: bindE_eq_Inr)
  from ins assms(2) have "micro E (draw_id d) d1" by (rule mi_new_run)
  then have "micros E d d1" by (meson mi_draw converse_rtranclp_into_rtranclp r_into_rtranclp)
  with tail show ?thesis by (rule micros_tail)
qed

lemma micros_insert_stage:
  assumes "bindE (insert_stage row (draw_id d)) (\<lambda>d1.
      bindE (append_event (at_time E t x) rid ty payload refs d1)
        (\<lambda>d2. save_idempotency d2 rid' idem resp)) = Inr d'"
    and "fresh_stage_row E row"
  shows "micros E d d'"
proof -
  from assms(1) obtain d1 where ins: "insert_stage row (draw_id d) = Inr d1"
    and tail: "bindE (append_event (at_time E t x) rid ty payload refs d1)
        (\<lambda>d2. save_idempotency d2 rid' idem resp) = Inr d'"
    by (auto simp: bindE_eq_Inr)
  from ins assms(2) have "micro E (draw_id d) d1" by (rule mi_new_stage)
  then have "micros E d d1" by (meson mi_draw converse_rtranclp_into_rtranclp r_into_rtranclp)
  with tail show ?thesis by (rule micros_tail)
qed

lemma may_writeI: "require_run_action (at_time E t x) d rid WriteState = Inr u \<Longrightarrow> may_write E d rid"
  by (auto simp: may_write_def)

lemma authority_row_ids:
  "validate_authority (at_time E t x) a = Inr u \<Longrightarrow>
     validate_snapshot_id (au_snapshot_id a) = Inr () \<and> validate_entity_id E (au_authority_id a) ''auth'' = Inr ()
     \<and> validate_digest (au_manifest_digest a) = Inr ()"
  using validate_authority_Inr(7-9) [of "at_time E t x" a u] by (auto simp: is_ok_iff)

lemma micro1: "micro E d d' \<Longrightarrow> micros E d d'"
  by (rule r_into_rtranclp)

lemmas micros_intros = mi_run_status [THEN micro1] mi_run_counters [THEN micro1]
  mi_run_cleanup [THEN micro1] mi_stage_state [THEN micro1] mi_stage_lease [THEN micro1]
  mi_run_cancelled [THEN micro1] mi_run_receipt [THEN micro1]

lemma create_run_micros: "micros E d (snd (create_run_inner (at_time E t x) a b idem d))"
  unfolding create_run_inner_def Let_def
  by (rule micros_with_replay)
    (auto 4 4 intro!: micros_attempt elim!: micros_insert_run dest!: authority_row_ids
       simp: fresh_run_row_def is_ok_iff)

lemma add_stage_micros: "micros E d (snd (add_stage_inner (at_time E t x) rid kind m idem d))"
  unfolding add_stage_inner_def Let_def
  by (rule micros_with_replay)
    (auto intro!: micros_attempt elim!: micros_insert_stage
       simp: bindE_eq_Inr [of "sql_i64 m"] fresh_stage_row_def is_ok_iff sql_i64_def word_neq_0_conv
         word_less_def
       split: if_splits)

lemma uint_succ_u64: "unat (a::u64) < 2 ^ 64 - 1 \<Longrightarrow> uint (a + 1) = uint a + 1"
  by (subst uint_nat, subst uint_nat) (simp add: unat_word_ariths)



text \<open>The handlers peel off their guards; what is left is the transaction.\<close>

lemmas micros_peel = micros_attempt micros_already_done

lemma transition_run_micros: "micros E d (snd (transition_run_inner (at_time E t x) rid nxt idem d))"
  unfolding transition_run_inner_def
  by (rule micros_with_replay, auto intro!: micros_peel elim!: micros_tail
       simp: bindE_eq_Inr [of "now_rfc3339 (at_time E t x)"])
    (rule micros_intros; auto intro: may_writeI)

lemma record_budget_micros: "micros E d (snd (record_budget_inner (at_time E t x) rid b idem d))"
  unfolding record_budget_inner_def
  by (rule micros_with_replay, auto intro!: micros_peel elim!: micros_tail)
    (rule micros_intros; auto intro: may_writeI)

lemma mark_cleanup_micros: "micros E d (snd (mark_cleanup_inner (at_time E t x) rid c idem d))"
  unfolding mark_cleanup_inner_def
  by (rule micros_with_replay, auto intro!: micros_peel elim!: micros_tail) (rule micros_intros)

lemma transition_stage_micros:
  "micros E d (snd (transition_stage_inner (at_time E t x) sid nxt idem d))"
  unfolding transition_stage_inner_def
  by (rule micros_with_replay, auto intro!: micros_peel elim!: micros_tail
       simp: bindE_eq_Inr [of "sql_i64 z" for z] sql_i64_def ok_or_eq_Inr checked_add_u64_Some
         word_le_def not_less uint_succ_u64
       split: if_splits)
    (rule micros_intros; auto simp: word_le_def uint_succ_u64)+

lemma acquire_lease_micros:
  "micros E d (snd (acquire_lease_inner (at_time E t x) sid ow n ttl idem d))"
  unfolding acquire_lease_inner_def Let_def
  by (rule micros_with_replay, auto intro!: micros_peel elim!: micros_tail
       simp: ok_or_eq_Inr checked_add_u64_Some not_less word_le_def uint_succ_u64
       split: option.split)
    (rule micros_intros; auto)+

lemma complete_run_micros: "micros E d (snd (complete_run_inner (at_time E t x) rid st idem d))"
  unfolding complete_run_inner_def
  by (rule micros_with_replay, auto intro!: micros_peel elim!: micros_tail)
    (rule micros_intros; auto intro: may_writeI)+

lemma read_run_update_stages [simp]: "read_run E (update_stages p f d) = read_run E d"
  by (intro ext) (simp add: read_run_def find_run_def update_stages_def)

lemma micros_if:
  "(c \<Longrightarrow> micros E d (snd a)) \<Longrightarrow> (\<not> c \<Longrightarrow> micros E d (snd b)) \<Longrightarrow> micros E d (snd (if c then a else b))"
  by simp

lemma micros_stay: "micros E d (snd (x, d))"
  by simp

lemma micros_two: "micro E d d1 \<Longrightarrow> micro E d1 d2 \<Longrightarrow> micros E d d2"
  by (meson converse_rtranclp_into_rtranclp r_into_rtranclp)

lemma confirm_cancelled_micros:
  "micros E d (snd (confirm_cancelled_inner (at_time E t x) rid v idem d))"
  unfolding confirm_cancelled_inner_def
proof (intro micros_with_replay micros_if micros_commit micros_peel micros_stay)
  fix p stages d'
  assume p: "read_run (at_time E t x) d rid = Inr p"
    and g: "\<not> (rp_status p \<noteq> Cancelling \<or> \<not> v \<or> rp_cleanup_state p = Pending)"
    and tx: "bindE (now_rfc3339 (at_time E t x)) (\<lambda>stamp.
        bindE (append_event (at_time E t x) rid ''run.cancelled'' (json_object []) []
         (update_run rid (\<lambda>r. r\<lparr>r_status := ''cancelled'', r_terminal_at := Some stamp\<rparr>)
           (update_stages (\<lambda>s. s_run_id s = rid \<and> s_state s = ''cancelling'')
              (\<lambda>s. s\<lparr>s_state := ''cancelled'', s_lease := None\<rparr>) d))) (\<lambda>d1.
        save_idempotency d1 rid idem rid)) = Inr d'"
  from p g have "read_run E d rid = Inr p" "rp_status p = Cancelling" by simp_all
  then have "micros E d (update_run rid (\<lambda>r. r\<lparr>r_status := ''cancelled'', r_terminal_at := Some stamp\<rparr>)
           (update_stages (\<lambda>s. s_run_id s = rid \<and> s_state s = ''cancelling'')
              (\<lambda>s. s\<lparr>s_state := ''cancelled'', s_lease := None\<rparr>) d))" for stamp
    by (intro micros_two [OF mi_stages_cancelled mi_run_cancelled]) simp_all
  with tx show "micros E d d'" by (auto simp: bindE_eq_Inr [of "now_rfc3339 (at_time E t x)"] elim: micros_tail)
qed

lemma revoke_micros:
  assumes "revoke_run_authority (at_time E t x) d rid = Inr d'"
    and "read_run E d rid = Inr p" "\<not> run_is_terminal (rp_status p)" "rp_status p \<noteq> Cancelling"
  shows "micros E d d'"
  using assms by (auto simp: revoke_run_authority_def bindE_eq_Inr intro: micro1 mi_run_contract
    split: option.splits)

lemma find_run_update:
  "(\<And>r. r_run_id (f r) = r_run_id r) \<Longrightarrow>
     find_run (update_run rid f d) rid' = (if rid' = rid then map_option f (find_run d rid') else find_run d rid')"
proof -
  assume id: "\<And>r. r_run_id (f r) = r_run_id r"
  have "find (\<lambda>r. r_run_id r = rid') (map (\<lambda>r. if r_run_id r = rid then f r else r) rs)
      = (if rid' = rid then map_option f (find (\<lambda>r. r_run_id r = rid') rs) else find (\<lambda>r. r_run_id r = rid') rs)" for rs
    by (induction rs) (auto simp: id)
  then show ?thesis by (simp add: find_run_def update_run_def)
qed

lemma find_run_Some_id: "find_run d rid = Some r \<Longrightarrow> r_run_id r = rid"
  by (auto simp: find_run_def find_Some_iff)

lemma project_run_contract [simp]: "project_run E (r\<lparr>r_authority_contract := c\<rparr>) = project_run E r"
  by (simp add: project_run_def cong: if_cong)

lemma read_run_contract [simp]:
  "read_run E (update_run rid (\<lambda>r. r\<lparr>r_authority_contract := c\<rparr>) d) = read_run E d"
proof
  fix rid'
  show "read_run E (update_run rid (\<lambda>r. r\<lparr>r_authority_contract := c\<rparr>) d) rid' = read_run E d rid'"
    by (cases "find_run d rid'"; cases "rid' = rid") (simp_all add: read_run_def find_run_update)
qed

lemma revoke_reads:
  "revoke_run_authority E' d rid = Inr d' \<Longrightarrow> read_run E d' = read_run E d"
  by (auto simp: revoke_run_authority_def bindE_eq_Inr split: option.splits)

lemma request_cancel_micros: "micros E d (snd (request_cancel_inner (at_time E t x) rid idem d))"
  unfolding request_cancel_inner_def
proof (intro micros_with_replay micros_if micros_commit micros_peel micros_stay)
  fix p d'
  assume p: "read_run (at_time E t x) d rid = Inr p"
    and g: "\<not> (rp_status p = Cancelled \<or> rp_status p = Cancelling)" "\<not> run_is_terminal (rp_status p)"
    and tx: "bindE (revoke_run_authority (at_time E t x) d rid) (\<lambda>d1.
       bindE (append_event (at_time E t x) rid ''run.cancelling'' (json_object []) []
         (update_run rid (\<lambda>r. r\<lparr>r_status := ''cancelling''\<rparr>)
           (update_stages (\<lambda>s. s_run_id s = rid \<and> s_state s \<notin> set settled_stage_texts)
             (\<lambda>s. s\<lparr>s_state := (if s_state s = ''running'' then ''cancelling'' else ''cancelled'')\<rparr>)
             d1))) (\<lambda>d2. save_idempotency d2 rid idem rid)) = Inr d'"
  from tx obtain d1 where r: "revoke_run_authority (at_time E t x) d rid = Inr d1"
    and tail: "bindE (append_event (at_time E t x) rid ''run.cancelling'' (json_object []) []
         (update_run rid (\<lambda>r. r\<lparr>r_status := ''cancelling''\<rparr>)
           (update_stages (\<lambda>s. s_run_id s = rid \<and> s_state s \<notin> set settled_stage_texts)
             (\<lambda>s. s\<lparr>s_state := (if s_state s = ''running'' then ''cancelling'' else ''cancelled'')\<rparr>)
             d1))) (\<lambda>d2. save_idempotency d2 rid idem rid) = Inr d'"
    unfolding bindE_eq_Inr [of "revoke_run_authority (at_time E t x) d rid"] by blast
  from r p g have "micros E d d1" by (auto intro: revoke_micros)
  moreover have "read_run E d1 rid = Inr p" using p revoke_reads [OF r] by simp
  then have "micros E d1 (update_run rid (\<lambda>r. r\<lparr>r_status := ''cancelling''\<rparr>)
           (update_stages (\<lambda>s. s_run_id s = rid \<and> s_state s \<notin> set settled_stage_texts)
             (\<lambda>s. s\<lparr>s_state := (if s_state s = ''running'' then ''cancelling'' else ''cancelled'')\<rparr>)
             d1))"
    using g by (intro micros_two [OF mi_stages_cancelling mi_run_cancelling]) auto
  ultimately show "micros E d d'" by (intro micros_tail [OF tail]) (rule rtranclp_trans)
qed

lemma micros_interrupt:
  assumes "interrupt_stage (at_time E t x) c d = Inr d'"
  shows "micros E d d'"
proof -
  obtain sid rid where c: "c = (sid, rid)" by (cases c)
  from assms obtain stamp where "append_event (at_time E t x) rid ''stage.lease_expired'' (json_object [(''stage_id'', JStr sid)]) []
      (update_run rid
         (\<lambda>r. if r_status r = ''running''
               then r\<lparr>r_status := ''interrupted'', r_terminal_at := Some stamp\<rparr> else r)
         (update_stages (\<lambda>s. s_stage_id s = sid)
            (\<lambda>s. s\<lparr>s_state := ''interrupted'', s_lease := None\<rparr>) d)) = Inr d'"
    unfolding interrupt_stage_def c by (auto simp: bindE_eq_Inr)
  from micros_append [OF this] micros_two [OF mi_stage_interrupt mi_run_interrupt]
  show ?thesis by (rule rtranclp_trans [rotated])
qed

lemma micros_interrupts: "interrupt_stages (at_time E t x) cs d = Inr d' \<Longrightarrow> micros E d d'"
  by (induction cs arbitrary: d) (auto simp: bindE_eq_Inr dest!: micros_interrupt intro: rtranclp_trans)

lemma recover_micros: "micros E d (snd (recover_expired_leases (at_time E t x) n v d))"
  unfolding recover_expired_leases_def
  by (intro micros_if micros_commit micros_attempt micros_stay) (rule micros_interrupts)

lemma artifact_steps_micros: "artifact_steps E d d' \<Longrightarrow> micros E d d'"
  by (induction rule: rtranclp_induct) (auto intro: mi_artifact rtranclp.rtrancl_into_rtrancl)

lemma put_artifact_at_time [simp]:
  "artifact_id (at_time E t x) = artifact_id E" "write_cas_file (at_time E t x) = write_cas_file E"
  "put_artifact (at_time E t x) = put_artifact E" "reconcile_artifacts (at_time E t x) = reconcile_artifacts E"
proof -
  show a: "artifact_id (at_time E t x) = artifact_id E"
    by (intro ext) (simp add: artifact_id_def)
  have v: "verify_artifact_bytes (at_time E t x) = verify_artifact_bytes E"
    by (intro ext) (simp add: verify_artifact_bytes_def sha256_hex_def)
  show w: "write_cas_file (at_time E t x) = write_cas_file E"
    by (intro ext) (simp add: write_cas_file_def a v cong: option.case_cong if_cong)
  show "put_artifact (at_time E t x) = put_artifact E"
    by (intro ext) (simp only: put_artifact_def a w)
  have "file_valid (at_time E t x) = file_valid E"
    by (intro ext) (simp add: file_valid_def v)
  then have "bad_artifacts (at_time E t x) d rows = bad_artifacts E d rows" for d rows
    by (induction rows) simp_all
  then show "reconcile_artifacts (at_time E t x) = reconcile_artifacts E"
    by (intro ext) (simp add: reconcile_artifacts_def)
qed

lemma artifact_steps_at_time [simp]: "artifact_steps (at_time E t x) = artifact_steps E"
proof -
  have "artifact_step (at_time E t x) d d' = artifact_step E d d'" for d d'
    by (simp add: artifact_step.simps)
  then have "artifact_step (at_time E t x) = artifact_step E" by (intro ext)
  then show ?thesis by simp
qed

lemma artifact_op_micros:
  "micros E d (snd (put_artifact (at_time E t x) io b mt cls cb pd pin d))"
  "micros E d (snd (put_run_artifact (at_time E t x) io rid b mt cls cb pd pin d))"
  "micros E d (snd (link_artifact_to_run (at_time E t x) rid aid p d))"
  "micros E d (snd (garbage_collect io n dry d))"
  "micros E d (snd (reconcile_artifacts (at_time E t x) d))"
  using put_artifact_steps [of "at_time E t x"] put_run_artifact_steps [of "at_time E t x"]
    link_artifact_steps [of E] garbage_collect_steps [of E] reconcile_steps [of "at_time E t x"]
  by (auto intro!: artifact_steps_micros simp del: put_artifact_at_time)

theorem exec_op_micro: "micros E d (exec_op (at_time E t x) opn idem d)"
  by (cases opn) (simp_all add: create_run_micros add_stage_micros transition_run_micros
    transition_stage_micros record_budget_micros acquire_lease_micros recover_micros
    request_cancel_micros confirm_cancelled_micros mark_cleanup_micros complete_run_micros artifact_op_micros
    del: put_artifact_at_time)

section \<open>Invariants\<close>

text \<open>
  What a fact about the store owes so that no operation can undo it: every guarded update
  keeps it. An invariant holds of the empty store as well.
\<close>

locale micro_stable =
  fixes E :: env and P :: "store \<Rightarrow> bool"
  assumes keeps: "P d \<Longrightarrow> micro E d d' \<Longrightarrow> P d'"
begin

lemma micros_keep: "micros E d d' \<Longrightarrow> P d \<Longrightarrow> P d'"
  by (induction rule: rtranclp_induct) (auto intro: keeps)

lemma exec_keeps: "P d \<Longrightarrow> P (exec_op (at_time E t x) opn idem d)"
  using micros_keep [OF exec_op_micro] .

lemma steps_keep: "(core_step E)\<^sup>*\<^sup>* d d' \<Longrightarrow> P d \<Longrightarrow> P d'"
  by (induction rule: rtranclp_induct) (auto simp: core_step.simps intro: exec_keeps)

end

locale micro_invariant = micro_stable +
  assumes empty: "P empty_store"
begin

lemma reachable: "reachable E d \<Longrightarrow> P d"
  by (induction rule: reachable.induct) (auto simp: empty core_step.simps intro: exec_keeps)

end

end
