(* ===== verification/Core_Invariants.thy ===== *)
theory Core_Invariants
  imports Core_Steps
begin

text \<open>
  Invariants of the reachable stores. Each is proved once against the guarded updates
  and interprets \<open>micro_invariant\<close> (or \<open>micro_stable\<close>, for what no operation can undo once it
  holds), which carries it over to every operation and every sequence of operations.
\<close>

section \<open>What the updates leave alone\<close>

lemma tables_update_run [simp]:
  "t_stages (update_run rid f d) = t_stages d" "t_events (update_run rid f d) = t_events d"
  "t_artifacts (update_run rid f d) = t_artifacts d" "t_refs (update_run rid f d) = t_refs d"
  "t_idempotency (update_run rid f d) = t_idempotency d" "t_issued (update_run rid f d) = t_issued d"
  "t_cas (update_run rid f d) = t_cas d"
  "t_runs (update_run rid f d) = map (\<lambda>r. if r_run_id r = rid then f r else r) (t_runs d)"
  by (simp_all add: update_run_def)

lemma tables_update_stages [simp]:
  "t_runs (update_stages p g d) = t_runs d" "t_events (update_stages p g d) = t_events d"
  "t_artifacts (update_stages p g d) = t_artifacts d" "t_refs (update_stages p g d) = t_refs d"
  "t_idempotency (update_stages p g d) = t_idempotency d" "t_issued (update_stages p g d) = t_issued d"
  "t_cas (update_stages p g d) = t_cas d"
  "t_stages (update_stages p g d) = map (\<lambda>s. if p s then g s else s) (t_stages d)"
  by (simp_all add: update_stages_def)

lemma tables_draw [simp]:
  "t_runs (draw_id d) = t_runs d" "t_stages (draw_id d) = t_stages d" "t_events (draw_id d) = t_events d"
  "t_artifacts (draw_id d) = t_artifacts d" "t_refs (draw_id d) = t_refs d"
  "t_idempotency (draw_id d) = t_idempotency d" "t_cas (draw_id d) = t_cas d"
  by (simp_all add: draw_id_def)

lemma find_run_stages [simp]: "find_run (update_stages p g d) = find_run d"
  by (intro ext) (simp add: find_run_def)

lemma find_run_cong: "t_runs d' = t_runs d \<Longrightarrow> find_run d' = find_run d"
  by (intro ext) (simp add: find_run_def)

definition run_ids :: "store \<Rightarrow> string list" where
  "run_ids d = map r_run_id (t_runs d)"

definition stage_ids :: "store \<Rightarrow> string list" where
  "stage_ids d = map s_stage_id (t_stages d)"

lemma stage_ids_update [simp]: "stage_ids (update_run rid f d) = stage_ids d"
  by (simp add: stage_ids_def update_run_def)

lemma run_ids_stages [simp]: "run_ids (update_stages p g d) = run_ids d"
  by (simp add: run_ids_def update_stages_def)

lemma find_run_None: "find_run d rid = None \<longleftrightarrow> rid \<notin> set (run_ids d)"
  by (auto simp: find_run_def find_None_iff run_ids_def)

lemma find_run_in: "find_run d rid = Some r \<Longrightarrow> r \<in> set (t_runs d) \<and> r_run_id r = rid"
  by (auto simp: find_run_def find_Some_iff)

lemma find_stage_in: "find_stage d sid = Some s \<Longrightarrow> s \<in> set (t_stages d) \<and> s_stage_id s = sid"
  by (auto simp: find_stage_def find_Some_iff)

lemma find_run_row: "distinct (run_ids d) \<Longrightarrow> r \<in> set (t_runs d) \<Longrightarrow> find_run d (r_run_id r) = Some r"
  unfolding find_run_def run_ids_def by (rule find_distinct)

lemma find_stage_row:
  "distinct (stage_ids d) \<Longrightarrow> s \<in> set (t_stages d) \<Longrightarrow> find_stage d (s_stage_id s) = Some s"
  unfolding find_stage_def stage_ids_def by (rule find_distinct)

lemma run_ids_update:
  "(\<And>r. r_run_id (f r) = r_run_id r) \<Longrightarrow> run_ids (update_run rid f d) = run_ids d"
  by (simp add: comp_def if_distrib run_ids_def)

lemma run_ids_cong: "t_runs d' = t_runs d \<Longrightarrow> run_ids d' = run_ids d"
  by (simp add: run_ids_def)

text \<open>What each guarded update does to the tables.\<close>

lemma insert_run_tables:
  "insert_run r d = Inr d' \<Longrightarrow> find_run d (r_run_id r) = None \<and> d' = d\<lparr>t_runs := t_runs d @ [r]\<rparr>"
  by (auto simp: insert_run_def split: if_splits)

lemma insert_stage_tables:
  "insert_stage s d = Inr d' \<Longrightarrow>
     find_stage d (s_stage_id s) = None \<and> find_run d (s_run_id s) \<noteq> None
     \<and> d' = d\<lparr>t_stages := t_stages d @ [s]\<rparr>"
  by (auto simp: insert_stage_def split: if_splits)

lemma insert_event_tables:
  "insert_event e d = Inr d' \<Longrightarrow>
     d' = d\<lparr>t_events := t_events d @ [e]\<rparr> \<and> find_run d (e_run_id e) \<noteq> None
     \<and> (\<forall>x\<in>set (t_events d). e_event_id x \<noteq> e_event_id e)"
  by (auto simp: insert_event_def list_ex_iff split: if_splits)

lemma save_idempotency_tables:
  "save_idempotency d rid req resp = Inr d' \<Longrightarrow>
     d' = d \<or> (\<exists>q. req = Some q \<and> find_idempotency d q = None \<and> find_run d rid \<noteq> None
       \<and> d' = d\<lparr>t_idempotency := t_idempotency d @
             [\<lparr>i_run_id = rid, i_operation = q_operation q, i_key = q_key q,
               i_request_digest = q_digest q, i_response = resp\<rparr>]\<rparr>)"
  by (auto simp: save_idempotency_def split: option.splits if_splits)

lemma save_idempotency_same:
  assumes "save_idempotency d rid req resp = Inr d'"
  shows "t_runs d' = t_runs d" "t_stages d' = t_stages d" "t_events d' = t_events d"
    "t_artifacts d' = t_artifacts d" "t_refs d' = t_refs d" "t_cas d' = t_cas d" "t_issued d' = t_issued d"
  using save_idempotency_tables [OF assms] by auto

text \<open>
  A guarded update rewrites the runs with functions that keep the run's identity, adds at
  most one row per table and deletes none: the frame every invariant starts from.
\<close>

definition keeps_identity :: "(run_row \<Rightarrow> run_row) \<Rightarrow> bool" where
  "keeps_identity f \<longleftrightarrow>
     (\<forall>r. r_run_id (f r) = r_run_id r \<and> r_snapshot_id (f r) = r_snapshot_id r \<and> r_mode (f r) = r_mode r
        \<and> r_budgets (f r) = r_budgets r \<and> r_created_at (f r) = r_created_at r
        \<and> r_authority_id (f r) = r_authority_id r \<and> r_authority_digest (f r) = r_authority_digest r
        \<and> r_legacy_report_only (f r) = r_legacy_report_only r)"

lemma micro_frame:
  assumes "micro E d d'"
  obtains (new_run) r where "insert_run r d = Inr d'" "fresh_run_row E r"
    | (rewrite) f where "keeps_identity f" "t_runs d' = map f (t_runs d)"
        "prefix (t_stages d) (t_stages d') \<or> (\<exists>g. (\<forall>s. s_stage_id (g s) = s_stage_id s \<and> s_run_id (g s) = s_run_id s
           \<and> s_max_attempts (g s) = s_max_attempts s) \<and> t_stages d' = map g (t_stages d))"
        "prefix (t_events d) (t_events d')" "prefix (t_idempotency d) (t_idempotency d')"
proof -
  have *: thesis if "keeps_identity f" "d' = update_run rid f d" for f rid
    by (rule rewrite [of "\<lambda>r. if r_run_id r = rid then f r else r"])
      (use that in \<open>auto simp: keeps_identity_def\<close>)
  have **: thesis if "\<And>s. s_stage_id (g s) = s_stage_id s \<and> s_run_id (g s) = s_run_id s
           \<and> s_max_attempts (g s) = s_max_attempts s" "d' = update_stages p g d" for g p
    by (rule rewrite [of id])
      (use that in \<open>auto simp: keeps_identity_def intro!: exI [of _ "\<lambda>s. if p s then g s else s"]\<close>)
  show thesis using assms
  proof (cases rule: micro.cases)
    case mi_draw
    then show ?thesis by (intro rewrite [of id]) (auto simp: keeps_identity_def)
  next
    case (mi_save rid q response)
    then show ?thesis
      by (intro rewrite [of id]) (auto simp: keeps_identity_def dest: save_idempotency_tables)
  next
    case (mi_event rid r e d1)
    then show ?thesis
      by (intro rewrite [of "\<lambda>x. if r_run_id x = rid then x\<lparr>r_last_sequence := r_last_sequence r + 1\<rparr> else x"])
        (auto simp: keeps_identity_def dest: insert_event_tables)
  next
    case (mi_new_stage s)
    then show ?thesis
      by (intro rewrite [of id]) (auto simp: keeps_identity_def dest!: insert_stage_tables)
  next
    case mi_artifact
    then show ?thesis
      using artifact_step_tables [OF mi_artifact] by (intro rewrite [of id]) (auto simp: keeps_identity_def)
  qed ((rule new_run, assumption, assumption)
     | (rule * [rotated], assumption, simp add: keeps_identity_def set_run_status_def)
     | (rule ** [rotated], assumption, simp add: set_stage_state_def))+
qed

section \<open>The event log\<close>

definition run_events :: "store \<Rightarrow> string \<Rightarrow> event_row list" where
  "run_events d rid = filter (\<lambda>e. e_run_id e = rid) (t_events d)"

text \<open>Each run's events are numbered 1, 2, ..., \<open>last_sequence\<close> in the order of insertion.\<close>

definition log_ok :: "store \<Rightarrow> bool" where
  "log_ok d \<longleftrightarrow>
     distinct (run_ids d)
     \<and> distinct (map e_event_id (t_events d))
     \<and> (\<forall>e\<in>set (t_events d). e_run_id e \<in> set (run_ids d))
     \<and> (\<forall>r\<in>set (t_runs d). 0 \<le> r_last_sequence r \<and> r_last_sequence r < 2 ^ 63
          \<and> map e_sequence (run_events d (r_run_id r)) = [1..r_last_sequence r])"

lemma log_okD:
  assumes "log_ok d"
  shows "distinct (run_ids d)" and "distinct (map e_event_id (t_events d))"
    and "e \<in> set (t_events d) \<Longrightarrow> e_run_id e \<in> set (run_ids d)"
    and "r \<in> set (t_runs d) \<Longrightarrow> 0 \<le> r_last_sequence r \<and> r_last_sequence r < 2 ^ 63"
    and "r \<in> set (t_runs d) \<Longrightarrow> map e_sequence (run_events d (r_run_id r)) = [1..r_last_sequence r]"
  using assms unfolding log_ok_def by blast+

lemma log_ok_update_run:
  assumes "log_ok d" and f: "\<And>r. r_run_id (f r) = r_run_id r \<and> r_last_sequence (f r) = r_last_sequence r"
  shows "log_ok (update_run rid f d)"
proof -
  have "run_events (update_run rid f d) = run_events d"
    by (intro ext) (simp add: run_events_def)
  moreover have "run_ids (update_run rid f d) = run_ids d" using f by (simp add: run_ids_update)
  ultimately show ?thesis using assms by (auto simp: log_ok_def)
qed

lemma log_ok_tables: "log_ok d \<Longrightarrow> t_runs d' = t_runs d \<Longrightarrow> t_events d' = t_events d \<Longrightarrow> log_ok d'"
  by (simp add: log_ok_def run_events_def run_ids_def)

lemma log_ok_new_run:
  assumes "log_ok d" and ins: "insert_run r d = Inr d'" and new: "r_last_sequence r = 0"
  shows "log_ok d'"
proof -
  from ins have fresh: "r_run_id r \<notin> set (run_ids d)" and d': "d' = d\<lparr>t_runs := t_runs d @ [r]\<rparr>"
    by (auto dest!: insert_run_tables simp: find_run_None)
  then have ids: "run_ids d' = run_ids d @ [r_run_id r]" by (simp add: run_ids_def)
  have none: "run_events d' (r_run_id r) = []"
    using assms(1) fresh by (auto simp: log_ok_def run_events_def filter_empty_conv d')
  have "run_events d' x = run_events d x" for x by (simp add: run_events_def d')
  with assms(1) new fresh none show ?thesis
    unfolding log_ok_def ids by (auto simp: d')
qed

lemma log_ok_event:
  assumes "log_ok d" and r: "find_run d rid = Some r" "r_last_sequence r + 1 < 2 ^ 63"
    and e: "e_run_id e = rid" "e_sequence e = r_last_sequence r + 1" and ins: "insert_event e d = Inr d1"
  shows "log_ok (update_run rid (\<lambda>x. x\<lparr>r_last_sequence := r_last_sequence r + 1\<rparr>) d1)" (is "log_ok ?d")
proof -
  from ins have d1: "d1 = d\<lparr>t_events := t_events d @ [e]\<rparr>" and fresh: "\<forall>x\<in>set (t_events d). e_event_id x \<noteq> e_event_id e"
    by (auto dest: insert_event_tables)
  then have runs1: "t_runs d1 = t_runs d" by simp
  have here: "rid \<in> set (run_ids d)" using find_run_None [of d rid] r(1) by auto
  from find_run_in [OF r(1)] have rin: "r \<in> set (t_runs d)" "r_run_id r = rid" by auto
  have ids: "run_ids ?d = run_ids d"
    by (subst run_ids_update) (simp_all add: d1 run_ids_def)
  have ev: "run_events ?d x = run_events d x @ (if x = rid then [e] else [])" for x
    using e by (simp add: run_events_def d1)
  have last: "0 \<le> r_last_sequence x \<and> r_last_sequence x < 2 ^ 63
          \<and> map e_sequence (run_events ?d (r_run_id x)) = [1..r_last_sequence x]"
    if "x \<in> set (t_runs ?d)" for x
  proof (cases "r_run_id x = rid")
    case True
    from that obtain y where y: "y \<in> set (t_runs d)"
      "x = (if r_run_id y = rid then y\<lparr>r_last_sequence := r_last_sequence r + 1\<rparr> else y)"
      unfolding tables_update_run runs1 by (simp only: set_map image_iff) blast
    have "r_last_sequence x = r_last_sequence r + 1"
    proof (cases "r_run_id y = rid")
      case True
      then show ?thesis by (simp add: y(2))
    next
      case False
      then show ?thesis using y(2) \<open>r_run_id x = rid\<close> by simp
    qed
    moreover have "0 \<le> r_last_sequence r" "map e_sequence (run_events d rid) = [1..r_last_sequence r]"
      using assms(1) rin by (auto simp: log_ok_def)
    moreover from this have "[1..r_last_sequence r + 1] = [1..r_last_sequence r] @ [r_last_sequence r + 1]"
      by (subst upto_rec2) simp_all
    ultimately show ?thesis using True e(2) r(2) by (simp add: ev)
  next
    case False
    with that have "x \<in> set (t_runs d)" by (auto simp: d1 split: if_splits)
    with False assms(1) show ?thesis by (simp add: ev log_ok_def)
  qed
  have evs: "t_events ?d = t_events d @ [e]" by (simp add: d1)
  show ?thesis unfolding log_ok_def ids evs
  proof (intro conjI ballI last)
    show "distinct (run_ids d)" by (rule log_okD(1) [OF assms(1)])
    show "distinct (map e_event_id (t_events d @ [e]))" using log_okD(2) [OF assms(1)] fresh by auto
    show "x \<in> set (t_events d @ [e]) \<Longrightarrow> e_run_id x \<in> set (run_ids d)" for x
      using log_okD(3) [OF assms(1)] here e(1) by auto
  qed (use last in blast)+
qed

lemma log_ok_empty: "log_ok empty_store"
  by (simp add: log_ok_def empty_store_def run_ids_def)

lemma micro_log_ok:
  assumes "log_ok d" and "micro E d d'"
  shows "log_ok d'"
  using assms(2,1)
proof (cases rule: micro.cases)
  case (mi_save rid q response)
  then show ?thesis
    using log_ok_tables [OF assms(1) save_idempotency_same(1,3) [OF mi_save]] by blast
next
  case mi_artifact
  then show ?thesis by (intro log_ok_tables [OF assms(1)]) (auto dest: artifact_step_tables)
next
  case (mi_new_stage s)
  with assms(1) show ?thesis by (auto dest!: insert_stage_tables intro: log_ok_tables)
next
  case (mi_new_run r)
  with assms(1) show ?thesis by (auto simp: fresh_run_row_def intro: log_ok_new_run)
next
  case (mi_event rid r e d1)
  with assms(1) show ?thesis by (auto intro: log_ok_event)
qed (simp_all add: log_ok_update_run set_run_status_def log_ok_tables [of d])

interpretation event_log: micro_invariant E log_ok for E
  by unfold_locales (auto intro: log_ok_empty micro_log_ok)


section \<open>Typed rows\<close>

text \<open>
  What the code relies on in \<open>serde_json\<close>: the ledgers and leases it writes into text columns
  are read back as they were.
\<close>

definition text_codec :: "env \<Rightarrow> bool" where
  "text_codec E \<longleftrightarrow>
     (\<forall>b. of_text E (to_text E (ledger_to_json b)) = Some (ledger_to_json b))
     \<and> (\<forall>l. of_text E (to_text E (lease_to_json l)) = Some (lease_to_json l))"

lemma codec_ledger: "text_codec E \<Longrightarrow> ledger_of_text E (ledger_text E b) = Inr b"
  by (simp add: text_codec_def ledger_of_text_def ledger_text_def)

lemma codec_lease: "text_codec E \<Longrightarrow> lease_of_text E (lease_text E l) = Inr l"
  by (simp add: text_codec_def lease_of_text_def lease_text_def)

definition typed_run :: "env \<Rightarrow> run_row \<Rightarrow> bool" where
  "typed_run E r \<longleftrightarrow>
     is_ok (validate_entity_id E (r_run_id r) ''run'')
     \<and> is_ok (validate_snapshot_id (r_snapshot_id r))
     \<and> is_ok (validate_entity_id E (r_authority_id r) ''auth'')
     \<and> is_ok (validate_digest (r_authority_digest r))
     \<and> r_legacy_report_only r = 0
     \<and> is_ok (parse_mode (r_mode r))
     \<and> is_ok (parse_cleanup (r_cleanup_state r))
     \<and> 0 \<le> r_last_sequence r
     \<and> (\<exists>c b. r_counters r = ledger_text E c \<and> r_budgets r = ledger_text E b \<and> ledger_le c b)
     \<and> (\<exists>s. r_status r = run_as_str s \<and> (r_receipt_id r \<noteq> None \<longrightarrow> s \<in> receipt_statuses))"

definition typed_stage :: "env \<Rightarrow> stage_row \<Rightarrow> bool" where
  "typed_stage E s \<longleftrightarrow>
     is_ok (validate_entity_id E (s_stage_id s) ''stage'')
     \<and> 0 \<le> s_attempt s \<and> s_attempt s \<le> s_max_attempts s \<and> s_max_attempts s < 2 ^ 63
     \<and> s_retryable s = 1
     \<and> (\<exists>st. s_state s = stage_as_str st
          \<and> (s_lease s = None \<or> (st \<in> {StRunning, StCancelling, StCancelled}
               \<and> (\<exists>l. s_lease s = Some (lease_text E l)))))"

definition store_typed :: "env \<Rightarrow> store \<Rightarrow> bool" where
  "store_typed E d \<longleftrightarrow>
     distinct (run_ids d)
     \<and> distinct (stage_ids d)
     \<and> (\<forall>r\<in>set (t_runs d). typed_run E r)
     \<and> (\<forall>s\<in>set (t_stages d). typed_stage E s \<and> s_run_id s \<in> set (run_ids d))"

lemma typed_run_project:
  assumes "text_codec E" and "typed_run E r"
  shows "\<exists>p. project_run E r = Inr p \<and> rp_run_id p = r_run_id r
     \<and> run_as_str (rp_status p) = r_status r \<and> ledger_le (rp_counters p) (rp_budgets p)
     \<and> ledger_text E (rp_counters p) = r_counters r \<and> ledger_text E (rp_budgets p) = r_budgets r
     \<and> rp_receipt_id p = r_receipt_id r"
  using assms by (auto simp: typed_run_def project_run_def is_ok_iff codec_ledger sql_bool_def sql_u64_def)

lemma typed_stage_project:
  assumes "text_codec E" and "typed_stage E s"
  shows "\<exists>p. project_stage E s = Inr p \<and> sp_stage_id p = s_stage_id s \<and> sp_run_id p = s_run_id s
     \<and> stage_as_str (sp_state p) = s_state s \<and> uint (sp_attempt p) = s_attempt s
     \<and> uint (sp_max_attempts p) = s_max_attempts s"
proof -
  have u: "uint (word_of_int n :: u64) = n" if "0 \<le> n" "n < 2 ^ 63" for n
    using that by (simp add: uint_word_of_int)
  from assms(2) obtain st where st: "s_state s = stage_as_str st"
    and "s_lease s = None \<or> (\<exists>l. s_lease s = Some (lease_text E l))"
    and n: "0 \<le> s_attempt s" "s_attempt s \<le> s_max_attempts s" "s_max_attempts s < 2 ^ 63" "s_retryable s = 1"
    unfolding typed_stage_def by blast
  then obtain ls where "(case s_lease s of None \<Rightarrow> Inr None
            | Some t \<Rightarrow> bindE (lease_of_text E t) (\<lambda>l. Inr (Some l))) = Inr ls"
    by (auto simp: codec_lease [OF assms(1)])
  then show ?thesis using st n u
    by (simp add: project_stage_def sql_bool_def sql_u64_def del: stage_as_str.simps)
qed

lemma store_typedD:
  assumes "store_typed E d"
  shows "distinct (run_ids d)" and "distinct (stage_ids d)"
    and "r \<in> set (t_runs d) \<Longrightarrow> typed_run E r"
    and "s \<in> set (t_stages d) \<Longrightarrow> typed_stage E s"
    and "s \<in> set (t_stages d) \<Longrightarrow> s_run_id s \<in> set (run_ids d)"
  using assms unfolding store_typed_def by blast+

lemma store_typed_tables:
  "store_typed E d \<Longrightarrow> t_runs d' = t_runs d \<Longrightarrow> t_stages d' = t_stages d \<Longrightarrow> store_typed E d'"
  by (simp add: store_typed_def run_ids_def stage_ids_def)

lemma store_typed_update_run:
  assumes "store_typed E d" and ids: "\<And>r. r_run_id (f r) = r_run_id r"
    and f: "\<And>r. r \<in> set (t_runs d) \<Longrightarrow> r_run_id r = rid \<Longrightarrow> find_run d rid = Some r \<Longrightarrow> typed_run E r
      \<Longrightarrow> typed_run E (f r)"
  shows "store_typed E (update_run rid f d)"
proof -
  have "typed_run E (f r)" if "r \<in> set (t_runs d)" "r_run_id r = rid" for r
    using that f [of r] store_typedD(1,3) [OF assms(1)] find_run_row [of d r] by auto
  then show ?thesis
    using store_typedD [OF assms(1)] unfolding store_typed_def run_ids_update [OF ids] by auto
qed

lemma store_typed_update_stages:
  assumes "store_typed E d"
    and ids: "\<And>s. s_stage_id (g s) = s_stage_id s \<and> s_run_id (g s) = s_run_id s"
    and g: "\<And>s. s \<in> set (t_stages d) \<Longrightarrow> P s \<Longrightarrow> typed_stage E s \<Longrightarrow> typed_stage E (g s)"
  shows "store_typed E (update_stages P g d)"
proof -
  have "stage_ids (update_stages P g d) = stage_ids d"
    using ids by (simp add: stage_ids_def)
  moreover have "typed_stage E (g s)" if "s \<in> set (t_stages d)" "P s" for s
    using that g store_typedD(4) [OF assms(1)] by auto
  moreover have "s_run_id (g s) = s_run_id s" for s using ids by simp
  ultimately show ?thesis
    using store_typedD [OF assms(1)] unfolding store_typed_def run_ids_stages by auto
qed

text \<open>A read of a typed row gives the fields the row holds.\<close>

lemma read_run_row:
  assumes "text_codec E" "read_run E d rid = Inr p" "find_run d rid = Some r" "typed_run E r"
  shows "run_as_str (rp_status p) = r_status r" "ledger_le (rp_counters p) (rp_budgets p)"
    "ledger_text E (rp_counters p) = r_counters r" "ledger_text E (rp_budgets p) = r_budgets r"
    "rp_receipt_id p = r_receipt_id r" "rp_run_id p = rid"
proof -
  have "project_run E r = Inr p" using assms(2,3) by (simp add: read_run_def bindE_eq_Inr)
  with typed_run_project [OF assms(1,4)] find_run_in [OF assms(3)]
  show "run_as_str (rp_status p) = r_status r" "ledger_le (rp_counters p) (rp_budgets p)"
    "ledger_text E (rp_counters p) = r_counters r" "ledger_text E (rp_budgets p) = r_budgets r"
    "rp_receipt_id p = r_receipt_id r" "rp_run_id p = rid"
    by auto
qed

lemma read_stage_row:
  assumes "text_codec E" "read_stage E d sid = Inr p" "find_stage d sid = Some s" "typed_stage E s"
  shows "stage_as_str (sp_state p) = s_state s" "uint (sp_attempt p) = s_attempt s"
    "uint (sp_max_attempts p) = s_max_attempts s" "sp_run_id p = s_run_id s"
proof -
  have "project_stage E s = Inr p" using assms(2,3) by (simp add: read_stage_def bindE_eq_Inr)
  with typed_stage_project [OF assms(1,4)]
  show "stage_as_str (sp_state p) = s_state s" "uint (sp_attempt p) = s_attempt s"
    "uint (sp_max_attempts p) = s_max_attempts s" "sp_run_id p = s_run_id s"
    by auto
qed

lemma receipt_statuses_final:
  "s \<in> receipt_statuses \<Longrightarrow> run_is_terminal s \<and> \<not> run_can_transition s t"
  by (auto simp: receipt_statuses_def run_can_transition_def)

lemma typed_run_status:
  assumes "typed_run E r" and "r_receipt_id r = None \<or> x \<in> receipt_statuses"
  shows "typed_run E (r\<lparr>r_status := run_as_str x, r_started_at := u, r_terminal_at := v\<rparr>)"
  using assms by (auto simp: typed_run_def simp del: run_as_str.simps)

lemma typed_no_receipt:
  "typed_run E r \<Longrightarrow> r_status r = run_as_str s \<Longrightarrow> s \<notin> receipt_statuses \<Longrightarrow> r_receipt_id r = None"
  by (auto simp: typed_run_def simp del: run_as_str.simps)

lemma typed_run_other:
  assumes "typed_run E r"
  shows "typed_run E (r\<lparr>r_authority_contract := c\<rparr>)"
    and "0 \<le> n \<Longrightarrow> typed_run E (r\<lparr>r_last_sequence := n\<rparr>)"
    and "typed_run E (r\<lparr>r_cleanup_state := cleanup_as_str cl\<rparr>)"
    and "r_budgets r = ledger_text E b \<Longrightarrow> ledger_le n' b \<Longrightarrow> typed_run E (r\<lparr>r_counters := ledger_text E n'\<rparr>)"
  using assms unfolding typed_run_def by (simp_all del: run_as_str.simps cleanup_as_str.simps) blast

lemma typed_run_stamps [simp]:
  "typed_run E (r\<lparr>r_terminal_at := v\<rparr>) = typed_run E r"
  "typed_run E (r\<lparr>r_started_at := v\<rparr>) = typed_run E r"
  by (simp_all add: typed_run_def)

lemma typed_run_receipt:
  assumes "typed_run E r" and "x \<in> receipt_statuses"
  shows "typed_run E (r\<lparr>r_status := run_as_str x, r_terminal_at := v, r_receipt_id := Some t\<rparr>)"
  using assms by (auto simp: typed_run_def simp del: run_as_str.simps)

lemma typed_run_text_status:
  assumes "typed_run E r" and "r_receipt_id r = None" and "t = run_as_str x"
  shows "typed_run E (r\<lparr>r_status := t\<rparr>)"
  using assms by (auto simp: typed_run_def simp del: run_as_str.simps)

lemma typed_run_cancelled:
  assumes "typed_run E r" and "r_receipt_id r = None"
  shows "typed_run E (r\<lparr>r_status := ''cancelled''\<rparr>)"
    and "typed_run E (r\<lparr>r_status := ''cancelling''\<rparr>)"
    and "typed_run E (r\<lparr>r_status := ''interrupted''\<rparr>)"
  using typed_run_text_status [OF assms, of _ Cancelled] typed_run_text_status [OF assms, of _ Cancelling]
    typed_run_text_status [OF assms, of _ Interrupted] by simp_all

lemma store_typed_new_run:
  assumes "store_typed E d" and "insert_run r d = Inr d'" and "fresh_run_row E r"
  shows "store_typed E d'"
proof -
  from assms(2) have fresh: "r_run_id r \<notin> set (run_ids d)" and d': "d' = d\<lparr>t_runs := t_runs d @ [r]\<rparr>"
    by (auto dest!: insert_run_tables simp: find_run_None)
  have "typed_run E r"
    using assms(3) run_life.parse_as_text [of Created] cleanup_text.parse_as_text [of Pending]
    by (auto simp: typed_run_def fresh_run_row_def is_ok_iff intro!: exI [of _ Created])
      (metis ledger_le_default)
  with fresh store_typedD [OF assms(1)] show ?thesis
    by (auto simp: store_typed_def d' run_ids_def stage_ids_def)
qed

lemma store_typed_new_stage:
  assumes "store_typed E d" and "insert_stage s d = Inr d'" and "fresh_stage_row E s"
  shows "store_typed E d'"
proof -
  from assms(2) have fresh: "s_stage_id s \<notin> set (stage_ids d)" and here: "s_run_id s \<in> set (run_ids d)"
    and d': "d' = d\<lparr>t_stages := t_stages d @ [s]\<rparr>"
    using find_run_None [of d "s_run_id s"]
    by (auto dest!: insert_stage_tables simp: find_stage_def find_None_iff stage_ids_def)
  have "typed_stage E s"
    using assms(3) by (auto simp: typed_stage_def fresh_stage_row_def intro!: exI [of _ StCreated])
  with fresh here store_typedD [OF assms(1)] show ?thesis
    by (auto simp: store_typed_def d' run_ids_def stage_ids_def)
qed

text \<open>The status read through the projection is the status of the row being rewritten.\<close>

lemma read_no_receipt:
  assumes "text_codec E" "read_run E d rid = Inr p" "find_run d rid = Some r" "typed_run E r"
    and "rp_status p \<notin> receipt_statuses"
  shows "r_receipt_id r = None"
  using typed_no_receipt [OF assms(4)] read_run_row(1) [OF assms(1-4)] assms(5) by metis

lemma typed_stage_text:
  assumes "typed_stage E s" and "x \<in> {StRunning, StCancelling, StCancelled}" and "t = stage_as_str x"
  shows "typed_stage E (s\<lparr>s_state := t\<rparr>)"
proof -
  from assms(1) have "s_lease s = None \<or> (\<exists>l. s_lease s = Some (lease_text E l))"
    unfolding typed_stage_def by blast
  with assms show ?thesis unfolding typed_stage_def by (simp del: stage_as_str.simps)
qed

lemma micro_store_typed:
  assumes codec: "text_codec E" and d: "store_typed E d" and "micro E d d'"
  shows "store_typed E d'"
  using assms(3)
proof (cases rule: micro.cases)
  case mi_draw
  then show ?thesis using d by (auto intro: store_typed_tables)
next
  case (mi_save rid q response)
  then show ?thesis
    using store_typed_tables [OF d save_idempotency_same(1,2) [OF mi_save]] by blast
next
  case (mi_event rid r e d1)
  then have "t_runs d1 = t_runs d" "t_stages d1 = t_stages d" by (auto dest: insert_event_tables)
  then have "store_typed E d1" by (rule store_typed_tables [OF d])
  moreover have "0 \<le> r_last_sequence r"
    using find_run_in [OF mi_event(2)] store_typedD(3) [OF d] by (auto simp: typed_run_def)
  ultimately show ?thesis
    unfolding mi_event(1) by (intro store_typed_update_run typed_run_other) simp_all
next
  case (mi_new_run r)
  then show ?thesis using d by (auto intro: store_typed_new_run)
next
  case (mi_new_stage s)
  then show ?thesis using d by (auto intro: store_typed_new_stage)
next
  case mi_artifact
  then show ?thesis by (intro store_typed_tables [OF d]) (auto dest: artifact_step_tables)
next
  case (mi_run_status rid p nxt stamp)
  have "rp_status p \<notin> receipt_statuses" using mi_run_status receipt_statuses_final by blast
  then show ?thesis
    unfolding mi_run_status(1) set_run_status_def using mi_run_status(2)
    by (intro store_typed_update_run d typed_run_status disjI1 read_no_receipt [OF codec]) simp_all
next
  case (mi_run_interrupt rid stamp)
  have "typed_run E (if r_status r = ''running'' then r\<lparr>r_status := ''interrupted'', r_terminal_at := Some stamp\<rparr> else r)"
    if "typed_run E r" for r
  proof (cases "r_status r = ''running''")
    case True
    then have "r_receipt_id r = None"
      using that by (intro typed_no_receipt [of _ _ Running]) (simp_all add: receipt_statuses_def)
    then show ?thesis using that by (simp add: typed_run_cancelled)
  next
    case False
    then show ?thesis using that by simp
  qed
  then show ?thesis unfolding mi_run_interrupt by (intro store_typed_update_run d) simp_all
next
  case (mi_run_cancelling rid p)
  have "rp_status p \<notin> receipt_statuses" using mi_run_cancelling receipt_statuses_final by blast
  then show ?thesis
    unfolding mi_run_cancelling(1) using mi_run_cancelling(2)
    by (intro store_typed_update_run d typed_run_cancelled read_no_receipt [OF codec]) simp_all
next
  case (mi_run_contract rid p c)
  then show ?thesis by (auto intro!: store_typed_update_run d typed_run_other)
next
  case (mi_run_cancelled rid p stamp)
  then have "rp_status p \<notin> receipt_statuses" by (simp add: receipt_statuses_def)
  then show ?thesis
    unfolding mi_run_cancelled(1) using mi_run_cancelled(2)
    by (intro store_typed_update_run d) (simp_all add: typed_run_cancelled read_no_receipt [OF codec])
next
  case (mi_run_receipt rid p nxt stages stamp receipt)
  then show ?thesis by (auto intro!: store_typed_update_run d typed_run_receipt)
next
  case (mi_run_counters rid p delta n)
  then have n: "ledger_le n (rp_budgets p)" by (simp add: ledger_checked_add_Inr)
  show ?thesis unfolding mi_run_counters(1)
  proof (intro store_typed_update_run d)
    fix r assume "find_run d rid = Some r" "typed_run E r"
    then show "typed_run E (r\<lparr>r_counters := ledger_text E n\<rparr>)"
      using read_run_row(4) [OF codec mi_run_counters(2)] n by (metis typed_run_other(4))
  qed simp
next
  case (mi_run_cleanup rid c)
  then show ?thesis by (auto intro!: store_typed_update_run d typed_run_other)
next
  case (mi_stage_state sid p nxt att)
  show ?thesis unfolding mi_stage_state(1)
  proof (intro store_typed_update_stages d)
    fix s assume s: "s \<in> set (t_stages d)" "s_stage_id s = sid" "typed_stage E s"
    then have "find_stage d sid = Some s" using store_typedD(2) [OF d] find_stage_row by blast
    with s(3) mi_stage_state read_stage_row(3) [OF codec mi_stage_state(2)]
    show "typed_stage E (set_stage_state nxt att s)"
      by (auto simp: typed_stage_def set_stage_state_def simp del: stage_as_str.simps)
  qed (simp add: set_stage_state_def)
next
  case (mi_stage_lease sid p l)
  show ?thesis unfolding mi_stage_lease(1)
  proof (intro store_typed_update_stages d)
    fix s assume s: "s \<in> set (t_stages d)" "s_stage_id s = sid" "typed_stage E s"
    then have "find_stage d sid = Some s" using store_typedD(2) [OF d] find_stage_row by blast
    with s(3) mi_stage_lease read_stage_row(2,3) [OF codec mi_stage_lease(2)]
    show "typed_stage E (s\<lparr>s_state := ''running'', s_attempt := s_attempt s + 1, s_lease := Some (lease_text E l)\<rparr>)"
      by (auto simp: typed_stage_def intro!: exI [of _ StRunning])
  qed simp
next
  case (mi_stage_interrupt sid)
  have "typed_stage E s \<Longrightarrow> typed_stage E (s\<lparr>s_state := ''interrupted'', s_lease := None\<rparr>)" for s
    by (auto simp: typed_stage_def intro!: exI [of _ StInterrupted])
  then show ?thesis unfolding mi_stage_interrupt by (intro store_typed_update_stages d) simp_all
next
  case (mi_stages_cancelling rid)
  have "typed_stage E (s\<lparr>s_state := (if s_state s = ''running'' then ''cancelling'' else ''cancelled'')\<rparr>)"
    if "typed_stage E s" for s
    using that by (intro typed_stage_text [of _ _ "if s_state s = ''running'' then StCancelling else StCancelled"]) simp_all
  then show ?thesis unfolding mi_stages_cancelling by (intro store_typed_update_stages d) simp_all
next
  case (mi_stages_cancelled rid)
  have "typed_stage E s \<Longrightarrow> typed_stage E (s\<lparr>s_state := ''cancelled'', s_lease := None\<rparr>)" for s
    by (auto simp: typed_stage_def intro!: exI [of _ StCancelled])
  then show ?thesis unfolding mi_stages_cancelled by (intro store_typed_update_stages d) simp_all
qed

lemma store_typed_empty: "store_typed E empty_store"
  by (simp add: store_typed_def empty_store_def run_ids_def stage_ids_def)

interpretation typed_rows: micro_invariant E "\<lambda>d. text_codec E \<longrightarrow> store_typed E d" for E
  by unfold_locales (auto intro: store_typed_empty micro_store_typed)

text \<open>The guarded updates of the other tables do not concern artifacts.\<close>

lemma micro_artifacts_ok:
  assumes d: "artifacts_ok E d" and "micro E d d'"
  shows "artifacts_ok E d'"
  using assms(2)
proof (cases rule: micro.cases)
  case mi_artifact
  then show ?thesis by (rule artifact_step_ok [OF d])
next
  case (mi_save rid q response)
  then show ?thesis
    using artifacts_ok_tables [OF d save_idempotency_same(4-6) [OF mi_save]] by blast
next
  case (mi_event rid r e d1)
  then have "t_artifacts d1 = t_artifacts d" "t_refs d1 = t_refs d" "t_cas d1 = t_cas d"
    by (auto dest: insert_event_tables)
  then show ?thesis by (intro artifacts_ok_tables [OF d]) (simp_all add: mi_event(1))
next
  case (mi_new_run r)
  then show ?thesis by (intro artifacts_ok_tables [OF d]) (auto dest!: insert_run_tables)
next
  case (mi_new_stage s)
  then show ?thesis by (intro artifacts_ok_tables [OF d]) (auto dest!: insert_stage_tables)
qed (simp_all add: artifacts_ok_tables [OF d])

interpretation artifact_files: micro_invariant E "artifacts_ok E" for E
  by unfold_locales (auto intro: artifacts_ok_empty micro_artifacts_ok)

section \<open>What no operation undoes\<close>

text \<open>The events, and the keys of earlier requests, are only ever appended to.\<close>

interpretation events_kept: micro_stable E "\<lambda>d. prefix evs (t_events d)" for E evs
proof
  fix d d' assume "prefix evs (t_events d)" and "micro E d d'"
  from this(2,1) show "prefix evs (t_events d')"
    by (cases rule: micro_frame) (auto dest: insert_run_tables)
qed

interpretation keys_kept: micro_stable E "\<lambda>d. prefix ks (t_idempotency d)" for E ks
proof
  fix d d' assume "prefix ks (t_idempotency d)" and "micro E d d'"
  from this(2,1) show "prefix ks (t_idempotency d')"
    by (cases rule: micro_frame) (auto dest: insert_run_tables)
qed

text \<open>A run keeps its snapshot, mode, authority, budgets and creation time.\<close>

definition same_identity :: "run_row \<Rightarrow> run_row \<Rightarrow> bool" where
  "same_identity a b \<longleftrightarrow>
     r_run_id a = r_run_id b \<and> r_snapshot_id a = r_snapshot_id b \<and> r_mode a = r_mode b
     \<and> r_budgets a = r_budgets b \<and> r_created_at a = r_created_at b
     \<and> r_authority_id a = r_authority_id b \<and> r_authority_digest a = r_authority_digest b
     \<and> r_legacy_report_only a = r_legacy_report_only b"

lemma find_append_Some: "find p xs = Some x \<Longrightarrow> find p (xs @ ys) = Some x"
  by (induction xs) auto

lemma find_map_key:
  "(\<And>x. key (f x) = key x) \<Longrightarrow> find (\<lambda>y. key y = k) (map f xs) = map_option f (find (\<lambda>y. key y = k) xs)"
  by (induction xs) auto

lemma find_run_map:
  "t_runs d' = map f (t_runs d) \<Longrightarrow> keeps_identity f \<Longrightarrow> find_run d' rid = map_option f (find_run d rid)"
  unfolding find_run_def keeps_identity_def by (simp add: find_map_key)

lemma find_run_insert:
  "insert_run r d = Inr d' \<Longrightarrow> find_run d rid = Some x \<Longrightarrow> find_run d' rid = Some x"
  by (auto dest!: insert_run_tables simp: find_run_def find_append_Some)

interpretation identity_kept: micro_stable E
  "\<lambda>d. \<exists>r'. find_run d rid = Some r' \<and> same_identity r r'" for E rid r
proof
  fix d d' assume r': "\<exists>r'. find_run d rid = Some r' \<and> same_identity r r'" and "micro E d d'"
  from this(2) show "\<exists>r'. find_run d' rid = Some r' \<and> same_identity r r'"
  proof (cases rule: micro_frame)
    case (new_run x)
    with r' find_run_insert show ?thesis by blast
  next
    case (rewrite f)
    with r' show ?thesis
      by (auto simp: find_run_map same_identity_def keeps_identity_def)
  qed
qed

text \<open>A stage stays with its run.\<close>

lemma find_stage_map:
  "t_stages d' = map g (t_stages d) \<Longrightarrow> (\<And>s. s_stage_id (g s) = s_stage_id s) \<Longrightarrow>
     find_stage d' sid = map_option g (find_stage d sid)"
  unfolding find_stage_def by (simp add: find_map_key)

lemma find_stage_prefix: "prefix (t_stages d) (t_stages d') \<Longrightarrow> find_stage d sid = Some s \<Longrightarrow> find_stage d' sid = Some s"
  by (auto simp: find_stage_def find_append_Some prefix_def)

interpretation stage_kept: micro_stable E
  "\<lambda>d. \<exists>s. find_stage d sid = Some s \<and> s_run_id s = rid \<and> s_max_attempts s = n" for E sid rid n
proof
  fix d d' assume s: "\<exists>s. find_stage d sid = Some s \<and> s_run_id s = rid \<and> s_max_attempts s = n" and "micro E d d'"
  from this(2) show "\<exists>s. find_stage d' sid = Some s \<and> s_run_id s = rid \<and> s_max_attempts s = n"
  proof (cases rule: micro_frame)
    case (new_run x)
    then have "t_stages d' = t_stages d" by (auto dest: insert_run_tables)
    with s show ?thesis by (simp add: find_stage_def)
  next
    case (rewrite f)
    from rewrite(3) show ?thesis
      using s find_stage_prefix by (auto simp: find_stage_map)
  qed
qed

section \<open>Receipts and revoked authority\<close>

text \<open>What a guarded update does to the row of one run, in a typed store.\<close>

inductive row_step :: "env \<Rightarrow> store \<Rightarrow> run_row \<Rightarrow> run_row \<Rightarrow> bool" for E d where
  rs_same: "r_status r' = r_status r \<Longrightarrow> r_receipt_id r' = r_receipt_id r \<Longrightarrow>
    r_counters r' = r_counters r \<Longrightarrow> r_authority_contract r' = r_authority_contract r \<Longrightarrow> row_step E d r r'"
| rs_status: "may_write E d (r_run_id r) \<Longrightarrow> r_status r = run_as_str a \<Longrightarrow> run_can_transition a b \<Longrightarrow>
    r_status r' = run_as_str b \<Longrightarrow>
    r_receipt_id r' = r_receipt_id r \<or> b \<in> receipt_statuses \<Longrightarrow>
    r_counters r' = r_counters r \<Longrightarrow> r_authority_contract r' = r_authority_contract r \<Longrightarrow> row_step E d r r'"
| rs_interrupt: "r_status r = ''running'' \<Longrightarrow> r_status r' = ''interrupted'' \<Longrightarrow>
    r_receipt_id r' = r_receipt_id r \<Longrightarrow>
    r_counters r' = r_counters r \<Longrightarrow> r_authority_contract r' = r_authority_contract r \<Longrightarrow> row_step E d r r'"
| rs_cancel: "r_status r = run_as_str a \<Longrightarrow> \<not> run_is_terminal a \<Longrightarrow> a \<noteq> Cancelling \<Longrightarrow>
    r_status r' = r_status r \<or> r_status r' = ''cancelling'' \<Longrightarrow> r_receipt_id r' = r_receipt_id r \<Longrightarrow>
    r_counters r' = r_counters r \<Longrightarrow> row_step E d r r'"
| rs_cancelled: "r_status r = ''cancelling'' \<Longrightarrow> r_status r' = ''cancelled'' \<Longrightarrow> r_receipt_id r' = r_receipt_id r \<Longrightarrow>
    r_counters r' = r_counters r \<Longrightarrow> r_authority_contract r' = r_authority_contract r \<Longrightarrow> row_step E d r r'"
| rs_counters: "may_write E d (r_run_id r) \<Longrightarrow> r_status r' = r_status r \<Longrightarrow> r_receipt_id r' = r_receipt_id r \<Longrightarrow>
    r_authority_contract r' = r_authority_contract r \<Longrightarrow> row_step E d r r'"

lemma find_run_updated:
  "find_run d rid = Some r \<Longrightarrow> r_run_id (f r) = r_run_id r \<Longrightarrow> (\<And>x. r_run_id (f x) = r_run_id x) \<Longrightarrow>
     find_run (update_run rid' f d) rid = Some (if rid' = rid then f r else r)"
  by (auto simp: find_run_update)

theorem micro_row_step:
  assumes codec: "text_codec E" and d: "store_typed E d" and m: "micro E d d'" and r: "find_run d rid = Some r"
  shows "\<exists>r'. find_run d' rid = Some r' \<and> row_step E d r r'"
proof -
  note typed = store_typedD(3) [OF d find_run_in [OF r, THEN conjunct1]]
  have id: "r_run_id r = rid" using find_run_in [OF r] by simp
  have *: ?thesis if "d' = update_run x f d" "\<And>y. r_run_id (f y) = r_run_id y" "x = rid \<Longrightarrow> row_step E d r (f r)" for x f
    using find_run_updated [OF r that(2,2), of x] that by (auto intro: rs_same)
  have stay: ?thesis if "find_run d' rid = Some r" using that by (auto intro: rs_same)
  have status: "run_as_str (rp_status p) = r_status r" if "read_run E d rid = Inr p" for p
    using read_run_row(1) [OF codec that r typed] .
  show ?thesis using m
  proof (cases rule: micro.cases)
    case mi_draw
    then show ?thesis using r stay by simp
  next
    case (mi_save rid q response)
    then show ?thesis using save_idempotency_same(1) [OF mi_save] r stay by (simp add: find_run_def)
  next
    case (mi_event rid' r' e d1)
    then have "find_run d1 = find_run d" by (auto dest!: insert_event_tables simp: find_run_def)
    then have "find_run d' rid = Some (if rid' = rid then r\<lparr>r_last_sequence := r_last_sequence r' + 1\<rparr> else r)"
      using find_run_updated [of d1 rid r] r by (simp add: mi_event(1))
    then show ?thesis by (auto intro!: rs_same)
  next
    case (mi_new_run x)
    then show ?thesis using find_run_insert r stay by blast
  next
    case (mi_new_stage s)
    then show ?thesis using r stay by (auto dest!: insert_stage_tables simp: find_run_def)
  next
    case mi_artifact
    then show ?thesis using r stay artifact_step_tables(1) [OF mi_artifact] by (simp add: find_run_def)
  next
    case (mi_run_status rid' p nxt stamp)
    show ?thesis
      by (rule * [OF mi_run_status(1)])
        (use mi_run_status id status in \<open>auto simp: set_run_status_def intro!: rs_status [where a = "rp_status p" and b = nxt]\<close>)
  next
    case (mi_run_interrupt rid' stamp)
    show ?thesis
      by (rule * [OF mi_run_interrupt]) (auto intro: rs_same rs_interrupt)
  next
    case (mi_run_cancelling rid' p)
    show ?thesis
      by (rule * [OF mi_run_cancelling(1)])
        (use mi_run_cancelling status in \<open>auto intro!: rs_cancel [where a = "rp_status p"]\<close>)
  next
    case (mi_run_contract rid' p c)
    show ?thesis
      by (rule * [OF mi_run_contract(1)])
        (use mi_run_contract status in \<open>auto intro!: rs_cancel [where a = "rp_status p"]\<close>)
  next
    case (mi_run_cancelled rid' p stamp)
    show ?thesis
      by (rule * [OF mi_run_cancelled(1)])
        (use mi_run_cancelled status in \<open>auto intro!: rs_cancelled\<close>)
  next
    case (mi_run_receipt rid' p nxt stages stamp receipt)
    show ?thesis
      by (rule * [OF mi_run_receipt(1)])
        (use mi_run_receipt id status in \<open>auto intro!: rs_status [where a = "rp_status p" and b = nxt]\<close>)
  next
    case (mi_run_counters rid' p delta n)
    show ?thesis
      by (rule * [OF mi_run_counters(1)]) (use mi_run_counters id in \<open>auto intro!: rs_counters\<close>)
  next
    case (mi_run_cleanup rid' c)
    show ?thesis by (rule * [OF mi_run_cleanup]) (auto intro!: rs_same)
  qed (use r stay in \<open>simp_all\<close>)
qed

text \<open>A completed run keeps its receipt and its status.\<close>

definition receipted :: "env \<Rightarrow> string \<Rightarrow> string \<Rightarrow> run_status \<Rightarrow> store \<Rightarrow> bool" where
  "receipted E rid receipt s d \<longleftrightarrow>
     text_codec E \<and> store_typed E d \<and> s \<in> receipt_statuses
     \<and> (\<exists>r. find_run d rid = Some r \<and> r_receipt_id r = Some receipt \<and> r_status r = run_as_str s)"

lemma row_step_receipted:
  assumes "row_step E d r r'" and "r_receipt_id r = Some x" "r_status r = run_as_str s" "s \<in> receipt_statuses"
  shows "r_receipt_id r' = Some x \<and> r_status r' = run_as_str s"
proof -
  have "run_as_str s \<noteq> ''running''" "run_as_str s \<noteq> ''cancelling''"
    using assms(4) by (auto simp: receipt_statuses_def)
  with assms(1-3) receipt_statuses_final [OF assms(4)] show ?thesis
    by (cases rule: row_step.cases) (auto simp del: run_as_str.simps run_as_str_literals)
qed

interpretation receipt_kept: micro_stable E "receipted E rid receipt s" for E rid receipt s
proof
  fix d d' assume d: "receipted E rid receipt s d" and m: "micro E d d'"
  then obtain r where r: "find_run d rid = Some r" "r_receipt_id r = Some receipt" "r_status r = run_as_str s"
    and h: "text_codec E" "store_typed E d" "s \<in> receipt_statuses"
    unfolding receipted_def by blast
  from micro_row_step [OF h(1,2) m r(1)] row_step_receipted [OF _ r(2,3) h(3)] micro_store_typed [OF h(1,2) m] h
  show "receipted E rid receipt s d'" unfolding receipted_def by blast
qed

text \<open>
  A run whose stored contract no longer authorises anything, at any instant, while it is
  being cancelled: nothing but the confirmation of the cancellation can still happen to it.
\<close>

definition dead_contract :: "env \<Rightarrow> string option \<Rightarrow> bool" where
  "dead_contract E c \<longleftrightarrow>
     (\<forall>s. c = Some s \<longrightarrow> (\<forall>t x snap. \<not> is_ok (from_contract_json (at_time E t x) snap s)))"

lemma dead_contract_no_write:
  "dead_contract E (r_authority_contract r) \<Longrightarrow> find_run d rid = Some r \<Longrightarrow> \<not> may_write E d rid"
  by (auto simp: dead_contract_def may_write_def require_run_action_def bindE_eq_Inr ok_or_eq_Inr is_ok_iff
      split: if_splits)

definition frozen :: "env \<Rightarrow> string \<Rightarrow> string \<Rightarrow> store \<Rightarrow> bool" where
  "frozen E rid counters d \<longleftrightarrow>
     text_codec E \<and> store_typed E d
     \<and> (\<exists>r. find_run d rid = Some r \<and> r_receipt_id r = None \<and> r_counters r = counters
          \<and> r_status r \<in> {''cancelling'', ''cancelled''} \<and> dead_contract E (r_authority_contract r))"

lemma row_step_frozen:
  assumes "row_step E d r r'" and "\<not> may_write E d (r_run_id r)"
    and "r_status r \<in> {''cancelling'', ''cancelled''}" and "r_receipt_id r = None"
  shows "r_receipt_id r' = None \<and> r_counters r' = r_counters r
     \<and> r_status r' \<in> {''cancelling'', ''cancelled''} \<and> r_authority_contract r' = r_authority_contract r"
  using assms(1)
proof (cases rule: row_step.cases)
  case (rs_cancel a)
  moreover have "run_as_str Cancelled = ''cancelled''" "run_as_str Cancelling = ''cancelling''" by simp_all
  ultimately have "a = Cancelled" using assms(3) run_life.as_text_inject by (metis insertE singletonD)
  with rs_cancel show ?thesis by simp
qed (use assms(2-4) in \<open>auto simp del: run_as_str.simps\<close>)

interpretation frozen_kept: micro_stable E "frozen E rid n" for E rid n
proof
  fix d d' assume d: "frozen E rid n d" and m: "micro E d d'"
  then obtain r where r: "find_run d rid = Some r" "r_receipt_id r = None" "r_counters r = n"
    "r_status r \<in> {''cancelling'', ''cancelled''}" "dead_contract E (r_authority_contract r)"
    and h: "text_codec E" "store_typed E d"
    unfolding frozen_def by blast
  from r(1) have "r_run_id r = rid" using find_run_in by blast
  then have "\<not> may_write E d (r_run_id r)" using dead_contract_no_write r(1,5) by blast
  with micro_row_step [OF h m r(1)] row_step_frozen [OF _ _ r(4,2)] micro_store_typed [OF h m] h r
  show "frozen E rid n d'" unfolding frozen_def by metis
qed

text \<open>
  What the code relies on in \<open>serde_json\<close> and \<open>serde_jcs\<close>: the tokenizer presents negative
  and non-negative integers by their own callbacks, and the canonical text of a value without
  floats or duplicate keys is read back as that value. The reader has a limit on nesting (127
  levels), so the last law is asked only of values within it, or no deeper than a value that was read.
\<close>

definition depth_read :: "env \<Rightarrow> nat \<Rightarrow> bool" where
  "depth_read E n \<longleftrightarrow> n \<le> 127 \<or> (\<exists>s m v. parse_strict_json E s m = Inr v \<and> n \<le> json_depth v)"

definition json_laws :: "env \<Rightarrow> bool" where
  "json_laws E \<longleftrightarrow>
     (\<forall>s. token_tree (fst (deserialize E s)))
     \<and> (\<forall>v s. ijson v \<and> depth_read E (json_depth v) \<and> jcs E v = Some s \<and> length s \<le> MAX_SAFE_JSON_BYTES
          \<longrightarrow> parse_strict_json E s MAX_SAFE_JSON_BYTES = Inr v)"

lemma parse_ijson: "json_laws E \<Longrightarrow> parse_strict_json E s m = Inr v \<Longrightarrow> ijson v"
  unfolding json_laws_def parse_strict_json_Inr by (metis fst_conv strict_visit_ijson(1))

lemma set_revoked_Inr:
  assumes "set_revoked v = Inr v'" and "ijson v"
  shows "ijson v' \<and> json_get v' ''revoked'' = Some (JBool True) \<and> json_depth v' \<le> max 1 (json_depth v)"
proof (cases v)
  case (JObj ob)
  then show ?thesis using assms by (auto simp: set_revoked_def sorted_obj_insert ijson_members_obj_insert json_depth_obj_insert)
qed (use assms in \<open>auto simp: set_revoked_def\<close>)

lemma revoked_is_dead:
  assumes law: "json_laws E" and v: "ijson v" "depth_read E (json_depth v)" "json_get v ''revoked'' = Some (JBool True)"
    and c: "canonical_text E v = Inr s"
  shows "dead_contract E (Some s)"
proof -
  from c have j: "jcs E v = Some s" by (auto simp: canonical_text_Inr canonical_json_def result_simps)
  have "\<not> is_ok (from_contract_json (at_time E t x) snap s)" for t x snap
  proof
    assume "is_ok (from_contract_json (at_time E t x) snap s)"
    then obtain w a where w: "parse_strict_json E s MAX_SAFE_JSON_BYTES = Inr w" and a: "authority_of_json w = Some a"
      and ok: "validate_authority (at_time E t x) (a\<lparr>au_snapshot_id := snap\<rparr>) = Inr ()"
      by (auto simp: from_contract_json_def is_ok_iff result_simps Let_def)
    from w have "length s \<le> MAX_SAFE_JSON_BYTES" by (simp add: parse_strict_json_Inr)
    with law v(1,2) j have "parse_strict_json E s MAX_SAFE_JSON_BYTES = Inr v" unfolding json_laws_def by blast
    with w v(3) have "json_get w ''revoked'' = Some (JBool True)" by simp
    with a have "au_revoked a" by (auto simp: authority_of_json_def bind_eq_Some_conv split: if_splits)
    with validate_authority_Inr(1) [OF ok] show False by simp
  qed
  then show ?thesis by (simp add: dead_contract_def)
qed

end
