(* ===== verification/Core_Outcomes.thy ===== *)
theory Core_Outcomes
  imports Core_Invariants
begin

text \<open>
  What an operation answers. An error means that nothing was written (\<open>failed_clean\<close> for every
  operation of a reachable store); a key replays its first answer; a lease excludes every
  other owner; expiry recovery interrupts exactly the expired leases.
\<close>

section \<open>Errors leave the store alone\<close>

text \<open>The read after a commit, were it to fail.\<close>

definition late_read :: "env \<Rightarrow> store \<Rightarrow> core_error \<Rightarrow> bool" where
  "late_read E d e \<longleftrightarrow>
     (\<exists>rid. find_run d rid \<noteq> None \<and> is_ok (validate_entity_id E rid ''run'') \<and> read_run E d rid = Inl e)
     \<or> (\<exists>sid. find_stage d sid \<noteq> None \<and> is_ok (validate_entity_id E sid ''stage'')
            \<and> read_stage E d sid = Inl e)"

definition clean :: "env \<Rightarrow> store \<Rightarrow> 'a outcome \<Rightarrow> bool" where
  "clean E d out \<longleftrightarrow> (\<forall>e. fst out = Inl e \<longrightarrow> snd out = d \<or> late_read E (snd out) e)"

definition error_of :: "'a outcome \<Rightarrow> core_error option" where
  "error_of out = (case fst out of Inl e \<Rightarrow> Some e | Inr _ \<Rightarrow> None)"

lemma no_late_read:
  assumes codec: "text_codec E" and d: "store_typed E d"
  shows "\<not> late_read E d e"
proof
  assume "late_read E d e"
  then consider (run) rid r where "find_run d rid = Some r" "is_ok (validate_entity_id E rid ''run'')" "read_run E d rid = Inl e"
    | (stage) sid s where "find_stage d sid = Some s" "is_ok (validate_entity_id E sid ''stage'')" "read_stage E d sid = Inl e"
    unfolding late_read_def by blast
  then show False
  proof cases
    case run
    then obtain p where "project_run E r = Inr p"
      using typed_run_project [OF codec store_typedD(3) [OF d]] find_run_in by blast
    with run show ?thesis by (simp add: read_run_def is_ok_iff)
  next
    case stage
    then obtain p where "project_stage E s = Inr p"
      using typed_stage_project [OF codec store_typedD(4) [OF d]] find_stage_in by blast
    with stage show ?thesis by (simp add: read_stage_def is_ok_iff)
  qed
qed

lemma clean_attempt: "(\<And>x. m = Inr x \<Longrightarrow> clean E d (k x)) \<Longrightarrow> clean E d (attempt d m k)"
  by (cases m) (auto simp: clean_def)

lemma clean_stay: "clean E d (v, d)"
  by (simp add: clean_def)

lemma clean_if: "(c \<Longrightarrow> clean E d a) \<Longrightarrow> (\<not> c \<Longrightarrow> clean E d b) \<Longrightarrow> clean E d (if c then a else b)"
  by simp

lemma clean_save: "clean E d (attempt d m (\<lambda>d'. (Inr x, d')))"
  by (cases m) (auto simp: clean_def)

lemma clean_already_done: "clean E d (already_done d rid idem resp x)"
  unfolding already_done_def by (rule clean_save)

lemma clean_with_replay: "clean E d fresh \<Longrightarrow> clean E d (with_replay d idem rb fresh)"
  unfolding with_replay_def by (rule clean_attempt) (auto split: option.split simp: clean_stay)

lemma clean_read_run:
  "(\<And>d'. m = Inr d' \<Longrightarrow> find_run d' rid \<noteq> None) \<Longrightarrow> is_ok (validate_entity_id E rid ''run'') \<Longrightarrow>
     clean E d (attempt d m (\<lambda>d'. (read_run E d' rid, d')))"
  by (cases m) (auto simp: clean_def late_read_def)

lemma clean_read_stage:
  "(\<And>d'. m = Inr d' \<Longrightarrow> find_stage d' sid \<noteq> None) \<Longrightarrow> is_ok (validate_entity_id E sid ''stage'') \<Longrightarrow>
     clean E d (attempt d m (\<lambda>d'. (read_stage E d' sid, d')))"
  by (cases m) (auto simp: clean_def late_read_def)

text \<open>What the tail of a transaction leaves in the tables of runs and stages.\<close>

lemma tail_tables:
  assumes "bindE (append_event E rid ty payload refs d1) (\<lambda>d2. save_idempotency d2 rid' idem resp) = Inr d'"
  shows "find_run d' rid \<noteq> None" and "find_stage d' = find_stage d1"
proof -
  from assms obtain d2 where a: "append_event E rid ty payload refs d1 = Inr d2"
      and s: "save_idempotency d2 rid' idem resp = Inr d'"
    by (auto simp: bindE_eq_Inr)
  from a obtain r e d3 where "find_run d1 rid = Some r" and i: "insert_event e (draw_id d1) = Inr d3"
    and d2: "d2 = update_run rid (\<lambda>x. x\<lparr>r_last_sequence := r_last_sequence r + 1\<rparr>) d3"
    by (auto dest: append_event_Inr)
  moreover from i have "t_runs d3 = t_runs d1" "t_stages d3 = t_stages d1" by (auto dest: insert_event_tables)
  ultimately show "find_run d' rid \<noteq> None" "find_stage d' = find_stage d1"
    using save_idempotency_same(1,2) [OF s] find_run_cong [of d' d2] find_run_cong [of d3 d1]
    by (simp_all add: find_run_update find_stage_def fun_eq_iff)
qed

lemma read_run_valid: "read_run E d rid = Inr p \<Longrightarrow> is_ok (validate_entity_id E rid ''run'')"
  by (auto simp: read_run_def bindE_eq_Inr is_ok_iff)

lemma read_stage_found:
  "read_stage E d sid = Inr p \<Longrightarrow>
     (\<exists>y. find_stage d sid = Some y) \<and> is_ok (validate_entity_id E sid ''stage'')"
  by (auto simp: read_stage_def result_simps)

lemma find_stage_update:
  "find_stage d sid = Some s \<Longrightarrow> (\<And>s. s_stage_id (g s) = s_stage_id s) \<Longrightarrow>
     \<exists>y. find_stage (update_stages p g d) sid = Some y"
  unfolding find_stage_def tables_update_stages
  by (subst find_map_key) auto

lemma find_stage_inserted: "insert_stage s d = Inr d' \<Longrightarrow> \<exists>y. find_stage d' (s_stage_id s) = Some y"
proof -
  assume "insert_stage s d = Inr d'"
  then have "s \<in> set (t_stages d')" by (auto dest!: insert_stage_tables)
  then show ?thesis
    by (cases "find_stage d' (s_stage_id s)") (auto simp: find_stage_def find_None_iff)
qed

lemma set_stage_state_id [simp]: "s_stage_id (set_stage_state nxt att s) = s_stage_id s"
  by (simp add: set_stage_state_def)

lemmas clean_peel = clean_read_run clean_read_stage clean_attempt clean_stay clean_already_done

lemma create_run_clean: "clean E d (create_run_inner (at_time E t x) a b idem d)"
  unfolding create_run_inner_def Let_def reads_at_time
  by (intro clean_with_replay clean_if clean_peel) (auto simp: is_ok_iff bindE_eq_Inr [of "insert_run r d" for r d] dest: tail_tables)

lemma transition_run_clean: "clean E d (transition_run_inner (at_time E t x) rid nxt idem d)"
  unfolding transition_run_inner_def reads_at_time
  by (intro clean_with_replay clean_if clean_peel)
    (auto dest: tail_tables read_run_valid simp: bindE_eq_Inr [of "now_rfc3339 (at_time E t x)"])

lemma record_budget_clean: "clean E d (record_budget_inner (at_time E t x) rid b idem d)"
  unfolding record_budget_inner_def reads_at_time
  by (intro clean_with_replay clean_if clean_peel) (auto dest: tail_tables read_run_valid)

lemma mark_cleanup_clean: "clean E d (mark_cleanup_inner (at_time E t x) rid c idem d)"
  unfolding mark_cleanup_inner_def reads_at_time
  by (intro clean_with_replay clean_if clean_peel) (auto dest: tail_tables read_run_valid)

lemma complete_run_clean: "clean E d (complete_run_inner (at_time E t x) rid st idem d)"
  unfolding complete_run_inner_def reads_at_time
  by (intro clean_with_replay clean_if clean_peel) (auto dest: tail_tables read_run_valid)

lemma request_cancel_clean: "clean E d (request_cancel_inner (at_time E t x) rid idem d)"
  unfolding request_cancel_inner_def reads_at_time
  by (intro clean_with_replay clean_if clean_peel)
    (auto dest: tail_tables read_run_valid simp: bindE_eq_Inr [of "revoke_run_authority E' d r" for E' d r])

lemma confirm_cancelled_clean: "clean E d (confirm_cancelled_inner (at_time E t x) rid v idem d)"
  unfolding confirm_cancelled_inner_def reads_at_time
  by (intro clean_with_replay clean_if clean_peel)
    (auto dest: tail_tables read_run_valid simp: bindE_eq_Inr [of "now_rfc3339 (at_time E t x)"])

lemma recover_clean: "clean E d (recover_expired_leases (at_time E t x) n v d)"
  unfolding recover_expired_leases_def
  by (intro clean_if clean_save clean_attempt clean_stay)

lemma transition_stage_clean: "clean E d (transition_stage_inner (at_time E t x) sid nxt idem d)"
  unfolding transition_stage_inner_def reads_at_time
  by (intro clean_with_replay clean_if clean_peel)
   (auto dest!: tail_tables(2) read_stage_found intro!: find_stage_update
      simp: bindE_eq_Inr [of "sql_i64 z" for z])

lemma add_stage_clean: "clean E d (add_stage_inner (at_time E t x) rid kind m idem d)"
  unfolding add_stage_inner_def Let_def reads_at_time
  by (intro clean_with_replay clean_if clean_peel)
    (auto simp: is_ok_iff bindE_eq_Inr [of "sql_i64 z" for z] bindE_eq_Inr [of "insert_stage r d" for r d]
      dest!: tail_tables(2) find_stage_inserted)

lemma acquire_lease_clean: "clean E d (acquire_lease_inner (at_time E t x) sid ow n ttl idem d)"
proof -
  have tx: "clean E d (read_stage E d' sid, d')"
    if "bindE (append_event (at_time E t x) rid ty payload refs (update_stages P
        (\<lambda>s. s\<lparr>s_state := ''running'', s_attempt := s_attempt s + 1, s_lease := ls\<rparr>) d))
        (\<lambda>d1. save_idempotency d1 rid idem sid) = Inr d'"
      and "read_stage E d sid = Inr p" for p rid ty payload refs P ls d'
  proof -
    from that(1) have "find_stage d' = find_stage (update_stages P
        (\<lambda>s. s\<lparr>s_state := ''running'', s_attempt := s_attempt s + 1, s_lease := ls\<rparr>) d)"
      by (rule tail_tables)
    moreover from read_stage_found [OF that(2)] obtain y where y: "find_stage d sid = Some y"
      and "is_ok (validate_entity_id E sid ''stage'')" by blast
    moreover have "\<exists>z. find_stage (update_stages P
        (\<lambda>s. s\<lparr>s_state := ''running'', s_attempt := s_attempt s + 1, s_lease := ls\<rparr>) d) sid = Some z"
      by (rule find_stage_update [OF y]) simp
    ultimately show ?thesis by (auto simp: clean_def late_read_def)
  qed
  show ?thesis
    unfolding acquire_lease_inner_def Let_def reads_at_time
    by (intro clean_with_replay clean_if clean_stay clean_attempt)
      (auto split: option.split intro!: clean_attempt clean_stay clean_already_done tx)
qed

lemma link_artifact_clean: "clean E d (link_artifact_to_run (at_time E t x) rid aid p d)"
  unfolding link_artifact_to_run_def Let_def
  by (intro clean_if clean_attempt clean_stay) (simp add: clean_def)

lemma reconcile_clean: "clean E d (reconcile_artifacts (at_time E t x) d)"
  unfolding reconcile_artifacts_def by (intro clean_attempt) (simp add: clean_def)

text \<open>The error an operation answers with, if it does.\<close>

fun exec_error :: "env \<Rightarrow> core_op \<Rightarrow> idempotency_request option \<Rightarrow> store \<Rightarrow> core_error option" where
  "exec_error E (CreateRun a b) idem d = error_of (create_run_inner E a b idem d)"
| "exec_error E (AddStage rid kind m) idem d = error_of (add_stage_inner E rid kind m idem d)"
| "exec_error E (TransitionRun rid t) idem d = error_of (transition_run_inner E rid t idem d)"
| "exec_error E (TransitionStage sid t) idem d = error_of (transition_stage_inner E sid t idem d)"
| "exec_error E (RecordBudget rid b) idem d = error_of (record_budget_inner E rid b idem d)"
| "exec_error E (AcquireLease sid ow n ttl) idem d = error_of (acquire_lease_inner E sid ow n ttl idem d)"
| "exec_error E (RecoverLeases n v) idem d = error_of (recover_expired_leases E n v d)"
| "exec_error E (RequestCancel rid) idem d = error_of (request_cancel_inner E rid idem d)"
| "exec_error E (ConfirmCancelled rid v) idem d = error_of (confirm_cancelled_inner E rid v idem d)"
| "exec_error E (MarkCleanup rid c) idem d = error_of (mark_cleanup_inner E rid c idem d)"
| "exec_error E (CompleteRun rid t) idem d = error_of (complete_run_inner E rid t idem d)"
| "exec_error E (PutArtifact io b mt cls cb pd pin) idem d = error_of (put_artifact E io b mt cls cb pd pin d)"
| "exec_error E (PutRunArtifact io rid b mt cls cb pd pin) idem d =
     error_of (put_run_artifact E io rid b mt cls cb pd pin d)"
| "exec_error E (LinkArtifact rid aid p) idem d = error_of (link_artifact_to_run E rid aid p d)"
| "exec_error E (GarbageCollect io n dry) idem d = error_of (garbage_collect io n dry d)"
| "exec_error E Reconcile idem d = error_of (reconcile_artifacts E d)"

text \<open>Two operations work in several steps, each of which stands when a later one fails.\<close>

fun transactional :: "core_op \<Rightarrow> bool" where
  "transactional (PutRunArtifact io rid b mt cls cb pd pin) = False"
| "transactional (GarbageCollect io n dry) = False"
| "transactional _ = True"

lemma clean_error:
  "clean E d out \<Longrightarrow> error_of out = Some e \<Longrightarrow> snd out = d \<or> late_read E (snd out) e"
  by (auto simp: clean_def error_of_def split: sum.splits)

text \<open>
  The one thing an operation in a single transaction can leave behind: the file that a \<open>put_artifact\<close>
  has linked before its statement, or the removal of the temporary file, fails.
\<close>

definition left_file :: "env \<Rightarrow> core_op \<Rightarrow> store \<Rightarrow> store \<Rightarrow> bool" where
  "left_file E opn d d' \<longleftrightarrow>
     (\<exists>io b mt cls cb pd pin. opn = PutArtifact io b mt cls cb pd pin \<and> t_cas d (artifact_id E b) = None
        \<and> d' = d\<lparr>t_cas := (t_cas d)(artifact_id E b \<mapsto> RegularFile b)\<rparr>)"

lemma put_left_file:
  "error_of (put_artifact (at_time E t x) io b mt cls cb pd pin d) = Some e \<Longrightarrow>
     snd (put_artifact (at_time E t x) io b mt cls cb pd pin d) = d
     \<or> left_file E (PutArtifact io b mt cls cb pd pin) d (snd (put_artifact (at_time E t x) io b mt cls cb pd pin d))"
  using put_artifact_error [of E io b mt cls cb pd pin d]
  by (cases "put_artifact E io b mt cls cb pd pin d") (auto simp: error_of_def left_file_def split: sum.splits)

lemma exec_clean:
  "exec_error (at_time E t x) opn idem d = Some e \<Longrightarrow> transactional opn \<Longrightarrow>
     exec_op (at_time E t x) opn idem d = d \<or> late_read E (exec_op (at_time E t x) opn idem d) e
     \<or> left_file E opn d (exec_op (at_time E t x) opn idem d)"
  by (cases opn)
    (auto dest!: put_left_file clean_error [OF create_run_clean] clean_error [OF add_stage_clean]
      clean_error [OF transition_run_clean] clean_error [OF transition_stage_clean]
      clean_error [OF record_budget_clean] clean_error [OF acquire_lease_clean] clean_error [OF recover_clean]
      clean_error [OF request_cancel_clean] clean_error [OF confirm_cancelled_clean]
      clean_error [OF mark_cleanup_clean] clean_error [OF complete_run_clean]
      clean_error [OF link_artifact_clean] clean_error [OF reconcile_clean]
      simp del: put_artifact_at_time)

lemma failed_clean:
  assumes "text_codec E" and "reachable E d" and "exec_error (at_time E t x) opn idem d = Some e"
    and "transactional opn"
  shows "exec_op (at_time E t x) opn idem d = d \<or> left_file E opn d (exec_op (at_time E t x) opn idem d)"
proof -
  have "store_typed E (exec_op (at_time E t x) opn idem d)"
    using typed_rows.exec_keeps typed_rows.reachable assms(1,2) by blast
  from exec_clean [OF assms(3,4)] no_late_read [OF assms(1) this] show ?thesis by simp
qed

section \<open>Replays\<close>

text \<open>A key that has been recorded answers every later use of it.\<close>

definition recorded :: "idempotency_request \<Rightarrow> string \<Rightarrow> store \<Rightarrow> bool" where
  "recorded q resp d \<longleftrightarrow>
     (\<exists>row. find_idempotency d q = Some row \<and> i_request_digest row = q_digest q \<and> i_response row = resp)"

interpretation recorded_kept: micro_stable E "recorded q resp" for E q resp
proof
  fix d d' assume d: "recorded q resp d" and m: "micro E d d'"
  from keys_kept.keeps [OF _ m, of "t_idempotency d"] obtain ks where "t_idempotency d' = t_idempotency d @ ks"
    by (auto simp: prefix_def)
  with d show "recorded q resp d'"
    unfolding recorded_def find_idempotency_def by (auto dest: find_append_Some)
qed

lemma with_replay_recorded: "recorded q resp d \<Longrightarrow> with_replay d (Some q) rb fresh = (rb resp, d)"
  by (auto simp: recorded_def with_replay_def replay_idempotency_def)

lemma with_replay_conflict:
  "recorded q resp d \<Longrightarrow> q_operation q' = q_operation q \<Longrightarrow> q_key q' = q_key q \<Longrightarrow> q_digest q' \<noteq> q_digest q \<Longrightarrow>
     with_replay d (Some q') rb fresh = (Inl (safe_error ''idempotency_conflict''), d)"
  by (auto simp: recorded_def with_replay_def replay_idempotency_def find_idempotency_def)

lemma with_replay_cases:
  assumes "with_replay d idem rb fresh = (Inr y, d')"
  obtains (replayed) q resp where "idem = Some q" "recorded q resp d" "rb resp = Inr y" "d' = d"
    | (fresh) "fresh = (Inr y, d')"
proof (cases "replay_idempotency d idem")
  case (Inl e)
  with assms show ?thesis by (simp add: with_replay_def)
next
  case (Inr resp)
  show ?thesis
  proof (cases resp)
    case None
    with assms Inr fresh show ?thesis by (simp add: with_replay_def)
  next
    case (Some x)
    then obtain q where "idem = Some q" "recorded q x d"
      using Inr by (auto simp: replay_idempotency_def recorded_def split: option.splits if_splits)
    moreover have "rb x = Inr y" "d' = d" using assms Inr Some by (simp_all add: with_replay_def)
    ultimately show ?thesis by (rule replayed)
  qed
qed

lemma save_recorded: "save_idempotency d rid (Some q) resp = Inr d' \<Longrightarrow> recorded q resp d'"
proof -
  assume a: "save_idempotency d rid (Some q) resp = Inr d'"
  have "find p (xs @ [y]) = Some y" if "find p xs = None" "p y" for p xs and y :: idem_row
    using that by (induction xs) (auto split: if_splits)
  with a show ?thesis
    by (auto simp: save_idempotency_def recorded_def find_idempotency_def split: if_splits)
qed

lemma read_run_id: "read_run E d rid = Inr p \<Longrightarrow> rp_run_id p = rid"
  by (auto simp: read_run_def project_run_def result_simps dest!: find_run_in split: if_splits)

lemma create_run_recorded:
  assumes "create_run_inner (at_time E t x) a b (Some q) d = (Inr p, d')"
  shows "recorded q (rp_run_id p) d'"
  using assms unfolding create_run_inner_def Let_def
proof (cases rule: with_replay_cases)
  case (replayed q' resp)
  then show ?thesis using read_run_id by fastforce
next
  case fresh
  then show ?thesis
    by (auto simp: attempt_eq_Inr result_simps dest!: save_recorded read_run_id split: if_splits)
qed

lemma create_run_once:
  assumes "create_run_inner (at_time E t x) a b (Some q) d = (Inr p, d')" and "(core_step E)\<^sup>*\<^sup>* d' d''"
  shows "create_run_inner (at_time E t2 x2) a2 b2 (Some q) d'' = (read_run E d'' (rp_run_id p), d'')"
  unfolding create_run_inner_def
  by (subst with_replay_recorded [OF recorded_kept.steps_keep [OF assms(2) create_run_recorded [OF assms(1)]]])
    (simp only: reads_at_time)

section \<open>Leases\<close>

lemma read_stage_update:
  assumes "read_stage E d sid = Inr p"
  obtains s where "find_stage d sid = Some s" "project_stage E s = Inr p" "s_stage_id s = sid"
  using assms find_stage_in by (auto simp: read_stage_def result_simps)

text \<open>A live lease shuts out every other owner.\<close>

lemma acquire_lease_excluded:
  assumes "read_stage E d sid = Inr s" "sp_state s = StRunning"
    and "live_lease s now_ms = Some l" "l_owner l \<noteq> ow" and "replay_idempotency d idem = Inr None"
  shows "\<exists>e. acquire_lease_inner (at_time E t x) sid ow now_ms ttl idem d = (Inl e, d)
    \<and> (require_run_action (at_time E t x) d (sp_run_id s) WriteState = Inr () \<longrightarrow> e = safe_error ''lease_conflict'')"
  using assms
  by (cases "require_run_action (at_time E t x) d (sp_run_id s) WriteState")
    (simp_all add: acquire_lease_inner_def with_replay_def Let_def)

text \<open>The tail of a transaction leaves the stages as the row update made them.\<close>

lemma tail_stages:
  assumes "bindE (append_event E rid ty payload refs d1) (\<lambda>d2. save_idempotency d2 rid' idem resp) = Inr d'"
  shows "t_stages d' = t_stages d1"
    and "\<exists>n. find_run d' = find_run (update_run rid (\<lambda>r. r\<lparr>r_last_sequence := n\<rparr>) d1)"
proof -
  from assms obtain d2 where a: "append_event E rid ty payload refs d1 = Inr d2"
      and s: "save_idempotency d2 rid' idem resp = Inr d'"
    by (auto simp: bindE_eq_Inr)
  from append_event_Inr [OF a] obtain r :: run_row and e :: event_row and d3 where i: "insert_event e (draw_id d1) = Inr d3"
    and d2: "d2 = update_run rid (\<lambda>x. x\<lparr>r_last_sequence := r_last_sequence r + 1\<rparr>) d3"
    by blast
  from i have d3: "t_runs d3 = t_runs d1" "t_stages d3 = t_stages d1" by (auto dest: insert_event_tables)
  with d2 save_idempotency_same(2) [OF s] show "t_stages d' = t_stages d1" by simp
  have "find_run d' = find_run (update_run rid (\<lambda>x. x\<lparr>r_last_sequence := r_last_sequence r + 1\<rparr>) d1)"
    using save_idempotency_same(1) [OF s] d2 d3 by (intro find_run_cong) simp
  then show "\<exists>n. find_run d' = find_run (update_run rid (\<lambda>r. r\<lparr>r_last_sequence := n\<rparr>) d1)" by blast
qed

lemma find_stage_updated:
  assumes "find_stage d sid = Some s" "\<And>s. s_stage_id (g s) = s_stage_id s"
    and "t_stages d' = t_stages (update_stages p g d)"
  shows "find_stage d' sid = Some (if p s then g s else s)"
proof -
  have "find_stage d' sid = find (\<lambda>s. s_stage_id s = sid) (map (\<lambda>s. if p s then g s else s) (t_stages d))"
    using assms(3) by (simp add: find_stage_def)
  also have "\<dots> = map_option (\<lambda>s. if p s then g s else s) (find_stage d sid)"
    unfolding find_stage_def by (rule find_map_key) (simp add: assms(2))
  finally show ?thesis using assms(1) by simp
qed

text \<open>Who gets the lease: the caller, until \<open>now_ms + ttl_ms\<close>, with one more attempt used.\<close>

definition lease_taken :: "stage_projection \<Rightarrow> string \<Rightarrow> u64 \<Rightarrow> u64 \<Rightarrow> stage_projection \<Rightarrow> bool" where
  "lease_taken s ow now_ms ttl p \<longleftrightarrow>
     (sp_state s = StQueued \<or> sp_state s = StRunning \<and> live_lease s now_ms = None)
     \<and> sp_state p = StRunning
     \<and> sp_lease p = Some \<lparr>l_owner = ow, l_heartbeat_ms = now_ms, l_deadline_ms = now_ms + ttl\<rparr>
     \<and> unat (now_ms + ttl) = unat now_ms + unat ttl
     \<and> unat (sp_attempt p) = unat (sp_attempt s) + 1 \<and> sp_attempt p \<le> sp_max_attempts s"

lemma already_done_None [simp]: "already_done d rid None resp x = (Inr x, d)"
  by (simp add: already_done_def save_idempotency_def)

lemma with_replay_None [simp]: "with_replay d None rb fresh = fresh"
  by (simp add: with_replay_def replay_idempotency_def)

lemma acquire_lease_granted:
  assumes codec: "text_codec E" and s: "read_stage E d sid = Inr s"
    and ok: "acquire_lease_inner (at_time E t x) sid ow now_ms ttl None d = (Inr p, d')"
  shows "lease_taken s ow now_ms ttl p
    \<or> (\<exists>l. sp_state s = StRunning \<and> live_lease s now_ms = Some l \<and> l_owner l = ow \<and> p = s \<and> d' = d)"
proof -
  obtain r where r: "find_stage d sid = Some r" "project_stage E r = Inr s" "s_stage_id r = sid"
    using s by (rule read_stage_update)
  have granted: "lease_taken s ow now_ms ttl p"
    if g: "checked_add_u64 (sp_attempt s) 1 = Some n" "\<not> n > sp_max_attempts s"
      "checked_add_u64 now_ms ttl = Some dl"
      and tx: "bindE (append_event (at_time E t x) (sp_run_id s) ty payload refs (update_stages (\<lambda>s. s_stage_id s = sid)
        (\<lambda>s. s\<lparr>s_state := ''running'', s_attempt := s_attempt s + 1, s_lease := Some (lease_text E
              \<lparr>l_owner = ow, l_heartbeat_ms = now_ms, l_deadline_ms = dl\<rparr>)\<rparr>) d))
        (\<lambda>d1. save_idempotency d1 (sp_run_id s) None sid) = Inr d'"
      and p: "read_stage E d' sid = Inr p"
      and pre: "sp_state s = StQueued \<or> sp_state s = StRunning \<and> live_lease s now_ms = None"
    for n dl ty payload refs
  proof -
    have "find_stage d' sid = Some (r\<lparr>s_state := ''running'', s_attempt := s_attempt r + 1, s_lease := Some (lease_text E
              \<lparr>l_owner = ow, l_heartbeat_ms = now_ms, l_deadline_ms = dl\<rparr>)\<rparr>)"
      by (subst find_stage_updated [OF r(1) _ tail_stages(1) [OF tx]]) (simp_all add: r(3))
    with p have "project_stage E (r\<lparr>s_state := ''running'', s_attempt := s_attempt r + 1, s_lease := Some (lease_text E
              \<lparr>l_owner = ow, l_heartbeat_ms = now_ms, l_deadline_ms = dl\<rparr>)\<rparr>) = Inr p"
      by (auto simp: read_stage_def result_simps)
    then have "sp_state p = StRunning" "sp_lease p = Some \<lparr>l_owner = ow, l_heartbeat_ms = now_ms, l_deadline_ms = dl\<rparr>"
      "sp_attempt p = word_of_int (s_attempt r + 1)"
      using stage_life.parse_as_text [of StRunning]
      by (auto simp: project_stage_def result_simps codec_lease [OF codec] sql_u64_def split: if_splits)
    moreover have "sp_attempt s = word_of_int (s_attempt r)"
      using r(2) by (auto simp: project_stage_def result_simps sql_u64_def split: if_splits)
    ultimately show ?thesis
      using g pre checked_add_u64_unat [OF g(1)] checked_add_u64_unat [OF g(3)]
      by (auto simp: checked_add_u64_Some lease_taken_def)
  qed
  show ?thesis
    using ok s unfolding acquire_lease_inner_def Let_def
    by (auto simp: attempt_eq_Inr ok_or_eq_Inr split: if_splits option.splits intro: granted)
qed

section \<open>Recovery\<close>

definition expired :: "env \<Rightarrow> u64 \<Rightarrow> stage_row \<Rightarrow> bool" where
  "expired E now_ms s \<longleftrightarrow>
     s_state s = ''running''
     \<and> (\<exists>t l. s_lease s = Some t \<and> lease_of_text E t = Inr l \<and> l_deadline_ms l \<le> now_ms)"

lemma expired_leases_Inr:
  "expired_leases E n ss = Inr xs \<Longrightarrow> xs = map (\<lambda>s. (s_stage_id s, s_run_id s)) (filter (expired E n) ss)"
  by (induction ss arbitrary: xs)
    (auto simp: expired_def result_simps split: option.splits if_splits)

definition interrupted_stage :: "stage_row \<Rightarrow> stage_row" where
  "interrupted_stage s = s\<lparr>s_state := ''interrupted'', s_lease := None\<rparr>"

lemma append_event_stages: "append_event E rid ty payload refs d = Inr d' \<Longrightarrow> t_stages d' = t_stages d"
  by (auto dest!: append_event_Inr insert_event_tables)

lemma interrupt_stages_stages:
  "interrupt_stages E xs d = Inr d' \<Longrightarrow>
     t_stages d' = map (\<lambda>s. if s_stage_id s \<in> fst ` set xs then interrupted_stage s else s) (t_stages d)"
proof (induction xs arbitrary: d)
  case Nil
  then show ?case by simp
next
  case (Cons x xs)
  then obtain d1 where 1: "interrupt_stage E x d = Inr d1" and 2: "interrupt_stages E xs d1 = Inr d'"
    by (auto simp: bindE_eq_Inr)
  obtain sid rid where x: "x = (sid, rid)" by (cases x)
  from 1 have "t_stages d1 = map (\<lambda>s. if s_stage_id s = sid then interrupted_stage s else s) (t_stages d)"
    by (auto simp: interrupt_stage_def x bindE_eq_Inr interrupted_stage_def dest!: append_event_stages)
  with Cons.IH [OF 2] show ?case by (auto simp: x interrupted_stage_def)
qed

text \<open>Recovery interrupts the stages whose lease ran out, and no other.\<close>

lemma recover_exact:
  assumes "distinct (stage_ids d)" and "recover_expired_leases E now_ms v d = (Inr k, d')"
  shows "v \<and> t_stages d' = map (\<lambda>s. if expired E now_ms s then interrupted_stage s else s) (t_stages d)
    \<and> k = length (filter (expired E now_ms) (t_stages d))"
proof -
  from assms(2) obtain xs where v: v and xs: "expired_leases E now_ms (t_stages d) = Inr xs"
    and d': "interrupt_stages E xs d = Inr d'" and k: "k = length xs"
    by (auto simp: recover_expired_leases_def attempt_eq_Inr split: if_splits)
  note xs' = expired_leases_Inr [OF xs]
  have "s_stage_id s \<in> fst ` set xs \<longleftrightarrow> expired E now_ms s" if "s \<in> set (t_stages d)" for s
  proof
    assume "s_stage_id s \<in> fst ` set xs"
    then obtain s' where "s' \<in> set (t_stages d)" "expired E now_ms s'" "s_stage_id s' = s_stage_id s"
      by (auto simp: xs')
    moreover from this that assms(1) have "s' = s" using find_stage_row by (metis option.inject)
    ultimately show "expired E now_ms s" by simp
  qed (use that in \<open>auto simp: xs' image_iff\<close>)
  with interrupt_stages_stages [OF d'] v k show ?thesis by (simp add: xs')
qed

section \<open>Receipts\<close>

lemma tail_run:
  assumes "bindE (append_event E rid ty payload refs (update_run rid f d)) (\<lambda>d2. save_idempotency d2 rid' idem resp) = Inr d'"
    and "find_run d rid = Some r" and "\<And>r. r_run_id (f r) = r_run_id r"
  shows "\<exists>n. find_run d' rid = Some ((f r)\<lparr>r_last_sequence := n\<rparr>)"
proof -
  from tail_stages(2) [OF assms(1)] obtain n where
    "find_run d' = find_run (update_run rid (\<lambda>r. r\<lparr>r_last_sequence := n\<rparr>) (update_run rid f d))" ..
  with assms(2,3) have "find_run d' rid = Some ((f r)\<lparr>r_last_sequence := n\<rparr>)" by (simp add: find_run_update)
  then show ?thesis ..
qed

lemma read_run_find: "read_run E d rid = Inr p \<Longrightarrow> \<exists>r. find_run d rid = Some r \<and> project_run E r = Inr p"
  by (auto simp: read_run_def result_simps)

text \<open>A receipt is issued only through the gate, and it is the one the manifest determines.\<close>

definition receipt_issued ::
  "env \<Rightarrow> store \<Rightarrow> string \<Rightarrow> run_status \<Rightarrow> run_projection \<Rightarrow> run_projection \<Rightarrow> bool" where
  "receipt_issued E d rid status run p \<longleftrightarrow>
     (\<exists>stages arts stamp receipt.
        run_can_transition (rp_status run) status
        \<and> read_stages E d rid = Inr stages \<and> receipt_gate run stages
        \<and> artifacts_for_run E d rid = Inr arts \<and> (\<forall>a\<in>set arts. ar_complete a \<and> \<not> ar_quarantined a)
        \<and> receipt_id E (receipt_manifest run arts status stamp []) = Inr receipt
        \<and> validate_contract E (receipt_manifest run arts status stamp receipt) = Inr ()
        \<and> rp_status p = status \<and> rp_receipt_id p = Some receipt)"

lemma complete_run_gated:
  assumes "complete_run_inner E rid status None d = (Inr p, d')" and "read_run E d rid = Inr run"
  shows "status \<in> receipt_statuses \<and> require_run_action E d rid WriteState = Inr ()
    \<and> (rp_status run = status \<and> rp_receipt_id run \<noteq> None \<and> p = run \<and> d' = d
       \<or> receipt_issued E d rid status run p)"
proof -
  obtain r where r: "find_run d rid = Some r" "project_run E r = Inr run"
    using read_run_find [OF assms(2)] by blast
  have issued: "rp_status p = status \<and> rp_receipt_id p = Some receipt"
    if tx: "bindE (append_event E rid ''receipt.completed'' payload []
         (update_run rid (\<lambda>r. r\<lparr>r_status := run_as_str status, r_terminal_at := Some stamp,
                                r_receipt_id := Some receipt\<rparr>) d)) (\<lambda>d1. save_idempotency d1 rid None rid) = Inr d'"
      and p: "read_run E d' rid = Inr p" for stamp receipt payload
  proof -
    from tail_run [OF tx r(1)] obtain n where "find_run d' rid = Some (r\<lparr>r_status := run_as_str status,
       r_terminal_at := Some stamp, r_receipt_id := Some receipt, r_last_sequence := n\<rparr>)"
      by auto
    with p show ?thesis
      by (auto simp: read_run_def project_run_def result_simps simp del: run_as_str.simps split: if_splits)
  qed
  from assms show ?thesis
    unfolding complete_run_inner_def
    by (auto simp: attempt_eq_Inr map_err_eq_Inr receipt_issued_def list_ex_iff split: if_splits dest!: issued)
qed

section \<open>Cancellation\<close>

text \<open>Revoking leaves a contract that authorises nothing; the rest of the row is untouched.\<close>

lemma revoke_run_authority_dead:
  assumes law: "json_laws E" and ok: "revoke_run_authority (at_time E t x) d rid = Inr d1" and r: "find_run d rid = Some r"
  shows "\<exists>c. find_run d1 rid = Some (r\<lparr>r_authority_contract := c\<rparr>) \<and> dead_contract E c"
    and "t_stages d1 = t_stages d"
proof -
  show "t_stages d1 = t_stages d"
    using ok by (auto simp: revoke_run_authority_def result_simps split: option.splits)
  show "\<exists>c. find_run d1 rid = Some (r\<lparr>r_authority_contract := c\<rparr>) \<and> dead_contract E c"
  proof (cases "r_authority_contract r")
    case None
    then have "d1 = d" using ok r by (simp add: revoke_run_authority_def)
    moreover have "dead_contract E None" by (simp add: dead_contract_def)
    moreover have "r\<lparr>r_authority_contract := None\<rparr> = r" using None by simp
    ultimately show ?thesis using r by metis
  next
    case (Some c)
    then obtain v v' s where v: "parse_strict_json E c MAX_SAFE_JSON_BYTES = Inr v" and v': "set_revoked v = Inr v'"
      and s: "canonical_text E v' = Inr s"
      and d1: "d1 = update_run rid (\<lambda>r. r\<lparr>r_authority_contract := Some s\<rparr>) d"
      using ok r by (auto simp: revoke_run_authority_def result_simps canonical_text_Inr)
    note revoked = set_revoked_Inr [OF v' parse_ijson [OF law v]]
    have "depth_read E (json_depth v')"
    proof (cases "json_depth v' \<le> 1")
      case False
      with revoked have "json_depth v' \<le> json_depth v" by (simp add: max_def split: if_splits)
      with v show ?thesis unfolding depth_read_def by blast
    qed (simp add: depth_read_def)
    with revoked have "dead_contract E (Some s)" using revoked_is_dead [OF law _ _ _ s] by blast
    then show ?thesis using r d1 by (auto simp: find_run_update)
  qed
qed

lemma request_cancel_freezes:
  assumes codec: "text_codec E" and law: "json_laws E" and typed: "store_typed E d"
    and run: "read_run E d rid = Inr run" "rp_status run \<noteq> Cancelling" "rp_status run \<noteq> Cancelled"
    and ok: "request_cancel_inner (at_time E t x) rid None d = (Inr p, d')"
  shows "frozen E rid (ledger_text E (rp_counters run)) d'"
    and "rp_status p = Cancelling"
    and "t_stages d' = map (\<lambda>s. if s_run_id s = rid \<and> s_state s \<notin> set settled_stage_texts
           then s\<lparr>s_state := (if s_state s = ''running'' then ''cancelling'' else ''cancelled'')\<rparr> else s) (t_stages d)"
proof -
  obtain r where r: "find_run d rid = Some r" "project_run E r = Inr run"
    using read_run_find [OF run(1)] by blast
  note tr = store_typedD(3) [OF typed find_run_in [OF r(1), THEN conjunct1]]
  from ok run have live: "\<not> run_is_terminal (rp_status run)"
    by (auto simp: request_cancel_inner_def split: if_splits)
  from ok run live obtain d1 where rev: "revoke_run_authority (at_time E t x) d rid = Inr d1"
    and tail: "bindE (append_event (at_time E t x) rid ''run.cancelling'' (json_object []) []
         (update_run rid (\<lambda>r. r\<lparr>r_status := ''cancelling''\<rparr>)
           (update_stages (\<lambda>s. s_run_id s = rid \<and> s_state s \<notin> set settled_stage_texts)
             (\<lambda>s. s\<lparr>s_state := (if s_state s = ''running'' then ''cancelling'' else ''cancelled'')\<rparr>)
             d1))) (\<lambda>d2. save_idempotency d2 rid None rid) = Inr d'"
    and p: "read_run E d' rid = Inr p"
    by (auto simp: request_cancel_inner_def attempt_eq_Inr bindE_eq_Inr [of "revoke_run_authority E' d r" for E' d r])
  from revoke_run_authority_dead [OF law rev r(1)] obtain c where
    c: "find_run d1 rid = Some (r\<lparr>r_authority_contract := c\<rparr>)" "dead_contract E c" and st: "t_stages d1 = t_stages d"
    by blast
  from tail_run [OF tail] c(1) obtain n where
    r': "find_run d' rid = Some (r\<lparr>r_authority_contract := c, r_status := ''cancelling'', r_last_sequence := n\<rparr>)"
    by auto
  have "r_receipt_id r = None"
    using read_no_receipt [OF codec run(1) r(1) tr] live receipt_statuses_final by blast
  moreover have "r_counters r = ledger_text E (rp_counters run)"
    using read_run_row(3) [OF codec run(1) r(1) tr] by simp
  moreover have "store_typed E d'"
    using typed_rows.micros_keep [OF request_cancel_micros [of E d t x rid None]] codec typed ok by simp
  ultimately show "frozen E rid (ledger_text E (rp_counters run)) d'"
    using codec r' c(2) unfolding frozen_def by auto
  show "rp_status p = Cancelling"
    using p r' run_life.parse_as_text [of Cancelling]
    by (auto simp: read_run_def project_run_def result_simps split: if_splits)
  show "t_stages d' = map (\<lambda>s. if s_run_id s = rid \<and> s_state s \<notin> set settled_stage_texts
           then s\<lparr>s_state := (if s_state s = ''running'' then ''cancelling'' else ''cancelled'')\<rparr> else s) (t_stages d)"
    using tail_stages(1) [OF tail] st by simp
qed

text \<open>
  A run that a plain transition has moved to \<open>cancelling\<close> is only answered: its authority is
  not revoked and its stages are left running.
\<close>

lemma request_cancel_already:
  assumes "read_run E d rid = Inr run" and "rp_status run = Cancelling"
  shows "request_cancel_inner (at_time E t x) rid None d = (Inr run, d)"
  using assms by (simp add: request_cancel_inner_def)

text \<open>
  What appending an event needs: a clock that formats, an identifier that is not in use, and
  room in the sequence number.
\<close>

definition ids_fresh :: "env \<Rightarrow> store \<Rightarrow> bool" where
  "ids_fresh E d \<longleftrightarrow> inj (uuid_v7 E)
     \<and> (\<forall>n\<ge>t_issued d. ''evt_'' @ uuid_v7 E n \<notin> e_event_id ` set (t_events d))"

lemma append_event_works:
  assumes log: "log_ok d" and r: "find_run d rid = Some r" "r_last_sequence r + 1 < 2 ^ 63"
    and ids: "ids_fresh E d" and clock: "now_text E' = Some stamp" and E': "uuid_v7 E' = uuid_v7 E"
  shows "\<exists>d'. append_event E' rid ty payload refs d = Inr d' \<and> ids_fresh E d' \<and> log_ok d'
    \<and> find_run d' = find_run (update_run rid (\<lambda>x. x\<lparr>r_last_sequence := r_last_sequence r + 1\<rparr>) d)
    \<and> t_stages d' = t_stages d"
proof -
  define e where "e = \<lparr>e_event_id = prefixed_id E' ''evt'' d, e_run_id = rid,
                   e_sequence = r_last_sequence r + 1, e_occurred_at = stamp,
                   e_type = ty, e_payload = to_text E' payload,
                   e_artifact_refs = to_text E' (JArr (map JStr refs))\<rparr>"
  define d1 where "d1 = (draw_id d)\<lparr>t_events := t_events d @ [e]\<rparr>"
  have rin: "r \<in> set (t_runs d)" "r_run_id r = rid" using find_run_in [OF r(1)] by auto
  have "r_last_sequence r + 1 \<noteq> e_sequence x" if "x \<in> set (t_events d)" "e_run_id x = rid" for x
  proof -
    from that have "e_sequence x \<in> set (map e_sequence (run_events d rid))" by (simp add: run_events_def)
    then have "e_sequence x \<in> set [1..r_last_sequence r]" using log_okD(5) [OF log rin(1)] rin(2) by metis
    then show ?thesis by auto
  qed
  moreover have "e_event_id x \<noteq> prefixed_id E' ''evt'' d" if "x \<in> set (t_events d)" for x
    using ids that E' unfolding ids_fresh_def prefixed_id_def by (metis append_Cons append_Nil image_eqI le_refl)
  ultimately have "\<not> list_ex (\<lambda>x. e_event_id x = e_event_id e
      \<or> (e_run_id x = e_run_id e \<and> e_sequence x = e_sequence e)) (t_events (draw_id d))"
    unfolding e_def list_ex_iff by (simp only: event_row.simps tables_draw) metis
  then have ins: "insert_event e (draw_id d) = Inr d1"
    using r(1) by (simp add: insert_event_def e_def d1_def)
  then have app: "append_event E' rid ty payload refs d
      = Inr (update_run rid (\<lambda>x. x\<lparr>r_last_sequence := r_last_sequence r + 1\<rparr>) d1)"
    using r clock by (simp add: append_event_def now_rfc3339_def e_def)
  have "ids_fresh E (update_run rid (\<lambda>x. x\<lparr>r_last_sequence := r_last_sequence r + 1\<rparr>) d1)"
    using ids E' by (auto simp: ids_fresh_def d1_def draw_id_def e_def prefixed_id_def dest: injD)
  moreover have "log_ok (update_run rid (\<lambda>x. x\<lparr>r_last_sequence := r_last_sequence r + 1\<rparr>) d1)"
    by (rule log_ok_event [of "draw_id d", OF _ _ r(2)])
      (use log r ins in \<open>auto simp: e_def intro: log_ok_tables\<close>)
  moreover have "find_run (update_run rid (\<lambda>x. x\<lparr>r_last_sequence := r_last_sequence r + 1\<rparr>) d1)
      = find_run (update_run rid (\<lambda>x. x\<lparr>r_last_sequence := r_last_sequence r + 1\<rparr>) d)"
    by (rule find_run_cong) (simp add: d1_def)
  ultimately show ?thesis using app by (auto simp: d1_def)
qed

lemma project_run_texts:
  "project_run E r = Inr p \<Longrightarrow>
     r_status r = run_as_str (rp_status p) \<and> r_cleanup_state r = cleanup_as_str (rp_cleanup_state p)"
  by (auto simp: project_run_def result_simps run_life.parse_iff cleanup_text.parse_iff
      simp del: run_as_str.simps cleanup_as_str.simps split: if_splits)

lemma project_run_typed_fields:
  assumes "text_codec E" "typed_run E r" "r_status r = run_as_str s" "r_cleanup_state r = cleanup_as_str c"
  shows "\<exists>p. project_run E r = Inr p \<and> rp_status p = s \<and> rp_cleanup_state p = c"
proof -
  from typed_run_project [OF assms(1,2)] obtain p where p: "project_run E r = Inr p" by blast
  with project_run_texts [OF p] assms(3,4) show ?thesis by simp
qed

lemma read_run_fields:
  assumes "text_codec E" "store_typed E d" "find_run d rid = Some r" "r_status r = run_as_str s"
    "r_cleanup_state r = cleanup_as_str c" "is_ok (validate_entity_id E rid ''run'')"
  shows "\<exists>p. read_run E d rid = Inr p \<and> rp_status p = s \<and> rp_cleanup_state p = c"
proof -
  have "typed_run E r" using store_typedD(3) [OF assms(2)] find_run_in [OF assms(3)] by blast
  from project_run_typed_fields [OF assms(1) this assms(4,5)] assms(3,6) show ?thesis
    by (auto simp: read_run_def is_ok_iff)
qed

text \<open>
  A run in \<open>cancelling\<close> whose stages have all stopped can be brought to \<open>cancelled\<close>: the
  cleanup is recorded without asking the revoked authority, then the cancellation confirmed.
\<close>

lemma mark_cleanup_works:
  assumes codec: "text_codec E" and typed: "store_typed E d" and log: "log_ok d" and ids: "ids_fresh E d"
    and run: "read_run E d rid = Inr run" "rp_status run = Cancelling"
    and r: "find_run d rid = Some r" "r_last_sequence r + 1 < 2 ^ 63"
  shows "\<exists>p d' r'. mark_cleanup_inner (at_time E t (Some stamp)) rid c None d = (Inr p, d')
    \<and> rp_status p = Cancelling \<and> rp_cleanup_state p = c \<and> ids_fresh E d' \<and> read_run E d' rid = Inr p
    \<and> t_stages d' = t_stages d
    \<and> find_run d' rid = Some r' \<and> r_last_sequence r' \<le> r_last_sequence r + 1"
proof (cases "rp_cleanup_state run = c")
  case True
  then have "mark_cleanup_inner (at_time E t (Some stamp)) rid c None d = (Inr run, d)"
    using run by (simp add: mark_cleanup_inner_def)
  then show ?thesis using True run r ids by auto
next
  case False
  let ?d1 = "update_run rid (\<lambda>r. r\<lparr>r_cleanup_state := cleanup_as_str c\<rparr>) d"
  have r1: "find_run ?d1 rid = Some (r\<lparr>r_cleanup_state := cleanup_as_str c\<rparr>)" using r by (simp add: find_run_update)
  have "log_ok ?d1" by (rule log_ok_update_run [OF log]) simp
  moreover have "ids_fresh E ?d1" using ids by (simp add: ids_fresh_def)
  ultimately have "\<exists>d'. append_event (at_time E t (Some stamp)) rid ''cleanup.updated''
        (json_object [(''state'', JStr (cleanup_as_str c))]) [] ?d1 = Inr d' \<and> ids_fresh E d' \<and> log_ok d'
      \<and> find_run d' = find_run (update_run rid (\<lambda>x. x\<lparr>r_last_sequence := r_last_sequence r + 1\<rparr>) ?d1)
      \<and> t_stages d' = t_stages ?d1"
    using append_event_works [OF _ r1, of E "at_time E t (Some stamp)" stamp] r(2) by simp
  then obtain d' where app: "append_event (at_time E t (Some stamp)) rid ''cleanup.updated''
        (json_object [(''state'', JStr (cleanup_as_str c))]) [] ?d1 = Inr d'"
    and d': "ids_fresh E d'" "t_stages d' = t_stages ?d1"
      "find_run d' = find_run (update_run rid (\<lambda>x. x\<lparr>r_last_sequence := r_last_sequence r + 1\<rparr>) ?d1)"
    by blast
  have r': "find_run d' rid = Some (r\<lparr>r_cleanup_state := cleanup_as_str c, r_last_sequence := r_last_sequence r + 1\<rparr>)"
    using r by (simp add: d'(3) find_run_update)
  have step: "mark_cleanup_inner (at_time E t (Some stamp)) rid c None d = (read_run E d' rid, d')"
    using run False app by (simp add: mark_cleanup_inner_def save_idempotency_def)
  then have "store_typed E d'"
    using typed_rows.micros_keep [OF mark_cleanup_micros [of E d t "Some stamp" rid c None]] codec typed by simp
  moreover have "r_status r = run_as_str Cancelling"
    using read_run_find [OF run(1)] r(1) project_run_texts run(2) by fastforce
  ultimately obtain p where "read_run E d' rid = Inr p" "rp_status p = Cancelling" "rp_cleanup_state p = c"
    using read_run_fields [OF codec _ r', of Cancelling c] read_run_valid [OF run(1)]
    by (auto simp del: run_as_str.simps cleanup_as_str.simps)
  with step r' d' show ?thesis by auto
qed

lemma confirm_cancelled_works:
  assumes codec: "text_codec E" and typed: "store_typed E d" and log: "log_ok d" and ids: "ids_fresh E d"
    and run: "read_run E d rid = Inr run" "rp_status run = Cancelling" "rp_cleanup_state run \<noteq> Pending"
    and r: "find_run d rid = Some r" "r_last_sequence r + 1 < 2 ^ 63"
    and stages: "read_stages E d rid = Inr stages"
      "\<forall>s\<in>set stages. sp_state s \<in> {StCompleted, StFailed, StCancelled, StInterrupted, StCancelling}"
  shows "\<exists>p d'. confirm_cancelled_inner (at_time E t (Some stamp)) rid True None d = (Inr p, d')
    \<and> rp_status p = Cancelled \<and> read_run E d' rid = Inr p"
proof -
  let ?d0 = "update_stages (\<lambda>s. s_run_id s = rid \<and> s_state s = ''cancelling'')
          (\<lambda>s. s\<lparr>s_state := ''cancelled'', s_lease := None\<rparr>) d"
  let ?d1 = "update_run rid (\<lambda>r. r\<lparr>r_status := ''cancelled'', r_terminal_at := Some stamp\<rparr>) ?d0"
  have r1: "find_run ?d1 rid = Some (r\<lparr>r_status := ''cancelled'', r_terminal_at := Some stamp\<rparr>)"
    using r by (simp add: find_run_update)
  have "log_ok ?d1" by (rule log_ok_update_run, rule log_ok_tables [OF log]) simp_all
  moreover have "ids_fresh E ?d1" using ids by (simp add: ids_fresh_def)
  ultimately have "\<exists>d'. append_event (at_time E t (Some stamp)) rid ''run.cancelled'' (json_object []) [] ?d1 = Inr d'
      \<and> ids_fresh E d' \<and> log_ok d'
      \<and> find_run d' = find_run (update_run rid (\<lambda>x. x\<lparr>r_last_sequence := r_last_sequence r + 1\<rparr>) ?d1)
      \<and> t_stages d' = t_stages ?d1"
    using append_event_works [OF _ r1, of E "at_time E t (Some stamp)" stamp] r(2) by simp
  then obtain d' where app: "append_event (at_time E t (Some stamp)) rid ''run.cancelled'' (json_object []) [] ?d1 = Inr d'"
    and d': "find_run d' = find_run (update_run rid (\<lambda>x. x\<lparr>r_last_sequence := r_last_sequence r + 1\<rparr>) ?d1)"
    by blast
  have r': "find_run d' rid = Some (r\<lparr>r_status := ''cancelled'', r_terminal_at := Some stamp,
      r_last_sequence := r_last_sequence r + 1\<rparr>)"
    using r by (simp add: d' find_run_update)
  have "\<not> list_ex (\<lambda>s. sp_state s \<notin> {StCompleted, StFailed, StCancelled, StInterrupted, StCancelling}) stages"
    using stages(2) by (simp only: list_ex_iff) blast
  then have step: "confirm_cancelled_inner (at_time E t (Some stamp)) rid True None d = (read_run E d' rid, d')"
    using run stages(1) app by (simp add: confirm_cancelled_inner_def save_idempotency_def now_rfc3339_def)
  then have "store_typed E d'"
    using typed_rows.micros_keep [OF confirm_cancelled_micros [of E d t "Some stamp" rid True None]] codec typed by simp
  moreover have "r_cleanup_state r = cleanup_as_str (rp_cleanup_state run)"
    using read_run_find [OF run(1)] r(1) project_run_texts by fastforce
  ultimately obtain p where "read_run E d' rid = Inr p" "rp_status p = Cancelled"
    using read_run_fields [OF codec _ r', of Cancelled "rp_cleanup_state run"] read_run_valid [OF run(1)]
    by (auto simp del: cleanup_as_str.simps)
  with step show ?thesis by auto
qed

lemma read_stages_typed:
  assumes codec: "text_codec E" and typed: "store_typed E d"
  shows "\<exists>ps. read_stages E d rid = Inr ps
    \<and> (\<forall>p\<in>set ps. \<exists>s\<in>set (t_stages d). s_run_id s = rid \<and> stage_as_str (sp_state p) = s_state s)"
proof -
  define rows where "rows = sort_key (\<lambda>s. (s_kind s, s_stage_id s)) (filter (\<lambda>s. s_run_id s = rid) (t_stages d))"
  define proj where "proj s = (case project_stage E s of Inr p \<Rightarrow> p)" for s
  have in_rows: "s \<in> set (t_stages d) \<and> s_run_id s = rid" if "s \<in> set rows" for s
    using that by (auto simp: rows_def)
  have read: "read_stage E d (s_stage_id s) = Inr (proj s) \<and> stage_as_str (sp_state (proj s)) = s_state s"
    if "s \<in> set rows" for s
  proof -
    have s: "s \<in> set (t_stages d)" using in_rows [OF that] by simp
    then have "typed_stage E s" using store_typedD(4) [OF typed] by blast
    moreover from this typed_stage_project [OF codec] obtain p where
      "project_stage E s = Inr p" "stage_as_str (sp_state p) = s_state s" by blast
    moreover have "find_stage d (s_stage_id s) = Some s" using find_stage_row store_typedD(2) [OF typed] s by blast
    ultimately show ?thesis by (auto simp: read_stage_def proj_def typed_stage_def is_ok_iff)
  qed
  have "traverse (read_stage E d) (map s_stage_id ss) = Inr (map proj ss)" if "set ss \<subseteq> set rows" for ss
    using that read by (induction ss) auto
  then have "read_stages E d rid = Inr (map proj rows)" by (simp add: read_stages_def rows_def)
  with read in_rows show ?thesis by fastforce
qed

lemma request_cancel_stages:
  assumes "t_stages d' = map (\<lambda>s. if s_run_id s = rid \<and> s_state s \<notin> set settled_stage_texts
           then s\<lparr>s_state := (if s_state s = ''running'' then ''cancelling'' else ''cancelled'')\<rparr> else s) (t_stages d)"
    and "s \<in> set (t_stages d')" "s_run_id s = rid" "stage_as_str st = s_state s"
  shows "st \<in> {StCompleted, StFailed, StCancelled, StInterrupted, StCancelling}"
proof -
  let ?g = "\<lambda>s. if s_run_id s = rid \<and> s_state s \<notin> set settled_stage_texts
           then s\<lparr>s_state := (if s_state s = ''running'' then ''cancelling'' else ''cancelled'')\<rparr> else s"
  from assms(2) obtain s0 where s0: "s = ?g s0" unfolding assms(1) set_map by blast
  have "s_state s \<in> set settled_stage_texts \<or> s_state s = ''cancelling'' \<or> s_state s = ''cancelled''"
  proof (cases "s_run_id s0 = rid \<and> s_state s0 \<notin> set settled_stage_texts")
    case True
    then show ?thesis by (simp add: s0)
  next
    case False
    then have "s = s0" by (simp only: s0 if_False)
    with False assms(3) show ?thesis by blast
  qed
  with assms(4) show ?thesis by (cases st) (auto simp: settled_stage_texts_def)
qed

lemma cancel_completes:
  assumes codec: "text_codec E" and law: "json_laws E" and d: "reachable E d"
    and run: "read_run E d rid = Inr run" "rp_status run \<noteq> Cancelling" "rp_status run \<noteq> Cancelled"
    and ok: "request_cancel_inner (at_time E t x) rid None d = (Inr p, d1)"
    and ids: "ids_fresh E d1" and room: "\<And>r. find_run d1 rid = Some r \<Longrightarrow> r_last_sequence r + 2 < 2 ^ 63"
  shows "\<exists>p2 d2 p3 d3. mark_cleanup_inner (at_time E t2 (Some x2)) rid CleanupCompleted None d1 = (Inr p2, d2)
    \<and> confirm_cancelled_inner (at_time E t3 (Some x3)) rid True None d2 = (Inr p3, d3)
    \<and> rp_status p3 = Cancelled"
proof -
  have typed: "store_typed E d" using typed_rows.reachable [OF d] codec by blast
  note fr = request_cancel_freezes [OF codec law typed run ok]
  have typed1: "store_typed E d1" using fr(1) by (simp add: frozen_def)
  have "core_step E d (exec_op (at_time E t x) (RequestCancel rid) None d)" by (rule call)
  then have d1: "reachable E d1" using d ok reachable.step by fastforce
  obtain r where r: "find_run d1 rid = Some r" using fr(1) by (auto simp: frozen_def)
  have p: "read_run E d1 rid = Inr p"
    using ok run by (auto simp: request_cancel_inner_def attempt_eq_Inr split: if_splits)
  from mark_cleanup_works [OF codec typed1 event_log.reachable [OF d1] ids p fr(2) r, of t2 x2 CleanupCompleted] room [OF r]
  obtain p2 d2 r2 where m: "mark_cleanup_inner (at_time E t2 (Some x2)) rid CleanupCompleted None d1 = (Inr p2, d2)"
    and p2: "rp_status p2 = Cancelling" "rp_cleanup_state p2 = CleanupCompleted" "read_run E d2 rid = Inr p2"
    and ids2: "ids_fresh E d2" and st2: "t_stages d2 = t_stages d1"
    and r2: "find_run d2 rid = Some r2" "r_last_sequence r2 \<le> r_last_sequence r + 1"
    by auto
  have "core_step E d1 (exec_op (at_time E t2 (Some x2)) (MarkCleanup rid CleanupCompleted) None d1)" by (rule call)
  then have d2: "reachable E d2" using d1 m reachable.step by fastforce
  then have typed2: "store_typed E d2" using typed_rows.reachable codec by blast
  from read_stages_typed [OF codec typed2] obtain ps where ps: "read_stages E d2 rid = Inr ps"
    and rows: "\<forall>p\<in>set ps. \<exists>s\<in>set (t_stages d2). s_run_id s = rid \<and> stage_as_str (sp_state p) = s_state s" by blast
  have "\<forall>s\<in>set ps. sp_state s \<in> {StCompleted, StFailed, StCancelled, StInterrupted, StCancelling}"
    using rows request_cancel_stages [OF fr(3)] st2 by metis
  moreover have "r_last_sequence r2 + 1 < 2 ^ 63" using room [OF r] r2(2) by linarith
  ultimately have "\<exists>p3 d3. confirm_cancelled_inner (at_time E t3 (Some x3)) rid True None d2 = (Inr p3, d3)
      \<and> rp_status p3 = Cancelled"
    using confirm_cancelled_works [OF codec typed2 event_log.reachable [OF d2] ids2 p2(3,1) _ r2(1) _ ps, of t3 x3] p2(2)
    by auto
  with m show ?thesis by blast
qed

end
