(* ===== verification/Core_Events.thy ===== *)
theory Core_Events
  imports Core_Outcomes
begin

text \<open>
  Reading the event log and reporting (\<open>events_after\<close>, \<open>report_projection\<close>, \<open>report_markdown\<close>
  and the report artifact of \<open>promptectomy-core/src/lib.rs\<close>): the pages of a run's events
  are consecutive slices of the log, with nothing lost or repeated between them.
\<close>

section \<open>Pages of events\<close>

record event_projection =
  ev_schema_uri :: string
  ev_schema_version :: string
  ev_event_id :: string
  ev_run_id :: string
  ev_sequence :: u64
  ev_occurred_at :: string
  ev_type :: string
  ev_payload_schema :: string
  ev_payload_version :: string
  ev_payload :: json
  ev_artifact_refs :: "string list"

record event_page =
  pg_retained_floor :: u64
  pg_events :: "event_projection list"

definition MAX_EVENT_LIMIT :: u64 where
  "MAX_EVENT_LIMIT = 1000"

text \<open>\<open>serde_json::from_value::<EventProjection>\<close>: unknown members are ignored.\<close>

definition strings_of_json :: "json \<Rightarrow> string list option" where
  "strings_of_json v =
     (case as_array v of None \<Rightarrow> None
      | Some vs \<Rightarrow> (if list_all (\<lambda>x. as_str x \<noteq> None) vs then Some (map (\<lambda>x. the (as_str x)) vs) else None))"

definition event_of_json :: "json \<Rightarrow> event_projection option" where
  "event_of_json v =
     Option.bind (field_str v ''schema_uri'') (\<lambda>uri.
     Option.bind (field_str v ''schema_version'') (\<lambda>ver.
     Option.bind (field_str v ''event_id'') (\<lambda>eid.
     Option.bind (field_str v ''run_id'') (\<lambda>rid.
     Option.bind (field_u64 v ''sequence'') (\<lambda>sq.
     Option.bind (field_str v ''occurred_at'') (\<lambda>at.
     Option.bind (field_str v ''type'') (\<lambda>ty.
     Option.bind (field_str v ''payload_schema'') (\<lambda>ps.
     Option.bind (field_str v ''payload_version'') (\<lambda>pv.
     Option.bind (json_get v ''payload'') (\<lambda>payload.
     Option.bind (Option.bind (json_get v ''artifact_refs'') strings_of_json) (\<lambda>refs.
       Some \<lparr>ev_schema_uri = uri, ev_schema_version = ver, ev_event_id = eid, ev_run_id = rid,
             ev_sequence = sq, ev_occurred_at = at, ev_type = ty, ev_payload_schema = ps,
             ev_payload_version = pv, ev_payload = payload, ev_artifact_refs = refs\<rparr>)))))))))))"

definition dash_dots :: "string \<Rightarrow> string" where
  "dash_dots s = map (\<lambda>c. if c = CHR ''.'' then CHR ''-'' else c) s"

text \<open>One row of the page, once its sequence number is known to be the expected one.\<close>

definition project_event :: "env \<Rightarrow> event_row \<Rightarrow> core_error + event_projection" where
  "project_event E e =
     bindE (validate_entity_id E (e_event_id e) ''evt'') (\<lambda>_.
     bindE (ok_or corrupt (Option.bind (of_text E (e_artifact_refs e)) strings_of_json)) (\<lambda>refs.
     bindE (traverse validate_artifact_id refs) (\<lambda>_.
     bindE (ok_or corrupt (of_text E (e_payload e))) (\<lambda>stored.
       if json_get stored ''schema_uri'' \<noteq> None
       then bindE (ok_or corrupt (event_of_json stored)) (\<lambda>ev. Inr (ev\<lparr>ev_artifact_refs := refs\<rparr>))
       else
         bindE (sql_u64 (e_sequence e)) (\<lambda>sq.
           Inr \<lparr>ev_schema_uri = SCHEMA_BASE @ ''event.schema.json'', ev_schema_version = SCHEMA_VERSION,
                ev_event_id = e_event_id e, ev_run_id = e_run_id e, ev_sequence = sq,
                ev_occurred_at = e_occurred_at e, ev_type = e_type e,
                ev_payload_schema = SCHEMA_BASE @ ''events/'' @ dash_dots (e_type e) @ ''.schema.json'',
                ev_payload_version = SCHEMA_VERSION, ev_payload = stored, ev_artifact_refs = refs\<rparr>)))))"

fun page_rows :: "env \<Rightarrow> u64 \<Rightarrow> event_row list \<Rightarrow> core_error + event_projection list" where
  "page_rows E expected [] = Inr []"
| "page_rows E expected (e # es) =
     bindE (sql_u64 (e_sequence e)) (\<lambda>sq.
       if sq \<noteq> expected then Inl corrupt
       else
         bindE (project_event E e) (\<lambda>p.
         bindE (ok_or corrupt (checked_add_u64 expected 1)) (\<lambda>nxt.
         bindE (page_rows E nxt es) (\<lambda>ps. Inr (p # ps)))))"

definition min_sequence :: "store \<Rightarrow> string \<Rightarrow> int option" where
  "min_sequence d rid =
     (case map e_sequence (run_events d rid) of [] \<Rightarrow> None | n # ns \<Rightarrow> Some (fold min ns n))"

definition events_after :: "env \<Rightarrow> store \<Rightarrow> string \<Rightarrow> u64 \<Rightarrow> u64 \<Rightarrow> core_error + event_page" where
  "events_after E d rid cursor limit =
     bindE (read_run E d rid) (\<lambda>_.
       if limit = 0 \<or> limit > MAX_EVENT_LIMIT then Inl corrupt
       else
         bindE (case min_sequence d rid of
                  None \<Rightarrow> Inr (case checked_add_u64 cursor 1 of None \<Rightarrow> cursor | Some n \<Rightarrow> n)
                | Some n \<Rightarrow> sql_u64 n) (\<lambda>floor.
         bindE (ok_or (safe_error ''event_cursor_expired'') (checked_add_u64 cursor 1)) (\<lambda>expected_first.
           if expected_first < floor then Inl (safe_error ''event_cursor_expired'')
           else
             bindE (sql_i64 cursor) (\<lambda>after.
             bindE (sql_i64 limit) (\<lambda>max_rows.
             bindE (page_rows E expected_first
                 (take (nat max_rows)
                   (sort_key e_sequence (filter (\<lambda>e. e_sequence e > after) (run_events d rid))))) (\<lambda>events.
               Inr \<lparr>pg_retained_floor = floor, pg_events = events\<rparr>))))))"

lemma fold_min_upto: "map e_sequence es = [1..n] \<Longrightarrow> es \<noteq> [] \<Longrightarrow>
   (case map e_sequence es of [] \<Rightarrow> None | m # ms \<Rightarrow> Some (fold min ms m)) = Some 1"
proof -
  assume es: "map e_sequence es = [1..n]" "es \<noteq> []"
  then have "1 \<le> n" by (cases "1 \<le> n") auto
  then have "map e_sequence es = 1 # [2..n]" using es by (subst es) (simp add: upto_rec1)
  moreover have "fold min ms (1::int) = 1" if "\<forall>m\<in>set ms. 1 \<le> m" for ms
    using that by (induction ms) (auto simp: min_def)
  ultimately show ?thesis by simp
qed

lemma take_upto: "take m [i..j] = [i..min j (i + int m - 1)]"
proof (induction m arbitrary: i)
  case (Suc m)
  show ?case
  proof (cases "i \<le> j")
    case True
    then have "take (Suc m) [i..j] = i # [i + 1..min j (i + 1 + int m - 1)]" by (simp add: upto_rec1 Suc.IH)
    also have "\<dots> = [i..min j (i + int (Suc m) - 1)]" using True by (subst (2) upto_rec1) simp_all
    finally show ?thesis .
  qed (simp add: min_def)
qed simp

text \<open>In a log numbered 1, 2, ... the rows after a cursor are what is left after dropping that many.\<close>

lemma after_cursor:
  assumes "map e_sequence es = [1..n]" and "0 \<le> k"
  shows "sort_key e_sequence (filter (\<lambda>e. e_sequence e > k) es) = drop (nat k) es"
    and "map e_sequence (drop (nat k) es) = [k + 1..n]"
proof -
  have "drop m [i..j] = [i + int m..j]" for m i j
  proof (induction m arbitrary: i)
    case (Suc m)
    show ?case
    proof (cases "i \<le> j")
      case True
      then have "drop (Suc m) [i..j] = drop m [i + 1..j]" by (simp add: upto_rec1)
      also have "\<dots> = [i + 1 + int m..j]" by (rule Suc.IH)
      finally show ?thesis by (simp add: algebra_simps)
    qed simp
  qed simp
  then show dr: "map e_sequence (drop (nat k) es) = [k + 1..n]"
    using assms by (simp add: drop_map [symmetric] add.commute)
  have tk: "\<forall>e\<in>set (take (nat k) es). \<not> e_sequence e > k"
  proof
    fix e assume "e \<in> set (take (nat k) es)"
    then have "e_sequence e \<in> set (take (nat k) [1..n])"
      using assms(1) by (metis image_eqI set_map take_map)
    then show "\<not> e_sequence e > k" using assms(2) by (simp add: take_upto)
  qed
  have dk: "\<forall>e\<in>set (drop (nat k) es). e_sequence e > k"
  proof
    fix e assume "e \<in> set (drop (nat k) es)"
    then have "e_sequence e \<in> set [k + 1..n]" using dr by (metis image_eqI set_map)
    then show "e_sequence e > k" by simp
  qed
  have "filter (\<lambda>e. e_sequence e > k) es
      = filter (\<lambda>e. e_sequence e > k) (take (nat k) es @ drop (nat k) es)" by simp
  also have "\<dots> = drop (nat k) es" using tk dk unfolding filter_append by (simp add: filter_id_conv)
  finally have "filter (\<lambda>e. e_sequence e > k) es = drop (nat k) es" .
  moreover have "sorted (map e_sequence (drop (nat k) es))" unfolding dr by simp
  ultimately show "sort_key e_sequence (filter (\<lambda>e. e_sequence e > k) es) = drop (nat k) es"
    by (simp add: sort_key_id_if_sorted)
qed

text \<open>A page whose rows can all be read, numbered from the expected number on.\<close>

lemma page_rows_read:
  assumes "map e_sequence es = [uint expected..n]" and "n < 2 ^ 63"
    and "\<forall>e\<in>set es. is_ok (project_event E e)"
  shows "\<exists>ps. page_rows E expected es = Inr ps \<and> list_all2 (\<lambda>e p. project_event E e = Inr p) es ps"
  using assms
proof (induction es arbitrary: expected)
  case Nil
  then show ?case by simp
next
  case (Cons e es)
  then have le: "uint expected \<le> n" by (cases "uint expected \<le> n") auto
  with Cons.prems(1) have e: "e_sequence e = uint expected" and es: "map e_sequence es = [uint expected + 1..n]"
    by (simp_all add: upto_rec1)
  from le Cons.prems(2) have room: "unat expected < 2 ^ 64 - 1" by (simp flip: nat_uint_eq)
  then have nxt: "checked_add_u64 expected 1 = Some (expected + 1)" by (simp add: checked_add_u64_def)
  have "uint (expected + 1) = uint expected + 1" using room by (rule uint_succ_u64)
  then have es': "map e_sequence es = [uint (expected + 1)..n]" using es by (simp only:)
  have "\<forall>e\<in>set es. is_ok (project_event E e)" using Cons.prems(3) by simp
  from Cons.IH [OF es' Cons.prems(2) this] obtain ps where
    "page_rows E (expected + 1) es = Inr ps" "list_all2 (\<lambda>e p. project_event E e = Inr p) es ps"
    by (elim exE conjE)
  moreover obtain p where "project_event E e = Inr p" using Cons.prems(3) by (auto simp: is_ok_iff)
  moreover have "sql_u64 (e_sequence e) = Inr expected"
    using e uint_bounded [of expected] by (simp add: sql_u64_def)
  ultimately show ?case using nxt by simp
qed

lemma events_after_slice:
  assumes log: "log_ok d" and run: "read_run E d rid = Inr p" and lim: "limit \<noteq> 0" "limit \<le> MAX_EVENT_LIMIT"
    and cur: "uint cursor < 2 ^ 63" and ok: "\<forall>e\<in>set (run_events d rid). is_ok (project_event E e)"
  shows "\<exists>page. events_after E d rid cursor limit = Inr page
    \<and> list_all2 (\<lambda>e p. project_event E e = Inr p)
        (take (unat limit) (drop (unat cursor) (run_events d rid))) (pg_events page)"
proof -
  let ?es = "run_events d rid" and ?c = "uint cursor"
  obtain r where r: "find_run d rid = Some r" using read_run_find [OF run] by blast
  then have rin: "r \<in> set (t_runs d)" "r_run_id r = rid" using find_run_in by blast+
  define n where "n = r_last_sequence r"
  have n: "0 \<le> n" "n < 2 ^ 63" and seq: "map e_sequence ?es = [1..n]"
    using log_okD(4,5) [OF log rin(1)] rin(2) by (auto simp: n_def)
  have c0: "0 \<le> ?c" by simp
  have room: "unat cursor < 2 ^ 64 - 1" using cur by (simp flip: nat_uint_eq)
  then have first: "checked_add_u64 cursor 1 = Some (cursor + 1)" by (simp add: checked_add_u64_def)
  have u1: "uint (cursor + 1) = ?c + 1" using room by (rule uint_succ_u64)
  have l63: "uint limit \<le> 1000" using lim(2) by (simp add: MAX_EVENT_LIMIT_def word_le_def)
  obtain floor where fl: "(case min_sequence d rid of
                  None \<Rightarrow> Inr (case checked_add_u64 cursor 1 of None \<Rightarrow> cursor | Some n \<Rightarrow> n)
                | Some n \<Rightarrow> sql_u64 n) = (Inr floor :: core_error + u64)" and low: "\<not> cursor + 1 < floor"
  proof (cases "?es = []")
    case True
    then show thesis using that [of "cursor + 1"] first by (simp add: min_sequence_def)
  next
    case False
    have "1 \<le> cursor + 1" using u1 by (simp add: word_le_def)
    then have "cursor + 1 \<noteq> 0" by auto
    then show thesis using that [of 1] fold_min_upto [OF seq False] by (simp add: min_sequence_def sql_u64_def not_less)
  qed
  let ?rows = "take (unat limit) (drop (unat cursor) ?es)"
  have "map e_sequence ?rows = [?c + 1..min n (?c + uint limit)]"
    using after_cursor(2) [OF seq c0] by (simp add: take_map [symmetric] take_upto)
  then have rows: "map e_sequence ?rows = [uint (cursor + 1)..min n (?c + uint limit)]" by (simp only: u1)
  have "min n (?c + uint limit) < 2 ^ 63" using n by simp
  moreover have "\<forall>e\<in>set ?rows. is_ok (project_event E e)" using ok by (meson in_set_dropD in_set_takeD)
  ultimately have "\<exists>ps. page_rows E (cursor + 1) ?rows = Inr ps \<and> list_all2 (\<lambda>e p. project_event E e = Inr p) ?rows ps"
    by (rule page_rows_read [OF rows])
  then obtain ps where ps: "page_rows E (cursor + 1) ?rows = Inr ps"
    "list_all2 (\<lambda>e p. project_event E e = Inr p) ?rows ps"
    by (elim exE conjE)
  have "events_after E d rid cursor limit = Inr \<lparr>pg_retained_floor = floor, pg_events = ps\<rparr>"
    using run lim fl low first cur l63 ps(1) after_cursor(1) [OF seq c0]
    by (simp add: events_after_def sql_i64_def not_less)
  with ps(2) show ?thesis by simp
qed

end
