(* ===== verification/Core_Files.thy ===== *)
theory Core_Files
  imports Core_Invariants
begin

text \<open>
  What the artifact operations promise: reads return only content with the asked-for digest
  and only to callers with the access the class needs, a stored artifact can be read back, and
  collection, wherever it fails, leaves everything alone that is not one of its candidates.
\<close>

definition access_allows :: "artifact_access \<Rightarrow> artifact_class \<Rightarrow> bool" where
  "access_allows acc c \<longleftrightarrow>
     (c = Protected \<longrightarrow> acc_protected acc) \<and> (c = Executable \<longrightarrow> acc_executable acc)"

lemma read_artifact_Inr:
  "read_artifact E aid acc d = Inr b \<longleftrightarrow>
     (\<exists>r. read_artifact_record d aid = Inr r \<and> access_allows acc (ar_class r)
        \<and> is_ok (validate_artifact_id aid) \<and> is_ok (reject_symlink (t_cas d aid)) \<and> fs_read (t_cas d aid) = Some b
        \<and> length b < 2 ^ 64 \<and> length b = unat (ar_byte_count r) \<and> artifact_id E b = aid)"
  by (auto simp: read_artifact_def result_simps artifact_path_Inr verify_artifact_bytes_Inr
      access_allows_def artifact_id_sha split: if_splits)

lemma read_artifact_digest: "read_artifact E aid acc d = Inr b \<Longrightarrow> artifact_id E b = aid"
  by (drule iffD1 [OF read_artifact_Inr]) (elim exE conjE)

lemma artifact_readable:
  assumes "artifacts_ok E d" and a: "a \<in> set (t_artifacts d)" and "access_allows acc c" "a_class a = class_as_str c"
    and present: "t_cas d (a_artifact_id a) \<noteq> None"
  shows "\<exists>b. read_artifact E (a_artifact_id a) acc d = Inr b \<and> t_cas d (a_artifact_id a) = Some (RegularFile b)"
proof -
  from present obtain b where b: "t_cas d (a_artifact_id a) = Some (RegularFile b)" "artifact_id E b = a_artifact_id a"
    using artifacts_okD(2) [OF assms(1)] by blast
  with artifacts_okD(4) [OF assms(1) a] have n: "a_byte_count a = int (length b)" by blast
  obtain r where r: "read_artifact_record d (a_artifact_id a) = Inr r" "uint (ar_byte_count r) = a_byte_count a"
    "class_as_str (ar_class r) = a_class a"
    using artifact_record_read [OF assms(1) a] .
  then have "ar_class r = c" using assms(4) class_text.as_text_inject by metis
  moreover have len: "length b = unat (ar_byte_count r)"
    using r(2) n by (simp add: unat_eq_nat_uint)
  moreover have "length b < 2 ^ 64" unfolding len by (rule unat_u64_less)
  moreover have "is_ok (validate_artifact_id (a_artifact_id a))"
    using artifacts_okD(3) [OF assms(1) a] by (simp add: artifact_row_ok_def)
  ultimately have "read_artifact E (a_artifact_id a) acc d = Inr b"
    unfolding read_artifact_Inr using assms(3) b r(1) by (intro exI [of _ r]) (simp add: reject_symlink_def)
  with b show ?thesis by blast
qed

lemma put_artifact_row:
  assumes "put_artifact E io b mt cls cb pd pin d = (Inr rec, d')"
  shows "ar_artifact_id rec = artifact_id E b
    \<and> (\<exists>a\<in>set (t_artifacts d'). a_artifact_id a = artifact_id E b \<and> a_class a = class_as_str cls)
    \<and> t_cas d' (artifact_id E b) \<noteq> None
    \<and> (t_cas d (artifact_id E b) = None \<longrightarrow> t_cas d' (artifact_id E b) = Some (RegularFile b))"
proof -
  from assms obtain u d1 n where p: "artifact_path (artifact_id E b) = Inr (artifact_id E b)"
    and w: "write_cas_file E io (artifact_id E b) b d = (Inr u, d1)" and r: "ar_artifact_id rec = artifact_id E b"
    and d': "d' = upsert_artifact \<lparr>a_artifact_id = artifact_id E b, a_byte_count = n, a_media_type = mt,
                    a_class = class_as_str cls, a_created_by = cb,
                    a_policy_digest = pd, a_pinned = of_bool_sql pin, a_complete = 1,
                    a_quarantined = 0, a_retention = None\<rparr> d1" (is "d' = upsert_artifact ?a d1")
    by (auto simp: put_artifact_def Let_def attempt_eq_Inr artifact_path_Inr split: if_splits prod.splits sum.splits)
  have "?a \<in> set (t_artifacts d')"
    by (auto simp: d' upsert_artifact_def find_artifact_None image_iff)
  moreover have "t_cas d' = t_cas d1" by (simp add: d' upsert_artifact_def)
  moreover have "t_cas d (artifact_id E b) = None \<longrightarrow> t_cas d1 (artifact_id E b) = Some (RegularFile b)"
    using w by (auto simp: write_cas_file_def Let_def split: if_splits)
  moreover have "t_cas d1 (artifact_id E b) \<noteq> None"
    using write_cas_file_store [of E io "artifact_id E b" b d] calculation(3) w
    by (cases "t_cas d (artifact_id E b)") auto
  ultimately show ?thesis using r by (auto intro!: bexI [of _ ?a])
qed

lemma put_then_read:
  assumes "reachable E d" and "put_artifact E io b mt cls cb pd pin d = (Inr rec, d')" and "access_allows acc cls"
  shows "\<exists>b'. read_artifact E (ar_artifact_id rec) acc d' = Inr b' \<and> artifact_id E b' = artifact_id E b
    \<and> (t_cas d (artifact_id E b) = None \<longrightarrow> b' = b)"
proof -
  have "artifact_steps E d d'" using put_artifact_steps [of E d io b mt cls cb pd pin] assms(2) by simp
  then have ok: "artifacts_ok E d'"
    using artifact_files.micros_keep artifact_steps_micros artifact_files.reachable [OF assms(1)] by blast
  note row = put_artifact_row [OF assms(2)]
  from row have r: "ar_artifact_id rec = artifact_id E b" by (elim conjE)
  from row have new: "t_cas d (artifact_id E b) = None \<longrightarrow> t_cas d' (artifact_id E b) = Some (RegularFile b)"
    and present: "t_cas d' (artifact_id E b) \<noteq> None"
    by blast+
  from row obtain a where a: "a \<in> set (t_artifacts d')" "a_artifact_id a = artifact_id E b" "a_class a = class_as_str cls"
    by (elim conjE bexE)
  from present a(2) have "t_cas d' (a_artifact_id a) \<noteq> None" by simp
  from artifact_readable [OF ok a(1) assms(3) a(3) this] obtain b' where
    b': "read_artifact E (artifact_id E b) acc d' = Inr b'" "t_cas d' (artifact_id E b) = Some (RegularFile b')"
    using a(2) by auto
  moreover from b'(1) have "artifact_id E b' = artifact_id E b" by (rule read_artifact_digest)
  moreover have "b' = b" if "t_cas d (artifact_id E b) = None" using new that b'(2) by simp
  ultimately show ?thesis unfolding r by (intro exI [of _ b'] conjI impI)
qed

section \<open>Collection\<close>

text \<open>Whatever it does, collection leaves pinned, referenced and retained-class artifacts alone.\<close>

definition protected_row :: "store \<Rightarrow> artifact_row \<Rightarrow> bool" where
  "protected_row d a \<longleftrightarrow> \<not> collectable a \<or> referenced d (a_artifact_id a)"

lemma collect_one_effect:
  "(\<forall>a. a_artifact_id a \<noteq> aid \<longrightarrow> a \<in> set (t_artifacts d) \<longrightarrow> a \<in> set (t_artifacts (snd (collect_one io aid d))))
   \<and> (\<forall>p. p \<noteq> aid \<longrightarrow> t_cas (snd (collect_one io aid d)) p = t_cas d p)"
proof (cases "artifact_path aid")
  case (Inr path)
  then have "path = aid" by (simp add: artifact_path_Inr)
  with Inr show ?thesis
    by (cases "reject_symlink (t_cas d aid)") (auto simp: collect_one_def Let_def)
qed (simp add: collect_one_def)

lemma collect_all_spares:
  "a \<in> set (t_artifacts d) \<Longrightarrow> a_artifact_id a \<notin> set ids \<Longrightarrow>
     a \<in> set (t_artifacts (snd (collect_all io ids d)))
     \<and> t_cas (snd (collect_all io ids d)) (a_artifact_id a) = t_cas d (a_artifact_id a)"
proof (induction ids arbitrary: d)
  case Nil
  then show ?case by simp
next
  case (Cons aid ids)
  obtain v d1 where v: "collect_one io aid d = (v, d1)" by (cases "collect_one io aid d")
  with collect_one_effect [of aid d io] Cons.prems Cons.IH [of d1] show ?case by (cases v) auto
qed

lemma garbage_collect_spares:
  assumes "distinct (map a_artifact_id (t_artifacts d))" "a \<in> set (t_artifacts d)" "protected_row d a"
  shows "a \<in> set (t_artifacts (snd (garbage_collect io n dry d)))
     \<and> t_cas (snd (garbage_collect io n dry d)) (a_artifact_id a) = t_cas d (a_artifact_id a)"
proof (cases "sql_i64 n")
  case (Inr k)
  let ?ids = "sort (map a_artifact_id (filter (gc_candidate d k) (t_artifacts d)))"
  have "snd (garbage_collect io n dry d) = (if dry then d else snd (collect_all io ?ids d))"
    using Inr by (simp add: garbage_collect_def Let_def split: prod.split sum.split)
  moreover have "a_artifact_id a \<notin> set ?ids"
  proof
    assume "a_artifact_id a \<in> set ?ids"
    then obtain x where x: "x \<in> set (t_artifacts d)" "a_artifact_id x = a_artifact_id a" "gc_candidate d k x" by auto
    then have "x = a" using assms(1,2) by (metis distinct_map inj_onD)
    with x(3) assms(3) show False by (simp add: gc_candidate_def protected_row_def)
  qed
  ultimately show ?thesis using collect_all_spares [of a d ?ids io] assms(2) by simp
qed (use assms in \<open>simp add: garbage_collect_def\<close>)

end
