(* ===== verification/Demo.thy ===== *)
theory Demo
  imports Core_Outcomes Core_Files
begin

text \<open>
  A concrete world in which the hypotheses of the theorems hold: a JSON text format with its
  reader, a fixed clock, identifiers in order, and an authority manifest that
  \<open>validate_authority\<close> accepts. The format writes a value in postfix order, so that its
  reader is a stack machine that consumes one byte at a time.
\<close>

section \<open>A JSON text format\<close>

fun binary :: "nat \<Rightarrow> string" where
  "binary n = (if n = 0 then [] else binary (n div 2) @ [if n mod 2 = 1 then CHR ''1'' else CHR ''0''])"

declare binary.simps [simp del]

definition enc_char :: "char \<Rightarrow> string" where
  "enc_char c = [char_of (65 + byte_code c div 16), char_of (97 + byte_code c mod 16)]"

definition enc_str :: "string \<Rightarrow> string" where
  "enc_str s = CHR ''<'' # concat (map enc_char s) @ ''>''"

fun enc :: "json \<Rightarrow> string"
  and enc_list :: "json list \<Rightarrow> string"
  and enc_members :: "json_object \<Rightarrow> string"
where
  "enc JNull = ''?''"
| "enc (JBool b) = (if b then ''!'' else '';'')"
| "enc (JInt n) = CHR ''('' # binary (nat \<bar>n\<bar>) @ (if n < 0 then ''-'' else ''+'')"
| "enc (JFloat l) = enc_str l @ ''.''"
| "enc (JStr s) = enc_str s"
| "enc (JArr vs) = CHR ''['' # enc_list vs @ '']''"
| "enc (JObj ob) = CHR ''{'' # enc_members ob @ ''}''"
| "enc_list [] = []"
| "enc_list (v # vs) = enc v @ enc_list vs"
| "enc_members [] = []"
| "enc_members ((k, v) # ob) = enc_str k @ enc v @ enc_members ob"

datatype stack_item = Mark | Val json | Hi nat | Ch char | Num nat

fun pop_values :: "stack_item list \<Rightarrow> json list \<Rightarrow> (json list \<times> stack_item list) option" where
  "pop_values (Mark # st) vs = Some (vs, st)"
| "pop_values (Val v # st) vs = pop_values st (v # vs)"
| "pop_values _ vs = None"

fun pop_chars :: "stack_item list \<Rightarrow> string \<Rightarrow> (string \<times> stack_item list) option" where
  "pop_chars (Mark # st) cs = Some (cs, st)"
| "pop_chars (Ch c # st) cs = pop_chars st (c # cs)"
| "pop_chars _ cs = None"

fun pairs_of :: "json list \<Rightarrow> json_object" where
  "pairs_of (JStr k # v # vs) = (k, v) # pairs_of vs"
| "pairs_of _ = []"

definition read_byte :: "char \<Rightarrow> stack_item list \<Rightarrow> stack_item list" where
  "read_byte c st =
     (if c = CHR ''?'' then Val JNull # st
      else if c = CHR ''!'' then Val (JBool True) # st
      else if c = CHR '';'' then Val (JBool False) # st
      else if c = CHR ''('' then Num 0 # st
      else if c \<in> set ''<[{'' then Mark # st
      else if c = CHR ''0'' then (case st of Num n # r \<Rightarrow> Num (2 * n) # r | _ \<Rightarrow> [])
      else if c = CHR ''1'' then (case st of Num n # r \<Rightarrow> Num (2 * n + 1) # r | _ \<Rightarrow> [])
      else if c = CHR ''+'' then (case st of Num n # r \<Rightarrow> Val (JInt (int n)) # r | _ \<Rightarrow> [])
      else if c = CHR ''-'' then (case st of Num n # r \<Rightarrow> Val (JInt (- int n)) # r | _ \<Rightarrow> [])
      else if c = CHR ''.'' then (case st of Val (JStr l) # r \<Rightarrow> Val (JFloat l) # r | _ \<Rightarrow> [])
      else if c = CHR ''>'' then (case pop_chars st [] of Some (s, r) \<Rightarrow> Val (JStr s) # r | None \<Rightarrow> [])
      else if c = CHR '']'' then (case pop_values st [] of Some (vs, r) \<Rightarrow> Val (JArr vs) # r | None \<Rightarrow> [])
      else if c = CHR ''}'' then (case pop_values st [] of Some (vs, r) \<Rightarrow> Val (JObj (pairs_of vs)) # r | None \<Rightarrow> [])
      else if byte_code c < 97 then Hi (byte_code c - 65) # st
      else (case st of Hi n # r \<Rightarrow> Ch (char_of (16 * n + (byte_code c - 97))) # r | _ \<Rightarrow> []))"

definition dec :: "string \<Rightarrow> json option" where
  "dec s = (case fold read_byte s [] of [Val v] \<Rightarrow> Some v | _ \<Rightarrow> None)"

lemma read_binary: "fold read_byte (binary n) (Num 0 # st) = Num n # st"
proof (induction n rule: binary.induct)
  case (1 n)
  show ?case
  proof (cases "n = 0")
    case False
    then have "fold read_byte (binary n) (Num 0 # st)
        = read_byte (if n mod 2 = 1 then CHR ''1'' else CHR ''0'') (Num (n div 2) # st)"
      using 1 by (subst binary.simps) simp
    also have "\<dots> = Num n # st"
      by (cases "n mod 2 = 1") (simp_all add: read_byte_def, presburger+)
    finally show ?thesis .
  qed (simp add: binary.simps)
qed

lemma enc_hi: "n < 16 \<Longrightarrow> read_byte (char_of (65 + n)) st = Hi n # st"
proof -
  have "\<forall>n\<in>set [0..<16]. char_of (65 + n) \<notin> set ''?!;(<[{01+-.>]}''" by code_simp
  moreover assume "n < 16"
  ultimately show ?thesis by (simp add: read_byte_def)
qed

lemma enc_lo: "n < 16 \<Longrightarrow> read_byte (char_of (97 + n)) (Hi m # st) = Ch (char_of (16 * m + n)) # st"
proof -
  have "\<forall>n\<in>set [0..<16]. char_of (97 + n) \<notin> set ''?!;(<[{01+-.>]}''" by code_simp
  moreover assume "n < 16"
  ultimately show ?thesis by (simp add: read_byte_def)
qed

lemma read_chars: "fold read_byte (concat (map enc_char s)) st = rev (map Ch s) @ st"
proof (induction s arbitrary: st)
  case (Cons c s)
  have "byte_code c div 16 < 16" by (simp add: byte_code_less less_mult_imp_div_less)
  then have "fold read_byte (enc_char c) st = Ch c # st"
    by (simp add: enc_char_def enc_hi enc_lo)
  with Cons show ?case by simp
qed simp

lemma pop_rev_chars: "pop_chars (rev (map Ch s) @ Mark # st) cs = Some (s @ cs, st)"
  by (induction s arbitrary: cs rule: rev_induct) auto

lemma pop_rev_values: "pop_values (rev (map Val vs) @ Mark # st) ws = Some (vs @ ws, st)"
  by (induction vs arbitrary: ws rule: rev_induct) auto

lemma read_enc_str: "fold read_byte (enc_str s) st = Val (JStr s) # st"
  by (simp add: enc_str_def read_chars read_byte_def [of "CHR ''<''"] read_byte_def [of "CHR ''>''"] pop_rev_chars)

lemma pairs_of_members: "pairs_of (concat (map (\<lambda>(k, v). [JStr k, v]) ob)) = ob"
  by (induction ob) auto

lemma read_enc:
  "fold read_byte (enc v) st = Val v # st"
  "fold read_byte (enc_list vs) st = rev (map Val vs) @ st"
  "fold read_byte (enc_members ob) st = rev (map Val (concat (map (\<lambda>(k, v). [JStr k, v]) ob))) @ st"
  by (induction v and vs and ob arbitrary: st and st and st rule: enc_enc_list_enc_members.induct)
    (simp_all add: read_enc_str read_binary read_byte_def pop_rev_values pairs_of_members)

lemma dec_enc [simp]: "dec (enc v) = Some v"
  by (simp add: dec_def read_enc)

lemma ascii_enc_str: "c \<in> set (enc_str s) \<Longrightarrow> byte_code c < 128"
proof -
  assume "c \<in> set (enc_str s)"
  then consider "c \<in> set ''<>''" | x where "c = char_of (65 + byte_code x div 16)"
    | x where "c = char_of (97 + byte_code x mod 16)"
    by (auto simp: enc_str_def enc_char_def)
  then show ?thesis
  proof cases
    case 1
    then show ?thesis by auto
  next
    case (2 x)
    have "byte_code x div 16 < 16" by (simp add: byte_code_less less_mult_imp_div_less)
    with 2 show ?thesis by simp
  next
    case (3 x)
    have "byte_code x mod 16 < 16" by simp
    with 3 show ?thesis by simp
  qed
qed

lemma ascii_binary: "c \<in> set (binary n) \<Longrightarrow> byte_code c < 128"
  by (induction n rule: binary.induct) (subst (asm) (2) binary.simps, auto split: if_splits)

lemma ascii_enc:
  "c \<in> set (enc v) \<Longrightarrow> byte_code c < 128"
  "c \<in> set (enc_list vs) \<Longrightarrow> byte_code c < 128"
  "c \<in> set (enc_members ob) \<Longrightarrow> byte_code c < 128"
  by (induction v and vs and ob rule: enc_enc_list_enc_members.induct)
    (auto simp: ascii_binary ascii_enc_str split: if_splits)

lemma ascii_utf8: "\<forall>c\<in>set s. byte_code c < 128 \<Longrightarrow> utf8_valid s"
  by (induction s) (auto simp: utf8_valid.simps(2))

lemma ascii_no_bom: "\<forall>c\<in>set s. byte_code c < 128 \<Longrightarrow> \<not> prefix utf8_bom s"
  by (auto simp: utf8_bom_def prefix_def)

lemma demo_utf8: "utf8_valid (enc v)"
  using ascii_enc(1) by (simp add: ascii_utf8)

text \<open>The tokens of a value.\<close>

fun raw_of :: "json \<Rightarrow> raw_json"
  and raw_list :: "json list \<Rightarrow> raw_json list"
  and raw_members :: "json_object \<Rightarrow> (string option \<times> raw_json) list"
where
  "raw_of JNull = RNull"
| "raw_of (JBool b) = RBool b"
| "raw_of (JInt n) = (if n < 0 then RI64 n else RU64 n)"
| "raw_of (JFloat l) = RF64 l"
| "raw_of (JStr s) = RStr s"
| "raw_of (JArr vs) = RSeq (raw_list vs)"
| "raw_of (JObj ob) = RMap (raw_members ob)"
| "raw_list [] = []"
| "raw_list (v # vs) = raw_of v # raw_list vs"
| "raw_members [] = []"
| "raw_members ((k, v) # ob) = (Some k, raw_of v) # raw_members ob"

lemma token_tree_raw_of: "token_tree (raw_of v)" "token_trees (raw_list vs)" "token_members (raw_members ob)"
  by (induction v and vs and ob rule: raw_of_raw_list_raw_members.induct) auto

lemma obj_insert_last:
  "\<forall>p\<in>set ob. fst p < k \<Longrightarrow> obj_insert k v ob = ob @ [(k, v)]"
  by (induction k v ob rule: obj_insert.induct) (auto dest: order.asym)

lemma strict_visit_raw_of:
  "ijson v \<Longrightarrow> strict_visit (raw_of v) = Inr v"
  "ijson_list vs \<Longrightarrow> strict_seq (raw_list vs) = Inr vs"
  "ijson_members ob \<Longrightarrow> sorted_wrt (<) (map fst (vals @ ob)) \<Longrightarrow>
     strict_map (fst ` set vals) vals (raw_members ob) = Inr (vals @ ob)"
proof (induction v and vs and ob arbitrary: and and vals rule: raw_of_raw_list_raw_members.induct)
  case (7 ob)
  then show ?case using 7(1) [of "[]"] by simp
next
  case (11 k v ob)
  from 11(4) have lt: "\<forall>p\<in>set vals. fst p < k" by (auto simp: sorted_wrt_append)
  then have "k \<notin> fst ` set vals" by auto
  moreover have "insert k (fst ` set vals) = fst ` set (vals @ [(k, v)])" by simp
  ultimately show ?case
    using 11(1,3,4) lt 11(2) [of "vals @ [(k, v)]"] by (simp add: obj_insert_last)
qed (auto simp: MAX_SAFE_INT_def)

section \<open>The world\<close>

definition demo :: env where
  "demo = \<lparr>sha256 = (\<lambda>s. take 32 (s @ replicate 32 (CHR 0x00))), jcs = (\<lambda>v. Some (enc v)),
     deserialize = (\<lambda>s. case dec s of Some v \<Rightarrow> (raw_of v, True) | None \<Rightarrow> (RFail ''syntax'', True)),
     schema_validator = (\<lambda>d. Some (\<lambda>v. True)),
     parse_uuid = (\<lambda>s. Some \<lparr>uuid_hyphenated = s, uuid_version = 7, uuid_rfc4122 = True\<rparr>),
     uuid_v7 = (\<lambda>n. replicate n (CHR ''a'')), parse_rfc3339 = (\<lambda>s. Some 0), now = 0,
     now_text = Some ''2026-01-01T00:00:00Z'', to_text = enc, of_text = dec\<rparr>"

lemma demo_select [simp]:
  "sha256 demo s = take 32 (s @ replicate 32 (CHR 0x00))" "jcs demo v = Some (enc v)"
  "schema_validator demo nm = Some (\<lambda>v. True)" "uuid_v7 demo n = replicate n (CHR ''a'')"
  "parse_rfc3339 demo s = Some 0" "now demo = 0" "to_text demo = enc" "of_text demo = dec"
  "now_text demo = Some ''2026-01-01T00:00:00Z''"
  "parse_uuid demo s = Some \<lparr>uuid_hyphenated = s, uuid_version = 7, uuid_rfc4122 = True\<rparr>"
  by (simp_all add: demo_def)

lemma demo_deserialize:
  "deserialize demo s = (case dec s of Some v \<Rightarrow> (raw_of v, True) | None \<Rightarrow> (RFail ''syntax'', True))"
  by (simp add: demo_def)

lemma demo_parse:
  "ijson v \<Longrightarrow> length (enc v) \<le> m \<Longrightarrow> parse_strict_json demo (enc v) m = Inr v"
  using ascii_enc(1) [of _ v]
  by (simp add: parse_strict_json_Inr demo_deserialize strict_visit_raw_of ascii_utf8 ascii_no_bom)

lemma demo_text_codec: "text_codec demo"
  by (simp add: text_codec_def)

lemma demo_json_laws: "json_laws demo"
proof -
  have "token_tree (fst (deserialize demo s))" for s
    by (simp add: demo_deserialize token_tree_raw_of split: option.split)
  then show ?thesis by (auto simp: json_laws_def demo_parse)
qed

lemma demo_now: "at_time demo 0 (Some ''2026-01-01T00:00:00Z'') = demo"
  by (simp add: at_time_def demo_def)

section \<open>An authority and its budget\<close>

definition demo_budget :: budget_ledger where
  "demo_budget = \<lparr>wall_ms = 60000, input_tokens = 1000, output_tokens = 500, ledger_bytes = 4096, attempts = 3\<rparr>"

definition demo_manifest :: json where
  "demo_manifest = json_object
     [(''reads'', JArr [JStr ''selected_source_bytes'']), (''writes'', JArr [JStr ''tool_owned_state'']),
      (''commands'', JArr []), (''executor'', JNull), (''network_destinations'', JArr []),
      (''egress_classes'', JArr []), (''budget'', ledger_to_json demo_budget)]"

definition demo_snapshot :: string where
  "demo_snapshot = ''snap_sha256_'' @ replicate 64 (CHR ''0'')"

definition demo_authority :: authority_manifest where
  "demo_authority =
     \<lparr>au_schema_uri = SCHEMA_BASE @ ''authority.schema.json'', au_schema_version = SCHEMA_VERSION,
      au_authority_id = ''auth_1'', au_subject_id = ''action_'' @ demo_snapshot, au_mode = Inspect,
      au_manifest = demo_manifest,
      au_manifest_digest = ''sha256:'' @ hex_encode (sha256 demo (enc demo_manifest)),
      au_approved_at = ''2025-12-31T00:00:00Z'', au_expires_at = None, au_approval_origin = ''operator'',
      au_revoked = False, au_snapshot_id = demo_snapshot\<rparr>"

lemma ijson_ledger: "ijson (ledger_to_json b) \<longleftrightarrow>
   list_all (\<lambda>w. uint w \<le> MAX_SAFE_INT) [wall_ms b, input_tokens b, output_tokens b, ledger_bytes b, attempts b]"
proof -
  have *: "- MAX_SAFE_INT \<le> uint w" for w :: u64
    by (rule order_trans [of _ 0]) (simp_all add: MAX_SAFE_INT_def)
  show ?thesis by (auto simp: ledger_to_json_def json_object_def *)
qed

lemma demo_manifest_ijson: "ijson demo_manifest"
  by (simp add: demo_manifest_def json_object_def ijson_ledger) (simp add: demo_budget_def MAX_SAFE_INT_def)

lemma demo_canonical: "ijson v \<Longrightarrow> canonical_json demo v = Inr (enc v)"
  by (simp add: canonical_json_def ijson_not_rejected)

lemma hex64_sha: "hex64 (hex_encode (sha256 demo s))"
  by (simp add: hex64_def hex_encode_lower_hex)

lemma demo_entity: "v = pre @ ''_'' @ t \<Longrightarrow> validate_entity_id demo v pre = Inr ()"
  by (simp add: validate_entity_id_Inr)

lemma demo_ids [simp]:
  "validate_entity_id demo ''run_'' ''run'' = Inr ()"
  "validate_entity_id demo ''stage_aa'' ''stage'' = Inr ()"
  "validate_entity_id demo ''auth_1'' ''auth'' = Inr ()"
  by (simp_all add: demo_entity)

lemma demo_contract_valid: "validate_contract demo (contract_value demo_authority) = Inr ()"
  by (simp add: validate_contract_def contract_value_def json_object_def demo_authority_def
     ENTITY_DEFINITIONS_def)

lemma demo_authority_budget: "authority_budget demo_authority = Inr demo_budget"
  by (simp add: authority_budget_def demo_authority_def demo_manifest_def json_object_def
     ledger_to_json_def field_u64_def demo_budget_def)

lemma demo_scope: "validate_scope demo_authority = Inr ()"
proof -
  have "au_manifest demo_authority = demo_manifest" "au_mode demo_authority = Inspect"
    by (simp_all add: demo_authority_def)
  then show ?thesis
    by (simp add: validate_scope_def demo_authority_budget demo_manifest_def json_object_def
      manifest_strings_def allowed_reads_def allowed_writes_def)
qed

lemma demo_snapshot_valid: "validate_snapshot_id demo_snapshot = Inr ()"
  by (simp add: validate_snapshot_id_def demo_snapshot_def strip_prefix_def hex64_def is_lower_hex_def is_ascii_digit_def
    list_all_iff)

lemma demo_authority_valid: "validate_authority demo demo_authority = Inr ()"
proof -
  have "validate_entity_id demo (au_authority_id demo_authority) ''auth'' = Inr ()"
    using demo_entity [of "''auth''" "''1''"] by (simp add: demo_authority_def)
  moreover have "validate_digest (au_manifest_digest demo_authority) = Inr ()"
    using hex64_sha by (simp add: validate_digest_def demo_authority_def strip_prefix_def)
  ultimately show ?thesis
    unfolding validate_authority_def demo_contract_valid demo_scope
    by (simp add: demo_authority_def demo_snapshot_valid demo_canonical demo_manifest_ijson)
qed

lemma length_enc_char [simp]: "length (enc_char c) = 2"
  by (simp add: enc_char_def)

lemma length_enc_str [simp]: "length (enc_str s) = 2 * length s + 2"
proof -
  have "length (concat (map enc_char s)) = 2 * length s" by (induction s) simp_all
  then show ?thesis by (simp add: enc_str_def)
qed

lemma length_binary: "n < 2 ^ k \<Longrightarrow> length (binary n) \<le> k"
proof (induction k arbitrary: n)
  case 0
  then show ?case by (simp add: binary.simps)
next
  case (Suc k)
  then have "length (binary (n div 2)) \<le> k" by simp
  then show ?case by (subst binary.simps) simp
qed

lemma length_enc_ledger: "length (enc (ledger_to_json b)) \<le> 600"
proof -
  have "length (enc (JInt (uint w))) \<le> 66" for w :: u64
    using length_binary [of "unat w" 64] unat_u64_less [of w] by simp
  note * = this [of "wall_ms b"] this [of "input_tokens b"] this [of "output_tokens b"]
    this [of "ledger_bytes b"] this [of "attempts b"]
  show ?thesis using * by (simp add: ledger_to_json_def json_object_def)
qed

lemma length_demo_contract: "length (enc (contract_value demo_authority)) \<le> MAX_SAFE_JSON_BYTES"
proof -
  have "length (enc demo_manifest) \<le> 2000"
    using length_enc_ledger [of demo_budget] by (simp add: demo_manifest_def json_object_def)
  then show ?thesis
    by (simp add: contract_value_def json_object_def demo_authority_def SCHEMA_BASE_def SCHEMA_VERSION_def
      MAX_SAFE_JSON_BYTES_def demo_snapshot_def)
qed

lemma ijson_demo_contract: "ijson (contract_value demo_authority)"
  by (simp add: contract_value_def json_object_def demo_authority_def demo_manifest_ijson)

lemma demo_from_contract:
  "from_contract_json demo demo_snapshot (enc (contract_value demo_authority)) = Inr demo_authority"
proof -
  have "demo_authority\<lparr>au_snapshot_id := demo_snapshot\<rparr> = demo_authority" by (simp add: demo_authority_def)
  then show ?thesis
    by (simp add: from_contract_json_def demo_parse [OF ijson_demo_contract length_demo_contract]
      demo_contract_valid authority_of_contract_value demo_authority_valid Let_def)
qed

lemma demo_permits: "permits demo demo_authority WriteState"
proof -
  have "au_manifest demo_authority = demo_manifest" "au_mode demo_authority = Inspect"
    by (simp_all add: demo_authority_def)
  then show ?thesis
    by (simp add: permits_def demo_authority_valid demo_manifest_def json_object_def lenient_strings_def
      List.map_filter_simps)
qed

section \<open>A run\<close>

definition demo_contract :: string where
  "demo_contract = enc (contract_value demo_authority)"

abbreviation demo_time :: string where
  "demo_time \<equiv> ''2026-01-01T00:00:00Z''"

definition demo_row :: "run_status \<Rightarrow> budget_ledger \<Rightarrow> cleanup_state \<Rightarrow> string option \<Rightarrow> int \<Rightarrow> run_row" where
  "demo_row st used cleanup started sq =
     \<lparr>r_run_id = ''run_'', r_snapshot_id = demo_snapshot, r_mode = ''inspect'', r_status = run_as_str st,
      r_counters = ledger_text demo used, r_budgets = ledger_text demo demo_budget,
      r_cleanup_state = cleanup_as_str cleanup, r_created_at = demo_time, r_started_at = started,
      r_terminal_at = None, r_last_sequence = sq, r_receipt_id = None, r_authority_id = ''auth_1'',
      r_authority_digest = au_manifest_digest demo_authority,
      r_authority_contract = Some demo_contract, r_legacy_report_only = 0\<rparr>"

definition demo_stage :: "stage_state \<Rightarrow> int \<Rightarrow> lease option \<Rightarrow> stage_row" where
  "demo_stage st att l =
     \<lparr>s_stage_id = ''stage_aa'', s_run_id = ''run_'', s_kind = ''discover'', s_state = stage_as_str st,
      s_attempt = att, s_max_attempts = 2, s_retryable = 1, s_lease = map_option (lease_text demo) l\<rparr>"

definition demo_event :: "nat \<Rightarrow> int \<Rightarrow> string \<Rightarrow> json \<Rightarrow> event_row" where
  "demo_event n sq ty payload = \<lparr>e_event_id = ''evt_'' @ replicate n (CHR ''a''), e_run_id = ''run_'', e_sequence = sq,
     e_occurred_at = demo_time, e_type = ty, e_payload = enc payload, e_artifact_refs = enc (JArr [])\<rparr>"

definition demo_st :: "run_row \<Rightarrow> stage_row list \<Rightarrow> event_row list \<Rightarrow> nat \<Rightarrow> store" where
  "demo_st row sts evs n = \<lparr>t_runs = [row], t_stages = sts, t_events = evs, t_artifacts = [], t_refs = [],
     t_idempotency = [], t_issued = n, t_cas = (\<lambda>_. None)\<rparr>"

definition demo_projection ::
  "run_status \<Rightarrow> budget_ledger \<Rightarrow> cleanup_state \<Rightarrow> int \<Rightarrow> run_projection" where
  "demo_projection st used cleanup sq =
     \<lparr>rp_run_id = ''run_'', rp_snapshot_id = demo_snapshot, rp_mode = Inspect, rp_status = st,
      rp_counters = used, rp_budgets = demo_budget, rp_cleanup_state = cleanup,
      rp_last_sequence = word_of_int sq, rp_receipt_id = None, rp_authority_id = ''auth_1'',
      rp_authority_digest = au_manifest_digest demo_authority, rp_legacy_report_only = False\<rparr>"

definition demo_stage_projection :: "stage_state \<Rightarrow> int \<Rightarrow> lease option \<Rightarrow> stage_projection" where
  "demo_stage_projection st att l =
     \<lparr>sp_stage_id = ''stage_aa'', sp_run_id = ''run_'', sp_kind = ''discover'', sp_state = st,
      sp_attempt = word_of_int att, sp_max_attempts = 2, sp_retryable = True, sp_lease = l\<rparr>"

lemma demo_digest_valid: "validate_digest (au_manifest_digest demo_authority) = Inr ()"
  using hex64_sha by (simp add: validate_digest_def demo_authority_def strip_prefix_def)

lemma demo_fields: "au_mode demo_authority = Inspect" "au_snapshot_id demo_authority = demo_snapshot"
  "au_authority_id demo_authority = ''auth_1''"
  by (simp_all add: demo_authority_def)

lemma demo_digest_not_Nil [simp]: "au_manifest_digest demo_authority \<noteq> []"
  by (simp add: demo_authority_def)

lemma demo_find_run [simp]: "find_run (demo_st (demo_row st u c t sq) sts evs n) ''run_'' = Some (demo_row st u c t sq)"
  by (simp add: find_run_def demo_st_def demo_row_def)

lemma demo_read_run [simp]:
  "0 \<le> sq \<Longrightarrow> read_run demo (demo_st (demo_row st u c t sq) sts evs n) ''run_'' = Inr (demo_projection st u c sq)"
  by (simp add: read_run_def project_run_def)
    (simp add: demo_row_def demo_snapshot_valid sql_bool_def demo_digest_valid parse_mode_def sql_u64_def
      demo_projection_def codec_ledger [OF demo_text_codec])

lemma demo_require [simp]:
  "require_run_action demo (demo_st (demo_row st u c t sq) sts evs n) ''run_'' WriteState = Inr ()"
  by (simp add: require_run_action_def)
    (simp add: demo_row_def sql_bool_def demo_contract_def demo_from_contract demo_fields demo_permits)

lemma demo_find_stage [simp]:
  "find_stage (demo_st row [demo_stage st att l] evs n) ''stage_aa'' = Some (demo_stage st att l)"
  by (simp add: find_stage_def demo_st_def demo_stage_def)

lemma demo_read_stage [simp]:
  "0 \<le> att \<Longrightarrow> read_stage demo (demo_st row [demo_stage st att l] evs n) ''stage_aa'' = Inr (demo_stage_projection st att l)"
  by (simp add: read_stage_def project_stage_def)
    (cases l; simp add: demo_stage_def sql_u64_def sql_bool_def
    demo_stage_projection_def codec_lease [OF demo_text_codec])

text \<open>Events get the next number; an identifier is fresh when it is longer than the earlier ones.\<close>

definition demo_log :: "event_row list \<Rightarrow> int \<Rightarrow> nat \<Rightarrow> bool" where
  "demo_log evs sq n \<longleftrightarrow> 0 \<le> sq \<and> sq + 1 < 2 ^ 63
     \<and> (\<forall>e\<in>set evs. e_sequence e \<le> sq \<and> e_event_id e \<noteq> ''evt_'' @ replicate n (CHR ''a''))"

lemma demo_append_row:
  assumes "demo_log evs sq n" and "r_run_id row = ''run_''" "r_last_sequence row = sq"
  shows "append_event demo ''run_'' ty payload [] (demo_st row sts evs n)
    = Inr (demo_st (row\<lparr>r_last_sequence := sq + 1\<rparr>) sts (evs @ [demo_event n (sq + 1) ty payload]) (Suc n))"
proof -
  have "\<not> list_ex (\<lambda>x. e_event_id x = ''evt_'' @ replicate n (CHR ''a'')
      \<or> e_run_id x = ''run_'' \<and> e_sequence x = sq + 1) evs"
    using assms(1) by (fastforce simp: demo_log_def list_ex_iff)
  then show ?thesis
    using assms by (simp add: append_event_def insert_event_def find_run_def demo_st_def
      demo_log_def now_rfc3339_def prefixed_id_def draw_id_def update_run_def demo_event_def)
qed

lemma demo_append:
  assumes "demo_log evs sq n"
  shows "append_event demo ''run_'' ty payload [] (demo_st (demo_row st u c t sq) sts evs n)
    = Inr (demo_st (demo_row st u c t (sq + 1)) sts (evs @ [demo_event n (sq + 1) ty payload]) (Suc n))"
proof -
  have "r_run_id (demo_row st u c t sq) = ''run_''" "r_last_sequence (demo_row st u c t sq) = sq"
    and "(demo_row st u c t sq)\<lparr>r_last_sequence := sq + 1\<rparr> = demo_row st u c t (sq + 1)"
    by (simp_all add: demo_row_def)
  with demo_append_row [OF assms this(1,2)] show ?thesis by simp
qed

lemma demo_update_run:
  "(\<And>r. r_run_id (f r) = r_run_id r) \<Longrightarrow> update_run ''run_'' f (demo_st (demo_row st u c t sq) sts evs n)
     = demo_st (f (demo_row st u c t sq)) sts evs n"
  by (simp add: update_run_def demo_st_def) (simp add: demo_row_def)

lemma demo_update_stage:
  "update_stages (\<lambda>s. s_stage_id s = ''stage_aa'') f (demo_st row [demo_stage st att l] evs n)
     = demo_st row [f (demo_stage st att l)] evs n"
  by (simp add: update_stages_def demo_st_def) (simp add: demo_stage_def)

definition demo_start :: store where
  "demo_start = demo_st (demo_row Created ledger_default Pending None 1) []
     [demo_event 1 1 ''run.created''
       (json_object [(''authority_id'', JStr ''auth_1''),
          (''authority_digest'', JStr (au_manifest_digest demo_authority)),
          (''mode'', JStr ''inspect''), (''snapshot_id'', JStr demo_snapshot)])] 2"

lemma demo_create_any:
  assumes "save_idempotency demo_start ''run_'' idem ''run_'' = Inr d'"
    and "t_runs d' = t_runs demo_start"
  shows "create_run_inner demo demo_authority demo_budget idem empty_store
     = (Inr (demo_projection Created ledger_default Pending 1), d')"
proof -
  have le: "\<not> ledger_exceeds demo_budget demo_budget" by (simp add: ledger_exceeds_def)
  have contract: "canonical_text demo (contract_value demo_authority) = Inr demo_contract"
    by (simp add: canonical_text_Inr demo_canonical demo_utf8 ijson_demo_contract demo_contract_def)
  have row: "insert_run \<lparr>r_run_id = ''run_'', r_snapshot_id = demo_snapshot,
      r_mode = ''inspect'', r_status = ''created'',
      r_counters = ledger_text demo ledger_default, r_budgets = ledger_text demo demo_budget,
      r_cleanup_state = ''pending'', r_created_at = demo_time,
      r_started_at = None, r_terminal_at = None, r_last_sequence = 0,
      r_receipt_id = None, r_authority_id = ''auth_1'',
      r_authority_digest = au_manifest_digest demo_authority,
      r_authority_contract = Some demo_contract, r_legacy_report_only = 0\<rparr> (draw_id empty_store)
    = Inr (demo_st (demo_row Created ledger_default Pending None 0) [] [] 1)"
    by (simp add: insert_run_def find_run_def draw_id_def empty_store_def demo_st_def demo_row_def)
  have "append_event demo ''run_'' ty payload [] (demo_st (demo_row Created ledger_default Pending None 0) [] [] 1)
    = Inr (demo_st (demo_row Created ledger_default Pending None 1) [] [demo_event 1 1 ty payload] 2)" for ty payload
    using demo_append [of "[]" 0 1 ty payload Created ledger_default Pending None "[]"]
    by (simp add: demo_log_def numeral_2_eq_2)
  note ap = this [unfolded One_nat_def]
  have rid: "prefixed_id demo ''run'' empty_store = ''run_''" by (simp add: prefixed_id_def empty_store_def)
  have replay: "replay_idempotency empty_store idem = Inr None"
    by (simp add: replay_idempotency_def find_idempotency_def empty_store_def split: option.split)
  have "read_run demo d' ''run_'' = read_run demo demo_start ''run_''"
    using assms(2) by (simp add: read_run_def find_run_def)
  then have "read_run demo d' ''run_'' = Inr (demo_projection Created ledger_default Pending 1)"
    by (simp add: demo_start_def)
  with assms(1) show ?thesis
    unfolding create_run_inner_def with_replay_def replay demo_start_def
    by (simp add: demo_fields demo_authority_valid demo_authority_budget le Let_def rid now_rfc3339_def contract row ap)
qed

lemma demo_create:
  "create_run_inner demo demo_authority demo_budget None empty_store
     = (Inr (demo_projection Created ledger_default Pending 1), demo_start)"
  by (rule demo_create_any) (simp_all add: save_idempotency_def)

definition demo_key :: idempotency_request where
  "demo_key = \<lparr>q_operation = ''create_run'', q_key = ''key-1'', q_digest = ''sha256:00''\<rparr>"

definition demo_keyed :: store where
  "demo_keyed = demo_start\<lparr>t_idempotency :=
     [\<lparr>i_run_id = ''run_'', i_operation = ''create_run'', i_key = ''key-1'',
       i_request_digest = ''sha256:00'', i_response = ''run_''\<rparr>]\<rparr>"

lemma demo_create_key:
  "create_run_inner demo demo_authority demo_budget (Some demo_key) empty_store
     = (Inr (demo_projection Created ledger_default Pending 1), demo_keyed)"
  by (rule demo_create_any)
    (simp_all add: save_idempotency_def demo_keyed_def demo_key_def find_idempotency_def demo_start_def
      demo_st_def find_run_def demo_row_def)

text \<open>The later operations on this run, each with one event.\<close>

lemma run_id_set_status: "r_run_id (set_run_status nxt stamp r) = r_run_id r"
  by (simp add: set_run_status_def)

lemma demo_transition_run:
  assumes "demo_log evs sq n" and "run_can_transition st nxt" "\<not> run_is_terminal nxt"
  shows "transition_run_inner demo ''run_'' nxt None (demo_st (demo_row st u c t sq) sts evs n)
    = (Inr (demo_projection nxt u c (sq + 1)),
       demo_st (demo_row nxt u c (if nxt = Running \<and> t = None then Some demo_time else t) (sq + 1)) sts
         (evs @ [demo_event n (sq + 1) ''run.transitioned'' (json_object [(''status'', JStr (run_as_str nxt))])]) (Suc n))"
proof -
  have sq: "0 \<le> sq" using assms(1) by (simp add: demo_log_def)
  have "rp_status (demo_projection st u c sq) = st" by (simp add: demo_projection_def)
  moreover have "st \<noteq> nxt" using assms(2) run_life.no_self_loop by blast
  moreover have "set_run_status nxt demo_time (demo_row st u c t sq)
      = demo_row nxt u c (if nxt = Running \<and> t = None then Some demo_time else t) sq"
    using assms(3) by (simp add: set_run_status_def demo_row_def)
  ultimately show ?thesis
    using assms sq
    by (simp add: transition_run_inner_def now_rfc3339_def demo_update_run run_id_set_status
      demo_append save_idempotency_def)
qed

lemma demo_transition_stage:
  assumes "demo_log evs sq n" and "stage_can_transition s nxt" "nxt \<noteq> StRunning" and "att \<in> {0, 1, 2}"
  shows "transition_stage_inner demo ''stage_aa'' nxt None (demo_st (demo_row st u c t sq) [demo_stage s att l] evs n)
    = (Inr (demo_stage_projection nxt att None),
       demo_st (demo_row st u c t (sq + 1)) [demo_stage nxt att None]
         (evs @ [demo_event n (sq + 1) ''stage.transitioned''
            (json_object [(''stage_id'', JStr ''stage_aa''), (''state'', JStr (stage_as_str nxt))])]) (Suc n))"
proof -
  have att: "0 \<le> att" "sql_i64 (word_of_int att) = Inr att" "\<not> (2 :: u64) < word_of_int att"
    using assms(4) by (auto simp: sql_i64_def)
  have p: "sp_state (demo_stage_projection s att l) = s" "sp_run_id (demo_stage_projection s att l) = ''run_''"
    "sp_attempt (demo_stage_projection s att l) = word_of_int att" "sp_max_attempts (demo_stage_projection s att l) = 2"
    by (simp_all add: demo_stage_projection_def)
  have ne: "s \<noteq> nxt" using assms(2) stage_life.no_self_loop by blast
  have row: "set_stage_state nxt att (demo_stage s att l) = demo_stage nxt att None"
    using assms(3) by (simp add: set_stage_state_def demo_stage_def)
  show ?thesis
    using assms(1-3) att ne p
    by (simp add: transition_stage_inner_def demo_update_stage row demo_append save_idempotency_def)
qed

lemma demo_acquire:
  assumes "demo_log evs sq n" and "valid_lease_owner ow" "ttl \<noteq> 0" "unat now_ms + unat ttl < 2 ^ 64"
  shows "acquire_lease_inner demo ''stage_aa'' ow now_ms ttl None (demo_st (demo_row st u c t sq) [demo_stage StQueued 0 None] evs n)
    = (Inr (demo_stage_projection StRunning 1 (Some \<lparr>l_owner = ow, l_heartbeat_ms = now_ms, l_deadline_ms = now_ms + ttl\<rparr>)),
       demo_st (demo_row st u c t (sq + 1))
         [demo_stage StRunning 1 (Some \<lparr>l_owner = ow, l_heartbeat_ms = now_ms, l_deadline_ms = now_ms + ttl\<rparr>)]
         (evs @ [demo_event n (sq + 1) ''stage.lease_acquired'' (json_object [(''stage_id'', JStr ''stage_aa'')])]) (Suc n))"
proof -
  let ?p = "demo_stage_projection StQueued 0 None"
  have p: "sp_state ?p = StQueued" "sp_run_id ?p = ''run_''" "sp_attempt ?p = 0" "sp_max_attempts ?p = 2"
    by (simp_all add: demo_stage_projection_def)
  have row: "(demo_stage StQueued 0 None)\<lparr>s_state := ''running'', s_attempt := s_attempt (demo_stage StQueued 0 None) + 1,
      s_lease := Some (lease_text demo l)\<rparr> = demo_stage StRunning 1 (Some l)" for l
    by (simp add: demo_stage_def)
  show ?thesis
    using assms p
    by (simp add: acquire_lease_inner_def checked_add_u64_def demo_update_stage row demo_append save_idempotency_def Let_def)
qed

lemma demo_record:
  assumes "demo_log evs sq n" and "ledger_checked_add u delta demo_budget = Inr u'"
  shows "record_budget_inner demo ''run_'' delta None (demo_st (demo_row st u c t sq) sts evs n)
    = (Inr (demo_projection st u' c (sq + 1)),
       demo_st (demo_row st u' c t (sq + 1)) sts
         (evs @ [demo_event n (sq + 1) ''budget.recorded'' (json_object [(''counters'', ledger_to_json u')])]) (Suc n))"
proof -
  have sq: "0 \<le> sq" using assms(1) by (simp add: demo_log_def)
  have p: "rp_counters (demo_projection st u c sq) = u" "rp_budgets (demo_projection st u c sq) = demo_budget"
    by (simp_all add: demo_projection_def)
  have row: "(demo_row st u c t sq)\<lparr>r_counters := ledger_text demo u'\<rparr> = demo_row st u' c t sq"
    by (simp add: demo_row_def)
  show ?thesis
    using assms sq p by (simp add: record_budget_inner_def demo_update_run row demo_append save_idempotency_def)
qed

lemma demo_cleanup:
  assumes "demo_log evs sq n" and "c \<noteq> c'"
  shows "mark_cleanup_inner demo ''run_'' c' None (demo_st (demo_row st u c t sq) sts evs n)
    = (Inr (demo_projection st u c' (sq + 1)),
       demo_st (demo_row st u c' t (sq + 1)) sts
         (evs @ [demo_event n (sq + 1) ''cleanup.updated'' (json_object [(''state'', JStr (cleanup_as_str c'))])]) (Suc n))"
proof -
  have sq: "0 \<le> sq" using assms(1) by (simp add: demo_log_def)
  have p: "rp_cleanup_state (demo_projection st u c sq) = c" by (simp add: demo_projection_def)
  have row: "(demo_row st u c t sq)\<lparr>r_cleanup_state := cleanup_as_str c'\<rparr> = demo_row st u c' t sq"
    by (simp add: demo_row_def)
  show ?thesis
    using assms sq p by (simp add: mark_cleanup_inner_def demo_update_run row demo_append save_idempotency_def)
qed

section \<open>One history\<close>

definition demo_lease :: lease where
  "demo_lease = \<lparr>l_owner = ''worker-1'', l_heartbeat_ms = 1000, l_deadline_ms = 1500\<rparr>"

definition demo_used :: budget_ledger where
  "demo_used = \<lparr>wall_ms = 250, input_tokens = 10, output_tokens = 5, ledger_bytes = 64, attempts = 1\<rparr>"

text \<open>The log of a run that is created, gets a stage, runs it to the end and is cleaned up.\<close>

definition demo_history :: "event_row list" where
  "demo_history =
    [demo_event 1 1 ''run.created''
       (json_object [(''authority_id'', JStr ''auth_1''),
          (''authority_digest'', JStr (au_manifest_digest demo_authority)),
          (''mode'', JStr ''inspect''), (''snapshot_id'', JStr demo_snapshot)]),
     demo_event 3 2 ''stage.created''
       (json_object [(''stage_id'', JStr ''stage_aa''), (''kind'', JStr ''discover'')]),
     demo_event 4 3 ''run.transitioned'' (json_object [(''status'', JStr ''running'')]),
     demo_event 5 4 ''stage.transitioned''
       (json_object [(''stage_id'', JStr ''stage_aa''), (''state'', JStr ''queued'')]),
     demo_event 6 5 ''stage.lease_acquired'' (json_object [(''stage_id'', JStr ''stage_aa'')]),
     demo_event 7 6 ''stage.transitioned''
       (json_object [(''stage_id'', JStr ''stage_aa''), (''state'', JStr ''completed'')]),
     demo_event 8 7 ''budget.recorded'' (json_object [(''counters'', ledger_to_json demo_used)]),
     demo_event 9 8 ''cleanup.updated'' (json_object [(''state'', JStr ''completed'')])]"

definition demo_staged :: store where
  "demo_staged = demo_st (demo_row Created ledger_default Pending None 2) [demo_stage StCreated 0 None]
     (take 2 demo_history) 4"

definition demo_running :: store where
  "demo_running = demo_st (demo_row Running ledger_default Pending (Some demo_time) 3) [demo_stage StCreated 0 None]
     (take 3 demo_history) 5"

definition demo_queued :: store where
  "demo_queued = demo_st (demo_row Running ledger_default Pending (Some demo_time) 4) [demo_stage StQueued 0 None]
     (take 4 demo_history) 6"

definition demo_leased :: store where
  "demo_leased = demo_st (demo_row Running ledger_default Pending (Some demo_time) 5)
     [demo_stage StRunning 1 (Some demo_lease)] (take 5 demo_history) 7"

definition demo_finished :: store where
  "demo_finished = demo_st (demo_row Running ledger_default Pending (Some demo_time) 6)
     [demo_stage StCompleted 1 None] (take 6 demo_history) 8"

definition demo_accounted :: store where
  "demo_accounted = demo_st (demo_row Running demo_used Pending (Some demo_time) 7)
     [demo_stage StCompleted 1 None] (take 7 demo_history) 9"

definition demo_cleaned :: store where
  "demo_cleaned = demo_st (demo_row Running demo_used CleanupCompleted (Some demo_time) 8)
     [demo_stage StCompleted 1 None] (take 8 demo_history) 10"

lemma demo_logs:
  "demo_log (take 1 demo_history) 1 3" "demo_log (take 2 demo_history) 2 4"
  "demo_log (take 3 demo_history) 3 5" "demo_log (take 4 demo_history) 4 6" "demo_log (take 5 demo_history) 5 7"
  "demo_log (take 6 demo_history) 6 8" "demo_log (take 7 demo_history) 7 9" "demo_log (take 8 demo_history) 8 10"
proof -
  have "(''a'' = replicate k (CHR ''a'')) \<longleftrightarrow> k = 1" for k
    using replicate_eq_replicate [of 1 "CHR ''a''" k "CHR ''a''"] by auto
  then show "demo_log (take 1 demo_history) 1 3" "demo_log (take 2 demo_history) 2 4"
    "demo_log (take 3 demo_history) 3 5" "demo_log (take 4 demo_history) 4 6" "demo_log (take 5 demo_history) 5 7"
    "demo_log (take 6 demo_history) 6 8" "demo_log (take 7 demo_history) 7 9" "demo_log (take 8 demo_history) 8 10"
    by (simp_all add: demo_log_def demo_history_def demo_event_def)
qed

lemma demo_staged_op:
  "add_stage_inner demo ''run_'' ''discover'' 2 None demo_start
     = (Inr (demo_stage_projection StCreated 0 None), demo_staged)"
proof -
  have row: "insert_stage \<lparr>s_stage_id = ''stage_aa'', s_run_id = ''run_'', s_kind = ''discover'', s_state = ''created'',
      s_attempt = 0, s_max_attempts = 2, s_retryable = 1, s_lease = None\<rparr> (draw_id demo_start)
    = Inr (demo_st (demo_row Created ledger_default Pending None 1) [demo_stage StCreated 0 None] (take 1 demo_history) 3)"
    by (simp add: insert_stage_def demo_start_def draw_id_def find_stage_def)
      (simp add: demo_st_def demo_stage_def demo_history_def find_run_def demo_row_def)
  have st: "demo_start = demo_st (demo_row Created ledger_default Pending None 1) [] (take 1 demo_history) 2"
    by (simp add: demo_start_def demo_history_def)
  have id: "prefixed_id demo ''stage'' demo_start = ''stage_aa''"
    by (simp add: prefixed_id_def demo_start_def demo_st_def numeral_2_eq_2)
  have p: "rp_status (demo_projection Created u c sq) = Created" for u c sq by (simp add: demo_projection_def)
  have nm: "is_safe_name ''discover'' 64" by code_simp
  have reads: "read_run demo demo_start ''run_'' = Inr (demo_projection Created ledger_default Pending 1)"
    "require_run_action demo demo_start ''run_'' WriteState = Inr ()"
    unfolding st by simp_all
  have mx: "sql_i64 2 = Inr 2" by (simp add: sql_i64_def)
  show ?thesis
    using demo_append [OF demo_logs(1)]
    by (simp add: add_stage_inner_def nm reads p id row mx Let_def save_idempotency_def)
      (simp add: demo_staged_def demo_history_def)
qed

lemma demo_running_op:
  "transition_run_inner demo ''run_'' Running None demo_staged
     = (Inr (demo_projection Running ledger_default Pending 3), demo_running)"
  using demo_transition_run [OF demo_logs(2), of Created Running ledger_default Pending None]
  by (simp add: run_can_transition_def demo_staged_def demo_running_def demo_history_def)

lemma demo_queued_op:
  "transition_stage_inner demo ''stage_aa'' StQueued None demo_running
     = (Inr (demo_stage_projection StQueued 0 None), demo_queued)"
  using demo_transition_stage [OF demo_logs(3), of StCreated StQueued 0 Running ledger_default Pending]
  by (simp add: stage_can_transition_def demo_running_def demo_queued_def demo_history_def)

lemma demo_leased_op:
  "acquire_lease_inner demo ''stage_aa'' ''worker-1'' 1000 500 None demo_queued
     = (Inr (demo_stage_projection StRunning 1 (Some demo_lease)), demo_leased)"
proof -
  have "valid_lease_owner ''worker-1''" by code_simp
  then show ?thesis
    using demo_acquire [OF demo_logs(4), of "''worker-1''" 500 1000 Running ledger_default Pending]
    by (simp add: demo_queued_def demo_leased_def demo_history_def demo_lease_def)
qed

lemma demo_finished_op:
  "transition_stage_inner demo ''stage_aa'' StCompleted None demo_leased
     = (Inr (demo_stage_projection StCompleted 1 None), demo_finished)"
  using demo_transition_stage [OF demo_logs(5), of StRunning StCompleted 1 Running ledger_default Pending]
  by (simp add: stage_can_transition_def demo_leased_def demo_finished_def demo_history_def)

lemma demo_accounted_op:
  "record_budget_inner demo ''run_'' demo_used None demo_finished
     = (Inr (demo_projection Running demo_used Pending 7), demo_accounted)"
proof -
  have "ledger_checked_add ledger_default demo_used demo_budget = Inr demo_used"
    by (simp add: ledger_checked_add_Inr ledger_sum_def ledger_le_iff ledger_default_def demo_used_def demo_budget_def)
  then show ?thesis
    using demo_record [OF demo_logs(6), of ledger_default demo_used demo_used Running Pending]
    by (simp add: demo_finished_def demo_accounted_def demo_history_def)
qed

lemma demo_cleaned_op:
  "mark_cleanup_inner demo ''run_'' CleanupCompleted None demo_accounted
     = (Inr (demo_projection Running demo_used CleanupCompleted 8), demo_cleaned)"
  using demo_cleanup [OF demo_logs(7), of Pending CleanupCompleted Running demo_used]
  by (simp add: demo_accounted_def demo_cleaned_def demo_history_def)

lemma demo_call: "reachable demo d \<Longrightarrow> exec_op demo opn idem d = d' \<Longrightarrow> reachable demo d'"
  using reachable.step [OF _ core_step.call [of demo d 0 "Some demo_time" opn idem]] by (simp add: demo_now)

lemma demo_reachable:
  "reachable demo demo_start" "reachable demo demo_staged" "reachable demo demo_running"
  "reachable demo demo_queued" "reachable demo demo_leased" "reachable demo demo_finished"
  "reachable demo demo_accounted" "reachable demo demo_cleaned"
proof -
  show 1: "reachable demo demo_start"
    by (rule demo_call [OF reachable.start, of "CreateRun demo_authority demo_budget" None]) (simp add: demo_create)
  show 2: "reachable demo demo_staged"
    by (rule demo_call [OF 1, of "AddStage ''run_'' ''discover'' 2" None]) (simp add: demo_staged_op)
  show 3: "reachable demo demo_running"
    by (rule demo_call [OF 2, of "TransitionRun ''run_'' Running" None]) (simp add: demo_running_op)
  show 4: "reachable demo demo_queued"
    by (rule demo_call [OF 3, of "TransitionStage ''stage_aa'' StQueued" None]) (simp add: demo_queued_op)
  show 5: "reachable demo demo_leased"
    by (rule demo_call [OF 4, of "AcquireLease ''stage_aa'' ''worker-1'' 1000 500" None]) (simp add: demo_leased_op)
  show 6: "reachable demo demo_finished"
    by (rule demo_call [OF 5, of "TransitionStage ''stage_aa'' StCompleted" None]) (simp add: demo_finished_op)
  show 7: "reachable demo demo_accounted"
    by (rule demo_call [OF 6, of "RecordBudget ''run_'' demo_used" None]) (simp add: demo_accounted_op)
  show "reachable demo demo_cleaned"
    by (rule demo_call [OF 7, of "MarkCleanup ''run_'' CleanupCompleted" None]) (simp add: demo_cleaned_op)
qed

section \<open>A cancellation\<close>

definition demo_revoked :: json where
  "demo_revoked = (case contract_value demo_authority of JObj ob \<Rightarrow> JObj (obj_insert ''revoked'' (JBool True) ob) | v \<Rightarrow> v)"

definition demo_cancelled_row :: "int \<Rightarrow> run_row" where
  "demo_cancelled_row sq = (demo_row Cancelling ledger_default Pending None sq)\<lparr>r_authority_contract := Some (enc demo_revoked)\<rparr>"

definition demo_cancelling :: store where
  "demo_cancelling = demo_st (demo_cancelled_row 3) [demo_stage StCancelled 0 None]
     (take 2 demo_history @ [demo_event 4 3 ''run.cancelling'' (json_object [])]) 5"

lemma demo_revoke:
  "revoke_run_authority demo (demo_st (demo_row st u c t sq) sts evs n) ''run_''
     = Inr (demo_st ((demo_row st u c t sq)\<lparr>r_authority_contract := Some (enc demo_revoked)\<rparr>) sts evs n)"
proof -
  have contract: "r_authority_contract (demo_row st u c t sq) = Some (enc (contract_value demo_authority))"
    by (simp add: demo_row_def demo_contract_def)
  have revoked: "set_revoked (contract_value demo_authority) = Inr demo_revoked"
    by (simp add: set_revoked_def demo_revoked_def contract_value_def json_object_def)
  then have "ijson demo_revoked" using set_revoked_Inr ijson_demo_contract by blast
  then have "canonical_text demo demo_revoked = Inr (enc demo_revoked)"
    by (simp add: canonical_text_Inr demo_canonical demo_utf8)
  then show ?thesis
    by (simp add: revoke_run_authority_def contract demo_parse [OF ijson_demo_contract length_demo_contract]
      revoked demo_update_run)
qed

lemma demo_cancel_op:
  "request_cancel_inner demo ''run_'' None demo_staged
     = (Inr (demo_projection Cancelling ledger_default Pending 3), demo_cancelling)"
proof -
  let ?row = "(demo_row Created ledger_default Pending None 2)\<lparr>r_authority_contract := Some (enc demo_revoked)\<rparr>"
  let ?tx = "update_run ''run_'' (\<lambda>r. r\<lparr>r_status := ''cancelling''\<rparr>)
     (update_stages (\<lambda>s. s_run_id s = ''run_'' \<and> s_state s \<notin> set settled_stage_texts)
        (\<lambda>s. s\<lparr>s_state := (if s_state s = ''running'' then ''cancelling'' else ''cancelled'')\<rparr>)
        (demo_st ?row [demo_stage StCreated 0 None] (take 2 demo_history) 4))"
  have st: "rp_status (demo_projection Created ledger_default Pending 2) = Created" by (simp add: demo_projection_def)
  have stages: "?tx = demo_st (demo_cancelled_row 2) [demo_stage StCancelled 0 None] (take 2 demo_history) 4"
    by (simp add: demo_st_def update_run_def update_stages_def demo_cancelled_row_def settled_stage_texts_def)
      (simp add: demo_row_def demo_stage_def)
  have row: "r_run_id (demo_cancelled_row 2) = ''run_''" "r_last_sequence (demo_cancelled_row 2) = 2"
    "(demo_cancelled_row 2)\<lparr>r_last_sequence := 3\<rparr> = demo_cancelled_row 3"
    by (simp_all add: demo_cancelled_row_def demo_row_def)
  have tx: "append_event demo ''run_'' ''run.cancelling'' (json_object []) [] ?tx = Inr demo_cancelling"
    using demo_append_row [OF demo_logs(2) row(1,2)] by (simp add: stages demo_cancelling_def row(3))
  have rd: "read_run demo demo_cancelling ''run_'' = Inr (demo_projection Cancelling ledger_default Pending 3)"
  proof -
    have "project_run demo (demo_cancelled_row 3) = project_run demo (demo_row Cancelling ledger_default Pending None 3)"
      by (simp add: demo_cancelled_row_def)
    moreover have "find_run demo_cancelling ''run_'' = Some (demo_cancelled_row 3)"
      by (simp add: find_run_def demo_cancelling_def demo_st_def demo_cancelled_row_def demo_row_def)
    ultimately show ?thesis
      using demo_read_run [of 3 Cancelling ledger_default Pending None "[]" "[]" 0]
      by (simp add: read_run_def)
  qed
  show ?thesis
    unfolding request_cancel_inner_def demo_staged_def
    using st tx rd by (simp add: demo_revoke save_idempotency_def)
qed

section \<open>A receipt\<close>

abbreviation demo_manifest_of :: "string \<Rightarrow> json" where
  "demo_manifest_of receipt \<equiv>
     receipt_manifest (demo_projection Running demo_used CleanupCompleted 8) [] Completed demo_time receipt"

definition demo_receipt :: string where
  "demo_receipt = (case receipt_id demo (demo_manifest_of []) of Inr receipt \<Rightarrow> receipt | Inl e \<Rightarrow> [])"

lemma demo_receipt_contract: "validate_contract demo (demo_manifest_of receipt) = Inr ()"
  by (simp add: validate_contract_def receipt_manifest_def json_object_def ENTITY_DEFINITIONS_def)

lemma demo_receipt_id: "receipt_id demo (demo_manifest_of []) = Inr demo_receipt"
proof -
  obtain ob where m: "demo_manifest_of [] = JObj ob" and ob: "ijson (JObj (obj_remove ''receipt_id'' ob))"
  proof
    show "demo_manifest_of [] = JObj (the (as_object (demo_manifest_of [])))"
      by (simp add: receipt_manifest_def json_object_def)
    show "ijson (JObj (obj_remove ''receipt_id'' (the (as_object (demo_manifest_of [])))))"
      by (simp add: receipt_manifest_def json_object_def obj_remove_def demo_projection_def demo_used_def MAX_SAFE_INT_def)
  qed
  have "\<exists>c. digest_json demo (JObj (obj_remove ''receipt_id'' ob)) ''receipt_manifest''
              (SCHEMA_BASE @ ''receipt.schema.json'') = Inr c"
    by (simp add: digest_json_def purpose_byte_def byte_class_defs less_eq_char_def ENTITY_DEFINITIONS_def
      demo_canonical [OF ob])
  then have "\<exists>r. receipt_id demo (demo_manifest_of []) = Inr r"
    unfolding receipt_id_def m by auto
  then show ?thesis by (auto simp: demo_receipt_def)
qed

definition demo_completed :: store where
  "demo_completed = demo_st
     ((demo_row Running demo_used CleanupCompleted (Some demo_time) 9)
        \<lparr>r_status := ''completed'', r_terminal_at := Some demo_time, r_receipt_id := Some demo_receipt\<rparr>)
     [demo_stage StCompleted 1 None]
     (take 8 demo_history @ [demo_event 10 9 ''receipt.completed''
        (json_object [(''receipt_id'', JStr demo_receipt), (''status'', JStr ''completed'')])]) 11"

lemma demo_completed_op:
  "complete_run_inner demo ''run_'' Completed None demo_cleaned
     = (Inr ((demo_projection Completed demo_used CleanupCompleted 9)\<lparr>rp_receipt_id := Some demo_receipt\<rparr>), demo_completed)"
proof -
  let ?run = "demo_projection Running demo_used CleanupCompleted 8"
  have reads: "read_run demo demo_cleaned ''run_'' = Inr ?run"
    "require_run_action demo demo_cleaned ''run_'' WriteState = Inr ()"
    "read_stage demo demo_cleaned ''stage_aa'' = Inr (demo_stage_projection StCompleted 1 None)"
    unfolding demo_cleaned_def by simp_all
  have stages: "read_stages demo demo_cleaned ''run_'' = Inr [demo_stage_projection StCompleted 1 None]"
    using reads(3) by (simp add: read_stages_def demo_cleaned_def demo_st_def demo_stage_def)
  have arts: "artifacts_for_run demo demo_cleaned ''run_'' = Inr []"
    by (simp add: artifacts_for_run_def reads(1)) (simp add: demo_cleaned_def demo_st_def)
  have gate: "receipt_gate ?run [demo_stage_projection StCompleted 1 None]"
    by (simp add: receipt_gate_def demo_projection_def demo_stage_projection_def demo_used_def)
  have p: "rp_status ?run = Running" "rp_receipt_id ?run = None" by (simp_all add: demo_projection_def)
  let ?row = "(demo_row Running demo_used CleanupCompleted (Some demo_time) 8)
     \<lparr>r_status := ''completed'', r_terminal_at := Some demo_time, r_receipt_id := Some demo_receipt\<rparr>"
  have row: "r_run_id ?row = ''run_''" "r_last_sequence ?row = 8"
    "?row\<lparr>r_last_sequence := 9\<rparr> = (demo_row Running demo_used CleanupCompleted (Some demo_time) 9)
     \<lparr>r_status := ''completed'', r_terminal_at := Some demo_time, r_receipt_id := Some demo_receipt\<rparr>"
    by (simp_all add: demo_row_def)
  have tx: "append_event demo ''run_'' ''receipt.completed''
       (json_object [(''receipt_id'', JStr demo_receipt), (''status'', JStr ''completed'')]) []
       (update_run ''run_'' (\<lambda>r. r\<lparr>r_status := ''completed'', r_terminal_at := Some demo_time,
          r_receipt_id := Some demo_receipt\<rparr>) demo_cleaned) = Inr demo_completed"
    using demo_append_row [OF demo_logs(8) row(1,2)]
    by (simp add: demo_cleaned_def demo_update_run demo_completed_def row(3))
  have rd: "read_run demo demo_completed ''run_''
     = Inr ((demo_projection Completed demo_used CleanupCompleted 9)\<lparr>rp_receipt_id := Some demo_receipt\<rparr>)"
    by (simp add: read_run_def find_run_def demo_completed_def demo_st_def project_run_def)
      (simp add: demo_row_def demo_snapshot_valid sql_bool_def demo_digest_valid parse_mode_def sql_u64_def
        demo_projection_def codec_ledger [OF demo_text_codec] run_parse_def parse_cleanup_def)
  show ?thesis
    unfolding complete_run_inner_def
    by (simp add: receipt_statuses_def reads stages arts gate p run_can_transition_def now_rfc3339_def
      demo_receipt_id demo_receipt_contract tx rd save_idempotency_def)
qed

lemma demo_completed_reachable: "reachable demo demo_completed"
  by (rule demo_call [OF demo_reachable(8), of "CompleteRun ''run_'' Completed" None]) (simp add: demo_completed_op)

end
