(* ===== verification/Core_Theorems.thy ===== *)
theory Core_Theorems
  imports Core_Events Demo
begin

text \<open>
  The properties of the trusted core that span its operations, stated over \<open>reachable\<close>
  stores and over single calls, each with a witness in the world of \<open>Demo\<close>. The proofs
  apply the invariants and outcome lemmas of the component theories.
\<close>

section \<open>Invariants of every reachable store\<close>

text \<open>C1 (event log). In every store that the operations can produce, the events of a run are
  numbered 1, 2, ..., \<open>last_sequence\<close> in the order in which they were appended, without gap or
  repetition, event identifiers are unique, and every event belongs to a run.\<close>

theorem event_log_gapless:
  assumes "reachable E d" and "r \<in> set (t_runs d)"
  shows "map e_sequence (filter (\<lambda>e. e_run_id e = r_run_id r) (t_events d)) = [1..r_last_sequence r]
    \<and> distinct (map e_event_id (t_events d))
    \<and> (\<forall>e\<in>set (t_events d). e_run_id e \<in> r_run_id ` set (t_runs d))"
proof -
  from assms(1) have "log_ok d" by (rule event_log.reachable)
  from log_okD(2,3,5) [OF this] assms(2) show ?thesis
    by (simp add: run_events_def run_ids_def)
qed

theorem event_log_gapless_witness:
  "map e_sequence (filter (\<lambda>e. e_run_id e = ''run_'') (t_events demo_cleaned)) = [1..8]"
proof -
  let ?r = "demo_row Running demo_used CleanupCompleted (Some demo_time) 8"
  have "?r \<in> set (t_runs demo_cleaned)" and id: "r_run_id ?r = ''run_''" "r_last_sequence ?r = 8"
    by (simp_all add: demo_cleaned_def demo_st_def demo_row_def)
  from event_log_gapless [OF demo_reachable(8) this(1)] show ?thesis unfolding id by blast
qed

text \<open>C5 (runs are well typed). When \<open>serde_json\<close> reads back the ledgers it wrote, every run row
  of a reachable store is read back by \<open>CoreStore::run\<close>, with the status its column names, and its
  counters never exceed its budgets in any of the five dimensions.\<close>

theorem runs_within_budget:
  assumes "text_codec E" and "reachable E d" and "r \<in> set (t_runs d)"
  shows "\<exists>p. read_run E d (r_run_id r) = Inr p \<and> r_status r = run_as_str (rp_status p)
    \<and> wall_ms (rp_counters p) \<le> wall_ms (rp_budgets p)
    \<and> input_tokens (rp_counters p) \<le> input_tokens (rp_budgets p)
    \<and> output_tokens (rp_counters p) \<le> output_tokens (rp_budgets p)
    \<and> ledger_bytes (rp_counters p) \<le> ledger_bytes (rp_budgets p)
    \<and> attempts (rp_counters p) \<le> attempts (rp_budgets p)"
proof -
  from assms have d: "store_typed E d" using typed_rows.reachable by blast
  with assms(3) have r: "typed_run E r" "find_run d (r_run_id r) = Some r"
    using store_typedD(1,3) find_run_row by blast+
  then have "is_ok (validate_entity_id E (r_run_id r) ''run'')" by (simp add: typed_run_def)
  with typed_run_project [OF assms(1) r(1)] r(2) show ?thesis
    by (auto simp: read_run_def is_ok_iff ledger_le_iff)
qed

theorem runs_within_budget_witness:
  "\<exists>p. read_run demo demo_cleaned ''run_'' = Inr p \<and> attempts (rp_counters p) \<le> attempts (rp_budgets p)"
  using runs_within_budget [OF demo_text_codec demo_reachable(8),
    of "demo_row Running demo_used CleanupCompleted (Some demo_time) 8"]
  by (auto simp: demo_cleaned_def demo_st_def demo_row_def)

text \<open>Stages are well typed: Every stage row of a reachable store is read back by
  \<open>CoreStore::stage\<close> with the run it was created for, and it has never used more attempts than
  its maximum.\<close>

lemma stages_within_attempts:
  assumes "text_codec E" and "reachable E d" and "s \<in> set (t_stages d)"
  shows "\<exists>p. read_stage E d (s_stage_id s) = Inr p \<and> sp_run_id p = s_run_id s
    \<and> s_state s = stage_as_str (sp_state p) \<and> sp_attempt p \<le> sp_max_attempts p"
proof -
  from assms have d: "store_typed E d" using typed_rows.reachable by blast
  with assms(3) have s: "typed_stage E s" "find_stage d (s_stage_id s) = Some s"
    using store_typedD(2,4) find_stage_row by blast+
  then have "is_ok (validate_entity_id E (s_stage_id s) ''stage'')" "s_attempt s \<le> s_max_attempts s"
    by (simp_all add: typed_stage_def)
  with typed_stage_project [OF assms(1) s(1)] s(2) show ?thesis
    by (auto simp: read_stage_def is_ok_iff word_le_def)
qed

section \<open>Errors, replays and history\<close>



text \<open>Create once: A run created under an idempotency key is created once: after any later
  operations, the same request under that key, even with another authority or other budgets in the
  call, creates nothing and answers with the run that the first request created.\<close>

lemma create_run_once_only:
  assumes "create_run_inner (at_time E t x) a b (Some q) d = (Inr p, d1)" and "(core_step E)\<^sup>*\<^sup>* d1 d2"
  shows "create_run_inner (at_time E t' x') a' b' (Some q) d2 = (read_run E d2 (rp_run_id p), d2)"
  using assms by (rule create_run_once)

text \<open>Keys are not reused: Under the same recorded key a request with a different digest is
  refused with \<open>idempotency_conflict\<close>, at any later time, and writes nothing.\<close>

lemma create_run_key_conflict:
  assumes "create_run_inner (at_time E t x) a b (Some q) d = (Inr p, d1)" and "(core_step E)\<^sup>*\<^sup>* d1 d2"
    and "q_operation q' = q_operation q" "q_key q' = q_key q" "q_digest q' \<noteq> q_digest q"
  shows "create_run_inner (at_time E t' x') a' b' (Some q') d2
    = (Inl (safe_error ''idempotency_conflict''), d2)"
proof -
  have "recorded q (rp_run_id p) d2"
    using recorded_kept.steps_keep [OF assms(2) create_run_recorded [OF assms(1)]] .
  with assms(3-5) show ?thesis
    unfolding create_run_inner_def by (intro with_replay_conflict)
qed

text \<open>Append-only: Whatever operations run, the events and the idempotency records that exist stay,
  in order, and a run that exists stays with the snapshot, mode, authority, budgets and creation time
  it was created with.\<close>

lemma history_append_only:
  assumes "(core_step E)\<^sup>*\<^sup>* d d'"
  shows "(\<exists>new. t_events d' = t_events d @ new) \<and> (\<exists>new. t_idempotency d' = t_idempotency d @ new)
    \<and> (find_run d rid = Some r \<longrightarrow> (\<exists>r'. find_run d' rid = Some r' \<and> same_identity r r'))"
proof -
  have "prefix (t_events d) (t_events d')"
    using events_kept.steps_keep [OF assms] by blast
  moreover have "prefix (t_idempotency d) (t_idempotency d')"
    using keys_kept.steps_keep [OF assms] by blast
  moreover have "\<exists>r'. find_run d' rid = Some r' \<and> same_identity r r'" if "find_run d rid = Some r"
    by (rule identity_kept.steps_keep [OF assms]) (simp add: that same_identity_def)
  ultimately show ?thesis by (simp add: prefix_def)
qed

section \<open>Receipts\<close>

text \<open>C4 (receipt gate). \<open>complete_run\<close> succeeds only with a receipt status and write authority, and a
  receipt is issued only from a status that may become the final one, with at least one stage, every
  stage terminal, cleanup settled, an attempt accounted, and every artifact of the run complete and
  not quarantined; the receipt is the digest of the manifest, which validates against its contract.\<close>

theorem receipt_gate_holds:
  assumes "complete_run_inner E rid status None d = (Inr p, d')" and "read_run E d rid = Inr run"
    and "rp_receipt_id run = None"
  shows "status \<in> receipt_statuses \<and> require_run_action E d rid WriteState = Inr ()
    \<and> run_can_transition (rp_status run) status
    \<and> rp_status p = status \<and> rp_receipt_id p \<noteq> None
    \<and> rp_cleanup_state run \<in> {CleanupCompleted, NotRequired} \<and> attempts (rp_counters run) \<noteq> 0
    \<and> (\<exists>stages. read_stages E d rid = Inr stages \<and> stages \<noteq> [] \<and> (\<forall>s\<in>set stages. stage_is_terminal (sp_state s)))
    \<and> (\<exists>arts stamp. artifacts_for_run E d rid = Inr arts
          \<and> (\<forall>a\<in>set arts. ar_complete a \<and> \<not> ar_quarantined a)
          \<and> map_option Inr (rp_receipt_id p) = Some (receipt_id E (receipt_manifest run arts status stamp []))
          \<and> validate_contract E (receipt_manifest run arts status stamp (the (rp_receipt_id p))) = Inr ())"
proof -
  from complete_run_gated [OF assms(1,2)] assms(3)
  have gate: "status \<in> receipt_statuses" "require_run_action E d rid WriteState = Inr ()"
    and issued: "receipt_issued E d rid status run p" by auto
  from issued obtain stages arts stamp receipt where
    i: "run_can_transition (rp_status run) status" "read_stages E d rid = Inr stages" "receipt_gate run stages"
      "artifacts_for_run E d rid = Inr arts" "\<forall>a\<in>set arts. ar_complete a \<and> \<not> ar_quarantined a"
      "receipt_id E (receipt_manifest run arts status stamp []) = Inr receipt"
      "validate_contract E (receipt_manifest run arts status stamp receipt) = Inr ()"
      "rp_status p = status" "rp_receipt_id p = Some receipt"
    unfolding receipt_issued_def by blast
  have "map_option Inr (rp_receipt_id p) = Some (receipt_id E (receipt_manifest run arts status stamp []))"
    and "validate_contract E (receipt_manifest run arts status stamp (the (rp_receipt_id p))) = Inr ()"
    using i by simp_all
  with gate i show ?thesis
    unfolding receipt_gate_def list_all_iff by blast
qed

theorem receipt_gate_holds_witness:
  "\<exists>p. fst (complete_run_inner demo ''run_'' Completed None demo_cleaned) = Inr p \<and> rp_receipt_id p \<noteq> None
     \<and> (\<exists>stages. read_stages demo demo_cleaned ''run_'' = Inr stages \<and> stages \<noteq> [])"
proof -
  have run: "read_run demo demo_cleaned ''run_'' = Inr (demo_projection Running demo_used CleanupCompleted 8)"
    by (simp add: demo_cleaned_def)
  have "rp_receipt_id (demo_projection Running demo_used CleanupCompleted 8) = None"
    by (simp add: demo_projection_def)
  from receipt_gate_holds [OF demo_completed_op run this] show ?thesis
    unfolding demo_completed_op fst_conv by (elim conjE exE) blast
qed

text \<open>Receipts are final: Once a run of a reachable store carries a receipt, no sequence of
  operations changes that receipt or the status it was completed with.\<close>

lemma receipt_is_final:
  assumes "text_codec E" and "reachable E d" and "find_run d rid = Some r" "r_receipt_id r = Some receipt"
    and "(core_step E)\<^sup>*\<^sup>* d d'"
  shows "\<exists>r'. find_run d' rid = Some r' \<and> r_receipt_id r' = Some receipt \<and> r_status r' = r_status r
    \<and> (\<exists>s\<in>receipt_statuses. r_status r = run_as_str s)"
proof -
  have d: "store_typed E d" using typed_rows.reachable [OF assms(2)] assms(1) by blast
  have "typed_run E r" using store_typedD(3) [OF d] find_run_in [OF assms(3)] by blast
  then obtain s where s: "r_status r = run_as_str s" "s \<in> receipt_statuses"
    using assms(4) unfolding typed_run_def by auto
  then have "receipted E rid receipt s d"
    using assms(1,3,4) d by (simp add: receipted_def)
  from receipt_kept.steps_keep [OF assms(5) this] s show ?thesis
    unfolding receipted_def by auto
qed

section \<open>Cancellation\<close>

text \<open>C3 (cancellation is final). When \<open>request_cancel\<close>, called without an idempotency key, has
  succeeded on a run of a reachable store whose status was neither \<open>cancelling\<close> nor \<open>cancelled\<close>, then
  whatever operations follow at whatever instants, the run is \<open>cancelling\<close> or \<open>cancelled\<close>, never gets
  a receipt, never spends budget, and its authority never again admits a write. The hypotheses
  \<open>text_codec\<close> and \<open>json_laws\<close> state what is used of the JSON library. On a run that is already
  \<open>cancelling\<close> the call answers without revoking anything, so nothing is claimed there.\<close>

theorem cancellation_is_final:
  assumes codec: "text_codec E" and law: "json_laws E" and d: "reachable E d"
    and run: "read_run E d rid = Inr run" "rp_status run \<noteq> Cancelling" "rp_status run \<noteq> Cancelled"
    and ok: "request_cancel_inner (at_time E t x) rid None d = (Inr p, d1)"
    and steps: "(core_step E)\<^sup>*\<^sup>* d1 d2"
  shows "\<exists>q. read_run E d2 rid = Inr q \<and> rp_status q \<in> {Cancelling, Cancelled} \<and> rp_receipt_id q = None
    \<and> rp_counters q = rp_counters run
    \<and> require_run_action (at_time E t' x') d2 rid WriteState \<noteq> Inr ()"
proof -
  have typed: "store_typed E d" using typed_rows.reachable [OF d] codec by blast
  have "frozen E rid (ledger_text E (rp_counters run)) d1"
    by (rule request_cancel_freezes(1) [OF codec law typed run ok])
  then have f: "frozen E rid (ledger_text E (rp_counters run)) d2" by (rule frozen_kept.steps_keep [OF steps])
  then obtain r where r: "find_run d2 rid = Some r" "r_receipt_id r = None"
      "r_counters r = ledger_text E (rp_counters run)" "r_status r \<in> {''cancelling'', ''cancelled''}"
      "dead_contract E (r_authority_contract r)" and typed2: "store_typed E d2"
    unfolding frozen_def by blast
  have "\<not> may_write E d2 rid" by (rule dead_contract_no_write [OF r(5,1)])
  then have dead: "require_run_action (at_time E t' x') d2 rid WriteState \<noteq> Inr ()" by (auto simp: may_write_def)
  have tr: "typed_run E r" using store_typedD(3) [OF typed2] find_run_in [OF r(1)] by blast
  have "is_ok (validate_entity_id E rid ''run'')" using read_run_valid [OF run(1)] .
  with typed_run_project [OF codec tr] r(1) obtain q where q: "read_run E d2 rid = Inr q"
      "run_as_str (rp_status q) = r_status r" "ledger_text E (rp_counters q) = r_counters r" "rp_receipt_id q = r_receipt_id r"
    by (auto simp: read_run_def is_ok_iff)
  have "rp_counters q = rp_counters run"
    using q(3) r(3) codec_ledger [OF codec] by (metis sum.inject(2))
  moreover have "rp_status q \<in> {Cancelling, Cancelled}"
    using r(4) unfolding q(2) [symmetric] by (cases "rp_status q") simp_all
  ultimately show ?thesis using q(1,4) r(2) dead by auto
qed

theorem cancellation_is_final_witness:
  "\<exists>q. read_run demo (exec_op demo (RecordBudget ''run_'' demo_used) None demo_cancelling) ''run_'' = Inr q
     \<and> rp_status q \<in> {Cancelling, Cancelled} \<and> rp_counters q = ledger_default"
proof -
  let ?p = "demo_projection Created ledger_default Pending 2"
  have run: "read_run demo demo_staged ''run_'' = Inr ?p" by (simp add: demo_staged_def)
  have p: "rp_status ?p \<noteq> Cancelling" "rp_status ?p \<noteq> Cancelled" "rp_counters ?p = ledger_default"
    by (simp_all add: demo_projection_def)
  have ok: "request_cancel_inner (at_time demo 0 (Some demo_time)) ''run_'' None demo_staged
      = (Inr (demo_projection Cancelling ledger_default Pending 3), demo_cancelling)"
    by (simp only: demo_now demo_cancel_op)
  have "(core_step demo)\<^sup>*\<^sup>* demo_cancelling
      (exec_op (at_time demo 0 (Some demo_time)) (RecordBudget ''run_'' demo_used) None demo_cancelling)"
    by (intro r_into_rtranclp core_step.call)
  then have steps: "(core_step demo)\<^sup>*\<^sup>* demo_cancelling (exec_op demo (RecordBudget ''run_'' demo_used) None demo_cancelling)"
    by (simp only: demo_now)
  from cancellation_is_final [OF demo_text_codec demo_json_laws demo_reachable(2) run p(1,2) ok steps] p(3)
  show ?thesis by auto
qed

text \<open>C6 (cancellation completes). From the store that a \<open>request_cancel\<close> without a key leaves, when it
  has succeeded on a run of a reachable store that was neither \<open>cancelling\<close> nor \<open>cancelled\<close>, marking
  the cleanup and confirming with verified worker absence, the next two calls, bring the run to
  \<open>cancelled\<close>, although its authority is revoked: neither call can fail, given a clock that formats at
  both instants, event identifiers not yet used, room for two more events in the run, and the JSON
  laws (\<open>text_codec\<close>, \<open>json_laws\<close>).\<close>

theorem cancellation_completes:
  assumes "text_codec E" and "json_laws E" and "reachable E d"
    and "read_run E d rid = Inr run" "rp_status run \<noteq> Cancelling" "rp_status run \<noteq> Cancelled"
    and "request_cancel_inner (at_time E t x) rid None d = (Inr p, d1)"
    and "ids_fresh E d1" and "\<And>r. find_run d1 rid = Some r \<Longrightarrow> r_last_sequence r + 2 < 2 ^ 63"
  shows "\<exists>p2 d2 p3 d3. mark_cleanup_inner (at_time E t2 (Some x2)) rid CleanupCompleted None d1 = (Inr p2, d2)
    \<and> confirm_cancelled_inner (at_time E t3 (Some x3)) rid True None d2 = (Inr p3, d3)
    \<and> rp_status p3 = Cancelled"
  using assms by (rule cancel_completes)

theorem cancellation_completes_witness:
  "\<exists>p2 d2 p3 d3. mark_cleanup_inner (at_time demo 5 (Some ''later'')) ''run_'' CleanupCompleted None demo_cancelling = (Inr p2, d2)
    \<and> confirm_cancelled_inner (at_time demo 6 (Some ''later'')) ''run_'' True None d2 = (Inr p3, d3)
    \<and> rp_status p3 = Cancelled"
proof -
  let ?p = "demo_projection Created ledger_default Pending 2"
  have run: "read_run demo demo_staged ''run_'' = Inr ?p" by (simp add: demo_staged_def)
  have p: "rp_status ?p \<noteq> Cancelling" "rp_status ?p \<noteq> Cancelled"
    by (simp_all add: demo_projection_def)
  have ok: "request_cancel_inner (at_time demo 0 (Some demo_time)) ''run_'' None demo_staged
      = (Inr (demo_projection Cancelling ledger_default Pending 3), demo_cancelling)"
    by (simp only: demo_now demo_cancel_op)
  show ?thesis
  proof (rule cancellation_completes [OF demo_text_codec demo_json_laws demo_reachable(2) run p ok])
    show "ids_fresh demo demo_cancelling"
    proof -
      have "''evt_'' @ replicate n (CHR ''a'') \<noteq> ''evt_'' @ replicate m (CHR ''a'')" if "m < n" for m n :: nat
        using that by simp
      then have "\<forall>n\<ge>5. ''evt_'' @ replicate n (CHR ''a'') \<notin> e_event_id ` set (t_events demo_cancelling)"
        by (simp add: demo_cancelling_def demo_st_def demo_history_def) (auto simp: demo_event_def dest: arg_cong [where f = length])
      moreover have "inj (uuid_v7 demo)" by (auto intro: injI)
      moreover have "t_issued demo_cancelling = 5" by (simp add: demo_cancelling_def demo_st_def)
      ultimately show ?thesis by (simp add: ids_fresh_def)
    qed
    show "r_last_sequence r + 2 < 2 ^ 63" if "find_run demo_cancelling ''run_'' = Some r" for r
      using that by (auto simp: find_run_def demo_cancelling_def demo_st_def demo_cancelled_row_def demo_row_def)
  qed
qed

section \<open>Leases\<close>

text \<open>C7 (a lease excludes). While the lease of a running stage is live, \<open>acquire_lease\<close> by any other
  owner, at any instant and for any duration, fails and changes nothing; with write authority the
  error is \<open>lease_conflict\<close>.\<close>

theorem live_lease_excludes:
  assumes "read_stage E d sid = Inr s" "sp_state s = StRunning"
    and "live_lease s now_ms = Some l" "l_owner l \<noteq> ow" and "replay_idempotency d idem = Inr None"
  shows "\<exists>e. acquire_lease_inner (at_time E t x) sid ow now_ms ttl idem d = (Inl e, d)
    \<and> (require_run_action (at_time E t x) d (sp_run_id s) WriteState = Inr ()
         \<longrightarrow> e = safe_error ''lease_conflict'')"
  using assms by (rule acquire_lease_excluded)

theorem live_lease_excludes_witness:
  "\<exists>e. acquire_lease_inner demo ''stage_aa'' ''worker-2'' 1200 500 None demo_leased = (Inl e, demo_leased)"
proof -
  let ?s = "demo_stage_projection StRunning 1 (Some demo_lease)"
  have "read_stage demo demo_leased ''stage_aa'' = Inr ?s" by (simp add: demo_leased_def)
  moreover have "sp_state ?s = StRunning" "live_lease ?s 1200 = Some demo_lease" "l_owner demo_lease \<noteq> ''worker-2''"
    by (simp_all add: demo_stage_projection_def live_lease_def demo_lease_def)
  moreover have "replay_idempotency demo_leased None = Inr None" by (simp add: replay_idempotency_def)
  ultimately have "\<exists>e. acquire_lease_inner (at_time demo 0 (Some demo_time)) ''stage_aa'' ''worker-2'' 1200 500 None demo_leased
      = (Inl e, demo_leased)"
    using live_lease_excludes [of demo demo_leased "''stage_aa''" ?s 1200 demo_lease "''worker-2''" None 0 "Some demo_time" 500]
    by blast
  then show ?thesis by (simp only: demo_now)
qed

text \<open>A granted lease: When \<open>acquire_lease\<close> answers, either the caller already held the live lease
  and nothing changed, or the stage was queued or its lease had run out, and now it is running with one
  more attempt, within its maximum, leased to the caller until exactly \<open>now_ms + ttl_ms\<close>, a sum
  that does not wrap.\<close>

lemma lease_granted:
  assumes "text_codec E" and "read_stage E d sid = Inr s"
    and "acquire_lease_inner (at_time E t x) sid ow now_ms ttl None d = (Inr p, d')"
  shows "(sp_state s = StRunning \<and> (\<exists>l. live_lease s now_ms = Some l \<and> l_owner l = ow) \<and> p = s \<and> d' = d)
    \<or> ((sp_state s = StQueued \<or> sp_state s = StRunning \<and> live_lease s now_ms = None)
       \<and> sp_state p = StRunning
       \<and> sp_lease p = Some \<lparr>l_owner = ow, l_heartbeat_ms = now_ms, l_deadline_ms = now_ms + ttl\<rparr>
       \<and> unat (now_ms + ttl) = unat now_ms + unat ttl
       \<and> unat (sp_attempt p) = unat (sp_attempt s) + 1 \<and> sp_attempt p \<le> sp_max_attempts s)"
  using acquire_lease_granted [OF assms] unfolding lease_taken_def by blast

text \<open>Recovery is exact: \<open>recover_expired_leases\<close> runs only when worker absence is verified; it
  interrupts and unleases every running stage whose lease deadline has passed, touches no other stage,
  and counts exactly the stages it interrupted.\<close>

lemma recovery_exact:
  assumes "text_codec E" and "reachable E d" and "recover_expired_leases (at_time E t x) now_ms verified d = (Inr k, d')"
  shows "verified
    \<and> t_stages d' = map (\<lambda>s. if expired E now_ms s then s\<lparr>s_state := ''interrupted'', s_lease := None\<rparr> else s) (t_stages d)
    \<and> k = length (filter (expired E now_ms) (t_stages d))"
proof -
  have "distinct (stage_ids d)"
    using store_typedD(2) typed_rows.reachable [OF assms(2)] assms(1) by blast
  moreover have "expired (at_time E t x) now_ms = expired E now_ms" by (intro ext) (simp add: expired_def)
  ultimately show ?thesis using recover_exact [OF _ assms(3)] by (simp add: interrupted_stage_def)
qed

definition demo_interrupted :: store where
  "demo_interrupted = snd (recover_expired_leases demo 1500 True demo_leased)"

section \<open>Artifacts\<close>

text \<open>C8 (put then read). In a reachable store, whatever \<open>put_artifact\<close> has stored can be read back by
  \<open>read_artifact\<close> with the access its class needs: the bytes have the identifier of the bytes stored,
  and are those very bytes when no file had that name before.\<close>

theorem artifact_roundtrip:
  assumes "reachable E d" and "put_artifact E io b mt cls cb pd pin d = (Inr rec, d')" and "access_allows acc cls"
  shows "\<exists>b'. read_artifact E (ar_artifact_id rec) acc d' = Inr b' \<and> artifact_id E b' = artifact_id E b
    \<and> (t_cas d (artifact_id E b) = None \<longrightarrow> b' = b)"
  using assms by (rule put_then_read)

definition demo_put :: "(core_error + artifact_record) \<times> store" where
  "demo_put = put_artifact demo DiskOk ''hello'' ''text/plain'' Protected ''tester'' (artifact_id demo []) False demo_staged"

lemma demo_put_ok: "\<exists>rec. demo_put = (Inr rec, snd demo_put)"
proof -
  have media: "valid_media_type ''text/plain''" and maker: "\<not> has_control ''tester''" by code_simp+
  have dig: "validate_digest (artifact_id demo []) = Inr ()"
    using hex64_sha [of "[]"] by (simp add: validate_digest_def artifact_id_def strip_prefix_def)
  have path: "artifact_path (artifact_id demo ''hello'') = Inr (artifact_id demo ''hello'')"
    using hex64_sha [of "''hello''"] by (simp add: artifact_path_def validate_artifact_id_def artifact_id_def strip_prefix_def)
  have rec: "read_artifact_record demo_staged aid = Inl e \<or> read_artifact_record demo_staged aid = Inl e'"
    if "e = artifact_invalid" "e' = artifact_invalid" for aid e e'
    using that by (simp add: read_artifact_record_def find_artifact_def demo_staged_def demo_st_def artifact_invalid_def
      validate_artifact_id_def ok_or_def split: option.split)
  then have none: "\<And>aid. read_artifact_record demo_staged aid = Inl artifact_invalid" by blast
  have cas: "t_cas demo_staged p = None" for p by (simp add: demo_staged_def demo_st_def)
  have "is_ok (fst demo_put)"
    using media maker dig path none cas
    by (simp add: demo_put_def put_artifact_def MAX_ARTIFACT_BYTES_def write_cas_file_def sql_i64_def Let_def)
  then obtain rec where "fst demo_put = Inr rec" by (auto simp: is_ok_iff)
  then show ?thesis by (metis prod.collapse)
qed

theorem artifact_roundtrip_witness:
  "read_artifact demo (artifact_id demo ''hello'') \<lparr>acc_protected = True, acc_executable = False\<rparr> (snd demo_put) = Inr ''hello''"
proof -
  obtain rec where "demo_put = (Inr rec, snd demo_put)" using demo_put_ok by blast
  then have put: "put_artifact demo DiskOk ''hello'' ''text/plain'' Protected ''tester'' (artifact_id demo []) False demo_staged
      = (Inr rec, snd demo_put)" by (simp only: demo_put_def)
  then have id: "ar_artifact_id rec = artifact_id demo ''hello''" by (blast dest: put_artifact_row)
  have "t_cas demo_staged (artifact_id demo ''hello'') = None" by (simp add: demo_staged_def demo_st_def)
  with artifact_roundtrip [OF demo_reachable(2) put, of "\<lparr>acc_protected = True, acc_executable = False\<rparr>"] id
  show ?thesis by (auto simp: access_allows_def)
qed

text \<open>Reads verify: \<open>read_artifact\<close> answers with bytes exactly when the artifact is recorded, the
  caller has the access its class needs, the name is valid and not a live symbolic link, and the file
  there has the recorded length and hashes to the identifier asked for.\<close>

lemma read_artifact_verifies:
  "read_artifact E aid acc d = Inr b \<longleftrightarrow>
     (\<exists>r. read_artifact_record d aid = Inr r \<and> access_allows acc (ar_class r)
        \<and> is_ok (validate_artifact_id aid) \<and> is_ok (reject_symlink (t_cas d aid)) \<and> fs_read (t_cas d aid) = Some b
        \<and> length b < 2 ^ 64 \<and> length b = unat (ar_byte_count r) \<and> artifact_id E b = aid)"
  by (rule read_artifact_Inr)



section \<open>Reading the log\<close>

text \<open>Event pages: In a reachable store, \<open>events_after\<close> with a cursor below 2^63 and a limit of 1 to
  1000 succeeds when the run's events are readable, and its page is exactly the next \<open>limit\<close> events
  after the first \<open>cursor\<close> ones: following the cursor loses and repeats nothing.\<close>

lemma event_pages:
  assumes "reachable E d" and "read_run E d rid = Inr p" and "limit \<noteq> 0" "limit \<le> MAX_EVENT_LIMIT"
    and "uint cursor < 2 ^ 63" and "\<forall>e\<in>set (run_events d rid). is_ok (project_event E e)"
  shows "\<exists>page. events_after E d rid cursor limit = Inr page
    \<and> list_all2 (\<lambda>e p. project_event E e = Inr p)
        (take (unat limit) (drop (unat cursor) (run_events d rid))) (pg_events page)"
  using event_log.reachable [OF assms(1)] assms(2-6) by (rule events_after_slice)

end
