(* ===== verification/Core_Api.thy ===== *)
theory Core_Api
  imports Core_Outcomes Core_Files
begin

text \<open>
  The public methods of \<open>CoreStore\<close> (\<open>promptectomy-core/src/lib.rs\<close>): the plain form of each
  mutation, its \<open>..._idempotent\<close> form with the JSON request that the key is bound to, and the
  reports. \<open>keyed_call\<close> runs the idempotent form of an operation; the lemmas show that such a call
  records what it answers with, so that repeating it later answers the same and does nothing.
\<close>

section \<open>Plain methods\<close>

definition create_run :: "env \<Rightarrow> authority_manifest \<Rightarrow> budget_ledger \<Rightarrow> store \<Rightarrow> run_projection outcome" where
  "create_run E authority budgets d = create_run_inner E authority budgets None d"

definition add_stage :: "env \<Rightarrow> string \<Rightarrow> string \<Rightarrow> u64 \<Rightarrow> store \<Rightarrow> stage_projection outcome" where
  "add_stage E rid kind max_attempts d = add_stage_inner E rid kind max_attempts None d"

definition transition_run :: "env \<Rightarrow> string \<Rightarrow> run_status \<Rightarrow> store \<Rightarrow> run_projection outcome" where
  "transition_run E rid nxt d = transition_run_inner E rid nxt None d"

definition transition_stage :: "env \<Rightarrow> string \<Rightarrow> stage_state \<Rightarrow> store \<Rightarrow> stage_projection outcome" where
  "transition_stage E sid nxt d = transition_stage_inner E sid nxt None d"

definition record_budget :: "env \<Rightarrow> string \<Rightarrow> budget_ledger \<Rightarrow> store \<Rightarrow> run_projection outcome" where
  "record_budget E rid delta d = record_budget_inner E rid delta None d"

definition acquire_lease :: "env \<Rightarrow> string \<Rightarrow> string \<Rightarrow> u64 \<Rightarrow> u64 \<Rightarrow> store \<Rightarrow> stage_projection outcome" where
  "acquire_lease E sid ow now_ms ttl_ms d = acquire_lease_inner E sid ow now_ms ttl_ms None d"

definition recover_startup_leases :: "env \<Rightarrow> u64 \<Rightarrow> bool \<Rightarrow> store \<Rightarrow> nat outcome" where
  "recover_startup_leases E now_ms verified d = recover_expired_leases E now_ms verified d"

definition request_cancel :: "env \<Rightarrow> string \<Rightarrow> store \<Rightarrow> run_projection outcome" where
  "request_cancel E rid d = request_cancel_inner E rid None d"

definition confirm_cancelled :: "env \<Rightarrow> string \<Rightarrow> bool \<Rightarrow> store \<Rightarrow> run_projection outcome" where
  "confirm_cancelled E rid verified d = confirm_cancelled_inner E rid verified None d"

definition mark_cleanup :: "env \<Rightarrow> string \<Rightarrow> cleanup_state \<Rightarrow> store \<Rightarrow> run_projection outcome" where
  "mark_cleanup E rid state d = mark_cleanup_inner E rid state None d"

definition complete_run :: "env \<Rightarrow> string \<Rightarrow> run_status \<Rightarrow> store \<Rightarrow> run_projection outcome" where
  "complete_run E rid status d = complete_run_inner E rid status None d"

section \<open>Idempotent methods\<close>

definition create_run_idempotent ::
  "env \<Rightarrow> authority_manifest \<Rightarrow> budget_ledger \<Rightarrow> string \<Rightarrow> store \<Rightarrow> run_projection outcome" where
  "create_run_idempotent E authority budgets key d =
     attempt d (make_idempotency_request E ''create_run'' key
         (json_object [(''authority'', contract_value authority), (''budgets'', ledger_to_json budgets)])) (\<lambda>q.
       create_run_inner E authority budgets (Some q) d)"

definition add_stage_idempotent ::
  "env \<Rightarrow> string \<Rightarrow> string \<Rightarrow> u64 \<Rightarrow> string \<Rightarrow> store \<Rightarrow> stage_projection outcome" where
  "add_stage_idempotent E rid kind max_attempts key d =
     attempt d (make_idempotency_request E ''add_stage'' key
         (json_object [(''run_id'', JStr rid), (''kind'', JStr kind), (''max_attempts'', JInt (uint max_attempts))])) (\<lambda>q.
       add_stage_inner E rid kind max_attempts (Some q) d)"

definition transition_run_idempotent ::
  "env \<Rightarrow> string \<Rightarrow> run_status \<Rightarrow> string \<Rightarrow> store \<Rightarrow> run_projection outcome" where
  "transition_run_idempotent E rid nxt key d =
     attempt d (make_idempotency_request E ''transition_run'' key
         (json_object [(''run_id'', JStr rid), (''status'', JStr (run_as_str nxt))])) (\<lambda>q.
       transition_run_inner E rid nxt (Some q) d)"

definition transition_stage_idempotent ::
  "env \<Rightarrow> string \<Rightarrow> stage_state \<Rightarrow> string \<Rightarrow> store \<Rightarrow> stage_projection outcome" where
  "transition_stage_idempotent E sid nxt key d =
     attempt d (make_idempotency_request E ''transition_stage'' key
         (json_object [(''stage_id'', JStr sid), (''state'', JStr (stage_as_str nxt))])) (\<lambda>q.
       transition_stage_inner E sid nxt (Some q) d)"

definition record_budget_idempotent ::
  "env \<Rightarrow> string \<Rightarrow> budget_ledger \<Rightarrow> string \<Rightarrow> store \<Rightarrow> run_projection outcome" where
  "record_budget_idempotent E rid delta key d =
     attempt d (make_idempotency_request E ''record_budget'' key
         (json_object [(''run_id'', JStr rid), (''delta'', ledger_to_json delta)])) (\<lambda>q.
       record_budget_inner E rid delta (Some q) d)"

definition acquire_lease_idempotent ::
  "env \<Rightarrow> string \<Rightarrow> string \<Rightarrow> u64 \<Rightarrow> u64 \<Rightarrow> string \<Rightarrow> store \<Rightarrow> stage_projection outcome" where
  "acquire_lease_idempotent E sid ow now_ms ttl_ms key d =
     attempt d (make_idempotency_request E ''acquire_lease'' key
         (json_object [(''stage_id'', JStr sid), (''owner'', JStr ow),
            (''now_ms'', JInt (uint now_ms)), (''ttl_ms'', JInt (uint ttl_ms))])) (\<lambda>q.
       acquire_lease_inner E sid ow now_ms ttl_ms (Some q) d)"

definition request_cancel_idempotent :: "env \<Rightarrow> string \<Rightarrow> string \<Rightarrow> store \<Rightarrow> run_projection outcome" where
  "request_cancel_idempotent E rid key d =
     attempt d (make_idempotency_request E ''request_cancel'' key (json_object [(''run_id'', JStr rid)])) (\<lambda>q.
       request_cancel_inner E rid (Some q) d)"

definition confirm_cancelled_idempotent ::
  "env \<Rightarrow> string \<Rightarrow> bool \<Rightarrow> string \<Rightarrow> store \<Rightarrow> run_projection outcome" where
  "confirm_cancelled_idempotent E rid verified key d =
     attempt d (make_idempotency_request E ''confirm_cancelled'' key
         (json_object [(''run_id'', JStr rid), (''worker_absence_verified'', JBool verified)])) (\<lambda>q.
       confirm_cancelled_inner E rid verified (Some q) d)"

definition mark_cleanup_idempotent ::
  "env \<Rightarrow> string \<Rightarrow> cleanup_state \<Rightarrow> string \<Rightarrow> store \<Rightarrow> run_projection outcome" where
  "mark_cleanup_idempotent E rid state key d =
     attempt d (make_idempotency_request E ''mark_cleanup'' key
         (json_object [(''run_id'', JStr rid), (''state'', JStr (cleanup_as_str state))])) (\<lambda>q.
       mark_cleanup_inner E rid state (Some q) d)"

definition complete_run_idempotent ::
  "env \<Rightarrow> string \<Rightarrow> run_status \<Rightarrow> string \<Rightarrow> store \<Rightarrow> run_projection outcome" where
  "complete_run_idempotent E rid status key d =
     attempt d (make_idempotency_request E ''complete_run'' key
         (json_object [(''run_id'', JStr rid), (''status'', JStr (run_as_str status))])) (\<lambda>q.
       complete_run_inner E rid status (Some q) d)"

section \<open>Keyed calls answer once\<close>

definition on_run :: "run_projection outcome \<Rightarrow> (core_error + string) \<times> store" where
  "on_run out = (case out of (Inl e, d) \<Rightarrow> (Inl e, d) | (Inr p, d) \<Rightarrow> (Inr (rp_run_id p), d))"

definition on_stage :: "stage_projection outcome \<Rightarrow> (core_error + string) \<times> store" where
  "on_stage out = (case out of (Inl e, d) \<Rightarrow> (Inl e, d) | (Inr p, d) \<Rightarrow> (Inr (sp_stage_id p), d))"

text \<open>
  The idempotent form of an operation, keeping of its answer the run or stage it names; the
  operations without such a form are not keyed calls.
\<close>

fun keyed_call :: "env \<Rightarrow> core_op \<Rightarrow> string \<Rightarrow> store \<Rightarrow> ((core_error + string) \<times> store) option" where
  "keyed_call E (CreateRun a b) key d = Some (on_run (create_run_idempotent E a b key d))"
| "keyed_call E (AddStage rid kind n) key d = Some (on_stage (add_stage_idempotent E rid kind n key d))"
| "keyed_call E (TransitionRun rid s) key d = Some (on_run (transition_run_idempotent E rid s key d))"
| "keyed_call E (TransitionStage sid s) key d = Some (on_stage (transition_stage_idempotent E sid s key d))"
| "keyed_call E (RecordBudget rid b) key d = Some (on_run (record_budget_idempotent E rid b key d))"
| "keyed_call E (AcquireLease sid ow n t) key d = Some (on_stage (acquire_lease_idempotent E sid ow n t key d))"
| "keyed_call E (RequestCancel rid) key d = Some (on_run (request_cancel_idempotent E rid key d))"
| "keyed_call E (ConfirmCancelled rid v) key d = Some (on_run (confirm_cancelled_idempotent E rid v key d))"
| "keyed_call E (MarkCleanup rid c) key d = Some (on_run (mark_cleanup_idempotent E rid c key d))"
| "keyed_call E (CompleteRun rid s) key d = Some (on_run (complete_run_idempotent E rid s key d))"
| "keyed_call E _ key d = None"

text \<open>What a keyed call promises about its answer: it is recorded under the key, and it is a read.\<close>

definition answers :: "(store \<Rightarrow> string \<Rightarrow> core_error + 'a) \<Rightarrow> ('a \<Rightarrow> string) \<Rightarrow> idempotency_request
    \<Rightarrow> 'a outcome \<Rightarrow> bool" where
  "answers rb idf q out \<longleftrightarrow>
     (\<forall>p d'. out = (Inr p, d') \<longrightarrow> recorded q (idf p) d' \<and> rb d' (idf p) = Inr p)"

definition reads_by_id :: "(store \<Rightarrow> string \<Rightarrow> core_error + 'a) \<Rightarrow> ('a \<Rightarrow> string) \<Rightarrow> bool" where
  "reads_by_id rb idf \<longleftrightarrow> (\<forall>d i p. rb d i = Inr p \<longrightarrow> idf p = i)
     \<and> (\<forall>d d' i. t_runs d' = t_runs d \<and> t_stages d' = t_stages d \<longrightarrow> rb d' i = rb d i)"

lemma answers_error: "answers rb idf q (Inl e, d)"
  by (simp add: answers_def)

lemma answers_attempt:
  "(\<And>x. m = Inr x \<Longrightarrow> answers rb idf q (k x)) \<Longrightarrow> answers rb idf q (attempt d m k)"
  by (cases m) (auto simp: answers_def)

lemma answers_if:
  "(c \<Longrightarrow> answers rb idf q a) \<Longrightarrow> (\<not> c \<Longrightarrow> answers rb idf q b) \<Longrightarrow> answers rb idf q (if c then a else b)"
  by simp

lemma reads_by_idD:
  assumes "reads_by_id rb idf"
  shows "rb d i = Inr p \<Longrightarrow> idf p = i"
    and "t_runs d' = t_runs d \<Longrightarrow> t_stages d' = t_stages d \<Longrightarrow> rb d' i = rb d i"
  using assms unfolding reads_by_id_def by blast+

lemma answers_read:
  assumes "reads_by_id rb idf" and "recorded q i d'"
  shows "answers rb idf q (rb d' i, d')"
  unfolding answers_def
proof (intro allI impI)
  fix p d2
  assume "(rb d' i, d') = (Inr p, d2)"
  then have r: "rb d' i = Inr p" and d2: "d2 = d'" unfolding prod.inject by blast+
  have "idf p = i" by (rule reads_by_idD(1) [OF assms(1) r])
  with r assms(2) show "recorded q (idf p) d2 \<and> rb d2 (idf p) = Inr p" unfolding d2 by blast
qed

lemma answers_commit:
  assumes "reads_by_id rb idf" and "\<And>d'. m = Inr d' \<Longrightarrow> recorded q resp d'"
  shows "answers rb idf q (attempt d m (\<lambda>d'. (rb d' resp, d')))"
  by (intro answers_attempt answers_read assms)

lemma answers_already:
  assumes "reads_by_id rb idf" and "rb d resp = Inr current"
  shows "answers rb idf q (already_done d rid (Some q) resp current)"
  unfolding already_done_def
proof (intro answers_attempt)
  fix d'
  assume save: "save_idempotency d rid (Some q) resp = Inr d'"
  have "rb d' resp = rb d resp"
    by (rule reads_by_idD(2) [OF assms(1) save_idempotency_same(1,2) [OF save]])
  then have "rb d' resp = Inr current" using assms(2) by (rule trans)
  moreover have "idf current = resp" by (rule reads_by_idD(1) [OF assms])
  ultimately show "answers rb idf q (Inr current, d')"
    unfolding answers_def using save_recorded [OF save] by blast
qed

lemma answers_replay:
  assumes "reads_by_id rb idf" and "answers rb idf q fresh"
  shows "answers rb idf q (with_replay d (Some q) (rb d) fresh)"
  unfolding answers_def
proof (intro allI impI)
  fix p d'
  assume "with_replay d (Some q) (rb d) fresh = (Inr p, d')"
  then show "recorded q (idf p) d' \<and> rb d' (idf p) = Inr p"
  proof (cases rule: with_replay_cases)
    case (replayed q' resp)
    have "idf p = resp" by (rule reads_by_idD(1) [OF assms(1) replayed(3)])
    with replayed show ?thesis by blast
  next
    case fresh
    with assms(2) show ?thesis unfolding answers_def by blast
  qed
qed

lemma read_stage_id: "read_stage E d sid = Inr p \<Longrightarrow> sp_stage_id p = sid"
  by (auto simp: read_stage_def project_stage_def result_simps dest!: find_stage_in)

lemma run_reads_by_id: "reads_by_id (read_run E) rp_run_id"
  unfolding reads_by_id_def
proof (intro conjI allI impI)
  show "rp_run_id p = i" if "read_run E d i = Inr p" for d i p using that by (rule read_run_id)
  show "read_run E d' i = read_run E d i" if "t_runs d' = t_runs d \<and> t_stages d' = t_stages d" for d d' i
    using that by (simp add: read_run_def find_run_def)
qed

lemma stage_reads_by_id: "reads_by_id (read_stage E) sp_stage_id"
  unfolding reads_by_id_def
proof (intro conjI allI impI)
  show "sp_stage_id p = i" if "read_stage E d i = Inr p" for d i p using that by (rule read_stage_id)
  show "read_stage E d' i = read_stage E d i" if "t_runs d' = t_runs d \<and> t_stages d' = t_stages d" for d d' i
    using that by (simp add: read_stage_def find_stage_def)
qed

lemma tail_recorded:
  "bindE m (\<lambda>d1. save_idempotency d1 rid (Some q) resp) = Inr d' \<Longrightarrow> recorded q resp d'"
  by (auto simp: result_simps dest!: save_recorded)

lemmas answer_rules = answers_commit [OF run_reads_by_id] answers_commit [OF stage_reads_by_id]
  answers_already [OF run_reads_by_id] answers_already [OF stage_reads_by_id]
  answers_attempt answers_if answers_error

lemma transition_run_answers:
  "answers (read_run E) rp_run_id q (transition_run_inner (at_time E t x) rid nxt (Some q) d)"
  unfolding transition_run_inner_def reads_at_time
  by (intro answers_replay [OF run_reads_by_id] answer_rules) (auto simp: result_simps dest!: save_recorded)

lemma mark_cleanup_answers:
  "answers (read_run E) rp_run_id q (mark_cleanup_inner (at_time E t x) rid c (Some q) d)"
  unfolding mark_cleanup_inner_def reads_at_time
  by (intro answers_replay [OF run_reads_by_id] answer_rules) (auto simp: result_simps dest!: save_recorded)

lemma record_budget_answers:
  "answers (read_run E) rp_run_id q (record_budget_inner (at_time E t x) rid b (Some q) d)"
  unfolding record_budget_inner_def reads_at_time
  by (intro answers_replay [OF run_reads_by_id] answer_rules) (auto simp: result_simps dest!: save_recorded)

lemma request_cancel_answers:
  "answers (read_run E) rp_run_id q (request_cancel_inner (at_time E t x) rid (Some q) d)"
  unfolding request_cancel_inner_def reads_at_time
  by (intro answers_replay [OF run_reads_by_id] answer_rules) (auto simp: result_simps dest!: save_recorded)

lemma confirm_cancelled_answers:
  "answers (read_run E) rp_run_id q (confirm_cancelled_inner (at_time E t x) rid v (Some q) d)"
  unfolding confirm_cancelled_inner_def reads_at_time
  by (intro answers_replay [OF run_reads_by_id] answer_rules) (auto simp: result_simps dest!: save_recorded)

lemma create_run_answers:
  "answers (read_run E) rp_run_id q (create_run_inner (at_time E t x) a b (Some q) d)"
  unfolding create_run_inner_def Let_def reads_at_time
  by (intro answers_replay [OF run_reads_by_id] answer_rules) (auto simp: result_simps dest!: save_recorded)

lemma complete_run_answers:
  "answers (read_run E) rp_run_id q (complete_run_inner (at_time E t x) rid st (Some q) d)"
  unfolding complete_run_inner_def reads_at_time
  by (intro answers_replay [OF run_reads_by_id] answer_rules) (auto simp: result_simps dest!: save_recorded)

lemma add_stage_answers:
  "answers (read_stage E) sp_stage_id q (add_stage_inner (at_time E t x) rid kind n (Some q) d)"
  unfolding add_stage_inner_def Let_def reads_at_time
  by (intro answers_replay [OF stage_reads_by_id] answer_rules) (auto simp: result_simps dest!: save_recorded)

lemma transition_stage_answers:
  "answers (read_stage E) sp_stage_id q (transition_stage_inner (at_time E t x) sid nxt (Some q) d)"
  unfolding transition_stage_inner_def reads_at_time
  by (intro answers_replay [OF stage_reads_by_id] answer_rules) (auto simp: result_simps dest!: save_recorded)

lemma answers_live:
  "(\<And>l. m = Some l \<Longrightarrow> answers rb idf q (f l)) \<Longrightarrow> (m = None \<Longrightarrow> answers rb idf q g) \<Longrightarrow>
     answers rb idf q (case m of Some l \<Rightarrow> f l | None \<Rightarrow> g)"
  by (cases m) auto

lemma acquire_lease_answers:
  "answers (read_stage E) sp_stage_id q (acquire_lease_inner (at_time E t x) sid ow n ttl (Some q) d)"
  unfolding acquire_lease_inner_def Let_def reads_at_time
  by (intro answers_replay [OF stage_reads_by_id] answers_live answer_rules) (auto simp: result_simps dest!: save_recorded)

text \<open>A run or stage that has been read can be read ever after.\<close>

lemma read_run_kept:
  assumes codec: "text_codec E" and d1: "reachable E d1" and p: "read_run E d1 i = Inr p" and steps: "(core_step E)\<^sup>*\<^sup>* d1 d2"
  shows "\<exists>p2. read_run E d2 i = Inr p2 \<and> rp_run_id p2 = i"
proof -
  obtain r where r: "find_run d1 i = Some r" using read_run_find [OF p] by blast
  then have "\<exists>r'. find_run d2 i = Some r' \<and> same_identity r r'"
    by (intro identity_kept.steps_keep [OF steps]) (simp add: same_identity_def)
  then obtain r' where r': "find_run d2 i = Some r'" by blast
  have "text_codec E \<longrightarrow> store_typed E d2"
    by (rule typed_rows.steps_keep [OF steps typed_rows.reachable [OF d1]])
  then have "typed_run E r'" using codec store_typedD(3) find_run_in [OF r'] by blast
  from typed_run_project [OF codec this] read_run_valid [OF p] r' show ?thesis
    using find_run_in [OF r'] by (auto simp: read_run_def is_ok_iff)
qed

lemma read_stage_kept:
  assumes codec: "text_codec E" and d1: "reachable E d1" and p: "read_stage E d1 i = Inr p" and steps: "(core_step E)\<^sup>*\<^sup>* d1 d2"
  shows "\<exists>p2. read_stage E d2 i = Inr p2 \<and> sp_stage_id p2 = i"
proof -
  obtain s where s: "find_stage d1 i = Some s" using read_stage_found [OF p] by blast
  then have "\<exists>s'. find_stage d2 i = Some s' \<and> s_run_id s' = s_run_id s \<and> s_max_attempts s' = s_max_attempts s"
    by (intro stage_kept.steps_keep [OF steps]) simp
  then obtain s' where s': "find_stage d2 i = Some s'" by blast
  have "text_codec E \<longrightarrow> store_typed E d2"
    by (rule typed_rows.steps_keep [OF steps typed_rows.reachable [OF d1]])
  then have "typed_stage E s'" using codec store_typedD(4) find_stage_in [OF s'] by blast
  from typed_stage_project [OF codec this] read_stage_found [OF p] s' show ?thesis
    using find_stage_in [OF s'] by (auto simp: read_stage_def is_ok_iff)
qed

lemma on_run_Inr: "on_run out = (Inr i, d1) \<longleftrightarrow> (\<exists>p. out = (Inr p, d1) \<and> rp_run_id p = i)"
  by (auto simp: on_run_def split: prod.splits sum.splits)

lemma on_stage_Inr: "on_stage out = (Inr i, d1) \<longleftrightarrow> (\<exists>p. out = (Inr p, d1) \<and> sp_stage_id p = i)"
  by (auto simp: on_stage_def split: prod.splits sum.splits)

lemma on_run_once:
  assumes codec: "text_codec E" and d1: "reachable E d1" and steps: "(core_step E)\<^sup>*\<^sup>* d1 d2"
    and out: "on_run (attempt d mk f) = (Inr i, d1)"
    and ans: "\<And>q. answers (read_run E) rp_run_id q (f q)"
    and replay: "\<And>q. recorded q i d2 \<Longrightarrow> f' q = (read_run E d2 i, d2)"
  shows "on_run (attempt d2 mk f') = (Inr i, d2)"
proof -
  from out obtain q p where q: "mk = Inr q" "f q = (Inr p, d1)" "rp_run_id p = i"
    by (auto simp: on_run_Inr attempt_eq_Inr)
  with ans [of q] have rec: "recorded q i d1" and p: "read_run E d1 i = Inr p"
    unfolding answers_def by blast+
  have "recorded q i d2" by (rule recorded_kept.steps_keep [OF steps rec])
  with replay q(1) read_run_kept [OF codec d1 p steps] show ?thesis
    by (auto simp: on_run_Inr)
qed

lemma on_stage_once:
  assumes codec: "text_codec E" and d1: "reachable E d1" and steps: "(core_step E)\<^sup>*\<^sup>* d1 d2"
    and out: "on_stage (attempt d mk f) = (Inr i, d1)"
    and ans: "\<And>q. answers (read_stage E) sp_stage_id q (f q)"
    and replay: "\<And>q. recorded q i d2 \<Longrightarrow> f' q = (read_stage E d2 i, d2)"
  shows "on_stage (attempt d2 mk f') = (Inr i, d2)"
proof -
  from out obtain q p where q: "mk = Inr q" "f q = (Inr p, d1)" "sp_stage_id p = i"
    by (auto simp: on_stage_Inr attempt_eq_Inr)
  with ans [of q] have rec: "recorded q i d1" and p: "read_stage E d1 i = Inr p"
    unfolding answers_def by blast+
  have "recorded q i d2" by (rule recorded_kept.steps_keep [OF steps rec])
  with replay q(1) read_stage_kept [OF codec d1 p steps] show ?thesis
    by (auto simp: on_stage_Inr)
qed

lemma make_request_at_time [simp]: "make_idempotency_request (at_time E t x) = make_idempotency_request E"
  by (intro ext) (simp add: make_idempotency_request_def)

lemma snd_attempt: "snd (attempt d m k) = (case m of Inl e \<Rightarrow> d | Inr x \<Rightarrow> snd (k x))"
  by (cases m) auto

lemma snd_on [simp]: "snd (on_run out) = snd out" "snd (on_stage out') = snd out'"
  by (auto simp: on_run_def on_stage_def split: prod.split sum.split)

lemmas idempotent_defs = create_run_idempotent_def add_stage_idempotent_def transition_run_idempotent_def
  transition_stage_idempotent_def record_budget_idempotent_def acquire_lease_idempotent_def
  request_cancel_idempotent_def confirm_cancelled_idempotent_def mark_cleanup_idempotent_def
  complete_run_idempotent_def

lemma keyed_call_exec:
  "keyed_call E opn key d = Some r \<Longrightarrow> snd r = d \<or> (\<exists>q. snd r = exec_op E opn (Some q) d)"
  by (cases opn) (auto simp: idempotent_defs snd_attempt split: sum.splits)

lemma keyed_call_once:
  assumes codec: "text_codec E" and d: "reachable E d"
    and call: "keyed_call (at_time E t x) opn key d = Some (Inr i, d1)" and steps: "(core_step E)\<^sup>*\<^sup>* d1 d2"
  shows "keyed_call (at_time E t' x') opn key d2 = Some (Inr i, d2)"
proof -
  have "d1 = d \<or> (\<exists>q. d1 = exec_op (at_time E t x) opn (Some q) d)"
    using keyed_call_exec [OF call] by simp
  then have d1: "reachable E d1" using d by (auto intro: reachable.step core_step.call)
  note run = on_run_once [OF codec d1 steps] and stage = on_stage_once [OF codec d1 steps]
  show ?thesis
  proof (cases opn)
    case (CreateRun a b)
    with call show ?thesis
      by (auto simp: create_run_idempotent_def create_run_inner_def [of "at_time E t' x'"] with_replay_recorded
        intro!: run create_run_answers)
  next
    case (AddStage rid kind n)
    with call show ?thesis
      by (auto simp: add_stage_idempotent_def add_stage_inner_def [of "at_time E t' x'"] with_replay_recorded
        intro!: stage add_stage_answers)
  next
    case (TransitionRun rid s)
    with call show ?thesis
      by (auto simp: transition_run_idempotent_def transition_run_inner_def [of "at_time E t' x'"] with_replay_recorded
        intro!: run transition_run_answers)
  next
    case (TransitionStage sid s)
    with call show ?thesis
      by (auto simp: transition_stage_idempotent_def transition_stage_inner_def [of "at_time E t' x'"] with_replay_recorded
        intro!: stage transition_stage_answers)
  next
    case (RecordBudget rid b)
    with call show ?thesis
      by (auto simp: record_budget_idempotent_def record_budget_inner_def [of "at_time E t' x'"] with_replay_recorded
        intro!: run record_budget_answers)
  next
    case (AcquireLease sid ow n ttl)
    with call show ?thesis
      by (auto simp: acquire_lease_idempotent_def acquire_lease_inner_def [of "at_time E t' x'"] with_replay_recorded
        intro!: stage acquire_lease_answers)
  next
    case (RequestCancel rid)
    with call show ?thesis
      by (auto simp: request_cancel_idempotent_def request_cancel_inner_def [of "at_time E t' x'"] with_replay_recorded
        intro!: run request_cancel_answers)
  next
    case (ConfirmCancelled rid v)
    with call show ?thesis
      by (auto simp: confirm_cancelled_idempotent_def confirm_cancelled_inner_def [of "at_time E t' x'"] with_replay_recorded
        intro!: run confirm_cancelled_answers)
  next
    case (MarkCleanup rid c)
    with call show ?thesis
      by (auto simp: mark_cleanup_idempotent_def mark_cleanup_inner_def [of "at_time E t' x'"] with_replay_recorded
        intro!: run mark_cleanup_answers)
  next
    case (CompleteRun rid s)
    with call show ?thesis
      by (auto simp: complete_run_idempotent_def complete_run_inner_def [of "at_time E t' x'"] with_replay_recorded
        intro!: run complete_run_answers)
  qed (use call in auto)
qed

end
