(* ===== verification/Core_Reports.thy ===== *)
theory Core_Reports
  imports Core_Files
begin

text \<open>
  Reports of the trusted core (\<open>report_projection\<close>, \<open>report_json\<close>, \<open>report_markdown\<close>,
  \<open>report_bytes\<close>, \<open>put_report_artifact\<close>): what a report contains, and that a stored report can be
  read back. The pretty-printer behind \<open>report_json\<close> is the argument \<open>pretty\<close>.
\<close>

datatype report_format = Json | Markdown

fun media_type :: "report_format \<Rightarrow> string" where
  "media_type Json = ''application/json''"
| "media_type Markdown = ''text/markdown''"

record report_projection =
  rep_schema_version :: string
  rep_run :: run_projection
  rep_stages :: "stage_projection list"
  rep_artifacts :: "artifact_record list"
  rep_limitations :: "string list"

definition report_of :: "env \<Rightarrow> store \<Rightarrow> string \<Rightarrow> core_error + report_projection" where
  "report_of E d rid =
     bindE (read_run E d rid) (\<lambda>run.
     bindE (read_stages E d rid) (\<lambda>stages.
     bindE (artifacts_for_run E d rid) (\<lambda>artifacts.
       Inr \<lparr>rep_schema_version = SCHEMA_VERSION, rep_run = run, rep_stages = stages,
            rep_artifacts = artifacts,
            rep_limitations = [''No target repository or generated code was executed.'']\<rparr>)))"

definition push_fact :: "string \<Rightarrow> string \<Rightarrow> string" where
  "push_fact key v = ''- `'' @ key @ ''`: `'' @ v @ ''`'' @ [CHR 0x0A]"

definition md_line :: "string \<Rightarrow> string" where
  "md_line s = ''- '' @ s @ [CHR 0x0A]"

definition md_heading :: "string \<Rightarrow> string" where
  "md_heading s = [CHR 0x0A] @ ''## '' @ s @ [CHR 0x0A, CHR 0x0A]"

definition markdown_of :: "report_projection \<Rightarrow> string" where
  "markdown_of rep =
     ''# PROMPTECTOMY Core Report'' @ [CHR 0x0A] @ md_heading ''Decision Facts''
     @ push_fact ''run_id'' (rp_run_id (rep_run rep))
     @ push_fact ''snapshot_id'' (rp_snapshot_id (rep_run rep))
     @ push_fact ''mode'' (mode_as_str (rp_mode (rep_run rep)))
     @ push_fact ''status'' (run_as_str (rp_status (rep_run rep)))
     @ push_fact ''cleanup_state'' (cleanup_as_str (rp_cleanup_state (rep_run rep)))
     @ push_fact ''receipt_id'' (case rp_receipt_id (rep_run rep) of None \<Rightarrow> ''none'' | Some r \<Rightarrow> r)
     @ md_heading ''Budgets''
     @ push_fact ''attempts'' (decimal (unat (attempts (rp_counters (rep_run rep)))))
     @ push_fact ''bytes'' (decimal (unat (ledger_bytes (rp_counters (rep_run rep)))))
     @ md_heading ''Stages''
     @ concat (map (\<lambda>s. md_line (sp_kind s @ '': '' @ stage_as_str (sp_state s))) (rep_stages rep))
     @ md_heading ''Artifacts''
     @ concat (map (\<lambda>a. md_line (ar_artifact_id a @ '' '' @ class_as_str (ar_class a))) (rep_artifacts rep))
     @ md_heading ''Limitations''
     @ concat (map md_line (rep_limitations rep))"

definition report_markdown :: "env \<Rightarrow> store \<Rightarrow> string \<Rightarrow> core_error + string" where
  "report_markdown E d rid = bindE (report_of E d rid) (\<lambda>rep. Inr (markdown_of rep))"

definition report_json :: "(report_projection \<Rightarrow> string) \<Rightarrow> env \<Rightarrow> store \<Rightarrow> string \<Rightarrow> core_error + string" where
  "report_json pretty E d rid = bindE (report_of E d rid) (\<lambda>rep. Inr (pretty rep))"

definition report_bytes ::
  "(report_projection \<Rightarrow> string) \<Rightarrow> env \<Rightarrow> store \<Rightarrow> string \<Rightarrow> report_format \<Rightarrow> core_error + string" where
  "report_bytes pretty E d rid fmt =
     (case fmt of Json \<Rightarrow> report_json pretty E d rid | Markdown \<Rightarrow> report_markdown E d rid)"

definition put_report_artifact ::
  "(report_projection \<Rightarrow> string) \<Rightarrow> env \<Rightarrow> disk \<Rightarrow> string \<Rightarrow> report_format \<Rightarrow> store
     \<Rightarrow> (core_error + artifact_record) \<times> store" where
  "put_report_artifact pretty E io rid fmt d =
     attempt d (report_bytes pretty E d rid fmt) (\<lambda>b.
       put_run_artifact E io rid b (media_type fmt) Safe ''trusted_core_report''
         (''sha256:'' @ sha256_hex E ''phase3-core-1'') True d)"

section \<open>A stored report\<close>

lemma read_artifact_same:
  "t_artifacts d' = t_artifacts d \<Longrightarrow> t_cas d' = t_cas d \<Longrightarrow> read_artifact E aid acc d' = read_artifact E aid acc d"
  by (simp add: read_artifact_def read_artifact_record_def find_artifact_def cong: if_cong)

lemma link_artifact_Inr:
  assumes "link_artifact_to_run E rid aid p d = (Inr u, d')"
  shows "t_artifacts d' = t_artifacts d" "t_cas d' = t_cas d"
    and "\<exists>f\<in>set (t_refs d'). f_artifact_id f = aid \<and> f_entity_id f = rid"
proof -
  let ?f = "\<lparr>f_artifact_id = aid, f_entity_id = rid, f_purpose = p\<rparr>"
  from assms have d': "d' = d\<lparr>t_refs := (if ?f \<in> set (t_refs d) then t_refs d else t_refs d @ [?f])\<rparr>"
    by (auto simp: link_artifact_to_run_def attempt_eq_Inr Let_def split: if_splits)
  then show "t_artifacts d' = t_artifacts d" "t_cas d' = t_cas d" by simp_all
  from d' have "?f \<in> set (t_refs d')" by simp
  then show "\<exists>f\<in>set (t_refs d'). f_artifact_id f = aid \<and> f_entity_id f = rid" by force
qed

lemma put_run_artifact_Inr:
  assumes "put_run_artifact E io rid b mt cls cb pd pin d = (Inr rec, d')"
  obtains d1 where "put_artifact E io b mt cls cb pd pin d = (Inr rec, d1)"
    and "t_artifacts d' = t_artifacts d1" and "t_cas d' = t_cas d1"
    and "\<exists>f\<in>set (t_refs d'). f_artifact_id f = ar_artifact_id rec \<and> f_entity_id f = rid"
proof -
  obtain u d1 where "put_artifact E io b mt cls cb pd pin d = (Inr rec, d1)"
      and "link_artifact_to_run E rid (ar_artifact_id rec) ''run'' d1 = (Inr u, d')"
    using assms by (auto simp: put_run_artifact_def attempt_eq_Inr split: prod.splits sum.splits if_splits)
  with link_artifact_Inr [OF this(2)] show thesis using that by blast
qed

text \<open>
  A report that has been stored belongs to its run, is safe and pinned, and is read back without
  any special access.
\<close>

lemma put_report_readable:
  assumes d: "reachable E d" and ok: "put_report_artifact pretty E io rid fmt d = (Inr rec, d')"
  shows "\<exists>b b'. report_bytes pretty E d rid fmt = Inr b
    \<and> read_artifact E (ar_artifact_id rec) \<lparr>acc_protected = False, acc_executable = False\<rparr> d' = Inr b'
    \<and> artifact_id E b' = artifact_id E b
    \<and> (t_cas d (artifact_id E b) = None \<longrightarrow> b' = b)
    \<and> (\<exists>f\<in>set (t_refs d'). f_artifact_id f = ar_artifact_id rec \<and> f_entity_id f = rid)"
proof -
  from ok obtain b where b: "report_bytes pretty E d rid fmt = Inr b"
    and put: "put_run_artifact E io rid b (media_type fmt) Safe ''trusted_core_report''
         (''sha256:'' @ sha256_hex E ''phase3-core-1'') True d = (Inr rec, d')"
    by (auto simp: put_report_artifact_def attempt_eq_Inr)
  from put_run_artifact_Inr [OF put] obtain d1 where
    d1: "put_artifact E io b (media_type fmt) Safe ''trusted_core_report''
         (''sha256:'' @ sha256_hex E ''phase3-core-1'') True d = (Inr rec, d1)"
      "t_artifacts d' = t_artifacts d1" "t_cas d' = t_cas d1"
      "\<exists>f\<in>set (t_refs d'). f_artifact_id f = ar_artifact_id rec \<and> f_entity_id f = rid"
    by blast
  have "access_allows \<lparr>acc_protected = False, acc_executable = False\<rparr> Safe" by (simp add: access_allows_def)
  from put_then_read [OF d d1(1) this] read_artifact_same [OF d1(2,3)] b d1(4)
  show ?thesis by simp
qed

end
