(* ===== verification/Surface_Theorems.thy ===== *)
theory Surface_Theorems
  imports Core_Api Core_Reports Demo
begin

text \<open>
  Properties of the public surface of the core: keyed calls answer once, and a stored report is
  read back. Each has a witness in the world of \<open>Demo\<close>.
\<close>

text \<open>C11 (keyed calls). A keyed call (the \<open>..._idempotent\<close> form of any of the ten mutations) that
  has succeeded under a key takes effect once: whatever operations run in between and whenever it is
  repeated, the same call under the same key succeeds again, names the same run or stage, and leaves
  the store exactly as it finds it.\<close>

theorem keyed_calls_once:
  assumes "text_codec E" and "reachable E d"
    and "keyed_call (at_time E t x) opn key d = Some (Inr i, d1)" and "(core_step E)\<^sup>*\<^sup>* d1 d2"
  shows "keyed_call (at_time E t' x') opn key d2 = Some (Inr i, d2)"
  using assms by (rule keyed_call_once)

lemma demo_create_keyed:
  "\<exists>d1. keyed_call demo (CreateRun demo_authority demo_budget) ''key-1'' empty_store = Some (Inr ''run_'', d1)"
proof -
  have key: "valid_idempotency_key ''key-1''" by code_simp
  have "ijson (json_object [(''authority'', contract_value demo_authority), (''budgets'', ledger_to_json demo_budget)])"
    using ijson_demo_contract by (simp add: json_object_def ijson_ledger demo_budget_def MAX_SAFE_INT_def)
  then obtain q where q: "make_idempotency_request demo ''create_run'' ''key-1''
      (json_object [(''authority'', contract_value demo_authority), (''budgets'', ledger_to_json demo_budget)]) = Inr q"
    by (simp add: make_idempotency_request_def key demo_canonical)
  have "\<exists>d1. save_idempotency demo_start ''run_'' (Some q) ''run_'' = Inr d1 \<and> t_runs d1 = t_runs demo_start"
    by (simp add: save_idempotency_def find_idempotency_def demo_start_def demo_st_def find_run_def demo_row_def)
  then obtain d1 where "create_run_inner demo demo_authority demo_budget (Some q) empty_store
      = (Inr (demo_projection Created ledger_default Pending 1), d1)"
    using demo_create_any by blast
  then show ?thesis by (simp add: create_run_idempotent_def q on_run_Inr demo_projection_def)
qed

theorem keyed_calls_once_witness:
  "\<exists>d1. keyed_call demo (CreateRun demo_authority demo_budget) ''key-1'' empty_store = Some (Inr ''run_'', d1)
     \<and> (let d2 = exec_op demo (RequestCancel ''run_'') None d1 in
        keyed_call demo (CreateRun demo_authority demo_budget) ''key-1'' d2 = Some (Inr ''run_'', d2))"
proof -
  obtain d1 where d1: "keyed_call demo (CreateRun demo_authority demo_budget) ''key-1'' empty_store = Some (Inr ''run_'', d1)"
    using demo_create_keyed by blast
  have "(core_step demo)\<^sup>*\<^sup>* d1 (exec_op (at_time demo 0 (Some demo_time)) (RequestCancel ''run_'') None d1)"
    by (intro r_into_rtranclp core_step.call)
  from keyed_calls_once [OF demo_text_codec reachable.start _ this, of 0 "Some demo_time"
      "CreateRun demo_authority demo_budget" "''key-1''" "''run_''" 0 "Some demo_time"] d1
  show ?thesis unfolding Let_def demo_now by blast
qed

text \<open>Reports: A report that \<open>put_report_artifact\<close> has stored in a reachable store is read back by
  a reader without special access, under the identifier in the answer; it is byte for byte the report
  of the run when no file of that name was there before, and otherwise has the same SHA-256 name. It
  is linked to the run it describes.\<close>

lemma stored_report_readable:
  assumes "reachable E d" and "put_report_artifact pretty E io rid fmt d = (Inr rec, d')"
  shows "\<exists>b b'. report_bytes pretty E d rid fmt = Inr b
    \<and> read_artifact E (ar_artifact_id rec) \<lparr>acc_protected = False, acc_executable = False\<rparr> d' = Inr b'
    \<and> artifact_id E b' = artifact_id E b
    \<and> (t_cas d (artifact_id E b) = None \<longrightarrow> b' = b)
    \<and> (\<exists>f\<in>set (t_refs d'). f_artifact_id f = ar_artifact_id rec \<and> f_entity_id f = rid)"
  using assms by (rule put_report_readable)

lemma demo_put_safe:
  "\<exists>rec d1. put_artifact demo DiskOk ''{}'' ''application/json'' Safe ''trusted_core_report'' (artifact_id demo x) True demo_staged
      = (Inr rec, d1) \<and> t_runs d1 = t_runs demo_staged \<and> t_cas demo_staged (artifact_id demo ''{}'') = None"
proof -
  have media: "valid_media_type ''application/json''" and maker: "\<not> has_control ''trusted_core_report''" by code_simp+
  have dig: "validate_digest (artifact_id demo x) = Inr ()"
    using hex64_sha [of x] by (simp add: validate_digest_def artifact_id_def strip_prefix_def)
  have path: "artifact_path (artifact_id demo ''{}'') = Inr (artifact_id demo ''{}'')"
    using hex64_sha [of "''{}''"] by (simp add: artifact_path_def validate_artifact_id_def artifact_id_def strip_prefix_def)
  have none: "\<exists>e. read_artifact_record demo_staged aid = Inl e" for aid
    by (simp add: read_artifact_record_def find_artifact_def demo_staged_def demo_st_def
      validate_artifact_id_def ok_or_def split: option.split)
  then obtain e where e: "read_artifact_record demo_staged (artifact_id demo ''{}'') = Inl e" by blast
  have cas: "t_cas demo_staged p = None" for p by (simp add: demo_staged_def demo_st_def)
  show ?thesis
    using media maker dig path e cas
    by (auto simp: put_artifact_def MAX_ARTIFACT_BYTES_def write_cas_file_def sql_i64_def Let_def upsert_artifact_def)
qed

lemma demo_report_parts:
  "read_run demo demo_staged ''run_'' = Inr (demo_projection Created ledger_default Pending 2)"
  "read_stages demo demo_staged ''run_'' = Inr [demo_stage_projection StCreated 0 None]"
  "artifacts_for_run demo demo_staged ''run_'' = Inr []"
proof -
  have stage: "filter (\<lambda>s. s_run_id s = ''run_'') [demo_stage StCreated 0 None] = [demo_stage StCreated 0 None]"
    "s_stage_id (demo_stage StCreated 0 None) = ''stage_aa''" by (simp_all add: demo_stage_def)
  show run: "read_run demo demo_staged ''run_'' = Inr (demo_projection Created ledger_default Pending 2)"
    by (simp add: demo_staged_def)
  show "read_stages demo demo_staged ''run_'' = Inr [demo_stage_projection StCreated 0 None]"
    unfolding read_stages_def demo_staged_def
    using stage by (simp add: demo_st_def [of _ "[_]"]) (simp flip: demo_st_def)
  show "artifacts_for_run demo demo_staged ''run_'' = Inr []"
    unfolding artifacts_for_run_def run by (simp add: demo_staged_def demo_st_def)
qed

lemma demo_put_report:
  "\<exists>rec d'. put_report_artifact (\<lambda>_. ''{}'') demo DiskOk ''run_'' Json demo_staged = (Inr rec, d')"
proof -
  have "''sha256:'' @ sha256_hex demo ''phase3-core-1'' = artifact_id demo ''phase3-core-1''"
    by (simp add: sha256_hex_def artifact_id_def)
  then obtain rec d1 where put: "put_artifact demo DiskOk ''{}'' ''application/json'' Safe ''trusted_core_report''
      (''sha256:'' @ sha256_hex demo ''phase3-core-1'') True demo_staged = (Inr rec, d1)"
    and runs: "t_runs d1 = t_runs demo_staged" and cas: "t_cas demo_staged (artifact_id demo ''{}'') = None"
    using demo_put_safe [of "''phase3-core-1''"] by auto
  have same: "read_run demo d1 = read_run demo demo_staged" "require_run_action demo d1 = require_run_action demo demo_staged"
    using runs by (auto simp: read_run_def require_run_action_def find_run_def fun_eq_iff)
  have req: "require_run_action demo demo_staged ''run_'' WriteState = Inr ()" by (simp add: demo_staged_def)
  have "\<exists>r. read_artifact_record d1 (ar_artifact_id rec) = Inr r"
    using put_then_read [OF demo_reachable(2) put, of "\<lparr>acc_protected = True, acc_executable = True\<rparr>"]
    by (auto simp: access_allows_def read_artifact_Inr)
  then obtain r where r: "read_artifact_record d1 (ar_artifact_id rec) = Inr r" by blast
  have "valid_purpose ''run''" by code_simp
  with put same req r show ?thesis
    by (simp add: put_report_artifact_def report_bytes_def report_json_def report_of_def demo_report_parts
      put_run_artifact_def link_artifact_to_run_def Let_def)
qed

end
