(* ===== verification/Contract_Theorems.thy ===== *)
theory Contract_Theorems
  imports Demo
begin

text \<open>
  The properties of the contract layer and of the authority model: strict JSON, digests,
  relative paths, column texts, budgets, and what an authority manifest can permit.
\<close>

section \<open>Contracts\<close>

text \<open>C9 (strict JSON is I-JSON). What \<open>parse_strict_json\<close> accepts, from a tokenizer that uses its
  signed and unsigned callbacks as \<open>serde_json\<close> does, holds no float, no integer beyond 2^53 - 1 and
  no unordered or repeated key, and the canonicalizer never rejects it.\<close>

theorem strict_json_is_ijson:
  assumes "parse_strict_json E content max_bytes = Inr v" and "token_tree (fst (deserialize E content))"
  shows "ijson v \<and> reject_floats_and_large_integers v = Inr () \<and> length content \<le> max_bytes \<and> utf8_valid content"
proof -
  from assms(1) obtain raw where "deserialize E content = (raw, True)" "strict_visit raw = Inr v"
      "length content \<le> max_bytes" "utf8_valid content"
    unfolding parse_strict_json_Inr by blast
  with assms(2) strict_visit_ijson(1) [of raw v] show ?thesis by (simp add: ijson_not_rejected)
qed

theorem strict_json_is_ijson_witness:
  "parse_strict_json demo (enc demo_manifest) MAX_SAFE_JSON_BYTES = Inr demo_manifest \<and> ijson demo_manifest"
proof -
  have "length (enc demo_manifest) \<le> 2000"
    using length_enc_ledger [of demo_budget] by (simp add: demo_manifest_def json_object_def)
  then have p: "parse_strict_json demo (enc demo_manifest) MAX_SAFE_JSON_BYTES = Inr demo_manifest"
    by (simp add: demo_parse demo_manifest_ijson MAX_SAFE_JSON_BYTES_def)
  moreover have "token_tree (fst (deserialize demo (enc demo_manifest)))"
    using demo_json_laws by (simp add: json_laws_def)
  ultimately show ?thesis using strict_json_is_ijson by blast
qed

text \<open>No duplicate members: A document whose top-level object repeats a key, however far apart
  and whatever their values, is refused.\<close>

lemma duplicate_members_refused:
  assumes "deserialize E content = (RMap es, at_end)" and "\<not> distinct (map fst es)"
  shows "\<exists>e. parse_strict_json E content max_bytes = Inl e"
proof -
  have "strict_visit (RMap es) \<noteq> Inr v" for v
    using strict_map_distinct [of "{}" "[]" es] assms(2) by (auto simp: result_simps)
  with assms(1) have "parse_strict_json E content max_bytes \<noteq> Inr v" for v
    by (auto simp: parse_strict_json_Inr)
  then show ?thesis by (cases "parse_strict_json E content max_bytes") auto
qed

text \<open>Digests do not mix: Two digests of \<open>digest_json\<close> that agree were computed for the same
  purpose, the same schema and the same canonical text, unless the hash collides on two different
  preimages.\<close>

lemma digests_separated:
  assumes "digest_json E v p u = Inr d" and "digest_json E v' p' u' = Inr d"
    and "inj_on (sha256 E) (range (\<lambda>(p, u, c). digest_preimage p u c))"
  shows "p = p' \<and> u = u' \<and> canonical_json E v = canonical_json E v'"
proof -
  from assms(1,2) obtain c c' where c: "canonical_json E v = Inr c" "canonical_json E v' = Inr c'"
    and d: "d = ''sha256:'' @ hex_encode (sha256 E (digest_preimage p u c))"
      "d = ''sha256:'' @ hex_encode (sha256 E (digest_preimage p' u' c'))"
    and ok: "list_all purpose_byte p" "list_all purpose_byte p'" "known_schema_uri u" "known_schema_uri u'"
    unfolding digest_json_Inr by blast
  from d have "sha256 E (digest_preimage p u c) = sha256 E (digest_preimage p' u' c')"
    by (metis hex_encode_inj same_append_eq)
  moreover have "digest_preimage a b c \<in> range (\<lambda>(p, u, c). digest_preimage p u c)" for a b c
    by (rule range_eqI [of _ _ "(a, b, c)"]) simp
  ultimately have "digest_preimage p u c = digest_preimage p' u' c'"
    using assms(3) by (blast dest: inj_onD)
  from digest_preimage_inj [OF ok this] c show ?thesis by simp
qed

definition plain_demo :: env where
  "plain_demo = demo\<lparr>sha256 := (\<lambda>s. s)\<rparr>"

text \<open>Relative paths stay inside: A path that \<open>validate_relative_path\<close> accepts, joined to any
  directory and resolved component by component, stays below that directory.\<close>

lemma relative_path_inside:
  assumes "validate_relative_path p = Inr ()"
  shows "prefix dir (resolve dir (path_components p)) \<and> p \<noteq> [] \<and> \<not> has_control p"
proof -
  from assms have "\<not> list_ex (\<lambda>c. c = ParentDir \<or> c = RootDir) (path_components p)" "p \<noteq> []" "\<not> has_control p"
    by (auto simp: validate_relative_path_def split: if_splits)
  then show ?thesis using resolve_below by blast
qed

section \<open>Columns and life cycles\<close>

text \<open>Column texts: Every enumeration is stored as a text from which exactly it is read back, and
  no other text is read as that value.\<close>

lemma column_texts_roundtrip:
  "(parse_mode s = Inr m \<longleftrightarrow> s = mode_as_str m) \<and> (run_parse s = Inr r \<longleftrightarrow> s = run_as_str r)
    \<and> (stage_parse s = Inr st \<longleftrightarrow> s = stage_as_str st) \<and> (parse_cleanup s = Inr c \<longleftrightarrow> s = cleanup_as_str c)
    \<and> (class_parse s = Inr k \<longleftrightarrow> s = class_as_str k)"
  by (simp only: mode_text.parse_iff run_life.parse_iff stage_life.parse_iff cleanup_text.parse_iff
    class_text.parse_iff simp_thms)

text \<open>Life cycles: No transition leaves a terminal stage, and the only terminal run status that a
  transition leaves is \<open>interrupted\<close>, towards \<open>queued\<close>, \<open>cancelled\<close> or \<open>failed\<close>; every status
  that is not terminal can be left, and none is a transition to itself.\<close>

lemma life_cycles:
  "((\<forall>t. \<not> run_can_transition s t) \<longleftrightarrow> run_is_terminal s \<and> s \<noteq> Interrupted)
    \<and> (run_can_transition Interrupted t \<longleftrightarrow> t \<in> {Queued, Cancelled, Failed})
    \<and> ((\<forall>t. \<not> stage_can_transition x t) \<longleftrightarrow> stage_is_terminal x)
    \<and> \<not> run_can_transition s s \<and> \<not> stage_can_transition x x"
proof -
  have "(\<forall>t. \<not> run_can_transition s t) \<longleftrightarrow> run_is_terminal s \<and> s \<noteq> Interrupted"
    by (cases s) (auto simp: run_can_transition_def)
  moreover have "(\<forall>t. \<not> stage_can_transition x t) \<longleftrightarrow> stage_is_terminal x"
    by (cases x) (auto simp: stage_can_transition_def)
  ultimately show ?thesis
    using run_life.no_self_loop stage_life.no_self_loop by (simp add: run_can_transition_def)
qed

section \<open>Budgets and authority\<close>

text \<open>Budget arithmetic: \<open>checked_add\<close> succeeds exactly when, dimension by dimension, the result is
  the sum as natural numbers (so nothing wrapped) and is within the limit.\<close>

lemma budget_add_exact:
  "ledger_checked_add s d limit = Inr n \<longleftrightarrow>
     (\<forall>f \<in> {wall_ms, input_tokens, output_tokens, ledger_bytes, attempts}.
        unat (f n) = unat (f s) + unat (f d) \<and> f n \<le> f limit)"
  unfolding ledger_checked_add_Inr ledger_sum_def ledger_le_iff by auto

text \<open>What authority permits: \<open>permits\<close> grants an action only for a manifest that is not revoked, of
  mode inspect, audit or draft, approved in the past and not expired, whose digest is that of its
  canonical manifest, within the mode's ceiling; external model egress is never granted.\<close>

lemma permits_bounded:
  assumes "permits E a act"
  shows "act \<noteq> ExternalModelEgress \<and> permits_ceiling (au_mode a) act
    \<and> \<not> au_revoked a \<and> au_mode a \<in> {Inspect, Audit, Draft}
    \<and> (\<exists>t. parse_rfc3339 E (au_approved_at a) = Some t \<and> t \<le> now E)
    \<and> (\<forall>s. au_expires_at a = Some s \<longrightarrow> (\<exists>t. parse_rfc3339 E s = Some t \<and> now E < t))
    \<and> (\<exists>c. canonical_json E (au_manifest a) = Inr c
          \<and> au_manifest_digest a = ''sha256:'' @ hex_encode (sha256 E c))"
proof -
  from assms have ok: "validate_authority E a = Inr ()"
    by (auto simp: permits_def is_ok_iff split: if_splits)
  note v = validate_authority_Inr [OF ok] and s = validate_scope_Inr [OF validate_authority_Inr(10) [OF ok]]
  have "act \<noteq> ExternalModelEgress"
    using assms s(5) by (auto simp: permits_def Let_def split: if_splits)
  moreover from this assms have "permits_ceiling (au_mode a) act"
    by (auto simp: permits_def Let_def split: if_splits)
  ultimately show ?thesis using v(1,2,4,5,6) by blast
qed

end
