(* ===== verification/Egress_Proxy.thy ===== *)
theory Egress_Proxy
  imports Text_Tools Prelude
begin

text \<open>
  The egress proxy (\<open>rust/crates/promptectomy-egress-proxy/src/lib.rs\<close>): validation of its request
  file, the CONNECT parser, the address policy, the byte budget shared by concurrent tunnels, and
  the accept loop with its observations. The budget and the loop run under interleaving; they are
  step relations whose invariants hold for every schedule.
\<close>

section \<open>Requests\<close>

datatype proxy_error =
    RequestUnavailable
  | InvalidRequest
  | ResolutionDenied
  | ListenFailed
  | ObservationWriteFailed

datatype connection_error = Denied | Io | TimedOut | ByteLimit

record destination =
  dst_host :: string
  dst_port :: u16

record proxy_request =
  pr_schema_version :: string
  pr_manifest_digest :: string
  pr_destination :: destination
  pr_max_connections :: u64
  pr_max_request_bytes :: u64
  pr_max_headers :: u64
  pr_max_tunnel_bytes :: u64
  pr_max_connection_seconds :: u64
  pr_wall_time_seconds :: u64

definition REQUEST_VERSION :: string where
  "REQUEST_VERSION = ''promptectomy.egress-proxy-request.v1''"

definition WORKER_DONE_VERSION :: string where
  "WORKER_DONE_VERSION = ''promptectomy.remote-worker-done.v1''"

definition HARD_MAX_CONNECTIONS :: u64 where "HARD_MAX_CONNECTIONS = 16"
definition HARD_MAX_REQUEST_BYTES :: u64 where "HARD_MAX_REQUEST_BYTES = 16384"
definition HARD_MAX_HEADERS :: u64 where "HARD_MAX_HEADERS = 64"
definition HARD_MAX_TUNNEL_BYTES :: u64 where "HARD_MAX_TUNNEL_BYTES = 2147483648"
definition HARD_MAX_CONNECTION_SECONDS :: u64 where "HARD_MAX_CONNECTION_SECONDS = 300"
definition HARD_MAX_WALL_SECONDS :: u64 where "HARD_MAX_WALL_SECONDS = 600"

lemmas hard_limits = HARD_MAX_CONNECTIONS_def HARD_MAX_REQUEST_BYTES_def HARD_MAX_HEADERS_def
  HARD_MAX_TUNNEL_BYTES_def HARD_MAX_CONNECTION_SECONDS_def HARD_MAX_WALL_SECONDS_def

definition ALLOWED_HOSTS :: "string list" where
  "ALLOWED_HOSTS = [''bitbucket.org'', ''codeberg.org'', ''git.sr.ht'', ''github.com'', ''gitlab.com'']"

definition is_digest :: "string \<Rightarrow> bool" where
  "is_digest v \<longleftrightarrow> length v = 71 \<and> starts_with ''sha256:'' v
     \<and> list_all (\<lambda>b. is_ascii_digit b \<or> (CHR ''a'' \<le> b \<and> b \<le> CHR ''f'')) (drop 7 v)"

definition validate_host :: "string \<Rightarrow> proxy_error + unit" where
  "validate_host host =
     (if host = [] \<or> length host > 253 \<or> parses_as_ipv4 host
         \<or> list_ex (\<lambda>l. \<not> host_label l) (split_on CHR ''.'' host)
      then Inl InvalidRequest else Inr ())"

definition validate_request :: "proxy_request \<Rightarrow> proxy_error + unit" where
  "validate_request r =
     (if pr_schema_version r \<noteq> REQUEST_VERSION
         \<or> \<not> is_digest (pr_manifest_digest r)
         \<or> dst_port (pr_destination r) \<notin> {22, 443}
         \<or> dst_host (pr_destination r) \<notin> set ALLOWED_HOSTS
         \<or> pr_max_connections r = 0 \<or> pr_max_connections r > HARD_MAX_CONNECTIONS
         \<or> pr_max_request_bytes r < 64 \<or> pr_max_request_bytes r > HARD_MAX_REQUEST_BYTES
         \<or> pr_max_headers r = 0 \<or> pr_max_headers r > HARD_MAX_HEADERS
         \<or> pr_max_tunnel_bytes r = 0 \<or> pr_max_tunnel_bytes r > HARD_MAX_TUNNEL_BYTES
         \<or> pr_max_connection_seconds r = 0 \<or> pr_max_connection_seconds r > HARD_MAX_CONNECTION_SECONDS
         \<or> pr_wall_time_seconds r = 0 \<or> pr_wall_time_seconds r > HARD_MAX_WALL_SECONDS
      then Inl InvalidRequest
      else bindE (validate_host (dst_host (pr_destination r))) (\<lambda>_. Inr ()))"

section \<open>The CONNECT parser\<close>

abbreviation CR :: char where "CR \<equiv> CHR 0x0D"
abbreviation LF :: char where "LF \<equiv> CHR 0x0A"

definition CRLF :: string where
  "CRLF = [CR, LF]"

text \<open>\<open>str::split("\r\n")\<close>.\<close>

fun split_crlf :: "string \<Rightarrow> string list" where
  "split_crlf [] = [[]]"
| "split_crlf [c] = [[c]]"
| "split_crlf (c # d # s) =
     (if c = CR \<and> d = LF then [] # split_crlf s
      else case split_crlf (d # s) of [] \<Rightarrow> [[c]] | p # ps \<Rightarrow> (c # p) # ps)"

definition is_ascii_whitespace :: "char \<Rightarrow> bool" where
  "is_ascii_whitespace c \<longleftrightarrow> c = CHR '' '' \<or> (9 \<le> byte_code c \<and> byte_code c \<le> 13)"

definition trim :: "string \<Rightarrow> string" where
  "trim s = rev (dropWhile is_ascii_whitespace (rev (dropWhile is_ascii_whitespace s)))"

definition authority_of :: "destination \<Rightarrow> string" where
  "authority_of dst = dst_host dst @ CHR '':'' # decimal (unat (dst_port dst))"

text \<open>One header line: its lower-cased meaning for the loop, or the refusal.\<close>

definition header_name_ok :: "string \<Rightarrow> bool" where
  "header_name_ok name \<longleftrightarrow> name \<noteq> [] \<and> list_all (\<lambda>b. is_ascii_alphanumeric b \<or> b = CHR ''-'') name"

definition header_value_ok :: "string \<Rightarrow> bool" where
  "header_value_ok v \<longleftrightarrow> \<not> list_ex (\<lambda>b. is_ascii_control b \<and> b \<noteq> CHR 0x09) v"

definition forbidden_header :: "string \<Rightarrow> string \<Rightarrow> bool" where
  "forbidden_header name v \<longleftrightarrow>
     eq_ignore_ascii_case name ''proxy-authorization''
     \<or> eq_ignore_ascii_case name ''authorization''
     \<or> eq_ignore_ascii_case name ''transfer-encoding''
     \<or> (eq_ignore_ascii_case name ''content-length'' \<and> v \<noteq> ''0'')"

fun check_headers :: "proxy_request \<Rightarrow> nat \<Rightarrow> nat \<Rightarrow> string list \<Rightarrow> connection_error + nat" where
  "check_headers r header_count host_count [] = Inr host_count"
| "check_headers r header_count host_count (line # rest) =
     (if header_count + 1 > unat (pr_max_headers r) \<or> line = [] then Inl Denied
      else
        bindE (ok_or Denied (split_once CHR '':'' line)) (\<lambda>(name, raw).
          if \<not> header_name_ok name \<or> \<not> header_value_ok raw then Inl Denied
          else
            let v = trim raw; is_host = eq_ignore_ascii_case name ''host'' in
            if is_host \<and> v \<noteq> authority_of (pr_destination r) then Inl Denied
            else if forbidden_header name v then Inl Denied
            else check_headers r (header_count + 1) (if is_host then host_count + 1 else host_count) rest))"

definition parse_connect_request :: "string \<Rightarrow> proxy_request \<Rightarrow> connection_error + unit" where
  "parse_connect_request b r =
     (if length b > unat (pr_max_request_bytes r) \<or> \<not> ends_with (CRLF @ CRLF) b \<or> \<not> list_all is_ascii b
      then Inl Denied
      else
        let parts = split_crlf (take (length b - 4) b) in
        if hd parts \<noteq> ''CONNECT '' @ authority_of (pr_destination r) @ '' HTTP/1.1'' then Inl Denied
        else bindE (check_headers r 0 0 (tl parts)) (\<lambda>hosts.
          if hosts \<noteq> 1 then Inl Denied else Inr ()))"

text \<open>\<open>read_connect_request\<close>: byte by byte until the blank line; a stream that ends is an I/O error.\<close>

fun read_connect_request :: "proxy_request \<Rightarrow> string \<Rightarrow> string \<Rightarrow> (connection_error + unit) \<times> string" where
  "read_connect_request r b stream =
     (if ends_with (CRLF @ CRLF) b then (parse_connect_request b r, stream)
      else if length b \<ge> unat (pr_max_request_bytes r) then (Inl Denied, stream)
      else (case stream of [] \<Rightarrow> (Inl Io, []) | c # rest \<Rightarrow> read_connect_request r (b @ [c]) rest))"

declare read_connect_request.simps [simp del]

section \<open>Addresses\<close>

datatype ip_addr = V4 u32 | V6 u128

definition in_v4_prefix :: "u32 \<Rightarrow> u32 \<Rightarrow> nat \<Rightarrow> bool" where
  "in_v4_prefix v network pre \<longleftrightarrow> and v (push_bit (32 - pre) (- 1)) = network"

definition is_global_v4 :: "u32 \<Rightarrow> bool" where
  "is_global_v4 v \<longleftrightarrow> \<not> list_ex (\<lambda>(network, pre). in_v4_prefix v network pre)
     [(0x00000000, 8), (0x0a000000, 8), (0x64400000, 10), (0x7f000000, 8), (0xa9fe0000, 16),
      (0xac100000, 12), (0xc0000000, 24), (0xc0000200, 24), (0xc0586300, 24), (0xc0a80000, 16),
      (0xc6120000, 15), (0xc6336400, 24), (0xcb007100, 24), (0xe0000000, 3)]"

definition in_v6_prefix :: "u128 \<Rightarrow> u128 \<Rightarrow> nat \<Rightarrow> bool" where
  "in_v6_prefix v network pre \<longleftrightarrow> and v (push_bit (128 - pre) (- 1)) = network"

definition is_global_v6 :: "u128 \<Rightarrow> bool" where
  "is_global_v6 v \<longleftrightarrow>
     in_v6_prefix v 0x20000000000000000000000000000000 3
     \<and> \<not> list_ex (\<lambda>(network, pre). in_v6_prefix v network pre)
         [(0x20010000000000000000000000000000, 23), (0x20010db8000000000000000000000000, 32),
          (0x3fff0000000000000000000000000000, 20)]"

fun is_global_ip :: "ip_addr \<Rightarrow> bool" where
  "is_global_ip (V4 v) = is_global_v4 v"
| "is_global_ip (V6 v) = is_global_v6 v"

text \<open>The derived order of \<open>IpAddr\<close>, by which a \<open>BTreeSet\<close> iterates.\<close>

instantiation ip_addr :: linorder
begin

fun less_eq_ip_addr :: "ip_addr \<Rightarrow> ip_addr \<Rightarrow> bool" where
  "V4 a \<le> V4 b \<longleftrightarrow> a \<le> b"
| "V4 a \<le> V6 b \<longleftrightarrow> True"
| "V6 a \<le> V4 b \<longleftrightarrow> False"
| "V6 a \<le> V6 b \<longleftrightarrow> a \<le> b"

definition less_ip_addr :: "ip_addr \<Rightarrow> ip_addr \<Rightarrow> bool" where
  "less_ip_addr a b \<longleftrightarrow> a \<le> b \<and> \<not> b \<le> a"

instance
proof
  fix a b c :: ip_addr
  show "a < b \<longleftrightarrow> a \<le> b \<and> \<not> b \<le> a" by (simp add: less_ip_addr_def)
  show "a \<le> a" by (cases a) auto
  show "a \<le> b \<Longrightarrow> b \<le> c \<Longrightarrow> a \<le> c" by (cases a; cases b; cases c) auto
  show "a \<le> b \<Longrightarrow> b \<le> a \<Longrightarrow> a = b" by (cases a; cases b) auto
  show "a \<le> b \<or> b \<le> a" by (cases a; cases b) auto
qed

end

text \<open>\<open>resolve_once\<close> on what the resolver answered (\<open>None\<close> for a failure).\<close>

definition resolve_once :: "ip_addr list option \<Rightarrow> proxy_error + ip_addr" where
  "resolve_once resolved =
     bindE (ok_or ResolutionDenied resolved) (\<lambda>addresses.
       if list_ex (\<lambda>a. \<not> is_global_ip a) addresses then Inl ResolutionDenied
       else (case sort (remdups addresses) of [] \<Rightarrow> Inl ResolutionDenied | a # _ \<Rightarrow> Inr a))"

section \<open>The byte budget\<close>

text \<open>
  \<open>copy_limited\<close> runs once per direction of every connection; all of them share \<open>total\<close> and each
  has its own \<open>direction\<close> counter. The program counter of one such task is where it stands in
  \<open>reserve_bytes\<close>: about to load \<open>total\<close>, about to compare-and-exchange from the value it has
  seen, about to add to its direction, writing, or stopped by the limit, the end of its input or a failure. A weak
  compare-and-exchange may fail spuriously, and a failed or cancelled write may have written a part.
\<close>

datatype copy_pc = Reading | Loading u64 | Exchanging u64 u64 | Counting u64 | Writing u64 | Stopped

record budget_state =
  b_total :: u64
  b_direction :: "nat \<Rightarrow> u64"
  b_pc :: "nat \<Rightarrow> copy_pc"
  b_written :: "nat \<Rightarrow> nat"

definition COPY_BUFFER :: nat where
  "COPY_BUFFER = 16 * 1024"

definition set_pc :: "nat \<Rightarrow> copy_pc \<Rightarrow> budget_state \<Rightarrow> budget_state" where
  "set_pc i pc b = b\<lparr>b_pc := (b_pc b)(i := pc)\<rparr>"

inductive budget_step :: "u64 \<Rightarrow> budget_state \<Rightarrow> budget_state \<Rightarrow> bool" for limit where
  read_some: "b_pc b i = Reading \<Longrightarrow> 0 < n \<Longrightarrow> n \<le> COPY_BUFFER \<Longrightarrow>
    budget_step limit b (set_pc i (Loading (word_of_nat n)) b)"
| read_end: "b_pc b i = Reading \<Longrightarrow> budget_step limit b (set_pc i Stopped b)"
| load: "b_pc b i = Loading c \<Longrightarrow> budget_step limit b (set_pc i (Exchanging c (b_total b)) b)"
| over_limit: "b_pc b i = Exchanging c current \<Longrightarrow>
    (case checked_add_u64 current c of None \<Rightarrow> True | Some nxt \<Rightarrow> nxt > limit) \<Longrightarrow>
    budget_step limit b (set_pc i Stopped b)"
| exchanged: "b_pc b i = Exchanging c current \<Longrightarrow> checked_add_u64 current c = Some nxt \<Longrightarrow>
    nxt \<le> limit \<Longrightarrow> b_total b = current \<Longrightarrow>
    budget_step limit b (set_pc i (Counting c) (b\<lparr>b_total := nxt\<rparr>))"
| retry: "b_pc b i = Exchanging c current \<Longrightarrow> checked_add_u64 current c = Some nxt \<Longrightarrow> nxt \<le> limit \<Longrightarrow>
    budget_step limit b (set_pc i (Exchanging c (b_total b)) b)"
| count: "b_pc b i = Counting c \<Longrightarrow>
    budget_step limit b (set_pc i (Writing c) (b\<lparr>b_direction := (b_direction b)(i := b_direction b i + c)\<rparr>))"
| written: "b_pc b i = Writing c \<Longrightarrow>
    budget_step limit b (set_pc i Reading (b\<lparr>b_written := (b_written b)(i := b_written b i + unat c)\<rparr>))"
| broken: "b_pc b i = Writing c \<Longrightarrow> k \<le> unat c \<Longrightarrow>
    budget_step limit b (set_pc i Stopped (b\<lparr>b_written := (b_written b)(i := b_written b i + k)\<rparr>))"

definition budget_start :: budget_state where
  "budget_start = \<lparr>b_total = 0, b_direction = (\<lambda>_. 0), b_pc = (\<lambda>_. Reading), b_written = (\<lambda>_. 0)\<rparr>"

text \<open>What a task has reserved but not yet counted, and counted but not yet written.\<close>

fun reserved :: "copy_pc \<Rightarrow> nat" where
  "reserved (Counting c) = unat c"
| "reserved _ = 0"

fun in_flight :: "copy_pc \<Rightarrow> nat" where
  "in_flight (Writing c) = unat c"
| "in_flight _ = 0"

text \<open>The tasks that have started; the others have not moved.\<close>

definition budget_ok :: "u64 \<Rightarrow> nat \<Rightarrow> budget_state \<Rightarrow> bool" where
  "budget_ok limit n b \<longleftrightarrow>
     b_total b \<le> limit
     \<and> (\<forall>i\<ge>n. b_pc b i = Reading \<and> b_direction b i = 0 \<and> b_written b i = 0)
     \<and> unat (b_total b) = (\<Sum>i<n. unat (b_direction b i) + reserved (b_pc b i))
     \<and> (\<forall>i<n. b_written b i + in_flight (b_pc b i) \<le> unat (b_direction b i))"

lemma sum_upd_nat:
  fixes f g :: "nat \<Rightarrow> nat"
  assumes "i < n" "\<And>j. j \<noteq> i \<Longrightarrow> g j = f j"
  shows "(\<Sum>j<n. g j) + f i = (\<Sum>j<n. f j) + g i"
proof -
  have "(\<Sum>j<n. g j) = g i + (\<Sum>j\<in>{..<n} - {i}. g j)" using assms(1) by (simp add: sum.remove)
  moreover have "(\<Sum>j<n. f j) = f i + (\<Sum>j\<in>{..<n} - {i}. f j)" using assms(1) by (simp add: sum.remove)
  moreover have "(\<Sum>j\<in>{..<n} - {i}. g j) = (\<Sum>j\<in>{..<n} - {i}. f j)" using assms(2) by (intro sum.cong) auto
  ultimately show ?thesis by simp
qed

lemma direction_le_total:
  assumes "budget_ok limit n b" and "i < n"
  shows "unat (b_direction b i) + reserved (b_pc b i) \<le> unat (b_total b)"
proof -
  have "unat (b_direction b i) + reserved (b_pc b i) \<le> (\<Sum>i<n. unat (b_direction b i) + reserved (b_pc b i))"
    using assms(2) by (intro member_le_sum) auto
  with assms(1) show ?thesis by (simp add: budget_ok_def)
qed

lemma budget_ok_extend: "budget_ok limit n b \<Longrightarrow> n \<le> m \<Longrightarrow> budget_ok limit m b"
proof -
  assume ok: "budget_ok limit n b" and le: "n \<le> m"
  have "(\<Sum>i<m. unat (b_direction b i) + reserved (b_pc b i)) = (\<Sum>i<n. unat (b_direction b i) + reserved (b_pc b i))"
    using le ok by (intro sum.mono_neutral_right) (auto simp: budget_ok_def)
  moreover have "b_written b i + in_flight (b_pc b i) \<le> unat (b_direction b i)" for i
    using ok by (cases "i < n") (auto simp: budget_ok_def)
  ultimately show ?thesis using ok le by (auto simp: budget_ok_def)
qed

lemma budget_ok_move:
  assumes ok: "budget_ok limit n b" and i: "i < n"
    and total: "unat t = unat (b_total b) + reserved pc + unat dir - reserved (b_pc b i) - unat (b_direction b i)"
    and le: "unat (b_direction b i) + reserved (b_pc b i) \<le> unat (b_total b) + reserved pc + unat dir"
    and limit: "t \<le> limit" and w: "w + in_flight pc \<le> unat dir"
    and b': "b' = \<lparr>b_total = t, b_direction = (b_direction b)(i := dir), b_pc = (b_pc b)(i := pc),
        b_written = (b_written b)(i := w)\<rparr>"
  shows "budget_ok limit n b'"
proof -
  let ?f = "\<lambda>b j. unat (b_direction b j) + reserved (b_pc b j)"
  have "(\<Sum>j<n. ?f b' j) + ?f b i = (\<Sum>j<n. ?f b j) + ?f b' i"
    by (rule sum_upd_nat [OF i]) (simp add: b')
  with ok total le have "unat t = (\<Sum>j<n. ?f b' j)" by (simp add: budget_ok_def b')
  with ok limit w i show ?thesis by (auto simp: budget_ok_def b')
qed

text \<open>A step of the program counter that reserves nothing.\<close>

lemma budget_ok_pc:
  assumes "budget_ok limit n b" and "reserved pc = reserved (b_pc b i)" "in_flight pc \<le> in_flight (b_pc b i)"
  shows "budget_ok limit (max n (Suc i)) (set_pc i pc b)"
proof -
  have ok: "budget_ok limit (max n (Suc i)) b" using assms(1) by (rule budget_ok_extend) simp
  have "b_written b i + in_flight (b_pc b i) \<le> unat (b_direction b i)" using ok by (simp add: budget_ok_def)
  with assms(3) have "b_written b i + in_flight pc \<le> unat (b_direction b i)" by simp
  with ok assms(2) show ?thesis
    by (intro budget_ok_move [OF ok, of i "b_total b" pc "b_direction b i" "b_written b i"])
      (auto simp: set_pc_def budget_ok_def)
qed

lemma budget_step_pc:
  "budget_ok limit n b \<Longrightarrow> reserved pc = reserved (b_pc b i) \<Longrightarrow> in_flight pc \<le> in_flight (b_pc b i) \<Longrightarrow>
     \<exists>m. budget_ok limit m (set_pc i pc b)"
  using budget_ok_pc by blast

lemma budget_moving: "budget_ok limit n b \<Longrightarrow> b_pc b i \<noteq> Reading \<Longrightarrow> i < n"
  by (meson budget_ok_def not_less)

lemma budget_step_ok:
  assumes step: "budget_step limit b b'" and ok: "budget_ok limit n b"
  shows "\<exists>m. budget_ok limit m b'"
  using step
proof cases
  case (exchanged i c current nxt)
  then have i: "i < n" using budget_moving [OF ok] by simp
  have "unat nxt = unat (b_total b) + unat c" using exchanged by (simp add: checked_add_u64_unat)
  then show ?thesis
    using exchanged ok i by (intro exI [of _ n] budget_ok_move [OF ok i, of nxt "Counting c" "b_direction b i" "b_written b i"])
      (auto simp: set_pc_def budget_ok_def)
next
  case (count i c)
  then have i: "i < n" using budget_moving [OF ok] by simp
  have "unat (b_direction b i) + unat c \<le> unat (b_total b)"
    using direction_le_total [OF ok i] count by simp
  then have "unat (b_direction b i + c) = unat (b_direction b i) + unat c"
    using unat_u64_less [of "b_total b"] by (intro unat_add_u64) simp
  then show ?thesis
    using count ok i by (intro exI [of _ n] budget_ok_move [OF ok i, of "b_total b" "Writing c" "b_direction b i + c" "b_written b i"])
      (auto simp: set_pc_def budget_ok_def)
next
  case (written i c)
  then have i: "i < n" using budget_moving [OF ok] by simp
  show ?thesis
    using written ok i by (intro exI [of _ n] budget_ok_move [OF ok i, of "b_total b" Reading "b_direction b i" "b_written b i + unat c"])
      (auto simp: set_pc_def budget_ok_def)
next
  case (broken i c k)
  then have i: "i < n" using budget_moving [OF ok] by simp
  show ?thesis
    using broken ok i by (intro exI [of _ n] budget_ok_move [OF ok i, of "b_total b" Stopped "b_direction b i" "b_written b i + k"])
      (auto simp: set_pc_def budget_ok_def)
qed (auto intro!: budget_step_pc [OF ok])

lemma budget_steps_ok: "(budget_step limit)\<^sup>*\<^sup>* budget_start b \<Longrightarrow> \<exists>n. budget_ok limit n b"
proof (induction rule: rtranclp_induct)
  case base
  show ?case by (intro exI [of _ 0]) (simp add: budget_ok_def budget_start_def)
next
  case (step b b')
  then show ?case using budget_step_ok by blast
qed

lemma budget_bound:
  assumes "(budget_step limit)\<^sup>*\<^sup>* budget_start b"
  shows "(\<Sum>i<n. b_written b i) \<le> unat limit"
    and "(\<Sum>i<n. unat (b_direction b i)) \<le> unat (b_total b)" "b_total b \<le> limit"
proof -
  obtain m where m: "budget_ok limit m b" using budget_steps_ok [OF assms] by blast
  then have ok: "budget_ok limit (max n m) b" by (rule budget_ok_extend) simp
  have "(\<Sum>i<n. unat (b_direction b i)) \<le> (\<Sum>i<max n m. unat (b_direction b i) + reserved (b_pc b i))"
    by (rule order_trans [OF sum_mono2 [of "{..<max n m}" "{..<n}"]]) (auto intro: sum_mono)
  then show total: "(\<Sum>i<n. unat (b_direction b i)) \<le> unat (b_total b)"
    using ok by (simp add: budget_ok_def)
  show lim: "b_total b \<le> limit" using ok by (simp add: budget_ok_def)
  have "(\<Sum>i<n. b_written b i) \<le> (\<Sum>i<n. unat (b_direction b i))"
  proof (rule sum_mono)
    fix i assume "i \<in> {..<n}"
    then have "b_written b i + in_flight (b_pc b i) \<le> unat (b_direction b i)" using ok by (simp add: budget_ok_def)
    then show "b_written b i \<le> unat (b_direction b i)" by simp
  qed
  with total lim show "(\<Sum>i<n. b_written b i) \<le> unat limit" by (simp add: word_le_nat_alt)
qed

section \<open>The accept loop\<close>

record proxy_observations =
  ob_schema_version :: string
  ob_manifest_digest :: string
  ob_observed_destinations :: "destination list"
  ob_enforcement :: string
  ob_resolved_ip :: string
  ob_accepted :: u64
  ob_rejected :: u64
  ob_sent :: u64
  ob_received :: u64
  ob_byte_limit_exceeded :: bool
  ob_terminal :: bool

definition apply_outcome ::
  "proxy_observations \<Rightarrow> proxy_request \<Rightarrow> connection_error + (u64 \<times> u64) \<Rightarrow> proxy_observations" where
  "apply_outcome ob r outcome =
     (case outcome of
        Inr (sent, received) \<Rightarrow>
          ob\<lparr>ob_accepted := saturating_add_u64 (ob_accepted ob) 1,
             ob_sent := saturating_add_u64 (ob_sent ob) sent,
             ob_received := saturating_add_u64 (ob_received ob) received,
             ob_observed_destinations :=
               (if ob_observed_destinations ob = [] then [pr_destination r] else ob_observed_destinations ob)\<rparr>
      | Inl e \<Rightarrow>
          if e = ByteLimit
          then ob\<lparr>ob_rejected := saturating_add_u64 (ob_rejected ob) 1, ob_byte_limit_exceeded := True\<rparr>
          else ob\<lparr>ob_rejected := saturating_add_u64 (ob_rejected ob) 1\<rparr>)"

definition record_rejection :: "proxy_observations \<Rightarrow> proxy_observations" where
  "record_rejection ob = ob\<lparr>ob_rejected := saturating_add_u64 (ob_rejected ob) 1\<rparr>"

definition observations_start :: "proxy_request \<Rightarrow> string \<Rightarrow> proxy_observations" where
  "observations_start r ip =
     \<lparr>ob_schema_version = ''promptectomy.egress-proxy.v2'', ob_manifest_digest = pr_manifest_digest r,
      ob_observed_destinations = [], ob_enforcement = ''application_connect_proxy'',
      ob_resolved_ip = ip, ob_accepted = 0, ob_rejected = 0, ob_sent = 0, ob_received = 0,
      ob_byte_limit_exceeded = False, ob_terminal = False\<rparr>"

text \<open>
  \<open>serve\<close>: connections that hold a permit, and where the loop stands. \<open>sv_attempts\<close> counts the
  connections the listener has handed over; the code does not keep it.
\<close>

datatype serve_phase = Accepting | Draining | Finished | Aborted

record server =
  sv_phase :: serve_phase
  sv_running :: nat
  sv_observations :: proxy_observations
  sv_attempts :: nat

inductive serve_step :: "proxy_request \<Rightarrow> server \<Rightarrow> server \<Rightarrow> bool" for r where
  accept: "sv_phase s = Accepting \<Longrightarrow> sv_running s < unat (pr_max_connections r) \<Longrightarrow>
    serve_step r s (s\<lparr>sv_running := Suc (sv_running s), sv_attempts := Suc (sv_attempts s)\<rparr>)"
| refuse: "sv_phase s = Accepting \<Longrightarrow> unat (pr_max_connections r) \<le> sv_running s \<Longrightarrow>
    serve_step r s (s\<lparr>sv_observations := record_rejection (sv_observations s), sv_attempts := Suc (sv_attempts s)\<rparr>)"
| finish: "sv_phase s \<in> {Accepting, Draining} \<Longrightarrow> sv_running s = Suc n \<Longrightarrow>
    serve_step r s (s\<lparr>sv_running := n, sv_observations := apply_outcome (sv_observations s) r outcome\<rparr>)"
| worker_done: "sv_phase s = Accepting \<Longrightarrow> serve_step r s (s\<lparr>sv_phase := Draining\<rparr>)"
| drained: "sv_phase s = Draining \<Longrightarrow> sv_running s = 0 \<Longrightarrow>
    serve_step r s (s\<lparr>sv_phase := Finished, sv_observations := (sv_observations s)\<lparr>ob_terminal := True\<rparr>\<rparr>)"
| abort: "sv_phase s \<in> {Accepting, Draining} \<Longrightarrow> serve_step r s (s\<lparr>sv_phase := Aborted\<rparr>)"

definition serve_start :: "proxy_request \<Rightarrow> string \<Rightarrow> server" where
  "serve_start r ip = \<lparr>sv_phase = Accepting, sv_running = 0, sv_observations = observations_start r ip, sv_attempts = 0\<rparr>"

definition server_ok :: "proxy_request \<Rightarrow> server \<Rightarrow> bool" where
  "server_ok r s \<longleftrightarrow>
     (let ob = sv_observations s in
      sv_running s \<le> unat (pr_max_connections r)
      \<and> (ob_terminal ob \<longleftrightarrow> sv_phase s = Finished)
      \<and> (sv_phase s = Finished \<longrightarrow> sv_running s = 0)
      \<and> ob_manifest_digest ob = pr_manifest_digest r
      \<and> ob_observed_destinations ob = (if ob_accepted ob = 0 then [] else [pr_destination r])
      \<and> (sv_attempts s < 2 ^ 64 \<longrightarrow> unat (ob_accepted ob) + unat (ob_rejected ob) + sv_running s = sv_attempts s))"

lemma saturating_pos: "saturating_add_u64 a 1 \<noteq> 0"
proof -
  have "unat (saturating_add_u64 a 1) \<noteq> 0" by (simp add: unat_saturating_add_u64)
  then show ?thesis by auto
qed

lemma apply_outcome_counts:
  "unat (ob_accepted ob) + unat (ob_rejected ob) < 2 ^ 64 - 1 \<Longrightarrow>
     unat (ob_accepted (apply_outcome ob r o1)) + unat (ob_rejected (apply_outcome ob r o1))
       = unat (ob_accepted ob) + unat (ob_rejected ob) + 1"
  by (auto simp: apply_outcome_def unat_saturating_add_u64 split: sum.split)

lemma apply_outcome_keeps:
  "ob_manifest_digest (apply_outcome ob r o1) = ob_manifest_digest ob"
  "ob_terminal (apply_outcome ob r o1) = ob_terminal ob"
  "ob_observed_destinations ob = (if ob_accepted ob = 0 then [] else [pr_destination r]) \<Longrightarrow>
     ob_observed_destinations (apply_outcome ob r o1)
       = (if ob_accepted (apply_outcome ob r o1) = 0 then [] else [pr_destination r])"
  by (auto simp: apply_outcome_def saturating_pos split: sum.split)

lemma serve_step_ok:
  assumes step: "serve_step r s s'" and ok: "server_ok r s"
  shows "server_ok r s'"
  using step
proof cases
  case (finish n outcome)
  let ?ob = "sv_observations s"
  have "unat (ob_accepted (apply_outcome ?ob r outcome)) + unat (ob_rejected (apply_outcome ?ob r outcome)) + n = sv_attempts s"
    if "sv_attempts s < 2 ^ 64"
  proof -
    have "unat (ob_accepted ?ob) + unat (ob_rejected ?ob) + Suc n = sv_attempts s"
      using ok that finish by (simp add: server_ok_def Let_def)
    with that apply_outcome_counts [of ?ob r outcome] show ?thesis by simp
  qed
  with ok finish apply_outcome_keeps show ?thesis by (auto simp: server_ok_def Let_def)
next
  case refuse
  with ok show ?thesis by (auto simp: server_ok_def Let_def record_rejection_def unat_saturating_add_u64)
qed (use ok in \<open>auto simp: server_ok_def Let_def\<close>)

lemma serve_steps_ok: "(serve_step r)\<^sup>*\<^sup>* (serve_start r ip) s \<Longrightarrow> server_ok r s"
proof (induction rule: rtranclp_induct)
  case base
  show ?case by (simp add: server_ok_def serve_start_def observations_start_def)
next
  case (step s s')
  then show ?case using serve_step_ok by blast
qed

section \<open>What an accepted request looks like\<close>

lemma split_crlf_not_Nil [simp]: "split_crlf s \<noteq> []"
  by (induction s rule: split_crlf.induct) (auto split: list.split)

lemma join_split_crlf: "hd (split_crlf s) @ concat (map (\<lambda>p. CRLF @ p) (tl (split_crlf s))) = s"
proof (induction s rule: split_crlf.induct)
  case (3 c d s)
  show ?case
  proof (cases "c = CR \<and> d = LF")
    case True
    then have "split_crlf (c # d # s) = [] # split_crlf s" by simp
    moreover have "concat (map (\<lambda>p. CRLF @ p) (split_crlf s)) = CRLF @ s"
      using 3(1) [OF True] by (cases "split_crlf s") auto
    ultimately show ?thesis using True by (simp add: CRLF_def)
  next
    case False
    then show ?thesis using 3(2) [OF False] by (auto split: list.split simp: split_crlf_not_Nil [symmetric])
  qed
qed simp_all

definition is_host_line :: "string \<Rightarrow> bool" where
  "is_host_line line \<longleftrightarrow> (\<exists>name raw. split_once CHR '':'' line = Some (name, raw) \<and> eq_ignore_ascii_case name ''host'')"

definition header_ok :: "proxy_request \<Rightarrow> string \<Rightarrow> bool" where
  "header_ok r line \<longleftrightarrow>
     (\<exists>name raw. split_once CHR '':'' line = Some (name, raw) \<and> header_name_ok name \<and> header_value_ok raw
        \<and> (eq_ignore_ascii_case name ''host'' \<longrightarrow> trim raw = authority_of (pr_destination r))
        \<and> \<not> forbidden_header name (trim raw))"

lemma check_headers_Inr:
  "check_headers r k h lns = Inr n \<Longrightarrow>
     (lns \<noteq> [] \<longrightarrow> k + length lns \<le> unat (pr_max_headers r))
     \<and> (\<forall>l\<in>set lns. header_ok r l) \<and> n = h + length (filter is_host_line lns)"
proof (induction lns arbitrary: k h)
  case (Cons line rest)
  from Cons.prems obtain name raw where
    sp: "split_once CHR '':'' line = Some (name, raw)" and ok: "header_name_ok name" "header_value_ok raw"
    and host: "eq_ignore_ascii_case name ''host'' \<Longrightarrow> trim raw = authority_of (pr_destination r)"
    and allowed: "\<not> forbidden_header name (trim raw)"
    and count: "k + 1 \<le> unat (pr_max_headers r)"
    and rest: "check_headers r (k + 1) (if eq_ignore_ascii_case name ''host'' then h + 1 else h) rest = Inr n"
    by (auto simp: result_simps Let_def split: if_splits prod.splits)
  have "header_ok r line" unfolding header_ok_def using sp ok host allowed by blast
  moreover have "is_host_line line \<longleftrightarrow> eq_ignore_ascii_case name ''host''" using sp by (simp add: is_host_line_def)
  ultimately show ?case using Cons.IH [OF rest] count by (cases rest) auto
qed auto

lemma ends_with_drop: "ends_with p s \<Longrightarrow> s = take (length s - length p) s @ p"
  unfolding ends_with_def by (metis append_take_drop_id)

lemma parse_connect_request_Inr:
  assumes "parse_connect_request b r = Inr ()"
  obtains hs where "b = ''CONNECT '' @ authority_of (pr_destination r) @ '' HTTP/1.1''
      @ concat (map (\<lambda>h. CRLF @ h) hs) @ CRLF @ CRLF"
    and "length b \<le> unat (pr_max_request_bytes r)" "length hs \<le> unat (pr_max_headers r)"
    and "\<forall>h\<in>set hs. header_ok r h" and "length (filter is_host_line hs) = 1"
proof -
  define t where "t = take (length b - 4) b"
  from assms have len: "length b \<le> unat (pr_max_request_bytes r)" and ew: "ends_with (CRLF @ CRLF) b"
    and hd: "hd (split_crlf t) = ''CONNECT '' @ authority_of (pr_destination r) @ '' HTTP/1.1''"
    and ch: "check_headers r 0 0 (tl (split_crlf t)) = Inr 1"
    by (auto simp: parse_connect_request_def Let_def result_simps t_def split: if_splits)
  have "length (CRLF @ CRLF) = 4" by (simp add: CRLF_def)
  then have b: "b = t @ CRLF @ CRLF" using ends_with_drop [OF ew] by (simp del: length_append add: t_def)
  have t: "t = ''CONNECT '' @ authority_of (pr_destination r) @ '' HTTP/1.1''
      @ concat (map (\<lambda>h. CRLF @ h) (tl (split_crlf t)))"
    using join_split_crlf [of t] hd by simp
  have "b = ''CONNECT '' @ authority_of (pr_destination r) @ '' HTTP/1.1''
      @ concat (map (\<lambda>h. CRLF @ h) (tl (split_crlf t))) @ CRLF @ CRLF"
    by (subst b, subst t) simp
  moreover note len
  moreover have "length (tl (split_crlf t)) \<le> unat (pr_max_headers r)"
    using check_headers_Inr [OF ch] by (cases "tl (split_crlf t) = []") auto
  ultimately show thesis using that check_headers_Inr [OF ch] by simp
qed

text \<open>The reader never consumes more than the limit, and what it accepts has been parsed.\<close>

lemma read_connect_request_bounded:
  "read_connect_request r b stream = (res, rest) \<Longrightarrow> length b \<le> unat (pr_max_request_bytes r) \<Longrightarrow>
     (\<exists>read. stream = read @ rest \<and> length (b @ read) \<le> unat (pr_max_request_bytes r)
        \<and> (res = Inr () \<longrightarrow> parse_connect_request (b @ read) r = Inr ()))"
proof (induction r b stream rule: read_connect_request.induct)
  case (1 r b stream)
  show ?case
  proof (cases "ends_with (CRLF @ CRLF) b \<or> length b \<ge> unat (pr_max_request_bytes r) \<or> stream = []")
    case True
    then have "rest = stream \<and> (res = Inr () \<longrightarrow> parse_connect_request b r = Inr ())"
      using 1(2) by (subst (asm) read_connect_request.simps) (auto split: if_splits list.splits)
    then show ?thesis using 1(3) by (intro exI [of _ "[]"]) simp
  next
    case False
    then obtain c cs where c: "stream = c # cs" by (cases stream) auto
    have "read_connect_request r (b @ [c]) cs = (res, rest)"
      using 1(2) False c by (subst (asm) read_connect_request.simps) simp
    from 1(1) [OF _ _ c this] False obtain read where
      "cs = read @ rest" "length (b @ c # read) \<le> unat (pr_max_request_bytes r)"
      "res = Inr () \<longrightarrow> parse_connect_request (b @ c # read) r = Inr ()" by auto
    then show ?thesis using c by (intro exI [of _ "c # read"]) simp
  qed
qed

section \<open>Addresses in dotted notation\<close>

definition ip4 :: "nat \<Rightarrow> nat \<Rightarrow> nat \<Rightarrow> nat \<Rightarrow> u32" where
  "ip4 a b c d = word_of_nat (((a * 256 + b) * 256 + c) * 256 + d)"

lemma and_high_mask:
  fixes v network :: "'a::len word"
  assumes "and network (mask k) = 0"
  shows "and v (push_bit k (- 1)) = network \<longleftrightarrow> unat v div 2 ^ k = unat network div 2 ^ k"
proof -
  have hi: "and w (push_bit k (- 1)) = push_bit k (drop_bit k w)" for w :: "'a word"
    by (auto simp: bit_eq_iff bit_simps)
  have net: "network = push_bit k (drop_bit k network)"
  proof (rule bit_word_eqI)
    fix i assume "i < LENGTH('a)"
    moreover have "bit (and network (mask k)) i = bit (0::'a word) i" using assms by simp
    ultimately show "bit network i = bit (push_bit k (drop_bit k network)) i"
      by (auto simp: bit_simps)
  qed
  have "push_bit k (drop_bit k v) = push_bit k (drop_bit k network) \<longleftrightarrow> drop_bit k v = drop_bit k network"
  proof
    assume "push_bit k (drop_bit k v) = push_bit k (drop_bit k network)"
    then have "bit (push_bit k (drop_bit k v)) (i + k) = bit (push_bit k (drop_bit k network)) (i + k)" for i
      by simp
    then show "drop_bit k v = drop_bit k network"
      by (intro bit_word_eqI) (auto simp: bit_simps ac_simps dest: bit_imp_le_length)
  qed simp
  also have "\<dots> \<longleftrightarrow> unat (drop_bit k v) = unat (drop_bit k network)" by (rule word_unat_eq_iff)
  also have "\<dots> \<longleftrightarrow> unat v div 2 ^ k = unat network div 2 ^ k"
    by (simp only: unat_drop_bit_eq) (simp only: drop_bit_eq_div)
  finally show ?thesis unfolding hi using net by metis
qed

lemma in_v4_prefix_iff:
  assumes "and network (mask (32 - p)) = 0"
  shows "in_v4_prefix v network p \<longleftrightarrow> unat v div 2 ^ (32 - p) = unat network div 2 ^ (32 - p)"
  using and_high_mask [OF assms] by (simp add: in_v4_prefix_def)

lemma is_global_v4_div:
  "is_global_v4 v \<longleftrightarrow>
     unat v div 2 ^ 24 \<notin> {0, 10, 127} \<and> unat v div 2 ^ 22 \<noteq> 401 \<and> unat v div 2 ^ 16 \<notin> {43518, 49320}
     \<and> unat v div 2 ^ 20 \<noteq> 2753 \<and> unat v div 2 ^ 8 \<notin> {12582912, 12582914, 12605539, 12989284, 13303921}
     \<and> unat v div 2 ^ 17 \<noteq> 25353 \<and> unat v div 2 ^ 29 \<noteq> 7"
  by (auto simp: is_global_v4_def in_v4_prefix_iff mask_eq_exp_minus_1)

lemma unat_ip4:
  assumes "a < 256" "b < 256" "c < 256" "d < 256"
  shows "unat (ip4 a b c d) = ((a * 256 + b) * 256 + c) * 256 + d"
proof -
  have "((a * 256 + b) * 256 + c) * 256 + d < 2 ^ LENGTH(32)" using assms by simp
  then show ?thesis unfolding ip4_def by (simp only: unat_of_nat mod_less)
qed

lemma two_digits:
  fixes a b x y m :: nat
  assumes "b < m" "y < m"
  shows "a * m + b = x * m + y \<longleftrightarrow> a = x \<and> b = y"
proof
  assume eq: "a * m + b = x * m + y"
  have "(a * m + b) div m = a" "(x * m + y) div m = x" "(a * m + b) mod m = b" "(x * m + y) mod m = y"
    using assms by (simp_all add: div_mult_self3)
  with eq show "a = x \<and> b = y" by metis
qed simp

lemma is_global_v4_dotted:
  assumes "a < 256" "b < 256" "c < 256" "d < 256"
  shows "is_global_v4 (ip4 a b c d) \<longleftrightarrow>
     \<not> (a \<in> {0, 10, 127} \<or> 224 \<le> a \<or> a = 100 \<and> 64 \<le> b \<and> b < 128 \<or> a = 169 \<and> b = 254
        \<or> a = 172 \<and> 16 \<le> b \<and> b < 32 \<or> a = 192 \<and> b = 168 \<or> a = 198 \<and> (b = 18 \<or> b = 19)
        \<or> (a, b, c) \<in> {(192, 0, 0), (192, 0, 2), (192, 88, 99), (198, 51, 100), (203, 0, 113)})"
proof -
  let ?n = "((a * 256 + b) * 256 + c) * 256 + d"
  have divs: "?n div 2 ^ 24 = a" "?n div 2 ^ 22 = a * 4 + b div 64" "?n div 2 ^ 16 = a * 256 + b"
    "?n div 2 ^ 20 = a * 16 + b div 16" "?n div 2 ^ 8 = (a * 256 + b) * 256 + c"
    "?n div 2 ^ 17 = a * 128 + b div 2" "?n div 2 ^ 29 = a div 32"
    using assms by simp_all
  have 29: "a div 32 = 7 \<longleftrightarrow> 224 \<le> a" using assms by auto
  have 22: "a * 4 + b div 64 = 401 \<longleftrightarrow> a = 100 \<and> 64 \<le> b \<and> b < 128"
    using two_digits [of "b div 64" 4 1 a 100] assms by auto
  have 16: "a * 256 + b = 43518 \<longleftrightarrow> a = 169 \<and> b = 254" "a * 256 + b = 49320 \<longleftrightarrow> a = 192 \<and> b = 168"
    using two_digits [of b 256 254 a 169] two_digits [of b 256 168 a 192] assms by simp_all
  have 20: "a * 16 + b div 16 = 2753 \<longleftrightarrow> a = 172 \<and> 16 \<le> b \<and> b < 32"
    using two_digits [of "b div 16" 16 1 a 172] assms by auto
  have 17: "a * 128 + b div 2 = 25353 \<longleftrightarrow> a = 198 \<and> (b = 18 \<or> b = 19)"
    using two_digits [of "b div 2" 128 9 a 198] assms by auto
  have three: "(a * 256 + b) * 256 + c = n \<longleftrightarrow> a = x \<and> b = y \<and> c = z"
    if "n = (x * 256 + y) * 256 + z" "x < 256" "y < 256" "z < 256" for x y z n :: nat
    unfolding that(1) using two_digits [of c 256 z "a * 256 + b" "x * 256 + y"] two_digits [of b 256 y a x] assms that by metis
  have 8: "(a * 256 + b) * 256 + c = 12582912 \<longleftrightarrow> a = 192 \<and> b = 0 \<and> c = 0"
    "(a * 256 + b) * 256 + c = 12582914 \<longleftrightarrow> a = 192 \<and> b = 0 \<and> c = 2"
    "(a * 256 + b) * 256 + c = 12605539 \<longleftrightarrow> a = 192 \<and> b = 88 \<and> c = 99"
    "(a * 256 + b) * 256 + c = 12989284 \<longleftrightarrow> a = 198 \<and> b = 51 \<and> c = 100"
    "(a * 256 + b) * 256 + c = 13303921 \<longleftrightarrow> a = 203 \<and> b = 0 \<and> c = 113"
    by (rule three; simp)+
  show ?thesis
    unfolding is_global_v4_div unat_ip4 [OF assms] divs insert_iff empty_iff 29 22 16 20 17 8 prod.inject
    by satx
qed

text \<open>The address chosen is the least of the answer.\<close>

lemma sort_remdups_hd:
  "(case sort (remdups xs) of [] \<Rightarrow> Inl e | x # _ \<Rightarrow> Inr x) = Inr a \<longleftrightarrow> a \<in> set xs \<and> (\<forall>b\<in>set xs. a \<le> b)"
  for xs :: "'a::linorder list"
proof (cases "sort (remdups xs)")
  case Nil
  then have "xs = []" by (metis set_empty set_remdups set_sort)
  then show ?thesis by simp
next
  case (Cons x ys)
  have set: "set xs = insert x (set ys)" using Cons by (metis list.set(2) set_remdups set_sort)
  have "sorted (x # ys)" using Cons by (metis sorted_sort)
  then have "\<forall>b\<in>set xs. x \<le> b" using set by auto
  then show ?thesis using Cons set by (auto intro: antisym)
qed

lemma resolve_once_Inr:
  "resolve_once resolved = Inr a \<longleftrightarrow>
     (\<exists>as. resolved = Some as \<and> a \<in> set as \<and> list_all is_global_ip as \<and> list_all (\<lambda>b. a \<le> b) as)"
  by (cases resolved)
    (auto simp: resolve_once_def sort_remdups_hd list_ex_iff list_all_iff ok_or_def split del: list.split)

end
