(* ===== verification/Proxy_Theorems.thy ===== *)
theory Proxy_Theorems
  imports Egress_Proxy
begin

text \<open>
  The properties of the egress proxy: its byte budget and accept loop under every schedule, and what
  its parser and address policy let through.
\<close>

definition demo_proxy_request :: proxy_request where
  "demo_proxy_request = \<lparr>pr_schema_version = REQUEST_VERSION, pr_manifest_digest = ''sha256:00'',
     pr_destination = \<lparr>dst_host = ''github.com'', dst_port = 443\<rparr>, pr_max_connections = 2,
     pr_max_request_bytes = 4096, pr_max_headers = 8, pr_max_tunnel_bytes = 10,
     pr_max_connection_seconds = 30, pr_wall_time_seconds = 60\<rparr>"

text \<open>C12 (byte budget). However the copying tasks of all tunnels are scheduled, between any two of
  their atomic accesses, the bytes they have written never exceed the limit together, every
  direction's count is covered by the shared total, and the total never exceeds the limit.\<close>

theorem tunnel_bytes_bounded:
  assumes "(budget_step limit)\<^sup>*\<^sup>* budget_start b"
  shows "(\<Sum>i<n. b_written b i) \<le> unat limit
    \<and> (\<Sum>i<n. unat (b_direction b i)) \<le> unat (b_total b) \<and> b_total b \<le> limit"
  using budget_bound [OF assms] by blast

lemma budget_extend:
  "(budget_step limit)\<^sup>*\<^sup>* a b \<Longrightarrow> budget_step limit b c \<Longrightarrow> (budget_step limit)\<^sup>*\<^sup>* a c"
  by (rule rtranclp.rtrancl_into_rtrancl)

theorem tunnel_bytes_bounded_witness:
  "\<exists>b :: budget_state. b_written b 0 = 5 \<and> b_pc b 1 = Exchanging 7 0 \<and> b_total b \<le> 10
     \<and> (\<Sum>i<2. b_written b i) \<le> 10"
proof -
  let ?b1 = "set_pc 0 (Loading 5) budget_start"
  let ?b2 = "set_pc 1 (Loading 7) ?b1"
  let ?b3 = "set_pc 0 (Exchanging 5 0) ?b2"
  let ?b4 = "set_pc 1 (Exchanging 7 0) ?b3"
  let ?b5 = "set_pc 0 (Counting 5) (?b4\<lparr>b_total := 5\<rparr>)"
  let ?b6 = "set_pc 0 (Writing 5) (?b5\<lparr>b_direction := (b_direction ?b5)(0 := b_direction ?b5 0 + 5)\<rparr>)"
  let ?b7 = "set_pc 0 Reading (?b6\<lparr>b_written := (b_written ?b6)(0 := b_written ?b6 0 + unat (5 :: u64))\<rparr>)"
  note pcs = set_pc_def budget_start_def
  have s1: "budget_step 10 budget_start ?b1"
    using budget_step.read_some [of budget_start 0 5 10] by (simp add: pcs COPY_BUFFER_def)
  have s2: "budget_step 10 ?b1 ?b2"
    using budget_step.read_some [of ?b1 1 7 10] by (simp add: pcs COPY_BUFFER_def)
  have s3: "budget_step 10 ?b2 ?b3"
    using budget_step.load [of ?b2 0 5 10] by (simp add: pcs)
  have s4: "budget_step 10 ?b3 ?b4"
    using budget_step.load [of ?b3 1 7 10] by (simp add: pcs)
  have s5: "budget_step 10 ?b4 ?b5"
    using budget_step.exchanged [of ?b4 0 5 0 5 10] by (simp add: pcs checked_add_u64_def)
  have s6: "budget_step 10 ?b5 ?b6" by (rule budget_step.count) (simp add: pcs)
  have s7: "budget_step 10 ?b6 ?b7" by (rule budget_step.written) (simp add: pcs)
  have "(budget_step 10)\<^sup>*\<^sup>* budget_start ?b7"
    by (intro budget_extend [OF _ s7] budget_extend [OF _ s6] budget_extend [OF _ s5] budget_extend [OF _ s4]
        budget_extend [OF _ s3] budget_extend [OF _ s2] budget_extend [OF _ s1] rtranclp.rtrancl_refl)
  from tunnel_bytes_bounded [OF this, of 2] show ?thesis
    by (intro exI [of _ ?b7]) (simp add: pcs)
qed

text \<open>C13 (accept loop). Whatever the schedule of arrivals, finished tunnels and the worker's signal, the
  proxy never serves more than \<open>max_connections\<close> tunnels at once; while fewer than 2^64 connections have been
  handed over by the listener, each is counted once as accepted or rejected or is still running, and the
  observations name the destination exactly if some connection was accepted; they are terminal exactly when
  the loop has finished, and then no tunnel is running.\<close>

theorem proxy_observations_exact:
  assumes "(serve_step r)\<^sup>*\<^sup>* (serve_start r ip) s" and "sv_attempts s < 2 ^ 64"
  shows "sv_running s \<le> unat (pr_max_connections r)
    \<and> unat (ob_accepted (sv_observations s)) + unat (ob_rejected (sv_observations s)) + sv_running s = sv_attempts s
    \<and> (ob_observed_destinations (sv_observations s) = [pr_destination r] \<longleftrightarrow> ob_accepted (sv_observations s) \<noteq> 0)
    \<and> (ob_terminal (sv_observations s) \<longleftrightarrow> sv_phase s = Finished)
    \<and> (ob_terminal (sv_observations s) \<longrightarrow> sv_running s = 0)"
  using serve_steps_ok [OF assms(1)] assms(2) by (auto simp: server_ok_def Let_def)

theorem proxy_observations_exact_witness:
  "\<exists>s :: server. sv_attempts s = 1 \<and> sv_running s = 0
     \<and> unat (ob_accepted (sv_observations s)) + unat (ob_rejected (sv_observations s)) = 1"
proof -
  let ?s0 = "serve_start demo_proxy_request ''140.82.112.3''"
  let ?s1 = "?s0\<lparr>sv_running := 1, sv_attempts := 1\<rparr>"
  let ?s2 = "?s1\<lparr>sv_running := 0, sv_observations := apply_outcome (sv_observations ?s1) demo_proxy_request (Inr (3, 4))\<rparr>"
  have "serve_step demo_proxy_request ?s0 ?s1"
    using serve_step.accept [of ?s0 demo_proxy_request] by (simp add: serve_start_def demo_proxy_request_def)
  moreover have "serve_step demo_proxy_request ?s1 ?s2"
    using serve_step.finish [of ?s1 0 demo_proxy_request "Inr (3, 4)"] by (simp add: serve_start_def)
  ultimately have steps: "(serve_step demo_proxy_request)\<^sup>*\<^sup>* ?s0 ?s2" by auto
  have s2: "sv_attempts ?s2 = 1" "sv_running ?s2 = 0" by simp_all
  then have "sv_attempts ?s2 < 2 ^ 64" by simp
  from proxy_observations_exact [OF steps this] s2
  have total: "unat (ob_accepted (sv_observations ?s2)) + unat (ob_rejected (sv_observations ?s2)) = 1" by linarith
  show ?thesis by (rule exI [of _ ?s2], intro conjI) (rule s2 total)+
qed

text \<open>C14 (CONNECT). A request that the parser accepts is a CONNECT to the approved destination, in the
  one form the proxy knows, within the byte and header limits of the request file, with exactly one
  Host line that names that destination, and without credentials or a body.\<close>

theorem connect_only_approved:
  assumes "parse_connect_request b r = Inr ()"
  shows "\<exists>hs. b = ''CONNECT '' @ authority_of (pr_destination r) @ '' HTTP/1.1''
      @ concat (map (\<lambda>h. CRLF @ h) hs) @ CRLF @ CRLF
    \<and> length b \<le> unat (pr_max_request_bytes r) \<and> length hs \<le> unat (pr_max_headers r)
    \<and> (\<forall>h\<in>set hs. header_ok r h) \<and> length (filter is_host_line hs) = 1"
  using parse_connect_request_Inr [OF assms] by metis

definition demo_connect :: string where
  "demo_connect = ''CONNECT github.com:443 HTTP/1.1'' @ CRLF @ ''Host: github.com:443'' @ CRLF @ CRLF"

theorem connect_only_approved_witness:
  "\<exists>hs. length (filter is_host_line hs) = 1
     \<and> demo_connect = ''CONNECT '' @ ''github.com:443'' @ '' HTTP/1.1'' @ concat (map (\<lambda>h. CRLF @ h) hs) @ CRLF @ CRLF"
proof -
  have "parse_connect_request demo_connect demo_proxy_request = Inr ()" by code_simp
  from connect_only_approved [OF this]
  have "\<exists>hs. length (filter is_host_line hs) = 1
     \<and> demo_connect = ''CONNECT '' @ authority_of (pr_destination demo_proxy_request) @ '' HTTP/1.1''
         @ concat (map (\<lambda>h. CRLF @ h) hs) @ CRLF @ CRLF" by blast
  moreover have "authority_of (pr_destination demo_proxy_request) = ''github.com:443''" by code_simp
  ultimately show ?thesis by simp
qed

text \<open>Reading a request: The reader stops within the byte limit of the request file: whatever the
  client sends, what has been taken from the stream is at most \<open>max_request_bytes\<close> long, the rest of the stream
  is untouched, and an accepted request is one the parser accepts.\<close>

lemma request_reader_bounded:
  assumes "read_connect_request r [] stream = (res, rest)"
  shows "\<exists>read. stream = read @ rest \<and> length read \<le> unat (pr_max_request_bytes r)
    \<and> (res = Inr () \<longrightarrow> parse_connect_request read r = Inr ())"
  using read_connect_request_bounded [OF assms] by simp

text \<open>Resolution: The proxy connects only where every address of the answer is global, and then
  to the least of them; an empty, failed or mixed answer is refused.\<close>

lemma resolution_global_least:
  "resolve_once resolved = Inr a \<longleftrightarrow>
     (\<exists>as. resolved = Some as \<and> a \<in> set as \<and> list_all is_global_ip as \<and> list_all (\<lambda>b. a \<le> b) as)"
  by (rule resolve_once_Inr)

text \<open>Address policy: An IPv4 address in dotted notation is global exactly if it lies in none of the
  reserved ranges: this network, private, shared, loopback, link-local, protocol assignments, the documentation and
  benchmarking networks, 6to4 relays, and everything from 224.0.0.0 on.\<close>

lemma global_v4_ranges:
  assumes "a < 256" "b < 256" "c < 256" "d < 256"
  shows "is_global_v4 (ip4 a b c d) \<longleftrightarrow>
     \<not> (a \<in> {0, 10, 127} \<or> 224 \<le> a \<or> a = 100 \<and> 64 \<le> b \<and> b < 128 \<or> a = 169 \<and> b = 254
        \<or> a = 172 \<and> 16 \<le> b \<and> b < 32 \<or> a = 192 \<and> b = 168 \<or> a = 198 \<and> (b = 18 \<or> b = 19)
        \<or> (a, b, c) \<in> {(192, 0, 0), (192, 0, 2), (192, 88, 99), (198, 51, 100), (203, 0, 113)})"
  using assms by (rule is_global_v4_dotted)

end
