(* ===== verification/Byte_Order.thy ===== *)
theory Byte_Order
  imports Prelude
begin

text \<open>
  Big-endian integers in byte strings: the length prefix of the agent's wire format and of the
  adapter protocol, the lengths in a tree digest, and the codes that such lengths make possible.
\<close>

text \<open>\<open>u32::to_be_bytes\<close> and \<open>from_be_bytes\<close>.\<close>

definition u32_be :: "u32 \<Rightarrow> string" where
  "u32_be w = [char_of (unat w div 16777216), char_of (unat w div 65536), char_of (unat w div 256), char_of (unat w)]"

definition be_u32 :: "string \<Rightarrow> u32" where
  "be_u32 bs = word_of_nat (fold (\<lambda>b n. 256 * n + byte_code b) bs 0)"

lemma length_u32_be [simp]: "length (u32_be w) = 4"
  by (simp add: u32_be_def)

lemma unat_u32_less: "unat (w :: u32) < 4294967296"
  using unsigned_less [of w] by simp

lemma four_bytes:
  fixes n :: nat
  shows "256 * (256 * (256 * (n div 16777216) + n div 65536 mod 256) + n div 256 mod 256) + n mod 256 = n"
proof -
  have "n div 65536 div 256 = n div 16777216" by (simp flip: div_mult2_eq)
  then have 2: "256 * (n div 16777216) + n div 65536 mod 256 = n div 65536"
    by (metis mult_div_mod_eq)
  have "n div 256 div 256 = n div 65536" by (simp flip: div_mult2_eq)
  then have 3: "256 * (n div 65536) + n div 256 mod 256 = n div 256" by (metis mult_div_mod_eq)
  show ?thesis unfolding 2 3 by simp
qed

lemma be_u32_u32_be [simp]: "be_u32 (u32_be w) = w"
proof -
  have "fold (\<lambda>b n. 256 * n + byte_code b) (u32_be w) 0 = unat w"
    using four_bytes [of "unat w"] unat_u32_less [of w] by (simp add: u32_be_def)
  then show ?thesis by (simp add: be_u32_def)
qed

lemma four_digits:
  fixes a b c d :: nat
  assumes "a < 256" "b < 256" "c < 256" "d < 256"
  shows "256 * (256 * (256 * a + b) + c) + d < 4294967296"
    and "(256 * (256 * (256 * a + b) + c) + d) div 16777216 = a"
    and "(256 * (256 * (256 * a + b) + c) + d) div 65536 = 256 * a + b"
    and "(256 * (256 * (256 * a + b) + c) + d) div 256 = 256 * (256 * a + b) + c"
  using assms by simp_all

lemma char_of_byte: "char_of (byte_code b) = b"
  by simp

lemma char_of_digit: "char_of (256 * x + byte_code b) = b"
  by (metis char_of_byte char_of_mod_256 mod_mult_self4)

lemma u32_be_be_u32:
  assumes "length bs = 4"
  shows "u32_be (be_u32 bs) = bs"
proof -
  from assms obtain a b c d where bs: "bs = [a, b, c, d]"
    by (auto simp: numeral_eq_Suc length_Suc_conv)
  define n where "n = 256 * (256 * (256 * byte_code a + byte_code b) + byte_code c) + byte_code d"
  have lt: "byte_code x < 256" for x by (rule byte_code_less)
  have "n < 4294967296" unfolding n_def by (rule four_digits(1)) (rule lt)+
  then have "n < 2 ^ LENGTH(32)" by simp
  then have n: "unat (word_of_nat n :: u32) = n" by (simp only: unat_of_nat mod_less)
  have "n div 16777216 = byte_code a" "n div 65536 = 256 * byte_code a + byte_code b"
    "n div 256 = 256 * (256 * byte_code a + byte_code b) + byte_code c"
    unfolding n_def by (rule four_digits(2-4); rule lt)+
  then have "char_of (n div 16777216) = a" "char_of (n div 65536) = b" "char_of (n div 256) = c" "char_of n = d"
    by (simp_all only: char_of_digit char_of_byte n_def)
  moreover have "fold (\<lambda>b n. 256 * n + byte_code b) bs 0 = n" by (simp add: bs n_def)
  ultimately show ?thesis unfolding u32_be_def be_u32_def by (simp only: n bs)
qed

lemma word_of_length:
  assumes "unat (w :: u32) = n"
  shows "word_of_nat n = w"
  by (simp flip: assms)

text \<open>The prefix of a string that fits.\<close>

lemma be_u32_length:
  "n < 4294967296 \<Longrightarrow> unat (be_u32 (u32_be (word_of_nat n))) = n"
  by (simp add: unat_of_nat)

section \<open>Fixed-width integers\<close>

text \<open>\<open>to_be_bytes\<close> of an integer of \<open>k\<close> bytes.\<close>

fun be_bytes :: "nat \<Rightarrow> nat \<Rightarrow> string" where
  "be_bytes 0 n = []"
| "be_bytes (Suc k) n = be_bytes k (n div 256) @ [char_of (n mod 256)]"

lemma length_be_bytes [simp]: "length (be_bytes k n) = k"
  by (induction k arbitrary: n) auto

lemma be_bytes_inj: "be_bytes k m = be_bytes k n \<Longrightarrow> m < 256 ^ k \<Longrightarrow> n < 256 ^ k \<Longrightarrow> m = n"
proof (induction k arbitrary: m n)
  case (Suc k)
  then have "be_bytes k (m div 256) = be_bytes k (n div 256)" and "(char_of (m mod 256) :: char) = char_of (n mod 256)"
    by simp_all
  moreover from this(2) have low: "m mod 256 = n mod 256" by (metis mod_mod_trivial of_char_of)
  ultimately have "be_bytes k (m div 256) = be_bytes k (n div 256)" by simp
  with Suc.IH [of "m div 256" "n div 256"] Suc.prems(2,3) have "m div 256 = n div 256"
    by (simp add: less_mult_imp_div_less)
  with low show ?case by (metis mult_div_mod_eq)
qed simp

section \<open>Prefix codes\<close>

text \<open>
  A code in which no word is the beginning of another. What is written one word after the other can
  then be read back: the digest of a tree and the frames of a stream rely on it.
\<close>

locale prefix_code =
  fixes code :: "'a \<Rightarrow> string" and valid :: "'a \<Rightarrow> bool"
  assumes code_prefix: "valid x \<Longrightarrow> valid y \<Longrightarrow> code x @ r = code y @ s \<Longrightarrow> x = y \<and> r = s"
    and code_nonempty: "valid x \<Longrightarrow> code x \<noteq> []"
begin

lemma code_inj: "valid x \<Longrightarrow> valid y \<Longrightarrow> code x = code y \<Longrightarrow> x = y"
  using code_prefix [of x y "[]" "[]"] by simp

lemma concat_inj:
  "list_all valid xs \<Longrightarrow> list_all valid ys \<Longrightarrow> concat (map code xs) = concat (map code ys) \<Longrightarrow> xs = ys"
proof (induction xs arbitrary: ys)
  case Nil
  then show ?case by (cases ys) (auto dest: code_nonempty)
next
  case (Cons x xs)
  then show ?case by (cases ys) (auto dest: code_nonempty code_prefix)
qed

end

text \<open>The frames of both wire formats: a 32-bit length and that many bytes.\<close>

definition length_prefixed :: "string \<Rightarrow> string" where
  "length_prefixed p = u32_be (word_of_nat (length p)) @ p"

interpretation frames: prefix_code length_prefixed "\<lambda>p. length p < 2 ^ 32"
proof
  fix x y r s :: string
  assume "length x < 2 ^ 32" "length y < 2 ^ 32" and eq: "length_prefixed x @ r = length_prefixed y @ s"
  from eq have "u32_be (word_of_nat (length x)) = u32_be (word_of_nat (length y))" and rest: "x @ r = y @ s"
    by (simp_all add: length_prefixed_def append_eq_append_conv)
  then have "(word_of_nat (length x) :: u32) = word_of_nat (length y)" by (metis be_u32_u32_be)
  then have "unat (word_of_nat (length x) :: u32) = unat (word_of_nat (length y) :: u32)" by simp
  with \<open>length x < 2 ^ 32\<close> \<open>length y < 2 ^ 32\<close> have "length x = length y"
    by (simp add: unsigned_of_nat take_bit_nat_eq_self)
  with rest show "x = y \<and> r = s" by simp
qed (simp add: length_prefixed_def u32_be_def)

end
