(* ===== verification/Agent_Relay.thy ===== *)
theory Agent_Relay
  imports Byte_Order
begin

text \<open>
  The SSH agent relay (\<open>rust/crates/promptectomy-ssh-agent-relay/src/lib.rs\<close>): validation of its grant,
  the agent wire format with its cursor, the filter of identities, the checks of extension and sign
  requests, and the relay loop over the two sockets. The loop is a terminating function of what the
  client and the upstream agent will send; its record of forwarded and answered frames is what the
  lemmas are about.
\<close>

section \<open>Errors, grants and receipts\<close>

datatype relay_error =
    InvalidGrant
  | RelayUnavailable
  | UpstreamUnavailable
  | FrameExceeded
  | InvalidMessage
  | SessionBindDenied
  | SignatureDenied
  | TimedOut
  | Cancelled
  | ConnectionClosed
  | ReceiptUnavailable

record relay_grant =
  gr_schema_version :: string
  gr_opaque_handle :: string
  gr_display_host :: string
  gr_port :: u16
  gr_username :: string
  gr_repository :: string
  gr_revision :: string
  gr_host_key_type :: string
  gr_host_key_base64 :: string
  gr_host_key_sha256 :: string
  gr_selected_public_key_base64 :: string
  gr_manifest_digest :: string
  gr_credential_source :: string
  gr_wall_time_seconds :: u64
  gr_max_connections :: u8
  gr_max_frame_bytes :: u64
  gr_max_signatures :: u8

record validated_grant =
  vg_grant :: relay_grant
  vg_host_key :: string
  vg_selected_public_key :: string

record relay_receipt =
  rr_session_bound :: bool
  rr_signatures :: u8

record relay_receipt_document =
  rd_schema_version :: string
  rd_manifest_digest :: string
  rd_session_bound :: bool
  rd_signatures :: u8

definition GRANT_VERSION :: string where "GRANT_VERSION = ''promptectomy.ssh-broker-request.v2''"
definition RECEIPT_VERSION :: string where "RECEIPT_VERSION = ''promptectomy.ssh-agent-relay-receipt.v1''"

definition IDENTITIES_REQUEST :: char where "IDENTITIES_REQUEST = char_of (11 :: nat)"
definition IDENTITIES_ANSWER :: char where "IDENTITIES_ANSWER = char_of (12 :: nat)"
definition SIGN_REQUEST :: char where "SIGN_REQUEST = char_of (13 :: nat)"
definition SIGN_RESPONSE :: char where "SIGN_RESPONSE = char_of (14 :: nat)"
definition SUCCESS :: char where "SUCCESS = char_of (6 :: nat)"
definition FAILURE :: char where "FAILURE = char_of (5 :: nat)"
definition EXTENSION :: char where "EXTENSION = char_of (27 :: nat)"
definition SESSION_BIND :: string where "SESSION_BIND = ''session-bind@openssh.com''"
definition QUERY :: string where "QUERY = ''query''"

definition MAX_IDENTITY_COMMENT :: nat where "MAX_IDENTITY_COMMENT = 256"
definition MAX_IDENTITIES :: u32 where "MAX_IDENTITIES = 256"
definition MAX_SESSION_ID_BYTES :: nat where "MAX_SESSION_ID_BYTES = 64 * 1024"
definition MAX_SIGNATURE_BYTES :: nat where "MAX_SIGNATURE_BYTES = 64 * 1024"

lemmas message_kinds = IDENTITIES_REQUEST_def IDENTITIES_ANSWER_def SIGN_REQUEST_def SIGN_RESPONSE_def
  SUCCESS_def FAILURE_def EXTENSION_def

definition from_receipt :: "string \<Rightarrow> relay_receipt \<Rightarrow> relay_receipt_document" where
  "from_receipt digest rc = \<lparr>rd_schema_version = RECEIPT_VERSION, rd_manifest_digest = digest,
     rd_session_bound = rr_session_bound rc, rd_signatures = rr_signatures rc\<rparr>"

section \<open>The wire format\<close>

text \<open>The methods of \<open>Cursor\<close>: what they return and what remains.\<close>

definition cursor_byte :: "string \<Rightarrow> relay_error + (char \<times> string)" where
  "cursor_byte bs = (case bs of [] \<Rightarrow> Inl InvalidMessage | b # rest \<Rightarrow> Inr (b, rest))"

definition cursor_u32 :: "string \<Rightarrow> relay_error + (u32 \<times> string)" where
  "cursor_u32 bs = (if length bs < 4 then Inl InvalidMessage else Inr (be_u32 (take 4 bs), drop 4 bs))"

definition cursor_string :: "nat \<Rightarrow> string \<Rightarrow> relay_error + (string \<times> string)" where
  "cursor_string mx bs =
     bindE (cursor_u32 bs) (\<lambda>(n, rest).
       let size = unat n in
       if size > mx then Inl InvalidMessage
       else if length rest < size then Inl InvalidMessage
       else Inr (take size rest, drop size rest))"

definition cursor_finish :: "string \<Rightarrow> relay_error + unit" where
  "cursor_finish bs = (if bs = [] then Inr () else Inl InvalidMessage)"

definition push_string :: "string \<Rightarrow> string \<Rightarrow> relay_error + string" where
  "push_string out v = (if length v < 2 ^ 32 then Inr (out @ u32_be (word_of_nat (length v)) @ v) else Inl InvalidMessage)"

text \<open>
  One end of a socket: the bytes that can still be read and why reading stops after them, be it the
  peer, the deadline or a cancellation.
\<close>

type_synonym stream = "string \<times> relay_error"

definition read_exact_until :: "nat \<Rightarrow> stream \<Rightarrow> relay_error + (string \<times> stream)" where
  "read_exact_until n s = (if n \<le> length (fst s) then Inr (take n (fst s), drop n (fst s), snd s) else Inl (snd s))"

definition read_frame :: "nat \<Rightarrow> stream \<Rightarrow> relay_error + (string \<times> stream)" where
  "read_frame mx s =
     bindE (read_exact_until 4 s) (\<lambda>(header, s1).
       let size = unat (be_u32 header) in
       if size = 0 \<or> size > mx then Inl FrameExceeded
       else read_exact_until size s1)"

text \<open>\<open>write_frame\<close>: the bytes that go out.\<close>

definition write_frame :: "string \<Rightarrow> nat \<Rightarrow> relay_error + string" where
  "write_frame payload mx =
     (if payload = [] \<or> length payload > mx then Inl FrameExceeded
      else if length payload \<ge> 2 ^ 32 then Inl FrameExceeded
      else Inr (u32_be (word_of_nat (length payload)) @ payload))"

section \<open>Filtering and checking messages\<close>

fun scan_identities :: "nat \<Rightarrow> string \<Rightarrow> string \<Rightarrow> relay_error + (bool \<times> string)" where
  "scan_identities 0 selected bs = Inr (False, bs)"
| "scan_identities (Suc n) selected bs =
     bindE (cursor_string (16 * 1024) bs) (\<lambda>(key, b1).
     bindE (cursor_string MAX_IDENTITY_COMMENT b1) (\<lambda>(_, b2).
     bindE (scan_identities n selected b2) (\<lambda>(found, b3).
       Inr (key = selected \<or> found, b3))))"

definition filter_identities :: "string \<Rightarrow> string \<Rightarrow> relay_error + string" where
  "filter_identities response selected =
     (case response of
        [] \<Rightarrow> Inl InvalidMessage
      | k # body \<Rightarrow>
          if k \<noteq> IDENTITIES_ANSWER then Inl InvalidMessage
          else
            bindE (cursor_u32 body) (\<lambda>(count, b1).
              if count > MAX_IDENTITIES then Inl InvalidMessage
              else
                bindE (scan_identities (unat count) selected b1) (\<lambda>(found, b2).
                bindE (cursor_finish b2) (\<lambda>_.
                  if \<not> found then Inr (IDENTITIES_ANSWER # u32_be 0)
                  else
                    bindE (push_string (IDENTITIES_ANSWER # u32_be 1) selected) (\<lambda>out.
                      push_string out ''promptectomy-selected-key'')))))"

definition frame_body :: "string \<Rightarrow> relay_error + string" where
  "frame_body frame = (case frame of [] \<Rightarrow> Inl InvalidMessage | _ # body \<Rightarrow> Inr body)"

definition extension_name :: "string \<Rightarrow> relay_error + string" where
  "extension_name frame =
     bindE (frame_body frame) (\<lambda>body. bindE (cursor_string 128 body) (\<lambda>(name, _). Inr name))"

text \<open>Every further string of a query names the one extension the relay knows.\<close>

function query_rest :: "string \<Rightarrow> relay_error + unit" where
  "query_rest bs =
     (if bs = [] then Inr ()
      else
        (case cursor_string 128 bs of
           Inl e \<Rightarrow> Inl e
         | Inr (name, rest) \<Rightarrow> if name \<noteq> SESSION_BIND then Inl InvalidMessage else query_rest rest))"
  by pat_completeness auto
termination
  by (relation "measure length")
    (auto simp: cursor_string_def cursor_u32_def Let_def result_simps split: if_splits)

declare query_rest.simps [simp del]

definition validate_query :: "string \<Rightarrow> relay_error + unit" where
  "validate_query frame =
     bindE (frame_body frame) (\<lambda>body.
     bindE (cursor_string 128 body) (\<lambda>(name, rest).
       if name \<noteq> QUERY then Inl InvalidMessage else query_rest rest))"

definition validate_session_bind :: "string \<Rightarrow> string \<Rightarrow> relay_error + unit" where
  "validate_session_bind frame expected_host_key =
     bindE (frame_body frame) (\<lambda>body.
     bindE (cursor_string 128 body) (\<lambda>(name, b1).
       if name \<noteq> SESSION_BIND then Inl InvalidMessage
       else bindE (cursor_string (16 * 1024) b1) (\<lambda>(key, b2).
         if key \<noteq> expected_host_key then Inl InvalidMessage
         else bindE (cursor_string MAX_SESSION_ID_BYTES b2) (\<lambda>(session, b3).
           if session = [] then Inl InvalidMessage
           else bindE (cursor_string MAX_SIGNATURE_BYTES b3) (\<lambda>(sig, b4).
             if sig = [] then Inl InvalidMessage
             else bindE (cursor_byte b4) (\<lambda>(forwarding, b5).
               if byte_code forwarding \<noteq> 0 then Inl InvalidMessage
               else cursor_finish b5))))))"

definition validate_sign_request :: "string \<Rightarrow> string \<Rightarrow> relay_error + unit" where
  "validate_sign_request frame selected =
     bindE (frame_body frame) (\<lambda>body.
     bindE (cursor_string (16 * 1024) body) (\<lambda>(key, b1).
       if key \<noteq> selected then Inl InvalidMessage
       else bindE (cursor_string (64 * 1024) b1) (\<lambda>(data, b2).
         if data = [] then Inl InvalidMessage
         else bindE (cursor_u32 b2) (\<lambda>(flags, b3).
           if flags \<notin> {0, 2, 4} then Inl InvalidMessage
           else cursor_finish b3))))"

section \<open>Grant validation\<close>

text \<open>The Base64 engine and SHA-256 are outside the crate.\<close>

record relay_env =
  b64_decode :: "string \<Rightarrow> string option"
  b64_encode :: "string \<Rightarrow> string"
  digest256 :: "string \<Rightarrow> string"

definition decode_blob :: "relay_env \<Rightarrow> string \<Rightarrow> nat \<Rightarrow> relay_error + string" where
  "decode_blob E v mx =
     (if v = [] \<or> length v > mx * 2 then Inl InvalidGrant
      else bindE (ok_or InvalidGrant (b64_decode E v)) (\<lambda>decoded.
        if decoded = [] \<or> length decoded > mx then Inl InvalidGrant else Inr decoded))"

definition ssh_string_prefix :: "string \<Rightarrow> relay_error + string" where
  "ssh_string_prefix blob = bindE (cursor_string 128 blob) (\<lambda>(p, _). Inr p)"

definition valid_fingerprint :: "relay_env \<Rightarrow> string \<Rightarrow> string \<Rightarrow> bool" where
  "valid_fingerprint E v blob =
     (case strip_prefix ''SHA256:'' v of None \<Rightarrow> False | Some encoded \<Rightarrow> encoded = b64_encode E (digest256 E blob))"

definition valid_digest :: "string \<Rightarrow> bool" where
  "valid_digest v \<longleftrightarrow> length v = 71 \<and> starts_with ''sha256:'' v \<and> list_all is_lower_hex (drop 7 v)"

definition valid_handle :: "string \<Rightarrow> bool" where
  "valid_handle v \<longleftrightarrow> v \<noteq> [] \<and> length v \<le> 128
     \<and> list_all (\<lambda>b. is_ascii_alphanumeric b \<or> b \<in> {CHR ''-'', CHR ''_''}) v"

definition valid_host_label :: "string \<Rightarrow> bool" where
  "valid_host_label l \<longleftrightarrow> l \<noteq> [] \<and> length l \<le> 63 \<and> \<not> starts_with ''-'' l \<and> \<not> ends_with ''-'' l
     \<and> list_all (\<lambda>b. is_ascii_alphanumeric b \<or> b = CHR ''-'') l"

definition valid_host :: "string \<Rightarrow> bool" where
  "valid_host v \<longleftrightarrow> v \<noteq> [] \<and> length v \<le> 253 \<and> list_all valid_host_label (split_on CHR ''.'' v)"

definition valid_repository :: "string \<Rightarrow> bool" where
  "valid_repository v \<longleftrightarrow> v \<noteq> [] \<and> length v \<le> 512 \<and> \<not> starts_with ''/'' v \<and> \<not> starts_with ''-'' v
     \<and> list_all (\<lambda>p. p \<noteq> [] \<and> p \<noteq> ''.'' \<and> p \<noteq> ''..''
           \<and> list_all (\<lambda>b. is_ascii_alphanumeric b \<or> b \<in> {CHR ''.'', CHR ''_'', CHR ''-'', CHR ''~''}) p)
         (split_on CHR ''/'' v)"

definition contains_str :: "string \<Rightarrow> string \<Rightarrow> bool" where
  "contains_str v p \<longleftrightarrow> list_ex (\<lambda>n. starts_with p (drop n v)) [0..<Suc (length v)]"

definition valid_revision :: "string \<Rightarrow> bool" where
  "valid_revision v \<longleftrightarrow> v \<noteq> [] \<and> length v \<le> 200 \<and> \<not> starts_with ''-'' v
     \<and> \<not> contains_str v ''..'' \<and> \<not> contains_str v [CHR 0x40, CHR 0x7B]
     \<and> list_all (\<lambda>b. is_ascii_alphanumeric b \<or> b \<in> {CHR ''.'', CHR ''_'', CHR ''/'', CHR ''-''}) v"

definition valid_key_type :: "string \<Rightarrow> bool" where
  "valid_key_type v \<longleftrightarrow> v \<in> {''ssh-ed25519'', ''ssh-rsa'', ''ecdsa-sha2-nistp256'', ''ecdsa-sha2-nistp384'',
     ''ecdsa-sha2-nistp521'', ''sk-ssh-ed25519@openssh.com'', ''sk-ecdsa-sha2-nistp256@openssh.com''}"

definition validate_grant :: "relay_env \<Rightarrow> relay_grant \<Rightarrow> relay_error + validated_grant" where
  "validate_grant E g =
     (if gr_schema_version g \<noteq> GRANT_VERSION
         \<or> gr_port g \<noteq> 22
         \<or> gr_username g \<noteq> ''git''
         \<or> gr_credential_source g \<noteq> ''selected_ssh_agent''
         \<or> \<not> valid_handle (gr_opaque_handle g)
         \<or> \<not> valid_host (gr_display_host g)
         \<or> \<not> valid_repository (gr_repository g)
         \<or> \<not> valid_revision (gr_revision g)
         \<or> \<not> valid_key_type (gr_host_key_type g)
         \<or> \<not> valid_digest (gr_manifest_digest g)
         \<or> \<not> (1 \<le> gr_wall_time_seconds g \<and> gr_wall_time_seconds g \<le> 300)
         \<or> gr_max_connections g \<noteq> 1
         \<or> \<not> (1024 \<le> gr_max_frame_bytes g \<and> gr_max_frame_bytes g \<le> 256 * 1024)
         \<or> \<not> (1 \<le> gr_max_signatures g \<and> gr_max_signatures g \<le> 4)
      then Inl InvalidGrant
      else
        bindE (decode_blob E (gr_host_key_base64 g) (16 * 1024)) (\<lambda>host_key.
        bindE (decode_blob E (gr_selected_public_key_base64 g) (16 * 1024)) (\<lambda>selected.
        bindE (ssh_string_prefix host_key) (\<lambda>kt.
          if kt \<noteq> gr_host_key_type g \<or> \<not> valid_fingerprint E (gr_host_key_sha256 g) host_key
          then Inl InvalidGrant
          else bindE (ssh_string_prefix selected) (\<lambda>st.
            if st = [] then Inl InvalidGrant
            else Inr \<lparr>vg_grant = g, vg_host_key = host_key, vg_selected_public_key = selected\<rparr>)))))"

section \<open>The relay loop\<close>

text \<open>
  The client's socket and the upstream's, seen from the relay: what each will send, and how many more
  writes to the client will succeed. \<open>rs_forwarded\<close> records every frame handed to the upstream agent
  with its reply, \<open>rs_answered\<close> what the client was sent, \<open>rs_published\<close> the receipts handed
  to \<open>publish\<close>; the code keeps only \<open>bound\<close> and \<open>signatures\<close>.
\<close>

record relay_state =
  rs_bound :: bool
  rs_signatures :: u8
  rs_client :: stream
  rs_upstream :: stream
  rs_writes :: nat
  rs_forwarded :: "(string \<times> string option) list"
  rs_answered :: "string list"
  rs_published :: "relay_receipt list"

type_synonym 'a relayed = "(relay_error + 'a) \<times> relay_state"

definition and_then :: "'a relayed \<Rightarrow> ('a \<Rightarrow> relay_state \<Rightarrow> 'b relayed) \<Rightarrow> 'b relayed" where
  "and_then m k = (case m of (Inl e, st) \<Rightarrow> (Inl e, st) | (Inr x, st) \<Rightarrow> k x st)"

definition frame_limit :: "validated_grant \<Rightarrow> nat" where
  "frame_limit g = unat (gr_max_frame_bytes (vg_grant g))"

definition respond :: "validated_grant \<Rightarrow> string \<Rightarrow> relay_state \<Rightarrow> unit relayed" where
  "respond g payload st =
     (case write_frame payload (frame_limit g) of
        Inl e \<Rightarrow> (Inl e, st)
      | Inr _ \<Rightarrow>
          if rs_writes st = 0 then (Inl RelayUnavailable, st)
          else (Inr (), st\<lparr>rs_writes := rs_writes st - 1, rs_answered := rs_answered st @ [payload]\<rparr>))"

definition forward :: "validated_grant \<Rightarrow> string \<Rightarrow> relay_state \<Rightarrow> string relayed" where
  "forward g frame st =
     (case write_frame frame (frame_limit g) of
        Inl _ \<Rightarrow> (Inl UpstreamUnavailable, st)
      | Inr _ \<Rightarrow>
          (case read_frame (frame_limit g) (rs_upstream st) of
             Inl e \<Rightarrow> (Inl (if e \<in> {Cancelled, TimedOut} then e else UpstreamUnavailable),
                        st\<lparr>rs_forwarded := rs_forwarded st @ [(frame, None)]\<rparr>)
           | Inr (response, up) \<Rightarrow>
               (Inr response, st\<lparr>rs_upstream := up, rs_forwarded := rs_forwarded st @ [(frame, Some response)]\<rparr>)))"

definition saturating_add_u8 :: "u8 \<Rightarrow> u8 \<Rightarrow> u8" where
  "saturating_add_u8 a b = (if unat a + unat b < 256 then a + b else 255)"

type_synonym publisher = "relay_receipt \<Rightarrow> relay_error + unit"

definition identities_turn :: "validated_grant \<Rightarrow> string \<Rightarrow> relay_state \<Rightarrow> unit relayed" where
  "identities_turn g frame st =
     and_then (forward g frame st) (\<lambda>response st1.
       case filter_identities response (vg_selected_public_key g) of
         Inl e \<Rightarrow> (Inl e, st1)
       | Inr filtered \<Rightarrow> respond g filtered st1)"

definition extension_turn :: "validated_grant \<Rightarrow> string \<Rightarrow> relay_state \<Rightarrow> unit relayed" where
  "extension_turn g frame st =
     (case extension_name frame of
        Inl _ \<Rightarrow> respond g [FAILURE] st
      | Inr extension \<Rightarrow>
          let valid = (if extension = QUERY then validate_query frame
                       else if extension = SESSION_BIND then validate_session_bind frame (vg_host_key g)
                       else Inl InvalidMessage)
          in if \<not> is_ok valid then respond g [FAILURE] st
             else
               and_then (forward g frame st) (\<lambda>response st1.
                 if extension = SESSION_BIND
                 then if response \<noteq> [SUCCESS] then (Inl SessionBindDenied, st1)
                      else respond g response (st1\<lparr>rs_bound := True\<rparr>)
                 else respond g response st1))"

definition sign_turn :: "validated_grant \<Rightarrow> publisher \<Rightarrow> string \<Rightarrow> relay_state \<Rightarrow> unit relayed" where
  "sign_turn g publish frame st =
     (if \<not> is_ok (validate_sign_request frame (vg_selected_public_key g)) then respond g [FAILURE] st
      else
        and_then (forward g frame st) (\<lambda>response st1.
          if response = [] \<or> hd response \<noteq> SIGN_RESPONSE then (Inl SignatureDenied, st1)
          else
            let st2 = st1\<lparr>rs_signatures := saturating_add_u8 (rs_signatures st1) 1\<rparr> in
            and_then (respond g response st2) (\<lambda>_ st3.
              let rc = \<lparr>rr_session_bound = True, rr_signatures = rs_signatures st3\<rparr> in
              (publish rc, st3\<lparr>rs_published := rs_published st3 @ [rc]\<rparr>))))"

definition handle_frame :: "validated_grant \<Rightarrow> publisher \<Rightarrow> string \<Rightarrow> relay_state \<Rightarrow> unit relayed" where
  "handle_frame g publish frame st =
     (case frame of
        [] \<Rightarrow> respond g [FAILURE] st
      | kind # _ \<Rightarrow>
          if kind = IDENTITIES_REQUEST \<and> length frame = 1 then identities_turn g frame st
          else if kind = EXTENSION then extension_turn g frame st
          else if kind = SIGN_REQUEST \<and> rs_bound st \<and> rs_signatures st < gr_max_signatures (vg_grant g)
          then sign_turn g publish frame st
          else respond g [FAILURE] st)"

text \<open>One turn of the loop: the receipt when the client has closed after signing, or nothing.\<close>

definition relay_turn :: "validated_grant \<Rightarrow> publisher \<Rightarrow> relay_state \<Rightarrow> relay_receipt option relayed" where
  "relay_turn g publish st =
     (case read_frame (frame_limit g) (rs_client st) of
        Inl e \<Rightarrow>
          if e = ConnectionClosed \<and> rs_bound st \<and> rs_signatures st > 0
          then (Inr (Some \<lparr>rr_session_bound = True, rr_signatures = rs_signatures st\<rparr>), st)
          else (Inl e, st)
      | Inr (frame, cl) \<Rightarrow>
          and_then (handle_frame g publish frame (st\<lparr>rs_client := cl\<rparr>)) (\<lambda>_ st1. (Inr None, st1)))"

section \<open>The loop ends\<close>

lemmas turn_defs = identities_turn_def extension_turn_def sign_turn_def

lemma respond_client [simp]: "rs_client (snd (respond g p st)) = rs_client st"
  by (auto simp: respond_def split: sum.split)

lemma forward_client [simp]: "rs_client (snd (forward g p st)) = rs_client st"
  by (auto simp: forward_def split: sum.split)

lemma and_then_client:
  "rs_client (snd m) = c \<Longrightarrow> (\<And>x st. rs_client st = c \<Longrightarrow> rs_client (snd (k x st)) = c) \<Longrightarrow>
     rs_client (snd (and_then m k)) = c"
  by (auto simp: and_then_def split: prod.split sum.split)

lemma handle_frame_client [simp]: "rs_client (snd (handle_frame g publish frame st)) = rs_client st"
  by (auto simp: handle_frame_def turn_defs Let_def split: list.split sum.split intro!: and_then_client)

lemma read_frame_shorter: "read_frame mx s = Inr (frame, s') \<Longrightarrow> length (fst s') < length (fst s)"
  by (auto simp: read_frame_def read_exact_until_def Let_def result_simps split: if_splits)

lemma relay_turn_shorter:
  "relay_turn g publish st = (Inr None, st') \<Longrightarrow> length (fst (rs_client st')) < length (fst (rs_client st))"
proof -
  assume turn: "relay_turn g publish st = (Inr None, st')"
  then obtain frame cl where read: "read_frame (frame_limit g) (rs_client st) = Inr (frame, cl)"
    and st': "st' = snd (handle_frame g publish frame (st\<lparr>rs_client := cl\<rparr>))"
    by (auto simp: relay_turn_def and_then_def split: sum.splits if_splits prod.splits)
  from read_frame_shorter [OF read] show ?thesis by (simp add: st')
qed

function relay :: "validated_grant \<Rightarrow> publisher \<Rightarrow> relay_state \<Rightarrow> relay_receipt relayed" where
  "relay g publish st =
     (case relay_turn g publish st of
        (Inl e, st1) \<Rightarrow> (Inl e, st1)
      | (Inr (Some rc), st1) \<Rightarrow> (Inr rc, st1)
      | (Inr None, st1) \<Rightarrow> relay g publish st1)"
  by pat_completeness auto
termination
  by (relation "measure (\<lambda>(g, publish, st). length (fst (rs_client st)))") (auto dest: relay_turn_shorter [OF sym])

declare relay.simps [simp del]

definition relay_start :: "stream \<Rightarrow> stream \<Rightarrow> nat \<Rightarrow> relay_state" where
  "relay_start client upstream writes =
     \<lparr>rs_bound = False, rs_signatures = 0, rs_client = client, rs_upstream = upstream, rs_writes = writes,
      rs_forwarded = [], rs_answered = [], rs_published = []\<rparr>"

section \<open>What the loop keeps\<close>

definition is_bind :: "validated_grant \<Rightarrow> string \<Rightarrow> bool" where
  "is_bind g f \<longleftrightarrow> f \<noteq> [] \<and> hd f = EXTENSION \<and> validate_session_bind f (vg_host_key g) = Inr ()"

definition is_sign :: "string \<Rightarrow> bool" where
  "is_sign f \<longleftrightarrow> f \<noteq> [] \<and> hd f = SIGN_REQUEST"

text \<open>The frames the grant lets through.\<close>

definition permitted :: "validated_grant \<Rightarrow> string \<Rightarrow> bool" where
  "permitted g f \<longleftrightarrow>
     f = [IDENTITIES_REQUEST]
     \<or> (f \<noteq> [] \<and> hd f = EXTENSION \<and> validate_query f = Inr ())
     \<or> is_bind g f
     \<or> (is_sign f \<and> validate_sign_request f (vg_selected_public_key g) = Inr ())"

definition bind_accepted :: "validated_grant \<Rightarrow> (string \<times> string option) list \<Rightarrow> bool" where
  "bind_accepted g l \<longleftrightarrow> (\<exists>f. is_bind g f \<and> (f, Some [SUCCESS]) \<in> set l)"

definition signed_after_bind :: "validated_grant \<Rightarrow> (string \<times> string option) list \<Rightarrow> bool" where
  "signed_after_bind g l \<longleftrightarrow> (\<forall>xs f r ys. l = xs @ (f, r) # ys \<longrightarrow> is_sign f \<longrightarrow> bind_accepted g xs)"

abbreviation sign_count :: "relay_state \<Rightarrow> nat" where
  "sign_count st \<equiv> length (filter (\<lambda>(f, _). is_sign f) (rs_forwarded st))"

definition only_selected :: "validated_grant \<Rightarrow> string \<Rightarrow> bool" where
  "only_selected g p \<longleftrightarrow> (\<exists>response. filter_identities response (vg_selected_public_key g) = Inr p)"

definition answer_ok :: "validated_grant \<Rightarrow> (string \<times> string option) list \<Rightarrow> string \<Rightarrow> bool" where
  "answer_ok g l p \<longleftrightarrow> p = [FAILURE] \<or> only_selected g p \<or> (\<exists>f. f \<noteq> [IDENTITIES_REQUEST] \<and> (f, Some p) \<in> set l)"

definition log_ok :: "validated_grant \<Rightarrow> relay_state \<Rightarrow> bool" where
  "log_ok g st \<longleftrightarrow>
     (\<forall>(f, r)\<in>set (rs_forwarded st). permitted g f)
     \<and> signed_after_bind g (rs_forwarded st)
     \<and> sign_count st \<le> unat (gr_max_signatures (vg_grant g))
     \<and> (\<forall>p\<in>set (rs_answered st). answer_ok g (rs_forwarded st) p)"

definition loop_ok :: "validated_grant \<Rightarrow> relay_state \<Rightarrow> bool" where
  "loop_ok g st \<longleftrightarrow> log_ok g st \<and> sign_count st = unat (rs_signatures st)
     \<and> (rs_bound st \<longrightarrow> bind_accepted g (rs_forwarded st))"

lemma bind_accepted_append: "bind_accepted g l \<Longrightarrow> bind_accepted g (l @ l')"
  by (auto simp: bind_accepted_def)

lemma signed_after_bind_snoc:
  assumes "signed_after_bind g l" and "is_sign f \<Longrightarrow> bind_accepted g l"
  shows "signed_after_bind g (l @ [(f, r)])"
  unfolding signed_after_bind_def
proof (intro allI impI)
  fix xs f' r' ys assume eq: "l @ [(f, r)] = xs @ (f', r') # ys" and sign: "is_sign f'"
  show "bind_accepted g xs"
  proof (cases ys rule: rev_cases)
    case Nil
    with eq assms(2) sign show ?thesis by simp
  next
    case (snoc zs z)
    with eq have "l = xs @ (f', r') # zs" by simp
    with assms(1) sign show ?thesis unfolding signed_after_bind_def by blast
  qed
qed

lemma answer_ok_append: "answer_ok g l p \<Longrightarrow> answer_ok g (l @ l') p"
  by (auto simp: answer_ok_def)

text \<open>One more frame handed to the agent.\<close>

lemma log_ok_forwarded:
  assumes "log_ok g st" and "permitted g f" and "is_sign f \<Longrightarrow> bind_accepted g (rs_forwarded st)"
    and "is_sign f \<Longrightarrow> sign_count st < unat (gr_max_signatures (vg_grant g))"
    and "rs_forwarded st' = rs_forwarded st @ [(f, r)]" "rs_answered st' = rs_answered st"
  shows "log_ok g st'"
  using assms signed_after_bind_snoc [of g "rs_forwarded st" f r] answer_ok_append
  by (auto simp: log_ok_def)

lemma log_ok_respond:
  assumes "log_ok g st" and "answer_ok g (rs_forwarded st) p" and "respond g p st = (res, st')"
  shows "log_ok g st'" "rs_forwarded st' = rs_forwarded st" "rs_signatures st' = rs_signatures st"
    "rs_bound st' = rs_bound st"
  using assms by (auto simp: respond_def log_ok_def split: sum.splits if_splits)

lemma forward_result:
  assumes "forward g f st = (res, st')"
  obtains "st' = st" "res = Inl UpstreamUnavailable"
  | r up where "st' = st\<lparr>rs_upstream := up, rs_forwarded := rs_forwarded st @ [(f, r)]\<rparr>"
      "\<And>x. res = Inr x \<longleftrightarrow> r = Some x"
proof (cases "write_frame f (frame_limit g)")
  case (Inl e)
  with assms that(1) show thesis by (simp add: forward_def)
next
  case (Inr b)
  show thesis
  proof (cases "read_frame (frame_limit g) (rs_upstream st)")
    case (Inl e)
    with assms Inr have "st' = st\<lparr>rs_upstream := rs_upstream st, rs_forwarded := rs_forwarded st @ [(f, None)]\<rparr>"
      and "\<And>x. res = Inr x \<longleftrightarrow> None = Some x" by (auto simp: forward_def)
    then show thesis by (rule that(2))
  next
    case (Inr y)
    with assms \<open>write_frame f (frame_limit g) = Inr b\<close>
    have "st' = st\<lparr>rs_upstream := snd y, rs_forwarded := rs_forwarded st @ [(f, Some (fst y))]\<rparr>"
      and "\<And>x. res = Inr x \<longleftrightarrow> Some (fst y) = Some x" by (auto simp: forward_def split: prod.splits)
    then show thesis by (rule that(2))
  qed
qed

lemma forward_Inr:
  assumes "forward g f st = (Inr x, st')"
  shows "\<exists>up. st' = st\<lparr>rs_upstream := up, rs_forwarded := rs_forwarded st @ [(f, Some x)]\<rparr>"
  using assms
proof (cases rule: forward_result)
  case (2 r up)
  from 2(2) [of x] have "r = Some x" by simp
  with 2(1) show ?thesis by blast
qed simp

lemma and_then_cases:
  assumes "and_then m k = (res, st')"
  obtains e where "m = (Inl e, st')" "res = Inl e" | x st1 where "m = (Inr x, st1)" "k x st1 = (res, st')"
  using assms by (cases m; cases "fst m") (auto simp: and_then_def)

text \<open>A turn keeps the log in order, whatever its result, and keeps the loop's own counters when the
  loop goes on.\<close>

definition turn_keeps :: "validated_grant \<Rightarrow> unit relayed \<Rightarrow> bool" where
  "turn_keeps g out \<longleftrightarrow> log_ok g (snd out) \<and> (is_ok (fst out) \<longrightarrow> loop_ok g (snd out))"

lemma turn_keepsI:
  "(\<And>res st'. out = (res, st') \<Longrightarrow> log_ok g st' \<and> (is_ok res \<longrightarrow> loop_ok g st')) \<Longrightarrow> turn_keeps g out"
  by (cases out) (simp add: turn_keeps_def)

lemma respond_keeps:
  assumes "loop_ok g st" and "answer_ok g (rs_forwarded st) p"
  shows "turn_keeps g (respond g p st)"
proof (rule turn_keepsI)
  fix res st' assume "respond g p st = (res, st')"
  from log_ok_respond [OF _ assms(2) this] assms(1) show "log_ok g st' \<and> (is_ok res \<longrightarrow> loop_ok g st')"
    by (simp add: loop_ok_def)
qed

lemma failure_keeps: "loop_ok g st \<Longrightarrow> turn_keeps g (respond g [FAILURE] st)"
  by (rule respond_keeps) (simp_all add: answer_ok_def)

lemma kinds_distinct [simp]:
  "\<not> is_sign [IDENTITIES_REQUEST]" "hd f = EXTENSION \<Longrightarrow> \<not> is_sign f"
  by (auto simp: is_sign_def message_kinds)

text \<open>What a forwarded frame leaves when it is no signature.\<close>

lemma loop_ok_forwarded:
  assumes "loop_ok g st" "permitted g f" "\<not> is_sign f"
    and "rs_forwarded st' = rs_forwarded st @ [(f, r)]" "rs_answered st' = rs_answered st"
    and "rs_signatures st' = rs_signatures st"
    and "rs_bound st' \<Longrightarrow> rs_bound st \<or> is_bind g f \<and> r = Some [SUCCESS]"
  shows "loop_ok g st'"
proof -
  have "log_ok g st'" using assms by (intro log_ok_forwarded [of g st f st' r]) (auto simp: loop_ok_def)
  moreover have "rs_bound st' \<longrightarrow> bind_accepted g (rs_forwarded st')"
    using assms by (auto simp: loop_ok_def bind_accepted_def)
  ultimately show ?thesis using assms by (simp add: loop_ok_def)
qed

lemma identities_keeps:
  assumes ok: "loop_ok g st" and f: "f = [IDENTITIES_REQUEST]"
  shows "turn_keeps g (identities_turn g f st)"
proof (rule turn_keepsI)
  fix res st' assume turn: "identities_turn g f st = (res, st')"
  have fwd: "loop_ok g st1" if "forward g f st = (res1, st1)" for res1 st1
    using that
  proof (cases rule: forward_result)
    case (2 r up)
    then show ?thesis using ok f by (intro loop_ok_forwarded [OF ok, of f st1 r]) (auto simp: permitted_def)
  qed (use ok in simp)
  from turn show "log_ok g st' \<and> (is_ok res \<longrightarrow> loop_ok g st')"
    unfolding identities_turn_def
  proof (cases rule: and_then_cases)
    case (1 e)
    with fwd show ?thesis by (auto simp: loop_ok_def)
  next
    case (2 x st1)
    then have st1: "loop_ok g st1" using fwd by blast
    show ?thesis
    proof (cases "filter_identities x (vg_selected_public_key g)")
      case (Inl e)
      with 2 st1 show ?thesis by (auto simp: loop_ok_def)
    next
      case (Inr p)
      then have "answer_ok g (rs_forwarded st1) p" by (auto simp: answer_ok_def only_selected_def)
      from respond_keeps [OF st1 this] 2 Inr show ?thesis by (simp add: turn_keeps_def)
    qed
  qed
qed

lemma is_okD: "is_ok x \<Longrightarrow> \<exists>y. x = Inr y" by (cases x) auto

lemma extension_keeps:
  assumes ok: "loop_ok g st" and f: "f \<noteq> []" "hd f = EXTENSION"
  shows "turn_keeps g (extension_turn g f st)"
proof (cases "\<exists>name. extension_name f = Inr name \<and> (name = QUERY \<and> validate_query f = Inr () \<or>
    name = SESSION_BIND \<and> name \<noteq> QUERY \<and> validate_session_bind f (vg_host_key g) = Inr ())")
  case False
  then have "extension_turn g f st = respond g [FAILURE] st"
    by (auto simp: extension_turn_def Let_def split: sum.split dest!: is_okD)
  then show ?thesis using failure_keeps [OF ok] by simp
next
  case True
  then obtain name where name: "extension_name f = Inr name"
    and valid: "name = QUERY \<and> validate_query f = Inr () \<or>
      name = SESSION_BIND \<and> name \<noteq> QUERY \<and> validate_session_bind f (vg_host_key g) = Inr ()" by blast
  have perm: "permitted g f" and bind: "name = SESSION_BIND \<Longrightarrow> is_bind g f"
    using valid f by (auto simp: permitted_def is_bind_def SESSION_BIND_def QUERY_def)
  have not: "\<not> is_sign f" "f \<noteq> [IDENTITIES_REQUEST]" using f by (auto simp: message_kinds is_sign_def)
  let ?k = "\<lambda>response st1. if name = SESSION_BIND
      then if response \<noteq> [SUCCESS] then (Inl SessionBindDenied, st1)
           else respond g response (st1\<lparr>rs_bound := True\<rparr>)
      else respond g response st1"
  have turn: "extension_turn g f st = and_then (forward g f st) ?k"
  proof -
    have "is_ok (if name = QUERY then validate_query f
        else if name = SESSION_BIND then validate_session_bind f (vg_host_key g) else Inl InvalidMessage)"
      using valid by (elim disjE conjE) simp_all
    then show ?thesis by (simp only: extension_turn_def Let_def name sum.case not_True_eq_False if_False)
  qed
  show ?thesis
  proof (rule turn_keepsI)
    fix res st' assume "extension_turn g f st = (res, st')"
    then have "and_then (forward g f st) ?k = (res, st')" using turn by simp
    then show "log_ok g st' \<and> (is_ok res \<longrightarrow> loop_ok g st')"
    proof (cases rule: and_then_cases)
      case (1 e)
      from 1(1) show ?thesis
      proof (cases rule: forward_result)
        case (2 r up)
        then have "loop_ok g st'" using not perm by (intro loop_ok_forwarded [OF ok, of f st' r]) auto
        then show ?thesis by (simp add: loop_ok_def)
      qed (use ok 1 in \<open>simp add: loop_ok_def\<close>)
    next
      case (2 x st1)
      from forward_Inr [OF 2(1)] obtain up
        where st1: "st1 = st\<lparr>rs_upstream := up, rs_forwarded := rs_forwarded st @ [(f, Some x)]\<rparr>" by blast
      have ans: "answer_ok g (rs_forwarded st1) x" using not(2) by (auto simp: answer_ok_def st1)
      have ok1: "loop_ok g st1"
        using not perm by (intro loop_ok_forwarded [OF ok, of f st1 "Some x"]) (auto simp: st1)
      show ?thesis
      proof (cases "name = SESSION_BIND")
        case True
        show ?thesis
        proof (cases "x = [SUCCESS]")
          case s: True
          have "loop_ok g (st1\<lparr>rs_bound := True\<rparr>)"
            using not perm bind True s by (intro loop_ok_forwarded [OF ok, of f _ "Some x"]) (auto simp: st1)
          from respond_keeps [OF this, of x] ans 2(2) True s show ?thesis by (simp add: turn_keeps_def)
        qed (use 2(2) True ok1 in \<open>auto simp: loop_ok_def\<close>)
      next
        case False
        with respond_keeps [OF ok1 ans] 2(2) show ?thesis by (simp add: turn_keeps_def)
      qed
    qed
  qed
qed

lemma unat_u8_less: "unat (x :: u8) < 256"
  using unsigned_less [of x] by simp

lemma saturating_u8: "unat a < 255 \<Longrightarrow> unat (saturating_add_u8 a 1) = unat a + 1"
proof -
  assume "unat a < 255"
  then have "unat a + unat (1 :: u8) < 2 ^ LENGTH(8)" by simp
  then have "unat (a + 1) = unat a + unat (1 :: u8)" by (simp add: unat_word_ariths)
  with \<open>unat a < 255\<close> show ?thesis by (simp add: saturating_add_u8_def)
qed

lemma sign_keeps:
  assumes ok: "loop_ok g st" and f: "is_sign f" and bound: "rs_bound st"
    and room: "rs_signatures st < gr_max_signatures (vg_grant g)"
  shows "turn_keeps g (sign_turn g publish f st)"
proof (cases "validate_sign_request f (vg_selected_public_key g) = Inr ()")
  case False
  then have "sign_turn g publish f st = respond g [FAILURE] st"
    by (auto simp: sign_turn_def dest!: is_okD)
  then show ?thesis using failure_keeps [OF ok] by simp
next
  case True
  let ?st2 = "\<lambda>st1 :: relay_state. st1\<lparr>rs_signatures := saturating_add_u8 (rs_signatures st1) 1\<rparr>"
  let ?k = "\<lambda>response st1. if response = [] \<or> hd response \<noteq> SIGN_RESPONSE then (Inl SignatureDenied, st1)
          else and_then (respond g response (?st2 st1)) (\<lambda>_ st3.
              (publish \<lparr>rr_session_bound = True, rr_signatures = rs_signatures st3\<rparr>,
               st3\<lparr>rs_published := rs_published st3 @ [\<lparr>rr_session_bound = True, rr_signatures = rs_signatures st3\<rparr>]\<rparr>))"
  have turn: "sign_turn g publish f st = and_then (forward g f st) ?k"
    unfolding sign_turn_def Let_def using True by simp
  have perm: "permitted g f" using True f by (simp add: permitted_def)
  have count: "sign_count st < unat (gr_max_signatures (vg_grant g))" and bind: "bind_accepted g (rs_forwarded st)"
    using ok room bound by (auto simp: loop_ok_def word_less_nat_alt)
  have small: "unat (rs_signatures st) < 255"
    using room unat_u8_less [of "gr_max_signatures (vg_grant g)"] by (simp add: word_less_nat_alt)
  have logs: "log_ok g st1" if "rs_forwarded st1 = rs_forwarded st @ [(f, r)]" "rs_answered st1 = rs_answered st" for st1 r
    using that ok perm count bind by (intro log_ok_forwarded [of g st f st1 r]) (auto simp: loop_ok_def)
  show ?thesis
  proof (rule turn_keepsI)
    fix res st' assume "sign_turn g publish f st = (res, st')"
    then have "and_then (forward g f st) ?k = (res, st')" using turn by simp
    then show "log_ok g st' \<and> (is_ok res \<longrightarrow> loop_ok g st')"
    proof (cases rule: and_then_cases)
      case (1 e)
      from 1(1) show ?thesis
      proof (cases rule: forward_result)
        case (2 r up)
        then show ?thesis using 1 by (simp add: logs)
      qed (use ok 1 in \<open>simp add: loop_ok_def\<close>)
    next
      case (2 x st1)
      from forward_Inr [OF 2(1)] obtain up
        where st1: "st1 = st\<lparr>rs_upstream := up, rs_forwarded := rs_forwarded st @ [(f, Some x)]\<rparr>" by blast
      have ok2: "loop_ok g (?st2 st1)"
        using ok f bind small by (simp add: loop_ok_def logs st1 saturating_u8 bind_accepted_append)
      have "f \<noteq> [IDENTITIES_REQUEST]" using f by auto
      then have "answer_ok g (rs_forwarded (?st2 st1)) x" by (auto simp: answer_ok_def st1)
      note keeps = respond_keeps [OF ok2 this]
      show ?thesis
      proof (cases "x = [] \<or> hd x \<noteq> SIGN_RESPONSE")
        case True
        then show ?thesis using 2(2) by (auto simp: logs st1)
      next
        case False
        with 2(2) have "and_then (respond g x (?st2 st1)) (\<lambda>_ st3.
              (publish \<lparr>rr_session_bound = True, rr_signatures = rs_signatures st3\<rparr>,
               st3\<lparr>rs_published := rs_published st3 @ [\<lparr>rr_session_bound = True, rr_signatures = rs_signatures st3\<rparr>]\<rparr>))
            = (res, st')" by simp
        then show ?thesis
        proof (cases rule: and_then_cases)
          case (1 e)
          with keeps show ?thesis by (simp add: turn_keeps_def)
        next
          case (2 u st3)
          with keeps have "loop_ok g st3" by (simp add: turn_keeps_def)
          with 2(2) show ?thesis by (auto simp: loop_ok_def log_ok_def)
        qed
      qed
    qed
  qed
qed

lemma handle_frame_keeps:
  assumes ok: "loop_ok g st"
  shows "turn_keeps g (handle_frame g publish f st)"
proof (cases f)
  case Nil
  then show ?thesis using failure_keeps [OF ok] by (simp add: handle_frame_def)
next
  case (Cons k body)
  then have hd: "f \<noteq> []" "hd f = k" by simp_all
  show ?thesis
    using Cons failure_keeps [OF ok] identities_keeps [OF ok, of f] extension_keeps [OF ok hd(1)]
      sign_keeps [OF ok, of f publish] hd
    by (auto simp: handle_frame_def is_sign_def)
qed

lemma relay_keeps:
  assumes "loop_ok g st" and "relay g publish st = (res, st')"
  shows "log_ok g st' \<and> (\<forall>rc. res = Inr rc \<longrightarrow>
    rr_session_bound rc \<and> unat (rr_signatures rc) = sign_count st' \<and> sign_count st' > 0 \<and> bind_accepted g (rs_forwarded st'))"
  using assms
proof (induction g publish st rule: relay.induct)
  case (1 g publish st)
  show ?case
  proof (cases "read_frame (frame_limit g) (rs_client st)")
    case (Inl e)
    then have "relay_turn g publish st =
        (if e = ConnectionClosed \<and> rs_bound st \<and> rs_signatures st > 0
          then (Inr (Some \<lparr>rr_session_bound = True, rr_signatures = rs_signatures st\<rparr>), st) else (Inl e, st))"
      by (simp add: relay_turn_def)
    with 1(2,3) show ?thesis
      by (subst (asm) relay.simps) (auto simp: loop_ok_def word_less_nat_alt split: if_splits)
  next
    case (Inr y)
    obtain f cl where y: "y = (f, cl)" by (cases y)
    let ?st1 = "st\<lparr>rs_client := cl\<rparr>"
    have "loop_ok g ?st1" using 1(2) by (simp add: loop_ok_def log_ok_def)
    from handle_frame_keeps [OF this, of publish f]
    have keeps: "turn_keeps g (handle_frame g publish f ?st1)" .
    obtain r st2 where h: "handle_frame g publish f ?st1 = (r, st2)" by (cases "handle_frame g publish f ?st1")
    show ?thesis
    proof (cases r)
      case (Inl e)
      have t: "relay_turn g publish st = (Inl e, st2)" using Inr y h Inl by (simp add: relay_turn_def and_then_def)
      with 1(3) have "res = Inl e" "st' = st2" by (simp_all add: relay.simps [of g publish st])
      with keeps h show ?thesis by (simp add: turn_keeps_def)
    next
      case ok: (Inr u)
      have t: "relay_turn g publish st = (Inr None, st2)" using Inr y h ok by (simp add: relay_turn_def and_then_def)
      with 1(3) have "relay g publish st2 = (res, st')" by (simp add: relay.simps [of g publish st])
      moreover have "loop_ok g st2" using keeps h ok by (simp add: turn_keeps_def)
      ultimately show ?thesis using 1(1) [OF t [symmetric] refl refl] by blast
    qed
  qed
qed

lemma loop_ok_start: "loop_ok g (relay_start client upstream writes)"
  by (simp add: loop_ok_def log_ok_def relay_start_def signed_after_bind_def)

section \<open>The wire format as an encoding\<close>

definition ssh_string :: "string \<Rightarrow> string" where
  "ssh_string v = u32_be (word_of_nat (length v)) @ v"

definition identities_answer :: "(string \<times> string) list \<Rightarrow> string" where
  "identities_answer ids =
     IDENTITIES_ANSWER # u32_be (word_of_nat (length ids)) @ concat (map (\<lambda>(k, c). ssh_string k @ ssh_string c) ids)"

lemma cursor_u32_Inr: "cursor_u32 bs = Inr (w, rest) \<longleftrightarrow> bs = u32_be w @ rest"
proof
  assume "cursor_u32 bs = Inr (w, rest)"
  then have "4 \<le> length bs" "w = be_u32 (take 4 bs)" "rest = drop 4 bs" by (auto simp: cursor_u32_def split: if_splits)
  then show "bs = u32_be w @ rest" by (simp add: u32_be_be_u32)
qed (simp add: cursor_u32_def)

lemma cursor_string_Inr:
  "cursor_string mx bs = Inr (v, rest) \<longleftrightarrow> bs = ssh_string v @ rest \<and> length v \<le> mx \<and> length v < 4294967296"
proof
  assume "cursor_string mx bs = Inr (v, rest)"
  then obtain w b where w: "bs = u32_be w @ b" "unat w \<le> mx" "unat w \<le> length b" "v = take (unat w) b" "rest = drop (unat w) b"
    by (auto simp: cursor_string_def result_simps cursor_u32_Inr Let_def split: if_splits)
  then have "length v = unat w" "word_of_nat (length v) = w" by simp_all
  with w unat_u32_less [of w] show "bs = ssh_string v @ rest \<and> length v \<le> mx \<and> length v < 4294967296"
    by (simp add: ssh_string_def)
next
  assume a: "bs = ssh_string v @ rest \<and> length v \<le> mx \<and> length v < 4294967296"
  then have "unat (word_of_nat (length v) :: u32) = length v" by (simp add: unat_of_nat)
  with a show "cursor_string mx bs = Inr (v, rest)"
    by (simp add: cursor_string_def cursor_u32_def ssh_string_def Let_def)
qed

lemma cursor_string_ssh [simp]:
  "length v \<le> mx \<Longrightarrow> length v < 4294967296 \<Longrightarrow> cursor_string mx (ssh_string v @ rest) = Inr (v, rest)"
  by (simp add: cursor_string_Inr)

lemma read_frame_write_frame:
  "read_frame mx (b, e) = Inr (p, rest, e') \<longleftrightarrow> e' = e \<and> (\<exists>w. write_frame p mx = Inr w \<and> b = w @ rest)"
proof
  assume "read_frame mx (b, e) = Inr (p, rest, e')"
  then obtain n where n: "n = be_u32 (take 4 b)" "4 \<le> length b" "unat n \<noteq> 0" "unat n \<le> mx" "unat n \<le> length b - 4"
    "p = take (unat n) (drop 4 b)" "rest = drop (unat n) (drop 4 b)" "e' = e"
    by (auto simp: read_frame_def read_exact_until_def result_simps Let_def split: if_splits)
  then have len: "length p = unat n" and hd: "take 4 b = u32_be n" by (simp_all add: u32_be_be_u32)
  have "p @ rest = drop 4 b" unfolding n(6,7) by (rule append_take_drop_id)
  then have b: "b = (u32_be n @ p) @ rest" using hd by (metis append.assoc append_take_drop_id)
  have "p \<noteq> []" "length p \<le> mx" "length p < 2 ^ 32" "word_of_nat (length p) = n"
    using n(3,4) len unat_u32_less [of n] by auto
  then have "write_frame p mx = Inr (u32_be n @ p)" by (simp add: write_frame_def)
  with b n(8) show "e' = e \<and> (\<exists>w. write_frame p mx = Inr w \<and> b = w @ rest)" by blast
next
  assume a: "e' = e \<and> (\<exists>w. write_frame p mx = Inr w \<and> b = w @ rest)"
  then have p: "p \<noteq> []" "length p \<le> mx" "length p < 4294967296" "b = u32_be (word_of_nat (length p)) @ p @ rest" "e' = e"
    by (auto simp: write_frame_def split: if_splits)
  define n :: u32 where "n = word_of_nat (length p)"
  with p(3) have "unat n = length p" by (simp add: unat_of_nat)
  moreover have "b = u32_be n @ p @ rest" using p(4) by (simp add: n_def)
  moreover note p(1,2,5)
  ultimately show "read_frame mx (b, e) = Inr (p, rest, e')"
    by (simp add: read_frame_def read_exact_until_def Let_def)
qed

section \<open>What the message checks accept\<close>

lemma scan_identities_Inr:
  "scan_identities n sel bs = Inr (found, rest) \<longleftrightarrow>
     (\<exists>ids. length ids = n \<and> bs = concat (map (\<lambda>(k, c). ssh_string k @ ssh_string c) ids) @ rest
        \<and> (\<forall>(k, c)\<in>set ids. length k \<le> 16384 \<and> length c \<le> 256) \<and> (found \<longleftrightarrow> sel \<in> fst ` set ids))"
proof (induction n arbitrary: bs found)
  case (Suc n)
  show ?case
  proof
    assume "scan_identities (Suc n) sel bs = Inr (found, rest)"
    then obtain k c b fnd where kc: "bs = ssh_string k @ ssh_string c @ b" "length k \<le> 16384" "length c \<le> 256"
      and more: "scan_identities n sel b = Inr (fnd, rest)" and found: "found \<longleftrightarrow> k = sel \<or> fnd"
      by (auto simp: result_simps cursor_string_Inr MAX_IDENTITY_COMMENT_def)
    from more obtain ids where "length ids = n" "b = concat (map (\<lambda>(k, c). ssh_string k @ ssh_string c) ids) @ rest"
      "\<forall>(k, c)\<in>set ids. length k \<le> 16384 \<and> length c \<le> 256" "fnd \<longleftrightarrow> sel \<in> fst ` set ids"
      unfolding Suc.IH by blast
    with kc found show "\<exists>ids. length ids = Suc n \<and> bs = concat (map (\<lambda>(k, c). ssh_string k @ ssh_string c) ids) @ rest
        \<and> (\<forall>(k, c)\<in>set ids. length k \<le> 16384 \<and> length c \<le> 256) \<and> (found \<longleftrightarrow> sel \<in> fst ` set ids)"
      by (intro exI [of _ "(k, c) # ids"]) auto
  next
    assume "\<exists>ids. length ids = Suc n \<and> bs = concat (map (\<lambda>(k, c). ssh_string k @ ssh_string c) ids) @ rest
        \<and> (\<forall>(k, c)\<in>set ids. length k \<le> 16384 \<and> length c \<le> 256) \<and> (found \<longleftrightarrow> sel \<in> fst ` set ids)"
    then obtain idl where idl: "length idl = Suc n" "bs = concat (map (\<lambda>(k, c). ssh_string k @ ssh_string c) idl) @ rest"
        "\<forall>(k, c)\<in>set idl. length k \<le> 16384 \<and> length c \<le> 256" "found \<longleftrightarrow> sel \<in> fst ` set idl" by blast
    then obtain k c ids where kc: "idl = (k, c) # ids" by (cases idl) auto
    with idl have "length ids = n" "length k \<le> 16384" "length c \<le> 256"
      "bs = ssh_string k @ ssh_string c @ concat (map (\<lambda>(k, c). ssh_string k @ ssh_string c) ids) @ rest"
      "\<forall>(k, c)\<in>set ids. length k \<le> 16384 \<and> length c \<le> 256" "found \<longleftrightarrow> k = sel \<or> sel \<in> fst ` set ids"
      by auto
    moreover from this have "scan_identities n sel (concat (map (\<lambda>(k, c). ssh_string k @ ssh_string c) ids) @ rest)
        = Inr (sel \<in> fst ` set ids, rest)" unfolding Suc.IH by blast
    ultimately show "scan_identities (Suc n) sel bs = Inr (found, rest)"
      by (simp add: MAX_IDENTITY_COMMENT_def)
  qed
qed auto

lemma filter_identities_Inr:
  "filter_identities response sel = Inr out \<longleftrightarrow>
     (\<exists>ids. length ids \<le> 256 \<and> (\<forall>(k, c)\<in>set ids. length k \<le> 16384 \<and> length c \<le> 256)
        \<and> response = identities_answer ids
        \<and> out = identities_answer (if sel \<in> fst ` set ids then [(sel, ''promptectomy-selected-key'')] else []))"
    (is "_ \<longleftrightarrow> (\<exists>ids. ?ok ids)")
proof
  assume "filter_identities response sel = Inr out"
  then obtain count b found where
    resp: "response = IDENTITIES_ANSWER # u32_be count @ b" and count: "count \<le> 256"
    and scan: "scan_identities (unat count) sel b = Inr (found, [])"
    and out: "(if \<not> found then Inr (IDENTITIES_ANSWER # u32_be 0)
       else bindE (push_string (IDENTITIES_ANSWER # u32_be 1) sel) (\<lambda>out.
         push_string out ''promptectomy-selected-key'')) = Inr out"
    by (auto simp: filter_identities_def result_simps cursor_u32_Inr cursor_finish_def MAX_IDENTITIES_def not_less
      split: list.splits if_splits)
  from scan obtain ids where ids: "length ids = unat count" "b = concat (map (\<lambda>(k, c). ssh_string k @ ssh_string c) ids)"
    "\<forall>(k, c)\<in>set ids. length k \<le> 16384 \<and> length c \<le> 256" "found \<longleftrightarrow> sel \<in> fst ` set ids"
    unfolding scan_identities_Inr by auto
  have "length ids \<le> 256" using ids(1) count by (simp add: word_le_nat_alt)
  moreover have "response = identities_answer ids"
    using resp ids(2) word_of_length [OF ids(1) [symmetric]] by (simp add: identities_answer_def)
  moreover have "out = identities_answer (if sel \<in> fst ` set ids then [(sel, ''promptectomy-selected-key'')] else [])"
    using out ids(4) by (auto simp: identities_answer_def push_string_def result_simps ssh_string_def split: if_splits)
  ultimately have "?ok ids" using ids(3) by blast
  then show "\<exists>ids. ?ok ids" by (rule exI [where P = ?ok])
next
  assume "\<exists>ids. ?ok ids"
  then obtain ids where ids: "?ok ids" by (rule exE)
  define count :: u32 where "count = word_of_nat (length ids)"
  with ids have count: "unat count = length ids" by (simp add: unat_of_nat)
  let ?b = "concat (map (\<lambda>(k, c). ssh_string k @ ssh_string c) ids)"
  have resp: "response = IDENTITIES_ANSWER # u32_be count @ ?b"
    using ids by (simp add: identities_answer_def count_def)
  have scan: "scan_identities (unat count) sel ?b = Inr (sel \<in> fst ` set ids, [])"
    unfolding scan_identities_Inr using ids count by auto
  have u: "cursor_u32 (u32_be count @ ?b) = Inr (count, ?b)" by (simp add: cursor_u32_Inr)
  have small: "\<not> count > MAX_IDENTITIES" using count ids by (simp add: MAX_IDENTITIES_def word_less_nat_alt)
  have step: "filter_identities response sel =
      (if sel \<notin> fst ` set ids then Inr (IDENTITIES_ANSWER # u32_be 0)
       else bindE (push_string (IDENTITIES_ANSWER # u32_be 1) sel) (\<lambda>out.
         push_string out ''promptectomy-selected-key''))"
    unfolding filter_identities_def resp using u small scan by (simp add: cursor_finish_def)
  have len: "length sel < 2 ^ 32" if "sel \<in> fst ` set ids"
  proof -
    from that ids have "length sel \<le> 16384" by auto
    then show ?thesis by simp
  qed
  show "filter_identities response sel = Inr out"
    unfolding step using ids len by (auto simp: push_string_def identities_answer_def ssh_string_def)
qed

text \<open>The frames that pass as a session bind or as a sign request, in full.\<close>

lemma frame_body_Inr: "frame_body f = Inr b \<longleftrightarrow> (\<exists>k. f = k # b)"
  by (auto simp: frame_body_def split: list.split)

lemma validate_sign_request_Inr:
  "validate_sign_request f sel = Inr () \<Longrightarrow>
     \<exists>k data flags. f = k # ssh_string sel @ ssh_string data @ u32_be flags
       \<and> data \<noteq> [] \<and> length data \<le> 65536 \<and> flags \<in> {0, 2, 4}"
  by (auto simp: validate_sign_request_def result_simps frame_body_Inr cursor_string_Inr cursor_u32_Inr cursor_finish_def
    split: if_splits)

lemma validate_session_bind_Inr:
  "validate_session_bind f hk = Inr () \<Longrightarrow>
     \<exists>k session sig z. f = k # ssh_string SESSION_BIND @ ssh_string hk @ ssh_string session @ ssh_string sig @ [z]
       \<and> session \<noteq> [] \<and> sig \<noteq> [] \<and> byte_code z = 0"
  by (auto simp: validate_session_bind_def result_simps frame_body_Inr cursor_string_Inr cursor_finish_def cursor_byte_def
    split: if_splits list.splits)

lemma permitted_sign:
  assumes "permitted g f" "is_sign f"
  shows "\<exists>data flags. f = SIGN_REQUEST # ssh_string (vg_selected_public_key g) @ ssh_string data @ u32_be flags"
proof -
  have "validate_sign_request f (vg_selected_public_key g) = Inr ()"
    using assms by (auto simp: permitted_def is_bind_def)
  from validate_sign_request_Inr [OF this] assms(2) show ?thesis by (auto simp: is_sign_def)
qed

end
