(* ===== verification/Relay_Theorems.thy ===== *)
theory Relay_Theorems
  imports Agent_Relay
begin

text \<open>
  The properties of the SSH agent relay, with a session in which a client binds, signs once and
  closes as the witness.
\<close>

section \<open>A session\<close>

definition demo_relay_grant :: validated_grant where
  "demo_relay_grant = \<lparr>vg_grant =
     \<lparr>gr_schema_version = GRANT_VERSION, gr_opaque_handle = ''h'', gr_display_host = ''github.com'', gr_port = 22,
      gr_username = ''git'', gr_repository = ''a/b'', gr_revision = ''main'', gr_host_key_type = ''ssh-ed25519'',
      gr_host_key_base64 = '''', gr_host_key_sha256 = '''', gr_selected_public_key_base64 = '''',
      gr_manifest_digest = '''', gr_credential_source = ''selected_ssh_agent'', gr_wall_time_seconds = 60,
      gr_max_connections = 1, gr_max_frame_bytes = 1024, gr_max_signatures = 1\<rparr>,
     vg_host_key = ''hk'', vg_selected_public_key = ''pk''\<rparr>"

definition demo_bind :: string where
  "demo_bind = EXTENSION # ssh_string SESSION_BIND @ ssh_string ''hk'' @ ssh_string ''sid'' @ ssh_string ''sig'' @ [CHR 0x00]"

definition demo_sign :: string where
  "demo_sign = SIGN_REQUEST # ssh_string ''pk'' @ ssh_string ''data'' @ u32_be 0"

definition framed :: "string \<Rightarrow> string" where
  "framed p = u32_be (word_of_nat (length p)) @ p"

definition demo_client :: stream where
  "demo_client = (framed demo_bind @ framed demo_sign, ConnectionClosed)"

definition demo_agent :: stream where
  "demo_agent = (framed [SUCCESS] @ framed [SIGN_RESPONSE, CHR ''s''], ConnectionClosed)"

lemma read_framed [simp]:
  "p \<noteq> [] \<Longrightarrow> length p \<le> mx \<Longrightarrow> length p < 4294967296 \<Longrightarrow> read_frame mx (framed p @ rest, e) = Inr (p, rest, e)"
  "p \<noteq> [] \<Longrightarrow> length p \<le> mx \<Longrightarrow> length p < 4294967296 \<Longrightarrow> read_frame mx (framed p, e) = Inr (p, [], e)"
  by (simp_all add: read_frame_write_frame framed_def write_frame_def)

lemma read_frame_end [simp]: "read_frame mx ([], e) = Inl e"
  by (simp add: read_frame_def read_exact_until_def)

lemma length_demo_frames [simp]: "length demo_bind = 50" "length demo_sign = 19" "demo_bind \<noteq> []" "demo_sign \<noteq> []"
  by (simp_all add: demo_bind_def demo_sign_def ssh_string_def SESSION_BIND_def)

lemma demo_checks [simp]:
  "extension_name demo_bind = Inr SESSION_BIND"
  "validate_session_bind demo_bind ''hk'' = Inr ()"
  "validate_sign_request demo_sign ''pk'' = Inr ()"
  by (simp_all add: extension_name_def validate_session_bind_def validate_sign_request_def frame_body_def
    demo_bind_def demo_sign_def MAX_SESSION_ID_BYTES_def MAX_SIGNATURE_BYTES_def cursor_byte_def cursor_finish_def
    cursor_u32_def SESSION_BIND_def)

lemma relay_demo_fields [simp]:
  "frame_limit demo_relay_grant = 1024" "vg_host_key demo_relay_grant = ''hk''"
  "vg_selected_public_key demo_relay_grant = ''pk''" "gr_max_signatures (vg_grant demo_relay_grant) = 1"
  by (simp_all add: frame_limit_def demo_relay_grant_def)

lemma demo_bind_turn:
  "handle_frame demo_relay_grant publish demo_bind st
     = and_then (forward demo_relay_grant demo_bind st) (\<lambda>response st1.
         if response \<noteq> [SUCCESS] then (Inl SessionBindDenied, st1)
         else respond demo_relay_grant response (st1\<lparr>rs_bound := True\<rparr>))"
proof -
  obtain t where d: "demo_bind = EXTENSION # t" by (simp add: demo_bind_def)
  have "handle_frame demo_relay_grant publish demo_bind st = extension_turn demo_relay_grant demo_bind st"
    unfolding d by (simp add: handle_frame_def message_kinds)
  then show ?thesis by (simp add: extension_turn_def SESSION_BIND_def QUERY_def demo_checks [unfolded SESSION_BIND_def])
qed

lemma demo_sign_turn:
  "rs_bound st \<Longrightarrow> rs_signatures st = 0 \<Longrightarrow>
     handle_frame demo_relay_grant publish demo_sign st = sign_turn demo_relay_grant publish demo_sign st"
proof -
  assume a: "rs_bound st" "rs_signatures st = 0"
  obtain t where d: "demo_sign = SIGN_REQUEST # t" by (simp add: demo_sign_def)
  from a show ?thesis unfolding d by (simp add: handle_frame_def message_kinds)
qed

definition demo_end :: relay_state where
  "demo_end = snd (relay demo_relay_grant (\<lambda>_. Inr ()) (relay_start demo_client demo_agent 9))"

lemma demo_session:
  "relay demo_relay_grant (\<lambda>_. Inr ()) (relay_start demo_client demo_agent 9)
     = (Inr \<lparr>rr_session_bound = True, rr_signatures = 1\<rparr>, demo_end)"
  "rs_forwarded demo_end = [(demo_bind, Some [SUCCESS]), (demo_sign, Some [SIGN_RESPONSE, CHR ''s''])]"
  "rs_answered demo_end = [[SUCCESS], [SIGN_RESPONSE, CHR ''s'']]"
proof -
  let ?st1 = "(relay_start demo_client demo_agent 9)\<lparr>rs_client := (framed demo_sign, ConnectionClosed),
    rs_upstream := (framed [SIGN_RESPONSE, CHR ''s''], ConnectionClosed), rs_bound := True, rs_writes := 8,
    rs_forwarded := [(demo_bind, Some [SUCCESS])], rs_answered := [[SUCCESS]]\<rparr>"
  let ?st2 = "?st1\<lparr>rs_client := ([], ConnectionClosed), rs_upstream := ([], ConnectionClosed), rs_writes := 7,
    rs_signatures := 1, rs_forwarded := [(demo_bind, Some [SUCCESS]), (demo_sign, Some [SIGN_RESPONSE, CHR ''s''])],
    rs_answered := [[SUCCESS], [SIGN_RESPONSE, CHR ''s'']], rs_published := [\<lparr>rr_session_bound = True, rr_signatures = 1\<rparr>]\<rparr>"
  have 1: "relay_turn demo_relay_grant (\<lambda>_. Inr ()) (relay_start demo_client demo_agent 9) = (Inr None, ?st1)"
    by (simp add: relay_turn_def relay_start_def demo_client_def demo_agent_def demo_bind_turn forward_def respond_def
      and_then_def write_frame_def)
  have 2: "relay_turn demo_relay_grant (\<lambda>_. Inr ()) ?st1 = (Inr None, ?st2)"
    by (simp add: relay_turn_def relay_start_def demo_sign_turn sign_turn_def forward_def respond_def
      and_then_def write_frame_def saturating_add_u8_def Let_def)
  have 3: "relay_turn demo_relay_grant (\<lambda>_. Inr ()) ?st2 = (Inr (Some \<lparr>rr_session_bound = True, rr_signatures = 1\<rparr>), ?st2)"
    by (simp add: relay_turn_def relay_start_def)
  have "relay demo_relay_grant (\<lambda>_. Inr ()) (relay_start demo_client demo_agent 9)
     = (Inr \<lparr>rr_session_bound = True, rr_signatures = 1\<rparr>, ?st2)"
    by (subst relay.simps, simp only: 1 prod.case sum.case option.case,
        subst relay.simps, simp only: 2 prod.case sum.case option.case,
        subst relay.simps, simp only: 3 prod.case sum.case option.case)
  then show "relay demo_relay_grant (\<lambda>_. Inr ()) (relay_start demo_client demo_agent 9)
     = (Inr \<lparr>rr_session_bound = True, rr_signatures = 1\<rparr>, demo_end)"
    and "rs_forwarded demo_end = [(demo_bind, Some [SUCCESS]), (demo_sign, Some [SIGN_RESPONSE, CHR ''s''])]"
    and "rs_answered demo_end = [[SUCCESS], [SIGN_RESPONSE, CHR ''s'']]"
    by (simp_all add: demo_end_def)
qed

section \<open>Properties\<close>

text \<open>C15 (signing). Whatever the client and the agent send, every frame the relay hands to the agent is one the
  grant permits; sign requests are for the selected key alone, at most \<open>max_signatures\<close> of them, and
  each follows a session bind with the granted host key that the agent has accepted.\<close>

theorem relay_signs_only_bound:
  assumes "relay g publish (relay_start client upstream writes) = (res, st)"
  shows "(\<forall>(f, r)\<in>set (rs_forwarded st). permitted g f
      \<and> (is_sign f \<longrightarrow> (\<exists>data flags. f = SIGN_REQUEST # ssh_string (vg_selected_public_key g) @ ssh_string data @ u32_be flags)))
    \<and> length (filter (\<lambda>(f, r). is_sign f) (rs_forwarded st)) \<le> unat (gr_max_signatures (vg_grant g))
    \<and> (\<forall>xs f r ys. rs_forwarded st = xs @ (f, r) # ys \<longrightarrow> is_sign f \<longrightarrow>
         (\<exists>b. (b, Some [SUCCESS]) \<in> set xs \<and> is_bind g b))"
proof (intro conjI)
  have ok: "log_ok g st" using relay_keeps [OF loop_ok_start assms] by blast
  then show "length (filter (\<lambda>(f, r). is_sign f) (rs_forwarded st)) \<le> unat (gr_max_signatures (vg_grant g))"
    by (simp add: log_ok_def)
  from ok have "signed_after_bind g (rs_forwarded st)" by (simp add: log_ok_def)
  then show "\<forall>xs f r ys. rs_forwarded st = xs @ (f, r) # ys \<longrightarrow> is_sign f \<longrightarrow>
       (\<exists>b. (b, Some [SUCCESS]) \<in> set xs \<and> is_bind g b)"
    unfolding signed_after_bind_def bind_accepted_def by blast
  have "permitted g f \<and> (is_sign f \<longrightarrow> (\<exists>data flags. f = SIGN_REQUEST # ssh_string (vg_selected_public_key g) @ ssh_string data @ u32_be flags))"
    if "(f, r) \<in> set (rs_forwarded st)" for f r
    using ok that permitted_sign by (fastforce simp: log_ok_def)
  then show "\<forall>(f, r)\<in>set (rs_forwarded st). permitted g f
      \<and> (is_sign f \<longrightarrow> (\<exists>data flags. f = SIGN_REQUEST # ssh_string (vg_selected_public_key g) @ ssh_string data @ u32_be flags))"
    by blast
qed

theorem relay_signs_only_bound_witness:
  "length (filter (\<lambda>(f, r). is_sign f) (rs_forwarded demo_end)) \<le> 1
     \<and> is_sign demo_sign \<and> (\<exists>b. (b, Some [SUCCESS]) \<in> set [(demo_bind, Some [SUCCESS])] \<and> is_bind demo_relay_grant b)"
proof -
  have sign: "is_sign demo_sign" by (simp add: is_sign_def demo_sign_def)
  have eq: "rs_forwarded demo_end = [(demo_bind, Some [SUCCESS])] @ (demo_sign, Some [SIGN_RESPONSE, CHR ''s'']) # []"
    by (simp add: demo_session(2))
  note all = relay_signs_only_bound [OF demo_session(1)]
  from all [THEN conjunct2, THEN conjunct2, rule_format, OF eq sign] all [THEN conjunct2, THEN conjunct1] sign
  show ?thesis by simp
qed

text \<open>C16 (receipt). A receipt is returned only for a session that was bound and in which the agent was asked
  for a signature, and it counts exactly the sign requests handed to the agent.\<close>

theorem relay_receipt_true:
  assumes "relay g publish (relay_start client upstream writes) = (Inr rc, st)"
  shows "rr_session_bound rc \<and> unat (rr_signatures rc) = length (filter (\<lambda>(f, r). is_sign f) (rs_forwarded st))
    \<and> 0 < unat (rr_signatures rc) \<and> (\<exists>b. (b, Some [SUCCESS]) \<in> set (rs_forwarded st) \<and> is_bind g b)"
  using relay_keeps [OF loop_ok_start assms] unfolding bind_accepted_def by auto

theorem relay_receipt_true_witness:
  "length (filter (\<lambda>(f, r). is_sign f) (rs_forwarded demo_end)) = 1"
  using relay_receipt_true [OF demo_session(1)] by simp

text \<open>Answers: Every frame the client receives is the failure byte, a list of identities that names at
  most the selected key, or the agent's own reply to a frame that did not ask for identities.\<close>

lemma relay_answers_filtered:
  assumes "relay g publish (relay_start client upstream writes) = (res, st)" and "p \<in> set (rs_answered st)"
  shows "p = [FAILURE] \<or> p = identities_answer []
    \<or> p = identities_answer [(vg_selected_public_key g, ''promptectomy-selected-key'')]
    \<or> (\<exists>f. f \<noteq> [IDENTITIES_REQUEST] \<and> (f, Some p) \<in> set (rs_forwarded st))"
proof -
  have "log_ok g st" using relay_keeps [OF loop_ok_start assms(1)] by blast
  with assms(2) have "answer_ok g (rs_forwarded st) p" by (simp add: log_ok_def)
  then show ?thesis by (auto simp: answer_ok_def only_selected_def filter_identities_Inr)
qed

text \<open>Identities: The filter accepts exactly the well-formed identity lists of at most 256 keys, and answers
  with the one selected key, under a fixed comment, if it is in the list, and with the empty list if it is not.\<close>

lemma identity_filter_exact:
  "filter_identities response sel = Inr out \<longleftrightarrow>
     (\<exists>ids. length ids \<le> 256 \<and> list_all (\<lambda>(k, c). length k \<le> 16384 \<and> length c \<le> 256) ids
        \<and> response = identities_answer ids
        \<and> out = identities_answer (if sel \<in> fst ` set ids then [(sel, ''promptectomy-selected-key'')] else []))"
  by (simp only: filter_identities_Inr list_all_iff)

text \<open>Frames: Reading a frame takes from a stream exactly the bytes that writing that frame puts there, and
  leaves the rest: what one side writes within the limit the other reads, and nothing else is read.\<close>

lemma frame_roundtrip:
  "read_frame mx (b, e) = Inr (p, rest, e') \<longleftrightarrow> e' = e \<and> (\<exists>w. write_frame p mx = Inr w \<and> b = w @ rest)"
  by (rule read_frame_write_frame)

end
