(* ===== verification/Wire_Protocol.thy ===== *)
theory Wire_Protocol
  imports Text_Tools Contracts Byte_Order
begin

text \<open>
  The out-of-process protocol (\<open>rust/crates/promptectomy-protocol/src/lib.rs\<close>): messages and their
  validation, the limits two peers negotiate, the bounds on JSON payloads, and length-prefixed frames.
  The code that \<open>serde\<close> derives for the message types is the record \<open>wire\<close>.
\<close>

section \<open>Errors and limits\<close>

datatype protocol_error =
    FrameTooLarge nat nat
  | TruncatedFrame nat nat
  | DuplicateMember
  | InvalidJson
  | UnknownField
  | UnknownMessageKind
  | UnknownMajor u16
  | ProtocolMismatch
  | BoundViolation string
  | IncompatibleOperation
  | Io

definition PROTOCOL_NAME :: string where "PROTOCOL_NAME = ''promptectomy.out_of_process''"
definition PROTOCOL_MAJOR :: u16 where "PROTOCOL_MAJOR = 1"
definition PROTOCOL_MINOR :: u16 where "PROTOCOL_MINOR = 0"
definition MESSAGE_SCHEMA_VERSION :: string where "MESSAGE_SCHEMA_VERSION = ''promptectomy.protocol.message.v1''"
definition MESSAGE_SCHEMA_PREFIX :: string where "MESSAGE_SCHEMA_PREFIX = ''promptectomy.protocol.message.v''"
definition DEFAULT_MAX_FRAME_BYTES :: u32 where "DEFAULT_MAX_FRAME_BYTES = 1048576"
definition DEFAULT_MAX_STRING_BYTES :: u32 where "DEFAULT_MAX_STRING_BYTES = 16384"
definition DEFAULT_MAX_ARRAY_ITEMS :: u32 where "DEFAULT_MAX_ARRAY_ITEMS = 256"
definition DEFAULT_MAX_OBJECT_MEMBERS :: u32 where "DEFAULT_MAX_OBJECT_MEMBERS = 256"
definition DEFAULT_MAX_JSON_DEPTH :: u16 where "DEFAULT_MAX_JSON_DEPTH = 32"
definition MAX_WALL_TIME_MS :: u64 where "MAX_WALL_TIME_MS = 86400000"
definition MAX_CPU_MILLIS :: u64 where "MAX_CPU_MILLIS = 86400000"
definition MAX_MEMORY_BYTES :: u64 where "MAX_MEMORY_BYTES = 1099511627776"
definition MAX_OUTPUT_BYTES :: u64 where "MAX_OUTPUT_BYTES = 1073741824"
definition MAX_BUDGET_ARTIFACT_BYTES :: u64 where "MAX_BUDGET_ARTIFACT_BYTES = 268435456"
definition MAX_TOKEN_BUDGET :: u64 where "MAX_TOKEN_BUDGET = 10000000"
definition MAX_BUDGET_ATTEMPTS :: u64 where "MAX_BUDGET_ATTEMPTS = 32"

lemmas default_limits = DEFAULT_MAX_FRAME_BYTES_def DEFAULT_MAX_STRING_BYTES_def DEFAULT_MAX_ARRAY_ITEMS_def
  DEFAULT_MAX_OBJECT_MEMBERS_def DEFAULT_MAX_JSON_DEPTH_def

record protocol_limits =
  max_frame_bytes :: u32
  max_string_bytes :: u32
  max_array_items :: u32
  max_object_members :: u32
  max_json_depth :: u16

definition limits_default :: protocol_limits where
  "limits_default = \<lparr>max_frame_bytes = DEFAULT_MAX_FRAME_BYTES, max_string_bytes = DEFAULT_MAX_STRING_BYTES,
     max_array_items = DEFAULT_MAX_ARRAY_ITEMS, max_object_members = DEFAULT_MAX_OBJECT_MEMBERS,
     max_json_depth = DEFAULT_MAX_JSON_DEPTH\<rparr>"

definition limits_validate :: "protocol_limits \<Rightarrow> protocol_error + unit" where
  "limits_validate l =
     (if max_frame_bytes l < 4 \<or> max_frame_bytes l > DEFAULT_MAX_FRAME_BYTES then Inl (BoundViolation ''max_frame_bytes'')
      else if max_string_bytes l = 0 \<or> max_string_bytes l > DEFAULT_MAX_STRING_BYTES then Inl (BoundViolation ''max_string_bytes'')
      else if max_array_items l = 0 \<or> max_array_items l > DEFAULT_MAX_ARRAY_ITEMS then Inl (BoundViolation ''max_array_items'')
      else if max_object_members l = 0 \<or> max_object_members l > DEFAULT_MAX_OBJECT_MEMBERS then Inl (BoundViolation ''max_object_members'')
      else if max_json_depth l = 0 \<or> max_json_depth l > DEFAULT_MAX_JSON_DEPTH then Inl (BoundViolation ''max_json_depth'')
      else Inr ())"

definition intersect :: "protocol_limits \<Rightarrow> protocol_limits \<Rightarrow> protocol_error + protocol_limits" where
  "intersect l peer =
     (let v = \<lparr>max_frame_bytes = min (max_frame_bytes l) (max_frame_bytes peer),
               max_string_bytes = min (max_string_bytes l) (max_string_bytes peer),
               max_array_items = min (max_array_items l) (max_array_items peer),
               max_object_members = min (max_object_members l) (max_object_members peer),
               max_json_depth = min (max_json_depth l) (max_json_depth peer)\<rparr>
      in bindE (limits_validate v) (\<lambda>_. Inr v))"

section \<open>Bounded values\<close>

definition safe_string :: "protocol_limits \<Rightarrow> string \<Rightarrow> bool" where
  "safe_string l v \<longleftrightarrow> \<not> (v = [] \<or> length v > unat (max_string_bytes l) \<or> has_control v)"

definition validate_safe_string :: "string \<Rightarrow> string \<Rightarrow> protocol_limits \<Rightarrow> protocol_error + unit" where
  "validate_safe_string v field l = (if safe_string l v then Inr () else Inl (BoundViolation field))"

fun validate_each :: "string list \<Rightarrow> string \<Rightarrow> protocol_limits \<Rightarrow> protocol_error + unit" where
  "validate_each [] field l = Inr ()"
| "validate_each (v # vs) field l = bindE (validate_safe_string v field l) (\<lambda>_. validate_each vs field l)"

definition validate_string_vec :: "string list \<Rightarrow> string \<Rightarrow> protocol_limits \<Rightarrow> protocol_error + unit" where
  "validate_string_vec vs field l =
     (if length vs > unat (max_array_items l) then Inl (BoundViolation field) else validate_each vs field l)"

definition validate_optional_budget :: "u64 option \<Rightarrow> u64 \<Rightarrow> string \<Rightarrow> protocol_error + unit" where
  "validate_optional_budget v mx field =
     (case v of None \<Rightarrow> Inr ()
      | Some amount \<Rightarrow> if amount = 0 \<or> amount > mx then Inl (BoundViolation field) else Inr ())"

definition saturating_succ_u16 :: "u16 \<Rightarrow> u16" where
  "saturating_succ_u16 d = (if d = 65535 then 65535 else d + 1)"

fun validate_json_bounds_at :: "protocol_limits \<Rightarrow> u16 \<Rightarrow> json \<Rightarrow> protocol_error + unit"
  and bounds_items :: "protocol_limits \<Rightarrow> u16 \<Rightarrow> json list \<Rightarrow> protocol_error + unit"
  and bounds_members :: "protocol_limits \<Rightarrow> u16 \<Rightarrow> json_object \<Rightarrow> protocol_error + unit"
where
  "validate_json_bounds_at l depth v =
     (if depth > max_json_depth l then Inl (BoundViolation ''depth'')
      else
        (case v of
           JStr text \<Rightarrow> validate_safe_string text ''string'' l
         | JArr items \<Rightarrow>
             if length items > unat (max_array_items l) then Inl (BoundViolation ''array'')
             else bounds_items l (saturating_succ_u16 depth) items
         | JObj members \<Rightarrow>
             if length members > unat (max_object_members l) then Inl (BoundViolation ''object'')
             else bounds_members l (saturating_succ_u16 depth) members
         | _ \<Rightarrow> Inr ()))"
| "bounds_items l depth [] = Inr ()"
| "bounds_items l depth (v # vs) = bindE (validate_json_bounds_at l depth v) (\<lambda>_. bounds_items l depth vs)"
| "bounds_members l depth [] = Inr ()"
| "bounds_members l depth ((k, v) # ms) =
     bindE (validate_safe_string k ''object_key'' l) (\<lambda>_.
     bindE (validate_json_bounds_at l depth v) (\<lambda>_. bounds_members l depth ms))"

declare validate_json_bounds_at.simps [simp del]

definition validate_json_bounds :: "json \<Rightarrow> protocol_limits \<Rightarrow> protocol_error + unit" where
  "validate_json_bounds v l = validate_json_bounds_at l 0 v"

section \<open>Messages\<close>

datatype message_kind = KHello | KReady | KRequest | KResult | KCancel | KFailure

fun kind_as_str :: "message_kind \<Rightarrow> string" where
  "kind_as_str KHello = ''hello''"
| "kind_as_str KReady = ''ready''"
| "kind_as_str KRequest = ''request''"
| "kind_as_str KResult = ''result''"
| "kind_as_str KCancel = ''cancel''"
| "kind_as_str KFailure = ''failure''"

datatype endpoint_kind = ControlPlane | PythonAdapter | TypeScriptAdapter | OciExecutor | AgentConnector

datatype operation_kind =
    DiscoverPython
  | DiscoverTypeScript
  | NormalizeEvidence
  | ExecuteOci
  | AcceptOciBackend
  | RunAgentTask
  | CancelAgentTask

fun is_allowed_for :: "operation_kind \<Rightarrow> endpoint_kind \<Rightarrow> bool" where
  "is_allowed_for k ControlPlane = False"
| "is_allowed_for k PythonAdapter = (k \<in> {DiscoverPython, NormalizeEvidence})"
| "is_allowed_for k TypeScriptAdapter = (k \<in> {DiscoverTypeScript, NormalizeEvidence})"
| "is_allowed_for k OciExecutor = (k \<in> {ExecuteOci, AcceptOciBackend})"
| "is_allowed_for k AgentConnector = (k \<in> {RunAgentTask, CancelAgentTask})"

record hello_body =
  h_protocol :: string
  h_major :: u16
  h_minor :: u16
  h_endpoint :: endpoint_kind
  h_implementation :: string
  h_capabilities :: "string list"
  h_limits :: protocol_limits

record negotiated_protocol =
  n_protocol :: string
  n_major :: u16
  n_minor :: u16
  n_local_endpoint :: endpoint_kind
  n_peer_endpoint :: endpoint_kind
  n_capabilities :: "string list"
  n_limits :: protocol_limits

record budget_limits =
  bl_wall_time_ms :: "u64 option"
  bl_cpu_millis :: "u64 option"
  bl_memory_bytes :: "u64 option"
  bl_output_bytes :: "u64 option"
  bl_artifact_bytes :: "u64 option"
  bl_token_budget :: "u64 option"
  bl_attempts :: "u64 option"

record cancellation_policy =
  cp_cancel_token :: string
  cp_poll_interval_ms :: u64

record request_body =
  rq_endpoint :: endpoint_kind
  rq_operation :: operation_kind
  rq_deadline :: "u64 option"
  rq_budgets :: budget_limits
  rq_cancellation :: cancellation_policy
  rq_payload :: json

datatype result_status = Completed | Failed | Unsupported | Cancelled | Interrupted

record safe_diagnostic =
  sd_code :: string
  sd_safe_message :: string

record result_body =
  rs_status :: result_status
  rs_payload :: json
  rs_artifact_refs :: "string list"
  rs_budgets_used :: budget_limits
  rs_diagnostics :: "safe_diagnostic list"

record cancel_body =
  cb_target_request_id :: string
  cb_reason :: string

datatype failure_category =
  CatProtocol | CatUnsupported | CatPolicy | CatBudget | CatAdapter | CatExecutor | CatAgent | CatCancel | CatInternal

datatype failure_code =
  ProtocolVersionMismatch | CodeFrameTooLarge | CodeInvalidJson | CodeUnknownField | UnsupportedOperation
  | DeadlineExceeded | BudgetExceeded | CodeCancelled | AdapterFailed | ExecutorFailed | AgentFailed | CodeInternal

record failure_body =
  fb_code :: failure_code
  fb_category :: failure_category
  fb_retryable :: bool
  fb_safe_message :: string
  fb_next_action :: string

datatype message_body =
    Hello hello_body
  | Ready negotiated_protocol
  | Request request_body
  | Result result_body
  | Cancel cancel_body
  | Failure failure_body

record protocol_message =
  pm_schema_version :: string
  pm_message_id :: string
  pm_request_id :: "string option"
  pm_body :: message_body

fun body_kind :: "message_body \<Rightarrow> message_kind" where
  "body_kind (Hello _) = KHello"
| "body_kind (Ready _) = KReady"
| "body_kind (Request _) = KRequest"
| "body_kind (Result _) = KResult"
| "body_kind (Cancel _) = KCancel"
| "body_kind (Failure _) = KFailure"

definition hello_new :: "endpoint_kind \<Rightarrow> string \<Rightarrow> string list \<Rightarrow> hello_body" where
  "hello_new endpoint implementation capabilities =
     \<lparr>h_protocol = PROTOCOL_NAME, h_major = PROTOCOL_MAJOR, h_minor = PROTOCOL_MINOR, h_endpoint = endpoint,
      h_implementation = implementation, h_capabilities = capabilities, h_limits = limits_default\<rparr>"

definition hello_message :: "string \<Rightarrow> hello_body \<Rightarrow> protocol_message" where
  "hello_message message_id body =
     \<lparr>pm_schema_version = MESSAGE_SCHEMA_VERSION, pm_message_id = message_id, pm_request_id = None, pm_body = Hello body\<rparr>"

section \<open>Validation\<close>

definition hello_validate :: "hello_body \<Rightarrow> protocol_limits \<Rightarrow> protocol_error + unit" where
  "hello_validate h l =
     (if h_protocol h \<noteq> PROTOCOL_NAME then Inl ProtocolMismatch
      else if h_major h \<noteq> PROTOCOL_MAJOR then Inl (UnknownMajor (h_major h))
      else
        bindE (validate_safe_string (h_implementation h) ''implementation'' l) (\<lambda>_.
        bindE (validate_string_vec (h_capabilities h) ''capabilities'' l) (\<lambda>_.
          limits_validate (h_limits h))))"

definition negotiated_validate :: "negotiated_protocol \<Rightarrow> protocol_limits \<Rightarrow> protocol_error + unit" where
  "negotiated_validate n l =
     (if n_protocol n \<noteq> PROTOCOL_NAME then Inl ProtocolMismatch
      else if n_major n \<noteq> PROTOCOL_MAJOR then Inl (UnknownMajor (n_major n))
      else
        bindE (validate_string_vec (n_capabilities n) ''capabilities'' l) (\<lambda>_.
          limits_validate (n_limits n)))"

definition budgets_validate :: "budget_limits \<Rightarrow> protocol_error + unit" where
  "budgets_validate b =
     bindE (validate_optional_budget (bl_wall_time_ms b) MAX_WALL_TIME_MS ''wall_time_ms'') (\<lambda>_.
     bindE (validate_optional_budget (bl_cpu_millis b) MAX_CPU_MILLIS ''cpu_millis'') (\<lambda>_.
     bindE (validate_optional_budget (bl_memory_bytes b) MAX_MEMORY_BYTES ''memory_bytes'') (\<lambda>_.
     bindE (validate_optional_budget (bl_output_bytes b) MAX_OUTPUT_BYTES ''output_bytes'') (\<lambda>_.
     bindE (validate_optional_budget (bl_artifact_bytes b) MAX_BUDGET_ARTIFACT_BYTES ''artifact_bytes'') (\<lambda>_.
     bindE (validate_optional_budget (bl_token_budget b) MAX_TOKEN_BUDGET ''token_budget'') (\<lambda>_.
       validate_optional_budget (bl_attempts b) MAX_BUDGET_ATTEMPTS ''attempts''))))))"

definition cancellation_validate :: "cancellation_policy \<Rightarrow> protocol_limits \<Rightarrow> protocol_error + unit" where
  "cancellation_validate c l =
     bindE (validate_safe_string (cp_cancel_token c) ''cancel_token'' l) (\<lambda>_.
       if cp_poll_interval_ms c = 0 \<or> cp_poll_interval_ms c > 60000
       then Inl (BoundViolation ''poll_interval_ms'') else Inr ())"

definition request_validate :: "request_body \<Rightarrow> protocol_limits \<Rightarrow> protocol_error + unit" where
  "request_validate r l =
     (if \<not> is_allowed_for (rq_operation r) (rq_endpoint r) then Inl IncompatibleOperation
      else
        bindE (budgets_validate (rq_budgets r)) (\<lambda>_.
        bindE (cancellation_validate (rq_cancellation r) l) (\<lambda>_.
          validate_json_bounds (rq_payload r) l)))"

definition diagnostic_validate :: "safe_diagnostic \<Rightarrow> protocol_limits \<Rightarrow> protocol_error + unit" where
  "diagnostic_validate d l =
     bindE (validate_safe_string (sd_code d) ''diagnostic_code'' l) (\<lambda>_.
       validate_safe_string (sd_safe_message d) ''diagnostic_message'' l)"

fun diagnostics_validate :: "safe_diagnostic list \<Rightarrow> protocol_limits \<Rightarrow> protocol_error + unit" where
  "diagnostics_validate [] l = Inr ()"
| "diagnostics_validate (d # ds) l = bindE (diagnostic_validate d l) (\<lambda>_. diagnostics_validate ds l)"

definition result_validate :: "result_body \<Rightarrow> protocol_limits \<Rightarrow> protocol_error + unit" where
  "result_validate r l =
     bindE (validate_string_vec (rs_artifact_refs r) ''artifact_refs'' l) (\<lambda>_.
     bindE (budgets_validate (rs_budgets_used r)) (\<lambda>_.
       if length (rs_diagnostics r) > unat (max_array_items l) then Inl (BoundViolation ''diagnostics'')
       else
         bindE (diagnostics_validate (rs_diagnostics r) l) (\<lambda>_.
           validate_json_bounds (rs_payload r) l)))"

definition cancel_validate :: "cancel_body \<Rightarrow> protocol_limits \<Rightarrow> protocol_error + unit" where
  "cancel_validate c l =
     bindE (validate_safe_string (cb_target_request_id c) ''target_request_id'' l) (\<lambda>_.
       validate_safe_string (cb_reason c) ''cancel_reason'' l)"

definition failure_validate :: "failure_body \<Rightarrow> protocol_limits \<Rightarrow> protocol_error + unit" where
  "failure_validate f l =
     bindE (validate_safe_string (fb_safe_message f) ''safe_message'' l) (\<lambda>_.
       validate_safe_string (fb_next_action f) ''next_action'' l)"

fun body_validate :: "message_body \<Rightarrow> protocol_limits \<Rightarrow> protocol_error + unit" where
  "body_validate (Hello v) l = hello_validate v l"
| "body_validate (Ready v) l = negotiated_validate v l"
| "body_validate (Request v) l = request_validate v l"
| "body_validate (Result v) l = result_validate v l"
| "body_validate (Cancel v) l = cancel_validate v l"
| "body_validate (Failure v) l = failure_validate v l"

text \<open>\<open>str::parse::<u16>()\<close>: an optional plus sign and digits, within range.\<close>

definition parse_u16 :: "string \<Rightarrow> u16 option" where
  "parse_u16 s =
     (let ds = (if starts_with ''+'' s \<and> length s > 1 then drop 1 s else s) in
      if ds = [] \<or> \<not> list_all is_ascii_digit ds then None
      else
        let n = fold (\<lambda>c n. 10 * n + (byte_code c - 48)) ds (0 :: nat) in
        if n < 65536 then Some (word_of_nat n) else None)"

definition validate_message_schema :: "string \<Rightarrow> protocol_error + unit" where
  "validate_message_schema v =
     (if v = MESSAGE_SCHEMA_VERSION then Inr ()
      else
        bindE (ok_or ProtocolMismatch (strip_prefix MESSAGE_SCHEMA_PREFIX v)) (\<lambda>version.
        bindE (ok_or ProtocolMismatch (parse_u16 version)) (\<lambda>major.
          Inl (UnknownMajor major))))"

definition validate_request_id :: "string option \<Rightarrow> protocol_limits \<Rightarrow> protocol_error + unit" where
  "validate_request_id rid l = (case rid of None \<Rightarrow> Inr () | Some v \<Rightarrow> validate_safe_string v ''request_id'' l)"

definition message_validate :: "protocol_message \<Rightarrow> protocol_limits \<Rightarrow> protocol_error + unit" where
  "message_validate m l =
     bindE (validate_message_schema (pm_schema_version m)) (\<lambda>_.
     bindE (validate_safe_string (pm_message_id m) ''message_id'' l) (\<lambda>_.
     bindE (validate_request_id (pm_request_id m) l) (\<lambda>_.
       body_validate (pm_body m) l)))"

section \<open>Negotiation\<close>

definition negotiate :: "hello_body \<Rightarrow> hello_body \<Rightarrow> protocol_error + negotiated_protocol" where
  "negotiate l peer =
     bindE (hello_validate l limits_default) (\<lambda>_.
     bindE (hello_validate peer limits_default) (\<lambda>_.
     bindE (intersect (h_limits l) (h_limits peer)) (\<lambda>limits.
       Inr \<lparr>n_protocol = PROTOCOL_NAME, n_major = PROTOCOL_MAJOR, n_minor = min (h_minor l) (h_minor peer),
            n_local_endpoint = h_endpoint l, n_peer_endpoint = h_endpoint peer,
            n_capabilities = sort (remdups (filter (\<lambda>c. c \<in> set (h_capabilities peer)) (h_capabilities l))),
            n_limits = limits\<rparr>)))"

section \<open>Encoding and decoding\<close>

record raw_envelope =
  re_schema_version :: string
  re_message_id :: string
  re_request_id :: "string option"
  re_kind :: string
  re_body :: json

text \<open>
  What \<open>serde\<close> derives: a body as a JSON value, an envelope as text, and the way back. A refusal
  carries the message of the error.
\<close>

record wire =
  body_to_value :: "message_body \<Rightarrow> json option"
  envelope_text :: "raw_envelope \<Rightarrow> string option"
  envelope_of :: "json \<Rightarrow> string + raw_envelope"
  body_of :: "message_kind \<Rightarrow> json \<Rightarrow> string + message_body"

text \<open>
  Its law: a body that has been written as a value is read back from that value, and an
  envelope written as text from whatever strict JSON value that text has.
\<close>

definition wire_laws :: "env \<Rightarrow> wire \<Rightarrow> bool" where
  "wire_laws E W \<longleftrightarrow>
     (\<forall>b v. body_to_value W b = Some v \<longrightarrow> body_of W (body_kind b) v = Inr b)
     \<and> (\<forall>r t n v. envelope_text W r = Some t \<longrightarrow> parse_strict_json E t n = Inr v \<longrightarrow> envelope_of W v = Inr r)"

definition decode_value :: "(json \<Rightarrow> string + 'a) \<Rightarrow> json \<Rightarrow> protocol_error + 'a" where
  "decode_value f v =
     (case f v of
        Inr x \<Rightarrow> Inr x
      | Inl message \<Rightarrow> Inl (if contains_text message ''unknown field'' then UnknownField else InvalidJson))"

fun map_contract_error :: "contract_error \<Rightarrow> protocol_error" where
  "map_contract_error (Contracts.TooLarge mx) = FrameTooLarge mx (mx + 1)"
| "map_contract_error Contracts.DuplicateMember = DuplicateMember"
| "map_contract_error _ = InvalidJson"

definition parse_json :: "env \<Rightarrow> string \<Rightarrow> protocol_limits \<Rightarrow> protocol_error + json" where
  "parse_json E payload l = map_err map_contract_error (parse_strict_json E payload (unat (max_frame_bytes l)))"

definition encode_message :: "env \<Rightarrow> wire \<Rightarrow> protocol_message \<Rightarrow> protocol_limits \<Rightarrow> protocol_error + string" where
  "encode_message E W m l =
     bindE (limits_validate l) (\<lambda>_.
     bindE (message_validate m l) (\<lambda>_.
     bindE (ok_or InvalidJson (body_to_value W (pm_body m))) (\<lambda>body.
     bindE (ok_or InvalidJson (envelope_text W
         \<lparr>re_schema_version = MESSAGE_SCHEMA_VERSION, re_message_id = pm_message_id m,
          re_request_id = pm_request_id m, re_kind = kind_as_str (body_kind (pm_body m)), re_body = body\<rparr>)) (\<lambda>payload.
       if length payload > unat (max_frame_bytes l)
       then Inl (FrameTooLarge (unat (max_frame_bytes l)) (length payload))
       else
         bindE (parse_json E payload l) (\<lambda>v.
         bindE (validate_json_bounds v l) (\<lambda>_. Inr payload))))))"

definition kind_of_str :: "string \<Rightarrow> message_kind option" where
  "kind_of_str s = find (\<lambda>k. kind_as_str k = s) [KHello, KReady, KRequest, KResult, KCancel, KFailure]"

definition decode_message :: "env \<Rightarrow> wire \<Rightarrow> string \<Rightarrow> protocol_limits \<Rightarrow> protocol_error + protocol_message" where
  "decode_message E W payload l =
     bindE (limits_validate l) (\<lambda>_.
       if length payload > unat (max_frame_bytes l)
       then Inl (FrameTooLarge (unat (max_frame_bytes l)) (length payload))
       else
         bindE (parse_json E payload l) (\<lambda>v.
         bindE (validate_json_bounds v l) (\<lambda>_.
         bindE (decode_value (envelope_of W) v) (\<lambda>raw.
         bindE (validate_message_schema (re_schema_version raw)) (\<lambda>_.
         bindE (validate_safe_string (re_message_id raw) ''message_id'' l) (\<lambda>_.
         bindE (validate_request_id (re_request_id raw) l) (\<lambda>_.
         bindE (ok_or UnknownMessageKind (kind_of_str (re_kind raw))) (\<lambda>kind.
         bindE (decode_value (body_of W kind) (re_body raw)) (\<lambda>body.
           let m = \<lparr>pm_schema_version = re_schema_version raw, pm_message_id = re_message_id raw,
                    pm_request_id = re_request_id raw, pm_body = body\<rparr> in
           bindE (message_validate m l) (\<lambda>_. Inr m))))))))))"

text \<open>
  \<open>read_frame\<close> and \<open>write_frame\<close> over the bytes a peer sends before it closes; \<open>broken\<close> is the
  I/O error that may come instead of the end.
\<close>

type_synonym byte_stream = "string \<times> bool"

definition read_exact_bounded :: "nat \<Rightarrow> byte_stream \<Rightarrow> protocol_error + (string \<times> byte_stream)" where
  "read_exact_bounded n s =
     (if n \<le> length (fst s) then Inr (take n (fst s), drop n (fst s), snd s)
      else if snd s then Inl Io
      else Inl (TruncatedFrame n (length (fst s))))"

definition read_protocol_frame :: "env \<Rightarrow> wire \<Rightarrow> protocol_limits \<Rightarrow> byte_stream \<Rightarrow> protocol_error + (protocol_message \<times> byte_stream)" where
  "read_protocol_frame E W l s =
     bindE (limits_validate l) (\<lambda>_.
     bindE (read_exact_bounded 4 s) (\<lambda>(header, s1).
       let actual = unat (be_u32 header) in
       if actual > unat (max_frame_bytes l) then Inl (FrameTooLarge (unat (max_frame_bytes l)) actual)
       else
         bindE (read_exact_bounded actual s1) (\<lambda>(payload, s2).
         bindE (decode_message E W payload l) (\<lambda>m. Inr (m, s2)))))"

definition write_protocol_frame :: "env \<Rightarrow> wire \<Rightarrow> protocol_limits \<Rightarrow> protocol_message \<Rightarrow> protocol_error + string" where
  "write_protocol_frame E W l m =
     bindE (encode_message E W m l) (\<lambda>payload.
       if length payload \<ge> 2 ^ 32 then Inl (FrameTooLarge (unat (max_frame_bytes l)) (length payload))
       else Inr (u32_be (word_of_nat (length payload)) @ payload))"

section \<open>What validation accepts\<close>

lemma limits_validate_Inr:
  "limits_validate l = Inr () \<longleftrightarrow>
     4 \<le> max_frame_bytes l \<and> max_frame_bytes l \<le> DEFAULT_MAX_FRAME_BYTES
     \<and> max_string_bytes l \<noteq> 0 \<and> max_string_bytes l \<le> DEFAULT_MAX_STRING_BYTES
     \<and> max_array_items l \<noteq> 0 \<and> max_array_items l \<le> DEFAULT_MAX_ARRAY_ITEMS
     \<and> max_object_members l \<noteq> 0 \<and> max_object_members l \<le> DEFAULT_MAX_OBJECT_MEMBERS
     \<and> max_json_depth l \<noteq> 0 \<and> max_json_depth l \<le> DEFAULT_MAX_JSON_DEPTH"
  by (auto simp: limits_validate_def not_less)

lemma validate_safe_string_Inr [simp]: "validate_safe_string v field l = Inr () \<longleftrightarrow> safe_string l v"
  by (simp add: validate_safe_string_def)

lemma validate_string_vec_Inr:
  "validate_string_vec vs field l = Inr () \<longleftrightarrow> length vs \<le> unat (max_array_items l) \<and> list_all (safe_string l) vs"
proof -
  have "validate_each vs field l = Inr () \<longleftrightarrow> list_all (safe_string l) vs"
    by (induction vs) (auto simp: result_simps)
  then show ?thesis by (auto simp: validate_string_vec_def)
qed

text \<open>The depth of a value, and the bounds at each of its parts.\<close>

fun height :: "json \<Rightarrow> nat"
  and height_list :: "json list \<Rightarrow> nat"
  and height_members :: "json_object \<Rightarrow> nat"
where
  "height (JArr vs) = height_list vs"
| "height (JObj ms) = height_members ms"
| "height _ = 0"
| "height_list [] = 0"
| "height_list (v # vs) = max (Suc (height v)) (height_list vs)"
| "height_members [] = 0"
| "height_members ((k, v) # ms) = max (Suc (height v)) (height_members ms)"

fun parts_ok :: "protocol_limits \<Rightarrow> json \<Rightarrow> bool"
  and parts_ok_list :: "protocol_limits \<Rightarrow> json list \<Rightarrow> bool"
  and parts_ok_members :: "protocol_limits \<Rightarrow> json_object \<Rightarrow> bool"
where
  "parts_ok l (JStr s) \<longleftrightarrow> safe_string l s"
| "parts_ok l (JArr vs) \<longleftrightarrow> length vs \<le> unat (max_array_items l) \<and> parts_ok_list l vs"
| "parts_ok l (JObj ms) \<longleftrightarrow> length ms \<le> unat (max_object_members l) \<and> parts_ok_members l ms"
| "parts_ok l _ \<longleftrightarrow> True"
| "parts_ok_list l [] \<longleftrightarrow> True"
| "parts_ok_list l (v # vs) \<longleftrightarrow> parts_ok l v \<and> parts_ok_list l vs"
| "parts_ok_members l [] \<longleftrightarrow> True"
| "parts_ok_members l ((k, v) # ms) \<longleftrightarrow> safe_string l k \<and> parts_ok l v \<and> parts_ok_members l ms"

lemma unat_u16_less: "unat (x :: u16) < 65536"
  using unsigned_less [of x] by simp

lemma unat_succ_u16: "unat d < 65535 \<Longrightarrow> unat (saturating_succ_u16 d) = Suc (unat d)"
proof -
  assume lt: "unat d < 65535"
  then have "d \<noteq> 65535" by auto
  moreover have "unat (d + 1) = unat d + unat (1 :: u16)" using lt by (simp add: unat_word_ariths)
  ultimately show ?thesis by (simp add: saturating_succ_u16_def)
qed

lemma bounds_exact:
  assumes "unat (max_json_depth l) < 65535"
  shows "validate_json_bounds_at l d v = Inr () \<longleftrightarrow> unat d + height v \<le> unat (max_json_depth l) \<and> parts_ok l v"
    and "unat d \<le> unat (max_json_depth l) \<Longrightarrow> bounds_items l (saturating_succ_u16 d) vs = Inr () \<longleftrightarrow>
      unat d + height_list vs \<le> unat (max_json_depth l) \<and> parts_ok_list l vs"
    and "unat d \<le> unat (max_json_depth l) \<Longrightarrow> bounds_members l (saturating_succ_u16 d) ms = Inr () \<longleftrightarrow>
      unat d + height_members ms \<le> unat (max_json_depth l) \<and> parts_ok_members l ms"
proof (induction v and vs and ms arbitrary: d and d and d rule: height_height_list_height_members.induct)
  case (1 vs)
  then show ?case by (subst validate_json_bounds_at.simps) (auto simp: word_less_nat_alt)
next
  case (2 ms)
  then show ?case by (subst validate_json_bounds_at.simps) (auto simp: word_less_nat_alt)
next
  case (5 v vs)
  from 5(3) assms have "unat (saturating_succ_u16 d) = Suc (unat d)" by (intro unat_succ_u16) simp
  with 5 show ?case by (auto simp: result_simps)
next
  case (7 k v ms)
  from 7(3) assms have "unat (saturating_succ_u16 d) = Suc (unat d)" by (intro unat_succ_u16) simp
  with 7 show ?case by (auto simp: result_simps)
qed (auto simp: validate_json_bounds_at.simps word_less_nat_alt)

lemma validate_json_bounds_Inr:
  assumes "limits_validate l = Inr ()"
  shows "validate_json_bounds v l = Inr () \<longleftrightarrow> height v \<le> unat (max_json_depth l) \<and> parts_ok l v"
proof -
  have "unat (max_json_depth l) < 65535"
    using assms by (simp add: limits_validate_Inr DEFAULT_MAX_JSON_DEPTH_def word_le_nat_alt)
  from bounds_exact(1) [OF this, of 0 v] show ?thesis by (simp add: validate_json_bounds_def)
qed

section \<open>Negotiation\<close>

lemma intersect_valid:
  assumes "limits_validate l = Inr ()" and "limits_validate p = Inr ()"
  shows "intersect l p = Inr \<lparr>max_frame_bytes = min (max_frame_bytes l) (max_frame_bytes p),
               max_string_bytes = min (max_string_bytes l) (max_string_bytes p),
               max_array_items = min (max_array_items l) (max_array_items p),
               max_object_members = min (max_object_members l) (max_object_members p),
               max_json_depth = min (max_json_depth l) (max_json_depth p)\<rparr>"
proof -
  have either: "P x \<Longrightarrow> P y \<Longrightarrow> P (min x y)" for P and x y :: "'b::linorder" by (simp add: min_def)
  have "limits_validate \<lparr>max_frame_bytes = min (max_frame_bytes l) (max_frame_bytes p),
               max_string_bytes = min (max_string_bytes l) (max_string_bytes p),
               max_array_items = min (max_array_items l) (max_array_items p),
               max_object_members = min (max_object_members l) (max_object_members p),
               max_json_depth = min (max_json_depth l) (max_json_depth p)\<rparr> = Inr ()"
    unfolding limits_validate_Inr protocol_limits.simps
    by (intro conjI; rule either; use assms in \<open>simp add: limits_validate_Inr\<close>)
  then show ?thesis by (simp add: intersect_def Let_def)
qed

lemma negotiate_Inr:
  "negotiate a b = Inr n \<longleftrightarrow>
     hello_validate a limits_default = Inr () \<and> hello_validate b limits_default = Inr ()
     \<and> n = \<lparr>n_protocol = PROTOCOL_NAME, n_major = PROTOCOL_MAJOR, n_minor = min (h_minor a) (h_minor b),
            n_local_endpoint = h_endpoint a, n_peer_endpoint = h_endpoint b,
            n_capabilities = sort (remdups (filter (\<lambda>c. c \<in> set (h_capabilities b)) (h_capabilities a))),
            n_limits = \<lparr>max_frame_bytes = min (max_frame_bytes (h_limits a)) (max_frame_bytes (h_limits b)),
               max_string_bytes = min (max_string_bytes (h_limits a)) (max_string_bytes (h_limits b)),
               max_array_items = min (max_array_items (h_limits a)) (max_array_items (h_limits b)),
               max_object_members = min (max_object_members (h_limits a)) (max_object_members (h_limits b)),
               max_json_depth = min (max_json_depth (h_limits a)) (max_json_depth (h_limits b))\<rparr>\<rparr>"
proof -
  have valid: "limits_validate (h_limits h) = Inr ()" if "hello_validate h limits_default = Inr ()" for h
    using that by (auto simp: hello_validate_def result_simps split: if_splits)
  show ?thesis
  proof (cases "hello_validate a limits_default = Inr () \<and> hello_validate b limits_default = Inr ()")
    case True
    with intersect_valid [OF valid valid, of a b] show ?thesis by (auto simp: negotiate_def)
  next
    case False
    then show ?thesis by (auto simp: negotiate_def result_simps)
  qed
qed

section \<open>Round trips\<close>

lemma kind_of_as_str [simp]: "kind_of_str (kind_as_str k) = Some k"
  by (cases k) (simp_all add: kind_of_str_def)

lemma validate_message_schema_Inr [simp]: "validate_message_schema v = Inr () \<longleftrightarrow> v = MESSAGE_SCHEMA_VERSION"
  by (auto simp: validate_message_schema_def result_simps)

lemma decode_encode:
  assumes laws: "wire_laws E W" and enc: "encode_message E W m l = Inr payload"
  shows "decode_message E W payload l = Inr m" and "length payload \<le> unat (max_frame_bytes l)"
    and "limits_validate l = Inr ()"
proof -
  let ?r = "\<lambda>body. \<lparr>re_schema_version = MESSAGE_SCHEMA_VERSION, re_message_id = pm_message_id m,
          re_request_id = pm_request_id m, re_kind = kind_as_str (body_kind (pm_body m)), re_body = body\<rparr>"
  from enc obtain body v where valid: "limits_validate l = Inr ()" "message_validate m l = Inr ()"
    and body: "body_to_value W (pm_body m) = Some body" and tx: "envelope_text W (?r body) = Some payload"
    and len: "length payload \<le> unat (max_frame_bytes l)"
    and parse: "parse_json E payload l = Inr v" and bounds: "validate_json_bounds v l = Inr ()"
    by (auto simp: encode_message_def result_simps split: if_splits)
  from parse have "parse_strict_json E payload (unat (max_frame_bytes l)) = Inr v"
    by (simp add: parse_json_def result_simps)
  with laws tx have env: "envelope_of W v = Inr (?r body)" unfolding wire_laws_def by blast
  from laws body have decoded: "body_of W (body_kind (pm_body m)) body = Inr (pm_body m)" unfolding wire_laws_def by blast
  from valid(2) have schema: "pm_schema_version m = MESSAGE_SCHEMA_VERSION"
    and ids: "validate_safe_string (pm_message_id m) ''message_id'' l = Inr ()" "validate_request_id (pm_request_id m) l = Inr ()"
    by (auto simp: message_validate_def result_simps)
  have m: "\<lparr>pm_schema_version = MESSAGE_SCHEMA_VERSION, pm_message_id = pm_message_id m,
      pm_request_id = pm_request_id m, pm_body = pm_body m\<rparr> = m"
    using schema by simp
  show "decode_message E W payload l = Inr m"
    using valid len parse bounds env decoded ids
    by (simp add: decode_message_def decode_value_def Let_def m validate_message_schema_def validate_safe_string_def)
  show "length payload \<le> unat (max_frame_bytes l)" by (rule len)
  show "limits_validate l = Inr ()" by (rule valid(1))
qed

lemma read_write_frame:
  assumes laws: "wire_laws E W" and w: "write_protocol_frame E W l m = Inr w"
  shows "read_protocol_frame E W l (w @ rest, broken) = Inr (m, rest, broken)"
proof -
  from w obtain payload where enc: "encode_message E W m l = Inr payload" and small: "length payload < 4294967296"
    and wp: "w = u32_be (word_of_nat (length payload)) @ payload"
    by (auto simp: write_protocol_frame_def result_simps split: if_splits)
  note dec = decode_encode [OF laws enc]
  define n :: u32 where "n = word_of_nat (length payload)"
  with small have n: "unat n = length payload" by (simp add: unat_of_nat)
  have w: "w = u32_be n @ payload" using wp by (simp add: n_def)
  show ?thesis
    using dec n unfolding read_protocol_frame_def read_exact_bounded_def w by (simp add: Let_def)
qed

text \<open>What a peer's frame that has been read satisfies.\<close>

lemma read_frame_valid:
  assumes "read_protocol_frame E W l s = Inr (m, s')"
  shows "message_validate m l = Inr ()" and "length (fst s') < length (fst s)"
    and "length (fst s) \<le> length (fst s') + 4 + unat (max_frame_bytes l)"
  using assms
  by (auto simp: read_protocol_frame_def read_exact_bounded_def decode_message_def Let_def result_simps split: if_splits)

end
