(* ===== verification/Adapter_Supervisor.thy ===== *)
theory Adapter_Supervisor
  imports Wire_Protocol
begin

text \<open>
  The adapter supervisor (\<open>rust/crates/promptectomy-protocol/src/supervisor.rs\<close>): the check of a
  request, the time an adapter gets, the exchange over its pipes, and what becomes of the
  outcome. Processes are what the operating system answers: the bytes the adapter writes, the
  number of writes it takes, and the results of waiting and killing.
\<close>

datatype supervisor_error =
    ExecutablePathNotAbsolute
  | InvalidExecutable
  | WorkingDirectoryNotAbsolute
  | InvalidWorkingDirectory
  | InsecureWorkingDirectory
  | InvalidBound string
  | EndpointMismatch
  | InvalidRequest
  | Spawn
  | MissingPipe string
  | Protocol protocol_error
  | UnexpectedMessage message_kind message_kind
  | PeerIdentityMismatch
  | NegotiationMismatch
  | ResponseMismatch
  | Exited int "nat \<times> bool"
  | Signaled int "nat \<times> bool"
  | TimedOut "nat \<times> bool"
  | Cancelled "nat \<times> bool"
  | StderrTooLarge nat nat "nat \<times> bool"
  | StderrRead
  | Termination
  | ProcessTreeUnsupported
  | InvalidClock

record supervisor_config =
  sc_local_hello :: hello_body
  sc_expected_peer_endpoint :: endpoint_kind
  sc_limits :: protocol_limits
  sc_max_response_bytes :: nat
  sc_max_stderr_bytes :: nat
  sc_max_runtime :: nat

section \<open>The request and its time\<close>

definition validate_adapter_request :: "protocol_message \<Rightarrow> endpoint_kind \<Rightarrow> supervisor_error + string" where
  "validate_adapter_request m endpoint =
     (case pm_request_id m of
        None \<Rightarrow> Inl InvalidRequest
      | Some rid \<Rightarrow>
          if rid = [] then Inl InvalidRequest
          else
            (case pm_body m of
               Request body \<Rightarrow> if rq_endpoint body \<noteq> endpoint then Inl EndpointMismatch else Inr rid
             | _ \<Rightarrow> Inl InvalidRequest))"

text \<open>Durations are in nanoseconds; the clock is \<open>None\<close> before the Unix epoch.\<close>

definition from_millis :: "nat \<Rightarrow> nat" where
  "from_millis n = n * 1000000"

definition effective_runtime :: "nat option \<Rightarrow> protocol_message \<Rightarrow> nat \<Rightarrow> supervisor_error + nat" where
  "effective_runtime clock m configured =
     (case pm_body m of
        Request body \<Rightarrow>
          let runtime = (case bl_wall_time_ms (rq_budgets body) of
                           None \<Rightarrow> configured | Some ms \<Rightarrow> min configured (from_millis (unat ms)))
          in (case rq_deadline body of
                None \<Rightarrow> Inr runtime
              | Some deadline \<Rightarrow>
                  bindE (ok_or InvalidClock clock) (\<lambda>now_ms.
                    if unat deadline \<le> now_ms then Inr 0
                    else Inr (min runtime (from_millis (unat deadline - now_ms)))))
      | _ \<Rightarrow> Inl InvalidRequest)"

section \<open>The exchange\<close>

text \<open>
  What the adapter will send, how many of the supervisor's writes it takes, and the messages
  written so far.
\<close>

record pipes =
  pi_stdout :: byte_stream
  pi_writes :: nat
  pi_sent :: "protocol_message list"

type_synonym 'a exchanged = "(supervisor_error + 'a) \<times> pipes"

definition then_do :: "'a exchanged \<Rightarrow> ('a \<Rightarrow> pipes \<Rightarrow> 'b exchanged) \<Rightarrow> 'b exchanged" where
  "then_do m k = (case m of (Inl e, p) \<Rightarrow> (Inl e, p) | (Inr x, p) \<Rightarrow> k x p)"

definition send :: "env \<Rightarrow> wire \<Rightarrow> protocol_limits \<Rightarrow> protocol_message \<Rightarrow> pipes \<Rightarrow> unit exchanged" where
  "send E W l m p =
     (case write_protocol_frame E W l m of
        Inl e \<Rightarrow> (Inl (Protocol e), p)
      | Inr _ \<Rightarrow>
          if pi_writes p = 0 then (Inl (Protocol Io), p)
          else (Inr (), p\<lparr>pi_writes := pi_writes p - 1, pi_sent := pi_sent p @ [m]\<rparr>))"

definition receive :: "env \<Rightarrow> wire \<Rightarrow> protocol_limits \<Rightarrow> pipes \<Rightarrow> protocol_message exchanged" where
  "receive E W l p =
     (case read_protocol_frame E W l (pi_stdout p) of
        Inl e \<Rightarrow> (Inl (Protocol e), p)
      | Inr (m, s) \<Rightarrow> (Inr m, p\<lparr>pi_stdout := s\<rparr>))"

definition check :: "(supervisor_error + 'a) \<Rightarrow> pipes \<Rightarrow> 'a exchanged" where
  "check r p = (r, p)"

definition response_limits :: "supervisor_config \<Rightarrow> supervisor_error + protocol_limits" where
  "response_limits c =
     (if sc_max_response_bytes c \<ge> 2 ^ 32 then Inl (InvalidBound ''max_response_bytes'')
      else
        let l = (sc_limits c)\<lparr>max_frame_bytes := word_of_nat (sc_max_response_bytes c)\<rparr> in
        bindE (map_err Protocol (limits_validate l)) (\<lambda>_. Inr l))"

definition negotiated_response_limits :: "supervisor_config \<Rightarrow> protocol_limits \<Rightarrow> supervisor_error + protocol_limits" where
  "negotiated_response_limits c negotiated =
     (if sc_max_response_bytes c \<ge> 2 ^ 32 then Inl (InvalidBound ''max_response_bytes'')
      else
        let l = negotiated\<lparr>max_frame_bytes := min (max_frame_bytes negotiated) (word_of_nat (sc_max_response_bytes c))\<rparr> in
        bindE (map_err Protocol (limits_validate l)) (\<lambda>_. Inr l))"

definition peer_hello :: "supervisor_config \<Rightarrow> protocol_message \<Rightarrow> supervisor_error + hello_body" where
  "peer_hello c m =
     (if pm_request_id m \<noteq> None then Inl NegotiationMismatch
      else
        (case pm_body m of
           Hello h \<Rightarrow> if h_endpoint h \<noteq> sc_expected_peer_endpoint c then Inl PeerIdentityMismatch else Inr h
         | b \<Rightarrow> Inl (UnexpectedMessage KHello (body_kind b))))"

definition peer_ready :: "negotiated_protocol \<Rightarrow> protocol_message \<Rightarrow> supervisor_error + unit" where
  "peer_ready negotiated m =
     (if pm_request_id m \<noteq> None then Inl NegotiationMismatch
      else
        (case pm_body m of
           Ready n \<Rightarrow> if n \<noteq> negotiated then Inl NegotiationMismatch else Inr ()
         | b \<Rightarrow> Inl (UnexpectedMessage KReady (body_kind b))))"

definition ready_message :: "negotiated_protocol \<Rightarrow> protocol_message" where
  "ready_message n = \<lparr>pm_schema_version = MESSAGE_SCHEMA_VERSION, pm_message_id = ''supervisor_ready'',
     pm_request_id = None, pm_body = Ready n\<rparr>"

definition is_response :: "string \<Rightarrow> protocol_message \<Rightarrow> bool" where
  "is_response rid m \<longleftrightarrow> pm_request_id m = Some rid
     \<and> (case pm_body m of Result _ \<Rightarrow> True | Failure _ \<Rightarrow> True | _ \<Rightarrow> False)"

definition exchange :: "env \<Rightarrow> wire \<Rightarrow> supervisor_config \<Rightarrow> protocol_message \<Rightarrow> string \<Rightarrow> pipes \<Rightarrow> protocol_message exchanged" where
  "exchange E W c request rid p =
     then_do (send E W (sc_limits c) (hello_message ''supervisor_hello'' (sc_local_hello c)) p) (\<lambda>_ p1.
     then_do (check (response_limits c) p1) (\<lambda>rl p1.
     then_do (receive E W rl p1) (\<lambda>hello p2.
     then_do (check (peer_hello c hello) p2) (\<lambda>h p2.
     then_do (check (map_err Protocol (negotiate (sc_local_hello c) h)) p2) (\<lambda>negotiated p2.
     then_do (send E W (n_limits negotiated) (ready_message negotiated) p2) (\<lambda>_ p3.
     then_do (check (negotiated_response_limits c (n_limits negotiated)) p3) (\<lambda>nl p3.
     then_do (receive E W nl p3) (\<lambda>ready p4.
     then_do (check (peer_ready negotiated ready) p4) (\<lambda>_ p4.
     then_do (send E W (n_limits negotiated) request p4) (\<lambda>_ p5.
     then_do (receive E W nl p5) (\<lambda>response p6.
       if \<not> is_response rid response then (Inl ResponseMismatch, p6) else (Inr response, p6))))))))))))"

section \<open>The outcome\<close>

datatype supervisor_outcome =
    OResponse protocol_message
  | OProtocol supervisor_error
  | OExit "exit_status option"
  | OTimeout
  | OCancel
  | OStderr nat
and exit_status = ExitCode int | ExitSignal int

text \<open>
  \<open>st_grace\<close> is the result of waiting a moment for the child (\<open>None\<close> when the moment passes),
  \<open>st_kill\<close> whether the process group could be killed, \<open>st_wait\<close> whether the child could be waited
  for, \<open>st_stderr\<close> what was read of its standard error.
\<close>

record settling =
  st_grace :: "exit_status option option"
  st_kill :: bool
  st_wait :: bool
  st_stderr :: "(nat \<times> bool) option"

definition terminate_process_group :: "settling \<Rightarrow> supervisor_error + unit" where
  "terminate_process_group w = (if \<not> st_kill w \<or> \<not> st_wait w then Inl Termination else Inr ())"

definition terminate_after_exit :: "settling \<Rightarrow> supervisor_error + unit" where
  "terminate_after_exit w = (if \<not> st_kill w then Inl Termination else Inr ())"

definition finish_stderr :: "settling \<Rightarrow> supervisor_error + (nat \<times> bool)" where
  "finish_stderr w = ok_or StderrRead (st_stderr w)"

fun exit_error :: "exit_status \<Rightarrow> nat \<times> bool \<Rightarrow> supervisor_error" where
  "exit_error (ExitSignal s) stderr = Signaled s stderr"
| "exit_error (ExitCode c) stderr = Exited c stderr"

fun finish_outcome :: "supervisor_config \<Rightarrow> settling \<Rightarrow> supervisor_outcome \<Rightarrow> supervisor_error + protocol_message" where
  "finish_outcome c w (OResponse response) =
     bindE (case st_grace w of
              Some status \<Rightarrow> bindE (ok_or Termination status) (\<lambda>_. terminate_after_exit w)
            | None \<Rightarrow> terminate_process_group w) (\<lambda>_.
     bindE (finish_stderr w) (\<lambda>stderr.
       if snd stderr
       then Inl (StderrTooLarge (sc_max_stderr_bytes c) (sc_max_stderr_bytes c + 1) stderr)
       else Inr response))"
| "finish_outcome c w (OProtocol e) =
     (case st_grace w of
        Some status \<Rightarrow>
          bindE (ok_or Termination status) (\<lambda>s.
          bindE (terminate_after_exit w) (\<lambda>_.
          bindE (finish_stderr w) (\<lambda>stderr. Inl (exit_error s stderr))))
      | None \<Rightarrow>
          bindE (terminate_process_group w) (\<lambda>_.
          bindE (finish_stderr w) (\<lambda>_. Inl e)))"
| "finish_outcome c w (OExit status) =
     bindE (ok_or Termination status) (\<lambda>s.
     bindE (terminate_after_exit w) (\<lambda>_.
     bindE (finish_stderr w) (\<lambda>stderr. Inl (exit_error s stderr))))"
| "finish_outcome c w OTimeout =
     bindE (terminate_process_group w) (\<lambda>_. bindE (finish_stderr w) (\<lambda>stderr. Inl (TimedOut stderr)))"
| "finish_outcome c w OCancel =
     bindE (terminate_process_group w) (\<lambda>_. bindE (finish_stderr w) (\<lambda>stderr. Inl (Cancelled stderr)))"
| "finish_outcome c w (OStderr actual) =
     bindE (terminate_process_group w) (\<lambda>_.
     bindE (finish_stderr w) (\<lambda>stderr.
       Inl (StderrTooLarge (sc_max_stderr_bytes c) actual (fst stderr, True))))"

text \<open>Nothing but a response is a success, and then only with the process tree gone and its error
  output within the bound.\<close>

lemma finish_outcome_Inr:
  "finish_outcome c w o1 = Inr m \<longleftrightarrow>
     o1 = OResponse m \<and> st_kill w \<and> (\<exists>n. st_stderr w = Some (n, False))
     \<and> (case st_grace w of None \<Rightarrow> st_wait w | Some status \<Rightarrow> status \<noteq> None)"
  by (cases o1)
    (auto simp: result_simps terminate_process_group_def terminate_after_exit_def finish_stderr_def ok_or_def
      split: option.splits if_splits)

section \<open>What an exchange has done\<close>

lemma then_do_cases:
  assumes "then_do m k = (r, p')"
  obtains e where "m = (Inl e, p')" "r = Inl e" | x q where "m = (Inr x, q)" "k x q = (r, p')"
  using assms by (cases m; cases "fst m") (auto simp: then_do_def)

lemma send_cases:
  assumes "send E W l m p = (r, q)"
  obtains e where "r = Inl e" "q = p" | "r = Inr ()" "q = p\<lparr>pi_writes := pi_writes p - 1, pi_sent := pi_sent p @ [m]\<rparr>"
  using assms by (auto simp: send_def split: sum.splits if_splits)

lemma receive_sent: "receive E W l p = (r, q) \<Longrightarrow> pi_sent q = pi_sent p"
  by (auto simp: receive_def split: sum.splits)

text \<open>The adapter has answered the handshake as it must: with the expected endpoint's hello, and with
  the negotiated protocol itself.\<close>

definition agreed :: "env \<Rightarrow> wire \<Rightarrow> supervisor_config \<Rightarrow> byte_stream \<Rightarrow> negotiated_protocol \<Rightarrow> bool" where
  "agreed E W c s n \<longleftrightarrow>
     (\<exists>rl hm s1 h nl rm s2.
        response_limits c = Inr rl \<and> read_protocol_frame E W rl s = Inr (hm, s1)
        \<and> pm_request_id hm = None \<and> pm_body hm = Hello h \<and> h_endpoint h = sc_expected_peer_endpoint c
        \<and> negotiate (sc_local_hello c) h = Inr n \<and> negotiated_response_limits c (n_limits n) = Inr nl
        \<and> read_protocol_frame E W nl s1 = Inr (rm, s2) \<and> pm_request_id rm = None \<and> pm_body rm = Ready n)"

lemma peer_hello_Inr:
  "peer_hello c m = Inr h \<longleftrightarrow> pm_request_id m = None \<and> pm_body m = Hello h \<and> h_endpoint h = sc_expected_peer_endpoint c"
  by (auto simp: peer_hello_def split: message_body.splits)

lemma peer_ready_Inr: "peer_ready n m = Inr () \<longleftrightarrow> pm_request_id m = None \<and> pm_body m = Ready n"
  by (auto simp: peer_ready_def split: message_body.splits)

lemma agreed_iff:
  "agreed E W c s n \<longleftrightarrow>
     (\<exists>rl hm s1 h nl rm s2.
        response_limits c = Inr rl \<and> read_protocol_frame E W rl s = Inr (hm, s1) \<and> peer_hello c hm = Inr h
        \<and> negotiate (sc_local_hello c) h = Inr n \<and> negotiated_response_limits c (n_limits n) = Inr nl
        \<and> read_protocol_frame E W nl s1 = Inr (rm, s2) \<and> peer_ready n rm = Inr ())"
  unfolding agreed_def peer_hello_Inr peer_ready_Inr by (simp add: conj_assoc)

lemma send_Inr: "send E W l m p = (Inr u, q) \<Longrightarrow> q = p\<lparr>pi_writes := pi_writes p - 1, pi_sent := pi_sent p @ [m]\<rparr>"
  by (auto simp: send_def split: sum.splits if_splits)

lemma send_Inl: "send E W l m p = (Inl e, q) \<Longrightarrow> q = p"
  by (auto simp: send_def split: sum.splits if_splits)

lemma receive_Inr: "receive E W l p = (Inr m, q) \<Longrightarrow>
    \<exists>s. read_protocol_frame E W l (pi_stdout p) = Inr (m, s) \<and> q = p\<lparr>pi_stdout := s\<rparr>"
  by (auto simp: receive_def split: sum.splits)

lemma check_eq: "check x p = (Inr y, q) \<longleftrightarrow> x = Inr y \<and> q = p" "check x p = (Inl e, q) \<longleftrightarrow> x = Inl e \<and> q = p"
  by (auto simp: check_def)

text \<open>The second half, from the ready message on.\<close>

lemma exchange_tail:
  assumes ex: "then_do (send E W (n_limits n) (ready_message n) p) (\<lambda>_ p3.
     then_do (check (negotiated_response_limits c (n_limits n)) p3) (\<lambda>nl p3.
     then_do (receive E W nl p3) (\<lambda>ready p4.
     then_do (check (peer_ready n ready) p4) (\<lambda>_ p4.
     then_do (send E W (n_limits n) request p4) (\<lambda>_ p5.
     then_do (receive E W nl p5) (\<lambda>response p6.
       if \<not> is_response rid response then (Inl ResponseMismatch, p6) else (Inr response, p6))))))) = (r, q)"
    and start: "pi_sent p = [h]"
  shows "(r \<noteq> Inr m \<and> pi_sent q \<in> {[h], [h, ready_message n]})
    \<or> (\<exists>nl rm s2. negotiated_response_limits c (n_limits n) = Inr nl
        \<and> read_protocol_frame E W nl (pi_stdout p) = Inr (rm, s2) \<and> peer_ready n rm = Inr ()
        \<and> pi_sent q = [h, ready_message n, request] \<and> (r = Inr m \<longrightarrow> is_response rid m))"
  using ex
proof (cases rule: then_do_cases)
  case (1 e)
  with start show ?thesis by (auto dest: send_Inl)
next
  case (2 u p3)
  from send_Inr [OF 2(1)] start have p3: "pi_sent p3 = [h, ready_message n]" "pi_stdout p3 = pi_stdout p" by simp_all
  from 2(2) show ?thesis
  proof (cases rule: then_do_cases)
    case (1 e)
    with p3 show ?thesis by (auto simp: check_eq)
  next
    case (2 nl p3')
    then have nl: "negotiated_response_limits c (n_limits n) = Inr nl" "p3' = p3" by (simp_all add: check_eq)
    from 2(2) show ?thesis unfolding nl(2)
    proof (cases rule: then_do_cases)
      case (1 e)
      with p3 show ?thesis by (auto dest: receive_sent)
    next
      case (2 rm p4)
      from receive_Inr [OF 2(1)] p3 obtain s2 where rm: "read_protocol_frame E W nl (pi_stdout p) = Inr (rm, s2)"
        and p4: "pi_sent p4 = [h, ready_message n]" by auto
      from 2(2) show ?thesis
      proof (cases rule: then_do_cases)
        case (1 e)
        with p4 show ?thesis by (auto simp: check_eq)
      next
        case (2 v p4')
        then have v: "peer_ready n rm = Inr ()" "p4' = p4" by (simp_all add: check_eq)
        from 2(2) show ?thesis unfolding v(2)
        proof (cases rule: then_do_cases)
          case (1 e)
          with p4 show ?thesis by (auto dest: send_Inl)
        next
          case (2 w p5)
          from send_Inr [OF 2(1)] p4 have p5: "pi_sent p5 = [h, ready_message n, request]" by simp
          have "pi_sent q = pi_sent p5 \<and> (r = Inr m \<longrightarrow> is_response rid m)"
            using 2(2) by (cases rule: then_do_cases) (auto dest: receive_sent split: if_splits)
          with nl(1) rm v(1) p5 show ?thesis by auto
        qed
      qed
    qed
  qed
qed

text \<open>The whole exchange.\<close>

lemma exchange_sent:
  assumes ex: "exchange E W c request rid p = (r, q)" and start: "pi_sent p = []"
  shows "(r \<noteq> Inr m \<and> (\<exists>n. pi_sent q \<in> {[], [hello_message ''supervisor_hello'' (sc_local_hello c)],
        [hello_message ''supervisor_hello'' (sc_local_hello c), ready_message n]}))
    \<or> (\<exists>n. agreed E W c (pi_stdout p) n
        \<and> pi_sent q = [hello_message ''supervisor_hello'' (sc_local_hello c), ready_message n, request]
        \<and> (r = Inr m \<longrightarrow> is_response rid m))"
  (is "?short q \<or> ?full q")
proof -
  let ?h = "hello_message ''supervisor_hello'' (sc_local_hello c)"
  note ex [unfolded exchange_def]
  then show ?thesis
  proof (cases rule: then_do_cases)
    case (1 e)
    with start show ?thesis by (auto dest: send_Inl)
  next
    case (2 u p1)
    from send_Inr [OF 2(1)] start have p1: "pi_sent p1 = [?h]" "pi_stdout p1 = pi_stdout p" by simp_all
    from 2(2) show ?thesis
    proof (cases rule: then_do_cases)
      case (1 e)
      with p1 show ?thesis by (auto simp: check_eq)
    next
      case (2 rl p1')
      then have rl: "response_limits c = Inr rl" "p1' = p1" by (simp_all add: check_eq)
      from 2(2) show ?thesis unfolding rl(2)
      proof (cases rule: then_do_cases)
        case (1 e)
        with p1 show ?thesis by (auto dest: receive_sent)
      next
        case (2 hm p2)
        from receive_Inr [OF 2(1)] p1 obtain s1 where hm: "read_protocol_frame E W rl (pi_stdout p) = Inr (hm, s1)"
          and p2: "pi_sent p2 = [?h]" "pi_stdout p2 = s1" by auto
        from 2(2) show ?thesis
        proof (cases rule: then_do_cases)
          case (1 e)
          with p2 show ?thesis by (auto simp: check_eq)
        next
          case (2 h p2')
          then have h: "peer_hello c hm = Inr h" "p2' = p2" by (simp_all add: check_eq)
          from 2(2) show ?thesis unfolding h(2)
          proof (cases rule: then_do_cases)
            case (1 e)
            with p2 show ?thesis by (auto simp: check_eq)
          next
            case (2 n p2'')
            then have n: "negotiate (sc_local_hello c) h = Inr n" "p2'' = p2" by (auto simp: check_eq result_simps)
            from exchange_tail [OF 2(2) [unfolded n(2)] p2(1)] show ?thesis
              using rl hm h n p2(2) unfolding agreed_iff by blast
          qed
        qed
      qed
    qed
  qed
qed

section \<open>The time an adapter gets\<close>

lemma effective_runtime_bounds:
  assumes "effective_runtime clock m configured = Inr t"
  obtains body where "pm_body m = Request body" and "t \<le> configured"
    and "\<And>ms. bl_wall_time_ms (rq_budgets body) = Some ms \<Longrightarrow> t \<le> from_millis (unat ms)"
    and "\<And>dl. rq_deadline body = Some dl \<Longrightarrow> \<exists>now_ms. clock = Some now_ms \<and> t \<le> from_millis (unat dl - now_ms)"
  using assms
  by (auto simp: effective_runtime_def Let_def result_simps split: message_body.splits option.splits if_splits)

end
