(* ===== verification/Adapter_Runs.thy ===== *)
theory Adapter_Runs
  imports Adapter_Supervisor
begin

text \<open>
  One run of the adapter supervisor (\<open>AdapterSupervisor::run\<close> in
  \<open>rust/crates/promptectomy-protocol/src/supervisor.rs\<close>): the check of the configuration, the
  \<open>select!\<close> between cancellation, deadline, standard error, the exchange and the exit of the child,
  and what the outcome becomes once the process group has been killed. The operating system is a
  record of its answers and a sequence of events; between two polls of the \<open>select!\<close> any number of
  them may happen.
\<close>

unbundle bit_operations_syntax

section \<open>The configuration\<close>

definition MAX_SUPERVISOR_RUNTIME :: nat where
  "MAX_SUPERVISOR_RUNTIME = from_millis 86400000"

definition MAX_STDERR_BYTES :: nat where
  "MAX_STDERR_BYTES = 1048576"

definition EXIT_RACE_GRACE :: nat where
  "EXIT_RACE_GRACE = from_millis 250"

text \<open>What a canonicalised path leads to; a directory comes with its permission bits.\<close>

datatype path_target = Unresolved | Unstattable | FileAt | DirectoryAt u32 | OtherAt

record adapter_host =
  ah_executable_absolute :: bool
  ah_executable :: path_target
  ah_directory_absolute :: bool
  ah_directory :: path_target
  ah_clock :: "nat option"
  ah_cancelled :: bool
  ah_spawns :: bool
  ah_kill :: bool
  ah_wait :: bool
  ah_stderr_reads :: bool

definition validate_working_directory :: "u32 \<Rightarrow> supervisor_error + unit" where
  "validate_working_directory mode = (if mode AND 63 \<noteq> 0 then Inl InsecureWorkingDirectory else Inr ())"

definition prepared_config :: "supervisor_config \<Rightarrow> adapter_host \<Rightarrow> supervisor_error + unit" where
  "prepared_config c A =
     bindE (map_err Protocol (limits_validate (sc_limits c))) (\<lambda>_.
       if h_protocol (sc_local_hello c) \<noteq> PROTOCOL_NAME \<or> h_major (sc_local_hello c) \<noteq> PROTOCOL_MAJOR
          \<or> h_endpoint (sc_local_hello c) \<noteq> ControlPlane \<or> h_limits (sc_local_hello c) \<noteq> sc_limits c
          \<or> sc_expected_peer_endpoint c = ControlPlane
       then Inl PeerIdentityMismatch
       else if sc_max_response_bytes c < 4 \<or> sc_max_response_bytes c > unat (max_frame_bytes (sc_limits c))
       then Inl (InvalidBound ''max_response_bytes'')
       else if sc_max_stderr_bytes c = 0 \<or> sc_max_stderr_bytes c > MAX_STDERR_BYTES
       then Inl (InvalidBound ''max_stderr_bytes'')
       else if sc_max_runtime c = 0 \<or> sc_max_runtime c > MAX_SUPERVISOR_RUNTIME
       then Inl (InvalidBound ''max_runtime'')
       else if \<not> ah_executable_absolute A then Inl ExecutablePathNotAbsolute
       else if ah_executable A \<noteq> FileAt then Inl InvalidExecutable
       else if \<not> ah_directory_absolute A then Inl WorkingDirectoryNotAbsolute
       else
         (case ah_directory A of
            DirectoryAt mode \<Rightarrow> validate_working_directory mode
          | _ \<Rightarrow> Inl InvalidWorkingDirectory))"

section \<open>Waiting for the first branch\<close>

text \<open>
  What happens while the supervisor waits: time passes (in nanoseconds), the caller cancels, the
  capture task reads some bytes of standard error, the exchange comes to its end, the child exits
  (\<open>None\<close> when waiting for it fails).
\<close>

datatype adapter_event =
    Passes nat
  | CancelRequested
  | StderrBytes nat
  | ExchangeEnds
  | ChildExits "exit_status option"

record waiting =
  wt_elapsed :: nat
  wt_cancelled :: bool
  wt_total :: nat
  wt_overflow :: "nat option"
  wt_exchanged :: bool
  wt_exit :: "exit_status option option"

definition waiting_start :: waiting where
  "waiting_start = \<lparr>wt_elapsed = 0, wt_cancelled = False, wt_total = 0, wt_overflow = None,
     wt_exchanged = False, wt_exit = None\<rparr>"

definition saturating_usize :: "nat \<Rightarrow> nat" where
  "saturating_usize n = min n (2 ^ 64 - 1)"

text \<open>\<open>capture_stderr\<close> counts what it reads, keeps nothing, and reports the first total above the bound.\<close>

definition capture_stderr :: "nat \<Rightarrow> nat \<Rightarrow> waiting \<Rightarrow> waiting" where
  "capture_stderr mx amount s =
     (let total = saturating_usize (wt_total s + amount) in
      s\<lparr>wt_total := total,
        wt_overflow := (if total > mx \<and> wt_overflow s = None then Some total else wt_overflow s)\<rparr>)"

fun observe :: "nat \<Rightarrow> adapter_event \<Rightarrow> waiting \<Rightarrow> waiting" where
  "observe mx (Passes t) s = s\<lparr>wt_elapsed := wt_elapsed s + t\<rparr>"
| "observe mx CancelRequested s = s\<lparr>wt_cancelled := True\<rparr>"
| "observe mx (StderrBytes n) s = capture_stderr mx n s"
| "observe mx ExchangeEnds s = s\<lparr>wt_exchanged := True\<rparr>"
| "observe mx (ChildExits status) s =
     s\<lparr>wt_exit := (case wt_exit s of None \<Rightarrow> Some status | Some first \<Rightarrow> Some first)\<rparr>"

text \<open>One poll of the biased \<open>select!\<close>: the first branch that is ready.\<close>

definition poll_branches :: "nat \<Rightarrow> supervisor_error + protocol_message \<Rightarrow> waiting \<Rightarrow> supervisor_outcome option" where
  "poll_branches runtime exchanged s =
     (if wt_cancelled s then Some OCancel
      else if runtime \<le> wt_elapsed s then Some OTimeout
      else
        (case wt_overflow s of
           Some actual \<Rightarrow> Some (OStderr actual)
         | None \<Rightarrow>
             if wt_exchanged s
             then Some (case exchanged of Inr response \<Rightarrow> OResponse response | Inl e \<Rightarrow> OProtocol e)
             else map_option OExit (wt_exit s)))"

text \<open>The loop: a poll, then whatever happens until the next one. \<open>None\<close>: it still waits.\<close>

fun select_branch ::
  "nat \<Rightarrow> nat \<Rightarrow> supervisor_error + protocol_message \<Rightarrow> adapter_event list list \<Rightarrow> waiting
     \<Rightarrow> (supervisor_outcome \<times> waiting \<times> adapter_event list) option" where
  "select_branch mx runtime exchanged batches s =
     (case poll_branches runtime exchanged s of
        Some outcome \<Rightarrow> Some (outcome, s, concat batches)
      | None \<Rightarrow>
          (case batches of
             [] \<Rightarrow> None
           | b # bs \<Rightarrow> select_branch mx runtime exchanged bs (fold (observe mx) b s)))"

declare select_branch.simps [simp del]

section \<open>Settling\<close>

text \<open>\<open>timeout(EXIT_RACE_GRACE, child.wait())\<close>: the exit of the child, if it comes in time.\<close>

fun wait_within :: "nat \<Rightarrow> adapter_event list \<Rightarrow> exit_status option option" where
  "wait_within left [] = None"
| "wait_within left (Passes t # es) = (if left \<le> t then None else wait_within (left - t) es)"
| "wait_within left (ChildExits status # es) = Some status"
| "wait_within left (e # es) = wait_within left es"

text \<open>
  The capture task ends when the last writer of standard error is gone, so it has read everything
  that is ever written there.
\<close>

definition settle :: "nat \<Rightarrow> adapter_host \<Rightarrow> waiting \<Rightarrow> adapter_event list \<Rightarrow> settling" where
  "settle mx A s rest =
     (let final = fold (observe mx) rest s in
      \<lparr>st_grace = (case wt_exit s of Some status \<Rightarrow> Some status | None \<Rightarrow> wait_within EXIT_RACE_GRACE rest),
       st_kill = ah_kill A, st_wait = ah_wait A,
       st_stderr = (if ah_stderr_reads A then Some (wt_total final, wt_total final > mx) else None)\<rparr>)"

section \<open>The run\<close>

text \<open>\<open>None\<close>: the run has not come to its end with these events.\<close>

definition run_adapter ::
  "env \<Rightarrow> wire \<Rightarrow> adapter_host \<Rightarrow> supervisor_config \<Rightarrow> protocol_message \<Rightarrow> pipes \<Rightarrow> adapter_event list list
     \<Rightarrow> (supervisor_error + protocol_message) option" where
  "run_adapter E W A c request p batches =
     (case bindE (prepared_config c A) (\<lambda>_.
           bindE (validate_adapter_request request (sc_expected_peer_endpoint c)) (\<lambda>rid.
           bindE (map_err Protocol (encode_message E W request (sc_limits c))) (\<lambda>_.
           bindE (effective_runtime (ah_clock A) request (sc_max_runtime c)) (\<lambda>runtime.
             if runtime = 0 then Inl (TimedOut (0, False))
             else if ah_cancelled A then Inl (Cancelled (0, False))
             else if \<not> ah_spawns A then Inl Spawn
             else Inr (rid, runtime))))) of
        Inl e \<Rightarrow> Some (Inl e)
      | Inr (rid, runtime) \<Rightarrow>
          map_option (\<lambda>(outcome, s, rest). finish_outcome c (settle (sc_max_stderr_bytes c) A s rest) outcome)
            (select_branch (sc_max_stderr_bytes c) runtime (fst (exchange E W c request rid p)) batches waiting_start))"

section \<open>What a run shows\<close>

fun time_of :: "adapter_event list \<Rightarrow> nat" where
  "time_of [] = 0"
| "time_of (Passes t # es) = t + time_of es"
| "time_of (e # es) = time_of es"

fun stderr_of :: "adapter_event list \<Rightarrow> nat" where
  "stderr_of [] = 0"
| "stderr_of (StderrBytes n # es) = n + stderr_of es"
| "stderr_of (e # es) = stderr_of es"

lemma observed_time: "wt_elapsed (fold (observe mx) es s) = wt_elapsed s + time_of es"
  by (induction es arbitrary: s rule: time_of.induct) (simp_all add: capture_stderr_def Let_def)

lemma observed_cancel: "wt_cancelled (fold (observe mx) es s) \<longleftrightarrow> wt_cancelled s \<or> CancelRequested \<in> set es"
  by (induction es arbitrary: s rule: time_of.induct) (auto simp: capture_stderr_def Let_def)

lemma observed_exchange: "wt_exchanged (fold (observe mx) es s) \<longleftrightarrow> wt_exchanged s \<or> ExchangeEnds \<in> set es"
  by (induction es arbitrary: s rule: time_of.induct) (auto simp: capture_stderr_def Let_def)

lemma observed_exit: "wt_exit (fold (observe mx) es s) = None \<longleftrightarrow> wt_exit s = None \<and> (\<forall>x. ChildExits x \<notin> set es)"
  by (induction es arbitrary: s rule: time_of.induct) (auto simp: capture_stderr_def Let_def split: option.split)

lemma observed_stderr:
  "wt_total s < 2 ^ 64 \<Longrightarrow> wt_total (fold (observe mx) es s) = min (wt_total s + stderr_of es) (2 ^ 64 - 1)"
  by (induction es arbitrary: s rule: stderr_of.induct)
    (simp_all add: capture_stderr_def saturating_usize_def Let_def min_def)

lemmas observed = observed_time observed_cancel observed_exchange observed_exit observed_stderr

lemma select_branch_polled:
  "select_branch mx rt ex batches s = Some (out, s', rest) \<Longrightarrow>
     \<exists>before after. batches = before @ after \<and> s' = fold (observe mx) (concat before) s \<and> rest = concat after
       \<and> poll_branches rt ex s' = Some out"
proof (induction batches arbitrary: s)
  case Nil
  then show ?case by (auto simp: select_branch.simps [of _ _ _ "[]"] split: option.splits)
next
  case (Cons b bs)
  show ?case
  proof (cases "poll_branches rt ex s")
    case (Some o1)
    with Cons.prems show ?thesis
      by (intro exI [of _ "[]"] exI [of _ "b # bs"]) (simp add: select_branch.simps [of _ _ _ "b # bs"])
  next
    case None
    with Cons.prems have "select_branch mx rt ex bs (fold (observe mx) b s) = Some (out, s', rest)"
      by (simp add: select_branch.simps [of _ _ _ "b # bs"])
    from Cons.IH [OF this] obtain before after where "bs = before @ after"
      "s' = fold (observe mx) (concat before) (fold (observe mx) b s)" "rest = concat after"
      "poll_branches rt ex s' = Some out" by blast
    then show ?thesis by (intro exI [of _ "b # before"] exI [of _ after]) simp
  qed
qed

lemma select_branch_waits:
  "select_branch mx rt ex batches s = None \<Longrightarrow> poll_branches rt ex (fold (observe mx) (concat batches) s) = None"
proof (induction batches arbitrary: s)
  case Nil
  then show ?case by (auto simp: select_branch.simps [of _ _ _ "[]"] split: option.splits)
next
  case (Cons b bs)
  then show ?case by (auto simp: select_branch.simps [of _ _ _ "b # bs"] split: option.splits)
qed

lemma poll_response:
  "poll_branches rt ex s = Some (OResponse m) \<longleftrightarrow>
     \<not> wt_cancelled s \<and> wt_elapsed s < rt \<and> wt_overflow s = None \<and> wt_exchanged s \<and> ex = Inr m"
  by (auto simp: poll_branches_def not_le split: option.splits sum.splits)

lemma poll_none:
  "poll_branches rt ex s = None \<longleftrightarrow>
     \<not> wt_cancelled s \<and> wt_elapsed s < rt \<and> wt_overflow s = None \<and> \<not> wt_exchanged s \<and> wt_exit s = None"
  by (auto simp: poll_branches_def not_le split: option.splits)

lemma prepared_config_Inr:
  assumes "prepared_config c A = Inr u"
  shows "sc_max_stderr_bytes c \<le> MAX_STDERR_BYTES" "sc_max_runtime c \<le> MAX_SUPERVISOR_RUNTIME"
  using assms by (auto simp: prepared_config_def bindE_eq_Inr map_err_eq_Inr split: if_splits)

lemma validate_adapter_request_Inr: "validate_adapter_request m ep = Inr rid \<Longrightarrow> pm_request_id m = Some rid"
  by (auto simp: validate_adapter_request_def split: option.splits if_splits message_body.splits)

text \<open>A run that ends with a response, and a run that has not ended.\<close>

lemma run_adapter_response:
  assumes "run_adapter E W A c request p batches = Some (Inr m)"
  obtains rid rt before after where "pm_request_id request = Some rid"
    and "effective_runtime (ah_clock A) request (sc_max_runtime c) = Inr rt"
    and "fst (exchange E W c request rid p) = Inr m"
    and "batches = before @ after" "ExchangeEnds \<in> set (concat before)" "CancelRequested \<notin> set (concat before)"
    and "time_of (concat before) < rt" "stderr_of (concat batches) \<le> sc_max_stderr_bytes c" "ah_kill A"
proof -
  from assms obtain u rid u' rt where ok: "prepared_config c A = Inr u"
      "validate_adapter_request request (sc_expected_peer_endpoint c) = Inr rid"
      "effective_runtime (ah_clock A) request (sc_max_runtime c) = Inr rt"
    and run: "map_option (\<lambda>(outcome, s, rest). finish_outcome c (settle (sc_max_stderr_bytes c) A s rest) outcome)
            (select_branch (sc_max_stderr_bytes c) rt (fst (exchange E W c request rid p)) batches waiting_start) = Some (Inr m)"
    by (auto simp: run_adapter_def bindE_eq_Inr split: sum.splits if_splits)
  from run obtain out s rest where
    sel: "select_branch (sc_max_stderr_bytes c) rt (fst (exchange E W c request rid p)) batches waiting_start = Some (out, s, rest)"
    and fin: "finish_outcome c (settle (sc_max_stderr_bytes c) A s rest) out = Inr m" by auto
  from fin [unfolded finish_outcome_Inr] obtain n where out: "out = OResponse m" and kill: "ah_kill A"
    and err: "st_stderr (settle (sc_max_stderr_bytes c) A s rest) = Some (n, False)"
    by (auto simp: settle_def Let_def)
  from select_branch_polled [OF sel] obtain before after where ba: "batches = before @ after"
    "s = fold (observe (sc_max_stderr_bytes c)) (concat before) waiting_start" "rest = concat after"
    and poll: "poll_branches rt (fst (exchange E W c request rid p)) s = Some (OResponse m)"
    unfolding out by blast
  have "fold (observe (sc_max_stderr_bytes c)) rest s
      = fold (observe (sc_max_stderr_bytes c)) (concat batches) waiting_start"
    by (simp add: ba)
  with err have "wt_total (fold (observe (sc_max_stderr_bytes c)) (concat batches) waiting_start) \<le> sc_max_stderr_bytes c"
    by (auto simp: settle_def Let_def split: if_splits)
  with prepared_config_Inr(1) [OF ok(1)] have "stderr_of (concat batches) \<le> sc_max_stderr_bytes c"
    by (simp add: observed_stderr waiting_start_def MAX_STDERR_BYTES_def min_def split: if_splits)
  with that [OF validate_adapter_request_Inr [OF ok(2)] ok(3) _ ba(1)] poll kill show thesis
    unfolding poll_response ba(2) by (simp add: observed waiting_start_def)
qed

lemma run_adapter_waits:
  assumes "run_adapter E W A c request p batches = None"
  obtains rt where "effective_runtime (ah_clock A) request (sc_max_runtime c) = Inr rt" "ah_spawns A"
    "time_of (concat batches) < rt" "CancelRequested \<notin> set (concat batches)" "ExchangeEnds \<notin> set (concat batches)"
    "\<And>x. ChildExits x \<notin> set (concat batches)" "prepared_config c A = Inr ()"
proof -
  from assms obtain rid rt where ok: "prepared_config c A = Inr ()"
      "effective_runtime (ah_clock A) request (sc_max_runtime c) = Inr rt" "ah_spawns A"
    and sel: "select_branch (sc_max_stderr_bytes c) rt (fst (exchange E W c request rid p)) batches waiting_start = None"
    by (auto simp: run_adapter_def bindE_eq_Inr split: sum.splits if_splits)
  from select_branch_waits [OF sel] that [OF ok(2,3)] ok(1) show thesis
    unfolding poll_none by (simp add: observed waiting_start_def)
qed

end
