(* ===== verification/Protocol_Theorems.thy ===== *)
theory Protocol_Theorems
  imports Demo Adapter_Runs
begin

text \<open>
  The properties of the adapter protocol and its supervisor, with witnesses over the JSON text of
  \<open>Demo\<close> and a wire that writes every field of a message into an array.
\<close>

section \<open>A wire\<close>

fun json_text_of :: "json \<Rightarrow> string" where
  "json_text_of (JStr s) = s"
| "json_text_of _ = []"

fun json_int_of :: "json \<Rightarrow> int" where
  "json_int_of (JInt n) = n"
| "json_int_of _ = 0"

fun json_items_of :: "json \<Rightarrow> json list" where
  "json_items_of (JArr vs) = vs"
| "json_items_of _ = []"

fun optional_value :: "u64 option \<Rightarrow> json" where
  "optional_value None = JNull"
| "optional_value (Some n) = JInt (uint n)"

fun optional_of :: "json \<Rightarrow> u64 option" where
  "optional_of (JInt n) = Some (word_of_int n)"
| "optional_of _ = None"

fun endpoint_text :: "endpoint_kind \<Rightarrow> string" where
  "endpoint_text ControlPlane = ''control_plane''"
| "endpoint_text PythonAdapter = ''python_adapter''"
| "endpoint_text TypeScriptAdapter = ''typescript_adapter''"
| "endpoint_text OciExecutor = ''oci_executor''"
| "endpoint_text AgentConnector = ''agent_connector''"

definition endpoint_of :: "string \<Rightarrow> endpoint_kind" where
  "endpoint_of s = (case find (\<lambda>e. endpoint_text e = s) [PythonAdapter, TypeScriptAdapter, OciExecutor, AgentConnector] of
     Some e \<Rightarrow> e | None \<Rightarrow> ControlPlane)"

fun operation_text :: "operation_kind \<Rightarrow> string" where
  "operation_text DiscoverPython = ''discover_python''"
| "operation_text DiscoverTypeScript = ''discover_typescript''"
| "operation_text NormalizeEvidence = ''normalize_evidence''"
| "operation_text ExecuteOci = ''execute_oci''"
| "operation_text AcceptOciBackend = ''accept_oci_backend''"
| "operation_text RunAgentTask = ''run_agent_task''"
| "operation_text CancelAgentTask = ''cancel_agent_task''"

definition operation_of :: "string \<Rightarrow> operation_kind" where
  "operation_of s = (case find (\<lambda>k. operation_text k = s) [DiscoverPython, DiscoverTypeScript, NormalizeEvidence,
       ExecuteOci, AcceptOciBackend, RunAgentTask] of
     Some k \<Rightarrow> k | None \<Rightarrow> CancelAgentTask)"

fun status_text :: "result_status \<Rightarrow> string" where
  "status_text Completed = ''completed''"
| "status_text Failed = ''failed''"
| "status_text Unsupported = ''unsupported''"
| "status_text result_status.Cancelled = ''cancelled''"
| "status_text Interrupted = ''interrupted''"

definition status_of :: "string \<Rightarrow> result_status" where
  "status_of s = (case find (\<lambda>k. status_text k = s) [Completed, Failed, Unsupported, result_status.Cancelled] of
     Some k \<Rightarrow> k | None \<Rightarrow> Interrupted)"

definition limits_value :: "protocol_limits \<Rightarrow> json" where
  "limits_value l = JArr [JInt (uint (max_frame_bytes l)), JInt (uint (max_string_bytes l)), JInt (uint (max_array_items l)),
     JInt (uint (max_object_members l)), JInt (uint (max_json_depth l))]"

definition limits_of :: "json \<Rightarrow> protocol_limits" where
  "limits_of v = (let n = (\<lambda>i. json_int_of (json_items_of v ! i)) in
     \<lparr>max_frame_bytes = word_of_int (n 0), max_string_bytes = word_of_int (n 1), max_array_items = word_of_int (n 2),
      max_object_members = word_of_int (n 3), max_json_depth = word_of_int (n 4)\<rparr>)"

definition budgets_value :: "budget_limits \<Rightarrow> json" where
  "budgets_value b = JArr (map optional_value [bl_wall_time_ms b, bl_cpu_millis b, bl_memory_bytes b, bl_output_bytes b,
     bl_artifact_bytes b, bl_token_budget b, bl_attempts b])"

definition budgets_of :: "json \<Rightarrow> budget_limits" where
  "budgets_of v = (let n = (\<lambda>i. optional_of (json_items_of v ! i)) in
     \<lparr>bl_wall_time_ms = n 0, bl_cpu_millis = n 1, bl_memory_bytes = n 2, bl_output_bytes = n 3, bl_artifact_bytes = n 4,
      bl_token_budget = n 5, bl_attempts = n 6\<rparr>)"

definition diagnostic_value :: "safe_diagnostic \<Rightarrow> json" where
  "diagnostic_value d = JArr [JStr (sd_code d), JStr (sd_safe_message d)]"

definition diagnostic_of :: "json \<Rightarrow> safe_diagnostic" where
  "diagnostic_of v = \<lparr>sd_code = json_text_of (json_items_of v ! 0), sd_safe_message = json_text_of (json_items_of v ! 1)\<rparr>"

text \<open>Failures are left out: the wire cannot write them.\<close>

fun demo_body_value :: "message_body \<Rightarrow> json option" where
  "demo_body_value (Hello h) = Some (JArr [JStr (h_protocol h), JInt (uint (h_major h)), JInt (uint (h_minor h)),
     JStr (endpoint_text (h_endpoint h)), JStr (h_implementation h), JArr (map JStr (h_capabilities h)), limits_value (h_limits h)])"
| "demo_body_value (Ready n) = Some (JArr [JStr (n_protocol n), JInt (uint (n_major n)), JInt (uint (n_minor n)),
     JStr (endpoint_text (n_local_endpoint n)), JStr (endpoint_text (n_peer_endpoint n)), JArr (map JStr (n_capabilities n)),
     limits_value (n_limits n)])"
| "demo_body_value (Request r) = Some (JArr [JStr (endpoint_text (rq_endpoint r)), JStr (operation_text (rq_operation r)),
     optional_value (rq_deadline r), budgets_value (rq_budgets r), JStr (cp_cancel_token (rq_cancellation r)),
     JInt (uint (cp_poll_interval_ms (rq_cancellation r))), rq_payload r])"
| "demo_body_value (Result r) = Some (JArr [JStr (status_text (rs_status r)), rs_payload r, JArr (map JStr (rs_artifact_refs r)),
     budgets_value (rs_budgets_used r), JArr (map diagnostic_value (rs_diagnostics r))])"
| "demo_body_value (Cancel c) = Some (JArr [JStr (cb_target_request_id c), JStr (cb_reason c)])"
| "demo_body_value (Failure f) = None"

definition demo_body_of :: "message_kind \<Rightarrow> json \<Rightarrow> string + message_body" where
  "demo_body_of k v =
     (let x = (\<lambda>i. json_items_of v ! i); s = (\<lambda>i. json_text_of (x i)) in
      case k of
        KHello \<Rightarrow> Inr (Hello \<lparr>h_protocol = s 0, h_major = word_of_int (json_int_of (x 1)), h_minor = word_of_int (json_int_of (x 2)),
          h_endpoint = endpoint_of (s 3), h_implementation = s 4, h_capabilities = map json_text_of (json_items_of (x 5)),
          h_limits = limits_of (x 6)\<rparr>)
      | KReady \<Rightarrow> Inr (Ready \<lparr>n_protocol = s 0, n_major = word_of_int (json_int_of (x 1)), n_minor = word_of_int (json_int_of (x 2)),
          n_local_endpoint = endpoint_of (s 3), n_peer_endpoint = endpoint_of (s 4),
          n_capabilities = map json_text_of (json_items_of (x 5)), n_limits = limits_of (x 6)\<rparr>)
      | KRequest \<Rightarrow> Inr (Request \<lparr>rq_endpoint = endpoint_of (s 0), rq_operation = operation_of (s 1), rq_deadline = optional_of (x 2),
          rq_budgets = budgets_of (x 3),
          rq_cancellation = \<lparr>cp_cancel_token = s 4, cp_poll_interval_ms = word_of_int (json_int_of (x 5))\<rparr>, rq_payload = x 6\<rparr>)
      | KResult \<Rightarrow> Inr (Result \<lparr>rs_status = status_of (s 0), rs_payload = x 1, rs_artifact_refs = map json_text_of (json_items_of (x 2)),
          rs_budgets_used = budgets_of (x 3), rs_diagnostics = map diagnostic_of (json_items_of (x 4))\<rparr>)
      | KCancel \<Rightarrow> Inr (Cancel \<lparr>cb_target_request_id = s 0, cb_reason = s 1\<rparr>)
      | KFailure \<Rightarrow> Inl ''invalid type'')"

lemma json_texts [simp]: "map (json_text_of \<circ> JStr) vs = vs" "map json_text_of (map JStr vs) = vs"
  by (induction vs) simp_all

lemma optional_value_of [simp]: "optional_of (optional_value n) = n"
  by (cases n) simp_all

lemma wire_parts [simp]:
  "endpoint_of (endpoint_text e) = e" "operation_of (operation_text k) = k" "status_of (status_text st) = st"
  "limits_of (limits_value l) = l" "budgets_of (budgets_value b) = b" "diagnostic_of (diagnostic_value d) = d"
proof -
  show "endpoint_of (endpoint_text e) = e" by (cases e) (simp_all add: endpoint_of_def)
  show "operation_of (operation_text k) = k" by (cases k) (simp_all add: operation_of_def)
  show "status_of (status_text st) = st" by (cases st) (simp_all add: status_of_def)
  show "limits_of (limits_value l) = l" by (cases l) (simp add: limits_of_def limits_value_def)
  show "budgets_of (budgets_value b) = b" by (cases b) (simp add: budgets_of_def budgets_value_def)
  show "diagnostic_of (diagnostic_value d) = d" by (cases d) (simp add: diagnostic_of_def diagnostic_value_def)
qed

lemma demo_body_read: "demo_body_value b = Some v \<Longrightarrow> demo_body_of (body_kind b) v = Inr b"
proof (cases b)
  case (Result r)
  assume "demo_body_value b = Some v"
  moreover have "map (diagnostic_of \<circ> diagnostic_value) ds = ds" for ds by (induction ds) simp_all
  ultimately show ?thesis using Result by (cases r) (auto simp: demo_body_of_def)
qed (auto simp: demo_body_of_def)

definition demo_envelope_value :: "raw_envelope \<Rightarrow> json" where
  "demo_envelope_value r = JArr [JStr (re_schema_version r), JStr (re_message_id r),
     (case re_request_id r of None \<Rightarrow> JNull | Some s \<Rightarrow> JStr s), JStr (re_kind r), re_body r]"

fun demo_envelope_of :: "json \<Rightarrow> string + raw_envelope" where
  "demo_envelope_of (JArr [JStr a, JStr b, JNull, JStr k, body]) =
     Inr \<lparr>re_schema_version = a, re_message_id = b, re_request_id = None, re_kind = k, re_body = body\<rparr>"
| "demo_envelope_of (JArr [JStr a, JStr b, JStr i, JStr k, body]) =
     Inr \<lparr>re_schema_version = a, re_message_id = b, re_request_id = Some i, re_kind = k, re_body = body\<rparr>"
| "demo_envelope_of _ = Inl ''invalid type''"

definition demo_wire :: wire where
  "demo_wire = \<lparr>body_to_value = demo_body_value,
     envelope_text = (\<lambda>r. if ijson (demo_envelope_value r) then Some (enc (demo_envelope_value r)) else None),
     envelope_of = demo_envelope_of, body_of = demo_body_of\<rparr>"

lemma demo_wire_laws: "wire_laws demo demo_wire"
proof -
  have env: "demo_envelope_of (demo_envelope_value r) = Inr r" for r
    by (cases r) (simp add: demo_envelope_value_def split: option.split)
  have parse: "v = w" if "ijson w" "parse_strict_json demo (enc w) n = Inr v" for v w n
  proof (cases "length (enc w) \<le> n")
    case True
    with that demo_parse show ?thesis by simp
  next
    case False
    with that(2) show ?thesis by (simp add: parse_strict_json_def)
  qed
  show ?thesis
    unfolding wire_laws_def demo_wire_def wire.simps
  proof (intro conjI allI impI)
    fix b v assume "demo_body_value b = Some v"
    then show "demo_body_of (body_kind b) v = Inr b" by (rule demo_body_read)
  next
    fix r t n v
    assume t: "(if ijson (demo_envelope_value r) then Some (enc (demo_envelope_value r)) else None) = Some t"
      and p: "parse_strict_json demo t n = Inr v"
    from t have "ijson (demo_envelope_value r)" "t = enc (demo_envelope_value r)" by (simp_all split: if_splits)
    with parse p have "v = demo_envelope_value r" by simp
    then show "demo_envelope_of v = Inr r" by (simp add: env)
  qed
qed

text \<open>A whole exchange over it: both hellos, both ready messages, the request and its result.\<close>

definition demo_adapter_hello :: hello_body where
  "demo_adapter_hello = hello_new OciExecutor ''adapter'' []"

definition demo_negotiated :: negotiated_protocol where
  "demo_negotiated = \<lparr>n_protocol = PROTOCOL_NAME, n_major = PROTOCOL_MAJOR, n_minor = PROTOCOL_MINOR,
     n_local_endpoint = ControlPlane, n_peer_endpoint = OciExecutor, n_capabilities = [], n_limits = limits_default\<rparr>"

definition no_budget :: budget_limits where
  "no_budget = \<lparr>bl_wall_time_ms = None, bl_cpu_millis = None, bl_memory_bytes = None, bl_output_bytes = None,
     bl_artifact_bytes = None, bl_token_budget = None, bl_attempts = None\<rparr>"

definition demo_request :: request_body where
  "demo_request = \<lparr>rq_endpoint = OciExecutor, rq_operation = ExecuteOci, rq_deadline = Some 5000,
     rq_budgets = no_budget\<lparr>bl_wall_time_ms := Some 3000\<rparr>,
     rq_cancellation = \<lparr>cp_cancel_token = ''t'', cp_poll_interval_ms = 100\<rparr>, rq_payload = JNull\<rparr>"

definition demo_result :: result_body where
  "demo_result = \<lparr>rs_status = Completed, rs_payload = JNull, rs_artifact_refs = [], rs_budgets_used = no_budget, rs_diagnostics = []\<rparr>"

definition demo_message :: "string \<Rightarrow> string option \<Rightarrow> message_body \<Rightarrow> protocol_message" where
  "demo_message i rid b = \<lparr>pm_schema_version = MESSAGE_SCHEMA_VERSION, pm_message_id = i, pm_request_id = rid, pm_body = b\<rparr>"

lemma limits_default_valid: "limits_validate limits_default = Inr ()"
  by code_simp

lemma demo_safe: "s \<noteq> [] \<Longrightarrow> length s \<le> 100 \<Longrightarrow> \<not> has_control s \<Longrightarrow> safe_string limits_default s"
  by (simp add: safe_string_def limits_default_def default_limits)

lemma demo_safe_texts [simp]:
  "safe_string limits_default MESSAGE_SCHEMA_VERSION" "safe_string limits_default PROTOCOL_NAME"
  "safe_string limits_default ''supervisor_hello''" "safe_string limits_default ''adapter_hello''"
  "safe_string limits_default ''supervisor_ready''" "safe_string limits_default ''adapter_ready''"
  "safe_string limits_default ''request''" "safe_string limits_default ''response''" "safe_string limits_default ''result''"
  "safe_string limits_default ''hello''" "safe_string limits_default ''ready''" "safe_string limits_default ''core''"
  "safe_string limits_default ''adapter''" "safe_string limits_default ''r''" "safe_string limits_default ''t''"
  "safe_string limits_default ''control_plane''" "safe_string limits_default ''oci_executor''"
  "safe_string limits_default ''execute_oci''" "safe_string limits_default ''completed''"
  by (rule demo_safe; code_simp)+

lemma demo_items [simp]: "unat (max_array_items limits_default) = 256"
  by (simp add: limits_default_def DEFAULT_MAX_ARRAY_ITEMS_def)

definition demo_value :: "string \<Rightarrow> string option \<Rightarrow> message_kind \<Rightarrow> json \<Rightarrow> json" where
  "demo_value i rid k body = JArr [JStr MESSAGE_SCHEMA_VERSION, JStr i, (case rid of None \<Rightarrow> JNull | Some s \<Rightarrow> JStr s),
     JStr (kind_as_str k), body]"

lemma demo_written:
  assumes "message_validate (demo_message i rid b) limits_default = Inr ()" "demo_body_value b = Some body"
    and v: "ijson (demo_value i rid (body_kind b) body)" "parts_ok limits_default (demo_value i rid (body_kind b) body)"
      "height (demo_value i rid (body_kind b) body) \<le> 32" "length (enc (demo_value i rid (body_kind b) body)) \<le> 4000"
  shows "\<exists>w. write_protocol_frame demo demo_wire limits_default (demo_message i rid b) = Inr w"
proof -
  let ?v = "demo_value i rid (body_kind b) body"
  have len: "length (enc ?v) \<le> unat (max_frame_bytes limits_default)" "length (enc ?v) < 2 ^ 32"
    using v(4) by (simp_all add: limits_default_def DEFAULT_MAX_FRAME_BYTES_def)
  have parse: "parse_json demo (enc ?v) limits_default = Inr ?v"
    using demo_parse [OF v(1) len(1)] by (simp add: parse_json_def)
  have bounds: "validate_json_bounds ?v limits_default = Inr ()"
    using v(2,3) by (simp only: validate_json_bounds_Inr [OF limits_default_valid])
      (simp add: limits_default_def DEFAULT_MAX_JSON_DEPTH_def)
  have "encode_message demo demo_wire (demo_message i rid b) limits_default = Inr (enc ?v)"
    using limits_default_valid assms(1,2) v(1) len parse bounds
    by (simp add: encode_message_def demo_wire_def demo_envelope_value_def demo_message_def demo_value_def)
  then show ?thesis using len(2) by (simp add: write_protocol_frame_def)
qed

section \<open>Frames and payloads\<close>

text \<open>Protocol frames: When the derived code reads back what it has written, a message that one peer has
  written under some limits is read by the other under the same limits as that very message, and what
  follows it on the stream is left for the next read.\<close>

lemma message_roundtrip:
  assumes "wire_laws E W" and "write_protocol_frame E W l m = Inr w"
  shows "read_protocol_frame E W l (w @ rest, broken) = Inr (m, rest, broken)"
  using assms by (rule read_write_frame)

text \<open>Payload bounds: Under valid limits a payload passes exactly if it is nowhere nested deeper than
  \<open>max_json_depth\<close>, every array and object in it has at most the allowed number of members, and every string and key
  is non-empty, within the byte limit and free of control characters.\<close>

lemma json_bounds_exact:
  assumes "limits_validate l = Inr ()"
  shows "validate_json_bounds v l = Inr () \<longleftrightarrow> height v \<le> unat (max_json_depth l) \<and> parts_ok l v"
  using assms by (rule validate_json_bounds_Inr)

text \<open>Negotiation: When two peers can negotiate, they can from either side, and agree: the same
  version, capabilities and limits with the endpoints swapped. The capabilities are those both offer,
  sorted and once each; the limits are valid and within both offers.\<close>

lemma negotiation_agrees:
  assumes "negotiate a b = Inr n"
  shows "negotiate b a = Inr (n\<lparr>n_local_endpoint := h_endpoint b, n_peer_endpoint := h_endpoint a\<rparr>)
    \<and> set (n_capabilities n) = set (h_capabilities a) \<inter> set (h_capabilities b)
    \<and> sorted (n_capabilities n) \<and> distinct (n_capabilities n)
    \<and> limits_validate (n_limits n) = Inr ()
    \<and> max_frame_bytes (n_limits n) \<le> max_frame_bytes (h_limits a) \<and> max_frame_bytes (n_limits n) \<le> max_frame_bytes (h_limits b)
    \<and> max_json_depth (n_limits n) \<le> max_json_depth (h_limits a) \<and> max_json_depth (n_limits n) \<le> max_json_depth (h_limits b)"
proof -
  note n = assms [unfolded negotiate_Inr]
  have caps: "sort (remdups (filter (\<lambda>c. c \<in> set (h_capabilities b)) (h_capabilities a)))
      = sort (remdups (filter (\<lambda>c. c \<in> set (h_capabilities a)) (h_capabilities b)))"
    by (rule sorted_distinct_set_unique) auto
  from assms have "limits_validate (n_limits n) = Inr ()"
    by (auto simp: negotiate_def intersect_def Let_def result_simps)
  moreover have "negotiate b a = Inr (n\<lparr>n_local_endpoint := h_endpoint b, n_peer_endpoint := h_endpoint a\<rparr>)"
    unfolding negotiate_Inr using n caps by (simp add: min.commute)
  ultimately show ?thesis using n by auto
qed

section \<open>The supervisor\<close>

lemma demo_exchange_written:
  "\<exists>w. write_protocol_frame demo demo_wire limits_default (demo_message ''supervisor_hello'' None (Hello (hello_new ControlPlane ''core'' []))) = Inr w"
  "\<exists>w. write_protocol_frame demo demo_wire limits_default (demo_message ''adapter_hello'' None (Hello demo_adapter_hello)) = Inr w"
  "\<exists>w. write_protocol_frame demo demo_wire limits_default (demo_message ''supervisor_ready'' None (Ready demo_negotiated)) = Inr w"
  "\<exists>w. write_protocol_frame demo demo_wire limits_default (demo_message ''adapter_ready'' None (Ready demo_negotiated)) = Inr w"
  "\<exists>w. write_protocol_frame demo demo_wire limits_default (demo_message ''request'' (Some ''r'') (Request demo_request)) = Inr w"
  "\<exists>w. write_protocol_frame demo demo_wire limits_default (demo_message ''response'' (Some ''r'') (Result demo_result)) = Inr w"
proof -
  note parts = demo_value_def limits_value_def budgets_value_def hello_new_def demo_adapter_hello_def demo_negotiated_def
    demo_request_def demo_result_def no_budget_def
  note numbers = limits_default_def default_limits PROTOCOL_MAJOR_def PROTOCOL_MINOR_def MAX_SAFE_INT_def
  note texts = PROTOCOL_NAME_def MESSAGE_SCHEMA_VERSION_def
  note checks = message_validate_def demo_message_def validate_message_schema_def validate_request_id_def validate_safe_string_def
    hello_validate_def negotiated_validate_def request_validate_def result_validate_def budgets_validate_def cancellation_validate_def
    validate_optional_budget_def validate_string_vec_def validate_json_bounds_def validate_json_bounds_at.simps limits_default_valid
  note budget_maxima = MAX_WALL_TIME_MS_def MAX_CPU_MILLIS_def
  show "\<exists>w. write_protocol_frame demo demo_wire limits_default (demo_message ''supervisor_hello'' None (Hello (hello_new ControlPlane ''core'' []))) = Inr w"
    by (rule demo_written, simp add: checks parts budget_maxima, simp, simp add: parts numbers, simp add: parts, simp add: parts,
        simp add: parts numbers texts binary.simps)
  show "\<exists>w. write_protocol_frame demo demo_wire limits_default (demo_message ''adapter_hello'' None (Hello demo_adapter_hello)) = Inr w"
    by (rule demo_written, simp add: checks parts budget_maxima, simp, simp add: parts numbers, simp add: parts, simp add: parts,
        simp add: parts numbers texts binary.simps)
  show "\<exists>w. write_protocol_frame demo demo_wire limits_default (demo_message ''supervisor_ready'' None (Ready demo_negotiated)) = Inr w"
    by (rule demo_written, simp add: checks parts budget_maxima, simp, simp add: parts numbers, simp add: parts, simp add: parts,
        simp add: parts numbers texts binary.simps)
  show "\<exists>w. write_protocol_frame demo demo_wire limits_default (demo_message ''adapter_ready'' None (Ready demo_negotiated)) = Inr w"
    by (rule demo_written, simp add: checks parts budget_maxima, simp, simp add: parts numbers, simp add: parts, simp add: parts,
        simp add: parts numbers texts binary.simps)
  show "\<exists>w. write_protocol_frame demo demo_wire limits_default (demo_message ''request'' (Some ''r'') (Request demo_request)) = Inr w"
    by (rule demo_written, simp add: checks parts budget_maxima, simp, simp add: parts numbers, simp add: parts, simp add: parts,
        simp add: parts numbers texts binary.simps)
  show "\<exists>w. write_protocol_frame demo demo_wire limits_default (demo_message ''response'' (Some ''r'') (Result demo_result)) = Inr w"
    by (rule demo_written, simp add: checks parts budget_maxima, simp, simp add: parts numbers, simp add: parts, simp add: parts,
        simp add: parts numbers texts binary.simps)
qed

text \<open>C17 (handshake before request). Whatever an adapter sends, the supervisor writes its hello, its ready message and
  the request in this order and nothing else; the request goes out only to an adapter that has
  introduced itself as the expected endpoint and has echoed the negotiated protocol, and a response is accepted only if
  it carries the identifier of the request.\<close>

theorem request_after_handshake:
  assumes "exchange E W c request rid p = (r, q)" and "pi_sent p = []"
  shows "(r \<noteq> Inr m \<and> (\<exists>n. pi_sent q \<in> {[], [hello_message ''supervisor_hello'' (sc_local_hello c)],
        [hello_message ''supervisor_hello'' (sc_local_hello c), ready_message n]}))
    \<or> (\<exists>n. agreed E W c (pi_stdout p) n
        \<and> pi_sent q = [hello_message ''supervisor_hello'' (sc_local_hello c), ready_message n, request]
        \<and> (r = Inr m \<longrightarrow> is_response rid m))"
  using assms by (rule exchange_sent)

definition demo_config :: supervisor_config where
  "demo_config = \<lparr>sc_local_hello = hello_new ControlPlane ''core'' [], sc_expected_peer_endpoint = OciExecutor,
     sc_limits = limits_default, sc_max_response_bytes = 1048576, sc_max_stderr_bytes = 1024, sc_max_runtime = 1000\<rparr>"

definition demo_job :: protocol_message where
  "demo_job = demo_message ''request'' (Some ''r'') (Request demo_request)"

definition demo_reply :: protocol_message where
  "demo_reply = demo_message ''response'' (Some ''r'') (Result demo_result)"

lemma demo_exchange:
  "\<exists>stdout q. exchange demo demo_wire demo_config demo_job ''r'' \<lparr>pi_stdout = (stdout, False), pi_writes = 3, pi_sent = []\<rparr>
     = (Inr demo_reply, q)"
proof -
  let ?l = limits_default
  obtain w1 w2 w3 w4 w5 w6 where
    w1: "write_protocol_frame demo demo_wire ?l (demo_message ''supervisor_hello'' None (Hello (hello_new ControlPlane ''core'' []))) = Inr w1" and
    w2: "write_protocol_frame demo demo_wire ?l (demo_message ''adapter_hello'' None (Hello demo_adapter_hello)) = Inr w2" and
    w3: "write_protocol_frame demo demo_wire ?l (demo_message ''supervisor_ready'' None (Ready demo_negotiated)) = Inr w3" and
    w4: "write_protocol_frame demo demo_wire ?l (demo_message ''adapter_ready'' None (Ready demo_negotiated)) = Inr w4" and
    w5: "write_protocol_frame demo demo_wire ?l demo_job = Inr w5" and
    w6: "write_protocol_frame demo demo_wire ?l demo_reply = Inr w6"
    using demo_exchange_written unfolding demo_job_def demo_reply_def by metis
  note reads = read_write_frame [OF demo_wire_laws w2] read_write_frame [OF demo_wire_laws w4]
    read_write_frame [OF demo_wire_laws w6, of "[]"]
  have hello: "hello_message ''supervisor_hello'' (hello_new ControlPlane ''core'' [])
      = demo_message ''supervisor_hello'' None (Hello (hello_new ControlPlane ''core'' []))"
    by (simp add: hello_message_def demo_message_def)
  have ready: "ready_message demo_negotiated = demo_message ''supervisor_ready'' None (Ready demo_negotiated)"
    by (simp add: ready_message_def demo_message_def)
  have "?l\<lparr>max_frame_bytes := word_of_nat 1048576\<rparr> = ?l" by (simp add: limits_default_def DEFAULT_MAX_FRAME_BYTES_def)
  then have limits: "response_limits demo_config = Inr ?l" "negotiated_response_limits demo_config ?l = Inr ?l"
    using limits_default_valid
    by (simp_all add: response_limits_def negotiated_response_limits_def demo_config_def limits_default_def DEFAULT_MAX_FRAME_BYTES_def)
  have peer: "peer_hello demo_config (demo_message ''adapter_hello'' None (Hello demo_adapter_hello)) = Inr demo_adapter_hello"
    by (simp add: peer_hello_Inr demo_message_def demo_adapter_hello_def hello_new_def demo_config_def)
  have hellos: "hello_validate (hello_new ControlPlane ''core'' []) ?l = Inr ()" "hello_validate demo_adapter_hello ?l = Inr ()"
    using limits_default_valid
    by (simp_all add: hello_validate_def hello_new_def demo_adapter_hello_def validate_safe_string_def validate_string_vec_def)
  have "negotiate (sc_local_hello demo_config) demo_adapter_hello = Inr demo_negotiated"
    unfolding negotiate_Inr using hellos
    by (simp add: demo_config_def demo_adapter_hello_def hello_new_def demo_negotiated_def)
  moreover have "peer_ready demo_negotiated (demo_message ''adapter_ready'' None (Ready demo_negotiated)) = Inr ()"
    by (simp add: peer_ready_Inr demo_message_def)
  moreover have "is_response ''r'' demo_reply" by (simp add: is_response_def demo_reply_def demo_message_def)
  moreover have "n_limits demo_negotiated = ?l" by (simp add: demo_negotiated_def)
  moreover have "sc_limits demo_config = ?l" "sc_local_hello demo_config = hello_new ControlPlane ''core'' []"
    by (simp_all add: demo_config_def)
  ultimately show ?thesis
    using reads w1 w3 w5 limits peer
    by (intro exI [of _ "w2 @ w4 @ w6"])
      (simp add: exchange_def then_do_def check_def send_def receive_def hello ready)
qed

theorem request_after_handshake_witness:
  "\<exists>stdout q n. exchange demo demo_wire demo_config demo_job ''r'' \<lparr>pi_stdout = (stdout, False), pi_writes = 3, pi_sent = []\<rparr>
       = (Inr demo_reply, q)
     \<and> agreed demo demo_wire demo_config (stdout, False) n
     \<and> pi_sent q = [hello_message ''supervisor_hello'' (sc_local_hello demo_config), ready_message n, demo_job]
     \<and> is_response ''r'' demo_reply"
proof -
  obtain stdout q where ex: "exchange demo demo_wire demo_config demo_job ''r''
      \<lparr>pi_stdout = (stdout, False), pi_writes = 3, pi_sent = []\<rparr> = (Inr demo_reply, q)"
    using demo_exchange by blast
  from request_after_handshake [OF ex, of demo_reply] ex show ?thesis by auto
qed

section \<open>A supervised run\<close>

text \<open>C18 (clean success). A run of the supervisor answers with a message only if it is the response of the exchange over the
  adapter's pipes, after the agreed handshake and with the identifier of the request; the exchange had ended, nobody had
  cancelled and less time had passed than the request was given when the supervisor picked it; the process group was killed; and
  standard error, to its end, stayed within the bound.\<close>

theorem only_clean_response_succeeds:
  assumes "run_adapter E W A c request p batches = Some (Inr m)" and "pi_sent p = []"
  shows "\<exists>rid n q given before after.
    pm_request_id request = Some rid \<and> is_response rid m
    \<and> exchange E W c request rid p = (Inr m, q) \<and> agreed E W c (pi_stdout p) n
    \<and> pi_sent q = [hello_message ''supervisor_hello'' (sc_local_hello c), ready_message n, request]
    \<and> effective_runtime (ah_clock A) request (sc_max_runtime c) = Inr given
    \<and> batches = before @ after \<and> ExchangeEnds \<in> set (concat before) \<and> CancelRequested \<notin> set (concat before)
    \<and> time_of (concat before) < given
    \<and> ah_kill A \<and> stderr_of (concat batches) \<le> sc_max_stderr_bytes c"
proof -
  from run_adapter_response [OF assms(1)] obtain rid given before after where
    run: "pm_request_id request = Some rid" "effective_runtime (ah_clock A) request (sc_max_runtime c) = Inr given"
      "fst (exchange E W c request rid p) = Inr m"
      "batches = before @ after" "ExchangeEnds \<in> set (concat before)" "CancelRequested \<notin> set (concat before)"
      "time_of (concat before) < given" "stderr_of (concat batches) \<le> sc_max_stderr_bytes c" "ah_kill A" by metis
  obtain q where ex: "exchange E W c request rid p = (Inr m, q)"
    using run(3) by (cases "exchange E W c request rid p") simp
  from exchange_sent [OF ex assms(2), of m] obtain n where "agreed E W c (pi_stdout p) n"
    "pi_sent q = [hello_message ''supervisor_hello'' (sc_local_hello c), ready_message n, request]" "is_response rid m"
    by auto
  with run ex show ?thesis by blast
qed

definition demo_host :: adapter_host where
  "demo_host = \<lparr>ah_executable_absolute = True, ah_executable = FileAt, ah_directory_absolute = True,
     ah_directory = DirectoryAt 448, ah_clock = Some 0, ah_cancelled = False, ah_spawns = True, ah_kill = True,
     ah_wait = True, ah_stderr_reads = True\<rparr>"

lemma demo_started:
  "prepared_config demo_config demo_host = Inr ()" "validate_adapter_request demo_job OciExecutor = Inr ''r''"
  "\<exists>w. encode_message demo demo_wire demo_job limits_default = Inr w"
  "effective_runtime (Some 0) demo_job 1000 = Inr 1000"
proof -
  show "prepared_config demo_config demo_host = Inr ()"
    using limits_default_valid
    by (simp add: prepared_config_def demo_config_def demo_host_def hello_new_def validate_working_directory_def
        MAX_STDERR_BYTES_def MAX_SUPERVISOR_RUNTIME_def from_millis_def limits_default_def DEFAULT_MAX_FRAME_BYTES_def)
  show "validate_adapter_request demo_job OciExecutor = Inr ''r''"
    by (simp add: validate_adapter_request_def demo_job_def demo_message_def demo_request_def)
  show "\<exists>w. encode_message demo demo_wire demo_job limits_default = Inr w"
    using demo_exchange_written(5) by (auto simp: write_protocol_frame_def demo_job_def bindE_eq_Inr)
  show "effective_runtime (Some 0) demo_job 1000 = Inr 1000"
    by (simp add: effective_runtime_def demo_job_def demo_message_def demo_request_def no_budget_def from_millis_def)
qed

lemma demo_run:
  "run_adapter demo demo_wire demo_host demo_config demo_job p batches =
     map_option (\<lambda>(outcome, s, rest). finish_outcome demo_config (settle 1024 demo_host s rest) outcome)
       (select_branch 1024 1000 (fst (exchange demo demo_wire demo_config demo_job ''r'' p)) batches waiting_start)"
proof -
  have "sc_expected_peer_endpoint demo_config = OciExecutor" "sc_limits demo_config = limits_default"
    "sc_max_runtime demo_config = 1000" "sc_max_stderr_bytes demo_config = 1024" "ah_clock demo_host = Some 0"
    "\<not> ah_cancelled demo_host" "ah_spawns demo_host"
    by (simp_all add: demo_config_def demo_host_def)
  with demo_started show ?thesis by (auto simp: run_adapter_def)
qed

theorem only_clean_response_succeeds_witness:
  "\<exists>p q n. run_adapter demo demo_wire demo_host demo_config demo_job p
       [[Passes 400, StderrBytes 1000], [ExchangeEnds, Passes 400], [ChildExits (Some (ExitCode 0)), StderrBytes 24]]
       = Some (Inr demo_reply)
     \<and> exchange demo demo_wire demo_config demo_job ''r'' p = (Inr demo_reply, q)
     \<and> pi_sent q = [hello_message ''supervisor_hello'' (sc_local_hello demo_config), ready_message n, demo_job]"
proof -
  let ?es = "[[Passes 400, StderrBytes 1000], [ExchangeEnds, Passes 400], [ChildExits (Some (ExitCode 0)), StderrBytes 24]]"
  obtain stdout q where ex: "exchange demo demo_wire demo_config demo_job ''r''
      \<lparr>pi_stdout = (stdout, False), pi_writes = 3, pi_sent = []\<rparr> = (Inr demo_reply, q)"
    using demo_exchange by blast
  let ?p = "\<lparr>pi_stdout = (stdout, False), pi_writes = 3, pi_sent = []\<rparr> :: pipes"
  have run: "run_adapter demo demo_wire demo_host demo_config demo_job ?p ?es = Some (Inr demo_reply)"
    unfolding demo_run ex
    by (simp add: select_branch.simps poll_branches_def waiting_start_def capture_stderr_def saturating_usize_def settle_def
        demo_host_def terminate_after_exit_def finish_stderr_def Let_def)
  from only_clean_response_succeeds [OF run] obtain rid n q' where
    s: "pm_request_id demo_job = Some rid" "exchange demo demo_wire demo_config demo_job rid ?p = (Inr demo_reply, q')"
      "pi_sent q' = [hello_message ''supervisor_hello'' (sc_local_hello demo_config), ready_message n, demo_job]" by auto
  from s(1) have "rid = ''r''" by (simp add: demo_job_def demo_message_def)
  with run s show ?thesis by blast
qed

text \<open>C19 (waiting ends). A run that is still waiting, whatever has happened so far, is one that was started, and less time has
  passed than the request was given, which is at most the configured maximum of at most a day; nobody has cancelled, the exchange
  has not ended and the child has not exited. As soon as one of these happens, or the time is over, and the supervisor polls, it
  waits no longer. What follows, waiting for the killed child and for the end of its standard error, is taken to end.\<close>

theorem supervised_run_returns:
  assumes "run_adapter E W A c request p batches = None"
  shows "\<exists>given. effective_runtime (ah_clock A) request (sc_max_runtime c) = Inr given
    \<and> time_of (concat batches) < given \<and> given \<le> sc_max_runtime c \<and> sc_max_runtime c \<le> MAX_SUPERVISOR_RUNTIME
    \<and> ah_spawns A \<and> CancelRequested \<notin> set (concat batches) \<and> ExchangeEnds \<notin> set (concat batches)
    \<and> (\<forall>status. ChildExits status \<notin> set (concat batches))"
proof -
  from run_adapter_waits [OF assms] obtain given where
    given: "effective_runtime (ah_clock A) request (sc_max_runtime c) = Inr given" "ah_spawns A"
    "time_of (concat batches) < given" "CancelRequested \<notin> set (concat batches)" "ExchangeEnds \<notin> set (concat batches)"
    "\<And>x. ChildExits x \<notin> set (concat batches)" "prepared_config c A = Inr ()" by blast
  from effective_runtime_bounds [OF given(1)] have "given \<le> sc_max_runtime c" by blast
  with given prepared_config_Inr(2) [OF given(7)] show ?thesis by blast
qed

definition demo_pipes :: pipes where
  "demo_pipes = \<lparr>pi_stdout = ([], False), pi_writes = 0, pi_sent = []\<rparr>"

theorem supervised_run_returns_witness:
  "run_adapter demo demo_wire demo_host demo_config demo_job demo_pipes [[Passes 999], [StderrBytes 1024]] = None
   \<and> time_of [Passes 999, StderrBytes 1024] < sc_max_runtime demo_config
   \<and> run_adapter demo demo_wire demo_host demo_config demo_job demo_pipes [[Passes 999], [Passes 1]] = Some (Inl (TimedOut (0, False)))"
proof -
  have waits: "run_adapter demo demo_wire demo_host demo_config demo_job demo_pipes [[Passes 999], [StderrBytes 1024]] = None"
    unfolding demo_run
    by (simp add: select_branch.simps poll_branches_def waiting_start_def capture_stderr_def saturating_usize_def Let_def)
  have "run_adapter demo demo_wire demo_host demo_config demo_job demo_pipes [[Passes 999], [Passes 1]] = Some (Inl (TimedOut (0, False)))"
    unfolding demo_run
    by (simp add: select_branch.simps poll_branches_def waiting_start_def settle_def demo_host_def
        terminate_process_group_def finish_stderr_def Let_def)
  moreover from supervised_run_returns [OF waits] have "time_of [Passes 999, StderrBytes 1024] < sc_max_runtime demo_config" by auto
  ultimately show ?thesis using waits by blast
qed

text \<open>Runtime: The time an adapter gets never exceeds the configured maximum, the wall-time budget of
  the request, or what is left until its deadline.\<close>

lemma runtime_bounded:
  assumes "effective_runtime clock m configured = Inr t" and "pm_body m = Request body"
  shows "t \<le> configured
    \<and> (\<forall>ms. bl_wall_time_ms (rq_budgets body) = Some ms \<longrightarrow> t \<le> from_millis (unat ms))
    \<and> (\<forall>dl. rq_deadline body = Some dl \<longrightarrow> (\<exists>now_ms. clock = Some now_ms \<and> t \<le> from_millis (unat dl - now_ms)))"
  by (rule effective_runtime_bounds [OF assms(1)]) (use assms(2) in auto)


end
