(* ===== verification/Acquisition_Base.thy ===== *)
theory Acquisition_Base
  imports Contracts Text_Tools
begin

text \<open>
  What the parts of \<open>promptectomy-acquisition\<close> share (\<open>src/lib.rs\<close> and \<open>digest.rs\<close>): errors, limits, sources
  and requests, digests, and reading a file. The file system answers every call on its own, so a file
  is the sequence of observations that its reader makes, and they need not agree.
\<close>

section \<open>Errors and limits\<close>

datatype acquisition_error =
    InvalidAuthority | InvalidLimits | UnsafeStorageRoot | StoragePermissionUnsupported
  | LocatorDenied | InvalidRevision | InvalidSelectedRoot | InvalidSourcePath | UnsafePath
  | PathCollision | UnsupportedFileType | SourceChanged | FileCountExceeded | EmptySelection
  | TotalBytesExceeded | FileBytesExceeded | ArchiveBytesExceeded | UnsupportedArchive
  | ArchiveChecksumMismatch | InvalidBundle | LocalGitPolicyUnavailable | InvalidSshBroker
  | SshBrokerUnavailable | SshBrokerDenied | InvalidSshBrokerResponse | SshBrokerOutputExceeded
  | SshBrokerTimedOut | SshBrokerRelayUnavailable | GitStartFailed | GitTimedOut | GitOutputExceeded
  | GitFailed | InvalidGitOutput | GitPlatformUnsupported | RemoteGitUnavailable | InvalidRemoteBackend
  | RemoteRuntimeUnavailable | AcquisitionCancelled | InvalidRemoteManifest | InvalidRemoteAttestation
  | RemoteBundleExceeded | SnapshotPublishFailed | SnapshotIntegrityFailed

text \<open>Lengths and counts are \<open>usize\<close> or \<open>u64\<close>, both 64 bits wide; \<open>limits_in_range\<close> says that they fit.\<close>

record acquisition_limits =
  al_max_files :: nat
  al_max_total_bytes :: nat
  al_max_file_bytes :: nat
  al_max_path_bytes :: nat
  al_max_archive_bytes :: nat
  al_max_remote_work_bytes :: nat
  al_max_git_output_bytes :: nat
  al_max_git_seconds :: nat

definition acquisition_limits_default :: acquisition_limits where
  "acquisition_limits_default = \<lparr>al_max_files = 100000, al_max_total_bytes = 67108864,
     al_max_file_bytes = 16777216, al_max_path_bytes = 1024, al_max_archive_bytes = 67108864,
     al_max_remote_work_bytes = 268435456, al_max_git_output_bytes = 4194304, al_max_git_seconds = 300\<rparr>"

definition acquisition_limits_validate :: "acquisition_limits \<Rightarrow> acquisition_error + unit" where
  "acquisition_limits_validate l =
     (if al_max_files l = 0 \<or> al_max_total_bytes l = 0 \<or> al_max_file_bytes l = 0
         \<or> al_max_path_bytes l = 0 \<or> al_max_archive_bytes l = 0
         \<or> al_max_remote_work_bytes l < al_max_total_bytes l \<or> al_max_git_output_bytes l = 0
         \<or> al_max_git_seconds l = 0 \<or> al_max_file_bytes l > al_max_total_bytes l
      then Inl InvalidLimits else Inr ())"

section \<open>Sources and requests\<close>

datatype source_kind = LocalPath | HttpsRemote | SshBrokeredSource | ArchiveSource | BundleSource

datatype local_dirty_policy = IncludeTrackedAndUntracked | TrackedOnly | RequireClean

datatype archive_format = Tar

text \<open>A \<open>PathBuf\<close> is its text.\<close>

datatype acquisition_source =
    Local string local_dirty_policy
  | Https (https_url: string) (https_revision: string)
  | SshBrokered (ssh_display_host: string) (ssh_opaque_handle: string) (ssh_revision: string)
      (ssh_broker_executable: string) (ssh_broker_request: string)
  | Archive string archive_format
  | Bundle string

fun kind_of_source :: "acquisition_source \<Rightarrow> source_kind" where
  "kind_of_source (Local _ _) = LocalPath"
| "kind_of_source (Https _ _) = HttpsRemote"
| "kind_of_source (SshBrokered _ _ _ _ _) = SshBrokeredSource"
| "kind_of_source (Archive _ _) = ArchiveSource"
| "kind_of_source (Bundle _) = BundleSource"

record acquisition_request =
  ar_source :: acquisition_source
  ar_authority_id :: string
  ar_authority_digest :: string
  ar_selected_roots :: "string list"
  ar_limits :: acquisition_limits

definition is_sha256_digest :: "string \<Rightarrow> bool" where
  "is_sha256_digest v \<longleftrightarrow> length v = 71 \<and> starts_with ''sha256:'' v
     \<and> list_all (\<lambda>b. (is_ascii_digit b \<or> (CHR ''a'' \<le> b \<and> b \<le> CHR ''f'') \<or> (CHR ''A'' \<le> b \<and> b \<le> CHR ''F''))
          \<and> \<not> is_ascii_uppercase b) (drop 7 v)"

definition validate_request_authority :: "acquisition_request \<Rightarrow> acquisition_error + unit" where
  "validate_request_authority r =
     (if \<not> starts_with ''auth_'' (ar_authority_id r) \<or> length (ar_authority_id r) > 128
         \<or> \<not> is_sha256_digest (ar_authority_digest r)
      then Inl InvalidAuthority else Inr ())"

definition digest_string :: "env \<Rightarrow> string \<Rightarrow> string" where
  "digest_string E bytes = ''sha256:'' @ hex_encode (sha256 E bytes)"

section \<open>Reading a file once\<close>

datatype node_kind = RegularFile | DirectoryNode | SymlinkNode | OtherNode

record file_metadata =
  fm_kind :: node_kind
  fm_dev :: nat
  fm_ino :: nat
  fm_len :: nat
  fm_mtime :: int
  fm_mtime_nsec :: int
  fm_nlink :: nat
  fm_mode :: nat

text \<open>The results of \<open>symlink_metadata\<close>, of opening and inspecting the handle, of reading to the end, and
  of the two inspections afterwards. \<open>None\<close> is an I/O error.\<close>

record file_reading =
  fr_before :: "file_metadata option"
  fr_opened :: "file_metadata option"
  fr_content :: "string option"
  fr_after_handle :: "file_metadata option"
  fr_after_path :: "file_metadata option"

definition same_file :: "file_metadata \<Rightarrow> file_metadata \<Rightarrow> bool" where
  "same_file a b \<longleftrightarrow> fm_dev a = fm_dev b \<and> fm_ino a = fm_ino b \<and> fm_len a = fm_len b
     \<and> fm_mtime a = fm_mtime b \<and> fm_mtime_nsec a = fm_mtime_nsec b"

definition has_unsupported_hardlink :: "file_metadata \<Rightarrow> bool" where
  "has_unsupported_hardlink m \<longleftrightarrow> fm_nlink m > 1"

definition read_regular_once :: "file_reading \<Rightarrow> nat \<Rightarrow> acquisition_error \<Rightarrow> acquisition_error + string \<times> file_metadata" where
  "read_regular_once r limit quota_error =
     bindE (ok_or SourceChanged (fr_before r)) (\<lambda>before.
       if fm_kind before \<noteq> RegularFile then Inl InvalidSourcePath
       else if has_unsupported_hardlink before then Inl UnsupportedFileType
       else if fm_len before > limit then Inl quota_error
       else
         bindE (ok_or SourceChanged (fr_opened r)) (\<lambda>opened.
           if \<not> same_file before opened then Inl SourceChanged
           else
             bindE (ok_or SourceChanged (fr_content r)) (\<lambda>content.
               let bytes = take (min (limit + 1) (2 ^ 64 - 1)) content in
               if length bytes > limit then Inl quota_error
               else
                 bindE (ok_or SourceChanged (fr_after_handle r)) (\<lambda>after_handle.
                 bindE (ok_or SourceChanged (fr_after_path r)) (\<lambda>after_path.
                   if \<not> same_file opened after_handle \<or> \<not> same_file opened after_path
                      \<or> fm_len after_handle \<noteq> length bytes
                   then Inl SourceChanged
                   else Inr (bytes, opened))))))"

definition read_bounded :: "file_reading \<Rightarrow> file_reading \<Rightarrow> nat \<Rightarrow> acquisition_error \<Rightarrow> acquisition_error + string" where
  "read_bounded r1 r2 limit error =
     bindE (read_regular_once r1 limit error) (\<lambda>(first, _).
     bindE (read_regular_once r2 limit error) (\<lambda>(second, _).
       if first \<noteq> second then Inl SourceChanged else Inr first))"

end
