(* ===== verification/Path_Policy.thy ===== *)
theory Path_Policy
  imports Acquisition_Base
begin

text \<open>
  \<open>promptectomy-acquisition/src/path_policy.rs\<close>: which paths of a source may become paths of a
  snapshot, which of them a selection covers, and the key by which two paths collide. A
  \<open>BTreeSet\<close> of keys is a set.
\<close>

section \<open>Normalized paths\<close>

definition WINDOWS_DEVICES :: "string list" where
  "WINDOWS_DEVICES =
     [''CON'', ''PRN'', ''AUX'', ''NUL'',
      ''COM1'', ''COM2'', ''COM3'', ''COM4'', ''COM5'', ''COM6'', ''COM7'', ''COM8'', ''COM9'',
      ''LPT1'', ''LPT2'', ''LPT3'', ''LPT4'', ''LPT5'', ''LPT6'', ''LPT7'', ''LPT8'', ''LPT9'']"

definition normalize_component :: "string \<Rightarrow> acquisition_error + string" where
  "normalize_component c =
     (if c = [] \<or> c = ''.'' \<or> c = ''..'' \<or> length c > 255 \<or> list_ex is_ascii_control c
         \<or> ends_with ''.'' c \<or> ends_with '' '' c \<or> CHR '':'' \<in> set c
         \<or> eq_ignore_ascii_case c ''.git''
      then Inl UnsafePath
      else if list_ex (\<lambda>device. eq_ignore_ascii_case (hd (split_on CHR ''.'' c)) device) WINDOWS_DEVICES
      then Inl UnsafePath
      else Inr c)"

text \<open>An ASCII byte string is UTF-8, so \<open>from_utf8\<close> cannot fail after the first test.\<close>

definition normalize_path :: "string \<Rightarrow> nat \<Rightarrow> acquisition_error + string" where
  "normalize_path raw max_path_bytes =
     (if raw = [] \<or> length raw > max_path_bytes \<or> hd raw = CHR ''/'' \<or> CHR 0x5C \<in> set raw
         \<or> \<not> list_all is_ascii raw
      then Inl UnsafePath
      else
        bindE (traverse normalize_component (split_on CHR ''/'' raw)) (\<lambda>components.
          Inr (join_with CHR ''/'' components)))"

text \<open>\<open>OsStr::to_str\<close> fails on a component that is not UTF-8.\<close>

fun normal_component :: "path_component \<Rightarrow> acquisition_error + string" where
  "normal_component (Normal c) = (if utf8_valid c then Inr c else Inl UnsafePath)"
| "normal_component _ = Inl UnsafePath"

definition normalize_filesystem_relative :: "string \<Rightarrow> nat \<Rightarrow> acquisition_error + string" where
  "normalize_filesystem_relative p max_path_bytes =
     bindE (traverse normal_component (path_components p)) (\<lambda>components.
       normalize_path (join_with CHR ''/'' components) max_path_bytes)"

definition selected :: "string \<Rightarrow> string list \<Rightarrow> bool" where
  "selected path roots \<longleftrightarrow>
     roots = [] \<or> list_ex (\<lambda>root. path = root
       \<or> (case strip_prefix root path of None \<Rightarrow> False | Some rest \<Rightarrow> starts_with ''/'' rest)) roots"

definition may_contain_selected :: "string \<Rightarrow> string list \<Rightarrow> bool" where
  "may_contain_selected path roots \<longleftrightarrow>
     roots = [] \<or> list_ex (\<lambda>root. path = root
       \<or> (case strip_prefix path root of None \<Rightarrow> False | Some rest \<Rightarrow> starts_with ''/'' rest)
       \<or> (case strip_prefix root path of None \<Rightarrow> False | Some rest \<Rightarrow> starts_with ''/'' rest)) roots"

definition insert_collision_key :: "string \<Rightarrow> string set \<Rightarrow> acquisition_error + string set" where
  "insert_collision_key path seen =
     (if to_ascii_lowercase path \<in> seen then Inl PathCollision
      else Inr (insert (to_ascii_lowercase path) seen))"

fun normalize_roots :: "string list \<Rightarrow> string set \<Rightarrow> nat \<Rightarrow> acquisition_error + string list" where
  "normalize_roots [] seen mx = Inr []"
| "normalize_roots (root # rs) seen mx =
     bindE (map_err (\<lambda>_. InvalidSelectedRoot) (normalize_path root mx)) (\<lambda>root.
       if to_ascii_lowercase root \<in> seen then Inl InvalidSelectedRoot
       else
         bindE (normalize_roots rs (insert (to_ascii_lowercase root) seen) mx) (\<lambda>roots.
           Inr (root # roots)))"

definition normalize_selected_roots :: "string list \<Rightarrow> nat \<Rightarrow> acquisition_error + string list" where
  "normalize_selected_roots roots mx = bindE (normalize_roots roots {} mx) (\<lambda>normalized. Inr (sort normalized))"

section \<open>What they guarantee\<close>

text \<open>A path as it may be joined to a directory: no part of it is empty, special or reserved.\<close>

definition safe_component :: "string \<Rightarrow> bool" where
  "safe_component c \<longleftrightarrow> normalize_component c = Inr c"

definition safe_path :: "string \<Rightarrow> bool" where
  "safe_path p \<longleftrightarrow> p \<noteq> [] \<and> list_all is_ascii p \<and> CHR 0x5C \<notin> set p \<and> hd p \<noteq> CHR ''/''
     \<and> list_all safe_component (split_on CHR ''/'' p)"

lemma normalize_component_Inr: "normalize_component c = Inr d \<longleftrightarrow> d = c \<and> safe_component c"
  by (auto simp: normalize_component_def safe_component_def)

lemma traverse_same:
  "(\<And>x y. f x = Inr y \<longleftrightarrow> y = x \<and> P x) \<Longrightarrow> traverse f xs = Inr ys \<longleftrightarrow> ys = xs \<and> list_all P xs"
  by (induction xs arbitrary: ys) (auto simp: result_simps)

lemma normalize_path_Inr:
  "normalize_path raw mx = Inr p \<longleftrightarrow> p = raw \<and> safe_path raw \<and> length raw \<le> mx"
  by (auto simp: normalize_path_def safe_path_def result_simps join_split_on
      traverse_same [where P = safe_component, OF normalize_component_Inr])

lemma safe_component_special: "safe_component c \<Longrightarrow> c \<noteq> [] \<and> c \<noteq> ''.'' \<and> c \<noteq> ''..''"
  by (auto simp: safe_component_def normalize_component_def)

lemma safe_path_components:
  assumes "safe_path p"
  shows "path_components p = map Normal (split_on CHR ''/'' p)"
proof -
  have parts: "list_all safe_component (split_on CHR ''/'' p)" and hd: "p \<noteq> []" "hd p \<noteq> CHR ''/''"
    using assms by (auto simp: safe_path_def)
  have body: "concat (map (\<lambda>c. if c = [] \<or> c = ''.'' then [] else if c = ''..'' then [ParentDir] else [Normal c]) cs)
      = map Normal cs" if "list_all safe_component cs" for cs
    using that by (induction cs) (auto dest!: safe_component_special)
  have "hd (split_on CHR ''/'' p) \<noteq> ''.''"
    using parts by (cases "split_on CHR ''/'' p") (auto dest!: safe_component_special)
  with hd body [OF parts] show ?thesis by (simp add: path_components_def Let_def)
qed

lemma resolve_normals: "resolve dir (map Normal cs) = dir @ cs"
  by (induction cs arbitrary: dir) auto

lemma selected_iff:
  "selected path roots \<longleftrightarrow> roots = [] \<or> list_ex (\<lambda>root. path = root \<or> prefix (root @ ''/'') path) roots"
proof -
  have "(case strip_prefix root path of None \<Rightarrow> False | Some rest \<Rightarrow> starts_with ''/'' rest)
      \<longleftrightarrow> prefix (root @ ''/'') path" for root
    by (cases "strip_prefix root path")
      (auto simp: prefix_def starts_with_iff simp flip: strip_prefix_eq_Some)
  then show ?thesis by (simp add: selected_def)
qed

lemma normalize_roots_Inr:
  "normalize_roots roots seen mx = Inr rs \<longleftrightarrow>
     rs = roots \<and> list_all (\<lambda>r. safe_path r \<and> length r \<le> mx \<and> to_ascii_lowercase r \<notin> seen) roots
     \<and> distinct (map to_ascii_lowercase roots)"
  by (induction roots seen mx arbitrary: rs rule: normalize_roots.induct)
    (auto simp: result_simps normalize_path_Inr list_all_iff intro: rev_image_eqI)

lemma normalize_selected_roots_Inr:
  "normalize_selected_roots roots mx = Inr rs \<longleftrightarrow>
     rs = sort roots \<and> list_all (\<lambda>r. safe_path r \<and> length r \<le> mx) roots \<and> distinct (map to_ascii_lowercase roots)"
  by (auto simp: normalize_selected_roots_def result_simps normalize_roots_Inr)

lemma normalize_selected_roots_again:
  "normalize_selected_roots roots mx = Inr rs \<Longrightarrow> normalize_selected_roots rs mx = Inr rs"
  by (auto simp: normalize_selected_roots_Inr list_all_iff distinct_map inj_on_def sorted_sort_id)

end
