(* ===== verification/Remote_Source.thy ===== *)
theory Remote_Source
  imports Path_Policy Agent_Relay
begin

text \<open>
  Remote sources (\<open>promptectomy-acquisition/src/git.rs\<close> and \<open>remote.rs\<close>): which locators, revisions and
  hosts are admitted, the SSH broker's request and response, and the manifest and attestation of a remote
  acquisition. The parts of \<open>git.rs\<close> that only tests compile are not represented.
\<close>

unbundle bit_operations_syntax

section \<open>Locators\<close>

definition ALLOWED_REMOTE_HOSTS :: "string list" where
  "ALLOWED_REMOTE_HOSTS = [''bitbucket.org'', ''codeberg.org'', ''git.sr.ht'', ''github.com'', ''gitlab.com'']"

definition validate_public_host :: "string \<Rightarrow> acquisition_error + string" where
  "validate_public_host authority =
     bindE (case rsplit_once CHR '':'' authority of
              Some (host, port) \<Rightarrow> if port \<noteq> ''443'' then Inl LocatorDenied else Inr host
            | None \<Rightarrow> Inr authority) (\<lambda>host.
       let host = to_ascii_lowercase host in
       if host = [] \<or> length host > 253 \<or> host = ''localhost'' \<or> ends_with ''.localhost'' host
          \<or> last (split_on CHR ''.'' host) = ''local'' \<or> parses_as_ipv4 host
          \<or> list_ex (\<lambda>l. \<not> host_label l) (split_on CHR ''.'' host)
       then Inl LocatorDenied else Inr host)"

definition validate_allowed_remote_host :: "string \<Rightarrow> acquisition_error + string" where
  "validate_allowed_remote_host authority =
     bindE (validate_public_host authority) (\<lambda>host.
       if host \<notin> set ALLOWED_REMOTE_HOSTS then Inl LocatorDenied else Inr host)"

definition validate_https :: "string \<Rightarrow> acquisition_error + string \<times> string" where
  "validate_https url =
     (if \<not> list_all is_ascii url \<or> \<not> starts_with ''https://'' url \<or> length url > 2048
         \<or> list_ex (\<lambda>c. c \<in> {CHR ''?'', CHR ''#'', CHR 0x5C, CHR 0x25}) url
      then Inl LocatorDenied
      else
        bindE (ok_or LocatorDenied (split_once CHR ''/'' (drop 8 url))) (\<lambda>(authority, path).
          if CHR ''@'' \<in> set authority \<or> authority = [] \<or> path = [] \<or> starts_with ''/'' path
             \<or> list_ex (\<lambda>part. part = [] \<or> part = ''.'' \<or> part = ''..'') (split_on CHR ''/'' path)
          then Inl LocatorDenied
          else
            bindE (validate_allowed_remote_host authority) (\<lambda>host.
              Inr (url, ''https://'' @ host @ ''/<redacted>''))))"

definition canonical_https_host :: "string \<Rightarrow> acquisition_error + string" where
  "canonical_https_host url =
     bindE (validate_https url) (\<lambda>_.
     bindE (ok_or LocatorDenied (split_once CHR ''/'' (drop 8 url))) (\<lambda>(authority, _).
       Inr (if ends_with '':443'' authority then take (length authority - 4) authority else authority)))"

definition validate_revision :: "string \<Rightarrow> acquisition_error + unit" where
  "validate_revision revision =
     (if revision = [] \<or> length revision > 200 \<or> starts_with ''-'' revision
         \<or> contains_text revision ''..'' \<or> contains_text revision [CHR 0x40, CHR 0x7B]
         \<or> list_ex (\<lambda>b. \<not> (is_ascii_alphanumeric b \<or> b \<in> set ''._/-'')) revision
      then Inl InvalidRevision else Inr ())"

section \<open>The environment\<close>

record egress_destination =
  ed_host :: string
  ed_port :: u16

record broker_binding =
  bb_handle_digest :: string
  bb_executable_digest :: string
  bb_request_digest :: string
  bb_repository_digest :: string
  bb_host_key_digest :: string
  bb_selected_public_key_digest :: string

record ssh_broker_request =
  br_schema_version :: string
  br_opaque_handle :: string
  br_display_host :: string
  br_port :: u16
  br_username :: string
  br_repository :: string
  br_revision :: string
  br_host_key_type :: string
  br_host_key_base64 :: string
  br_host_key_sha256 :: string
  br_selected_public_key_base64 :: string
  br_credential_source :: string
  br_wall_time_seconds :: u64
  br_max_connections :: u8
  br_max_frame_bytes :: u64
  br_max_signatures :: u8

datatype ssh_broker_decision = Granted | Denied | Unavailable

record ssh_broker_response =
  bp_schema_version :: string
  bp_request_digest :: string
  bp_executable_digest :: string
  bp_handle_digest :: string
  bp_decision :: ssh_broker_decision
  bp_confirmed_host_key_sha256 :: "string option"

datatype remote_backend_profile = OrbstackMacosArm64V1

record remote_backend_policy =
  bk_profile :: remote_backend_profile
  bk_image_digest :: string
  bk_runner_digest :: string
  bk_egress_proxy_digest :: string
  bk_ssh_agent_relay_digest :: string

datatype remote_credential_policy = NoCredential | SshAgentBrokerGrant

datatype control_attestation = Passed | Failed

datatype remote_destination_enforcement = ApplicationConnectProxy

record remote_manifest =
  rm_schema_version :: string
  rm_source_kind :: source_kind
  rm_manifest_digest :: string
  rm_authority_digest :: string
  rm_locator_digest :: string
  rm_redacted_locator :: string
  rm_destination :: egress_destination
  rm_revision :: string
  rm_selected_roots :: "string list"
  rm_max_files :: nat
  rm_max_total_bytes :: nat
  rm_max_file_bytes :: nat
  rm_max_path_bytes :: nat
  rm_max_remote_work_bytes :: nat
  rm_max_bundle_bytes :: nat
  rm_max_output_bytes :: nat
  rm_wall_time_seconds :: nat
  rm_checkout_policy :: string
  rm_egress_policy :: string
  rm_credential_policy :: remote_credential_policy
  rm_broker :: "broker_binding option"
  rm_backend :: remote_backend_policy

text \<open>
  What is outside the crate: SHA-256 and the relay's codecs, the canonical JSON of the four documents
  and their parsers, and the files behind paths: their metadata, and the two readings of each.
\<close>

record remote_env =
  rx_env :: env
  rx_relay :: relay_env
  rx_manifest_jcs :: "remote_manifest \<Rightarrow> string"
  rx_request_of :: "string \<Rightarrow> ssh_broker_request option"
  rx_request_jcs :: "ssh_broker_request \<Rightarrow> string option"
  rx_response_of :: "string \<Rightarrow> ssh_broker_response option"
  rx_response_jcs :: "ssh_broker_response \<Rightarrow> string option"
  rx_metadata :: "string \<Rightarrow> file_metadata option"
  rx_readings :: "string \<Rightarrow> file_reading \<times> file_reading"

definition domain_digest :: "remote_env \<Rightarrow> string \<Rightarrow> string \<Rightarrow> string" where
  "domain_digest X domain v = digest_string (rx_env X) (domain @ CHR 0x00 # v)"

definition remote_source_bundle_digest :: "remote_env \<Rightarrow> string \<Rightarrow> string" where
  "remote_source_bundle_digest X v = domain_digest X ''remote-source-bundle'' v"

section \<open>The SSH broker\<close>

definition MAX_BROKER_EXECUTABLE_BYTES :: nat where "MAX_BROKER_EXECUTABLE_BYTES = 16 * 1024 * 1024"
definition MAX_BROKER_REQUEST_BYTES :: nat where "MAX_BROKER_REQUEST_BYTES = 64 * 1024"
definition SSH_BROKER_RESPONSE_VERSION :: string where "SSH_BROKER_RESPONSE_VERSION = ''promptectomy.ssh-broker-response.v1''"

definition is_absolute_path :: "string \<Rightarrow> bool" where
  "is_absolute_path p = starts_with ''/'' p"

definition safe_regular_file :: "remote_env \<Rightarrow> string \<Rightarrow> bool \<Rightarrow> bool" where
  "safe_regular_file X p executable =
     (case rx_metadata X p of
        None \<Rightarrow> False
      | Some m \<Rightarrow> fm_kind m = RegularFile
          \<and> \<not> (fm_mode m AND 18 \<noteq> 0 \<or> (executable \<and> fm_mode m AND 73 = 0)))"

definition handle_chars :: "string \<Rightarrow> bool" where
  "handle_chars h \<longleftrightarrow> \<not> (h = [] \<or> length h > 128 \<or> \<not> list_all (\<lambda>b. is_ascii_alphanumeric b \<or> b \<in> set ''-_'') h)"

definition validate_ssh_broker :: "remote_env \<Rightarrow> string \<Rightarrow> string \<Rightarrow> string \<Rightarrow> string \<Rightarrow> acquisition_error + unit" where
  "validate_ssh_broker X display_host opaque_handle executable request =
     bindE (map_err (\<lambda>_. InvalidSshBroker) (validate_allowed_remote_host display_host)) (\<lambda>_.
       if \<not> handle_chars opaque_handle \<or> \<not> is_absolute_path executable \<or> \<not> is_absolute_path request
          \<or> \<not> safe_regular_file X executable True \<or> \<not> safe_regular_file X request False
       then Inl InvalidSshBroker else Inr ())"

fun validate_remote_source :: "remote_env \<Rightarrow> acquisition_source \<Rightarrow> acquisition_error + unit" where
  "validate_remote_source X (Https url revision) =
     bindE (validate_revision revision) (\<lambda>_. bindE (validate_https url) (\<lambda>_. Inr ()))"
| "validate_remote_source X (SshBrokered host handle revision executable request) =
     bindE (validate_revision revision) (\<lambda>_. validate_ssh_broker X host handle executable request)"
| "validate_remote_source X _ = Inl LocatorDenied"

definition valid_repository_path :: "string \<Rightarrow> bool" where
  "valid_repository_path v \<longleftrightarrow> v \<noteq> [] \<and> length v \<le> 512 \<and> list_all is_ascii v
     \<and> \<not> starts_with ''/'' v \<and> \<not> starts_with ''-'' v
     \<and> \<not> list_ex (\<lambda>c. c \<in> {CHR ''?'', CHR ''#'', CHR 0x5C, CHR 0x25}) v
     \<and> list_all (\<lambda>c. c \<noteq> [] \<and> c \<noteq> ''.'' \<and> c \<noteq> ''..''
          \<and> list_all (\<lambda>b. is_ascii_alphanumeric b \<or> b \<in> set ''._-~'') c) (split_on CHR ''/'' v)"

definition grant_of_request :: "ssh_broker_request \<Rightarrow> string \<Rightarrow> relay_grant" where
  "grant_of_request r manifest_digest =
     \<lparr>gr_schema_version = br_schema_version r, gr_opaque_handle = br_opaque_handle r,
      gr_display_host = br_display_host r, gr_port = br_port r, gr_username = br_username r,
      gr_repository = br_repository r, gr_revision = br_revision r, gr_host_key_type = br_host_key_type r,
      gr_host_key_base64 = br_host_key_base64 r, gr_host_key_sha256 = br_host_key_sha256 r,
      gr_selected_public_key_base64 = br_selected_public_key_base64 r, gr_manifest_digest = manifest_digest,
      gr_credential_source = br_credential_source r, gr_wall_time_seconds = br_wall_time_seconds r,
      gr_max_connections = br_max_connections r, gr_max_frame_bytes = br_max_frame_bytes r,
      gr_max_signatures = br_max_signatures r\<rparr>"

definition broker_request_validate_for :: "remote_env \<Rightarrow> ssh_broker_request \<Rightarrow> string \<Rightarrow> string \<Rightarrow> acquisition_error + unit" where
  "broker_request_validate_for X r display_host opaque_handle =
     (if br_schema_version r \<noteq> GRANT_VERSION \<or> br_opaque_handle r \<noteq> opaque_handle
         \<or> br_display_host r \<noteq> display_host \<or> br_port r \<noteq> 22 \<or> br_username r \<noteq> ''git''
         \<or> br_credential_source r \<noteq> ''selected_ssh_agent'' \<or> \<not> valid_repository_path (br_repository r)
      then Inl InvalidSshBroker
      else
        bindE (map_err (\<lambda>_. InvalidSshBroker)
          (validate_grant (rx_relay X) (grant_of_request r (''sha256:'' @ replicate 64 CHR ''0'')))) (\<lambda>_. Inr ()))"

definition request_relay_grant :: "remote_env \<Rightarrow> ssh_broker_request \<Rightarrow> remote_manifest \<Rightarrow> acquisition_error + validated_grant" where
  "request_relay_grant X r m =
     (if br_revision r \<noteq> rm_revision m
         \<or> unat (br_wall_time_seconds r) \<noteq> min (rm_wall_time_seconds m) 300
         \<or> br_max_connections r \<noteq> 1 \<or> br_max_frame_bytes r \<noteq> 256 * 1024 \<or> br_max_signatures r \<noteq> 4
      then Inl InvalidSshBroker
      else map_err (\<lambda>_. InvalidSshBroker)
        (validate_grant (rx_relay X) (grant_of_request r (rm_manifest_digest m))))"

definition broker_response_validate_for :: "ssh_broker_response \<Rightarrow> broker_binding \<Rightarrow> ssh_broker_request \<Rightarrow> acquisition_error + unit" where
  "broker_response_validate_for p binding r =
     (if bp_schema_version p \<noteq> SSH_BROKER_RESPONSE_VERSION
         \<or> bp_request_digest p \<noteq> bb_request_digest binding
         \<or> bp_executable_digest p \<noteq> bb_executable_digest binding
         \<or> bp_handle_digest p \<noteq> bb_handle_digest binding
         \<or> (case bp_decision p of
              Granted \<Rightarrow> bp_confirmed_host_key_sha256 p \<noteq> Some (br_host_key_sha256 r)
            | Denied \<Rightarrow> bp_confirmed_host_key_sha256 p \<noteq> None
            | Unavailable \<Rightarrow> bp_confirmed_host_key_sha256 p \<noteq> None)
      then Inl InvalidSshBrokerResponse else Inr ())"

definition ssh_broker_executable_digest :: "remote_env \<Rightarrow> string \<Rightarrow> acquisition_error + string" where
  "ssh_broker_executable_digest X p =
     bindE (case_prod read_bounded (rx_readings X p) MAX_BROKER_EXECUTABLE_BYTES InvalidSshBroker) (\<lambda>bytes.
       Inr (domain_digest X ''ssh-broker-executable'' bytes))"

definition load_ssh_broker_request :: "remote_env \<Rightarrow> string \<Rightarrow> string \<Rightarrow> string \<Rightarrow> acquisition_error + string \<times> ssh_broker_request" where
  "load_ssh_broker_request X p display_host opaque_handle =
     bindE (case_prod read_bounded (rx_readings X p) MAX_BROKER_REQUEST_BYTES InvalidSshBroker) (\<lambda>bytes.
     bindE (ok_or InvalidSshBroker (rx_request_of X bytes)) (\<lambda>request.
     bindE (broker_request_validate_for X request display_host opaque_handle) (\<lambda>_.
     bindE (ok_or InvalidSshBroker (rx_request_jcs X request)) (\<lambda>canonical.
       if canonical \<noteq> bytes then Inl InvalidSshBroker else Inr (bytes, request)))))"

definition parse_ssh_broker_response :: "remote_env \<Rightarrow> string \<Rightarrow> broker_binding \<Rightarrow> ssh_broker_request \<Rightarrow> acquisition_error + ssh_broker_decision" where
  "parse_ssh_broker_response X bytes binding request =
     bindE (ok_or InvalidSshBrokerResponse (rx_response_of X bytes)) (\<lambda>response.
     bindE (broker_response_validate_for response binding request) (\<lambda>_.
     bindE (ok_or InvalidSshBrokerResponse (rx_response_jcs X response)) (\<lambda>canonical.
       if canonical \<noteq> bytes then Inl InvalidSshBrokerResponse else Inr (bp_decision response))))"

definition make_broker_binding :: "remote_env \<Rightarrow> string \<Rightarrow> string \<Rightarrow> string \<Rightarrow> string \<Rightarrow> acquisition_error + broker_binding" where
  "make_broker_binding X display_host opaque_handle executable request =
     (if \<not> handle_chars opaque_handle then Inl InvalidSshBroker
      else
        bindE (ssh_broker_executable_digest X executable) (\<lambda>executable_digest.
        bindE (load_ssh_broker_request X request display_host opaque_handle) (\<lambda>(request_bytes, request).
          Inr \<lparr>bb_handle_digest = domain_digest X ''ssh-broker-handle'' opaque_handle,
               bb_executable_digest = executable_digest,
               bb_request_digest = domain_digest X ''ssh-broker-request'' request_bytes,
               bb_repository_digest = domain_digest X ''ssh-repository'' (br_repository request),
               bb_host_key_digest = domain_digest X ''ssh-host-key''
                 (br_host_key_type request @ '' '' @ br_host_key_base64 request),
               bb_selected_public_key_digest =
                 domain_digest X ''ssh-selected-public-key'' (br_selected_public_key_base64 request)\<rparr>)))"

section \<open>The backend and the manifest\<close>

definition ORBSTACK_PUBLIC_GIT_IMAGE_DIGEST :: string where
  "ORBSTACK_PUBLIC_GIT_IMAGE_DIGEST = ''sha256:826575ce5fd3b427e4522d64fe13204a174836cd7a052361ac7dee51d42b182e''"
definition ORBSTACK_PUBLIC_GIT_RUNNER_DIGEST :: string where
  "ORBSTACK_PUBLIC_GIT_RUNNER_DIGEST = ''sha256:9eebe416b538fc6602313e0a306c8d25b8eac5d990d7b31c109ecc30577dd3fc''"
definition ORBSTACK_PUBLIC_GIT_PROXY_DIGEST :: string where
  "ORBSTACK_PUBLIC_GIT_PROXY_DIGEST = ''sha256:9291a931763138b51888bb2393fc3e2bdc28c9df0d31e7eb8a7ae55db39f026b''"
definition ORBSTACK_PUBLIC_GIT_RELAY_DIGEST :: string where
  "ORBSTACK_PUBLIC_GIT_RELAY_DIGEST = ''sha256:399c89fce01f0c87a95b09ca5081ae5399eb2446cd31e6d400521c5ec4b183c7''"
definition REMOTE_GIT_MANIFEST_VERSION :: string where "REMOTE_GIT_MANIFEST_VERSION = ''promptectomy.remote-git-manifest.v2''"
definition REMOTE_GIT_ATTESTATION_VERSION :: string where "REMOTE_GIT_ATTESTATION_VERSION = ''promptectomy.remote-git-attestation.v2''"
definition REMOTE_MAX_TOTAL_BYTES :: nat where "REMOTE_MAX_TOTAL_BYTES = 32 * 1024 * 1024"
definition REMOTE_MAX_FILE_BYTES :: nat where "REMOTE_MAX_FILE_BYTES = 16 * 1024 * 1024"
definition REMOTE_MAX_WORK_BYTES :: nat where "REMOTE_MAX_WORK_BYTES = 256 * 1024 * 1024"
definition REMOTE_MAX_BUNDLE_BYTES :: nat where "REMOTE_MAX_BUNDLE_BYTES = 64 * 1024 * 1024"

definition reviewed_backend :: remote_backend_policy where
  "reviewed_backend = \<lparr>bk_profile = OrbstackMacosArm64V1, bk_image_digest = ORBSTACK_PUBLIC_GIT_IMAGE_DIGEST,
     bk_runner_digest = ORBSTACK_PUBLIC_GIT_RUNNER_DIGEST, bk_egress_proxy_digest = ORBSTACK_PUBLIC_GIT_PROXY_DIGEST,
     bk_ssh_agent_relay_digest = ORBSTACK_PUBLIC_GIT_RELAY_DIGEST\<rparr>"

definition backend_validate :: "remote_backend_policy \<Rightarrow> acquisition_error + unit" where
  "backend_validate b =
     (if \<not> is_sha256_digest (bk_image_digest b) \<or> \<not> is_sha256_digest (bk_runner_digest b)
         \<or> \<not> is_sha256_digest (bk_egress_proxy_digest b) \<or> \<not> is_sha256_digest (bk_ssh_agent_relay_digest b)
      then Inl InvalidRemoteManifest else Inr ())"

definition computed_digest :: "remote_env \<Rightarrow> remote_manifest \<Rightarrow> string" where
  "computed_digest X m = domain_digest X ''remote-git-manifest'' (rx_manifest_jcs X (m\<lparr>rm_manifest_digest := []\<rparr>))"

definition binding_digests :: "broker_binding \<Rightarrow> bool" where
  "binding_digests b \<longleftrightarrow> is_sha256_digest (bb_handle_digest b) \<and> is_sha256_digest (bb_executable_digest b)
     \<and> is_sha256_digest (bb_request_digest b) \<and> is_sha256_digest (bb_repository_digest b)
     \<and> is_sha256_digest (bb_host_key_digest b) \<and> is_sha256_digest (bb_selected_public_key_digest b)"

definition credential_matches :: "remote_manifest \<Rightarrow> bool" where
  "credential_matches m =
     (case (rm_source_kind m, rm_credential_policy m, rm_broker m) of
        (HttpsRemote, NoCredential, None) \<Rightarrow>
          ed_port (rm_destination m) = 443
          \<and> rm_redacted_locator m = ''https://'' @ ed_host (rm_destination m) @ ''/<redacted>''
      | (SshBrokeredSource, SshAgentBrokerGrant, Some binding) \<Rightarrow>
          ed_port (rm_destination m) = 22
          \<and> rm_redacted_locator m = ''ssh://'' @ ed_host (rm_destination m) @ ''/<redacted>''
          \<and> binding_digests binding
      | _ \<Rightarrow> False)"

definition manifest_bounds :: "remote_manifest \<Rightarrow> bool" where
  "manifest_bounds m \<longleftrightarrow> \<not> (rm_max_files m = 0 \<or> rm_max_total_bytes m = 0 \<or> rm_max_file_bytes m = 0
     \<or> rm_max_file_bytes m > rm_max_total_bytes m \<or> rm_max_path_bytes m = 0
     \<or> rm_max_remote_work_bytes m < rm_max_total_bytes m \<or> rm_max_bundle_bytes m = 0
     \<or> rm_max_bundle_bytes m > rm_max_remote_work_bytes m \<or> rm_max_output_bytes m = 0
     \<or> rm_wall_time_seconds m = 0)"

definition manifest_validate :: "remote_env \<Rightarrow> remote_manifest \<Rightarrow> acquisition_error + unit" where
  "manifest_validate X m =
     (if rm_schema_version m \<noteq> REMOTE_GIT_MANIFEST_VERSION \<or> rm_manifest_digest m \<noteq> computed_digest X m
         \<or> \<not> is_sha256_digest (rm_authority_digest m) \<or> \<not> is_sha256_digest (rm_locator_digest m)
         \<or> rm_checkout_policy m \<noteq> ''no_checkout''
         \<or> rm_egress_policy m \<noteq> ''application_connect_proxy_exact_destination''
         \<or> \<not> manifest_bounds m
      then Inl InvalidRemoteManifest
      else
        bindE (backend_validate (rm_backend m)) (\<lambda>_.
        bindE (validate_revision (rm_revision m)) (\<lambda>_.
        bindE (normalize_selected_roots (rm_selected_roots m) (rm_max_path_bytes m)) (\<lambda>roots.
          if roots \<noteq> rm_selected_roots m then Inl InvalidRemoteManifest
          else
            bindE (map_err (\<lambda>_. InvalidRemoteManifest) (validate_allowed_remote_host (ed_host (rm_destination m)))) (\<lambda>host.
              if host \<noteq> ed_host (rm_destination m) then Inl InvalidRemoteManifest
              else if \<not> credential_matches m then Inl InvalidRemoteManifest
              else Inr ())))))"

text \<open>What the source decides of the manifest.\<close>

record remote_locator =
  rl_kind :: source_kind
  rl_locator_digest :: string
  rl_redacted :: string
  rl_destination :: egress_destination
  rl_revision :: string
  rl_credential :: remote_credential_policy
  rl_broker :: "broker_binding option"

fun locate_source :: "remote_env \<Rightarrow> acquisition_source \<Rightarrow> acquisition_error + remote_locator" where
  "locate_source X (Https url revision) =
     bindE (validate_revision revision) (\<lambda>_.
     bindE (validate_https url) (\<lambda>(_, redacted).
     bindE (canonical_https_host url) (\<lambda>host.
       Inr \<lparr>rl_kind = HttpsRemote, rl_locator_digest = domain_digest X ''remote-locator'' url,
            rl_redacted = redacted, rl_destination = \<lparr>ed_host = host, ed_port = 443\<rparr>,
            rl_revision = revision, rl_credential = NoCredential, rl_broker = None\<rparr>)))"
| "locate_source X (SshBrokered display_host opaque_handle revision executable request) =
     bindE (validate_revision revision) (\<lambda>_.
     bindE (map_err (\<lambda>_. InvalidSshBroker) (validate_allowed_remote_host display_host)) (\<lambda>host.
     bindE (make_broker_binding X display_host opaque_handle executable request) (\<lambda>binding.
       Inr \<lparr>rl_kind = SshBrokeredSource, rl_locator_digest = domain_digest X ''remote-locator'' opaque_handle,
            rl_redacted = ''ssh://'' @ host @ ''/<redacted>'', rl_destination = \<lparr>ed_host = host, ed_port = 22\<rparr>,
            rl_revision = revision, rl_credential = SshAgentBrokerGrant, rl_broker = Some binding\<rparr>)))"
| "locate_source X _ = Inl LocatorDenied"

definition manifest_of :: "acquisition_request \<Rightarrow> string list \<Rightarrow> remote_locator \<Rightarrow> remote_backend_policy \<Rightarrow> remote_manifest" where
  "manifest_of r roots loc backend =
     (let l = ar_limits r in
      \<lparr>rm_schema_version = REMOTE_GIT_MANIFEST_VERSION, rm_source_kind = rl_kind loc, rm_manifest_digest = [],
       rm_authority_digest = ar_authority_digest r, rm_locator_digest = rl_locator_digest loc,
       rm_redacted_locator = rl_redacted loc, rm_destination = rl_destination loc, rm_revision = rl_revision loc,
       rm_selected_roots = roots, rm_max_files = al_max_files l,
       rm_max_total_bytes = min (al_max_total_bytes l) REMOTE_MAX_TOTAL_BYTES,
       rm_max_file_bytes = min (min (al_max_file_bytes l) (al_max_total_bytes l)) REMOTE_MAX_FILE_BYTES,
       rm_max_path_bytes = al_max_path_bytes l,
       rm_max_remote_work_bytes = min (al_max_remote_work_bytes l) REMOTE_MAX_WORK_BYTES,
       rm_max_bundle_bytes = min (al_max_archive_bytes l) REMOTE_MAX_BUNDLE_BYTES,
       rm_max_output_bytes = al_max_git_output_bytes l, rm_wall_time_seconds = al_max_git_seconds l,
       rm_checkout_policy = ''no_checkout'', rm_egress_policy = ''application_connect_proxy_exact_destination'',
       rm_credential_policy = rl_credential loc, rm_broker = rl_broker loc, rm_backend = backend\<rparr>)"

definition build_remote_git_manifest :: "remote_env \<Rightarrow> acquisition_request \<Rightarrow> remote_backend_policy \<Rightarrow> acquisition_error + remote_manifest" where
  "build_remote_git_manifest X r backend =
     bindE (acquisition_limits_validate (ar_limits r)) (\<lambda>_.
     bindE (validate_request_authority r) (\<lambda>_.
     bindE (validate_remote_source X (ar_source r)) (\<lambda>_.
     bindE (backend_validate backend) (\<lambda>_.
     bindE (normalize_selected_roots (ar_selected_roots r) (al_max_path_bytes (ar_limits r))) (\<lambda>roots.
     bindE (locate_source X (ar_source r)) (\<lambda>loc.
       let m = manifest_of r roots loc backend; m = m\<lparr>rm_manifest_digest := computed_digest X m\<rparr> in
       bindE (manifest_validate X m) (\<lambda>_. Inr m)))))))"

section \<open>The attestation\<close>

record cleanup_attestation =
  ca_worker_removed :: control_attestation
  ca_proxy_removed :: control_attestation
  ca_network_removed :: control_attestation
  ca_broker_relay_removed :: control_attestation
  ca_orphan_check :: control_attestation

definition cleanup_accepted :: "cleanup_attestation \<Rightarrow> bool" where
  "cleanup_accepted c \<longleftrightarrow> list_all (\<lambda>v. v = Passed)
     [ca_worker_removed c, ca_proxy_removed c, ca_network_removed c, ca_broker_relay_removed c, ca_orphan_check c]"

record remote_attestation =
  ra_schema_version :: string
  ra_manifest_digest :: string
  ra_backend_profile :: remote_backend_profile
  ra_image_digest :: string
  ra_runner_digest :: string
  ra_egress_proxy_digest :: string
  ra_git_binary_digest :: string
  ra_broker :: "broker_binding option"
  ra_observed_destinations :: "egress_destination list"
  ra_remote_work_tmpfs_bytes :: nat
  ra_input_tmpfs_bytes :: nat
  ra_output_tmpfs_bytes :: nat
  ra_temporary_tmpfs_bytes :: nat
  ra_unaccounted_writable_data_mounts :: nat
  ra_kernel_writable_storage_limit :: control_attestation
  ra_root_read_only :: control_attestation
  ra_no_new_privileges :: control_attestation
  ra_capabilities_dropped :: control_attestation
  ra_worker_internal_network_only :: control_attestation
  ra_proxy_dual_homed :: control_attestation
  ra_destination_enforcement :: remote_destination_enforcement
  ra_kernel_exact_destination_enforced :: bool
  ra_worker_default_route_absent :: control_attestation
  ra_proxy_gateway_blocked :: bool
  ra_git_execution_neutralized :: control_attestation
  ra_credentials_isolated :: control_attestation
  ra_resolved_commit :: string
  ra_source_bundle_digest :: string
  ra_cleanup :: cleanup_attestation

definition valid_object_id :: "string \<Rightarrow> bool" where
  "valid_object_id v \<longleftrightarrow> length v \<in> {40, 64}
     \<and> list_all (\<lambda>b. (is_ascii_digit b \<or> (CHR ''a'' \<le> b \<and> b \<le> CHR ''f'') \<or> (CHR ''A'' \<le> b \<and> b \<le> CHR ''F''))
          \<and> \<not> is_ascii_uppercase b) v"

definition attestation_matches :: "remote_attestation \<Rightarrow> remote_manifest \<Rightarrow> bool" where
  "attestation_matches a m \<longleftrightarrow> \<not> (
     ra_schema_version a \<noteq> REMOTE_GIT_ATTESTATION_VERSION
     \<or> ra_manifest_digest a \<noteq> rm_manifest_digest m
     \<or> ra_backend_profile a \<noteq> bk_profile (rm_backend m)
     \<or> ra_image_digest a \<noteq> bk_image_digest (rm_backend m)
     \<or> ra_runner_digest a \<noteq> bk_runner_digest (rm_backend m)
     \<or> ra_egress_proxy_digest a \<noteq> bk_egress_proxy_digest (rm_backend m)
     \<or> \<not> is_sha256_digest (ra_git_binary_digest a)
     \<or> ra_broker a \<noteq> rm_broker m
     \<or> ra_observed_destinations a \<noteq> [rm_destination m]
     \<or> ra_remote_work_tmpfs_bytes a \<noteq> rm_max_remote_work_bytes m
     \<or> \<not> (128 * 1024 \<le> ra_input_tmpfs_bytes a \<and> ra_input_tmpfs_bytes a \<le> 1024 * 1024)
     \<or> ra_output_tmpfs_bytes a < min (rm_max_bundle_bytes m + rm_max_output_bytes m) (2 ^ 64 - 1)
     \<or> ra_output_tmpfs_bytes a > 1024 * 1024 * 1024
     \<or> \<not> (4 * 1024 * 1024 \<le> ra_temporary_tmpfs_bytes a \<and> ra_temporary_tmpfs_bytes a \<le> 64 * 1024 * 1024)
     \<or> ra_unaccounted_writable_data_mounts a \<noteq> 0
     \<or> ra_kernel_writable_storage_limit a \<noteq> Passed
     \<or> ra_root_read_only a \<noteq> Passed
     \<or> ra_no_new_privileges a \<noteq> Passed
     \<or> ra_capabilities_dropped a \<noteq> Passed
     \<or> ra_worker_internal_network_only a \<noteq> Passed
     \<or> ra_proxy_dual_homed a \<noteq> Passed
     \<or> ra_destination_enforcement a \<noteq> ApplicationConnectProxy
     \<or> ra_kernel_exact_destination_enforced a
     \<or> ra_worker_default_route_absent a \<noteq> Passed
     \<or> ra_proxy_gateway_blocked a
     \<or> ra_git_execution_neutralized a \<noteq> Passed
     \<or> ra_credentials_isolated a \<noteq> Passed
     \<or> \<not> valid_object_id (ra_resolved_commit a)
     \<or> \<not> is_sha256_digest (ra_source_bundle_digest a)
     \<or> \<not> cleanup_accepted (ra_cleanup a))"

definition attestation_validate :: "remote_env \<Rightarrow> remote_attestation \<Rightarrow> remote_manifest \<Rightarrow> acquisition_error + unit" where
  "attestation_validate X a m =
     bindE (manifest_validate X m) (\<lambda>_.
       if \<not> attestation_matches a m then Inl InvalidRemoteAttestation else Inr ())"

record remote_git_result =
  rr_source_bundle :: string
  rr_attestation :: remote_attestation

definition result_structure_validate :: "remote_env \<Rightarrow> remote_git_result \<Rightarrow> remote_manifest \<Rightarrow> acquisition_error + unit" where
  "result_structure_validate X r m =
     bindE (manifest_validate X m) (\<lambda>_.
       if length (rr_source_bundle r) > rm_max_bundle_bytes m
          \<or> domain_digest X ''remote-source-bundle'' (rr_source_bundle r) \<noteq> ra_source_bundle_digest (rr_attestation r)
       then Inl RemoteBundleExceeded
       else attestation_validate X (rr_attestation r) m)"

section \<open>What a manifest guarantees\<close>

lemma allowed_host: "validate_allowed_remote_host a = Inr h \<Longrightarrow> h \<in> set ALLOWED_REMOTE_HOSTS"
  by (auto simp: validate_allowed_remote_host_def bindE_eq_Inr split: if_splits)

lemma manifest_validate_Inr:
  "manifest_validate X m = Inr () \<Longrightarrow> manifest_bounds m \<and> credential_matches m
     \<and> ed_host (rm_destination m) \<in> set ALLOWED_REMOTE_HOSTS \<and> rm_manifest_digest m = computed_digest X m"
  unfolding manifest_validate_def
  by (auto simp: bindE_eq_Inr map_err_eq_Inr dest: allowed_host split: if_splits)

lemma build_remote_git_manifest_Inr:
  assumes "build_remote_git_manifest X r backend = Inr m"
  obtains roots loc where "locate_source X (ar_source r) = Inr loc" "manifest_validate X m = Inr ()"
    "normalize_selected_roots (ar_selected_roots r) (al_max_path_bytes (ar_limits r)) = Inr roots"
    "m = (manifest_of r roots loc backend)\<lparr>rm_manifest_digest := computed_digest X (manifest_of r roots loc backend)\<rparr>"
  using assms unfolding build_remote_git_manifest_def Let_def by (auto simp: bindE_eq_Inr)

text \<open>The manifest is for the request: its authority, revision and roots, within its limits and the fixed ceilings.\<close>

definition manifest_for :: "acquisition_request \<Rightarrow> remote_manifest \<Rightarrow> bool" where
  "manifest_for r m \<longleftrightarrow> rm_authority_digest m = ar_authority_digest r
     \<and> rm_max_total_bytes m \<le> al_max_total_bytes (ar_limits r) \<and> rm_max_total_bytes m \<le> REMOTE_MAX_TOTAL_BYTES
     \<and> rm_max_file_bytes m \<le> al_max_file_bytes (ar_limits r) \<and> rm_max_file_bytes m \<le> REMOTE_MAX_FILE_BYTES
     \<and> rm_max_bundle_bytes m \<le> al_max_archive_bytes (ar_limits r) \<and> rm_max_bundle_bytes m \<le> REMOTE_MAX_BUNDLE_BYTES
     \<and> rm_max_files m = al_max_files (ar_limits r)
     \<and> (case ar_source r of
          Https url revision \<Rightarrow> rm_revision m = revision \<and> rm_broker m = None
            \<and> rm_destination m = \<lparr>ed_host = ed_host (rm_destination m), ed_port = 443\<rparr>
        | SshBrokered _ _ revision _ _ \<Rightarrow> rm_revision m = revision \<and> rm_broker m \<noteq> None
            \<and> rm_destination m = \<lparr>ed_host = ed_host (rm_destination m), ed_port = 22\<rparr>
        | _ \<Rightarrow> False)"

lemma locate_source_Inr:
  assumes "locate_source X s = Inr loc"
  shows "case s of
      Https url revision \<Rightarrow> rl_revision loc = revision \<and> rl_broker loc = None \<and> ed_port (rl_destination loc) = 443
    | SshBrokered _ _ revision _ _ \<Rightarrow> rl_revision loc = revision \<and> rl_broker loc \<noteq> None \<and> ed_port (rl_destination loc) = 22
    | _ \<Rightarrow> False"
  using assms by (cases s) (auto simp: bindE_eq_Inr)

lemma built_manifest_for: "build_remote_git_manifest X r backend = Inr m \<Longrightarrow> manifest_for r m"
  by (erule build_remote_git_manifest_Inr, drule locate_source_Inr)
    (auto simp: manifest_for_def manifest_of_def Let_def split: acquisition_source.splits)

lemma result_structure_Inr:
  "result_structure_validate X r m = Inr () \<Longrightarrow> attestation_matches (rr_attestation r) m
     \<and> length (rr_source_bundle r) \<le> rm_max_bundle_bytes m
     \<and> ra_source_bundle_digest (rr_attestation r) = remote_source_bundle_digest X (rr_source_bundle r)"
  by (auto simp: result_structure_validate_def attestation_validate_def remote_source_bundle_digest_def bindE_eq_Inr split: if_splits)

end
