(* ===== verification/Source_Archive.thy ===== *)
theory Source_Archive
  imports Remote_Source "HOL-Library.Multiset"
begin

text \<open>
  \<open>promptectomy-acquisition/src/archive.rs\<close> and the quota and digest functions of \<open>snapshot.rs\<close> it
  uses: the reader of ustar archives and of JSON source bundles. Bytes are characters; the loop over
  the blocks of an archive keeps its position, as the code does, because the overflow checks
  depend on it. \<open>usize\<close> and \<open>u64\<close> are naturals below \<open>2 ^ 64\<close>, with the checks written out.
\<close>

unbundle bit_operations_syntax

section \<open>Files and quotas\<close>

record materialized_file =
  mf_path :: string
  mf_bytes :: string
  mf_executable :: bool

record collected_material =
  cm_files :: "materialized_file list"
  cm_redacted_locator :: string
  cm_source_digest :: string
  cm_revision :: string
  cm_git_version :: "string option"
  cm_submodule_count :: nat
  cm_lfs_pointer_count :: nat
  cm_path_exclusions :: "string list"
  cm_remote_manifest :: "remote_manifest option"
  cm_remote_attestation :: "remote_attestation option"

definition collected_material_new :: "materialized_file list \<Rightarrow> string \<Rightarrow> string \<Rightarrow> string \<Rightarrow> collected_material" where
  "collected_material_new files locator source_digest revision =
     \<lparr>cm_files = sort_key mf_path files, cm_redacted_locator = locator, cm_source_digest = source_digest,
      cm_revision = revision, cm_git_version = None, cm_submodule_count = 0, cm_lfs_pointer_count = 0,
      cm_path_exclusions = [], cm_remote_manifest = None, cm_remote_attestation = None\<rparr>"

text \<open>The total so far, with the next file added.\<close>

definition add_quota :: "materialized_file list \<Rightarrow> nat \<Rightarrow> nat \<Rightarrow> acquisition_limits \<Rightarrow> acquisition_error + nat" where
  "add_quota files sofar bytes l =
     (if length files \<ge> al_max_files l then Inl FileCountExceeded
      else if bytes > al_max_file_bytes l then Inl FileBytesExceeded
      else if sofar + bytes \<ge> 2 ^ 64 then Inl TotalBytesExceeded
      else if sofar + bytes > al_max_total_bytes l then Inl TotalBytesExceeded
      else Inr (sofar + bytes))"

definition lfs_pointer :: "string \<Rightarrow> bool" where
  "lfs_pointer bytes = starts_with (''version https://git-lfs.github.com/spec/v1'' @ [CHR 0x0A]) bytes"

definition count_lfs_pointers :: "materialized_file list \<Rightarrow> nat" where
  "count_lfs_pointers files = length (filter (\<lambda>f. lfs_pointer (mf_bytes f)) files)"

section \<open>The archive reader\<close>

definition TAR_BLOCK :: nat where
  "TAR_BLOCK = 512"

definition slice :: "nat \<Rightarrow> nat \<Rightarrow> 'a list \<Rightarrow> 'a list" where
  "slice i j xs = take (j - i) (drop i xs)"

fun fold_octal :: "nat \<Rightarrow> string \<Rightarrow> acquisition_error + nat" where
  "fold_octal v [] = Inr v"
| "fold_octal v (b # bs) =
     (if \<not> (CHR ''0'' \<le> b \<and> b \<le> CHR ''7'') then Inl UnsupportedArchive
      else if v * 8 \<ge> 2 ^ 64 then Inl UnsupportedArchive
      else if v * 8 + (byte_code b - byte_code CHR ''0'') \<ge> 2 ^ 64 then Inl UnsupportedArchive
      else fold_octal (v * 8 + (byte_code b - byte_code CHR ''0'')) bs)"

definition tar_padding :: "char \<Rightarrow> bool" where
  "tar_padding b \<longleftrightarrow> b = CHR '' '' \<or> b = CHR 0x00"

definition parse_tar_octal :: "string \<Rightarrow> acquisition_error + nat" where
  "parse_tar_octal field =
     (if field \<noteq> [] \<and> byte_code (hd field) AND 128 \<noteq> 0 then Inl UnsupportedArchive
      else fold_octal 0 (takeWhile (\<lambda>b. \<not> tar_padding b) (dropWhile tar_padding field)))"

definition tar_text :: "string \<Rightarrow> acquisition_error + string" where
  "tar_text field =
     (let value = takeWhile (\<lambda>b. b \<noteq> CHR 0x00) field in
      if list_ex is_ascii_control value then Inl UnsafePath
      else if utf8_valid value then Inr value else Inl UnsafePath)"

definition tar_sum :: "string \<Rightarrow> nat" where
  "tar_sum header =
     fold (\<lambda>(i, b) sum. sum + (if 148 \<le> i \<and> i < 156 then byte_code CHR '' '' else byte_code b))
       (enumerate 0 header) 0"

definition verify_tar_checksum :: "string \<Rightarrow> acquisition_error + unit" where
  "verify_tar_checksum header =
     bindE (parse_tar_octal (slice 148 156 header)) (\<lambda>expected.
       if expected \<noteq> tar_sum header then Inl ArchiveChecksumMismatch else Inr ())"

definition strip_slash :: "string \<Rightarrow> string" where
  "strip_slash p = (if ends_with ''/'' p then butlast p else p)"

record tar_state =
  ts_offset :: nat
  ts_zero_blocks :: nat
  ts_files :: "materialized_file list"
  ts_seen :: "string set"
  ts_total :: nat

definition tar_path :: "string \<Rightarrow> acquisition_error + string" where
  "tar_path header =
     bindE (tar_text (take 100 header)) (\<lambda>name.
       if name = [] then Inl UnsafePath
       else
         bindE (tar_text (slice 345 500 header)) (\<lambda>pre.
           Inr (strip_slash (if pre = [] then name else pre @ ''/'' @ name))))"

text \<open>Where the content of an entry ends, and where the next header starts.\<close>

definition tar_extent :: "nat \<Rightarrow> nat \<Rightarrow> nat \<Rightarrow> acquisition_error + nat \<times> nat" where
  "tar_extent len offset bytes =
     (if bytes + (TAR_BLOCK - 1) \<ge> 2 ^ 64 then Inl ArchiveBytesExceeded
      else
        let padded = (bytes + (TAR_BLOCK - 1)) div TAR_BLOCK * TAR_BLOCK in
        if offset + padded \<ge> 2 ^ 64 then Inl ArchiveBytesExceeded
        else if offset + bytes \<ge> 2 ^ 64 then Inl ArchiveBytesExceeded
        else if offset + padded > len \<or> offset + bytes > len then Inl UnsupportedArchive
        else Inr (offset + bytes, offset + padded))"

lemma if_split_eq_Inr:
  "(if c then Inl e else r) = Inr x \<longleftrightarrow> \<not> c \<and> r = Inr x"
  "(if c then r else Inl e) = Inr x \<longleftrightarrow> c \<and> r = Inr x"
  by simp_all

text \<open>What a member of each type adds to the state \<open>st'\<close> that lies past it.\<close>

definition tar_member :: "string \<Rightarrow> string list \<Rightarrow> acquisition_limits \<Rightarrow> string \<Rightarrow> string \<Rightarrow> nat \<Rightarrow> nat
    \<Rightarrow> tar_state \<Rightarrow> tar_state \<Rightarrow> acquisition_error + tar_state" where
  "tar_member bytes roots l header path n content_end st st' =
     (let kind = header ! 156 in
      if kind = CHR ''5'' then
        (if n \<noteq> 0 then Inl UnsupportedArchive else Inr st')
      else if kind = CHR 0x00 \<or> kind = CHR ''0'' then
        (if selected path roots then
           bindE (add_quota (ts_files st) (ts_total st) n l) (\<lambda>sofar.
           bindE (parse_tar_octal (slice 100 108 header)) (\<lambda>mode.
             Inr (st'\<lparr>ts_total := sofar,
               ts_files := ts_files st @
                 [\<lparr>mf_path = path, mf_bytes = slice (ts_offset st) content_end bytes,
                   mf_executable = (mode AND 73 \<noteq> 0)\<rparr>]\<rparr>)))
         else Inr st')
      else Inl UnsupportedFileType)"

definition tar_entry :: "string \<Rightarrow> string list \<Rightarrow> acquisition_limits \<Rightarrow> string \<Rightarrow> tar_state \<Rightarrow> acquisition_error + tar_state" where
  "tar_entry bytes roots l header st =
     bindE (verify_tar_checksum header) (\<lambda>_.
       if slice 257 263 header \<noteq> ''ustar'' @ [CHR 0x00] \<and> slice 257 263 header \<noteq> ''ustar ''
       then Inl UnsupportedArchive
       else
         bindE (tar_path header) (\<lambda>raw_path.
         bindE (normalize_path raw_path (al_max_path_bytes l)) (\<lambda>path.
         bindE (insert_collision_key path (ts_seen st)) (\<lambda>seen.
         bindE (parse_tar_octal (slice 124 136 header)) (\<lambda>size.
         bindE (tar_extent (length bytes) (ts_offset st) size) (\<lambda>(content_end, stop).
           tar_member bytes roots l header path size content_end st
             (st\<lparr>ts_seen := seen, ts_offset := stop\<rparr>)))))))"

text \<open>One turn of the loop: whether it breaks, and the state it leaves.\<close>

definition tar_turn :: "string \<Rightarrow> string list \<Rightarrow> acquisition_limits \<Rightarrow> tar_state \<Rightarrow> acquisition_error + bool \<times> tar_state" where
  "tar_turn bytes roots l st =
     (let header = slice (ts_offset st) (ts_offset st + TAR_BLOCK) bytes;
          st = st\<lparr>ts_offset := ts_offset st + TAR_BLOCK\<rparr> in
      if list_all (\<lambda>b. b = CHR 0x00) header then
        (let st = st\<lparr>ts_zero_blocks := ts_zero_blocks st + 1\<rparr> in
         if ts_zero_blocks st = 2 then
           (if list_ex (\<lambda>b. b \<noteq> CHR 0x00) (drop (ts_offset st) bytes)
            then Inl UnsupportedArchive else Inr (True, st))
         else Inr (False, st))
      else if ts_zero_blocks st \<noteq> 0 then Inl UnsupportedArchive
      else bindE (tar_entry bytes roots l header st) (\<lambda>st. Inr (False, st)))"

partial_function (option) tar_loop ::
  "string \<Rightarrow> string list \<Rightarrow> acquisition_limits \<Rightarrow> tar_state \<Rightarrow> (acquisition_error + tar_state) option"
where
  "tar_loop bytes roots l st =
     (if ts_offset st < length bytes then
        (case tar_turn bytes roots l st of
           Inl e \<Rightarrow> Some (Inl e)
         | Inr r \<Rightarrow> (if fst r then Some (Inr (snd r)) else tar_loop bytes roots l (snd r)))
      else Some (Inr st))"

definition tar_start :: tar_state where
  "tar_start = \<lparr>ts_offset = 0, ts_zero_blocks = 0, ts_files = [], ts_seen = {}, ts_total = 0\<rparr>"

definition tar_result :: "tar_state \<Rightarrow> acquisition_error + materialized_file list" where
  "tar_result st =
     (if ts_zero_blocks st < 2 then Inl UnsupportedArchive else Inr (sort_key mf_path (ts_files st)))"

definition parse_tar :: "string \<Rightarrow> string list \<Rightarrow> acquisition_limits \<Rightarrow> (acquisition_error + materialized_file list) option" where
  "parse_tar bytes roots l =
     (if length bytes < TAR_BLOCK \<or> length bytes mod TAR_BLOCK \<noteq> 0 then Some (Inl UnsupportedArchive)
      else map_option (\<lambda>r. bindE r tar_result) (tar_loop bytes roots l tar_start))"

text \<open>What was read from the archive file; \<open>read_bounded\<close> has already refused longer files.\<close>

definition collect_archive :: "env \<Rightarrow> string \<Rightarrow> string list \<Rightarrow> acquisition_limits \<Rightarrow> (acquisition_error + collected_material) option" where
  "collect_archive E bytes roots l =
     map_option (\<lambda>r. bindE r (\<lambda>files.
       if files = [] then Inl EmptySelection
       else
         let d = digest_string E bytes; m = collected_material_new files ''archive://<redacted>'' d d in
         Inr (m\<lparr>cm_lfs_pointer_count := count_lfs_pointers (cm_files m)\<rparr>))) (parse_tar bytes roots l)"

section \<open>The bundle reader\<close>

definition BUNDLE_VERSION :: string where
  "BUNDLE_VERSION = ''promptectomy-source-bundle-1''"

record bundle_file =
  bf_path :: string
  bf_executable :: bool
  bf_content_hex :: string
  bf_digest :: string

record bundle_document =
  bd_version :: string
  bd_files :: "bundle_file list"

definition bundle_hex_digit :: "char \<Rightarrow> acquisition_error + nat" where
  "bundle_hex_digit b =
     (if CHR ''0'' \<le> b \<and> b \<le> CHR ''9'' then Inr (byte_code b - byte_code CHR ''0'')
      else if CHR ''a'' \<le> b \<and> b \<le> CHR ''f'' then Inr (byte_code b - byte_code CHR ''a'' + 10)
      else Inl InvalidBundle)"

fun decode_pairs :: "string \<Rightarrow> acquisition_error + string" where
  "decode_pairs (a # b # r) =
     bindE (bundle_hex_digit a) (\<lambda>high.
     bindE (bundle_hex_digit b) (\<lambda>low.
     bindE (decode_pairs r) (\<lambda>bytes. Inr (char_of (push_bit 4 high OR low) # bytes))))"
| "decode_pairs _ = Inr []"

definition decode_hex :: "string \<Rightarrow> acquisition_error + string" where
  "decode_hex v = (if length v mod 2 \<noteq> 0 \<or> \<not> list_all is_ascii v then Inl InvalidBundle else decode_pairs v)"

fun bundle_files :: "env \<Rightarrow> bundle_file list \<Rightarrow> string list \<Rightarrow> acquisition_limits \<Rightarrow> string set \<Rightarrow> materialized_file list \<Rightarrow> nat
    \<Rightarrow> acquisition_error + materialized_file list" where
  "bundle_files E [] roots l seen files sofar = Inr files"
| "bundle_files E (f # fs) roots l seen files sofar =
     bindE (normalize_path (bf_path f) (al_max_path_bytes l)) (\<lambda>normalized.
     bindE (insert_collision_key normalized seen) (\<lambda>seen.
     bindE (decode_hex (bf_content_hex f)) (\<lambda>content.
       if digest_string E content \<noteq> bf_digest f then Inl InvalidBundle
       else if \<not> selected normalized roots then bundle_files E fs roots l seen files sofar
       else
         bindE (add_quota files sofar (length content) l) (\<lambda>sofar.
           bundle_files E fs roots l seen
             (files @ [\<lparr>mf_path = normalized, mf_bytes = content, mf_executable = bf_executable f\<rparr>]) sofar))))"

text \<open>\<open>document\<close> is what \<open>serde_json\<close> reads from the bytes.\<close>

definition collect_bundle_bytes ::
  "env \<Rightarrow> (string \<Rightarrow> bundle_document option) \<Rightarrow> string \<Rightarrow> string list \<Rightarrow> acquisition_limits \<Rightarrow> acquisition_error + collected_material"
where
  "collect_bundle_bytes E document bytes roots l =
     bindE (ok_or InvalidBundle (document bytes)) (\<lambda>doc.
       if bd_version doc \<noteq> BUNDLE_VERSION \<or> length (bd_files doc) > al_max_files l then Inl InvalidBundle
       else
         bindE (bundle_files E (bd_files doc) roots l {} [] 0) (\<lambda>files.
           if files = [] then Inl EmptySelection
           else
             let d = digest_string E bytes; m = collected_material_new files ''bundle://<redacted>'' d d in
             Inr (m\<lparr>cm_lfs_pointer_count := count_lfs_pointers (cm_files m)\<rparr>)))"

section \<open>What every reader promises\<close>

text \<open>The files of a snapshot: in order, no two of them the same up to case, every path safe and selected, and all
  quotas kept.\<close>

definition within_quotas :: "acquisition_limits \<Rightarrow> materialized_file list \<Rightarrow> bool" where
  "within_quotas l files \<longleftrightarrow> length files \<le> al_max_files l
     \<and> sum_list (map (length \<circ> mf_bytes) files) \<le> al_max_total_bytes l
     \<and> list_all (\<lambda>f. length (mf_bytes f) \<le> al_max_file_bytes l) files"

definition paths_ok :: "string list \<Rightarrow> acquisition_limits \<Rightarrow> materialized_file list \<Rightarrow> bool" where
  "paths_ok roots l files \<longleftrightarrow> distinct (map (to_ascii_lowercase \<circ> mf_path) files)
     \<and> list_all (\<lambda>f. safe_path (mf_path f) \<and> length (mf_path f) \<le> al_max_path_bytes l \<and> selected (mf_path f) roots) files"

definition snapshot_ok :: "string list \<Rightarrow> acquisition_limits \<Rightarrow> materialized_file list \<Rightarrow> bool" where
  "snapshot_ok roots l files \<longleftrightarrow> sorted (map mf_path files) \<and> paths_ok roots l files \<and> within_quotas l files"

text \<open>What holds between two files: the total and the collision keys account for the files so far.\<close>

definition collecting :: "string list \<Rightarrow> acquisition_limits \<Rightarrow> string set \<Rightarrow> nat \<Rightarrow> materialized_file list \<Rightarrow> bool" where
  "collecting roots l seen sofar files \<longleftrightarrow> paths_ok roots l files \<and> within_quotas l files
     \<and> sofar = sum_list (map (length \<circ> mf_bytes) files)
     \<and> list_all (\<lambda>f. to_ascii_lowercase (mf_path f) \<in> seen) files"

lemma add_quota_Inr:
  "add_quota files sofar n l = Inr s \<longleftrightarrow>
     s = sofar + n \<and> length files < al_max_files l \<and> n \<le> al_max_file_bytes l \<and> s < 2 ^ 64 \<and> s \<le> al_max_total_bytes l"
  by (auto simp: add_quota_def)

lemma insert_collision_key_Inr:
  "insert_collision_key path seen = Inr s \<longleftrightarrow> to_ascii_lowercase path \<notin> seen \<and> s = insert (to_ascii_lowercase path) seen"
  by (auto simp: insert_collision_key_def)

lemma collecting_start: "collecting roots l {} 0 []"
  by (simp add: collecting_def paths_ok_def within_quotas_def)

lemma collecting_skip:
  "collecting roots l seen sofar files \<Longrightarrow> insert_collision_key path seen = Inr seen' \<Longrightarrow> collecting roots l seen' sofar files"
  by (auto simp: collecting_def insert_collision_key_Inr list_all_iff)

lemma collecting_add:
  assumes "collecting roots l seen sofar files" and "normalize_path raw (al_max_path_bytes l) = Inr path"
    and "insert_collision_key path seen = Inr seen'" and "selected path roots"
    and "add_quota files sofar (length bytes) l = Inr sofar'"
  shows "collecting roots l seen' sofar'
    (files @ [\<lparr>mf_path = path, mf_bytes = bytes, mf_executable = x\<rparr>])"
  using assms
  by (auto simp: collecting_def paths_ok_def within_quotas_def list_all_iff add_quota_Inr insert_collision_key_Inr
      normalize_path_Inr)

lemma collecting_sorted:
  assumes "collecting roots l seen sofar files"
  shows "snapshot_ok roots l (sort_key mf_path files)"
proof -
  have "mset (map g (sort_key mf_path files)) = mset (map g files)" for g :: "materialized_file \<Rightarrow> 'a"
    by simp
  then have "distinct (map g (sort_key mf_path files)) = distinct (map g files)"
    and "sum_list (map h (sort_key mf_path files)) = sum_list (map h files)" for g :: "materialized_file \<Rightarrow> string" and h :: "materialized_file \<Rightarrow> nat"
    by (metis mset_eq_imp_distinct_iff) (metis sum_mset_sum_list mset_map mset_sort)
  with assms show ?thesis
    by (simp add: snapshot_ok_def collecting_def paths_ok_def within_quotas_def list_all_iff)
qed

section \<open>The archive loop\<close>

lemma tar_extent_Inr:
  "tar_extent len offset n = Inr (content_end, stop) \<Longrightarrow> content_end = offset + n \<and> content_end \<le> stop \<and> stop \<le> len
     \<and> (\<exists>k. stop = offset + k * TAR_BLOCK)"
  by (auto simp: tar_extent_def TAR_BLOCK_def Let_def split: if_splits)

lemma slice_sublist: "sublist (slice i j xs) xs"
  by (metis slice_def sublist_drop sublist_order.order_trans sublist_take)

lemma length_slice: "i \<le> j \<Longrightarrow> j \<le> length xs \<Longrightarrow> length (slice i j xs) = j - i"
  by (simp add: slice_def)

definition tar_ok :: "string \<Rightarrow> string list \<Rightarrow> acquisition_limits \<Rightarrow> tar_state \<Rightarrow> bool" where
  "tar_ok bytes roots l st \<longleftrightarrow> collecting roots l (ts_seen st) (ts_total st) (ts_files st)
     \<and> list_all (\<lambda>f. sublist (mf_bytes f) bytes) (ts_files st) \<and> ts_offset st mod TAR_BLOCK = 0"

lemma tar_entry_Inr:
  assumes "tar_entry bytes roots l header st = Inr st'"
  obtains raw path seen n content_end stop where
    "normalize_path raw (al_max_path_bytes l) = Inr path" "insert_collision_key path (ts_seen st) = Inr seen"
    "tar_extent (length bytes) (ts_offset st) n = Inr (content_end, stop)"
    "st' = st\<lparr>ts_seen := seen, ts_offset := stop\<rparr>
     \<or> (\<exists>sofar x. selected path roots \<and> add_quota (ts_files st) (ts_total st) n l = Inr sofar
       \<and> st' = st\<lparr>ts_seen := seen, ts_offset := stop, ts_total := sofar,
           ts_files := ts_files st @ [\<lparr>mf_path = path, mf_bytes = slice (ts_offset st) content_end bytes, mf_executable = x\<rparr>]\<rparr>)"
proof -
  from assms obtain raw path seen n p where entry: "normalize_path raw (al_max_path_bytes l) = Inr path"
      "insert_collision_key path (ts_seen st) = Inr seen" "tar_extent (length bytes) (ts_offset st) n = Inr p"
      "tar_member bytes roots l header path n (fst p) st (st\<lparr>ts_seen := seen, ts_offset := snd p\<rparr>) = Inr st'"
    unfolding tar_entry_def case_prod_beta by (simp only: bindE_eq_Inr if_split_eq_Inr) blast
  have "st' = st\<lparr>ts_seen := seen, ts_offset := snd p\<rparr>
     \<or> (\<exists>sofar x. selected path roots \<and> add_quota (ts_files st) (ts_total st) n l = Inr sofar
       \<and> st' = st\<lparr>ts_seen := seen, ts_offset := snd p, ts_total := sofar,
           ts_files := ts_files st @ [\<lparr>mf_path = path, mf_bytes = slice (ts_offset st) (fst p) bytes, mf_executable = x\<rparr>]\<rparr>)"
    using entry(4) by (auto simp: tar_member_def Let_def bindE_eq_Inr split: if_splits)
  with entry(1-3) show thesis by (intro that) auto
qed

lemma tar_entry_ok:
  assumes "tar_entry bytes roots l header st = Inr st'" and "tar_ok bytes roots l st"
  shows "tar_ok bytes roots l st' \<and> ts_offset st \<le> ts_offset st'"
  using assms(1)
proof (cases rule: tar_entry_Inr)
  case (1 raw path seen n content_end stop)
  from tar_extent_Inr [OF 1(3)] obtain k where stop: "content_end = ts_offset st + n" "content_end \<le> stop"
    "stop \<le> length bytes" "stop = ts_offset st + k * TAR_BLOCK" by blast
  have ok: "collecting roots l (ts_seen st) (ts_total st) (ts_files st)"
    and sub: "list_all (\<lambda>f. sublist (mf_bytes f) bytes) (ts_files st)" and off: "ts_offset st mod TAR_BLOCK = 0"
    using assms(2) by (simp_all add: tar_ok_def)
  have off': "stop mod TAR_BLOCK = 0" using off stop(4) by simp
  have len: "length (slice (ts_offset st) content_end bytes) = n" using stop by (simp add: length_slice)
  from 1(4) show ?thesis
  proof
    assume "st' = st\<lparr>ts_seen := seen, ts_offset := stop\<rparr>"
    with collecting_skip [OF ok 1(2)] sub off' stop show ?thesis by (simp add: tar_ok_def)
  next
    assume "\<exists>sofar x. selected path roots \<and> add_quota (ts_files st) (ts_total st) n l = Inr sofar
       \<and> st' = st\<lparr>ts_seen := seen, ts_offset := stop, ts_total := sofar,
           ts_files := ts_files st @ [\<lparr>mf_path = path, mf_bytes = slice (ts_offset st) content_end bytes, mf_executable = x\<rparr>]\<rparr>"
    then obtain sofar x where sel: "selected path roots" and quota: "add_quota (ts_files st) (ts_total st) n l = Inr sofar"
      and st': "st' = st\<lparr>ts_seen := seen, ts_offset := stop, ts_total := sofar,
           ts_files := ts_files st @ [\<lparr>mf_path = path, mf_bytes = slice (ts_offset st) content_end bytes, mf_executable = x\<rparr>]\<rparr>"
      by blast
    from collecting_add [OF ok 1(1,2) sel quota [folded len]] sub off' stop slice_sublist show ?thesis
      by (simp add: tar_ok_def st')
  qed
qed

lemma tar_turn_ok:
  assumes "tar_turn bytes roots l st = Inr (b, st')" and "tar_ok bytes roots l st"
  shows "tar_ok bytes roots l st' \<and> ts_offset st < ts_offset st'"
proof -
  let ?st = "st\<lparr>ts_offset := ts_offset st + TAR_BLOCK\<rparr>"
  have ok: "tar_ok bytes roots l ?st" "tar_ok bytes roots l (?st\<lparr>ts_zero_blocks := z\<rparr>)" for z
    using assms(2) by (simp_all add: tar_ok_def)
  from assms(1) consider z where "st' = ?st\<lparr>ts_zero_blocks := z\<rparr>" | header where "tar_entry bytes roots l header ?st = Inr st'"
    by (auto simp: tar_turn_def Let_def result_simps split: if_splits)
  then show ?thesis
  proof cases
    case 1
    with ok(2) show ?thesis by (simp add: TAR_BLOCK_def)
  next
    case 2
    with tar_entry_ok [OF _ ok(1)] show ?thesis by (fastforce simp: TAR_BLOCK_def)
  qed
qed

lemma tar_turn_forward: "tar_turn bytes roots l st = Inr (b, st') \<Longrightarrow> ts_offset st < ts_offset st'"
  by (auto simp: tar_turn_def Let_def result_simps TAR_BLOCK_def split: if_splits
      elim!: tar_entry_Inr dest!: tar_extent_Inr)

lemma tar_loop_returns: "\<exists>r. tar_loop bytes roots l st = Some r"
proof (induction "length bytes - ts_offset st" arbitrary: st rule: less_induct)
  case less
  show ?case
  proof (cases "ts_offset st < length bytes")
    case True
    show ?thesis
    proof (cases "tar_turn bytes roots l st")
      case (Inr r)
      then obtain b st' where r: "tar_turn bytes roots l st = Inr (b, st')" by (cases r) simp
      with tar_turn_forward [OF r] True have "length bytes - ts_offset st' < length bytes - ts_offset st" by linarith
      from less [OF this] r show ?thesis by (simp add: tar_loop.simps [of _ _ _ st])
    qed (simp add: tar_loop.simps)
  qed (simp add: tar_loop.simps)
qed

lemma tar_loop_ok:
  "tar_loop bytes roots l st = Some (Inr st') \<Longrightarrow> tar_ok bytes roots l st \<Longrightarrow> tar_ok bytes roots l st'"
proof (induction "length bytes - ts_offset st" arbitrary: st rule: less_induct)
  case less
  show ?case
  proof (cases "ts_offset st < length bytes")
    case True
    from less.prems(1) True obtain b st1 where turn: "tar_turn bytes roots l st = Inr (b, st1)"
      and rest: "if b then st' = st1 else tar_loop bytes roots l st1 = Some (Inr st')"
      by (subst (asm) tar_loop.simps) (auto split: sum.splits if_splits)
    from tar_turn_ok [OF turn less.prems(2)] True rest less.hyps [of st1] show ?thesis by (auto split: if_splits)
  qed (use less.prems in \<open>simp add: tar_loop.simps\<close>)
qed

lemma parse_tar_returns: "\<exists>r. parse_tar bytes roots l = Some r"
  using tar_loop_returns [of bytes roots l tar_start] by (auto simp: parse_tar_def)

lemma parse_tar_ok:
  assumes "parse_tar bytes roots l = Some (Inr files)"
  shows "snapshot_ok roots l files \<and> list_all (\<lambda>f. sublist (mf_bytes f) bytes) files"
proof -
  from assms obtain st where loop: "tar_loop bytes roots l tar_start = Some (Inr st)" and files: "files = sort_key mf_path (ts_files st)"
    by (auto simp: parse_tar_def tar_result_def result_simps split: if_splits)
  have "tar_ok bytes roots l tar_start" by (simp add: tar_ok_def tar_start_def collecting_start)
  from tar_loop_ok [OF loop this] show ?thesis
    by (auto simp: files tar_ok_def list_all_iff dest: collecting_sorted)
qed

section \<open>The bundle\<close>

text \<open>The bundle's hexadecimal is exactly the one \<open>digest.rs\<close> writes.\<close>

lemma bundle_hex_digit_Inr: "bundle_hex_digit a = Inr n \<longleftrightarrow> n < 16 \<and> a = hex_digit n"
proof
  assume "bundle_hex_digit a = Inr n"
  then consider "n < 10" "byte_code a = n + 48" | "10 \<le> n" "n < 16" "byte_code a = n + 87"
    by (auto simp: bundle_hex_digit_def less_eq_char_def split: if_splits)
  then have "n < 16 \<and> a = char_of (if n < 10 then n + 48 else n + 87)"
  proof cases
    case 1
    have "char_of (byte_code a) = (char_of (n + 48) :: char)" by (simp only: 1)
    with 1(1) show ?thesis by simp
  next
    case 2
    have "char_of (byte_code a) = (char_of (n + 87) :: char)" by (simp only: 2)
    with 2(1,2) show ?thesis by simp
  qed
  moreover have "list_all (\<lambda>n. char_of (if n < 10 then n + 48 else n + 87 :: nat) = hex_digit n) [0..<16]" by code_simp
  ultimately show "n < 16 \<and> a = hex_digit n" by (simp add: list_all_iff)
next
  assume n: "n < 16 \<and> a = hex_digit n"
  have "list_all (\<lambda>n. bundle_hex_digit (hex_digit n) = Inr n) [0..<16]" by code_simp
  with n show "bundle_hex_digit a = Inr n" by (simp add: list_all_iff)
qed

lemma joined_digits: "h < 16 \<Longrightarrow> k < 16 \<Longrightarrow> push_bit 4 h OR k = 16 * h + (k :: nat)"
proof -
  assume "h < 16" "k < 16"
  moreover have "list_all (\<lambda>h. list_all (\<lambda>k. push_bit 4 h OR k = 16 * h + (k :: nat)) [0..<16]) [0..<16]" by code_simp
  ultimately show ?thesis by (simp add: list_all_iff)
qed

lemma decode_pairs_Inr: "even (length v) \<Longrightarrow> decode_pairs v = Inr bs \<longleftrightarrow> v = hex_encode bs"
proof (induction v arbitrary: bs rule: decode_pairs.induct)
  case (1 a b r)
  have "decode_pairs (a # b # r) = Inr bs \<longleftrightarrow>
      (\<exists>h k rest. h < 16 \<and> a = hex_digit h \<and> k < 16 \<and> b = hex_digit k \<and> r = hex_encode rest \<and> bs = char_of (16 * h + k) # rest)"
    using 1(2) by (simp only: bindE_eq_Inr bundle_hex_digit_Inr 1(1) decode_pairs.simps sum.inject list.size even_Suc not_not
        add_0_right add_Suc_right) (metis joined_digits)
  also have "\<dots> \<longleftrightarrow> a # b # r = hex_encode bs"
  proof
    assume "a # b # r = hex_encode bs"
    then obtain c rest where bs: "bs = c # rest" and r: "r = hex_encode rest"
      and ab: "a = hex_digit (byte_code c div 16)" "b = hex_digit (byte_code c mod 16)" by (cases bs) auto
    have "byte_code c div 16 < 16" "c = char_of (16 * (byte_code c div 16) + byte_code c mod 16)"
      using byte_code_less [of c] by (simp_all add: less_mult_imp_div_less)
    with bs r ab show "\<exists>h k rest. h < 16 \<and> a = hex_digit h \<and> k < 16 \<and> b = hex_digit k \<and> r = hex_encode rest \<and> bs = char_of (16 * h + k) # rest"
      by (intro exI [of _ "byte_code c div 16"] exI [of _ "byte_code c mod 16"] exI [of _ rest]) simp
  qed (auto simp: of_char_of)
  finally show ?case .
next
  case "2_1"
  then show ?case by (cases bs) auto
next
  case "2_2"
  then show ?case by simp
qed

lemma decode_hex_Inr: "decode_hex v = Inr bs \<longleftrightarrow> v = hex_encode bs"
proof -
  have "list_all is_ascii (hex_encode bs)"
    using hex_encode_lower_hex [of bs] by (auto simp: list_all_iff is_lower_hex_is_ascii)
  then show ?thesis by (auto simp: decode_hex_def decode_pairs_Inr even_iff_mod_2_eq_zero)
qed

text \<open>The material of one entry, and what a bundle that is accepted must be.\<close>

definition entry_material :: "bundle_file \<Rightarrow> string \<Rightarrow> materialized_file" where
  "entry_material f content = \<lparr>mf_path = bf_path f, mf_bytes = content, mf_executable = bf_executable f\<rparr>"

lemma bundle_files_Inr:
  assumes "bundle_files E fs roots l seen files sofar = Inr out" and "collecting roots l seen sofar files"
  shows "\<exists>contents. list_all2 (\<lambda>f content. bf_content_hex f = hex_encode content \<and> bf_digest f = digest_string E content) fs contents
      \<and> out = files @ map (case_prod entry_material) (filter (\<lambda>(f, _). selected (bf_path f) roots) (zip fs contents))
      \<and> (\<exists>seen' sofar'. collecting roots l seen' sofar' out)"
  using assms
proof (induction E fs roots l seen files sofar rule: bundle_files.induct)
  case (2 E f fs roots l seen files sofar)
  from "2.prems"(1) obtain path seen' content where path: "normalize_path (bf_path f) (al_max_path_bytes l) = Inr path"
    and key: "insert_collision_key path seen = Inr seen'" and content: "decode_hex (bf_content_hex f) = Inr content"
    and digest: "digest_string E content = bf_digest f"
    and rest: "if selected path roots then bindE (add_quota files sofar (length content) l) (\<lambda>sofar.
           bundle_files E fs roots l seen'
             (files @ [\<lparr>mf_path = path, mf_bytes = content, mf_executable = bf_executable f\<rparr>]) sofar) = Inr out
         else bundle_files E fs roots l seen' files sofar = Inr out"
    by (auto simp: bindE_eq_Inr split: if_splits)
  have p: "path = bf_path f" using path by (simp add: normalize_path_Inr)
  have hex: "bf_content_hex f = hex_encode content" using content by (simp add: decode_hex_Inr)
  show ?case
  proof (cases "selected path roots")
    case True
    let ?f = "\<lparr>mf_path = path, mf_bytes = content, mf_executable = bf_executable f\<rparr>"
    from True rest obtain sofar' where quota: "add_quota files sofar (length content) l = Inr sofar'"
      and rest: "bundle_files E fs roots l seen' (files @ [?f]) sofar' = Inr out"
      by (auto simp: bindE_eq_Inr)
    note col = collecting_add [OF "2.prems"(2) path key True quota, of "bf_executable f"]
    from digest True have "\<not> digest_string E content \<noteq> bf_digest f" "\<not> \<not> selected path roots" by simp_all
    from "2.IH"(2) [OF this rest col]
    obtain contents where "list_all2 (\<lambda>f content. bf_content_hex f = hex_encode content \<and> bf_digest f = digest_string E content) fs contents"
      and "out = (files @ [?f]) @ map (case_prod entry_material) (filter (\<lambda>(f, _). selected (bf_path f) roots) (zip fs contents))"
      and col': "\<exists>seen' sofar'. collecting roots l seen' sofar' out" by blast
    with hex digest True show ?thesis by (intro exI [of _ "content # contents"] conjI col') (simp_all add: p entry_material_def)
  next
    case False
    with rest have rest: "bundle_files E fs roots l seen' files sofar = Inr out" by simp
    from digest False have "\<not> digest_string E content \<noteq> bf_digest f" "\<not> selected path roots" by simp_all
    from "2.IH"(1) [OF this rest collecting_skip [OF "2.prems"(2) key]]
    obtain contents where "list_all2 (\<lambda>f content. bf_content_hex f = hex_encode content \<and> bf_digest f = digest_string E content) fs contents"
      and "out = files @ map (case_prod entry_material) (filter (\<lambda>(f, _). selected (bf_path f) roots) (zip fs contents))"
      and col': "\<exists>seen' sofar'. collecting roots l seen' sofar' out" by blast
    with hex digest False show ?thesis by (intro exI [of _ "content # contents"] conjI col') (simp_all add: p)
  qed
qed auto

lemma collect_bundle_Inr:
  assumes "collect_bundle_bytes E document bytes roots l = Inr m"
  shows "\<exists>doc contents. document bytes = Some doc \<and> bd_version doc = BUNDLE_VERSION
     \<and> list_all2 (\<lambda>f content. bf_content_hex f = hex_encode content \<and> bf_digest f = digest_string E content) (bd_files doc) contents
     \<and> cm_files m = sort_key mf_path (map (case_prod entry_material)
         (filter (\<lambda>(f, _). selected (bf_path f) roots) (zip (bd_files doc) contents)))
     \<and> snapshot_ok roots l (cm_files m) \<and> cm_files m \<noteq> []"
proof -
  from assms obtain doc files where doc: "document bytes = Some doc" "bd_version doc = BUNDLE_VERSION"
    and files: "bundle_files E (bd_files doc) roots l {} [] 0 = Inr files" "files \<noteq> []"
    and m: "cm_files m = sort_key mf_path files"
    unfolding collect_bundle_bytes_def bindE_eq_Inr if_split_eq_Inr Let_def
    by (auto simp: collected_material_new_def ok_or_eq_Inr)
  from bundle_files_Inr [OF files(1) collecting_start] obtain contents seen' sofar' where
    "list_all2 (\<lambda>f content. bf_content_hex f = hex_encode content \<and> bf_digest f = digest_string E content) (bd_files doc) contents"
    and out: "files = map (case_prod entry_material) (filter (\<lambda>(f, _). selected (bf_path f) roots) (zip (bd_files doc) contents))"
    and col: "collecting roots l seen' sofar' files" by auto
  moreover have "sort_key mf_path files \<noteq> []" using files(2) by (metis length_0_conv length_sort)
  ultimately show ?thesis using doc m collecting_sorted [OF col]
    by (intro exI [of _ doc] exI [of _ contents]) (simp flip: out)
qed

end
