(* ===== verification/Source_Snapshot.thy ===== *)
theory Source_Snapshot
  imports Source_Archive Byte_Order
begin

text \<open>
  \<open>promptectomy-acquisition/src/snapshot.rs\<close> and the file readers of \<open>lib.rs\<close>: scanning a local
  directory, the digest of a tree, the identity of a snapshot and what an existing snapshot is checked
  for. The file system answers every call on its own, so a file is the sequence of observations that
  the reader makes of it, and they need not agree.
\<close>

unbundle bit_operations_syntax

section \<open>Scanning a directory\<close>

text \<open>An entry of a directory as the scan meets it; its children are what \<open>read_dir\<close> lists when the scan
  gets there (\<open>None\<close> if it fails).\<close>

datatype fs_entry = FsEntry
  (fe_name: string) (fe_metadata: "file_metadata option") (fe_reading: file_reading) (fe_children: "fs_entry list option")

type_synonym fs_directory = "string \<times> fs_entry list option"

record scan_state =
  sc_pending :: "fs_directory list"
  sc_files :: "materialized_file list"
  sc_seen :: "string set"
  sc_total :: nat

definition relative_join :: "string \<Rightarrow> string \<Rightarrow> string" where
  "relative_join relative name = (if relative = [] then name else relative @ ''/'' @ name)"

definition is_executable :: "file_metadata \<Rightarrow> bool" where
  "is_executable m \<longleftrightarrow> fm_mode m AND 73 \<noteq> 0"

definition scan_file :: "string \<Rightarrow> fs_entry \<Rightarrow> file_metadata \<Rightarrow> string list \<Rightarrow> acquisition_limits \<Rightarrow> scan_state \<Rightarrow> acquisition_error + scan_state" where
  "scan_file next_relative e metadata roots l st =
     bindE (normalize_filesystem_relative next_relative (al_max_path_bytes l)) (\<lambda>path.
       if \<not> selected path roots then Inr st
       else
         bindE (insert_collision_key path (sc_seen st)) (\<lambda>seen.
         bindE (add_quota (sc_files st) (sc_total st) (fm_len metadata) l) (\<lambda>sofar.
         bindE (read_regular_once (fe_reading e) (al_max_file_bytes l) FileBytesExceeded) (\<lambda>r.
           Inr (st\<lparr>sc_seen := seen, sc_total := sofar,
             sc_files := sc_files st @
               [\<lparr>mf_path = path, mf_bytes = fst r, mf_executable = is_executable (snd r)\<rparr>]\<rparr>)))))"

definition scan_entry :: "string \<Rightarrow> fs_entry \<Rightarrow> string list \<Rightarrow> acquisition_limits \<Rightarrow> scan_state \<Rightarrow> acquisition_error + scan_state" where
  "scan_entry relative e roots l st =
     (let next_relative = relative_join relative (fe_name e) in
      if \<not> utf8_valid next_relative then Inl UnsafePath
      else if relative = [] \<and> eq_ignore_ascii_case next_relative ''.git'' then Inr st
      else
        bindE (ok_or SourceChanged (fe_metadata e)) (\<lambda>metadata.
          if fm_kind metadata = SymlinkNode then Inl UnsupportedFileType
          else if fm_kind metadata = DirectoryNode then
            bindE (normalize_filesystem_relative next_relative (al_max_path_bytes l)) (\<lambda>path.
              if may_contain_selected path roots
              then Inr (st\<lparr>sc_pending := (next_relative, fe_children e) # sc_pending st\<rparr>)
              else Inr st)
          else if fm_kind metadata \<noteq> RegularFile then Inl UnsupportedFileType
          else scan_file next_relative e metadata roots l st))"

fun scan_entries :: "string \<Rightarrow> fs_entry list \<Rightarrow> string list \<Rightarrow> acquisition_limits \<Rightarrow> scan_state \<Rightarrow> acquisition_error + scan_state" where
  "scan_entries relative [] roots l st = Inr st"
| "scan_entries relative (e # es) roots l st =
     bindE (scan_entry relative e roots l st) (\<lambda>st. scan_entries relative es roots l st)"

text \<open>The stack of directories is a list with its top in front; one turn takes the top one.\<close>

definition scan_turn :: "string list \<Rightarrow> acquisition_limits \<Rightarrow> fs_directory \<Rightarrow> scan_state \<Rightarrow> acquisition_error + scan_state" where
  "scan_turn roots l d st =
     bindE (ok_or InvalidSourcePath (snd d)) (\<lambda>entries.
       scan_entries (fst d) (rev (sort_key fe_name entries)) roots l st)"

text \<open>How much is left to visit: every directory counts for itself and what is below it.\<close>

fun entry_weight :: "fs_entry \<Rightarrow> nat" where
  "entry_weight (FsEntry n m r None) = 1"
| "entry_weight (FsEntry n m r (Some es)) = 1 + sum_list (map entry_weight es)"

definition directory_weight :: "fs_directory \<Rightarrow> nat" where
  "directory_weight d = (case snd d of None \<Rightarrow> 1 | Some es \<Rightarrow> 1 + sum_list (map entry_weight es))"

definition pending_weight :: "scan_state \<Rightarrow> nat" where
  "pending_weight st = sum_list (map directory_weight (sc_pending st))"

lemma entry_weight_children: "entry_weight e = directory_weight (p, fe_children e)"
  by (cases e rule: entry_weight.cases) (simp_all add: directory_weight_def)

lemma scan_entry_weight:
  assumes "scan_entry relative e roots l st = Inr st'"
  shows "pending_weight st' \<le> pending_weight st + entry_weight e"
  using assms unfolding scan_entry_def scan_file_def Let_def bindE_eq_Inr
  by (auto simp: pending_weight_def bindE_eq_Inr simp flip: entry_weight_children split: if_splits)

lemma scan_entries_weight:
  "scan_entries relative es roots l st = Inr st' \<Longrightarrow> pending_weight st' \<le> pending_weight st + sum_list (map entry_weight es)"
  by (induction relative es roots l st rule: scan_entries.induct) (fastforce simp: bindE_eq_Inr dest: scan_entry_weight)+

lemma scan_turn_weight:
  assumes "scan_turn roots l d (st\<lparr>sc_pending := ds\<rparr>) = Inr st'" and "sc_pending st = d # ds"
  shows "pending_weight st' < pending_weight st"
proof -
  from assms(1) obtain es where es: "snd d = Some es"
    and scan: "scan_entries (fst d) (rev (sort_key fe_name es)) roots l (st\<lparr>sc_pending := ds\<rparr>) = Inr st'"
    by (auto simp: scan_turn_def bindE_eq_Inr ok_or_eq_Inr)
  have "sum_list (map entry_weight (rev (sort_key fe_name es))) = sum_list (map entry_weight es)"
    by (metis mset_map mset_rev mset_sort sum_mset_sum_list)
  with scan_entries_weight [OF scan] assms(2) es show ?thesis
    by (simp add: pending_weight_def directory_weight_def)
qed

function scan_pending :: "string list \<Rightarrow> acquisition_limits \<Rightarrow> scan_state \<Rightarrow> acquisition_error + scan_state" where
  "scan_pending roots l st =
     (case sc_pending st of
        [] \<Rightarrow> Inr st
      | d # ds \<Rightarrow>
          (case scan_turn roots l d (st\<lparr>sc_pending := ds\<rparr>) of
             Inl e \<Rightarrow> Inl e
           | Inr st' \<Rightarrow> scan_pending roots l st'))"
  by pat_completeness auto
termination
  by (relation "measure (\<lambda>(_, _, st). pending_weight st)") (auto dest: scan_turn_weight)

declare scan_pending.simps [simp del]

definition scan_local :: "fs_entry list option \<Rightarrow> string list \<Rightarrow> acquisition_limits \<Rightarrow> acquisition_error + materialized_file list" where
  "scan_local source roots l =
     bindE (scan_pending roots l \<lparr>sc_pending = [([], source)], sc_files = [], sc_seen = {}, sc_total = 0\<rparr>) (\<lambda>st.
       Inr (sort_key mf_path (sc_files st)))"

section \<open>The digest of a tree\<close>

text \<open>What is hashed of a file: its path, whether it is executable, its length and its SHA-256.\<close>

definition file_head :: "env \<Rightarrow> materialized_file \<Rightarrow> string \<times> bool \<times> nat \<times> string" where
  "file_head E f = (mf_path f, mf_executable f, length (mf_bytes f), sha256 E (mf_bytes f))"

definition head_bytes :: "string \<times> bool \<times> nat \<times> string \<Rightarrow> string" where
  "head_bytes = (\<lambda>(path, x, n, digest).
     be_bytes 8 (length path) @ path @ [if x then CHR 0x01 else CHR 0x00] @ be_bytes 8 n @ digest)"

definition tree_preimage :: "env \<Rightarrow> materialized_file list \<Rightarrow> string" where
  "tree_preimage E files = concat (map (head_bytes \<circ> file_head E) files)"

definition tree_digest :: "env \<Rightarrow> materialized_file list \<Rightarrow> string" where
  "tree_digest E files =
     ''sha256:'' @ hex_encode (sha256 E (tree_preimage E files))"

section \<open>Collecting a local directory\<close>

text \<open>\<open>Path::starts_with\<close> compares components.\<close>

definition path_starts_with :: "string \<Rightarrow> string \<Rightarrow> bool" where
  "path_starts_with p base \<longleftrightarrow> prefix (path_components base) (path_components p)"

text \<open>The source directory: its metadata, the canonical paths of it and of the storage root, and what
  either of the two scans finds.\<close>

record local_directory =
  ld_metadata :: "file_metadata option"
  ld_canonical :: "string option"
  ld_storage_canonical :: "string option"
  ld_first :: "fs_entry list option"
  ld_second :: "fs_entry list option"

definition collect_local :: "env \<Rightarrow> local_directory \<Rightarrow> string list \<Rightarrow> acquisition_limits \<Rightarrow> acquisition_error + collected_material" where
  "collect_local E d roots l =
     bindE (ok_or InvalidSourcePath (ld_metadata d)) (\<lambda>m.
       if fm_kind m \<noteq> DirectoryNode then Inl InvalidSourcePath
       else
         bindE (ok_or InvalidSourcePath (ld_canonical d)) (\<lambda>source.
         bindE (ok_or UnsafeStorageRoot (ld_storage_canonical d)) (\<lambda>storage.
           if path_starts_with source storage \<or> path_starts_with storage source then Inl InvalidSourcePath
           else
             bindE (scan_local (ld_first d) roots l) (\<lambda>first.
               if first = [] then Inl EmptySelection
               else
                 bindE (scan_local (ld_second d) roots l) (\<lambda>second.
                   let digest = tree_digest E second in
                   if digest \<noteq> tree_digest E first then Inl SourceChanged
                   else
                     let mat = collected_material_new second ''local://<redacted>'' digest digest in
                     Inr (mat\<lparr>cm_path_exclusions := cm_path_exclusions mat @ [''root_git_metadata'']\<rparr>))))))"

section \<open>The identity of a snapshot\<close>

definition ACQUISITION_PROTOCOL_VERSION :: string where "ACQUISITION_PROTOCOL_VERSION = ''phase4-acquisition-1''"

record snapshot_receipt =
  sr_policy_version :: string
  sr_source_kind :: source_kind
  sr_redacted_locator :: string
  sr_source_digest :: string
  sr_immutable_revision :: string
  sr_authority_digest :: string
  sr_selected_roots :: "string list"
  sr_local_dirty_policy :: "local_dirty_policy option"
  sr_submodule_state :: string
  sr_lfs_state :: string
  sr_path_exclusions :: "string list"
  sr_file_count :: nat
  sr_total_bytes :: nat
  sr_tree_digest :: string
  sr_tool_version :: string
  sr_git_version :: "string option"
  sr_remote_manifest_digest :: "string option"
  sr_remote_attestation_digest :: "string option"

record snapshot_reference =
  sn_snapshot_id :: string
  sn_repository_id :: string
  sn_redacted_locator :: string
  sn_revision :: string
  sn_manifest_artifact_id :: string

record acquired_snapshot =
  aq_reference :: snapshot_reference
  aq_receipt :: snapshot_receipt
  aq_snapshot_root :: string
  aq_remote_manifest :: "remote_manifest option"
  aq_remote_attestation :: "remote_attestation option"

text \<open>The encoders outside the crate: \<open>serde_json\<close> for the receipt, \<open>serde_jcs\<close> for manifest and attestation,
  and the version the build puts in.\<close>

record publish_env =
  px_remote :: remote_env
  px_receipt_json :: "snapshot_receipt \<Rightarrow> string option"
  px_manifest_jcs :: "remote_manifest \<Rightarrow> string option"
  px_attestation_jcs :: "remote_attestation \<Rightarrow> string option"
  px_attestation_bytes :: "remote_attestation \<Rightarrow> string"
  px_version :: string

abbreviation px_env :: "publish_env \<Rightarrow> env" where "px_env P \<equiv> rx_env (px_remote P)"

fun checked_total :: "nat \<Rightarrow> materialized_file list \<Rightarrow> nat option" where
  "checked_total n [] = Some n"
| "checked_total n (f # fs) =
     (if n + length (mf_bytes f) < 2 ^ 64 then checked_total (n + length (mf_bytes f)) fs else None)"

definition snapshot_receipt_of :: "publish_env \<Rightarrow> acquisition_request \<Rightarrow> string list \<Rightarrow> collected_material \<Rightarrow> string \<Rightarrow> nat \<Rightarrow> snapshot_receipt" where
  "snapshot_receipt_of P r roots m digest sofar =
     \<lparr>sr_policy_version = ACQUISITION_PROTOCOL_VERSION, sr_source_kind = kind_of_source (ar_source r),
      sr_redacted_locator = cm_redacted_locator m, sr_source_digest = cm_source_digest m,
      sr_immutable_revision = cm_revision m, sr_authority_digest = ar_authority_digest r,
      sr_selected_roots = roots,
      sr_local_dirty_policy = (case ar_source r of Local _ policy \<Rightarrow> Some policy | _ \<Rightarrow> None),
      sr_submodule_state = ''present_not_initialized:'' @ decimal (cm_submodule_count m),
      sr_lfs_state = ''pointers_not_fetched:'' @ decimal (cm_lfs_pointer_count m),
      sr_path_exclusions = cm_path_exclusions m, sr_file_count = length (cm_files m),
      sr_total_bytes = sofar, sr_tree_digest = digest, sr_tool_version = px_version P,
      sr_git_version = cm_git_version m,
      sr_remote_manifest_digest = map_option rm_manifest_digest (cm_remote_manifest m),
      sr_remote_attestation_digest = map_option (\<lambda>a.
        digest_string (px_env P) (''remote-git-attestation'' @ CHR 0x00 # px_attestation_bytes P a)) (cm_remote_attestation m)\<rparr>"

definition snapshot_identity :: "publish_env \<Rightarrow> acquisition_request \<Rightarrow> string list \<Rightarrow> collected_material \<Rightarrow> string
    \<Rightarrow> acquisition_error + snapshot_receipt \<times> snapshot_reference \<times> string \<times> string" where
  "snapshot_identity P r roots m digest =
     bindE (ok_or TotalBytesExceeded (checked_total 0 (cm_files m))) (\<lambda>sofar.
       let receipt = snapshot_receipt_of P r roots m digest sofar in
       bindE (ok_or SnapshotPublishFailed (px_receipt_json P receipt)) (\<lambda>receipt_bytes.
         let receipt_digest = digest_string (px_env P) receipt_bytes;
             receipt_hex = drop 7 receipt_digest;
             seed = sr_redacted_locator receipt @ CHR 0x00 # sr_source_digest receipt;
             reference = \<lparr>sn_snapshot_id = ''snapshot_'' @ receipt_hex,
               sn_repository_id = ''repo_'' @ hex_encode (sha256 (px_env P) seed),
               sn_redacted_locator = sr_redacted_locator receipt, sn_revision = cm_revision m,
               sn_manifest_artifact_id = receipt_digest\<rparr> in
         Inr (receipt, reference, receipt_bytes, receipt_hex)))"

section \<open>Publishing\<close>

text \<open>What is found at the place of a snapshot: the directory, the files beside its tree (\<open>None\<close> inside
  when one exists but cannot be read), and the tree.\<close>

record existing_snapshot =
  ex_metadata :: "file_metadata option"
  ex_file :: "string \<Rightarrow> string option option"
  ex_tree :: "fs_entry list option"

definition existing_bytes :: "existing_snapshot \<Rightarrow> string \<Rightarrow> acquisition_error + string" where
  "existing_bytes x name =
     ok_or SnapshotIntegrityFailed (case ex_file x name of None \<Rightarrow> None | Some content \<Rightarrow> content)"

definition verify_optional_artifact :: "existing_snapshot \<Rightarrow> string \<Rightarrow> string option \<Rightarrow> acquisition_error + unit" where
  "verify_optional_artifact x name expected =
     (case expected of
        Some bytes \<Rightarrow>
          bindE (existing_bytes x name) (\<lambda>actual.
            if actual \<noteq> bytes then Inl SnapshotIntegrityFailed else Inr ())
      | None \<Rightarrow> if ex_file x name \<noteq> None then Inl SnapshotIntegrityFailed else Inr ())"

definition scan_local_tree :: "fs_entry list option \<Rightarrow> acquisition_limits \<Rightarrow> acquisition_error + materialized_file list" where
  "scan_local_tree tree l = map_err (\<lambda>_. SnapshotIntegrityFailed) (scan_local tree [] l)"

definition verification_limits :: acquisition_limits where
  "verification_limits = \<lparr>al_max_files = 1000000, al_max_total_bytes = (2 ^ 64 - 1) div 2,
     al_max_file_bytes = (2 ^ 64 - 1) div 2, al_max_path_bytes = 4096,
     al_max_archive_bytes = (2 ^ 64 - 1) div 2, al_max_remote_work_bytes = (2 ^ 64 - 1) div 2,
     al_max_git_output_bytes = (2 ^ 64 - 1) div 2, al_max_git_seconds = (2 ^ 64 - 1) div 2\<rparr>"

definition verify_existing :: "env \<Rightarrow> existing_snapshot \<Rightarrow> string \<Rightarrow> string \<Rightarrow> string option \<Rightarrow> string option \<Rightarrow> acquisition_error + unit" where
  "verify_existing E x receipt digest manifest attestation =
     bindE (ok_or SnapshotIntegrityFailed (ex_metadata x)) (\<lambda>m.
       if fm_kind m \<noteq> DirectoryNode then Inl SnapshotIntegrityFailed
       else
         bindE (existing_bytes x ''receipt.json'') (\<lambda>actual.
           if actual \<noteq> receipt then Inl SnapshotIntegrityFailed
           else
             bindE (verify_optional_artifact x ''remote-manifest.json'' manifest) (\<lambda>_.
             bindE (verify_optional_artifact x ''remote-attestation.json'' attestation) (\<lambda>_.
             bindE (scan_local_tree (ex_tree x) verification_limits) (\<lambda>files.
               if tree_digest E files \<noteq> digest then Inl SnapshotIntegrityFailed else Inr ())))))"

text \<open>
  The file system during a publication: what already stands at a name, whether everything is
  written to the staging directory, whether it can be renamed and then made read-only, and what stands
  at the name when it cannot be renamed.
\<close>

record publish_io =
  io_existing :: "string \<Rightarrow> existing_snapshot option"
  io_written :: bool
  io_renamed :: bool
  io_sealed :: bool
  io_raced :: "string \<Rightarrow> existing_snapshot option"

text \<open>The directory that a publication leaves at its name.\<close>

record published_snapshot =
  pb_name :: string
  pb_receipt :: string
  pb_manifest :: "string option"
  pb_attestation :: "string option"
  pb_files :: "materialized_file list"

definition optional_bytes :: "('a \<Rightarrow> string option) \<Rightarrow> 'a option \<Rightarrow> acquisition_error + string option" where
  "optional_bytes f x =
     (case x of None \<Rightarrow> Inr None | Some v \<Rightarrow> bindE (ok_or SnapshotPublishFailed (f v)) (\<lambda>b. Inr (Some b)))"

definition place_snapshot :: "env \<Rightarrow> publish_io \<Rightarrow> acquired_snapshot \<Rightarrow> published_snapshot \<Rightarrow> string
    \<Rightarrow> (acquisition_error + acquired_snapshot) \<times> published_snapshot option" where
  "place_snapshot E io a p digest =
     (case io_existing io (pb_name p) of
        Some x \<Rightarrow>
          attempt None (verify_existing E x (pb_receipt p) digest (pb_manifest p) (pb_attestation p)) (\<lambda>_. (Inr a, None))
      | None \<Rightarrow>
          if \<not> io_written io then (Inl SnapshotPublishFailed, None)
          else if io_renamed io then (if io_sealed io then Inr a else Inl SnapshotPublishFailed, Some p)
          else
            (case io_raced io (pb_name p) of
               Some x \<Rightarrow>
                 attempt None (verify_existing E x (pb_receipt p) digest (pb_manifest p) (pb_attestation p)) (\<lambda>_. (Inr a, None))
             | None \<Rightarrow> (Inl SnapshotPublishFailed, None)))"

definition publish :: "publish_env \<Rightarrow> publish_io \<Rightarrow> acquisition_request \<Rightarrow> string list \<Rightarrow> collected_material
    \<Rightarrow> (acquisition_error + acquired_snapshot) \<times> published_snapshot option" where
  "publish P io r roots material =
     (let m = material\<lparr>cm_files := sort_key mf_path (cm_files material)\<rparr> in
      if cm_files m = [] then (Inl EmptySelection, None)
      else
        let digest = tree_digest (px_env P) (cm_files m) in
        attempt None (optional_bytes (px_manifest_jcs P) (cm_remote_manifest m)) (\<lambda>manifest.
        attempt None (optional_bytes (px_attestation_jcs P) (cm_remote_attestation m)) (\<lambda>attestation.
        attempt None (snapshot_identity P r roots m digest) (\<lambda>(receipt, reference, receipt_bytes, hex).
          place_snapshot (px_env P) io
            \<lparr>aq_reference = reference, aq_receipt = receipt, aq_snapshot_root = hex,
             aq_remote_manifest = cm_remote_manifest m, aq_remote_attestation = cm_remote_attestation m\<rparr>
            \<lparr>pb_name = hex, pb_receipt = receipt_bytes, pb_manifest = manifest, pb_attestation = attestation,
             pb_files = cm_files m\<rparr>
            digest))))"

section \<open>What a scan guarantees\<close>

lemma read_regular_once_Inr:
  assumes "read_regular_once r limit e = Inr (bytes, m)"
  shows "length bytes \<le> limit \<and> (\<exists>b. fr_before r = Some b \<and> fm_len b = length bytes)"
  using assms unfolding read_regular_once_def Let_def
  by (auto simp: bindE_eq_Inr ok_or_eq_Inr same_file_def simp del: length_take split: if_splits)

text \<open>The length by which a file is charged is the length it has when it is read.\<close>

definition entry_steady :: "fs_entry \<Rightarrow> bool" where
  "entry_steady e \<longleftrightarrow> (case (fe_metadata e, fr_before (fe_reading e)) of
     (Some m, Some b) \<Rightarrow> fm_len m = fm_len b | _ \<Rightarrow> True)"

fun tree_steady :: "fs_entry \<Rightarrow> bool" where
  "tree_steady (FsEntry n m r None) \<longleftrightarrow> entry_steady (FsEntry n m r None)"
| "tree_steady (FsEntry n m r (Some es)) \<longleftrightarrow> entry_steady (FsEntry n m r (Some es)) \<and> list_all tree_steady es"

definition directory_steady :: "fs_entry list option \<Rightarrow> bool" where
  "directory_steady d = (case d of None \<Rightarrow> True | Some es \<Rightarrow> list_all tree_steady es)"

lemma tree_steady_entry: "tree_steady e \<longleftrightarrow> entry_steady e \<and> directory_steady (fe_children e)"
  by (cases e rule: tree_steady.cases) (simp_all add: directory_steady_def)

text \<open>The invariant of the scan; \<open>b\<close> says that the tree is steady.\<close>

definition scanned :: "bool \<Rightarrow> string list \<Rightarrow> acquisition_limits \<Rightarrow> scan_state \<Rightarrow> bool" where
  "scanned b roots l st \<longleftrightarrow> paths_ok roots l (sc_files st) \<and> length (sc_files st) \<le> al_max_files l
     \<and> list_all (\<lambda>f. length (mf_bytes f) \<le> al_max_file_bytes l) (sc_files st)
     \<and> list_all (\<lambda>f. to_ascii_lowercase (mf_path f) \<in> sc_seen st) (sc_files st)
     \<and> (b \<longrightarrow> sc_total st = sum_list (map (length \<circ> mf_bytes) (sc_files st)) \<and> sc_total st \<le> al_max_total_bytes l
         \<and> list_all (\<lambda>d. directory_steady (snd d)) (sc_pending st))"

lemma normalize_filesystem_relative_Inr:
  "normalize_filesystem_relative p mx = Inr q \<Longrightarrow> safe_path q \<and> length q \<le> mx"
  by (auto simp: normalize_filesystem_relative_def bindE_eq_Inr normalize_path_Inr)

lemma scan_file_scanned:
  assumes "scan_file nr e m roots l st = Inr st'" and "scanned b roots l st" and "fe_metadata e = Some m" and "b \<longrightarrow> entry_steady e"
  shows "scanned b roots l st'"
proof -
  from assms(1) obtain path where path: "safe_path path" "length path \<le> al_max_path_bytes l"
    and rest: "if \<not> selected path roots then st' = st
      else \<exists>seen sofar r. insert_collision_key path (sc_seen st) = Inr seen
        \<and> add_quota (sc_files st) (sc_total st) (fm_len m) l = Inr sofar
        \<and> read_regular_once (fe_reading e) (al_max_file_bytes l) FileBytesExceeded = Inr r
        \<and> st' = st\<lparr>sc_seen := seen, sc_total := sofar, sc_files := sc_files st @
            [\<lparr>mf_path = path, mf_bytes = fst r, mf_executable = is_executable (snd r)\<rparr>]\<rparr>"
  proof -
    from assms(1) obtain path where path: "normalize_filesystem_relative nr (al_max_path_bytes l) = Inr path"
      and body: "(if \<not> selected path roots then Inr st
        else bindE (insert_collision_key path (sc_seen st)) (\<lambda>seen.
          bindE (add_quota (sc_files st) (sc_total st) (fm_len m) l) (\<lambda>sofar.
          bindE (read_regular_once (fe_reading e) (al_max_file_bytes l) FileBytesExceeded) (\<lambda>r.
            Inr (st\<lparr>sc_seen := seen, sc_total := sofar, sc_files := sc_files st @
              [\<lparr>mf_path = path, mf_bytes = fst r, mf_executable = is_executable (snd r)\<rparr>]\<rparr>))))) = Inr st'"
      unfolding scan_file_def bindE_eq_Inr by blast
    show thesis
    proof (rule that [of path])
      show "safe_path path" "length path \<le> al_max_path_bytes l"
        using normalize_filesystem_relative_Inr [OF path] by simp_all
      show "if \<not> selected path roots then st' = st
      else \<exists>seen sofar r. insert_collision_key path (sc_seen st) = Inr seen
        \<and> add_quota (sc_files st) (sc_total st) (fm_len m) l = Inr sofar
        \<and> read_regular_once (fe_reading e) (al_max_file_bytes l) FileBytesExceeded = Inr r
        \<and> st' = st\<lparr>sc_seen := seen, sc_total := sofar, sc_files := sc_files st @
            [\<lparr>mf_path = path, mf_bytes = fst r, mf_executable = is_executable (snd r)\<rparr>]\<rparr>"
      proof (cases "selected path roots")
        case True
        with body show ?thesis by (simp add: bindE_eq_Inr) blast
      qed (use body in simp)
    qed
  qed
  show ?thesis
  proof (cases "selected path roots")
    case True
    with rest obtain seen sofar bytes m' where new: "insert_collision_key path (sc_seen st) = Inr seen"
        "add_quota (sc_files st) (sc_total st) (fm_len m) l = Inr sofar"
        "read_regular_once (fe_reading e) (al_max_file_bytes l) FileBytesExceeded = Inr (bytes, m')"
        "st' = st\<lparr>sc_seen := seen, sc_total := sofar, sc_files := sc_files st @
            [\<lparr>mf_path = path, mf_bytes = bytes, mf_executable = is_executable m'\<rparr>]\<rparr>" by fastforce
    from read_regular_once_Inr [OF new(3)] assms(3,4) have "length bytes \<le> al_max_file_bytes l" "b \<longrightarrow> fm_len m = length bytes"
      by (auto simp: entry_steady_def)
    with assms(2) new path True show ?thesis
      by (auto simp: scanned_def paths_ok_def list_all_iff insert_collision_key_Inr add_quota_Inr)
  qed (use rest assms(2) in simp)
qed

lemma scan_entry_scanned:
  assumes "scan_entry relative e roots l st = Inr st'" and "scanned b roots l st" and "b \<longrightarrow> tree_steady e"
  shows "scanned b roots l st'"
proof -
  from assms(1) consider "st' = st" | path where "st' = st\<lparr>sc_pending := (path, fe_children e) # sc_pending st\<rparr>"
    | nr m where "fe_metadata e = Some m" "scan_file nr e m roots l st = Inr st'"
    unfolding scan_entry_def Let_def
    by (auto simp: bindE_eq_Inr ok_or_eq_Inr split: if_splits)
  then show ?thesis
  proof cases
    case 2
    with assms(2,3) show ?thesis by (auto simp: scanned_def tree_steady_entry)
  next
    case 3
    with assms(2,3) scan_file_scanned show ?thesis by (metis tree_steady_entry)
  qed (use assms(2) in simp)
qed

lemma scan_entries_scanned:
  "scan_entries relative es roots l st = Inr st' \<Longrightarrow> scanned b roots l st \<Longrightarrow> b \<longrightarrow> list_all tree_steady es \<Longrightarrow> scanned b roots l st'"
proof (induction es arbitrary: st)
  case (Cons e es)
  then show ?case by (auto simp: bindE_eq_Inr dest: scan_entry_scanned)
qed simp

lemma scan_pending_scanned:
  "scan_pending roots l st = Inr st' \<Longrightarrow> scanned b roots l st \<Longrightarrow> scanned b roots l st'"
proof (induction roots l st rule: scan_pending.induct)
  case (1 roots l st)
  show ?case
  proof (cases "sc_pending st")
    case Nil
    with "1.prems" show ?thesis by (simp add: scan_pending.simps)
  next
    case (Cons d ds)
    with "1.prems"(1) obtain st1 where turn: "scan_turn roots l d (st\<lparr>sc_pending := ds\<rparr>) = Inr st1"
      and rest: "scan_pending roots l st1 = Inr st'"
      by (subst (asm) scan_pending.simps) (auto split: sum.splits)
    from turn obtain es where es: "snd d = Some es"
      and scan: "scan_entries (fst d) (rev (sort_key fe_name es)) roots l (st\<lparr>sc_pending := ds\<rparr>) = Inr st1"
      by (auto simp: scan_turn_def bindE_eq_Inr ok_or_eq_Inr)
    have "scanned b roots l (st\<lparr>sc_pending := ds\<rparr>)" and "b \<longrightarrow> list_all tree_steady (rev (sort_key fe_name es))"
      using "1.prems"(2) Cons es by (auto simp: scanned_def directory_steady_def list_all_iff)
    with scan_entries_scanned [OF scan] have "scanned b roots l st1" by blast
    with "1.IH" [OF Cons turn rest] show ?thesis .
  qed
qed

lemma paths_ok_sorted: "paths_ok roots l (sort_key mf_path files) \<longleftrightarrow> paths_ok roots l files"
proof -
  have "mset (map (to_ascii_lowercase \<circ> mf_path) (sort_key mf_path files)) = mset (map (to_ascii_lowercase \<circ> mf_path) files)"
    by simp
  then have "distinct (map (to_ascii_lowercase \<circ> mf_path) (sort_key mf_path files)) = distinct (map (to_ascii_lowercase \<circ> mf_path) files)"
    by (metis mset_eq_imp_distinct_iff)
  then show ?thesis by (simp add: paths_ok_def list_all_iff)
qed

lemma sum_sorted: "sum_list (map (length \<circ> mf_bytes) (sort_key mf_path files)) = sum_list (map (length \<circ> mf_bytes) files)"
  by (metis sum_mset_sum_list mset_map mset_sort)

lemma scan_local_Inr:
  assumes "scan_local source roots l = Inr files"
  shows "sorted (map mf_path files) \<and> paths_ok roots l files \<and> length files \<le> al_max_files l
     \<and> list_all (\<lambda>f. length (mf_bytes f) \<le> al_max_file_bytes l) files
     \<and> (directory_steady source \<longrightarrow> within_quotas l files)"
proof -
  from assms obtain st where scan: "scan_pending roots l \<lparr>sc_pending = [([], source)], sc_files = [], sc_seen = {}, sc_total = 0\<rparr> = Inr st"
    and files: "files = sort_key mf_path (sc_files st)" by (auto simp: scan_local_def bindE_eq_Inr)
  have start: "scanned (directory_steady source) roots l \<lparr>sc_pending = [([], source)], sc_files = [], sc_seen = {}, sc_total = 0\<rparr>"
    by (simp add: scanned_def paths_ok_def)
  from scan_pending_scanned [OF scan start] show ?thesis
    by (auto simp: files scanned_def paths_ok_sorted within_quotas_def sum_sorted list_all_iff)
qed

section \<open>What a tree digest fixes\<close>

definition head_fits :: "string \<times> bool \<times> nat \<times> string \<Rightarrow> bool" where
  "head_fits = (\<lambda>(path, x, n, digest). length path < 2 ^ 64 \<and> n < 2 ^ 64 \<and> length digest = 32)"

interpretation heads: prefix_code head_bytes head_fits
proof
  fix a b r s assume fits: "head_fits a" "head_fits b" and eq: "head_bytes a @ r = head_bytes b @ s"
  obtain p x n d where a: "a = (p, x, n, d)" by (cases a) auto
  obtain q y m e where b: "b = (q, y, m, e)" by (cases b) auto
  from eq have 1: "be_bytes 8 (length p) = be_bytes 8 (length q)"
    and rest: "p @ (if x then CHR 0x01 else CHR 0x00) # be_bytes 8 n @ d @ r = q @ (if y then CHR 0x01 else CHR 0x00) # be_bytes 8 m @ e @ s"
    by (simp_all add: a b head_bytes_def append_eq_append_conv)
  from be_bytes_inj [OF 1] fits have "length p = length q" by (simp add: a b head_fits_def)
  with rest have pq: "p = q" and 2: "(if x then CHR 0x01 else CHR 0x00) = (if y then CHR 0x01 else CHR 0x00)"
    and rest: "be_bytes 8 n @ d @ r = be_bytes 8 m @ e @ s" by simp_all
  from rest have 3: "be_bytes 8 n = be_bytes 8 m" and rest: "d @ r = e @ s" by (simp_all add: append_eq_append_conv)
  from be_bytes_inj [OF 3] fits have nm: "n = m" by (simp add: a b head_fits_def)
  from rest fits have "d = e" "r = s" by (simp_all add: a b head_fits_def append_eq_append_conv)
  with pq 2 nm show "a = b \<and> r = s" by (simp add: a b split: if_splits)
qed (auto simp: head_bytes_def)

text \<open>SHA-256 tells apart what is hashed of two trees: the trees themselves and the contents of their files.\<close>

definition collision_free :: "env \<Rightarrow> materialized_file list \<Rightarrow> materialized_file list \<Rightarrow> bool" where
  "collision_free E fs gs \<longleftrightarrow>
     inj_on (sha256 E) ({tree_preimage E fs, tree_preimage E gs} \<union> mf_bytes ` set (fs @ gs))"

definition lengths_fit :: "materialized_file list \<Rightarrow> bool" where
  "lengths_fit fs \<longleftrightarrow> list_all (\<lambda>f. length (mf_path f) < 2 ^ 64 \<and> length (mf_bytes f) < 2 ^ 64) fs"

lemma tree_digest_fixes:
  assumes digest: "tree_digest E fs = tree_digest E gs" and free: "collision_free E fs gs"
    and sha: "\<And>x. length (sha256 E x) = 32" and fits: "lengths_fit fs" "lengths_fit gs"
  shows "fs = gs"
proof -
  from digest have "sha256 E (tree_preimage E fs) = sha256 E (tree_preimage E gs)"
    by (auto simp: tree_digest_def dest: hex_encode_inj)
  with free have "tree_preimage E fs = tree_preimage E gs" by (auto simp: collision_free_def dest: inj_onD)
  then have "concat (map head_bytes (map (file_head E) fs)) = concat (map head_bytes (map (file_head E) gs))"
    by (simp add: tree_preimage_def)
  moreover have "list_all head_fits (map (file_head E) fs)" "list_all head_fits (map (file_head E) gs)"
    using fits sha by (auto simp: list_all_iff lengths_fit_def head_fits_def file_head_def)
  ultimately have heads: "map (file_head E) fs = map (file_head E) gs" by (intro heads.concat_inj)
  moreover have "f = g" if "file_head E f = file_head E g" "f \<in> set (fs @ gs)" "g \<in> set (fs @ gs)" for f g
  proof (rule materialized_file.equality)
    from that(1) have "sha256 E (mf_bytes f) = sha256 E (mf_bytes g)" by (simp add: file_head_def)
    with free that(2,3) show "mf_bytes f = mf_bytes g" by (auto simp: collision_free_def dest: inj_onD)
  qed (use that(1) in \<open>simp_all add: file_head_def\<close>)
  then have "inj_on (file_head E) (set fs \<union> set gs)" by (auto intro: inj_onI)
  ultimately show "fs = gs" by (metis inj_on_map_eq_map)
qed

lemma verify_existing_Inr:
  "verify_existing E x receipt digest manifest attestation = Inr () \<Longrightarrow>
     existing_bytes x ''receipt.json'' = Inr receipt
     \<and> (\<exists>found. scan_local (ex_tree x) [] verification_limits = Inr found \<and> tree_digest E found = digest)"
  by (auto simp: verify_existing_def scan_local_tree_def result_simps split: if_splits)

lemma scanned_lengths_fit:
  assumes "scan_local (ex_tree x) [] verification_limits = Inr found"
  shows "lengths_fit found"
  using scan_local_Inr [OF assms]
  by (auto simp: lengths_fit_def paths_ok_def verification_limits_def list_all_iff)

lemma place_snapshot_cases:
  assumes "place_snapshot E io a p digest = (r, w)"
  shows "(w = Some p \<or> w = None) \<and> (\<forall>b. r = Inr b \<longrightarrow> b = a
    \<and> (w = None \<longrightarrow> (\<exists>x. (io_existing io (pb_name p) = Some x \<or> io_raced io (pb_name p) = Some x)
         \<and> verify_existing E x (pb_receipt p) digest (pb_manifest p) (pb_attestation p) = Inr ())))"
  using assms unfolding place_snapshot_def attempt_def
  by (auto split: if_splits option.splits sum.splits)

lemma snapshot_identity_Inr:
  assumes "snapshot_identity P r roots m digest = Inr (receipt, reference, bytes, hex)"
  shows "px_receipt_json P receipt = Some bytes \<and> sn_manifest_artifact_id reference = digest_string (px_env P) bytes
    \<and> hex = drop 7 (digest_string (px_env P) bytes) \<and> sr_tree_digest receipt = digest"
  using assms unfolding snapshot_identity_def Let_def
  by (auto simp: bindE_eq_Inr ok_or_eq_Inr snapshot_receipt_of_def)

text \<open>A publication places the sorted files under the digest of the receipt, which holds their tree digest.\<close>

lemma publish_places:
  assumes "publish P io r roots m = (res, w)" and "w \<noteq> None \<or> res = Inr a"
  defines "files \<equiv> sort_key mf_path (cm_files m)"
  obtains b p where "place_snapshot (px_env P) io b p (tree_digest (px_env P) files) = (res, w)"
    "pb_files p = files" "files \<noteq> []" "px_receipt_json P (aq_receipt b) = Some (pb_receipt p)"
    "sn_manifest_artifact_id (aq_reference b) = digest_string (px_env P) (pb_receipt p)"
    "pb_name p = drop 7 (digest_string (px_env P) (pb_receipt p))" "aq_snapshot_root b = pb_name p"
    "sr_tree_digest (aq_receipt b) = tree_digest (px_env P) files"
    "aq_remote_manifest b = cm_remote_manifest m" "aq_remote_attestation b = cm_remote_attestation m"
proof -
  let ?m = "m\<lparr>cm_files := files\<rparr>"
  have att: "\<exists>x. f = Inr x \<and> k x = (res, w)" if "attempt None f k = (res, w)" for f :: "acquisition_error + 'x" and k
    using that assms(2) by (auto simp: attempt_def split: sum.splits)
  have ne: "files \<noteq> []" using assms(1,2) by (auto simp: publish_def Let_def files_def)
  from assms(1) ne [unfolded files_def] obtain manifest attestation receipt reference bytes hex where
    id: "snapshot_identity P r roots ?m (tree_digest (px_env P) files) = Inr (receipt, reference, bytes, hex)"
    and place: "place_snapshot (px_env P) io
            \<lparr>aq_reference = reference, aq_receipt = receipt, aq_snapshot_root = hex,
             aq_remote_manifest = cm_remote_manifest m, aq_remote_attestation = cm_remote_attestation m\<rparr>
            \<lparr>pb_name = hex, pb_receipt = bytes, pb_manifest = manifest, pb_attestation = attestation,
             pb_files = files\<rparr>
            (tree_digest (px_env P) files) = (res, w)"
    unfolding publish_def Let_def files_def by (auto dest!: att)
  show thesis
    by (rule that [OF place]) (use snapshot_identity_Inr [OF id] ne in simp_all)
qed

end
