(* ===== verification/Source_Acquirer.thy ===== *)
theory Source_Acquirer
  imports Source_Snapshot
begin

text \<open>
  \<open>Acquirer\<close> of \<open>promptectomy-acquisition/src/lib.rs\<close>: from a request to a published snapshot. The OCI
  session and the SSH broker's process are called with what the code passes them; what they return is
  part of the surroundings, and so is what the file system answers.
\<close>

section \<open>What the OCI session reports\<close>

datatype oci_remote_error =
    InvalidConfiguration | InvalidOciRequest | CommandStart | CommandFailed | CommandOutputExceeded
  | CommandTimedOut | OciCancelled | ImageDigestMismatch | BinaryDigestMismatch | ControlMismatch
  | InvalidOutput | CleanupFailed

fun map_oci_error :: "oci_remote_error \<Rightarrow> acquisition_error" where
  "map_oci_error InvalidConfiguration = InvalidRemoteBackend"
| "map_oci_error InvalidOciRequest = InvalidRemoteManifest"
| "map_oci_error CommandStart = RemoteRuntimeUnavailable"
| "map_oci_error CommandFailed = RemoteRuntimeUnavailable"
| "map_oci_error CommandOutputExceeded = GitOutputExceeded"
| "map_oci_error CommandTimedOut = GitTimedOut"
| "map_oci_error OciCancelled = AcquisitionCancelled"
| "map_oci_error ImageDigestMismatch = InvalidRemoteAttestation"
| "map_oci_error BinaryDigestMismatch = InvalidRemoteAttestation"
| "map_oci_error ControlMismatch = InvalidRemoteAttestation"
| "map_oci_error InvalidOutput = InvalidRemoteAttestation"
| "map_oci_error CleanupFailed = InvalidRemoteAttestation"

record oci_controls =
  oc_backend_profile :: remote_backend_profile
  oc_image_digest :: string
  oc_runner_digest :: string
  oc_proxy_digest :: string
  oc_remote_work_tmpfs_bytes :: nat
  oc_input_tmpfs_bytes :: nat
  oc_output_tmpfs_bytes :: nat
  oc_temporary_tmpfs_bytes :: nat
  oc_resource_limits :: control_attestation
  oc_root_read_only :: control_attestation
  oc_no_new_privileges :: control_attestation
  oc_capabilities_dropped :: control_attestation
  oc_worker_internal_network_only :: control_attestation
  oc_proxy_dual_homed :: control_attestation
  oc_destination_enforcement :: remote_destination_enforcement
  oc_kernel_exact_destination_enforced :: bool
  oc_worker_default_route_absent :: control_attestation
  oc_proxy_gateway_blocked :: bool
  oc_credentials_isolated :: control_attestation
  oc_cleanup_complete :: control_attestation

record oci_remote_result =
  or_source_bundle :: string
  or_resolved_commit :: string
  or_git_binary_digest :: string
  or_observed_destination_host :: string
  or_observed_destination_port :: u16
  or_controls :: oci_controls

datatype relay_upstream = OrbstackHost

record oci_remote_config =
  cf_docker_program :: string
  cf_image_reference :: string
  cf_user :: string
  cf_pids_limit :: nat
  cf_memory_bytes :: nat
  cf_nano_cpus :: nat
  cf_output_tmpfs_bytes :: nat
  cf_temp_tmpfs_bytes :: nat
  cf_relay_upstream :: "relay_upstream option"

section \<open>The acquirer\<close>

definition ORBSTACK_PUBLIC_GIT_IMAGE_REFERENCE :: string where
  "ORBSTACK_PUBLIC_GIT_IMAGE_REFERENCE = ''promptectomy-remote-git@'' @ ORBSTACK_PUBLIC_GIT_IMAGE_DIGEST"
definition ORBSTACK_HOST_AGENT_SOCKET :: string where
  "ORBSTACK_HOST_AGENT_SOCKET = ''/run/host-services/ssh-auth.sock''"
definition MAX_SSH_BROKER_RESPONSE_BYTES :: nat where "MAX_SSH_BROKER_RESPONSE_BYTES = 16 * 1024"
definition MAX_SSH_BROKER_SECONDS :: nat where "MAX_SSH_BROKER_SECONDS = 10"

record public_git_backend =
  pg_docker_program :: string
  pg_image_reference :: string
  pg_policy :: remote_backend_policy

record reviewed_broker =
  rb_executable :: string
  rb_executable_digest :: string
  rb_backend :: remote_backend_policy
  rb_orbstack_host_agent :: bool

record acquirer =
  ac_public_git_backend :: "public_git_backend option"
  ac_ssh_broker :: "reviewed_broker option"

definition public_git_backend_new :: "string \<Rightarrow> string \<Rightarrow> remote_backend_policy \<Rightarrow> acquisition_error + public_git_backend" where
  "public_git_backend_new docker image_reference policy =
     bindE (backend_validate policy) (\<lambda>_.
     bindE (ok_or InvalidRemoteBackend (rsplit_once CHR ''@'' image_reference)) (\<lambda>(image_name, image_digest).
       if policy \<noteq> reviewed_backend \<or> \<not> is_absolute_path docker
          \<or> image_name \<noteq> ''promptectomy-remote-git'' \<or> image_digest \<noteq> bk_image_digest policy
          \<or> image_reference \<noteq> ORBSTACK_PUBLIC_GIT_IMAGE_REFERENCE
       then Inl InvalidRemoteBackend
       else Inr \<lparr>pg_docker_program = docker, pg_image_reference = image_reference, pg_policy = policy\<rparr>))"

definition reviewed_broker_new :: "remote_env \<Rightarrow> string \<Rightarrow> string \<Rightarrow> remote_backend_policy \<Rightarrow> acquisition_error + reviewed_broker" where
  "reviewed_broker_new X executable digest backend =
     bindE (backend_validate backend) (\<lambda>_.
       if \<not> is_absolute_path executable \<or> \<not> is_sha256_digest digest then Inl InvalidSshBroker
       else
         bindE (ssh_broker_executable_digest X executable) (\<lambda>actual.
           if actual \<noteq> digest then Inl InvalidSshBroker
           else Inr \<lparr>rb_executable = executable, rb_executable_digest = digest, rb_backend = backend,
                  rb_orbstack_host_agent = False\<rparr>))"

definition with_agent_socket :: "reviewed_broker \<Rightarrow> string \<Rightarrow> acquisition_error + reviewed_broker" where
  "with_agent_socket b socket =
     (if path_components socket \<noteq> path_components ORBSTACK_HOST_AGENT_SOCKET then Inl InvalidSshBroker
      else Inr (b\<lparr>rb_orbstack_host_agent := True\<rparr>))"

text \<open>
  The surroundings of one acquisition: whether it has been cancelled before and after the source was
  collected; the local directory; the two readings of an archive or bundle file and what \<open>serde_json\<close> reads
  from a bundle; the broker's process, as a function of program, input and time limit; the OCI session, as a
  function of its configuration, the manifest and what it is given for the worker.
\<close>

record worker_input =
  wi_https_url :: "string option"
  wi_ssh :: "(string \<times> string \<times> string \<times> string) option"

record acquisition_world =
  aw_publish :: publish_env
  aw_cancelled_before :: bool
  aw_cancelled_after :: bool
  aw_directory :: "string \<Rightarrow> local_directory"
  aw_bundle_document :: "string \<Rightarrow> bundle_document option"
  aw_broker :: "string \<Rightarrow> string \<Rightarrow> nat \<Rightarrow> nat \<Rightarrow> acquisition_error + bool \<times> string"
  aw_grant_bytes :: "validated_grant \<Rightarrow> string option"
  aw_session :: "oci_remote_config \<Rightarrow> remote_manifest \<Rightarrow> worker_input \<Rightarrow> oci_remote_error + oci_remote_result"
  aw_io :: publish_io

abbreviation aw_remote :: "acquisition_world \<Rightarrow> remote_env" where "aw_remote W \<equiv> px_remote (aw_publish W)"

section \<open>Remote material\<close>

definition attestation_of :: "remote_env \<Rightarrow> remote_manifest \<Rightarrow> oci_remote_result \<Rightarrow> bool \<Rightarrow> remote_attestation" where
  "attestation_of X m r relay_removed =
     (let c = or_controls r; cleanup = oc_cleanup_complete c in
      \<lparr>ra_schema_version = REMOTE_GIT_ATTESTATION_VERSION, ra_manifest_digest = rm_manifest_digest m,
       ra_backend_profile = oc_backend_profile c, ra_image_digest = oc_image_digest c,
       ra_runner_digest = oc_runner_digest c, ra_egress_proxy_digest = oc_proxy_digest c,
       ra_git_binary_digest = or_git_binary_digest r, ra_broker = rm_broker m,
       ra_observed_destinations = [\<lparr>ed_host = or_observed_destination_host r, ed_port = or_observed_destination_port r\<rparr>],
       ra_remote_work_tmpfs_bytes = oc_remote_work_tmpfs_bytes c, ra_input_tmpfs_bytes = oc_input_tmpfs_bytes c,
       ra_output_tmpfs_bytes = oc_output_tmpfs_bytes c, ra_temporary_tmpfs_bytes = oc_temporary_tmpfs_bytes c,
       ra_unaccounted_writable_data_mounts = 0, ra_kernel_writable_storage_limit = oc_resource_limits c,
       ra_root_read_only = oc_root_read_only c, ra_no_new_privileges = oc_no_new_privileges c,
       ra_capabilities_dropped = oc_capabilities_dropped c,
       ra_worker_internal_network_only = oc_worker_internal_network_only c,
       ra_proxy_dual_homed = oc_proxy_dual_homed c, ra_destination_enforcement = oc_destination_enforcement c,
       ra_kernel_exact_destination_enforced = oc_kernel_exact_destination_enforced c,
       ra_worker_default_route_absent = oc_worker_default_route_absent c,
       ra_proxy_gateway_blocked = oc_proxy_gateway_blocked c, ra_git_execution_neutralized = Passed,
       ra_credentials_isolated = oc_credentials_isolated c, ra_resolved_commit = or_resolved_commit r,
       ra_source_bundle_digest = remote_source_bundle_digest X (or_source_bundle r),
       ra_cleanup = \<lparr>ca_worker_removed = cleanup, ca_proxy_removed = cleanup, ca_network_removed = cleanup,
         ca_broker_relay_removed = (if rm_broker m = None \<or> relay_removed then Passed else Failed),
         ca_orphan_check = cleanup\<rparr>\<rparr>)"

definition remote_material :: "acquisition_world \<Rightarrow> acquisition_request \<Rightarrow> string list \<Rightarrow> remote_manifest \<Rightarrow> oci_remote_result \<Rightarrow> bool
    \<Rightarrow> acquisition_error + collected_material" where
  "remote_material W request roots m r relay_removed =
     (let X = aw_remote W; a = attestation_of X m r relay_removed in
      bindE (result_structure_validate X \<lparr>rr_source_bundle = or_source_bundle r, rr_attestation = a\<rparr> m) (\<lambda>_.
      bindE (collect_bundle_bytes (rx_env X) (aw_bundle_document W) (or_source_bundle r) roots (ar_limits request)) (\<lambda>mat.
        Inr (mat\<lparr>cm_redacted_locator := rm_redacted_locator m, cm_source_digest := ra_source_bundle_digest a,
          cm_revision := ra_resolved_commit a,
          cm_path_exclusions := cm_path_exclusions mat @ [''git_metadata_and_unselected_history''],
          cm_remote_manifest := Some m, cm_remote_attestation := Some a\<rparr>))))"

definition session_config :: "public_git_backend \<Rightarrow> remote_manifest \<Rightarrow> relay_upstream option \<Rightarrow> acquisition_error + oci_remote_config" where
  "session_config b m upstream =
     (if rm_max_bundle_bytes m + rm_max_output_bytes m \<ge> 2 ^ 64 then Inl InvalidRemoteBackend
      else Inr \<lparr>cf_docker_program = pg_docker_program b, cf_image_reference = pg_image_reference b,
        cf_user = ''65532:65532'', cf_pids_limit = 64, cf_memory_bytes = 512 * 1024 * 1024,
        cf_nano_cpus = 1000000000, cf_output_tmpfs_bytes = rm_max_bundle_bytes m + rm_max_output_bytes m,
        cf_temp_tmpfs_bytes = 16 * 1024 * 1024, cf_relay_upstream = upstream\<rparr>)"

definition acquire_public_https :: "acquisition_world \<Rightarrow> acquisition_request \<Rightarrow> string list \<Rightarrow> string \<Rightarrow> public_git_backend
    \<Rightarrow> acquisition_error + collected_material" where
  "acquire_public_https W request roots locator b =
     bindE (build_remote_git_manifest (aw_remote W) request (pg_policy b)) (\<lambda>m.
     bindE (session_config b m None) (\<lambda>config.
     bindE (map_err map_oci_error (aw_session W config m \<lparr>wi_https_url = Some locator, wi_ssh = None\<rparr>)) (\<lambda>r.
       remote_material W request roots m r False)))"

text \<open>The broker is asked before anything is started, with the request bytes that the manifest names.\<close>

fun preflight_ssh_broker :: "acquisition_world \<Rightarrow> acquisition_request \<Rightarrow> reviewed_broker \<Rightarrow> acquisition_error + validated_grant" where
  "preflight_ssh_broker W request broker =
     (case ar_source request of
        SshBrokered display_host opaque_handle _ _ broker_request \<Rightarrow>
          let X = aw_remote W in
          bindE (build_remote_git_manifest X request (rb_backend broker)) (\<lambda>m.
          bindE (ok_or InvalidRemoteManifest (rm_broker m)) (\<lambda>binding.
            if bb_executable_digest binding \<noteq> rb_executable_digest broker then Inl SshBrokerDenied
            else
              bindE (load_ssh_broker_request X broker_request display_host opaque_handle) (\<lambda>(request_bytes, req).
              bindE (request_relay_grant X req m) (\<lambda>grant.
                if domain_digest X ''ssh-broker-request'' request_bytes \<noteq> bb_request_digest binding then Inl InvalidSshBroker
                else
                  bindE (aw_broker W (rb_executable broker) request_bytes
                      (min (al_max_git_seconds (ar_limits request)) MAX_SSH_BROKER_SECONDS) MAX_SSH_BROKER_RESPONSE_BYTES) (\<lambda>(success, stdout).
                    if \<not> success then Inl SshBrokerUnavailable
                    else
                      bindE (parse_ssh_broker_response X stdout binding req) (\<lambda>decision.
                        (case decision of
                           Granted \<Rightarrow> Inr grant
                         | Denied \<Rightarrow> Inl SshBrokerDenied
                         | Unavailable \<Rightarrow> Inl SshBrokerUnavailable)))))))
      | _ \<Rightarrow> Inl InvalidSshBroker)"

definition acquire_brokered_ssh :: "acquisition_world \<Rightarrow> acquisition_request \<Rightarrow> string list \<Rightarrow> reviewed_broker \<Rightarrow> public_git_backend
    \<Rightarrow> acquisition_error + collected_material" where
  "acquire_brokered_ssh W request roots broker b =
     (if rb_backend broker \<noteq> pg_policy b then Inl InvalidRemoteBackend
      else if \<not> rb_orbstack_host_agent broker then Inl SshBrokerUnavailable
      else
        bindE (preflight_ssh_broker W request broker) (\<lambda>grant.
        bindE (ok_or InvalidSshBroker (aw_grant_bytes W grant)) (\<lambda>grant_bytes.
        bindE (build_remote_git_manifest (aw_remote W) request (pg_policy b)) (\<lambda>m.
        bindE (session_config b m (Some OrbstackHost)) (\<lambda>config.
        bindE (map_err map_oci_error (aw_session W config m
            \<lparr>wi_https_url = None, wi_ssh = Some (gr_repository (vg_grant grant), gr_host_key_type (vg_grant grant),
               gr_host_key_base64 (vg_grant grant), grant_bytes)\<rparr>)) (\<lambda>r.
          remote_material W request roots m r True))))))"

section \<open>Acquiring\<close>

definition collect_source :: "acquisition_world \<Rightarrow> acquirer \<Rightarrow> acquisition_request \<Rightarrow> string list
    \<Rightarrow> (acquisition_error + collected_material) option" where
  "collect_source W A request roots =
     (let X = aw_remote W; E = rx_env X; l = ar_limits request in
      case ar_source request of
        Local p policy \<Rightarrow>
          Some (if policy \<noteq> IncludeTrackedAndUntracked then Inl LocalGitPolicyUnavailable
                else collect_local E (aw_directory W p) roots l)
      | Https url _ \<Rightarrow>
          Some (bindE (validate_remote_source X (ar_source request)) (\<lambda>_.
                bindE (ok_or RemoteGitUnavailable (ac_public_git_backend A)) (\<lambda>b.
                  acquire_public_https W request roots url b)))
      | SshBrokered _ _ _ _ _ \<Rightarrow>
          Some (bindE (validate_remote_source X (ar_source request)) (\<lambda>_.
                bindE (ok_or SshBrokerUnavailable (ac_ssh_broker A)) (\<lambda>broker.
                bindE (ok_or RemoteGitUnavailable (ac_public_git_backend A)) (\<lambda>b.
                  acquire_brokered_ssh W request roots broker b))))
      | Archive p Tar \<Rightarrow>
          (case case_prod read_bounded (rx_readings X p) (al_max_archive_bytes l) ArchiveBytesExceeded of
             Inl e \<Rightarrow> Some (Inl e)
           | Inr bytes \<Rightarrow> collect_archive E bytes roots l)
      | Bundle p \<Rightarrow>
          Some (bindE (case_prod read_bounded (rx_readings X p) (al_max_archive_bytes l) ArchiveBytesExceeded) (\<lambda>bytes.
            collect_bundle_bytes E (aw_bundle_document W) bytes roots l)))"

definition acquire_cancelable :: "acquisition_world \<Rightarrow> acquirer \<Rightarrow> acquisition_request
    \<Rightarrow> ((acquisition_error + acquired_snapshot) \<times> published_snapshot option) option" where
  "acquire_cancelable W A request =
     (if aw_cancelled_before W then Some (Inl AcquisitionCancelled, None)
      else
        case bindE (acquisition_limits_validate (ar_limits request)) (\<lambda>_.
             bindE (validate_request_authority request) (\<lambda>_.
               normalize_selected_roots (ar_selected_roots request) (al_max_path_bytes (ar_limits request)))) of
          Inl e \<Rightarrow> Some (Inl e, None)
        | Inr roots \<Rightarrow>
            map_option (\<lambda>r. case r of
                Inl e \<Rightarrow> (Inl e, None)
              | Inr material \<Rightarrow>
                  if aw_cancelled_after W then (Inl AcquisitionCancelled, None)
                  else publish (aw_publish W) (aw_io W) request roots material) (collect_source W A request roots))"

section \<open>What is collected and published\<close>

definition collected_ok :: "bool \<Rightarrow> string list \<Rightarrow> acquisition_limits \<Rightarrow> materialized_file list \<Rightarrow> bool" where
  "collected_ok b roots l files \<longleftrightarrow> paths_ok roots l files \<and> length files \<le> al_max_files l
     \<and> list_all (\<lambda>f. length (mf_bytes f) \<le> al_max_file_bytes l) files \<and> (b \<longrightarrow> within_quotas l files)"

lemma collected_ok_sorted: "collected_ok b roots l (sort_key mf_path files) \<longleftrightarrow> collected_ok b roots l files"
  by (simp add: collected_ok_def paths_ok_sorted within_quotas_def sum_sorted list_all_iff)

lemma snapshot_collected: "snapshot_ok roots l files \<Longrightarrow> collected_ok b roots l files"
  by (simp add: snapshot_ok_def collected_ok_def within_quotas_def)

text \<open>A local directory keeps its total quota if no file grows between being charged and being read.\<close>

fun source_steady :: "acquisition_world \<Rightarrow> acquisition_source \<Rightarrow> bool" where
  "source_steady W (Local p _) = directory_steady (ld_second (aw_directory W p))"
| "source_steady W _ = True"

lemma collect_archive_ok:
  "collect_archive E bytes roots l = Some (Inr m) \<Longrightarrow> snapshot_ok roots l (sort_key mf_path (cm_files m))"
  by (auto simp: collect_archive_def collected_material_new_def Let_def bindE_eq_Inr split: if_splits)
    (metis parse_tar_ok snapshot_ok_def sorted_sort_id sort_key_id_if_sorted)

lemma collect_local_ok:
  assumes "collect_local E d roots l = Inr m"
  shows "collected_ok (directory_steady (ld_second d)) roots l (cm_files m)"
proof -
  from assms obtain files where scan: "scan_local (ld_second d) roots l = Inr files" and m: "cm_files m = sort_key mf_path files"
    by (auto simp: collect_local_def collected_material_new_def Let_def bindE_eq_Inr split: if_splits)
  from scan_local_Inr [OF scan] show ?thesis by (simp add: m collected_ok_sorted) (simp add: collected_ok_def)
qed

lemma remote_material_Inr:
  assumes "remote_material W r roots m o1 removed = Inr mat"
  shows "snapshot_ok roots (ar_limits r) (cm_files mat) \<and> cm_remote_manifest mat = Some m
    \<and> (\<exists>a. cm_remote_attestation mat = Some a \<and> attestation_matches a m \<and> cm_source_digest mat = ra_source_bundle_digest a)"
proof -
  let ?a = "attestation_of (aw_remote W) m o1 removed"
  from assms obtain b where "result_structure_validate (aw_remote W) \<lparr>rr_source_bundle = or_source_bundle o1, rr_attestation = ?a\<rparr> m = Inr ()"
    and bundled: "collect_bundle_bytes (rx_env (aw_remote W)) (aw_bundle_document W) (or_source_bundle o1) roots (ar_limits r) = Inr b"
    and mat: "mat = b\<lparr>cm_redacted_locator := rm_redacted_locator m, cm_source_digest := ra_source_bundle_digest ?a,
          cm_revision := ra_resolved_commit ?a,
          cm_path_exclusions := cm_path_exclusions b @ [''git_metadata_and_unselected_history''],
          cm_remote_manifest := Some m, cm_remote_attestation := Some ?a\<rparr>"
    by (auto simp: remote_material_def Let_def bindE_eq_Inr)
  with result_structure_Inr [OF this(1)] collect_bundle_Inr [OF bundled] show ?thesis by auto
qed

definition attested :: "acquisition_world \<Rightarrow> acquisition_request \<Rightarrow> remote_manifest \<Rightarrow> remote_attestation \<Rightarrow> bool" where
  "attested W r m a \<longleftrightarrow> manifest_for r m \<and> manifest_validate (aw_remote W) m = Inr () \<and> attestation_matches a m"

lemma acquire_https_Inr:
  assumes "acquire_public_https W r roots url b = Inr mat"
  shows "snapshot_ok roots (ar_limits r) (cm_files mat)
    \<and> (\<exists>m a. cm_remote_manifest mat = Some m \<and> cm_remote_attestation mat = Some a \<and> attested W r m a)"
proof -
  from assms obtain m o1 where build: "build_remote_git_manifest (aw_remote W) r (pg_policy b) = Inr m"
    and mat: "remote_material W r roots m o1 False = Inr mat"
    by (auto simp: acquire_public_https_def bindE_eq_Inr)
  from build have "manifest_validate (aw_remote W) m = Inr ()" by (rule build_remote_git_manifest_Inr)
  with built_manifest_for [OF build] remote_material_Inr [OF mat] show ?thesis by (auto simp: attested_def)
qed

lemma acquire_ssh_Inr:
  assumes "acquire_brokered_ssh W r roots broker b = Inr mat"
  shows "snapshot_ok roots (ar_limits r) (cm_files mat)
    \<and> (\<exists>m a. cm_remote_manifest mat = Some m \<and> cm_remote_attestation mat = Some a \<and> attested W r m a)
    \<and> (\<exists>grant. preflight_ssh_broker W r broker = Inr grant)"
proof -
  from assms obtain m o1 grant where build: "build_remote_git_manifest (aw_remote W) r (pg_policy b) = Inr m"
    and mat: "remote_material W r roots m o1 True = Inr mat" and grant: "preflight_ssh_broker W r broker = Inr grant"
    by (auto simp: acquire_brokered_ssh_def bindE_eq_Inr simp del: preflight_ssh_broker.simps split: if_splits)
  from build have "manifest_validate (aw_remote W) m = Inr ()" by (rule build_remote_git_manifest_Inr)
  with built_manifest_for [OF build] remote_material_Inr [OF mat] grant show ?thesis by (auto simp: attested_def simp del: preflight_ssh_broker.simps)
qed

fun is_remote :: "acquisition_source \<Rightarrow> bool" where
  "is_remote (Https _ _) = True"
| "is_remote (SshBrokered _ _ _ _ _) = True"
| "is_remote _ = False"

lemma collect_source_Inr:
  assumes "collect_source W A r roots = Some (Inr mat)"
  shows "collected_ok (source_steady W (ar_source r)) roots (ar_limits r) (sort_key mf_path (cm_files mat))
    \<and> (is_remote (ar_source r) \<longrightarrow> (\<exists>m a. cm_remote_manifest mat = Some m \<and> cm_remote_attestation mat = Some a \<and> attested W r m a))"
proof (cases "ar_source r")
  case (Local p policy)
  with assms have "collect_local (rx_env (aw_remote W)) (aw_directory W p) roots (ar_limits r) = Inr mat"
    by (auto simp: collect_source_def Let_def split: if_splits)
  from collect_local_ok [OF this] Local show ?thesis by (simp add: collected_ok_sorted)
next
  case (Https url revision)
  with assms obtain b where "acquire_public_https W r roots url b = Inr mat"
    by (auto simp: collect_source_def Let_def bindE_eq_Inr)
  from acquire_https_Inr [OF this] show ?thesis by (simp add: collected_ok_sorted snapshot_collected)
next
  case (SshBrokered h o1 rev x q)
  with assms obtain broker b where "acquire_brokered_ssh W r roots broker b = Inr mat"
    by (auto simp: collect_source_def Let_def bindE_eq_Inr)
  from acquire_ssh_Inr [OF this] show ?thesis by (simp add: collected_ok_sorted snapshot_collected)
next
  case (Archive p f)
  with assms obtain bytes where "collect_archive (rx_env (aw_remote W)) bytes roots (ar_limits r) = Some (Inr mat)"
    by (cases f) (auto simp: collect_source_def Let_def split: sum.splits)
  from collect_archive_ok [OF this] Archive show ?thesis by (simp add: snapshot_collected)
next
  case (Bundle p)
  with assms obtain bytes where "collect_bundle_bytes (rx_env (aw_remote W)) (aw_bundle_document W) bytes roots (ar_limits r) = Inr mat"
    by (auto simp: collect_source_def Let_def bindE_eq_Inr)
  from collect_bundle_Inr [OF this] have "snapshot_ok roots (ar_limits r) (cm_files mat)" by blast
  with Bundle show ?thesis by (simp add: collected_ok_sorted snapshot_collected)
qed

lemma acquire_cancelable_cases:
  assumes "acquire_cancelable W A r = Some (res, w)" and "w \<noteq> None \<or> res = Inr a"
  obtains roots mat where
    "normalize_selected_roots (ar_selected_roots r) (al_max_path_bytes (ar_limits r)) = Inr roots"
    "collect_source W A r roots = Some (Inr mat)" "publish (aw_publish W) (aw_io W) r roots mat = (res, w)"
proof -
  let ?v = "bindE (acquisition_limits_validate (ar_limits r)) (\<lambda>_. bindE (validate_request_authority r) (\<lambda>_.
      normalize_selected_roots (ar_selected_roots r) (al_max_path_bytes (ar_limits r))))"
  let ?k = "\<lambda>roots z. case z of Inl e \<Rightarrow> (Inl e, None)
      | Inr material \<Rightarrow> if aw_cancelled_after W then (Inl AcquisitionCancelled, None)
          else publish (aw_publish W) (aw_io W) r roots material"
  have live: "\<not> aw_cancelled_before W" using assms by (auto simp: acquire_cancelable_def)
  with assms(1) have run: "(case ?v of Inl e \<Rightarrow> Some (Inl e, None)
      | Inr roots \<Rightarrow> map_option (?k roots) (collect_source W A r roots)) = Some (res, w)"
    unfolding acquire_cancelable_def by simp
  with assms(2) obtain roots where v: "?v = Inr roots" by (cases ?v) auto
  with run obtain z where z: "collect_source W A r roots = Some z" and r: "?k roots z = (res, w)"
    by auto
  from v have roots: "normalize_selected_roots (ar_selected_roots r) (al_max_path_bytes (ar_limits r)) = Inr roots"
    by (simp add: bindE_eq_Inr)
  from r assms(2) obtain mat where "z = Inr mat" "publish (aw_publish W) (aw_io W) r roots mat = (res, w)"
    by (cases z) (auto split: if_splits)
  with roots z show thesis by (intro that) auto
qed

end
