(* ===== verification/Acquisition_Theorems.thy ===== *)
theory Acquisition_Theorems
  imports Demo Source_Acquirer
begin

text \<open>
  The properties of acquisition, with witnesses in a world where every digest is as long as a SHA-256, the
  file system answers consistently and the worker delivers a bundle of one file.
\<close>

section \<open>A world\<close>

definition demo_doc :: bundle_document where
  "demo_doc = \<lparr>bd_version = BUNDLE_VERSION, bd_files = [\<lparr>bf_path = ''a'', bf_executable = False,
     bf_content_hex = hex_encode ''x'', bf_digest = digest_string demo ''x''\<rparr>]\<rparr>"

definition demo_meta :: "node_kind \<Rightarrow> nat \<Rightarrow> file_metadata" where
  "demo_meta k n = \<lparr>fm_kind = k, fm_dev = 1, fm_ino = 1, fm_len = n, fm_mtime = 0, fm_mtime_nsec = 0,
     fm_nlink = 1, fm_mode = 384\<rparr>"

definition demo_reading :: "string \<Rightarrow> file_reading" where
  "demo_reading s = \<lparr>fr_before = Some (demo_meta RegularFile (length s)), fr_opened = Some (demo_meta RegularFile (length s)),
     fr_content = Some s, fr_after_handle = Some (demo_meta RegularFile (length s)),
     fr_after_path = Some (demo_meta RegularFile (length s))\<rparr>"

definition demo_relay_env :: relay_env where
  "demo_relay_env = \<lparr>b64_decode = (\<lambda>s. Some s), b64_encode = (\<lambda>s. s), digest256 = (\<lambda>s. s)\<rparr>"

definition demo_remote :: remote_env where
  "demo_remote = \<lparr>rx_env = demo, rx_relay = demo_relay_env, rx_manifest_jcs = (\<lambda>_. ''m''),
     rx_request_of = (\<lambda>_. None), rx_request_jcs = (\<lambda>_. None), rx_response_of = (\<lambda>_. None), rx_response_jcs = (\<lambda>_. None),
     rx_metadata = (\<lambda>_. None), rx_readings = (\<lambda>_. (demo_reading ''{}'', demo_reading ''{}''))\<rparr>"

definition demo_publish_env :: publish_env where
  "demo_publish_env = \<lparr>px_remote = demo_remote, px_receipt_json = (\<lambda>_. Some ''r''), px_manifest_jcs = (\<lambda>_. Some ''m''),
     px_attestation_jcs = (\<lambda>_. Some ''t''), px_attestation_bytes = (\<lambda>_. ''t''), px_version = ''0''\<rparr>"

definition demo_io :: publish_io where
  "demo_io = \<lparr>io_existing = (\<lambda>_. None), io_written = True, io_renamed = True, io_sealed = True, io_raced = (\<lambda>_. None)\<rparr>"

definition demo_controls :: "oci_remote_config \<Rightarrow> remote_manifest \<Rightarrow> oci_controls" where
  "demo_controls c m = \<lparr>oc_backend_profile = bk_profile (rm_backend m), oc_image_digest = bk_image_digest (rm_backend m),
     oc_runner_digest = bk_runner_digest (rm_backend m), oc_proxy_digest = bk_egress_proxy_digest (rm_backend m),
     oc_remote_work_tmpfs_bytes = rm_max_remote_work_bytes m, oc_input_tmpfs_bytes = 262144,
     oc_output_tmpfs_bytes = cf_output_tmpfs_bytes c, oc_temporary_tmpfs_bytes = cf_temp_tmpfs_bytes c,
     oc_resource_limits = Passed, oc_root_read_only = Passed, oc_no_new_privileges = Passed, oc_capabilities_dropped = Passed,
     oc_worker_internal_network_only = Passed, oc_proxy_dual_homed = Passed,
     oc_destination_enforcement = ApplicationConnectProxy, oc_kernel_exact_destination_enforced = False,
     oc_worker_default_route_absent = Passed, oc_proxy_gateway_blocked = False, oc_credentials_isolated = Passed,
     oc_cleanup_complete = Passed\<rparr>"

definition demo_session :: "oci_remote_config \<Rightarrow> remote_manifest \<Rightarrow> worker_input \<Rightarrow> oci_remote_error + oci_remote_result" where
  "demo_session c m i = Inr \<lparr>or_source_bundle = ''{}'', or_resolved_commit = replicate 40 CHR ''a'',
     or_git_binary_digest = digest_string demo ''git'', or_observed_destination_host = ed_host (rm_destination m),
     or_observed_destination_port = ed_port (rm_destination m), or_controls = demo_controls c m\<rparr>"

definition demo_world :: acquisition_world where
  "demo_world = \<lparr>aw_publish = demo_publish_env, aw_cancelled_before = False, aw_cancelled_after = False,
     aw_directory = (\<lambda>_. \<lparr>ld_metadata = None, ld_canonical = None, ld_storage_canonical = None, ld_first = None, ld_second = None\<rparr>),
     aw_bundle_document = (\<lambda>_. Some demo_doc), aw_broker = (\<lambda>_ _ _ _. Inl SshBrokerUnavailable),
     aw_grant_bytes = (\<lambda>_. None), aw_session = demo_session, aw_io = demo_io\<rparr>"

definition demo_acquirer :: acquirer where
  "demo_acquirer = \<lparr>ac_public_git_backend = Some \<lparr>pg_docker_program = ''/docker'',
     pg_image_reference = ORBSTACK_PUBLIC_GIT_IMAGE_REFERENCE, pg_policy = reviewed_backend\<rparr>, ac_ssh_broker = None\<rparr>"

definition demo_acquisition :: "acquisition_source \<Rightarrow> acquisition_request" where
  "demo_acquisition s = \<lparr>ar_source = s, ar_authority_id = ''auth_1'', ar_authority_digest = digest_string demo ''a'',
     ar_selected_roots = [], ar_limits = acquisition_limits_default\<rparr>"

lemmas demo_world_defs = demo_world_def demo_publish_env_def demo_remote_def demo_io_def demo_acquirer_def demo_acquisition_def

lemma lower_hex_digest: "is_lower_hex b \<Longrightarrow> (is_ascii_digit b \<or> (CHR ''a'' \<le> b \<and> b \<le> CHR ''f'') \<or> (CHR ''A'' \<le> b \<and> b \<le> CHR ''F''))
    \<and> \<not> is_ascii_uppercase b"
  by (auto simp: byte_class_defs less_eq_char_def)

lemma demo_digest_ok: "is_sha256_digest (digest_string demo s)"
  using hex_encode_lower_hex [of "sha256 demo s"]
  by (auto simp: is_sha256_digest_def digest_string_def starts_with_def list_all_iff dest!: lower_hex_digest)

lemma demo_files: "bundle_files demo (bd_files demo_doc) [] acquisition_limits_default {} [] 0
    = Inr [\<lparr>mf_path = ''a'', mf_bytes = ''x'', mf_executable = False\<rparr>]"
proof -
  have path: "normalize_path ''a'' 1024 = Inr ''a''" by code_simp
  have hex: "decode_hex (hex_encode ''x'') = Inr ''x''" by (simp only: decode_hex_Inr)
  show ?thesis
    by (simp add: demo_doc_def acquisition_limits_default_def path hex insert_collision_key_def selected_def add_quota_def
        del: hex_encode.simps)
qed

lemma demo_collect:
  "\<exists>m. collect_bundle_bytes demo (\<lambda>_. Some demo_doc) bytes [] acquisition_limits_default = Inr m
     \<and> cm_files m = [\<lparr>mf_path = ''a'', mf_bytes = ''x'', mf_executable = False\<rparr>]"
  using demo_files by (simp add: collect_bundle_bytes_def demo_doc_def acquisition_limits_default_def Let_def
      collected_material_new_def)

lemma demo_publishes:
  assumes "cm_files m = [\<lparr>mf_path = ''a'', mf_bytes = ''x'', mf_executable = False\<rparr>]"
  shows "\<exists>a p. publish demo_publish_env demo_io r [] m = (Inr a, Some p)"
proof -
  have "optional_bytes (px_manifest_jcs demo_publish_env) x = Inr (map_option (\<lambda>_. ''m'') x)"
    and "optional_bytes (px_attestation_jcs demo_publish_env) y = Inr (map_option (\<lambda>_. ''t'') y)" for x y
    by (cases x; simp add: optional_bytes_def demo_publish_env_def) (cases y; simp add: optional_bytes_def demo_publish_env_def)
  then show ?thesis
    by (simp add: publish_def snapshot_identity_def Let_def assms place_snapshot_def demo_io_def)
      (simp add: demo_publish_env_def)
qed

lemma demo_reads: "read_bounded (demo_reading s) (demo_reading s) n e = Inr s" if "length s \<le> n" "n < 1000000000"
  using that by (simp add: read_bounded_def read_regular_once_def demo_reading_def demo_meta_def has_unsupported_hardlink_def
      same_file_def Let_def)

lemma demo_acquires:
  assumes "collect_source demo_world demo_acquirer (demo_acquisition s) [] = Some (Inr m)"
    and "cm_files m = [\<lparr>mf_path = ''a'', mf_bytes = ''x'', mf_executable = False\<rparr>]"
  shows "\<exists>a p. acquire_cancelable demo_world demo_acquirer (demo_acquisition s) = Some (Inr a, Some p)"
proof -
  have limits: "acquisition_limits_validate acquisition_limits_default = Inr ()"
    by (simp add: acquisition_limits_validate_def acquisition_limits_default_def)
  have authority: "validate_request_authority (demo_acquisition s) = Inr ()"
    by (simp add: validate_request_authority_def demo_acquisition_def demo_digest_ok starts_with_def)
  have roots: "normalize_selected_roots [] n = Inr []" for n by (simp add: normalize_selected_roots_def)
  have "aw_publish demo_world = demo_publish_env" "aw_io demo_world = demo_io"
    "\<not> aw_cancelled_before demo_world" "\<not> aw_cancelled_after demo_world"
    "ar_selected_roots (demo_acquisition s) = []" "ar_limits (demo_acquisition s) = acquisition_limits_default"
    by (simp_all add: demo_world_def demo_acquisition_def)
  with assms(1) limits authority roots demo_publishes [OF assms(2), of "demo_acquisition s"] show ?thesis
    by (simp add: acquire_cancelable_def)
qed

lemma demo_bundle: "\<exists>a p. acquire_cancelable demo_world demo_acquirer (demo_acquisition (Bundle ''/b'')) = Some (Inr a, Some p)"
proof -
  obtain m where m: "collect_bundle_bytes demo (\<lambda>_. Some demo_doc) ''{}'' [] acquisition_limits_default = Inr m"
    and files: "cm_files m = [\<lparr>mf_path = ''a'', mf_bytes = ''x'', mf_executable = False\<rparr>]" using demo_collect by blast
  have "collect_source demo_world demo_acquirer (demo_acquisition (Bundle ''/b'')) [] = Some (Inr m)"
    by (simp add: collect_source_def demo_world_defs m acquisition_limits_default_def demo_reads)
      (use m in \<open>simp add: acquisition_limits_default_def\<close>)
  from demo_acquires [OF this files] show ?thesis .
qed

section \<open>Paths\<close>

text \<open>Paths of a source: A path that is accepted is taken as it is, and wherever it is joined it stays below
  that directory: its components are exactly its parts, none of which is empty, a dot directory, the
  repository's own \<open>.git\<close> in any case, or longer than 255 bytes.\<close>

lemma accepted_paths_inside:
  assumes "normalize_path raw max_path_bytes = Inr p"
  shows "p = raw \<and> length p \<le> max_path_bytes \<and> resolve dir (path_components p) = dir @ split_on CHR ''/'' p
    \<and> list_all (\<lambda>c. c \<notin> {[], ''.'', ''..''} \<and> length c \<le> 255 \<and> \<not> eq_ignore_ascii_case c ''.git''
         \<and> \<not> list_ex is_ascii_control c) (split_on CHR ''/'' p)"
proof -
  from assms have safe: "safe_path p" "p = raw" "length p \<le> max_path_bytes" by (auto simp: normalize_path_Inr)
  then have "list_all safe_component (split_on CHR ''/'' p)" by (simp add: safe_path_def)
  moreover have "safe_component c \<Longrightarrow> c \<notin> {[], ''.'', ''..''} \<and> length c \<le> 255 \<and> \<not> eq_ignore_ascii_case c ''.git''
      \<and> \<not> list_ex is_ascii_control c" for c
    by (auto simp: safe_component_def normalize_component_def split: if_splits)
  ultimately show ?thesis using safe by (auto simp: safe_path_components resolve_normals list_all_iff)
qed

section \<open>Archives and bundles\<close>

text \<open>C23 (archive reader). The reader of archives returns on every input, whatever its headers claim.\<close>

theorem archive_reader_returns: "\<exists>r. parse_tar bytes roots l = Some r"
  by (rule parse_tar_returns)

text \<open>Hexadecimal content: The content field of a bundle entry is read exactly if it is the lower-case
  hexadecimal that the crate itself writes, so no content has two spellings.\<close>

lemma bundle_content_exact: "decode_hex v = Inr bytes \<longleftrightarrow> v = hex_encode bytes"
  by (rule decode_hex_Inr)

text \<open>Bundles: An accepted bundle has the right version, every entry in it (selected or not) carries its
  content in hexadecimal with the digest of that content, and the material is precisely the selected entries,
  sorted by path.\<close>

lemma bundle_material_exact:
  assumes "collect_bundle_bytes E document bytes roots l = Inr m"
  shows "\<exists>doc contents. document bytes = Some doc \<and> bd_version doc = BUNDLE_VERSION
     \<and> list_all2 (\<lambda>f content. bf_content_hex f = hex_encode content \<and> bf_digest f = digest_string E content) (bd_files doc) contents
     \<and> cm_files m = sort_key mf_path (map (case_prod entry_material)
         (filter (\<lambda>(f, _). selected (bf_path f) roots) (zip (bd_files doc) contents)))"
  using collect_bundle_Inr [OF assms] by blast

section \<open>Snapshots\<close>

text \<open>C20 (snapshots within policy). For every kind of source, a snapshot that is published has at least one file;
  every path is safe, within the path limit, covered by the normalized selection and distinct from all others up
  to case; and the quotas on the number of files and on each file hold. The quota on the total holds too,
  unless the source is a local directory in which a file grows between being charged and being read.\<close>

theorem snapshots_within_policy:
  assumes "acquire_cancelable W A r = Some (res, Some p)"
  shows "\<exists>roots. normalize_selected_roots (ar_selected_roots r) (al_max_path_bytes (ar_limits r)) = Inr roots
    \<and> pb_files p \<noteq> [] \<and> sorted (map mf_path (pb_files p)) \<and> paths_ok roots (ar_limits r) (pb_files p)
    \<and> length (pb_files p) \<le> al_max_files (ar_limits r)
    \<and> list_all (\<lambda>f. length (mf_bytes f) \<le> al_max_file_bytes (ar_limits r)) (pb_files p)
    \<and> (source_steady W (ar_source r) \<longrightarrow> within_quotas (ar_limits r) (pb_files p))"
proof -
  from assms obtain roots mat where roots: "normalize_selected_roots (ar_selected_roots r) (al_max_path_bytes (ar_limits r)) = Inr roots"
    and mat: "collect_source W A r roots = Some (Inr mat)" and pub: "publish (aw_publish W) (aw_io W) r roots mat = (res, Some p)"
    by (rule acquire_cancelable_cases) simp
  from pub obtain b q where place: "place_snapshot (px_env (aw_publish W)) (aw_io W) b q
        (tree_digest (px_env (aw_publish W)) (sort_key mf_path (cm_files mat))) = (res, Some p)"
      and files: "pb_files q = sort_key mf_path (cm_files mat)" "sort_key mf_path (cm_files mat) \<noteq> []"
    by (rule publish_places) simp_all
  from place_snapshot_cases [OF place] have "p = q" by simp
  with collect_source_Inr [OF mat] files roots show ?thesis by (auto simp: collected_ok_def)
qed

theorem snapshots_within_policy_witness:
  "\<exists>res p. acquire_cancelable demo_world demo_acquirer (demo_acquisition (Bundle ''/b'')) = Some (res, Some p)
     \<and> pb_files p \<noteq> [] \<and> within_quotas acquisition_limits_default (pb_files p)"
proof -
  obtain a p where run: "acquire_cancelable demo_world demo_acquirer (demo_acquisition (Bundle ''/b'')) = Some (Inr a, Some p)"
    using demo_bundle by blast
  from snapshots_within_policy [OF run] run show ?thesis by (auto simp: demo_acquisition_def)
qed

text \<open>C21 (remote sources are attested). A snapshot of a remote source carries a manifest and an attestation. The
  manifest is valid and made for the request: its authority and revision, limits within those of the request
  and the fixed ceilings, an allowed host on port 443 or 22, with a broker binding exactly for SSH. The attestation
  matches it: the reviewed binaries, exactly that destination observed, every control passed, everything removed.\<close>

theorem remote_snapshots_attested:
  assumes "acquire_cancelable W A r = Some (Inr a, w)" and "is_remote (ar_source r)"
  shows "\<exists>m att. aq_remote_manifest a = Some m \<and> aq_remote_attestation a = Some att
    \<and> manifest_for r m \<and> manifest_validate (aw_remote W) m = Inr () \<and> ed_host (rm_destination m) \<in> set ALLOWED_REMOTE_HOSTS
    \<and> ra_observed_destinations att = [rm_destination m] \<and> ra_manifest_digest att = rm_manifest_digest m
    \<and> ra_runner_digest att = bk_runner_digest (rm_backend m) \<and> cleanup_accepted (ra_cleanup att)
    \<and> attestation_matches att m"
proof -
  from assms(1) obtain roots mat where mat: "collect_source W A r roots = Some (Inr mat)"
    and pub: "publish (aw_publish W) (aw_io W) r roots mat = (Inr a, w)"
    by (rule acquire_cancelable_cases [where a = a]) simp
  from pub obtain b q where place: "place_snapshot (px_env (aw_publish W)) (aw_io W) b q
        (tree_digest (px_env (aw_publish W)) (sort_key mf_path (cm_files mat))) = (Inr a, w)"
      and remote: "aq_remote_manifest b = cm_remote_manifest mat" "aq_remote_attestation b = cm_remote_attestation mat"
    by (rule publish_places [where a = a]) simp_all
  from place_snapshot_cases [OF place] have "a = b" by simp
  with collect_source_Inr [OF mat] assms(2) remote obtain m att where
    "aq_remote_manifest a = Some m" "aq_remote_attestation a = Some att" "attested W r m att" by auto
  moreover from this(3) have "ed_host (rm_destination m) \<in> set ALLOWED_REMOTE_HOSTS"
    by (auto simp: attested_def dest: manifest_validate_Inr)
  ultimately show ?thesis by (auto simp: attested_def attestation_matches_def)
qed

abbreviation demo_https :: acquisition_source where
  "demo_https \<equiv> Https ''https://github.com/a/b'' ''main''"

lemma demo_url: "validate_https ''https://github.com/a/b'' = Inr (''https://github.com/a/b'', ''https://github.com/<redacted>'')"
  "canonical_https_host ''https://github.com/a/b'' = Inr ''github.com''" "validate_revision ''main'' = Inr ()"
  "validate_allowed_remote_host ''github.com'' = Inr ''github.com''"
  by code_simp+

lemma demo_backend: "backend_validate reviewed_backend = Inr ()"
  by code_simp

lemma demo_built: "\<exists>m. build_remote_git_manifest demo_remote (demo_acquisition demo_https) reviewed_backend = Inr m"
proof -
  have roots: "normalize_selected_roots [] n = Inr []" for n by (simp add: normalize_selected_roots_def)
  have digest: "is_sha256_digest (domain_digest demo_remote d v)" for d v
    by (simp add: domain_digest_def demo_remote_def demo_digest_ok)
  have authority: "validate_request_authority (demo_acquisition demo_https) = Inr ()"
    by (simp add: validate_request_authority_def demo_acquisition_def demo_digest_ok starts_with_def)
  have limits: "acquisition_limits_validate acquisition_limits_default = Inr ()"
    by (simp add: acquisition_limits_validate_def acquisition_limits_default_def)
  obtain loc where loc: "locate_source demo_remote demo_https = Inr loc" "rl_kind loc = HttpsRemote" "rl_broker loc = None"
      "rl_credential loc = NoCredential" "rl_destination loc = \<lparr>ed_host = ''github.com'', ed_port = 443\<rparr>"
      "rl_redacted loc = ''https://github.com/<redacted>''" "rl_revision loc = ''main''" "is_sha256_digest (rl_locator_digest loc)"
    using demo_url digest by simp
  let ?m = "manifest_of (demo_acquisition demo_https) [] loc reviewed_backend"
  let ?v = "?m\<lparr>rm_manifest_digest := computed_digest demo_remote ?m\<rparr>"
  have "computed_digest demo_remote ?v = computed_digest demo_remote ?m"
    by (simp add: computed_digest_def manifest_of_def Let_def)
  then have "manifest_validate demo_remote ?v = Inr ()"
    using demo_url demo_backend loc roots demo_digest_ok [of "''a''"]
    by (simp add: manifest_validate_def manifest_of_def demo_acquisition_def Let_def manifest_bounds_def
        acquisition_limits_default_def REMOTE_MAX_TOTAL_BYTES_def REMOTE_MAX_FILE_BYTES_def REMOTE_MAX_WORK_BYTES_def
        REMOTE_MAX_BUNDLE_BYTES_def credential_matches_def)
  with roots limits authority loc demo_url demo_backend show ?thesis
    by (simp add: build_remote_git_manifest_def Let_def) (simp add: demo_acquisition_def)
qed

lemma demo_https_collects:
  "\<exists>m. collect_source demo_world demo_acquirer (demo_acquisition demo_https) [] = Some (Inr m)
     \<and> cm_files m = [\<lparr>mf_path = ''a'', mf_bytes = ''x'', mf_executable = False\<rparr>]"
proof -
  obtain m where m: "build_remote_git_manifest demo_remote (demo_acquisition demo_https) reviewed_backend = Inr m"
    using demo_built by blast
  from m have valid: "manifest_validate demo_remote m = Inr ()" by (rule build_remote_git_manifest_Inr)
  from built_manifest_for [OF m] have broker: "rm_broker m = None"
    and max_bundle: "rm_max_bundle_bytes m \<le> 67108864"
    by (auto simp: manifest_for_def demo_acquisition_def REMOTE_MAX_BUNDLE_BYTES_def)
  have bundle_pos: "0 < rm_max_bundle_bytes m" using manifest_validate_Inr [OF valid] by (auto simp: manifest_bounds_def)
  have exact: "rm_max_bundle_bytes m = 67108864" "rm_max_output_bytes m = 4194304" "rm_backend m = reviewed_backend"
    using m by (auto elim!: build_remote_git_manifest_Inr simp: manifest_of_def demo_acquisition_def Let_def
      acquisition_limits_default_def REMOTE_MAX_BUNDLE_BYTES_def)
  obtain c where c: "session_config (the (ac_public_git_backend demo_acquirer)) m None = Inr c"
      "cf_output_tmpfs_bytes c = 71303168" "cf_temp_tmpfs_bytes c = 16777216"
    using exact by (simp add: session_config_def)
  let ?r = "\<lparr>or_source_bundle = ''{}'', or_resolved_commit = replicate 40 CHR ''a'',
     or_git_binary_digest = digest_string demo ''git'', or_observed_destination_host = ed_host (rm_destination m),
     or_observed_destination_port = ed_port (rm_destination m), or_controls = demo_controls c m\<rparr>"
  let ?a = "attestation_of demo_remote m ?r False"
  have commit: "valid_object_id (replicate 40 CHR ''a'')" by code_simp
  have matches: "attestation_matches ?a m"
    using broker exact c commit demo_digest_ok
    by (simp add: attestation_matches_def attestation_of_def Let_def demo_controls_def cleanup_accepted_def
      remote_source_bundle_digest_def domain_digest_def demo_remote_def)
  have "result_structure_validate demo_remote \<lparr>rr_source_bundle = ''{}'', rr_attestation = ?a\<rparr> m = Inr ()"
    using valid matches exact
    by (simp add: result_structure_validate_def attestation_validate_def)
      (simp add: attestation_of_def Let_def remote_source_bundle_digest_def)
  moreover obtain mat where "collect_bundle_bytes demo (\<lambda>_. Some demo_doc) ''{}'' [] acquisition_limits_default = Inr mat"
    "cm_files mat = [\<lparr>mf_path = ''a'', mf_bytes = ''x'', mf_executable = False\<rparr>]" using demo_collect by blast
  ultimately have "\<exists>mat. remote_material demo_world (demo_acquisition demo_https) [] m ?r False = Inr mat
     \<and> cm_files mat = [\<lparr>mf_path = ''a'', mf_bytes = ''x'', mf_executable = False\<rparr>]"
    by (simp add: remote_material_def Let_def demo_world_def demo_publish_env_def demo_acquisition_def)
      (simp add: demo_remote_def)
  moreover have "aw_session demo_world c m i = Inr ?r" for i by (simp add: demo_world_def demo_session_def)
  moreover have "aw_remote demo_world = demo_remote" by (simp add: demo_world_def demo_publish_env_def)
  ultimately show ?thesis
    using m c demo_url
    by (simp add: collect_source_def Let_def demo_acquisition_def)
      (simp add: demo_acquirer_def acquire_public_https_def)
qed

theorem remote_snapshots_attested_witness:
  "\<exists>a w m. acquire_cancelable demo_world demo_acquirer (demo_acquisition demo_https) = Some (Inr a, w)
     \<and> aq_remote_manifest a = Some m \<and> ed_host (rm_destination m) \<in> set ALLOWED_REMOTE_HOSTS"
proof -
  obtain a w where run: "acquire_cancelable demo_world demo_acquirer (demo_acquisition demo_https) = Some (Inr a, w)"
    using demo_https_collects demo_acquires by blast
  have "is_remote (ar_source (demo_acquisition demo_https))" by (simp add: demo_acquisition_def)
  from remote_snapshots_attested [OF run this] run show ?thesis by blast
qed

text \<open>C22 (republication). When publishing succeeds without writing anything, a snapshot was there already (or appeared
  meanwhile), its receipt is, byte for byte, the one of this acquisition, and the files that the scan of its tree finds are exactly
  those that were collected now. The scan skips a \<open>.git\<close> directory at the root of the tree, so nothing is said of that. Assumed
  are that digests have 32 bytes, that the lengths of paths and contents fit the fields that are hashed, and, for the files,
  that SHA-256 does not collide on one of the strings hashed for the two trees.\<close>

theorem republication_verifies:
  assumes "publish P io r roots m = (Inr a, None)"
    and "\<And>b. length (sha256 (px_env P) b) = 32" and "lengths_fit (cm_files m)"
  shows "\<exists>x bytes found. (io_existing io (aq_snapshot_root a) = Some x \<or> io_raced io (aq_snapshot_root a) = Some x)
    \<and> px_receipt_json P (aq_receipt a) = Some bytes \<and> existing_bytes x ''receipt.json'' = Inr bytes
    \<and> scan_local (ex_tree x) [] verification_limits = Inr found
    \<and> (collision_free (px_env P) found (sort_key mf_path (cm_files m)) \<longrightarrow> found = sort_key mf_path (cm_files m))"
proof -
  let ?files = "sort_key mf_path (cm_files m)"
  from assms(1) obtain b p where place: "place_snapshot (px_env P) io b p (tree_digest (px_env P) ?files) = (Inr a, None)"
      and p: "px_receipt_json P (aq_receipt b) = Some (pb_receipt p)" "aq_snapshot_root b = pb_name p"
    by (rule publish_places [where a = a]) simp_all
  note placed = place_snapshot_cases [OF place]
  from placed have ab: "a = b" by simp
  from placed have "\<exists>x. (io_existing io (pb_name p) = Some x \<or> io_raced io (pb_name p) = Some x)
      \<and> verify_existing (px_env P) x (pb_receipt p) (tree_digest (px_env P) ?files) (pb_manifest p) (pb_attestation p) = Inr ()"
    by simp
  then obtain x where x: "io_existing io (aq_snapshot_root a) = Some x \<or> io_raced io (aq_snapshot_root a) = Some x"
      and verified: "verify_existing (px_env P) x (pb_receipt p) (tree_digest (px_env P) ?files) (pb_manifest p) (pb_attestation p) = Inr ()"
    unfolding ab p(2) by blast
  from verify_existing_Inr [OF verified] obtain found where bytes: "existing_bytes x ''receipt.json'' = Inr (pb_receipt p)"
    and scan: "scan_local (ex_tree x) [] verification_limits = Inr found" "tree_digest (px_env P) found = tree_digest (px_env P) ?files" by blast
  have "lengths_fit ?files" using assms(3) by (simp add: lengths_fit_def list_all_iff)
  with tree_digest_fixes [OF scan(2) _ assms(2) scanned_lengths_fit [OF scan(1)]] x p bytes scan ab show ?thesis by blast
qed

definition demo_existing :: existing_snapshot where
  "demo_existing = \<lparr>ex_metadata = Some (demo_meta DirectoryNode 0),
     ex_file = (\<lambda>name. if name = ''receipt.json'' then Some (Some ''r'') else None),
     ex_tree = Some [FsEntry ''a'' (Some (demo_meta RegularFile 1)) (demo_reading ''x'') None]\<rparr>"

abbreviation demo_file :: materialized_file where
  "demo_file \<equiv> \<lparr>mf_path = ''a'', mf_bytes = ''x'', mf_executable = False\<rparr>"

lemma demo_scan: "scan_local (ex_tree demo_existing) [] verification_limits = Inr [demo_file]"
proof -
  have path: "normalize_filesystem_relative ''a'' 4096 = Inr ''a''" "utf8_valid ''a''"
    "\<not> eq_ignore_ascii_case ''a'' ''.git''" by code_simp+
  have "scan_turn [] verification_limits ([], ex_tree demo_existing) \<lparr>sc_pending = [], sc_files = [], sc_seen = {}, sc_total = 0\<rparr>
      = Inr \<lparr>sc_pending = [], sc_files = [demo_file], sc_seen = {to_ascii_lowercase ''a''}, sc_total = 1\<rparr>"
    using path by (simp add: scan_turn_def demo_existing_def scan_entry_def relative_join_def scan_file_def Let_def demo_meta_def
        verification_limits_def selected_def insert_collision_key_def add_quota_def read_regular_once_def demo_reading_def
        has_unsupported_hardlink_def same_file_def is_executable_def)
  then show ?thesis by (simp add: scan_local_def scan_pending.simps)
qed

theorem republication_verifies_witness:
  "\<exists>a found. publish demo_publish_env (demo_io\<lparr>io_existing := \<lambda>_. Some demo_existing\<rparr>) (demo_acquisition (Bundle ''/b'')) []
       (collected_material_new [demo_file] [] [] []) = (Inr a, None)
     \<and> scan_local (ex_tree demo_existing) [] verification_limits = Inr found \<and> found = [demo_file]"
proof -
  let ?io = "demo_io\<lparr>io_existing := \<lambda>_. Some demo_existing\<rparr>" and ?m = "collected_material_new [demo_file] [] [] []"
  have env: "px_env demo_publish_env = demo" by (simp add: demo_publish_env_def demo_remote_def)
  have verify: "verify_existing demo demo_existing ''r'' (tree_digest demo [demo_file]) None None = Inr ()"
  proof -
    have "ex_metadata demo_existing = Some (demo_meta DirectoryNode 0)" "existing_bytes demo_existing ''receipt.json'' = Inr ''r''"
      "verify_optional_artifact demo_existing ''remote-manifest.json'' None = Inr ()"
      "verify_optional_artifact demo_existing ''remote-attestation.json'' None = Inr ()"
      by (simp_all add: demo_existing_def existing_bytes_def verify_optional_artifact_def)
    moreover have "fm_kind (demo_meta DirectoryNode 0) = DirectoryNode" by (simp add: demo_meta_def)
    ultimately show ?thesis using demo_scan by (simp add: verify_existing_def scan_local_tree_def)
  qed
  have "\<exists>a. publish demo_publish_env ?io (demo_acquisition (Bundle ''/b'')) [] ?m = (Inr a, None)"
    using verify by (simp add: publish_def snapshot_identity_def Let_def collected_material_new_def place_snapshot_def
        optional_bytes_def env demo_io_def) (simp add: demo_publish_env_def)
  then obtain a where run: "publish demo_publish_env ?io (demo_acquisition (Bundle ''/b'')) [] ?m = (Inr a, None)" by blast
  have sha: "length (sha256 (px_env demo_publish_env) b) = 32" for b by (simp add: env)
  have "lengths_fit (cm_files ?m)" by (simp add: lengths_fit_def collected_material_new_def)
  from republication_verifies [OF run sha this] obtain x found where
      x: "io_existing ?io (aq_snapshot_root a) = Some x \<or> io_raced ?io (aq_snapshot_root a) = Some x"
      and found: "scan_local (ex_tree x) [] verification_limits = Inr found"
        "collision_free demo found [demo_file] \<longrightarrow> found = [demo_file]"
    by (auto simp: env collected_material_new_def)
  from x have "x = demo_existing" by (auto simp: demo_io_def)
  with found(1) demo_scan have "found = [demo_file]" by simp
  with run demo_scan show ?thesis by blast
qed

end
