(* ===== verification/Key_Store.thy ===== *)
theory Key_Store
  imports Contracts
begin

text \<open>
  The wrapping keys of the protected store (\<open>promptectomy-protected-store\<close>, files \<open>lib.rs\<close> and
  \<open>backend.rs\<close>): the errors of the crate, the locators under which keys are kept, the operations
  of a \<open>WrappingKeyStore\<close> and the \<open>SystemKeyStore\<close> over the platform's key ring, which checks what
  it stored and what it deleted by reading it again. The key ring (crate \<open>keyring\<close>) is a parameter.
\<close>

datatype protected_store_error =
    InvalidIdentifier | InvalidEnvelope | NonCanonicalEnvelope | NonCanonicalMetadata
  | ContentTooLarge | UnsupportedPlatform | BackendUnavailable | AccessDenied | KeyMissingError
  | InvalidKeyValue | KeyConflict | AmbiguousKey | AuthenticationFailed | UnsafeStorageRoot
  | StoragePermissionsUnsupported | StorageConflict | BlobMissing | BlobTampered
  | InvalidTransaction | InvalidBackupManifest | BackupVerificationFailed | InvalidDeletionPlan
  | InvalidDeletionReceipt | BlobReferenced | KeyDeletionUnverified | DeletionStateChanged
  | StorageIo

section \<open>Identifiers and locators\<close>

text \<open>\<open>valid_id\<close> and \<open>valid_prefixed_id\<close>: a prefix, an underscore and 64 lower-case hexadecimal digits.\<close>

definition valid_prefixed_id :: "string \<Rightarrow> string \<Rightarrow> bool" where
  "valid_prefixed_id v kind =
     (case Option.bind (strip_prefix kind v) (strip_prefix ''_'') of
        None \<Rightarrow> False
      | Some hex \<Rightarrow> length hex = 64 \<and> list_all is_lower_hex hex)"

record key_locator =
  kl_installation_id :: string
  kl_key_id :: string

definition key_locator_new :: "string \<Rightarrow> string \<Rightarrow> protected_store_error + key_locator" where
  "key_locator_new installation_id key_id =
     (if \<not> valid_prefixed_id installation_id ''installation'' \<or> \<not> valid_prefixed_id key_id ''key''
      then Inl InvalidIdentifier
      else Inr \<lparr>kl_installation_id = installation_id, kl_key_id = key_id\<rparr>)"

definition account :: "key_locator \<Rightarrow> string" where
  "account l = kl_installation_id l @ ''/'' @ kl_key_id l"

lemma valid_prefixed_id_iff:
  "valid_prefixed_id v kind \<longleftrightarrow> (\<exists>hex. v = kind @ ''_'' @ hex \<and> length hex = 64 \<and> list_all is_lower_hex hex)"
proof -
  have parts: "Option.bind (strip_prefix kind v) (strip_prefix ''_'') = Some hex \<longleftrightarrow> v = kind @ ''_'' @ hex" for hex
    by (simp add: bind_eq_Some_conv)
  show ?thesis
  proof (cases "Option.bind (strip_prefix kind v) (strip_prefix ''_'')")
    case None
    then have "v \<noteq> kind @ ''_'' @ hex" for hex using parts [of hex] by simp
    then show ?thesis by (simp add: valid_prefixed_id_def None)
  next
    case (Some hex)
    then have v: "v = kind @ ''_'' @ hex" using parts by simp
    show ?thesis unfolding valid_prefixed_id_def Some by (simp add: v)
  qed
qed

lemma key_locator_new_Inr [result_simps]:
  "key_locator_new i k = Inr l \<longleftrightarrow>
     valid_prefixed_id i ''installation'' \<and> valid_prefixed_id k ''key'' \<and> l = \<lparr>kl_installation_id = i, kl_key_id = k\<rparr>"
  by (auto simp: key_locator_new_def)

text \<open>An account names one locator: no part of it contains the separator.\<close>

lemma account_inj:
  assumes "key_locator_new i k = Inr l" and "key_locator_new i' k' = Inr l'" and same: "account l = account l'"
  shows "l = l'"
proof -
  have lengths: "length i = 77" "length i' = 77"
    using assms(1,2) by (auto simp: key_locator_new_Inr valid_prefixed_id_iff)
  with assms show ?thesis by (auto simp: key_locator_new_Inr account_def)
qed

section \<open>Key stores\<close>

datatype backend_kind = MacOsKeychain | WindowsCredentialManager | LinuxSecretService

datatype backend_readiness = Ready | KeyMissing

text \<open>
  The trait \<open>WrappingKeyStore\<close> as a record of operations on the state of a store; \<open>store\<close> and
  \<open>delete\<close> change it.
\<close>

record 's key_store =
  ks_backend :: "protected_store_error + backend_kind"
  ks_readiness :: "key_locator \<Rightarrow> 's \<Rightarrow> protected_store_error + backend_readiness"
  ks_load :: "key_locator \<Rightarrow> 's \<Rightarrow> protected_store_error + string"
  ks_store :: "key_locator \<Rightarrow> string \<Rightarrow> 's \<Rightarrow> (protected_store_error + unit) \<times> 's"
  ks_delete :: "key_locator \<Rightarrow> 's \<Rightarrow> (protected_store_error + unit) \<times> 's"

text \<open>
  What the users of a store rely on: a key is 32 bytes and can be loaded exactly when the store says
  it is ready, a stored key is the one loaded, and after a deletion the key is reported missing.
\<close>

locale wrapping_keys =
  fixes K :: "'s key_store"
  assumes load_length: "ks_load K l s = Inr k \<Longrightarrow> length k = 32"
    and ready_load: "ks_readiness K l s = Inr Ready \<longleftrightarrow> (\<exists>k. ks_load K l s = Inr k)"
    and store_load: "ks_store K l k s = (Inr (), s') \<Longrightarrow> length k = 32 \<Longrightarrow> ks_load K l s' = Inr k"
    and delete_missing: "ks_delete K l s = (Inr (), s') \<Longrightarrow> ks_readiness K l s' = Inr KeyMissing"
begin

lemma stored_ready: "ks_store K l k s = (Inr (), s') \<Longrightarrow> length k = 32 \<Longrightarrow> ks_readiness K l s' = Inr Ready"
  using store_load ready_load by blast

lemma missing_not_loaded: "ks_readiness K l s = Inr KeyMissing \<Longrightarrow> ks_load K l s \<noteq> Inr k"
  using ready_load [of l s] by auto

lemma deleted_not_loaded: "ks_delete K l s = (Inr (), s') \<Longrightarrow> ks_load K l s' \<noteq> Inr k"
  using delete_missing missing_not_loaded by blast

end

section \<open>The system's key store\<close>

datatype keyring_error =
    NoEntry | NoStorageAccess | Ambiguous | BadEncoding | TooLong | InvalidAttribute | OtherKeyringError

fun map_keyring_error :: "keyring_error \<Rightarrow> protected_store_error" where
  "map_keyring_error NoEntry = KeyMissingError"
| "map_keyring_error NoStorageAccess = AccessDenied"
| "map_keyring_error Ambiguous = AmbiguousKey"
| "map_keyring_error BadEncoding = InvalidKeyValue"
| "map_keyring_error TooLong = InvalidIdentifier"
| "map_keyring_error InvalidAttribute = InvalidIdentifier"
| "map_keyring_error OtherKeyringError = BackendUnavailable"

text \<open>
  The key ring: the making of an entry for a service and an account, and the operations on the secret
  of an entry. Reading a secret leaves the ring as it is.
\<close>

record 'r keyring =
  kr_entry :: "string \<Rightarrow> string \<Rightarrow> keyring_error + unit"
  kr_get :: "string \<Rightarrow> string \<Rightarrow> 'r \<Rightarrow> keyring_error + string"
  kr_set :: "string \<Rightarrow> string \<Rightarrow> string \<Rightarrow> 'r \<Rightarrow> (keyring_error + unit) \<times> 'r"
  kr_delete :: "string \<Rightarrow> string \<Rightarrow> 'r \<Rightarrow> (keyring_error + unit) \<times> 'r"

definition SERVICE :: string where
  "SERVICE = ''dev.promptectomy.protected-evidence.v1''"

definition native_entry :: "'r keyring \<Rightarrow> key_locator \<Rightarrow> protected_store_error + string" where
  "native_entry R l =
     bindE (map_err map_keyring_error (kr_entry R SERVICE (account l))) (\<lambda>_. Inr (account l))"

lemma native_entry_cases:
  obtains "native_entry R l = Inr (account l)" | e where "native_entry R l = Inl e"
  by (cases "kr_entry R SERVICE (account l)") (auto simp: native_entry_def)

definition system_readiness :: "'r keyring \<Rightarrow> key_locator \<Rightarrow> 'r \<Rightarrow> protected_store_error + backend_readiness" where
  "system_readiness R l r =
     bindE (native_entry R l) (\<lambda>entry.
       case kr_get R SERVICE entry r of
         Inr secret \<Rightarrow> if length secret = 32 then Inr Ready else Inl InvalidKeyValue
       | Inl e \<Rightarrow> if e = NoEntry then Inr KeyMissing else Inl (map_keyring_error e))"

definition system_load :: "'r keyring \<Rightarrow> key_locator \<Rightarrow> 'r \<Rightarrow> protected_store_error + string" where
  "system_load R l r =
     bindE (native_entry R l) (\<lambda>entry.
     bindE (map_err map_keyring_error (kr_get R SERVICE entry r)) (\<lambda>secret.
       if length secret \<noteq> 32 then Inl InvalidKeyValue else Inr secret))"

definition system_store :: "'r keyring \<Rightarrow> key_locator \<Rightarrow> string \<Rightarrow> 'r \<Rightarrow> (protected_store_error + unit) \<times> 'r" where
  "system_store R l key r =
     attempt r (native_entry R l) (\<lambda>entry.
       case kr_get R SERVICE entry r of
         Inr existing \<Rightarrow> (if existing = key then Inr () else Inl KeyConflict, r)
       | Inl e \<Rightarrow>
           if e \<noteq> NoEntry then (Inl (map_keyring_error e), r)
           else (case kr_set R SERVICE entry key r of
              (Inl e, r) \<Rightarrow> (Inl (map_keyring_error e), r)
            | (Inr _, r) \<Rightarrow>
                (case kr_get R SERVICE entry r of
                   Inl e \<Rightarrow> (Inl (map_keyring_error e), r)
                 | Inr stored \<Rightarrow> (if stored = key then Inr () else Inl InvalidKeyValue, r))))"

definition system_delete :: "'r keyring \<Rightarrow> key_locator \<Rightarrow> 'r \<Rightarrow> (protected_store_error + unit) \<times> 'r" where
  "system_delete R l r =
     attempt r (native_entry R l) (\<lambda>entry.
       case kr_delete R SERVICE entry r of
         (Inl e, r) \<Rightarrow> (Inl (map_keyring_error e), r)
       | (Inr _, r) \<Rightarrow>
           (case kr_get R SERVICE entry r of
              Inl e \<Rightarrow> (if e = NoEntry then Inr () else Inl (map_keyring_error e), r)
            | Inr residual \<Rightarrow> (Inl AccessDenied, r)))"

definition system_key_store :: "'r keyring \<Rightarrow> 'r key_store" where
  "system_key_store R =
     \<lparr>ks_backend = Inr LinuxSecretService, ks_readiness = system_readiness R, ks_load = system_load R,
      ks_store = system_store R, ks_delete = system_delete R\<rparr>"

text \<open>
  The system's store keeps the contract whatever the key ring does: \<open>store\<close> and \<open>delete\<close> succeed
  only after reading the ring again.
\<close>

interpretation system: wrapping_keys "system_key_store R" for R :: "'r keyring"
proof unfold_locales
  fix l s k s'
  show "ks_load (system_key_store R) l s = Inr k \<Longrightarrow> length k = 32"
    by (auto simp: system_key_store_def system_load_def result_simps split: if_splits)
  show "ks_readiness (system_key_store R) l s = Inr Ready \<longleftrightarrow> (\<exists>k. ks_load (system_key_store R) l s = Inr k)"
    by (cases R l rule: native_entry_cases; cases "kr_get R SERVICE (account l) s")
      (auto simp: system_key_store_def system_readiness_def system_load_def result_simps)
  show "ks_load (system_key_store R) l s' = Inr k"
    if "ks_store (system_key_store R) l k s = (Inr (), s')" "length k = 32"
    using that by (cases R l rule: native_entry_cases; cases "kr_get R SERVICE (account l) s"; cases "kr_set R SERVICE (account l) k s")
      (auto simp: system_key_store_def system_store_def system_load_def split: sum.splits if_splits)
  show "ks_readiness (system_key_store R) l s' = Inr KeyMissing"
    if "ks_delete (system_key_store R) l s = (Inr (), s')"
    using that by (cases R l rule: native_entry_cases; cases "kr_delete R SERVICE (account l) s")
      (auto simp: system_key_store_def system_delete_def system_readiness_def split: sum.splits if_splits)
qed

end
