(* ===== verification/Sealed_Envelope.thy ===== *)
theory Sealed_Envelope
  imports Key_Store
begin

text \<open>
  The envelopes of the protected store (\<open>envelope.rs\<close>): a content sealed under a fresh data key, the
  data key wrapped under a key of the key store, both bound to the identifiers of the envelope by the
  associated data, and the canonical text of an envelope. The cipher, base64, the random source and
  the reader and writer derived by serde are parameters.
\<close>

section \<open>Canonical documents\<close>

text \<open>
  What the crate does with every document it keeps: it is written only when it is valid, in the
  canonical form, and read only when it is valid and its canonical form is the text read.
  \<open>reads x\<close> says that the reader gives back what is written for \<open>x\<close>.
\<close>

locale canonical_document =
  fixes validate :: "'a \<Rightarrow> 'e + unit"
    and encode :: "'a \<Rightarrow> 'e + string"
    and decode :: "string \<Rightarrow> 'e + 'a"
    and reads :: "'a \<Rightarrow> bool"
  assumes encode_valid: "encode x = Inr b \<Longrightarrow> validate x = Inr ()"
    and decode_encode: "decode b = Inr x \<Longrightarrow> encode x = Inr b"
    and encode_decode: "encode x = Inr b \<Longrightarrow> reads x \<Longrightarrow> decode b = Inr x"
begin

lemma decode_valid: "decode b = Inr x \<Longrightarrow> validate x = Inr ()"
  using decode_encode encode_valid by blast

lemma one_text: "decode b = Inr x \<Longrightarrow> decode b' = Inr x \<Longrightarrow> b = b'"
  by (drule decode_encode)+ simp

lemma one_document: "encode x = Inr b \<Longrightarrow> encode y = Inr b \<Longrightarrow> reads x \<Longrightarrow> reads y \<Longrightarrow> x = y"
  using encode_decode [of x b] encode_decode [of y b] by simp

lemma decode_iff: "reads x \<Longrightarrow> decode b = Inr x \<longleftrightarrow> encode x = Inr b"
  using decode_encode encode_decode by blast

end

text \<open>Serde's writer (in the canonical form of RFC 8785) and reader for one type.\<close>

record 'a codec =
  co_write :: "'a \<Rightarrow> string option"
  co_read :: "string \<Rightarrow> 'a option"

definition codec_reads :: "'a codec \<Rightarrow> 'a \<Rightarrow> bool" where
  "codec_reads c x \<longleftrightarrow> (case co_write c x of Some b \<Rightarrow> co_read c b = Some x | None \<Rightarrow> True)"

section \<open>Envelopes\<close>

definition ENVELOPE_VERSION :: string where
  "ENVELOPE_VERSION = ''phase4-protected-envelope-2''"

definition ALGORITHM :: string where
  "ALGORITHM = ''AES-256-GCM''"

definition DATA_CLASS :: string where
  "DATA_CLASS = ''D2_protected_evidence''"

definition MAX_PLAINTEXT_BYTES :: nat where
  "MAX_PLAINTEXT_BYTES = 67108864"

definition MAX_ENCODED_BYTES :: nat where
  "MAX_ENCODED_BYTES = 100663296"

record protected_envelope =
  pe_version :: string
  pe_algorithm :: string
  pe_protected_id :: string
  pe_data_class :: string
  pe_installation_id :: string
  pe_wrapping_key_id :: string
  pe_content_nonce :: string
  pe_wrapping_nonce :: string
  pe_wrapped_data_key :: string
  pe_ciphertext :: string

text \<open>
  What the envelopes use of other crates: base64 with the standard alphabet, AES-256-GCM (key, nonce,
  text, associated data), the canonical form of a JSON value, the codec of the envelopes, and
  \<open>getrandom\<close>, whose \<open>i\<close>-th call for \<open>n\<close> bytes may fail.
\<close>

record vault =
  vt_b64 :: "string \<Rightarrow> string"
  vt_unb64 :: "string \<Rightarrow> string option"
  vt_encrypt :: "string \<Rightarrow> string \<Rightarrow> string \<Rightarrow> string \<Rightarrow> string option"
  vt_decrypt :: "string \<Rightarrow> string \<Rightarrow> string \<Rightarrow> string \<Rightarrow> string option"
  vt_jcs :: "json \<Rightarrow> string option"
  vt_envelope :: "protected_envelope codec"
  vt_random :: "nat \<Rightarrow> nat \<Rightarrow> string option"

definition decode_exact :: "vault \<Rightarrow> nat \<Rightarrow> string \<Rightarrow> protected_store_error + string" where
  "decode_exact V n v =
     bindE (ok_or InvalidEnvelope (vt_unb64 V v)) (\<lambda>decoded.
       if length decoded \<noteq> n then Inl InvalidEnvelope else Inr decoded)"

definition envelope_validate :: "vault \<Rightarrow> protected_envelope \<Rightarrow> protected_store_error + unit" where
  "envelope_validate V e =
     (if pe_version e \<noteq> ENVELOPE_VERSION \<or> pe_algorithm e \<noteq> ALGORITHM \<or> pe_data_class e \<noteq> DATA_CLASS
         \<or> \<not> valid_prefixed_id (pe_protected_id e) ''protected''
         \<or> \<not> valid_prefixed_id (pe_installation_id e) ''installation''
         \<or> \<not> valid_prefixed_id (pe_wrapping_key_id e) ''key''
      then Inl InvalidEnvelope
      else
        bindE (decode_exact V 12 (pe_content_nonce e)) (\<lambda>_.
        bindE (decode_exact V 12 (pe_wrapping_nonce e)) (\<lambda>_.
        bindE (decode_exact V 48 (pe_wrapped_data_key e)) (\<lambda>_.
        bindE (ok_or InvalidEnvelope (vt_unb64 V (pe_ciphertext e))) (\<lambda>ciphertext.
          if length ciphertext < 16 \<or> length ciphertext > MAX_PLAINTEXT_BYTES + 16
          then Inl InvalidEnvelope else Inr ())))))"

definition envelope_encode :: "vault \<Rightarrow> protected_envelope \<Rightarrow> protected_store_error + string" where
  "envelope_encode V e =
     bindE (envelope_validate V e) (\<lambda>_. ok_or InvalidEnvelope (co_write (vt_envelope V) e))"

definition envelope_decode :: "vault \<Rightarrow> string \<Rightarrow> protected_store_error + protected_envelope" where
  "envelope_decode V encoded =
     (if length encoded > MAX_ENCODED_BYTES then Inl ContentTooLarge
      else
        bindE (ok_or InvalidEnvelope (co_read (vt_envelope V) encoded)) (\<lambda>e.
        bindE (envelope_validate V e) (\<lambda>_.
        bindE (envelope_encode V e) (\<lambda>canonical.
          if canonical \<noteq> encoded then Inl NonCanonicalEnvelope else Inr e))))"

definition envelope_reads :: "vault \<Rightarrow> protected_envelope \<Rightarrow> bool" where
  "envelope_reads V e \<longleftrightarrow> codec_reads (vt_envelope V) e
     \<and> (case co_write (vt_envelope V) e of Some b \<Rightarrow> length b \<le> MAX_ENCODED_BYTES | None \<Rightarrow> True)"

interpretation envelopes: canonical_document "envelope_validate V" "envelope_encode V" "envelope_decode V" "envelope_reads V"
  for V
proof unfold_locales
  fix e b
  show "envelope_encode V e = Inr b \<Longrightarrow> envelope_validate V e = Inr ()"
    by (simp add: envelope_encode_def result_simps)
  show "envelope_decode V b = Inr e \<Longrightarrow> envelope_encode V e = Inr b"
    by (auto simp: envelope_decode_def result_simps split: if_splits)
  show "envelope_encode V e = Inr b \<Longrightarrow> envelope_reads V e \<Longrightarrow> envelope_decode V b = Inr e"
    by (simp add: envelope_encode_def envelope_decode_def envelope_reads_def codec_reads_def result_simps)
qed

section \<open>Sealing and opening\<close>

definition content_aad :: "vault \<Rightarrow> string \<Rightarrow> string \<Rightarrow> protected_store_error + string" where
  "content_aad V protected_id installation_id =
     ok_or InvalidEnvelope (vt_jcs V (json_object
       [(''version'', JStr ENVELOPE_VERSION), (''algorithm'', JStr ALGORITHM),
        (''protected_id'', JStr protected_id), (''data_class'', JStr DATA_CLASS),
        (''installation_id'', JStr installation_id)]))"

definition wrapping_aad :: "vault \<Rightarrow> string \<Rightarrow> string \<Rightarrow> string \<Rightarrow> protected_store_error + string" where
  "wrapping_aad V protected_id installation_id wrapping_key_id =
     ok_or InvalidEnvelope (vt_jcs V (json_object
       [(''version'', JStr ENVELOPE_VERSION), (''algorithm'', JStr ALGORITHM),
        (''protected_id'', JStr protected_id), (''data_class'', JStr DATA_CLASS),
        (''installation_id'', JStr installation_id), (''wrapping_key_id'', JStr wrapping_key_id),
        (''purpose'', JStr ''wrapped_data_key'')]))"

definition encrypt :: "vault \<Rightarrow> string \<Rightarrow> string \<Rightarrow> string \<Rightarrow> string \<Rightarrow> protected_store_error + string" where
  "encrypt V key nonce plaintext aad = ok_or AuthenticationFailed (vt_encrypt V key nonce plaintext aad)"

definition decrypt :: "vault \<Rightarrow> string \<Rightarrow> string \<Rightarrow> string \<Rightarrow> string \<Rightarrow> protected_store_error + string" where
  "decrypt V key nonce ciphertext aad = ok_or AuthenticationFailed (vt_decrypt V key nonce ciphertext aad)"

definition key_array :: "string \<Rightarrow> protected_store_error + string" where
  "key_array v = (if length v \<noteq> 32 then Inl AuthenticationFailed else Inr v)"

definition random_fill :: "vault \<Rightarrow> nat \<Rightarrow> nat \<Rightarrow> protected_store_error + string" where
  "random_fill V i n = ok_or BackendUnavailable (vt_random V i n)"

definition random_nonce :: "vault \<Rightarrow> nat \<Rightarrow> protected_store_error + string" where
  "random_nonce V i = random_fill V i 12"

definition new_prefixed_id :: "vault \<Rightarrow> nat \<Rightarrow> string \<Rightarrow> protected_store_error + string" where
  "new_prefixed_id V i kind =
     bindE (random_fill V i 32) (\<lambda>bytes. Inr (kind @ ''_'' @ hex_encode bytes))"

definition new_installation_id :: "vault \<Rightarrow> nat \<Rightarrow> protected_store_error + string" where
  "new_installation_id V i = new_prefixed_id V i ''installation''"

definition new_key_id :: "vault \<Rightarrow> nat \<Rightarrow> protected_store_error + string" where
  "new_key_id V i = new_prefixed_id V i ''key''"

text \<open>\<open>seal\<close> draws the identifier, the data key and the two nonces in this order, from the \<open>i\<close>-th call on.\<close>

definition seal :: "vault \<Rightarrow> 's key_store \<Rightarrow> 's \<Rightarrow> nat \<Rightarrow> string \<Rightarrow> string \<Rightarrow> string
    \<Rightarrow> protected_store_error + protected_envelope" where
  "seal V K s i plaintext installation_id wrapping_key_id =
     (if length plaintext > MAX_PLAINTEXT_BYTES then Inl ContentTooLarge
      else
        bindE (key_locator_new installation_id wrapping_key_id) (\<lambda>locator.
        bindE (ks_load K locator s) (\<lambda>wrapping_key.
        bindE (new_prefixed_id V i ''protected'') (\<lambda>protected_id.
        bindE (content_aad V protected_id installation_id) (\<lambda>caad.
        bindE (wrapping_aad V protected_id installation_id wrapping_key_id) (\<lambda>waad.
        bindE (random_fill V (i + 1) 32) (\<lambda>data_key.
        bindE (random_nonce V (i + 2)) (\<lambda>content_nonce.
        bindE (random_nonce V (i + 3)) (\<lambda>wrapping_nonce.
        bindE (encrypt V data_key content_nonce plaintext caad) (\<lambda>ciphertext.
        bindE (encrypt V wrapping_key wrapping_nonce data_key waad) (\<lambda>wrapped_data_key.
          Inr \<lparr>pe_version = ENVELOPE_VERSION, pe_algorithm = ALGORITHM, pe_protected_id = protected_id,
            pe_data_class = DATA_CLASS, pe_installation_id = installation_id,
            pe_wrapping_key_id = wrapping_key_id, pe_content_nonce = vt_b64 V content_nonce,
            pe_wrapping_nonce = vt_b64 V wrapping_nonce,
            pe_wrapped_data_key = vt_b64 V wrapped_data_key,
            pe_ciphertext = vt_b64 V ciphertext\<rparr>)))))))))))"

definition open_envelope :: "vault \<Rightarrow> 's key_store \<Rightarrow> 's \<Rightarrow> protected_envelope \<Rightarrow> protected_store_error + string" where
  "open_envelope V K s e =
     bindE (envelope_validate V e) (\<lambda>_.
     bindE (key_locator_new (pe_installation_id e) (pe_wrapping_key_id e)) (\<lambda>locator.
     bindE (ks_load K locator s) (\<lambda>wrapping_key.
     bindE (decode_exact V 12 (pe_content_nonce e)) (\<lambda>content_nonce.
     bindE (decode_exact V 12 (pe_wrapping_nonce e)) (\<lambda>wrapping_nonce.
     bindE (decode_exact V 48 (pe_wrapped_data_key e)) (\<lambda>wrapped_data_key.
     bindE (wrapping_aad V (pe_protected_id e) (pe_installation_id e) (pe_wrapping_key_id e)) (\<lambda>waad.
     bindE (decrypt V wrapping_key wrapping_nonce wrapped_data_key waad) (\<lambda>unwrapped.
     bindE (key_array unwrapped) (\<lambda>data_key.
     bindE (content_aad V (pe_protected_id e) (pe_installation_id e)) (\<lambda>caad.
     bindE (ok_or InvalidEnvelope (vt_unb64 V (pe_ciphertext e))) (\<lambda>ciphertext.
       decrypt V data_key content_nonce ciphertext caad)))))))))))"

definition rewrap :: "vault \<Rightarrow> 's key_store \<Rightarrow> 's \<Rightarrow> nat \<Rightarrow> protected_envelope \<Rightarrow> string
    \<Rightarrow> protected_store_error + protected_envelope" where
  "rewrap V K s i e new_wrapping_key_id =
     bindE (envelope_validate V e) (\<lambda>_.
     bindE (key_locator_new (pe_installation_id e) (pe_wrapping_key_id e)) (\<lambda>old_locator.
     bindE (key_locator_new (pe_installation_id e) new_wrapping_key_id) (\<lambda>new_locator.
     bindE (ks_load K old_locator s) (\<lambda>old_wrapping_key.
     bindE (ks_load K new_locator s) (\<lambda>new_wrapping_key.
     bindE (decode_exact V 12 (pe_wrapping_nonce e)) (\<lambda>wrapping_nonce.
     bindE (wrapping_aad V (pe_protected_id e) (pe_installation_id e) (pe_wrapping_key_id e)) (\<lambda>old_aad.
     bindE (decode_exact V 48 (pe_wrapped_data_key e)) (\<lambda>wrapped.
     bindE (decrypt V old_wrapping_key wrapping_nonce wrapped old_aad) (\<lambda>unwrapped.
     bindE (key_array unwrapped) (\<lambda>data_key.
     bindE (random_nonce V i) (\<lambda>new_nonce.
     bindE (wrapping_aad V (pe_protected_id e) (pe_installation_id e) new_wrapping_key_id) (\<lambda>new_aad.
     bindE (encrypt V new_wrapping_key new_nonce data_key new_aad) (\<lambda>new_wrapped.
       Inr (e\<lparr>pe_wrapping_key_id := new_wrapping_key_id, pe_wrapping_nonce := vt_b64 V new_nonce,
         pe_wrapped_data_key := vt_b64 V new_wrapped\<rparr>))))))))))))))"

section \<open>What is sealed is opened\<close>

text \<open>
  The documented behaviour of the parameters: base64 reads what it writes, the random source fills
  the buffer it is given, and AES-256-GCM opens what it sealed and adds a tag of 16 bytes.
\<close>

definition vault_laws :: "vault \<Rightarrow> bool" where
  "vault_laws V \<longleftrightarrow>
     (\<forall>x. vt_unb64 V (vt_b64 V x) = Some x)
     \<and> (\<forall>i n bs. vt_random V i n = Some bs \<longrightarrow> length bs = n)
     \<and> (\<forall>k n p a c. vt_encrypt V k n p a = Some c \<longrightarrow> vt_decrypt V k n c a = Some p \<and> length c = length p + 16)"

lemma vault_lawsD:
  assumes "vault_laws V"
  shows "vt_unb64 V (vt_b64 V x) = Some x"
    and "random_fill V i n = Inr bs \<Longrightarrow> length bs = n"
    and "encrypt V k nonce p a = Inr c \<Longrightarrow> decrypt V k nonce c a = Inr p"
    and "encrypt V k nonce p a = Inr c \<Longrightarrow> length c = length p + 16"
  using assms by (auto simp: vault_laws_def random_fill_def encrypt_def decrypt_def result_simps)

lemma new_prefixed_id_valid:
  assumes "vault_laws V" and "new_prefixed_id V i kind = Inr v"
  shows "valid_prefixed_id v kind"
  using assms by (auto simp: new_prefixed_id_def result_simps valid_prefixed_id_iff hex_encode_lower_hex dest: vault_lawsD(2))

lemma seal_Inr:
  assumes laws: "vault_laws V" and seal: "seal V K s i plaintext inst key = Inr e"
  shows "open_envelope V K s e = Inr plaintext" and "envelope_validate V e = Inr ()"
proof -
  from seal obtain l wk pid caad waad dk cn wn ct wd where
    small: "length plaintext \<le> MAX_PLAINTEXT_BYTES"
    and l: "key_locator_new inst key = Inr l" and wk: "ks_load K l s = Inr wk"
    and pid: "new_prefixed_id V i ''protected'' = Inr pid"
    and aads: "content_aad V pid inst = Inr caad" "wrapping_aad V pid inst key = Inr waad"
    and dk: "random_fill V (i + 1) 32 = Inr dk" and cn: "random_fill V (i + 2) 12 = Inr cn"
    and wn: "random_fill V (i + 3) 12 = Inr wn"
    and ct: "encrypt V dk cn plaintext caad = Inr ct" and wd: "encrypt V wk wn dk waad = Inr wd"
    and e: "e = \<lparr>pe_version = ENVELOPE_VERSION, pe_algorithm = ALGORITHM, pe_protected_id = pid,
            pe_data_class = DATA_CLASS, pe_installation_id = inst, pe_wrapping_key_id = key,
            pe_content_nonce = vt_b64 V cn, pe_wrapping_nonce = vt_b64 V wn,
            pe_wrapped_data_key = vt_b64 V wd, pe_ciphertext = vt_b64 V ct\<rparr>"
    unfolding seal_def random_nonce_def by (auto simp: bindE_eq_Inr split: if_splits)
  note V = vault_lawsD [OF laws]
  note lengths = V(2) [OF dk] V(2) [OF cn] V(2) [OF wn] V(4) [OF ct] V(4) [OF wd]
  have ids: "valid_prefixed_id inst ''installation''" "valid_prefixed_id key ''key''"
    using l by (simp_all add: key_locator_new_Inr)
  show valid: "envelope_validate V e = Inr ()"
    using small by (simp add: envelope_validate_def e ids new_prefixed_id_valid [OF laws pid] decode_exact_def V(1) ok_or_def lengths)
  show "open_envelope V K s e = Inr plaintext"
    by (simp add: open_envelope_def valid)
      (simp add: e l wk aads decode_exact_def V(1) ok_or_def lengths V(3) [OF ct] V(3) [OF wd] key_array_def)
qed

lemma rewrap_Inr:
  assumes laws: "vault_laws V" and rewrap: "rewrap V K s i e key = Inr e'"
  shows "open_envelope V K s e' = open_envelope V K s e" and "envelope_validate V e' = Inr ()"
    and "e' = e\<lparr>pe_wrapping_key_id := key, pe_wrapping_nonce := pe_wrapping_nonce e', pe_wrapped_data_key := pe_wrapped_data_key e'\<rparr>"
proof -
  from rewrap obtain ol nl ok nk wn oa wr dk nn na nw where
    valid: "envelope_validate V e = Inr ()"
    and ol: "key_locator_new (pe_installation_id e) (pe_wrapping_key_id e) = Inr ol"
    and nl: "key_locator_new (pe_installation_id e) key = Inr nl"
    and ok: "ks_load K ol s = Inr ok" and nk: "ks_load K nl s = Inr nk"
    and wn: "decode_exact V 12 (pe_wrapping_nonce e) = Inr wn"
    and oa: "wrapping_aad V (pe_protected_id e) (pe_installation_id e) (pe_wrapping_key_id e) = Inr oa"
    and wr: "decode_exact V 48 (pe_wrapped_data_key e) = Inr wr"
    and dk: "decrypt V ok wn wr oa = Inr dk" "length dk = 32"
    and nn: "random_fill V i 12 = Inr nn"
    and na: "wrapping_aad V (pe_protected_id e) (pe_installation_id e) key = Inr na"
    and nw: "encrypt V nk nn dk na = Inr nw"
    and e': "e' = e\<lparr>pe_wrapping_key_id := key, pe_wrapping_nonce := vt_b64 V nn, pe_wrapped_data_key := vt_b64 V nw\<rparr>"
    unfolding rewrap_def random_nonce_def key_array_def by (auto simp: bindE_eq_Inr split: if_splits)
  note V = vault_lawsD [OF laws]
  note lengths = V(2) [OF nn] V(4) [OF nw] dk(2)
  have exact: "decode_exact V n (vt_b64 V x) = Inr x" if "length x = n" for n x
    using that by (simp add: decode_exact_def V(1) ok_or_def)
  have key: "valid_prefixed_id key ''key''" using nl by (simp add: key_locator_new_Inr)
  have "envelope_validate V e' = envelope_validate V e"
    using valid key lengths unfolding envelope_validate_def e' by (auto simp: exact bindE_eq_Inr split: if_splits)
  then show valid': "envelope_validate V e' = Inr ()" using valid by simp
  show "open_envelope V K s e' = open_envelope V K s e"
    unfolding open_envelope_def valid valid'
    by (simp add: e' ol nl ok nk wn oa wr na exact lengths dk(1) V(3) [OF nw])
  show "e' = e\<lparr>pe_wrapping_key_id := key, pe_wrapping_nonce := pe_wrapping_nonce e', pe_wrapped_data_key := pe_wrapped_data_key e'\<rparr>"
    by (simp add: e')
qed

end
