(* ===== verification/Protected_Records.thy ===== *)
theory Protected_Records
  imports Sealed_Envelope
begin

text \<open>
  The metadata of the protected store (\<open>records.rs\<close>): backup manifests and their acknowledgments,
  the index of the backups that hold an envelope, deletion plans, journals and receipts, put journals
  and the index of the envelopes under a key. Each type has its \<open>validate\<close>, \<open>encode\<close> and
  \<open>decode\<close>, and keeps the contract of a canonical document.
\<close>

section \<open>Digests, references and the canonical form\<close>

definition valid_store_digest :: "string \<Rightarrow> bool" where
  "valid_store_digest v =
     (case strip_prefix ''sha256:'' v of
        None \<Rightarrow> False
      | Some hex \<Rightarrow> length hex = 64 \<and> list_all is_lower_hex hex)"

definition valid_reference_id :: "string \<Rightarrow> bool" where
  "valid_reference_id v \<longleftrightarrow> v \<noteq> [] \<and> length v \<le> 128
     \<and> list_all (\<lambda>b. is_ascii_alphanumeric b \<or> b \<in> set ''-_.:/'') v"

definition canonical :: "'a codec \<Rightarrow> 'a \<Rightarrow> protected_store_error \<Rightarrow> protected_store_error + string" where
  "canonical c x e = ok_or e (co_write c x)"

text \<open>The shape that the \<open>encode\<close> and \<open>decode\<close> of every type in the file have.\<close>

definition encode_record :: "('a \<Rightarrow> protected_store_error + unit) \<Rightarrow> protected_store_error \<Rightarrow> 'a codec \<Rightarrow> 'a
    \<Rightarrow> protected_store_error + string" where
  "encode_record validate e c x = bindE (validate x) (\<lambda>_. canonical c x e)"

definition decode_record :: "('a \<Rightarrow> protected_store_error + unit) \<Rightarrow> protected_store_error \<Rightarrow> 'a codec \<Rightarrow> string
    \<Rightarrow> protected_store_error + 'a" where
  "decode_record validate e c encoded =
     bindE (ok_or e (co_read c encoded)) (\<lambda>x.
     bindE (validate x) (\<lambda>_.
     bindE (encode_record validate e c x) (\<lambda>text.
       if text \<noteq> encoded then Inl NonCanonicalMetadata else Inr x)))"

interpretation documents: canonical_document validate "encode_record validate e c" "decode_record validate e c" "codec_reads c"
  for validate :: "'a \<Rightarrow> protected_store_error + unit" and e and c
  by unfold_locales
    (auto simp: encode_record_def decode_record_def canonical_def codec_reads_def result_simps split: if_splits)

lemma valid_store_digest_iff:
  "valid_store_digest v \<longleftrightarrow> (\<exists>hex. v = ''sha256:'' @ hex \<and> length hex = 64 \<and> list_all is_lower_hex hex)"
proof (cases "strip_prefix ''sha256:'' v")
  case None
  then have "v \<noteq> ''sha256:'' @ hex" for hex by (metis option.distinct(1) strip_prefix_append)
  then show ?thesis by (simp add: valid_store_digest_def None)
next
  case (Some hex)
  then have v: "v = ''sha256:'' @ hex" by (simp only: strip_prefix_eq_Some)
  show ?thesis unfolding valid_store_digest_def Some by (simp add: v)
qed

section \<open>Backups\<close>

definition BACKUP_MANIFEST_VERSION :: string where
  "BACKUP_MANIFEST_VERSION = ''phase4-protected-backup-manifest-1''"

definition BACKUP_REFERENCE_INDEX_VERSION :: string where
  "BACKUP_REFERENCE_INDEX_VERSION = ''phase4-protected-backup-reference-index-1''"

definition BACKUP_ACKNOWLEDGMENT_VERSION :: string where
  "BACKUP_ACKNOWLEDGMENT_VERSION = ''phase4-protected-backup-acknowledgment-1''"

record backup_entry =
  be_envelope_digest :: string
  be_envelope_bytes :: u64
  be_protected_id :: string
  be_wrapping_key_id :: string

record backup_manifest =
  bm_version :: string
  bm_installation_id :: string
  bm_entries :: "backup_entry list"

text \<open>The loop over the entries, with the digest of the entry before.\<close>

fun entries_valid :: "string option \<Rightarrow> backup_entry list \<Rightarrow> bool" where
  "entries_valid previous [] \<longleftrightarrow> True"
| "entries_valid previous (e # es) \<longleftrightarrow>
     valid_store_digest (be_envelope_digest e) \<and> be_envelope_bytes e \<noteq> 0
     \<and> valid_prefixed_id (be_protected_id e) ''protected'' \<and> valid_prefixed_id (be_wrapping_key_id e) ''key''
     \<and> (case previous of None \<Rightarrow> True | Some p \<Rightarrow> p < be_envelope_digest e)
     \<and> entries_valid (Some (be_envelope_digest e)) es"

definition manifest_check :: "backup_manifest \<Rightarrow> protected_store_error + unit" where
  "manifest_check m =
     (if bm_version m \<noteq> BACKUP_MANIFEST_VERSION \<or> \<not> valid_prefixed_id (bm_installation_id m) ''installation''
         \<or> bm_entries m = []
      then Inl InvalidBackupManifest
      else if entries_valid None (bm_entries m) then Inr () else Inl InvalidBackupManifest)"

record backup_reference_index =
  br_version :: string
  br_envelope_digest :: string
  br_manifest_digests :: "string list"

fun digests_valid :: "string option \<Rightarrow> string list \<Rightarrow> bool" where
  "digests_valid previous [] \<longleftrightarrow> True"
| "digests_valid previous (d # ds) \<longleftrightarrow>
     valid_store_digest d \<and> (case previous of None \<Rightarrow> True | Some p \<Rightarrow> p < d) \<and> digests_valid (Some d) ds"

definition reference_index_check :: "backup_reference_index \<Rightarrow> protected_store_error + unit" where
  "reference_index_check i =
     (if br_version i \<noteq> BACKUP_REFERENCE_INDEX_VERSION \<or> \<not> valid_store_digest (br_envelope_digest i)
         \<or> br_manifest_digests i = []
      then Inl InvalidBackupManifest
      else if digests_valid None (br_manifest_digests i) then Inr () else Inl InvalidBackupManifest)"

datatype acknowledgment_state = AckPrepared | AckCommitted

record backup_acknowledgment =
  ba_version :: string
  ba_state :: acknowledgment_state
  ba_manifest :: backup_manifest

definition acknowledgment_check :: "backup_acknowledgment \<Rightarrow> protected_store_error + unit" where
  "acknowledgment_check a =
     (if ba_version a \<noteq> BACKUP_ACKNOWLEDGMENT_VERSION then Inl InvalidBackupManifest
      else manifest_check (ba_manifest a))"

record backup_receipt =
  bv_manifest_digest :: string
  bv_envelope_count :: u64
  bv_total_envelope_bytes :: u64
  bv_every_envelope_decryptable :: bool

section \<open>Deletions\<close>

definition DELETION_PLAN_VERSION :: string where
  "DELETION_PLAN_VERSION = ''phase4-protected-deletion-plan-1''"

definition DELETION_RECEIPT_VERSION :: string where
  "DELETION_RECEIPT_VERSION = ''phase4-protected-deletion-receipt-1''"

definition DELETION_JOURNAL_VERSION :: string where
  "DELETION_JOURNAL_VERSION = ''phase4-protected-deletion-journal-1''"

datatype deletion_reference_kind = ArtifactReference | BackupReference | SharedWrappingKey

datatype deletion_reference = Deletion_Reference (dr_kind: deletion_reference_kind) (dr_reference_id: string)

text \<open>The derived orders: the constructors in the order of the source, then the fields in theirs.\<close>

fun kind_rank :: "deletion_reference_kind \<Rightarrow> nat" where
  "kind_rank ArtifactReference = 0"
| "kind_rank BackupReference = 1"
| "kind_rank SharedWrappingKey = 2"

lemma kind_rank_inj [simp]: "kind_rank k = kind_rank k' \<longleftrightarrow> k = k'"
  by (cases k; cases k') simp_all

instantiation deletion_reference :: linorder
begin

definition less_deletion_reference :: "deletion_reference \<Rightarrow> deletion_reference \<Rightarrow> bool" where
  "less_deletion_reference r q \<longleftrightarrow> kind_rank (dr_kind r) < kind_rank (dr_kind q)
     \<or> dr_kind r = dr_kind q \<and> dr_reference_id r < dr_reference_id q"

definition less_eq_deletion_reference :: "deletion_reference \<Rightarrow> deletion_reference \<Rightarrow> bool" where
  "less_eq_deletion_reference r q \<longleftrightarrow> r < q \<or> r = (q :: deletion_reference)"

instance
proof
  fix r q p :: deletion_reference
  show "r < q \<longleftrightarrow> r \<le> q \<and> \<not> q \<le> r"
    by (auto simp: less_eq_deletion_reference_def less_deletion_reference_def)
  show "r \<le> r" by (simp add: less_eq_deletion_reference_def)
  show "r \<le> q \<Longrightarrow> q \<le> p \<Longrightarrow> r \<le> p"
    by (auto simp: less_eq_deletion_reference_def less_deletion_reference_def)
  show "r \<le> q \<Longrightarrow> q \<le> r \<Longrightarrow> r = q"
    by (auto simp: less_eq_deletion_reference_def less_deletion_reference_def)
  show "r \<le> q \<or> q \<le> r"
    using kind_rank_inj [of "dr_kind r" "dr_kind q"]
    by (auto simp: less_eq_deletion_reference_def less_deletion_reference_def not_less_iff_gr_or_eq
        intro: deletion_reference.expand)
qed

end

record deletion_plan =
  dp_version :: string
  dp_envelope_digest :: string
  dp_installation_id :: string
  dp_protected_id :: string
  dp_wrapping_key_id :: string
  dp_references :: "deletion_reference list"

fun references_valid :: "deletion_reference option \<Rightarrow> deletion_reference list \<Rightarrow> bool" where
  "references_valid previous [] \<longleftrightarrow> True"
| "references_valid previous (r # rs) \<longleftrightarrow>
     valid_reference_id (dr_reference_id r) \<and> (case previous of None \<Rightarrow> True | Some p \<Rightarrow> p < r)
     \<and> references_valid (Some r) rs"

definition plan_check :: "deletion_plan \<Rightarrow> protected_store_error + unit" where
  "plan_check p =
     (if dp_version p \<noteq> DELETION_PLAN_VERSION \<or> \<not> valid_store_digest (dp_envelope_digest p)
         \<or> \<not> valid_prefixed_id (dp_installation_id p) ''installation''
         \<or> \<not> valid_prefixed_id (dp_protected_id p) ''protected''
         \<or> \<not> valid_prefixed_id (dp_wrapping_key_id p) ''key''
      then Inl InvalidDeletionPlan
      else if references_valid None (dp_references p) then Inr () else Inl InvalidDeletionPlan)"

datatype key_deletion_status = DeletedAndAbsenceVerified | AlreadyAbsentAndVerified

datatype blob_deletion_status = Unlinked

datatype erasure_scope = LogicalStoreAndWrappingKeyOnlyUncontrolledCopiesMayRemain

record deletion_receipt =
  de_version :: string
  de_plan_digest :: string
  de_envelope_digest :: string
  de_protected_id :: string
  de_wrapping_key :: key_deletion_status
  de_blob :: blob_deletion_status
  de_erasure_scope :: erasure_scope

definition deletion_receipt_check :: "deletion_receipt \<Rightarrow> protected_store_error + unit" where
  "deletion_receipt_check r =
     (if de_version r \<noteq> DELETION_RECEIPT_VERSION \<or> \<not> valid_store_digest (de_plan_digest r)
         \<or> \<not> valid_store_digest (de_envelope_digest r)
         \<or> \<not> valid_prefixed_id (de_protected_id r) ''protected''
      then Inl InvalidDeletionReceipt else Inr ())"

datatype deletion_state = DelPrepared | BlobUnlinked | TransactionUnlinked | ReferenceRemoved | KeyDeleted

fun deletion_rank :: "deletion_state \<Rightarrow> nat" where
  "deletion_rank DelPrepared = 0"
| "deletion_rank BlobUnlinked = 1"
| "deletion_rank TransactionUnlinked = 2"
| "deletion_rank ReferenceRemoved = 3"
| "deletion_rank KeyDeleted = 4"

instantiation deletion_state :: linorder
begin

definition less_deletion_state :: "deletion_state \<Rightarrow> deletion_state \<Rightarrow> bool" where
  "less_deletion_state a b \<longleftrightarrow> deletion_rank a < deletion_rank b"

definition less_eq_deletion_state :: "deletion_state \<Rightarrow> deletion_state \<Rightarrow> bool" where
  "less_eq_deletion_state a b \<longleftrightarrow> deletion_rank a \<le> deletion_rank b"

instance
proof
  fix a b c :: deletion_state
  show "a \<le> b \<Longrightarrow> b \<le> a \<Longrightarrow> a = b"
    by (cases a; cases b) (simp_all add: less_eq_deletion_state_def)
qed (auto simp: less_deletion_state_def less_eq_deletion_state_def)

end

record deletion_journal =
  dj_version :: string
  dj_state :: deletion_state
  dj_plan_digest :: string
  dj_plan :: deletion_plan
  dj_wrapping_key :: "key_deletion_status option"

definition deletion_journal_check :: "deletion_journal \<Rightarrow> protected_store_error + unit" where
  "deletion_journal_check j =
     bindE (plan_check (dj_plan j)) (\<lambda>_.
       if dj_version j \<noteq> DELETION_JOURNAL_VERSION \<or> \<not> valid_store_digest (dj_plan_digest j)
          \<or> dp_references (dj_plan j) \<noteq> []
          \<or> \<not> (case dj_state j of KeyDeleted \<Rightarrow> dj_wrapping_key j \<noteq> None | _ \<Rightarrow> dj_wrapping_key j = None)
       then Inl InvalidDeletionPlan else Inr ())"

section \<open>Put journals and key references\<close>

definition PUT_JOURNAL_VERSION :: string where
  "PUT_JOURNAL_VERSION = ''phase4-protected-put-journal-1''"

definition KEY_REFERENCE_VERSION :: string where
  "KEY_REFERENCE_VERSION = ''phase4-protected-key-reference-1''"

definition KEY_REFERENCE_INDEX_VERSION :: string where
  "KEY_REFERENCE_INDEX_VERSION = ''phase4-protected-key-reference-index-1''"

datatype put_state = PutPending | PutCommitted

record put_journal =
  pj_version :: string
  pj_state :: put_state
  pj_envelope_digest :: string
  pj_envelope_bytes :: u64
  pj_installation_id :: string
  pj_protected_id :: string
  pj_wrapping_key_id :: string

definition put_journal_check :: "put_journal \<Rightarrow> protected_store_error + unit" where
  "put_journal_check j =
     (if pj_version j \<noteq> PUT_JOURNAL_VERSION \<or> \<not> valid_store_digest (pj_envelope_digest j)
         \<or> pj_envelope_bytes j = 0
         \<or> \<not> valid_prefixed_id (pj_installation_id j) ''installation''
         \<or> \<not> valid_prefixed_id (pj_protected_id j) ''protected''
         \<or> \<not> valid_prefixed_id (pj_wrapping_key_id j) ''key''
      then Inl InvalidTransaction else Inr ())"

record key_reference =
  kf_version :: string
  kf_envelope_digest :: string
  kf_installation_id :: string
  kf_protected_id :: string
  kf_wrapping_key_id :: string

definition key_reference_check :: "key_reference \<Rightarrow> protected_store_error + unit" where
  "key_reference_check r =
     (if kf_version r \<noteq> KEY_REFERENCE_VERSION \<or> \<not> valid_store_digest (kf_envelope_digest r)
         \<or> \<not> valid_prefixed_id (kf_installation_id r) ''installation''
         \<or> \<not> valid_prefixed_id (kf_protected_id r) ''protected''
         \<or> \<not> valid_prefixed_id (kf_wrapping_key_id r) ''key''
      then Inl InvalidTransaction else Inr ())"

record key_reference_index =
  ki_version :: string
  ki_installation_id :: string
  ki_wrapping_key_id :: string
  ki_entries :: "key_reference list"

fun key_entries_check :: "string \<Rightarrow> string \<Rightarrow> string option \<Rightarrow> key_reference list \<Rightarrow> protected_store_error + unit" where
  "key_entries_check inst key previous [] = Inr ()"
| "key_entries_check inst key previous (r # rs) =
     bindE (key_reference_check r) (\<lambda>_.
       if kf_installation_id r \<noteq> inst \<or> kf_wrapping_key_id r \<noteq> key
          \<or> (case previous of None \<Rightarrow> False | Some p \<Rightarrow> p \<ge> kf_envelope_digest r)
       then Inl InvalidTransaction
       else key_entries_check inst key (Some (kf_envelope_digest r)) rs)"

definition key_index_check :: "key_reference_index \<Rightarrow> protected_store_error + unit" where
  "key_index_check i =
     (if ki_version i \<noteq> KEY_REFERENCE_INDEX_VERSION \<or> \<not> valid_prefixed_id (ki_installation_id i) ''installation''
         \<or> \<not> valid_prefixed_id (ki_wrapping_key_id i) ''key'' \<or> ki_entries i = []
      then Inl InvalidTransaction
      else key_entries_check (ki_installation_id i) (ki_wrapping_key_id i) None (ki_entries i))"

section \<open>Writing and reading the records\<close>

text \<open>Serde's writers and readers of the eight types, the parameters of the crate's metadata.\<close>

record store_codecs =
  cd_manifest :: "backup_manifest codec"
  cd_reference_index :: "backup_reference_index codec"
  cd_acknowledgment :: "backup_acknowledgment codec"
  cd_plan :: "deletion_plan codec"
  cd_deletion_receipt :: "deletion_receipt codec"
  cd_deletion_journal :: "deletion_journal codec"
  cd_put_journal :: "put_journal codec"
  cd_key_index :: "key_reference_index codec"

definition manifest_encode :: "store_codecs \<Rightarrow> backup_manifest \<Rightarrow> protected_store_error + string" where
  "manifest_encode C = encode_record manifest_check InvalidBackupManifest (cd_manifest C)"

definition manifest_decode :: "store_codecs \<Rightarrow> string \<Rightarrow> protected_store_error + backup_manifest" where
  "manifest_decode C = decode_record manifest_check InvalidBackupManifest (cd_manifest C)"

definition reference_index_encode :: "store_codecs \<Rightarrow> backup_reference_index \<Rightarrow> protected_store_error + string" where
  "reference_index_encode C = encode_record reference_index_check InvalidBackupManifest (cd_reference_index C)"

definition reference_index_decode :: "store_codecs \<Rightarrow> string \<Rightarrow> protected_store_error + backup_reference_index" where
  "reference_index_decode C = decode_record reference_index_check InvalidBackupManifest (cd_reference_index C)"

definition acknowledgment_encode :: "store_codecs \<Rightarrow> backup_acknowledgment \<Rightarrow> protected_store_error + string" where
  "acknowledgment_encode C = encode_record acknowledgment_check InvalidBackupManifest (cd_acknowledgment C)"

definition acknowledgment_decode :: "store_codecs \<Rightarrow> string \<Rightarrow> protected_store_error + backup_acknowledgment" where
  "acknowledgment_decode C = decode_record acknowledgment_check InvalidBackupManifest (cd_acknowledgment C)"

definition plan_encode :: "store_codecs \<Rightarrow> deletion_plan \<Rightarrow> protected_store_error + string" where
  "plan_encode C = encode_record plan_check InvalidDeletionPlan (cd_plan C)"

definition plan_decode :: "store_codecs \<Rightarrow> string \<Rightarrow> protected_store_error + deletion_plan" where
  "plan_decode C = decode_record plan_check InvalidDeletionPlan (cd_plan C)"

definition deletion_receipt_encode :: "store_codecs \<Rightarrow> deletion_receipt \<Rightarrow> protected_store_error + string" where
  "deletion_receipt_encode C = encode_record deletion_receipt_check InvalidDeletionReceipt (cd_deletion_receipt C)"

definition deletion_receipt_decode :: "store_codecs \<Rightarrow> string \<Rightarrow> protected_store_error + deletion_receipt" where
  "deletion_receipt_decode C = decode_record deletion_receipt_check InvalidDeletionReceipt (cd_deletion_receipt C)"

definition deletion_journal_encode :: "store_codecs \<Rightarrow> deletion_journal \<Rightarrow> protected_store_error + string" where
  "deletion_journal_encode C = encode_record deletion_journal_check InvalidDeletionPlan (cd_deletion_journal C)"

definition deletion_journal_decode :: "store_codecs \<Rightarrow> string \<Rightarrow> protected_store_error + deletion_journal" where
  "deletion_journal_decode C = decode_record deletion_journal_check InvalidDeletionPlan (cd_deletion_journal C)"

definition put_journal_encode :: "store_codecs \<Rightarrow> put_journal \<Rightarrow> protected_store_error + string" where
  "put_journal_encode C = encode_record put_journal_check InvalidTransaction (cd_put_journal C)"

definition put_journal_decode :: "store_codecs \<Rightarrow> string \<Rightarrow> protected_store_error + put_journal" where
  "put_journal_decode C = decode_record put_journal_check InvalidTransaction (cd_put_journal C)"

definition key_index_encode :: "store_codecs \<Rightarrow> key_reference_index \<Rightarrow> protected_store_error + string" where
  "key_index_encode C = encode_record key_index_check InvalidTransaction (cd_key_index C)"

definition key_index_decode :: "store_codecs \<Rightarrow> string \<Rightarrow> protected_store_error + key_reference_index" where
  "key_index_decode C = decode_record key_index_check InvalidTransaction (cd_key_index C)"

lemmas record_codec_defs =
  manifest_encode_def manifest_decode_def
  reference_index_encode_def reference_index_decode_def
  acknowledgment_encode_def acknowledgment_decode_def
  plan_encode_def plan_decode_def
  deletion_receipt_encode_def deletion_receipt_decode_def
  deletion_journal_encode_def deletion_journal_decode_def
  put_journal_encode_def put_journal_decode_def
  key_index_encode_def key_index_decode_def

section \<open>What a valid index holds\<close>

text \<open>The loops check that the digests are strictly increasing: no digest occurs twice.\<close>

lemma entries_valid_sorted:
  "entries_valid previous es \<Longrightarrow>
     sorted_wrt (<) (map be_envelope_digest es)
     \<and> list_all (\<lambda>e. valid_store_digest (be_envelope_digest e)) es
     \<and> (\<forall>p. previous = Some p \<longrightarrow> list_all (\<lambda>e. p < be_envelope_digest e) es)"
  by (induction previous es rule: entries_valid.induct)
    (auto simp: list_all_iff split: option.splits dest: order.strict_trans)

lemma digests_valid_sorted:
  "digests_valid previous ds \<Longrightarrow>
     sorted_wrt (<) ds \<and> list_all valid_store_digest ds \<and> (\<forall>p. previous = Some p \<longrightarrow> list_all (\<lambda>d. p < d) ds)"
  by (induction previous ds rule: digests_valid.induct)
    (auto simp: list_all_iff split: option.splits dest: order.strict_trans)

lemma references_valid_sorted:
  "references_valid previous rs \<Longrightarrow>
     sorted_wrt (<) rs \<and> (\<forall>p. previous = Some p \<longrightarrow> list_all (\<lambda>r. p < r) rs)"
  by (induction previous rs rule: references_valid.induct)
    (auto simp: list_all_iff split: option.splits dest: order.strict_trans)

lemma key_entries_sorted:
  "key_entries_check inst key previous rs = Inr () \<Longrightarrow>
     sorted_wrt (<) (map kf_envelope_digest rs)
     \<and> list_all (\<lambda>r. kf_installation_id r = inst \<and> kf_wrapping_key_id r = key \<and> key_reference_check r = Inr ()) rs
     \<and> (\<forall>p. previous = Some p \<longrightarrow> list_all (\<lambda>r. p < kf_envelope_digest r) rs)"
proof (induction rs arbitrary: previous)
  case (Cons r rs)
  from Cons.prems have rest: "key_entries_check inst key (Some (kf_envelope_digest r)) rs = Inr ()"
    and first: "key_reference_check r = Inr ()" "kf_installation_id r = inst" "kf_wrapping_key_id r = key"
    and above: "\<forall>p. previous = Some p \<longrightarrow> p < kf_envelope_digest r"
    by (auto simp: bindE_eq_Inr split: if_splits option.splits)
  show ?case using Cons.IH [OF rest] first above by (auto simp: list_all_iff dest: order.strict_trans)
qed simp

end
