(* ===== verification/Protected_Theorems.thy ===== *)
theory Protected_Theorems
  imports Protected_Records
begin

text \<open>
  The properties of the protected store, with a concrete cipher, key ring and codec in which their
  hypotheses hold.
\<close>

section \<open>A concrete vault\<close>

definition demo_cipher :: "protected_envelope codec \<Rightarrow> vault" where
  "demo_cipher c =
     \<lparr>vt_b64 = id, vt_unb64 = Some,
      vt_encrypt = (\<lambda>k n p a. Some (p @ replicate 16 CHR ''t'')),
      vt_decrypt = (\<lambda>k n c a. if drop (length c - 16) c = replicate 16 CHR ''t'' then Some (take (length c - 16) c) else None),
      vt_jcs = (\<lambda>_. Some []), vt_envelope = c, vt_random = (\<lambda>_ n. Some (replicate n CHR ''r''))\<rparr>"

definition no_codec :: "'a codec" where
  "no_codec = \<lparr>co_write = (\<lambda>_. None), co_read = (\<lambda>_. None)\<rparr>"

definition one_codec :: "'a \<Rightarrow> 'a codec" where
  "one_codec x = \<lparr>co_write = (\<lambda>y. if y = x then Some ''x'' else None), co_read = (\<lambda>b. if b = ''x'' then Some x else None)\<rparr>"

text \<open>A key ring that holds the secrets of its entries.\<close>

definition demo_ring :: "(string \<Rightarrow> string option) keyring" where
  "demo_ring =
     \<lparr>kr_entry = (\<lambda>_ _. Inr ()), kr_get = (\<lambda>_ a r. case r a of None \<Rightarrow> Inl NoEntry | Some k \<Rightarrow> Inr k),
      kr_set = (\<lambda>_ a k r. (Inr (), r(a \<mapsto> k))), kr_delete = (\<lambda>_ a r. (Inr (), r(a := None)))\<rparr>"

definition demo_hex :: string where
  "demo_hex = replicate 64 CHR ''a''"

definition demo_secret :: string where
  "demo_secret = replicate 32 CHR ''k''"

definition demo_installation :: string where
  "demo_installation = ''installation_'' @ demo_hex"

definition demo_key_id :: string where
  "demo_key_id = ''key_'' @ demo_hex"

lemma demo_vault_laws: "vault_laws (demo_cipher c)"
  by (simp add: vault_laws_def demo_cipher_def)

lemma demo_hex_ok: "length demo_hex = 64" "list_all is_lower_hex demo_hex"
  by (simp_all add: demo_hex_def is_lower_hex_def is_ascii_digit_def less_eq_char_def list_all_iff)

lemma demo_ids_valid: "valid_prefixed_id demo_installation ''installation''" "valid_prefixed_id demo_key_id ''key''"
  "valid_prefixed_id (''protected_'' @ demo_hex) ''protected''" "valid_store_digest (''sha256:'' @ demo_hex)"
  by (simp_all add: valid_prefixed_id_iff valid_store_digest_iff demo_installation_def demo_key_id_def demo_hex_ok)

lemma demo_seals:
  "\<exists>e. seal (demo_cipher c) (system_key_store demo_ring) (\<lambda>_. Some demo_secret) 0 ''secret'' demo_installation demo_key_id = Inr e"
  by (simp add: seal_def MAX_PLAINTEXT_BYTES_def key_locator_new_def demo_ids_valid system_key_store_def system_load_def
      native_entry_def demo_ring_def demo_secret_def demo_cipher_def new_prefixed_id_def random_fill_def ok_or_def
      content_aad_def wrapping_aad_def random_nonce_def encrypt_def)

section \<open>Envelopes\<close>

text \<open>C24 (sealing). Whatever is sealed under a key of the key store is opened again, byte for byte, while the key store
  holds that key; the envelope is valid.\<close>

theorem sealed_content_opens:
  assumes "vault_laws V" and "seal V K s i plaintext installation_id key_id = Inr e"
  shows "open_envelope V K s e = Inr plaintext \<and> envelope_validate V e = Inr ()"
  using seal_Inr [OF assms] by simp

theorem sealed_content_opens_witness:
  "\<exists>e. open_envelope (demo_cipher no_codec) (system_key_store demo_ring) (\<lambda>_. Some demo_secret) e = Inr ''secret''"
proof -
  obtain e where e: "seal (demo_cipher no_codec) (system_key_store demo_ring) (\<lambda>_. Some demo_secret) 0 ''secret'' demo_installation demo_key_id = Inr e"
    using demo_seals by blast
  from sealed_content_opens [OF demo_vault_laws e] show ?thesis by blast
qed

text \<open>C25 (rotation). Rewrapping an envelope under another key changes nothing but the identifier of the key, the nonce
  and the wrapped data key; the new envelope is valid and opens, under the same key store, to exactly what the old one
  does, error or content.\<close>

theorem rewrap_keeps_content:
  assumes "vault_laws V" and "rewrap V K s i e key_id = Inr e'"
  shows "open_envelope V K s e' = open_envelope V K s e \<and> envelope_validate V e' = Inr ()
    \<and> pe_wrapping_key_id e' = key_id \<and> pe_protected_id e' = pe_protected_id e
    \<and> pe_installation_id e' = pe_installation_id e \<and> pe_content_nonce e' = pe_content_nonce e
    \<and> pe_ciphertext e' = pe_ciphertext e"
  using rewrap_Inr(1,2) [OF assms] arg_cong [OF rewrap_Inr(3) [OF assms], of pe_wrapping_key_id]
    arg_cong [OF rewrap_Inr(3) [OF assms], of pe_protected_id] arg_cong [OF rewrap_Inr(3) [OF assms], of pe_installation_id]
    arg_cong [OF rewrap_Inr(3) [OF assms], of pe_content_nonce] arg_cong [OF rewrap_Inr(3) [OF assms], of pe_ciphertext]
  by simp

theorem rewrap_keeps_content_witness:
  "\<exists>e e'. open_envelope (demo_cipher no_codec) (system_key_store demo_ring) (\<lambda>_. Some demo_secret) e = Inr ''secret''
     \<and> open_envelope (demo_cipher no_codec) (system_key_store demo_ring) (\<lambda>_. Some demo_secret) e' = Inr ''secret''
     \<and> pe_wrapping_key_id e' = ''key_'' @ replicate 64 CHR ''b''"
proof -
  let ?V = "demo_cipher no_codec" and ?K = "system_key_store demo_ring" and ?s = "\<lambda>_. Some demo_secret"
  let ?key = "''key_'' @ replicate 64 CHR ''b''"
  obtain e where e: "seal ?V ?K ?s 0 ''secret'' demo_installation demo_key_id = Inr e"
    using demo_seals by blast
  note opened = seal_Inr [OF demo_vault_laws e]
  have key: "valid_prefixed_id ?key ''key''"
    by (simp add: valid_prefixed_id_iff is_lower_hex_def less_eq_char_def list_all_iff)
  have "\<exists>e'. rewrap ?V ?K ?s 9 e ?key = Inr e'"
    using opened key unfolding open_envelope_def rewrap_def
    by (auto simp: bindE_eq_Inr key_locator_new_Inr system_key_store_def system_load_def native_entry_def demo_ring_def
        random_nonce_def random_fill_def demo_cipher_def ok_or_def wrapping_aad_def encrypt_def demo_secret_def)
  then obtain e' where e': "rewrap ?V ?K ?s 9 e ?key = Inr e'" by blast
  from rewrap_keeps_content [OF demo_vault_laws e'] opened(1) show ?thesis by auto
qed

text \<open>Canonical envelopes: An envelope is accepted in one form only: what \<open>decode\<close> accepts is within the size bound,
  is exactly what \<open>encode\<close> writes for the envelope it gives, and that envelope is valid.\<close>

lemma envelope_text_canonical:
  assumes "envelope_decode V b = Inr e"
  shows "envelope_encode V e = Inr b \<and> envelope_validate V e = Inr () \<and> length b \<le> MAX_ENCODED_BYTES
    \<and> pe_version e = ENVELOPE_VERSION \<and> pe_algorithm e = ALGORITHM
    \<and> (\<nexists>b'. b' \<noteq> b \<and> envelope_decode V b' = Inr e)"
proof -
  have "length b \<le> MAX_ENCODED_BYTES" using assms by (simp add: envelope_decode_def split: if_splits)
  moreover have "pe_version e = ENVELOPE_VERSION \<and> pe_algorithm e = ALGORITHM"
    using envelopes.decode_valid [OF assms] by (simp add: envelope_validate_def split: if_splits)
  ultimately show ?thesis
    using envelopes.decode_encode [OF assms] envelopes.decode_valid [OF assms] envelopes.one_text [OF assms] by auto
qed

section \<open>Keys\<close>

text \<open>C26 (key store). For every key ring, however it behaves: when the system's key store says it has stored a key, the
  key is the one it loads and it is ready; another key is then refused and leaves the ring unchanged; and once it says
  it has deleted the key, no key is loaded.\<close>

theorem key_store_verified:
  assumes "ks_store (system_key_store R) l key r = (Inr (), r')" and "length key = 32" and "key' \<noteq> key"
    and "ks_delete (system_key_store R) l r' = (Inr (), r'')"
  shows "ks_load (system_key_store R) l r' = Inr key \<and> ks_readiness (system_key_store R) l r' = Inr Ready
    \<and> ks_store (system_key_store R) l key' r' = (Inl KeyConflict, r')
    \<and> ks_readiness (system_key_store R) l r'' = Inr KeyMissing
    \<and> (\<nexists>k. ks_load (system_key_store R) l r'' = Inr k)"
proof -
  note load = system.store_load [OF assms(1,2)]
  have "ks_store (system_key_store R) l key' r' = (Inl KeyConflict, r')"
    using load assms(3) by (auto simp: system_key_store_def system_store_def system_load_def result_simps split: if_splits)
  then show ?thesis
    using load system.stored_ready [OF assms(1,2)] system.delete_missing [OF assms(4)] system.deleted_not_loaded [OF assms(4)]
    by blast
qed

theorem key_store_verified_witness:
  "\<exists>r' r''. ks_load (system_key_store demo_ring) \<lparr>kl_installation_id = demo_installation, kl_key_id = demo_key_id\<rparr> r' = Inr demo_secret
     \<and> ks_readiness (system_key_store demo_ring) \<lparr>kl_installation_id = demo_installation, kl_key_id = demo_key_id\<rparr> r'' = Inr KeyMissing"
proof -
  let ?l = "\<lparr>kl_installation_id = demo_installation, kl_key_id = demo_key_id\<rparr>"
  have store: "ks_store (system_key_store demo_ring) ?l demo_secret (\<lambda>_. None) = (Inr (), [account ?l \<mapsto> demo_secret])"
    by (simp add: system_key_store_def system_store_def native_entry_def demo_ring_def)
  have delete: "ks_delete (system_key_store demo_ring) ?l [account ?l \<mapsto> demo_secret] = (Inr (), \<lambda>_. None)"
    by (simp add: system_key_store_def system_delete_def native_entry_def demo_ring_def)
  have "length demo_secret = 32" "[] \<noteq> demo_secret" by (simp_all add: demo_secret_def)
  from key_store_verified [OF store this delete] show ?thesis by blast
qed

section \<open>Records\<close>

text \<open>Backup manifests: A manifest is accepted in one form only, and then names at least one envelope, each once, in the
  order of the digests, each with its size, its identifier and its key.\<close>

lemma manifest_canonical:
  assumes "manifest_decode C b = Inr m"
  shows "manifest_encode C m = Inr b \<and> (\<nexists>b'. b' \<noteq> b \<and> manifest_decode C b' = Inr m)
    \<and> bm_entries m \<noteq> [] \<and> sorted_wrt (<) (map be_envelope_digest (bm_entries m))
    \<and> distinct (map be_envelope_digest (bm_entries m))
    \<and> list_all (\<lambda>e. valid_store_digest (be_envelope_digest e)) (bm_entries m)"
proof -
  note d = assms [unfolded manifest_decode_def]
  have "manifest_check m = Inr ()" using documents.decode_valid [OF d] .
  then have "bm_entries m \<noteq> []" and "entries_valid None (bm_entries m)"
    by (auto simp: manifest_check_def split: if_splits)
  with entries_valid_sorted [OF this(2)] documents.decode_encode [OF d] documents.one_text [OF d] show ?thesis
    by (auto simp: manifest_encode_def manifest_decode_def strict_sorted_iff)
qed

definition demo_manifest :: backup_manifest where
  "demo_manifest = \<lparr>bm_version = BACKUP_MANIFEST_VERSION, bm_installation_id = demo_installation,
     bm_entries = [\<lparr>be_envelope_digest = ''sha256:'' @ demo_hex, be_envelope_bytes = 9,
       be_protected_id = ''protected_'' @ demo_hex, be_wrapping_key_id = demo_key_id\<rparr>]\<rparr>"

definition demo_codecs :: store_codecs where
  "demo_codecs = \<lparr>cd_manifest = one_codec demo_manifest, cd_reference_index = no_codec, cd_acknowledgment = no_codec,
     cd_plan = no_codec, cd_deletion_receipt = no_codec, cd_deletion_journal = no_codec, cd_put_journal = no_codec,
     cd_key_index = no_codec\<rparr>"

end
