(* ===== verification/Private_Files.thy ===== *)
theory Private_Files
  imports Protected_Records
begin

text \<open>
  The directories under the root of the protected store and the operations on them
  (\<open>storage.rs\<close>, the functions after \<open>ProtectedBlobStore\<close>). Every system call may fail: the state
  carries the outcomes of the calls to come, so that a statement for every state covers every failure,
  and a crash is a state in which no call succeeds any more. A rename is atomic; a failed write may
  leave any beginning of the content. Directories under the names of files are not modelled.
\<close>

section \<open>State\<close>

text \<open>
  What a name stands for: a regular file of the user that nobody else can read, a symbolic link, or
  something else. \<open>pf_dir\<close> tells whether a directory exists and is private.
\<close>

datatype file_node = Private_File string | Link_File | Foreign_File

type_synonym dir_path = "string list"

text \<open>The outcome of a call: it succeeds, or fails after writing that many bytes.\<close>

datatype call_outcome = Succeeds | Fails_After nat

record private_fs =
  pf_dir :: "dir_path \<Rightarrow> bool option"
  pf_file :: "dir_path \<Rightarrow> string \<Rightarrow> file_node option"
  pf_calls :: "call_outcome list"

type_synonym ('s, 'a) op = "'s \<Rightarrow> (protected_store_error + 'a) \<times> 's"

definition bindS :: "('s, 'a) op \<Rightarrow> ('a \<Rightarrow> ('s, 'b) op) \<Rightarrow> ('s, 'b) op" where
  "bindS m k s = (case m s of (Inl e, s') \<Rightarrow> (Inl e, s') | (Inr x, s') \<Rightarrow> k x s')"

definition returnS :: "'a \<Rightarrow> ('s, 'a) op" where
  "returnS x s = (Inr x, s)"

definition failS :: "protected_store_error \<Rightarrow> ('s, 'a) op" where
  "failS e s = (Inl e, s)"

definition liftS :: "protected_store_error + 'a \<Rightarrow> ('s, 'a) op" where
  "liftS r s = (r, s)"

text \<open>One system call that has no effect of its own, with the error it is mapped to.\<close>

definition call :: "protected_store_error \<Rightarrow> (private_fs, unit) op" where
  "call e s =
     (case pf_calls s of
        [] \<Rightarrow> (Inr (), s)
      | c # cs \<Rightarrow> ((case c of Succeeds \<Rightarrow> Inr () | Fails_After _ \<Rightarrow> Inl e), s\<lparr>pf_calls := cs\<rparr>))"

definition set_file :: "dir_path \<Rightarrow> string \<Rightarrow> file_node option \<Rightarrow> private_fs \<Rightarrow> private_fs" where
  "set_file d n f s = s\<lparr>pf_file := (pf_file s)(d := (pf_file s d)(n := f))\<rparr>"

definition update :: "(private_fs \<Rightarrow> private_fs) \<Rightarrow> (private_fs, unit) op" where
  "update f s = (Inr (), f s)"

section \<open>Directories\<close>

definition validate_private_directory :: "bool \<Rightarrow> (private_fs, unit) op" where
  "validate_private_directory private =
     bindS (call StorageIo) (\<lambda>_. if private then returnS () else failS UnsafeStorageRoot)"

definition open_private_dir_at :: "dir_path \<Rightarrow> bool \<Rightarrow> (private_fs, unit) op" where
  "open_private_dir_at d create =
     bindS (if create
            then bindS (call StorageIo) (\<lambda>_ s.
              if pf_dir s d \<noteq> None then (Inr (), s)
              else call StorageIo (s\<lparr>pf_dir := (pf_dir s)(d \<mapsto> True)\<rparr>))
            else returnS ()) (\<lambda>_.
     bindS (call UnsafeStorageRoot) (\<lambda>_ s.
       case pf_dir s d of
         None \<Rightarrow> (Inl BlobMissing, s)
       | Some private \<Rightarrow> validate_private_directory private s))"

section \<open>Files\<close>

definition validate_private_file :: "file_node \<Rightarrow> protected_store_error \<Rightarrow> (private_fs, unit) op" where
  "validate_private_file f tampered =
     bindS (call StorageIo) (\<lambda>_. case f of Private_File _ \<Rightarrow> returnS () | _ \<Rightarrow> failS tampered)"

text \<open>\<open>create_file_at\<close>: exclusive creation, then the content and a sync.\<close>

definition write_all :: "dir_path \<Rightarrow> string \<Rightarrow> string \<Rightarrow> (private_fs, unit) op" where
  "write_all d n content s =
     (case pf_calls s of
        [] \<Rightarrow> (Inr (), set_file d n (Some (Private_File content)) s)
      | Succeeds # cs \<Rightarrow> (Inr (), set_file d n (Some (Private_File content)) (s\<lparr>pf_calls := cs\<rparr>))
      | Fails_After k # cs \<Rightarrow>
          (Inl StorageIo, set_file d n (Some (Private_File (take k content))) (s\<lparr>pf_calls := cs\<rparr>)))"

definition create_file_at :: "dir_path \<Rightarrow> string \<Rightarrow> string \<Rightarrow> (private_fs, bool) op" where
  "create_file_at d n content =
     bindS (call StorageIo) (\<lambda>_ s.
       if pf_file s d n \<noteq> None then (Inr False, s)
       else bindS (update (set_file d n (Some (Private_File [])))) (\<lambda>_.
            bindS (validate_private_file (Private_File []) BlobTampered) (\<lambda>_.
            bindS (write_all d n content) (\<lambda>_.
            bindS (call StorageIo) (\<lambda>_. returnS True)))) s)"

definition unlink_file_at :: "dir_path \<Rightarrow> string \<Rightarrow> (private_fs, unit) op" where
  "unlink_file_at d n =
     bindS (call StorageIo) (\<lambda>_ s.
       if pf_file s d n = None then (Inl StorageIo, s) else (Inr (), set_file d n None s))"

definition unlink_file_if_present :: "dir_path \<Rightarrow> string \<Rightarrow> (private_fs, unit) op" where
  "unlink_file_if_present d n = bindS (call StorageIo) (\<lambda>_. update (set_file d n None))"

text \<open>\<open>renameat\<close> within one directory.\<close>

definition rename_at :: "dir_path \<Rightarrow> string \<Rightarrow> string \<Rightarrow> (private_fs, unit) op" where
  "rename_at d from n =
     bindS (call StorageIo) (\<lambda>_ s.
       case pf_file s d from of
         None \<Rightarrow> (Inl StorageIo, s)
       | Some f \<Rightarrow> (Inr (), set_file d n (Some f) (set_file d from None s)))"

definition MAX_ENVELOPE_BYTES :: nat where
  "MAX_ENVELOPE_BYTES = 100663296"

definition MAX_METADATA_BYTES :: nat where
  "MAX_METADATA_BYTES = 1048576"

definition write_record_at :: "dir_path \<Rightarrow> string \<Rightarrow> string \<Rightarrow> (private_fs, unit) op" where
  "write_record_at d n encoded =
     (if length encoded > MAX_METADATA_BYTES then failS ContentTooLarge
      else
        let temporary = ''.'' @ n @ ''.next'' in
        bindS (unlink_file_if_present d temporary) (\<lambda>_.
        bindS (create_file_at d temporary encoded) (\<lambda>created.
        if \<not> created then failS StorageConflict
        else bindS (rename_at d temporary n) (\<lambda>_. call StorageIo))))"

text \<open>
  \<open>read_optional_at\<close>: a link is refused by the open itself, anything that is not a private file and
  whatever is larger than the bound after it.
\<close>

definition read_optional_at :: "dir_path \<Rightarrow> string \<Rightarrow> nat \<Rightarrow> protected_store_error \<Rightarrow> (private_fs, string option) op" where
  "read_optional_at d n maximum tampered =
     bindS (call StorageIo) (\<lambda>_ s.
       case pf_file s d n of
         None \<Rightarrow> (Inr None, s)
       | Some Link_File \<Rightarrow> (Inl tampered, s)
       | Some Foreign_File \<Rightarrow> bindS (validate_private_file Foreign_File tampered) (\<lambda>_. returnS None) s
       | Some (Private_File content) \<Rightarrow>
           bindS (validate_private_file (Private_File content) tampered) (\<lambda>_.
           bindS (call StorageIo) (\<lambda>_.
           if length content > maximum then failS ContentTooLarge
           else bindS (call StorageIo) (\<lambda>_. returnS (Some content)))) s)"

definition read_required_at :: "dir_path \<Rightarrow> string \<Rightarrow> nat \<Rightarrow> protected_store_error \<Rightarrow> (private_fs, string) op" where
  "read_required_at d n maximum missing =
     bindS (read_optional_at d n maximum missing) (\<lambda>content. liftS (ok_or missing content))"

section \<open>Blobs\<close>

definition store_digest :: "(string \<Rightarrow> string) \<Rightarrow> string \<Rightarrow> string" where
  "store_digest sha content = ''sha256:'' @ hex_encode (sha content)"

definition verify_blob :: "(string \<Rightarrow> string) \<Rightarrow> string \<Rightarrow> string \<Rightarrow> protected_store_error + unit" where
  "verify_blob sha content expected =
     (if store_digest sha content \<noteq> expected then Inl BlobTampered else Inr ())"

definition publish_pending :: "(string \<Rightarrow> string) \<Rightarrow> dir_path \<Rightarrow> string \<Rightarrow> string \<Rightarrow> string \<Rightarrow> (private_fs, unit) op" where
  "publish_pending sha d pending destination expected =
     bindS (bindS (call StorageIo) (\<lambda>_ s.
       if pf_file s d destination \<noteq> None
       then bindS (read_required_at d destination MAX_ENVELOPE_BYTES BlobTampered) (\<lambda>existing.
              liftS (verify_blob sha existing expected)) s
       else (case pf_file s d pending of
               None \<Rightarrow> (Inl StorageIo, s)
             | Some f \<Rightarrow> (Inr (), set_file d destination (Some f) s)))) (\<lambda>_.
     bindS (call StorageIo) (\<lambda>_.
     bindS (unlink_file_if_present d pending) (\<lambda>_. call StorageIo)))"

definition digest_hex :: "string \<Rightarrow> protected_store_error + string" where
  "digest_hex v =
     (if \<not> valid_store_digest v then Inl InvalidIdentifier
      else ok_or InvalidIdentifier (strip_prefix ''sha256:'' v))"

definition blob_name :: "string \<Rightarrow> string" where
  "blob_name hex = hex @ ''.json''"

definition pending_blob_name :: "string \<Rightarrow> string" where
  "pending_blob_name hex = ''.'' @ hex @ ''.pending''"

definition metadata_name :: "string \<Rightarrow> string" where
  "metadata_name hex = hex @ ''.json''"

definition backup_commit_name :: "string \<Rightarrow> string" where
  "backup_commit_name n = ''.'' @ n @ ''.commit''"

definition key_hex :: "string \<Rightarrow> protected_store_error + string" where
  "key_hex key_id =
     (case strip_prefix ''key_'' key_id of
        None \<Rightarrow> Inl InvalidIdentifier
      | Some hex \<Rightarrow> if length hex = 64 \<and> list_all is_lower_hex hex then Inr hex else Inl InvalidIdentifier)"

definition key_index_name :: "string \<Rightarrow> protected_store_error + string" where
  "key_index_name key_id = bindE (key_hex key_id) (\<lambda>hex. Inr (hex @ ''.json''))"

definition open_digest_directory :: "string \<Rightarrow> string \<Rightarrow> bool \<Rightarrow> (private_fs, dir_path) op" where
  "open_digest_directory namespace hex create =
     bindS (open_private_dir_at [namespace] create) (\<lambda>_.
     bindS (open_private_dir_at [namespace, take 2 hex] create) (\<lambda>_. returnS [namespace, take 2 hex]))"

definition open_key_reference_directory :: "string \<Rightarrow> bool \<Rightarrow> (private_fs, dir_path) op" where
  "open_key_reference_directory key_id create =
     bindS (liftS (key_hex key_id)) (\<lambda>hex.
     bindS (open_private_dir_at [''key-references''] create) (\<lambda>_.
     bindS (open_private_dir_at [''key-references'', take 2 hex] create) (\<lambda>_.
       returnS [''key-references'', take 2 hex])))"

end
