(* ===== verification/Blob_Store.thy ===== *)
theory Blob_Store
  imports Private_Files
begin

text \<open>
  The transactions of \<open>ProtectedBlobStore\<close> (\<open>storage.rs\<close>): putting and reading an envelope through the
  put journal and the index of the envelopes under a key. The lock that every public operation takes
  makes it one step; the crash points of the tests are covered by the outcomes of the system calls.
\<close>

text \<open>What the store uses: SHA-256, the vault and the codecs of the metadata.\<close>

record blob_env =
  bl_sha :: "string \<Rightarrow> string"
  bl_vault :: vault
  bl_codecs :: store_codecs

abbreviation blob_digest :: "blob_env \<Rightarrow> string \<Rightarrow> string" where
  "blob_digest B \<equiv> store_digest (bl_sha B)"

text \<open>\<open>binary_search_by\<close> on strictly increasing keys: the position, or where to insert.\<close>

definition search :: "'k :: linorder \<Rightarrow> 'k list \<Rightarrow> nat + nat" where
  "search k ks =
     (let i = length (takeWhile (\<lambda>x. x < k) ks) in
      if i < length ks \<and> ks ! i = k then Inr i else Inl i)"

definition insert_at :: "nat \<Rightarrow> 'a \<Rightarrow> 'a list \<Rightarrow> 'a list" where
  "insert_at i x xs = take i xs @ x # drop i xs"

text \<open>\<open>Err(BlobMissing) => ...\<close>: a directory that is not there.\<close>

definition if_there :: "('s, 'a) op \<Rightarrow> ('s, 'a option) op" where
  "if_there m s =
     (case m s of
        (Inr x, s') \<Rightarrow> (Inr (Some x), s')
      | (Inl e, s') \<Rightarrow> ((if e = BlobMissing then Inr None else Inl e), s'))"

definition acquire_operation :: "(private_fs, unit) op" where
  "acquire_operation = call StorageIo"

section \<open>The index of the envelopes under a key\<close>

definition reference_of :: "protected_envelope \<Rightarrow> string \<Rightarrow> key_reference" where
  "reference_of e d =
     \<lparr>kf_version = KEY_REFERENCE_VERSION, kf_envelope_digest = d, kf_installation_id = pe_installation_id e,
      kf_protected_id = pe_protected_id e, kf_wrapping_key_id = pe_wrapping_key_id e\<rparr>"

definition write_key_reference :: "blob_env \<Rightarrow> protected_envelope \<Rightarrow> string \<Rightarrow> (private_fs, unit) op" where
  "write_key_reference B e d =
     bindS (open_key_reference_directory (pe_wrapping_key_id e) True) (\<lambda>dir.
     bindS (liftS (key_index_name (pe_wrapping_key_id e))) (\<lambda>name.
     bindS (read_optional_at dir name MAX_METADATA_BYTES InvalidTransaction) (\<lambda>existing.
     bindS (liftS (case existing of
              Some encoded \<Rightarrow> key_index_decode (bl_codecs B) encoded
            | None \<Rightarrow> Inr \<lparr>ki_version = KEY_REFERENCE_INDEX_VERSION, ki_installation_id = pe_installation_id e,
                ki_wrapping_key_id = pe_wrapping_key_id e, ki_entries = []\<rparr>)) (\<lambda>index.
     if ki_installation_id index \<noteq> pe_installation_id e \<or> ki_wrapping_key_id index \<noteq> pe_wrapping_key_id e
     then failS StorageConflict
     else (case search d (map kf_envelope_digest (ki_entries index)) of
             Inr position \<Rightarrow>
               if ki_entries index ! position = reference_of e d then returnS () else failS StorageConflict
           | Inl position \<Rightarrow>
               bindS (liftS (key_index_encode (bl_codecs B)
                 (index\<lparr>ki_entries := insert_at position (reference_of e d) (ki_entries index)\<rparr>))) (\<lambda>encoded.
                 write_record_at dir name encoded))))))"

definition load_key_reference_index :: "blob_env \<Rightarrow> string \<Rightarrow> string \<Rightarrow> (private_fs, key_reference_index) op" where
  "load_key_reference_index B installation_id key_id =
     bindS (open_key_reference_directory key_id False) (\<lambda>dir.
     bindS (liftS (key_index_name key_id)) (\<lambda>name.
     bindS (read_required_at dir name MAX_METADATA_BYTES InvalidTransaction) (\<lambda>encoded.
     bindS (liftS (key_index_decode (bl_codecs B) encoded)) (\<lambda>index.
     if ki_installation_id index \<noteq> installation_id \<or> ki_wrapping_key_id index \<noteq> key_id
     then failS InvalidTransaction else returnS index))))"

definition key_reference_index_if_present :: "blob_env \<Rightarrow> string \<Rightarrow> (private_fs, key_reference_index option) op" where
  "key_reference_index_if_present B key_id =
     bindS (if_there (open_key_reference_directory key_id False)) (\<lambda>dir.
       case dir of
         None \<Rightarrow> returnS None
       | Some dir \<Rightarrow>
           bindS (liftS (key_index_name key_id)) (\<lambda>name.
           bindS (read_optional_at dir name MAX_METADATA_BYTES InvalidTransaction) (\<lambda>encoded.
             case encoded of
               None \<Rightarrow> returnS None
             | Some encoded \<Rightarrow> bindS (liftS (key_index_decode (bl_codecs B) encoded)) (\<lambda>i. returnS (Some i)))))"

definition find_key_reference :: "key_reference_index \<Rightarrow> string \<Rightarrow> protected_store_error + key_reference" where
  "find_key_reference index d =
     (case search d (map kf_envelope_digest (ki_entries index)) of
        Inl _ \<Rightarrow> Inl InvalidTransaction
      | Inr position \<Rightarrow> Inr (ki_entries index ! position))"

definition verify_key_reference :: "blob_env \<Rightarrow> protected_envelope \<Rightarrow> string \<Rightarrow> (private_fs, unit) op" where
  "verify_key_reference B e d =
     bindS (load_key_reference_index B (pe_installation_id e) (pe_wrapping_key_id e)) (\<lambda>index.
     bindS (liftS (find_key_reference index d)) (\<lambda>reference.
     if kf_installation_id reference \<noteq> pe_installation_id e \<or> kf_protected_id reference \<noteq> pe_protected_id e
        \<or> kf_wrapping_key_id reference \<noteq> pe_wrapping_key_id e
     then failS InvalidTransaction else returnS ()))"

definition same_key_peer_references :: "blob_env \<Rightarrow> string \<Rightarrow> string \<Rightarrow> string \<Rightarrow> (private_fs, deletion_reference list) op" where
  "same_key_peer_references B installation_id key_id d =
     bindS (load_key_reference_index B installation_id key_id) (\<lambda>index.
     bindS (liftS (find_key_reference index d)) (\<lambda>_.
       returnS (map (\<lambda>r. Deletion_Reference SharedWrappingKey (kf_envelope_digest r))
         (filter (\<lambda>r. kf_envelope_digest r \<noteq> d) (ki_entries index)))))"

section \<open>Putting an envelope\<close>

definition verify_put_journal :: "put_journal \<Rightarrow> put_journal \<Rightarrow> protected_store_error + unit" where
  "verify_put_journal existing expected =
     (if pj_envelope_digest existing \<noteq> pj_envelope_digest expected
         \<or> pj_envelope_bytes existing \<noteq> pj_envelope_bytes expected
         \<or> pj_installation_id existing \<noteq> pj_installation_id expected
         \<or> pj_protected_id existing \<noteq> pj_protected_id expected
         \<or> pj_wrapping_key_id existing \<noteq> pj_wrapping_key_id expected
      then Inl InvalidTransaction else Inr ())"

definition commit_journal :: "blob_env \<Rightarrow> dir_path \<Rightarrow> string \<Rightarrow> put_journal \<Rightarrow> (private_fs, unit) op" where
  "commit_journal B dir name journal =
     bindS (liftS (put_journal_encode (bl_codecs B) (journal\<lparr>pj_state := PutCommitted\<rparr>))) (\<lambda>encoded.
       write_record_at dir name encoded)"

text \<open>The pending copy of a blob, written or found as it was left.\<close>

definition stage_blob :: "blob_env \<Rightarrow> dir_path \<Rightarrow> string \<Rightarrow> string \<Rightarrow> string \<Rightarrow> string \<Rightarrow> (private_fs, unit) op" where
  "stage_blob B dir destination pending d encoded =
     bindS (read_optional_at dir destination MAX_ENVELOPE_BYTES BlobTampered) (\<lambda>existing.
       case existing of
         Some existing \<Rightarrow>
           bindS (liftS (verify_blob (bl_sha B) existing d)) (\<lambda>_.
           bindS (read_optional_at dir pending MAX_ENVELOPE_BYTES BlobTampered) (\<lambda>left.
             case left of
               None \<Rightarrow> returnS ()
             | Some pending_bytes \<Rightarrow>
                 bindS (liftS (verify_blob (bl_sha B) pending_bytes d)) (\<lambda>_.
                 bindS (unlink_file_at dir pending) (\<lambda>_. call StorageIo))))
       | None \<Rightarrow>
           bindS (create_file_at dir pending encoded) (\<lambda>created.
             if \<not> created
             then bindS (read_required_at dir pending MAX_ENVELOPE_BYTES BlobTampered) (\<lambda>existing.
                    liftS (verify_blob (bl_sha B) existing d))
             else call StorageIo))"

definition put_journal_of :: "protected_envelope \<Rightarrow> string \<Rightarrow> string \<Rightarrow> put_journal" where
  "put_journal_of e d encoded =
     \<lparr>pj_version = PUT_JOURNAL_VERSION, pj_state = PutPending, pj_envelope_digest = d,
      pj_envelope_bytes = word_of_nat (length encoded), pj_installation_id = pe_installation_id e,
      pj_protected_id = pe_protected_id e, pj_wrapping_key_id = pe_wrapping_key_id e\<rparr>"

text \<open>The steps of a put after the encoding, in its directories.\<close>

definition put_steps :: "blob_env \<Rightarrow> protected_envelope \<Rightarrow> string \<Rightarrow> string \<Rightarrow> string \<Rightarrow> dir_path \<Rightarrow> dir_path
    \<Rightarrow> (private_fs, string) op" where
  "put_steps B e d encoded hex blobs transactions =
     (let journal = put_journal_of e d encoded in
      bindS (read_optional_at transactions (metadata_name hex) MAX_METADATA_BYTES InvalidTransaction) (\<lambda>there.
      bindS (case there of
               Some text \<Rightarrow>
                 bindS (liftS (put_journal_decode (bl_codecs B) text)) (\<lambda>existing.
                   liftS (verify_put_journal existing journal))
             | None \<Rightarrow>
                 bindS (liftS (put_journal_encode (bl_codecs B) journal)) (\<lambda>text.
                   write_record_at transactions (metadata_name hex) text)) (\<lambda>_.
      bindS (stage_blob B blobs (blob_name hex) (pending_blob_name hex) d encoded) (\<lambda>_.
      bindS (write_key_reference B e d) (\<lambda>_.
      bindS (read_optional_at blobs (blob_name hex) MAX_ENVELOPE_BYTES BlobTampered) (\<lambda>published.
      bindS (if published = None
             then publish_pending (bl_sha B) blobs (pending_blob_name hex) (blob_name hex) d
             else returnS ()) (\<lambda>_.
      bindS (commit_journal B transactions (metadata_name hex) journal) (\<lambda>_.
        returnS d))))))))"

definition put_unix :: "blob_env \<Rightarrow> protected_envelope \<Rightarrow> (private_fs, string) op" where
  "put_unix B e =
     bindS (liftS (envelope_encode (bl_vault B) e)) (\<lambda>encoded.
     let d = blob_digest B encoded in
     bindS (liftS (digest_hex d)) (\<lambda>hex.
     bindS (open_digest_directory ''sha256'' hex True) (\<lambda>blobs.
     bindS (open_digest_directory ''transactions'' hex True) (\<lambda>transactions.
       put_steps B e d encoded hex blobs transactions))))"

definition put :: "blob_env \<Rightarrow> protected_envelope \<Rightarrow> (private_fs, string) op" where
  "put B e = bindS acquire_operation (\<lambda>_. put_unix B e)"

section \<open>Reading an envelope\<close>

text \<open>The journal that a blob must have, found beside it.\<close>

definition journal_of_blob :: "blob_env \<Rightarrow> string \<Rightarrow> string \<Rightarrow> dir_path \<Rightarrow> string option
    \<Rightarrow> (private_fs, dir_path \<times> put_journal) op" where
  "journal_of_blob B d hex blobs final =
     bindS (if_there (open_digest_directory ''transactions'' hex False)) (\<lambda>dir.
       case dir of
         None \<Rightarrow> failS (if final = None then BlobMissing else InvalidTransaction)
       | Some transactions \<Rightarrow>
           bindS (read_optional_at transactions (metadata_name hex) MAX_METADATA_BYTES InvalidTransaction) (\<lambda>text.
           bindS (case text of
                    Some text \<Rightarrow> liftS (put_journal_decode (bl_codecs B) text)
                  | None \<Rightarrow>
                      if final = None
                      then bindS (read_optional_at blobs (pending_blob_name hex) MAX_ENVELOPE_BYTES BlobTampered) (\<lambda>pending.
                             failS (if pending = None then BlobMissing else InvalidTransaction))
                      else failS InvalidTransaction) (\<lambda>journal.
           if pj_envelope_digest journal \<noteq> d then failS InvalidTransaction
           else if pj_state journal = PutCommitted \<and> final = None then failS InvalidTransaction
           else returnS (transactions, journal))))"

text \<open>What reading completes of an interrupted put: the reference, the publication, the commit.\<close>

definition complete_put :: "blob_env \<Rightarrow> string \<Rightarrow> string \<Rightarrow> dir_path \<Rightarrow> dir_path \<Rightarrow> bool \<Rightarrow> put_journal \<Rightarrow> protected_envelope
    \<Rightarrow> (private_fs, unit) op" where
  "complete_put B d hex blobs transactions final_present journal e =
     bindS (if pj_state journal = PutCommitted then verify_key_reference B e d else write_key_reference B e d) (\<lambda>_.
     bindS (if \<not> final_present
            then publish_pending (bl_sha B) blobs (pending_blob_name hex) (blob_name hex) d
            else returnS ()) (\<lambda>_.
     bindS (if pj_state journal = PutPending
            then bindS (liftS (put_journal_encode (bl_codecs B) (journal\<lparr>pj_state := PutCommitted\<rparr>))) (\<lambda>text.
                   write_record_at transactions (metadata_name hex) text)
            else returnS ()) (\<lambda>_.
     bindS (read_optional_at blobs (pending_blob_name hex) MAX_ENVELOPE_BYTES BlobTampered) (\<lambda>pending.
     if pending \<noteq> None
     then publish_pending (bl_sha B) blobs (pending_blob_name hex) (blob_name hex) d
     else returnS ()))))"

definition read_encoded_unix :: "blob_env \<Rightarrow> string \<Rightarrow> (private_fs, string \<times> protected_envelope) op" where
  "read_encoded_unix B d =
     bindS (liftS (digest_hex d)) (\<lambda>hex.
     bindS (open_digest_directory ''sha256'' hex False) (\<lambda>blobs.
     bindS (read_optional_at blobs (blob_name hex) MAX_ENVELOPE_BYTES BlobTampered) (\<lambda>final.
     bindS (journal_of_blob B d hex blobs final) (\<lambda>(transactions, journal).
     bindS (case final of
              Some encoded \<Rightarrow> returnS encoded
            | None \<Rightarrow> read_required_at blobs (pending_blob_name hex) MAX_ENVELOPE_BYTES BlobMissing) (\<lambda>encoded.
     bindS (liftS (verify_blob (bl_sha B) encoded d)) (\<lambda>_.
     bindS (liftS (envelope_decode (bl_vault B) encoded)) (\<lambda>e.
     if pj_protected_id journal \<noteq> pe_protected_id e \<or> pj_installation_id journal \<noteq> pe_installation_id e
        \<or> pj_wrapping_key_id journal \<noteq> pe_wrapping_key_id e
        \<or> pj_envelope_bytes journal \<noteq> word_of_nat (length encoded)
     then failS InvalidTransaction
     else bindS (complete_put B d hex blobs transactions (final \<noteq> None) journal e) (\<lambda>_.
            returnS (encoded, e)))))))))"

definition read_envelope :: "blob_env \<Rightarrow> string \<Rightarrow> (private_fs, protected_envelope) op" where
  "read_envelope B d =
     bindS acquire_operation (\<lambda>_. bindS (read_encoded_unix B d) (\<lambda>(_, e). returnS e))"

end
