(* ===== verification/Blob_Backups.thy ===== *)
theory Blob_Backups
  imports Blob_Store
begin

text \<open>
  Backups of the protected store (\<open>storage.rs\<close>): a manifest pins every envelope it lists in the
  envelope's reference index, a committed acknowledgment of its removal releases them, and the
  verification of a backup opens every envelope. Also the planning of a deletion, which lists what
  still refers to an envelope.
\<close>

section \<open>Acknowledgments and references\<close>

text \<open>An acknowledgment as it is read in a directory: it must be the one of the manifest named.\<close>

definition backup_acknowledgment_if_present :: "blob_env \<Rightarrow> string \<Rightarrow> (private_fs, backup_acknowledgment option) op" where
  "backup_acknowledgment_if_present B manifest_digest =
     bindS (liftS (digest_hex manifest_digest)) (\<lambda>hex.
     bindS (if_there (open_digest_directory ''backup-acknowledgments'' hex False)) (\<lambda>dir.
       case dir of
         None \<Rightarrow> returnS None
       | Some dir \<Rightarrow>
           bindS (read_optional_at dir (metadata_name hex) MAX_METADATA_BYTES InvalidBackupManifest) (\<lambda>text.
             case text of
               None \<Rightarrow> returnS None
             | Some text \<Rightarrow>
                 bindS (liftS (acknowledgment_decode (bl_codecs B) text)) (\<lambda>a.
                 bindS (liftS (manifest_encode (bl_codecs B) (ba_manifest a))) (\<lambda>encoded.
                 if blob_digest B encoded \<noteq> manifest_digest then failS InvalidBackupManifest
                 else returnS (Some a))))))"

definition backup_reference_index_if_present :: "blob_env \<Rightarrow> string \<Rightarrow> (private_fs, backup_reference_index option) op" where
  "backup_reference_index_if_present B d =
     bindS (liftS (digest_hex d)) (\<lambda>hex.
     bindS (if_there (open_digest_directory ''backup-references'' hex False)) (\<lambda>dir.
       case dir of
         None \<Rightarrow> returnS None
       | Some dir \<Rightarrow>
           bindS (read_optional_at dir (metadata_name hex) MAX_METADATA_BYTES InvalidBackupManifest) (\<lambda>text.
             case text of
               None \<Rightarrow> returnS None
             | Some text \<Rightarrow>
                 bindS (liftS (reference_index_decode (bl_codecs B) text)) (\<lambda>i.
                 if br_envelope_digest i \<noteq> d then failS InvalidBackupManifest else returnS (Some i)))))"

definition backup_reference_is_active :: "blob_env \<Rightarrow> string \<Rightarrow> string \<Rightarrow> (private_fs, bool) op" where
  "backup_reference_is_active B d manifest_digest =
     bindS (backup_acknowledgment_if_present B manifest_digest) (\<lambda>a.
       case a of
         None \<Rightarrow> returnS True
       | Some a \<Rightarrow>
           if ba_state a = AckPrepared then returnS True
           else (case search d (map be_envelope_digest (bm_entries (ba_manifest a))) of
                   Inl _ \<Rightarrow> failS InvalidBackupManifest
                 | Inr _ \<Rightarrow> returnS False))"

fun active_references :: "blob_env \<Rightarrow> string \<Rightarrow> string list \<Rightarrow> (private_fs, deletion_reference list) op" where
  "active_references B d [] = returnS []"
| "active_references B d (r # rs) =
     bindS (backup_reference_is_active B d r) (\<lambda>active.
     bindS (active_references B d rs) (\<lambda>refs.
       returnS (if active then Deletion_Reference BackupReference r # refs else refs)))"

definition backup_references :: "blob_env \<Rightarrow> string \<Rightarrow> (private_fs, deletion_reference list) op" where
  "backup_references B d =
     bindS (backup_reference_index_if_present B d) (\<lambda>i.
       case i of None \<Rightarrow> returnS [] | Some i \<Rightarrow> active_references B d (br_manifest_digests i))"

definition ensure_no_backup_references :: "blob_env \<Rightarrow> string \<Rightarrow> (private_fs, unit) op" where
  "ensure_no_backup_references B d =
     bindS (backup_references B d) (\<lambda>refs. if refs = [] then returnS () else failS BlobReferenced)"

section \<open>Creating a manifest\<close>

fun collect_entries :: "blob_env \<Rightarrow> string option \<Rightarrow> string list \<Rightarrow> (private_fs, string option \<times> backup_entry list) op" where
  "collect_entries B inst [] = returnS (inst, [])"
| "collect_entries B inst (d # ds) =
     bindS (read_encoded_unix B d) (\<lambda>(encoded, e).
     if inst \<noteq> None \<and> inst \<noteq> Some (pe_installation_id e) then failS InvalidBackupManifest
     else bindS (collect_entries B (Some (pe_installation_id e)) ds) (\<lambda>(found, es).
       returnS (found, \<lparr>be_envelope_digest = d, be_envelope_bytes = word_of_nat (length encoded),
         be_protected_id = pe_protected_id e, be_wrapping_key_id = pe_wrapping_key_id e\<rparr> # es)))"

text \<open>The records that pin the envelopes, with the largest size of what is written.\<close>

fun pin_records :: "blob_env \<Rightarrow> string \<Rightarrow> backup_entry list \<Rightarrow> nat \<Rightarrow> (private_fs, (string \<times> string) list \<times> nat) op" where
  "pin_records B manifest_digest [] largest = returnS ([], largest)"
| "pin_records B manifest_digest (entry # es) largest =
     bindS (backup_reference_index_if_present B (be_envelope_digest entry)) (\<lambda>there.
     let index = (case there of Some i \<Rightarrow> i | None \<Rightarrow>
           \<lparr>br_version = BACKUP_REFERENCE_INDEX_VERSION, br_envelope_digest = be_envelope_digest entry, br_manifest_digests = []\<rparr>);
         pinned = (case search manifest_digest (br_manifest_digests index) of
             Inr _ \<Rightarrow> index
           | Inl position \<Rightarrow> index\<lparr>br_manifest_digests := insert_at position manifest_digest (br_manifest_digests index)\<rparr>) in
     bindS (liftS (reference_index_encode (bl_codecs B) pinned)) (\<lambda>encoded.
     bindS (pin_records B manifest_digest es (max largest (length encoded))) (\<lambda>(pins, n).
       returnS ((be_envelope_digest entry, encoded) # pins, n))))"

record prepared_manifest =
  pm_manifest :: backup_manifest
  pm_manifest_digest :: string
  pm_pin_records :: "(string \<times> string) list"
  pm_maximum_metadata_bytes :: nat

definition prepare_backup_manifest :: "blob_env \<Rightarrow> string list \<Rightarrow> (private_fs, prepared_manifest) op" where
  "prepare_backup_manifest B ds =
     bindS (collect_entries B None ds) (\<lambda>(inst, es).
     bindS (liftS (ok_or InvalidBackupManifest inst)) (\<lambda>installation_id.
     let manifest = \<lparr>bm_version = BACKUP_MANIFEST_VERSION, bm_installation_id = installation_id,
           bm_entries = sort_key be_envelope_digest es\<rparr> in
     bindS (liftS (manifest_check manifest)) (\<lambda>_.
     bindS (liftS (manifest_encode (bl_codecs B) manifest)) (\<lambda>text.
     let manifest_digest = blob_digest B text in
     let ack = \<lparr>ba_version = BACKUP_ACKNOWLEDGMENT_VERSION, ba_state = AckPrepared, ba_manifest = manifest\<rparr> in
     bindS (liftS (acknowledgment_encode (bl_codecs B) ack)) (\<lambda>prepared.
     bindS (liftS (acknowledgment_encode (bl_codecs B) (ack\<lparr>ba_state := AckCommitted\<rparr>))) (\<lambda>committed.
     bindS (pin_records B manifest_digest (bm_entries manifest) (max (length prepared) (length committed))) (\<lambda>(pins, n).
       returnS \<lparr>pm_manifest = manifest, pm_manifest_digest = manifest_digest, pm_pin_records = pins,
         pm_maximum_metadata_bytes = n\<rparr>)))))))"

definition reset_backup_acknowledgment :: "blob_env \<Rightarrow> string \<Rightarrow> (private_fs, unit) op" where
  "reset_backup_acknowledgment B manifest_digest =
     bindS (liftS (digest_hex manifest_digest)) (\<lambda>hex.
     bindS (if_there (open_digest_directory ''backup-acknowledgments'' hex False)) (\<lambda>dir.
       case dir of
         None \<Rightarrow> returnS ()
       | Some dir \<Rightarrow>
           bindS (read_optional_at dir (metadata_name hex) MAX_METADATA_BYTES InvalidBackupManifest) (\<lambda>text.
             case text of
               None \<Rightarrow> returnS ()
             | Some text \<Rightarrow>
                 bindS (liftS (acknowledgment_decode (bl_codecs B) text)) (\<lambda>a.
                 bindS (liftS (manifest_encode (bl_codecs B) (ba_manifest a))) (\<lambda>encoded.
                 if blob_digest B encoded \<noteq> manifest_digest then failS InvalidBackupManifest
                 else
                   bindS (unlink_file_if_present dir (backup_commit_name (metadata_name hex))) (\<lambda>_.
                   bindS (unlink_file_at dir (metadata_name hex)) (\<lambda>_. call StorageIo)))))))"

fun write_pins :: "(string \<times> string) list \<Rightarrow> (private_fs, unit) op" where
  "write_pins [] = returnS ()"
| "write_pins ((d, encoded) # pins) =
     bindS (liftS (digest_hex d)) (\<lambda>hex.
     bindS (open_digest_directory ''backup-references'' hex True) (\<lambda>dir.
     bindS (write_record_at dir (metadata_name hex) encoded) (\<lambda>_. write_pins pins)))"

definition create_backup_manifest_unix :: "blob_env \<Rightarrow> string list \<Rightarrow> nat \<Rightarrow> (private_fs, backup_manifest) op" where
  "create_backup_manifest_unix B ds metadata_limit =
     bindS (prepare_backup_manifest B ds) (\<lambda>p.
     if pm_maximum_metadata_bytes p > metadata_limit \<or> pm_maximum_metadata_bytes p > MAX_METADATA_BYTES
     then failS ContentTooLarge
     else
       bindS (reset_backup_acknowledgment B (pm_manifest_digest p)) (\<lambda>_.
       bindS (write_pins (pm_pin_records p)) (\<lambda>_. returnS (pm_manifest p))))"

definition create_backup_manifest :: "blob_env \<Rightarrow> string list \<Rightarrow> (private_fs, backup_manifest) op" where
  "create_backup_manifest B ds = bindS acquire_operation (\<lambda>_. create_backup_manifest_unix B ds MAX_METADATA_BYTES)"

section \<open>Acknowledging the removal of a backup\<close>

text \<open>
  The commit of an acknowledgment. When the rename is done but the directory cannot be synced, the
  prepared record is written back and the operation fails; when that fails too, the commit stands.
\<close>

definition commit_backup_acknowledgment :: "dir_path \<Rightarrow> string \<Rightarrow> string \<Rightarrow> string \<Rightarrow> (private_fs, unit) op" where
  "commit_backup_acknowledgment dir n prepared committed =
     (if length committed > MAX_METADATA_BYTES then failS ContentTooLarge
      else
        let staged = backup_commit_name n in
        bindS (unlink_file_if_present dir staged) (\<lambda>_.
        bindS (create_file_at dir staged committed) (\<lambda>created.
        if \<not> created then failS StorageConflict
        else
          bindS (call StorageIo) (\<lambda>_.
          bindS (rename_at dir staged n) (\<lambda>_ s.
            case call StorageIo s of
              (Inr _, s) \<Rightarrow> (Inr (), s)
            | (Inl _, s) \<Rightarrow>
                (case write_record_at dir n prepared s of
                   (Inr _, s) \<Rightarrow> (Inl StorageIo, s)
                 | (Inl _, s) \<Rightarrow> (Inr (), s)))))))"

fun all_pinned :: "blob_env \<Rightarrow> string \<Rightarrow> backup_entry list \<Rightarrow> (private_fs, bool) op" where
  "all_pinned B manifest_digest [] = returnS True"
| "all_pinned B manifest_digest (entry # es) =
     bindS (backup_reference_index_if_present B (be_envelope_digest entry)) (\<lambda>there.
       case there of
         None \<Rightarrow> returnS False
       | Some index \<Rightarrow>
           (case search manifest_digest (br_manifest_digests index) of
              Inl _ \<Rightarrow> returnS False
            | Inr _ \<Rightarrow> all_pinned B manifest_digest es))"

definition acknowledge_in :: "blob_env \<Rightarrow> backup_manifest \<Rightarrow> dir_path \<Rightarrow> string \<Rightarrow> (private_fs, bool) op" where
  "acknowledge_in B manifest dir n =
     (let fresh = \<lparr>ba_version = BACKUP_ACKNOWLEDGMENT_VERSION, ba_state = AckPrepared, ba_manifest = manifest\<rparr> in
      bindS (read_optional_at dir n MAX_METADATA_BYTES InvalidBackupManifest) (\<lambda>existing.
      bindS (case existing of
               Some text \<Rightarrow>
                 bindS (liftS (acknowledgment_decode (bl_codecs B) text)) (\<lambda>a.
                 if ba_manifest a \<noteq> manifest then failS InvalidBackupManifest else returnS a)
             | None \<Rightarrow>
                 bindS (liftS (acknowledgment_encode (bl_codecs B) fresh)) (\<lambda>text.
                 bindS (write_record_at dir n text) (\<lambda>_. returnS fresh))) (\<lambda>ack.
      if ba_state ack = AckCommitted then returnS False
      else
        bindS (liftS (acknowledgment_encode (bl_codecs B) ack)) (\<lambda>prepared.
        bindS (liftS (acknowledgment_encode (bl_codecs B) (ack\<lparr>ba_state := AckCommitted\<rparr>))) (\<lambda>committed.
        bindS (commit_backup_acknowledgment dir n prepared committed) (\<lambda>_. returnS True))))))"

definition acknowledge_backup_removal_unix :: "blob_env \<Rightarrow> backup_manifest \<Rightarrow> (private_fs, bool) op" where
  "acknowledge_backup_removal_unix B manifest =
     bindS (liftS (manifest_check manifest)) (\<lambda>_.
     bindS (liftS (manifest_encode (bl_codecs B) manifest)) (\<lambda>text.
     let manifest_digest = blob_digest B text in
     bindS (backup_acknowledgment_if_present B manifest_digest) (\<lambda>there.
     if (case there of Some a \<Rightarrow> ba_state a = AckCommitted \<and> ba_manifest a = manifest | None \<Rightarrow> False)
     then returnS False
     else
       bindS (all_pinned B manifest_digest (bm_entries manifest)) (\<lambda>pinned.
       if \<not> pinned then returnS False
       else
         bindS (liftS (digest_hex manifest_digest)) (\<lambda>hex.
         bindS (open_digest_directory ''backup-acknowledgments'' hex True) (\<lambda>dir.
           acknowledge_in B manifest dir (metadata_name hex)))))))"

definition acknowledge_backup_removal :: "blob_env \<Rightarrow> backup_manifest \<Rightarrow> (private_fs, bool) op" where
  "acknowledge_backup_removal B manifest = bindS acquire_operation (\<lambda>_. acknowledge_backup_removal_unix B manifest)"

section \<open>Verifying a backup\<close>

fun verify_entries :: "blob_env \<Rightarrow> 'k key_store \<Rightarrow> 'k \<Rightarrow> backup_manifest \<Rightarrow> backup_entry list \<Rightarrow> u64 \<Rightarrow> (private_fs, u64) op" where
  "verify_entries B K k manifest [] sofar = returnS sofar"
| "verify_entries B K k manifest (entry # es) sofar =
     bindS (read_encoded_unix B (be_envelope_digest entry)) (\<lambda>(encoded, e).
     if pe_installation_id e \<noteq> bm_installation_id manifest \<or> pe_protected_id e \<noteq> be_protected_id entry
        \<or> pe_wrapping_key_id e \<noteq> be_wrapping_key_id entry \<or> word_of_nat (length encoded) \<noteq> be_envelope_bytes entry
     then failS BackupVerificationFailed
     else
       bindS (liftS (open_envelope (bl_vault B) K k e)) (\<lambda>_.
       bindS (liftS (ok_or ContentTooLarge (checked_add_u64 sofar (be_envelope_bytes entry)))) (\<lambda>sofar.
         verify_entries B K k manifest es sofar)))"

definition verify_backup :: "blob_env \<Rightarrow> 'k key_store \<Rightarrow> 'k \<Rightarrow> backup_manifest \<Rightarrow> (private_fs, backup_receipt) op" where
  "verify_backup B K k manifest =
     bindS acquire_operation (\<lambda>_.
     bindS (liftS (manifest_check manifest)) (\<lambda>_.
     bindS (verify_entries B K k manifest (bm_entries manifest) 0) (\<lambda>sofar.
     bindS (liftS (manifest_encode (bl_codecs B) manifest)) (\<lambda>encoded.
       returnS \<lparr>bv_manifest_digest = blob_digest B encoded, bv_envelope_count = word_of_nat (length (bm_entries manifest)),
         bv_total_envelope_bytes = sofar, bv_every_envelope_decryptable = True\<rparr>))))"

section \<open>Planning a deletion\<close>

definition plan_deletion_unix :: "blob_env \<Rightarrow> string \<Rightarrow> deletion_reference list \<Rightarrow> (private_fs, deletion_plan) op" where
  "plan_deletion_unix B d references =
     bindS (read_encoded_unix B d) (\<lambda>(_, e).
     bindS (same_key_peer_references B (pe_installation_id e) (pe_wrapping_key_id e) d) (\<lambda>peers.
     bindS (backup_references B d) (\<lambda>backups.
     let plan = \<lparr>dp_version = DELETION_PLAN_VERSION, dp_envelope_digest = d, dp_installation_id = pe_installation_id e,
           dp_protected_id = pe_protected_id e, dp_wrapping_key_id = pe_wrapping_key_id e,
           dp_references = remdups_adj (sort (references @ peers @ backups))\<rparr> in
     bindS (liftS (plan_check plan)) (\<lambda>_. returnS plan))))"

definition plan_deletion :: "blob_env \<Rightarrow> string \<Rightarrow> deletion_reference list \<Rightarrow> (private_fs, deletion_plan) op" where
  "plan_deletion B d references = bindS acquire_operation (\<lambda>_. plan_deletion_unix B d references)"

end
