(* ===== verification/Blob_Deletion.thy ===== *)
theory Blob_Deletion
  imports Blob_Backups
begin

text \<open>
  The deletion of an envelope (\<open>storage.rs\<close>): a journal with five states, the removal of the blob, of
  the put transaction, of the key reference and of the wrapping key in this order, and the receipt
  that stays behind. The state is the files and the key store.
\<close>

type_synonym ('k, 'a) keyed_op = "(private_fs \<times> 'k, 'a) op"

definition on_files :: "(private_fs, 'a) op \<Rightarrow> ('k, 'a) keyed_op" where
  "on_files m = (\<lambda>(s, k). case m s of (r, s') \<Rightarrow> (r, (s', k)))"

definition readiness_of :: "'k key_store \<Rightarrow> key_locator \<Rightarrow> ('k, backend_readiness) keyed_op" where
  "readiness_of K l = (\<lambda>(s, k). (ks_readiness K l k, (s, k)))"

section \<open>The steps on the files\<close>

definition ensure_deletion_reference_safety :: "blob_env \<Rightarrow> deletion_plan \<Rightarrow> bool \<Rightarrow> (private_fs, unit) op" where
  "ensure_deletion_reference_safety B plan allow_missing =
     bindS (key_reference_index_if_present B (dp_wrapping_key_id plan)) (\<lambda>index.
       case index of
         None \<Rightarrow> if allow_missing then returnS () else failS InvalidTransaction
       | Some index \<Rightarrow>
           if ki_installation_id index \<noteq> dp_installation_id plan \<or> ki_wrapping_key_id index \<noteq> dp_wrapping_key_id plan
           then failS InvalidTransaction
           else bindS (liftS (traverse (\<lambda>r.
                  if kf_envelope_digest r = dp_envelope_digest plan
                  then (if kf_protected_id r \<noteq> dp_protected_id plan then Inl InvalidTransaction else Inr ())
                  else Inl BlobReferenced) (ki_entries index))) (\<lambda>targets.
                if targets \<noteq> [] \<or> allow_missing then returnS () else failS InvalidTransaction))"

fun unlink_blobs :: "blob_env \<Rightarrow> dir_path \<Rightarrow> string \<Rightarrow> string list \<Rightarrow> (private_fs, unit) op" where
  "unlink_blobs B dir d [] = returnS ()"
| "unlink_blobs B dir d (n # ns) =
     bindS (read_optional_at dir n MAX_ENVELOPE_BYTES BlobTampered) (\<lambda>there.
     bindS (case there of
              None \<Rightarrow> returnS ()
            | Some encoded \<Rightarrow>
                bindS (liftS (verify_blob (bl_sha B) encoded d)) (\<lambda>_. unlink_file_at dir n)) (\<lambda>_.
       unlink_blobs B dir d ns))"

definition unlink_deletion_blobs :: "blob_env \<Rightarrow> string \<Rightarrow> string \<Rightarrow> (private_fs, unit) op" where
  "unlink_deletion_blobs B hex d =
     bindS (if_there (open_digest_directory ''sha256'' hex False)) (\<lambda>dir.
       case dir of
         None \<Rightarrow> returnS ()
       | Some dir \<Rightarrow>
           bindS (unlink_blobs B dir d [blob_name hex, pending_blob_name hex]) (\<lambda>_. call StorageIo))"

fun blobs_absent_at :: "dir_path \<Rightarrow> string list \<Rightarrow> (private_fs, unit) op" where
  "blobs_absent_at dir [] = returnS ()"
| "blobs_absent_at dir (n # ns) =
     bindS (read_optional_at dir n MAX_ENVELOPE_BYTES BlobTampered) (\<lambda>there.
       if there \<noteq> None then failS DeletionStateChanged else blobs_absent_at dir ns)"

definition verify_blobs_absent :: "string \<Rightarrow> (private_fs, unit) op" where
  "verify_blobs_absent hex =
     bindS (if_there (open_digest_directory ''sha256'' hex False)) (\<lambda>dir.
       case dir of
         None \<Rightarrow> returnS ()
       | Some dir \<Rightarrow> blobs_absent_at dir [blob_name hex, pending_blob_name hex])"

definition unlink_put_transaction :: "string \<Rightarrow> (private_fs, unit) op" where
  "unlink_put_transaction hex =
     bindS (if_there (open_digest_directory ''transactions'' hex False)) (\<lambda>dir.
       case dir of
         None \<Rightarrow> returnS ()
       | Some dir \<Rightarrow> bindS (unlink_file_if_present dir (metadata_name hex)) (\<lambda>_. call StorageIo))"

definition verify_put_transaction_absent :: "string \<Rightarrow> (private_fs, unit) op" where
  "verify_put_transaction_absent hex =
     bindS (if_there (open_digest_directory ''transactions'' hex False)) (\<lambda>dir.
       case dir of
         None \<Rightarrow> returnS ()
       | Some dir \<Rightarrow>
           bindS (read_optional_at dir (metadata_name hex) MAX_METADATA_BYTES InvalidTransaction) (\<lambda>there.
             if there \<noteq> None then failS DeletionStateChanged else returnS ()))"

definition remove_key_reference_idempotent :: "blob_env \<Rightarrow> deletion_plan \<Rightarrow> (private_fs, unit) op" where
  "remove_key_reference_idempotent B plan =
     bindS (key_reference_index_if_present B (dp_wrapping_key_id plan)) (\<lambda>index.
       case index of
         None \<Rightarrow> returnS ()
       | Some index \<Rightarrow>
           if ki_installation_id index \<noteq> dp_installation_id plan \<or> ki_wrapping_key_id index \<noteq> dp_wrapping_key_id plan
           then failS InvalidTransaction
           else (case search (dp_envelope_digest plan) (map kf_envelope_digest (ki_entries index)) of
                   Inl _ \<Rightarrow> failS BlobReferenced
                 | Inr position \<Rightarrow>
                     if kf_protected_id (ki_entries index ! position) \<noteq> dp_protected_id plan then failS InvalidTransaction
                     else if length (ki_entries index) \<noteq> 1 then failS BlobReferenced
                     else
                       bindS (open_key_reference_directory (dp_wrapping_key_id plan) False) (\<lambda>dir.
                       bindS (liftS (key_index_name (dp_wrapping_key_id plan))) (\<lambda>n.
                       bindS (unlink_file_at dir n) (\<lambda>_. call StorageIo)))))"

definition verify_key_reference_absent :: "blob_env \<Rightarrow> deletion_plan \<Rightarrow> (private_fs, unit) op" where
  "verify_key_reference_absent B plan =
     bindS (key_reference_index_if_present B (dp_wrapping_key_id plan)) (\<lambda>index.
       case index of
         None \<Rightarrow> returnS ()
       | Some index \<Rightarrow>
           if ki_installation_id index \<noteq> dp_installation_id plan \<or> ki_wrapping_key_id index \<noteq> dp_wrapping_key_id plan
           then failS InvalidTransaction else failS DeletionStateChanged)"

definition checkpoint_deletion :: "blob_env \<Rightarrow> dir_path \<Rightarrow> string \<Rightarrow> deletion_journal \<Rightarrow> deletion_state
    \<Rightarrow> key_deletion_status option \<Rightarrow> (private_fs, deletion_journal) op" where
  "checkpoint_deletion B dir n journal st status =
     (let journal = journal\<lparr>dj_state := st, dj_wrapping_key := status\<rparr> in
      bindS (liftS (deletion_journal_encode (bl_codecs B) journal)) (\<lambda>text.
      bindS (write_record_at dir n text) (\<lambda>_. returnS journal)))"

definition remove_matching_deletion_journal :: "blob_env \<Rightarrow> dir_path \<Rightarrow> string \<Rightarrow> deletion_plan \<Rightarrow> string
    \<Rightarrow> (private_fs, unit) op" where
  "remove_matching_deletion_journal B dir n plan plan_digest =
     bindS (read_optional_at dir n MAX_METADATA_BYTES InvalidDeletionPlan) (\<lambda>text.
       case text of
         None \<Rightarrow> returnS ()
       | Some text \<Rightarrow>
           bindS (liftS (deletion_journal_decode (bl_codecs B) text)) (\<lambda>journal.
           if dj_plan journal \<noteq> plan \<or> dj_plan_digest journal \<noteq> plan_digest then failS InvalidDeletionPlan
           else bindS (unlink_file_at dir n) (\<lambda>_. call StorageIo)))"

definition verify_receipt :: "deletion_receipt \<Rightarrow> deletion_plan \<Rightarrow> string \<Rightarrow> protected_store_error + unit" where
  "verify_receipt receipt plan plan_digest =
     (if de_plan_digest receipt \<noteq> plan_digest \<or> de_envelope_digest receipt \<noteq> dp_envelope_digest plan
         \<or> de_protected_id receipt \<noteq> dp_protected_id plan
      then Inl InvalidDeletionReceipt else Inr ())"

section \<open>The steps on the key store\<close>

definition delete_wrapping_key :: "'k key_store \<Rightarrow> key_locator \<Rightarrow> ('k, key_deletion_status) keyed_op" where
  "delete_wrapping_key K l =
     bindS (readiness_of K l) (\<lambda>status (s, k).
       case ks_delete K l k of
         (r, k') \<Rightarrow>
           if r = Inr () \<or> r = Inl KeyMissingError
           then bindS (readiness_of K l) (\<lambda>now.
                  if now \<noteq> KeyMissing then failS KeyDeletionUnverified
                  else returnS (case status of
                         Ready \<Rightarrow> DeletedAndAbsenceVerified
                       | KeyMissing \<Rightarrow> AlreadyAbsentAndVerified)) (s, k')
           else (case r of Inl e \<Rightarrow> (Inl e, (s, k')) | Inr _ \<Rightarrow> (Inl StorageIo, (s, k'))))"

definition verify_deleted_files :: "blob_env \<Rightarrow> deletion_plan \<Rightarrow> string \<Rightarrow> (private_fs, unit) op" where
  "verify_deleted_files B plan hex =
     bindS (verify_blobs_absent hex) (\<lambda>_.
     bindS (verify_put_transaction_absent hex) (\<lambda>_.
     bindS (backup_references B (dp_envelope_digest plan)) (\<lambda>refs.
     if refs \<noteq> [] then failS DeletionStateChanged
     else
       bindS (key_reference_index_if_present B (dp_wrapping_key_id plan)) (\<lambda>index.
         case index of
           None \<Rightarrow> returnS ()
         | Some index \<Rightarrow>
             if ki_installation_id index \<noteq> dp_installation_id plan \<or> ki_wrapping_key_id index \<noteq> dp_wrapping_key_id plan
             then failS InvalidTransaction
             else if ki_entries index \<noteq> [] then failS DeletionStateChanged else returnS ()))))"

definition verify_deleted_state :: "blob_env \<Rightarrow> 'k key_store \<Rightarrow> deletion_plan \<Rightarrow> ('k, unit) keyed_op" where
  "verify_deleted_state B K plan =
     bindS (liftS (key_locator_new (dp_installation_id plan) (dp_wrapping_key_id plan))) (\<lambda>l.
     bindS (readiness_of K l) (\<lambda>r.
     if r \<noteq> KeyMissing then failS KeyDeletionUnverified
     else
       bindS (liftS (digest_hex (dp_envelope_digest plan))) (\<lambda>hex.
         on_files (verify_deleted_files B plan hex))))"

section \<open>The deletion\<close>

text \<open>The journal of this plan, found or written after checking that the plan is about the envelope.\<close>

definition open_deletion_journal :: "blob_env \<Rightarrow> deletion_plan \<Rightarrow> string \<Rightarrow> dir_path \<Rightarrow> string
    \<Rightarrow> (private_fs, deletion_journal) op" where
  "open_deletion_journal B plan plan_digest dir n =
     bindS (read_optional_at dir n MAX_METADATA_BYTES InvalidDeletionPlan) (\<lambda>text.
       case text of
         Some text \<Rightarrow>
           bindS (liftS (deletion_journal_decode (bl_codecs B) text)) (\<lambda>journal.
           if dj_plan journal \<noteq> plan \<or> dj_plan_digest journal \<noteq> plan_digest then failS InvalidDeletionPlan
           else returnS journal)
       | None \<Rightarrow>
           bindS (ensure_deletion_reference_safety B plan False) (\<lambda>_.
           bindS (read_encoded_unix B (dp_envelope_digest plan)) (\<lambda>(_, e).
           if pe_installation_id e \<noteq> dp_installation_id plan \<or> pe_protected_id e \<noteq> dp_protected_id plan
              \<or> pe_wrapping_key_id e \<noteq> dp_wrapping_key_id plan
           then failS InvalidDeletionPlan
           else
             let journal = \<lparr>dj_version = DELETION_JOURNAL_VERSION, dj_state = DelPrepared, dj_plan_digest = plan_digest,
                   dj_plan = plan, dj_wrapping_key = None\<rparr> in
             bindS (liftS (deletion_journal_encode (bl_codecs B) journal)) (\<lambda>text.
             bindS (write_record_at dir n text) (\<lambda>_. returnS journal)))))"

text \<open>
  One stage of the deletion: done and recorded when the journal is before it, and otherwise checked
  to have been done.
\<close>

definition deletion_stage :: "blob_env \<Rightarrow> dir_path \<Rightarrow> string \<Rightarrow> deletion_state \<Rightarrow> (private_fs, unit) op \<Rightarrow> (private_fs, unit) op
    \<Rightarrow> deletion_journal \<Rightarrow> (private_fs, deletion_journal) op" where
  "deletion_stage B dir n st act check journal =
     (if dj_state journal < st
      then bindS act (\<lambda>_. checkpoint_deletion B dir n journal st None)
      else bindS check (\<lambda>_. returnS journal))"

definition deletion_stages :: "blob_env \<Rightarrow> deletion_plan \<Rightarrow> string \<Rightarrow> dir_path \<Rightarrow> string \<Rightarrow> deletion_journal
    \<Rightarrow> (private_fs, deletion_journal) op" where
  "deletion_stages B plan hex dir n journal =
     (let allow_missing = (dj_state journal \<ge> TransactionUnlinked) in
      bindS (ensure_no_backup_references B (dp_envelope_digest plan)) (\<lambda>_.
      bindS (ensure_deletion_reference_safety B plan allow_missing) (\<lambda>_.
      bindS (deletion_stage B dir n BlobUnlinked
        (unlink_deletion_blobs B hex (dp_envelope_digest plan)) (verify_blobs_absent hex) journal) (\<lambda>journal.
      bindS (deletion_stage B dir n TransactionUnlinked
        (unlink_put_transaction hex) (verify_put_transaction_absent hex) journal) (\<lambda>journal.
        deletion_stage B dir n ReferenceRemoved
          (remove_key_reference_idempotent B plan) (verify_key_reference_absent B plan) journal)))))"

definition deletion_key_stage :: "blob_env \<Rightarrow> 'k key_store \<Rightarrow> deletion_plan \<Rightarrow> dir_path \<Rightarrow> string \<Rightarrow> deletion_journal
    \<Rightarrow> ('k, key_deletion_status) keyed_op" where
  "deletion_key_stage B K plan dir n journal =
     bindS (liftS (key_locator_new (dp_installation_id plan) (dp_wrapping_key_id plan))) (\<lambda>l.
     if dj_state journal < KeyDeleted
     then bindS (delete_wrapping_key K l) (\<lambda>status.
          bindS (on_files (checkpoint_deletion B dir n journal KeyDeleted (Some status))) (\<lambda>_. returnS status))
     else bindS (readiness_of K l) (\<lambda>r.
          if r \<noteq> KeyMissing then failS DeletionStateChanged
          else liftS (ok_or InvalidDeletionPlan (dj_wrapping_key journal))))"

definition receipt_of_deletion :: "deletion_plan \<Rightarrow> string \<Rightarrow> key_deletion_status \<Rightarrow> deletion_receipt" where
  "receipt_of_deletion plan plan_digest status =
     \<lparr>de_version = DELETION_RECEIPT_VERSION, de_plan_digest = plan_digest, de_envelope_digest = dp_envelope_digest plan,
      de_protected_id = dp_protected_id plan, de_wrapping_key = status, de_blob = Unlinked,
      de_erasure_scope = LogicalStoreAndWrappingKeyOnlyUncontrolledCopiesMayRemain\<rparr>"

text \<open>The deletion when no receipt of it exists yet.\<close>

definition run_deletion :: "blob_env \<Rightarrow> 'k key_store \<Rightarrow> deletion_plan \<Rightarrow> string \<Rightarrow> string \<Rightarrow> dir_path
    \<Rightarrow> ('k, deletion_receipt) keyed_op" where
  "run_deletion B K plan plan_digest hex dir =
     (let pending_name = hex @ ''.pending.json'' in
      bindS (on_files (open_deletion_journal B plan plan_digest dir pending_name)) (\<lambda>journal.
      bindS (on_files (deletion_stages B plan hex dir pending_name journal)) (\<lambda>journal.
      bindS (deletion_key_stage B K plan dir pending_name journal) (\<lambda>status.
      bindS (verify_deleted_state B K plan) (\<lambda>_.
      let receipt = receipt_of_deletion plan plan_digest status in
      bindS (liftS (deletion_receipt_encode (bl_codecs B) receipt)) (\<lambda>text.
      bindS (on_files (write_record_at dir (metadata_name hex) text)) (\<lambda>_.
      bindS (on_files (unlink_file_if_present dir pending_name)) (\<lambda>_.
      bindS (on_files (call StorageIo)) (\<lambda>_. returnS receipt)))))))))"

definition execute_deletion_unix :: "blob_env \<Rightarrow> 'k key_store \<Rightarrow> deletion_plan \<Rightarrow> ('k, deletion_receipt) keyed_op" where
  "execute_deletion_unix B K plan =
     bindS (liftS (plan_check plan)) (\<lambda>_.
     bindS (on_files (ensure_no_backup_references B (dp_envelope_digest plan))) (\<lambda>_.
     if dp_references plan \<noteq> [] then failS BlobReferenced
     else
       bindS (liftS (plan_encode (bl_codecs B) plan)) (\<lambda>plan_encoded.
       let plan_digest = blob_digest B plan_encoded in
       bindS (liftS (digest_hex (dp_envelope_digest plan))) (\<lambda>hex.
       bindS (on_files (open_digest_directory ''deletions'' hex True)) (\<lambda>dir.
       bindS (on_files (read_optional_at dir (metadata_name hex) MAX_METADATA_BYTES InvalidDeletionReceipt)) (\<lambda>there.
         case there of
           Some text \<Rightarrow>
             bindS (liftS (deletion_receipt_decode (bl_codecs B) text)) (\<lambda>receipt.
             bindS (liftS (verify_receipt receipt plan plan_digest)) (\<lambda>_.
             bindS (verify_deleted_state B K plan) (\<lambda>_.
             bindS (on_files (remove_matching_deletion_journal B dir (hex @ ''.pending.json'') plan plan_digest)) (\<lambda>_.
               returnS receipt))))
         | None \<Rightarrow> run_deletion B K plan plan_digest hex dir))))))"

definition execute_deletion :: "blob_env \<Rightarrow> 'k key_store \<Rightarrow> deletion_plan \<Rightarrow> ('k, deletion_receipt) keyed_op" where
  "execute_deletion B K plan = bindS (on_files acquire_operation) (\<lambda>_. execute_deletion_unix B K plan)"

end
