(* ===== verification/Blob_Invariants.thy ===== *)
theory Blob_Invariants
  imports Blob_Deletion
begin

text \<open>
  What the transactions of the protected store keep: which of them leave a directory tree alone, and
  that a published blob always has the digest it is named by, whatever calls fail.
\<close>

named_theorems op_simps \<open>sequencing of fallible operations\<close>
named_theorems frame_intros \<open>operations that leave a tree of the store alone\<close>

lemma bindS_return [op_simps]: "bindS (returnS x) k = k x" "bindS (failS e) k = failS e" "bindS (liftS (Inr x)) k = k x"
  by (simp_all add: bindS_def returnS_def failS_def liftS_def fun_eq_iff)

lemma bindS_assoc [op_simps]: "bindS (bindS m k) l = bindS m (\<lambda>x. bindS (k x) l)"
  by (auto simp: bindS_def fun_eq_iff split: sum.splits prod.splits)

lemma bindS_Inr: "bindS m k s = (Inr y, t) \<longleftrightarrow> (\<exists>x s'. m s = (Inr x, s') \<and> k x s' = (Inr y, t))"
  by (auto simp: bindS_def split: sum.splits prod.splits)

lemma liftS_Inr [simp]: "liftS r s = (Inr x, s') \<longleftrightarrow> r = Inr x \<and> s' = s"
  by (auto simp: liftS_def)

lemma returnS_Inr [simp]: "returnS y s = (Inr x, s') \<longleftrightarrow> y = x \<and> s' = s"
  by (auto simp: returnS_def)

lemma failS_Inr [simp]: "failS e s \<noteq> (Inr x, s')"
  by (simp add: failS_def)

section \<open>Operations that leave a tree alone\<close>

text \<open>The files of the directories under one name.\<close>

definition tree :: "string \<Rightarrow> private_fs \<Rightarrow> string \<Rightarrow> string \<Rightarrow> file_node option" where
  "tree ns s = (\<lambda>x n. pf_file s [ns, x] n)"

definition leaves :: "string \<Rightarrow> (private_fs, 'a) op \<Rightarrow> bool" where
  "leaves ns m \<longleftrightarrow> (\<forall>s. tree ns (snd (m s)) = tree ns s)"

lemma tree_updates [simp]:
  "tree ns (s\<lparr>pf_calls := cs\<rparr>) = tree ns s" "tree ns (s\<lparr>pf_dir := ds\<rparr>) = tree ns s"
  "ns' \<noteq> ns \<Longrightarrow> tree ns (set_file [ns', x] n f s) = tree ns s"
  by (auto simp: tree_def set_file_def fun_eq_iff)

lemma leaves_bindS [frame_intros]: "leaves ns m \<Longrightarrow> (\<And>x. leaves ns (k x)) \<Longrightarrow> leaves ns (bindS m k)"
  by (auto simp: leaves_def bindS_def split: sum.splits prod.splits) (metis snd_conv)+

lemma leaves_basic [frame_intros]:
  "leaves ns (returnS x)" "leaves ns (failS e)" "leaves ns (liftS r)" "leaves ns (\<lambda>s. (r, s))"
  by (simp_all add: leaves_def returnS_def failS_def liftS_def)

lemma leaves_call [frame_intros]: "leaves ns (call e)"
  by (auto simp: leaves_def call_def split: list.splits)

lemma leaves_validate [frame_intros]: "leaves ns (validate_private_file f e)" "leaves ns (validate_private_directory p)"
  by (auto simp: validate_private_file_def validate_private_directory_def intro!: frame_intros split: file_node.split)

lemma leaves_open_dir [frame_intros]: "leaves ns (open_private_dir_at d create)"
proof -
  have "leaves ns (\<lambda>s. if pf_dir s d \<noteq> None then (Inr (), s) else call StorageIo (s\<lparr>pf_dir := (pf_dir s)(d \<mapsto> True)\<rparr>))"
    using leaves_call [of ns StorageIo] by (simp add: leaves_def)
  moreover have "leaves ns (\<lambda>s. case pf_dir s d of None \<Rightarrow> (Inl BlobMissing, s) | Some p \<Rightarrow> validate_private_directory p s)"
    using leaves_validate(2) [of ns] by (simp add: leaves_def split: option.split)
  ultimately show ?thesis unfolding open_private_dir_at_def by (auto intro!: frame_intros)
qed

lemma leaves_read [frame_intros]: "leaves ns (read_optional_at d n mx e)"
proof -
  have "leaves ns (bindS (validate_private_file Foreign_File e) (\<lambda>_. returnS None :: (private_fs, string option) op))"
    by (intro frame_intros)
  moreover have "leaves ns (bindS (validate_private_file (Private_File content) e) (\<lambda>_.
           bindS (call StorageIo) (\<lambda>_.
           if length content > mx then failS ContentTooLarge
           else bindS (call StorageIo) (\<lambda>_. returnS (Some content)))))" for content
    by (auto intro!: frame_intros)
  ultimately have "leaves ns (\<lambda>s. case pf_file s d n of
         None \<Rightarrow> (Inr None, s)
       | Some Link_File \<Rightarrow> (Inl e, s)
       | Some Foreign_File \<Rightarrow> bindS (validate_private_file Foreign_File e) (\<lambda>_. returnS None) s
       | Some (Private_File content) \<Rightarrow>
           bindS (validate_private_file (Private_File content) e) (\<lambda>_.
           bindS (call StorageIo) (\<lambda>_.
           if length content > mx then failS ContentTooLarge
           else bindS (call StorageIo) (\<lambda>_. returnS (Some content)))) s)"
    by (simp add: leaves_def split: option.split file_node.split)
  then show ?thesis unfolding read_optional_at_def by (intro leaves_bindS leaves_call)
qed

lemma leaves_read_required [frame_intros]: "leaves ns (read_required_at d n mx e)"
  by (auto simp: read_required_at_def intro!: frame_intros)

text \<open>Writing in another tree.\<close>

lemma leaves_update [frame_intros]: "ns' \<noteq> ns \<Longrightarrow> leaves ns (update (set_file [ns', x] n f))"
  by (simp add: leaves_def update_def)

lemma leaves_create [frame_intros]:
  assumes "ns' \<noteq> ns"
  shows "leaves ns (create_file_at [ns', x] n content)"
proof -
  have "leaves ns (write_all [ns', x] n content)"
    using assms by (auto simp: leaves_def write_all_def split: list.split call_outcome.split)
  then have "leaves ns (bindS (update (set_file [ns', x] n (Some (Private_File [])))) (\<lambda>_.
            bindS (validate_private_file (Private_File []) BlobTampered) (\<lambda>_.
            bindS (write_all [ns', x] n content) (\<lambda>_.
            bindS (call StorageIo) (\<lambda>_. returnS True)))))"
    using assms by (intro frame_intros)
  then have "leaves ns (\<lambda>s. if pf_file s [ns', x] n \<noteq> None then (Inr False, s)
       else bindS (update (set_file [ns', x] n (Some (Private_File [])))) (\<lambda>_.
            bindS (validate_private_file (Private_File []) BlobTampered) (\<lambda>_.
            bindS (write_all [ns', x] n content) (\<lambda>_.
            bindS (call StorageIo) (\<lambda>_. returnS True)))) s)"
    by (simp add: leaves_def)
  then show ?thesis unfolding create_file_at_def by (intro leaves_bindS leaves_call)
qed

lemma leaves_unlink [frame_intros]:
  assumes "ns' \<noteq> ns"
  shows "leaves ns (unlink_file_at [ns', x] n)" "leaves ns (unlink_file_if_present [ns', x] n)"
    "leaves ns (rename_at [ns', x] n n')"
proof -
  have "leaves ns (\<lambda>s. if pf_file s [ns', x] n = None then (Inl StorageIo, s) else (Inr (), set_file [ns', x] n None s))"
    using assms by (simp add: leaves_def)
  then show "leaves ns (unlink_file_at [ns', x] n)" unfolding unlink_file_at_def by (auto intro!: frame_intros)
  show "leaves ns (unlink_file_if_present [ns', x] n)"
    using assms by (auto simp: unlink_file_if_present_def intro!: frame_intros)
  have "leaves ns (\<lambda>s. case pf_file s [ns', x] n of None \<Rightarrow> (Inl StorageIo, s)
       | Some f \<Rightarrow> (Inr (), set_file [ns', x] n' (Some f) (set_file [ns', x] n None s)))"
    using assms by (simp add: leaves_def split: option.split)
  then show "leaves ns (rename_at [ns', x] n n')" unfolding rename_at_def by (auto intro!: frame_intros)
qed

lemma leaves_write_record [frame_intros]: "ns' \<noteq> ns \<Longrightarrow> leaves ns (write_record_at [ns', x] n text)"
  by (auto simp: write_record_at_def Let_def intro!: frame_intros)

text \<open>The directory that an operation goes on with.\<close>

lemma leaves_dir [frame_intros]:
  "leaves ns (k [ns', take 2 hex]) \<Longrightarrow> leaves ns (bindS (open_digest_directory ns' hex c) k)"
  by (auto simp: open_digest_directory_def op_simps intro!: frame_intros)

lemma leaves_key_dir [frame_intros]:
  "(\<And>x. leaves ns (k [''key-references'', x])) \<Longrightarrow> leaves ns (bindS (open_key_reference_directory key c) k)"
  by (auto simp: open_key_reference_directory_def op_simps intro!: frame_intros)

lemma leaves_there: "leaves ns m \<Longrightarrow> leaves ns (if_there m)"
  by (auto simp: leaves_def if_there_def split: sum.split prod.split) (metis snd_conv)+

lemma dir_result: "open_digest_directory ns' hex c s = (Inr d, t) \<Longrightarrow> d = [ns', take 2 hex]"
  by (auto simp: open_digest_directory_def bindS_Inr)

lemma key_dir_result: "open_key_reference_directory key c s = (Inr d, t) \<Longrightarrow> \<exists>x. d = [''key-references'', x]"
  by (auto simp: open_key_reference_directory_def bindS_Inr)

lemma leaves_open [frame_intros]:
  "leaves ns (open_digest_directory ns' hex c)" "leaves ns (open_key_reference_directory key c)"
  by (auto simp: open_digest_directory_def open_key_reference_directory_def intro!: frame_intros)

lemma leaves_bind_results:
  assumes "leaves ns m" and "\<And>s x t. m s = (Inr x, t) \<Longrightarrow> leaves ns (k x)"
  shows "leaves ns (bindS m k)"
  unfolding leaves_def
proof
  fix s
  obtain r t where m: "m s = (r, t)" by (cases "m s")
  with assms(1) have same: "tree ns t = tree ns s" by (metis leaves_def snd_conv)
  show "tree ns (snd (bindS m k s)) = tree ns s"
  proof (cases r)
    case (Inr x)
    with assms(2) [of s x t] m have "leaves ns (k x)" by simp
    with same show ?thesis by (simp add: bindS_def m Inr leaves_def)
  qed (simp add: bindS_def m same)
qed

lemma leaves_if_dir [frame_intros]:
  assumes "leaves ns (k None)" and "leaves ns (k (Some [ns', take 2 hex]))"
  shows "leaves ns (bindS (if_there (open_digest_directory ns' hex c)) k)"
  by (rule leaves_bind_results [OF leaves_there [OF leaves_open(1)]])
    (use assms in \<open>auto simp: if_there_def split: sum.splits prod.splits if_splits dest: dir_result\<close>)

lemma leaves_if_key_dir [frame_intros]:
  assumes "leaves ns (k None)" and "\<And>x. leaves ns (k (Some [''key-references'', x]))"
  shows "leaves ns (bindS (if_there (open_key_reference_directory key c)) k)"
  by (rule leaves_bind_results [OF leaves_there [OF leaves_open(2)]])
    (use assms in \<open>auto simp: if_there_def split: sum.splits prod.splits if_splits dest!: key_dir_result\<close>)

text \<open>The metadata operations leave the blobs alone.\<close>

lemma leaves_key_index [frame_intros]: "leaves ns (key_reference_index_if_present B key)"
  by (auto simp: key_reference_index_if_present_def intro!: frame_intros split: option.split)

lemma leaves_load_index [frame_intros]: "leaves ns (load_key_reference_index B i key)"
  by (auto simp: load_key_reference_index_def intro!: frame_intros)

lemma leaves_references [frame_intros]:
  "leaves ns (verify_key_reference B e d)" "leaves ns (same_key_peer_references B i key d)"
  by (auto simp: verify_key_reference_def same_key_peer_references_def intro!: frame_intros)

lemma leaves_write_reference [frame_intros]: "ns \<noteq> ''key-references'' \<Longrightarrow> leaves ns (write_key_reference B e d)"
  by (auto simp: write_key_reference_def intro!: frame_intros split: sum.split)

lemma leaves_acknowledgment [frame_intros]: "leaves ns (backup_acknowledgment_if_present B d)"
  by (auto simp: backup_acknowledgment_if_present_def intro!: frame_intros split: option.split)

lemma leaves_reference_index [frame_intros]: "leaves ns (backup_reference_index_if_present B d)"
  by (auto simp: backup_reference_index_if_present_def intro!: frame_intros split: option.split)

lemma leaves_active [frame_intros]: "leaves ns (backup_reference_is_active B d r)"
  by (auto simp: backup_reference_is_active_def intro!: frame_intros split: option.split sum.split)

lemma leaves_actives [frame_intros]: "leaves ns (active_references B d rs)"
  by (induction rs) (auto intro!: frame_intros)

lemma leaves_backup_references [frame_intros]: "leaves ns (backup_references B d)" "leaves ns (ensure_no_backup_references B d)"
proof -
  show "leaves ns (backup_references B d)"
    by (auto simp: backup_references_def intro!: frame_intros split: option.split)
  then show "leaves ns (ensure_no_backup_references B d)"
    by (auto simp: ensure_no_backup_references_def intro!: frame_intros)
qed

lemma leaves_pins [frame_intros]: "ns \<noteq> ''backup-references'' \<Longrightarrow> leaves ns (write_pins pins)"
  by (induction pins rule: write_pins.induct) (auto intro!: frame_intros)

lemma leaves_pin_records [frame_intros]: "leaves ns (pin_records B d es n)"
  by (induction es arbitrary: n) (auto simp: Let_def intro!: frame_intros split: prod.split)

lemma leaves_reset [frame_intros]: "ns \<noteq> ''backup-acknowledgments'' \<Longrightarrow> leaves ns (reset_backup_acknowledgment B d)"
  by (auto simp: reset_backup_acknowledgment_def intro!: frame_intros split: option.split)

lemma leaves_all_pinned [frame_intros]: "leaves ns (all_pinned B d es)"
  by (induction es) (auto intro!: frame_intros split: option.split sum.split)

lemma leaves_commit_ack [frame_intros]:
  assumes "ns' \<noteq> ns"
  shows "leaves ns (commit_backup_acknowledgment [ns', x] n p c)"
proof -
  have "tree ns (snd (write_record_at [ns', x] n p s)) = tree ns s" "tree ns (snd (call StorageIo s)) = tree ns s" for s
    using leaves_write_record [OF assms] leaves_call by (auto simp: leaves_def)
  then have "leaves ns (\<lambda>s. case call StorageIo s of
              (Inr _, s) \<Rightarrow> (Inr (), s)
            | (Inl _, s) \<Rightarrow>
                (case write_record_at [ns', x] n p s of
                   (Inr _, s) \<Rightarrow> (Inl StorageIo, s)
                 | (Inl _, s) \<Rightarrow> (Inr (), s)))"
    by (auto simp: leaves_def split: prod.split sum.split) (metis snd_conv)+
  then show ?thesis
    using assms by (auto simp: commit_backup_acknowledgment_def Let_def intro!: frame_intros)
qed

lemma leaves_acknowledge [frame_intros]:
  "ns \<noteq> ''backup-acknowledgments'' \<Longrightarrow> leaves ns (acknowledge_backup_removal_unix B m)"
  by (auto simp: acknowledge_backup_removal_unix_def acknowledge_in_def Let_def intro!: frame_intros split: option.split)

section \<open>Published blobs have their digest\<close>

definition hex64 :: "string \<Rightarrow> bool" where
  "hex64 h \<longleftrightarrow> length h = 64 \<and> list_all is_lower_hex h"

lemma digest_hex_Inr: "digest_hex d = Inr h \<longleftrightarrow> d = ''sha256:'' @ h \<and> hex64 h"
proof
  assume "digest_hex d = Inr h"
  then have "valid_store_digest d" "strip_prefix ''sha256:'' d = Some h"
    by (auto simp: digest_hex_def ok_or_def split: if_splits option.splits)
  then show "d = ''sha256:'' @ h \<and> hex64 h" by (auto simp: valid_store_digest_iff hex64_def simp del: append.simps)
next
  assume "d = ''sha256:'' @ h \<and> hex64 h"
  then show "digest_hex d = Inr h"
    by (auto simp: digest_hex_def valid_store_digest_iff hex64_def ok_or_def simp del: append.simps)
qed

type_synonym blob_tree = "string \<Rightarrow> string \<Rightarrow> file_node option"

definition blobs_ok :: "(string \<Rightarrow> string) \<Rightarrow> blob_tree \<Rightarrow> bool" where
  "blobs_ok sha T \<longleftrightarrow>
     (\<forall>h b. hex64 h \<longrightarrow> T (take 2 h) (blob_name h) = Some (Private_File b) \<longrightarrow> store_digest sha b = ''sha256:'' @ h)"

text \<open>
  A step keeps the blobs: from a good tree with \<open>P\<close>, it leaves a good tree, and one with \<open>Q\<close> if it
  succeeds.
\<close>

definition keeps_blobs :: "(string \<Rightarrow> string) \<Rightarrow> (blob_tree \<Rightarrow> bool) \<Rightarrow> (private_fs, 'a) op \<Rightarrow> ('a \<Rightarrow> blob_tree \<Rightarrow> bool) \<Rightarrow> bool" where
  "keeps_blobs sha P m Q \<longleftrightarrow>
     (\<forall>s. blobs_ok sha (tree ''sha256'' s) \<longrightarrow> P (tree ''sha256'' s) \<longrightarrow>
        blobs_ok sha (tree ''sha256'' (snd (m s))) \<and> (\<forall>x t. m s = (Inr x, t) \<longrightarrow> Q x (tree ''sha256'' t)))"

lemma keeps_bindS:
  assumes "keeps_blobs sha P m R" and "\<And>x. keeps_blobs sha (R x) (k x) Q"
  shows "keeps_blobs sha P (bindS m k) Q"
  unfolding keeps_blobs_def
proof (intro allI impI)
  fix s assume s: "blobs_ok sha (tree ''sha256'' s)" "P (tree ''sha256'' s)"
  obtain r t where m: "m s = (r, t)" by (cases "m s")
  from assms(1) s have t: "blobs_ok sha (tree ''sha256'' t)" "\<And>x. r = Inr x \<Longrightarrow> R x (tree ''sha256'' t)"
    unfolding keeps_blobs_def using m by (metis snd_conv)+
  show "blobs_ok sha (tree ''sha256'' (snd (bindS m k s)))
      \<and> (\<forall>x t. bindS m k s = (Inr x, t) \<longrightarrow> Q x (tree ''sha256'' t))"
  proof (cases r)
    case (Inr x)
    with t assms(2) [of x] show ?thesis by (simp add: bindS_def m keeps_blobs_def)
  qed (simp add: bindS_def m t)
qed

lemma keeps_leaves: "leaves ''sha256'' m \<Longrightarrow> keeps_blobs sha P m (\<lambda>_. P)"
  by (auto simp: keeps_blobs_def leaves_def) (metis snd_conv)

lemma keeps_weaken:
  "keeps_blobs sha P m Q \<Longrightarrow> (\<And>T. P' T \<Longrightarrow> P T) \<Longrightarrow> (\<And>x T. Q x T \<Longrightarrow> Q' x T) \<Longrightarrow> keeps_blobs sha P' m Q'"
  by (auto simp: keeps_blobs_def)

lemma keeps_after: "leaves ''sha256'' m \<Longrightarrow> (\<And>x. keeps_blobs sha P (k x) Q) \<Longrightarrow> keeps_blobs sha P (bindS m k) Q"
  by (rule keeps_bindS [OF keeps_leaves])

lemma keeps_simple:
  "keeps_blobs sha P (failS e) Q" "(\<And>T. P T \<Longrightarrow> Q x T) \<Longrightarrow> keeps_blobs sha P (returnS x) Q"
  "(\<And>x T. r = Inr x \<Longrightarrow> P T \<Longrightarrow> Q x T) \<Longrightarrow> keeps_blobs sha P (liftS r) Q"
  by (auto simp: keeps_blobs_def failS_def returnS_def liftS_def)

lemma keeps_after_result:
  assumes "leaves ''sha256'' m" and "\<And>s x t. m s = (Inr x, t) \<Longrightarrow> keeps_blobs sha P (k x) Q"
  shows "keeps_blobs sha P (bindS m k) Q"
  unfolding keeps_blobs_def
proof (intro allI impI)
  fix s assume s: "blobs_ok sha (tree ''sha256'' s)" "P (tree ''sha256'' s)"
  obtain r t where m: "m s = (r, t)" by (cases "m s")
  with assms(1) have same: "tree ''sha256'' t = tree ''sha256'' s" by (metis leaves_def snd_conv)
  show "blobs_ok sha (tree ''sha256'' (snd (bindS m k s)))
      \<and> (\<forall>x t. bindS m k s = (Inr x, t) \<longrightarrow> Q x (tree ''sha256'' t))"
  proof (cases r)
    case (Inr x)
    with assms(2) [of s x t] m have k: "keeps_blobs sha P (k x) Q" by simp
    have "blobs_ok sha (tree ''sha256'' t)" "P (tree ''sha256'' t)" using s same by simp_all
    with k [unfolded keeps_blobs_def, rule_format, of t] show ?thesis by (simp add: bindS_def m Inr)
  qed (simp add: bindS_def m same s)
qed

text \<open>What reading and creating a file say and do.\<close>

lemma call_file: "pf_file (snd (call e s)) = pf_file s"
  by (auto simp: call_def split: list.splits)

lemma call_Inr: "call e s = (Inr u, t) \<Longrightarrow> pf_file t = pf_file s"
  using call_file [of e s] by simp

lemma validate_Inr: "validate_private_file f e s = (Inr u, t) \<Longrightarrow> pf_file t = pf_file s \<and> (\<exists>b. f = Private_File b)"
  by (auto simp: validate_private_file_def bindS_Inr dest!: call_Inr split: file_node.splits)

lemma read_optional_Inr:
  assumes "read_optional_at d n mx e s = (Inr r, t)"
  shows "pf_file t = pf_file s" and "pf_file s d n = map_option Private_File r"
proof -
  from assms obtain s1 where c: "pf_file s1 = pf_file s" and
    body: "(case pf_file s1 d n of
         None \<Rightarrow> (Inr None, s1)
       | Some Link_File \<Rightarrow> (Inl e, s1)
       | Some Foreign_File \<Rightarrow> bindS (validate_private_file Foreign_File e) (\<lambda>_. returnS None) s1
       | Some (Private_File content) \<Rightarrow>
           bindS (validate_private_file (Private_File content) e) (\<lambda>_.
           bindS (call StorageIo) (\<lambda>_.
           if length content > mx then failS ContentTooLarge
           else bindS (call StorageIo) (\<lambda>_. returnS (Some content)))) s1) = (Inr r, t)"
    unfolding read_optional_at_def bindS_Inr by (auto dest: call_Inr)
  have "pf_file t = pf_file s \<and> pf_file s d n = map_option Private_File r"
  proof (cases "pf_file s1 d n")
    case (Some f)
    with body c show ?thesis
      by (cases f) (auto simp: bindS_Inr dest!: call_Inr validate_Inr split: if_splits)
  qed (use body c in auto)
  then show "pf_file t = pf_file s" and "pf_file s d n = map_option Private_File r" by simp_all
qed

lemma read_required_Inr:
  assumes "read_required_at d n mx e s = (Inr b, t)"
  shows "pf_file t = pf_file s" and "pf_file s d n = Some (Private_File b)"
proof -
  from assms have "read_optional_at d n mx e s = (Inr (Some b), t)"
    by (auto simp: read_required_at_def bindS_Inr result_simps)
  from read_optional_Inr [OF this] show "pf_file t = pf_file s" and "pf_file s d n = Some (Private_File b)" by simp_all
qed

text \<open>Writing the pending copy, publishing and unlinking.\<close>

lemma tree_set_file: "tree ns (set_file [ns, x] n f s) = (tree ns s)(x := (tree ns s x)(n := f))"
  by (auto simp: tree_def set_file_def fun_eq_iff)

lemma tree_cong: "pf_file t = pf_file s \<Longrightarrow> tree ns t = tree ns s"
  by (simp add: tree_def)

lemma pending_not_blob: "hex64 h \<Longrightarrow> blob_name h \<noteq> pending_blob_name h'"
  by (cases h) (auto simp: hex64_def blob_name_def pending_blob_name_def is_lower_hex_def is_ascii_digit_def less_eq_char_def)

lemma blobs_ok_pending: "blobs_ok sha T \<Longrightarrow> blobs_ok sha (T(x := (T x)(pending_blob_name h := f)))"
  using pending_not_blob by (auto simp: blobs_ok_def)

lemma blobs_ok_unlink: "blobs_ok sha T \<Longrightarrow> blobs_ok sha (T(x := (T x)(n := None)))"
  by (auto simp: blobs_ok_def)

lemma blob_name_inj: "blob_name h = blob_name h' \<longleftrightarrow> h = h'"
  by (simp add: blob_name_def)

lemma blobs_ok_publish:
  assumes "blobs_ok sha T" and "\<And>b. f = Private_File b \<Longrightarrow> store_digest sha b = ''sha256:'' @ h"
  shows "blobs_ok sha (T(take 2 h := (T (take 2 h))(blob_name h := Some f)))"
  using assms by (auto simp: blobs_ok_def blob_name_inj)

definition pending_ok :: "(string \<Rightarrow> string) \<Rightarrow> string \<Rightarrow> blob_tree \<Rightarrow> bool" where
  "pending_ok sha h T \<longleftrightarrow>
     (\<forall>b. T (take 2 h) (pending_blob_name h) = Some (Private_File b) \<longrightarrow> store_digest sha b = ''sha256:'' @ h)"

definition published :: "string \<Rightarrow> blob_tree \<Rightarrow> bool" where
  "published h T \<longleftrightarrow> T (take 2 h) (blob_name h) \<noteq> None"

lemma keeps_unlink:
  "keeps_blobs sha P (unlink_file_if_present [''sha256'', x] n) (\<lambda>_ T. T x n = None)"
  "keeps_blobs sha P (unlink_file_at [''sha256'', x] n) (\<lambda>_ T. T x n = None)"
proof -
  have "keeps_blobs sha P (update (set_file [''sha256'', x] n None)) (\<lambda>_ T. T x n = None)"
    by (auto simp: keeps_blobs_def update_def tree_set_file blobs_ok_unlink)
  then show "keeps_blobs sha P (unlink_file_if_present [''sha256'', x] n) (\<lambda>_ T. T x n = None)"
    unfolding unlink_file_if_present_def by (intro keeps_after leaves_call)
  have "keeps_blobs sha P (\<lambda>s. if pf_file s [''sha256'', x] n = None then (Inl StorageIo, s)
      else (Inr (), set_file [''sha256'', x] n None s)) (\<lambda>_ T. T x n = None)"
    by (auto simp: keeps_blobs_def tree_set_file blobs_ok_unlink)
  then show "keeps_blobs sha P (unlink_file_at [''sha256'', x] n) (\<lambda>_ T. T x n = None)"
    unfolding unlink_file_at_def by (intro keeps_after leaves_call)
qed

text \<open>A publication is safe when the pending copy has the digest, or the blob is there already.\<close>

lemma keeps_link:
  "keeps_blobs sha (\<lambda>T. pending_ok sha h T \<or> published h T)
     (\<lambda>s. if pf_file s [''sha256'', take 2 h] (blob_name h) \<noteq> None
       then bindS (read_required_at [''sha256'', take 2 h] (blob_name h) MAX_ENVELOPE_BYTES BlobTampered) (\<lambda>existing.
              liftS (verify_blob sha existing d)) s
       else (case pf_file s [''sha256'', take 2 h] (pending_blob_name h) of
               None \<Rightarrow> (Inl StorageIo, s)
             | Some f \<Rightarrow> (Inr (), set_file [''sha256'', take 2 h] (blob_name h) (Some f) s))) (\<lambda>_. published h)"
  (is "keeps_blobs sha ?P (\<lambda>s. ?m s) _")
  unfolding keeps_blobs_def
proof (intro allI impI)
  fix s assume ok: "blobs_ok sha (tree ''sha256'' s)" and P: "?P (tree ''sha256'' s)"
  let ?d = "[''sha256'', take 2 h]"
  show "blobs_ok sha (tree ''sha256'' (snd (?m s))) \<and> (\<forall>x t. ?m s = (Inr x, t) \<longrightarrow> published h (tree ''sha256'' t))"
  proof (cases "pf_file s ?d (blob_name h)")
    case None
    then have "pending_ok sha h (tree ''sha256'' s)" using P by (simp add: published_def tree_def)
    then have "f = Private_File b \<Longrightarrow> store_digest sha b = ''sha256:'' @ h" if "pf_file s ?d (pending_blob_name h) = Some f" for f b
      using that by (simp add: pending_ok_def tree_def)
    with None ok show ?thesis
      by (auto simp: tree_set_file published_def intro!: blobs_ok_publish split: option.split)
  next
    case (Some f)
    let ?k = "bindS (read_required_at ?d (blob_name h) MAX_ENVELOPE_BYTES BlobTampered) (\<lambda>existing. liftS (verify_blob sha existing d))"
    have "leaves ''sha256'' ?k" by (intro frame_intros)
    then have "tree ''sha256'' (snd (?k s)) = tree ''sha256'' s" by (simp add: leaves_def)
    moreover have "published h (tree ''sha256'' s)" using Some by (simp add: published_def tree_def)
    ultimately show ?thesis using ok Some by (auto simp del: split_paired_All)
  qed
qed

lemma published_unlink_pending: "hex64 h \<Longrightarrow> published h (T(x := (T x)(pending_blob_name h' := f))) \<longleftrightarrow> published h T"
  using pending_not_blob by (auto simp: published_def)

lemma keeps_publish:
  assumes "hex64 h"
  shows "keeps_blobs sha (\<lambda>T. pending_ok sha h T \<or> published h T)
     (publish_pending sha [''sha256'', take 2 h] (pending_blob_name h) (blob_name h) d) (\<lambda>_. published h)"
proof -
  have unlink: "keeps_blobs sha (published h) (unlink_file_if_present [''sha256'', take 2 h] (pending_blob_name h)) (\<lambda>_. published h)"
    unfolding unlink_file_if_present_def
    by (intro keeps_after leaves_call)
      (auto simp: keeps_blobs_def update_def tree_set_file blobs_ok_unlink published_unlink_pending [OF assms])
  show ?thesis
    unfolding publish_pending_def op_simps
    by (intro keeps_after leaves_call keeps_bindS [OF keeps_link] keeps_bindS [OF unlink])
      (rule keeps_leaves [OF leaves_call])
qed

lemma keeps_read:
  "keeps_blobs sha P (read_optional_at [''sha256'', x] n mx e) (\<lambda>r T. P T \<and> T x n = map_option Private_File r)"
  unfolding keeps_blobs_def
proof (intro allI impI conjI)
  fix s assume s: "blobs_ok sha (tree ''sha256'' s)" "P (tree ''sha256'' s)"
  show "blobs_ok sha (tree ''sha256'' (snd (read_optional_at [''sha256'', x] n mx e s)))"
    using s leaves_read [of "''sha256''" "[''sha256'', x]" n mx e] by (simp add: leaves_def)
  fix r t assume m: "read_optional_at [''sha256'', x] n mx e s = (Inr r, t)"
  show "P (tree ''sha256'' t)" "tree ''sha256'' t x n = map_option Private_File r"
    using s(2) read_optional_Inr [OF m] by (simp_all add: tree_cong tree_def)
qed

lemma keeps_read_required:
  "keeps_blobs sha P (read_required_at [''sha256'', x] n mx e) (\<lambda>b T. P T \<and> T x n = Some (Private_File b))"
  unfolding read_required_at_def
  by (rule keeps_bindS [OF keeps_read]) (auto intro!: keeps_simple simp: result_simps)

lemma keeps_unlink_pending:
  assumes "hex64 h"
  shows "keeps_blobs sha (published h) (unlink_file_at [''sha256'', x] (pending_blob_name h)) (\<lambda>_. published h)"
proof -
  have "keeps_blobs sha (published h) (\<lambda>s. if pf_file s [''sha256'', x] (pending_blob_name h) = None then (Inl StorageIo, s)
      else (Inr (), set_file [''sha256'', x] (pending_blob_name h) None s)) (\<lambda>_. published h)"
    by (auto simp: keeps_blobs_def tree_set_file blobs_ok_unlink published_unlink_pending [OF assms])
  then show ?thesis unfolding unlink_file_at_def by (intro keeps_after leaves_call)
qed

lemma keeps_create_pending:
  "keeps_blobs sha P (create_file_at [''sha256'', x] (pending_blob_name h) content)
     (\<lambda>created T. created \<longrightarrow> T x (pending_blob_name h) = Some (Private_File content))"
proof -
  let ?n = "pending_blob_name h"
  let ?Q = "\<lambda>_ T. T x ?n = Some (Private_File content)"
  have written: "keeps_blobs sha R (write_all [''sha256'', x] ?n content) ?Q" for R
    by (auto simp: keeps_blobs_def write_all_def tree_set_file blobs_ok_pending split: list.split call_outcome.split)
  have sync: "keeps_blobs sha (?Q ()) (bindS (call StorageIo) (\<lambda>_. returnS True)) (\<lambda>_. ?Q ())"
    by (intro keeps_after leaves_call keeps_simple(2))
  have "keeps_blobs sha P (update (set_file [''sha256'', x] ?n (Some (Private_File [])))) (\<lambda>_ _. True)"
    by (auto simp: keeps_blobs_def update_def tree_set_file blobs_ok_pending)
  then have "keeps_blobs sha P (bindS (update (set_file [''sha256'', x] ?n (Some (Private_File [])))) (\<lambda>_.
            bindS (validate_private_file (Private_File []) BlobTampered) (\<lambda>_.
            bindS (write_all [''sha256'', x] ?n content) (\<lambda>_.
            bindS (call StorageIo) (\<lambda>_. returnS True))))) (\<lambda>_. ?Q ())"
    by (rule keeps_bindS) (rule keeps_after [OF leaves_validate(1)], rule keeps_bindS [OF written], rule sync)
  then have "keeps_blobs sha P (\<lambda>s. if pf_file s [''sha256'', x] ?n \<noteq> None then (Inr False, s)
       else bindS (update (set_file [''sha256'', x] ?n (Some (Private_File [])))) (\<lambda>_.
            bindS (validate_private_file (Private_File []) BlobTampered) (\<lambda>_.
            bindS (write_all [''sha256'', x] ?n content) (\<lambda>_.
            bindS (call StorageIo) (\<lambda>_. returnS True)))) s)
     (\<lambda>created T. created \<longrightarrow> T x ?n = Some (Private_File content))"
    by (simp add: keeps_blobs_def)
  then show ?thesis unfolding create_file_at_def by (intro keeps_after leaves_call)
qed

lemma verify_blob_Inr [result_simps]: "verify_blob sha b d = Inr () \<longleftrightarrow> store_digest sha b = d"
  by (simp add: verify_blob_def)

lemma keeps_stage:
  assumes h: "hex64 h" and d: "store_digest (bl_sha B) encoded = ''sha256:'' @ h"
  shows "keeps_blobs (bl_sha B) (\<lambda>_. True)
    (stage_blob B [''sha256'', take 2 h] (blob_name h) (pending_blob_name h) (''sha256:'' @ h) encoded)
    (\<lambda>_ T. pending_ok (bl_sha B) h T \<or> published h T)"
proof -
  let ?d = "[''sha256'', take 2 h]" and ?sha = "bl_sha B"
  have there: "keeps_blobs ?sha (published h)
      (bindS (liftS (verify_blob ?sha existing (''sha256:'' @ h))) (\<lambda>_.
           bindS (read_optional_at ?d (pending_blob_name h) MAX_ENVELOPE_BYTES BlobTampered) (\<lambda>left.
             case left of
               None \<Rightarrow> returnS ()
             | Some pending_bytes \<Rightarrow>
                 bindS (liftS (verify_blob ?sha pending_bytes (''sha256:'' @ h))) (\<lambda>_.
                 bindS (unlink_file_at ?d (pending_blob_name h)) (\<lambda>_. call StorageIo))))) (\<lambda>_. published h)" for existing
  proof (intro keeps_after leaves_basic leaves_read)
    fix x left
    show "keeps_blobs ?sha (published h) (case left of
               None \<Rightarrow> returnS ()
             | Some pending_bytes \<Rightarrow>
                 bindS (liftS (verify_blob ?sha pending_bytes (''sha256:'' @ h))) (\<lambda>_.
                 bindS (unlink_file_at ?d (pending_blob_name h)) (\<lambda>_. call StorageIo))) (\<lambda>_. published h)"
    proof (cases left)
      case None
      then show ?thesis by (simp add: keeps_simple)
    next
      case (Some b)
      then show ?thesis
        by (simp del: append.simps) (intro keeps_after leaves_basic keeps_bindS [OF keeps_unlink_pending [OF h]] keeps_leaves leaves_call)
    qed
  qed
  have found: "keeps_blobs ?sha (\<lambda>_. True)
      (bindS (read_required_at ?d (pending_blob_name h) MAX_ENVELOPE_BYTES BlobTampered) (\<lambda>existing.
                    liftS (verify_blob ?sha existing (''sha256:'' @ h)))) (\<lambda>_. pending_ok ?sha h)"
    by (rule keeps_bindS [OF keeps_read_required]) (auto intro!: keeps_simple simp: pending_ok_def result_simps)
  have fresh: "keeps_blobs ?sha (\<lambda>_. True)
      (bindS (create_file_at ?d (pending_blob_name h) encoded) (\<lambda>created.
             if \<not> created
             then bindS (read_required_at ?d (pending_blob_name h) MAX_ENVELOPE_BYTES BlobTampered) (\<lambda>existing.
                    liftS (verify_blob ?sha existing (''sha256:'' @ h)))
             else call StorageIo)) (\<lambda>_. pending_ok ?sha h)"
  proof (rule keeps_bindS [OF keeps_create_pending])
    fix created
    show "keeps_blobs ?sha (\<lambda>T. created \<longrightarrow> T (take 2 h) (pending_blob_name h) = Some (Private_File encoded))
       (if \<not> created
             then bindS (read_required_at ?d (pending_blob_name h) MAX_ENVELOPE_BYTES BlobTampered) (\<lambda>existing.
                    liftS (verify_blob ?sha existing (''sha256:'' @ h)))
             else call StorageIo) (\<lambda>_. pending_ok ?sha h)"
    proof (cases created)
      case True
      have "keeps_blobs ?sha (\<lambda>T. T (take 2 h) (pending_blob_name h) = Some (Private_File encoded)) (call StorageIo)
          (\<lambda>_. pending_ok ?sha h)"
        by (rule keeps_weaken [OF keeps_leaves [OF leaves_call]], assumption) (simp add: pending_ok_def d)
      with True show ?thesis by simp
    next
      case False
      with found show ?thesis by (simp del: append.simps)
    qed
  qed
  show ?thesis
    unfolding stage_blob_def
  proof (rule keeps_bindS [OF keeps_read])
    fix existing
    show "keeps_blobs ?sha (\<lambda>T. True \<and> T (take 2 h) (blob_name h) = map_option Private_File existing)
       (case existing of
         Some existing \<Rightarrow>
           bindS (liftS (verify_blob ?sha existing (''sha256:'' @ h))) (\<lambda>_.
           bindS (read_optional_at ?d (pending_blob_name h) MAX_ENVELOPE_BYTES BlobTampered) (\<lambda>left.
             case left of
               None \<Rightarrow> returnS ()
             | Some pending_bytes \<Rightarrow>
                 bindS (liftS (verify_blob ?sha pending_bytes (''sha256:'' @ h))) (\<lambda>_.
                 bindS (unlink_file_at ?d (pending_blob_name h)) (\<lambda>_. call StorageIo))))
       | None \<Rightarrow>
           bindS (create_file_at ?d (pending_blob_name h) encoded) (\<lambda>created.
             if \<not> created
             then bindS (read_required_at ?d (pending_blob_name h) MAX_ENVELOPE_BYTES BlobTampered) (\<lambda>existing.
                    liftS (verify_blob ?sha existing (''sha256:'' @ h)))
             else call StorageIo)) (\<lambda>_ T. pending_ok ?sha h T \<or> published h T)"
    proof (cases existing)
      case None
      show ?thesis unfolding None option.case by (rule keeps_weaken [OF fresh]) auto
    next
      case (Some b)
      show ?thesis unfolding Some option.case by (rule keeps_weaken [OF there]) (auto simp: published_def)
    qed
  qed
qed

section \<open>The transactions keep the published blobs\<close>

text \<open>The last steps of a put and of a read.\<close>

lemma keeps_commit:
  "keeps_blobs sha P (commit_journal B [''transactions'', x] n j) (\<lambda>_. P)"
  unfolding commit_journal_def by (intro keeps_leaves) (auto intro!: frame_intros)

lemma keeps_put_steps:
  assumes h: "hex64 h" and d: "store_digest (bl_sha B) encoded = ''sha256:'' @ h"
  shows "keeps_blobs (bl_sha B) (\<lambda>_. True)
    (put_steps B e (''sha256:'' @ h) encoded h [''sha256'', take 2 h] [''transactions'', y]) (\<lambda>_. published h)"
proof -
  let ?sha = "bl_sha B" and ?d = "[''sha256'', take 2 h]"
  let ?ready = "\<lambda>T. pending_ok ?sha h T \<or> published h T"
  have journal: "leaves ''sha256'' (case there of
               Some text \<Rightarrow>
                 bindS (liftS (put_journal_decode (bl_codecs B) text)) (\<lambda>existing.
                   liftS (verify_put_journal existing j))
             | None \<Rightarrow>
                 bindS (liftS (put_journal_encode (bl_codecs B) j)) (\<lambda>text.
                   write_record_at [''transactions'', y] (metadata_name h) text))" for there j
    by (auto intro!: frame_intros split: option.split)
  have publish: "keeps_blobs ?sha (\<lambda>T. ?ready T \<and> T (take 2 h) (blob_name h) = map_option Private_File there)
      (if there = None then publish_pending ?sha ?d (pending_blob_name h) (blob_name h) (''sha256:'' @ h) else returnS ())
      (\<lambda>_. published h)" for there
    by (auto simp: published_def intro!: keeps_simple intro: keeps_weaken [OF keeps_publish [OF h]])
  show ?thesis
    unfolding put_steps_def Let_def
    by (intro keeps_after leaves_read journal keeps_bindS [OF keeps_stage [OF h d]] leaves_write_reference
        keeps_bindS [OF keeps_read] keeps_bindS [OF publish] keeps_bindS [OF keeps_commit] keeps_simple) simp_all
qed

lemma keeps_put: "keeps_blobs (bl_sha B) (\<lambda>_. True) (put_unix B e) (\<lambda>_ _. True)"
proof -
  have steps: "keeps_blobs (bl_sha B) (\<lambda>_. True) (bindS (liftS (digest_hex (blob_digest B encoded))) (\<lambda>hex.
       bindS (open_digest_directory ''sha256'' hex True) (\<lambda>blobs.
       bindS (open_digest_directory ''transactions'' hex True) (\<lambda>transactions.
         put_steps B e (blob_digest B encoded) encoded hex blobs transactions)))) (\<lambda>_ _. True)" for encoded
  proof (cases "digest_hex (blob_digest B encoded)")
    case (Inl err)
    then show ?thesis by (simp add: keeps_blobs_def bindS_def liftS_def)
  next
    case (Inr h)
    then have h: "hex64 h" "blob_digest B encoded = ''sha256:'' @ h" by (simp_all add: digest_hex_Inr del: append.simps)
    show ?thesis
      unfolding Inr op_simps open_digest_directory_def
      by (intro keeps_after leaves_open_dir) (unfold h(2), rule keeps_weaken [OF keeps_put_steps [OF h]], simp_all)
  qed
  show ?thesis
    unfolding put_unix_def Let_def by (rule keeps_after [OF leaves_basic(3)]) (rule steps)
qed

text \<open>The read: what it verified is what it publishes.\<close>

lemma leaves_journal [frame_intros]: "leaves ns (journal_of_blob B d h dir final)"
  by (auto simp: journal_of_blob_def intro!: frame_intros split: option.split)

lemma keeps_complete_put:
  assumes h: "hex64 h"
  shows "keeps_blobs (bl_sha B) (\<lambda>T. if final_present then published h T else pending_ok (bl_sha B) h T)
    (complete_put B (''sha256:'' @ h) h [''sha256'', take 2 h] [''transactions'', y] final_present j e) (\<lambda>_ _. True)"
proof -
  let ?sha = "bl_sha B" and ?d = "[''sha256'', take 2 h]"
  have reference: "leaves ''sha256'' (if pj_state j = PutCommitted then verify_key_reference B e (''sha256:'' @ h)
      else write_key_reference B e (''sha256:'' @ h))"
    by (auto intro!: frame_intros)
  have commit: "leaves ''sha256'' (if pj_state j = PutPending
            then bindS (liftS (put_journal_encode (bl_codecs B) (j\<lparr>pj_state := PutCommitted\<rparr>))) (\<lambda>text.
                   write_record_at [''transactions'', y] (metadata_name h) text)
            else returnS ())"
    by (auto intro!: frame_intros)
  have publish: "keeps_blobs ?sha (\<lambda>T. if final_present then published h T else pending_ok ?sha h T)
      (if \<not> final_present then publish_pending ?sha ?d (pending_blob_name h) (blob_name h) (''sha256:'' @ h) else returnS ())
      (\<lambda>_. published h)"
    by (cases final_present) (auto intro!: keeps_simple intro: keeps_weaken [OF keeps_publish [OF h]])
  have again: "keeps_blobs ?sha (\<lambda>T. published h T \<and> T (take 2 h) (pending_blob_name h) = map_option Private_File left)
      (if left \<noteq> None then publish_pending ?sha ?d (pending_blob_name h) (blob_name h) (''sha256:'' @ h) else returnS ())
      (\<lambda>_ _. True)" for left
    by (cases left) (auto intro!: keeps_simple intro: keeps_weaken [OF keeps_publish [OF h]])
  show ?thesis
    unfolding complete_put_def
    by (rule keeps_after [OF reference], rule keeps_bindS [OF publish], rule keeps_after [OF commit],
        rule keeps_bindS [OF keeps_read], rule again)
qed

lemma keeps_read_encoded:
  "keeps_blobs (bl_sha B) (\<lambda>_. True) (read_encoded_unix B d) (\<lambda>_ _. True)"
proof (cases "digest_hex d")
  case (Inl err)
  then show ?thesis by (simp add: keeps_blobs_def read_encoded_unix_def bindS_def liftS_def)
next
  case (Inr h)
  then have h: "hex64 h" and d: "d = ''sha256:'' @ h" by (simp_all add: digest_hex_Inr del: append.simps)
  let ?sha = "bl_sha B" and ?d = "[''sha256'', take 2 h]"
  have content: "keeps_blobs ?sha (\<lambda>T. True \<and> T (take 2 h) (blob_name h) = map_option Private_File final)
      (case final of Some encoded \<Rightarrow> returnS encoded
        | None \<Rightarrow> read_required_at ?d (pending_blob_name h) MAX_ENVELOPE_BYTES BlobMissing)
      (\<lambda>encoded T. if final \<noteq> None then published h T else T (take 2 h) (pending_blob_name h) = Some (Private_File encoded))" for final
    by (cases final) (auto simp: published_def intro!: keeps_simple intro: keeps_weaken [OF keeps_read_required])
  have verified: "keeps_blobs ?sha
      (\<lambda>T. if final \<noteq> None then published h T else T (take 2 h) (pending_blob_name h) = Some (Private_File encoded))
      (liftS (verify_blob ?sha encoded (''sha256:'' @ h)))
      (\<lambda>_ T. if final \<noteq> None then published h T else pending_ok ?sha h T)" for final encoded
    by (rule keeps_simple(3)) (auto simp: pending_ok_def result_simps simp del: append.simps)
  have finish: "keeps_blobs ?sha (\<lambda>T. if final \<noteq> None then published h T else pending_ok ?sha h T)
      (if pj_protected_id j \<noteq> pe_protected_id e \<or> pj_installation_id j \<noteq> pe_installation_id e
        \<or> pj_wrapping_key_id j \<noteq> pe_wrapping_key_id e
        \<or> pj_envelope_bytes j \<noteq> word_of_nat (length encoded)
       then failS InvalidTransaction
       else bindS (complete_put B (''sha256:'' @ h) h ?d [''transactions'', take 2 h] (final \<noteq> None) j e) (\<lambda>_.
            returnS (encoded, e))) (\<lambda>_ _. True)" for final j e encoded
    by (cases "pj_protected_id j \<noteq> pe_protected_id e \<or> pj_installation_id j \<noteq> pe_installation_id e
        \<or> pj_wrapping_key_id j \<noteq> pe_wrapping_key_id e \<or> pj_envelope_bytes j \<noteq> word_of_nat (length encoded)")
      (simp_all only: if_True if_False keeps_simple(1), rule keeps_bindS [OF keeps_complete_put [OF h]], simp add: keeps_simple)
  have journal_dir: "\<exists>j. x = ([''transactions'', take 2 h], j)"
    if "journal_of_blob B (''sha256:'' @ h) h ?d final s = (Inr x, t)" for final s x t
    using that
    by (auto simp: journal_of_blob_def bindS_Inr if_there_def split: option.splits sum.splits prod.splits if_splits dest!: dir_result)
  show ?thesis
    unfolding read_encoded_unix_def d Inr [unfolded d] op_simps open_digest_directory_def
    apply (rule keeps_after [OF leaves_open_dir], rule keeps_after [OF leaves_open_dir])
    apply (rule keeps_bindS [OF keeps_read])
    apply (rule keeps_after_result [OF leaves_journal])
    apply (drule journal_dir, elim exE, simp only: prod.case)
    apply (rule keeps_bindS [OF content])
    apply (rule keeps_bindS [OF verified])
    apply (rule keeps_after [OF leaves_basic(3)])
    apply (rule finish)
    done
qed

section \<open>Every transaction, and every history\<close>

definition kept :: "(string \<Rightarrow> string) \<Rightarrow> (private_fs, 'a) op \<Rightarrow> bool" where
  "kept sha m \<longleftrightarrow> keeps_blobs sha (\<lambda>_. True) m (\<lambda>_ _. True)"

named_theorems kept_intros \<open>operations that keep the published blobs\<close>

lemma kept_bindS [kept_intros]: "kept sha m \<Longrightarrow> (\<And>x. kept sha (k x)) \<Longrightarrow> kept sha (bindS m k)"
  unfolding kept_def by (rule keeps_bindS)

lemma kept_leaves: "leaves ''sha256'' m \<Longrightarrow> kept sha m"
  unfolding kept_def by (rule keeps_weaken [OF keeps_leaves]) auto

lemmas kept_basic [kept_intros] = leaves_basic [THEN kept_leaves] leaves_call [THEN kept_leaves]

lemma kept_read_encoded [kept_intros]: "kept (bl_sha B) (read_encoded_unix B d)"
  unfolding kept_def by (rule keeps_read_encoded)

lemma kept_put [kept_intros]: "kept (bl_sha B) (put B e)"
  unfolding put_def acquire_operation_def kept_def by (rule keeps_after [OF leaves_call keeps_put])

lemma kept_read [kept_intros]: "kept (bl_sha B) (read_envelope B d)"
  unfolding read_envelope_def acquire_operation_def by (auto intro!: kept_intros split: prod.split)

lemma kept_collect [kept_intros]: "kept (bl_sha B) (collect_entries B i ds)"
  by (induction ds arbitrary: i) (auto intro!: kept_intros split: prod.split)

lemma kept_create_manifest [kept_intros]: "kept (bl_sha B) (create_backup_manifest B ds)"
  unfolding create_backup_manifest_def create_backup_manifest_unix_def prepare_backup_manifest_def acquire_operation_def Let_def op_simps
  by (auto intro!: kept_intros kept_leaves [OF leaves_pin_records] kept_leaves [OF leaves_reset] kept_leaves [OF leaves_pins]
      simp: op_simps split: prod.split)

lemma kept_acknowledge [kept_intros]: "kept (bl_sha B) (acknowledge_backup_removal B m)"
  unfolding acknowledge_backup_removal_def acquire_operation_def
  by (intro kept_bindS kept_basic kept_leaves [OF leaves_acknowledge]) simp

lemma kept_verify_entries [kept_intros]: "kept (bl_sha B) (verify_entries B K k m es n)"
  by (induction es arbitrary: n) (auto intro!: kept_intros split: prod.split)

lemma kept_verify_backup [kept_intros]: "kept (bl_sha B) (verify_backup B K k m)"
  unfolding verify_backup_def acquire_operation_def by (auto intro!: kept_intros)

lemma kept_plan [kept_intros]: "kept (bl_sha B) (plan_deletion B d rs)"
  unfolding plan_deletion_def plan_deletion_unix_def acquire_operation_def Let_def
  by (auto intro!: kept_intros kept_leaves [OF leaves_references(2)] kept_leaves [OF leaves_backup_references(1)] split: prod.split)

text \<open>The deletion on the files.\<close>

lemma kept_unlink [kept_intros]: "kept sha (unlink_file_at [''sha256'', x] n)"
  unfolding kept_def by (rule keeps_weaken [OF keeps_unlink(2)]) auto

lemma kept_unlink_blobs [kept_intros]: "kept (bl_sha B) (unlink_blobs B [''sha256'', x] d ns)"
  by (induction ns) (auto intro!: kept_intros kept_leaves [OF leaves_read] split: option.split)

lemma leaves_deletion [frame_intros]:
  "leaves ''sha256'' (ensure_deletion_reference_safety B plan a)"
  "leaves ''sha256'' (unlink_put_transaction h)"
  "leaves ''sha256'' (verify_put_transaction_absent h)"
  "leaves ''sha256'' (remove_key_reference_idempotent B plan)"
  "leaves ''sha256'' (verify_key_reference_absent B plan)"
  by (auto simp: ensure_deletion_reference_safety_def unlink_put_transaction_def verify_put_transaction_absent_def
      remove_key_reference_idempotent_def verify_key_reference_absent_def intro!: frame_intros split: option.split sum.split)

lemma leaves_blobs_absent_at [frame_intros]: "leaves ns (blobs_absent_at dir names)"
  by (induction names) (auto intro!: frame_intros)

lemma leaves_blobs_absent [frame_intros]: "leaves ns (verify_blobs_absent h)"
  unfolding verify_blobs_absent_def by (intro leaves_if_dir) (auto intro!: frame_intros simp del: blobs_absent_at.simps)

lemma leaves_checkpoint [frame_intros]: "leaves ''sha256'' (checkpoint_deletion B [''deletions'', x] n j st r)"
  by (auto simp: checkpoint_deletion_def Let_def intro!: frame_intros)

lemma kept_after_result:
  assumes "leaves ''sha256'' m" and "\<And>s x t. m s = (Inr x, t) \<Longrightarrow> kept sha (k x)"
  shows "kept sha (bindS m k)"
  using assms unfolding kept_def by (rule keeps_after_result)

lemma kept_unlink_deletion_blobs [kept_intros]: "kept (bl_sha B) (unlink_deletion_blobs B h d)"
  unfolding unlink_deletion_blobs_def
proof (rule kept_after_result [OF leaves_there [OF leaves_open(1)]])
  fix s dir t assume "if_there (open_digest_directory ''sha256'' h False) s = (Inr dir, t)"
  then consider "dir = None" | "dir = Some [''sha256'', take 2 h]"
    by (auto simp: if_there_def split: sum.splits prod.splits if_splits dest: dir_result)
  then show "kept (bl_sha B) (case dir of None \<Rightarrow> returnS ()
       | Some dir \<Rightarrow> bindS (unlink_blobs B dir d [blob_name h, pending_blob_name h]) (\<lambda>_. call StorageIo))"
    by cases (simp_all del: unlink_blobs.simps add: kept_intros)
qed

lemma kept_stage [kept_intros]:
  assumes "kept (bl_sha B) act" and "leaves ''sha256'' check"
  shows "kept (bl_sha B) (deletion_stage B [''deletions'', x] n st act check j)"
  unfolding deletion_stage_def using assms
  by (auto intro!: kept_intros kept_leaves [OF leaves_checkpoint] kept_leaves [OF assms(2)])

lemma kept_stages [kept_intros]: "kept (bl_sha B) (deletion_stages B plan h [''deletions'', x] n j)"
  unfolding deletion_stages_def Let_def
  by (intro kept_bindS kept_stage kept_unlink_deletion_blobs leaves_blobs_absent leaves_deletion
      kept_leaves [OF leaves_deletion(1)] kept_leaves [OF leaves_deletion(2)] kept_leaves [OF leaves_deletion(4)]
      kept_leaves [OF leaves_backup_references(2)])

lemma kept_journal [kept_intros]: "kept (bl_sha B) (open_deletion_journal B plan pd [''deletions'', x] n)"
  unfolding open_deletion_journal_def
  by (auto intro!: kept_intros kept_leaves [OF leaves_read] kept_leaves [OF leaves_deletion(1)] kept_leaves [OF leaves_write_record]
      simp: Let_def split: option.split prod.split)

text \<open>Operations that also use the key store.\<close>

definition kept_keyed :: "(string \<Rightarrow> string) \<Rightarrow> ('k, 'a) keyed_op \<Rightarrow> bool" where
  "kept_keyed sha m \<longleftrightarrow>
     (\<forall>s k. blobs_ok sha (tree ''sha256'' s) \<longrightarrow> blobs_ok sha (tree ''sha256'' (fst (snd (m (s, k))))))"

lemma kept_keyed_bindS [kept_intros]:
  "kept_keyed sha m \<Longrightarrow> (\<And>x. kept_keyed sha (k x)) \<Longrightarrow> kept_keyed sha (bindS m k)"
  unfolding kept_keyed_def bindS_def
  by (clarsimp split: sum.split prod.split) (metis fst_conv snd_conv)

lemma kept_on_files [kept_intros]: "kept sha m \<Longrightarrow> kept_keyed sha (on_files m)"
  by (auto simp: kept_def keeps_blobs_def kept_keyed_def on_files_def split: prod.split)

lemma kept_keyed_basic [kept_intros]:
  "kept_keyed sha (returnS x)" "kept_keyed sha (failS e)" "kept_keyed sha (liftS r)" "kept_keyed sha (readiness_of K l)"
  by (simp_all add: kept_keyed_def returnS_def failS_def liftS_def readiness_of_def)

lemma kept_delete_key [kept_intros]: "kept_keyed sha (delete_wrapping_key K l)"
  unfolding delete_wrapping_key_def
proof (rule kept_keyed_bindS)
  fix status
  have answer: "kept_keyed sha (bindS (readiness_of K l) (\<lambda>now.
                  if now \<noteq> KeyMissing then failS KeyDeletionUnverified
                  else returnS (case status of
                         Ready \<Rightarrow> DeletedAndAbsenceVerified
                       | KeyMissing \<Rightarrow> AlreadyAbsentAndVerified)))"
    by (auto intro!: kept_intros)
  then show "kept_keyed sha (\<lambda>(s, k). case ks_delete K l k of
         (r, k') \<Rightarrow>
           if r = Inr () \<or> r = Inl KeyMissingError
           then bindS (readiness_of K l) (\<lambda>now.
                  if now \<noteq> KeyMissing then failS KeyDeletionUnverified
                  else returnS (case status of
                         Ready \<Rightarrow> DeletedAndAbsenceVerified
                       | KeyMissing \<Rightarrow> AlreadyAbsentAndVerified)) (s, k')
           else (case r of Inl e \<Rightarrow> (Inl e, (s, k')) | Inr _ \<Rightarrow> (Inl StorageIo, (s, k'))))"
    by (simp add: kept_keyed_def split: prod.split sum.split)
qed (rule kept_keyed_basic)

lemma kept_deleted_state [kept_intros]: "kept_keyed (bl_sha B) (verify_deleted_state B K plan)"
  unfolding verify_deleted_state_def
  by (auto intro!: kept_intros kept_leaves frame_intros simp: verify_deleted_files_def split: option.split)

lemma kept_run_deletion [kept_intros]: "kept_keyed (bl_sha B) (run_deletion B K plan pd h [''deletions'', x])"
  unfolding run_deletion_def deletion_key_stage_def Let_def
  by (auto intro!: kept_intros kept_leaves [OF leaves_checkpoint] kept_leaves [OF leaves_write_record] kept_leaves [OF leaves_unlink(2)])

lemma kept_keyed_dir [kept_intros]:
  assumes "kept_keyed sha (k [''deletions'', take 2 h])"
  shows "kept_keyed sha (bindS (on_files (open_digest_directory ''deletions'' h c)) k)"
  unfolding kept_keyed_def
proof (intro allI impI)
  fix s ks assume ok: "blobs_ok sha (tree ''sha256'' s)"
  obtain r t where m: "open_digest_directory ''deletions'' h c s = (r, t)" by (cases "open_digest_directory ''deletions'' h c s")
  have t: "blobs_ok sha (tree ''sha256'' t)"
    using ok leaves_open(1) [of "''sha256''" "''deletions''" h c] m by (metis leaves_def snd_conv)
  show "blobs_ok sha (tree ''sha256'' (fst (snd (bindS (on_files (open_digest_directory ''deletions'' h c)) k (s, ks)))))"
  proof (cases r)
    case (Inl e)
    with t show ?thesis by (simp add: bindS_def on_files_def m)
  next
    case (Inr d)
    with m have "d = [''deletions'', take 2 h]" by (auto dest: dir_result)
    with assms t show ?thesis by (simp add: bindS_def on_files_def m Inr kept_keyed_def)
  qed
qed

lemma kept_execute_deletion [kept_intros]: "kept_keyed (bl_sha B) (execute_deletion B K plan)"
proof -
  have receipt: "leaves ''sha256'' (remove_matching_deletion_journal B [''deletions'', x] n plan pd)" for x n pd
    by (auto simp: remove_matching_deletion_journal_def intro!: frame_intros split: option.split)
  show ?thesis
    unfolding execute_deletion_def execute_deletion_unix_def acquire_operation_def Let_def
    by (auto intro!: kept_intros kept_leaves [OF leaves_read] kept_leaves [OF leaves_backup_references(2)] kept_leaves [OF receipt]
        split: option.split)
qed

text \<open>
  The histories of a store: any transactions in any order, between which the outcomes of the system
  calls to come are anything and the key store is changed by anybody.
\<close>

inductive blob_step :: "blob_env \<Rightarrow> 'k key_store \<Rightarrow> private_fs \<times> 'k \<Rightarrow> private_fs \<times> 'k \<Rightarrow> bool" for B K where
  outside: "blob_step B K (s, k) (s\<lparr>pf_calls := cs\<rparr>, k')"
| put_step: "blob_step B K (s, k) (snd (put B e s), k)"
| read_step: "blob_step B K (s, k) (snd (read_envelope B d s), k)"
| manifest_step: "blob_step B K (s, k) (snd (create_backup_manifest B ds s), k)"
| acknowledge_step: "blob_step B K (s, k) (snd (acknowledge_backup_removal B m s), k)"
| verify_step: "blob_step B K (s, k) (snd (verify_backup B K k m s), k)"
| plan_step: "blob_step B K (s, k) (snd (plan_deletion B d rs s), k)"
| delete_step: "blob_step B K (s, k) (snd (execute_deletion B K plan (s, k)))"

definition empty_store :: private_fs where
  "empty_store = \<lparr>pf_dir = (\<lambda>_. None), pf_file = (\<lambda>_ _. None), pf_calls = []\<rparr>"

lemma kept_state: "kept sha m \<Longrightarrow> blobs_ok sha (tree ''sha256'' s) \<Longrightarrow> blobs_ok sha (tree ''sha256'' (snd (m s)))"
  by (simp add: kept_def keeps_blobs_def)

lemma blob_step_ok:
  "blob_step B K c c' \<Longrightarrow> blobs_ok (bl_sha B) (tree ''sha256'' (fst c)) \<Longrightarrow> blobs_ok (bl_sha B) (tree ''sha256'' (fst c'))"
proof (induction rule: blob_step.induct)
  case (delete_step s k plan)
  with kept_execute_deletion [of B K plan] show ?case by (simp add: kept_keyed_def)
qed (auto intro: kept_state kept_intros)

lemma blob_history_ok:
  assumes "rtranclp (blob_step B K) (empty_store, k) c"
  shows "blobs_ok (bl_sha B) (tree ''sha256'' (fst c))"
  using assms
proof (induction rule: rtranclp_induct)
  case base
  show ?case by (simp add: blobs_ok_def tree_def empty_store_def)
qed (rule blob_step_ok)

end
