(* ===== verification/Deletion_Order.thy ===== *)
theory Deletion_Order
  imports Blob_Invariants
begin

text \<open>
  The order of a deletion: when the wrapping key is touched, the blob, its pending copy, the put
  transaction and the index of the envelopes under the key are gone, and they stay so.
\<close>

section \<open>Operations that create no directory\<close>

definition same_dirs :: "(private_fs, 'a) op \<Rightarrow> bool" where
  "same_dirs m \<longleftrightarrow> (\<forall>s. pf_dir (snd (m s)) = pf_dir s)"

named_theorems dir_intros \<open>operations that create no directory\<close>

lemma same_dirs_bindS [dir_intros]: "same_dirs m \<Longrightarrow> (\<And>x. same_dirs (k x)) \<Longrightarrow> same_dirs (bindS m k)"
  by (auto simp: same_dirs_def bindS_def split: sum.splits prod.splits) (metis snd_conv)+

lemma same_dirs_basic [dir_intros]:
  "same_dirs (returnS x)" "same_dirs (failS e)" "same_dirs (liftS r)" "same_dirs (call e)"
  by (auto simp: same_dirs_def returnS_def failS_def liftS_def call_def split: list.split)

lemma same_dirs_validate [dir_intros]: "same_dirs (validate_private_file f e)" "same_dirs (validate_private_directory p)"
  by (auto simp: validate_private_file_def validate_private_directory_def intro!: dir_intros split: file_node.split)

lemma same_dirs_open [dir_intros]: "same_dirs (open_private_dir_at d False)"
proof -
  have "same_dirs (\<lambda>s. case pf_dir s d of None \<Rightarrow> (Inl BlobMissing, s) | Some p \<Rightarrow> validate_private_directory p s)"
    using same_dirs_validate(2) by (simp add: same_dirs_def split: option.split)
  then show ?thesis unfolding open_private_dir_at_def by (auto intro!: dir_intros)
qed

lemma same_dirs_opens [dir_intros]:
  "same_dirs (open_digest_directory ns h False)" "same_dirs (open_key_reference_directory key False)"
  by (auto simp: open_digest_directory_def open_key_reference_directory_def intro!: dir_intros)

lemma same_dirs_there [dir_intros]: "same_dirs m \<Longrightarrow> same_dirs (if_there m)"
  by (auto simp: same_dirs_def if_there_def split: sum.split prod.split) (metis snd_conv)+

lemma same_dirs_read [dir_intros]: "same_dirs (read_optional_at d n mx e)"
proof -
  have "same_dirs (bindS (validate_private_file Foreign_File e) (\<lambda>_. returnS None :: (private_fs, string option) op))"
    by (intro dir_intros)
  moreover have "same_dirs (bindS (validate_private_file (Private_File content) e) (\<lambda>_.
           bindS (call StorageIo) (\<lambda>_.
           if length content > mx then failS ContentTooLarge
           else bindS (call StorageIo) (\<lambda>_. returnS (Some content)))))" for content
    by (auto intro!: dir_intros)
  ultimately have "same_dirs (\<lambda>s. case pf_file s d n of
         None \<Rightarrow> (Inr None, s)
       | Some Link_File \<Rightarrow> (Inl e, s)
       | Some Foreign_File \<Rightarrow> bindS (validate_private_file Foreign_File e) (\<lambda>_. returnS None) s
       | Some (Private_File content) \<Rightarrow>
           bindS (validate_private_file (Private_File content) e) (\<lambda>_.
           bindS (call StorageIo) (\<lambda>_.
           if length content > mx then failS ContentTooLarge
           else bindS (call StorageIo) (\<lambda>_. returnS (Some content)))) s)"
    by (simp add: same_dirs_def split: option.split file_node.split)
  then show ?thesis unfolding read_optional_at_def by (intro same_dirs_bindS same_dirs_basic)
qed

lemma same_dirs_update [dir_intros]: "same_dirs (update (set_file d n f))"
  by (simp add: same_dirs_def update_def set_file_def)

lemma same_dirs_unlink [dir_intros]:
  "same_dirs (unlink_file_at d n)" "same_dirs (unlink_file_if_present d n)" "same_dirs (rename_at d n n')"
proof -
  have "same_dirs (\<lambda>s. if pf_file s d n = None then (Inl StorageIo, s) else (Inr (), set_file d n None s))"
    by (simp add: same_dirs_def set_file_def)
  then show "same_dirs (unlink_file_at d n)" unfolding unlink_file_at_def by (auto intro!: dir_intros)
  show "same_dirs (unlink_file_if_present d n)" by (auto simp: unlink_file_if_present_def intro!: dir_intros)
  have "same_dirs (\<lambda>s. case pf_file s d n of None \<Rightarrow> (Inl StorageIo, s)
       | Some f \<Rightarrow> (Inr (), set_file d n' (Some f) (set_file d n None s)))"
    by (simp add: same_dirs_def set_file_def split: option.split)
  then show "same_dirs (rename_at d n n')" unfolding rename_at_def by (auto intro!: dir_intros)
qed

lemma same_dirs_create [dir_intros]: "same_dirs (create_file_at d n content)"
proof -
  have "same_dirs (write_all d n content)"
    by (auto simp: same_dirs_def write_all_def set_file_def split: list.split call_outcome.split)
  then have "same_dirs (bindS (update (set_file d n (Some (Private_File [])))) (\<lambda>_.
            bindS (validate_private_file (Private_File []) BlobTampered) (\<lambda>_.
            bindS (write_all d n content) (\<lambda>_.
            bindS (call StorageIo) (\<lambda>_. returnS True)))))"
    by (intro dir_intros)
  then have "same_dirs (\<lambda>s. if pf_file s d n \<noteq> None then (Inr False, s)
       else bindS (update (set_file d n (Some (Private_File [])))) (\<lambda>_.
            bindS (validate_private_file (Private_File []) BlobTampered) (\<lambda>_.
            bindS (write_all d n content) (\<lambda>_.
            bindS (call StorageIo) (\<lambda>_. returnS True)))) s)"
    by (simp add: same_dirs_def)
  then show ?thesis unfolding create_file_at_def by (intro same_dirs_bindS same_dirs_basic)
qed

lemma same_dirs_record [dir_intros]: "same_dirs (write_record_at d n text)"
  by (auto simp: write_record_at_def Let_def intro!: dir_intros)

lemma same_dirs_metadata [dir_intros]:
  "same_dirs (key_reference_index_if_present B key)" "same_dirs (backup_acknowledgment_if_present B d)"
  "same_dirs (backup_reference_index_if_present B d)" "same_dirs (checkpoint_deletion B dir n j st r)"
  by (auto simp: key_reference_index_if_present_def backup_acknowledgment_if_present_def
      backup_reference_index_if_present_def checkpoint_deletion_def Let_def intro!: dir_intros split: option.split)

lemma same_dirs_active [dir_intros]: "same_dirs (active_references B d rs)"
  by (induction rs) (auto simp: backup_reference_is_active_def intro!: dir_intros split: option.split sum.split)

lemma same_dirs_backups [dir_intros]: "same_dirs (backup_references B d)"
  by (auto simp: backup_references_def intro!: dir_intros split: option.split)

lemma same_dirs_absent_at [dir_intros]: "same_dirs (blobs_absent_at dir names)"
  by (induction names) (auto intro!: dir_intros)

lemma same_dirs_deletion [dir_intros]:
  "same_dirs (unlink_put_transaction h)" "same_dirs (verify_put_transaction_absent h)"
  "same_dirs (remove_key_reference_idempotent B plan)" "same_dirs (verify_key_reference_absent B plan)"
  "same_dirs (verify_blobs_absent h)"
  by (auto simp: unlink_put_transaction_def verify_put_transaction_absent_def remove_key_reference_idempotent_def
      verify_key_reference_absent_def verify_blobs_absent_def intro!: dir_intros
      simp del: blobs_absent_at.simps split: option.split sum.split)

lemma same_dirs_verify [dir_intros]: "same_dirs (verify_deleted_files B plan h)"
  by (auto simp: verify_deleted_files_def intro!: dir_intros split: option.split)

section \<open>What is gone\<close>

definition gone :: "string \<Rightarrow> string \<Rightarrow> string list \<Rightarrow> private_fs \<Rightarrow> bool" where
  "gone ns h names s \<longleftrightarrow> pf_dir s [ns] = None \<or> pf_dir s [ns, take 2 h] = None
     \<or> list_all (\<lambda>n. pf_file s [ns, take 2 h] n = None) names"

lemma gone_kept:
  assumes "leaves ns m" and "same_dirs m" and "gone ns h names s" and "m s = (r, t)"
  shows "gone ns h names t"
proof -
  have "tree ns t = tree ns s" "pf_dir t = pf_dir s"
    using assms(1,2,4) unfolding leaves_def same_dirs_def by (metis snd_conv)+
  with assms(3) show ?thesis by (simp add: gone_def tree_def fun_eq_iff)
qed

lemma call_Inl: "call e s = (Inl e', t) \<Longrightarrow> e' = e"
  by (auto simp: call_def split: list.splits call_outcome.splits)

lemma bindS_Inl: "bindS m k s = (Inl e, t) \<longleftrightarrow> m s = (Inl e, t) \<or> (\<exists>x s'. m s = (Inr x, s') \<and> k x s' = (Inl e, t))"
  by (auto simp: bindS_def split: sum.splits prod.splits)

lemma open_missing: "open_private_dir_at d False s = (Inl BlobMissing, t) \<Longrightarrow> pf_dir t d = None"
proof -
  assume opened: "open_private_dir_at d False s = (Inl BlobMissing, t)"
  have never: "call e s \<noteq> (Inl BlobMissing, t)" if "e \<noteq> BlobMissing" for e s t using that call_Inl by blast
  from opened obtain s1 where body: "(case pf_dir s1 d of None \<Rightarrow> (Inl BlobMissing, s1)
       | Some private \<Rightarrow> validate_private_directory private s1) = (Inl BlobMissing, t)"
    by (auto simp: open_private_dir_at_def op_simps bindS_Inl never)
  show "pf_dir t d = None"
  proof (cases "pf_dir s1 d")
    case None
    with body show ?thesis by simp
  next
    case (Some p)
    with body show ?thesis
      by (cases p) (auto simp: validate_private_directory_def bindS_Inl failS_def returnS_def never)
  qed
qed

lemma opened_dirs: "open_private_dir_at d False s = (r, t) \<Longrightarrow> pf_dir t = pf_dir s"
  using same_dirs_open [of d] unfolding same_dirs_def by (metis snd_conv)

lemma digest_dir_missing:
  assumes "if_there (open_digest_directory ns h False) s = (Inr None, t)"
  shows "gone ns h names t"
proof -
  from assms have "open_digest_directory ns h False s = (Inl BlobMissing, t)"
    by (auto simp: if_there_def split: sum.splits prod.splits if_splits)
  then show ?thesis
    by (auto simp: open_digest_directory_def bindS_Inl returnS_def gone_def dest: open_missing)
qed

lemma digest_dir_there:
  "if_there (open_digest_directory ns h False) s = (Inr (Some d), t) \<Longrightarrow> d = [ns, take 2 h]"
  by (auto simp: if_there_def split: sum.splits prod.splits if_splits dest: dir_result)

lemma key_dir_missing:
  assumes "if_there (open_key_reference_directory key False) s = (Inr None, t)"
  shows "\<exists>h. key_hex key = Inr h \<and> gone ''key-references'' h names t"
proof -
  from assms have "open_key_reference_directory key False s = (Inl BlobMissing, t)"
    by (auto simp: if_there_def split: sum.splits prod.splits if_splits)
  moreover have "key_hex key \<noteq> Inl BlobMissing" by (auto simp: key_hex_def split: option.splits if_splits)
  ultimately show ?thesis
    by (auto simp: open_key_reference_directory_def bindS_Inl returnS_def liftS_def gone_def dest: open_missing)
qed

lemma key_dir_there:
  "open_key_reference_directory key c s = (Inr d, t) \<Longrightarrow> \<exists>h. key_hex key = Inr h \<and> d = [''key-references'', take 2 h]"
  by (auto simp: open_key_reference_directory_def bindS_Inr)

section \<open>What each stage achieves\<close>

lemma absent_kept:
  assumes "leaves ns m" and "m s = (r, t)" and "pf_file s [ns, x] n = None"
  shows "pf_file t [ns, x] n = None"
proof -
  have "tree ns t = tree ns s" using assms(1,2) unfolding leaves_def by (metis snd_conv)
  then show ?thesis using assms(3) by (simp add: tree_def fun_eq_iff)
qed

lemma unlinked: "unlink_file_at d n s = (Inr (), t) \<Longrightarrow> pf_file t = (pf_file s)(d := (pf_file s d)(n := None))"
  by (auto simp: unlink_file_at_def bindS_Inr set_file_def split: if_splits dest!: call_Inr)

lemma unlinked_if_present:
  "unlink_file_if_present d n s = (Inr (), t) \<Longrightarrow> pf_file t = (pf_file s)(d := (pf_file s d)(n := None))"
  by (auto simp: unlink_file_if_present_def bindS_Inr update_def set_file_def dest!: call_Inr)

lemma read_absent: "read_optional_at d n mx e s = (Inr None, t) \<Longrightarrow> pf_file t d n = None"
  by (frule read_optional_Inr(1), drule read_optional_Inr(2)) simp

lemma unlink_blobs_Inr:
  "unlink_blobs B d dg names s = (Inr (), t) \<Longrightarrow>
     (\<forall>n. pf_file s d n = None \<longrightarrow> pf_file t d n = None) \<and> list_all (\<lambda>n. pf_file t d n = None) names"
proof (induction names arbitrary: s)
  case (Cons n names)
  from Cons.prems obtain there s1 s2 where r: "read_optional_at d n MAX_ENVELOPE_BYTES BlobTampered s = (Inr there, s1)"
    and body: "(case there of
              None \<Rightarrow> returnS ()
            | Some encoded \<Rightarrow>
                bindS (liftS (verify_blob (bl_sha B) encoded dg)) (\<lambda>_. unlink_file_at d n)) s1 = (Inr (), s2)"
    and rest: "unlink_blobs B d dg names s2 = (Inr (), t)"
    by (auto simp: bindS_Inr)
  note read = read_optional_Inr [OF r]
  have s2: "pf_file s2 d n = None \<and> (\<forall>m. pf_file s d m = None \<longrightarrow> pf_file s2 d m = None)"
    using body read by (cases there) (auto simp: bindS_Inr dest!: unlinked)
  with Cons.IH [OF rest] show ?case by auto
qed (simp add: bindS_Inr)

lemma unlink_deletion_blobs_gone:
  assumes "unlink_deletion_blobs B h d s = (Inr (), t)"
  shows "gone ''sha256'' h [blob_name h, pending_blob_name h] t"
proof -
  from assms obtain dir s1 where dir: "if_there (open_digest_directory ''sha256'' h False) s = (Inr dir, s1)"
    and body: "(case dir of
         None \<Rightarrow> returnS ()
       | Some dir \<Rightarrow>
           bindS (unlink_blobs B dir d [blob_name h, pending_blob_name h]) (\<lambda>_. call StorageIo)) s1 = (Inr (), t)"
    unfolding unlink_deletion_blobs_def bindS_Inr by blast
  show ?thesis
  proof (cases dir)
    case None
    with dir body digest_dir_missing show ?thesis by fastforce
  next
    case (Some d')
    with dir have d': "d' = [''sha256'', take 2 h]" by (simp add: digest_dir_there)
    from body Some obtain s2 where u: "unlink_blobs B d' d [blob_name h, pending_blob_name h] s1 = (Inr (), s2)"
      and c: "call StorageIo s2 = (Inr (), t)"
      by (auto simp: bindS_Inr simp del: unlink_blobs.simps)
    from unlink_blobs_Inr [OF u] call_Inr [OF c] show ?thesis by (simp add: gone_def d')
  qed
qed

lemma blobs_absent_at_Inr:
  "blobs_absent_at d names s = (Inr (), t) \<Longrightarrow> pf_file t = pf_file s \<and> list_all (\<lambda>n. pf_file s d n = None) names"
proof (induction names arbitrary: s)
  case (Cons n names)
  from Cons.prems obtain there s1 where r: "read_optional_at d n MAX_ENVELOPE_BYTES BlobTampered s = (Inr there, s1)"
    and "there = None" and rest: "blobs_absent_at d names s1 = (Inr (), t)"
    by (auto simp: bindS_Inr split: if_splits)
  with read_optional_Inr [OF r] Cons.IH [OF rest] show ?case by simp
qed simp

lemma verify_blobs_absent_gone:
  assumes "verify_blobs_absent h s = (Inr (), t)"
  shows "gone ''sha256'' h [blob_name h, pending_blob_name h] t"
proof -
  from assms obtain dir s1 where dir: "if_there (open_digest_directory ''sha256'' h False) s = (Inr dir, s1)"
    and body: "(case dir of
         None \<Rightarrow> returnS ()
       | Some dir \<Rightarrow> blobs_absent_at dir [blob_name h, pending_blob_name h]) s1 = (Inr (), t)"
    unfolding verify_blobs_absent_def bindS_Inr by blast
  show ?thesis
  proof (cases dir)
    case None
    with dir body digest_dir_missing show ?thesis by fastforce
  next
    case (Some d')
    with dir have d': "d' = [''sha256'', take 2 h]" by (simp add: digest_dir_there)
    from body Some have "blobs_absent_at d' [blob_name h, pending_blob_name h] s1 = (Inr (), t)" by (simp del: blobs_absent_at.simps)
    from blobs_absent_at_Inr [OF this] show ?thesis by (simp add: gone_def d')
  qed
qed

lemma transaction_gone:
  assumes "unlink_put_transaction h s = (Inr (), t) \<or> verify_put_transaction_absent h s = (Inr (), t)"
  shows "gone ''transactions'' h [metadata_name h] t"
proof -
  from assms obtain dir s1 where dir: "if_there (open_digest_directory ''transactions'' h False) s = (Inr dir, s1)"
    and body: "(case dir of
         None \<Rightarrow> returnS ()
       | Some dir \<Rightarrow> bindS (unlink_file_if_present dir (metadata_name h)) (\<lambda>_. call StorageIo)) s1 = (Inr (), t)
     \<or> (case dir of
         None \<Rightarrow> returnS ()
       | Some dir \<Rightarrow>
           bindS (read_optional_at dir (metadata_name h) MAX_METADATA_BYTES InvalidTransaction) (\<lambda>there.
             if there \<noteq> None then failS DeletionStateChanged else returnS ())) s1 = (Inr (), t)"
    unfolding unlink_put_transaction_def verify_put_transaction_absent_def bindS_Inr by blast
  show ?thesis
  proof (cases dir)
    case None
    with dir body digest_dir_missing show ?thesis by fastforce
  next
    case (Some d')
    with dir have d': "d' = [''transactions'', take 2 h]" by (simp add: digest_dir_there)
    have "pf_file t d' (metadata_name h) = None"
      using body Some
      by (auto simp: bindS_Inr split: if_splits dest!: call_Inr unlinked_if_present read_absent)
    then show ?thesis by (simp add: gone_def d')
  qed
qed

text \<open>The index of the envelopes under the key.\<close>

definition key_gone :: "string \<Rightarrow> private_fs \<Rightarrow> bool" where
  "key_gone key s \<longleftrightarrow> (\<exists>h. key_hex key = Inr h \<and> gone ''key-references'' h [h @ ''.json''] s)"

lemma key_index_none:
  assumes "key_reference_index_if_present B key s = (Inr None, t)"
  shows "key_gone key t"
proof -
  from assms obtain dir s1 where dir: "if_there (open_key_reference_directory key False) s = (Inr dir, s1)"
    and body: "(case dir of
         None \<Rightarrow> returnS None
       | Some dir \<Rightarrow>
           bindS (liftS (key_index_name key)) (\<lambda>name.
           bindS (read_optional_at dir name MAX_METADATA_BYTES InvalidTransaction) (\<lambda>encoded.
             case encoded of
               None \<Rightarrow> returnS None
             | Some encoded \<Rightarrow> bindS (liftS (key_index_decode (bl_codecs B) encoded)) (\<lambda>i. returnS (Some i))))) s1 = (Inr None, t)"
    unfolding key_reference_index_if_present_def bindS_Inr by blast
  show ?thesis
  proof (cases dir)
    case None
    with dir body key_dir_missing [of key s s1 "[h @ ''.json'']" for h] show ?thesis
      unfolding key_gone_def by (auto dest: key_dir_missing)
  next
    case (Some d')
    with dir obtain h where h: "key_hex key = Inr h" "d' = [''key-references'', take 2 h]"
      by (auto simp: if_there_def split: sum.splits prod.splits if_splits dest: key_dir_there)
    have "pf_file t d' (h @ ''.json'') = None"
      using body Some h(1)
      by (auto simp: bindS_Inr key_index_name_def result_simps split: option.splits dest!: read_absent)
    then show ?thesis unfolding key_gone_def using h by (auto simp: gone_def)
  qed
qed

lemma reference_gone:
  assumes "remove_key_reference_idempotent B plan s = (Inr (), t) \<or> verify_key_reference_absent B plan s = (Inr (), t)"
  shows "key_gone (dp_wrapping_key_id plan) t"
proof -
  let ?key = "dp_wrapping_key_id plan"
  from assms obtain index s1 where index: "key_reference_index_if_present B ?key s = (Inr index, s1)"
    and body: "(case index of
         None \<Rightarrow> returnS ()
       | Some index \<Rightarrow>
           if ki_installation_id index \<noteq> dp_installation_id plan \<or> ki_wrapping_key_id index \<noteq> ?key
           then failS InvalidTransaction
           else (case search (dp_envelope_digest plan) (map kf_envelope_digest (ki_entries index)) of
                   Inl _ \<Rightarrow> failS BlobReferenced
                 | Inr position \<Rightarrow>
                     if kf_protected_id (ki_entries index ! position) \<noteq> dp_protected_id plan then failS InvalidTransaction
                     else if length (ki_entries index) \<noteq> 1 then failS BlobReferenced
                     else
                       bindS (open_key_reference_directory ?key False) (\<lambda>dir.
                       bindS (liftS (key_index_name ?key)) (\<lambda>n.
                       bindS (unlink_file_at dir n) (\<lambda>_. call StorageIo))))) s1 = (Inr (), t)
     \<or> (case index of
         None \<Rightarrow> returnS ()
       | Some index \<Rightarrow>
           if ki_installation_id index \<noteq> dp_installation_id plan \<or> ki_wrapping_key_id index \<noteq> ?key
           then failS InvalidTransaction else failS DeletionStateChanged) s1 = (Inr (), t)"
    unfolding remove_key_reference_idempotent_def verify_key_reference_absent_def bindS_Inr by blast
  have t: "index = None \<and> t = s1 \<or> (\<exists>dir n s2 s3. open_key_reference_directory ?key False s1 = (Inr dir, s2)
       \<and> key_index_name ?key = Inr n \<and> unlink_file_at dir n s2 = (Inr (), s3) \<and> call StorageIo s3 = (Inr (), t))"
  proof (cases index)
    case None
    with body show ?thesis by auto
  next
    case (Some i)
    with body show ?thesis by (auto simp: bindS_Inr split: if_splits sum.splits)
  qed
  from t show ?thesis
  proof (elim disjE exE conjE)
    assume "index = None" "t = s1"
    with index key_index_none show ?thesis by blast
  next
    fix dir n s2 s3
    assume o: "open_key_reference_directory ?key False s1 = (Inr dir, s2)" and n: "key_index_name ?key = Inr n"
      and u: "unlink_file_at dir n s2 = (Inr (), s3)" and c: "call StorageIo s3 = (Inr (), t)"
    from key_dir_there [OF o] obtain h where h: "key_hex ?key = Inr h" "dir = [''key-references'', take 2 h]" by blast
    with n have "n = h @ ''.json''" by (simp add: key_index_name_def)
    with unlinked [OF u] call_Inr [OF c] h show ?thesis unfolding key_gone_def by (auto simp: gone_def)
  qed
qed

section \<open>All stages, and what follows them\<close>

definition all_gone :: "deletion_plan \<Rightarrow> string \<Rightarrow> private_fs \<Rightarrow> bool" where
  "all_gone plan h s \<longleftrightarrow> gone ''sha256'' h [blob_name h, pending_blob_name h] s
     \<and> gone ''transactions'' h [metadata_name h] s \<and> key_gone (dp_wrapping_key_id plan) s"

lemma key_gone_kept:
  "leaves ''key-references'' m \<Longrightarrow> same_dirs m \<Longrightarrow> key_gone key s \<Longrightarrow> m s = (r, t) \<Longrightarrow> key_gone key t"
  unfolding key_gone_def by (blast intro: gone_kept)

definition quiet :: "(private_fs, 'a) op \<Rightarrow> bool" where
  "quiet m \<longleftrightarrow> leaves ''sha256'' m \<and> leaves ''transactions'' m \<and> leaves ''key-references'' m \<and> same_dirs m"

lemma all_gone_kept: "quiet m \<Longrightarrow> all_gone plan h s \<Longrightarrow> m s = (r, t) \<Longrightarrow> all_gone plan h t"
  unfolding quiet_def all_gone_def by (blast intro: gone_kept key_gone_kept)

lemma leaves_checkpoint_any: "ns \<noteq> ''deletions'' \<Longrightarrow> leaves ns (checkpoint_deletion B [''deletions'', x] n j st r)"
  by (auto simp: checkpoint_deletion_def Let_def intro!: frame_intros)

lemma leaves_reference_stage:
  "leaves ''transactions'' (remove_key_reference_idempotent B plan)" "leaves ns (verify_key_reference_absent B plan)"
  by (auto simp: remove_key_reference_idempotent_def verify_key_reference_absent_def intro!: frame_intros
      split: option.split sum.split)

lemma leaves_transaction_check: "leaves ns (verify_put_transaction_absent h)"
  by (auto simp: verify_put_transaction_absent_def intro!: frame_intros split: option.split)

lemma deletion_stage_Inr:
  assumes "deletion_stage B dir n st act check j s = (Inr j', t)"
  obtains s1 where "act s = (Inr (), s1) \<or> check s = (Inr (), s1)"
    and "t = s1 \<or> checkpoint_deletion B dir n j st None s1 = (Inr j', t)"
  using assms by (auto simp: deletion_stage_def bindS_Inr split: if_splits)

lemma gone_checkpoint:
  assumes "t = s1 \<or> checkpoint_deletion B [''deletions'', x] n j st c s1 = (Inr j', t)"
    and "gone ns h names s1" and "ns \<noteq> ''deletions''"
  shows "gone ns h names t"
  using assms(1)
proof
  assume "checkpoint_deletion B [''deletions'', x] n j st c s1 = (Inr j', t)"
  with gone_kept [OF leaves_checkpoint_any [OF assms(3)] same_dirs_metadata(4) assms(2)] show ?thesis .
qed (use assms(2) in \<open>simp\<close>)

lemma stages_all_gone:
  assumes "deletion_stages B plan h [''deletions'', x] n j s = (Inr j', t)"
  shows "all_gone plan h t"
proof -
  let ?dir = "[''deletions'', x]" and ?blobs = "[blob_name h, pending_blob_name h]"
  from assms obtain s2 j1 s3 j2 s4 where
    one: "deletion_stage B ?dir n BlobUnlinked (unlink_deletion_blobs B h (dp_envelope_digest plan)) (verify_blobs_absent h) j s2 = (Inr j1, s3)"
    and two: "deletion_stage B ?dir n TransactionUnlinked (unlink_put_transaction h) (verify_put_transaction_absent h) j1 s3 = (Inr j2, s4)"
    and three: "deletion_stage B ?dir n ReferenceRemoved (remove_key_reference_idempotent B plan) (verify_key_reference_absent B plan) j2 s4 = (Inr j', t)"
    unfolding deletion_stages_def Let_def bindS_Inr by blast
  from one obtain u1 where u1: "unlink_deletion_blobs B h (dp_envelope_digest plan) s2 = (Inr (), u1) \<or> verify_blobs_absent h s2 = (Inr (), u1)"
    and c1: "s3 = u1 \<or> checkpoint_deletion B ?dir n j BlobUnlinked None u1 = (Inr j1, s3)"
    by (rule deletion_stage_Inr)
  from two obtain u2 where u2: "unlink_put_transaction h s3 = (Inr (), u2) \<or> verify_put_transaction_absent h s3 = (Inr (), u2)"
    and c2: "s4 = u2 \<or> checkpoint_deletion B ?dir n j1 TransactionUnlinked None u2 = (Inr j2, s4)"
    by (rule deletion_stage_Inr)
  from three obtain u3 where u3: "remove_key_reference_idempotent B plan s4 = (Inr (), u3) \<or> verify_key_reference_absent B plan s4 = (Inr (), u3)"
    and c3: "t = u3 \<or> checkpoint_deletion B ?dir n j2 ReferenceRemoved None u3 = (Inr j', t)"
    by (rule deletion_stage_Inr)
  have "gone ''sha256'' h ?blobs u1" using u1 unlink_deletion_blobs_gone verify_blobs_absent_gone by blast
  with c1 have "gone ''sha256'' h ?blobs s3" by (rule gone_checkpoint) simp
  with u2 have "gone ''sha256'' h ?blobs u2"
    using gone_kept [OF leaves_deletion(2) same_dirs_deletion(1)] gone_kept [OF leaves_deletion(3) same_dirs_deletion(2)] by blast
  with c2 have "gone ''sha256'' h ?blobs s4" by (rule gone_checkpoint) simp
  with u3 have "gone ''sha256'' h ?blobs u3"
    using gone_kept [OF leaves_deletion(4) same_dirs_deletion(3)] gone_kept [OF leaves_deletion(5) same_dirs_deletion(4)] by blast
  with c3 have blobs: "gone ''sha256'' h ?blobs t" by (rule gone_checkpoint) simp
  have "gone ''transactions'' h [metadata_name h] u2" by (rule transaction_gone [OF u2])
  with c2 have "gone ''transactions'' h [metadata_name h] s4" by (rule gone_checkpoint) simp
  with u3 have "gone ''transactions'' h [metadata_name h] u3"
    using gone_kept [OF leaves_reference_stage(1) same_dirs_deletion(3)] gone_kept [OF leaves_reference_stage(2) same_dirs_deletion(4)] by blast
  with c3 have transaction: "gone ''transactions'' h [metadata_name h] t" by (rule gone_checkpoint) simp
  have "key_gone (dp_wrapping_key_id plan) u3" by (rule reference_gone [OF u3])
  then have "key_gone (dp_wrapping_key_id plan) t"
    using c3 gone_checkpoint unfolding key_gone_def by blast
  with blobs transaction show ?thesis by (simp add: all_gone_def)
qed

section \<open>The key goes last\<close>

text \<open>An operation that keeps what is gone, and one that changes the key store only when all is gone.\<close>

definition stays :: "deletion_plan \<Rightarrow> string \<Rightarrow> ('k, 'a) keyed_op \<Rightarrow> bool" where
  "stays plan h m \<longleftrightarrow> (\<forall>s k. all_gone plan h s \<longrightarrow> all_gone plan h (fst (snd (m (s, k)))))"

definition key_last :: "deletion_plan \<Rightarrow> string \<Rightarrow> (private_fs \<Rightarrow> bool) \<Rightarrow> ('k, 'a) keyed_op \<Rightarrow> bool" where
  "key_last plan h P m \<longleftrightarrow>
     (\<forall>s k. P s \<longrightarrow> snd (snd (m (s, k))) = k \<or> all_gone plan h (fst (snd (m (s, k)))))"

lemma stays_bindS: "stays plan h m \<Longrightarrow> (\<And>x. stays plan h (f x)) \<Longrightarrow> stays plan h (bindS m f)"
  unfolding stays_def bindS_def by (clarsimp split: sum.split prod.split) (metis fst_conv snd_conv)

lemma stays_basic:
  "stays plan h (returnS x)" "stays plan h (failS e)" "stays plan h (liftS r)" "stays plan h (readiness_of K l)"
  by (simp_all add: stays_def returnS_def failS_def liftS_def readiness_of_def)

lemma stays_on_files: "quiet m \<Longrightarrow> stays plan h (on_files m)"
  by (auto simp: stays_def on_files_def split: prod.split dest: all_gone_kept)

lemma stays_last: "stays plan h m \<Longrightarrow> key_last plan h (all_gone plan h) m"
  by (simp add: stays_def key_last_def)

lemma key_last_bind:
  assumes "\<And>s k. snd (snd (m (s, k))) = k" and "\<And>s k x t k'. m (s, k) = (Inr x, (t, k')) \<Longrightarrow> R x t"
    and "\<And>x. key_last plan h (R x) (f x)"
  shows "key_last plan h P (bindS m f)"
  unfolding key_last_def
proof (intro allI impI)
  fix s k
  obtain r t k' where m: "m (s, k) = (r, (t, k'))" by (cases "m (s, k)") auto
  with assms(1) [of s k] have k': "k' = k" by simp
  show "snd (snd (bindS m f (s, k))) = k \<or> all_gone plan h (fst (snd (bindS m f (s, k))))"
  proof (cases r)
    case (Inr x)
    with m assms(2) have "R x t" by blast
    with assms(3) [of x] show ?thesis by (simp add: bindS_def m Inr k' key_last_def)
  qed (simp add: bindS_def m k')
qed

lemma keyless_on_files: "snd (snd (on_files m (s, k))) = k"
  by (simp add: on_files_def split: prod.split)

lemma keyless_basic: "snd (snd (liftS r (s, k))) = k" "snd (snd (failS e (s, k))) = k" "snd (snd (readiness_of K l (s, k))) = k"
  by (simp_all add: liftS_def failS_def readiness_of_def)

lemma stays_delete: "stays plan h (delete_wrapping_key K l)"
  unfolding delete_wrapping_key_def
proof (rule stays_bindS [OF stays_basic(4)])
  fix status
  have "stays plan h (bindS (readiness_of K l) (\<lambda>now.
                  if now \<noteq> KeyMissing then failS KeyDeletionUnverified
                  else returnS (case status of
                         Ready \<Rightarrow> DeletedAndAbsenceVerified
                       | KeyMissing \<Rightarrow> AlreadyAbsentAndVerified)))"
    by (rule stays_bindS) (auto intro: stays_basic)
  then show "stays plan h (\<lambda>(s, k). case ks_delete K l k of
         (r, k') \<Rightarrow>
           if r = Inr () \<or> r = Inl KeyMissingError
           then bindS (readiness_of K l) (\<lambda>now.
                  if now \<noteq> KeyMissing then failS KeyDeletionUnverified
                  else returnS (case status of
                         Ready \<Rightarrow> DeletedAndAbsenceVerified
                       | KeyMissing \<Rightarrow> AlreadyAbsentAndVerified)) (s, k')
           else (case r of Inl e \<Rightarrow> (Inl e, (s, k')) | Inr _ \<Rightarrow> (Inl StorageIo, (s, k'))))"
    by (simp add: stays_def split: prod.split sum.split)
qed

lemma quiet_after:
  "quiet (checkpoint_deletion B [''deletions'', x] n j st c)" "quiet (write_record_at [''deletions'', x] n w)"
  "quiet (unlink_file_if_present [''deletions'', x] n)" "quiet (call e)" "quiet (verify_deleted_files B plan g)"
  by (auto simp: quiet_def verify_deleted_files_def
      intro!: leaves_checkpoint_any frame_intros dir_intros leaves_transaction_check split: option.split)

lemma run_deletion_key_last: "key_last plan h P (run_deletion B K plan pd h [''deletions'', x])"
proof -
  have rest: "stays plan h (bindS (deletion_key_stage B K plan [''deletions'', x] n j) (\<lambda>status.
      bindS (verify_deleted_state B K plan) (\<lambda>_.
      bindS (liftS (deletion_receipt_encode (bl_codecs B) (receipt_of_deletion plan pd status))) (\<lambda>w.
      bindS (on_files (write_record_at [''deletions'', x] (metadata_name h) w)) (\<lambda>_.
      bindS (on_files (unlink_file_if_present [''deletions'', x] n)) (\<lambda>_.
      bindS (on_files (call StorageIo)) (\<lambda>_. returnS (receipt_of_deletion plan pd status))))))))" for j n
    unfolding deletion_key_stage_def verify_deleted_state_def
    by (auto intro!: stays_bindS stays_basic stays_delete stays_on_files quiet_after)
  show ?thesis
    unfolding run_deletion_def Let_def
  proof (rule key_last_bind [where R = "\<lambda>_ _. True"], rule keyless_on_files, simp,
      rule key_last_bind [where R = "\<lambda>_. all_gone plan h"], rule keyless_on_files)
    fix j s k j' t k'
    assume "on_files (deletion_stages B plan h [''deletions'', x] (h @ ''.pending.json'') j) (s, k) = (Inr j', (t, k'))"
    then show "all_gone plan h t" by (auto simp: on_files_def split: prod.splits dest: stages_all_gone)
  qed (rule stays_last [OF rest])
qed

definition keyless :: "('k, 'a) keyed_op \<Rightarrow> bool" where
  "keyless m \<longleftrightarrow> (\<forall>s k. snd (snd (m (s, k))) = k)"

lemma keyless_bindS: "keyless m \<Longrightarrow> (\<And>x. keyless (f x)) \<Longrightarrow> keyless (bindS m f)"
  unfolding keyless_def bindS_def by (clarsimp split: sum.split prod.split) (metis snd_conv)

lemma keyless_ops:
  "keyless (on_files m)" "keyless (returnS x)" "keyless (failS e)" "keyless (liftS r)" "keyless (readiness_of K l)"
  by (simp_all add: keyless_def keyless_on_files keyless_basic returnS_def)

lemma keyless_last: "keyless m \<Longrightarrow> key_last plan h P m"
  by (simp add: keyless_def key_last_def)

lemma keyless_then: "keyless m \<Longrightarrow> (\<And>x. key_last plan h (\<lambda>_. True) (f x)) \<Longrightarrow> key_last plan h (\<lambda>_. True) (bindS m f)"
  by (rule key_last_bind [where R = "\<lambda>_ _. True"]) (simp_all add: keyless_def)

lemma keyless_then_dir:
  assumes "key_last plan h (\<lambda>_. True) (f [''deletions'', take 2 g])"
  shows "key_last plan h (\<lambda>_. True) (bindS (on_files (open_digest_directory ''deletions'' g c)) f)"
  unfolding key_last_def
proof (intro allI impI)
  fix s k
  obtain r t where m: "open_digest_directory ''deletions'' g c s = (r, t)" by (cases "open_digest_directory ''deletions'' g c s")
  show "snd (snd (bindS (on_files (open_digest_directory ''deletions'' g c)) f (s, k))) = k
      \<or> all_gone plan h (fst (snd (bindS (on_files (open_digest_directory ''deletions'' g c)) f (s, k))))"
  proof (cases r)
    case (Inr d)
    with m have "d = [''deletions'', take 2 g]" by (auto dest: dir_result)
    with assms show ?thesis by (simp add: bindS_def on_files_def m Inr key_last_def)
  qed (simp add: bindS_def on_files_def m)
qed

lemma execute_deletion_key_last:
  assumes "digest_hex (dp_envelope_digest plan) = Inr h"
  shows "key_last plan h (\<lambda>_. True) (execute_deletion B K plan)"
proof -
  have recorded: "keyless (bindS (liftS r) (\<lambda>receipt.
             bindS (liftS (verify_receipt receipt plan pd)) (\<lambda>_.
             bindS (verify_deleted_state B K plan) (\<lambda>_.
             bindS (on_files (m receipt)) (\<lambda>_. returnS receipt)))))" for r pd m
    unfolding verify_deleted_state_def by (auto intro!: keyless_bindS keyless_ops)
  show ?thesis
    unfolding execute_deletion_def execute_deletion_unix_def Let_def assms op_simps
  proof (rule keyless_then [OF keyless_ops(1)], rule keyless_then [OF keyless_ops(4)], rule keyless_then [OF keyless_ops(1)],
      simp only: if_split [of "key_last plan h (\<lambda>_. True)"], intro conjI impI)
    show "key_last plan h (\<lambda>_. True) (failS BlobReferenced)" by (rule keyless_last [OF keyless_ops(3)])
  qed (rule keyless_then [OF keyless_ops(4)], rule keyless_then_dir, rule keyless_then [OF keyless_ops(1)],
      auto intro: keyless_last [OF recorded] run_deletion_key_last split: option.split)
qed

lemma execute_deletion_bad_digest:
  assumes "digest_hex (dp_envelope_digest plan) = Inl e"
  shows "keyless (execute_deletion B K plan)"
proof -
  have stop: "keyless (bindS (liftS (Inl e)) f)" for f :: "'c \<Rightarrow> ('a, 'b) keyed_op"
    by (simp add: keyless_def bindS_def liftS_def)
  show ?thesis
    unfolding execute_deletion_def execute_deletion_unix_def Let_def assms
    by (auto intro!: keyless_bindS keyless_ops stop)
qed

lemma deletion_key_last:
  "snd (snd (execute_deletion B K plan (s, k))) = k
    \<or> (\<exists>h. dp_envelope_digest plan = ''sha256:'' @ h \<and> all_gone plan h (fst (snd (execute_deletion B K plan (s, k)))))"
proof (cases "digest_hex (dp_envelope_digest plan)")
  case (Inl e)
  from execute_deletion_bad_digest [OF this, of B K] show ?thesis by (auto simp: keyless_def)
next
  case (Inr h)
  then have "dp_envelope_digest plan = ''sha256:'' @ h" by (simp add: digest_hex_Inr del: append.simps)
  then show ?thesis
    using execute_deletion_key_last [OF Inr, of B K, unfolded key_last_def, rule_format, of s k] by auto
qed

end
