(* ===== verification/Blob_Theorems.thy ===== *)
theory Blob_Theorems
  imports Deletion_Order Protected_Theorems
begin

text \<open>
  The properties of the blob store, with a concrete store in which an envelope has been put.
\<close>

section \<open>A store whose calls succeed\<close>

lemma call_ok: "pf_calls s = [] \<Longrightarrow> call e s = (Inr (), s)"
  by (simp add: call_def)

lemma set_file_fields [simp]:
  "pf_calls (set_file d n f s) = pf_calls s" "pf_dir (set_file d n f s) = pf_dir s"
  "pf_file (set_file d n f s) = (pf_file s)(d := (pf_file s d)(n := f))"
  by (simp_all add: set_file_def)

lemma open_dir_create_ok:
  "pf_calls s = [] \<Longrightarrow> pf_dir s d \<noteq> Some False \<Longrightarrow>
     open_private_dir_at d True s = (Inr (), s\<lparr>pf_dir := (pf_dir s)(d \<mapsto> True)\<rparr>)"
  by (cases "pf_dir s d")
    (auto simp: open_private_dir_at_def bindS_def call_def validate_private_directory_def returnS_def fun_upd_idem)

lemma open_digest_create_ok:
  "pf_calls s = [] \<Longrightarrow> pf_dir s [ns] \<noteq> Some False \<Longrightarrow> pf_dir s [ns, take 2 h] \<noteq> Some False \<Longrightarrow>
     open_digest_directory ns h True s
       = (Inr [ns, take 2 h], s\<lparr>pf_dir := (pf_dir s)([ns] \<mapsto> True, [ns, take 2 h] \<mapsto> True)\<rparr>)"
  by (simp add: open_digest_directory_def bindS_def open_dir_create_ok returnS_def)

lemma read_none_ok: "pf_calls s = [] \<Longrightarrow> pf_file s d n = None \<Longrightarrow> read_optional_at d n mx e s = (Inr None, s)"
  by (simp add: read_optional_at_def bindS_def call_def)

lemma write_record_ok:
  "pf_calls s = [] \<Longrightarrow> length text \<le> MAX_METADATA_BYTES \<Longrightarrow>
     write_record_at d n text s
       = (Inr (), set_file d n (Some (Private_File text)) (set_file d (''.'' @ n @ ''.next'') None s))"
  by (simp add: write_record_at_def Let_def bindS_def call_def unlink_file_if_present_def update_def create_file_at_def
      validate_private_file_def returnS_def write_all_def rename_at_def set_file_def)

section \<open>The concrete store\<close>

definition demo_envelope :: protected_envelope where
  "demo_envelope = \<lparr>pe_version = ENVELOPE_VERSION, pe_algorithm = ALGORITHM, pe_protected_id = ''protected_'' @ demo_hex,
     pe_data_class = DATA_CLASS, pe_installation_id = demo_installation, pe_wrapping_key_id = demo_key_id,
     pe_content_nonce = replicate 12 CHR ''n'', pe_wrapping_nonce = replicate 12 CHR ''n'',
     pe_wrapped_data_key = replicate 48 CHR ''k'', pe_ciphertext = replicate 16 CHR ''c''\<rparr>"

definition demo_journal :: put_journal where
  "demo_journal = put_journal_of demo_envelope (''sha256:'' @ demo_hex) ''x''"

definition two_codec :: "'a \<Rightarrow> 'a \<Rightarrow> 'a codec" where
  "two_codec x y = \<lparr>co_write = (\<lambda>z. if z = x then Some ''x'' else if z = y then Some ''y'' else None),
     co_read = (\<lambda>b. if b = ''x'' then Some x else if b = ''y'' then Some y else None)\<rparr>"

definition demo_index :: key_reference_index where
  "demo_index = \<lparr>ki_version = KEY_REFERENCE_INDEX_VERSION, ki_installation_id = demo_installation,
     ki_wrapping_key_id = demo_key_id, ki_entries = [reference_of demo_envelope (''sha256:'' @ demo_hex)]\<rparr>"

definition demo_blobs :: blob_env where
  "demo_blobs = \<lparr>bl_sha = (\<lambda>_. replicate 32 CHR 0xAA), bl_vault = demo_cipher (one_codec demo_envelope),
     bl_codecs = demo_codecs\<lparr>cd_put_journal := two_codec demo_journal (demo_journal\<lparr>pj_state := PutCommitted\<rparr>),
       cd_key_index := one_codec demo_index\<rparr>\<rparr>"

lemma demo_hex_encoded: "hex_encode (replicate n CHR 0xAA) = replicate (2 * n) CHR ''a''"
  by (induction n) (simp_all add: hex_digit_def)

lemma demo_blob_digest: "store_digest (bl_sha demo_blobs) b = ''sha256:'' @ demo_hex"
proof -
  have "bl_sha demo_blobs b = replicate 32 CHR 0xAA" by (simp add: demo_blobs_def)
  then show ?thesis by (simp only: store_digest_def demo_hex_encoded demo_hex_def) simp
qed

lemma demo_envelope_encodes: "envelope_encode (bl_vault demo_blobs) demo_envelope = Inr ''x''"
proof -
  have "valid_prefixed_id (pe_protected_id demo_envelope) ''protected''"
    "valid_prefixed_id (pe_installation_id demo_envelope) ''installation''"
    "valid_prefixed_id (pe_wrapping_key_id demo_envelope) ''key''"
    using demo_ids_valid by (simp_all add: demo_envelope_def del: append.simps)
  then have "envelope_validate (demo_cipher (one_codec demo_envelope)) demo_envelope = Inr ()"
    unfolding envelope_validate_def by (simp add: demo_envelope_def decode_exact_def demo_cipher_def ok_or_def MAX_PLAINTEXT_BYTES_def)
  then show ?thesis
    by (simp add: envelope_encode_def demo_blobs_def) (simp add: demo_cipher_def one_codec_def ok_or_def)
qed

lemma demo_journal_encodes:
  "put_journal_encode (bl_codecs demo_blobs) demo_journal = Inr ''x''"
  "put_journal_encode (bl_codecs demo_blobs) (demo_journal\<lparr>pj_state := PutCommitted\<rparr>) = Inr ''y''"
proof -
  have "put_journal_check demo_journal = Inr ()" "put_journal_check (demo_journal\<lparr>pj_state := PutCommitted\<rparr>) = Inr ()"
    using demo_ids_valid
    by (simp_all add: put_journal_check_def demo_journal_def put_journal_of_def demo_envelope_def del: append.simps)
  moreover have "demo_journal\<lparr>pj_state := PutCommitted\<rparr> \<noteq> demo_journal"
    by (simp add: demo_journal_def put_journal_of_def)
  ultimately show
    "put_journal_encode (bl_codecs demo_blobs) demo_journal = Inr ''x''"
    "put_journal_encode (bl_codecs demo_blobs) (demo_journal\<lparr>pj_state := PutCommitted\<rparr>) = Inr ''y''"
    by (simp_all add: put_journal_encode_def encode_record_def canonical_def demo_blobs_def two_codec_def ok_or_def)
qed

lemma demo_index_encodes: "key_index_encode (bl_codecs demo_blobs) demo_index = Inr ''x''"
proof -
  have "key_reference_check (reference_of demo_envelope (''sha256:'' @ demo_hex)) = Inr ()"
    using demo_ids_valid by (simp add: key_reference_check_def reference_of_def demo_envelope_def del: append.simps)
  then have "key_index_check demo_index = Inr ()"
    using demo_ids_valid
    by (simp add: key_index_check_def demo_index_def reference_of_def demo_envelope_def del: append.simps)
  then show ?thesis
    by (simp add: key_index_encode_def encode_record_def canonical_def demo_blobs_def one_codec_def ok_or_def)
qed

lemma stage_ok:
  "pf_calls s = [] \<Longrightarrow> pf_file s d n = None \<Longrightarrow> pf_file s d p = None \<Longrightarrow>
     stage_blob B d n p dg text s = (Inr (), set_file d p (Some (Private_File text)) s)"
  by (simp add: stage_blob_def bindS_def read_none_ok create_file_at_def call_def update_def validate_private_file_def
      returnS_def write_all_def set_file_def)

lemma publish_ok:
  "pf_calls s = [] \<Longrightarrow> pf_file s d n = None \<Longrightarrow> pf_file s d p = Some f \<Longrightarrow>
     publish_pending sha d p n dg s = (Inr (), set_file d p None (set_file d n (Some f) s))"
  by (simp add: publish_pending_def bindS_def call_def unlink_file_if_present_def update_def)

lemma demo_reference_written:
  assumes calls: "pf_calls s = []"
    and dirs: "pf_dir s [''key-references''] = None" "pf_dir s [''key-references'', take 2 demo_hex] = None"
    and files: "\<And>n. pf_file s [''key-references'', take 2 demo_hex] n = None"
  shows "\<exists>t. write_key_reference demo_blobs demo_envelope (''sha256:'' @ demo_hex) s = (Inr (), t)
      \<and> pf_calls t = [] \<and> (\<forall>d. d \<noteq> [''key-references'', take 2 demo_hex] \<longrightarrow> pf_file t d = pf_file s d)"
proof -
  let ?kd = "[''key-references'', take 2 demo_hex]" and ?n = "demo_hex @ ''.json''"
  let ?s = "s\<lparr>pf_dir := (pf_dir s)([''key-references''] \<mapsto> True, ?kd \<mapsto> True)\<rparr>"
  have key: "pe_wrapping_key_id demo_envelope = demo_key_id" "pe_installation_id demo_envelope = demo_installation"
    by (simp_all add: demo_envelope_def)
  have hex: "key_hex demo_key_id = Inr demo_hex"
  proof -
    have prefixed: "strip_prefix ''key_'' demo_key_id = Some demo_hex" unfolding demo_key_id_def by (rule strip_prefix_append)
    show ?thesis unfolding key_hex_def prefixed by (simp add: demo_hex_ok)
  qed
  have dir: "open_key_reference_directory demo_key_id True s = (Inr ?kd, ?s)"
    using calls dirs by (simp add: open_key_reference_directory_def bindS_def liftS_def hex open_dir_create_ok returnS_def)
  have none: "read_optional_at ?kd ?n MAX_METADATA_BYTES InvalidTransaction ?s = (Inr None, ?s)"
    using calls files by (intro read_none_ok) simp_all
  have encoded: "key_index_encode (bl_codecs demo_blobs)
      \<lparr>ki_version = KEY_REFERENCE_INDEX_VERSION, ki_installation_id = demo_installation, ki_wrapping_key_id = demo_key_id,
         ki_entries = [reference_of demo_envelope (''sha256:'' @ demo_hex)]\<rparr> = Inr ''x''"
    using demo_index_encodes by (simp add: demo_index_def)
  have "write_record_at ?kd ?n ''x'' ?s
      = (Inr (), set_file ?kd ?n (Some (Private_File ''x'')) (set_file ?kd (''.'' @ ?n @ ''.next'') None ?s))"
    using calls by (intro write_record_ok) (simp_all add: MAX_METADATA_BYTES_def)
  then show ?thesis
    unfolding write_key_reference_def key
    using calls encoded by (simp add: dir bindS_def liftS_def key_index_name_def hex none
        search_def insert_at_def)
qed

lemma empty_calls: "pf_calls empty_store = []"
  by (simp add: empty_store_def)

lemma demo_put:
  "\<exists>t. put demo_blobs demo_envelope empty_store = (Inr (''sha256:'' @ demo_hex), t)
     \<and> pf_file t [''sha256'', take 2 demo_hex] (blob_name demo_hex) = Some (Private_File ''x'')"
proof -
  let ?d = "[''sha256'', take 2 demo_hex]" and ?t = "[''transactions'', take 2 demo_hex]" and ?dg = "''sha256:'' @ demo_hex"
  let ?n = "blob_name demo_hex" and ?p = "pending_blob_name demo_hex" and ?m = "metadata_name demo_hex"
  have np: "?n \<noteq> ?p" by (rule pending_not_blob) (simp add: hex64_def demo_hex_ok)
  have hex: "digest_hex ?dg = Inr demo_hex" by (simp add: digest_hex_Inr hex64_def demo_hex_ok del: append.simps)
  define s1 where "s1 = empty_store\<lparr>pf_dir := (pf_dir empty_store)([''sha256''] \<mapsto> True, ?d \<mapsto> True)\<rparr>"
  define s2 where "s2 = s1\<lparr>pf_dir := (pf_dir s1)([''transactions''] \<mapsto> True, ?t \<mapsto> True)\<rparr>"
  have s2: "pf_calls s2 = []" "pf_file s2 d n = None" for d n by (simp_all add: s2_def s1_def empty_store_def)
  have o1: "open_digest_directory ''sha256'' demo_hex True empty_store = (Inr ?d, s1)"
    unfolding s1_def by (rule open_digest_create_ok) (simp_all add: empty_store_def)
  have o2: "open_digest_directory ''transactions'' demo_hex True s1 = (Inr ?t, s2)"
    unfolding s2_def by (rule open_digest_create_ok) (simp_all add: s1_def empty_store_def)
  define s3 where "s3 = set_file ?t ?m (Some (Private_File ''x'')) (set_file ?t (''.'' @ ?m @ ''.next'') None s2)"
  have j: "write_record_at ?t ?m ''x'' s2 = (Inr (), s3)"
    unfolding s3_def by (rule write_record_ok) (simp_all add: s2 MAX_METADATA_BYTES_def)
  have s3: "pf_calls s3 = []" "d \<noteq> ?t \<Longrightarrow> pf_file s3 d n = None" "pf_dir s3 = pf_dir s2" for d n
    by (simp_all add: s3_def s2)
  define s4 where "s4 = set_file ?d ?p (Some (Private_File ''x'')) s3"
  have st: "stage_blob demo_blobs ?d ?n ?p ?dg ''x'' s3 = (Inr (), s4)"
    unfolding s4_def by (rule stage_ok) (simp_all add: s3)
  have "pf_calls s4 = []" "pf_dir s4 [''key-references''] = None" "pf_dir s4 [''key-references'', take 2 demo_hex] = None"
    "pf_file s4 [''key-references'', take 2 demo_hex] n = None" for n
    by (simp_all add: s4_def s3 s2_def s1_def empty_store_def)
  from demo_reference_written [OF this] obtain s5 where
    ref: "write_key_reference demo_blobs demo_envelope ?dg s4 = (Inr (), s5)" and s5: "pf_calls s5 = []"
    and same: "\<And>d. d \<noteq> [''key-references'', take 2 demo_hex] \<Longrightarrow> pf_file s5 d = pf_file s4 d"
    by blast
  have f5: "pf_file s5 ?d ?n = None" "pf_file s5 ?d ?p = Some (Private_File ''x'')"
    using same [of ?d] np by (simp_all add: s4_def s3)
  define s6 where "s6 = set_file ?d ?p None (set_file ?d ?n (Some (Private_File ''x'')) s5)"
  have pub: "publish_pending (bl_sha demo_blobs) ?d ?p ?n ?dg s5 = (Inr (), s6)"
    unfolding s6_def by (rule publish_ok) (simp_all add: s5 f5)
  define s7 where "s7 = set_file ?t ?m (Some (Private_File ''y'')) (set_file ?t (''.'' @ ?m @ ''.next'') None s6)"
  have c: "write_record_at ?t ?m ''y'' s6 = (Inr (), s7)"
    unfolding s7_def by (rule write_record_ok) (simp_all add: s6_def s5 MAX_METADATA_BYTES_def)
  have r1: "read_optional_at ?t ?m MAX_METADATA_BYTES InvalidTransaction s2 = (Inr None, s2)"
    by (rule read_none_ok) (rule s2)+
  have r2: "read_optional_at ?d ?n MAX_ENVELOPE_BYTES BlobTampered s5 = (Inr None, s5)"
    by (rule read_none_ok) (rule s5 f5)+
  note journals = demo_journal_encodes [unfolded demo_journal_def]
  have steps: "put_steps demo_blobs demo_envelope ?dg ''x'' demo_hex ?d ?t s2 = (Inr ?dg, s7)"
    unfolding put_steps_def Let_def commit_journal_def
    by (simp add: bindS_def liftS_def r1 r2 journals
        j st ref pub c returnS_def del: append.simps)
  have "put demo_blobs demo_envelope empty_store = (Inr ?dg, s7)"
    unfolding put_def acquire_operation_def put_unix_def Let_def
    by (simp add: bindS_def call_ok [of empty_store] empty_calls demo_envelope_encodes liftS_def demo_blob_digest hex
        o1 o2 steps del: append.simps)
  moreover have "pf_file s7 ?d ?n = Some (Private_File ''x'')" using np by (simp add: s7_def s6_def)
  ultimately show ?thesis by blast
qed

section \<open>The properties\<close>

text \<open>C27 (content addressing). In every history of the store, whatever calls fail or are cut short and whatever happens to
  the keys, a file published under the name of a digest has that digest: a partial or foreign content is never
  published.\<close>

theorem published_blobs_verified:
  assumes "rtranclp (blob_step B K) (empty_store, k) (s, k')" and "hex64 h"
    and "pf_file s [''sha256'', take 2 h] (blob_name h) = Some (Private_File b)"
  shows "store_digest (bl_sha B) b = ''sha256:'' @ h"
  using blob_history_ok [OF assms(1)] assms(2,3) by (simp add: blobs_ok_def tree_def)

theorem published_blobs_verified_witness:
  "\<exists>s. rtranclp (blob_step demo_blobs (system_key_store demo_ring)) (empty_store, \<lambda>_. None) (s, \<lambda>_. None)
     \<and> pf_file s [''sha256'', take 2 demo_hex] (blob_name demo_hex) = Some (Private_File ''x'')
     \<and> store_digest (bl_sha demo_blobs) ''x'' = ''sha256:'' @ demo_hex"
proof -
  obtain t where t: "put demo_blobs demo_envelope empty_store = (Inr (''sha256:'' @ demo_hex), t)"
    and blob: "pf_file t [''sha256'', take 2 demo_hex] (blob_name demo_hex) = Some (Private_File ''x'')"
    using demo_put by blast
  have "blob_step demo_blobs (system_key_store demo_ring) (empty_store, \<lambda>_. None) (snd (put demo_blobs demo_envelope empty_store), \<lambda>_. None)"
    by (rule put_step)
  then have run: "rtranclp (blob_step demo_blobs (system_key_store demo_ring)) (empty_store, \<lambda>_. None) (t, \<lambda>_. None)"
    unfolding t snd_conv by (rule r_into_rtranclp)
  have "hex64 demo_hex" by (simp add: hex64_def demo_hex_ok)
  from published_blobs_verified [OF run this blob] run blob show ?thesis by blast
qed

text \<open>Publication: A put that succeeds has published the canonical text of its envelope under the digest it answers: in
  every history there is then a file of that name.\<close>

lemma put_publishes:
  assumes "rtranclp (blob_step B K) (empty_store, k) (s, k')" and "put B e s = (Inr d, t)"
  shows "\<exists>text h. envelope_encode (bl_vault B) e = Inr text \<and> d = store_digest (bl_sha B) text \<and> d = ''sha256:'' @ h
    \<and> hex64 h \<and> pf_file t [''sha256'', take 2 h] (blob_name h) \<noteq> None"
proof -
  from assms(2) obtain s1 where s1: "call StorageIo s = (Inr (), s1)" and p: "put_unix B e s1 = (Inr d, t)"
    by (auto simp: put_def acquire_operation_def bindS_Inr)
  from p obtain w h s2 s3 bd td where enc: "envelope_encode (bl_vault B) e = Inr w"
    and h: "digest_hex (store_digest (bl_sha B) w) = Inr h"
    and o: "open_digest_directory ''sha256'' h True s1 = (Inr bd, s2)" "open_digest_directory ''transactions'' h True s2 = (Inr td, s3)"
    and steps: "put_steps B e (store_digest (bl_sha B) w) w h bd td s3 = (Inr d, t)"
    by (auto simp: put_unix_def Let_def bindS_Inr)
  have hx: "hex64 h" "store_digest (bl_sha B) w = ''sha256:'' @ h" using h by (simp_all add: digest_hex_Inr del: append.simps)
  have dirs: "bd = [''sha256'', take 2 h]" "td = [''transactions'', take 2 h]" using o by (auto dest: dir_result)
  have "tree ''sha256'' s3 = tree ''sha256'' s"
    using leaves_call [of "''sha256''" StorageIo] leaves_open(1) [of "''sha256''"] s1 o unfolding leaves_def by (metis snd_conv)
  then have "blobs_ok (bl_sha B) (tree ''sha256'' s3)" using blob_history_ok [OF assms(1)] by simp
  with keeps_put_steps [OF hx, of e "take 2 h"] steps have "published h (tree ''sha256'' t)"
    unfolding keeps_blobs_def dirs hx(2) by blast
  moreover have "d = store_digest (bl_sha B) w"
    using steps by (auto simp: put_steps_def Let_def bindS_Inr)
  ultimately show ?thesis using enc hx by (auto simp: published_def tree_def simp del: append.simps)
qed

text \<open>A read gives only an envelope whose canonical text has the digest asked for.\<close>

lemma read_verified:
  assumes "read_envelope B d s = (Inr e, t)"
  shows "\<exists>text. envelope_encode (bl_vault B) e = Inr text \<and> store_digest (bl_sha B) text = d"
proof -
  from assms obtain w where "verify_blob (bl_sha B) w d = Inr ()" "envelope_decode (bl_vault B) w = Inr e"
    by (auto simp: read_envelope_def read_encoded_unix_def bindS_Inr split: if_splits)
  then show ?thesis by (auto simp: verify_blob_Inr dest: envelopes.decode_encode)
qed

text \<open>C28 (the key goes last). Whatever state a deletion starts or resumes in, and whatever calls fail, it touches the key store
  only when the blob, its pending copy, the put transaction and the index of the envelopes under the key are gone; they
  still are when it returns, with a receipt or an error.\<close>

theorem key_deleted_last:
  "snd (snd (execute_deletion B K plan (s, k))) = k
    \<or> (\<exists>h. dp_envelope_digest plan = ''sha256:'' @ h
        \<and> gone ''sha256'' h [blob_name h, pending_blob_name h] (fst (snd (execute_deletion B K plan (s, k))))
        \<and> gone ''transactions'' h [metadata_name h] (fst (snd (execute_deletion B K plan (s, k))))
        \<and> key_gone (dp_wrapping_key_id plan) (fst (snd (execute_deletion B K plan (s, k)))))"
  using deletion_key_last [of B K plan s k] by (simp add: all_gone_def)

end
