(* ===== verification/Unicode_Text.thy ===== *)
theory Unicode_Text
  imports Text_Tools
begin

text \<open>
  The code points of UTF-8 text, its white space, and the numbers that \<open>str::parse\<close> reads: what the daemon and
  the remote runner use of Rust's strings.
\<close>

section \<open>Characters\<close>

definition utf8_width :: "char \<Rightarrow> nat" where
  "utf8_width c = (if byte_code c < 192 then 1 else if byte_code c < 224 then 2 else if byte_code c < 240 then 3 else 4)"

lemma utf8_width_pos [simp]: "0 < utf8_width c" "utf8_width c \<noteq> 0"
  by (simp_all add: utf8_width_def)

text \<open>\<open>str::chars\<close>: the first byte of a code point says how many follow.\<close>

function utf8_chars :: "string \<Rightarrow> string list" where
  "utf8_chars [] = []"
| "utf8_chars (c # cs) = take (utf8_width c) (c # cs) # utf8_chars (drop (utf8_width c) (c # cs))"
  by pat_completeness auto
termination by (relation "measure length") (auto simp: utf8_width_def)

text \<open>\<open>char::is_control\<close>: U+0000 to U+001F and U+007F to U+009F.\<close>

definition control_char :: "string \<Rightarrow> bool" where
  "control_char ch \<longleftrightarrow>
     (case ch of [c] \<Rightarrow> is_ascii_control c | [c, d] \<Rightarrow> byte_code c = 194 \<and> 128 \<le> byte_code d \<and> byte_code d \<le> 159 | _ \<Rightarrow> False)"

text \<open>Code points in a row: each has its width, the last one perhaps less.\<close>

fun in_chars :: "string list \<Rightarrow> bool" where
  "in_chars [] \<longleftrightarrow> True"
| "in_chars (ch # chs) \<longleftrightarrow>
     ch \<noteq> [] \<and> (if chs = [] then length ch \<le> utf8_width (hd ch) else length ch = utf8_width (hd ch)) \<and> in_chars chs"

lemma utf8_chars_Nil_iff [simp]: "utf8_chars s = [] \<longleftrightarrow> s = []"
  by (cases s) auto

lemma in_chars_utf8: "in_chars (utf8_chars s)"
proof (induction s rule: utf8_chars.induct)
  case (2 c cs)
  obtain w where w: "utf8_width c = Suc w" by (cases "utf8_width c") auto
  with 2 show ?case by (simp add: min_def)
qed simp

lemma utf8_chars_concat: "in_chars chs \<Longrightarrow> utf8_chars (concat chs) = chs"
proof (induction chs)
  case (Cons ch chs)
  obtain c cs where c: "ch = c # cs" using Cons.prems by (cases ch) auto
  obtain w where w: "utf8_width c = Suc w" by (cases "utf8_width c") auto
  from Cons c w show ?case by (cases "chs = []") auto
qed simp

lemma concat_utf8_chars: "concat (utf8_chars s) = s"
  by (induction s rule: utf8_chars.induct) (simp_all del: take_Cons drop_Cons add: append_take_drop_id)

section \<open>Numbers\<close>

text \<open>\<open>str::parse\<close> of an unsigned integer below \<open>bound\<close>: decimal digits after an optional plus sign, nothing else.\<close>

definition digits_value :: "string \<Rightarrow> nat" where
  "digits_value s = fold (\<lambda>c n. 10 * n + (byte_code c - 48)) s 0"

definition parse_unsigned :: "nat \<Rightarrow> string \<Rightarrow> nat option" where
  "parse_unsigned bound s =
     (let ds = (if starts_with ''+'' s \<and> length s > 1 then drop 1 s else s)
      in if ds \<noteq> [] \<and> list_all is_ascii_digit ds \<and> digits_value ds < bound then Some (digits_value ds) else None)"

lemma parse_unsigned_less: "parse_unsigned bound s = Some n \<Longrightarrow> n < bound"
  by (auto simp: parse_unsigned_def Let_def split: if_splits)

section \<open>White space\<close>

text \<open>\<open>char::is_whitespace\<close>: the Unicode property, as code points in UTF-8.\<close>

definition whitespace_char :: "string \<Rightarrow> bool" where
  "whitespace_char ch \<longleftrightarrow>
     (case map byte_code ch of
        [a] \<Rightarrow> 9 \<le> a \<and> a \<le> 13 \<or> a = 32
      | [a, b] \<Rightarrow> a = 0xC2 \<and> (b = 0x85 \<or> b = 0xA0)
      | [a, b, c] \<Rightarrow> (a = 0xE1 \<and> b = 0x9A \<and> c = 0x80)
          \<or> (a = 0xE2 \<and> b = 0x80 \<and> (0x80 \<le> c \<and> c \<le> 0x8A \<or> c = 0xA8 \<or> c = 0xA9 \<or> c = 0xAF))
          \<or> (a = 0xE2 \<and> b = 0x81 \<and> c = 0x9F) \<or> (a = 0xE3 \<and> b = 0x80 \<and> c = 0x80)
      | _ \<Rightarrow> False)"

definition trim_text :: "string \<Rightarrow> string" where
  "trim_text s = concat (rev (dropWhile whitespace_char (rev (dropWhile whitespace_char (utf8_chars s)))))"

text \<open>\<open>str::split_ascii_whitespace\<close> drops empty parts.\<close>

definition ascii_whitespace :: "char \<Rightarrow> bool" where
  "ascii_whitespace c \<longleftrightarrow> byte_code c \<in> {9, 10, 12, 13, 32}"

fun ascii_words :: "string \<Rightarrow> string list" where
  "ascii_words [] = []"
| "ascii_words (c # cs) =
     (if ascii_whitespace c then ascii_words cs
      else case cs of
          [] \<Rightarrow> [[c]]
        | d # _ \<Rightarrow> if ascii_whitespace d then [c] # ascii_words cs
                   else (case ascii_words cs of [] \<Rightarrow> [[c]] | w # ws \<Rightarrow> (c # w) # ws))"

end
