(* ===== verification/Daemon_Text.thy ===== *)
theory Daemon_Text
  imports Unicode_Text
begin

text \<open>
  Text of the local daemon (\<open>promptectomy-daemon/src/lib.rs\<close>): what it shows on a terminal
  (\<open>sanitize_terminal\<close>), the numbers, queries and host names it reads from a request. A Rust string
  is its UTF-8 bytes; a \<open>char\<close> is the bytes of one code point.
\<close>

definition ESC :: string where "ESC = [CHR 0x1B]"

section \<open>Terminal characters\<close>

text \<open>U+061C, U+200E, U+200F, U+202A to U+202E, U+2066 to U+2069.\<close>

definition is_bidi_control :: "string \<Rightarrow> bool" where
  "is_bidi_control ch \<longleftrightarrow>
     (case map byte_code ch of
        [a, b] \<Rightarrow> a = 0xD8 \<and> b = 0x9C
      | [a, b, c] \<Rightarrow> a = 0xE2 \<and> (b = 0x80 \<and> (c = 0x8E \<or> c = 0x8F \<or> 0xAA \<le> c \<and> c \<le> 0xAE) \<or> b = 0x81 \<and> 0xA6 \<le> c \<and> c \<le> 0xA9)
      | _ \<Rightarrow> False)"

section \<open>Terminal text\<close>

text \<open>The rest after a control sequence, which ends with a byte from \<open>@\<close> to \<open>~\<close>, and after an operating system command, which ends with BEL or ESC and a backslash.\<close>

fun after_control_sequence :: "string list \<Rightarrow> string list" where
  "after_control_sequence [] = []"
| "after_control_sequence (ch # chs) =
     (case ch of [c] \<Rightarrow> if 64 \<le> byte_code c \<and> byte_code c \<le> 126 then chs else after_control_sequence chs
      | _ \<Rightarrow> after_control_sequence chs)"

fun after_system_command :: "bool \<Rightarrow> string list \<Rightarrow> string list" where
  "after_system_command previous_escape [] = []"
| "after_system_command previous_escape (ch # chs) =
     (if ch = [CHR 0x07] \<or> previous_escape \<and> ch = [CHR 0x5C] then chs else after_system_command (ch = ESC) chs)"

lemma after_shorter:
  "length (after_control_sequence chs) \<le> length chs" "length (after_system_command e chs) \<le> length chs"
  by (induction chs arbitrary: e) (auto simp: le_SucI split: list.split)

function sanitize_chars :: "string list \<Rightarrow> string list" where
  "sanitize_chars [] = []"
| "sanitize_chars (ch # chs) =
     (if ch = ESC then
        sanitize_chars (case chs of
            [] \<Rightarrow> []
          | nxt # rest \<Rightarrow> if nxt = ''['' then after_control_sequence rest
                         else if nxt = '']'' then after_system_command False rest else chs)
      else if is_bidi_control ch then sanitize_chars chs
      else if ch = [CHR 0x0A] \<or> ch = [CHR 0x09] \<or> \<not> control_char ch then ch # sanitize_chars chs
      else sanitize_chars chs)"
  by pat_completeness auto
termination
  by (relation "measure length") (auto simp: less_Suc_eq_le le_SucI after_shorter split: list.split)

definition sanitize_terminal :: "string \<Rightarrow> string" where
  "sanitize_terminal v = concat (sanitize_chars (utf8_chars v))"

text \<open>What may be shown: no escape, no direction control, no control character but newline and tab.\<close>

definition displayable :: "string \<Rightarrow> bool" where
  "displayable ch \<longleftrightarrow> ch = [CHR 0x0A] \<or> ch = [CHR 0x09] \<or> (\<not> control_char ch \<and> \<not> is_bidi_control ch)"

lemma in_chars_tl: "in_chars (ch # chs) \<Longrightarrow> in_chars chs"
  by simp

lemma in_chars_after: "in_chars chs \<Longrightarrow> in_chars (after_control_sequence chs)"
  "in_chars chs \<Longrightarrow> in_chars (after_system_command e chs)"
  by (induction chs arbitrary: e) (auto split: list.split)

lemma in_chars_Cons:
  assumes "in_chars (ch # chs)" "in_chars r" "chs = [] \<longrightarrow> r = []"
  shows "in_chars (ch # r)"
  using assms by (auto split: if_splits)

definition after_escape :: "string list \<Rightarrow> string list" where
  "after_escape chs =
     (case chs of
        [] \<Rightarrow> []
      | nxt # rest \<Rightarrow> if nxt = ''['' then after_control_sequence rest
                     else if nxt = '']'' then after_system_command False rest else chs)"

lemma in_chars_after_escape: "in_chars chs \<Longrightarrow> in_chars (after_escape chs)"
  by (auto simp: after_escape_def in_chars_after split: list.split)

lemma sanitize_in_chars: "in_chars chs \<Longrightarrow> in_chars (sanitize_chars chs) \<and> list_all displayable (sanitize_chars chs)"
proof (induction chs rule: sanitize_chars.induct)
  case (2 ch chs)
  note eq = sanitize_chars.simps(2) [of ch chs, folded after_escape_def]
  have chs: "in_chars chs" using 2(5) by (rule in_chars_tl)
  show ?case
  proof (cases "ch = ESC")
    case True
    then have "sanitize_chars (ch # chs) = sanitize_chars (after_escape chs)" unfolding eq by (rule if_P)
    then show ?thesis using 2(1) [folded after_escape_def, OF True in_chars_after_escape [OF chs]] by argo
  next
    case escape: False
    show ?thesis
    proof (cases "\<not> is_bidi_control ch \<and> (ch = [CHR 0x0A] \<or> ch = [CHR 0x09] \<or> \<not> control_char ch)")
      case True
      then have IH: "in_chars (sanitize_chars chs) \<and> list_all displayable (sanitize_chars chs)"
        using 2(3) escape chs by blast
      then have "in_chars (ch # sanitize_chars chs)" by (intro in_chars_Cons [OF 2(5)]) auto
      moreover have "displayable ch" using True by (auto simp: displayable_def)
      ultimately show ?thesis using IH True escape by (simp only: eq if_False if_True list.pred_inject simp_thms)
    next
      case False
      then show ?thesis using 2(2,4) escape chs by (simp only: eq if_False split: if_split) blast
    qed
  qed
qed simp

lemma escape_not_displayable: "\<not> displayable ESC"
  by (simp add: displayable_def ESC_def control_char_def is_ascii_control_def)

lemma newline_not_bidi: "\<not> is_bidi_control [c]"
  by (simp add: is_bidi_control_def)

lemma displayable_cases:
  assumes "displayable ch"
  shows "ch \<noteq> ESC" "\<not> is_bidi_control ch" "ch = [CHR 0x0A] \<or> ch = [CHR 0x09] \<or> \<not> control_char ch"
proof -
  show "ch \<noteq> ESC" using assms escape_not_displayable by blast
  show "\<not> is_bidi_control ch" using assms newline_not_bidi unfolding displayable_def by blast
  show "ch = [CHR 0x0A] \<or> ch = [CHR 0x09] \<or> \<not> control_char ch" using assms unfolding displayable_def by blast
qed

lemma sanitize_displayable: "list_all displayable chs \<Longrightarrow> sanitize_chars chs = chs"
proof (induction chs)
  case (Cons ch chs)
  then show ?case using displayable_cases [of ch] by (simp only: sanitize_chars.simps list.pred_inject if_True if_False)
qed simp

lemma sanitized_displayable: "list_all displayable (utf8_chars (sanitize_terminal v))"
  by (simp add: sanitize_terminal_def utf8_chars_concat sanitize_in_chars in_chars_utf8)

lemma sanitize_clean: "list_all displayable (utf8_chars v) \<Longrightarrow> sanitize_terminal v = v"
  by (simp add: sanitize_terminal_def sanitize_displayable concat_utf8_chars)

section \<open>Hosts and tokens\<close>

text \<open>The suffix of a bracketed host is empty or a colon and a port.\<close>

definition valid_port :: "string \<Rightarrow> bool" where
  "valid_port port \<longleftrightarrow> port \<noteq> [] \<and> parse_unsigned (2 ^ 16) port \<noteq> None"

definition valid_port_suffix :: "string \<Rightarrow> bool" where
  "valid_port_suffix v \<longleftrightarrow> v = [] \<or> (case strip_prefix '':'' v of None \<Rightarrow> False | Some port \<Rightarrow> valid_port port)"

definition host_of_header :: "string \<Rightarrow> string option" where
  "host_of_header v =
     (case strip_prefix ''['' v of
        Some ipv6 \<Rightarrow>
          (case split_once CHR '']'' ipv6 of
             None \<Rightarrow> None
           | Some (host, remainder) \<Rightarrow> if valid_port_suffix remainder then Some host else None)
      | None \<Rightarrow>
          if length (filter (\<lambda>c. c = CHR '':'') v) > 1 then None
          else (case split_once CHR '':'' v of
                  Some (host, port) \<Rightarrow> if valid_port port then Some host else None
                | None \<Rightarrow> Some v))"

definition valid_host_header :: "string option \<Rightarrow> string \<Rightarrow> bool" where
  "valid_host_header v expected \<longleftrightarrow>
     (case v of
        None \<Rightarrow> False
      | Some v \<Rightarrow>
          (case host_of_header v of
             None \<Rightarrow> False
           | Some hostname \<Rightarrow> hostname \<in> {''127.0.0.1'', ''::1'', ''localhost''} \<or> hostname = expected))"

definition valid_origin :: "string option \<Rightarrow> string list \<Rightarrow> bool" where
  "valid_origin v allowed \<longleftrightarrow> (case v of None \<Rightarrow> True | Some origin \<Rightarrow> list_ex (\<lambda>candidate. candidate = origin) allowed)"

definition DEFAULT_ALLOWED_ORIGINS :: "string list" where
  "DEFAULT_ALLOWED_ORIGINS = [''http://127.0.0.1'', ''http://localhost'', ''https://127.0.0.1'', ''https://localhost'']"

definition valid_allowed_origins :: "string list \<Rightarrow> bool" where
  "valid_allowed_origins origins \<longleftrightarrow> length origins = length DEFAULT_ALLOWED_ORIGINS
     \<and> list_all (\<lambda>(origin, expected). origin = expected) (zip origins DEFAULT_ALLOWED_ORIGINS)"

lemma valid_allowed_origins_iff: "valid_allowed_origins origins \<longleftrightarrow> origins = DEFAULT_ALLOWED_ORIGINS"
  by (auto simp: valid_allowed_origins_def list_all_iff list_eq_iff_zip_eq)

definition valid_token :: "string \<Rightarrow> bool" where
  "valid_token v \<longleftrightarrow> length v = 64 \<and> list_all (\<lambda>b. is_ascii_digit b \<or> (CHR ''a'' \<le> b \<and> b \<le> CHR ''f'')) v"

text \<open>\<open>generate_token\<close>: the 32 bytes read from the system's generator, two digits each.\<close>

definition generate_token :: "string option \<Rightarrow> string option" where
  "generate_token urandom = map_option (\<lambda>bytes. hex_encode bytes) urandom"

lemma generated_token_valid: "length bytes = 32 \<Longrightarrow> generate_token (Some bytes) = Some t \<Longrightarrow> valid_token t"
  using hex_encode_lower_hex [of bytes]
  by (auto simp: generate_token_def valid_token_def is_lower_hex_def list_all_iff)

section \<open>Queries\<close>

definition split_query :: "string \<Rightarrow> string \<times> string option" where
  "split_query path = (case split_once CHR ''?'' path of None \<Rightarrow> (path, None) | Some (p, q) \<Rightarrow> (p, Some q))"

fun parse_pairs :: "string list \<Rightarrow> string list \<Rightarrow> (string \<times> string) list \<Rightarrow> (string \<times> string) list option" where
  "parse_pairs allowed [] pairs = Some pairs"
| "parse_pairs allowed (part # parts) pairs =
     (case split_once CHR ''='' part of
        None \<Rightarrow> None
      | Some (name, v) \<Rightarrow>
          if name = [] \<or> v = [] \<or> name \<notin> set allowed \<or> list_ex (\<lambda>(seen, _). seen = name) pairs then None
          else parse_pairs allowed parts (pairs @ [(name, v)]))"

text \<open>\<open>None\<close> stands for the \<open>invalid_query\<close> response, the one error of these parsers.\<close>

definition parse_query :: "string option \<Rightarrow> string list \<Rightarrow> (string \<times> string) list option" where
  "parse_query q allowed =
     (case q of
        None \<Rightarrow> Some []
      | Some query \<Rightarrow> if query = [] then None else parse_pairs allowed (split_on CHR ''&'' query) [])"

definition query_number :: "(string \<times> string) list \<Rightarrow> string \<Rightarrow> nat \<Rightarrow> nat option" where
  "query_number pairs key absent =
     (case map_of pairs key of None \<Rightarrow> Some absent | Some v \<Rightarrow> parse_unsigned (2 ^ 64) v)"

definition parse_event_query :: "string option \<Rightarrow> (nat \<times> nat) option" where
  "parse_event_query q =
     Option.bind (parse_query q [''cursor'', ''limit'']) (\<lambda>pairs.
     Option.bind (query_number pairs ''cursor'' 0) (\<lambda>cursor.
     Option.bind (query_number pairs ''limit'' 100) (\<lambda>limit.
       if 1 \<le> limit \<and> limit \<le> 1000 then Some (cursor, limit) else None)))"

definition parse_report_query :: "string option \<Rightarrow> string option option" where
  "parse_report_query q = map_option (\<lambda>pairs. map_of pairs ''format'') (parse_query q [''format''])"

lemma seen_iff: "list_ex (\<lambda>(seen, _). seen = name) pairs \<longleftrightarrow> name \<in> fst ` set pairs"
  by (induction pairs) auto

lemma parse_pairs_Some:
  "parse_pairs allowed parts pairs = Some r \<Longrightarrow> distinct (map fst pairs) \<Longrightarrow>
     \<exists>new. r = pairs @ new \<and> distinct (map fst r) \<and> map (\<lambda>(n, v). n @ ''='' @ v) new = parts
       \<and> list_all (\<lambda>(n, v). n \<in> set allowed \<and> v \<noteq> []) new"
proof (induction parts arbitrary: pairs)
  case (Cons part parts)
  then obtain n v where p: "split_once CHR ''='' part = Some (n, v)" "n \<in> set allowed" "v \<noteq> []" "n \<notin> fst ` set pairs"
    and r: "parse_pairs allowed parts (pairs @ [(n, v)]) = Some r"
    by (auto split: option.splits if_splits simp: seen_iff)
  from Cons.IH [OF r] p(4) Cons.prems(2) obtain new where
    "r = (pairs @ [(n, v)]) @ new" "distinct (map fst r)" "map (\<lambda>(n, v). n @ ''='' @ v) new = parts"
    "list_all (\<lambda>(n, v). n \<in> set allowed \<and> v \<noteq> []) new" by auto
  with p(1-3) show ?case by (intro exI [of _ "(n, v) # new"]) (auto simp: split_once_Some)
qed auto

end
