(* ===== verification/Daemon_Api.thy ===== *)
theory Daemon_Api
  imports Daemon_Text Core_Api Core_Events Core_Reports Source_Acquirer
begin

text \<open>
  The answers of the local daemon (\<open>promptectomy-daemon/src/lib.rs\<close>): the envelope that every response
  carries, the safe errors, the translation of core and acquisition errors, and the repository
  inspection request with its checks. The value that \<open>json!\<close> builds for a route is a constructor of
  \<open>api_data\<close> with the parts it is built from.
\<close>

section \<open>Envelopes\<close>

definition DAEMON_PROTOCOL_VERSION :: string where "DAEMON_PROTOCOL_VERSION = ''phase4-daemon-1''"
definition DEFAULT_HOST :: string where "DEFAULT_HOST = ''promptectomy.local''"
definition MAX_BODY_BYTES :: nat where "MAX_BODY_BYTES = 2000000"
definition RATE_LIMIT :: nat where "RATE_LIMIT = 120"
definition MAX_CONNECTIONS :: nat where "MAX_CONNECTIONS = 64"
definition MAX_INSPECTIONS :: nat where "MAX_INSPECTIONS = 2"
definition DAEMON_MAX_METADATA_BYTES :: nat where "DAEMON_MAX_METADATA_BYTES = 16384"

text \<open>Durations are in nanoseconds, those of the inspection in seconds.\<close>

definition RATE_WINDOW :: nat where "RATE_WINDOW = 60000000000"
definition INSPECT_DEADLINE :: nat where "INSPECT_DEADLINE = 9"
definition REMOTE_INSPECT_OVERHEAD_SECONDS :: nat where "REMOTE_INSPECT_OVERHEAD_SECONDS = 20"

record endpoint_metadata =
  em_schema_version :: string
  em_protocol_version :: string
  em_transport :: string
  em_private :: bool
  em_socket_path :: string
  em_token :: string
  em_host :: string
  em_allowed_origins :: "string list"

record api_safe_error =
  ae_code :: string
  ae_category :: string
  ae_retryable :: bool
  ae_safe_message :: string
  ae_next_action :: string

datatype api_data =
    HealthData string bool bool
  | StatusData "run_projection list" nat
  | CollectionData bool "string list"
  | RunData run_projection
  | EventsData "event_projection list" nat u64
  | ReportData string string
  | SnapshotData snapshot_reference snapshot_receipt

record api_envelope =
  en_schema_version :: string
  en_protocol_version :: string
  en_status :: string
  en_data :: "api_data option"
  en_error :: "api_safe_error option"

type_synonym api_answer = "nat \<times> api_envelope"

definition api_ok :: "api_data \<Rightarrow> api_envelope" where
  "api_ok v = \<lparr>en_schema_version = SCHEMA_VERSION, en_protocol_version = DAEMON_PROTOCOL_VERSION,
     en_status = ''ok'', en_data = Some v, en_error = None\<rparr>"

definition api_error :: "string \<Rightarrow> string \<Rightarrow> bool \<Rightarrow> string \<Rightarrow> string \<Rightarrow> api_envelope" where
  "api_error code category retryable safe_message next_action =
     \<lparr>en_schema_version = SCHEMA_VERSION, en_protocol_version = DAEMON_PROTOCOL_VERSION,
      en_status = ''error'', en_data = None,
      en_error = Some \<lparr>ae_code = code, ae_category = category, ae_retryable = retryable,
        ae_safe_message = sanitize_terminal safe_message, ae_next_action = sanitize_terminal next_action\<rparr>\<rparr>"

definition api_unavailable :: "string \<Rightarrow> string \<Rightarrow> api_envelope" where
  "api_unavailable code next_action =
     api_error code ''unsupported'' False ''This command is unavailable in the current build.'' next_action"

text \<open>An envelope is one of the two kinds, and the text of an error can be shown.\<close>

definition envelope_ok :: "api_envelope \<Rightarrow> bool" where
  "envelope_ok e \<longleftrightarrow> en_schema_version e = SCHEMA_VERSION \<and> en_protocol_version e = DAEMON_PROTOCOL_VERSION
     \<and> (case en_error e of
          None \<Rightarrow> en_status e = ''ok'' \<and> en_data e \<noteq> None
        | Some r \<Rightarrow> en_status e = ''error'' \<and> en_data e = None
            \<and> list_all displayable (utf8_chars (ae_safe_message r)) \<and> list_all displayable (utf8_chars (ae_next_action r)))"

lemma envelope_ok_made [simp, intro]: "envelope_ok (api_ok v)" "envelope_ok (api_error code category r m a)"
  by (simp_all add: envelope_ok_def api_ok_def api_error_def sanitized_displayable)

lemma api_ok_fields [simp]: "en_error (api_ok v) = None" "en_data (api_ok v) = Some v"
  by (simp_all add: api_ok_def)

lemma api_error_fields [simp]: "en_data (api_error code category r m a) = None" "en_error (api_error code category r m a) \<noteq> None"
  by (simp_all add: api_error_def)

section \<open>Fixed answers\<close>

definition body_too_large :: api_envelope where
  "body_too_large = api_error ''request_body_too_large'' ''input'' False ''The request body is too large.''
     ''Send a request within the documented local API bound.''"

definition unexpected_body :: api_envelope where
  "unexpected_body = api_error ''unexpected_body'' ''input'' False ''This endpoint does not accept a request body.''
     ''Send the request without a body.''"

definition reject_unexpected_body :: "string \<Rightarrow> api_envelope + unit" where
  "reject_unexpected_body body = (if body = [] then Inr () else Inl unexpected_body)"

definition invalid_query_envelope :: api_envelope where
  "invalid_query_envelope = api_error ''invalid_query'' ''input'' False ''The request query is invalid.''
     ''Use each documented query parameter at most once with a valid value.''"

definition invalid_query :: api_answer where
  "invalid_query = (400, invalid_query_envelope)"

definition invalid_state_permissions :: api_answer where
  "invalid_state_permissions = (500, api_error ''state_permissions_invalid'' ''storage'' False
     ''Private state permissions are invalid.'' ''Repair the owner-only daemon state directory before retrying.'')"

definition endpoint_unavailable :: api_answer where
  "endpoint_unavailable = (404, api_error ''endpoint_unavailable'' ''unsupported'' False
     ''The requested endpoint is unavailable in this build.''
     ''Use doctor, inspect, status, watch, report, cancel, daemon, or gc.'')"

section \<open>Errors of the core and of acquisition\<close>

definition core_error_answer :: "core_error \<Rightarrow> api_answer" where
  "core_error_answer safe =
     (if err_code safe \<in> {''cursor_gap'', ''event_cursor_expired''} then
        (410, api_error ''event_cursor_expired'' (err_category safe) (err_retryable safe) (err_message safe) (err_action safe))
      else
        (if err_category safe = ''input'' then 400
         else if err_category safe = ''policy'' then 403
         else if err_category safe = ''state'' \<or> err_category safe = ''storage'' then 409
         else 500,
         api_error (err_code safe) (err_category safe) (err_retryable safe) (err_message safe) (err_action safe)))"

fun acquisition_error_response :: "acquisition_error \<Rightarrow> api_answer" where
  "acquisition_error_response e =
     (if e = AcquisitionCancelled then
        (409, api_error ''inspection_cancelled'' ''cancelled'' True ''Repository inspection was cancelled.''
           ''Retry when the local acquisition boundary is available.'')
      else if e \<in> {RemoteGitUnavailable, RemoteRuntimeUnavailable, GitPlatformUnsupported} then
        (503, api_error ''acquisition_backend_unavailable'' ''acquisition'' True
           ''The reviewed remote acquisition backend is unavailable.''
           ''Configure the exact reviewed OrbStack backend or use a local, tar, or bundle source.'')
      else if e \<in> {SshBrokerUnavailable, SshBrokerRelayUnavailable} then
        (501, api_error ''ssh_acquisition_unavailable'' ''unsupported'' False
           ''Brokered SSH acquisition is not available in this build.''
           ''Use public HTTPS or provide a local, tar, or bundle source.'')
      else if e \<in> {UnsafeStorageRoot, StoragePermissionUnsupported, SnapshotPublishFailed} then
        (500, api_error ''snapshot_storage_unavailable'' ''storage'' False ''Private snapshot storage is unavailable.''
           ''Repair the owner-only daemon directory before retrying.'')
      else if e \<in> {InvalidRemoteAttestation, SnapshotIntegrityFailed} then
        (500, api_error ''acquisition_integrity_failed'' ''integrity'' False ''Repository acquisition failed its integrity checks.''
           ''Do not use the snapshot. Review the local runtime before retrying.'')
      else
        (400, api_error ''invalid_acquisition_request'' ''acquisition'' False
           ''The repository source or acquisition limits are not accepted.''
           ''Use an absolute supported source and bounded selected roots.''))"

declare acquisition_error_response.simps [simp del]

section \<open>Inspection requests\<close>

datatype repository_source =
    LocalSource string
  | ArchiveTar string
  | BundleFile string
  | HttpsSource string string

record repository_inspect_limits =
  il_max_files :: nat
  il_max_total_bytes :: nat
  il_max_file_bytes :: nat
  il_max_path_bytes :: nat
  il_max_archive_bytes :: nat
  il_max_remote_work_bytes :: nat
  il_max_git_output_bytes :: nat
  il_max_git_seconds :: nat

definition repository_inspect_limits_default :: repository_inspect_limits where
  "repository_inspect_limits_default =
     (let l = acquisition_limits_default in
      \<lparr>il_max_files = al_max_files l, il_max_total_bytes = al_max_total_bytes l,
       il_max_file_bytes = al_max_file_bytes l, il_max_path_bytes = al_max_path_bytes l,
       il_max_archive_bytes = al_max_archive_bytes l, il_max_remote_work_bytes = al_max_remote_work_bytes l,
       il_max_git_output_bytes = al_max_git_output_bytes l, il_max_git_seconds = 6\<rparr>)"

record repository_inspect_request =
  iq_source :: repository_source
  iq_selected_roots :: "string list"
  iq_limits :: repository_inspect_limits

text \<open>A duration adds with saturation at the 64-bit bound.\<close>

definition inspection_deadline :: "repository_inspect_request \<Rightarrow> nat" where
  "inspection_deadline q =
     (case iq_source q of
        HttpsSource _ _ \<Rightarrow> min (il_max_git_seconds (iq_limits q) + REMOTE_INSPECT_OVERHEAD_SECONDS) (2 ^ 64 - 1)
      | _ \<Rightarrow> INSPECT_DEADLINE)"

definition validate_inspect_request :: "repository_inspect_request \<Rightarrow> acquisition_error + unit" where
  "validate_inspect_request q =
     (let l = iq_limits q in
      if length (iq_selected_roots q) > 64
         \<or> sum_list (map length (iq_selected_roots q)) > 16384
         \<or> il_max_files l = 0 \<or> il_max_files l > 100000
         \<or> il_max_total_bytes l = 0 \<or> il_max_total_bytes l > 64 * 1024 * 1024
         \<or> il_max_file_bytes l = 0 \<or> il_max_file_bytes l > 16 * 1024 * 1024
         \<or> il_max_file_bytes l > il_max_total_bytes l
         \<or> il_max_path_bytes l = 0 \<or> il_max_path_bytes l > 1024
         \<or> il_max_archive_bytes l = 0 \<or> il_max_archive_bytes l > 64 * 1024 * 1024
         \<or> il_max_remote_work_bytes l < il_max_total_bytes l
         \<or> il_max_remote_work_bytes l > 256 * 1024 * 1024
         \<or> il_max_git_output_bytes l = 0 \<or> il_max_git_output_bytes l > 4 * 1024 * 1024
         \<or> il_max_git_seconds l = 0 \<or> il_max_git_seconds l > 6
      then Inl InvalidLimits
      else
        (case iq_source q of
           HttpsSource url revision \<Rightarrow> if length url > 2048 \<or> length revision > 200 then Inl LocatorDenied else Inr ()
         | LocalSource p \<Rightarrow> if length p > 4096 \<or> \<not> is_absolute_path p then Inl InvalidSourcePath else Inr ()
         | ArchiveTar p \<Rightarrow> if length p > 4096 \<or> \<not> is_absolute_path p then Inl InvalidSourcePath else Inr ()
         | BundleFile p \<Rightarrow> if length p > 4096 \<or> \<not> is_absolute_path p then Inl InvalidSourcePath else Inr ()))"

text \<open>\<open>serde_json::to_value\<close> of a request; members in the order of a \<open>serde_json\<close> map.\<close>

fun source_value :: "repository_source \<Rightarrow> json" where
  "source_value (LocalSource p) = JObj [(''kind'', JStr ''local''), (''path'', JStr p)]"
| "source_value (ArchiveTar p) = JObj [(''kind'', JStr ''archive_tar''), (''path'', JStr p)]"
| "source_value (BundleFile p) = JObj [(''kind'', JStr ''bundle''), (''path'', JStr p)]"
| "source_value (HttpsSource url revision) =
     JObj [(''kind'', JStr ''https''), (''revision'', JStr revision), (''url'', JStr url)]"

definition inspect_limits_value :: "repository_inspect_limits \<Rightarrow> json" where
  "inspect_limits_value l =
     JObj [(''max_archive_bytes'', JInt (int (il_max_archive_bytes l))),
           (''max_file_bytes'', JInt (int (il_max_file_bytes l))),
           (''max_files'', JInt (int (il_max_files l))),
           (''max_git_output_bytes'', JInt (int (il_max_git_output_bytes l))),
           (''max_git_seconds'', JInt (int (il_max_git_seconds l))),
           (''max_path_bytes'', JInt (int (il_max_path_bytes l))),
           (''max_remote_work_bytes'', JInt (int (il_max_remote_work_bytes l))),
           (''max_total_bytes'', JInt (int (il_max_total_bytes l)))]"

definition inspect_request_value :: "repository_inspect_request \<Rightarrow> json" where
  "inspect_request_value q =
     JObj [(''limits'', inspect_limits_value (iq_limits q)),
           (''selected_roots'', JArr (map JStr (iq_selected_roots q))),
           (''source'', source_value (iq_source q))]"

fun source_of_request :: "repository_source \<Rightarrow> acquisition_source" where
  "source_of_request (LocalSource p) = Local p IncludeTrackedAndUntracked"
| "source_of_request (ArchiveTar p) = Archive p Tar"
| "source_of_request (BundleFile p) = Bundle p"
| "source_of_request (HttpsSource url revision) = Https url revision"

definition acquisition_request_of :: "env \<Rightarrow> repository_inspect_request \<Rightarrow> acquisition_error + acquisition_request" where
  "acquisition_request_of E q =
     bindE (validate_inspect_request q) (\<lambda>_.
     bindE (map_err (\<lambda>_. InvalidAuthority) (canonical_json E (inspect_request_value q))) (\<lambda>canonical.
       let authority_digest = artifact_id E canonical; l = iq_limits q in
       Inr \<lparr>ar_source = source_of_request (iq_source q),
            ar_authority_id = ''auth_'' @ drop (length ''sha256:'') authority_digest,
            ar_authority_digest = authority_digest,
            ar_selected_roots = iq_selected_roots q,
            ar_limits = \<lparr>al_max_files = il_max_files l, al_max_total_bytes = il_max_total_bytes l,
              al_max_file_bytes = il_max_file_bytes l, al_max_path_bytes = il_max_path_bytes l,
              al_max_archive_bytes = il_max_archive_bytes l, al_max_remote_work_bytes = il_max_remote_work_bytes l,
              al_max_git_output_bytes = il_max_git_output_bytes l, al_max_git_seconds = il_max_git_seconds l\<rparr>\<rparr>))"

text \<open>The answers are envelopes of the two kinds.\<close>

lemma answers_ok [simp, intro]:
  "envelope_ok (snd (core_error_answer e))" "envelope_ok (snd (acquisition_error_response x))"
  "envelope_ok body_too_large" "envelope_ok unexpected_body" "envelope_ok (snd invalid_query)"
  "envelope_ok (snd invalid_state_permissions)" "envelope_ok (snd endpoint_unavailable)"
  by (simp_all add: core_error_answer_def acquisition_error_response.simps body_too_large_def unexpected_body_def
      invalid_query_def invalid_query_envelope_def invalid_state_permissions_def endpoint_unavailable_def)

end
