(* ===== verification/Daemon_Files.thy ===== *)
theory Daemon_Files
  imports Daemon_Api
begin

text \<open>
  The private files of the daemon (\<open>promptectomy-daemon/src/lib.rs\<close>): its owner-only directories, its
  socket and the endpoint metadata, the checks made before each is used, and the order in which
  \<open>serve\<close> prepares them. A path is its components; the file system is a table of what
  \<open>symlink_metadata\<close> answers for each path, and a changing call may fail with an error.
\<close>

unbundle bit_operations_syntax

section \<open>Paths and nodes\<close>

datatype daemon_error =
    UnsupportedPlatform | UnsafeRoot | UnsafeEndpoint | AlreadyRunning | DaemonIo | DaemonJson | InvalidResponse
  | DaemonCore core_error

text \<open>A \<open>PathBuf\<close>: whether it is absolute, and its components; \<open>.\<close> and repeated slashes are not components.\<close>

record os_path =
  op_absolute :: bool
  op_components :: "string list"

definition path_join :: "os_path \<Rightarrow> string \<Rightarrow> os_path" where
  "path_join p name = p\<lparr>op_components := op_components p @ [name]\<rparr>"

definition path_parent :: "os_path \<Rightarrow> os_path option" where
  "path_parent p = (if op_components p = [] then None else Some (p\<lparr>op_components := butlast (op_components p)\<rparr>))"

datatype endpoint_node_kind = LinkNode | DirNode | PlainNode | SocketNode | StrangeNode

record node_status =
  ns_kind :: endpoint_node_kind
  ns_mode :: nat
  ns_uid :: nat
  ns_content :: string

datatype lookup = Found node_status | Missing | Unreadable

text \<open>
  \<open>fd_user\<close> owns the files that the daemon creates; \<open>fd_mode\<close> gives the mode of a new directory or
  socket from its name, as the process mask leaves it; \<open>fd_fails\<close> is whether a changing call on a path
  fails; \<open>fd_listening\<close> is whether a connection to the socket is accepted.
\<close>

record daemon_files =
  fd_node :: "os_path \<Rightarrow> lookup"
  fd_user :: nat
  fd_mode :: "os_path \<Rightarrow> nat"
  fd_fails :: "string \<Rightarrow> os_path \<Rightarrow> bool"
  fd_listening :: "os_path \<Rightarrow> bool"

abbreviation others_mode :: nat where "others_mode \<equiv> 63"

definition stat :: "daemon_files \<Rightarrow> os_path \<Rightarrow> daemon_error + node_status" where
  "stat F p = (case fd_node F p of Found n \<Rightarrow> Inr n | _ \<Rightarrow> Inl DaemonIo)"

section \<open>Checks\<close>

definition link_check :: "daemon_files \<Rightarrow> string list \<Rightarrow> daemon_error + unit" where
  "link_check F current =
     (case fd_node F \<lparr>op_absolute = True, op_components = current\<rparr> of
        Found n \<Rightarrow> if ns_kind n = LinkNode then Inl UnsafeRoot else Inr ()
      | Missing \<Rightarrow> Inr ()
      | Unreadable \<Rightarrow> Inl DaemonIo)"

text \<open>\<open>reject_symlink_components\<close> pushes the components one by one; \<open>..\<close> is refused, and what does not exist is passed over.\<close>

fun reject_links_from :: "daemon_files \<Rightarrow> string list \<Rightarrow> string list \<Rightarrow> daemon_error + unit" where
  "reject_links_from F current [] = link_check F current"
| "reject_links_from F current (c # cs) =
     bindE (link_check F current) (\<lambda>_. if c = ''..'' then Inl UnsafeRoot else reject_links_from F (current @ [c]) cs)"

definition reject_symlink_components :: "daemon_files \<Rightarrow> os_path \<Rightarrow> daemon_error + unit" where
  "reject_symlink_components F p =
     (if \<not> op_absolute p then Inl UnsafeRoot else reject_links_from F [] (op_components p))"

text \<open>The probe file is created and removed again; it has the owner of every file the daemon creates.\<close>

definition verify_private_directory :: "daemon_files \<Rightarrow> string \<Rightarrow> os_path \<Rightarrow> daemon_error + unit" where
  "verify_private_directory F probe p =
     bindE (stat F p) (\<lambda>n.
       if ns_kind n \<noteq> DirNode \<or> ns_mode n AND others_mode \<noteq> 0 then Inl UnsafeRoot
       else if fd_fails F ''create'' (path_join p probe) \<or> fd_fails F ''remove'' (path_join p probe) then Inl DaemonIo
       else if ns_uid n \<noteq> fd_user F then Inl UnsafeRoot
       else Inr ())"

definition validate_private_root :: "daemon_files \<Rightarrow> string \<Rightarrow> os_path \<Rightarrow> daemon_error + unit" where
  "validate_private_root F probe p =
     bindE (reject_symlink_components F p) (\<lambda>_. verify_private_directory F probe p)"

definition private_directory_owner :: "daemon_files \<Rightarrow> os_path \<Rightarrow> daemon_error + nat" where
  "private_directory_owner F p = bindE (stat F p) (\<lambda>n. Inr (ns_uid n))"

fun state_files_private :: "daemon_files \<Rightarrow> os_path \<Rightarrow> nat \<Rightarrow> string list \<Rightarrow> daemon_error + unit" where
  "state_files_private F state owner [] = Inr ()"
| "state_files_private F state owner (name # names) =
     (case fd_node F (path_join state name) of
        Found n \<Rightarrow>
          if ns_kind n = PlainNode \<and> ns_uid n = owner \<and> ns_mode n AND others_mode = 0
          then state_files_private F state owner names else Inl UnsafeEndpoint
      | Missing \<Rightarrow> state_files_private F state owner names
      | Unreadable \<Rightarrow> Inl DaemonIo)"

definition enforce_state_permissions :: "daemon_files \<Rightarrow> os_path \<Rightarrow> nat \<Rightarrow> daemon_error + unit" where
  "enforce_state_permissions F state owner =
     bindE (stat F state) (\<lambda>n.
       if ns_kind n \<noteq> DirNode \<or> ns_mode n AND others_mode \<noteq> 0 \<or> ns_uid n \<noteq> owner then Inl UnsafeRoot
       else state_files_private F state owner [''.writer.lock'', ''state.sqlite'', ''state.sqlite-wal'', ''state.sqlite-shm''])"

definition verify_private_endpoint :: "daemon_files \<Rightarrow> string \<Rightarrow> os_path \<Rightarrow> bool \<Rightarrow> daemon_error + unit" where
  "verify_private_endpoint F probe p socket =
     bindE (ok_or UnsafeEndpoint (path_parent p)) (\<lambda>parent.
     bindE (validate_private_root F probe parent) (\<lambda>_.
     bindE (stat F parent) (\<lambda>owner.
     bindE (stat F p) (\<lambda>n.
       if ns_kind n \<noteq> (if socket then SocketNode else PlainNode) \<or> ns_uid n \<noteq> ns_uid owner
          \<or> ns_mode n AND others_mode \<noteq> 0
       then Inl UnsafeEndpoint else Inr ()))))"

section \<open>Changing calls\<close>

type_synonym 'a file_op = "daemon_files \<Rightarrow> (daemon_error + 'a) \<times> daemon_files"

definition bindF :: "'a file_op \<Rightarrow> ('a \<Rightarrow> 'b file_op) \<Rightarrow> 'b file_op" where
  "bindF m f F = (case m F of (Inl e, G) \<Rightarrow> (Inl e, G) | (Inr x, G) \<Rightarrow> f x G)"

definition checked :: "(daemon_files \<Rightarrow> daemon_error + 'a) \<Rightarrow> 'a file_op" where
  "checked c F = (c F, F)"

definition set_node :: "os_path \<Rightarrow> lookup \<Rightarrow> daemon_files \<Rightarrow> daemon_files" where
  "set_node p n F = F\<lparr>fd_node := (fd_node F)(p := n)\<rparr>"

definition changing :: "string \<Rightarrow> os_path \<Rightarrow> (daemon_files \<Rightarrow> lookup option) \<Rightarrow> unit file_op" where
  "changing what p new F =
     (case new F of
        None \<Rightarrow> (Inl DaemonIo, F)
      | Some n \<Rightarrow> if fd_fails F what p then (Inl DaemonIo, F) else (Inr (), set_node p n F))"

definition make_dir :: "os_path \<Rightarrow> unit file_op" where
  "make_dir p = changing ''mkdir'' p (\<lambda>F. if fd_node F p = Missing
     then Some (Found \<lparr>ns_kind = DirNode, ns_mode = fd_mode F p, ns_uid = fd_user F, ns_content = []\<rparr>) else None)"

text \<open>\<open>create_dir_all\<close>: each ancestor is a directory already or is made.\<close>

fun create_dirs_from :: "string list \<Rightarrow> string list \<Rightarrow> unit file_op" where
  "create_dirs_from current rest F =
     (case (case fd_node F \<lparr>op_absolute = True, op_components = current\<rparr> of
              Found n \<Rightarrow> if ns_kind n = DirNode then (Inr (), F) else (Inl DaemonIo, F)
            | _ \<Rightarrow> make_dir \<lparr>op_absolute = True, op_components = current\<rparr> F) of
        (Inl e, G) \<Rightarrow> (Inl e, G)
      | (Inr _, G) \<Rightarrow> (case rest of [] \<Rightarrow> (Inr (), G) | c # cs \<Rightarrow> create_dirs_from (current @ [c]) cs G))"

declare create_dirs_from.simps [simp del]

definition set_mode :: "nat \<Rightarrow> os_path \<Rightarrow> unit file_op" where
  "set_mode mode p = changing ''chmod'' p (\<lambda>F. case fd_node F p of Found n \<Rightarrow> Some (Found (n\<lparr>ns_mode := mode\<rparr>)) | _ \<Rightarrow> None)"

definition set_private_directory :: "os_path \<Rightarrow> unit file_op" where
  "set_private_directory p = set_mode 448 p"

definition prepare_private_root :: "string \<Rightarrow> os_path \<Rightarrow> unit file_op" where
  "prepare_private_root probe root =
     bindF (checked (\<lambda>F. reject_symlink_components F root)) (\<lambda>_.
     bindF (create_dirs_from [] (op_components root)) (\<lambda>_.
     bindF (checked (\<lambda>F. reject_symlink_components F root)) (\<lambda>_.
     bindF (set_private_directory root) (\<lambda>_.
       checked (\<lambda>F. verify_private_directory F probe root)))))"

text \<open>\<open>create_dir\<close> of the state directory: that it is there already is no error.\<close>

definition make_state_dir :: "os_path \<Rightarrow> unit file_op" where
  "make_state_dir p F = (case fd_node F p of Found n \<Rightarrow> (Inr (), F) | _ \<Rightarrow> make_dir p F)"

definition prepare_private_state :: "string \<Rightarrow> os_path \<Rightarrow> unit file_op" where
  "prepare_private_state probe state =
     bindF (checked (\<lambda>F. reject_symlink_components F state)) (\<lambda>_.
     bindF (make_state_dir state) (\<lambda>_.
     bindF (checked (\<lambda>F. reject_symlink_components F state)) (\<lambda>_.
     bindF (set_private_directory state) (\<lambda>_.
       checked (\<lambda>F. verify_private_directory F probe state)))))"

definition remove_file :: "os_path \<Rightarrow> unit file_op" where
  "remove_file p = changing ''remove'' p (\<lambda>F. case fd_node F p of Found n \<Rightarrow> if ns_kind n = DirNode then None else Some Missing | _ \<Rightarrow> None)"

definition remove_stale_socket :: "string \<Rightarrow> os_path \<Rightarrow> unit file_op" where
  "remove_stale_socket probe p F =
     (case fd_node F p of
        Missing \<Rightarrow> (Inr (), F)
      | Unreadable \<Rightarrow> (Inl DaemonIo, F)
      | Found _ \<Rightarrow>
          bindF (checked (\<lambda>F. verify_private_endpoint F probe p True)) (\<lambda>_.
          bindF (checked (\<lambda>F. if fd_listening F p then Inl AlreadyRunning else Inr ())) (\<lambda>_.
            remove_file p)) F)"

text \<open>\<open>UnixListener::bind\<close> makes the socket, which may not be there.\<close>

definition bind_socket :: "os_path \<Rightarrow> unit file_op" where
  "bind_socket p = changing ''bind'' p (\<lambda>F. if fd_node F p = Missing
     then Some (Found \<lparr>ns_kind = SocketNode, ns_mode = fd_mode F p, ns_uid = fd_user F, ns_content = []\<rparr>) else None)"

text \<open>A new file with mode 0600 and its content; writing and syncing are part of it.\<close>

definition create_private_file :: "os_path \<Rightarrow> string \<Rightarrow> unit file_op" where
  "create_private_file p content = changing ''create'' p (\<lambda>F. if fd_node F p = Missing
     then Some (Found \<lparr>ns_kind = PlainNode, ns_mode = 384, ns_uid = fd_user F, ns_content = content\<rparr>) else None)"

definition rename_file :: "os_path \<Rightarrow> os_path \<Rightarrow> unit file_op" where
  "rename_file source target F =
     (case fd_node F source of
        Found n \<Rightarrow> if fd_fails F ''rename'' target then (Inl DaemonIo, F)
                   else (Inr (), set_node target (Found n) (set_node source Missing F))
      | _ \<Rightarrow> (Inl DaemonIo, F))"

definition sync_directory :: "os_path \<Rightarrow> unit file_op" where
  "sync_directory p F = (if fd_fails F ''sync'' p then Inl DaemonIo else Inr (), F)"

definition write_private_metadata :: "(endpoint_metadata \<Rightarrow> string) \<Rightarrow> string \<Rightarrow> string \<Rightarrow> os_path \<Rightarrow> endpoint_metadata \<Rightarrow> unit file_op" where
  "write_private_metadata encode probe temporary p md =
     bindF (\<lambda>F. case fd_node F p of
              Found _ \<Rightarrow> (verify_private_endpoint F probe p False, F)
            | Missing \<Rightarrow> (Inr (), F)
            | Unreadable \<Rightarrow> (Inl DaemonIo, F)) (\<lambda>_.
     bindF (create_private_file (p\<lparr>op_components := butlast (op_components p) @ [temporary]\<rparr>) (encode md)) (\<lambda>_.
     bindF (rename_file (p\<lparr>op_components := butlast (op_components p) @ [temporary]\<rparr>) p) (\<lambda>_.
     bindF (checked (\<lambda>_. ok_or UnsafeEndpoint (path_parent p))) (\<lambda>parent.
     bindF (sync_directory parent) (\<lambda>_.
       checked (\<lambda>F. verify_private_endpoint F probe p False))))))"

section \<open>Configuration\<close>

definition MAX_SOCKET_PATH_BYTES :: nat where "MAX_SOCKET_PATH_BYTES = 95"

definition path_text :: "os_path \<Rightarrow> string" where
  "path_text p = (if op_absolute p then ''/'' else []) @ join_with CHR ''/'' (op_components p)"

text \<open>\<open>temporary\<close> is the canonical form of \<open>/tmp\<close>.\<close>

definition socket_path_for_root :: "env \<Rightarrow> os_path \<Rightarrow> os_path \<Rightarrow> os_path" where
  "socket_path_for_root E temporary root =
     (let direct = path_join root ''promptectomy.sock''
      in if length (path_text direct) \<le> MAX_SOCKET_PATH_BYTES then direct
         else path_join (path_join temporary (''.promptectomy-'' @
           take 32 (drop (length ''sha256:'') (artifact_id E (path_text root))))) ''p.sock'')"

record daemon_config =
  dc_root :: os_path
  dc_temporary :: os_path
  dc_public_git_backend :: "public_git_backend option"

definition daemon_socket_path :: "env \<Rightarrow> daemon_config \<Rightarrow> os_path" where
  "daemon_socket_path E C = socket_path_for_root E (dc_temporary C) (dc_root C)"

definition metadata_path :: "daemon_config \<Rightarrow> os_path" where
  "metadata_path C = path_join (dc_root C) ''endpoint.json''"

definition state_path :: "daemon_config \<Rightarrow> os_path" where
  "state_path C = path_join (dc_root C) ''state''"

definition acquisition_path :: "daemon_config \<Rightarrow> os_path" where
  "acquisition_path C = path_join (dc_root C) ''acquisition''"

definition digest_hint :: "env \<Rightarrow> string \<Rightarrow> string" where
  "digest_hint E v = take 12 (drop (length ''sha256:'') (artifact_id E v))"

section \<open>The endpoint\<close>

definition endpoint_metadata_of :: "env \<Rightarrow> daemon_config \<Rightarrow> string \<Rightarrow> endpoint_metadata" where
  "endpoint_metadata_of E C token =
     \<lparr>em_schema_version = SCHEMA_VERSION, em_protocol_version = DAEMON_PROTOCOL_VERSION,
      em_transport = ''unix-domain-socket'', em_private = True,
      em_socket_path = path_text (daemon_socket_path E C), em_token = token, em_host = DEFAULT_HOST,
      em_allowed_origins = DEFAULT_ALLOWED_ORIGINS\<rparr>"

text \<open>
  What the daemon does not compute itself: the names of probe and temporary files, the JSON text of the
  metadata and its reader, the bytes of the random generator, and \<open>CoreStore::open\<close> with its effect on files.
\<close>

record endpoint_world =
  ew_env :: env
  ew_probe :: string
  ew_temporary :: string
  ew_encode :: "endpoint_metadata \<Rightarrow> string"
  ew_decode :: "string \<Rightarrow> endpoint_metadata option"
  ew_urandom :: "string option"
  ew_open_store :: "os_path \<Rightarrow> daemon_files \<Rightarrow> (core_error + store) \<times> daemon_files"

definition open_core_store :: "endpoint_world \<Rightarrow> daemon_config \<Rightarrow> store file_op" where
  "open_core_store W C =
     bindF (prepare_private_root (ew_probe W) (dc_root C)) (\<lambda>_.
     bindF (prepare_private_state (ew_probe W) (state_path C)) (\<lambda>_.
     bindF (\<lambda>F. case ew_open_store W (state_path C) F of (r, G) \<Rightarrow> (map_err DaemonCore r, G)) (\<lambda>store.
     bindF (checked (\<lambda>F. private_directory_owner F (state_path C))) (\<lambda>owner.
     bindF (checked (\<lambda>F. enforce_state_permissions F (state_path C) owner)) (\<lambda>_.
       (\<lambda>F. (Inr store, F)))))))"

text \<open>\<open>EndpointCleanup\<close>: what is still a private endpoint is removed, and then the socket's own directory.\<close>

definition remove_endpoint :: "string \<Rightarrow> os_path \<Rightarrow> bool \<Rightarrow> daemon_files \<Rightarrow> daemon_files" where
  "remove_endpoint probe p socket F =
     (if is_ok (verify_private_endpoint F probe p socket) then snd (remove_file p F) else F)"

definition endpoint_cleanup :: "endpoint_world \<Rightarrow> daemon_config \<Rightarrow> os_path \<Rightarrow> daemon_files \<Rightarrow> daemon_files" where
  "endpoint_cleanup W C socket_directory F =
     (let G = remove_endpoint (ew_probe W) (daemon_socket_path (ew_env W) C) True
                (remove_endpoint (ew_probe W) (metadata_path C) False F)
      in if socket_directory = dc_root C \<or> fd_fails G ''rmdir'' socket_directory then G
         else set_node socket_directory Missing G)"

definition cleaned :: "(daemon_files \<Rightarrow> daemon_files) \<Rightarrow> 'a file_op \<Rightarrow> 'a file_op" where
  "cleaned cleanup m F = (case m F of (Inl e, G) \<Rightarrow> (Inl e, cleanup G) | (Inr x, G) \<Rightarrow> (Inr x, G))"

text \<open>\<open>serve\<close> up to its accept loop: the metadata it serves, the store, and the owner of the state directory.\<close>

definition start_daemon :: "endpoint_world \<Rightarrow> daemon_config \<Rightarrow> (endpoint_metadata \<times> store \<times> nat) file_op" where
  "start_daemon W C =
     (let socket_path = daemon_socket_path (ew_env W) C in
      bindF (open_core_store W C) (\<lambda>store.
      bindF (checked (\<lambda>_. ok_or UnsafeEndpoint (path_parent socket_path))) (\<lambda>socket_directory.
      bindF (prepare_private_root (ew_probe W) socket_directory) (\<lambda>_.
      bindF (remove_stale_socket (ew_probe W) socket_path) (\<lambda>_.
      bindF (checked (\<lambda>_. ok_or DaemonIo (generate_token (ew_urandom W)))) (\<lambda>token.
      bindF (bind_socket socket_path) (\<lambda>_.
      bindF (set_mode 384 socket_path) (\<lambda>_.
      bindF (checked (\<lambda>F. verify_private_endpoint F (ew_probe W) socket_path True)) (\<lambda>_.
        cleaned (endpoint_cleanup W C socket_directory)
          (bindF (write_private_metadata (ew_encode W) (ew_probe W) (ew_temporary W) (metadata_path C)
                    (endpoint_metadata_of (ew_env W) C token)) (\<lambda>_.
           bindF (checked (\<lambda>F. private_directory_owner F (state_path C))) (\<lambda>owner.
             (\<lambda>F. (Inr (endpoint_metadata_of (ew_env W) C token, store, owner), F))))))))))))))"

text \<open>\<open>read_metadata\<close> of a client: the file is private and short, and says what this build would have written.\<close>

definition read_metadata :: "endpoint_world \<Rightarrow> daemon_config \<Rightarrow> daemon_files \<Rightarrow> daemon_error + endpoint_metadata" where
  "read_metadata W C F =
     bindE (validate_private_root F (ew_probe W) (dc_root C)) (\<lambda>_.
     bindE (verify_private_endpoint F (ew_probe W) (metadata_path C) False) (\<lambda>_.
     bindE (stat F (metadata_path C)) (\<lambda>n.
       if length (ns_content n) = 0 \<or> length (ns_content n) > DAEMON_MAX_METADATA_BYTES then Inl UnsafeEndpoint
       else
         bindE (ok_or DaemonJson (ew_decode W (ns_content n))) (\<lambda>md.
           if em_schema_version md \<noteq> SCHEMA_VERSION
              \<or> em_protocol_version md \<noteq> DAEMON_PROTOCOL_VERSION
              \<or> em_socket_path md \<noteq> path_text (daemon_socket_path (ew_env W) C)
              \<or> em_host md \<noteq> DEFAULT_HOST
              \<or> \<not> valid_allowed_origins (em_allowed_origins md)
              \<or> \<not> em_private md
              \<or> em_transport md \<noteq> ''unix-domain-socket''
              \<or> \<not> valid_token (em_token md)
           then Inl UnsafeEndpoint
           else
             bindE (verify_private_endpoint F (ew_probe W) (daemon_socket_path (ew_env W) C) True) (\<lambda>_.
               Inr md)))))"

section \<open>What the checks and the start establish\<close>

definition private_node :: "daemon_files \<Rightarrow> endpoint_node_kind \<Rightarrow> os_path \<Rightarrow> bool" where
  "private_node F kind p \<longleftrightarrow>
     (case fd_node F p of Found n \<Rightarrow> ns_kind n = kind \<and> ns_mode n AND others_mode = 0 \<and> ns_uid n = fd_user F | _ \<Rightarrow> False)"

lemma stat_Inr: "stat F p = Inr n \<longleftrightarrow> fd_node F p = Found n"
  by (auto simp: stat_def split: lookup.splits)

lemma private_node_iff:
  "private_node F kind p \<longleftrightarrow>
     (\<exists>n. fd_node F p = Found n \<and> ns_kind n = kind \<and> ns_mode n AND others_mode = 0 \<and> ns_uid n = fd_user F)"
  by (simp add: private_node_def split: lookup.split)

lemma verify_private_directory_Inr:
  "verify_private_directory F probe p = Inr u \<longleftrightarrow> private_node F DirNode p
     \<and> \<not> fd_fails F ''create'' (path_join p probe) \<and> \<not> fd_fails F ''remove'' (path_join p probe)"
  by (auto simp: verify_private_directory_def private_node_iff stat_Inr bindE_eq_Inr)

lemma verify_private_endpoint_Inr:
  "verify_private_endpoint F probe p socket = Inr u \<longleftrightarrow> (\<exists>parent. path_parent p = Some parent
     \<and> validate_private_root F probe parent = Inr () \<and> private_node F (if socket then SocketNode else PlainNode) p)"
  by (cases "path_parent p")
    (auto simp: verify_private_endpoint_def validate_private_root_def verify_private_directory_Inr private_node_iff
      bindE_eq_Inr stat_Inr)

lemma bindF_Inr: "bindF m f F = (Inr y, H) \<longleftrightarrow> (\<exists>x G. m F = (Inr x, G) \<and> f x G = (Inr y, H))"
  by (auto simp: bindF_def split: prod.splits sum.splits)

lemma checked_Inr: "checked c F = (Inr x, G) \<longleftrightarrow> c F = Inr x \<and> G = F"
  by (auto simp: checked_def)

lemma cleaned_Inr: "cleaned c m F = (Inr x, G) \<longleftrightarrow> m F = (Inr x, G)"
  by (auto simp: cleaned_def split: prod.splits sum.splits)

lemma changing_Inr:
  "changing what p new F = (Inr u, G) \<Longrightarrow> \<exists>n. new F = Some n \<and> G = set_node p n F"
  by (auto simp: changing_def split: option.splits if_splits)

lemma set_node_simps [simp]:
  "fd_user (set_node p n F) = fd_user F" "fd_fails (set_node p n F) = fd_fails F"
  "fd_node (set_node p n F) q = (if q = p then n else fd_node F q)"
  by (simp_all add: set_node_def)

lemma set_node_back: "fd_node F p = n \<Longrightarrow> set_node p n (set_node p m F) = F"
  by (auto simp: set_node_def)

definition no_link :: "lookup \<Rightarrow> bool" where
  "no_link r \<longleftrightarrow> (case r of Found n \<Rightarrow> ns_kind n \<noteq> LinkNode | Missing \<Rightarrow> True | Unreadable \<Rightarrow> False)"

lemma link_check_Inr: "link_check F current = Inr u \<longleftrightarrow> no_link (fd_node F \<lparr>op_absolute = True, op_components = current\<rparr>)"
  by (auto simp: link_check_def no_link_def split: lookup.splits)

lemma reject_links_kept:
  "reject_links_from F current rest = Inr u \<Longrightarrow> no_link n \<Longrightarrow> reject_links_from (set_node p n F) current rest = Inr u"
  by (induction rest arbitrary: current) (auto simp: link_check_Inr bindE_eq_Inr split: if_splits)

lemma reject_symlink_components_kept:
  "reject_symlink_components F q = Inr u \<Longrightarrow> no_link n \<Longrightarrow> reject_symlink_components (set_node p n F) q = Inr u"
  by (auto simp: reject_symlink_components_def reject_links_kept split: if_splits)

text \<open>A new ordinary file, where none or an ordinary file was, keeps a private endpoint that is another kind of node.\<close>

lemma verify_private_endpoint_kept:
  assumes "verify_private_endpoint F probe q True = Inr u" "no_link n"
    "\<not> private_node F DirNode p" "\<not> private_node F SocketNode p"
  shows "verify_private_endpoint (set_node p n F) probe q True = Inr u"
proof -
  obtain parent where parent: "path_parent q = Some parent" "reject_symlink_components F parent = Inr ()"
      "private_node F DirNode parent" "\<not> fd_fails F ''create'' (path_join parent probe)" "\<not> fd_fails F ''remove'' (path_join parent probe)"
      "private_node F SocketNode q"
    using assms(1) by (auto simp: verify_private_endpoint_Inr validate_private_root_def verify_private_directory_Inr bindE_eq_Inr)
  have "private_node (set_node p n F) kind x" if "private_node F kind x" "\<not> private_node F kind p" for kind x
    using that by (cases "x = p") (simp_all add: private_node_iff)
  with parent assms(3,4) reject_symlink_components_kept [OF parent(2) assms(2)] show ?thesis
    by (auto simp: verify_private_endpoint_Inr validate_private_root_def verify_private_directory_Inr bindE_eq_Inr)
qed

lemma write_private_metadata_Inr:
  assumes "write_private_metadata encode probe temporary p md F = (Inr u, G)"
  obtains "fd_node F p = Missing \<or> private_node F PlainNode p"
    "G = set_node p (Found \<lparr>ns_kind = PlainNode, ns_mode = 384, ns_uid = fd_user F, ns_content = encode md\<rparr>) F"
    "verify_private_endpoint G probe p False = Inr ()"
proof -
  let ?t = "p\<lparr>op_components := butlast (op_components p) @ [temporary]\<rparr>"
  let ?n = "Found \<lparr>ns_kind = PlainNode, ns_mode = 384, ns_uid = fd_user F, ns_content = encode md\<rparr>"
  from assms obtain F1 F2 where
    before: "fd_node F p = Missing \<or> verify_private_endpoint F probe p False = Inr ()"
    and made: "create_private_file ?t (encode md) F = (Inr (), F1)"
    and moved: "rename_file ?t p F1 = (Inr (), F2)"
    and after: "G = F2" "verify_private_endpoint F2 probe p False = Inr ()"
    by (auto simp: write_private_metadata_def bindF_Inr checked_Inr sync_directory_def split: lookup.splits if_splits)
  from changing_Inr [OF made [unfolded create_private_file_def]]
  have t: "fd_node F ?t = Missing" "F1 = set_node ?t ?n F" by (auto split: if_splits)
  with moved have "F2 = set_node p ?n (set_node ?t Missing (set_node ?t ?n F))"
    by (auto simp: rename_file_def split: lookup.splits if_splits)
  with t after have "G = set_node p ?n F" by (simp add: set_node_back)
  with before after show thesis by (intro that) (auto simp: verify_private_endpoint_Inr)
qed

text \<open>What is there when \<open>serve\<close> starts to accept connections.\<close>

lemma start_daemon_Inr:
  assumes "start_daemon W C F = (Inr (md, d, owner), G)"
  obtains token where "generate_token (ew_urandom W) = Some token" "md = endpoint_metadata_of (ew_env W) C token"
    "verify_private_endpoint G (ew_probe W) (metadata_path C) False = Inr ()"
    "verify_private_endpoint G (ew_probe W) (daemon_socket_path (ew_env W) C) True = Inr ()"
    "\<exists>n. fd_node G (metadata_path C) = Found n \<and> ns_content n = ew_encode W md"
proof -
  from assms obtain token H where token: "generate_token (ew_urandom W) = Some token"
    and socket: "verify_private_endpoint H (ew_probe W) (daemon_socket_path (ew_env W) C) True = Inr ()"
    and md: "md = endpoint_metadata_of (ew_env W) C token"
    and written: "write_private_metadata (ew_encode W) (ew_probe W) (ew_temporary W) (metadata_path C) md H = (Inr (), G)"
    by (auto simp: start_daemon_def Let_def bindF_Inr checked_Inr cleaned_Inr ok_or_eq_Inr)
  from written have "fd_node H (metadata_path C) = Missing \<or> private_node H PlainNode (metadata_path C)"
    and G: "G = set_node (metadata_path C) (Found \<lparr>ns_kind = PlainNode, ns_mode = 384, ns_uid = fd_user H, ns_content = ew_encode W md\<rparr>) H"
    and after: "verify_private_endpoint G (ew_probe W) (metadata_path C) False = Inr ()"
    by (elim write_private_metadata_Inr; blast)+
  then have "\<not> private_node H DirNode (metadata_path C)" "\<not> private_node H SocketNode (metadata_path C)"
    by (auto simp: private_node_iff)
  with socket have "verify_private_endpoint G (ew_probe W) (daemon_socket_path (ew_env W) C) True = Inr ()"
    unfolding G by (intro verify_private_endpoint_kept) (simp_all add: no_link_def)
  moreover have "\<exists>n. fd_node G (metadata_path C) = Found n \<and> ns_content n = ew_encode W md" by (simp add: G)
  ultimately show thesis using token md after by (intro that)
qed

end
