(* ===== verification/Daemon_Server.thy ===== *)
theory Daemon_Server
  imports Daemon_Files Core_Steps
begin

text \<open>
  The server of the local daemon (\<open>promptectomy-daemon/src/lib.rs\<close>): the checks of a request
  (\<open>validate_request\<close>), the rate limit, the routes with the core methods they call, and inspections,
  which go on while other requests are answered. A handler that starts an inspection gives
  \<open>Inspects\<close>; \<open>daemon_step\<close> interleaves handlers, ends of inspections and dropped connections.
\<close>

section \<open>Requests\<close>

text \<open>Header names are in lower case, as the HTTP library keeps them, in the order they were sent; values are bytes.\<close>

type_synonym header_map = "(string \<times> string) list"

record api_request =
  hq_method :: string
  hq_headers :: header_map
  hq_target :: "string option"
  hq_size_upper :: "nat option"
  hq_body :: "string option"

definition get_all :: "header_map \<Rightarrow> string \<Rightarrow> string list" where
  "get_all hs name = map snd (filter (\<lambda>(n, _). n = name) hs)"

text \<open>\<open>HeaderValue::to_str\<close> gives visible ASCII and tabs only.\<close>

definition header_text :: "string \<Rightarrow> string option" where
  "header_text v = (if list_all (\<lambda>b. byte_code b = 9 \<or> 32 \<le> byte_code b \<and> byte_code b < 127) v then Some v else None)"

definition single_header :: "header_map \<Rightarrow> string \<Rightarrow> string option" where
  "single_header hs name =
     (case get_all hs name of
        [] \<Rightarrow> None
      | v # others \<Rightarrow> Option.bind (header_text v) (\<lambda>t. if others = [] then Some t else None))"

text \<open>\<open>str::trim\<close> of header text, whose only white space is the space and the tab.\<close>

definition trim_header :: "string \<Rightarrow> string" where
  "trim_header s = (let blank = (\<lambda>c. c = CHR '' '' \<or> c = CHR 0x09) in rev (dropWhile blank (rev (dropWhile blank s))))"

definition asks_upgrade :: "header_map \<Rightarrow> bool" where
  "asks_upgrade hs =
     (case get_all hs ''connection'' of
        [] \<Rightarrow> False
      | v # _ \<Rightarrow>
          (case header_text v of
             None \<Rightarrow> False
           | Some t \<Rightarrow> list_ex (\<lambda>token. eq_ignore_ascii_case (trim_header token) ''upgrade'') (split_on CHR '','' t)))"

definition bearer_token :: "header_map \<Rightarrow> string" where
  "bearer_token hs =
     (case Option.bind (single_header hs ''authorization'') (strip_prefix ''Bearer '') of None \<Rightarrow> [] | Some t \<Rightarrow> t)"

definition validate_api_request :: "api_request \<Rightarrow> endpoint_metadata \<Rightarrow> api_answer option" where
  "validate_api_request q md =
     (if hq_method q = ''CONNECT'' \<or> get_all (hq_headers q) ''transfer-encoding'' \<noteq> []
         \<or> get_all (hq_headers q) ''upgrade'' \<noteq> [] \<or> asks_upgrade (hq_headers q) then
        Some (400, api_error ''unsupported_http_framing'' ''input'' False
          ''The local API request uses unsupported HTTP framing.''
          ''Use a single HTTP/1.1 request with Content-Length framing.'')
      else if length (get_all (hq_headers q) ''content-length'') > 1 then
        Some (400, api_error ''ambiguous_content_length'' ''input'' False
          ''The request contains duplicate Content-Length headers.'' ''Send exactly one Content-Length header.'')
      else if \<not> valid_host_header (single_header (hq_headers q) ''host'') (em_host md) then
        Some (400, api_error ''invalid_host'' ''policy'' False ''The request Host is not accepted.''
          ''Use the private endpoint metadata host value.'')
      else if \<not> valid_origin (single_header (hq_headers q) ''origin'') (em_allowed_origins md) then
        Some (403, api_error ''invalid_origin'' ''policy'' False ''The request Origin is not accepted.''
          ''Use an exact configured local origin or omit Origin for non-browser clients.'')
      else if bearer_token (hq_headers q) \<noteq> em_token md then
        Some (401, api_error ''invalid_capability'' ''policy'' False ''A valid local capability is required.''
          ''Read private endpoint metadata for this OS user.'')
      else None)"

text \<open>\<open>request\<close>, the client: what it sends for a verb, a target and the text of its body.\<close>

definition client_request :: "endpoint_metadata \<Rightarrow> string \<Rightarrow> string \<Rightarrow> string \<Rightarrow> api_request" where
  "client_request md verb target body =
     \<lparr>hq_method = verb,
      hq_headers = [(''host'', em_host md), (''authorization'', ''Bearer '' @ em_token md),
        (''content-type'', ''application/json''), (''content-length'', decimal (length body))],
      hq_target = Some target, hq_size_upper = Some (length body), hq_body = Some body\<rparr>"

section \<open>Responses\<close>

record http_response =
  hr_status :: nat
  hr_headers :: header_map
  hr_envelope :: api_envelope

definition response :: "api_answer \<Rightarrow> http_response" where
  "response a =
     \<lparr>hr_status = (if 100 \<le> fst a \<and> fst a < 1000 then fst a else 500),
      hr_headers = [(''content-type'', ''application/json''), (''cache-control'', ''no-store''),
        (''x-content-type-options'', ''nosniff''), (''referrer-policy'', ''no-referrer''),
        (''content-security-policy'', ''default-src '' @ [CHR 0x27] @ ''none'' @ [CHR 0x27]), (''connection'', ''close'')],
      hr_envelope = snd a\<rparr>"

section \<open>State\<close>

text \<open>A worker holds an inspection permit until it ends; \<open>iw_attended\<close> is whether its handler still waits.\<close>

record inspection_worker =
  iw_attended :: bool
  iw_cancelled :: bool

record daemon_state =
  dm_metadata :: endpoint_metadata
  dm_store :: store
  dm_accepted :: "nat list"
  dm_workers :: "inspection_worker list"
  dm_state_path :: os_path
  dm_state_owner :: nat
  dm_backend :: "public_git_backend option"

text \<open>
  What one request observes: the libraries and the time of the core, the pretty-printer of reports,
  the reader of inspection requests, the system clock in milliseconds, the monotonic clock, the files.
\<close>

record server_world =
  sw_env :: env
  sw_pretty :: "report_projection \<Rightarrow> string"
  sw_decode :: "string \<Rightarrow> repository_inspect_request option"
  sw_disk :: disk
  sw_unix_ms :: "u64 option"
  sw_now :: nat
  sw_files :: daemon_files

text \<open>\<open>accept_rate\<close>: instants older than the window are dropped from the front; \<open>duration_since\<close> is zero for a later instant.\<close>

definition accept_rate :: "nat \<Rightarrow> nat list \<Rightarrow> bool \<times> nat list" where
  "accept_rate t accepted =
     (let recent = dropWhile (\<lambda>seen. t - seen > RATE_WINDOW) accepted
      in if length recent \<ge> RATE_LIMIT then (False, recent) else (True, recent @ [t]))"

section \<open>Routes\<close>

datatype turn = Answers api_answer | Inspects acquisition_request nat

definition on_result :: "core_error + 'a \<Rightarrow> ('a \<Rightarrow> api_data) \<Rightarrow> api_answer" where
  "on_result r f = (case r of Inr x \<Rightarrow> (200, api_ok (f x)) | Inl e \<Rightarrow> core_error_answer e)"

definition daemon_status :: "server_world \<Rightarrow> daemon_state \<Rightarrow> api_answer" where
  "daemon_status W s = on_result (list_runs (sw_env W) (dm_store s)) (\<lambda>runs. StatusData runs (length runs))"

definition collect_garbage :: "server_world \<Rightarrow> daemon_state \<Rightarrow> api_answer \<times> daemon_state" where
  "collect_garbage W s =
     (case sw_unix_ms W of
        None \<Rightarrow> ((500, api_error ''clock_unavailable'' ''internal'' False ''The system clock is unavailable.''
                  ''Repair the local system clock before retrying.''), s)
      | Some now_ms \<Rightarrow>
          (case garbage_collect (sw_disk W) now_ms True (dm_store s) of
             (r, d) \<Rightarrow> (on_result r (\<lambda>(dry_run, candidates). CollectionData dry_run candidates), s\<lparr>dm_store := d\<rparr>)))"

definition get_run :: "server_world \<Rightarrow> string \<Rightarrow> daemon_state \<Rightarrow> api_answer" where
  "get_run W rid s = on_result (read_run (sw_env W) (dm_store s) rid) RunData"

definition get_events :: "server_world \<Rightarrow> string \<Rightarrow> nat \<Rightarrow> nat \<Rightarrow> daemon_state \<Rightarrow> api_answer" where
  "get_events W rid cursor limit s =
     on_result (events_after (sw_env W) (dm_store s) rid (of_nat cursor) (of_nat limit)) (\<lambda>page.
       EventsData (pg_events page)
         (if pg_events page = [] then cursor else unat (ev_sequence (last (pg_events page))))
         (pg_retained_floor page))"

definition run_report :: "server_world \<Rightarrow> string \<Rightarrow> string option \<Rightarrow> daemon_state \<Rightarrow> api_answer" where
  "run_report W rid asked s =
     (let format = (case asked of None \<Rightarrow> ''json'' | Some f \<Rightarrow> f) in
      if format = ''json'' then on_result (report_json (sw_pretty W) (sw_env W) (dm_store s) rid) (ReportData format)
      else if format = ''md'' \<or> format = ''markdown'' then
        on_result (report_markdown (sw_env W) (dm_store s) rid) (ReportData format)
      else (400, api_error ''invalid_report_format'' ''input'' False ''The requested report format is not supported.''
              ''Use json or md.''))"

definition cancel_run :: "server_world \<Rightarrow> string \<Rightarrow> daemon_state \<Rightarrow> api_answer \<times> daemon_state" where
  "cancel_run W rid s =
     (case request_cancel (sw_env W) rid (dm_store s) of
        (r, d) \<Rightarrow> (on_result r RunData, s\<lparr>dm_store := d\<rparr>))"

definition inspect_repository :: "server_world \<Rightarrow> string \<Rightarrow> daemon_state \<Rightarrow> turn \<times> daemon_state" where
  "inspect_repository W body s =
     (case sw_decode W body of
        None \<Rightarrow> (Answers (400, api_error ''invalid_inspect_request'' ''input'' False
                  ''The repository inspection request is invalid.''
                  ''Send the documented strict repository inspection schema.''), s)
      | Some q \<Rightarrow>
          (case acquisition_request_of (sw_env W) q of
             Inl e \<Rightarrow> (Answers (acquisition_error_response e), s)
           | Inr acquisition \<Rightarrow>
               if length (dm_workers s) \<ge> MAX_INSPECTIONS then
                 (Answers (429, api_error ''inspection_capacity_reached'' ''acquisition'' True
                    ''The bounded repository inspection capacity is in use.''
                    ''Retry after an active inspection finishes cleanup.''), s)
               else
                 (Inspects acquisition (inspection_deadline q),
                  s\<lparr>dm_workers := dm_workers s @ [\<lparr>iw_attended = True, iw_cancelled = False\<rparr>]\<rparr>)))"

definition trim_slashes :: "string \<Rightarrow> string" where
  "trim_slashes s = (let slash = (\<lambda>c. c = CHR ''/'') in rev (dropWhile slash (rev (dropWhile slash s))))"

definition route_run :: "server_world \<Rightarrow> string \<Rightarrow> string \<Rightarrow> string option \<Rightarrow> string \<Rightarrow> daemon_state
    \<Rightarrow> api_answer \<times> daemon_state" where
  "route_run W verb path query body s =
     (case split_on CHR ''/'' (trim_slashes path) of
        v # r # rid # rest \<Rightarrow>
          if v \<noteq> ''v2'' \<or> r \<noteq> ''runs'' then (endpoint_unavailable, s)
          else if verb = ''GET'' \<and> rest = [] then
            (if query \<noteq> None then invalid_query else get_run W rid s, s)
          else if verb = ''GET'' \<and> rest = [''events''] then
            (case parse_event_query query of
               None \<Rightarrow> invalid_query
             | Some (cursor, limit) \<Rightarrow> get_events W rid cursor limit s, s)
          else if verb = ''POST'' \<and> rest = [''report''] then
            (case reject_unexpected_body body of
               Inl envelope \<Rightarrow> (400, envelope)
             | Inr _ \<Rightarrow>
                 (case parse_report_query query of None \<Rightarrow> invalid_query | Some format \<Rightarrow> run_report W rid format s), s)
          else if verb = ''POST'' \<and> rest = [''cancel''] then
            (if query \<noteq> None then (invalid_query, s)
             else
               (case reject_unexpected_body body of
                  Inl envelope \<Rightarrow> ((400, envelope), s)
                | Inr _ \<Rightarrow> cancel_run W rid s))
          else (endpoint_unavailable, s)
      | _ \<Rightarrow> (endpoint_unavailable, s))"

definition route :: "server_world \<Rightarrow> string \<Rightarrow> string \<Rightarrow> string \<Rightarrow> daemon_state \<Rightarrow> turn \<times> daemon_state" where
  "route W verb target body s =
     (case split_query target of
        (path, query) \<Rightarrow>
          if verb = ''GET'' \<and> body \<noteq> [] then (Answers (400, unexpected_body), s)
          else if verb = ''GET'' \<and> path = ''/v2/health'' then
            (Answers (if query \<noteq> None then invalid_query
               else (200, api_ok (HealthData (em_transport (dm_metadata s)) (em_private (dm_metadata s))
                       (dm_backend s \<noteq> None)))), s)
          else if verb = ''GET'' \<and> path = ''/v2/status'' then
            (Answers (if query \<noteq> None then invalid_query else daemon_status W s), s)
          else if verb = ''POST'' \<and> path = ''/v2/gc'' then
            (if query \<noteq> None then (Answers invalid_query, s)
             else
               (case reject_unexpected_body body of
                  Inl envelope \<Rightarrow> (Answers (400, envelope), s)
                | Inr _ \<Rightarrow> apfst Answers (collect_garbage W s)))
          else if verb = ''POST'' \<and> path = ''/v2/repositories/inspect'' then
            (if query \<noteq> None then (Answers invalid_query, s) else inspect_repository W body s)
          else apfst Answers (route_run W verb path query body s))"

definition handle_request :: "server_world \<Rightarrow> api_request \<Rightarrow> daemon_state \<Rightarrow> turn \<times> daemon_state" where
  "handle_request W q s =
     (case validate_api_request q (dm_metadata s) of
        Some a \<Rightarrow> (Answers a, s)
      | None \<Rightarrow>
          (case accept_rate (sw_now W) (dm_accepted s) of
             (allowed, accepted) \<Rightarrow>
               let s1 = s\<lparr>dm_accepted := accepted\<rparr> in
               if \<not> allowed then
                 (Answers (429, api_error ''rate_limited'' ''policy'' True ''The local API request limit was reached.''
                    ''Retry after the rate window resets.''), s1)
               else if \<not> is_ok (enforce_state_permissions (sw_files W) (dm_state_path s) (dm_state_owner s)) then
                 (Answers invalid_state_permissions, s1)
               else if (case hq_size_upper q of None \<Rightarrow> False | Some n \<Rightarrow> n > MAX_BODY_BYTES) then
                 (Answers (413, body_too_large), s1)
               else
                 (case hq_body q of
                    None \<Rightarrow> (Answers (413, body_too_large), s1)
                  | Some body \<Rightarrow>
                      if length body > MAX_BODY_BYTES then (Answers (413, body_too_large), s1)
                      else route W (hq_method q) (case hq_target q of None \<Rightarrow> ''/'' | Some t \<Rightarrow> t) body s1)))"

section \<open>Inspections\<close>

datatype inspection_end = WorkerReturned "acquisition_error + acquired_snapshot" | WorkerFailed | DeadlinePassed

definition inspection_answer :: "inspection_end \<Rightarrow> api_answer" where
  "inspection_answer outcome =
     (case outcome of
        WorkerReturned (Inr snapshot) \<Rightarrow>
          (200, api_ok (SnapshotData (aq_reference snapshot) (aq_receipt snapshot)))
      | WorkerReturned (Inl e) \<Rightarrow> acquisition_error_response e
      | WorkerFailed \<Rightarrow>
          (500, api_error ''inspection_worker_failed'' ''internal'' False ''The isolated inspection worker failed.''
             ''Retry after checking the local runtime and private state.'')
      | DeadlinePassed \<Rightarrow>
          (408, api_error ''inspection_timed_out'' ''cancelled'' True
             ''Repository inspection exceeded its local deadline and was cancelled.''
             ''Retry with a smaller selected root or tighter source archive.''))"

text \<open>Without its handler, a worker runs on, cancelled: by the deadline or by \<open>CancellationGuard\<close> when the handler is dropped.\<close>

definition abandon_worker :: "nat \<Rightarrow> daemon_state \<Rightarrow> daemon_state" where
  "abandon_worker i s = s\<lparr>dm_workers := (dm_workers s)[i := \<lparr>iw_attended = False, iw_cancelled = True\<rparr>]\<rparr>"

definition end_worker :: "nat \<Rightarrow> daemon_state \<Rightarrow> daemon_state" where
  "end_worker i s = s\<lparr>dm_workers := take i (dm_workers s) @ drop (Suc i) (dm_workers s)\<rparr>"

definition end_inspection :: "nat \<Rightarrow> inspection_end \<Rightarrow> daemon_state \<Rightarrow> api_answer \<times> daemon_state" where
  "end_inspection i outcome s =
     (inspection_answer outcome, if outcome = DeadlinePassed then abandon_worker i s else end_worker i s)"

section \<open>Histories\<close>

inductive daemon_step :: "env \<Rightarrow> daemon_state \<Rightarrow> daemon_state \<Rightarrow> bool" for E where
  handled: "sw_env W = at_time E t x \<Longrightarrow> daemon_step E s (snd (handle_request W q s))"
| inspected: "i < length (dm_workers s) \<Longrightarrow> iw_attended (dm_workers s ! i) \<Longrightarrow>
    daemon_step E s (snd (end_inspection i outcome s))"
| dropped: "i < length (dm_workers s) \<Longrightarrow> iw_attended (dm_workers s ! i) \<Longrightarrow> daemon_step E s (abandon_worker i s)"
| released: "i < length (dm_workers s) \<Longrightarrow> \<not> iw_attended (dm_workers s ! i) \<Longrightarrow> daemon_step E s (end_worker i s)"

definition daemon_state_new :: "endpoint_metadata \<Rightarrow> store \<Rightarrow> os_path \<Rightarrow> nat \<Rightarrow> public_git_backend option \<Rightarrow> daemon_state" where
  "daemon_state_new md d state owner backend =
     \<lparr>dm_metadata = md, dm_store = d, dm_accepted = [], dm_workers = [], dm_state_path = state,
      dm_state_owner = owner, dm_backend = backend\<rparr>"

section \<open>What a step may change\<close>

lemma route_run_store:
  "snd (route_run W verb path query body s) = s
    \<or> (verb = ''POST'' \<and> (\<exists>rid. snd (route_run W verb path query body s) = s\<lparr>dm_store := snd (request_cancel (sw_env W) rid (dm_store s))\<rparr>))"
proof (cases "\<exists>v r rid rest. split_on CHR ''/'' (trim_slashes path) = v # r # rid # rest")
  case True
  then obtain v r rid rest where parts: "split_on CHR ''/'' (trim_slashes path) = v # r # rid # rest" by blast
  have cancelled: "snd (cancel_run W rid s) = s\<lparr>dm_store := snd (request_cancel (sw_env W) rid (dm_store s))\<rparr>"
    by (simp add: cancel_run_def split: prod.split)
  have "snd (route_run W verb path query body s) = s
      \<or> verb = ''POST'' \<and> snd (route_run W verb path query body s) = snd (cancel_run W rid s)"
    unfolding route_run_def parts list.case by (simp split: sum.split)
  then show ?thesis unfolding cancelled by blast
next
  case False
  then show ?thesis by (auto simp: route_run_def split: list.split)
qed

lemma collect_garbage_state: "snd (collect_garbage W s) = s"
  by (auto simp: collect_garbage_def garbage_collect_def attempt_def Let_def split: option.splits sum.splits prod.splits)

lemma inspect_repository_state:
  "snd (inspect_repository W body s) = s
    \<or> (length (dm_workers s) < MAX_INSPECTIONS
       \<and> snd (inspect_repository W body s) = s\<lparr>dm_workers := dm_workers s @ [\<lparr>iw_attended = True, iw_cancelled = False\<rparr>]\<rparr>)"
  by (auto simp: inspect_repository_def split: option.splits sum.splits)

lemma route_cases:
  obtains "snd (route W verb target body s) = s"
  | rid where "verb = ''POST''" "snd (route W verb target body s) = s\<lparr>dm_store := snd (request_cancel (sw_env W) rid (dm_store s))\<rparr>"
  | "length (dm_workers s) < MAX_INSPECTIONS"
    "snd (route W verb target body s) = s\<lparr>dm_workers := dm_workers s @ [\<lparr>iw_attended = True, iw_cancelled = False\<rparr>]\<rparr>"
proof -
  obtain path query where p: "split_query target = (path, query)" by (cases "split_query target")
  have "snd (route W verb target body s) \<in> {s, snd (inspect_repository W body s), snd (route_run W verb path query body s)}"
    by (simp add: route_def p collect_garbage_state split: sum.split)
  with that route_run_store [of W verb path query body s] inspect_repository_state [of W body s] show thesis
    by auto
qed

lemma handle_request_cases:
  obtains "validate_api_request q (dm_metadata s) \<noteq> None" "snd (handle_request W q s) = s"
  | "validate_api_request q (dm_metadata s) = None" "snd (handle_request W q s) = s\<lparr>dm_accepted := snd (accept_rate (sw_now W) (dm_accepted s))\<rparr>"
  | target body where "validate_api_request q (dm_metadata s) = None" "fst (accept_rate (sw_now W) (dm_accepted s))"
    "handle_request W q s = route W (hq_method q) target body (s\<lparr>dm_accepted := snd (accept_rate (sw_now W) (dm_accepted s))\<rparr>)"
proof (cases "validate_api_request q (dm_metadata s)")
  case None
  obtain a b where r: "accept_rate (sw_now W) (dm_accepted s) = (a, b)" by (cases "accept_rate (sw_now W) (dm_accepted s)")
  show thesis
  proof (cases "a \<and> is_ok (enforce_state_permissions (sw_files W) (dm_state_path s) (dm_state_owner s))
      \<and> \<not> (case hq_size_upper q of None \<Rightarrow> False | Some n \<Rightarrow> n > MAX_BODY_BYTES)
      \<and> (case hq_body q of None \<Rightarrow> False | Some body \<Rightarrow> length body \<le> MAX_BODY_BYTES)")
    case True
    then obtain body where "hq_body q = Some body" "length body \<le> MAX_BODY_BYTES" by (auto split: option.splits)
    with True r None show ?thesis
      by (intro that(3) [of "case hq_target q of None \<Rightarrow> ''/'' | Some t \<Rightarrow> t" body]) (simp_all add: handle_request_def)
  next
    case False
    with None r have "snd (handle_request W q s) = s\<lparr>dm_accepted := b\<rparr>"
      unfolding handle_request_def Let_def by (auto split: option.split)
    with None r show ?thesis by (intro that(2)) simp_all
  qed
qed (auto intro!: that(1) simp: handle_request_def)

section \<open>The rate limit\<close>

text \<open>The instants at which requests are admitted, for arrivals in order.\<close>

fun admitted :: "nat list \<Rightarrow> nat list \<Rightarrow> nat list" where
  "admitted accepted [] = []"
| "admitted accepted (t # ts) =
     (case accept_rate t accepted of (allowed, recent) \<Rightarrow> (if allowed then [t] else []) @ admitted recent ts)"

text \<open>The reference: a request is admitted if fewer than \<open>RATE_LIMIT\<close> of all admitted before it lie in the window before it.\<close>

fun admitted_spec :: "nat list \<Rightarrow> nat list \<Rightarrow> nat list" where
  "admitted_spec history [] = []"
| "admitted_spec history (t # ts) =
     (if length (filter (\<lambda>seen. t - seen \<le> RATE_WINDOW) history) < RATE_LIMIT
      then t # admitted_spec (history @ [t]) ts else admitted_spec history ts)"

lemma recent_filter:
  assumes "sorted accepted"
  shows "dropWhile (\<lambda>seen. t - seen > w) accepted = filter (\<lambda>seen. t - seen \<le> (w :: nat)) accepted"
  using assms
proof (induction accepted)
  case (Cons a as)
  show ?case
  proof (cases "t - a > w")
    case False
    with Cons.prems have "\<forall>x\<in>set (a # as). t - x \<le> w" by fastforce
    then have "filter (\<lambda>seen. t - seen \<le> w) (a # as) = a # as" by (simp only: filter_id_conv)
    with False show ?thesis by (simp only: dropWhile.simps if_False)
  qed (use Cons in simp)
qed simp

lemma admitted_spec_eq:
  assumes "sorted (old @ accepted @ arrivals)" "\<forall>s\<in>set old. \<forall>t\<in>set arrivals. t - s > RATE_WINDOW"
  shows "admitted accepted arrivals = admitted_spec (old @ accepted) arrivals"
  using assms
proof (induction arrivals arbitrary: old accepted)
  case (Cons t ts)
  define expired where "expired = takeWhile (\<lambda>seen. t - seen > RATE_WINDOW) accepted"
  define recent where "recent = dropWhile (\<lambda>seen. t - seen > RATE_WINDOW) accepted"
  have split: "accepted = expired @ recent" by (simp add: expired_def recent_def)
  have "recent = filter (\<lambda>seen. t - seen \<le> RATE_WINDOW) accepted"
    using Cons.prems(1) unfolding recent_def by (intro recent_filter) (simp add: sorted_append)
  moreover have "filter (\<lambda>seen. t - seen \<le> RATE_WINDOW) old = []"
    using Cons.prems(2) by (auto simp: filter_empty_conv not_le)
  ultimately have count: "filter (\<lambda>seen. t - seen \<le> RATE_WINDOW) (old @ accepted) = recent" by simp
  have "\<forall>s\<in>set expired. t - s > RATE_WINDOW" unfolding expired_def by (auto dest: set_takeWhileD)
  then have gone: "\<forall>s\<in>set (old @ expired). \<forall>t'\<in>set ts. t' - s > RATE_WINDOW"
    using Cons.prems by (fastforce simp: sorted_append)
  have sorted: "sorted ((old @ expired) @ recent @ ts)" "sorted ((old @ expired) @ (recent @ [t]) @ ts)"
    using Cons.prems(1) by (auto simp: split sorted_append)
  from Cons.IH [OF sorted(1) gone] Cons.IH [OF sorted(2) gone] count show ?case
    by (simp add: accept_rate_def flip: recent_def) (simp add: split)
qed simp

definition windows_bounded :: "nat list \<Rightarrow> bool" where
  "windows_bounded ts \<longleftrightarrow> (\<forall>t. length (filter (\<lambda>s. t \<le> s \<and> s \<le> t + RATE_WINDOW) ts) \<le> RATE_LIMIT)"

lemma admitted_spec_bounded:
  assumes "windows_bounded history" "sorted (history @ arrivals)"
  shows "windows_bounded (history @ admitted_spec history arrivals)"
  using assms
proof (induction arrivals arbitrary: history)
  case (Cons t ts)
  show ?case
  proof (cases "length (filter (\<lambda>seen. t - seen \<le> RATE_WINDOW) history) < RATE_LIMIT")
    case True
    have "length (filter (\<lambda>s. u \<le> s \<and> s \<le> u + RATE_WINDOW) (history @ [t])) \<le> RATE_LIMIT" for u
    proof (cases "u \<le> t \<and> t \<le> u + RATE_WINDOW")
      case inside: True
      have "length (filter (\<lambda>s. u \<le> s \<and> s \<le> u + RATE_WINDOW) history)
          \<le> length (filter (\<lambda>seen. t - seen \<le> RATE_WINDOW) history)"
        using inside by (induction history) auto
      with True inside show ?thesis by simp
    qed (use Cons.prems(1) in \<open>auto simp: windows_bounded_def\<close>)
    then have "windows_bounded (history @ [t])" by (simp add: windows_bounded_def)
    from Cons.IH [OF this] Cons.prems(2) True show ?thesis by simp
  qed (use Cons in \<open>simp add: sorted_append\<close>)
qed simp

lemma accept_rate_length: "length accepted \<le> RATE_LIMIT \<Longrightarrow> length (snd (accept_rate t accepted)) \<le> RATE_LIMIT"
  using length_dropWhile_le [of "\<lambda>seen. t - seen > RATE_WINDOW" accepted] by (simp add: accept_rate_def Let_def)

section \<open>Histories of the daemon\<close>

definition workers_ok :: "daemon_state \<Rightarrow> bool" where
  "workers_ok s \<longleftrightarrow> length (dm_workers s) \<le> MAX_INSPECTIONS
     \<and> list_all (\<lambda>w. iw_attended w \<or> iw_cancelled w) (dm_workers s)"

definition daemon_ok :: "(store \<Rightarrow> bool) \<Rightarrow> daemon_state \<Rightarrow> bool" where
  "daemon_ok good s \<longleftrightarrow> good (dm_store s) \<and> length (dm_accepted s) \<le> RATE_LIMIT \<and> workers_ok s"

text \<open>
  What the daemon asks of the core: an invariant of the store that a cancellation request keeps, at any
  time and for any run. The daemon keeps it too, whatever requests it gets.
\<close>

locale cancel_service =
  fixes E :: env and good :: "store \<Rightarrow> bool"
  assumes cancel_keeps: "good d \<Longrightarrow> good (snd (request_cancel (at_time E t x) rid d))"
begin

lemma route_ok:
  assumes "daemon_ok good s" "sw_env W = at_time E t x"
  shows "daemon_ok good (snd (route W verb target body s))"
  using assms(1) cancel_keeps
  by (cases rule: route_cases [of W verb target body s]) (auto simp: daemon_ok_def workers_ok_def assms(2))

lemma handle_request_ok:
  assumes "daemon_ok good s" "sw_env W = at_time E t x"
  shows "daemon_ok good (snd (handle_request W q s))"
proof -
  have limited: "daemon_ok good (s\<lparr>dm_accepted := snd (accept_rate (sw_now W) (dm_accepted s))\<rparr>)"
    using assms(1) by (simp add: daemon_ok_def workers_ok_def accept_rate_length)
  show ?thesis
    by (cases rule: handle_request_cases [of q s W]) (use assms limited route_ok in auto)
qed

lemma abandon_worker_ok: "daemon_ok good s \<Longrightarrow> daemon_ok good (abandon_worker i s)"
  by (auto simp: daemon_ok_def workers_ok_def abandon_worker_def list_all_iff dest!: set_update_subset_insert [THEN subsetD])

lemma end_worker_ok: "daemon_ok good s \<Longrightarrow> daemon_ok good (end_worker i s)"
  by (auto simp: daemon_ok_def workers_ok_def end_worker_def list_all_iff dest: in_set_takeD in_set_dropD)

lemma daemon_step_ok: "daemon_step E s t \<Longrightarrow> daemon_ok good s \<Longrightarrow> daemon_ok good t"
  by (induction rule: daemon_step.induct)
    (auto simp: handle_request_ok end_inspection_def abandon_worker_ok end_worker_ok)

lemma daemon_history_ok: "rtranclp (daemon_step E) s t \<Longrightarrow> daemon_ok good s \<Longrightarrow> daemon_ok good t"
  by (induction rule: rtranclp_induct) (auto simp: daemon_step_ok)

end

lemma request_cancel_reachable: "reachable E d \<Longrightarrow> reachable E (snd (request_cancel (at_time E t x) rid d))"
proof -
  assume "reachable E d"
  moreover have "core_step E d (exec_op (at_time E t x) (RequestCancel rid) None d)" by (rule core_step.call)
  ultimately show ?thesis by (simp add: request_cancel_def) (erule (1) reachable.step)
qed

interpretation core_cancel: cancel_service E "reachable E" for E
  by unfold_locales (rule request_cancel_reachable)

end
