(* ===== verification/Daemon_Theorems.thy ===== *)
theory Daemon_Theorems
  imports Daemon_Server Demo
begin

text \<open>Properties of the local daemon.\<close>

section \<open>Text\<close>

text \<open>The text that the daemon and its client show has no escape, no control character but newline and tab,
  and no direction control, whatever it was made from; text that had none of them is left as it is, so cleaning twice
  changes nothing more.\<close>

lemma terminal_text_clean:
  "list_all displayable (utf8_chars (sanitize_terminal v)) \<and> sanitize_terminal (sanitize_terminal v) = sanitize_terminal v"
  by (simp add: sanitized_displayable sanitize_clean)

section \<open>Requests\<close>

lemma validate_api_request_None:
  "validate_api_request q md = None \<longleftrightarrow> hq_method q \<noteq> ''CONNECT''
     \<and> get_all (hq_headers q) ''transfer-encoding'' = [] \<and> get_all (hq_headers q) ''upgrade'' = []
     \<and> \<not> asks_upgrade (hq_headers q) \<and> length (get_all (hq_headers q) ''content-length'') \<le> 1
     \<and> valid_host_header (single_header (hq_headers q) ''host'') (em_host md)
     \<and> valid_origin (single_header (hq_headers q) ''origin'') (em_allowed_origins md)
     \<and> bearer_token (hq_headers q) = em_token md"
  by (auto simp: validate_api_request_def)

text \<open>How a \<open>Host\<close> header may name a host: as it is or in brackets, and with a port or without.\<close>

definition names_host :: "string \<Rightarrow> string \<Rightarrow> bool" where
  "names_host h v \<longleftrightarrow>
     (\<exists>suffix. (v = h @ suffix \<or> v = ''['' @ h @ '']'' @ suffix)
        \<and> (suffix = [] \<or> (\<exists>port. suffix = '':'' @ port \<and> port \<noteq> [])))"

lemma host_of_header_names: "host_of_header v = Some h \<Longrightarrow> names_host h v"
  by (auto simp: host_of_header_def names_host_def valid_port_suffix_def valid_port_def split_once_Some
      split: option.splits if_splits)

lemma single_header_Some: "single_header hs name = Some v \<Longrightarrow> get_all hs name = [v]"
  by (auto simp: single_header_def header_text_def split: list.splits if_splits)

lemma valid_host_header_names:
  assumes "valid_host_header (single_header hs ''host'') expected"
  shows "\<exists>v. get_all hs ''host'' = [v] \<and> (\<exists>h\<in>{''127.0.0.1'', ''::1'', ''localhost'', expected}. names_host h v)"
proof -
  from assms obtain v h where "single_header hs ''host'' = Some v" "host_of_header v = Some h"
    "h \<in> {''127.0.0.1'', ''::1'', ''localhost'', expected}"
    by (auto simp: valid_host_header_def split: option.splits)
  then show ?thesis by (intro exI [of _ v]) (blast dest: single_header_Some host_of_header_names)
qed

lemma bearer_token_sent:
  assumes "bearer_token hs = t" "t \<noteq> []"
  shows "get_all hs ''authorization'' = [''Bearer '' @ t]"
proof (cases "Option.bind (single_header hs ''authorization'') (strip_prefix ''Bearer '')")
  case (Some x)
  with assms(1) have "single_header hs ''authorization'' = Some (''Bearer '' @ t)"
    by (auto simp: bearer_token_def bind_eq_Some_conv)
  then show ?thesis by (rule single_header_Some)
qed (use assms in \<open>simp add: bearer_token_def\<close>)

lemma accepted_request_headers:
  assumes "validate_api_request q md = None" "em_token md \<noteq> []"
  shows "get_all (hq_headers q) ''authorization'' = [''Bearer '' @ em_token md]"
    and "\<exists>v. get_all (hq_headers q) ''host'' = [v] \<and> (\<exists>h\<in>{''127.0.0.1'', ''::1'', ''localhost'', em_host md}. names_host h v)"
    and "get_all (hq_headers q) ''origin'' = [origin] \<Longrightarrow> header_text origin \<noteq> None \<Longrightarrow> origin \<in> set (em_allowed_origins md)"
proof -
  note ok = assms(1) [unfolded validate_api_request_None]
  show "get_all (hq_headers q) ''authorization'' = [''Bearer '' @ em_token md]"
    using ok assms(2) bearer_token_sent by blast
  show "\<exists>v. get_all (hq_headers q) ''host'' = [v] \<and> (\<exists>h\<in>{''127.0.0.1'', ''::1'', ''localhost'', em_host md}. names_host h v)"
    using ok valid_host_header_names by blast
  show "origin \<in> set (em_allowed_origins md)"
    if "get_all (hq_headers q) ''origin'' = [origin]" "header_text origin \<noteq> None"
    using ok that by (auto simp: single_header_def valid_origin_def header_text_def list_ex_iff split: if_splits)
qed

text \<open>C29 (capability). A request that changes anything of the daemon (its admission times included) carries exactly one
  \<open>Authorization\<close> header, the daemon's own token as a bearer token, and exactly one \<open>Host\<close> header, which names a loopback host or
  the endpoint's own; when it has exactly one \<open>Origin\<close> header, and that is visible text, the origin is one of the allowed ones. The
  metadata never change, and the store changes only by a POST that cancels one run. A request without \<open>Origin\<close>, with several of
  them, or with one that is not visible text is not held to the list: see \<open>doubled_origin_accepted\<close>.\<close>

theorem only_capable_requests_act:
  assumes "snd (handle_request W q s) \<noteq> s" and "em_token (dm_metadata s) \<noteq> []"
  shows "get_all (hq_headers q) ''authorization'' = [''Bearer '' @ em_token (dm_metadata s)]
    \<and> (\<exists>v. get_all (hq_headers q) ''host'' = [v]
         \<and> (\<exists>h\<in>{''127.0.0.1'', ''::1'', ''localhost'', em_host (dm_metadata s)}. names_host h v))
    \<and> (\<forall>origin. get_all (hq_headers q) ''origin'' = [origin] \<and> header_text origin \<noteq> None
         \<longrightarrow> origin \<in> set (em_allowed_origins (dm_metadata s)))
    \<and> (dm_store (snd (handle_request W q s)) = dm_store s
         \<or> hq_method q = ''POST'' \<and> (\<exists>rid. dm_store (snd (handle_request W q s)) = snd (request_cancel (sw_env W) rid (dm_store s))))
    \<and> dm_metadata (snd (handle_request W q s)) = dm_metadata s"
proof -
  have valid: "validate_api_request q (dm_metadata s) = None"
    using assms(1) by (cases rule: handle_request_cases [of q s W]) auto
  have "(dm_store (snd (handle_request W q s)) = dm_store s
         \<or> hq_method q = ''POST'' \<and> (\<exists>rid. dm_store (snd (handle_request W q s)) = snd (request_cancel (sw_env W) rid (dm_store s))))
    \<and> dm_metadata (snd (handle_request W q s)) = dm_metadata s"
  proof (cases rule: handle_request_cases [of q s W])
    case (3 target body)
    show ?thesis
      by (cases rule: route_cases [of W "hq_method q" target body "s\<lparr>dm_accepted := snd (accept_rate (sw_now W) (dm_accepted s))\<rparr>"])
        (use 3 in auto)
  qed auto
  with accepted_request_headers [OF valid assms(2)] show ?thesis by blast
qed

text \<open>A second \<open>Origin\<close> header takes a request past the check of its origin: with two of them, whatever they say, a request is
  accepted that would be accepted without any.\<close>

lemma doubled_origin_accepted:
  assumes "validate_api_request q md = None" "get_all (hq_headers q) ''origin'' = []"
  shows "validate_api_request (q\<lparr>hq_headers := hq_headers q @ [(''origin'', a), (''origin'', b)]\<rparr>) md = None"
proof -
  let ?hs = "hq_headers q @ [(''origin'', a), (''origin'', b)]"
  have same: "get_all ?hs n = get_all (hq_headers q) n" if "n \<noteq> ''origin''" for n
    using that by (simp add: get_all_def)
  have "single_header ?hs ''origin'' = None"
    using assms(2) by (simp add: single_header_def get_all_def header_text_def)
  with assms(1) same show ?thesis
    by (simp add: validate_api_request_None asks_upgrade_def bearer_token_def single_header_def valid_origin_def)
qed

text \<open>Rate: For arrivals in the order of time, the queue of recent instants decides as if all admissions had been kept: a request
  is admitted exactly when fewer than 120 were admitted in the minute before it. No minute ever sees more than 120 admitted.\<close>

lemma rate_limit_exact:
  assumes "sorted arrivals"
  shows "admitted [] arrivals = admitted_spec [] arrivals \<and> windows_bounded (admitted [] arrivals)"
proof -
  from assms have "admitted [] arrivals = admitted_spec [] arrivals" using admitted_spec_eq [of "[]" "[]" arrivals] by simp
  moreover from assms have "windows_bounded (admitted_spec [] arrivals)"
    using admitted_spec_bounded [of "[]" arrivals] by (simp add: windows_bounded_def)
  ultimately show ?thesis by simp
qed

text \<open>C30 (histories). In every history of the daemon, with requests of any kind, inspections that end in any way and connections that
  drop at any time: the store is one that the core reaches by its own operations, at most two inspections run, each that
  nobody waits for is cancelled, and at most 120 admissions are kept.\<close>

theorem daemon_history_safe:
  assumes "reachable E d" "rtranclp (daemon_step E) (daemon_state_new md d state owner backend) s"
  shows "reachable E (dm_store s) \<and> length (dm_workers s) \<le> MAX_INSPECTIONS
    \<and> list_all (\<lambda>w. iw_attended w \<or> iw_cancelled w) (dm_workers s) \<and> length (dm_accepted s) \<le> RATE_LIMIT"
proof -
  have "daemon_ok (reachable E) (daemon_state_new md d state owner backend)"
    using assms(1) by (simp add: daemon_ok_def workers_ok_def daemon_state_new_def)
  from core_cancel.daemon_history_ok [OF assms(2) this] show ?thesis by (simp add: daemon_ok_def workers_ok_def)
qed

section \<open>The endpoint\<close>

lemma token_text:
  assumes "valid_token t"
  shows "header_text (''Bearer '' @ t) = Some (''Bearer '' @ t)"
proof -
  have "byte_code b = 9 \<or> 32 \<le> byte_code b \<and> byte_code b < 127" if "is_ascii_digit b \<or> (CHR ''a'' \<le> b \<and> b \<le> CHR ''f'')" for b
    using that by (auto simp: is_ascii_digit_def less_eq_char_def)
  with assms show ?thesis by (auto simp: header_text_def valid_token_def list_all_iff)
qed

lemma client_request_accepted:
  assumes "valid_token (em_token md)" "em_host md = DEFAULT_HOST" "verb \<noteq> ''CONNECT''"
  shows "validate_api_request (client_request md verb target body) md = None"
proof -
  have "valid_host_header (Some DEFAULT_HOST) DEFAULT_HOST" "header_text DEFAULT_HOST = Some DEFAULT_HOST"
    by code_simp+
  with assms show ?thesis
    by (simp add: validate_api_request_None client_request_def get_all_def asks_upgrade_def single_header_def valid_origin_def
        bearer_token_def token_text del: append.simps)
qed

text \<open>Endpoint: When the daemon has started, a client of the same user reads from its private directory exactly the metadata the
  daemon serves with, through all the checks on the files, and the daemon accepts the host, origin and token of every
  request the client makes with them.\<close>

lemma started_daemon_reachable:
  assumes "start_daemon W C F = (Inr (md, d, owner), G)"
    and "ew_urandom W = Some bytes" "length bytes = 32"
    and "ew_decode W (ew_encode W md) = Some md" "0 < length (ew_encode W md)" "length (ew_encode W md) \<le> DAEMON_MAX_METADATA_BYTES"
    and "verb \<noteq> ''CONNECT''"
  shows "read_metadata W C G = Inr md \<and> validate_api_request (client_request md verb target body) md = None"
proof -
  from start_daemon_Inr [OF assms(1)] obtain token n where
    token: "generate_token (ew_urandom W) = Some token" and md: "md = endpoint_metadata_of (ew_env W) C token"
    and files: "verify_private_endpoint G (ew_probe W) (metadata_path C) False = Inr ()"
      "verify_private_endpoint G (ew_probe W) (daemon_socket_path (ew_env W) C) True = Inr ()"
    and n: "fd_node G (metadata_path C) = Found n" "ns_content n = ew_encode W md" by metis
  have valid: "valid_token token" using token assms(2,3) generated_token_valid by auto
  have "path_parent (metadata_path C) = Some (dc_root C)" by (simp add: metadata_path_def path_join_def path_parent_def)
  with files(1) have root: "validate_private_root G (ew_probe W) (dc_root C) = Inr ()" by (simp add: verify_private_endpoint_Inr)
  have "em_token md = token" "em_host md = DEFAULT_HOST" by (simp_all add: md endpoint_metadata_of_def)
  with client_request_accepted valid assms(7) have "validate_api_request (client_request md verb target body) md = None" by simp
  moreover have "read_metadata W C G = Inr md"
    using root files n assms(4-6) valid
    by (simp add: read_metadata_def stat_def) (simp add: md endpoint_metadata_of_def valid_allowed_origins_iff)
  ultimately show ?thesis by simp
qed

section \<open>Inspections\<close>

lemma repository_source_value_inj: "source_value a = source_value b \<Longrightarrow> a = b"
  by (cases a; cases b) auto

lemma inspect_request_value_inj: "inspect_request_value a = inspect_request_value b \<Longrightarrow> a = b"
  by (cases a; cases b; cases "iq_limits a"; cases "iq_limits b")
    (auto simp: inspect_request_value_def inspect_limits_value_def dest!: repository_source_value_inj
      dest: map_injective intro!: inj_onI)

lemma validate_inspect_request_Inr:
  "validate_inspect_request q = Inr u \<Longrightarrow> il_max_files (iq_limits q) \<noteq> 0 \<and> il_max_files (iq_limits q) \<le> 100000
    \<and> il_max_total_bytes (iq_limits q) \<noteq> 0 \<and> il_max_total_bytes (iq_limits q) \<le> 67108864
    \<and> il_max_file_bytes (iq_limits q) \<noteq> 0 \<and> il_max_file_bytes (iq_limits q) \<le> il_max_total_bytes (iq_limits q)
    \<and> il_max_path_bytes (iq_limits q) \<noteq> 0 \<and> il_max_path_bytes (iq_limits q) \<le> 1024
    \<and> il_max_archive_bytes (iq_limits q) \<noteq> 0 \<and> il_max_archive_bytes (iq_limits q) \<le> 67108864
    \<and> il_max_total_bytes (iq_limits q) \<le> il_max_remote_work_bytes (iq_limits q)
    \<and> il_max_remote_work_bytes (iq_limits q) \<le> 268435456
    \<and> il_max_git_output_bytes (iq_limits q) \<noteq> 0 \<and> il_max_git_output_bytes (iq_limits q) \<le> 4194304
    \<and> il_max_git_seconds (iq_limits q) \<noteq> 0 \<and> il_max_git_seconds (iq_limits q) \<le> 6"
  unfolding validate_inspect_request_def Let_def by (simp split: if_splits)

lemma inspect_request_ijson: "validate_inspect_request q = Inr u \<Longrightarrow> ijson (inspect_request_value q)"
proof -
  assume "validate_inspect_request q = Inr u"
  note bounds = validate_inspect_request_Inr [OF this]
  have strings: "ijson_list (map JStr vs)" for vs by (induction vs) auto
  have source: "ijson (source_value x)" for x by (cases x) (auto simp: less_char_def)
  from bounds strings source show ?thesis
    by (simp add: inspect_request_value_def inspect_limits_value_def MAX_SAFE_INT_def less_char_def)
qed

lemma inspect_request_depth: "json_depth (inspect_request_value q) \<le> 127"
proof -
  have "json_depth_list (map JStr vs) = 0" for vs by (induction vs) auto
  moreover have "json_depth (source_value x) = 1" for x by (cases x) auto
  ultimately show ?thesis by (simp add: inspect_request_value_def inspect_limits_value_def)
qed

lemma artifact_id_parts: "artifact_id E x = ''sha256:'' @ hex_encode (sha256 E x)"
  by (simp add: artifact_id_def)

lemma digest_of_text: "length (sha256 E x) = 32 \<Longrightarrow> is_sha256_digest (artifact_id E x)"
  using hex_encode_lower_hex [of "sha256 E x"]
  by (auto simp: is_sha256_digest_def artifact_id_def starts_with_def list_all_iff byte_class_defs less_eq_char_def)

lemma acquisition_request_of_Inr:
  "acquisition_request_of E q = Inr a \<longleftrightarrow> validate_inspect_request q = Inr ()
     \<and> (\<exists>text. canonical_json E (inspect_request_value q) = Inr text \<and> ar_authority_digest a = artifact_id E text
          \<and> ar_authority_id a = ''auth_'' @ hex_encode (sha256 E text)
          \<and> ar_source a = source_of_request (iq_source q) \<and> ar_selected_roots a = iq_selected_roots q
          \<and> ar_limits a = \<lparr>al_max_files = il_max_files (iq_limits q), al_max_total_bytes = il_max_total_bytes (iq_limits q),
              al_max_file_bytes = il_max_file_bytes (iq_limits q), al_max_path_bytes = il_max_path_bytes (iq_limits q),
              al_max_archive_bytes = il_max_archive_bytes (iq_limits q),
              al_max_remote_work_bytes = il_max_remote_work_bytes (iq_limits q),
              al_max_git_output_bytes = il_max_git_output_bytes (iq_limits q),
              al_max_git_seconds = il_max_git_seconds (iq_limits q)\<rparr>)"
  by (cases a) (auto simp: acquisition_request_of_def bindE_eq_Inr map_err_eq_Inr Let_def artifact_id_def)

text \<open>C31 (inspection authority). The acquisition request made of an inspection request that the daemon accepts passes the checks of
  acquisition on limits and on the request authority (its roots and its locator are checked later, by acquisition itself), the number
  of seconds after which the daemon answers with a timeout is at most 26 (the worker it then abandons may still be running), and the
  authority is bound to the whole request: two accepted requests with one authority digest are the same request. Assumed are 32-byte
  digests, the laws of the JSON library (\<open>json_laws\<close>), canonical texts within the size that is read back, and that the hash does not
  collide on the two texts.\<close>

theorem inspection_authority_binds:
  assumes "json_laws E" "\<forall>x. length (sha256 E x) = 32"
    and "acquisition_request_of E q = Inr a" "acquisition_request_of E q' = Inr a'"
    and "\<forall>x. jcs E (inspect_request_value q) = Some x \<longrightarrow> length x \<le> MAX_SAFE_JSON_BYTES"
    and "\<forall>x y. jcs E (inspect_request_value q) = Some x \<longrightarrow> jcs E (inspect_request_value q') = Some y
      \<longrightarrow> sha256 E x = sha256 E y \<longrightarrow> x = y"
  shows "acquisition_limits_validate (ar_limits a) = Inr () \<and> validate_request_authority a = Inr ()
    \<and> inspection_deadline q \<le> 26 \<and> (ar_authority_digest a = ar_authority_digest a' \<longrightarrow> q = q')"
proof -
  from assms(3,4) obtain x y where a: "validate_inspect_request q = Inr ()" "canonical_json E (inspect_request_value q) = Inr x"
      "ar_authority_digest a = artifact_id E x" "ar_authority_id a = ''auth_'' @ hex_encode (sha256 E x)"
    and a': "validate_inspect_request q' = Inr ()" "canonical_json E (inspect_request_value q') = Inr y"
      "ar_authority_digest a' = artifact_id E y"
    by (auto simp: acquisition_request_of_Inr)
  note bounds = validate_inspect_request_Inr [OF a(1)]
  have limits: "acquisition_limits_validate (ar_limits a) = Inr ()"
    using assms(3) bounds by (auto simp: acquisition_request_of_Inr acquisition_limits_validate_def)
  have authority: "validate_request_authority a = Inr ()"
    using assms(2) a(3,4) by (simp add: validate_request_authority_def digest_of_text starts_with_def)
  have deadline: "inspection_deadline q \<le> 26"
    using bounds by (simp add: inspection_deadline_def INSPECT_DEADLINE_def REMOTE_INSPECT_OVERHEAD_SECONDS_def split: repository_source.split)
  have texts: "jcs E (inspect_request_value q) = Some x" "jcs E (inspect_request_value q') = Some y"
    using a(2) a'(2) by (auto simp: canonical_json_def bindE_eq_Inr ok_or_eq_Inr)
  have "q = q'" if "ar_authority_digest a = ar_authority_digest a'"
  proof -
    from that a(3) a'(3) have "sha256 E x = sha256 E y" by (auto simp: artifact_id_def dest: hex_encode_inj)
    with assms(6) texts have "x = y" by blast
    with assms(1,5) texts inspect_request_ijson [OF a(1)] inspect_request_ijson [OF a'(1)]
      inspect_request_depth [of q] inspect_request_depth [of q']
    have "parse_strict_json E x MAX_SAFE_JSON_BYTES = Inr (inspect_request_value q)"
      "parse_strict_json E x MAX_SAFE_JSON_BYTES = Inr (inspect_request_value q')"
      unfolding json_laws_def depth_read_def by blast+
    then show ?thesis by (auto intro: inspect_request_value_inj)
  qed
  with limits authority deadline show ?thesis by blast
qed

definition demo_inspection :: repository_inspect_request where
  "demo_inspection = \<lparr>iq_source = LocalSource ''/r'', iq_selected_roots = [],
     iq_limits = \<lparr>il_max_files = 1, il_max_total_bytes = 1, il_max_file_bytes = 1, il_max_path_bytes = 1,
       il_max_archive_bytes = 1, il_max_remote_work_bytes = 1, il_max_git_output_bytes = 1, il_max_git_seconds = 1\<rparr>\<rparr>"

lemma inspection_accepted_demo:
  "\<exists>a. acquisition_request_of demo demo_inspection = Inr a"
  "length (enc (inspect_request_value demo_inspection)) \<le> MAX_SAFE_JSON_BYTES"
proof -
  have valid: "validate_inspect_request demo_inspection = Inr ()"
    by (simp add: validate_inspect_request_def demo_inspection_def is_absolute_path_def starts_with_def)
  from demo_canonical [OF inspect_request_ijson [OF valid]] valid
  show "\<exists>a. acquisition_request_of demo demo_inspection = Inr a"
    by (auto simp: acquisition_request_of_def Let_def)
  show "length (enc (inspect_request_value demo_inspection)) \<le> MAX_SAFE_JSON_BYTES"
    by (simp add: demo_inspection_def inspect_request_value_def inspect_limits_value_def enc_str_def enc_char_def
        binary.simps MAX_SAFE_JSON_BYTES_def)
qed

theorem inspection_authority_binds_witness:
  "\<exists>a. acquisition_request_of demo demo_inspection = Inr a \<and> acquisition_limits_validate (ar_limits a) = Inr ()
     \<and> validate_request_authority a = Inr () \<and> inspection_deadline demo_inspection \<le> 26"
proof -
  from inspection_accepted_demo(1) obtain a where a: "acquisition_request_of demo demo_inspection = Inr a" by blast
  have sha: "\<forall>x. length (sha256 demo x) = 32" by (simp add: min_def)
  from inspection_authority_binds [OF demo_json_laws sha a a] inspection_accepted_demo(2) a show ?thesis by auto
qed

section \<open>The remaining witnesses\<close>

definition demo_server :: server_world where
  "demo_server = \<lparr>sw_env = demo, sw_pretty = (\<lambda>_. []), sw_decode = (\<lambda>_. Some demo_inspection), sw_disk = DiskOk,
     sw_unix_ms = Some 0, sw_now = 0,
     sw_files = \<lparr>fd_node = (\<lambda>p. if op_components p = [''state''] then
         Found \<lparr>ns_kind = DirNode, ns_mode = 448, ns_uid = 7, ns_content = []\<rparr> else Missing),
       fd_user = 7, fd_mode = (\<lambda>_. 493), fd_fails = (\<lambda>_ _. False), fd_listening = (\<lambda>_. False)\<rparr>\<rparr>"

definition demo_daemon_config :: daemon_config where
  "demo_daemon_config = \<lparr>dc_root = \<lparr>op_absolute = True, op_components = [''p'']\<rparr>,
     dc_temporary = \<lparr>op_absolute = True, op_components = [''tmp'']\<rparr>, dc_public_git_backend = None\<rparr>"

definition demo_metadata :: endpoint_metadata where
  "demo_metadata = endpoint_metadata_of demo demo_daemon_config (hex_encode (replicate 32 (CHR ''k'')))"

definition demo_daemon :: daemon_state where
  "demo_daemon = daemon_state_new demo_metadata empty_store \<lparr>op_absolute = True, op_components = [''state'']\<rparr> 7 None"

theorem only_capable_requests_act_witness:
  "snd (handle_request demo_server (client_request demo_metadata ''GET'' ''/v1/status'' '''') demo_daemon) \<noteq> demo_daemon
   \<and> get_all (hq_headers (client_request demo_metadata ''GET'' ''/v1/status'' '''')) ''authorization''
       = [''Bearer '' @ em_token demo_metadata]"
proof -
  let ?q = "client_request demo_metadata ''GET'' ''/v1/status'' ''''"
  have md: "dm_metadata demo_daemon = demo_metadata" "dm_accepted demo_daemon = []"
    by (simp_all add: demo_daemon_def daemon_state_new_def)
  have token: "valid_token (em_token demo_metadata)"
    using generated_token_valid [of "replicate 32 (CHR ''k'')"]
    by (simp add: demo_metadata_def endpoint_metadata_of_def generate_token_def)
  have valid: "validate_api_request ?q demo_metadata = None"
    by (rule client_request_accepted [OF token]) (simp_all add: demo_metadata_def endpoint_metadata_of_def)
  have rate: "snd (accept_rate (sw_now demo_server) []) = [0]"
    by (simp add: accept_rate_def demo_server_def RATE_LIMIT_def)
  have "dm_accepted (snd (handle_request demo_server ?q demo_daemon)) = [0]"
  proof (cases rule: handle_request_cases [of ?q demo_daemon demo_server])
    case (3 target body)
    show ?thesis
      by (cases rule: route_cases [of demo_server "hq_method ?q" target body
            "demo_daemon\<lparr>dm_accepted := snd (accept_rate (sw_now demo_server) (dm_accepted demo_daemon))\<rparr>"])
        (use 3 md rate in auto)
  qed (use valid md rate in auto)
  with md(2) have changed: "snd (handle_request demo_server ?q demo_daemon) \<noteq> demo_daemon" by auto
  from token have "em_token (dm_metadata demo_daemon) \<noteq> []" by (auto simp: md valid_token_def)
  from only_capable_requests_act [OF changed this] changed show ?thesis by (simp add: md)
qed

theorem daemon_history_safe_witness:
  "\<exists>s. rtranclp (daemon_step demo) demo_daemon s \<and> dm_workers s = [\<lparr>iw_attended = False, iw_cancelled = True\<rparr>]
     \<and> reachable demo (dm_store s) \<and> length (dm_workers s) \<le> MAX_INSPECTIONS"
proof -
  let ?q = "client_request demo_metadata ''POST'' ''/v2/repositories/inspect'' ''x''"
  let ?s = "snd (handle_request demo_server ?q demo_daemon)"
  have token: "em_token demo_metadata = hex_encode (replicate 32 (CHR ''k''))" "em_host demo_metadata = DEFAULT_HOST"
    by (simp_all add: demo_metadata_def endpoint_metadata_of_def)
  have "valid_token (em_token demo_metadata)" unfolding token by code_simp
  with token have accepted: "validate_api_request ?q demo_metadata = None" by (intro client_request_accepted) simp_all
  obtain a where a: "acquisition_request_of demo demo_inspection = Inr a"
    using inspection_accepted_demo by blast
  have "is_ok (enforce_state_permissions (sw_files demo_server) \<lparr>op_absolute = True, op_components = [''state'']\<rparr> 7)"
    by (simp add: demo_server_def enforce_state_permissions_def stat_def path_join_def)
  with accepted a have workers: "dm_workers ?s = [\<lparr>iw_attended = True, iw_cancelled = False\<rparr>]"
    by (simp add: handle_request_def demo_daemon_def daemon_state_new_def accept_rate_def RATE_LIMIT_def client_request_def
        MAX_BODY_BYTES_def route_def split_query_def split_once_def inspect_repository_def demo_server_def MAX_INSPECTIONS_def)
  have "daemon_step demo demo_daemon ?s"
    by (rule handled [where t = 0 and x = "Some ''2026-01-01T00:00:00Z''"]) (simp add: demo_server_def demo_now)
  moreover have "daemon_step demo ?s (abandon_worker 0 ?s)" by (rule dropped) (simp_all add: workers)
  ultimately have steps: "rtranclp (daemon_step demo) demo_daemon (abandon_worker 0 ?s)" by simp
  have "dm_workers (abandon_worker 0 ?s) = [\<lparr>iw_attended = False, iw_cancelled = True\<rparr>]"
    by (simp add: abandon_worker_def workers)
  with daemon_history_safe [OF reachable.start steps [unfolded demo_daemon_def], folded demo_daemon_def] steps
  show ?thesis by blast
qed

text \<open>A machine with nothing but its root directory, on which the daemon starts.\<close>

definition demo_machine :: daemon_files where
  "demo_machine = \<lparr>fd_node = (\<lambda>p. if op_components p = [] then
         Found \<lparr>ns_kind = DirNode, ns_mode = 493, ns_uid = 0, ns_content = []\<rparr> else Missing),
       fd_user = 7, fd_mode = (\<lambda>_. 493), fd_fails = (\<lambda>_ _. False), fd_listening = (\<lambda>_. False)\<rparr>"

definition demo_endpoint :: endpoint_world where
  "demo_endpoint = \<lparr>ew_env = demo, ew_probe = ''probe'', ew_temporary = ''endpoint.tmp'', ew_encode = em_token,
     ew_decode = (\<lambda>t. Some (endpoint_metadata_of demo demo_daemon_config t)), ew_urandom = Some (replicate 32 (CHR ''k'')),
     ew_open_store = (\<lambda>_ F. (Inr empty_store, F))\<rparr>"

lemma demo_starts: "\<exists>G. start_daemon demo_endpoint demo_daemon_config demo_machine = (Inr (demo_metadata, empty_store, 7), G)"
  by (simp add: start_daemon_def Let_def demo_endpoint_def demo_daemon_config_def daemon_socket_path_def socket_path_for_root_def
      path_text_def path_join_def path_parent_def MAX_SOCKET_PATH_BYTES_def open_core_store_def prepare_private_root_def
      prepare_private_state_def state_path_def metadata_path_def bindF_def checked_def reject_symlink_components_def
      link_check_def demo_machine_def create_dirs_from.simps make_dir_def changing_def set_node_def set_private_directory_def
      set_mode_def verify_private_directory_def stat_def make_state_dir_def private_directory_owner_def
      enforce_state_permissions_def remove_stale_socket_def generate_token_def bind_socket_def verify_private_endpoint_def
      validate_private_root_def cleaned_def write_private_metadata_def create_private_file_def rename_file_def
      sync_directory_def demo_metadata_def del: hex_encode.simps)

end
