(* ===== verification/Runner_Requests.thy ===== *)
theory Runner_Requests
  imports Unicode_Text Remote_Source
begin

text \<open>
  The request of the remote git runner (\<open>promptectomy-remote-git-runner/src/lib.rs\<close>), which works in a
  container without credentials: the manifest as the runner checks it on its own, the URL or the
  broker material that must match its digests, the files and arguments that \<open>git\<close> is given. The manifest
  is the record of \<open>Remote_Source\<close>: the two crates name its members alike, and it travels as JSON.
\<close>

section \<open>Errors and constants\<close>

datatype runner_error =
    RequestUnavailable | InvalidRunnerRequest | InvalidRunnerManifest | RunnerLocatorDenied | WorkspaceUnavailable
  | GitUnavailable | SshRelayUnavailable | RunnerGitFailed | RunnerGitTimedOut | RunnerGitOutputExceeded
  | RunnerInvalidGitOutput | RunnerUnsafePath | RunnerPathCollision | RunnerFileCountExceeded
  | RunnerFileBytesExceeded | RunnerTotalBytesExceeded | WorkBytesExceeded | BundleBytesExceeded
  | RunnerEmptySelection | OutputUnavailable

definition RUNNER_REQUEST_VERSION :: string where "RUNNER_REQUEST_VERSION = ''promptectomy.remote-git-runner-request.v2''"
definition RESULT_VERSION :: string where "RESULT_VERSION = ''promptectomy.remote-worker.v1''"
definition MANIFEST_VERSION :: string where "MANIFEST_VERSION = ''promptectomy.remote-git-manifest.v2''"
definition GIT_PROGRAM :: string where "GIT_PROGRAM = ''/usr/bin/git''"
definition PROXY_URL :: string where "PROXY_URL = ''http://proxy:8080''"
definition PLACEHOLDER_URL :: string where "PLACEHOLDER_URL = ''https://promptectomy.invalid/source''"
definition SSH_AGENT_PATH :: string where "SSH_AGENT_PATH = ''/work/relay/agent.sock''"
definition SSH_COMMAND :: string where "SSH_COMMAND = ''/usr/bin/ssh -F /work/run/neutral/ssh-config''"
definition SSH_CONNECT_PROGRAM :: string where "SSH_CONNECT_PROGRAM = ''/usr/local/bin/promptectomy-ssh-connect''"
definition SSH_KNOWN_HOSTS_PATH :: string where "SSH_KNOWN_HOSTS_PATH = ''/work/run/neutral/known-hosts''"
definition MAX_FILES :: nat where "MAX_FILES = 100000"
definition MAX_TOTAL_BYTES :: nat where "MAX_TOTAL_BYTES = 32 * 1024 * 1024"
definition MAX_FILE_BYTES :: nat where "MAX_FILE_BYTES = 16 * 1024 * 1024"
definition MAX_PATH_BYTES :: nat where "MAX_PATH_BYTES = 1024"
definition MAX_WORK_BYTES :: nat where "MAX_WORK_BYTES = 256 * 1024 * 1024"
definition MAX_BUNDLE_BYTES :: nat where "MAX_BUNDLE_BYTES = 64 * 1024 * 1024"
definition RUNNER_MAX_OUTPUT_BYTES :: nat where "RUNNER_MAX_OUTPUT_BYTES = 4 * 1024 * 1024"
definition MAX_WALL_SECONDS :: nat where "MAX_WALL_SECONDS = 300"
definition MAX_WORK_ENTRIES :: nat where "MAX_WORK_ENTRIES = 250000"
definition MAX_BATCH_HEADER_BYTES :: nat where "MAX_BATCH_HEADER_BYTES = 256"

definition RUNNER_ALLOWED_HOSTS :: "string list" where
  "RUNNER_ALLOWED_HOSTS = [''bitbucket.org'', ''codeberg.org'', ''git.sr.ht'', ''github.com'', ''gitlab.com'']"

definition RUNNER_WINDOWS_DEVICES :: "string list" where
  "RUNNER_WINDOWS_DEVICES =
     [''CON'', ''PRN'', ''AUX'', ''NUL'', ''COM1'', ''COM2'', ''COM3'', ''COM4'', ''COM5'', ''COM6'', ''COM7'', ''COM8'',
      ''COM9'', ''LPT1'', ''LPT2'', ''LPT3'', ''LPT4'', ''LPT5'', ''LPT6'', ''LPT7'', ''LPT8'', ''LPT9'']"

section \<open>Paths and object names\<close>

definition runner_component_refused :: "string \<Rightarrow> bool" where
  "runner_component_refused c \<longleftrightarrow>
     c = [] \<or> c = ''.'' \<or> c = ''..'' \<or> length c > 255 \<or> list_ex is_ascii_control c
     \<or> ends_with ''.'' c \<or> ends_with '' '' c \<or> CHR '':'' \<in> set c \<or> eq_ignore_ascii_case c ''.git''
     \<or> list_ex (\<lambda>device. eq_ignore_ascii_case (hd (split_on CHR ''.'' c)) device) RUNNER_WINDOWS_DEVICES"

definition runner_normalize_path :: "string \<Rightarrow> nat \<Rightarrow> runner_error + string" where
  "runner_normalize_path raw max_path_bytes =
     (if raw = [] \<or> length raw > max_path_bytes \<or> hd raw = CHR ''/'' \<or> CHR 0x5C \<in> set raw \<or> \<not> list_all is_ascii raw
      then Inl RunnerUnsafePath
      else if list_ex runner_component_refused (split_on CHR ''/'' raw) then Inl RunnerUnsafePath
      else Inr raw)"

definition runner_selected :: "string \<Rightarrow> string list \<Rightarrow> bool" where
  "runner_selected path roots \<longleftrightarrow>
     roots = [] \<or> list_ex (\<lambda>root. path = root
       \<or> (case strip_prefix root path of None \<Rightarrow> False | Some rest \<Rightarrow> starts_with ''/'' rest)) roots"

definition is_ascii_hexdigit :: "char \<Rightarrow> bool" where
  "is_ascii_hexdigit b \<longleftrightarrow> is_ascii_digit b \<or> (CHR ''a'' \<le> b \<and> b \<le> CHR ''f'') \<or> (CHR ''A'' \<le> b \<and> b \<le> CHR ''F'')"

definition runner_valid_object_id :: "string \<Rightarrow> bool" where
  "runner_valid_object_id v \<longleftrightarrow> (length v = 40 \<or> length v = 64) \<and> list_all (\<lambda>b. is_ascii_hexdigit b \<and> \<not> is_ascii_uppercase b) v"

definition parse_object_id :: "string \<Rightarrow> runner_error + string" where
  "parse_object_id output =
     (if \<not> utf8_valid output then Inl RunnerInvalidGitOutput
      else
        let v = trim_text output in
        if \<not> runner_valid_object_id v then Inl RunnerInvalidGitOutput else Inr v)"

definition parse_size :: "string \<Rightarrow> runner_error + nat" where
  "parse_size v = ok_or RunnerInvalidGitOutput (parse_unsigned (2 ^ 64) v)"

definition runner_is_digest :: "string \<Rightarrow> bool" where
  "runner_is_digest v \<longleftrightarrow> length v = 71 \<and> starts_with ''sha256:'' v
     \<and> list_all (\<lambda>b. is_ascii_hexdigit b \<and> \<not> is_ascii_uppercase b) (drop 7 v)"

section \<open>Locators\<close>

definition locator_part :: "string \<Rightarrow> bool" where
  "locator_part part \<longleftrightarrow> part \<noteq> [] \<and> part \<noteq> ''.'' \<and> part \<noteq> ''..''
     \<and> list_all (\<lambda>b. is_ascii_alphanumeric b \<or> b \<in> set ''._-~'') part"

definition runner_validate_url :: "string \<Rightarrow> runner_error + string \<times> string" where
  "runner_validate_url url =
     (if \<not> list_all is_ascii url \<or> \<not> starts_with ''https://'' url \<or> length url > 2048
         \<or> list_ex (\<lambda>c. c \<in> {CHR ''?'', CHR ''#'', CHR 0x5C, CHR 0x25}) url
      then Inl RunnerLocatorDenied
      else
        bindE (ok_or RunnerLocatorDenied (split_once CHR ''/'' (drop 8 url))) (\<lambda>(authority, path).
          let host = (if ends_with '':443'' authority then take (length authority - 4) authority else authority) in
          if CHR 0x40 \<in> set authority \<or> host \<notin> set RUNNER_ALLOWED_HOSTS \<or> path = [] \<or> starts_with ''/'' path
             \<or> list_ex (\<lambda>part. \<not> locator_part part) (split_on CHR ''/'' path)
          then Inl RunnerLocatorDenied
          else Inr (host, ''https://'' @ host @ ''/'' @ path)))"

definition validate_repository :: "string \<Rightarrow> runner_error + unit" where
  "validate_repository repository =
     (if repository = [] \<or> length repository > 512 \<or> \<not> list_all is_ascii repository
         \<or> starts_with ''/'' repository \<or> starts_with ''-'' repository
         \<or> list_ex (\<lambda>c. c \<in> {CHR ''?'', CHR ''#'', CHR 0x5C, CHR 0x25}) repository
         \<or> list_ex (\<lambda>part. \<not> locator_part part) (split_on CHR ''/'' repository)
      then Inl RunnerLocatorDenied else Inr ())"

definition runner_validate_revision :: "string \<Rightarrow> runner_error + unit" where
  "runner_validate_revision revision =
     (if revision = [] \<or> length revision > 200 \<or> starts_with ''-'' revision
         \<or> contains_text revision ''..'' \<or> contains_text revision [CHR 0x40, CHR 0x7B]
         \<or> list_ex (\<lambda>b. \<not> (is_ascii_alphanumeric b \<or> b \<in> set ''._/-'')) revision
      then Inl InvalidRunnerManifest else Inr ())"

section \<open>Host keys\<close>

definition base64_value :: "char \<Rightarrow> runner_error + nat" where
  "base64_value b =
     (if CHR ''A'' \<le> b \<and> b \<le> CHR ''Z'' then Inr (byte_code b - byte_code CHR ''A'')
      else if CHR ''a'' \<le> b \<and> b \<le> CHR ''z'' then Inr (byte_code b - byte_code CHR ''a'' + 26)
      else if CHR ''0'' \<le> b \<and> b \<le> CHR ''9'' then Inr (byte_code b - byte_code CHR ''0'' + 52)
      else if b = CHR ''+'' then Inr 62
      else if b = CHR ''/'' then Inr 63
      else Inl RunnerLocatorDenied)"

text \<open>\<open>bits\<close> holds \<open>bit_count\<close> bits that are not yet part of a byte; both stay small, so no width is written out.\<close>

fun decode_sextets :: "string \<Rightarrow> nat \<Rightarrow> nat \<Rightarrow> runner_error + string" where
  "decode_sextets [] bits bit_count = (if bits \<noteq> 0 then Inl RunnerLocatorDenied else Inr [])"
| "decode_sextets (b # bs) bits bit_count =
     bindE (base64_value b) (\<lambda>v.
       let bits = 64 * bits + v; bit_count = bit_count + 6 in
       if bit_count \<ge> 8 then
         (let bit_count = bit_count - 8; byte = bits div 2 ^ bit_count in
          if byte \<ge> 256 then Inl RunnerLocatorDenied
          else bindE (decode_sextets bs (bits mod 2 ^ bit_count) bit_count) (\<lambda>decoded. Inr (char_of byte # decoded)))
       else decode_sextets bs bits bit_count)"

definition decode_base64 :: "string \<Rightarrow> runner_error + string" where
  "decode_base64 encoded = (if length encoded mod 4 = 1 then Inl RunnerLocatorDenied else decode_sextets encoded 0 0)"

definition HOST_KEY_TYPES :: "string list" where
  "HOST_KEY_TYPES = [''ssh-ed25519'', ''ssh-rsa'', ''ecdsa-sha2-nistp256'', ''ecdsa-sha2-nistp384'', ''ecdsa-sha2-nistp521'',
     ''sk-ssh-ed25519'' @ CHR 0x40 # ''openssh.com'', ''sk-ecdsa-sha2-nistp256'' @ CHR 0x40 # ''openssh.com'']"

definition host_key_type_length :: "string \<Rightarrow> nat" where
  "host_key_type_length bytes = foldl (\<lambda>n b. 256 * n + byte_code b) 0 (take 4 bytes)"

definition validate_host_key :: "string \<Rightarrow> string \<Rightarrow> runner_error + unit" where
  "validate_host_key key_type encoded =
     (if key_type \<notin> set HOST_KEY_TYPES \<or> encoded = [] \<or> length encoded > 32 * 1024 then Inl RunnerLocatorDenied
      else
        bindE (decode_base64 encoded) (\<lambda>decoded.
          if decoded = [] \<or> length decoded > 16 * 1024 \<or> length decoded < 4 then Inl RunnerLocatorDenied
          else
            let n = host_key_type_length decoded in
            if n = 0 \<or> n > 128 \<or> 4 + n > length decoded \<or> take n (drop 4 decoded) \<noteq> key_type
            then Inl RunnerLocatorDenied else Inr ()))"

section \<open>The manifest and the request\<close>

fun roots_refused :: "nat \<Rightarrow> string option \<Rightarrow> string set \<Rightarrow> string list \<Rightarrow> runner_error + unit" where
  "roots_refused mx prior seen [] = Inr ()"
| "roots_refused mx prior seen (root # roots) =
     bindE (runner_normalize_path root mx) (\<lambda>normalized.
       if normalized \<noteq> root \<or> (case prior of None \<Rightarrow> False | Some v \<Rightarrow> v \<ge> root) \<or> to_ascii_lowercase root \<in> seen
       then Inl InvalidRunnerManifest
       else roots_refused mx (Some root) (insert (to_ascii_lowercase root) seen) roots)"

definition runner_bounds :: "remote_manifest \<Rightarrow> bool" where
  "runner_bounds m \<longleftrightarrow> \<not> (rm_max_files m = 0 \<or> rm_max_files m > MAX_FILES
     \<or> rm_max_total_bytes m = 0 \<or> rm_max_total_bytes m > MAX_TOTAL_BYTES
     \<or> rm_max_file_bytes m = 0 \<or> rm_max_file_bytes m > rm_max_total_bytes m \<or> rm_max_file_bytes m > MAX_FILE_BYTES
     \<or> rm_max_path_bytes m = 0 \<or> rm_max_path_bytes m > MAX_PATH_BYTES
     \<or> rm_max_remote_work_bytes m < rm_max_total_bytes m \<or> rm_max_remote_work_bytes m > MAX_WORK_BYTES
     \<or> rm_max_bundle_bytes m = 0 \<or> rm_max_bundle_bytes m > rm_max_remote_work_bytes m \<or> rm_max_bundle_bytes m > MAX_BUNDLE_BYTES
     \<or> rm_max_output_bytes m = 0 \<or> rm_max_output_bytes m > RUNNER_MAX_OUTPUT_BYTES
     \<or> rm_wall_time_seconds m = 0 \<or> rm_wall_time_seconds m > MAX_WALL_SECONDS)"

definition runner_credentials :: "remote_manifest \<Rightarrow> bool" where
  "runner_credentials m =
     (case (rm_source_kind m, rm_credential_policy m, rm_broker m) of
        (HttpsRemote, NoCredential, None) \<Rightarrow>
          ed_port (rm_destination m) = 443
          \<and> rm_redacted_locator m = ''https://'' @ ed_host (rm_destination m) @ ''/<redacted>''
      | (SshBrokeredSource, SshAgentBrokerGrant, Some b) \<Rightarrow>
          ed_port (rm_destination m) = 22
          \<and> rm_redacted_locator m = ''ssh://'' @ ed_host (rm_destination m) @ ''/<redacted>''
          \<and> runner_is_digest (bb_handle_digest b) \<and> runner_is_digest (bb_executable_digest b)
          \<and> runner_is_digest (bb_request_digest b) \<and> runner_is_digest (bb_repository_digest b)
          \<and> runner_is_digest (bb_host_key_digest b) \<and> runner_is_digest (bb_selected_public_key_digest b)
      | _ \<Rightarrow> False)"

definition runner_manifest_validate :: "remote_env \<Rightarrow> remote_manifest \<Rightarrow> runner_error + unit" where
  "runner_manifest_validate X m =
     (if rm_schema_version m \<noteq> MANIFEST_VERSION
         \<or> rm_manifest_digest m \<noteq> domain_digest X ''remote-git-manifest'' (rx_manifest_jcs X (m\<lparr>rm_manifest_digest := []\<rparr>))
         \<or> \<not> runner_is_digest (rm_authority_digest m) \<or> \<not> runner_is_digest (rm_locator_digest m)
         \<or> ed_host (rm_destination m) \<notin> set RUNNER_ALLOWED_HOSTS
         \<or> \<not> runner_bounds m
         \<or> rm_checkout_policy m \<noteq> ''no_checkout''
         \<or> rm_egress_policy m \<noteq> ''application_connect_proxy_exact_destination''
         \<or> \<not> runner_is_digest (bk_image_digest (rm_backend m)) \<or> \<not> runner_is_digest (bk_runner_digest (rm_backend m))
         \<or> \<not> runner_is_digest (bk_egress_proxy_digest (rm_backend m))
         \<or> \<not> runner_is_digest (bk_ssh_agent_relay_digest (rm_backend m))
      then Inl InvalidRunnerManifest
      else if \<not> runner_credentials m then Inl InvalidRunnerManifest
      else
        bindE (runner_validate_revision (rm_revision m)) (\<lambda>_.
          roots_refused (rm_max_path_bytes m) None {} (rm_selected_roots m)))"

record ssh_input =
  si_repository :: string
  si_host_key_type :: string
  si_host_key_base64 :: string

record runner_request =
  rr_schema :: string
  rr_manifest :: remote_manifest
  rr_https_url :: "string option"
  rr_ssh :: "ssh_input option"

definition runner_request_validate :: "remote_env \<Rightarrow> runner_request \<Rightarrow> runner_error + unit" where
  "runner_request_validate X r =
     (if rr_schema r \<noteq> RUNNER_REQUEST_VERSION then Inl InvalidRunnerRequest
      else
        bindE (runner_manifest_validate X (rr_manifest r)) (\<lambda>_.
          case (rm_source_kind (rr_manifest r), rr_https_url r, rr_ssh r) of
            (HttpsRemote, Some url, None) \<Rightarrow>
              bindE (runner_validate_url url) (\<lambda>(host, canonical).
                if host \<noteq> ed_host (rm_destination (rr_manifest r))
                   \<or> domain_digest X ''remote-locator'' url \<noteq> rm_locator_digest (rr_manifest r)
                   \<or> canonical \<noteq> url
                then Inl RunnerLocatorDenied else Inr ())
          | (SshBrokeredSource, None, Some ssh) \<Rightarrow>
              bindE (ok_or InvalidRunnerManifest (rm_broker (rr_manifest r))) (\<lambda>broker.
                if domain_digest X ''ssh-repository'' (si_repository ssh) \<noteq> bb_repository_digest broker
                   \<or> domain_digest X ''ssh-host-key'' (si_host_key_type ssh @ '' '' @ si_host_key_base64 ssh) \<noteq> bb_host_key_digest broker
                   \<or> \<not> runner_is_digest (bb_selected_public_key_digest broker)
                then Inl RunnerLocatorDenied
                else
                  bindE (validate_repository (si_repository ssh)) (\<lambda>_.
                    validate_host_key (si_host_key_type ssh) (si_host_key_base64 ssh)))
          | _ \<Rightarrow> Inl InvalidRunnerRequest))"

end
