(* ===== verification/Runner_Bundle.thy ===== *)
theory Runner_Bundle
  imports Runner_Requests Source_Archive
begin

text \<open>
  The work of the remote git runner (\<open>promptectomy-remote-git-runner/src/lib.rs\<close>): the workspace and the
  arguments and environment of every \<open>git\<close> process, the capture of its output, the inventory of the
  commit, and the bundle that is streamed from \<open>git cat-file --batch\<close>. A \<open>git\<close> process is what it writes, in
  the order it is read, and how it ends; a directory is its tree.
\<close>

section \<open>The workspace\<close>

record git_plan =
  gp_neutral :: string
  gp_remote_config :: string
  gp_repository :: string
  gp_ssh_destination :: "string option"

datatype run_root = EmptyDirectory | OccupiedPath | NoSuchPath | UnreadablePath

definition host_path :: "string \<Rightarrow> string \<Rightarrow> string" where
  "host_path directory name = directory @ ''/'' @ name"

definition lines_of :: "string list \<Rightarrow> string" where
  "lines_of ls = concat (map (\<lambda>l. l @ [CHR 0x0A]) ls)"

definition ssh_config :: "string \<Rightarrow> ssh_input \<Rightarrow> string" where
  "ssh_config host ssh = lines_of ((''Host '' @ host) # map (\<lambda>l. CHR 0x09 # l)
     [''BatchMode yes'', ''CanonicalizeHostname no'', ''CheckHostIP no'', ''ClearAllForwardings yes'', ''Compression no'',
      ''ConnectionAttempts 1'', ''ConnectTimeout 10'', ''EnableEscapeCommandline no'', ''ForwardAgent no'', ''ForwardX11 no'',
      ''GlobalKnownHostsFile /dev/null'', ''HostKeyAlgorithms '' @ si_host_key_type ssh, ''HostName '' @ host,
      ''IdentitiesOnly no'', ''IdentityAgent '' @ SSH_AGENT_PATH, ''IdentityFile none'', ''KbdInteractiveAuthentication no'',
      ''PasswordAuthentication no'', ''PermitLocalCommand no'', ''Port 22'', ''PreferredAuthentications publickey'',
      ''ProxyCommand '' @ SSH_CONNECT_PROGRAM @ '' '' @ [CHR 0x25] @ ''h '' @ [CHR 0x25] @ ''p'', ''PubkeyAuthentication yes'',
      ''RequestTTY no'', ''StrictHostKeyChecking yes'', ''UpdateHostKeys no'', ''User git'',
      ''UserKnownHostsFile '' @ SSH_KNOWN_HOSTS_PATH, ''VerifyHostKeyDNS no''])"

text \<open>
  The new directory entries in the order they are made, each with its content (\<open>None\<close> for a directory);
  \<open>fails\<close> is whether making one fails.
\<close>

definition workspace_files :: "string \<Rightarrow> runner_request \<Rightarrow> string \<Rightarrow> (string \<times> string option) list" where
  "workspace_files neutral r locator =
     [(neutral, None), (host_path neutral ''empty-hooks'', None), (host_path neutral ''empty-config'', Some []),
      (host_path neutral ''empty-attributes'', Some []), (host_path neutral ''empty-excludes'', Some [])]
     @ (case rr_ssh r of
          None \<Rightarrow> []
        | Some ssh \<Rightarrow>
            [(host_path neutral ''ssh-config'', Some (ssh_config (ed_host (rm_destination (rr_manifest r))) ssh)),
             (host_path neutral ''known-hosts'', Some (lines_of
                [ed_host (rm_destination (rr_manifest r)) @ '' '' @ si_host_key_type ssh @ '' '' @ si_host_key_base64 ssh]))])
     @ [(host_path neutral ''remote-config'', Some (lines_of
          [''[url '' @ [CHR 0x22] @ locator @ [CHR 0x22] @ '']'', CHR 0x09 # ''insteadOf = '' @ PLACEHOLDER_URL]))]"

definition request_locator :: "runner_request \<Rightarrow> runner_error + string" where
  "request_locator r =
     (case rr_ssh r of
        None \<Rightarrow> ok_or InvalidRunnerRequest (rr_https_url r)
      | Some ssh \<Rightarrow> Inr (''ssh://git'' @ CHR 0x40 # ed_host (rm_destination (rr_manifest r)) @ ''/'' @ si_repository ssh))"

definition prepare_workspace :: "(string \<Rightarrow> bool) \<Rightarrow> run_root \<Rightarrow> string \<Rightarrow> runner_request
    \<Rightarrow> runner_error + git_plan \<times> (string \<times> string option) list" where
  "prepare_workspace fails found root r =
     (if found = OccupiedPath \<or> found = UnreadablePath \<or> (found = NoSuchPath \<and> fails root) then Inl WorkspaceUnavailable
      else
        let neutral = host_path root ''neutral'' in
        bindE (if list_ex fails (map fst (take 5 (workspace_files neutral r []))) then Inl WorkspaceUnavailable else Inr ()) (\<lambda>_.
        bindE (request_locator r) (\<lambda>locator.
          let made = workspace_files neutral r locator in
          if list_ex fails (map fst made) then Inl WorkspaceUnavailable
          else
            Inr (\<lparr>gp_neutral = neutral, gp_remote_config = host_path neutral ''remote-config'',
                  gp_repository = host_path root ''repository.git'',
                  gp_ssh_destination = map_option (\<lambda>_. ed_host (rm_destination (rr_manifest r)) @ '':22'') (rr_ssh r)\<rparr>, made))))"

section \<open>Processes\<close>

definition git_settings :: "git_plan \<Rightarrow> string list" where
  "git_settings plan =
     [''protocol.allow=never'', ''protocol.file.allow=never'', ''protocol.ext.allow=never'', ''protocol.git.allow=never'',
      ''protocol.http.allow=never'', ''include.path='' @ gp_remote_config plan,
      ''core.hooksPath='' @ host_path (gp_neutral plan) ''empty-hooks'',
      ''core.attributesFile='' @ host_path (gp_neutral plan) ''empty-attributes'',
      ''core.excludesFile='' @ host_path (gp_neutral plan) ''empty-excludes'',
      ''core.fsmonitor=false'', ''credential.helper='', ''credential.useHttpPath=true'', ''submodule.recurse=false'',
      ''fetch.recurseSubmodules=false'', ''filter.lfs.smudge='', ''filter.lfs.clean='', ''filter.lfs.process='',
      ''filter.lfs.required=false'', ''http.followRedirects=false'']
     @ (if gp_ssh_destination plan \<noteq> None
        then [''protocol.https.allow=never'', ''protocol.ssh.allow=always'', ''core.sshCommand='' @ SSH_COMMAND]
        else [''protocol.https.allow=always'', ''protocol.ssh.allow=never'', ''http.proxy='' @ PROXY_URL])"

definition git_arguments :: "git_plan \<Rightarrow> string list \<Rightarrow> string list" where
  "git_arguments plan command = concat (map (\<lambda>setting. [''-c'', setting]) (git_settings plan)) @ command"

definition git_environment :: "string \<Rightarrow> git_plan \<Rightarrow> (string \<times> string) list" where
  "git_environment current_dir plan =
     [(''HOME'', current_dir), (''LC_ALL'', ''C''), (''LANG'', ''C''), (''GIT_CONFIG_NOSYSTEM'', ''1''),
      (''GIT_CONFIG_GLOBAL'', ''/work/run/neutral/empty-config''), (''GIT_TERMINAL_PROMPT'', ''0''),
      (''GIT_ASKPASS'', ''/usr/bin/false''), (''GIT_LFS_SKIP_SMUDGE'', ''1''), (''GIT_OPTIONAL_LOCKS'', ''0'')]
     @ (case gp_ssh_destination plan of
          None \<Rightarrow> []
        | Some destination \<Rightarrow> [(''PROMPTECTOMY_SSH_DESTINATION'', destination), (''SSH_AUTH_SOCK'', SSH_AGENT_PATH),
            (''GIT_SSH_VARIANT'', ''ssh'')])"

text \<open>What one process does: chunks of its standard output (\<open>True\<close>) and standard error, as they are read, and its end.\<close>

datatype process_end = NotStarted | Exited bool | ReadFailed | DeadlineReached

record git_process =
  gpr_chunks :: "(bool \<times> string) list"
  gpr_end :: process_end

text \<open>\<open>capture_output\<close> of the two streams, which share the number of bytes observed.\<close>

fun capture_output :: "nat \<Rightarrow> nat \<Rightarrow> (bool \<times> string) list \<Rightarrow> runner_error + string" where
  "capture_output mx prior [] = Inr []"
| "capture_output mx prior ((retain, chunk) # chunks) =
     (if length chunk > mx \<or> prior > mx - length chunk then Inl RunnerGitOutputExceeded
      else bindE (capture_output mx (prior + length chunk) chunks) (\<lambda>captured.
        Inr ((if retain then chunk else []) @ captured)))"

definition run_git :: "nat \<Rightarrow> git_process \<Rightarrow> runner_error + string" where
  "run_git max_output_bytes p =
     (if gpr_end p = NotStarted then Inl GitUnavailable
      else
        bindE (capture_output max_output_bytes 0 (gpr_chunks p)) (\<lambda>stdout.
          case gpr_end p of
            Exited success \<Rightarrow> if success then Inr stdout else Inl RunnerGitFailed
          | DeadlineReached \<Rightarrow> Inl RunnerGitTimedOut
          | _ \<Rightarrow> Inl RunnerGitFailed))"

lemma capture_output_Inr:
  "capture_output mx prior chunks = Inr out \<Longrightarrow> prior \<le> mx \<Longrightarrow> prior + length out \<le> mx
     \<and> out = concat (map snd (filter fst chunks))"
  by (induction mx prior chunks arbitrary: out rule: capture_output.induct) (fastforce simp: bindE_eq_Inr split: if_splits)+

section \<open>The quota of the workspace\<close>

datatype work_node = WorkFile nat | WorkDirectory "work_node list option" | WorkOther | WorkUnreadable

fun node_weight :: "work_node \<Rightarrow> nat" where
  "node_weight (WorkDirectory (Some ns)) = Suc (sum_list (map node_weight ns))"
| "node_weight _ = 1"

text \<open>One directory: the cnt and the total go on, and its subdirectories are pushed.\<close>

fun quota_entries :: "nat \<Rightarrow> work_node list \<Rightarrow> work_node list option list \<Rightarrow> nat \<Rightarrow> nat
    \<Rightarrow> runner_error + work_node list option list \<times> nat \<times> nat" where
  "quota_entries mx [] stack cnt sofar = Inr (stack, cnt, sofar)"
| "quota_entries mx (n # ns) stack cnt sofar =
     (if cnt + 1 > MAX_WORK_ENTRIES then Inl WorkBytesExceeded
      else
        case n of
          WorkUnreadable \<Rightarrow> Inl WorkspaceUnavailable
        | WorkDirectory d \<Rightarrow> quota_entries mx ns (d # stack) (cnt + 1) sofar
        | WorkFile len \<Rightarrow>
            if sofar + len \<ge> 2 ^ 64 \<or> sofar + len > mx then Inl WorkBytesExceeded
            else quota_entries mx ns stack (cnt + 1) (sofar + len)
        | WorkOther \<Rightarrow> Inl WorkspaceUnavailable)"

definition stack_weight :: "work_node list option list \<Rightarrow> nat" where
  "stack_weight stack = sum_list (map (node_weight \<circ> WorkDirectory) stack)"

lemma quota_entries_weight:
  "quota_entries mx ns stack cnt sofar = Inr (stack', cnt', sofar') \<Longrightarrow>
     stack_weight stack' \<le> stack_weight stack + sum_list (map node_weight ns)"
  by (induction mx ns stack cnt sofar rule: quota_entries.induct)
    (fastforce simp: stack_weight_def split: if_splits work_node.splits)+

text \<open>The stack has its top in front.\<close>

function quota_loop :: "nat \<Rightarrow> work_node list option list \<Rightarrow> nat \<Rightarrow> nat \<Rightarrow> runner_error + unit" where
  "quota_loop mx [] cnt sofar = Inr ()"
| "quota_loop mx (None # stack) cnt sofar = Inl WorkspaceUnavailable"
| "quota_loop mx (Some ns # stack) cnt sofar =
     (case quota_entries mx ns stack cnt sofar of
        Inl e \<Rightarrow> Inl e
      | Inr (stack', cnt', sofar') \<Rightarrow> quota_loop mx stack' cnt' sofar')"
  by pat_completeness auto
termination
  by (relation "measure (\<lambda>(mx, stack, cnt, sofar). stack_weight stack)")
    (auto simp: stack_weight_def dest!: quota_entries_weight)

definition check_work_quota :: "work_node list option \<Rightarrow> nat \<Rightarrow> runner_error + unit" where
  "check_work_quota root max_bytes = quota_loop max_bytes [root] 0 0"

section \<open>The inventory\<close>

record tree_entry =
  te_path :: string
  te_object :: string
  te_size :: nat
  te_executable :: bool
  te_submodule :: bool

definition entry_kind :: "string \<Rightarrow> string \<Rightarrow> string \<Rightarrow> runner_error + bool \<times> bool \<times> nat" where
  "entry_kind mode kind v =
     (if mode = ''100644'' \<and> kind = ''blob'' then bindE (parse_size v) (\<lambda>n. Inr (False, False, n))
      else if mode = ''100755'' \<and> kind = ''blob'' then bindE (parse_size v) (\<lambda>n. Inr (True, False, n))
      else if mode = ''160000'' \<and> kind = ''commit'' \<and> v = ''-'' then Inr (False, True, 0)
      else Inl RunnerUnsafePath)"

fun inventory_records :: "remote_manifest \<Rightarrow> string list \<Rightarrow> string set \<Rightarrow> nat \<Rightarrow> tree_entry list
    \<Rightarrow> runner_error + tree_entry list" where
  "inventory_records m [] seen sofar entries = Inr entries"
| "inventory_records m (r # records) seen sofar entries =
     bindE (ok_or RunnerInvalidGitOutput (split_once CHR 0x09 r)) (\<lambda>(metadata, raw).
       if \<not> utf8_valid metadata then Inl RunnerInvalidGitOutput
       else
         case ascii_words metadata of
           [mode, kind, object, v] \<Rightarrow>
             bindE (runner_normalize_path raw (rm_max_path_bytes m)) (\<lambda>path.
               if to_ascii_lowercase path \<in> seen then Inl RunnerPathCollision
               else if \<not> runner_selected path (rm_selected_roots m) then
                 inventory_records m records (insert (to_ascii_lowercase path) seen) sofar entries
               else if length entries \<ge> rm_max_files m then Inl RunnerFileCountExceeded
               else if \<not> runner_valid_object_id object then Inl RunnerInvalidGitOutput
               else
                 bindE (entry_kind mode kind v) (\<lambda>(executable, submodule, n).
                   if n > rm_max_file_bytes m then Inl RunnerFileBytesExceeded
                   else if sofar + n \<ge> 2 ^ 64 \<or> sofar + n > rm_max_total_bytes m then Inl RunnerTotalBytesExceeded
                   else
                     inventory_records m records (insert (to_ascii_lowercase path) seen) (sofar + n)
                       (entries @ [\<lparr>te_path = path, te_object = object, te_size = n, te_executable = executable,
                          te_submodule = submodule\<rparr>])))
         | _ \<Rightarrow> Inl RunnerInvalidGitOutput)"

definition parse_inventory :: "string \<Rightarrow> remote_manifest \<Rightarrow> runner_error + tree_entry list" where
  "parse_inventory output m =
     bindE (inventory_records m (filter (\<lambda>r. r \<noteq> []) (split_on CHR 0x00 output)) {} 0 []) (\<lambda>entries.
       Inr (sort_key te_path entries))"

section \<open>The bundle\<close>

text \<open>The canonical JSON text (RFC 8785) of a file of the bundle: members in order, strings with the fixed escapes.\<close>

definition json_escape :: "char \<Rightarrow> string" where
  "json_escape c =
     (let n = byte_code c in
      if n = 0x22 then [CHR 0x5C, CHR 0x22] else if n = 0x5C then [CHR 0x5C, CHR 0x5C]
      else if n = 8 then CHR 0x5C # ''b'' else if n = 9 then CHR 0x5C # ''t'' else if n = 10 then CHR 0x5C # ''n''
      else if n = 12 then CHR 0x5C # ''f'' else if n = 13 then CHR 0x5C # ''r''
      else if n < 32 then CHR 0x5C # ''u00'' @ [hex_digit (n div 16), hex_digit (n mod 16)]
      else [c])"

definition json_quoted :: "string \<Rightarrow> string" where
  "json_quoted s = CHR 0x22 # concat (map json_escape s) @ [CHR 0x22]"

definition bundle_file_text :: "bundle_file \<Rightarrow> string" where
  "bundle_file_text f = ''{'' @ json_quoted ''content_hex'' @ '':'' @ json_quoted (bf_content_hex f)
     @ '','' @ json_quoted ''digest'' @ '':'' @ json_quoted (bf_digest f)
     @ '','' @ json_quoted ''executable'' @ '':'' @ (if bf_executable f then ''true'' else ''false'')
     @ '','' @ json_quoted ''path'' @ '':'' @ json_quoted (bf_path f) @ ''}''"

definition BUNDLE_PREFIX :: string where "BUNDLE_PREFIX = ''{'' @ json_quoted ''files'' @ '':[''"
definition BUNDLE_SUFFIX :: string where
  "BUNDLE_SUFFIX = ''],'' @ json_quoted ''version'' @ '':'' @ json_quoted ''promptectomy-source-bundle-1'' @ ''}''"

definition bundle_text :: "bundle_file list \<Rightarrow> string" where
  "bundle_text files = BUNDLE_PREFIX @ join_with CHR '','' (map bundle_file_text files) @ BUNDLE_SUFFIX"

definition empty_bundle_file :: "tree_entry \<Rightarrow> bundle_file" where
  "empty_bundle_file e = \<lparr>bf_path = te_path e, bf_executable = te_executable e, bf_content_hex = [],
     bf_digest = ''sha256:'' @ replicate 64 CHR ''0''\<rparr>"

text \<open>Sums and products that overflow 64 bits are refused; as all are of naturals, so is the last sum.\<close>

fun projected_bytes :: "nat \<Rightarrow> nat \<Rightarrow> tree_entry list \<Rightarrow> runner_error + nat" where
  "projected_bytes file_cnt sofar [] = Inr sofar"
| "projected_bytes file_cnt sofar (e # es) =
     (let sofar' = sofar + length (bundle_file_text (empty_bundle_file e)) + 2 * te_size e + (if file_cnt \<noteq> 0 then 1 else 0)
      in if sofar' \<ge> 2 ^ 64 then Inl BundleBytesExceeded else projected_bytes (file_cnt + 1) sofar' es)"

definition projected_bundle_bytes :: "tree_entry list \<Rightarrow> runner_error + nat" where
  "projected_bundle_bytes entries =
     projected_bytes 0 (length BUNDLE_PREFIX + length BUNDLE_SUFFIX) (filter (\<lambda>e. \<not> te_submodule e) entries)"

definition parse_batch_header :: "string \<Rightarrow> tree_entry \<Rightarrow> runner_error + unit" where
  "parse_batch_header header e =
     (if \<not> list_all is_ascii header then Inl RunnerInvalidGitOutput
      else
        case ascii_words header of
          [object, kind, n] \<Rightarrow>
            if object \<noteq> te_object e \<or> kind \<noteq> ''blob'' \<or> parse_unsigned (2 ^ 64) n \<noteq> Some (te_size e)
            then Inl RunnerInvalidGitOutput else Inr ()
        | _ \<Rightarrow> Inl RunnerInvalidGitOutput)"

text \<open>\<open>read_batch_blob\<close> takes a header line, as many bytes as the entry has, and a newline from what the process writes.\<close>

definition read_batch_blob :: "string \<Rightarrow> tree_entry \<Rightarrow> runner_error + string \<times> string" where
  "read_batch_blob stream e =
     bindE (ok_or RunnerInvalidGitOutput (split_once CHR 0x0A stream)) (\<lambda>(header, rest).
       if length header \<ge> MAX_BATCH_HEADER_BYTES then Inl RunnerInvalidGitOutput
       else
         bindE (parse_batch_header header e) (\<lambda>_.
           if length rest \<le> te_size e then Inl RunnerInvalidGitOutput
           else if rest ! te_size e \<noteq> CHR 0x0A then Inl RunnerInvalidGitOutput
           else Inr (take (te_size e) rest, drop (Suc (te_size e)) rest)))"

definition bundle_file_of :: "env \<Rightarrow> tree_entry \<Rightarrow> string \<Rightarrow> bundle_file" where
  "bundle_file_of E e content = \<lparr>bf_path = te_path e, bf_executable = te_executable e,
     bf_content_hex = hex_encode content, bf_digest = digest_string E content\<rparr>"

fun batch_files :: "env \<Rightarrow> tree_entry list \<Rightarrow> string \<Rightarrow> runner_error + bundle_file list" where
  "batch_files E [] stream = Inr []"
| "batch_files E (e # es) stream =
     (if te_submodule e then batch_files E es stream
      else
        bindE (read_batch_blob stream e) (\<lambda>(content, rest).
        bindE (batch_files E es rest) (\<lambda>files. Inr (bundle_file_of E e content # files))))"

text \<open>
  What the batch process writes and how it ends, and whether the output file can be made and written.
  Where several things go wrong at once the first of them in time decides; they are listed in one order.
\<close>

record batch_run =
  bn_output_opened :: bool
  bn_stdout :: string
  bn_stderr :: "string list"
  bn_end :: process_end
  bn_output_written :: bool

definition materialize_bundle :: "remote_env \<Rightarrow> tree_entry list \<Rightarrow> remote_manifest \<Rightarrow> batch_run \<Rightarrow> runner_error + string \<times> string" where
  "materialize_bundle X entries m B =
     bindE (projected_bundle_bytes entries) (\<lambda>projected.
       if projected > rm_max_bundle_bytes m then Inl BundleBytesExceeded
       else if \<not> bn_output_opened B then Inl OutputUnavailable
       else if bn_end B = NotStarted then Inl GitUnavailable
       else
         bindE (capture_output (rm_max_output_bytes m) 0 (map (Pair False) (bn_stderr B))) (\<lambda>_.
           if bn_end B = DeadlineReached then Inl RunnerGitTimedOut
           else
             bindE (batch_files (rx_env X) entries (bn_stdout B)) (\<lambda>files.
               if bn_end B \<noteq> Exited True then Inl RunnerGitFailed
               else if \<not> bn_output_written B then Inl OutputUnavailable
               else if length (bundle_text files) \<noteq> projected then Inl BundleBytesExceeded
               else Inr (bundle_text files, domain_digest X ''remote-source-bundle'' (bundle_text files)))))"

section \<open>A run\<close>

text \<open>What the machine does: one process for each list of arguments, the workspace after the two writing stages.\<close>

record runner_world =
  rw_remote :: remote_env
  rw_socket :: bool
  rw_fails :: "string \<Rightarrow> bool"
  rw_root :: run_root
  rw_git :: "string list \<Rightarrow> (string \<times> string) list \<Rightarrow> git_process"
  rw_work_init :: "work_node list option"
  rw_work_fetch :: "work_node list option"
  rw_batch :: "string list \<Rightarrow> (string \<times> string) list \<Rightarrow> batch_run"
  rw_git_metadata :: "file_metadata option"
  rw_git_bytes :: "string option"

definition RUN_ROOT :: string where "RUN_ROOT = ''/work/run''"

definition fetch_inventory :: "runner_world \<Rightarrow> remote_manifest \<Rightarrow> git_plan \<Rightarrow> runner_error + string \<times> tree_entry list" where
  "fetch_inventory W m plan =
     (let git = (\<lambda>directory command mx. run_git mx (rw_git W (git_arguments plan command) (git_environment directory plan))) in
      bindE (git RUN_ROOT [''init'', ''--quiet'', ''--bare'', ''repository.git''] 256) (\<lambda>_.
      bindE (check_work_quota (rw_work_init W) (rm_max_remote_work_bytes m)) (\<lambda>_.
      bindE (git (gp_repository plan) [''fetch'', ''--depth=1'', ''--no-tags'', ''--no-recurse-submodules'', ''--'',
              PLACEHOLDER_URL, rm_revision m] (rm_max_output_bytes m)) (\<lambda>_.
      bindE (check_work_quota (rw_work_fetch W) (rm_max_remote_work_bytes m)) (\<lambda>_.
      bindE (git (gp_repository plan) [''rev-parse'', ''--verify'', ''FETCH_HEAD^{commit}''] 256) (\<lambda>commit_output.
      bindE (parse_object_id commit_output) (\<lambda>commit.
      bindE (git (gp_repository plan) [''ls-tree'', ''-rlz'', ''--full-tree'', commit] (rm_max_output_bytes m)) (\<lambda>inventory_output.
      bindE (parse_inventory inventory_output m) (\<lambda>entries.
        if list_all te_submodule entries then Inl RunnerEmptySelection else Inr (commit, entries))))))))))"

definition digest_file :: "env \<Rightarrow> file_metadata option \<Rightarrow> string option \<Rightarrow> nat \<Rightarrow> runner_error + string" where
  "digest_file E metadata bytes mx =
     bindE (ok_or GitUnavailable metadata) (\<lambda>f.
       if fm_kind f \<noteq> RegularFile \<or> fm_len f > mx then Inl GitUnavailable
       else bindE (ok_or GitUnavailable bytes) (\<lambda>b. Inr (digest_string E b)))"

record success_result =
  sr_schema_version :: string
  sr_manifest_digest :: string
  sr_resolved_commit :: string
  sr_source_bundle_digest :: string
  sr_git_binary_digest :: string
  sr_git_execution_neutralized :: bool
  sr_credentials_isolated :: bool

text \<open>The result together with the bundle that is left in the output directory.\<close>

definition execute_request :: "runner_world \<Rightarrow> runner_request \<Rightarrow> runner_error + success_result \<times> string" where
  "execute_request W r =
     bindE (if rr_ssh r \<noteq> None \<and> \<not> rw_socket W then Inl SshRelayUnavailable else Inr ()) (\<lambda>_.
     bindE (prepare_workspace (rw_fails W) (rw_root W) RUN_ROOT r) (\<lambda>(plan, _).
     bindE (fetch_inventory W (rr_manifest r) plan) (\<lambda>(commit, entries).
     bindE (materialize_bundle (rw_remote W) entries (rr_manifest r)
              (rw_batch W (git_arguments plan [''cat-file'', ''--batch'']) (git_environment (gp_repository plan) plan))) (\<lambda>(bundle, digest).
     bindE (digest_file (rx_env (rw_remote W)) (rw_git_metadata W) (rw_git_bytes W) (32 * 1024 * 1024)) (\<lambda>git_digest.
       Inr (\<lparr>sr_schema_version = RESULT_VERSION, sr_manifest_digest = rm_manifest_digest (rr_manifest r),
             sr_resolved_commit = commit, sr_source_bundle_digest = digest, sr_git_binary_digest = git_digest,
             sr_git_execution_neutralized = True, sr_credentials_isolated = True\<rparr>, bundle))))))"

end
