(* ===== verification/Runner_Theorems.thy ===== *)
theory Runner_Theorems
  imports Runner_Bundle Acquisition_Theorems
begin

text \<open>Properties of the remote git runner, alone and together with the host that reads its bundle.\<close>

section \<open>The two path policies agree\<close>

lemma component_refused_iff: "runner_component_refused c \<longleftrightarrow> \<not> safe_component c"
  by (auto simp: runner_component_refused_def safe_component_def normalize_component_def
      RUNNER_WINDOWS_DEVICES_def WINDOWS_DEVICES_def split: if_splits)

lemma runner_normalize_path_Inr:
  "runner_normalize_path raw mx = Inr p \<longleftrightarrow> p = raw \<and> safe_path raw \<and> length raw \<le> mx"
  by (auto simp: runner_normalize_path_def safe_path_def component_refused_iff list_ex_iff list_all_iff)

lemma runner_selected_iff: "runner_selected path roots \<longleftrightarrow> selected path roots"
  by (simp add: runner_selected_def selected_def)

lemma runner_is_digest_iff: "runner_is_digest v \<longleftrightarrow> is_sha256_digest v"
  by (simp add: runner_is_digest_def is_sha256_digest_def is_ascii_hexdigit_def)

section \<open>The projected size\<close>

lemma escape_plain: "32 \<le> byte_code c \<Longrightarrow> byte_code c \<noteq> 0x22 \<Longrightarrow> byte_code c \<noteq> 0x5C \<Longrightarrow> json_escape c = [c]"
  by (simp add: json_escape_def Let_def)

lemma escape_hex: "is_lower_hex c \<Longrightarrow> json_escape c = [c]"
  by (rule escape_plain) (auto simp: byte_class_defs less_eq_char_def)

lemma quoted_hex: "list_all is_lower_hex s \<Longrightarrow> json_quoted s = CHR 0x22 # s @ [CHR 0x22]"
  by (induction s) (auto simp: json_quoted_def escape_hex)

lemma quoted_append: "json_quoted (s @ t) = CHR 0x22 # concat (map json_escape s) @ tl (json_quoted t)"
  by (simp add: json_quoted_def)

lemma length_quoted_digest:
  assumes "length h = 64" "list_all is_lower_hex h"
  shows "length (json_quoted (''sha256:'' @ h)) = 73"
  using quoted_hex [OF assms(2)] assms(1) by (simp add: quoted_append json_escape_def del: append.simps)

lemma length_bundle_file:
  assumes "length (sha256 E content) = 32"
  shows "length (bundle_file_text (bundle_file_of E e content))
      = length (bundle_file_text (empty_bundle_file e)) + 2 * length content"
proof -
  have "length (json_quoted (digest_string E content)) = 73"
    using assms hex_encode_lower_hex by (simp add: digest_string_def length_quoted_digest del: append.simps)
  moreover have "length (json_quoted (''sha256:'' @ replicate 64 CHR ''0'')) = 73"
    by (rule length_quoted_digest) (simp_all add: list_all_iff byte_class_defs less_eq_char_def)
  moreover have "length (json_quoted (hex_encode content)) = length (json_quoted []) + 2 * length content"
    using quoted_hex [OF hex_encode_lower_hex] by (simp add: json_quoted_def)
  ultimately show ?thesis
    by (simp add: bundle_file_text_def bundle_file_of_def empty_bundle_file_def del: append.simps)
qed

lemma length_join: "length (join_with c ps) = sum_list (map length ps) + (length ps - 1)"
  by (induction c ps rule: join_with.induct) auto

lemma projected_bytes_Inr:
  "projected_bytes k sofar es = Inr n \<Longrightarrow>
     n = sofar + sum_list (map (\<lambda>e. length (bundle_file_text (empty_bundle_file e)) + 2 * te_size e) es)
       + (if k = 0 then length es - 1 else length es)"
  by (induction k sofar es rule: projected_bytes.induct) (auto simp: Let_def split: if_splits)

lemma batch_files_Inr:
  "batch_files E es stream = Inr files \<Longrightarrow>
     \<exists>contents. list_all2 (\<lambda>e c. length c = te_size e) (filter (\<lambda>e. \<not> te_submodule e) es) contents
       \<and> files = map2 (bundle_file_of E) (filter (\<lambda>e. \<not> te_submodule e) es) contents"
proof (induction es arbitrary: stream files)
  case (Cons e es)
  show ?case
  proof (cases "te_submodule e")
    case False
    with Cons.prems obtain content rest fs where b: "read_batch_blob stream e = Inr (content, rest)"
      and fs: "batch_files E es rest = Inr fs" "files = bundle_file_of E e content # fs"
      by (auto simp: bindE_eq_Inr)
    from b have "length content = te_size e" by (auto simp: read_batch_blob_def bindE_eq_Inr split: if_splits)
    with Cons.IH [OF fs(1)] fs(2) False show ?thesis by (auto intro: exI [of _ "content # _"])
  qed (use Cons in auto)
qed simp

text \<open>A bundle that is finished has the size that was projected before the first blob was read.\<close>

lemma projected_exact:
  assumes "\<forall>x. length (sha256 E x) = 32" "projected_bundle_bytes es = Inr n" "batch_files E es stream = Inr files"
  shows "length (bundle_text files) = n"
proof -
  let ?es = "filter (\<lambda>e. \<not> te_submodule e) es"
  from batch_files_Inr [OF assms(3)] obtain contents where c: "list_all2 (\<lambda>e c. length c = te_size e) ?es contents"
    and files: "files = map2 (bundle_file_of E) ?es contents" by blast
  from c have "sum_list (map (\<lambda>f. length (bundle_file_text f)) (map2 (bundle_file_of E) ?es contents))
      = sum_list (map (\<lambda>e. length (bundle_file_text (empty_bundle_file e)) + 2 * te_size e) ?es)"
    by (induction rule: list_all2_induct) (simp_all add: length_bundle_file assms(1))
  moreover have "length files = length ?es" using c files by (simp add: list_all2_lengthD)
  moreover have "n = length BUNDLE_PREFIX + length BUNDLE_SUFFIX
      + sum_list (map (\<lambda>e. length (bundle_file_text (empty_bundle_file e)) + 2 * te_size e) ?es) + (length ?es - 1)"
    using projected_bytes_Inr [OF assms(2) [unfolded projected_bundle_bytes_def]] by simp
  ultimately show ?thesis by (simp add: bundle_text_def length_join comp_def files)
qed

section \<open>The two manifest checks agree\<close>

lemma roots_refused_Inr:
  "roots_refused mx prior seen roots = Inr () \<longleftrightarrow>
     list_all (\<lambda>r. safe_path r \<and> length r \<le> mx \<and> to_ascii_lowercase r \<notin> seen) roots
     \<and> distinct (map to_ascii_lowercase roots) \<and> sorted_wrt (<) (case prior of None \<Rightarrow> roots | Some p \<Rightarrow> p # roots)"
proof (induction roots arbitrary: prior seen)
  case (Cons r roots)
  then show ?case
    by (cases prior) (auto simp: bindE_eq_Inr runner_normalize_path_Inr list_all_iff not_le intro: rev_image_eqI)
qed (simp split: option.split)

lemma strictly_sorted: "sorted_wrt (<) (rs :: string list) \<longleftrightarrow> sorted rs \<and> distinct rs"
  by (rule strict_sorted_iff)

lemma roots_agree:
  "roots_refused mx None {} roots = Inr () \<longleftrightarrow> normalize_selected_roots roots mx = Inr roots"
proof -
  have "distinct (map to_ascii_lowercase roots) \<Longrightarrow> distinct roots" by (simp add: distinct_map)
  moreover have "roots = sort roots \<longleftrightarrow> sorted roots" by (metis sorted_sort sorted_sort_id)
  ultimately show ?thesis by (auto simp: roots_refused_Inr normalize_selected_roots_Inr strictly_sorted list_all_iff)
qed

lemma allowed_host_iff: "validate_allowed_remote_host h = Inr h \<longleftrightarrow> h \<in> set RUNNER_ALLOWED_HOSTS"
proof
  assume "validate_allowed_remote_host h = Inr h"
  then show "h \<in> set RUNNER_ALLOWED_HOSTS"
    using allowed_host by (fastforce simp: RUNNER_ALLOWED_HOSTS_def ALLOWED_REMOTE_HOSTS_def)
next
  have "list_all (\<lambda>h. validate_allowed_remote_host h = Inr h) RUNNER_ALLOWED_HOSTS" by code_simp
  then show "h \<in> set RUNNER_ALLOWED_HOSTS \<Longrightarrow> validate_allowed_remote_host h = Inr h" by (simp add: list_all_iff)
qed

definition within_runner_caps :: "remote_manifest \<Rightarrow> bool" where
  "within_runner_caps m \<longleftrightarrow> rm_max_files m \<le> 100000 \<and> rm_max_total_bytes m \<le> 33554432 \<and> rm_max_file_bytes m \<le> 16777216
     \<and> rm_max_path_bytes m \<le> 1024 \<and> rm_max_remote_work_bytes m \<le> 268435456 \<and> rm_max_bundle_bytes m \<le> 67108864
     \<and> rm_max_output_bytes m \<le> 4194304 \<and> rm_wall_time_seconds m \<le> 300"

lemma bounds_agree: "runner_bounds m \<longleftrightarrow> manifest_bounds m \<and> within_runner_caps m"
  by (auto simp: runner_bounds_def manifest_bounds_def within_runner_caps_def MAX_FILES_def MAX_TOTAL_BYTES_def
      MAX_FILE_BYTES_def MAX_PATH_BYTES_def MAX_WORK_BYTES_def MAX_BUNDLE_BYTES_def RUNNER_MAX_OUTPUT_BYTES_def MAX_WALL_SECONDS_def)

lemma credentials_agree: "runner_credentials m \<longleftrightarrow> credential_matches m"
  by (simp add: runner_credentials_def credential_matches_def binding_digests_def runner_is_digest_iff
      split: source_kind.split remote_credential_policy.split option.split)

lemma revisions_agree: "runner_validate_revision v = Inr () \<longleftrightarrow> validate_revision v = Inr ()"
  by (simp add: runner_validate_revision_def validate_revision_def)

lemma host_manifest_Inr:
  "manifest_validate X m = Inr () \<longleftrightarrow> rm_schema_version m = REMOTE_GIT_MANIFEST_VERSION \<and> rm_manifest_digest m = computed_digest X m
     \<and> is_sha256_digest (rm_authority_digest m) \<and> is_sha256_digest (rm_locator_digest m)
     \<and> rm_checkout_policy m = ''no_checkout'' \<and> rm_egress_policy m = ''application_connect_proxy_exact_destination''
     \<and> manifest_bounds m \<and> is_sha256_digest (bk_image_digest (rm_backend m)) \<and> is_sha256_digest (bk_runner_digest (rm_backend m))
     \<and> is_sha256_digest (bk_egress_proxy_digest (rm_backend m)) \<and> is_sha256_digest (bk_ssh_agent_relay_digest (rm_backend m))
     \<and> validate_revision (rm_revision m) = Inr ()
     \<and> normalize_selected_roots (rm_selected_roots m) (rm_max_path_bytes m) = Inr (rm_selected_roots m)
     \<and> validate_allowed_remote_host (ed_host (rm_destination m)) = Inr (ed_host (rm_destination m)) \<and> credential_matches m"
  unfolding manifest_validate_def backend_validate_def by (auto simp: bindE_eq_Inr map_err_eq_Inr)

lemma runner_manifest_Inr:
  "runner_manifest_validate X m = Inr () \<longleftrightarrow> rm_schema_version m = MANIFEST_VERSION \<and> rm_manifest_digest m = computed_digest X m
     \<and> is_sha256_digest (rm_authority_digest m) \<and> is_sha256_digest (rm_locator_digest m)
     \<and> rm_checkout_policy m = ''no_checkout'' \<and> rm_egress_policy m = ''application_connect_proxy_exact_destination''
     \<and> runner_bounds m \<and> is_sha256_digest (bk_image_digest (rm_backend m)) \<and> is_sha256_digest (bk_runner_digest (rm_backend m))
     \<and> is_sha256_digest (bk_egress_proxy_digest (rm_backend m)) \<and> is_sha256_digest (bk_ssh_agent_relay_digest (rm_backend m))
     \<and> runner_validate_revision (rm_revision m) = Inr ()
     \<and> roots_refused (rm_max_path_bytes m) None {} (rm_selected_roots m) = Inr ()
     \<and> ed_host (rm_destination m) \<in> set RUNNER_ALLOWED_HOSTS \<and> runner_credentials m"
  unfolding runner_manifest_validate_def by (auto simp: bindE_eq_Inr runner_is_digest_iff computed_digest_def)

text \<open>C33 (manifest agreement). The runner, which checks a manifest on its own in the container, accepts exactly the manifests that the
  host's check accepts and whose bounds are within the runner's fixed ones.\<close>

theorem runner_manifest_agrees:
  "(runner_manifest_validate X m = Inr ()) = (manifest_validate X m = Inr () \<and> within_runner_caps m)"
  unfolding host_manifest_Inr runner_manifest_Inr bounds_agree credentials_agree revisions_agree roots_agree allowed_host_iff
  by (auto simp: MANIFEST_VERSION_def REMOTE_GIT_MANIFEST_VERSION_def)

section \<open>What git is told\<close>

text \<open>
  The git processes that a run may start, for a host, a revision and whether the source is reached by SSH: directory by
  directory, their arguments and their environment. Neither a locator nor a host key is among the parameters.
\<close>

definition run_plan :: "string \<Rightarrow> bool \<Rightarrow> git_plan" where
  "run_plan host ssh = \<lparr>gp_neutral = ''/work/run/neutral'', gp_remote_config = ''/work/run/neutral/remote-config'',
     gp_repository = ''/work/run/repository.git'', gp_ssh_destination = (if ssh then Some (host @ '':22'') else None)\<rparr>"

inductive git_call :: "string \<Rightarrow> string \<Rightarrow> bool \<Rightarrow> string list \<Rightarrow> (string \<times> string) list \<Rightarrow> bool" for host revision ssh where
  call_init: "git_call host revision ssh
    (git_arguments (run_plan host ssh) [''init'', ''--quiet'', ''--bare'', ''repository.git''])
    (git_environment ''/work/run'' (run_plan host ssh))"
| call_fetch: "git_call host revision ssh
    (git_arguments (run_plan host ssh) [''fetch'', ''--depth=1'', ''--no-tags'', ''--no-recurse-submodules'', ''--'',
       ''https://promptectomy.invalid/source'', revision])
    (git_environment ''/work/run/repository.git'' (run_plan host ssh))"
| call_rev_parse: "git_call host revision ssh
    (git_arguments (run_plan host ssh) [''rev-parse'', ''--verify'', ''FETCH_HEAD^{commit}''])
    (git_environment ''/work/run/repository.git'' (run_plan host ssh))"
| call_ls_tree: "runner_valid_object_id commit \<Longrightarrow> git_call host revision ssh
    (git_arguments (run_plan host ssh) [''ls-tree'', ''-rlz'', ''--full-tree'', commit])
    (git_environment ''/work/run/repository.git'' (run_plan host ssh))"
| call_cat_file: "git_call host revision ssh
    (git_arguments (run_plan host ssh) [''cat-file'', ''--batch''])
    (git_environment ''/work/run/repository.git'' (run_plan host ssh))"

lemma prepared_plan:
  assumes "prepare_workspace fails found RUN_ROOT r = Inr (plan, made)"
  shows "plan = run_plan (ed_host (rm_destination (rr_manifest r))) (rr_ssh r \<noteq> None)"
  using assms by (cases "rr_ssh r")
    (auto simp: prepare_workspace_def Let_def bindE_eq_Inr run_plan_def host_path_def RUN_ROOT_def split: if_splits)

lemma parse_object_id_valid: "parse_object_id v = Inr commit \<Longrightarrow> runner_valid_object_id commit"
  by (auto simp: parse_object_id_def Let_def split: if_splits)

lemma bindE_same: "(\<And>x. m = Inr x \<Longrightarrow> k x = k' x) \<Longrightarrow> bindE m k = bindE m k'"
  by (cases m) simp_all

lemma fetch_inventory_calls:
  assumes "\<And>args env. git_call host (rm_revision m) ssh args env \<Longrightarrow> g args env = rw_git W args env"
  shows "fetch_inventory (W\<lparr>rw_git := g, rw_batch := b\<rparr>) m (run_plan host ssh) = fetch_inventory W m (run_plan host ssh)"
proof -
  note calls = assms [OF call_init] assms [OF call_fetch] assms [OF call_rev_parse]
  have listed: "g (git_arguments (run_plan host ssh) [''ls-tree'', ''-rlz'', ''--full-tree'', commit])
        (git_environment ''/work/run/repository.git'' (run_plan host ssh))
      = rw_git W (git_arguments (run_plan host ssh) [''ls-tree'', ''-rlz'', ''--full-tree'', commit])
        (git_environment ''/work/run/repository.git'' (run_plan host ssh))"
    if "parse_object_id v = Inr commit" for v commit
    by (rule assms [OF call_ls_tree [OF parse_object_id_valid [OF that]]])
  have plan: "gp_repository (run_plan host ssh) = ''/work/run/repository.git''" by (simp add: run_plan_def)
  have world: "rw_git (W\<lparr>rw_git := g, rw_batch := b\<rparr>) = g" "rw_work_init (W\<lparr>rw_git := g, rw_batch := b\<rparr>) = rw_work_init W"
    "rw_work_fetch (W\<lparr>rw_git := g, rw_batch := b\<rparr>) = rw_work_fetch W" by simp_all
  show ?thesis
    unfolding fetch_inventory_def Let_def RUN_ROOT_def PLACEHOLDER_URL_def plan world calls
    by (intro bindE_same) (simp only: listed)
qed

text \<open>C34 (locator). Every git process that \<open>execute_request\<close> starts is one of five: \<open>init\<close>, \<open>fetch\<close> of the placeholder address at
  the revision of the manifest, \<open>rev-parse\<close>, \<open>ls-tree\<close> of a valid object name and \<open>cat-file\<close>, each with the fixed settings
  and environment that depend only on the host of the manifest and on whether the source is reached by SSH. So whatever git does on
  any other arguments or environment, in particular on ones that contain the locator or the host key, has no effect on a run: the
  locator reaches git in the configuration file alone.\<close>

theorem locator_stays_in_files:
  assumes "\<And>args env. git_call (ed_host (rm_destination (rr_manifest r))) (rm_revision (rr_manifest r)) (rr_ssh r \<noteq> None) args env
    \<Longrightarrow> g args env = rw_git W args env \<and> b args env = rw_batch W args env"
  shows "execute_request (W\<lparr>rw_git := g, rw_batch := b\<rparr>) r = execute_request W r"
proof -
  let ?host = "ed_host (rm_destination (rr_manifest r))" and ?ssh = "rr_ssh r \<noteq> None"
  have same: "prepare_workspace (rw_fails W) (rw_root W) RUN_ROOT r = Inr p \<Longrightarrow>
      fst p = run_plan ?host ?ssh" for p
    using prepared_plan by (cases p) simp
  have fetched: "fetch_inventory (W\<lparr>rw_git := g, rw_batch := b\<rparr>) (rr_manifest r) (run_plan ?host ?ssh)
      = fetch_inventory W (rr_manifest r) (run_plan ?host ?ssh)"
    using assms by (intro fetch_inventory_calls) simp
  have batch: "b (git_arguments (run_plan ?host ?ssh) [''cat-file'', ''--batch''])
        (git_environment (gp_repository (run_plan ?host ?ssh)) (run_plan ?host ?ssh))
      = rw_batch W (git_arguments (run_plan ?host ?ssh) [''cat-file'', ''--batch''])
        (git_environment (gp_repository (run_plan ?host ?ssh)) (run_plan ?host ?ssh))"
    using assms [OF call_cat_file] by (simp add: run_plan_def)
  have world: "rw_remote (W\<lparr>rw_git := g, rw_batch := b\<rparr>) = rw_remote W" "rw_socket (W\<lparr>rw_git := g, rw_batch := b\<rparr>) = rw_socket W"
    "rw_fails (W\<lparr>rw_git := g, rw_batch := b\<rparr>) = rw_fails W" "rw_root (W\<lparr>rw_git := g, rw_batch := b\<rparr>) = rw_root W"
    "rw_batch (W\<lparr>rw_git := g, rw_batch := b\<rparr>) = b" "rw_git_metadata (W\<lparr>rw_git := g, rw_batch := b\<rparr>) = rw_git_metadata W"
    "rw_git_bytes (W\<lparr>rw_git := g, rw_batch := b\<rparr>) = rw_git_bytes W"
    by simp_all
  show ?thesis
    unfolding execute_request_def world
  proof (intro bindE_same, goal_cases)
    case (1 u p)
    obtain plan made where pm: "p = (plan, made)" by (cases p)
    from same [OF 1(2)] have plan: "plan = run_plan ?host ?ssh" by (simp only: pm fst_conv)
    show ?case unfolding pm plan prod.case fetched batch ..
  qed
qed

section \<open>The bundle on the host\<close>

text \<open>What an inventory guarantees: the same quotas and path rules as a snapshot's files.\<close>

definition entries_ok :: "remote_manifest \<Rightarrow> tree_entry list \<Rightarrow> bool" where
  "entries_ok m es \<longleftrightarrow> distinct (map (to_ascii_lowercase \<circ> te_path) es) \<and> length es \<le> rm_max_files m
     \<and> sum_list (map te_size es) \<le> rm_max_total_bytes m
     \<and> list_all (\<lambda>e. safe_path (te_path e) \<and> length (te_path e) \<le> rm_max_path_bytes m
          \<and> selected (te_path e) (rm_selected_roots m) \<and> te_size e \<le> rm_max_file_bytes m) es"

lemma inventory_turn:
  assumes "inventory_records m (r # records) seen sofar es = Inr out"
  obtains raw where "safe_path raw" "length raw \<le> rm_max_path_bytes m" "to_ascii_lowercase raw \<notin> seen"
    "inventory_records m records (insert (to_ascii_lowercase raw) seen) sofar es = Inr out"
  | e where "safe_path (te_path e)" "length (te_path e) \<le> rm_max_path_bytes m" "to_ascii_lowercase (te_path e) \<notin> seen"
    "selected (te_path e) (rm_selected_roots m)" "length es < rm_max_files m" "te_size e \<le> rm_max_file_bytes m"
    "sofar + te_size e \<le> rm_max_total_bytes m"
    "inventory_records m records (insert (to_ascii_lowercase (te_path e)) seen) (sofar + te_size e) (es @ [e]) = Inr out"
proof -
  from assms obtain metadata raw mode kind object v where parts: "split_once CHR 0x09 r = Some (metadata, raw)"
      "utf8_valid metadata" "ascii_words metadata = [mode, kind, object, v]"
    by (auto simp: bindE_eq_Inr ok_or_eq_Inr split: if_splits list.splits)
  with assms have raw: "safe_path raw" "length raw \<le> rm_max_path_bytes m" "to_ascii_lowercase raw \<notin> seen"
    by (auto simp: bindE_eq_Inr runner_normalize_path_Inr split: if_splits)
  show thesis
  proof (cases "runner_selected raw (rm_selected_roots m)")
    case False
    with assms parts raw show ?thesis
      by (intro that(1) [OF raw]) (auto simp: bindE_eq_Inr runner_normalize_path_Inr split: if_splits)
  next
    case True
    with assms parts raw obtain executable submodule n where
      "length es < rm_max_files m" "n \<le> rm_max_file_bytes m" "sofar + n \<le> rm_max_total_bytes m"
      "inventory_records m records (insert (to_ascii_lowercase raw) seen) (sofar + n)
         (es @ [\<lparr>te_path = raw, te_object = object, te_size = n, te_executable = executable, te_submodule = submodule\<rparr>]) = Inr out"
      by (auto simp: bindE_eq_Inr runner_normalize_path_Inr not_le not_less split: if_splits)
    with raw True show ?thesis
      by (intro that(2) [of "\<lparr>te_path = raw, te_object = object, te_size = n, te_executable = executable, te_submodule = submodule\<rparr>"])
        (simp_all add: runner_selected_iff)
  qed
qed

lemma inventory_records_ok:
  "inventory_records m records seen sofar es = Inr out \<Longrightarrow> entries_ok m es \<Longrightarrow> sofar = sum_list (map te_size es)
     \<Longrightarrow> (to_ascii_lowercase \<circ> te_path) ` set es \<subseteq> seen \<Longrightarrow> entries_ok m out"
proof (induction records arbitrary: seen sofar es)
  case (Cons r records)
  from Cons.prems(1) show ?case
  proof (cases rule: inventory_turn)
    case (1 raw)
    with Cons.prems show ?thesis by (intro Cons.IH [OF 1(4)]) auto
  next
    case (2 e)
    have "entries_ok m (es @ [e])" using 2 Cons.prems by (auto simp: entries_ok_def list_all_iff image_subset_iff)
    with 2 Cons.prems show ?thesis by (intro Cons.IH [OF 2(8)]) auto
  qed
qed simp

lemma entries_ok_mset:
  assumes "entries_ok m es" "mset es' = mset es"
  shows "entries_ok m es'"
proof -
  from assms(2) have "set es' = set es" "length es' = length es" by (metis mset_eq_setD, metis size_mset)
  moreover have "mset (map g es') = mset (map g es)" for g :: "tree_entry \<Rightarrow> 'a" using assms(2) by simp
  then have "distinct (map (to_ascii_lowercase \<circ> te_path) es') = distinct (map (to_ascii_lowercase \<circ> te_path) es)"
    "sum_list (map te_size es') = sum_list (map te_size es)"
    by (metis mset_eq_imp_distinct_iff) (metis assms(2) mset_map sum_mset_sum_list)
  ultimately show ?thesis using assms(1) by (simp add: entries_ok_def list_all_iff)
qed

lemma parse_inventory_ok:
  assumes "parse_inventory out m = Inr es"
  shows "entries_ok m es \<and> sorted (map te_path es)"
proof -
  from assms obtain raw where "inventory_records m (filter (\<lambda>r. r \<noteq> []) (split_on CHR 0x00 out)) {} 0 [] = Inr raw"
    and es: "es = sort_key te_path raw" by (auto simp: parse_inventory_def bindE_eq_Inr)
  from inventory_records_ok [OF this(1)] have "entries_ok m raw" by (simp add: entries_ok_def)
  with es show ?thesis by (auto intro: entries_ok_mset)
qed

text \<open>The host's reader takes such a list of files as they are.\<close>

lemma host_collects:
  assumes "list_all2 (\<lambda>e c. length c = te_size e) es contents"
    and "distinct (map (to_ascii_lowercase \<circ> te_path) es)" "\<forall>e\<in>set es. to_ascii_lowercase (te_path e) \<notin> seen"
    and "list_all (\<lambda>e. safe_path (te_path e) \<and> length (te_path e) \<le> al_max_path_bytes l \<and> selected (te_path e) roots
           \<and> te_size e \<le> al_max_file_bytes l) es"
    and "length files + length es \<le> al_max_files l" "sofar + sum_list (map te_size es) \<le> al_max_total_bytes l"
    and "al_max_total_bytes l < 2 ^ 64"
  shows "bundle_files E (map2 (bundle_file_of E) es contents) roots l seen files sofar
    = Inr (files @ map2 (\<lambda>e c. \<lparr>mf_path = te_path e, mf_bytes = c, mf_executable = te_executable e\<rparr>) es contents)"
  using assms
proof (induction arbitrary: seen files sofar rule: list_all2_induct)
  case (Cons e es c contents)
  let ?f = "\<lparr>mf_path = te_path e, mf_bytes = c, mf_executable = te_executable e\<rparr>"
  have quota: "add_quota files sofar (length c) l = Inr (sofar + length c)"
    using Cons.prems Cons.hyps by (simp add: add_quota_Inr)
  have path: "normalize_path (te_path e) (al_max_path_bytes l) = Inr (te_path e)"
    using Cons.prems(3) by (simp add: normalize_path_Inr)
  have key: "insert_collision_key (te_path e) seen = Inr (insert (to_ascii_lowercase (te_path e)) seen)"
    using Cons.prems(2) by (simp add: insert_collision_key_Inr)
  have "bundle_files E (map2 (bundle_file_of E) es contents) roots l (insert (to_ascii_lowercase (te_path e)) seen) (files @ [?f]) (sofar + length c)
    = Inr ((files @ [?f]) @ map2 (\<lambda>e c. \<lparr>mf_path = te_path e, mf_bytes = c, mf_executable = te_executable e\<rparr>) es contents)"
    using Cons.prems Cons.hyps by (intro Cons.IH) (auto intro: rev_image_eqI)
  moreover have "decode_hex (hex_encode c) = Inr c" by (simp add: decode_hex_Inr)
  ultimately show ?case using Cons.prems(3) quota path key by (simp add: bundle_file_of_def)
qed simp

lemma materialize_Inr:
  assumes "materialize_bundle X es m B = Inr (bundle, digest)"
  obtains files n where "batch_files (rx_env X) es (bn_stdout B) = Inr files" "projected_bundle_bytes es = Inr n"
    "n \<le> rm_max_bundle_bytes m" "bundle = bundle_text files" "length bundle = n" "digest = domain_digest X ''remote-source-bundle'' bundle"
  using assms by (auto simp: materialize_bundle_def bindE_eq_Inr split: if_splits)

lemma entries_ok_filter:
  assumes "entries_ok m es"
  shows "entries_ok m (filter P es)"
proof -
  have "sum_list (map te_size (filter P es)) \<le> sum_list (map te_size es)" by (induction es) auto
  moreover have "length (filter P es) \<le> rm_max_files m"
    using assms by (intro le_trans [OF length_filter_le]) (simp add: entries_ok_def)
  ultimately show ?thesis using assms by (auto simp: entries_ok_def list_all_iff distinct_map_filter)
qed

lemma map2_entries:
  assumes "list_all2 (\<lambda>e c. length c = te_size e) es contents"
  shows "map (\<lambda>f. (mf_path f, mf_executable f, length (mf_bytes f)))
      (map2 (\<lambda>e c. \<lparr>mf_path = te_path e, mf_bytes = c, mf_executable = te_executable e\<rparr>) es contents)
    = map (\<lambda>e. (te_path e, te_executable e, te_size e)) es"
    "map mf_path (map2 (\<lambda>e c. \<lparr>mf_path = te_path e, mf_bytes = c, mf_executable = te_executable e\<rparr>) es contents) = map te_path es"
  using assms by (induction rule: list_all2_induct) auto

text \<open>C32 (worker and host). Every bundle the runner finishes is one the host accepts: if the host's JSON reader gives back the files the
  runner wrote, its bundle reader takes them all, under limits that are at least the manifest's, and they are the files of
  the inventory that are no submodules, in order, with the modes and sizes git listed. The bundle has the digest the runner
  reports and is within the manifest's bound.\<close>

theorem runner_bundle_collected:
  assumes "parse_inventory out m = Inr es" "\<not> list_all te_submodule es"
    and "materialize_bundle X es m B = Inr (bundle, digest)"
    and "batch_files (rx_env X) es (bn_stdout B) = Inr files"
    and "document bundle = Some \<lparr>bd_version = BUNDLE_VERSION, bd_files = files\<rparr>"
    and "rm_max_files m \<le> al_max_files l" "rm_max_total_bytes m \<le> al_max_total_bytes l" "al_max_total_bytes l < 2 ^ 64"
    and "rm_max_file_bytes m \<le> al_max_file_bytes l" "rm_max_path_bytes m \<le> al_max_path_bytes l"
  shows "\<exists>mat. collect_bundle_bytes (rx_env X) document bundle (rm_selected_roots m) l = Inr mat
    \<and> map (\<lambda>f. (mf_path f, mf_executable f, length (mf_bytes f))) (cm_files mat)
      = map (\<lambda>e. (te_path e, te_executable e, te_size e)) (filter (\<lambda>e. \<not> te_submodule e) es)
    \<and> snapshot_ok (rm_selected_roots m) l (cm_files mat)
    \<and> digest = remote_source_bundle_digest X bundle \<and> length bundle \<le> rm_max_bundle_bytes m"
proof -
  let ?es = "filter (\<lambda>e. \<not> te_submodule e) es" and ?E = "rx_env X"
  from parse_inventory_ok [OF assms(1)] have es: "entries_ok m ?es" "sorted (map te_path ?es)"
    by (auto simp: entries_ok_filter intro: sorted_filter)
  from batch_files_Inr [OF assms(4)] obtain contents where c: "list_all2 (\<lambda>e c. length c = te_size e) ?es contents"
    and files: "files = map2 (bundle_file_of ?E) ?es contents" by blast
  define taken where "taken = map2 (\<lambda>e c. \<lparr>mf_path = te_path e, mf_bytes = c, mf_executable = te_executable e\<rparr>) ?es contents"
  have "bundle_files ?E files (rm_selected_roots m) l {} [] 0 = Inr ([] @ taken)"
    unfolding files taken_def
    by (rule host_collects [OF c]) (use es(1) assms(6-10) in \<open>auto simp: entries_ok_def list_all_iff\<close>)
  moreover have "length files \<le> al_max_files l"
    using es(1) assms(6) list_all2_lengthD [OF c] by (simp add: files entries_ok_def)
  moreover have "taken \<noteq> []"
    using assms(2) list_all2_lengthD [OF c] by (auto simp: taken_def list_all_iff filter_empty_conv)
  ultimately obtain mat where mat: "collect_bundle_bytes ?E document bundle (rm_selected_roots m) l = Inr mat"
    using assms(5) by (simp add: collect_bundle_bytes_def Let_def)
  have "cm_files mat = sort_key mf_path taken"
    using mat assms(5) \<open>bundle_files ?E files (rm_selected_roots m) l {} [] 0 = Inr ([] @ taken)\<close>
    by (auto simp: collect_bundle_bytes_def Let_def collected_material_new_def split: if_splits)
  also have "\<dots> = taken" using es(2) map2_entries(2) [OF c] by (simp add: sort_key_id_if_sorted taken_def)
  finally have "map (\<lambda>f. (mf_path f, mf_executable f, length (mf_bytes f))) (cm_files mat)
      = map (\<lambda>e. (te_path e, te_executable e, te_size e)) ?es"
    using map2_entries(1) [OF c] by (simp add: taken_def)
  moreover have "snapshot_ok (rm_selected_roots m) l (cm_files mat)" using collect_bundle_Inr [OF mat] by blast
  moreover have "digest = remote_source_bundle_digest X bundle \<and> length bundle \<le> rm_max_bundle_bytes m"
    using assms(3) by (rule materialize_Inr) (simp add: remote_source_bundle_digest_def)
  ultimately show ?thesis using mat by blast
qed

section \<open>Concrete runs\<close>

definition demo_runner_manifest :: remote_manifest where
  "demo_runner_manifest = \<lparr>rm_schema_version = MANIFEST_VERSION, rm_source_kind = HttpsRemote, rm_manifest_digest = [],
     rm_authority_digest = [], rm_locator_digest = [], rm_redacted_locator = [],
     rm_destination = \<lparr>ed_host = ''github.com'', ed_port = 443\<rparr>, rm_revision = ''main'', rm_selected_roots = [],
     rm_max_files = 1, rm_max_total_bytes = 1, rm_max_file_bytes = 1, rm_max_path_bytes = 1, rm_max_remote_work_bytes = 1,
     rm_max_bundle_bytes = 1000, rm_max_output_bytes = 1, rm_wall_time_seconds = 1, rm_checkout_policy = ''no_checkout'',
     rm_egress_policy = ''application_connect_proxy_exact_destination'', rm_credential_policy = NoCredential,
     rm_broker = None, rm_backend = reviewed_backend\<rparr>"

definition demo_runner_request :: "string \<Rightarrow> runner_request" where
  "demo_runner_request url = \<lparr>rr_schema = RUNNER_REQUEST_VERSION, rr_manifest = demo_runner_manifest,
     rr_https_url = Some url, rr_ssh = None\<rparr>"

definition demo_object :: string where "demo_object = replicate 40 CHR ''0''"

definition demo_inventory :: string where
  "demo_inventory = ''100644 blob '' @ demo_object @ '' 1'' @ [CHR 0x09] @ ''a'' @ [CHR 0x00]"

definition demo_entry :: tree_entry where
  "demo_entry = \<lparr>te_path = ''a'', te_object = demo_object, te_size = 1, te_executable = False, te_submodule = False\<rparr>"

definition demo_batch :: batch_run where
  "demo_batch = \<lparr>bn_output_opened = True, bn_stdout = demo_object @ '' blob 1'' @ [CHR 0x0A] @ ''x'' @ [CHR 0x0A],
     bn_stderr = [], bn_end = Exited True, bn_output_written = True\<rparr>"

lemma demo_inventory_parsed: "parse_inventory demo_inventory demo_runner_manifest = Inr [demo_entry]"
proof -
  have parts: "filter (\<lambda>r. r \<noteq> []) (split_on CHR 0x00 demo_inventory) = [''100644 blob '' @ demo_object @ '' 1'' @ [CHR 0x09] @ ''a'']"
    "split_once CHR 0x09 (''100644 blob '' @ demo_object @ '' 1'' @ [CHR 0x09] @ ''a'') = Some (''100644 blob '' @ demo_object @ '' 1'', ''a'')"
    "ascii_words (''100644 blob '' @ demo_object @ '' 1'') = [''100644'', ''blob'', demo_object, ''1'']"
    "utf8_valid (''100644 blob '' @ demo_object @ '' 1'')" "runner_valid_object_id demo_object"
    "runner_normalize_path ''a'' (Suc 0) = Inr ''a''"
    by code_simp+
  have size: "parse_size ''1'' = Inr 1"
    by (simp add: parse_size_def parse_unsigned_def starts_with_def is_ascii_digit_def digits_value_def less_eq_char_def)
  show ?thesis
    by (simp add: parse_inventory_def parts size demo_runner_manifest_def runner_selected_def entry_kind_def demo_entry_def
        append_Nil del: append_Cons)
qed

lemma demo_bundle_projected: "projected_bundle_bytes [demo_entry] = Inr 186"
proof -
  have "length BUNDLE_PREFIX = 10" "length BUNDLE_SUFFIX = 43" "length (bundle_file_text (empty_bundle_file demo_entry)) = 131"
    "\<not> te_submodule demo_entry" "te_size demo_entry = 1"
    by code_simp+
  then show ?thesis by (simp add: projected_bundle_bytes_def Let_def)
qed

lemma demo_batch_read: "batch_files demo [demo_entry] (bn_stdout demo_batch) = Inr [bundle_file_of demo demo_entry ''x'']"
proof -
  have parts: "split_once CHR 0x0A (bn_stdout demo_batch) = Some (demo_object @ '' blob 1'', [CHR ''x'', CHR 0x0A])"
    "ascii_words (demo_object @ '' blob 1'') = [demo_object, ''blob'', ''1'']" "list_all is_ascii (demo_object @ '' blob 1'')"
    "length (demo_object @ '' blob 1'') = 47" "\<not> te_submodule demo_entry" "te_size demo_entry = Suc 0" "te_object demo_entry = demo_object"
    by code_simp+
  have size: "parse_unsigned (2 ^ 64) ''1'' = Some (Suc 0)"
    by (simp add: parse_unsigned_def starts_with_def is_ascii_digit_def digits_value_def less_eq_char_def)
  have "parse_batch_header (demo_object @ '' blob 1'') demo_entry = Inr ()"
    using parts size by (simp add: parse_batch_header_def del: append.simps)
  with parts show ?thesis by (simp add: read_batch_blob_def MAX_BATCH_HEADER_BYTES_def append_Nil del: append_Cons)
qed

theorem runner_bundle_collected_witness:
  "\<exists>bundle digest files mat. materialize_bundle demo_remote [demo_entry] demo_runner_manifest demo_batch = Inr (bundle, digest)
     \<and> batch_files demo [demo_entry] (bn_stdout demo_batch) = Inr files
     \<and> collect_bundle_bytes demo (\<lambda>_. Some \<lparr>bd_version = BUNDLE_VERSION, bd_files = files\<rparr>) bundle [] acquisition_limits_default = Inr mat
     \<and> map (\<lambda>f. (mf_path f, mf_executable f, length (mf_bytes f))) (cm_files mat) = [(''a'', False, 1)]"
proof -
  let ?files = "[bundle_file_of demo demo_entry ''x'']"
  have env: "rx_env demo_remote = demo" by (simp add: demo_remote_def)
  have sha: "\<forall>x. length (sha256 demo x) = 32" by (simp add: min_def)
  have size: "length (bundle_text ?files) = 186"
    using projected_exact [OF sha demo_bundle_projected demo_batch_read] .
  obtain written digest where made: "materialize_bundle demo_remote [demo_entry] demo_runner_manifest demo_batch = Inr (written, digest)"
  proof -
    have "bn_output_opened demo_batch" "bn_stderr demo_batch = []" "bn_end demo_batch = Exited True" "bn_output_written demo_batch"
      by (simp_all add: demo_batch_def)
    with that demo_bundle_projected demo_batch_read size show ?thesis
      by (simp add: materialize_bundle_def env demo_runner_manifest_def del: batch_files.simps)
  qed
  have "rm_selected_roots demo_runner_manifest = []" "\<not> list_all te_submodule [demo_entry]"
    "rm_max_files demo_runner_manifest = 1" "rm_max_total_bytes demo_runner_manifest = 1"
    "rm_max_file_bytes demo_runner_manifest = 1" "rm_max_path_bytes demo_runner_manifest = 1"
    by (simp_all add: demo_runner_manifest_def demo_entry_def)
  with runner_bundle_collected [OF demo_inventory_parsed _ made demo_batch_read [folded env],
      of "\<lambda>_. Some \<lparr>bd_version = BUNDLE_VERSION, bd_files = ?files\<rparr>" acquisition_limits_default]
  obtain mat where "collect_bundle_bytes demo (\<lambda>_. Some \<lparr>bd_version = BUNDLE_VERSION, bd_files = ?files\<rparr>) written [] acquisition_limits_default = Inr mat"
    "map (\<lambda>f. (mf_path f, mf_executable f, length (mf_bytes f))) (cm_files mat)
      = map (\<lambda>e. (te_path e, te_executable e, te_size e)) (filter (\<lambda>e. \<not> te_submodule e) [demo_entry])"
    by (auto simp: acquisition_limits_default_def env)
  with made demo_batch_read show ?thesis by (auto simp: demo_entry_def)
qed

definition demo_runner_world :: runner_world where
  "demo_runner_world = \<lparr>rw_remote = demo_remote, rw_socket = True, rw_fails = (\<lambda>_. False), rw_root = EmptyDirectory,
     rw_git = (\<lambda>args env. \<lparr>gpr_chunks = [(True, if ''ls-tree'' \<in> set args then demo_inventory
        else if ''rev-parse'' \<in> set args then demo_object @ [CHR 0x0A] else [])], gpr_end = Exited True\<rparr>),
     rw_work_init = Some [], rw_work_fetch = Some [], rw_batch = (\<lambda>args env. demo_batch),
     rw_git_metadata = None, rw_git_bytes = None\<rparr>"

text \<open>A git that fails as soon as it sees the locator among its arguments makes no difference.\<close>

theorem locator_stays_in_files_witness:
  "execute_request (demo_runner_world\<lparr>
       rw_git := (\<lambda>args env. if ''https://github.com/a'' \<in> set args then \<lparr>gpr_chunks = [], gpr_end = NotStarted\<rparr>
         else rw_git demo_runner_world args env),
       rw_batch := rw_batch demo_runner_world\<rparr>) (demo_runner_request ''https://github.com/a'')
   = execute_request demo_runner_world (demo_runner_request ''https://github.com/a'')"
proof (rule locator_stays_in_files)
  let ?r = "demo_runner_request ''https://github.com/a''"
  fix args env
  assume call: "git_call (ed_host (rm_destination (rr_manifest ?r))) (rm_revision (rr_manifest ?r)) (rr_ssh ?r \<noteq> None) args env"
  have unlike: "\<not> runner_valid_object_id ''https://github.com/a''" by code_simp
  have "rm_revision (rr_manifest ?r) \<noteq> ''https://github.com/a''" "rr_ssh ?r = None"
    by (simp_all add: demo_runner_request_def demo_runner_manifest_def)
  with call have "''https://github.com/a'' \<notin> set args"
    by (elim git_call.cases) (use unlike in \<open>auto simp: git_arguments_def git_settings_def run_plan_def host_path_def PROXY_URL_def\<close>)
  then show "(if ''https://github.com/a'' \<in> set args then \<lparr>gpr_chunks = [], gpr_end = NotStarted\<rparr>
         else rw_git demo_runner_world args env) = rw_git demo_runner_world args env
      \<and> rw_batch demo_runner_world args env = rw_batch demo_runner_world args env"
    by simp
qed

end
