(* ===== verification/Oci_Checks.thy ===== *)
theory Oci_Checks
  imports Source_Acquirer Unicode_Text Egress_Proxy
begin

text \<open>
  The checks of an OCI session (\<open>promptectomy-acquisition/src/oci_remote.rs\<close>): the configuration and the request
  it starts from, and what \<open>docker inspect\<close> must report of the networks and containers before the worker is given
  its request. A document is the JSON that \<open>serde_json\<close> reads, so each check is a function of \<open>json\<close>.
\<close>

section \<open>Constants\<close>

definition REQUEST_SCHEMA :: string where "REQUEST_SCHEMA = ''promptectomy.remote-git-runner-request.v2''"
definition PROXY_REQUEST_SCHEMA :: string where "PROXY_REQUEST_SCHEMA = ''promptectomy.egress-proxy-request.v1''"
definition WORKER_SCHEMA :: string where "WORKER_SCHEMA = ''promptectomy.remote-worker.v1''"
definition PROXY_SCHEMA :: string where "PROXY_SCHEMA = ''promptectomy.egress-proxy.v2''"
definition WORKER_BINARY :: string where "WORKER_BINARY = ''/usr/local/bin/promptectomy-remote-git-runner''"
definition PROXY_BINARY :: string where "PROXY_BINARY = ''/usr/local/bin/promptectomy-egress-proxy''"
definition RELAY_BINARY :: string where "RELAY_BINARY = ''/usr/local/bin/promptectomy-ssh-agent-relay''"
definition REQUEST_PATH :: string where "REQUEST_PATH = ''/work/input/request.json''"
definition PROXY_REQUEST_PATH :: string where "PROXY_REQUEST_PATH = ''/work/input/proxy-request.json''"
definition BUNDLE_PATH :: string where "BUNDLE_PATH = ''/work/output/source-bundle.json''"
definition WORKER_REPORT_PATH :: string where "WORKER_REPORT_PATH = ''/work/output/result.json''"
definition PROXY_REPORT_PATH :: string where "PROXY_REPORT_PATH = ''/work/output/observations.json''"
definition PROC_NET_ROUTE_PATH :: string where "PROC_NET_ROUTE_PATH = ''/proc/net/route''"
definition RELAY_SOCKET_PATH :: string where "RELAY_SOCKET_PATH = ''/work/relay/agent.sock''"
definition RELAY_GRANT_PATH :: string where "RELAY_GRANT_PATH = ''/work/input/grant.json''"
definition RELAY_RECEIPT_PATH :: string where "RELAY_RECEIPT_PATH = ''/work/output/receipt.json''"
definition RELAY_UPSTREAM_PATH :: string where "RELAY_UPSTREAM_PATH = ''/work/upstream/agent.sock''"
definition WORKER_DONE_PATH :: string where "WORKER_DONE_PATH = ''/work/input/worker-done.json''"
definition WORKER_DONE_SCHEMA :: string where "WORKER_DONE_SCHEMA = ''promptectomy.remote-worker-done.v1''"
definition MAX_BINARY_BYTES :: nat where "MAX_BINARY_BYTES = 16 * 1024 * 1024"
definition MAX_INSPECT_BYTES :: nat where "MAX_INSPECT_BYTES = 256 * 1024"
definition OCI_MAX_REQUEST_BYTES :: nat where "OCI_MAX_REQUEST_BYTES = 128 * 1024"
definition DEFAULT_COMMAND_SECONDS :: nat where "DEFAULT_COMMAND_SECONDS = 30"
definition CONTAINER_UID :: string where "CONTAINER_UID = ''65532:65532''"
definition DOCKER_CONTEXT :: string where "DOCKER_CONTEXT = ''orbstack''"
definition SERVER_OS :: string where "SERVER_OS = ''linux''"
definition SERVER_ARCH :: string where "SERVER_ARCH = ''arm64''"
definition MIN_DOCKER_SERVER_MAJOR :: nat where "MIN_DOCKER_SERVER_MAJOR = 28"
definition INPUT_TMPFS_BYTES :: nat where "INPUT_TMPFS_BYTES = 256 * 1024"
definition MIN_CONTAINER_MEMORY_BYTES :: nat where "MIN_CONTAINER_MEMORY_BYTES = 256 * 1024 * 1024"

section \<open>The configuration and the request\<close>

fun valid_relay_upstream :: "relay_upstream \<Rightarrow> bool" where
  "valid_relay_upstream OrbstackHost \<longleftrightarrow> True"

definition relay_fits_source :: "relay_upstream option \<Rightarrow> source_kind \<Rightarrow> bool" where
  "relay_fits_source upstream kind \<longleftrightarrow>
     (case kind of
        HttpsRemote \<Rightarrow> upstream = None
      | SshBrokeredSource \<Rightarrow> (case upstream of None \<Rightarrow> False | Some u \<Rightarrow> valid_relay_upstream u)
      | _ \<Rightarrow> False)"

definition config_validate :: "oci_remote_config \<Rightarrow> remote_manifest \<Rightarrow> oci_remote_error + unit" where
  "config_validate cf m =
     (let minimum_output = rm_max_bundle_bytes m + rm_max_output_bytes m in
      if minimum_output \<ge> 2 ^ 64 then Inl InvalidConfiguration
      else if \<not> is_absolute_path (cf_docker_program cf)
          \<or> length (cf_image_reference cf) > 512
          \<or> list_ex (\<lambda>b. is_ascii_control b \<or> ascii_whitespace b) (cf_image_reference cf)
          \<or> cf_user cf \<noteq> CONTAINER_UID
          \<or> \<not> (16 \<le> cf_pids_limit cf \<and> cf_pids_limit cf \<le> 256)
          \<or> \<not> (MIN_CONTAINER_MEMORY_BYTES \<le> cf_memory_bytes cf \<and> cf_memory_bytes cf \<le> 2 * 1024 * 1024 * 1024)
          \<or> \<not> (100000000 \<le> cf_nano_cpus cf \<and> cf_nano_cpus cf \<le> 2000000000)
          \<or> cf_output_tmpfs_bytes cf < minimum_output
          \<or> cf_output_tmpfs_bytes cf > 1024 * 1024 * 1024
          \<or> \<not> (4 * 1024 * 1024 \<le> cf_temp_tmpfs_bytes cf \<and> cf_temp_tmpfs_bytes cf \<le> 64 * 1024 * 1024)
          \<or> rm_max_remote_work_bytes m > 1024 * 1024 * 1024
          \<or> (case rsplit_once CHR ''@'' (cf_image_reference cf) of
               None \<Rightarrow> True | Some (_, digest) \<Rightarrow> digest \<noteq> bk_image_digest (rm_backend m))
          \<or> \<not> relay_fits_source (cf_relay_upstream cf) (rm_source_kind m)
      then Inl InvalidConfiguration
      else Inr ())"

definition validate_ssh_request :: "remote_env \<Rightarrow> remote_manifest \<Rightarrow> string \<Rightarrow> string \<Rightarrow> string \<Rightarrow> oci_remote_error + unit" where
  "validate_ssh_request X m repository key_type key_base64 =
     bindE (ok_or InvalidOciRequest (rm_broker m)) (\<lambda>broker.
       if rm_source_kind m \<noteq> SshBrokeredSource
          \<or> rm_credential_policy m \<noteq> SshAgentBrokerGrant
          \<or> ed_port (rm_destination m) \<noteq> 22
          \<or> bk_profile (rm_backend m) \<noteq> OrbstackMacosArm64V1
          \<or> domain_digest X ''ssh-repository'' repository \<noteq> bb_repository_digest broker
          \<or> domain_digest X ''ssh-host-key'' (key_type @ '' '' @ key_base64) \<noteq> bb_host_key_digest broker
       then Inl InvalidOciRequest else Inr ())"

definition validate_public_request :: "remote_env \<Rightarrow> remote_manifest \<Rightarrow> string \<Rightarrow> oci_remote_error + unit" where
  "validate_public_request X m locator =
     (if rm_source_kind m \<noteq> HttpsRemote \<or> rm_credential_policy m \<noteq> NoCredential
         \<or> rm_broker m \<noteq> None \<or> bk_profile (rm_backend m) \<noteq> OrbstackMacosArm64V1
      then Inl InvalidOciRequest
      else
        bindE (map_err (\<lambda>_. InvalidOciRequest) (validate_https locator)) (\<lambda>_.
        bindE (map_err (\<lambda>_. InvalidOciRequest) (canonical_https_host locator)) (\<lambda>host.
          if host \<noteq> ed_host (rm_destination m)
             \<or> domain_digest X ''remote-locator'' locator \<noteq> rm_locator_digest m
          then Inl InvalidOciRequest else Inr ())))"

section \<open>Text that a command printed\<close>

text \<open>\<open>str::lines\<close>: pieces that end in a line feed lose it and a carriage return before it; an empty last piece is no line.\<close>

definition strip_cr :: "string \<Rightarrow> string" where
  "strip_cr l = (if l \<noteq> [] \<and> last l = CHR 0x0D then butlast l else l)"

definition str_lines :: "string \<Rightarrow> string list" where
  "str_lines s =
     (let pieces = split_on CHR 0x0A s; ended = map strip_cr (butlast pieces)
      in if last pieces = [] then ended else ended @ [last pieces])"

definition parse_single_line :: "string \<Rightarrow> oci_remote_error + string" where
  "parse_single_line bytes =
     (if \<not> utf8_valid bytes then Inl ControlMismatch
      else
        let trimmed = trim_text bytes in
        if trimmed = [] \<or> list_ex (\<lambda>b. is_ascii_control b \<and> \<not> ascii_whitespace b) trimmed
           \<or> length (str_lines trimmed) \<noteq> 1
        then Inl ControlMismatch else Inr trimmed)"

text \<open>\<open>from_str_radix(_, 16)\<close> of an unsigned integer: an optional plus sign, then digits of either case.\<close>

definition hex_value :: "char \<Rightarrow> nat option" where
  "hex_value c =
     (if is_ascii_digit c then Some (byte_code c - 48)
      else if CHR ''a'' \<le> c \<and> c \<le> CHR ''f'' then Some (byte_code c - 87)
      else if CHR ''A'' \<le> c \<and> c \<le> CHR ''F'' then Some (byte_code c - 55)
      else None)"

definition parse_hex :: "nat \<Rightarrow> string \<Rightarrow> nat option" where
  "parse_hex bound s =
     (let ds = (if starts_with ''+'' s then drop 1 s else s);
          v = fold (\<lambda>c n. case hex_value c of None \<Rightarrow> n | Some d \<Rightarrow> 16 * n + d) ds 0
      in if ds \<noteq> [] \<and> list_all (\<lambda>c. hex_value c \<noteq> None) ds \<and> v < bound then Some v else None)"

definition ROUTE_HEADER :: "string list" where
  "ROUTE_HEADER = [''Iface'', ''Destination'', ''Gateway'', ''Flags'', ''RefCnt'', ''Use'', ''Metric'', ''Mask'',
     ''MTU'', ''Window'', ''IRTT'']"

definition route_columns :: "string list \<Rightarrow> bool" where
  "route_columns columns \<longleftrightarrow>
     length columns = 11 \<and> length (columns ! 1) = 8 \<and> length (columns ! 3) = 4 \<and> length (columns ! 7) = 8"

fun routes_without_default :: "string list \<Rightarrow> oci_remote_error + bool" where
  "routes_without_default [] = Inr True"
| "routes_without_default (line # lines) =
     (let columns = ascii_words line in
      if \<not> route_columns columns then Inl ControlMismatch
      else
        bindE (ok_or ControlMismatch (parse_hex (2 ^ 32) (columns ! 1))) (\<lambda>destination.
        bindE (ok_or ControlMismatch (parse_hex (2 ^ 32) (columns ! 2))) (\<lambda>_.
        bindE (ok_or ControlMismatch (parse_hex (2 ^ 16) (columns ! 3))) (\<lambda>_.
        bindE (ok_or ControlMismatch (parse_hex (2 ^ 32) (columns ! 7))) (\<lambda>mask.
          if destination = 0 \<and> mask = 0 then Inr False else routes_without_default lines)))))"

definition worker_default_route_absent :: "string \<Rightarrow> oci_remote_error + bool" where
  "worker_default_route_absent routes =
     (if \<not> utf8_valid routes then Inl ControlMismatch
      else (case str_lines routes of
              [] \<Rightarrow> Inl ControlMismatch
            | header # lines \<Rightarrow>
                if ascii_words header \<noteq> ROUTE_HEADER then Inl ControlMismatch else routes_without_default lines))"

section \<open>Addresses\<close>

text \<open>\<open>IpAddr::from_str\<close>: dotted decimal, or up to eight groups of hexadecimal digits with at most one
  \<open>::\<close>, of which the last two may be dotted decimal.\<close>

definition parse_ipv4 :: "string \<Rightarrow> u32 option" where
  "parse_ipv4 s =
     (if parses_as_ipv4 s
      then Some (word_of_nat (fold (\<lambda>p n. 256 * n + digits_value p) (split_on CHR ''.'' s) 0))
      else None)"

definition ipv6_group :: "string \<Rightarrow> nat option" where
  "ipv6_group g = (if g \<noteq> [] \<and> length g \<le> 4 \<and> hd g \<noteq> CHR ''+'' then parse_hex (2 ^ 16) g else None)"

fun ipv6_groups :: "bool \<Rightarrow> string list \<Rightarrow> nat list option" where
  "ipv6_groups embedded [] = Some []"
| "ipv6_groups embedded [g] =
     (case ipv6_group g of
        Some v \<Rightarrow> Some [v]
      | None \<Rightarrow> if embedded then map_option (\<lambda>v. [unat v div 2 ^ 16, unat v mod 2 ^ 16]) (parse_ipv4 g) else None)"
| "ipv6_groups embedded (g # h # gs) =
     (case (ipv6_group g, ipv6_groups embedded (h # gs)) of (Some v, Some vs) \<Rightarrow> Some (v # vs) | _ \<Rightarrow> None)"

fun split_double_colon :: "string \<Rightarrow> (string \<times> string) option" where
  "split_double_colon (a # b # cs) =
     (if a = CHR '':'' \<and> b = CHR '':'' then Some ([], cs)
      else map_option (\<lambda>(l, r). (a # l, r)) (split_double_colon (b # cs)))"
| "split_double_colon _ = None"

definition colon_groups :: "string \<Rightarrow> string list" where
  "colon_groups s = (if s = [] then [] else split_on CHR '':'' s)"

definition ipv6_word :: "nat list \<Rightarrow> u128" where
  "ipv6_word gs = word_of_nat (fold (\<lambda>g n. 2 ^ 16 * n + g) gs 0)"

definition parse_ipv6 :: "string \<Rightarrow> u128 option" where
  "parse_ipv6 s =
     (case split_double_colon s of
        None \<Rightarrow> (case ipv6_groups True (colon_groups s) of
                   Some gs \<Rightarrow> if length gs = 8 then Some (ipv6_word gs) else None
                 | None \<Rightarrow> None)
      | Some (h, t) \<Rightarrow>
          (case (ipv6_groups False (colon_groups h), ipv6_groups True (colon_groups t)) of
             (Some hs, Some ts) \<Rightarrow>
               if length hs + length ts \<le> 7 then Some (ipv6_word (hs @ replicate (8 - length hs - length ts) 0 @ ts))
               else None
           | _ \<Rightarrow> None))"

definition parse_ip :: "string \<Rightarrow> ip_addr option" where
  "parse_ip s = (case parse_ipv4 s of Some v \<Rightarrow> Some (V4 v) | None \<Rightarrow> map_option V6 (parse_ipv6 s))"

text \<open>\<open>octets()\<close>, most significant first, and the address classes of the standard library.\<close>

definition v4_octet :: "u32 \<Rightarrow> nat \<Rightarrow> nat" where
  "v4_octet v i = unat v div 256 ^ (3 - i) mod 256"

definition v6_octet :: "u128 \<Rightarrow> nat \<Rightarrow> nat" where
  "v6_octet v i = unat v div 256 ^ (15 - i) mod 256"

definition v4_special :: "u32 \<Rightarrow> bool" where
  "v4_special v \<longleftrightarrow>
     (let a = v4_octet v 0; b = v4_octet v 1; c = v4_octet v 2 in
      (a = 10 \<or> (a = 172 \<and> 16 \<le> b \<and> b \<le> 31) \<or> (a = 192 \<and> b = 168))
      \<or> a = 127 \<or> (a = 169 \<and> b = 254) \<or> v = - 1
      \<or> (a = 192 \<and> b = 0 \<and> c = 2) \<or> (a = 198 \<and> b = 51 \<and> c = 100) \<or> (a = 203 \<and> b = 0 \<and> c = 113)
      \<or> v = 0 \<or> (224 \<le> a \<and> a \<le> 239))"

fun public_ip :: "ip_addr \<Rightarrow> bool" where
  "public_ip (V4 v) \<longleftrightarrow>
     \<not> v4_special v
     \<and> \<not> (let a = v4_octet v 0; b = v4_octet v 1; c = v4_octet v 2 in
          a = 0 \<or> 240 \<le> a \<or> (a = 100 \<and> 64 \<le> b \<and> b \<le> 127) \<or> (a = 192 \<and> b = 0 \<and> c = 0)
          \<or> (a = 198 \<and> 18 \<le> b \<and> b \<le> 19))"
| "public_ip (V6 v) \<longleftrightarrow>
     (let o0 = v6_octet v 0; o1 = v6_octet v 1 in
      \<not> (v = 1 \<or> v = 0 \<or> o0 = 0xff \<or> o0 div 2 = 0xfc div 2 \<or> (o0 = 0xfe \<and> o1 div 64 = 0x80 div 64))
      \<and> \<not> (o0 = 0x20 \<and> o1 = 0x01 \<and> v6_octet v 2 = 0x0d \<and> v6_octet v 3 = 0xb8))"

definition public_ip_text :: "string \<Rightarrow> bool" where
  "public_ip_text s = (case parse_ip s of None \<Rightarrow> False | Some a \<Rightarrow> public_ip a)"

end
