(* ===== verification/Oci_Containers.thy ===== *)
theory Oci_Containers
  imports Oci_Checks
begin

text \<open>
  What \<open>docker inspect\<close> must report of the runtime, the networks and the three containers of a session
  (\<open>oci_remote.rs\<close>, the \<open>verify_\<close> and \<open>validate_\<close> functions), as functions of the JSON.
\<close>

section \<open>A session\<close>

record resource_names =
  rn_label :: string
  rn_internal_network :: string
  rn_outbound_network :: string
  rn_worker :: string
  rn_proxy :: string
  rn_relay :: string
  rn_relay_volume :: string

definition resource_names_new :: "string \<Rightarrow> resource_names" where
  "resource_names_new token =
     \<lparr>rn_label = ''promptectomy.session='' @ token,
      rn_internal_network = ''pt-'' @ token @ ''-internal'', rn_outbound_network = ''pt-'' @ token @ ''-outbound'',
      rn_worker = ''pt-'' @ token @ ''-worker'', rn_proxy = ''pt-'' @ token @ ''-proxy'',
      rn_relay = ''pt-'' @ token @ ''-relay'', rn_relay_volume = ''pt-'' @ token @ ''-relay''\<rparr>"

record docker_session =
  dk_config :: oci_remote_config
  dk_manifest :: remote_manifest
  dk_names :: resource_names

datatype container_role = WorkerRole | ProxyRole

section \<open>Members of a document\<close>

abbreviation opt_str :: "json option \<Rightarrow> string option" where "opt_str v \<equiv> Option.bind v as_str"
abbreviation opt_bool :: "json option \<Rightarrow> bool option" where "opt_bool v \<equiv> Option.bind v as_bool"

definition opt_nat :: "json option \<Rightarrow> nat option" where
  "opt_nat v = map_option unat (Option.bind v as_u64)"

fun as_i64 :: "json \<Rightarrow> int option" where
  "as_i64 (JInt n) = (if - (2 ^ 63) \<le> n \<and> n < 2 ^ 63 then Some n else None)"
| "as_i64 _ = None"

definition json_strings :: "json option \<Rightarrow> oci_remote_error + string list" where
  "json_strings v =
     bindE (ok_or ControlMismatch (Option.bind v as_array)) (traverse (\<lambda>w. ok_or ControlMismatch (as_str w)))"

definition empty_runtime_field :: "json option \<Rightarrow> bool" where
  "empty_runtime_field v \<longleftrightarrow>
     (case v of None \<Rightarrow> True
      | Some w \<Rightarrow> w = JNull \<or> as_str w = Some [] \<or> as_array w = Some [] \<or> as_object w = Some [])"

definition null_or_empty_object :: "json option \<Rightarrow> bool" where
  "null_or_empty_object v \<longleftrightarrow> (case v of None \<Rightarrow> True | Some w \<Rightarrow> w = JNull \<or> as_object w = Some [])"

definition safe_private_namespace :: "json option \<Rightarrow> bool" where
  "safe_private_namespace v \<longleftrightarrow>
     (case v of None \<Rightarrow> True | Some w \<Rightarrow> as_str w = Some [] \<or> as_str w = Some ''private'')"

definition valid_tmpfs_owner :: "json option \<Rightarrow> string \<Rightarrow> string \<Rightarrow> string \<Rightarrow> string \<Rightarrow> bool" where
  "valid_tmpfs_owner v sz mode uid gid \<longleftrightarrow>
     (case opt_str v of
        None \<Rightarrow> False
      | Some options \<Rightarrow>
          let expected = remdups [''rw'', ''noexec'', ''nosuid'', ''nodev'', sz, mode, uid, gid];
              actual = split_on CHR '','' options
          in length actual = length expected \<and> distinct actual \<and> set actual = set expected)"

definition valid_tmpfs :: "json option \<Rightarrow> string \<Rightarrow> string \<Rightarrow> bool" where
  "valid_tmpfs v sz mode \<longleftrightarrow> valid_tmpfs_owner v sz mode ''uid=65532'' ''gid=65532''"

definition valid_root_tmpfs :: "json option \<Rightarrow> string \<Rightarrow> string \<Rightarrow> bool" where
  "valid_root_tmpfs v sz mode \<longleftrightarrow> valid_tmpfs_owner v sz mode ''uid=0'' ''gid=0''"

section \<open>The runtime and the networks\<close>

definition runtime_accepted :: "json \<Rightarrow> oci_remote_error + unit" where
  "runtime_accepted document =
     bindE (ok_or ControlMismatch (opt_str (json_get document ''Version''))) (\<lambda>version.
     bindE (ok_or ControlMismatch (parse_unsigned (2 ^ 64)
              (case split_once CHR ''.'' version of None \<Rightarrow> version | Some (major, _) \<Rightarrow> major))) (\<lambda>major.
       if opt_str (json_get document ''Os'') \<noteq> Some SERVER_OS
          \<or> opt_str (json_get document ''Arch'') \<noteq> Some SERVER_ARCH
          \<or> major < MIN_DOCKER_SERVER_MAJOR
       then Inl ControlMismatch else Inr ()))"

definition network_accepted :: "json \<Rightarrow> bool \<Rightarrow> bool" where
  "network_accepted document internal \<longleftrightarrow> \<not> (
     opt_bool (json_get document ''Internal'') \<noteq> Some internal
     \<or> opt_str (json_get document ''Driver'') \<noteq> Some ''bridge''
     \<or> (internal \<and>
         (opt_bool (json_get document ''EnableIPv6'') \<noteq> Some False
          \<or> opt_str (Option.bind (Option.bind (json_get document ''Options'') as_object)
                (\<lambda>options. map_of options ''com.docker.network.bridge.gateway_mode_ipv4'')) \<noteq> Some ''isolated'')))"

section \<open>The worker and the proxy\<close>

definition validate_host_mounts :: "docker_session \<Rightarrow> container_role \<Rightarrow> json option \<Rightarrow> bool" where
  "validate_host_mounts dk role v \<longleftrightarrow>
     (if role \<noteq> WorkerRole \<or> cf_relay_upstream (dk_config dk) = None then empty_runtime_field v
      else (case Option.bind v as_array of
              Some [mount] \<Rightarrow>
                opt_str (json_get mount ''Type'') = Some ''volume''
                \<and> opt_str (json_get mount ''Source'') = Some (rn_relay_volume (dk_names dk))
                \<and> opt_str (json_get mount ''Target'') = Some ''/work/relay''
                \<and> opt_bool (json_get mount ''ReadOnly'') = Some True
            | _ \<Rightarrow> False))"

definition validate_host_binds :: "json option \<Rightarrow> bool" where
  "validate_host_binds v \<longleftrightarrow> empty_runtime_field v"

definition work_tmpfs_valid :: "docker_session \<Rightarrow> container_role \<Rightarrow> json_object \<Rightarrow> bool" where
  "work_tmpfs_valid dk role tmpfs \<longleftrightarrow>
     (case role of
        WorkerRole \<Rightarrow> length tmpfs = 4
          \<and> valid_tmpfs (map_of tmpfs ''/work/run'') (''size='' @ decimal (rm_max_remote_work_bytes (dk_manifest dk))) ''mode=0700''
      | ProxyRole \<Rightarrow> length tmpfs = 3 \<and> map_of tmpfs ''/work/run'' = None)"

text \<open>The members that must be absent, null or empty.\<close>

definition EMPTY_HOST_FIELDS :: "string list" where
  "EMPTY_HOST_FIELDS =
     [''CapAdd'', ''Devices'', ''DeviceRequests'', ''DeviceCgroupRules'', ''PortBindings'', ''Links'', ''VolumesFrom'',
      ''Dns'', ''DnsOptions'', ''DnsSearch'', ''ExtraHosts'', ''GroupAdd'', ''PidMode'', ''UTSMode'', ''UsernsMode'']"

definition validate_host_config :: "docker_session \<Rightarrow> container_role \<Rightarrow> json \<Rightarrow> oci_remote_error + unit" where
  "validate_host_config dk role document =
     (let cf = dk_config dk in
      bindE (ok_or ControlMismatch (as_object document)) (\<lambda>object.
      let field = map_of object in
      bindE (json_strings (field ''CapDrop'')) (\<lambda>cap_drop.
      bindE (json_strings (field ''SecurityOpt'')) (\<lambda>security_opt.
      bindE (ok_or ControlMismatch (Option.bind (field ''Tmpfs'') as_object)) (\<lambda>tmpfs.
        if field ''ReadonlyRootfs'' \<noteq> Some (JBool True)
           \<or> cap_drop \<noteq> [''ALL'']
           \<or> \<not> (security_opt = [''no-new-privileges''] \<or> security_opt = [''no-new-privileges:true''])
           \<or> field ''Privileged'' \<noteq> Some (JBool False)
           \<or> field ''AutoRemove'' \<noteq> Some (JBool False)
           \<or> field ''PublishAllPorts'' \<noteq> Some (JBool False)
           \<or> \<not> list_all (\<lambda>name. empty_runtime_field (field name)) EMPTY_HOST_FIELDS
           \<or> \<not> validate_host_binds (field ''Binds'')
           \<or> \<not> validate_host_mounts dk role (field ''Mounts'')
           \<or> \<not> safe_private_namespace (field ''IpcMode'')
           \<or> \<not> safe_private_namespace (field ''CgroupnsMode'')
           \<or> opt_nat (field ''PidsLimit'') \<noteq> Some (cf_pids_limit cf)
           \<or> opt_nat (field ''Memory'') \<noteq> Some (cf_memory_bytes cf)
           \<or> opt_nat (field ''NanoCpus'') \<noteq> Some (cf_nano_cpus cf)
           \<or> opt_str (field ''NetworkMode'') \<noteq> Some (rn_internal_network (dk_names dk))
           \<or> \<not> null_or_empty_object (field ''PortBindings'')
           \<or> \<not> valid_tmpfs (map_of tmpfs ''/work/output'') (''size='' @ decimal (cf_output_tmpfs_bytes cf)) ''mode=0700''
           \<or> \<not> valid_tmpfs (map_of tmpfs ''/work/input'') (''size='' @ decimal INPUT_TMPFS_BYTES) ''mode=0700''
           \<or> \<not> valid_tmpfs (map_of tmpfs ''/tmp'') (''size='' @ decimal (cf_temp_tmpfs_bytes cf)) ''mode=1777''
           \<or> \<not> work_tmpfs_valid dk role tmpfs
        then Inl ControlMismatch
        else Inr ())))))"

definition validate_container_mounts :: "docker_session \<Rightarrow> container_role \<Rightarrow> json \<Rightarrow> oci_remote_error + unit" where
  "validate_container_mounts dk role document =
     bindE (ok_or ControlMismatch (as_array document)) (\<lambda>mounts.
       ensure
         (if role = WorkerRole \<and> cf_relay_upstream (dk_config dk) \<noteq> None
          then (case mounts of
                  [mount] \<Rightarrow>
                    opt_str (json_get mount ''Type'') = Some ''volume''
                    \<and> opt_str (json_get mount ''Name'') = Some (rn_relay_volume (dk_names dk))
                    \<and> opt_str (json_get mount ''Destination'') = Some ''/work/relay''
                    \<and> opt_bool (json_get mount ''RW'') = Some False
                | _ \<Rightarrow> False)
          else mounts = [])
         ControlMismatch)"

definition to_ascii_uppercase :: "string \<Rightarrow> string" where
  "to_ascii_uppercase = map (\<lambda>c. if is_ascii_lowercase c then char_of (byte_code c - 32 :: nat) else c)"

definition CREDENTIAL_WORDS :: "string list" where
  "CREDENTIAL_WORDS =
     [''TOKEN'', ''SECRET'', ''PASSWORD'', ''CREDENTIAL'', ''SSH_AUTH_SOCK'', ''AWS_'', ''GOOGLE_APPLICATION_CREDENTIALS'',
      ''GITHUB_'', ''GITLAB_'', ''OPENAI_'']"

definition contains_credential_environment :: "string list \<Rightarrow> bool" where
  "contains_credential_environment environment \<longleftrightarrow>
     list_ex (\<lambda>entry.
       let key = (case split_once CHR ''='' entry of None \<Rightarrow> entry | Some (k, _) \<Rightarrow> k)
       in list_ex (\<lambda>w. contains_text (to_ascii_uppercase key) w) CREDENTIAL_WORDS) environment"

fun expected_environment :: "container_role \<Rightarrow> string list" where
  "expected_environment ProxyRole = [''PATH=/usr/bin'']"
| "expected_environment WorkerRole =
     [''ALL_PROXY=http://proxy:8080'', ''GIT_CONFIG_NOSYSTEM=1'', ''HOME=/nonexistent'', ''HTTPS_PROXY=http://proxy:8080'',
      ''HTTP_PROXY=http://proxy:8080'', ''NO_PROXY='', ''PATH=/usr/bin'']"

definition validate_container_config :: "docker_session \<Rightarrow> container_role \<Rightarrow> string \<Rightarrow> json \<Rightarrow> oci_remote_error + unit" where
  "validate_container_config dk role binary document =
     bindE (ok_or ControlMismatch (as_object document)) (\<lambda>object.
     let field = map_of object in
     bindE (json_strings (field ''Entrypoint'')) (\<lambda>entrypoint.
     bindE (json_strings (field ''Env'')) (\<lambda>environment.
       if opt_str (field ''User'') \<noteq> Some (cf_user (dk_config dk))
          \<or> entrypoint \<noteq> [binary]
          \<or> contains_credential_environment environment
          \<or> length environment \<noteq> length (expected_environment role)
          \<or> set environment \<noteq> set (expected_environment role)
          \<or> \<not> null_or_empty_object (field ''Volumes'')
       then Inl ControlMismatch else Inr ())))"

definition networks_of_role :: "docker_session \<Rightarrow> container_role \<Rightarrow> string set" where
  "networks_of_role dk role =
     (case role of
        WorkerRole \<Rightarrow> {rn_internal_network (dk_names dk)}
      | ProxyRole \<Rightarrow> {rn_internal_network (dk_names dk), rn_outbound_network (dk_names dk)})"

definition networks_accepted :: "docker_session \<Rightarrow> container_role \<Rightarrow> json \<Rightarrow> oci_remote_error + unit" where
  "networks_accepted dk role document =
     bindE (ok_or ControlMismatch (as_object document)) (\<lambda>object.
       if fst ` set object \<noteq> networks_of_role dk role then Inl ControlMismatch else Inr ())"

section \<open>The relay\<close>

definition relay_host_accepted :: "json \<Rightarrow> oci_remote_error + unit" where
  "relay_host_accepted document =
     bindE (ok_or ControlMismatch (as_object document)) (\<lambda>object.
     let field = map_of object in
     bindE (ok_or ControlMismatch (Option.bind (field ''Tmpfs'') as_object)) (\<lambda>tmpfs.
       if field ''ReadonlyRootfs'' \<noteq> Some (JBool True) then Inl ControlMismatch
       else
         bindE (json_strings (field ''CapDrop'')) (\<lambda>cap_drop.
           if cap_drop \<noteq> [''ALL''] then Inl ControlMismatch
           else
             bindE (json_strings (field ''SecurityOpt'')) (\<lambda>security_opt.
               if \<not> list_ex (starts_with ''no-new-privileges'') security_opt
                  \<or> field ''Privileged'' \<noteq> Some (JBool False)
                  \<or> opt_nat (field ''PidsLimit'') \<noteq> Some 32
                  \<or> opt_nat (field ''Memory'') \<noteq> Some (128 * 1024 * 1024)
                  \<or> opt_nat (field ''NanoCpus'') \<noteq> Some 250000000
                  \<or> opt_str (field ''NetworkMode'') \<noteq> Some ''none''
                  \<or> \<not> empty_runtime_field (field ''Binds'')
                  \<or> length tmpfs \<noteq> 3
                  \<or> \<not> valid_root_tmpfs (map_of tmpfs ''/work/input'') ''size=262144'' ''mode=0700''
                  \<or> \<not> valid_root_tmpfs (map_of tmpfs ''/work/output'') ''size=262144'' ''mode=0700''
                  \<or> \<not> valid_root_tmpfs (map_of tmpfs ''/tmp'') ''size=4194304'' ''mode=1777''
               then Inl ControlMismatch else Inr ()))))"

definition relay_config_accepted :: "json \<Rightarrow> oci_remote_error + unit" where
  "relay_config_accepted document =
     (if opt_str (json_get document ''User'') \<noteq> Some ''0:0''
         \<or> (case Option.bind (json_get document ''Entrypoint'') as_array of
              Some [e] \<Rightarrow> as_str e \<noteq> Some RELAY_BINARY | _ \<Rightarrow> True)
      then Inl ControlMismatch
      else
        bindE (json_strings (json_get document ''Env'')) (\<lambda>environment.
          ensure (environment = [''PATH=/usr/bin'']) ControlMismatch))"

definition valid_relay_upstream_mount :: "docker_session \<Rightarrow> json \<Rightarrow> bool" where
  "valid_relay_upstream_mount dk mount \<longleftrightarrow>
     (case cf_relay_upstream (dk_config dk) of
        Some OrbstackHost \<Rightarrow>
          opt_str (json_get mount ''Type'') = Some ''bind''
          \<and> opt_str (json_get mount ''Source'') = Some ORBSTACK_HOST_AGENT_SOCKET
          \<and> opt_str (json_get mount ''Destination'') = Some RELAY_UPSTREAM_PATH
          \<and> opt_bool (json_get mount ''RW'') = Some True
      | None \<Rightarrow> False)"

definition relay_mounts_accepted :: "docker_session \<Rightarrow> json \<Rightarrow> oci_remote_error + unit" where
  "relay_mounts_accepted dk document =
     bindE (ok_or ControlMismatch (as_array document)) (\<lambda>mounts.
       if length mounts \<noteq> 2
          \<or> \<not> list_ex (\<lambda>mount.
               opt_str (json_get mount ''Type'') = Some ''volume''
               \<and> opt_str (json_get mount ''Name'') = Some (rn_relay_volume (dk_names dk))
               \<and> opt_str (json_get mount ''Destination'') = Some ''/work/relay''
               \<and> opt_bool (json_get mount ''RW'') = Some True) mounts
          \<or> \<not> list_ex (valid_relay_upstream_mount dk) mounts
       then Inl ControlMismatch else Inr ())"

definition relay_state_accepted :: "json \<Rightarrow> oci_remote_error + unit" where
  "relay_state_accepted state =
     (if opt_bool (json_get state ''Running'') \<noteq> Some True
         \<or> opt_bool (json_get state ''Dead'') \<noteq> Some False
         \<or> opt_bool (json_get state ''Restarting'') \<noteq> Some False
         \<or> opt_bool (json_get state ''OOMKilled'') \<noteq> Some False
         \<or> Option.bind (json_get state ''ExitCode'') as_i64 \<noteq> Some 0
         \<or> opt_str (json_get state ''Error'') \<noteq> Some []
      then Inl ControlMismatch else Inr ())"

end
