(* ===== verification/Oci_Session.thy ===== *)
theory Oci_Session
  imports Oci_Containers
begin

text \<open>
  The OCI session of \<open>oci_remote.rs\<close>: \<open>acquire_remote\<close> creates two networks, a relay where the source is SSH, a
  proxy and a worker, checks each before it starts it, hands the worker its request, reads the bundle and removes
  everything. A step is a function of the commands issued so far; it returns a result and the commands with its own
  appended, so that an error keeps what was done before it.
\<close>

section \<open>Commands\<close>

record docker_command =
  dc_program :: string
  dc_arguments :: "string list"
  dc_environment :: "(string \<times> string) list"
  dc_stdin :: string
  dc_max_output_bytes :: nat
  dc_seconds :: nat

record command_output =
  co_success :: bool
  co_stdout :: string

record worker_report =
  wr_schema_version :: string
  wr_manifest_digest :: string
  wr_resolved_commit :: string
  wr_source_bundle_digest :: string
  wr_git_binary_digest :: string
  wr_git_execution_neutralized :: bool
  wr_credentials_isolated :: bool

record proxy_report =
  po_schema_version :: string
  po_manifest_digest :: string
  po_observed_destinations :: "egress_destination list"
  po_enforcement :: remote_destination_enforcement
  po_resolved_ip :: string
  po_accepted_connections :: u64
  po_rejected_connections :: u64
  po_bytes_client_to_upstream :: u64
  po_bytes_upstream_to_client :: u64
  po_byte_limit_exceeded :: bool
  po_terminal :: bool

record session_worker_request =
  sw_schema_version :: string
  sw_manifest :: remote_manifest
  sw_https_url :: "string option"
  sw_ssh :: "(string \<times> string \<times> string) option"

record session_proxy_request =
  sp_schema_version :: string
  sp_manifest_digest :: string
  sp_destination :: egress_destination
  sp_max_connections :: nat
  sp_max_request_bytes :: nat
  sp_max_headers :: nat
  sp_max_tunnel_bytes :: nat
  sp_max_connection_seconds :: nat
  sp_wall_time_seconds :: nat

text \<open>
  What surrounds a session: the command runner, whose answer may depend on every command before; the cancellation
  flag, at the start and at each turn of a loop that waits (the list of turns ends at the deadline); whether a deadline
  so many seconds ahead can be represented; the files of the temporary directory; \<open>serde_json\<close> and \<open>serde_jcs\<close>.
\<close>

record oci_world =
  oi_remote :: remote_env
  oi_run :: "docker_command list \<Rightarrow> docker_command \<Rightarrow> oci_remote_error + command_output"
  oi_cancelled :: bool
  oi_ticks :: "docker_command list \<Rightarrow> bool list"
  oi_deadline_fits :: "nat \<Rightarrow> bool"
  oi_token :: string
  oi_workspace :: "string option"
  oi_written :: "string \<Rightarrow> string \<Rightarrow> bool"
  oi_readings :: "docker_command list \<Rightarrow> string \<Rightarrow> file_reading \<times> file_reading"
  oi_json :: "string \<Rightarrow> json option"
  oi_worker_report :: "string \<Rightarrow> worker_report option"
  oi_proxy_report :: "string \<Rightarrow> proxy_report option"
  oi_receipt :: "string \<Rightarrow> relay_receipt_document option"
  oi_request_jcs :: "session_worker_request \<Rightarrow> string option"
  oi_proxy_request_jcs :: "session_proxy_request \<Rightarrow> string option"
  oi_done_jcs :: "string \<Rightarrow> string \<Rightarrow> string option"

type_synonym 'a oci_step = "docker_command list \<Rightarrow> (oci_remote_error + 'a) \<times> docker_command list"

definition step_of :: "oci_remote_error + 'a \<Rightarrow> 'a oci_step" where
  "step_of m h = (m, h)"

definition step_bind :: "'a oci_step \<Rightarrow> ('a \<Rightarrow> 'b oci_step) \<Rightarrow> 'b oci_step" where
  "step_bind f k h = (case f h of (Inl e, h') \<Rightarrow> (Inl e, h') | (Inr x, h') \<Rightarrow> k x h')"

text \<open>A result that is ignored, and a loop that waits.\<close>

definition step_ok :: "'a oci_step \<Rightarrow> 'a option oci_step" where
  "step_ok f h = (case f h of (Inl e, h') \<Rightarrow> (Inr None, h') | (Inr x, h') \<Rightarrow> (Inr (Some x), h'))"

fun poll_loop :: "oci_remote_error \<Rightarrow> 'a option oci_step \<Rightarrow> bool list \<Rightarrow> 'a oci_step" where
  "poll_loop late poll [] h = (Inl late, h)"
| "poll_loop late poll (cancelled # ticks) h =
     (if cancelled then (Inl OciCancelled, h)
      else (case poll h of
              (Inl e, h') \<Rightarrow> (Inl e, h')
            | (Inr (Some x), h') \<Rightarrow> (Inr x, h')
            | (Inr None, h') \<Rightarrow> poll_loop late poll ticks h'))"

section \<open>Commands of a session\<close>

definition issue_command :: "oci_world \<Rightarrow> docker_session \<Rightarrow> string list \<Rightarrow> string \<Rightarrow> nat \<Rightarrow> nat \<Rightarrow> command_output oci_step" where
  "issue_command W dk arguments input seconds max_output h =
     (let c = \<lparr>dc_program = cf_docker_program (dk_config dk),
               dc_arguments = [''--context'', DOCKER_CONTEXT] @ arguments, dc_environment = [],
               dc_stdin = input, dc_max_output_bytes = max_output, dc_seconds = seconds\<rparr>
      in (oi_run W h c, h @ [c]))"

definition docker_run :: "oci_world \<Rightarrow> docker_session \<Rightarrow> string list \<Rightarrow> nat \<Rightarrow> nat \<Rightarrow> command_output oci_step" where
  "docker_run W dk arguments seconds max_output = issue_command W dk arguments [] seconds max_output"

definition require_success :: "command_output \<Rightarrow> oci_remote_error + string" where
  "require_success out = (if \<not> co_success out then Inl CommandFailed else Inr (co_stdout out))"

definition docker_required :: "oci_world \<Rightarrow> docker_session \<Rightarrow> string list \<Rightarrow> nat \<Rightarrow> string oci_step" where
  "docker_required W dk arguments seconds =
     step_bind (docker_run W dk arguments seconds MAX_INSPECT_BYTES) (\<lambda>out. step_of (require_success out))"

definition required_with_input :: "oci_world \<Rightarrow> docker_session \<Rightarrow> string list \<Rightarrow> string \<Rightarrow> nat \<Rightarrow> string oci_step" where
  "required_with_input W dk arguments input seconds =
     (if input = [] \<or> length input > OCI_MAX_REQUEST_BYTES then step_of (Inl InvalidOciRequest)
      else step_bind (issue_command W dk arguments input seconds MAX_INSPECT_BYTES) (\<lambda>out. step_of (require_success out)))"

definition copy_from :: "oci_world \<Rightarrow> docker_session \<Rightarrow> string \<Rightarrow> string \<Rightarrow> string \<Rightarrow> unit oci_step" where
  "copy_from W dk container source destination =
     step_bind (docker_run W dk [''cp'', container @ '':'' @ source, destination] DEFAULT_COMMAND_SECONDS MAX_INSPECT_BYTES) (\<lambda>out.
       step_of (if \<not> co_success out then Inl CommandFailed else Inr ()))"

definition read_from :: "oci_world \<Rightarrow> docker_session \<Rightarrow> string \<Rightarrow> string \<Rightarrow> nat \<Rightarrow> string oci_step" where
  "read_from W dk container source max_output =
     (if max_output = 0 then step_of (Inl InvalidConfiguration)
      else
        step_bind (docker_run W dk [''exec'', ''--user'', CONTAINER_UID, container, ''/usr/bin/cat'', source]
                     DEFAULT_COMMAND_SECONDS max_output) (\<lambda>out.
          step_of (require_success out)))"

definition read_local :: "oci_world \<Rightarrow> string \<Rightarrow> nat \<Rightarrow> acquisition_error \<Rightarrow> string oci_step" where
  "read_local W p limit error h =
     (map_err (\<lambda>_. InvalidOciRequest) (case_prod read_bounded (oi_readings W h p) limit error), h)"

definition json_of :: "oci_world \<Rightarrow> string \<Rightarrow> oci_remote_error + json" where
  "json_of W bytes = ok_or ControlMismatch (oi_json W bytes)"

text \<open>\<open>docker inspect\<close> of a container with a format, and the JSON it prints.\<close>

definition inspect_member :: "oci_world \<Rightarrow> docker_session \<Rightarrow> string \<Rightarrow> string \<Rightarrow> string oci_step" where
  "inspect_member W dk container format =
     docker_required W dk [''inspect'', ''--format'', format, container] DEFAULT_COMMAND_SECONDS"

section \<open>Checks that issue commands\<close>

definition verify_image :: "oci_world \<Rightarrow> docker_session \<Rightarrow> unit oci_step" where
  "verify_image W dk =
     step_bind (docker_required W dk [''image'', ''inspect'', ''--format'', ''{{.Id}}'', cf_image_reference (dk_config dk)]
                  DEFAULT_COMMAND_SECONDS) (\<lambda>out.
     step_of (bindE (parse_single_line out) (\<lambda>digest.
       if digest \<noteq> bk_image_digest (rm_backend (dk_manifest dk)) then Inl ImageDigestMismatch else Inr ())))"

definition verify_runtime :: "oci_world \<Rightarrow> docker_session \<Rightarrow> unit oci_step" where
  "verify_runtime W dk =
     step_bind (docker_required W dk [''context'', ''show''] DEFAULT_COMMAND_SECONDS) (\<lambda>context.
     step_bind (step_of (bindE (parse_single_line context) (\<lambda>name.
                  if name \<noteq> DOCKER_CONTEXT then Inl ControlMismatch else Inr ()))) (\<lambda>_.
     step_bind (docker_required W dk [''version'', ''--format'', ''{{json .Server}}''] DEFAULT_COMMAND_SECONDS) (\<lambda>server.
       step_of (bindE (json_of W server) runtime_accepted))))"

definition verify_network :: "oci_world \<Rightarrow> docker_session \<Rightarrow> string \<Rightarrow> bool \<Rightarrow> unit oci_step" where
  "verify_network W dk network internal =
     step_bind (docker_required W dk [''network'', ''inspect'', ''--format'', ''{{json .}}'', network] DEFAULT_COMMAND_SECONDS) (\<lambda>out.
       step_of (bindE (json_of W out) (\<lambda>document.
         if \<not> network_accepted document internal then Inl ControlMismatch else Inr ())))"

definition verify_binary :: "oci_world \<Rightarrow> docker_session \<Rightarrow> string \<Rightarrow> string \<Rightarrow> string \<Rightarrow> string \<Rightarrow> unit oci_step" where
  "verify_binary W dk container binary expected_digest local_path =
     step_bind (copy_from W dk container binary local_path) (\<lambda>_.
     step_bind (read_local W local_path MAX_BINARY_BYTES InvalidRemoteAttestation) (\<lambda>bytes.
       step_of (if digest_string (rx_env (oi_remote W)) bytes \<noteq> expected_digest then Inl BinaryDigestMismatch else Inr ())))"

definition container_of_role :: "docker_session \<Rightarrow> container_role \<Rightarrow> string" where
  "container_of_role dk role = (case role of WorkerRole \<Rightarrow> rn_worker (dk_names dk) | ProxyRole \<Rightarrow> rn_proxy (dk_names dk))"

definition binary_of_role :: "container_role \<Rightarrow> string" where
  "binary_of_role role = (case role of WorkerRole \<Rightarrow> WORKER_BINARY | ProxyRole \<Rightarrow> PROXY_BINARY)"

definition verify_container :: "oci_world \<Rightarrow> docker_session \<Rightarrow> container_role \<Rightarrow> unit oci_step" where
  "verify_container W dk role =
     (let container = container_of_role dk role in
      step_bind (inspect_member W dk container ''{{json .HostConfig}}'') (\<lambda>host.
      step_bind (inspect_member W dk container ''{{json .Config}}'') (\<lambda>config.
      step_bind (inspect_member W dk container ''{{json .NetworkSettings.Networks}}'') (\<lambda>network.
      step_bind (inspect_member W dk container ''{{json .Mounts}}'') (\<lambda>mounts.
        step_of
          (bindE (bindE (json_of W host) (validate_host_config dk role)) (\<lambda>_.
           bindE (bindE (json_of W config) (validate_container_config dk role (binary_of_role role))) (\<lambda>_.
           bindE (bindE (json_of W mounts) (validate_container_mounts dk role)) (\<lambda>_.
             bindE (json_of W network) (networks_accepted dk role))))))))))"

definition verify_relay_container :: "oci_world \<Rightarrow> docker_session \<Rightarrow> unit oci_step" where
  "verify_relay_container W dk =
     (let relay = rn_relay (dk_names dk) in
      step_bind (inspect_member W dk relay ''{{json .HostConfig}}'') (\<lambda>host.
      step_bind (inspect_member W dk relay ''{{json .Config}}'') (\<lambda>config.
      step_bind (inspect_member W dk relay ''{{json .Mounts}}'') (\<lambda>mounts.
        step_of
          (bindE (bindE (json_of W host) relay_host_accepted) (\<lambda>_.
           bindE (bindE (json_of W config) relay_config_accepted) (\<lambda>_.
             bindE (json_of W mounts) (relay_mounts_accepted dk))))))))"

definition verify_relay_running :: "oci_world \<Rightarrow> docker_session \<Rightarrow> unit oci_step" where
  "verify_relay_running W dk =
     step_bind (inspect_member W dk (rn_relay (dk_names dk)) ''{{json .State}}'') (\<lambda>state.
       step_of (bindE (json_of W state) relay_state_accepted))"

definition verify_worker_default_route_absent :: "oci_world \<Rightarrow> docker_session \<Rightarrow> unit oci_step" where
  "verify_worker_default_route_absent W dk =
     step_bind (read_from W dk (rn_worker (dk_names dk)) PROC_NET_ROUTE_PATH (64 * 1024)) (\<lambda>routes.
       step_of (bindE (worker_default_route_absent routes) (\<lambda>absent. ensure absent ControlMismatch)))"

end
