(* ===== verification/Oci_Lifecycle.thy ===== *)
theory Oci_Lifecycle
  imports Oci_Session
begin

text \<open>
  The life of an OCI session (\<open>oci_remote.rs\<close>): what its containers are created with, how their reports are
  awaited, the transaction \<open>run_session\<close>, its outputs, and the removal that follows whatever happened.
\<close>

section \<open>Creating containers\<close>

definition tmpfs_option :: "string \<Rightarrow> nat \<Rightarrow> string \<Rightarrow> string \<Rightarrow> string" where
  "tmpfs_option path sz mode owner =
     path @ '':rw,noexec,nosuid,nodev,size='' @ decimal sz @ '',mode='' @ mode @ '',uid='' @ owner @ '',gid='' @ owner"

definition three_digits :: "nat \<Rightarrow> string" where
  "three_digits n = replicate (3 - length (decimal n)) CHR ''0'' @ decimal n"

definition common_create_arguments :: "docker_session \<Rightarrow> string \<Rightarrow> string list" where
  "common_create_arguments dk name =
     (let cf = dk_config dk in
      [''create'', ''--name'', name, ''--label'', rn_label (dk_names dk), ''--pull'', ''never'', ''--read-only'',
       ''--user'', cf_user cf, ''--cap-drop'', ''ALL'', ''--security-opt'', ''no-new-privileges'',
       ''--pids-limit'', decimal (cf_pids_limit cf), ''--memory'', decimal (cf_memory_bytes cf),
       ''--cpus'', decimal (cf_nano_cpus cf div 1000000000) @ ''.'' @ three_digits (cf_nano_cpus cf mod 1000000000 div 1000000),
       ''--network'', rn_internal_network (dk_names dk), ''--env'', ''PATH=/usr/bin'',
       ''--tmpfs'', tmpfs_option ''/work/input'' INPUT_TMPFS_BYTES ''0700'' ''65532'',
       ''--tmpfs'', tmpfs_option ''/work/output'' (cf_output_tmpfs_bytes cf) ''0700'' ''65532'',
       ''--tmpfs'', tmpfs_option ''/tmp'' (cf_temp_tmpfs_bytes cf) ''1777'' ''65532''])"

definition run_created :: "oci_world \<Rightarrow> docker_session \<Rightarrow> string list \<Rightarrow> unit oci_step" where
  "run_created W dk arguments =
     step_bind (docker_run W dk arguments DEFAULT_COMMAND_SECONDS MAX_INSPECT_BYTES) (\<lambda>out.
       step_of (if \<not> co_success out then Inl CommandFailed else Inr ()))"

definition create_proxy :: "oci_world \<Rightarrow> docker_session \<Rightarrow> unit oci_step" where
  "create_proxy W dk =
     run_created W dk (common_create_arguments dk (rn_proxy (dk_names dk))
       @ [''--network-alias'', ''promptectomy-egress-proxy'', ''--network-alias'', ''proxy'',
          ''--entrypoint'', PROXY_BINARY, cf_image_reference (dk_config dk)])"

fun upstream_mount :: "relay_upstream \<Rightarrow> string" where
  "upstream_mount OrbstackHost = ''type=bind,source='' @ ORBSTACK_HOST_AGENT_SOCKET @ '',target='' @ RELAY_UPSTREAM_PATH"

definition create_relay :: "oci_world \<Rightarrow> docker_session \<Rightarrow> unit oci_step" where
  "create_relay W dk =
     step_bind (step_of (ok_or InvalidConfiguration (cf_relay_upstream (dk_config dk)))) (\<lambda>upstream.
       run_created W dk
         [''create'', ''--name'', rn_relay (dk_names dk), ''--label'', rn_label (dk_names dk), ''--pull'', ''never'',
          ''--read-only'', ''--user'', ''0:0'', ''--cap-drop'', ''ALL'', ''--security-opt'', ''no-new-privileges'',
          ''--pids-limit'', ''32'', ''--memory'', decimal (128 * 1024 * 1024), ''--cpus'', ''0.250'',
          ''--network'', ''none'', ''--env'', ''PATH=/usr/bin'',
          ''--tmpfs'', tmpfs_option ''/work/input'' INPUT_TMPFS_BYTES ''0700'' ''0'',
          ''--tmpfs'', ''/work/output:rw,noexec,nosuid,nodev,size=262144,mode=0700,uid=0,gid=0'',
          ''--tmpfs'', ''/tmp:rw,noexec,nosuid,nodev,size=4194304,mode=1777,uid=0,gid=0'',
          ''--mount'', ''type=volume,source='' @ rn_relay_volume (dk_names dk) @ '',target=/work/relay,volume-nocopy'',
          ''--mount'', upstream_mount upstream, ''--entrypoint'', RELAY_BINARY, cf_image_reference (dk_config dk)])"

definition WORKER_ENVIRONMENT :: "(string \<times> string) list" where
  "WORKER_ENVIRONMENT =
     [(''HTTPS_PROXY'', ''http://proxy:8080''), (''HTTP_PROXY'', ''http://proxy:8080''), (''ALL_PROXY'', ''http://proxy:8080''),
      (''NO_PROXY'', []), (''GIT_CONFIG_NOSYSTEM'', ''1''), (''HOME'', ''/nonexistent'')]"

definition worker_create_arguments :: "docker_session \<Rightarrow> string list" where
  "worker_create_arguments dk =
     common_create_arguments dk (rn_worker (dk_names dk))
       @ [''--tmpfs'', tmpfs_option ''/work/run'' (rm_max_remote_work_bytes (dk_manifest dk)) ''0700'' ''65532'']
       @ concat (map (\<lambda>(name, v). [''--env'', name @ ''='' @ v]) WORKER_ENVIRONMENT)
       @ (if cf_relay_upstream (dk_config dk) \<noteq> None
          then [''--mount'', ''type=volume,source='' @ rn_relay_volume (dk_names dk)
                  @ '',target=/work/relay,readonly,volume-nocopy'']
          else [])
       @ [''--entrypoint'', WORKER_BINARY, cf_image_reference (dk_config dk)]"

definition create_worker :: "oci_world \<Rightarrow> docker_session \<Rightarrow> unit oci_step" where
  "create_worker W dk = run_created W dk (worker_create_arguments dk)"

section \<open>Handing over and waiting\<close>

definition dd_arguments :: "string \<Rightarrow> string \<Rightarrow> string \<Rightarrow> string list" where
  "dd_arguments user container target =
     [''exec'', ''--interactive'', ''--user'', user, container, ''/usr/bin/dd'', ''of='' @ target, ''status=none'']"

definition copy_request :: "oci_world \<Rightarrow> docker_session \<Rightarrow> string \<Rightarrow> string \<Rightarrow> string \<Rightarrow> string \<Rightarrow> unit oci_step" where
  "copy_request W dk request container target user =
     step_bind (read_local W request OCI_MAX_REQUEST_BYTES InvalidRemoteManifest) (\<lambda>bytes.
     step_bind (required_with_input W dk (dd_arguments user container target) bytes DEFAULT_COMMAND_SECONDS) (\<lambda>out.
       step_of (ensure (list_all ascii_whitespace out) CommandFailed)))"

definition await_step :: "oci_world \<Rightarrow> nat \<Rightarrow> oci_remote_error \<Rightarrow> 'a option oci_step \<Rightarrow> 'a oci_step" where
  "await_step W seconds late poll h =
     (if \<not> oi_deadline_fits W seconds then (Inl InvalidConfiguration, h) else poll_loop late poll (oi_ticks W h) h)"

definition await_relay_ready :: "oci_world \<Rightarrow> docker_session \<Rightarrow> unit oci_step" where
  "await_relay_ready W dk h =
     poll_loop InvalidOutput
       (step_bind (step_ok (docker_run W dk
            [''exec'', ''--user'', ''0:0'', rn_relay (dk_names dk), ''/usr/bin/test'', ''-S'', RELAY_SOCKET_PATH]
            DEFAULT_COMMAND_SECONDS MAX_INSPECT_BYTES)) (\<lambda>out.
          step_of (Inr (if map_option co_success out = Some True then Some () else None))))
       (oi_ticks W h) h"

definition proxy_ready :: "docker_session \<Rightarrow> proxy_report \<Rightarrow> bool" where
  "proxy_ready dk r \<longleftrightarrow>
     po_schema_version r = PROXY_SCHEMA
     \<and> po_manifest_digest r = rm_manifest_digest (dk_manifest dk)
     \<and> po_enforcement r = ApplicationConnectProxy
     \<and> public_ip_text (po_resolved_ip r)
     \<and> po_observed_destinations r = []
     \<and> po_accepted_connections r = 0
     \<and> po_rejected_connections r = 0
     \<and> po_bytes_client_to_upstream r = 0
     \<and> po_bytes_upstream_to_client r = 0
     \<and> \<not> po_byte_limit_exceeded r
     \<and> \<not> po_terminal r"

definition await_proxy_ready :: "oci_world \<Rightarrow> docker_session \<Rightarrow> unit oci_step" where
  "await_proxy_ready W dk =
     await_step W 10 InvalidOutput
       (step_bind (step_ok (read_from W dk (rn_proxy (dk_names dk)) PROXY_REPORT_PATH (rm_max_output_bytes (dk_manifest dk)))) (\<lambda>bytes.
          step_of (Inr (case Option.bind bytes (oi_proxy_report W) of
             Some r \<Rightarrow> if proxy_ready dk r then Some () else None
           | None \<Rightarrow> None))))"

definition await_proxy_terminal :: "oci_world \<Rightarrow> docker_session \<Rightarrow> string oci_step" where
  "await_proxy_terminal W dk =
     await_step W 10 InvalidOutput
       (step_bind (step_ok (read_from W dk (rn_proxy (dk_names dk)) PROXY_REPORT_PATH (rm_max_output_bytes (dk_manifest dk)))) (\<lambda>out.
          step_of (Inr (case out of
             None \<Rightarrow> None
           | Some bytes \<Rightarrow> (case oi_proxy_report W bytes of
                 None \<Rightarrow> None
               | Some r \<Rightarrow>
                   if po_schema_version r = PROXY_SCHEMA \<and> po_manifest_digest r = rm_manifest_digest (dk_manifest dk) \<and> po_terminal r
                   then Some bytes else None)))))"

definition await_worker_report :: "oci_world \<Rightarrow> docker_session \<Rightarrow> string oci_step" where
  "await_worker_report W dk =
     await_step W (min (rm_wall_time_seconds (dk_manifest dk) + 10) (2 ^ 64 - 1)) CommandTimedOut
       (step_bind (step_ok (read_from W dk (rn_worker (dk_names dk)) WORKER_REPORT_PATH (rm_max_output_bytes (dk_manifest dk)))) (\<lambda>out.
          step_of (case out of
             None \<Rightarrow> Inr None
           | Some bytes \<Rightarrow>
               if oi_worker_report W bytes \<noteq> None then Inr (Some bytes)
               else if bytes \<noteq> [] then Inl InvalidOutput
               else Inr None)))"

definition receipt_accepted :: "docker_session \<Rightarrow> relay_receipt_document \<Rightarrow> bool" where
  "receipt_accepted dk r \<longleftrightarrow>
     rd_schema_version r = RECEIPT_VERSION
     \<and> rd_manifest_digest r = rm_manifest_digest (dk_manifest dk)
     \<and> rd_session_bound r \<and> rd_signatures r > 0 \<and> rd_signatures r \<le> 4"

definition await_relay_receipt :: "oci_world \<Rightarrow> docker_session \<Rightarrow> unit oci_step" where
  "await_relay_receipt W dk =
     await_step W (min (rm_wall_time_seconds (dk_manifest dk) + 5) (2 ^ 64 - 1)) InvalidOutput
       (step_bind (verify_relay_running W dk) (\<lambda>_.
        step_bind (step_ok (docker_run W dk
            [''exec'', ''--user'', ''0:0'', rn_relay (dk_names dk), ''/usr/bin/cat'', RELAY_RECEIPT_PATH]
            DEFAULT_COMMAND_SECONDS MAX_INSPECT_BYTES)) (\<lambda>out.
          case out of
            Some answer \<Rightarrow>
              if co_success answer
                 \<and> (case oi_receipt W (co_stdout answer) of None \<Rightarrow> False | Some r \<Rightarrow> receipt_accepted dk r)
              then step_bind (verify_relay_running W dk) (\<lambda>_. step_of (Inr (Some ())))
              else step_of (Inr None)
          | None \<Rightarrow> step_of (Inr None))))"

section \<open>The outputs\<close>

definition tunnel_limit :: "remote_manifest \<Rightarrow> nat" where
  "tunnel_limit m = min (min (rm_max_remote_work_bytes m * 2) (2 ^ 64 - 1)) (2 * 1024 * 1024 * 1024)"

definition controls_of_session :: "docker_session \<Rightarrow> oci_controls" where
  "controls_of_session dk =
     (let m = dk_manifest dk; b = rm_backend m in
      \<lparr>oc_backend_profile = bk_profile b, oc_image_digest = bk_image_digest b, oc_runner_digest = bk_runner_digest b,
       oc_proxy_digest = bk_egress_proxy_digest b, oc_remote_work_tmpfs_bytes = rm_max_remote_work_bytes m,
       oc_input_tmpfs_bytes = INPUT_TMPFS_BYTES, oc_output_tmpfs_bytes = cf_output_tmpfs_bytes (dk_config dk),
       oc_temporary_tmpfs_bytes = cf_temp_tmpfs_bytes (dk_config dk), oc_resource_limits = Passed,
       oc_root_read_only = Passed, oc_no_new_privileges = Passed, oc_capabilities_dropped = Passed,
       oc_worker_internal_network_only = Passed, oc_proxy_dual_homed = Passed,
       oc_destination_enforcement = ApplicationConnectProxy, oc_kernel_exact_destination_enforced = False,
       oc_worker_default_route_absent = Passed, oc_proxy_gateway_blocked = False, oc_credentials_isolated = Passed,
       oc_cleanup_complete = Failed\<rparr>)"

definition reports_accepted :: "oci_world \<Rightarrow> docker_session \<Rightarrow> string \<Rightarrow> worker_report \<Rightarrow> proxy_report \<Rightarrow> ip_addr \<Rightarrow> u64 \<Rightarrow> bool" where
  "reports_accepted W dk source_bundle worker proxy resolved_ip tunnel_bytes \<longleftrightarrow>
     wr_schema_version worker = WORKER_SCHEMA
     \<and> wr_manifest_digest worker = rm_manifest_digest (dk_manifest dk)
     \<and> valid_object_id (wr_resolved_commit worker)
     \<and> is_sha256_digest (wr_git_binary_digest worker)
     \<and> wr_git_execution_neutralized worker
     \<and> wr_credentials_isolated worker
     \<and> wr_source_bundle_digest worker = domain_digest (oi_remote W) ''remote-source-bundle'' source_bundle
     \<and> po_schema_version proxy = PROXY_SCHEMA
     \<and> po_manifest_digest proxy = rm_manifest_digest (dk_manifest dk)
     \<and> po_enforcement proxy = ApplicationConnectProxy
     \<and> length (po_observed_destinations proxy) = 1
     \<and> ed_host (hd (po_observed_destinations proxy)) = ed_host (rm_destination (dk_manifest dk))
     \<and> ed_port (hd (po_observed_destinations proxy)) = ed_port (rm_destination (dk_manifest dk))
     \<and> public_ip resolved_ip
     \<and> po_accepted_connections proxy \<noteq> 0
     \<and> po_bytes_client_to_upstream proxy \<noteq> 0
     \<and> po_bytes_upstream_to_client proxy \<noteq> 0
     \<and> unat tunnel_bytes \<le> tunnel_limit (dk_manifest dk)
     \<and> po_rejected_connections proxy = 0
     \<and> \<not> po_byte_limit_exceeded proxy
     \<and> po_terminal proxy"

definition validate_outputs :: "oci_world \<Rightarrow> docker_session \<Rightarrow> string \<Rightarrow> string \<Rightarrow> string \<Rightarrow> oci_remote_error + oci_remote_result" where
  "validate_outputs W dk source_bundle worker_bytes proxy_bytes =
     bindE (ok_or InvalidOutput (oi_worker_report W worker_bytes)) (\<lambda>worker.
     bindE (ok_or InvalidOutput (oi_proxy_report W proxy_bytes)) (\<lambda>proxy.
     bindE (ok_or InvalidOutput (parse_ip (po_resolved_ip proxy))) (\<lambda>resolved_ip.
     bindE (ok_or InvalidOutput (checked_add_u64 (po_bytes_client_to_upstream proxy) (po_bytes_upstream_to_client proxy))) (\<lambda>tunnel_bytes.
       if \<not> reports_accepted W dk source_bundle worker proxy resolved_ip tunnel_bytes then Inl InvalidOutput
       else Inr \<lparr>or_source_bundle = source_bundle, or_resolved_commit = wr_resolved_commit worker,
              or_git_binary_digest = wr_git_binary_digest worker,
              or_observed_destination_host = ed_host (hd (po_observed_destinations proxy)),
              or_observed_destination_port = ed_port (hd (po_observed_destinations proxy)),
              or_controls = controls_of_session dk\<rparr>))))"

end
