(* ===== verification/Oci_Transaction.thy ===== *)
theory Oci_Transaction
  imports Oci_Lifecycle "HOL-Library.Sublist"
begin

text \<open>
  \<open>run_session\<close>, \<open>cleanup_session\<close> and \<open>acquire_remote\<close> of \<open>oci_remote.rs\<close>, and what holds of the order of their
  commands: the worker is given its request after its routes were read, and nothing outlives a session.
\<close>

section \<open>The transaction\<close>

definition workspace_file :: "string \<Rightarrow> string \<Rightarrow> string" where
  "workspace_file ws name = ws @ ''/'' @ name"

definition step_unit :: "'a oci_step \<Rightarrow> unit oci_step" where
  "step_unit f = step_bind f (\<lambda>_. step_of (Inr ()))"

definition session_networks :: "oci_world \<Rightarrow> docker_session \<Rightarrow> unit oci_step" where
  "session_networks W dk =
     (let n = dk_names dk in
      step_bind (docker_required W dk
        [''network'', ''create'', ''--driver'', ''bridge'', ''--internal'', ''--ipv6=false'', ''--opt'',
         ''com.docker.network.bridge.gateway_mode_ipv4=isolated'', ''--label'', rn_label n, rn_internal_network n]
        DEFAULT_COMMAND_SECONDS) (\<lambda>_.
      step_bind (docker_required W dk [''network'', ''create'', ''--label'', rn_label n, rn_outbound_network n]
        DEFAULT_COMMAND_SECONDS) (\<lambda>_.
      step_bind (verify_network W dk (rn_internal_network n) True) (\<lambda>_.
        verify_network W dk (rn_outbound_network n) False))))"

definition session_relay :: "oci_world \<Rightarrow> docker_session \<Rightarrow> string \<Rightarrow> string \<Rightarrow> unit oci_step" where
  "session_relay W dk grant_path ws =
     (let n = dk_names dk in
      step_bind (docker_required W dk [''volume'', ''create'', ''--label'', rn_label n, rn_relay_volume n]
        DEFAULT_COMMAND_SECONDS) (\<lambda>_.
      step_bind (create_relay W dk) (\<lambda>_.
      step_bind (verify_binary W dk (rn_relay n) RELAY_BINARY (bk_ssh_agent_relay_digest (rm_backend (dk_manifest dk)))
        (workspace_file ws ''relay-bin'')) (\<lambda>_.
      step_bind (verify_relay_container W dk) (\<lambda>_.
      step_bind (docker_required W dk [''start'', rn_relay n] DEFAULT_COMMAND_SECONDS) (\<lambda>_.
      step_bind (copy_request W dk grant_path (rn_relay n) RELAY_GRANT_PATH ''0:0'') (\<lambda>_.
        await_relay_ready W dk)))))))"

definition session_proxy :: "oci_world \<Rightarrow> docker_session \<Rightarrow> string \<Rightarrow> string \<Rightarrow> unit oci_step" where
  "session_proxy W dk proxy_request_path ws =
     (let n = dk_names dk in
      step_bind (create_proxy W dk) (\<lambda>_.
      step_bind (verify_binary W dk (rn_proxy n) PROXY_BINARY (bk_egress_proxy_digest (rm_backend (dk_manifest dk)))
        (workspace_file ws ''proxy-bin'')) (\<lambda>_.
      step_bind (docker_required W dk [''network'', ''connect'', rn_outbound_network n, rn_proxy n]
        DEFAULT_COMMAND_SECONDS) (\<lambda>_.
      step_bind (verify_container W dk ProxyRole) (\<lambda>_.
      step_bind (docker_required W dk [''start'', rn_proxy n] DEFAULT_COMMAND_SECONDS) (\<lambda>_.
      step_bind (copy_request W dk proxy_request_path (rn_proxy n) PROXY_REQUEST_PATH CONTAINER_UID) (\<lambda>_.
        await_proxy_ready W dk)))))))"

definition session_worker :: "oci_world \<Rightarrow> docker_session \<Rightarrow> string \<Rightarrow> unit oci_step" where
  "session_worker W dk ws =
     (let n = dk_names dk in
      step_bind (create_worker W dk) (\<lambda>_.
      step_bind (verify_binary W dk (rn_worker n) WORKER_BINARY (bk_runner_digest (rm_backend (dk_manifest dk)))
        (workspace_file ws ''worker-bin'')) (\<lambda>_.
      step_bind (verify_container W dk WorkerRole) (\<lambda>_.
        step_unit (docker_required W dk [''start'', rn_worker n] DEFAULT_COMMAND_SECONDS)))))"

definition session_outputs :: "oci_world \<Rightarrow> docker_session \<Rightarrow> bool \<Rightarrow> oci_remote_result oci_step" where
  "session_outputs W dk relayed =
     (let n = dk_names dk in
      step_bind (await_worker_report W dk) (\<lambda>worker_bytes.
      step_bind (read_from W dk (rn_worker n) BUNDLE_PATH (rm_max_bundle_bytes (dk_manifest dk))) (\<lambda>source_bundle.
      step_bind (docker_required W dk [''stop'', ''--time'', ''2'', rn_worker n] DEFAULT_COMMAND_SECONDS) (\<lambda>_.
      step_bind (if relayed then await_relay_receipt W dk else step_of (Inr ())) (\<lambda>_.
      step_bind (step_of (ok_or InvalidOciRequest (oi_done_jcs W WORKER_DONE_SCHEMA (rm_manifest_digest (dk_manifest dk))))) (\<lambda>done_bytes.
      step_bind (required_with_input W dk (dd_arguments CONTAINER_UID (rn_proxy n) WORKER_DONE_PATH) done_bytes
        DEFAULT_COMMAND_SECONDS) (\<lambda>_.
      step_bind (await_proxy_terminal W dk) (\<lambda>proxy_bytes.
      step_bind (docker_required W dk [''stop'', ''--time'', ''2'', rn_proxy n] DEFAULT_COMMAND_SECONDS) (\<lambda>_.
        step_of (validate_outputs W dk source_bundle worker_bytes proxy_bytes))))))))))"

definition run_session :: "oci_world \<Rightarrow> docker_session \<Rightarrow> string \<Rightarrow> string \<Rightarrow> string option \<Rightarrow> string \<Rightarrow> oci_remote_result oci_step" where
  "run_session W dk request_path proxy_request_path grant_path ws =
     step_bind (session_networks W dk) (\<lambda>_.
     step_bind (case grant_path of Some p \<Rightarrow> session_relay W dk p ws | None \<Rightarrow> step_of (Inr ())) (\<lambda>_.
     step_bind (session_proxy W dk proxy_request_path ws) (\<lambda>_.
     step_bind (session_worker W dk ws) (\<lambda>_.
     step_bind (verify_worker_default_route_absent W dk) (\<lambda>_.
     step_bind (copy_request W dk request_path (rn_worker (dk_names dk)) REQUEST_PATH CONTAINER_UID) (\<lambda>_.
       session_outputs W dk (grant_path \<noteq> None)))))))"

section \<open>Removal\<close>

text \<open>Six removals whose results are ignored, then three listings by label that must print nothing.\<close>

definition removal_arguments :: "resource_names \<Rightarrow> string list list" where
  "removal_arguments n =
     map (\<lambda>c. [''rm'', ''--force'', ''--volumes'', c]) [rn_worker n, rn_proxy n, rn_relay n]
     @ [[''volume'', ''rm'', rn_relay_volume n]]
     @ map (\<lambda>w. [''network'', ''rm'', w]) [rn_internal_network n, rn_outbound_network n]"

fun run_ignored :: "oci_world \<Rightarrow> docker_session \<Rightarrow> string list list \<Rightarrow> unit oci_step" where
  "run_ignored W dk [] = step_of (Inr ())"
| "run_ignored W dk (arguments # more_arguments) =
     step_bind (step_ok (docker_run W dk arguments DEFAULT_COMMAND_SECONDS MAX_INSPECT_BYTES)) (\<lambda>_.
       run_ignored W dk more_arguments)"

definition nothing_listed :: "command_output \<Rightarrow> bool" where
  "nothing_listed out \<longleftrightarrow> co_success out \<and> list_all ascii_whitespace (co_stdout out)"

definition cleanup_session :: "oci_world \<Rightarrow> docker_session \<Rightarrow> unit oci_step" where
  "cleanup_session W dk =
     (let filter_by = ''label='' @ rn_label (dk_names dk);
          list = (\<lambda>arguments. docker_run W dk arguments DEFAULT_COMMAND_SECONDS MAX_INSPECT_BYTES) in
      step_bind (run_ignored W dk (removal_arguments (dk_names dk))) (\<lambda>_.
      step_bind (list [''ps'', ''-aq'', ''--filter'', filter_by]) (\<lambda>containers.
      step_bind (list [''network'', ''ls'', ''-q'', ''--filter'', filter_by]) (\<lambda>networks.
      step_bind (list [''volume'', ''ls'', ''-q'', ''--filter'', filter_by]) (\<lambda>volumes.
        step_of (ensure (nothing_listed containers \<and> nothing_listed networks \<and> nothing_listed volumes) CleanupFailed))))))"

definition session_verdict :: "oci_remote_error + oci_remote_result \<Rightarrow> oci_remote_error + unit \<Rightarrow> oci_remote_error + oci_remote_result" where
  "session_verdict body cleanup =
     (case (body, cleanup) of
        (Inr r, Inr _) \<Rightarrow> Inr (r\<lparr>or_controls := (or_controls r)\<lparr>oc_cleanup_complete := Passed\<rparr>\<rparr>)
      | (_, Inl _) \<Rightarrow> Inl CleanupFailed
      | (Inl e, Inr _) \<Rightarrow> Inl e)"

definition supervised_session :: "oci_world \<Rightarrow> docker_session \<Rightarrow> oci_remote_result oci_step \<Rightarrow> oci_remote_result oci_step" where
  "supervised_session W dk body h =
     (case body h of
        (result, h') \<Rightarrow> (case cleanup_session W dk h' of (cleanup, h'') \<Rightarrow> (session_verdict result cleanup, h'')))"

definition session_proxy_request_of :: "remote_manifest \<Rightarrow> session_proxy_request" where
  "session_proxy_request_of m =
     \<lparr>sp_schema_version = PROXY_REQUEST_SCHEMA, sp_manifest_digest = rm_manifest_digest m, sp_destination = rm_destination m, sp_max_connections = 16,
      sp_max_request_bytes = 16 * 1024, sp_max_headers = 64, sp_max_tunnel_bytes = tunnel_limit m,
      sp_max_connection_seconds = min (rm_wall_time_seconds m) 300,
      sp_wall_time_seconds = min (min (rm_wall_time_seconds m + 15) (2 ^ 64 - 1)) 600\<rparr>"

definition write_private_request :: "oci_world \<Rightarrow> string \<Rightarrow> string \<Rightarrow> oci_remote_error + unit" where
  "write_private_request W p bytes = ensure (oi_written W p bytes) InvalidOciRequest"

text \<open>What is prepared before any command: the two requests in their canonical form, within bounds, and their files.\<close>

definition prepare_session :: "oci_world \<Rightarrow> remote_manifest \<Rightarrow> session_worker_request \<Rightarrow> string option \<Rightarrow> oci_remote_error + string" where
  "prepare_session W m input grant =
     (if oi_cancelled W then Inl OciCancelled
      else
        bindE (ok_or InvalidOciRequest (oi_request_jcs W input)) (\<lambda>request.
          if length request > OCI_MAX_REQUEST_BYTES then Inl InvalidOciRequest
          else if (case grant of None \<Rightarrow> False | Some g \<Rightarrow> g = [] \<or> length g > OCI_MAX_REQUEST_BYTES)
              \<or> ((sw_ssh input \<noteq> None) \<noteq> (grant \<noteq> None)) then Inl InvalidOciRequest
          else
            bindE (ok_or InvalidOciRequest (oi_proxy_request_jcs W (session_proxy_request_of m))) (\<lambda>proxy_request.
              if length proxy_request > OCI_MAX_REQUEST_BYTES then Inl InvalidOciRequest
              else
                bindE (ok_or InvalidOciRequest (oi_workspace W)) (\<lambda>ws.
                bindE (write_private_request W (workspace_file ws ''request.json'') request) (\<lambda>_.
                bindE (write_private_request W (workspace_file ws ''proxy-request.json'') proxy_request) (\<lambda>_.
                bindE (case grant of None \<Rightarrow> Inr () | Some g \<Rightarrow> write_private_request W (workspace_file ws ''relay-grant.json'') g) (\<lambda>_.
                  Inr ws)))))))"

definition acquire_remote :: "oci_world \<Rightarrow> oci_remote_config \<Rightarrow> remote_manifest \<Rightarrow> session_worker_request \<Rightarrow> string option \<Rightarrow> oci_remote_result oci_step" where
  "acquire_remote W cf m input grant =
     step_bind (step_of (prepare_session W m input grant)) (\<lambda>ws.
     let dk = \<lparr>dk_config = cf, dk_manifest = m, dk_names = resource_names_new (oi_token W)\<rparr> in
     step_bind (verify_runtime W dk) (\<lambda>_.
     step_bind (verify_image W dk) (\<lambda>_.
       supervised_session W dk
         (run_session W dk (workspace_file ws ''request.json'') (workspace_file ws ''proxy-request.json'')
           (map_option (\<lambda>_. workspace_file ws ''relay-grant.json'') grant) ws))))"

definition oci_public_https :: "oci_world \<Rightarrow> oci_remote_config \<Rightarrow> remote_manifest \<Rightarrow> string \<Rightarrow> oci_remote_result oci_step" where
  "oci_public_https W cf m locator =
     step_bind (step_of (map_err (\<lambda>_. InvalidOciRequest) (manifest_validate (oi_remote W) m))) (\<lambda>_.
     step_bind (step_of (config_validate cf m)) (\<lambda>_.
     step_bind (step_of (validate_public_request (oi_remote W) m locator)) (\<lambda>_.
       acquire_remote W cf m
         \<lparr>sw_schema_version = REQUEST_SCHEMA, sw_manifest = m, sw_https_url = Some locator, sw_ssh = None\<rparr> None)))"

definition oci_brokered_ssh :: "oci_world \<Rightarrow> oci_remote_config \<Rightarrow> remote_manifest \<Rightarrow> string \<Rightarrow> string \<Rightarrow> string \<Rightarrow> string
    \<Rightarrow> oci_remote_result oci_step" where
  "oci_brokered_ssh W cf m repository key_type key_base64 grant =
     step_bind (step_of (map_err (\<lambda>_. InvalidOciRequest) (manifest_validate (oi_remote W) m))) (\<lambda>_.
     step_bind (step_of (config_validate cf m)) (\<lambda>_.
     step_bind (step_of (validate_ssh_request (oi_remote W) m repository key_type key_base64)) (\<lambda>_.
       acquire_remote W cf m
         \<lparr>sw_schema_version = REQUEST_SCHEMA, sw_manifest = m, sw_https_url = None,
          sw_ssh = Some (repository, key_type, key_base64)\<rparr> (Some grant))))"

end
