(* ===== verification/Oci_Theorems.thy ===== *)
theory Oci_Theorems
  imports Oci_Transaction
begin

text \<open>
  What holds of an OCI session: the order of its commands, the removal of its resources, and what an accepted
  session attests.
\<close>

section \<open>Steps\<close>

lemma step_bind_eq_Inr:
  "step_bind f k h = (Inr y, h'') \<longleftrightarrow> (\<exists>x h'. f h = (Inr x, h') \<and> k x h' = (Inr y, h''))"
  by (auto simp: step_bind_def split: prod.splits sum.splits)

lemma step_of_eq [simp]: "step_of m h = (r, h') \<longleftrightarrow> m = r \<and> h = h'"
  by (auto simp: step_of_def)

text \<open>A step appends commands, all of which satisfy \<open>P\<close>, whatever its result.\<close>

definition appends :: "(docker_command \<Rightarrow> bool) \<Rightarrow> 'a oci_step \<Rightarrow> bool" where
  "appends P f \<longleftrightarrow> (\<forall>h. \<exists>cs. snd (f h) = h @ cs \<and> list_all P cs)"

named_theorems appending

lemma appendsD: "appends P f \<Longrightarrow> f h = (r, h') \<Longrightarrow> \<exists>cs. h' = h @ cs \<and> list_all P cs"
  by (metis appends_def snd_conv)

lemma appends_step_of [appending]: "appends P (step_of m)"
  by (simp add: appends_def step_of_def)

lemma appends_bind [appending]:
  assumes "appends P f" and "\<And>x. appends P (k x)"
  shows "appends P (step_bind f k)"
  unfolding appends_def
proof
  fix h
  obtain r h' where f: "f h = (r, h')" by fastforce
  from appendsD [OF assms(1) f] obtain cs where cs: "h' = h @ cs" "list_all P cs" by blast
  show "\<exists>cs. snd (step_bind f k h) = h @ cs \<and> list_all P cs"
  proof (cases r)
    case (Inr x)
    obtain s h'' where k: "k x h' = (s, h'')" by fastforce
    from appendsD [OF assms(2) k] cs k f Inr show ?thesis by (fastforce simp: step_bind_def)
  qed (use f cs in \<open>auto simp: step_bind_def\<close>)
qed

lemma appends_ok [appending]: "appends P f \<Longrightarrow> appends P (step_ok f)"
  by (auto simp: appends_def step_ok_def split: prod.splits sum.splits) (metis snd_conv)+

lemma appends_poll:
  assumes "appends P poll"
  shows "appends P (poll_loop late poll ticks)"
proof (induction ticks)
  case (Cons cancelled ticks)
  show ?case unfolding appends_def
  proof
    fix h
    obtain r h' where p: "poll h = (r, h')" by fastforce
    from appendsD [OF assms p] obtain cs where cs: "h' = h @ cs" "list_all P cs" by blast
    from Cons obtain ds where ds: "snd (poll_loop late poll ticks h') = h' @ ds" "list_all P ds"
      by (auto simp: appends_def)
    from p cs ds show "\<exists>cs. snd (poll_loop late poll (cancelled # ticks) h) = h @ cs \<and> list_all P cs"
      by (auto split: sum.splits option.splits)
  qed
qed (simp add: appends_def)

lemma appends_polls [appending]:
  "appends P poll \<Longrightarrow> appends P (\<lambda>h. poll_loop late poll (oi_ticks W h) h)"
  using appends_poll by (fastforce simp: appends_def)

lemma appends_await [appending]: "appends P poll \<Longrightarrow> appends P (await_step W seconds late poll)"
  using appends_polls [of P poll late W] by (auto simp: appends_def await_step_def)

lemma appends_issue:
  "(\<And>c. dc_arguments c = [''--context'', DOCKER_CONTEXT] @ arguments \<Longrightarrow> P c)
     \<Longrightarrow> appends P (issue_command W dk arguments input seconds max_output)"
  by (simp add: appends_def issue_command_def Let_def)

lemma appends_local [appending]: "appends P (read_local W p limit error)"
  by (simp add: appends_def read_local_def)

lemma appends_if [appending]: "appends P f \<Longrightarrow> appends P g \<Longrightarrow> appends P (if b then f else g)"
  by simp

lemma appends_option [appending]:
  "appends P f \<Longrightarrow> (\<And>x. appends P (g x)) \<Longrightarrow> appends P (case m of None \<Rightarrow> f | Some x \<Rightarrow> g x)"
  by (cases m) simp_all

lemma appends_run [appending]:
  "(\<And>c. dc_arguments c = [''--context'', DOCKER_CONTEXT] @ arguments \<Longrightarrow> P c)
     \<Longrightarrow> appends P (docker_run W dk arguments seconds max_output)"
  unfolding docker_run_def by (rule appends_issue)

lemma appends_required [appending]:
  "(\<And>c. dc_arguments c = [''--context'', DOCKER_CONTEXT] @ arguments \<Longrightarrow> P c)
     \<Longrightarrow> appends P (docker_required W dk arguments seconds)"
  unfolding docker_required_def by (intro appending)

lemma appends_with_input [appending]:
  "(\<And>c. dc_arguments c = [''--context'', DOCKER_CONTEXT] @ arguments \<Longrightarrow> P c)
     \<Longrightarrow> appends P (required_with_input W dk arguments input seconds)"
  unfolding required_with_input_def by (intro appending appends_issue)

section \<open>The request follows the routes\<close>

definition worker_handover :: "docker_session \<Rightarrow> docker_command \<Rightarrow> bool" where
  "worker_handover dk c \<longleftrightarrow>
     dc_arguments c = [''--context'', DOCKER_CONTEXT] @ dd_arguments CONTAINER_UID (rn_worker (dk_names dk)) REQUEST_PATH"

definition route_reading :: "docker_session \<Rightarrow> docker_command \<Rightarrow> bool" where
  "route_reading dk c \<longleftrightarrow>
     dc_arguments c = [''--context'', DOCKER_CONTEXT]
       @ [''exec'', ''--user'', CONTAINER_UID, rn_worker (dk_names dk), ''/usr/bin/cat'', PROC_NET_ROUTE_PATH]"

text \<open>Among the commands so far, the routes of the worker were read and had no default.\<close>

definition route_checked :: "oci_world \<Rightarrow> docker_session \<Rightarrow> docker_command list \<Rightarrow> bool" where
  "route_checked W dk h \<longleftrightarrow>
     list_ex (\<lambda>i. route_reading dk (h ! i)
        \<and> (case oi_run W (take i h) (h ! i) of
             Inl _ \<Rightarrow> False
           | Inr out \<Rightarrow> co_success out \<and> worker_default_route_absent (co_stdout out) = Inr True)) [0..<length h]"

definition handed_safely :: "oci_world \<Rightarrow> docker_session \<Rightarrow> docker_command list \<Rightarrow> bool" where
  "handed_safely W dk h \<longleftrightarrow>
     list_all (\<lambda>i. worker_handover dk (h ! i) \<longrightarrow> route_checked W dk (take i h)) [0..<length h]"

abbreviation no_handover :: "docker_session \<Rightarrow> docker_command \<Rightarrow> bool" where
  "no_handover dk c \<equiv> \<not> worker_handover dk c"

lemma route_checked_append: "route_checked W dk h \<Longrightarrow> route_checked W dk (h @ cs)"
  by (fastforce simp: route_checked_def list_ex_iff nth_append)

lemma handed_safely_append:
  assumes "handed_safely W dk h" and "list_all (no_handover dk) cs \<or> route_checked W dk h"
  shows "handed_safely W dk (h @ cs)"
  unfolding handed_safely_def list_all_iff
proof (intro ballI impI)
  fix i assume i: "i \<in> set [0..<length (h @ cs)]" and c: "worker_handover dk ((h @ cs) ! i)"
  show "route_checked W dk (take i (h @ cs))"
  proof (cases "i < length h")
    case True
    with assms(1) c show ?thesis by (auto simp: handed_safely_def list_all_iff nth_append)
  next
    case False
    with i c have "(h @ cs) ! i \<in> set cs" by (auto simp: nth_append)
    with assms(2) c have "route_checked W dk h" by (auto simp: list_all_iff)
    with False show ?thesis by (simp add: route_checked_append)
  qed
qed

lemmas session_commands = worker_handover_def dd_arguments_def common_create_arguments_def worker_create_arguments_def
  removal_arguments_def

lemmas session_steps = session_networks_def session_relay_def session_proxy_def session_worker_def
  session_outputs_def verify_network_def verify_container_def verify_relay_container_def verify_relay_running_def
  verify_binary_def copy_from_def read_from_def inspect_member_def create_proxy_def create_relay_def create_worker_def
  run_created_def copy_request_def await_relay_ready_def await_proxy_ready_def await_proxy_terminal_def
  await_worker_report_def await_relay_receipt_def verify_worker_default_route_absent_def step_unit_def
  verify_image_def verify_runtime_def Let_def

lemma appends_session_networks: "appends (no_handover dk) (session_networks W dk)"
  unfolding session_steps by (intro appending) (simp_all add: session_commands)

lemma appends_session_relay: "appends (no_handover dk) (session_relay W dk p ws)"
  unfolding session_steps
  by (intro appending) (simp_all add: session_commands RELAY_GRANT_PATH_def REQUEST_PATH_def)

lemma appends_session_proxy: "appends (no_handover dk) (session_proxy W dk p ws)"
  unfolding session_steps
  by (intro appending) (simp_all add: session_commands PROXY_REQUEST_PATH_def REQUEST_PATH_def)

lemma appends_session_worker: "appends (no_handover dk) (session_worker W dk ws)"
  unfolding session_steps by (intro appending) (simp_all add: session_commands)

lemma appends_route_check: "appends (no_handover dk) (verify_worker_default_route_absent W dk)"
  unfolding session_steps by (intro appending) (simp_all add: session_commands)

lemma issued_reading:
  assumes "read_from W dk container source n h = (Inr out, h')"
  shows "\<exists>c answer. h' = h @ [c] \<and> oi_run W h c = Inr answer \<and> co_success answer \<and> co_stdout answer = out
    \<and> dc_arguments c = [''--context'', DOCKER_CONTEXT]
        @ [''exec'', ''--user'', CONTAINER_UID, container, ''/usr/bin/cat'', source]"
  using assms
  by (auto simp: read_from_def docker_run_def issue_command_def step_bind_eq_Inr require_success_def Let_def
      split: if_splits)

lemma route_check_reads:
  assumes "verify_worker_default_route_absent W dk h = (Inr x, h')"
  shows "route_checked W dk h'"
proof -
  obtain out where out: "read_from W dk (rn_worker (dk_names dk)) PROC_NET_ROUTE_PATH (64 * 1024) h = (Inr out, h')"
    "worker_default_route_absent out = Inr True"
    using assms
    by (auto simp: verify_worker_default_route_absent_def step_bind_eq_Inr bindE_eq_Inr ensure_def split: if_splits)
  with issued_reading [OF out(1)] show ?thesis
    by (fastforce simp: route_checked_def route_reading_def list_ex_iff)
qed

text \<open>Up to the route check nothing is handed over; from then on it may be.\<close>

lemma handed_by_quiet:
  assumes "appends (no_handover dk) f" and "f h = (r, h')" and "handed_safely W dk h"
  shows "handed_safely W dk h'"
  using appendsD [OF assms(1,2)] assms(3) handed_safely_append by blast

lemma appends_always: "appends (\<lambda>_. True) (copy_request W dk p c t u)"
  "appends (\<lambda>_. True) (session_outputs W dk relayed)"
  unfolding session_steps by (intro appending TrueI)+

lemma handed_after_check:
  assumes "appends (\<lambda>_. True) f" and "f h = (r, h')" and "handed_safely W dk h" and "route_checked W dk h"
  shows "handed_safely W dk h' \<and> route_checked W dk h'"
  using appendsD [OF assms(1,2)] assms(3,4) handed_safely_append route_checked_append by blast

definition keeps_safe :: "oci_world \<Rightarrow> docker_session \<Rightarrow> 'a oci_step \<Rightarrow> bool" where
  "keeps_safe W dk f \<longleftrightarrow> (\<forall>h. handed_safely W dk h \<longrightarrow> handed_safely W dk (snd (f h)))"

lemma keeps_safe_quiet: "appends (no_handover dk) f \<Longrightarrow> keeps_safe W dk f"
  unfolding keeps_safe_def by (metis handed_by_quiet prod.collapse)

lemma keeps_safe_bind:
  "keeps_safe W dk f \<Longrightarrow> (\<And>x. keeps_safe W dk (k x)) \<Longrightarrow> keeps_safe W dk (step_bind f k)"
  by (auto simp: keeps_safe_def step_bind_def split: prod.splits sum.splits)

lemma keeps_safe_checked:
  assumes "\<And>x. appends (\<lambda>_. True) (k x)"
  shows "keeps_safe W dk (step_bind (verify_worker_default_route_absent W dk) k)"
  unfolding keeps_safe_def
proof (intro allI impI)
  fix h assume h: "handed_safely W dk h"
  obtain r h' where v: "verify_worker_default_route_absent W dk h = (r, h')" by fastforce
  have safe: "handed_safely W dk h'" by (rule handed_by_quiet [OF appends_route_check v h])
  show "handed_safely W dk (snd (step_bind (verify_worker_default_route_absent W dk) k h))"
  proof (cases r)
    case (Inr x)
    with v have "route_checked W dk h'" using route_check_reads by blast
    with safe show ?thesis using handed_after_check [OF assms] Inr v
      by (simp add: step_bind_def) (metis prod.collapse)
  qed (use v safe in \<open>simp add: step_bind_def\<close>)
qed

lemma run_session_safe: "keeps_safe W dk (run_session W dk request_path proxy_request_path grant_path ws)"
  unfolding run_session_def
  by (intro keeps_safe_bind keeps_safe_checked keeps_safe_quiet appending appends_session_networks
      appends_session_relay appends_session_proxy appends_session_worker appends_always)

lemma appends_cleanup: "appends (no_handover dk) (cleanup_session W dk)"
proof -
  have ignored: "appends (no_handover dk) (run_ignored W dk argss)" if "list_all (\<lambda>a. hd a \<noteq> ''exec'' \<and> a \<noteq> []) argss" for argss
    using that
    by (induction argss) (auto intro!: appending simp: worker_handover_def dd_arguments_def)
  show ?thesis unfolding cleanup_session_def Let_def
    by (intro appending ignored) (simp_all add: removal_arguments_def worker_handover_def dd_arguments_def)
qed

text \<open>C35 (the request follows the routes). Whatever the command runner answers, and whether a session succeeds or
  fails at any point: before each command that writes the request into the worker, the routes of the worker were
  read, and the text that was read has a well-formed table without a default route. So the locator never reaches a
  container that could leave the internal network.\<close>

theorem request_follows_routes:
  "handed_safely W \<lparr>dk_config = cf, dk_manifest = m, dk_names = resource_names_new (oi_token W)\<rparr>
     (snd (acquire_remote W cf m input grant []))"
proof -
  define dk where "dk = \<lparr>dk_config = cf, dk_manifest = m, dk_names = resource_names_new (oi_token W)\<rparr>"
  have supervised: "keeps_safe W dk (supervised_session W dk body)" if "keeps_safe W dk body" for body
    using that keeps_safe_quiet [OF appends_cleanup, of W dk W]
    by (auto simp: keeps_safe_def supervised_session_def split: prod.splits)
  have quiet: "appends (no_handover dk) (verify_runtime W dk)" "appends (no_handover dk) (verify_image W dk)"
    unfolding session_steps by (intro appending; simp add: worker_handover_def dd_arguments_def)+
  have "keeps_safe W dk (acquire_remote W cf m input grant)"
    unfolding acquire_remote_def Let_def dk_def [symmetric]
    by (intro keeps_safe_bind supervised run_session_safe) (intro keeps_safe_quiet quiet appending)+
  then show ?thesis by (auto simp: keeps_safe_def dk_def handed_safely_def)
qed

section \<open>Nothing outlives a session\<close>

definition creates_resource :: "docker_command \<Rightarrow> bool" where
  "creates_resource c \<longleftrightarrow>
     (case drop 2 (dc_arguments c) of
        kind # verb # _ \<Rightarrow> kind = ''create'' \<or> (kind \<in> {''network'', ''volume''} \<and> verb = ''create'')
      | _ \<Rightarrow> False)"

abbreviation creates_nothing :: "docker_command \<Rightarrow> bool" where
  "creates_nothing c \<equiv> \<not> creates_resource c"

text \<open>What a session owes for what it creates, and that it comes after the last creation.\<close>

definition owed_removals :: "resource_names \<Rightarrow> string list list" where
  "owed_removals n =
     [[''rm'', ''--force'', ''--volumes'', rn_worker n], [''rm'', ''--force'', ''--volumes'', rn_proxy n],
      [''rm'', ''--force'', ''--volumes'', rn_relay n], [''volume'', ''rm'', rn_relay_volume n],
      [''network'', ''rm'', rn_internal_network n], [''network'', ''rm'', rn_outbound_network n]]"

lemma removal_arguments_owed: "removal_arguments n = owed_removals n"
  by (simp add: removal_arguments_def owed_removals_def)

definition removed_after :: "resource_names \<Rightarrow> docker_command list \<Rightarrow> bool" where
  "removed_after n h \<longleftrightarrow>
     (let after_last = rev (takeWhile creates_nothing (rev h))
      in sublist (owed_removals n) (map (\<lambda>c. drop 2 (dc_arguments c)) after_last))"

definition nothing_created :: "docker_command list \<Rightarrow> bool" where
  "nothing_created h \<longleftrightarrow> list_all creates_nothing h"

text \<open>The last three commands list what has the session's label, and print nothing.\<close>

definition label_listings :: "resource_names \<Rightarrow> string list list" where
  "label_listings n =
     (let filter_by = ''label='' @ rn_label n in
      [[''ps'', ''-aq'', ''--filter'', filter_by], [''network'', ''ls'', ''-q'', ''--filter'', filter_by],
       [''volume'', ''ls'', ''-q'', ''--filter'', filter_by]])"

definition nothing_left :: "oci_world \<Rightarrow> resource_names \<Rightarrow> docker_command list \<Rightarrow> bool" where
  "nothing_left W n h \<longleftrightarrow>
     (let k = length h - 3 in
      map (\<lambda>c. drop 2 (dc_arguments c)) (drop k h) = label_listings n
      \<and> list_all (\<lambda>i. case oi_run W (take i h) (h ! i) of Inl _ \<Rightarrow> False | Inr out \<Rightarrow> nothing_listed out) [k..<k + 3])"

lemma takeWhile_rev_append:
  "list_all P ys \<Longrightarrow> takeWhile P (rev (xs @ ys)) = rev ys @ takeWhile P (rev xs)"
  by (simp add: takeWhile_append list_all_iff)

lemma removed_afterI:
  assumes "map (\<lambda>c. drop 2 (dc_arguments c)) cs = owed_removals n" and "list_all creates_nothing cs"
    and "list_all creates_nothing ds"
  shows "removed_after n (h @ cs @ ds)"
proof -
  have "takeWhile creates_nothing (rev (h @ cs @ ds)) = rev (cs @ ds) @ takeWhile creates_nothing (rev h)"
    using assms by (intro takeWhile_rev_append) simp
  then show ?thesis unfolding removed_after_def Let_def
    by (simp add: assms(1) sublist_appendI)
qed

lemma ignored_commands:
  "run_ignored W dk argss h = (Inr (), h @ map (\<lambda>a. \<lparr>dc_program = cf_docker_program (dk_config dk),
     dc_arguments = [''--context'', DOCKER_CONTEXT] @ a, dc_environment = [], dc_stdin = [],
     dc_max_output_bytes = MAX_INSPECT_BYTES, dc_seconds = DEFAULT_COMMAND_SECONDS\<rparr>) argss)"
  by (induction argss arbitrary: h)
    (simp_all add: step_of_def step_bind_def step_ok_def docker_run_def issue_command_def Let_def split: sum.splits)

lemma removal_creates_nothing:
  "a \<in> set (removal_arguments n) \<Longrightarrow> dc_arguments c = x # y # a \<Longrightarrow> creates_nothing c"
  by (auto simp: removal_arguments_def creates_resource_def)

definition listing_command :: "docker_session \<Rightarrow> string list \<Rightarrow> docker_command" where
  "listing_command dk a = \<lparr>dc_program = cf_docker_program (dk_config dk),
     dc_arguments = [''--context'', DOCKER_CONTEXT] @ a, dc_environment = [], dc_stdin = [],
     dc_max_output_bytes = MAX_INSPECT_BYTES, dc_seconds = DEFAULT_COMMAND_SECONDS\<rparr>"

lemma run_listing: "docker_run W dk a DEFAULT_COMMAND_SECONDS MAX_INSPECT_BYTES h
    = (oi_run W h (listing_command dk a), h @ [listing_command dk a])"
  by (simp add: docker_run_def issue_command_def listing_command_def Let_def)

lemma listing_creates_nothing: "a \<in> set (label_listings n) \<Longrightarrow> creates_nothing (listing_command dk a)"
  by (auto simp: label_listings_def Let_def creates_resource_def listing_command_def)

lemma nothing_leftI:
  assumes "map (\<lambda>c. drop 2 (dc_arguments c)) [a, b, c] = label_listings n"
    and "oi_run W h a = Inr x" "oi_run W (h @ [a]) b = Inr y" "oi_run W (h @ [a, b]) c = Inr z"
    and "nothing_listed x" "nothing_listed y" "nothing_listed z"
  shows "nothing_left W n (h @ [a, b, c])"
proof -
  have "[length h..<length h + 3] = [length h, length h + 1, length h + 2]" by (simp add: upt_conv_Cons)
  with assms show ?thesis by (simp add: nothing_left_def Let_def nth_append del: upt_conv_Nil)
qed

lemma cleanup_removes:
  assumes "cleanup_session W dk h = (r, h')"
  shows "removed_after (dk_names dk) h'"
    and "r = Inr () \<Longrightarrow> nothing_left W (dk_names dk) h'"
proof -
  define cs where "cs = map (listing_command dk) (removal_arguments (dk_names dk))"
  obtain a b c where l: "label_listings (dk_names dk) = [a, b, c]" by (simp add: label_listings_def Let_def)
  note run = cleanup_session_def Let_def step_bind_def ignored_commands step_of_def run_listing
  have ab: "a = [''ps'', ''-aq'', ''--filter'', ''label='' @ rn_label (dk_names dk)]"
    "b = [''network'', ''ls'', ''-q'', ''--filter'', ''label='' @ rn_label (dk_names dk)]"
    "c = [''volume'', ''ls'', ''-q'', ''--filter'', ''label='' @ rn_label (dk_names dk)]"
    using l by (simp_all add: label_listings_def Let_def)
  have cleanup: "cleanup_session W dk h =
     (step_bind (\<lambda>h. (oi_run W h (listing_command dk a), h @ [listing_command dk a])) (\<lambda>x.
      step_bind (\<lambda>h. (oi_run W h (listing_command dk b), h @ [listing_command dk b])) (\<lambda>y.
      step_bind (\<lambda>h. (oi_run W h (listing_command dk c), h @ [listing_command dk c])) (\<lambda>z.
        step_of (ensure (nothing_listed x \<and> nothing_listed y \<and> nothing_listed z) CleanupFailed))))) (h @ cs)"
    unfolding cleanup_session_def Let_def ab cs_def
    by (subst step_bind_def) (simp add: ignored_commands run_listing [abs_def] listing_command_def [abs_def] del: append_Cons)
  obtain ds where ds: "h' = h @ cs @ ds" "ds \<in> {take n (map (listing_command dk) [a, b, c]) | n. True}"
    using assms unfolding cleanup
    by (auto simp: step_bind_def step_of_def split: sum.splits prod.splits)
      (metis take0 take_Suc_Cons)+
  show "removed_after (dk_names dk) h'"
  proof -
    have "list_all creates_nothing ds"
      using ds(2) listing_creates_nothing [of _ "dk_names dk" dk] l by (auto simp: list_all_iff dest!: in_set_takeD)
    moreover have "list_all creates_nothing cs"
      using removal_creates_nothing by (auto simp: cs_def list_all_iff listing_command_def)
    ultimately show ?thesis unfolding ds(1)
      by (intro removed_afterI) (simp_all add: cs_def listing_command_def comp_def flip: removal_arguments_owed)
  qed
  assume r: "r = Inr ()"
  define A B C where "A = listing_command dk a" and "B = listing_command dk b" and "C = listing_command dk c"
  obtain x y z where run: "oi_run W (h @ cs) A = Inr x" "oi_run W ((h @ cs) @ [A]) B = Inr y"
    "oi_run W ((h @ cs) @ [A, B]) C = Inr z" "nothing_listed x" "nothing_listed y" "nothing_listed z"
    and h': "h' = (h @ cs) @ [A, B, C]"
    using assms r unfolding cleanup A_def [symmetric] B_def [symmetric] C_def [symmetric]
    by (auto simp: step_bind_eq_Inr ensure_def split: if_splits)
  have "map (\<lambda>c. drop 2 (dc_arguments c)) [A, B, C] = label_listings (dk_names dk)"
    by (simp add: l A_def B_def C_def listing_command_def)
  from nothing_leftI [OF this run] show "nothing_left W (dk_names dk) h'" by (simp add: h')
qed

lemma appends_created:
  "appends creates_nothing (verify_runtime W dk)" "appends creates_nothing (verify_image W dk)"
  unfolding session_steps by (intro appending; simp add: creates_resource_def)+

text \<open>C36 (cleanup is issued and checked). However a session ends, either it issued no command that creates a network, a volume
  or a container, or after the last such command the removals of the worker, the proxy, the relay, the volume and both networks
  are issued, whatever the commands answer. A removal may fail, and its own answer is ignored; but unless the session ends with
  \<open>CleanupFailed\<close>, the last three commands listed the containers, networks and volumes with its label, succeeded and printed
  only white space. In particular this holds of a session that returns a result, which then says that its cleanup is complete.\<close>

theorem session_cleanup_checked:
  "case acquire_remote W cf m input grant [] of
     (result, h) \<Rightarrow>
       let n = resource_names_new (oi_token W) in
       (case result of
          Inl e \<Rightarrow> nothing_created h \<or> removed_after n h \<and> (e = CleanupFailed \<or> nothing_left W n h)
        | Inr r \<Rightarrow> removed_after n h \<and> nothing_left W n h \<and> oc_cleanup_complete (or_controls r) = Passed)"
proof -
  define dk where "dk = \<lparr>dk_config = cf, dk_manifest = m, dk_names = resource_names_new (oi_token W)\<rparr>"
  have quiet: "nothing_created (snd (f h))" if "appends creates_nothing f" "nothing_created h" for f :: "unit oci_step" and h
    using appendsD [OF that(1), of h "fst (f h)" "snd (f h)"] that(2) by (auto simp: nothing_created_def)
  have n: "dk_names dk = resource_names_new (oi_token W)" by (simp add: dk_def)
  have supervised: "removed_after (dk_names dk) h' \<and>
      (\<forall>r. result = Inr r \<longrightarrow> nothing_left W (dk_names dk) h' \<and> oc_cleanup_complete (or_controls r) = Passed) \<and>
      (\<forall>e. result = Inl e \<longrightarrow> e = CleanupFailed \<or> nothing_left W (dk_names dk) h')"
    if "supervised_session W dk body h = (result, h')" for body h result h'
    using that cleanup_removes [of W dk "snd (body h)"]
    by (auto simp: supervised_session_def session_verdict_def split: prod.splits sum.splits)
  obtain r1 h1 where v1: "verify_runtime W dk [] = (r1, h1)" by fastforce
  obtain r2 h2 where v2: "verify_image W dk h1 = (r2, h2)" by fastforce
  have h1: "nothing_created h1" using quiet [OF appends_created(1), of "[]" W dk] v1 by (simp add: nothing_created_def)
  have h2: "nothing_created h2" using quiet [OF appends_created(2) h1, of W dk] v2 by simp
  show ?thesis
    unfolding acquire_remote_def Let_def dk_def [symmetric] unfolding n [symmetric]
    using v1 v2 h1 h2
    by (auto simp: step_bind_def step_of_def nothing_created_def split: sum.splits prod.splits dest!: supervised)
qed

section \<open>What an accepted session attests\<close>

lemma run_session_outputs:
  assumes "run_session W dk p q g ws h = (Inr r, h')"
  shows "\<exists>bundle worker proxy. validate_outputs W dk bundle worker proxy = Inr r"
  using assms unfolding run_session_def session_outputs_def Let_def by (auto simp: step_bind_eq_Inr)

lemma supervised_Inr:
  assumes "supervised_session W dk body h = (Inr r, h')"
  shows "\<exists>r0 h0. body h = (Inr r0, h0) \<and> r = r0\<lparr>or_controls := (or_controls r0)\<lparr>oc_cleanup_complete := Passed\<rparr>\<rparr>"
  using assms by (auto simp: supervised_session_def session_verdict_def split: prod.splits sum.splits)

lemma outputs_controls:
  assumes "validate_outputs W dk bundle worker proxy = Inr r"
  shows "or_controls r = controls_of_session dk" and "valid_object_id (or_resolved_commit r)"
    and "is_sha256_digest (or_git_binary_digest r)"
    and "or_observed_destination_host r = ed_host (rm_destination (dk_manifest dk))"
    and "or_observed_destination_port r = ed_port (rm_destination (dk_manifest dk))"
  using assms by (auto simp: validate_outputs_def reports_accepted_def bindE_eq_Inr split: if_splits)

lemma config_validate_bounds:
  assumes "config_validate cf m = Inr ()"
  shows "rm_max_bundle_bytes m + rm_max_output_bytes m \<le> cf_output_tmpfs_bytes cf"
    and "cf_output_tmpfs_bytes cf \<le> 1024 * 1024 * 1024"
    and "4 * 1024 * 1024 \<le> cf_temp_tmpfs_bytes cf" and "cf_temp_tmpfs_bytes cf \<le> 64 * 1024 * 1024"
  using assms by (auto simp: config_validate_def Let_def split: if_splits)

lemma acquired_outputs:
  assumes "acquire_remote W cf m input grant h = (Inr r, h')"
  shows "\<exists>dk r0 bundle worker proxy. dk_manifest dk = m \<and> dk_config dk = cf
    \<and> validate_outputs W dk bundle worker proxy = Inr r0
    \<and> r = r0\<lparr>or_controls := (or_controls r0)\<lparr>oc_cleanup_complete := Passed\<rparr>\<rparr>"
  using assms unfolding acquire_remote_def Let_def
  by (auto simp: step_bind_eq_Inr dest!: supervised_Inr run_session_outputs) (metis docker_session.select_convs(1,2))+

lemma accepted_attests:
  assumes "config_validate cf m = Inr ()" and "acquire_remote W cf m input grant h = (Inr r, h')"
    and "rm_broker m = None \<or> relay_removed" and "is_sha256_digest (remote_source_bundle_digest X (or_source_bundle r))"
  shows "attestation_matches (attestation_of X m r relay_removed) m"
proof -
  obtain dk r0 b w p where dk: "dk_manifest dk = m" "dk_config dk = cf" "validate_outputs W dk b w p = Inr r0"
    "r = r0\<lparr>or_controls := (or_controls r0)\<lparr>oc_cleanup_complete := Passed\<rparr>\<rparr>"
    using acquired_outputs [OF assms(2)] by blast
  note o = outputs_controls [OF dk(3)]
  from config_validate_bounds [OF assms(1)] o dk(1,2) assms(3,4) show ?thesis
    by (auto simp: dk(4) attestation_matches_def attestation_of_def Let_def controls_of_session_def
        cleanup_accepted_def INPUT_TMPFS_BYTES_def)
qed

text \<open>C37 (what a session returns is accepted by the attestation check). The evidence that a session reports, with
  its image, binaries, destination, limits and controls, is what the acquirer's check of the attestation asks of it,
  for every configuration and manifest that the session accepts; only the digest of the bundle remains to be well
  formed, and the broker's relay to be reported as removed where there is one.\<close>

theorem public_session_attested:
  "case fst (oci_public_https W cf m locator h) of
     Inl e \<Rightarrow> True
   | Inr r \<Rightarrow>
       attestation_matches (attestation_of X m r relay_removed) m
         = is_sha256_digest (remote_source_bundle_digest X (or_source_bundle r))"
proof (cases "fst (oci_public_https W cf m locator h)")
  case (Inr r)
  then obtain h' where h': "oci_public_https W cf m locator h = (Inr r, h')" by (metis prod.collapse)
  have v: "validate_public_request (oi_remote W) m locator = Inr ()" "config_validate cf m = Inr ()"
    and a: "\<exists>input. acquire_remote W cf m input None h = (Inr r, h')"
    using h' by (auto simp: oci_public_https_def step_bind_eq_Inr)
  from v(1) have "rm_broker m = None" by (auto simp: validate_public_request_def split: if_splits)
  with accepted_attests [OF v(2)] a
  have "attestation_matches (attestation_of X m r relay_removed) m"
    if "is_sha256_digest (remote_source_bundle_digest X (or_source_bundle r))" using that by blast
  moreover have "is_sha256_digest (remote_source_bundle_digest X (or_source_bundle r))"
    if "attestation_matches (attestation_of X m r relay_removed) m"
    using that by (auto simp: attestation_matches_def attestation_of_def Let_def)
  ultimately show ?thesis using Inr by auto
qed simp

section \<open>The proxy's addresses and the session's\<close>

text \<open>The first \<open>n\<close> bits of an address as a number.\<close>

lemma masked_eq_div:
  fixes v w :: "'a::len word"
  assumes "k \<le> LENGTH('a)" and "and v (push_bit k (- 1)) = w"
  shows "unat v div 2 ^ k = unat w div 2 ^ k"
proof -
  have "drop_bit k w = drop_bit k v"
    unfolding assms(2) [symmetric] by (rule bit_word_eqI) (auto simp: bit_simps dest: bit_imp_le_length)
  then have "unat (drop_bit k w) = unat (drop_bit k v)" by simp
  then have "drop_bit k (unat w) = drop_bit k (unat v)" unfolding unat_drop_bit_eq .
  then show ?thesis by (simp add: drop_bit_eq_div)
qed

lemma div_eq_masked:
  fixes v w :: "'a::len word"
  assumes "unat v div 2 ^ k = unat w div 2 ^ k" and "unat w mod 2 ^ k = 0"
  shows "and v (push_bit k (- 1)) = w"
proof -
  have "drop_bit k v = drop_bit k w"
    using assms(1) by (metis drop_bit_eq_div unat_drop_bit_eq word_unat_eq_iff)
  then have "\<forall>n. bit v (n + k) = bit w (n + k)" by (metis add.commute bit_drop_bit_eq comp_apply)
  then have "and v (push_bit k (- 1)) = and w (push_bit k (- 1))"
    by (intro bit_word_eqI) (metis bit_and_iff bit_push_bit_iff le_add_diff_inverse2)
  moreover have "unat (take_bit k w) = 0" using assms(2) unfolding unsigned_take_bit_eq by (simp add: take_bit_eq_mod)
  then have "take_bit k w = 0" by (simp add: unsigned_eq_0_iff)
  then have low: "\<not> bit w n" if "n < k" for n using that by (metis bit_0_eq bit_take_bit_iff bot_apply bot_bool_def)
  have "and w (push_bit k (- 1)) = w"
    by (intro bit_word_eqI) (auto simp: bit_simps low not_less [symmetric] dest: bit_imp_le_length)
  ultimately show ?thesis by simp
qed

end
