(* ===== verification/Oci_Addresses.thy ===== *)
theory Oci_Addresses
  imports Oci_Theorems
begin

text \<open>
  The two tables of special addresses: the egress proxy's prefixes (\<open>is_global_ip\<close>) and the session's octets
  (\<open>public_ip\<close>), each read as a division of the address.
\<close>

lemma in_v4_prefixI:
  "unat v div 2 ^ (32 - p) = unat w div 2 ^ (32 - p) \<Longrightarrow> unat w mod 2 ^ (32 - p) = 0 \<Longrightarrow> in_v4_prefix v w p"
  unfolding in_v4_prefix_def by (rule div_eq_masked)

lemma v4_parts:
  fixes v :: u32
  shows "unat v div 2 ^ 24 = v4_octet v 0" and "unat v div 2 ^ 16 = 256 * v4_octet v 0 + v4_octet v 1"
    and "unat v div 2 ^ 8 = 65536 * v4_octet v 0 + 256 * v4_octet v 1 + v4_octet v 2"
    and "v4_octet v 0 < 256" "v4_octet v 1 < 256" "v4_octet v 2 < 256"
proof -
  have "unat v < 2 ^ LENGTH(32)" by (rule unsigned_less)
  then have x: "unat v < 2 ^ 32" by simp
  have a: "v4_octet v 0 = unat v div 2 ^ 24" using x by (simp add: v4_octet_def)
  have b: "v4_octet v 1 = unat v div 2 ^ 16 mod 256" by (simp add: v4_octet_def)
  have c: "v4_octet v 2 = unat v div 2 ^ 8 mod 256" by (simp add: v4_octet_def)
  have ab: "unat v div 2 ^ 24 = unat v div 2 ^ 16 div 256" by (simp add: div_mult2_eq [symmetric])
  have bc: "unat v div 2 ^ 16 = unat v div 2 ^ 8 div 256" by (simp add: div_mult2_eq [symmetric])
  show "unat v div 2 ^ 24 = v4_octet v 0" using a by simp
  show 2: "unat v div 2 ^ 16 = 256 * v4_octet v 0 + v4_octet v 1" unfolding a b ab by presburger
  have "unat v div 2 ^ 8 = 256 * (unat v div 2 ^ 16) + v4_octet v 2" unfolding c bc by presburger
  then show "unat v div 2 ^ 8 = 65536 * v4_octet v 0 + 256 * v4_octet v 1 + v4_octet v 2" unfolding 2 by simp
  show "v4_octet v 0 < 256" "v4_octet v 1 < 256" "v4_octet v 2 < 256" by (simp_all add: v4_octet_def)
qed

lemma v4_listed:
  fixes v w :: u32
  assumes "(w, p) \<in> set [(0x00000000, 8), (0x0a000000, 8), (0x64400000, 10), (0x7f000000, 8), (0xa9fe0000, 16),
      (0xac100000, 12), (0xc0000000, 24), (0xc0000200, 24), (0xc0586300, 24), (0xc0a80000, 16),
      (0xc6120000, 15), (0xc6336400, 24), (0xcb007100, 24), (0xe0000000, 3)]"
    and "unat v div 2 ^ (32 - p) = unat w div 2 ^ (32 - p)"
  shows "\<not> is_global_v4 v"
proof -
  have "in_v4_prefix v w p" using assms by (intro in_v4_prefixI) auto
  with assms(1) show ?thesis unfolding is_global_v4_def list_ex_iff by blast
qed

lemma v4_refused:
  assumes "\<not> public_ip (V4 v)"
  shows "\<not> is_global_v4 v"
proof -
  note d = v4_parts [of v]
  have d20: "unat v div 2 ^ 20 = (256 * v4_octet v 0 + v4_octet v 1) div 16"
    unfolding d(2) [symmetric] by (simp add: div_mult2_eq [symmetric])
  have d17: "unat v div 2 ^ 17 = (256 * v4_octet v 0 + v4_octet v 1) div 2"
    unfolding d(2) [symmetric] by (simp add: div_mult2_eq [symmetric])
  have d22: "unat v div 2 ^ 22 = (256 * v4_octet v 0 + v4_octet v 1) div 64"
    unfolding d(2) [symmetric] by (simp add: div_mult2_eq [symmetric])
  have d29: "unat v div 2 ^ 29 = v4_octet v 0 div 32"
    unfolding d(1) [symmetric] by (simp add: div_mult2_eq [symmetric])
  have ones: "v4_octet (- 1) 0 = 255" and zero: "v4_octet 0 0 = 0"
    by (simp_all add: v4_octet_def unsigned_minus_1_eq_mask mask_eq_exp_minus_1)
  consider "v4_octet v 0 = 0" | "v4_octet v 0 = 10" | "v4_octet v 0 = 100" "64 \<le> v4_octet v 1" "v4_octet v 1 \<le> 127"
    | "v4_octet v 0 = 127" | "v4_octet v 0 = 169" "v4_octet v 1 = 254"
    | "v4_octet v 0 = 172" "16 \<le> v4_octet v 1" "v4_octet v 1 \<le> 31"
    | "v4_octet v 0 = 192" "v4_octet v 1 = 0" "v4_octet v 2 = 0" | "v4_octet v 0 = 192" "v4_octet v 1 = 0" "v4_octet v 2 = 2"
    | "v4_octet v 0 = 192" "v4_octet v 1 = 168" | "v4_octet v 0 = 198" "18 \<le> v4_octet v 1" "v4_octet v 1 \<le> 19"
    | "v4_octet v 0 = 198" "v4_octet v 1 = 51" "v4_octet v 2 = 100"
    | "v4_octet v 0 = 203" "v4_octet v 1 = 0" "v4_octet v 2 = 113" | "224 \<le> v4_octet v 0"
    using assms ones zero by (auto simp: v4_special_def Let_def)
  then show ?thesis
  proof cases
    case 1 then show ?thesis using d by (intro v4_listed [of 0 8]) simp_all
  next
    case 2 then show ?thesis using d by (intro v4_listed [of "0x0a000000" 8]) simp_all
  next
    case 3 then have "unat v div 2 ^ 22 = 401" unfolding d22 by simp
    then show ?thesis by (intro v4_listed [of "0x64400000" 10]) simp_all
  next
    case 4 then show ?thesis using d by (intro v4_listed [of "0x7f000000" 8]) simp_all
  next
    case 5 then show ?thesis using d by (intro v4_listed [of "0xa9fe0000" 16]) simp_all
  next
    case 6 then have "unat v div 2 ^ 20 = 2753" unfolding d20 by simp
    then show ?thesis by (intro v4_listed [of "0xac100000" 12]) simp_all
  next
    case 7 then show ?thesis using d by (intro v4_listed [of "0xc0000000" 24]) simp_all
  next
    case 8 then show ?thesis using d by (intro v4_listed [of "0xc0000200" 24]) simp_all
  next
    case 9 then show ?thesis using d by (intro v4_listed [of "0xc0a80000" 16]) simp_all
  next
    case 10 then have "unat v div 2 ^ 17 = 25353" unfolding d17 by simp
    then show ?thesis by (intro v4_listed [of "0xc6120000" 15]) simp_all
  next
    case 11 then show ?thesis using d by (intro v4_listed [of "0xc6336400" 24]) simp_all
  next
    case 12 then show ?thesis using d by (intro v4_listed [of "0xcb007100" 24]) simp_all
  next
    case 13 then have "unat v div 2 ^ 29 = 7" using d(4) unfolding d29 by simp
    then show ?thesis by (intro v4_listed [of "0xe0000000" 3]) simp_all
  qed
qed

lemma v6_refused:
  assumes "\<not> public_ip (V6 v)"
  shows "\<not> is_global_v6 v"
proof
  assume g: "is_global_v6 v"
  then have "unat v div 2 ^ 125 = unat (0x20000000000000000000000000000000 :: u128) div 2 ^ 125"
    unfolding is_global_v6_def in_v6_prefix_def by (intro masked_eq_div) simp_all
  then have top: "unat v div 2 ^ 125 = 1" by simp
  have chain: "unat v div 2 ^ 125 = unat v div 2 ^ 120 div 32" "unat v div 2 ^ 120 = unat v div 2 ^ 112 div 256"
    "unat v div 2 ^ 112 = unat v div 2 ^ 104 div 256" "unat v div 2 ^ 104 = unat v div 2 ^ 96 div 256"
    by (simp_all add: div_mult2_eq [symmetric])
  have octets: "v6_octet v 0 = unat v div 2 ^ 120 mod 256" "v6_octet v 1 = unat v div 2 ^ 112 mod 256"
    "v6_octet v 2 = unat v div 2 ^ 104 mod 256" "v6_octet v 3 = unat v div 2 ^ 96 mod 256"
    by (simp_all add: v6_octet_def)
  have q: "unat v div 2 ^ 120 div 32 = 1" using chain(1) top by (simp only:)
  have range: "32 \<le> x \<and> x < 64" if "x div 32 = 1" for x :: nat using that by presburger
  have q: "32 \<le> unat v div 2 ^ 120 \<and> unat v div 2 ^ 120 < 64" by (rule range [OF q])
  have small: "32 \<le> x mod 256 \<and> x mod 256 < 64" if "32 \<le> x \<and> x < 64" for x :: nat using that by simp
  have o: "32 \<le> v6_octet v 0 \<and> v6_octet v 0 < 64" unfolding octets(1) by (rule small [OF q])
  then have "v \<noteq> 0 \<and> v \<noteq> 1" by (auto simp: v6_octet_def)
  with assms o have db8: "v6_octet v 0 = 0x20" "v6_octet v 1 = 0x01" "v6_octet v 2 = 0x0d" "v6_octet v 3 = 0xb8"
    by (auto simp: Let_def)
  have prefix_value: "x = 0x20010db8"
    if small: "x div 256 div 256 div 256 < 64" and parts: "x div 256 div 256 div 256 mod 256 = 0x20"
      "x div 256 div 256 mod 256 = 1" "x div 256 mod 256 = 0x0d" "x mod 256 = 0xb8" for x :: nat
  proof -
    have "x div 256 div 256 div 256 = 0x20" using small parts(1) by simp
    then have "x div 256 div 256 = 0x2001" using parts(2) div_mult_mod_eq [of "x div 256 div 256" 256] by linarith
    then have "x div 256 = 0x20010d" using parts(3) div_mult_mod_eq [of "x div 256" 256] by linarith
    then show ?thesis using parts(4) div_mult_mod_eq [of x 256] by linarith
  qed
  have "unat v div 2 ^ 96 = 0x20010db8"
    using q db8 unfolding octets chain(2-4) by (intro prefix_value) simp_all
  then have "unat v div 2 ^ 96 = unat (0x20010db8000000000000000000000000 :: u128) div 2 ^ 96" by simp
  then have "in_v6_prefix v 0x20010db8000000000000000000000000 32"
    unfolding in_v6_prefix_def by (intro div_eq_masked) simp_all
  with g show False by (simp add: is_global_v6_def)
qed

text \<open>C38 (what the proxy connects to is public for the session). Every address that the egress proxy takes as
  globally routable is one that the session accepts in the proxy's report: the two tables of special ranges, written
  in different crates, never disagree in the way that would turn an honest proxy away.\<close>

theorem proxy_address_accepted:
  "is_global_ip a \<Longrightarrow> public_ip a"
  using v4_refused v6_refused by (cases a) (auto simp del: public_ip.simps)

theorem proxy_address_accepted_witness:
  "is_global_ip (V4 0x8c527903) \<and> public_ip (V4 0x8c527903)"
proof -
  have g: "is_global_ip (V4 0x8c527903)"
    by code_simp
  from g proxy_address_accepted [OF g] show ?thesis ..
qed

end
