(* ===== verification/Cli.thy ===== *)
theory Cli
  imports Daemon_Files
begin

text \<open>
  The command line (\<open>promptectomy-cli/src/lib.rs\<close>): what each command asks of the daemon, the envelope it becomes, and
  what is printed with which exit class. A command is a function of the requests made so far, as an answer of the
  daemon may depend on them; it returns an envelope or an error with the requests it has added.
\<close>

section \<open>Arguments, envelopes and errors\<close>

definition CLI_PROTOCOL_VERSION :: string where "CLI_PROTOCOL_VERSION = ''phase4-cli-1''"
definition WATCH_RECONNECT_ATTEMPTS :: nat where "WATCH_RECONNECT_ATTEMPTS = 6"

datatype cli_report_format = ReportJson | ReportMd | ReportHtml | ReportNdjson | ReportSarif | ReportJunit

datatype inspect_source_kind = InspectLocal | InspectArchiveTar | InspectBundle | InspectHttps

record inspect_args =
  ia_source :: string
  ia_source_kind :: inspect_source_kind
  ia_revision :: "string option"
  ia_selected_roots :: "string list"

datatype cli_command =
    Doctor
  | Status "string option"
  | Watch string u64 bool
  | Report string cli_report_format
  | Cancel string
  | Daemon bool "string option"
  | Gc bool
  | MigratePythonV2 string
  | Init "string option"
  | Inspect inspect_args
  | Audit "string option"
  | Draft "string option"
  | Calls string
  | Finding string
  | Candidate string
  | Diff string
  | Apply string string
  | Resume string
  | Export string
  | Delete string
  | Tui "string option"

record cli_arguments =
  ca_json :: bool
  ca_daemon_dir :: "string option"
  ca_command :: cli_command

datatype cli_error = CliInvalidInput | CliDaemonUnavailable | CliRequest | CliOutput | CliCore api_safe_error

datatype exit_class =
    ExitSuccess | InputContract | UnsupportedEvidence | PolicyAuthority | AcquisitionAdapterToolchain | AgentBudget
  | ExecutorCandidateEvaluator | CancelledInterrupted | StateStorageIntegrityInternal

fun exit_code :: "exit_class \<Rightarrow> nat" where
  "exit_code ExitSuccess = 0"
| "exit_code InputContract = 2"
| "exit_code UnsupportedEvidence = 3"
| "exit_code PolicyAuthority = 4"
| "exit_code AcquisitionAdapterToolchain = 5"
| "exit_code AgentBudget = 6"
| "exit_code ExecutorCandidateEvaluator = 7"
| "exit_code CancelledInterrupted = 8"
| "exit_code StateStorageIntegrityInternal = 9"

record cli_envelope =
  ce_schema_version :: string
  ce_cli_protocol_version :: string
  ce_daemon_protocol_version :: string
  ce_command :: string
  ce_status :: string
  ce_data :: "json option"
  ce_error :: "api_safe_error option"

definition cli_envelope_of :: "string \<Rightarrow> string \<Rightarrow> json option \<Rightarrow> api_safe_error option \<Rightarrow> cli_envelope" where
  "cli_envelope_of command status data error =
     \<lparr>ce_schema_version = SCHEMA_VERSION, ce_cli_protocol_version = CLI_PROTOCOL_VERSION,
      ce_daemon_protocol_version = DAEMON_PROTOCOL_VERSION, ce_command = command, ce_status = status,
      ce_data = data, ce_error = error\<rparr>"

definition cli_safe_error :: "string \<Rightarrow> string \<Rightarrow> bool \<Rightarrow> string \<Rightarrow> string \<Rightarrow> api_safe_error" where
  "cli_safe_error code category retryable safe_message next_action =
     \<lparr>ae_code = code, ae_category = category, ae_retryable = retryable,
      ae_safe_message = sanitize_terminal safe_message, ae_next_action = sanitize_terminal next_action\<rparr>"

definition success :: "string \<Rightarrow> json \<Rightarrow> cli_envelope" where
  "success command data = cli_envelope_of command ''ok'' (Some data) None"

definition local_unavailable :: "string \<Rightarrow> string \<Rightarrow> cli_envelope" where
  "local_unavailable command next_action =
     cli_envelope_of command ''error'' None (en_error (api_unavailable (command @ ''_unavailable'') next_action))"

section \<open>Identifiers\<close>

definition validate_typed_id :: "string \<Rightarrow> string \<Rightarrow> cli_error + string" where
  "validate_typed_id v pre =
     bindE (ok_or CliInvalidInput (Option.bind (strip_prefix pre v) (strip_prefix ''_''))) (\<lambda>uuid.
       if length uuid = 36
          \<and> list_all (\<lambda>i. uuid ! i = CHR ''-'') [8, 13, 18, 23]
          \<and> list_all (\<lambda>i. i \<in> {8, 13, 18, 23} \<or> is_ascii_digit (uuid ! i) \<or> (CHR ''a'' \<le> uuid ! i \<and> uuid ! i \<le> CHR ''f'')) [0..<length uuid]
          \<and> uuid ! 14 = CHR ''7''
          \<and> uuid ! 19 \<in> {CHR ''8'', CHR ''9'', CHR ''a'', CHR ''b''}
       then Inr v else Inl CliInvalidInput)"

definition validate_branch :: "string \<Rightarrow> cli_error + unit" where
  "validate_branch v = ensure (v \<noteq> [] \<and> length v \<le> 256 \<and> \<not> list_ex control_char (utf8_chars v)) CliInvalidInput"

definition is_terminal_status :: "string \<Rightarrow> bool" where
  "is_terminal_status v \<longleftrightarrow>
     v \<in> {''completed'', ''completed_no_findings'', ''completed_with_unsupported'', ''failed'', ''cancelled'', ''interrupted''}"

section \<open>The daemon's client\<close>

record cli_request =
  cr_verb :: string
  cr_path :: string
  cr_body :: "json option"

record client_answer =
  cl_status :: nat
  cl_envelope_status :: string
  cl_data :: "json option"
  cl_error :: "api_safe_error option"

text \<open>
  What surrounds a command: the endpoint metadata that can be read, and what the daemon answers, after the requests
  made so far; the outcome of running a daemon and of an import; the working directory; the text that \<open>serde_json\<close>
  makes of an envelope and of a value; whether standard output takes a text.
\<close>

record cli_world =
  cw_metadata :: "cli_request list \<Rightarrow> endpoint_metadata option"
  cw_metadata_present :: bool
  cw_request :: "endpoint_metadata \<Rightarrow> cli_request list \<Rightarrow> cli_request \<Rightarrow> client_answer option"
  cw_reviewed_backend :: "string \<Rightarrow> bool"
  cw_serve :: "string option \<Rightarrow> bool"
  cw_open_store :: "daemon_error + unit"
  cw_import :: "string \<Rightarrow> core_error + nat"
  cw_current_dir :: "string option"
  cw_schema_sha256 :: string
  cw_windows :: bool
  cw_envelope_text :: "cli_envelope \<Rightarrow> string option"
  cw_value_text :: "json \<Rightarrow> string"
  cw_output :: "string \<Rightarrow> bool"

type_synonym 'a cli_step = "cli_request list \<Rightarrow> (cli_error + 'a) \<times> cli_request list"

definition cli_bind :: "'a cli_step \<Rightarrow> ('a \<Rightarrow> 'b cli_step) \<Rightarrow> 'b cli_step" where
  "cli_bind f k h = (case f h of (Inl e, h') \<Rightarrow> (Inl e, h') | (Inr x, h') \<Rightarrow> k x h')"

definition cli_of :: "cli_error + 'a \<Rightarrow> 'a cli_step" where
  "cli_of m h = (m, h)"

definition send_request :: "cli_world \<Rightarrow> cli_request \<Rightarrow> client_answer cli_step" where
  "send_request W r h =
     (case cw_metadata W h of
        None \<Rightarrow> (Inl CliDaemonUnavailable, h)
      | Some metadata \<Rightarrow> (ok_or CliRequest (cw_request W metadata h r), h @ [r]))"

definition cli_get :: "cli_world \<Rightarrow> string \<Rightarrow> client_answer cli_step" where
  "cli_get W path = send_request W \<lparr>cr_verb = ''GET'', cr_path = path, cr_body = None\<rparr>"

fun reconnecting :: "nat \<Rightarrow> cli_world \<Rightarrow> string \<Rightarrow> client_answer cli_step" where
  "reconnecting 0 W path h = (Inl CliDaemonUnavailable, h)"
| "reconnecting (Suc tries) W path h =
     (case cli_get W path h of
        (Inr response, h') \<Rightarrow> (Inr response, h')
      | (Inl e, h') \<Rightarrow>
          if e \<in> {CliDaemonUnavailable, CliRequest} \<and> tries \<noteq> 0 then reconnecting tries W path h'
          else (Inl CliDaemonUnavailable, h'))"

definition get_with_reconnect :: "cli_world \<Rightarrow> string \<Rightarrow> client_answer cli_step" where
  "get_with_reconnect W path = reconnecting WATCH_RECONNECT_ATTEMPTS W path"

definition wrap_response :: "string \<Rightarrow> client_answer \<Rightarrow> cli_envelope" where
  "wrap_response command r =
     cli_envelope_of command (if cl_envelope_status r = ''ok'' then ''ok'' else ''error'') (cl_data r) (cl_error r)"

definition post_empty :: "cli_world \<Rightarrow> string \<Rightarrow> string \<Rightarrow> cli_envelope cli_step" where
  "post_empty W command path =
     cli_bind (send_request W \<lparr>cr_verb = ''POST'', cr_path = path, cr_body = None\<rparr>) (\<lambda>r. cli_of (Inr (wrap_response command r)))"

definition post_json :: "cli_world \<Rightarrow> string \<Rightarrow> string \<Rightarrow> json \<Rightarrow> cli_envelope cli_step" where
  "post_json W command path body =
     cli_bind (send_request W \<lparr>cr_verb = ''POST'', cr_path = path, cr_body = Some body\<rparr>) (\<lambda>r. cli_of (Inr (wrap_response command r)))"

section \<open>Commands\<close>

definition inspect_source :: "cli_world \<Rightarrow> inspect_args \<Rightarrow> cli_error + repository_source" where
  "inspect_source W args =
     (case ia_source_kind args of
        InspectHttps \<Rightarrow>
          bindE (ok_or CliInvalidInput (ia_revision args)) (\<lambda>revision. Inr (HttpsSource (ia_source args) revision))
      | kind \<Rightarrow>
          if ia_revision args \<noteq> None then Inl CliInvalidInput
          else
            bindE (if starts_with ''/'' (ia_source args) then Inr (ia_source args)
                   else bindE (ok_or CliInvalidInput (cw_current_dir W)) (\<lambda>dir.
                     Inr (if ends_with ''/'' dir then dir @ ia_source args else dir @ ''/'' @ ia_source args))) (\<lambda>path.
              Inr (case kind of
                     InspectArchiveTar \<Rightarrow> ArchiveTar path
                   | InspectBundle \<Rightarrow> BundleFile path
                   | _ \<Rightarrow> LocalSource path)))"

definition cli_inspect :: "cli_world \<Rightarrow> inspect_args \<Rightarrow> cli_envelope cli_step" where
  "cli_inspect W args =
     cli_bind (cli_of (inspect_source W args)) (\<lambda>source.
       post_json W ''inspect'' ''/v2/repositories/inspect''
         (inspect_request_value \<lparr>iq_source = source, iq_selected_roots = ia_selected_roots args,
            iq_limits = repository_inspect_limits_default\<rparr>))"

definition cli_status :: "cli_world \<Rightarrow> string option \<Rightarrow> cli_envelope cli_step" where
  "cli_status W run_id =
     cli_bind (cli_of (case run_id of
                 None \<Rightarrow> Inr ''/v2/status''
               | Some r \<Rightarrow> bindE (validate_typed_id r ''run'') (\<lambda>v. Inr (''/v2/runs/'' @ v)))) (\<lambda>path.
     cli_bind (cli_get W path) (\<lambda>r. cli_of (Inr (wrap_response ''status'' r))))"

definition terminal_projection :: "client_answer \<Rightarrow> bool" where
  "terminal_projection r \<longleftrightarrow>
     (case Option.bind (Option.bind (cl_data r) (\<lambda>d. json_get d ''status'')) as_str of
        None \<Rightarrow> False | Some s \<Rightarrow> is_terminal_status s)"

text \<open>The loop of \<open>watch\<close> may go on for as long as the run does: \<open>None\<close> is a loop that does not return.\<close>

partial_function (option) watch_loop :: "cli_world \<Rightarrow> string \<Rightarrow> u64 \<Rightarrow> bool \<Rightarrow> cli_request list
    \<Rightarrow> ((cli_error + cli_envelope) \<times> cli_request list) option" where
  "watch_loop W run_id cursor once h =
     (case get_with_reconnect W (''/v2/runs/'' @ run_id @ ''/events?cursor='' @ decimal (unat cursor) @ ''&limit=100'') h of
        (Inl e, h1) \<Rightarrow> Some (Inl e, h1)
      | (Inr events, h1) \<Rightarrow>
          let output = wrap_response ''watch'' events in
          if ce_status output = ''error'' \<or> once then Some (Inr output, h1)
          else (case get_with_reconnect W (''/v2/runs/'' @ run_id) h1 of
                  (Inl e, h2) \<Rightarrow> Some (Inl e, h2)
                | (Inr projection, h2) \<Rightarrow>
                    if terminal_projection projection then Some (Inr output, h2)
                    else watch_loop W run_id
                           (case Option.bind (Option.bind (ce_data output) (\<lambda>d. json_get d ''next_cursor'')) as_u64 of
                              None \<Rightarrow> cursor | Some c \<Rightarrow> c) once h2))"

definition cli_watch :: "cli_world \<Rightarrow> string \<Rightarrow> u64 \<Rightarrow> bool \<Rightarrow> cli_request list
    \<Rightarrow> ((cli_error + cli_envelope) \<times> cli_request list) option" where
  "cli_watch W run_id cursor once h =
     (case validate_typed_id run_id ''run'' of Inl e \<Rightarrow> Some (Inl e, h) | Inr v \<Rightarrow> watch_loop W v cursor once h)"

definition cli_report :: "cli_world \<Rightarrow> string \<Rightarrow> cli_report_format \<Rightarrow> cli_envelope cli_step" where
  "cli_report W run_id format =
     (let wired = (\<lambda>name.
        cli_bind (cli_of (validate_typed_id run_id ''run'')) (\<lambda>v.
          post_empty W ''report'' (''/v2/runs/'' @ v @ ''/report?format='' @ name)))
      in case format of
           ReportJson \<Rightarrow> wired ''json''
         | ReportMd \<Rightarrow> wired ''md''
         | _ \<Rightarrow> cli_of (Inr (local_unavailable ''report'' ''Only JSON and Markdown reports are wired in this build.'')))"

definition redact_metadata :: "endpoint_metadata \<Rightarrow> json" where
  "redact_metadata m =
     json_object [(''schema_version'', JStr (em_schema_version m)), (''protocol_version'', JStr (em_protocol_version m)),
       (''transport'', JStr (em_transport m)), (''private'', JBool (em_private m)),
       (''token_present'', JBool (em_token m \<noteq> []))]"

definition cli_daemon :: "cli_world \<Rightarrow> bool \<Rightarrow> string option \<Rightarrow> cli_envelope cli_step" where
  "cli_daemon W endpoint_json docker h =
     (if endpoint_json
      then (bindE (ok_or CliDaemonUnavailable (cw_metadata W h)) (\<lambda>m.
              Inr (cli_envelope_of ''daemon'' ''ok'' (Some (redact_metadata m)) None)), h)
      else if (case docker of None \<Rightarrow> False | Some d \<Rightarrow> \<not> cw_reviewed_backend W d) then (Inl CliInvalidInput, h)
      else if \<not> cw_serve W docker then (Inl CliDaemonUnavailable, h)
      else (Inr (success ''daemon'' (json_object [(''stopped'', JBool True)])), h))"

definition cli_gc :: "cli_world \<Rightarrow> bool \<Rightarrow> cli_envelope cli_step" where
  "cli_gc W dry_run =
     (if \<not> dry_run
      then cli_of (Inr (local_unavailable ''gc'' ''Non-dry-run GC requires later retention policy support.''))
      else post_empty W ''gc'' ''/v2/gc'')"

definition core_safe_error :: "core_error \<Rightarrow> api_safe_error" where
  "core_safe_error e =
     \<lparr>ae_code = err_code e, ae_category = err_category e, ae_retryable = err_retryable e,
      ae_safe_message = sanitize_terminal (err_message e), ae_next_action = sanitize_terminal (err_action e)\<rparr>"

definition map_daemon_state_error :: "daemon_error \<Rightarrow> cli_error" where
  "map_daemon_state_error error =
     (case error of
        DaemonCore e \<Rightarrow> CliCore (core_safe_error e)
      | _ \<Rightarrow> CliCore (cli_safe_error ''state_unavailable'' ''state'' True ''Private state is unavailable.''
               ''Stop the active daemon or repair the owner-only state directory before retrying.''))"

definition migrate_python_v2 :: "cli_world \<Rightarrow> string \<Rightarrow> cli_error + cli_envelope" where
  "migrate_python_v2 W database =
     bindE (map_err map_daemon_state_error (cw_open_store W)) (\<lambda>_.
     bindE (map_err (\<lambda>e. CliCore (core_safe_error e)) (cw_import W database)) (\<lambda>imported.
       Inr (success ''migrate-python-v2'' (json_object [(''imported_runs'', JInt (int imported))]))))"

definition default_capabilities :: json where
  "default_capabilities =
     json_object
       [(''acquisition'', json_object [(''local_path'', JBool True), (''archive_tar'', JBool True), (''bundle'', JBool True),
           (''public_https_orbstack'', JBool False), (''ssh_brokered'', JBool False)]),
        (''analysis'', json_object [(''python_parser'', JBool False), (''typescript_parser'', JBool False), (''capture'', JBool False)]),
        (''protected_storage'', json_object [(''key_store'', JBool False)])]"

definition doctor :: "cli_world \<Rightarrow> cli_envelope cli_step" where
  "doctor W h =
     (let metadata = cw_metadata W h;
          health = \<lparr>cr_verb = ''GET'', cr_path = ''/v2/health'', cr_body = None\<rparr>;
          answer = Option.bind metadata (\<lambda>m. cw_request W m h health);
          capabilities = Option.bind (Option.bind answer cl_data) (\<lambda>d. json_get d ''capabilities'')
      in (Inr (success ''doctor'' (json_object
            [(''contracts'', json_object [(''schema_version'', JStr SCHEMA_VERSION), (''schema_sha256'', JStr (cw_schema_sha256 W))]),
             (''local_api'', json_object
                [(''metadata_present'', JBool (cw_metadata_present W)),
                 (''metadata_valid'', JBool (metadata \<noteq> None)),
                 (''metadata_error'', if cw_metadata_present W \<and> metadata = None then JStr ''endpoint_metadata_invalid'' else JNull),
                 (''daemon_reachable'', JBool (map_option cl_status answer = Some 200)),
                 (''transport'', JStr (case metadata of None \<Rightarrow> ''unavailable'' | Some m \<Rightarrow> em_transport m)),
                 (''private'', JBool (case metadata of None \<Rightarrow> False | Some m \<Rightarrow> em_private m)),
                 (''loopback_tcp_default'', JBool False)]),
             (''capabilities'', case capabilities of None \<Rightarrow> default_capabilities | Some c \<Rightarrow> c),
             (''unsupported'', json_object
                [(''windows_named_pipe'', JBool (cw_windows W)), (''agent_connector'', JBool True), (''apply'', JBool True),
                 (''tui'', JBool True)])])),
          if metadata = None then h else h @ [health]))"

fun command_name :: "cli_command \<Rightarrow> string" where
  "command_name Doctor = ''doctor''"
| "command_name (Status _) = ''status''"
| "command_name (Watch _ _ _) = ''watch''"
| "command_name (Report _ _) = ''report''"
| "command_name (Cancel _) = ''cancel''"
| "command_name (Daemon _ _) = ''daemon''"
| "command_name (Gc _) = ''gc''"
| "command_name (MigratePythonV2 _) = ''migrate-python-v2''"
| "command_name (Init _) = ''init''"
| "command_name (Inspect _) = ''inspect''"
| "command_name (Audit _) = ''audit''"
| "command_name (Draft _) = ''draft''"
| "command_name (Calls _) = ''calls''"
| "command_name (Finding _) = ''finding''"
| "command_name (Candidate _) = ''candidate''"
| "command_name (Diff _) = ''diff''"
| "command_name (Apply _ _) = ''apply''"
| "command_name (Resume _) = ''resume''"
| "command_name (Export _) = ''export''"
| "command_name (Delete _) = ''delete''"
| "command_name (Tui _) = ''tui''"

text \<open>What a command comes to; only \<open>watch\<close> may not return.\<close>

fun run_command :: "cli_world \<Rightarrow> cli_command \<Rightarrow> cli_request list \<Rightarrow> ((cli_error + cli_envelope) \<times> cli_request list) option" where
  "run_command W Doctor h = Some (doctor W h)"
| "run_command W (Status run_id) h = Some (cli_status W run_id h)"
| "run_command W (Watch run_id cursor once) h = cli_watch W run_id cursor once h"
| "run_command W (Report run_id format) h = Some (cli_report W run_id format h)"
| "run_command W (Cancel run_id) h =
     Some (cli_bind (cli_of (validate_typed_id run_id ''run'')) (\<lambda>v. post_empty W ''cancel'' (''/v2/runs/'' @ v @ ''/cancel'')) h)"
| "run_command W (Daemon endpoint_json docker) h = Some (cli_daemon W endpoint_json docker h)"
| "run_command W (Gc dry_run) h = Some (cli_gc W dry_run h)"
| "run_command W (MigratePythonV2 database) h = Some (migrate_python_v2 W database, h)"
| "run_command W (Init _) h = Some (Inr (local_unavailable ''init'' ''Repository initialization is not implemented in this build.''), h)"
| "run_command W (Inspect args) h = Some (cli_inspect W args h)"
| "run_command W (Audit _) h = Some (Inr (local_unavailable ''audit'' ''Use the accepted Python oracle until Rust audit lands.''), h)"
| "run_command W (Draft _) h = Some (Inr (local_unavailable ''draft'' ''Draft requires later agent/executor integration.''), h)"
| "run_command W (Calls _) h = Some (Inr (local_unavailable ''calls'' ''Callsite views require later Rust state projections.''), h)"
| "run_command W (Finding _) h = Some (Inr (local_unavailable ''finding'' ''Finding views require later Rust state projections.''), h)"
| "run_command W (Candidate _) h = Some (Inr (local_unavailable ''candidate'' ''Candidate views require later Rust state projections.''), h)"
| "run_command W (Diff _) h = Some (Inr (local_unavailable ''diff'' ''Candidate diffs require later artifact projection.''), h)"
| "run_command W (Apply candidate_id branch) h =
     Some (case (validate_typed_id candidate_id ''candidate'', validate_branch branch) of
             (Inr _, Inr _) \<Rightarrow> Inr (local_unavailable ''apply'' ''Apply is a separate later authority flow.'')
           | _ \<Rightarrow> Inl CliInvalidInput, h)"
| "run_command W (Resume _) h = Some (Inr (local_unavailable ''resume'' ''Resume requires later orchestration leases.''), h)"
| "run_command W (Export _) h = Some (Inr (local_unavailable ''export'' ''Export requires later frozen artifact support.''), h)"
| "run_command W (Delete _) h = Some (Inr (local_unavailable ''delete'' ''Deletion requires later retention policy support.''), h)"
| "run_command W (Tui _) h = Some (Inr (local_unavailable ''tui'' ''The Ratatui interface is Phase 6.''), h)"

section \<open>Output\<close>

definition human :: "cli_world \<Rightarrow> cli_envelope \<Rightarrow> string" where
  "human W out =
     (case ce_error out of
        Some e \<Rightarrow> sanitize_terminal (ae_code e @ '': '' @ ae_safe_message e @ [CHR 0x0A] @ ''next: '' @ ae_next_action e)
      | None \<Rightarrow>
          (case (if ce_command out = ''report''
                 then Option.bind (Option.bind (ce_data out) (\<lambda>d. json_get d ''content'')) as_str else None) of
             Some content \<Rightarrow> sanitize_terminal content
           | None \<Rightarrow>
               sanitize_terminal (ce_command out @ '': ''
                 @ (case ce_data out of None \<Rightarrow> ''{}'' | Some d \<Rightarrow> cw_value_text W d))))"

definition exit_for :: "api_safe_error option \<Rightarrow> exit_class" where
  "exit_for error =
     (case map_option ae_category error of
        None \<Rightarrow> ExitSuccess
      | Some c \<Rightarrow>
          if c \<in> {''input'', ''contract''} then InputContract
          else if c \<in> {''unsupported'', ''evidence''} then UnsupportedEvidence
          else if c \<in> {''policy'', ''authority''} then PolicyAuthority
          else if c \<in> {''acquisition'', ''adapter'', ''toolchain''} then AcquisitionAdapterToolchain
          else if c \<in> {''agent'', ''budget''} then AgentBudget
          else if c \<in> {''executor'', ''candidate'', ''evaluator''} then ExecutorCandidateEvaluator
          else if c \<in> {''cancel'', ''cancelled'', ''interrupted''} then CancelledInterrupted
          else StateStorageIntegrityInternal)"

text \<open>The text written to standard output, if any, and the exit class.\<close>

definition emit :: "cli_world \<Rightarrow> bool \<Rightarrow> cli_envelope \<Rightarrow> string option \<times> exit_class" where
  "emit W json out =
     (case (if json then cw_envelope_text W out else Some (human W out)) of
        None \<Rightarrow> (None, StateStorageIntegrityInternal)
      | Some line \<Rightarrow>
          if cw_output W line then (Some line, exit_for (ce_error out)) else (None, StateStorageIntegrityInternal))"

definition error_envelope :: "cli_command \<Rightarrow> cli_error \<Rightarrow> cli_envelope" where
  "error_envelope command error =
     cli_envelope_of (command_name command) ''error'' None (Some
       (case error of
          CliInvalidInput \<Rightarrow> cli_safe_error ''invalid_identifier'' ''input'' False
            ''The identifier or branch does not match the required command contract.''
            ''Use the documented typed v7 identifier and an explicit non-empty branch where required.''
        | CliDaemonUnavailable \<Rightarrow> cli_safe_error ''daemon_unavailable'' ''state'' True
            ''The Rust daemon endpoint is unavailable.'' ''Run `promptectomy daemon` in another process.''
        | CliRequest \<Rightarrow> cli_safe_error ''daemon_request_failed'' ''state'' True
            ''The Rust daemon request failed.'' ''Check daemon lifecycle and endpoint metadata.''
        | CliOutput \<Rightarrow> cli_safe_error ''output_failed'' ''internal'' False
            ''The CLI could not write output.'' ''Retry in a valid terminal or file descriptor.''
        | CliCore e \<Rightarrow> e))"

definition run_cli :: "cli_world \<Rightarrow> cli_arguments \<Rightarrow> ((string option \<times> exit_class) \<times> cli_request list) option" where
  "run_cli W args =
     map_option (\<lambda>(result, h).
       (emit W (ca_json args) (case result of Inr out \<Rightarrow> out | Inl e \<Rightarrow> error_envelope (ca_command args) e), h))
       (run_command W (ca_command args) [])"

definition emit_parse_error :: "cli_world \<Rightarrow> bool \<Rightarrow> string option \<times> exit_class" where
  "emit_parse_error W json =
     (let out = cli_envelope_of ''cli'' ''error'' None (Some (cli_safe_error ''invalid_arguments'' ''input'' False
            ''The command arguments are invalid.''
            ''Run `promptectomy --help` and provide all required noninteractive arguments.''))
      in case (if json then cw_envelope_text W out else Some (human W out)) of
           None \<Rightarrow> (None, StateStorageIntegrityInternal)
         | Some line \<Rightarrow> if cw_output W line then (Some line, InputContract) else (None, StateStorageIntegrityInternal))"

section \<open>Properties\<close>

lemma human_displayable: "list_all displayable (utf8_chars (human W out))"
  by (simp add: human_def sanitized_displayable split: option.split)

lemma terminal_status_iff: "is_terminal_status (run_as_str s) \<longleftrightarrow> run_is_terminal s"
  by (cases s) (simp_all add: is_terminal_status_def)

lemma exit_success_iff: "exit_for e = ExitSuccess \<longleftrightarrow> e = None"
  by (cases e) (simp_all add: exit_for_def)

text \<open>C39 (output and exit). When a command returns, plain output shows only displayable characters, whatever the daemon
  answered, and the exit code is zero exactly when a text was written for an envelope without an error; a command whose
  text could not be written ends with the code of an internal failure.\<close>

theorem cli_output_honest:
  "case run_command W (ca_command args) [] of
     None \<Rightarrow> run_cli W args = None
   | Some (result, h) \<Rightarrow>
       (case run_cli W args of
          None \<Rightarrow> False
        | Some ((line, class), h') \<Rightarrow>
            h' = h
            \<and> (case line of
                 None \<Rightarrow> class = StateStorageIntegrityInternal
               | Some shown \<Rightarrow>
                   (exit_code class = 0) = (case result of Inl e \<Rightarrow> False | Inr out \<Rightarrow> ce_error out = None)
                   \<and> (if ca_json args then True else list_all displayable (utf8_chars shown))))"
proof -
  have code: "exit_code c = 0 \<longleftrightarrow> c = ExitSuccess" for c by (cases c) simp_all
  show ?thesis
    by (auto simp: run_cli_def emit_def code exit_success_iff human_displayable error_envelope_def cli_envelope_of_def
        split: option.splits sum.splits if_splits)
qed

section \<open>Watching ends\<close>

lemma reconnecting_answers:
  assumes "reconnecting n W path h = (Inr a, h')"
  shows "\<exists>m h0. length h \<le> length h0 \<and> length h0 < length h'
     \<and> cw_request W m h0 \<lparr>cr_verb = ''GET'', cr_path = path, cr_body = None\<rparr> = Some a"
  using assms
proof (induction n arbitrary: h)
  case (Suc n)
  obtain r h1 where g: "cli_get W path h = (r, h1)" by fastforce
  have longer: "length h \<le> length h1"
    using g by (auto simp: cli_get_def send_request_def split: option.splits)
  show ?case
  proof (cases r)
    case (Inl e)
    then have "reconnecting n W path h1 = (Inr a, h')" using g Suc.prems by (auto split: if_splits)
    from Suc.IH [OF this] longer show ?thesis by (meson order.trans)
  next
    case (Inr x)
    then have "x = a" "h1 = h'" using g Suc.prems by auto
    then show ?thesis using g Inr by (auto simp: cli_get_def send_request_def ok_or_eq_Inr split: option.splits) (metis le_refl lessI)
  qed
qed simp

lemma watch_loop_returns:
  assumes "\<And>m h r a. r \<le> length h \<Longrightarrow> cw_request W m h \<lparr>cr_verb = ''GET'', cr_path = ''/v2/runs/'' @ run_id, cr_body = None\<rparr> = Some a
     \<Longrightarrow> last_turn \<le> r \<Longrightarrow> terminal_projection a"
  shows "watch_loop W run_id cursor once h \<noteq> None"
proof (induction "last_turn - length h" arbitrary: cursor h rule: less_induct)
  case less
  show ?case
  proof (cases "get_with_reconnect W (''/v2/runs/'' @ run_id @ ''/events?cursor='' @ decimal (unat cursor) @ ''&limit=100'') h")
    case (Pair r h1)
    show ?thesis
    proof (cases r)
      case (Inl e)
      with Pair show ?thesis by (subst watch_loop.simps) simp
    next
      case (Inr events)
      obtain r2 h2 where g: "get_with_reconnect W (''/v2/runs/'' @ run_id) h1 = (r2, h2)" by fastforce
      show ?thesis
      proof (cases r2)
        case (Inl e)
        with Pair Inr g show ?thesis by (subst watch_loop.simps) (simp add: Let_def)
      next
        case (Inr projection)
        obtain k0 :: "cli_request list" where k0: "length h \<le> length k0" "length k0 < length h1"
          using reconnecting_answers [OF Pair [unfolded \<open>r = Inr events\<close> get_with_reconnect_def]] by blast
        obtain m k where k: "length h1 \<le> length k" "length k < length h2"
          "cw_request W m k \<lparr>cr_verb = ''GET'', cr_path = ''/v2/runs/'' @ run_id, cr_body = None\<rparr> = Some projection"
          using reconnecting_answers [OF g [unfolded Inr get_with_reconnect_def]] by blast
        have "terminal_projection projection \<or> last_turn - length h2 < last_turn - length h"
          using assms [OF order.refl k(3)] k0 k by linarith
        then show ?thesis
          using less Pair \<open>r = Inr events\<close> g Inr by (subst watch_loop.simps) (auto simp: Let_def)
      qed
    qed
  qed
qed

text \<open>C40 (watching ends). If from some number of requests on every projection of the run that the daemon answers with
  has one of the terminal statuses of the core, then watching the run returns, from any cursor, whatever fails and is
  retried in between. Each single request is taken to return, with an answer or an error: the client of the daemon has no
  timeout of its own.\<close>

theorem watch_returns:
  assumes "\<And>m h a. last_turn \<le> length h
     \<Longrightarrow> cw_request W m h \<lparr>cr_verb = ''GET'', cr_path = ''/v2/runs/'' @ run_id, cr_body = None\<rparr> = Some a
     \<Longrightarrow> \<exists>d s. cl_data a = Some d \<and> json_get d ''status'' = Some (JStr (run_as_str s)) \<and> run_is_terminal s"
  shows "\<exists>result h'. cli_watch W run_id cursor once h = Some (result, h')"
proof -
  have terminal: "terminal_projection a" if "r \<le> length h"
    "cw_request W m h \<lparr>cr_verb = ''GET'', cr_path = ''/v2/runs/'' @ run_id, cr_body = None\<rparr> = Some a" "last_turn \<le> r" for m h r a
    using assms [OF _ that(2)] that(1,3) by (auto simp: terminal_projection_def terminal_status_iff)
  have "cli_watch W run_id cursor once h \<noteq> None"
    using watch_loop_returns [where last_turn = last_turn, OF terminal]
    by (auto simp: cli_watch_def validate_typed_id_def bindE_eq_Inr split: sum.splits if_splits)
  then show ?thesis by (cases "cli_watch W run_id cursor once h") auto
qed

definition watched_projection :: client_answer where
  "watched_projection = \<lparr>cl_status = 200, cl_envelope_status = ''ok'',
     cl_data = Some (JObj [(''status'', JStr ''cancelled'')]), cl_error = None\<rparr>"

definition demo_terminal :: cli_world where
  "demo_terminal =
     \<lparr>cw_metadata = (\<lambda>_. Some \<lparr>em_schema_version = [], em_protocol_version = [],
        em_transport = [], em_private = True, em_socket_path = [], em_token = [], em_host = [], em_allowed_origins = []\<rparr>),
      cw_metadata_present = True, cw_request = (\<lambda>m h r. Some watched_projection), cw_reviewed_backend = (\<lambda>_. False),
      cw_serve = (\<lambda>_. False), cw_open_store = Inl DaemonIo, cw_import = (\<lambda>_. Inr 0), cw_current_dir = None,
      cw_schema_sha256 = [], cw_windows = False, cw_envelope_text = (\<lambda>_. None), cw_value_text = (\<lambda>_. []),
      cw_output = (\<lambda>_. True)\<rparr>"

theorem watch_returns_witness:
  "\<exists>result h'. cli_watch demo_terminal ''run_018f6f6e-0000-7000-8000-000000000000'' 0 False [] = Some (result, h')"
proof (rule watch_returns [where last_turn = 0])
  fix m h a
  assume "cw_request demo_terminal m h \<lparr>cr_verb = ''GET'',
    cr_path = ''/v2/runs/'' @ ''run_018f6f6e-0000-7000-8000-000000000000'', cr_body = None\<rparr> = Some a"
  then have "a = watched_projection" by (simp add: demo_terminal_def)
  then show "\<exists>d s. cl_data a = Some d \<and> json_get d ''status'' = Some (JStr (run_as_str s)) \<and> run_is_terminal s"
    by (auto simp: watched_projection_def intro!: exI [of _ run_status.Cancelled])
qed

end
