(* ===== verification/Spec2Isabelle.thy ===== *)
theory Spec2Isabelle
  imports Core_Theorems Surface_Theorems Contract_Theorems Proxy_Theorems Relay_Theorems Protocol_Theorems
    Acquisition_Theorems Protected_Theorems Blob_Theorems Daemon_Theorems Runner_Theorems Oci_Addresses Cli
begin

text \<open>
  \<^bold>\<open>Promptectomy: the trusted core and the contracts it rests on.\<close>

  The repository runs audits of other repositories under an explicit authority. Its Rust
  workspace (\<open>src/rust/crates\<close>) has one crate that decides (\<open>promptectomy-core\<close>, the durable
  store of runs, stages, leases, events, artifacts and receipts), one that fixes the wire
  format (\<open>promptectomy-contracts\<close>) and several that act under the core's decisions.

  \<^bold>\<open>Theories and what they model.\<close>

  \<^item> \<open>Prelude\<close>: Rust results (\<open>bindE\<close>, \<open>attempt\<close>), ASCII classes, string functions, 64-bit words.
  \<^item> \<open>Contracts\<close> (\<open>promptectomy-contracts/src/lib.rs\<close>): strict JSON, contract validation,
    canonical form, digests and identifiers, relative paths.
  \<^item> \<open>Core_Types\<close>, \<open>Core_Authority\<close>, \<open>Core_Store\<close>, \<open>Core_Runs\<close>, \<open>Core_Artifacts\<close>,
    \<open>Core_Events\<close> (\<open>promptectomy-core/src/lib.rs\<close>, in the order of the source): enumerations and
    errors; budgets and authority; tables, projections, idempotency and events; the mutations of
    runs, stages, leases and receipts; content-addressed artifacts; the event pages.
  \<^item> \<open>Core_Steps\<close>: the mutations as a transition system (\<open>reachable\<close>), and the single-table
    updates (\<open>micro\<close>) they are made of: a proof device, without the authority, lease and expiry guards of the code,
    by which an invariant is checked once for each kind of update.
  \<^item> \<open>Core_Invariants\<close>, \<open>Core_Outcomes\<close>, \<open>Core_Files\<close>: the invariants of reachable stores, what
    operations answer, and what the artifact operations promise.
  \<^item> \<open>Core_Api\<close>, \<open>Core_Reports\<close>: the public methods of the core, plain and idempotent, and its
    reports.
  \<^item> \<open>Egress_Proxy\<close> (\<open>promptectomy-egress-proxy/src/lib.rs\<close>): the CONNECT parser, the address
    policy, the byte budget shared by interleaved tunnels, and the accept loop.
  \<^item> \<open>Agent_Relay\<close> (\<open>promptectomy-ssh-agent-relay/src/lib.rs\<close>): the agent wire format, grants, the
    identity filter, and the relay loop as a function of what the client and the agent send.
  \<^item> \<open>Wire_Protocol\<close> (\<open>promptectomy-protocol/src/lib.rs\<close>): the messages between the control plane and
    its adapters, their bounds, negotiation and frames.
  \<^item> \<open>Adapter_Supervisor\<close> (\<open>promptectomy-protocol/src/supervisor.rs\<close>): what a supervised adapter is
    asked, how long it gets, the handshake and exchange, and how its end is settled. \<open>Adapter_Runs\<close>: the check of the
    configuration and a whole run, with the \<open>select!\<close> polled over a sequence of events between which time passes.
  \<^item> \<open>Acquisition_Base\<close>, \<open>Path_Policy\<close>, \<open>Source_Archive\<close>, \<open>Remote_Source\<close>, \<open>Source_Snapshot\<close>,
    \<open>Source_Acquirer\<close> (\<open>promptectomy-acquisition/src\<close>: \<open>lib.rs\<close>, \<open>path_policy.rs\<close>, \<open>archive.rs\<close>, \<open>remote.rs\<close>
    with the locators of \<open>git.rs\<close>, \<open>snapshot.rs\<close>): which paths a source may have, the readers of archives,
    bundles and directories, the manifest and attestation of a remote source, and the publication of
    content-addressed snapshots.
  \<^item> \<open>Key_Store\<close>, \<open>Sealed_Envelope\<close>, \<open>Protected_Records\<close> (\<open>promptectomy-protected-store/src\<close>:
    \<open>backend.rs\<close>, \<open>envelope.rs\<close>, \<open>records.rs\<close>): the wrapping keys in the system's key ring, the sealing, opening
    and rewrapping of contents, and the canonical metadata of the store.
  \<^item> \<open>Private_Files\<close>, \<open>Blob_Store\<close>, \<open>Blob_Backups\<close>, \<open>Blob_Deletion\<close> (\<open>storage.rs\<close> of the same crate): private
    directories in which every system call may fail, and the transactions on them: put, read, backup, the
    acknowledgment of its removal, and deletion. \<open>Blob_Invariants\<close>: what they leave alone and keep.
    \<open>Deletion_Order\<close>: what is gone when a deletion turns to the key store.
  \<^item> \<open>Daemon_Text\<close>, \<open>Daemon_Api\<close>, \<open>Daemon_Files\<close>, \<open>Daemon_Server\<close> (\<open>promptectomy-daemon/src/lib.rs\<close>): text of requests and
    terminals, the answers and inspection requests, the private files and the start of the server, and the server:
    checks, rate limit, routes, and inspections that go on beside other requests (\<open>daemon_step\<close>).
  \<^item> \<open>Runner_Requests\<close>, \<open>Runner_Bundle\<close> (\<open>promptectomy-remote-git-runner/src/lib.rs\<close>): the worker in the container:
    its own check of the manifest, what it tells \<open>git\<close>, the inventory of the commit, and the bundle it streams, which
    the reader of \<open>Source_Archive\<close> takes on the host.
  \<^item> \<open>Oci_Checks\<close>, \<open>Oci_Containers\<close>, \<open>Oci_Session\<close>, \<open>Oci_Lifecycle\<close>, \<open>Oci_Transaction\<close>
    (\<open>promptectomy-acquisition/src/oci_remote.rs\<close>): the session around that worker: what its configuration and request must
    be, what docker must report, the commands and waiting loops, the transaction and its removal. A step takes the
    commands so far to a result and the commands with its own (\<open>oci_step\<close>); a waiting loop recurses on the turns that
    fit before its deadline.
  \<^item> \<open>Cli\<close> (\<open>promptectomy-cli/src/lib.rs\<close>): the commands, what each asks of the daemon, and what is printed with which
    exit class. A command takes the requests so far to an envelope; \<open>watch\<close> is a partial function.
  \<^item> \<open>Byte_Order\<close>, \<open>Text_Tools\<close>, \<open>Unicode_Text\<close>: big-endian lengths and prefix codes; text functions that crates share, and
    the code points, white space and numbers of UTF-8 text.
  \<^item> \<open>Demo\<close>: a concrete world and one concrete history of a run, from creation to its receipt and
    to its cancellation, at which the theorems with hypotheses are applied.
  \<^item> \<open>Core_Theorems\<close>, \<open>Surface_Theorems\<close>, \<open>Contract_Theorems\<close>, \<open>Proxy_Theorems\<close>,
    \<open>Relay_Theorems\<close>, \<open>Protocol_Theorems\<close>, \<open>Acquisition_Theorems\<close>, \<open>Protected_Theorems\<close>, \<open>Blob_Theorems\<close>,
    \<open>Daemon_Theorems\<close>, \<open>Runner_Theorems\<close>, \<open>Oci_Theorems\<close>, \<open>Oci_Addresses\<close>, \<open>Cli\<close>: the properties, each with its witness.

  \<^bold>\<open>How state corresponds.\<close> The SQLite database is the record \<open>store\<close>: one list of rows per
  table of \<open>create_rust_schema\<close>, columns kept as the text or integer SQLite holds, so that a
  projection can fail on a corrupt column as it does in the code. A transaction is the second
  argument of \<open>attempt\<close>: if it fails the store is the one before. The directory \<open>cas/sha256\<close> is
  \<open>t_cas\<close>. Identifiers come from a counter (\<open>t_issued\<close>) and the function \<open>uuid_v7\<close>; the clock is
  the fields \<open>now\<close> and \<open>now_text\<close> of the environment, arbitrary at every call (\<open>at_time\<close>).

  \<^bold>\<open>What is outside.\<close> The crates the code calls are the fields of \<open>env\<close> and of the records that extend
  it (\<open>relay_env\<close>, \<open>wire\<close>, \<open>remote_env\<close>, \<open>publish_env\<close>, \<open>server_world\<close>, \<open>endpoint_world\<close>) and the records \<open>oci_world\<close>, \<open>cli_world\<close>, \<open>vault\<close>, \<open>keyring\<close> and \<open>store_codecs\<close>. Documented laws of them are hypotheses where
  they are needed: \<open>text_codec\<close> (a ledger or lease written as JSON text is read back), \<open>json_laws\<close> (the
  tokenizer's callbacks, and canonical text is read back unless the value nests deeper than the reader allows), \<open>wire_laws\<close> (what \<open>serde\<close> derives for protocol messages
  reads what it wrote), \<open>vault_laws\<close> (base64, AES-256-GCM and the random source), and the 32 bytes of a SHA-256. All of them hold in the worlds of the witnesses. The
  file system, a worker session or a broker process answers arbitrarily: its answers are inputs.

  \<^bold>\<open>Interfaces.\<close> \<open>text_column\<close> and \<open>lifecycle\<close> (an enumeration behind a TEXT column, and its
  transition table) are interpreted for the five enumerations; \<open>micro_stable\<close> and
  \<open>micro_invariant\<close> (what these updates keep) for the event log, the typed rows, the artifact
  files, the append-only tables, run identity, receipts and cancelled runs; \<open>prefix_code\<close> (words that can be
  read back from what is written one after the other) for the frames of streams and the entries of a tree digest;
  \<open>wrapping_keys\<close> (what users of a key store rely on) for the system's store over any key ring, and
  \<open>canonical_document\<close> (one text for each document) for envelopes and the records of the protected store.

  \<open>cancel_service\<close> (an invariant of the store that a cancellation request keeps) is what the daemon asks of the core, and is
  interpreted for its reachable stores.

  \<^bold>\<open>Failures.\<close> The artifact operations of the core take the place where the disk or a statement fails (\<open>disk\<close>); what has been
  done before it stays done, such as the file linked by a \<open>put_artifact\<close> whose statement fails. In the other operations a failing
  statement rolls the transaction back. The state \<open>private_fs\<close> carries the outcomes of the system calls to come (\<open>pf_calls\<close>): a theorem for
  every state is a theorem for every failure, and a crash is a state in which every further call fails. What a power
  failure does to a directory that was not synced is not modelled.

  \<^bold>\<open>Concurrency.\<close> The core runs behind one exclusive \<open>&mut self\<close>, so its operations are
  whole steps. The proxy's copying tasks share an atomic total; \<open>budget_step\<close> interleaves them at
  every atomic access, and \<open>serve_step\<close> interleaves arrivals, finished tunnels and the worker's
  signal; \<open>daemon_step\<close> interleaves the handlers of the daemon with the ends of its inspections. Their invariants hold for every schedule.

  \<^bold>\<open>Bounds and termination.\<close> Every operation is total and no fuel is needed: recursion is
  structural or over the row lists; the loops of the request reader, the query check and the relay
  end because each turn consumes bytes of their input, and the scan of a directory because what is left to
  visit gets lighter. The loop of the archive reader is a partial function, and that it returns is a theorem;
  so is the loop of \<open>watch\<close>, which returns when the run ends. Sequence numbers and counters are the 64-bit integers of SQLite and
  Rust, with the checks the code makes.

  \<^bold>\<open>Not modelled.\<close> Opening, migrating, backing up and importing databases (SQL and file I/O whose
  behaviour is SQLite's), file permissions and fsync, the parsing of arguments, and what starts processes and copies their pipes; the manifest lists each
  of them with its reason.
\<close>

end
